(* ===== verification/Qcore_Prelude.thy ===== *)
theory Qcore_Prelude
  imports Main "HOL-Library.Word"
begin

text \<open>
  The shared vocabulary of the development: Rust's fixed-width integers and byte vectors,
  big-endian conversions (\<open>to_be_bytes\<close>), the four-byte arrays that carry IPv4 addresses,
  tunnel endpoint identifiers and temporary identities, the \<open>Result\<close> type with its \<open>?\<close>
  operator, indexing that may panic, and the arithmetic whose overflow behaviour depends on
  the build profile.  The collections declared here gather the facts that the component
  theories hand to the simplifier.
\<close>

unbundle bit_operations_syntax

named_theorems byte_simps \<open>conversions between machine words and byte lists\<close>
named_theorems rs_simps \<open>evaluation of Result chains and guarded indexing\<close>

type_synonym u8 = "8 word"
type_synonym u16 = "16 word"
type_synonym u32 = "32 word"
type_synonym u64 = "64 word"
type_synonym bytes = "u8 list"

section \<open>Results and the question-mark operator\<close>

definition result_bind :: "'e + 'a \<Rightarrow> ('a \<Rightarrow> 'e + 'b) \<Rightarrow> 'e + 'b" where
  "result_bind r f = (case r of Inl e \<Rightarrow> Inl e | Inr x \<Rightarrow> f x)"

lemma result_bind_cong: "r = r' \<Longrightarrow> result_bind r f = result_bind r' f"
  by simp

lemma result_bind_simps [simp, rs_simps]:
  "result_bind (Inl e) f = Inl e"
  "result_bind (Inr x) f = f x"
  by (simp_all add: result_bind_def)

lemma result_bind_eq_Inr [rs_simps]:
  "result_bind r f = Inr y \<longleftrightarrow> (\<exists>x. r = Inr x \<and> f x = Inr y)"
  by (cases r) auto

lemma result_bind_eq_Inl [rs_simps]:
  "result_bind r f = Inl e \<longleftrightarrow> r = Inl e \<or> (\<exists>x. r = Inr x \<and> f x = Inl e)"
  by (cases r) auto

section \<open>Indexing that may panic\<close>

text \<open>\<open>v[i]\<close> on a slice or vector: \<open>None\<close> is the index-out-of-bounds panic.\<close>

definition rs_get :: "'a list \<Rightarrow> nat \<Rightarrow> 'a option" where
  "rs_get xs i = (if i < length xs then Some (xs ! i) else None)"

text \<open>\<open>v[i] = x\<close>: again \<open>None\<close> is the panic.\<close>

definition rs_set :: "'a list \<Rightarrow> nat \<Rightarrow> 'a \<Rightarrow> 'a list option" where
  "rs_set xs i x = (if i < length xs then Some (xs[i := x]) else None)"

text \<open>\<open>v[a..b]\<close>: panics when \<open>a > b\<close> or \<open>b\<close> is past the end.\<close>

definition rs_slice :: "'a list \<Rightarrow> nat \<Rightarrow> nat \<Rightarrow> 'a list option" where
  "rs_slice xs a b = (if a \<le> b \<and> b \<le> length xs then Some (take (b - a) (drop a xs)) else None)"

lemma rs_get_eq_Some [rs_simps]: "rs_get xs i = Some x \<longleftrightarrow> i < length xs \<and> xs ! i = x"
  by (auto simp: rs_get_def)

lemma rs_get_eq_None [rs_simps]: "rs_get xs i = None \<longleftrightarrow> length xs \<le> i"
  by (auto simp: rs_get_def)

lemma rs_get_in [simp]: "i < length xs \<Longrightarrow> rs_get xs i = Some (xs ! i)"
  by (simp add: rs_get_def)

lemma rs_set_in [simp]: "i < length xs \<Longrightarrow> rs_set xs i x = Some (xs[i := x])"
  by (simp add: rs_set_def)

lemma rs_set_eq_Some [rs_simps]: "rs_set xs i x = Some ys \<longleftrightarrow> i < length xs \<and> ys = xs[i := x]"
  by (auto simp: rs_set_def)

lemma rs_set_eq_None [rs_simps]: "rs_set xs i x = None \<longleftrightarrow> length xs \<le> i"
  by (auto simp: rs_set_def)

lemma rs_slice_in [simp]:
  "a \<le> b \<Longrightarrow> b \<le> length xs \<Longrightarrow> rs_slice xs a b = Some (take (b - a) (drop a xs))"
  by (simp add: rs_slice_def)

lemma rs_slice_eq_Some [rs_simps]:
  "rs_slice xs a b = Some ys \<longleftrightarrow> a \<le> b \<and> b \<le> length xs \<and> ys = take (b - a) (drop a xs)"
  by (auto simp: rs_slice_def)

lemma rs_get_append1 [simp]: "i < length xs \<Longrightarrow> rs_get (xs @ ys) i = rs_get xs i"
  by (simp add: rs_get_def nth_append)

lemma distinct_map_finer:
  assumes "distinct (map f xs)"
    and "\<And>x y. x \<in> set xs \<Longrightarrow> y \<in> set xs \<Longrightarrow> g x = g y \<Longrightarrow> f x = f y"
  shows "distinct (map g xs)"
  using assms by (metis (no_types, lifting) distinct_map inj_on_def)

section \<open>Arithmetic under the two build profiles\<close>

text \<open>
  \<open>x += 1\<close> on an unsigned integer panics on overflow when overflow checks are compiled in
  (the default of a debug build) and wraps around when they are not (the default of a release
  build).  The first argument says which; \<open>None\<close> is the panic.
\<close>

definition rs_inc :: "bool \<Rightarrow> 'w::len word \<Rightarrow> 'w word option" where
  "rs_inc overflow_checks x = (if overflow_checks \<and> x = - 1 then None else Some (x + 1))"

lemma rs_inc_release [simp]: "rs_inc False x = Some (x + 1)"
  by (simp add: rs_inc_def)

lemma rs_inc_eq_None [rs_simps]: "rs_inc oc x = None \<longleftrightarrow> oc \<and> x = - 1"
  by (simp add: rs_inc_def)

lemma rs_inc_eq_Some [rs_simps]: "rs_inc oc x = Some y \<longleftrightarrow> (oc \<longrightarrow> x \<noteq> - 1) \<and> y = x + 1"
  by (auto simp: rs_inc_def)

section \<open>Four-byte arrays\<close>

text \<open>\<open>[u8; 4]\<close>: IPv4 octets, GTP tunnel endpoint identifiers, 5G-TMSIs, MACs, counts.\<close>

datatype arr4 = Arr4 (arr4_0: u8) (arr4_1: u8) (arr4_2: u8) (arr4_3: u8)

primrec arr4_list :: "arr4 \<Rightarrow> bytes" where
  "arr4_list (Arr4 a b c d) = [a, b, c, d]"

lemma length_arr4_list [simp]: "length (arr4_list a) = 4"
  by (cases a) simp

lemma arr4_list_inj [simp]: "arr4_list a = arr4_list b \<longleftrightarrow> a = b"
  by (cases a; cases b) simp

lemma arr4_list_nth [simp]:
  "arr4_list a ! 0 = arr4_0 a" "arr4_list a ! Suc 0 = arr4_1 a"
  "arr4_list a ! 2 = arr4_2 a" "arr4_list a ! 3 = arr4_3 a"
  by (cases a; simp)+

section \<open>Big-endian byte order\<close>

definition u16_to_be_bytes :: "u16 \<Rightarrow> bytes" where
  "u16_to_be_bytes x = [ucast (drop_bit 8 x), ucast x]"

definition u32_to_be_bytes :: "u32 \<Rightarrow> arr4" where
  "u32_to_be_bytes x =
     Arr4 (ucast (drop_bit 24 x)) (ucast (drop_bit 16 x)) (ucast (drop_bit 8 x)) (ucast x)"

definition u16_from_be_bytes :: "u8 \<Rightarrow> u8 \<Rightarrow> u16" where
  "u16_from_be_bytes a b = push_bit 8 (ucast a) OR ucast b"

definition u32_from_be_bytes :: "arr4 \<Rightarrow> u32" where
  "u32_from_be_bytes a =
     push_bit 24 (ucast (arr4_0 a)) OR push_bit 16 (ucast (arr4_1 a)) OR
     push_bit 8 (ucast (arr4_2 a)) OR ucast (arr4_3 a)"

lemma length_u16_to_be_bytes [simp]: "length (u16_to_be_bytes x) = 2"
  by (simp add: u16_to_be_bytes_def)

lemma u16_be_roundtrip [byte_simps]:
  "u16_from_be_bytes (u16_to_be_bytes x ! 0) (u16_to_be_bytes x ! 1) = x"
  by (rule bit_word_eqI)
    (auto simp: u16_from_be_bytes_def u16_to_be_bytes_def bit_simps)

lemma u32_be_roundtrip [byte_simps]: "u32_from_be_bytes (u32_to_be_bytes x) = x"
proof (rule bit_word_eqI)
  fix n assume "n < LENGTH(32)"
  then consider "n < 8" | "8 \<le> n" "n < 16" | "16 \<le> n" "n < 24" | "24 \<le> n" "n < 32"
    by (simp add: not_less) linarith
  then show "bit (u32_from_be_bytes (u32_to_be_bytes x)) n = bit x n"
    by cases (auto simp: u32_from_be_bytes_def u32_to_be_bytes_def bit_simps)
qed

lemma u32_to_be_bytes_inj [simp]: "u32_to_be_bytes x = u32_to_be_bytes y \<longleftrightarrow> x = y"
  by (metis u32_be_roundtrip)

lemma u16_to_be_bytes_inj [simp]: "u16_to_be_bytes x = u16_to_be_bytes y \<longleftrightarrow> x = y"
  by (metis u16_be_roundtrip)

section \<open>Nibbles\<close>

lemma nibble_join [byte_simps]: "push_bit 4 (drop_bit 4 x) OR (x AND 15) = (x :: u8)"
proof (rule bit_word_eqI)
  fix n assume "n < LENGTH(8)"
  then have "n \<in> {0, 1, 2, 3, 4, 5, 6, 7}" by auto
  then show "bit (push_bit 4 (drop_bit 4 x) OR (x AND 15)) n = bit x n"
    by (auto simp: bit_simps)
qed

lemma word_mask_less [byte_simps]: "unat (x AND 15 :: u8) < 16"
proof -
  have "x AND 15 \<le> (15 :: u8)" by (rule word_and_le1)
  then show ?thesis by (simp add: word_le_nat_alt)
qed

end
