(* ===== verification/Addresses.thy ===== *)
theory Addresses
  imports Qcore_Prelude
begin

text \<open>
  The address types of \<open>xxap\<close> (\<open>5g-libs/xxap/src/{common,conversion,ies}.rs\<close>): IP addresses,
  the ASN.1 transport layer address (a bit string), GTP tunnel endpoints and the conversions
  between them, together with the constants of \<open>qcore/src/userplane/mod.rs\<close>.
\<close>

section \<open>Data\<close>

datatype ip_addr = V4 arr4 | V6 bytes

datatype transport_layer_address = TransportLayerAddress (tla_bits: "bool list")

datatype gtp_teid = GtpTeid (teid_bytes: arr4)

record gtp_tunnel =
  transport_layer_address :: transport_layer_address
  gtp_teid :: gtp_teid

datatype snssai = Snssai u8 "(u8 \<times> u8 \<times> u8) option"

datatype addr_error = BadLength nat

section \<open>Bit strings in most-significant-bit-first order\<close>

definition bits_of_byte :: "u8 \<Rightarrow> bool list" where
  "bits_of_byte b = map (bit b) [7, 6, 5, 4, 3, 2, 1, 0]"

definition byte_of_bits :: "bool list \<Rightarrow> u8" where
  "byte_of_bits bs = horner_sum of_bool 2 (rev (take 8 (bs @ replicate 8 False)))"

definition bytes_to_bits :: "bytes \<Rightarrow> bool list" where
  "bytes_to_bits bs = concat (map bits_of_byte bs)"

text \<open>\<open>BitVec::into_vec\<close>: one byte for every started group of eight bits.\<close>

function bits_to_bytes :: "bool list \<Rightarrow> bytes" where
  "bits_to_bytes bs = (if bs = [] then [] else byte_of_bits bs # bits_to_bytes (drop 8 bs))"
  by pat_completeness auto
termination
  by (relation "measure length") auto

declare bits_to_bytes.simps [simp del]

section \<open>Conversions\<close>

fun tla_from_ip :: "ip_addr \<Rightarrow> transport_layer_address" where
  "tla_from_ip (V4 x) = TransportLayerAddress (bytes_to_bits (arr4_list x))"
| "tla_from_ip (V6 x) = TransportLayerAddress (bytes_to_bits x)"

definition ip_try_from_tla :: "transport_layer_address \<Rightarrow> addr_error + ip_addr" where
  "ip_try_from_tla addr =
     (let v = bits_to_bytes (tla_bits addr) in
      if length v = 4 then Inr (V4 (Arr4 (v ! 0) (v ! 1) (v ! 2) (v ! 3)))
      else if length v = 16 then Inr (V6 v)
      else Inl (BadLength (length v)))"

section \<open>Lemmas\<close>

lemma length_bits_of_byte [simp]: "length (bits_of_byte b) = 8"
  by (simp add: bits_of_byte_def)

lemma rev_bits_of_byte: "rev (bits_of_byte b) = map (bit b) [0..<8]"
  by (simp add: bits_of_byte_def upt_rec numeral_eq_Suc)

lemma byte_of_bits_of_byte [simp]: "byte_of_bits (bits_of_byte b @ bs) = b"
proof -
  have "byte_of_bits (bits_of_byte b @ bs) = horner_sum of_bool 2 (map (bit b) [0..<8])"
    by (simp add: byte_of_bits_def rev_bits_of_byte)
  also have "\<dots> = take_bit 8 b"
    by (rule horner_sum_bit_eq_take_bit)
  also have "\<dots> = b"
    by (rule bit_word_eqI) (simp add: bit_simps)
  finally show ?thesis .
qed

lemma length_bytes_to_bits [simp]: "length (bytes_to_bits bs) = 8 * length bs"
  by (induction bs) (simp_all add: bytes_to_bits_def)

lemma bits_to_bytes_to_bits [simp]: "bits_to_bytes (bytes_to_bits bs) = bs"
proof (induction bs)
  case Nil
  show ?case by (subst bits_to_bytes.simps) (simp add: bytes_to_bits_def)
next
  case (Cons b bs)
  have split: "bytes_to_bits (b # bs) = bits_of_byte b @ bytes_to_bits bs"
    by (simp add: bytes_to_bits_def)
  then have "bytes_to_bits (b # bs) \<noteq> []"
    by (metis Nil_is_append_conv length_bits_of_byte list.size(3) zero_neq_numeral)
  with Cons show ?case
    by (subst bits_to_bytes.simps) (simp add: split)
qed

lemma ceil_div_step: "0 < (l::nat) \<Longrightarrow> Suc ((l - 8 + 7) div 8) = (l + 7) div 8"
proof (cases "l \<le> 8")
  case True
  moreover assume "0 < l"
  ultimately obtain m where "l = Suc m" and "m < 8" by (cases l) auto
  then show ?thesis by (simp add: div_if)
next
  case False
  then obtain k where "l = k + 8" by (metis add.commute le_Suc_ex linorder_le_cases)
  then show ?thesis by simp
qed

lemma length_bits_to_bytes: "length (bits_to_bytes bs) = (length bs + 7) div 8"
proof (induction bs rule: bits_to_bytes.induct)
  case (1 bs)
  show ?case
  proof (cases "bs = []")
    case True
    then show ?thesis by (subst bits_to_bytes.simps) simp
  next
    case False
    with 1 have "length (bits_to_bytes bs) = Suc ((length bs - 8 + 7) div 8)"
      by (subst bits_to_bytes.simps) simp
    also have "\<dots> = (length bs + 7) div 8"
      using False by (intro ceil_div_step) simp
    finally show ?thesis .
  qed
qed

text \<open>An address that fits the IPv4 or IPv6 layout survives the trip through F1AP.\<close>

definition ip_wf :: "ip_addr \<Rightarrow> bool" where
  "ip_wf ip = (case ip of V4 _ \<Rightarrow> True | V6 v \<Rightarrow> length v = 16)"

lemma ip_tla_roundtrip: "ip_wf ip \<Longrightarrow> ip_try_from_tla (tla_from_ip ip) = Inr ip"
  by (cases ip) (auto simp: ip_try_from_tla_def ip_wf_def)

lemma ip_try_from_tla_error:
  "ip_try_from_tla (TransportLayerAddress bs) = Inl (BadLength n) \<longleftrightarrow>
     n = (length bs + 7) div 8 \<and> n \<noteq> 4 \<and> n \<noteq> 16"
  by (auto simp: ip_try_from_tla_def Let_def length_bits_to_bytes)

section \<open>User plane constants\<close>

definition GTP_BASE_HEADER_LEN :: nat where "GTP_BASE_HEADER_LEN = 8"
definition GTP_EXTENDED_HEADER_LEN :: nat where "GTP_EXTENDED_HEADER_LEN = 12"
definition GTP_EXT_HEADER_LEN_NRUP_DL_USER_DATA :: nat where
  "GTP_EXT_HEADER_LEN_NRUP_DL_USER_DATA = 8"
definition PDCP_HEADER_LEN :: nat where "PDCP_HEADER_LEN = 2"
definition SDAP_HEADER_LEN :: nat where "SDAP_HEADER_LEN = 1"
definition IPV4_HEADER_LEN :: nat where "IPV4_HEADER_LEN = 20"
definition DOWNLINK_INNER_PACKET_OFFSET :: nat where
  "DOWNLINK_INNER_PACKET_OFFSET =
     GTP_EXTENDED_HEADER_LEN + GTP_EXT_HEADER_LEN_NRUP_DL_USER_DATA + PDCP_HEADER_LEN"
definition GTP_MESSAGE_TYPE_GPDU :: u8 where "GTP_MESSAGE_TYPE_GPDU = 255"
definition GTPU_PORT :: u16 where "GTPU_PORT = 2152"
definition MAX_UES :: nat where "MAX_UES = 254"

lemmas userplane_consts =
  GTP_BASE_HEADER_LEN_def GTP_EXTENDED_HEADER_LEN_def GTP_EXT_HEADER_LEN_NRUP_DL_USER_DATA_def
  PDCP_HEADER_LEN_def SDAP_HEADER_LEN_def IPV4_HEADER_LEN_def DOWNLINK_INNER_PACKET_OFFSET_def
  GTP_MESSAGE_TYPE_GPDU_def MAX_UES_def

end
