(* ===== verification/Uplink_Pipeline.thy ===== *)
theory Uplink_Pipeline
  imports Addresses
begin

text \<open>
  The uplink half of the user plane (\<open>qcore/src/userplane/uplink_pipeline.rs\<close>): the forwarding
  table that maps a tunnel endpoint identifier to a rule, and the handler that strips the GTP-U,
  PDCP and SDAP headers of one F1-U datagram and writes the inner IP packet to the N6 device.

  The handler reads a 2000-byte buffer that is reused from packet to packet, so the model keeps
  the buffer and the number of bytes read apart.  Reading outside the buffer, slicing it badly or
  indexing the forwarding table out of range is a panic, a value of its own.  The loop over GTP
  extension headers is a partial function: \<open>None\<close> is a run that never returns.
\<close>

section \<open>The forwarding table\<close>

record uplink_forwarding_rule =
  local_teid :: arr4

type_synonym uplink_table = "uplink_forwarding_rule option list"

definition uplink_table_new :: uplink_table where
  "uplink_table_new = replicate MAX_UES None"

definition uplink_table_index_from_gtp_teid :: "bytes \<Rightarrow> nat option" where
  "uplink_table_index_from_gtp_teid teid = map_option unat (rs_get teid 3)"

text \<open>\<open>None\<close> is a panic: the \<open>assert_eq!\<close> or an index outside the table.\<close>

definition uplink_add_rule :: "uplink_table \<Rightarrow> arr4 \<Rightarrow> arr4 \<Rightarrow> uplink_table option" where
  "uplink_add_rule t ue_ipv4 teid =
     (let idx = unat (arr4_3 ue_ipv4) in
      if uplink_table_index_from_gtp_teid (arr4_list teid) = Some idx
      then rs_set t idx (Some \<lparr>local_teid = teid\<rparr>)
      else None)"

definition uplink_remove_rule :: "uplink_table \<Rightarrow> arr4 \<Rightarrow> uplink_table option" where
  "uplink_remove_rule t teid =
     (case uplink_table_index_from_gtp_teid (arr4_list teid) of
        None \<Rightarrow> None
      | Some idx \<Rightarrow> rs_set t idx None)"

section \<open>Counters\<close>

definition UL_RX_PKTS :: nat where "UL_RX_PKTS = 0"
definition UL_RX_BYTES :: nat where "UL_RX_BYTES = 1"
definition UL_DROP_TOO_SHORT :: nat where "UL_DROP_TOO_SHORT = 2"
definition UL_DROP_GTP_MESSAGE_TYPE :: nat where "UL_DROP_GTP_MESSAGE_TYPE = 3"
definition UL_DROP_TOO_SHORT_EXT :: nat where "UL_DROP_TOO_SHORT_EXT = 4"
definition UL_DROP_PDCP_CONTROL :: nat where "UL_DROP_PDCP_CONTROL = 5"
definition UL_DROP_SDAP_CONTROL :: nat where "UL_DROP_SDAP_CONTROL = 6"
definition UL_DROP_NOT_IPV4 :: nat where "UL_DROP_NOT_IPV4 = 7"
definition UL_DROP_UNKNOWN_TEID_1 :: nat where "UL_DROP_UNKNOWN_TEID_1 = 8"
definition UL_DROP_UNKNOWN_TEID_2 :: nat where "UL_DROP_UNKNOWN_TEID_2 = 9"
definition UL_NUM_COUNTERS :: nat where "UL_NUM_COUNTERS = 10"

lemmas ul_counter_defs =
  UL_RX_PKTS_def UL_RX_BYTES_def UL_DROP_TOO_SHORT_def UL_DROP_GTP_MESSAGE_TYPE_def
  UL_DROP_TOO_SHORT_EXT_def UL_DROP_PDCP_CONTROL_def UL_DROP_SDAP_CONTROL_def
  UL_DROP_NOT_IPV4_def UL_DROP_UNKNOWN_TEID_1_def UL_DROP_UNKNOWN_TEID_2_def UL_NUM_COUNTERS_def

definition counter_add :: "nat \<Rightarrow> nat \<Rightarrow> nat list \<Rightarrow> nat list" where
  "counter_add i n cs = cs[i := cs ! i + n]"

abbreviation counter_inc :: "nat \<Rightarrow> nat list \<Rightarrow> nat list" where
  "counter_inc i \<equiv> counter_add i 1"

section \<open>Skipping GTP extension headers\<close>

datatype skip_result = Skipped nat | TooShortExt | SkipPanic

text \<open>
  The \<open>while buf[offset - 1] != 0\<close> loop.  The guard of the drop branch is the only check on the
  growing offset.
\<close>

partial_function (option) skip_extension_headers :: "bytes \<Rightarrow> nat \<Rightarrow> nat \<Rightarrow> skip_result option" where
  "skip_extension_headers buf bytes_read offset =
     (case rs_get buf (offset - 1) of
        None \<Rightarrow> Some SkipPanic
      | Some next_type \<Rightarrow>
          if next_type = 0 then Some (Skipped offset)
          else (case rs_get buf offset of
             None \<Rightarrow> Some SkipPanic
           | Some ext_len \<Rightarrow>
               if bytes_read <
                    offset + unat ext_len * 4 + PDCP_HEADER_LEN + SDAP_HEADER_LEN + IPV4_HEADER_LEN
               then Some TooShortExt
               else skip_extension_headers buf bytes_read (offset + unat ext_len * 4)))"

section \<open>The verdict on one datagram\<close>

datatype ul_verdict = UlDrop nat | UlForward bytes | UlPanic

definition ul_or_panic :: "'a option \<Rightarrow> ('a \<Rightarrow> ul_verdict) \<Rightarrow> ul_verdict" where
  "ul_or_panic r f = (case r of None \<Rightarrow> UlPanic | Some x \<Rightarrow> f x)"

text \<open>From the PDCP header, which starts at \<open>offset\<close>, to the inner packet.\<close>

definition uplink_after_gtp :: "uplink_table \<Rightarrow> bytes \<Rightarrow> nat \<Rightarrow> nat \<Rightarrow> ul_verdict" where
  "uplink_after_gtp table buf bytes_read offset =
     ul_or_panic (rs_slice buf 4 8) (\<lambda>gtp_teid.
     ul_or_panic (rs_get buf offset) (\<lambda>pdcp.
     if pdcp AND 0x80 = 0 then UlDrop UL_DROP_PDCP_CONTROL
     else ul_or_panic (rs_get buf (offset + 2)) (\<lambda>sdap.
     if sdap AND 0x80 = 0 then UlDrop UL_DROP_SDAP_CONTROL
     else ul_or_panic (rs_get buf (offset + 3)) (\<lambda>ip.
     if ip AND 0xf0 \<noteq> 0x40 then UlDrop UL_DROP_NOT_IPV4
     else ul_or_panic (uplink_table_index_from_gtp_teid gtp_teid) (\<lambda>idx.
     ul_or_panic (rs_get table idx) (\<lambda>slot.
     case slot of
       None \<Rightarrow> UlDrop UL_DROP_UNKNOWN_TEID_1
     | Some entry \<Rightarrow>
         if gtp_teid \<noteq> arr4_list (local_teid entry) then UlDrop UL_DROP_UNKNOWN_TEID_2
         else ul_or_panic (rs_slice buf (offset + 3) bytes_read) UlForward))))))"

definition uplink_verdict :: "uplink_table \<Rightarrow> bytes \<Rightarrow> nat \<Rightarrow> ul_verdict option" where
  "uplink_verdict table buf bytes_read =
     (if bytes_read < GTP_BASE_HEADER_LEN + PDCP_HEADER_LEN + SDAP_HEADER_LEN + IPV4_HEADER_LEN
      then Some (UlDrop UL_DROP_TOO_SHORT)
      else case rs_get buf 1 of
        None \<Rightarrow> Some UlPanic
      | Some message_type \<Rightarrow>
          if message_type \<noteq> GTP_MESSAGE_TYPE_GPDU then Some (UlDrop UL_DROP_GTP_MESSAGE_TYPE)
          else case rs_get buf 0 of
            None \<Rightarrow> Some UlPanic
          | Some flags \<Rightarrow>
              if flags = 0x30
              then Some (uplink_after_gtp table buf bytes_read GTP_BASE_HEADER_LEN)
              else case skip_extension_headers buf bytes_read GTP_EXTENDED_HEADER_LEN of
                None \<Rightarrow> None
              | Some SkipPanic \<Rightarrow> Some UlPanic
              | Some TooShortExt \<Rightarrow> Some (UlDrop UL_DROP_TOO_SHORT_EXT)
              | Some (Skipped offset) \<Rightarrow> Some (uplink_after_gtp table buf bytes_read offset))"

section \<open>The handler\<close>

datatype io_error = IoError

record uplink_pipeline =
  ul_buf :: bytes
  ul_counters :: "nat list"

definition uplink_pipeline_new :: uplink_pipeline where
  "uplink_pipeline_new = \<lparr>ul_buf = replicate 2000 0, ul_counters = replicate UL_NUM_COUNTERS 0\<rparr>"

text \<open>\<open>recv_from\<close> overwrites a prefix of the buffer and drops what does not fit.\<close>

definition recv_into :: "bytes \<Rightarrow> bytes \<Rightarrow> bytes \<times> nat" where
  "recv_into buf dgram =
     (let n = min (length dgram) (length buf) in (take n dgram @ drop n buf, n))"

datatype pipe_result = PipeOk | PipeErr io_error | PipePanic

text \<open>
  The inputs of the environment are the result of \<open>recv_from\<close> (a datagram or an I/O error) and
  the results of writing to and flushing the N6 device.  The last component of the result is the
  packet written to the device.  \<open>None\<close> is a run that never returns.
\<close>

definition handle_next_uplink_packet ::
    "uplink_table \<Rightarrow> io_error + bytes \<Rightarrow> io_error + unit \<Rightarrow> io_error + unit \<Rightarrow> uplink_pipeline
     \<Rightarrow> (pipe_result \<times> uplink_pipeline \<times> bytes option) option" where
  "handle_next_uplink_packet table rx tun_write tun_flush p =
     (case rx of
        Inl e \<Rightarrow> Some (PipeErr e, p, None)
      | Inr dgram \<Rightarrow>
          (let (buf, bytes_read) = recv_into (ul_buf p) dgram;
               counters = counter_add UL_RX_BYTES bytes_read
                            (counter_inc UL_RX_PKTS (ul_counters p));
               p1 = p\<lparr>ul_buf := buf, ul_counters := counters\<rparr>
           in case uplink_verdict table buf bytes_read of
                None \<Rightarrow> None
              | Some UlPanic \<Rightarrow> Some (PipePanic, p1, None)
              | Some (UlDrop c) \<Rightarrow>
                  Some (PipeOk, p1\<lparr>ul_counters := counter_inc c counters\<rparr>, None)
              | Some (UlForward inner) \<Rightarrow>
                  (case tun_write of
                     Inl e \<Rightarrow> Some (PipeErr e, p1, None)
                   | Inr _ \<Rightarrow>
                       (case tun_flush of
                          Inl e \<Rightarrow> Some (PipeErr e, p1, Some inner)
                        | Inr _ \<Rightarrow> Some (PipeOk, p1, Some inner)))))"

text \<open>
  The task of \<open>run\<close>: handle packets until one fails.  The inputs are a finite script of what the
  environment delivers; the result lists the packets written to N6.
\<close>

fun uplink_run ::
    "uplink_table \<Rightarrow> ((io_error + bytes) \<times> (io_error + unit) \<times> (io_error + unit)) list \<Rightarrow> uplink_pipeline
     \<Rightarrow> (pipe_result \<times> uplink_pipeline \<times> bytes list) option" where
  "uplink_run table [] p = Some (PipeOk, p, [])"
| "uplink_run table ((rx, tun_write, tun_flush) # rxs) p =
     (case handle_next_uplink_packet table rx tun_write tun_flush p of
        None \<Rightarrow> None
      | Some (PipeOk, p', out) \<Rightarrow>
          (case uplink_run table rxs p' of
             None \<Rightarrow> None
           | Some (r, p'', outs) \<Rightarrow>
               Some (r, p'', (case out of None \<Rightarrow> outs | Some x \<Rightarrow> x # outs)))
      | Some (r, p', out) \<Rightarrow> Some (r, p', (case out of None \<Rightarrow> [] | Some x \<Rightarrow> [x])))"

section \<open>The table operations\<close>

lemma uplink_index_arr4 [simp]:
  "uplink_table_index_from_gtp_teid (arr4_list a) = Some (unat (arr4_3 a))"
  by (simp add: uplink_table_index_from_gtp_teid_def)

lemma length_uplink_table_new [simp]: "length uplink_table_new = MAX_UES"
  by (simp add: uplink_table_new_def)

lemma uplink_add_rule_eq:
  "uplink_add_rule t ip teid =
     (if arr4_3 teid = arr4_3 ip then rs_set t (unat (arr4_3 ip)) (Some \<lparr>local_teid = teid\<rparr>) else None)"
  by (simp add: uplink_add_rule_def Let_def word_unat_eq_iff)

lemma uplink_remove_rule_eq: "uplink_remove_rule t teid = rs_set t (unat (arr4_3 teid)) None"
  by (simp add: uplink_remove_rule_def)

section \<open>The extension header loop\<close>

lemma skip_unfold:
  assumes "0 < offset" and "offset < length buf"
  shows "skip_extension_headers buf bytes_read offset =
     (if buf ! (offset - 1) = 0 then Some (Skipped offset)
      else if bytes_read < offset + unat (buf ! offset) * 4 + 23 then Some TooShortExt
      else skip_extension_headers buf bytes_read (offset + unat (buf ! offset) * 4))"
  using assms
  by (subst skip_extension_headers.simps) (simp add: rs_get_def userplane_consts less_imp_diff_less)

text \<open>The offsets at which the loop looks for another extension header.\<close>

inductive ext_chain :: "bytes \<Rightarrow> nat \<Rightarrow> nat \<Rightarrow> nat \<Rightarrow> bool" for buf bytes_read where
  here: "ext_chain buf bytes_read offset offset"
| skip: "buf ! (offset - 1) \<noteq> 0 \<Longrightarrow> offset + unat (buf ! offset) * 4 + 23 \<le> bytes_read \<Longrightarrow>
     ext_chain buf bytes_read (offset + unat (buf ! offset) * 4) last_offset \<Longrightarrow>
     ext_chain buf bytes_read offset last_offset"

text \<open>A zero length byte in a non-final extension header: the offset stops moving.\<close>

definition zero_length_ext :: "bytes \<Rightarrow> nat \<Rightarrow> nat \<Rightarrow> bool" where
  "zero_length_ext buf bytes_read offset \<longleftrightarrow>
     buf ! (offset - 1) \<noteq> 0 \<and> buf ! offset = 0 \<and> offset + 23 \<le> bytes_read"

lemma skip_stuck:
  assumes "0 < offset" "offset < length buf" "zero_length_ext buf bytes_read offset"
  shows "skip_extension_headers buf bytes_read offset = None"
proof (rule ccontr)
  assume "skip_extension_headers buf bytes_read offset \<noteq> None"
  then obtain r where r: "skip_extension_headers buf bytes_read offset = Some r" by blast
  define P where "P = (\<lambda>b n f (r :: skip_result). \<not> (b = buf \<and> n = bytes_read \<and> f = offset))"
  have "P buf bytes_read offset r"
  proof (rule skip_extension_headers.raw_induct [where P = P, OF _ r])
    fix f b n off r
    assume IH: "\<And>b n off r. f b n off = Some r \<Longrightarrow> P b n off r"
      and eq: "(case rs_get b (off - 1) of None \<Rightarrow> Some SkipPanic
        | Some next_type \<Rightarrow> if next_type = 0 then Some (Skipped off)
          else (case rs_get b off of None \<Rightarrow> Some SkipPanic
            | Some ext_len \<Rightarrow>
                if n < off + unat ext_len * 4 + PDCP_HEADER_LEN + SDAP_HEADER_LEN + IPV4_HEADER_LEN
                then Some TooShortExt else f b n (off + unat ext_len * 4))) = Some r"
    show "P b n off r"
    proof (rule ccontr)
      assume "\<not> P b n off r"
      then have here: "b = buf" "n = bytes_read" "off = offset" by (auto simp: P_def)
      with eq assms have "f buf bytes_read offset = Some r"
        by (simp add: rs_get_def zero_length_ext_def userplane_consts less_imp_diff_less)
      from IH [OF this] show False by (simp add: P_def)
    qed
  qed
  then show False by (simp add: P_def)
qed

lemma skip_diverges_if_chain:
  assumes "ext_chain buf bytes_read offset last_offset" and "zero_length_ext buf bytes_read last_offset"
    and "0 < offset" and "bytes_read \<le> length buf" and "offset < bytes_read"
  shows "skip_extension_headers buf bytes_read offset = None"
  using assms
proof (induction rule: ext_chain.induct)
  case (here offset)
  then show ?case by (intro skip_stuck) simp_all
next
  case (skip offset last_offset)
  from skip have "skip_extension_headers buf bytes_read (offset + unat (buf ! offset) * 4) = None"
    by simp
  with skip.hyps skip.prems show ?case by (subst skip_unfold) simp_all
qed

lemma chain_if_skip_diverges:
  assumes "skip_extension_headers buf bytes_read offset = None"
    and "0 < offset" and "bytes_read \<le> length buf" and "offset < bytes_read"
  shows "\<exists>last_offset. ext_chain buf bytes_read offset last_offset \<and> zero_length_ext buf bytes_read last_offset"
  using assms
proof (induction "bytes_read - offset" arbitrary: offset rule: less_induct)
  case less
  let ?next = "offset + unat (buf ! offset) * 4"
  from less.prems have more: "buf ! (offset - 1) \<noteq> 0" and fits: "?next + 23 \<le> bytes_read"
    and rec: "skip_extension_headers buf bytes_read ?next = None"
    using skip_unfold [of offset buf bytes_read] by (simp_all split: if_splits)
  show ?case
  proof (cases "buf ! offset = 0")
    case True
    with more fits show ?thesis by (auto simp: zero_length_ext_def intro: ext_chain.here)
  next
    case False
    then have "offset < ?next" by (simp add: unat_gt_0)
    with fits rec less.prems
    obtain last_offset where "ext_chain buf bytes_read ?next last_offset"
      and "zero_length_ext buf bytes_read last_offset"
      using less.hyps [of ?next] by fastforce
    with more fits show ?thesis by (blast intro: ext_chain.skip)
  qed
qed

text \<open>Where the loop returns, the offset stays inside the bytes that were read.\<close>

lemma skip_returns_inside:
  assumes "skip_extension_headers buf bytes_read offset = Some r"
    and "0 < offset" and "bytes_read \<le> length buf" and "offset < bytes_read"
  shows "r = TooShortExt \<or> (\<exists>o'. r = Skipped o' \<and> offset \<le> o' \<and> (o' = offset \<or> o' + 23 \<le> bytes_read))"
  using assms
proof (induction "bytes_read - offset" arbitrary: offset rule: less_induct)
  case less
  let ?next = "offset + unat (buf ! offset) * 4"
  from less.prems have unfolded: "(if buf ! (offset - 1) = 0 then Some (Skipped offset)
      else if bytes_read < ?next + 23 then Some TooShortExt
      else skip_extension_headers buf bytes_read ?next) = Some r"
    using skip_unfold [of offset buf bytes_read] by simp
  show ?case
  proof (cases "buf ! (offset - 1) = 0 \<or> bytes_read < ?next + 23")
    case True
    with unfolded show ?thesis by (cases "buf ! (offset - 1) = 0") auto
  next
    case False
    with unfolded have 3: "buf ! (offset - 1) \<noteq> 0" "?next + 23 \<le> bytes_read"
      "skip_extension_headers buf bytes_read ?next = Some r" by simp_all
    have "buf ! offset \<noteq> 0"
    proof
      assume "buf ! offset = 0"
      with 3 less.prems have "skip_extension_headers buf bytes_read offset = None"
        by (intro skip_stuck) (simp_all add: zero_length_ext_def)
      with less.prems show False by simp
    qed
    then have "offset < ?next" by (simp add: unat_gt_0)
    with 3 less.prems less.hyps [of ?next] show ?thesis by fastforce
  qed
qed

section \<open>What a verdict says\<close>

definition uplink_headers_ok :: "bytes \<Rightarrow> nat \<Rightarrow> bool" where
  "uplink_headers_ok buf offset \<longleftrightarrow>
     buf ! offset AND 0x80 \<noteq> 0 \<and> buf ! (offset + 2) AND 0x80 \<noteq> 0 \<and>
     buf ! (offset + 3) AND 0xf0 = 0x40"

text \<open>The offset of the PDCP header, where the GTP header can be parsed.\<close>

definition uplink_payload_offset :: "bytes \<Rightarrow> nat \<Rightarrow> nat option" where
  "uplink_payload_offset buf bytes_read =
     (if buf ! 0 = 0x30 then Some GTP_BASE_HEADER_LEN
      else case skip_extension_headers buf bytes_read GTP_EXTENDED_HEADER_LEN of
        Some (Skipped offset) \<Rightarrow> Some offset
      | _ \<Rightarrow> None)"

lemma ul_or_panic_simps [simp, rs_simps]:
  "ul_or_panic None f = UlPanic" "ul_or_panic (Some x) f = f x"
  by (simp_all add: ul_or_panic_def)

lemma nth_teid [simp]: "8 \<le> length buf \<Longrightarrow> take 4 (drop 4 buf) ! 3 = buf ! 7"
  by (simp add: nth_append)

lemma uplink_after_gtp_eq:
  assumes "8 \<le> length buf" and "offset + 3 < length buf"
    and "offset + 3 \<le> bytes_read" and "bytes_read \<le> length buf"
  shows "uplink_after_gtp table buf bytes_read offset =
     (if buf ! offset AND 0x80 = 0 then UlDrop UL_DROP_PDCP_CONTROL
      else if buf ! (offset + 2) AND 0x80 = 0 then UlDrop UL_DROP_SDAP_CONTROL
      else if buf ! (offset + 3) AND 0xf0 \<noteq> 0x40 then UlDrop UL_DROP_NOT_IPV4
      else if length table \<le> unat (buf ! 7) then UlPanic
      else case table ! unat (buf ! 7) of
        None \<Rightarrow> UlDrop UL_DROP_UNKNOWN_TEID_1
      | Some entry \<Rightarrow>
          if take 4 (drop 4 buf) \<noteq> arr4_list (local_teid entry) then UlDrop UL_DROP_UNKNOWN_TEID_2
          else UlForward (drop (offset + 3) (take bytes_read buf)))"
proof -
  have "rs_get (take 4 (drop 4 buf)) 3 = Some (buf ! 7)"
    using assms(1) by (simp add: rs_get_def)
  then have idx: "uplink_table_index_from_gtp_teid (take 4 (drop 4 buf)) = Some (unat (buf ! 7))"
    by (simp add: uplink_table_index_from_gtp_teid_def)
  show ?thesis
    using assms by (simp add: uplink_after_gtp_def idx rs_get_def [of table] drop_take
        split: option.split)
qed

lemma uplink_payload_offset_bounds:
  assumes "uplink_payload_offset buf bytes_read = Some offset" and "31 \<le> bytes_read"
    and "bytes_read \<le> length buf"
  shows "8 \<le> offset \<and> offset + 3 < bytes_read"
proof (cases "buf ! 0 = 0x30")
  case True
  with assms show ?thesis by (simp add: uplink_payload_offset_def userplane_consts)
next
  case False
  with assms(1) have "skip_extension_headers buf bytes_read 12 = Some (Skipped offset)"
    by (auto simp: uplink_payload_offset_def userplane_consts
        split: option.splits skip_result.splits)
  from skip_returns_inside [OF this] assms(2,3) show ?thesis by auto
qed

lemma uplink_verdict_eq:
  assumes "31 \<le> bytes_read" and "bytes_read \<le> length buf" and "buf ! 1 = 0xff"
  shows "uplink_verdict table buf bytes_read =
     (case uplink_payload_offset buf bytes_read of
        Some offset \<Rightarrow> Some (uplink_after_gtp table buf bytes_read offset)
      | None \<Rightarrow> map_option (\<lambda>_. UlDrop UL_DROP_TOO_SHORT_EXT)
                  (skip_extension_headers buf bytes_read GTP_EXTENDED_HEADER_LEN))"
proof -
  have get: "rs_get buf 1 = Some 0xff" "rs_get buf 0 = Some (buf ! 0)"
    using assms by (auto simp: rs_get_def)
  have noskip: "skip_extension_headers buf bytes_read 12 \<noteq> Some SkipPanic"
    using skip_returns_inside [of buf bytes_read 12 SkipPanic] assms(1,2) by auto
  show ?thesis
    using assms noskip
    by (auto simp: uplink_verdict_def uplink_payload_offset_def get userplane_consts
        split: option.split skip_result.split)
qed

lemma uplink_verdict_cases:
  assumes "uplink_verdict table buf bytes_read = Some v" and "bytes_read \<le> length buf"
    and "v = UlPanic \<or> (\<exists>inner. v = UlForward inner)"
  obtains offset where "31 \<le> bytes_read" "buf ! 1 = 0xff"
    "uplink_payload_offset buf bytes_read = Some offset"
    "v = uplink_after_gtp table buf bytes_read offset"
proof -
  have len: "31 \<le> bytes_read"
    using assms(1,3) by (auto simp: uplink_verdict_def userplane_consts split: if_splits)
  with assms(2) have "rs_get buf 1 = Some (buf ! 1)" by (simp add: rs_get_def)
  with assms(1,3) len have gpdu: "buf ! 1 = 0xff"
    by (auto simp: uplink_verdict_def userplane_consts split: if_splits)
  from assms(1,3) show thesis
    unfolding uplink_verdict_eq [OF len assms(2) gpdu]
    using len gpdu that by (auto split: option.splits)
qed

section \<open>Only the bytes that were read matter\<close>

lemma nth_take_cong: "take n xs = take n ys \<Longrightarrow> i < n \<Longrightarrow> xs ! i = ys ! i"
  by (metis nth_take)

lemma skip_cong:
  assumes "take bytes_read buf = take bytes_read buf'" and "bytes_read \<le> length buf"
    and "bytes_read \<le> length buf'" and "0 < offset" and "offset < bytes_read"
  shows "skip_extension_headers buf bytes_read offset = skip_extension_headers buf' bytes_read offset"
  using assms
proof (induction "bytes_read - offset" arbitrary: offset rule: less_induct)
  case less
  have same: "buf ! (offset - 1) = buf' ! (offset - 1)" "buf ! offset = buf' ! offset"
    using less.prems by (auto intro: nth_take_cong)
  let ?next = "offset + unat (buf ! offset) * 4"
  consider "zero_length_ext buf bytes_read offset"
    | "buf ! (offset - 1) = 0 \<or> bytes_read < ?next + 23"
    | "buf ! (offset - 1) \<noteq> 0" "?next + 23 \<le> bytes_read" "buf ! offset \<noteq> 0"
    by (fastforce simp: zero_length_ext_def)
  then show ?case
  proof cases
    case 1
    then have "zero_length_ext buf' bytes_read offset" using same by (simp add: zero_length_ext_def)
    with 1 less.prems show ?thesis by (simp add: skip_stuck)
  next
    case 2
    with less.prems same show ?thesis
      using skip_unfold [of offset buf bytes_read] skip_unfold [of offset buf' bytes_read] by auto
  next
    case 3
    then have "offset < ?next" by (simp add: unat_gt_0)
    with 3 less.prems less.hyps [of ?next]
    have "skip_extension_headers buf bytes_read ?next = skip_extension_headers buf' bytes_read ?next"
      by simp
    with 3 less.prems same show ?thesis
      using skip_unfold [of offset buf bytes_read] skip_unfold [of offset buf' bytes_read] by simp
  qed
qed

text \<open>
  C12. The reused receive buffer leaks nothing: the verdict on a datagram depends only on the bytes
  that were read, whatever earlier packets left behind them.
\<close>

theorem uplink_ignores_stale_bytes:
  assumes "take bytes_read buf = take bytes_read buf'" and "bytes_read \<le> length buf"
    and "bytes_read \<le> length buf'"
  shows "uplink_verdict table buf bytes_read = uplink_verdict table buf' bytes_read"
proof (cases "31 \<le> bytes_read \<and> buf ! 1 = 0xff")
  case True
  have same: "i < bytes_read \<Longrightarrow> buf ! i = buf' ! i" for i
    using assms(1) by (rule nth_take_cong)
  from True have len: "31 \<le> bytes_read" and gpdu: "buf ! 1 = 0xff" "buf' ! 1 = 0xff"
    using same [of 1] by auto
  have skip: "skip_extension_headers buf bytes_read GTP_EXTENDED_HEADER_LEN
      = skip_extension_headers buf' bytes_read GTP_EXTENDED_HEADER_LEN"
    using assms len by (intro skip_cong) (auto simp: userplane_consts)
  then have off: "uplink_payload_offset buf bytes_read = uplink_payload_offset buf' bytes_read"
    using same [of 0] len by (simp add: uplink_payload_offset_def)
  have "take 8 buf = take 8 buf'"
    using arg_cong [OF assms(1), of "take 8"] len by (simp add: min_def)
  from arg_cong [OF this, of "drop 4"]
  have teid: "take 4 (drop 4 buf) = take 4 (drop 4 buf')" by (simp add: drop_take)
  have after: "uplink_after_gtp table buf bytes_read offset = uplink_after_gtp table buf' bytes_read offset"
    if o: "uplink_payload_offset buf bytes_read = Some offset" for offset
  proof -
    from uplink_payload_offset_bounds [OF o len assms(2)]
    have b: "8 \<le> offset" "offset + 3 < bytes_read" by auto
    with len assms have "buf ! offset = buf' ! offset" "buf ! (offset + 2) = buf' ! (offset + 2)"
      "buf ! (offset + 3) = buf' ! (offset + 3)" "buf ! 7 = buf' ! 7"
      by (auto intro!: same)
    with b len assms teid show ?thesis by (simp add: uplink_after_gtp_eq split: option.split)
  qed
  show ?thesis
    using len gpdu assms(2,3) after
    by (auto simp: uplink_verdict_eq off [symmetric] skip [symmetric] split: option.split)
next
  case False
  moreover have "31 \<le> bytes_read \<Longrightarrow> buf ! 1 = buf' ! 1"
    using assms(1) by (rule nth_take_cong) simp
  ultimately show ?thesis
    using assms(2,3) by (auto simp: uplink_verdict_def userplane_consts rs_get_def)
qed

theorem uplink_ignores_stale_bytes_witness:
  "uplink_verdict uplink_table_new (replicate 40 0xff @ [1, 2, 3]) 40 =
   uplink_verdict uplink_table_new (replicate 40 0xff @ [9]) 40"
  by (rule uplink_ignores_stale_bytes) simp_all

section \<open>Soundness of forwarding\<close>

lemma forwarded_datagram:
  assumes "uplink_verdict table buf bytes_read = Some (UlForward inner)"
    and "bytes_read \<le> length buf"
  shows "\<exists>entry offset. rs_get table (unat (buf ! 7)) = Some (Some entry)
    \<and> take 4 (drop 4 buf) = arr4_list (local_teid entry) \<and> buf ! 1 = 0xff
    \<and> uplink_payload_offset buf bytes_read = Some offset \<and> uplink_headers_ok buf offset
    \<and> inner = drop (offset + 3) (take bytes_read buf) \<and> inner \<noteq> [] \<and> hd inner AND 0xf0 = 0x40"
proof -
  from assms obtain offset where len: "31 \<le> bytes_read" and gpdu: "buf ! 1 = 0xff"
    and off: "uplink_payload_offset buf bytes_read = Some offset"
    and v: "UlForward inner = uplink_after_gtp table buf bytes_read offset"
    by (elim uplink_verdict_cases) auto
  from uplink_payload_offset_bounds [OF off len assms(2)]
  have b: "8 \<le> offset" "offset + 3 < bytes_read" by auto
  with v len assms(2) obtain entry where ok: "uplink_headers_ok buf offset"
    and slot: "unat (buf ! 7) < length table" "table ! unat (buf ! 7) = Some entry"
    and teid: "take 4 (drop 4 buf) = arr4_list (local_teid entry)"
    and inner: "inner = drop (offset + 3) (take bytes_read buf)"
    by (auto simp: uplink_after_gtp_eq uplink_headers_ok_def not_le split: if_splits option.splits)
  from b assms(2) have "offset + 3 < length (take bytes_read buf)" by simp
  then have "inner \<noteq> []" "hd inner = buf ! (offset + 3)"
    using b assms(2) by (simp_all add: inner hd_drop_conv_nth)
  with ok slot teid inner off gpdu show ?thesis
    by (auto simp: uplink_headers_ok_def)
qed

text \<open>
  C9. The uplink pipeline forwards only traffic of an established session: when a datagram is
  forwarded, it is a G-PDU whose TEID equals, in all four bytes, the TEID of the rule stored in the
  slot its last byte selects, its PDCP and SDAP headers are data headers, and what is written to N6
  is a non-empty suffix of the bytes that were read, starting with an IPv4 version nibble.
\<close>

theorem uplink_forward_sound:
  assumes "uplink_verdict table buf bytes_read = Some (UlForward inner)"
    and "bytes_read \<le> length buf"
  shows "\<exists>entry offset. rs_get table (unat (buf ! 7)) = Some (Some entry)
    \<and> take 4 (drop 4 buf) = arr4_list (local_teid entry) \<and> buf ! 1 = 0xff
    \<and> uplink_payload_offset buf bytes_read = Some offset \<and> uplink_headers_ok buf offset
    \<and> inner = drop (offset + 3) (take bytes_read buf) \<and> inner \<noteq> [] \<and> hd inner AND 0xf0 = 0x40"
  using assms by (rule forwarded_datagram)

text \<open>A packet of the shape the DU sends: no GTP extension header, one PDCP and one SDAP header.\<close>

definition plain_gpdu :: "u8 \<Rightarrow> u8 \<Rightarrow> arr4 \<Rightarrow> u8 \<Rightarrow> u8 \<Rightarrow> u8 \<Rightarrow> bytes \<Rightarrow> bytes" where
  "plain_gpdu len1 len2 teid pdcp1 pdcp2 sdap ip =
     [0x30, 0xff, len1, len2] @ arr4_list teid @ [pdcp1, pdcp2, sdap] @ ip"

text \<open>
  A chain of GTP extension headers (TS 29.281, 5.2.1): each header is announced by a non-zero type
  byte, starts with its length in units of four bytes and ends where the next type byte stands.
\<close>

fun ext_bytes :: "(u8 \<times> bytes) list \<Rightarrow> bytes" where
  "ext_bytes [] = [0]"
| "ext_bytes ((ty, content) # exts) =
     [ty, word_of_nat ((length content + 2) div 4)] @ content @ ext_bytes exts"

definition ext_wf :: "u8 \<times> bytes \<Rightarrow> bool" where
  "ext_wf e \<longleftrightarrow> fst e \<noteq> 0 \<and> 4 dvd length (snd e) + 2 \<and> length (snd e) + 2 < 1024"

definition ext_gpdu ::
    "u8 \<Rightarrow> u8 \<Rightarrow> u8 \<Rightarrow> arr4 \<Rightarrow> u8 \<times> u8 \<times> u8 \<Rightarrow> (u8 \<times> bytes) list \<Rightarrow> u8 \<Rightarrow> u8 \<Rightarrow> u8 \<Rightarrow> bytes \<Rightarrow> bytes" where
  "ext_gpdu flags len1 len2 teid seq exts pdcp1 pdcp2 sdap ip =
     [flags, 0xff, len1, len2] @ arr4_list teid @ (case seq of (a, b, c) \<Rightarrow> [a, b, c])
     @ ext_bytes exts @ [pdcp1, pdcp2, sdap] @ ip"

lemma ext_bytes_nonempty [simp]: "ext_bytes exts \<noteq> []"
  by (cases exts rule: ext_bytes.cases) simp_all

lemma ext_wf_len:
  "ext_wf (ty, content) \<Longrightarrow> unat (word_of_nat ((length content + 2) div 4) :: u8) * 4 = length content + 2"
proof -
  assume "ext_wf (ty, content)"
  then obtain k where "length content + 2 = 4 * k" and "k < 256"
    by (auto simp: ext_wf_def elim: dvdE)
  then show ?thesis by (simp add: unat_of_nat)
qed

lemma skip_ext_bytes:
  assumes "list_all ext_wf exts" and "length rest \<ge> 23"
    and "bytes_read = length pre + length (ext_bytes exts) + length rest"
  shows "skip_extension_headers (pre @ ext_bytes exts @ rest @ junk) bytes_read (length pre + 1)
     = Some (Skipped (length pre + length (ext_bytes exts)))"
  using assms
proof (induction exts arbitrary: pre rule: ext_bytes.induct)
  case 1
  then show ?case by (subst skip_unfold) (auto simp: nth_append)
next
  case (2 ty content exts)
  let ?len = "word_of_nat ((length content + 2) div 4) :: u8"
  let ?pre = "pre @ [ty, ?len] @ content"
  let ?buf = "pre @ ext_bytes ((ty, content) # exts) @ rest @ junk"
  from "2.prems" have wf: "ext_wf (ty, content)" "list_all ext_wf exts" by auto
  have "skip_extension_headers (?pre @ ext_bytes exts @ rest @ junk) bytes_read (length ?pre + 1)
      = Some (Skipped (length ?pre + length (ext_bytes exts)))"
    by (rule "2.IH") (use "2.prems" wf in simp_all)
  moreover have "?buf ! length pre = ty" "?buf ! (length pre + 1) = ?len"
    by (simp_all add: nth_append)
  moreover have "ty \<noteq> 0" using wf by (simp add: ext_wf_def)
  moreover have "length pre + 1 + unat ?len * 4 = length ?pre + 1"
    using ext_wf_len [OF wf(1)] by simp
  moreover obtain n where "length (ext_bytes exts) = Suc n" by (cases "ext_bytes exts") auto
  ultimately show ?case
    using "2.prems" by (subst skip_unfold) (simp_all add: add_ac)
qed

lemma uplink_after_gtp_delivers:
  assumes "length hdr = offset" and "8 \<le> offset"
    and "take 4 (drop 4 hdr) = arr4_list teid"
    and "rs_get table (unat (arr4_3 teid)) = Some (Some \<lparr>local_teid = teid\<rparr>)"
    and "pdcp1 AND 0x80 \<noteq> 0" and "sdap AND 0x80 \<noteq> 0" and "ip \<noteq> []" and "hd ip AND 0xf0 = 0x40"
  shows "uplink_after_gtp table (hdr @ [pdcp1, pdcp2, sdap] @ ip @ junk) (offset + 3 + length ip) offset
     = UlForward ip"
proof -
  let ?buf = "hdr @ [pdcp1, pdcp2, sdap] @ ip @ junk"
  have teid: "take 4 (drop 4 ?buf) = arr4_list teid"
    using assms(1-3) by simp
  have "?buf ! 7 = take 4 (drop 4 ?buf) ! 3"
    using assms(1,2) by (simp add: nth_append)
  then have last: "?buf ! 7 = arr4_3 teid" by (simp only: teid arr4_list_nth)
  have bytes: "?buf ! offset = pdcp1" "?buf ! (offset + 2) = sdap" "?buf ! (offset + 3) = hd ip"
    using assms(1,7) by (auto simp: nth_append hd_conv_nth)
  from assms(4) have slot: "unat (arr4_3 teid) < length table"
    "table ! unat (arr4_3 teid) = Some \<lparr>local_teid = teid\<rparr>"
    by (auto simp: rs_get_eq_Some)
  have "drop (offset + 3) (take (offset + 3 + length ip) ?buf) = ip"
    using assms(1) by (simp add: drop_take)
  moreover have "8 \<le> length ?buf" "offset + 3 < length ?buf" "offset + 3 \<le> offset + 3 + length ip"
    "offset + 3 + length ip \<le> length ?buf"
    using assms(1,2,7) by auto
  ultimately show ?thesis
    by (simp only: uplink_after_gtp_eq teid last bytes slot) (simp add: assms(5,6,8) slot not_le)
qed

lemma gpdu_delivered:
  assumes "rs_get table (unat (arr4_3 teid)) = Some (Some \<lparr>local_teid = teid\<rparr>)"
    and "pdcp1 AND 0x80 \<noteq> 0" and "sdap AND 0x80 \<noteq> 0"
    and "20 \<le> length ip" and "hd ip AND 0xf0 = 0x40"
    and "dgram = plain_gpdu len1 len2 teid pdcp1 pdcp2 sdap ip \<or>
         flags \<noteq> 0x30 \<and> list_all ext_wf exts \<and>
         dgram = ext_gpdu flags len1 len2 teid seq exts pdcp1 pdcp2 sdap ip"
  shows "uplink_verdict table (dgram @ junk) (length dgram) = Some (UlForward ip)"
proof -
  obtain a b c d where teid: "teid = Arr4 a b c d" by (cases teid)
  obtain x y z where seq: "seq = (x, y, z)" by (cases seq)
  from assms(4) have ne: "ip \<noteq> []" by auto
  from assms(6) show ?thesis
  proof
    assume d: "dgram = plain_gpdu len1 len2 teid pdcp1 pdcp2 sdap ip"
    let ?hdr = "[0x30, 0xff, len1, len2, a, b, c, d]"
    have split: "dgram @ junk = ?hdr @ [pdcp1, pdcp2, sdap] @ ip @ junk" "length dgram = 8 + 3 + length ip"
      by (simp_all add: d plain_gpdu_def teid)
    have "uplink_after_gtp table (dgram @ junk) (length dgram) 8 = UlForward ip"
      unfolding split by (rule uplink_after_gtp_delivers [where teid = teid]) (use assms ne in \<open>simp_all add: teid\<close>)
    then show ?thesis
      using assms(4) by (subst uplink_verdict_eq)
        (simp_all add: uplink_payload_offset_def userplane_consts split)
  next
    assume e: "flags \<noteq> 0x30 \<and> list_all ext_wf exts \<and>
      dgram = ext_gpdu flags len1 len2 teid seq exts pdcp1 pdcp2 sdap ip"
    let ?pre = "[flags, 0xff, len1, len2, a, b, c, d, x, y, z]"
    let ?hdr = "?pre @ ext_bytes exts"
    let ?rest = "[pdcp1, pdcp2, sdap] @ ip"
    let ?off = "length ?hdr"
    from e have split: "dgram @ junk = ?hdr @ [pdcp1, pdcp2, sdap] @ ip @ junk"
      "length dgram = ?off + 3 + length ip"
      by (simp_all add: ext_gpdu_def teid seq)
    have "skip_extension_headers (?pre @ ext_bytes exts @ ?rest @ junk)
        (length ?pre + length (ext_bytes exts) + length ?rest) (length ?pre + 1)
        = Some (Skipped (length ?pre + length (ext_bytes exts)))"
      by (rule skip_ext_bytes) (use e assms(4) in simp_all)
    then have "skip_extension_headers (dgram @ junk) (length dgram) 12 = Some (Skipped ?off)"
      by (simp add: split eval_nat_numeral)
    moreover have "uplink_after_gtp table (dgram @ junk) (length dgram) ?off = UlForward ip"
      unfolding split by (rule uplink_after_gtp_delivers [where teid = teid]) (use assms ne in \<open>simp_all add: teid\<close>)
    moreover have "31 \<le> length dgram" "(dgram @ junk) ! 1 = 0xff" "(dgram @ junk) ! 0 = flags"
      using assms(4) by (simp_all only: split) simp_all
    ultimately show ?thesis
      using e by (subst uplink_verdict_eq)
        (simp_all add: uplink_payload_offset_def userplane_consts)
  qed
qed

text \<open>
  C10. The uplink pipeline delivers: a G-PDU on the TEID of an established session, with or without
  GTP extension headers, that carries a PDCP data header, an SDAP data header and an IPv4 packet of
  at least a header's length is forwarded, and what reaches N6 is exactly the inner packet, whatever
  the rest of the buffer holds.
\<close>

theorem uplink_delivers:
  assumes "rs_get table (unat (arr4_3 teid)) = Some (Some \<lparr>local_teid = teid\<rparr>)"
    and "pdcp1 AND 0x80 \<noteq> 0" and "sdap AND 0x80 \<noteq> 0"
    and "20 \<le> length ip" and "hd ip AND 0xf0 = 0x40"
    and "dgram = plain_gpdu len1 len2 teid pdcp1 pdcp2 sdap ip \<or>
         flags \<noteq> 0x30 \<and> list_all ext_wf exts \<and>
         dgram = ext_gpdu flags len1 len2 teid seq exts pdcp1 pdcp2 sdap ip"
  shows "uplink_verdict table (dgram @ junk) (length dgram) = Some (UlForward ip)"
  using assms by (rule gpdu_delivered)

theorem uplink_delivers_witness:
  "uplink_verdict (uplink_table_new[1 := Some \<lparr>local_teid = Arr4 9 9 9 1\<rparr>])
     (ext_gpdu 0x34 0 47 (Arr4 9 9 9 1) (0, 0, 0) [(0x84, [0, 0, 0, 0, 0, 0])] 0x80 1 0x81
        (0x45 # replicate 19 0) @ [7, 7])
     (length (ext_gpdu 0x34 0 47 (Arr4 9 9 9 1) (0, 0, 0) [(0x84, [0, 0, 0, 0, 0, 0])] 0x80 1 0x81
        (0x45 # replicate 19 0)))
   = Some (UlForward (0x45 # replicate 19 0))"
proof -
  have wf: "ext_wf (0x84, [0, 0, 0, 0, 0, 0])"
    by (auto simp: ext_wf_def intro: dvdI [where k = 2])
  show ?thesis
    by (rule uplink_delivers [where flags = "0x34" and exts = "[(0x84, [0, 0, 0, 0, 0, 0])]"
          and seq = "(0, 0, 0)" and teid = "Arr4 9 9 9 1" and ?pdcp1.0 = "0x80" and ?pdcp2.0 = 1
          and sdap = "0x81" and ?len1.0 = 0 and ?len2.0 = 47])
      (simp_all add: wf uplink_table_new_def userplane_consts)
qed

theorem uplink_forward_sound_witness:
  "\<exists>entry. rs_get (uplink_table_new[1 := Some \<lparr>local_teid = Arr4 9 9 9 1\<rparr>]) 1 = Some (Some entry)
    \<and> arr4_list (local_teid entry) = [9, 9, 9, 1]"
proof -
  let ?d = "plain_gpdu 0 31 (Arr4 9 9 9 1) 0x80 1 0x81 (0x45 # replicate 19 0)"
  let ?t = "uplink_table_new[1 := Some \<lparr>local_teid = Arr4 9 9 9 1\<rparr>]"
  have "uplink_verdict ?t (?d @ []) 31 = Some (UlForward (0x45 # replicate 19 0))"
    by (simp add: uplink_verdict_def plain_gpdu_def userplane_consts uplink_after_gtp_eq
        uplink_table_new_def)
  from uplink_forward_sound [OF this] show ?thesis
    by (auto simp: plain_gpdu_def userplane_consts uplink_table_new_def)
qed

section \<open>Runs that do not return, and panics\<close>

lemma recv_into_bounds [simp]:
  "length (fst (recv_into buf dgram)) = length buf"
  "snd (recv_into buf dgram) \<le> length buf"
  by (auto simp: recv_into_def Let_def)

lemma uplink_verdict_None_iff:
  assumes "bytes_read \<le> length buf"
  shows "uplink_verdict table buf bytes_read = None \<longleftrightarrow>
     31 \<le> bytes_read \<and> buf ! 1 = 0xff \<and> buf ! 0 \<noteq> 0x30 \<and>
     (\<exists>offset. ext_chain buf bytes_read 12 offset \<and> zero_length_ext buf bytes_read offset)"
proof (cases "31 \<le> bytes_read \<and> buf ! 1 = 0xff \<and> buf ! 0 \<noteq> 0x30")
  case True
  with assms have "uplink_verdict table buf bytes_read = None \<longleftrightarrow>
      skip_extension_headers buf bytes_read 12 = None"
    by (auto simp: uplink_verdict_eq uplink_payload_offset_def userplane_consts
        split: option.split skip_result.split)
  also have "\<dots> \<longleftrightarrow> (\<exists>offset. ext_chain buf bytes_read 12 offset \<and> zero_length_ext buf bytes_read offset)"
    using True assms
    by (auto intro: skip_diverges_if_chain dest: chain_if_skip_diverges)
  finally show ?thesis using True by simp
next
  case False
  with assms show ?thesis
    by (auto simp: uplink_verdict_def userplane_consts rs_get_def)
qed

text \<open>
  C11. Exactly which datagrams hang the uplink task: the handler does not return if and only if the
  datagram is a G-PDU of at least 31 bytes whose first byte is not 0x30 and whose chain of extension
  headers reaches a header with length byte zero and a further header announced after it.  The loop
  then adds zero to the offset forever, so one such datagram from the network stops the uplink of
  every UE.
\<close>

theorem uplink_never_returns_iff:
  "handle_next_uplink_packet table (Inr dgram) tun_write tun_flush p = None \<longleftrightarrow>
     (let (buf, bytes_read) = recv_into (ul_buf p) dgram in
      31 \<le> bytes_read \<and> buf ! 1 = 0xff \<and> buf ! 0 \<noteq> 0x30 \<and>
      (\<exists>offset. ext_chain buf bytes_read 12 offset \<and> zero_length_ext buf bytes_read offset))"
proof -
  obtain buf bytes_read where r: "recv_into (ul_buf p) dgram = (buf, bytes_read)" by fastforce
  with recv_into_bounds [of "ul_buf p" dgram] have "bytes_read \<le> length buf" by simp
  moreover have "handle_next_uplink_packet table (Inr dgram) tun_write tun_flush p = None \<longleftrightarrow>
      uplink_verdict table buf bytes_read = None"
    by (auto simp: handle_next_uplink_packet_def r Let_def split: option.split ul_verdict.split sum.split)
  ultimately show ?thesis by (simp add: r uplink_verdict_None_iff)
qed

text \<open>
  C13. The only panic of the uplink handler is the table look-up: it happens if and only if the
  datagram passes every header check and the last byte of its TEID is not smaller than the size of
  the table.  With the 254 slots the code allocates, TEIDs ending in 254 or 255 end the process.
\<close>

theorem uplink_panic_iff:
  "(\<exists>p' out. handle_next_uplink_packet table (Inr dgram) tun_write tun_flush p = Some (PipePanic, p', out)) \<longleftrightarrow>
     (let (buf, bytes_read) = recv_into (ul_buf p) dgram in
      31 \<le> bytes_read \<and> buf ! 1 = 0xff \<and>
      (\<exists>offset. uplink_payload_offset buf bytes_read = Some offset \<and> uplink_headers_ok buf offset) \<and>
      length table \<le> unat (buf ! 7))"
proof -
  obtain buf bytes_read where r: "recv_into (ul_buf p) dgram = (buf, bytes_read)" by fastforce
  with recv_into_bounds [of "ul_buf p" dgram] have le: "bytes_read \<le> length buf" by simp
  have after: "uplink_after_gtp table buf bytes_read offset = UlPanic \<longleftrightarrow>
      uplink_headers_ok buf offset \<and> length table \<le> unat (buf ! 7)"
    if "uplink_payload_offset buf bytes_read = Some offset" "31 \<le> bytes_read" for offset
    using uplink_payload_offset_bounds [OF that le] that(2) le
    by (auto simp: uplink_after_gtp_eq uplink_headers_ok_def split: option.split)
  have "uplink_verdict table buf bytes_read = Some UlPanic \<longleftrightarrow>
      31 \<le> bytes_read \<and> buf ! 1 = 0xff \<and>
      (\<exists>offset. uplink_payload_offset buf bytes_read = Some offset \<and> uplink_headers_ok buf offset) \<and>
      length table \<le> unat (buf ! 7)" (is "?l = ?r")
  proof
    assume ?l
    from uplink_verdict_cases [OF this le] after show ?r by metis
  next
    assume ?r
    with after le show ?l by (auto simp: uplink_verdict_eq)
  qed
  moreover have "(\<exists>p' out. handle_next_uplink_packet table (Inr dgram) tun_write tun_flush p
      = Some (PipePanic, p', out)) \<longleftrightarrow> uplink_verdict table buf bytes_read = Some UlPanic"
    by (auto simp: handle_next_uplink_packet_def r Let_def split: option.split ul_verdict.split sum.split)
  ultimately show ?thesis by (simp add: r)
qed

section \<open>Accounting\<close>

lemma uplink_after_gtp_drop_range:
  "uplink_after_gtp table buf bytes_read offset = UlDrop c \<Longrightarrow> 2 \<le> c \<and> c < UL_NUM_COUNTERS"
  by (auto simp: uplink_after_gtp_def ul_or_panic_def ul_counter_defs
      split: option.splits if_splits)

lemma uplink_verdict_drop_range:
  "uplink_verdict table buf bytes_read = Some (UlDrop c) \<Longrightarrow> 2 \<le> c \<and> c < UL_NUM_COUNTERS"
  by (auto simp: uplink_verdict_def dest: uplink_after_gtp_drop_range
      split: option.splits if_splits skip_result.splits)
    (simp_all add: ul_counter_defs)

definition ul_drops :: "nat list \<Rightarrow> nat" where
  "ul_drops cs = sum_list (drop 2 cs)"

lemma sum_list_counter_add:
  "i < length cs \<Longrightarrow> sum_list (counter_add i n cs) = sum_list cs + n"
  by (induction cs arbitrary: i) (auto simp: counter_add_def nth_Cons split: nat.splits)

lemma ul_drops_counter_add:
  "i < length cs \<Longrightarrow> ul_drops (counter_add i n cs) = (if 2 \<le> i then ul_drops cs + n else ul_drops cs)"
proof -
  assume i: "i < length cs"
  have "drop 2 (counter_add i n cs) = counter_add (i - 2) n (drop 2 cs)" if "2 \<le> i"
  proof -
    from that obtain j where "i = 2 + j" using le_Suc_ex by blast
    with i show ?thesis by (simp add: counter_add_def drop_update_swap)
  qed
  moreover have "i < 2 \<Longrightarrow> drop 2 (counter_add i n cs) = drop 2 cs"
    by (simp add: counter_add_def)
  ultimately show ?thesis
    using i by (auto simp: ul_drops_def sum_list_counter_add)
qed

lemma length_counter_add [simp]: "length (counter_add i n cs) = length cs"
  by (simp add: counter_add_def)

lemma counter_add_nth:
  "j < length cs \<Longrightarrow> counter_add i n cs ! j = (if i = j then cs ! j + n else cs ! j)"
  by (simp add: counter_add_def nth_list_update)

text \<open>
  The uplink counters account for every packet: whenever the handler succeeds, the received
  packet counter grew by one, and either exactly one packet was written to N6 and no drop counter
  moved, or nothing was written and exactly one drop was counted.
\<close>

theorem uplink_accounting:
  assumes "handle_next_uplink_packet table (Inr dgram) tun_write tun_flush p = Some (PipeOk, p', out)"
    and "length (ul_counters p) = UL_NUM_COUNTERS"
  shows "length (ul_counters p') = UL_NUM_COUNTERS
    \<and> ul_counters p' ! UL_RX_PKTS = ul_counters p ! UL_RX_PKTS + 1
    \<and> (case out of None \<Rightarrow> ul_drops (ul_counters p') = ul_drops (ul_counters p) + 1
        | Some _ \<Rightarrow> ul_drops (ul_counters p') = ul_drops (ul_counters p))"
proof -
  obtain buf n where r: "recv_into (ul_buf p) dgram = (buf, n)" by fastforce
  define cs where "cs = counter_add UL_RX_BYTES n (counter_inc UL_RX_PKTS (ul_counters p))"
  have base: "length cs = UL_NUM_COUNTERS" "cs ! UL_RX_PKTS = ul_counters p ! UL_RX_PKTS + 1"
    "ul_drops cs = ul_drops (ul_counters p)"
    using assms(2) by (simp_all add: cs_def counter_add_nth ul_drops_counter_add ul_counter_defs)
  from assms(1) consider
      c where "uplink_verdict table buf n = Some (UlDrop c)" "out = None"
        "ul_counters p' = counter_inc c cs"
    | inner where "out = Some inner" "ul_counters p' = cs"
    by (auto simp: handle_next_uplink_packet_def r Let_def cs_def
        split: option.splits ul_verdict.splits sum.splits)
  then show ?thesis
  proof cases
    case 1
    from uplink_verdict_drop_range [OF 1(1)] base 1 show ?thesis
      by (simp add: counter_add_nth ul_drops_counter_add UL_RX_PKTS_def UL_NUM_COUNTERS_def)
  next
    case 2
    with base show ?thesis by simp
  qed
qed

theorem uplink_accounting_witness:
  "let (r, p, out) = (the (handle_next_uplink_packet uplink_table_new (Inr [1, 2, 3]) (Inr ()) (Inr ()) uplink_pipeline_new))
   in r = PipeOk \<and> out = None \<and> ul_drops (ul_counters p) = 1"
proof -
  obtain p' where run: "handle_next_uplink_packet uplink_table_new (Inr [1, 2, 3]) (Inr ()) (Inr ()) uplink_pipeline_new
      = Some (PipeOk, p', None)"
    by (simp add: handle_next_uplink_packet_def recv_into_def uplink_pipeline_new_def
        uplink_verdict_def userplane_consts)
  have len: "length (ul_counters uplink_pipeline_new) = UL_NUM_COUNTERS"
    by (simp add: uplink_pipeline_new_def)
  have "ul_drops (ul_counters uplink_pipeline_new) = 0"
    by (simp add: uplink_pipeline_new_def ul_drops_def)
  with uplink_accounting [OF run len] show ?thesis
    by (simp add: run)
qed

end
