(* ===== verification/Downlink_Pipeline.thy ===== *)
theory Downlink_Pipeline
  imports Uplink_Pipeline
begin

text \<open>
  The downlink half of the user plane (\<open>qcore/src/userplane/downlink_pipeline.rs\<close>): the forwarding
  table from a UE's IPv4 address to its GTP tunnel and sequence numbers, and the handler that takes
  one IP packet from the N6 device, looks its destination up and sends it to the DU behind a GTP-U
  header with an NR RAN container and a PDCP data header.

  The table entry's sequence numbers are incremented with the arithmetic of the build profile, so
  the handler takes the \<open>overflow_checks\<close> flag of the prelude.
\<close>

section \<open>The forwarding table\<close>

record downlink_forwarding_rule =
  remote_tunnel_info :: gtp_tunnel
  rule_ue_ip :: ip_addr
  pdcp_seq_num :: u16
  nr_seq_num :: u32

type_synonym downlink_table = "downlink_forwarding_rule option list"

definition downlink_table_new :: downlink_table where
  "downlink_table_new = replicate MAX_UES None"

definition downlink_table_index_from_ip :: "arr4 \<Rightarrow> nat" where
  "downlink_table_index_from_ip ue_ip = unat (arr4_3 ue_ip)"

text \<open>\<open>None\<close> is the index-out-of-bounds panic.\<close>

definition downlink_add_rule :: "downlink_table \<Rightarrow> gtp_tunnel \<Rightarrow> arr4 \<Rightarrow> downlink_table option" where
  "downlink_add_rule t remote ue_ipv4 =
     rs_set t (downlink_table_index_from_ip ue_ipv4)
       (Some \<lparr>remote_tunnel_info = remote, rule_ue_ip = V4 ue_ipv4, pdcp_seq_num = 0, nr_seq_num = 0\<rparr>)"

definition downlink_remove_rule :: "downlink_table \<Rightarrow> arr4 \<Rightarrow> downlink_table option" where
  "downlink_remove_rule t ue_ipv4 = rs_set t (downlink_table_index_from_ip ue_ipv4) None"

section \<open>Counters\<close>

definition DL_RX_PKTS :: nat where "DL_RX_PKTS = 0"
definition DL_RX_BYTES :: nat where "DL_RX_BYTES = 1"
definition DL_DROP_TOO_SHORT :: nat where "DL_DROP_TOO_SHORT = 2"
definition DL_DROP_UNKNOWN_IP_1 :: nat where "DL_DROP_UNKNOWN_IP_1 = 3"
definition DL_DROP_UNKNOWN_IP_2 :: nat where "DL_DROP_UNKNOWN_IP_2 = 4"
definition DL_NUM_COUNTERS :: nat where "DL_NUM_COUNTERS = 5"

lemmas dl_counter_defs =
  DL_RX_PKTS_def DL_RX_BYTES_def DL_DROP_TOO_SHORT_def DL_DROP_UNKNOWN_IP_1_def
  DL_DROP_UNKNOWN_IP_2_def DL_NUM_COUNTERS_def

section \<open>The headers\<close>

text \<open>The 22 bytes written to \<open>buf[0]\<close> up to \<open>buf[21]\<close>.\<close>

definition downlink_header :: "u16 \<Rightarrow> arr4 \<Rightarrow> u32 \<Rightarrow> u16 \<Rightarrow> bytes" where
  "downlink_header gtp_payload_length teid nr_sn pdcp_sn =
     (let len = u16_to_be_bytes gtp_payload_length; nr = u32_to_be_bytes nr_sn in
      [0b00110100, GTP_MESSAGE_TYPE_GPDU, len ! 0, len ! 1,
       arr4_0 teid, arr4_1 teid, arr4_2 teid, arr4_3 teid,
       0, 0, 0, 0x84,
       word_of_nat (GTP_EXT_HEADER_LEN_NRUP_DL_USER_DATA div 4), 0, 0,
       arr4_1 nr, arr4_2 nr, arr4_3 nr, 0, 0,
       0x80 OR ucast (drop_bit 8 (pdcp_sn AND 0x0f00)), ucast (pdcp_sn AND 0xff)])"

section \<open>The handler\<close>

datatype dl_error = DlIo io_error | DlBadAddress addr_error

datatype dl_result = DlOk | DlErr dl_error | DlPanic

record downlink_pipeline =
  dl_buf :: bytes
  dl_counters :: "nat list"

definition downlink_pipeline_new :: downlink_pipeline where
  "downlink_pipeline_new = \<lparr>dl_buf = replicate 2000 0, dl_counters = replicate DL_NUM_COUNTERS 0\<rparr>"

text \<open>\<open>read(&mut buf[DOWNLINK_INNER_PACKET_OFFSET..2000])\<close>\<close>

definition read_at :: "bytes \<Rightarrow> nat \<Rightarrow> bytes \<Rightarrow> bytes \<times> nat" where
  "read_at buf offset pkt =
     (let n = min (length pkt) (length buf - offset) in
      (take offset buf @ take n pkt @ drop (offset + n) buf, n))"

text \<open>
  Forwarding by a table entry that matches the destination: the end of the critical section, the
  headers and the send.  The last component of the result is the datagram sent on the F1-U socket
  with its destination address and port.
\<close>

definition downlink_forward ::
    "bool \<Rightarrow> io_error + unit \<Rightarrow> downlink_table \<Rightarrow> nat \<Rightarrow> downlink_forwarding_rule \<Rightarrow> nat \<Rightarrow> downlink_pipeline
     \<Rightarrow> dl_result \<times> downlink_table \<times> downlink_pipeline \<times> (bytes \<times> ip_addr \<times> u16) option" where
  "downlink_forward overflow_checks f1u_send table idx entry bytes_read p =
     (case rs_inc overflow_checks (pdcp_seq_num entry) of
        None \<Rightarrow> (DlPanic, table, p, None)
      | Some pdcp' \<Rightarrow>
     (case rs_inc overflow_checks (nr_seq_num entry) of
        None \<Rightarrow> (DlPanic, table[idx := Some (entry\<lparr>pdcp_seq_num := pdcp'\<rparr>)], p, None)
      | Some nr' \<Rightarrow>
          (let table' = table[idx := Some (entry\<lparr>pdcp_seq_num := pdcp', nr_seq_num := nr'\<rparr>)];
               gtp_payload_length = word_of_nat
                 (bytes_read + DOWNLINK_INNER_PACKET_OFFSET - GTP_BASE_HEADER_LEN);
               header = downlink_header gtp_payload_length
                 (teid_bytes (gtp_teid (remote_tunnel_info entry)))
                 (nr_seq_num entry) (pdcp_seq_num entry);
               buf = header @ drop DOWNLINK_INNER_PACKET_OFFSET (dl_buf p);
               p1 = p\<lparr>dl_buf := buf\<rparr>
           in case ip_try_from_tla (transport_layer_address (remote_tunnel_info entry)) of
                Inl e \<Rightarrow> (DlErr (DlBadAddress e), table', p1, None)
              | Inr du_ip \<Rightarrow>
                  (case f1u_send of
                     Inl e \<Rightarrow> (DlErr (DlIo e), table', p1, None)
                   | Inr _ \<Rightarrow>
                       (DlOk, table', p1,
                        Some (take (bytes_read + DOWNLINK_INNER_PACKET_OFFSET) buf, du_ip, GTPU_PORT))))))"

definition handle_next_downlink_packet ::
    "bool \<Rightarrow> io_error + bytes \<Rightarrow> io_error + unit \<Rightarrow> downlink_table \<Rightarrow> downlink_pipeline
     \<Rightarrow> dl_result \<times> downlink_table \<times> downlink_pipeline \<times> (bytes \<times> ip_addr \<times> u16) option" where
  "handle_next_downlink_packet overflow_checks rx f1u_send table p =
     (case rx of
        Inl e \<Rightarrow> (DlErr (DlIo e), table, p, None)
      | Inr pkt \<Rightarrow>
          (let (buf, bytes_read) = read_at (dl_buf p) DOWNLINK_INNER_PACKET_OFFSET pkt;
               counters = counter_add DL_RX_BYTES bytes_read
                            (counter_inc DL_RX_PKTS (dl_counters p));
               p1 = p\<lparr>dl_buf := buf, dl_counters := counters\<rparr>
           in if bytes_read < IPV4_HEADER_LEN
              then (DlOk, table, p1\<lparr>dl_counters := counter_inc DL_DROP_TOO_SHORT counters\<rparr>, None)
              else
                (let ip_header = take IPV4_HEADER_LEN (drop DOWNLINK_INNER_PACKET_OFFSET buf);
                     ue_ip = Arr4 (ip_header ! 16) (ip_header ! 17) (ip_header ! 18) (ip_header ! 19);
                     idx = downlink_table_index_from_ip ue_ip
                 in case rs_get table idx of
                      None \<Rightarrow> (DlPanic, table, p1, None)
                    | Some None \<Rightarrow>
                        (DlOk, table, p1\<lparr>dl_counters := counter_inc DL_DROP_UNKNOWN_IP_1 counters\<rparr>, None)
                    | Some (Some entry) \<Rightarrow>
                        if V4 ue_ip \<noteq> rule_ue_ip entry
                        then (DlOk, table, p1\<lparr>dl_counters := counter_inc DL_DROP_UNKNOWN_IP_2 counters\<rparr>, None)
                        else downlink_forward overflow_checks f1u_send table idx entry bytes_read p1)))"

text \<open>The task of \<open>run\<close>: handle packets while the handler succeeds.\<close>

fun downlink_run ::
    "bool \<Rightarrow> ((io_error + bytes) \<times> (io_error + unit)) list \<Rightarrow> downlink_table \<Rightarrow> downlink_pipeline
     \<Rightarrow> dl_result \<times> downlink_table \<times> downlink_pipeline \<times> (bytes \<times> ip_addr \<times> u16) list" where
  "downlink_run oc [] table p = (DlOk, table, p, [])"
| "downlink_run oc ((rx, f1u_send) # rxs) table p =
     (case handle_next_downlink_packet oc rx f1u_send table p of
        (DlOk, table', p', out) \<Rightarrow>
          (case downlink_run oc rxs table' p' of
             (r, table'', p'', outs) \<Rightarrow>
               (r, table'', p'', (case out of None \<Rightarrow> outs | Some x \<Rightarrow> x # outs)))
      | (r, table', p', out) \<Rightarrow> (r, table', p', []))"

section \<open>The shape of one handler step\<close>

lemma length_downlink_header [simp]: "length (downlink_header l t n s) = 22"
  by (simp add: downlink_header_def Let_def)

lemma length_downlink_table_new [simp]: "length downlink_table_new = MAX_UES"
  by (simp add: downlink_table_new_def)

text \<open>The part of a packet that fits the buffer, and the destination it carries.\<close>

definition dl_fits :: "downlink_pipeline \<Rightarrow> bytes \<Rightarrow> bytes" where
  "dl_fits p pkt = take (length (dl_buf p) - 22) pkt"

definition ipv4_dst :: "bytes \<Rightarrow> arr4" where
  "ipv4_dst pkt = Arr4 (pkt ! 16) (pkt ! 17) (pkt ! 18) (pkt ! 19)"

lemma read_at_inner:
  assumes "offset \<le> length buf"
  shows "fst (read_at buf offset pkt) = take offset buf @ take (length buf - offset) pkt
           @ drop (offset + length (take (length buf - offset) pkt)) buf"
    and "snd (read_at buf offset pkt) = length (take (length buf - offset) pkt)"
    and "length (fst (read_at buf offset pkt)) = length buf"
  using assms by (auto simp: read_at_def Let_def min_def)

lemma dl_inner_bytes:
  assumes "22 \<le> length (dl_buf p)"
  shows "take (length (dl_fits p pkt)) (drop 22 (fst (read_at (dl_buf p) 22 pkt))) = dl_fits p pkt"
  using assms by (simp add: read_at_inner dl_fits_def min_def)

text \<open>The frame that leaves for the DU.\<close>

definition dl_frame :: "downlink_forwarding_rule \<Rightarrow> bytes \<Rightarrow> bytes" where
  "dl_frame entry pkt =
     downlink_header (word_of_nat (length pkt + 14))
       (teid_bytes (gtp_teid (remote_tunnel_info entry))) (nr_seq_num entry) (pdcp_seq_num entry) @ pkt"

definition dl_bump :: "downlink_forwarding_rule \<Rightarrow> downlink_forwarding_rule" where
  "dl_bump entry = entry\<lparr>pdcp_seq_num := pdcp_seq_num entry + 1, nr_seq_num := nr_seq_num entry + 1\<rparr>"

definition dl_seq_full :: "bool \<Rightarrow> downlink_forwarding_rule \<Rightarrow> bool" where
  "dl_seq_full oc entry \<longleftrightarrow> oc \<and> (pdcp_seq_num entry = - 1 \<or> nr_seq_num entry = - 1)"

text \<open>What a step shows to the outside: its result, the table it leaves and the datagram it sends.\<close>

fun dl_view :: "dl_result \<times> downlink_table \<times> downlink_pipeline \<times> (bytes \<times> ip_addr \<times> u16) option
    \<Rightarrow> dl_result \<times> downlink_table \<times> (bytes \<times> ip_addr \<times> u16) option" where
  "dl_view (r, table, p, out) = (r, table, out)"

definition dl_forward_view :: "bool \<Rightarrow> io_error + unit \<Rightarrow> downlink_table \<Rightarrow> nat \<Rightarrow> downlink_forwarding_rule \<Rightarrow> bytes
    \<Rightarrow> dl_result \<times> downlink_table \<times> (bytes \<times> ip_addr \<times> u16) option" where
  "dl_forward_view oc snd_res table idx entry q =
    (if dl_seq_full oc entry
     then (DlPanic, if pdcp_seq_num entry = - 1 then table
                    else table[idx := Some (entry\<lparr>pdcp_seq_num := pdcp_seq_num entry + 1\<rparr>)], None)
     else (case ip_try_from_tla (transport_layer_address (remote_tunnel_info entry)) of
             Inl e \<Rightarrow> (DlErr (DlBadAddress e), table[idx := Some (dl_bump entry)], None)
           | Inr du_ip \<Rightarrow>
               (case snd_res of
                  Inl e \<Rightarrow> (DlErr (DlIo e), table[idx := Some (dl_bump entry)], None)
                | Inr _ \<Rightarrow> (DlOk, table[idx := Some (dl_bump entry)],
                            Some (dl_frame entry q, du_ip, GTPU_PORT)))))"

lemma dl_forward_eq:
  assumes "take (length q) (drop 22 (dl_buf p)) = q"
  shows "dl_view (downlink_forward oc snd_res table idx entry (length q) p)
    = dl_forward_view oc snd_res table idx entry q"
proof -
  from assms have frame: "take (length q + 22) (h @ drop 22 (dl_buf p)) = h @ q" if "length h = 22" for h
    using that by simp
  show ?thesis
    using assms by (auto simp: downlink_forward_def dl_forward_view_def dl_seq_full_def rs_inc_def Let_def frame
        dl_frame_def dl_bump_def userplane_consts add.commute split: sum.split)
qed

lemma dl_forward_buf:
  "22 \<le> length (dl_buf p) \<Longrightarrow> downlink_forward oc snd_res table idx entry n p = (r, t, p', out) \<Longrightarrow>
     length (dl_buf p') = length (dl_buf p)"
  by (auto simp: downlink_forward_def rs_inc_def Let_def userplane_consts split: sum.splits if_splits)

text \<open>
  The whole handler in one equation over the packet that fits the buffer.
\<close>

lemma dl_step:
  assumes "22 \<le> length (dl_buf p)" and "q = dl_fits p pkt"
  shows "dl_view (handle_next_downlink_packet oc (Inr pkt) snd_res table p) =
      (if length q < 20 then (DlOk, table, None)
       else case rs_get table (unat (arr4_3 (ipv4_dst q))) of
         None \<Rightarrow> (DlPanic, table, None)
       | Some None \<Rightarrow> (DlOk, table, None)
       | Some (Some entry) \<Rightarrow>
           if V4 (ipv4_dst q) \<noteq> rule_ue_ip entry then (DlOk, table, None)
           else dl_forward_view oc snd_res table (unat (arr4_3 (ipv4_dst q))) entry q)"
proof -
  obtain buf n where rd: "read_at (dl_buf p) 22 pkt = (buf, n)" by fastforce
  from read_at_inner [OF assms(1), of pkt] rd assms(2)
  have n: "n = length q" by (simp add: dl_fits_def)
  have inner: "take (length q) (drop 22 buf) = q"
    using dl_inner_bytes [OF assms(1), of pkt] rd assms(2) by simp
  have dst: "drop 22 buf ! i = q ! i" if "i < length q" for i
    using that by (metis inner nth_take)
  note h = handle_next_downlink_packet_def userplane_consts downlink_table_index_from_ip_def rd n Let_def
  show ?thesis
  proof (cases "length q < 20")
    case True
    then show ?thesis by (simp add: h)
  next
    case False
    then show ?thesis
      by (auto simp: h dst inner dl_forward_eq ipv4_dst_def split: option.split)
  qed
qed

lemma dl_step_buf:
  assumes "22 \<le> length (dl_buf p)"
    and "handle_next_downlink_packet oc (Inr pkt) snd_res table p = (r, table', p', out)"
  shows "length (dl_buf p') = length (dl_buf p)"
proof -
  obtain buf n where rd: "read_at (dl_buf p) 22 pkt = (buf, n)" by fastforce
  from read_at_inner(3) [OF assms(1), of pkt] rd have len: "length buf = length (dl_buf p)" by simp
  with assms show ?thesis
    by (auto simp: handle_next_downlink_packet_def userplane_consts rd Let_def
        dest!: dl_forward_buf [rotated] split: if_splits option.splits)
qed

section \<open>Soundness of downlink forwarding\<close>

text \<open>
  C14. A downlink packet only ever reaches the tunnel of the UE it is addressed to: when the handler
  sends a datagram, the slot selected by the last byte of the destination address holds a rule for
  exactly that address, the datagram is the rule's header followed by the packet unchanged, it goes
  to the rule's DU on the GTP-U port, and the only change to the table is that this rule's two
  sequence numbers advance by one.
\<close>

theorem downlink_send_sound:
  assumes "handle_next_downlink_packet oc (Inr pkt) snd_res table p = (r, table', p', Some (frame, ip, port))"
    and "length (dl_buf p) = 2000" and "q = take 1978 pkt"
  shows "\<exists>entry. rs_get table (unat (arr4_3 (ipv4_dst q))) = Some (Some entry)
    \<and> rule_ue_ip entry = V4 (ipv4_dst q) \<and> frame = dl_frame entry q
    \<and> ip_try_from_tla (transport_layer_address (remote_tunnel_info entry)) = Inr ip
    \<and> port = 2152 \<and> r = DlOk
    \<and> table' = table[unat (arr4_3 (ipv4_dst q)) := Some (dl_bump entry)]"
proof -
  have "q = dl_fits p pkt" using assms(2,3) by (simp add: dl_fits_def)
  from dl_step [OF _ this, of oc snd_res table] assms(1,2) show ?thesis
    by (auto simp: dl_forward_view_def GTPU_PORT_def split: if_splits option.splits sum.splits)
qed

definition example_tunnel :: gtp_tunnel where
  "example_tunnel = \<lparr>transport_layer_address = tla_from_ip (V4 (Arr4 192 168 1 2)), gtp_teid = GtpTeid (Arr4 1 2 3 4)\<rparr>"

definition example_rule :: downlink_forwarding_rule where
  "example_rule = \<lparr>remote_tunnel_info = example_tunnel, rule_ue_ip = V4 (Arr4 10 255 0 1), pdcp_seq_num = 0, nr_seq_num = 0\<rparr>"

definition example_packet :: bytes where
  "example_packet = 0x45 # replicate 15 0 @ [10, 255, 0, 1]"

lemma example_run:
  "dl_view (handle_next_downlink_packet oc (Inr example_packet) (Inr ())
      (downlink_table_new[1 := Some example_rule]) downlink_pipeline_new)
   = (DlOk, downlink_table_new[1 := Some (dl_bump example_rule)],
      Some (dl_frame example_rule example_packet, V4 (Arr4 192 168 1 2), 2152))"
proof -
  have fits: "example_packet = dl_fits downlink_pipeline_new example_packet"
    by (simp add: dl_fits_def downlink_pipeline_new_def example_packet_def)
  have dst: "ipv4_dst example_packet = Arr4 10 255 0 1"
    by (simp add: ipv4_dst_def example_packet_def nth_append)
  have len: "length example_packet = 20" by (simp add: example_packet_def)
  show ?thesis
    by (subst dl_step [OF _ fits])
      (simp_all add: downlink_pipeline_new_def dst len downlink_table_new_def userplane_consts
        example_rule_def example_tunnel_def dl_forward_view_def dl_seq_full_def ip_tla_roundtrip
        ip_wf_def GTPU_PORT_def del: tla_from_ip.simps)
qed

theorem downlink_send_sound_witness:
  "\<exists>entry. rs_get (downlink_table_new[1 := Some example_rule]) 1 = Some (Some entry)
    \<and> rule_ue_ip entry = V4 (Arr4 10 255 0 1)"
proof -
  obtain p' where run: "handle_next_downlink_packet True (Inr example_packet) (Inr ())
      (downlink_table_new[1 := Some example_rule]) downlink_pipeline_new
    = (DlOk, downlink_table_new[1 := Some (dl_bump example_rule)], p',
       Some (dl_frame example_rule example_packet, V4 (Arr4 192 168 1 2), 2152))"
    using example_run [of True] by (metis dl_view.cases dl_view.simps fst_conv snd_conv)
  have dst: "ipv4_dst (take 1978 example_packet) = Arr4 10 255 0 1"
    by (simp add: ipv4_dst_def example_packet_def nth_append)
  have len: "length (dl_buf downlink_pipeline_new) = 2000"
    by (simp add: downlink_pipeline_new_def)
  from downlink_send_sound [OF run len refl] show ?thesis
    unfolding dst by auto
qed

section \<open>The frame\<close>

lemma pdcp_sn_bytes:
  fixes sn :: u16
  shows "unat ((0x80 OR ucast (drop_bit 8 (sn AND 0x0f00)) :: u8) AND 0x0f) * 256 + unat (ucast (sn AND 0xff) :: u8)
    = unat sn mod 4096"
proof -
  have hi: "(0x80 OR ucast (drop_bit 8 (sn AND 0x0f00)) :: u8) AND 0x0f = ucast (take_bit 4 (drop_bit 8 sn))"
  proof (rule bit_word_eqI)
    fix n assume "n < LENGTH(8)"
    then have "n \<in> {0, 1, 2, 3, 4, 5, 6, 7}" by auto
    then show "bit ((0x80 OR ucast (drop_bit 8 (sn AND 0x0f00)) :: u8) AND 0x0f) n
        = bit (ucast (take_bit 4 (drop_bit 8 sn)) :: u8) n"
      by (auto simp: bit_simps)
  qed
  have lo: "(ucast (sn AND 0xff) :: u8) = ucast (take_bit 8 sn)"
  proof (rule bit_word_eqI)
    fix n assume "n < LENGTH(8)"
    then have "n \<in> {0, 1, 2, 3, 4, 5, 6, 7}" by auto
    then show "bit (ucast (sn AND 0xff) :: u8) n = bit (ucast (take_bit 8 sn) :: u8) n"
      by (auto simp: bit_simps)
  qed
  have "unat sn div 256 mod 16 < 256" by (rule less_trans [of _ 16]) simp_all
  then have "unat (ucast (take_bit 4 (drop_bit 8 sn)) :: u8) = unat sn div 256 mod 16"
    by (simp add: unsigned_ucast_eq take_bit_eq_mod drop_bit_eq_div unat_div unat_mod)
  moreover have "unat (ucast (take_bit 8 sn) :: u8) = unat sn mod 256"
    by (simp add: unsigned_ucast_eq take_bit_eq_mod unat_mod)
  moreover have "unat sn mod (256 * 16) = 256 * (unat sn div 256 mod 16) + unat sn mod 256"
    by (rule mod_mult2_eq)
  ultimately show ?thesis unfolding hi lo by simp
qed

lemma nr_sn_bytes:
  "unat (arr4_1 (u32_to_be_bytes sn)) * 65536 + unat (arr4_2 (u32_to_be_bytes sn)) * 256
     + unat (arr4_3 (u32_to_be_bytes sn)) = unat sn mod 16777216"
proof -
  have "unat sn mod (256 * 65536) = 256 * (unat sn div 256 mod 65536) + unat sn mod 256"
    by (rule mod_mult2_eq)
  moreover have "unat sn div 256 mod (256 * 256) = 256 * (unat sn div 256 div 256 mod 256) + unat sn div 256 mod 256"
    by (rule mod_mult2_eq)
  moreover have "unat sn div 256 div 256 = unat sn div 65536"
    by (simp add: div_mult2_eq [symmetric])
  ultimately show ?thesis
    by (simp add: u32_to_be_bytes_def unsigned_ucast_eq take_bit_eq_mod drop_bit_eq_div unat_div)
qed

text \<open>
  C15. The frame sent to the DU is a well-formed G-PDU for a packet that fits the buffer.  The flags are those of TS
  29.281, 5.1: version 1, protocol type GTP, an extension header, no sequence number and no N-PDU number; the
  message type is G-PDU; the length field counts the bytes after the eight-byte header; the TEID is the tunnel's; the
  unused optional fields are zero.  Bytes 11 to 19 are one extension header in the format the uplink parses: an NR RAN
  container of two units of four bytes with the DL USER DATA of TS 38.425, 5.5.2.1 (PDU type 0, no flags), whose three
  bytes of NR-U sequence number are the rule's modulo 2^24, and no header after it.  The PDCP header at offset 20 is
  a data header with reserved bits zero and the rule's sequence number modulo 4096, and the packet follows at offset 22.
\<close>

theorem downlink_frame_wf:
  "let f = dl_frame entry q in
    drop_bit 5 (f ! 0) = 1 \<and> bit (f ! 0) 4 \<and> \<not> bit (f ! 0) 3 \<and> bit (f ! 0) 2 \<and> \<not> bit (f ! 0) 1 \<and> \<not> bit (f ! 0) 0
    \<and> f ! 1 = 0xff
    \<and> u16_from_be_bytes (f ! 2) (f ! 3) = word_of_nat (length f - 8)
    \<and> take 4 (drop 4 f) = arr4_list (teid_bytes (gtp_teid (remote_tunnel_info entry)))
    \<and> take 3 (drop 8 f) = [0, 0, 0]
    \<and> take 9 (drop 11 f) = ext_bytes [(0x84, [0, 0, f ! 15, f ! 16, f ! 17, 0])]
    \<and> ext_wf (0x84, [0, 0, f ! 15, f ! 16, f ! 17, 0]) \<and> 4 * unat (f ! 12) = 8
    \<and> unat (f ! 15) * 65536 + unat (f ! 16) * 256 + unat (f ! 17) = unat (nr_seq_num entry) mod 16777216
    \<and> f ! 20 AND 0xf0 = 0x80
    \<and> unat (f ! 20 AND 0x0f) * 256 + unat (f ! 21) = unat (pdcp_seq_num entry) mod 4096
    \<and> drop 22 f = q"
proof -
  let ?nr = "u32_to_be_bytes (nr_seq_num entry)"
  let ?len = "u16_to_be_bytes (word_of_nat (length q + 14))"
  let ?p1 = "0x80 OR ucast (drop_bit 8 (pdcp_seq_num entry AND 0x0f00)) :: u8"
  let ?p2 = "ucast (pdcp_seq_num entry AND 0xff) :: u8"
  obtain a b c d where teid: "teid_bytes (gtp_teid (remote_tunnel_info entry)) = Arr4 a b c d"
    using arr4.exhaust by blast
  have frame: "dl_frame entry q = [0x34, 0xff, ?len ! 0, ?len ! 1, a, b, c, d, 0, 0, 0, 0x84, 2, 0, 0,
      arr4_1 ?nr, arr4_2 ?nr, arr4_3 ?nr, 0, 0, ?p1, ?p2] @ q"
    by (simp only: dl_frame_def downlink_header_def Let_def teid userplane_consts arr4.sel) simp
  have wf: "ext_wf (0x84, [0, 0, arr4_1 ?nr, arr4_2 ?nr, arr4_3 ?nr, 0])"
    by (auto simp: ext_wf_def intro: dvdI [where k = 2])
  have dc: "?p1 AND 0xf0 = 0x80"
  proof (rule bit_word_eqI)
    fix n assume "n < LENGTH(8)"
    then have "n \<in> {0, 1, 2, 3, 4, 5, 6, 7}" by auto
    then show "bit (?p1 AND 0xf0) n = bit (0x80 :: u8) n" by (auto simp: bit_simps)
  qed
  have flags: "drop_bit 5 (0x34 :: u8) = 1" "bit (0x34 :: u8) 4" "\<not> bit (0x34 :: u8) 3" "bit (0x34 :: u8) 2"
    "\<not> bit (0x34 :: u8) 1" "\<not> bit (0x34 :: u8) 0"
    by simp_all
  show ?thesis
    using wf dc flags pdcp_sn_bytes [of "pdcp_seq_num entry"] nr_sn_bytes [of "nr_seq_num entry"]
      u16_be_roundtrip [of "word_of_nat (length q + 14)"]
    by (simp add: frame Let_def teid del: bit_numeral_simps)
qed

section \<open>Sequence numbers along a run\<close>

lemma dl_bump_simps [simp]:
  "remote_tunnel_info (dl_bump e) = remote_tunnel_info e" "rule_ue_ip (dl_bump e) = rule_ue_ip e"
  "pdcp_seq_num (dl_bump e) = pdcp_seq_num e + 1" "nr_seq_num (dl_bump e) = nr_seq_num e + 1"
  by (simp_all add: dl_bump_def)

lemma dl_bump_pow:
  "remote_tunnel_info ((dl_bump ^^ i) e) = remote_tunnel_info e"
  "rule_ue_ip ((dl_bump ^^ i) e) = rule_ue_ip e"
  "pdcp_seq_num ((dl_bump ^^ i) e) = pdcp_seq_num e + word_of_nat i"
  "nr_seq_num ((dl_bump ^^ i) e) = nr_seq_num e + word_of_nat i"
  by (induction i) simp_all

text \<open>A packet for a given UE address that fits the buffer.\<close>

definition dl_packet_for :: "arr4 \<Rightarrow> bytes \<Rightarrow> bool" where
  "dl_packet_for ip pkt \<longleftrightarrow> 20 \<le> length pkt \<and> length pkt \<le> 1978 \<and> ipv4_dst pkt = ip"

lemma dl_step_for:
  assumes "length (dl_buf p) = 2000" and "dl_packet_for ip pkt"
    and "unat (arr4_3 ip) < length table" and "table ! unat (arr4_3 ip) = Some entry"
    and "rule_ue_ip entry = V4 ip"
    and "ip_try_from_tla (transport_layer_address (remote_tunnel_info entry)) = Inr du_ip"
  shows "dl_view (handle_next_downlink_packet False (Inr pkt) (Inr ()) table p)
    = (DlOk, table[unat (arr4_3 ip) := Some (dl_bump entry)], Some (dl_frame entry pkt, du_ip, GTPU_PORT))"
proof -
  have "pkt = dl_fits p pkt" using assms(1,2) by (simp add: dl_fits_def dl_packet_for_def)
  from dl_step [OF _ this] assms show ?thesis
    by (simp add: dl_packet_for_def dl_forward_view_def dl_seq_full_def)
qed

text \<open>
  C16. In a build that wraps, a burst of packets to one UE is sent in order with consecutive sequence
  numbers: starting from a freshly committed session, the i-th datagram is the frame of the i-th
  packet whose rule has advanced i times, so its PDCP number is i modulo 4096 and its NR number is
  i modulo 2^24, also across the wrap of the 16-bit and 32-bit counters.
\<close>

theorem downlink_run_in_sequence:
  assumes "length (dl_buf p) = 2000" and "list_all (dl_packet_for ip) pkts"
    and "unat (arr4_3 ip) < length table" and "table ! unat (arr4_3 ip) = Some entry"
    and "rule_ue_ip entry = V4 ip"
    and "ip_try_from_tla (transport_layer_address (remote_tunnel_info entry)) = Inr du_ip"
  shows "\<exists>p' table'. downlink_run False (map (\<lambda>pkt. (Inr pkt, Inr ())) pkts) table p =
      (DlOk, table', p', map (\<lambda>i. (dl_frame ((dl_bump ^^ i) entry) (pkts ! i), du_ip, GTPU_PORT)) [0..<length pkts])
    \<and> table' ! unat (arr4_3 ip) = Some ((dl_bump ^^ length pkts) entry)
    \<and> (\<forall>i < length pkts. pdcp_seq_num ((dl_bump ^^ i) entry) = pdcp_seq_num entry + word_of_nat i
         \<and> nr_seq_num ((dl_bump ^^ i) entry) = nr_seq_num entry + word_of_nat i)"
  using assms
proof (induction pkts arbitrary: p table entry)
  case Nil
  then show ?case by simp
next
  case (Cons pkt pkts)
  let ?t = "table[unat (arr4_3 ip) := Some (dl_bump entry)]"
  obtain p1 where run: "handle_next_downlink_packet False (Inr pkt) (Inr ()) table p
      = (DlOk, ?t, p1, Some (dl_frame entry pkt, du_ip, GTPU_PORT))"
    using dl_step_for [of p ip pkt table entry du_ip] Cons.prems
    by (cases "handle_next_downlink_packet False (Inr pkt) (Inr ()) table p") auto
  have len: "length (dl_buf p1) = 2000"
    using dl_step_buf [OF _ run] Cons.prems(1) by simp
  obtain p' table' where rest: "downlink_run False (map (\<lambda>pkt. (Inr pkt, Inr ())) pkts) ?t p1 =
      (DlOk, table', p', map (\<lambda>i. (dl_frame ((dl_bump ^^ i) (dl_bump entry)) (pkts ! i), du_ip, GTPU_PORT)) [0..<length pkts])"
    and final: "table' ! unat (arr4_3 ip) = Some ((dl_bump ^^ length pkts) (dl_bump entry))"
    using Cons.IH [of p1 ?t "dl_bump entry"] Cons.prems len by auto
  have shift: "(dl_bump ^^ i) (dl_bump e) = (dl_bump ^^ Suc i) e" for i e
    by (simp add: funpow_swap1)
  have "map (\<lambda>i. (dl_frame ((dl_bump ^^ i) entry) ((pkt # pkts) ! i), du_ip, GTPU_PORT)) [0..<length (pkt # pkts)]
      = (dl_frame entry pkt, du_ip, GTPU_PORT) #
        map (\<lambda>i. (dl_frame ((dl_bump ^^ i) (dl_bump entry)) (pkts ! i), du_ip, GTPU_PORT)) [0..<length pkts]"
    by (simp only: shift length_Cons upt_conv_Cons map_Suc_upt [symmetric] list.map map_map o_def
        nth_Cons_0 nth_Cons_Suc funpow_0 zero_less_Suc)
  with run rest final show ?case
    by (auto simp: shift dl_bump_pow)
qed

text \<open>
  C17. The downlink handler panics exactly when the destination of a long enough packet selects a
  slot outside the table (with 254 slots: addresses ending in 254 or 255), or when the rule matches
  and overflow checks are compiled in and one of its counters is at its maximum, which the 65536th
  packet to one UE reaches.
\<close>

theorem downlink_panic_iff:
  assumes "length (dl_buf p) = 2000" and "q = take 1978 pkt"
  shows "fst (handle_next_downlink_packet oc (Inr pkt) snd_res table p) = DlPanic \<longleftrightarrow>
    20 \<le> length q \<and>
    (length table \<le> unat (arr4_3 (ipv4_dst q)) \<or>
     (\<exists>entry. rs_get table (unat (arr4_3 (ipv4_dst q))) = Some (Some entry) \<and>
        rule_ue_ip entry = V4 (ipv4_dst q) \<and> oc \<and> (pdcp_seq_num entry = - 1 \<or> nr_seq_num entry = - 1)))"
proof -
  have "q = dl_fits p pkt" using assms by (simp add: dl_fits_def)
  moreover have "fst (handle_next_downlink_packet oc (Inr pkt) snd_res table p)
      = fst (dl_view (handle_next_downlink_packet oc (Inr pkt) snd_res table p))"
    by (cases "handle_next_downlink_packet oc (Inr pkt) snd_res table p") simp
  ultimately show ?thesis
    using assms(1) by (auto simp: dl_step dl_forward_view_def dl_seq_full_def rs_simps not_less
        split: option.split sum.split)
qed

theorem downlink_run_in_sequence_witness:
  "\<exists>p' table'. downlink_run False (map (\<lambda>pkt. (Inr pkt, Inr ())) [example_packet, example_packet])
      (downlink_table_new[1 := Some example_rule]) downlink_pipeline_new =
    (DlOk, table', p', map (\<lambda>i. (dl_frame ((dl_bump ^^ i) example_rule) ([example_packet, example_packet] ! i),
        V4 (Arr4 192 168 1 2), GTPU_PORT)) [0..<2])"
proof -
  have dst: "dl_packet_for (Arr4 10 255 0 1) example_packet"
    by (simp add: dl_packet_for_def ipv4_dst_def example_packet_def nth_append)
  have tla: "ip_try_from_tla (transport_layer_address (remote_tunnel_info example_rule)) = Inr (V4 (Arr4 192 168 1 2))"
    by (simp add: example_rule_def example_tunnel_def ip_tla_roundtrip ip_wf_def del: tla_from_ip.simps)
  from downlink_run_in_sequence [of downlink_pipeline_new "Arr4 10 255 0 1" "[example_packet, example_packet]"
      "downlink_table_new[1 := Some example_rule]" example_rule, OF _ _ _ _ _ tla] dst
  show ?thesis
    by (auto simp: downlink_pipeline_new_def downlink_table_new_def userplane_consts example_rule_def
        numeral_2_eq_2)
qed

theorem downlink_panic_iff_witness:
  "fst (handle_next_downlink_packet False (Inr (0x45 # replicate 15 0 @ [10, 255, 0, 254])) (Inr ())
      downlink_table_new downlink_pipeline_new) = DlPanic"
  by (subst downlink_panic_iff [OF _ refl])
    (simp_all add: downlink_pipeline_new_def ipv4_dst_def nth_append userplane_consts)

end
