(* ===== verification/Packet_Processor.thy ===== *)
theory Packet_Processor
  imports Downlink_Pipeline
begin

text \<open>
  Session management of the user plane (\<open>qcore/src/userplane/packet_processor.rs\<close>): reserving a
  slot, a TEID and a UE address, committing the DU's tunnel, and deleting a session.  The index pool
  is the third-party crate \<open>index_pool\<close>; the model takes its \<open>new_id\<close> and \<open>request_id\<close> as arguments
  and states what its documentation promises as the locale \<open>index_pool_spec\<close>.  The random bytes of a
  TEID are an argument as well.
\<close>

section \<open>Data\<close>

record userplane_session =
  qfi :: u8
  uplink_gtp_teid :: gtp_teid
  ue_ip_addr :: ip_addr

record 'p packet_processor =
  index_pool :: 'p
  downlink_forwarding_table :: downlink_table
  uplink_forwarding_table :: uplink_table
  ue_subnet :: arr4

datatype up_error = NoMoreSlots | Ipv6NotImplemented

section \<open>Operations\<close>

definition packet_processor_new :: "(nat \<Rightarrow> 'p \<Rightarrow> 'p) \<Rightarrow> 'p \<Rightarrow> arr4 \<Rightarrow> 'p packet_processor" where
  "packet_processor_new request_id pool_new subnet =
     \<lparr>index_pool = request_id 0 pool_new,
      downlink_forwarding_table = downlink_table_new,
      uplink_forwarding_table = uplink_table_new,
      ue_subnet = subnet\<rparr>"

text \<open>\<open>None\<close> is a panic of \<open>add_rule\<close>.\<close>

definition reserve_userplane_session ::
    "('p \<Rightarrow> nat \<times> 'p) \<Rightarrow> u8 \<times> u8 \<times> u8 \<Rightarrow> 'p packet_processor
     \<Rightarrow> ((up_error + userplane_session) \<times> 'p packet_processor) option" where
  "reserve_userplane_session new_id rnd pp =
     (let (idx, pool') = new_id (index_pool pp);
          pp1 = pp\<lparr>index_pool := pool'\<rparr>
      in if \<not> idx < MAX_UES then Some (Inl NoMoreSlots, pp1)
         else (let idx8 = word_of_nat idx :: u8;
                   teid = (case rnd of (r0, r1, r2) \<Rightarrow> Arr4 r0 r1 r2 idx8);
                   ue_ipv4 = Arr4 (arr4_0 (ue_subnet pp)) (arr4_1 (ue_subnet pp)) (arr4_2 (ue_subnet pp)) idx8
               in case uplink_add_rule (uplink_forwarding_table pp1) ue_ipv4 teid of
                    None \<Rightarrow> None
                  | Some t \<Rightarrow>
                      Some (Inr \<lparr>qfi = 0, uplink_gtp_teid = GtpTeid teid, ue_ip_addr = V4 ue_ipv4\<rparr>,
                            pp1\<lparr>uplink_forwarding_table := t\<rparr>)))"

definition commit_userplane_session ::
    "userplane_session \<Rightarrow> gtp_tunnel \<Rightarrow> 'p packet_processor \<Rightarrow> ((up_error + unit) \<times> 'p packet_processor) option" where
  "commit_userplane_session session remote pp =
     (case ue_ip_addr session of
        V6 _ \<Rightarrow> Some (Inl Ipv6NotImplemented, pp)
      | V4 ue_ipv4 \<Rightarrow>
          (case downlink_add_rule (downlink_forwarding_table pp) remote ue_ipv4 of
             None \<Rightarrow> None
           | Some t \<Rightarrow> Some (Inr (), pp\<lparr>downlink_forwarding_table := t\<rparr>)))"

definition delete_userplane_session ::
    "userplane_session \<Rightarrow> 'p packet_processor \<Rightarrow> 'p packet_processor option" where
  "delete_userplane_session session pp =
     (case (case ue_ip_addr session of
              V4 ue_ipv4 \<Rightarrow>
                map_option (\<lambda>t. pp\<lparr>downlink_forwarding_table := t\<rparr>)
                  (downlink_remove_rule (downlink_forwarding_table pp) ue_ipv4)
            | V6 _ \<Rightarrow> Some pp) of
        None \<Rightarrow> None
      | Some pp1 \<Rightarrow>
          map_option (\<lambda>t. pp1\<lparr>uplink_forwarding_table := t\<rparr>)
            (uplink_remove_rule (uplink_forwarding_table pp1) (teid_bytes (uplink_gtp_teid session))))"

section \<open>What the index pool promises\<close>

locale index_pool_spec =
  fixes new_id :: "'p \<Rightarrow> nat \<times> 'p"
    and request_id :: "nat \<Rightarrow> 'p \<Rightarrow> 'p"
    and in_use :: "'p \<Rightarrow> nat set"
    and pool_new :: 'p
  assumes new_id_fresh: "fst (new_id p) \<notin> in_use p"
    and new_id_used: "in_use (snd (new_id p)) = insert (fst (new_id p)) (in_use p)"
    and request_id_used: "in_use (request_id i p) = insert i (in_use p)"
    and pool_new_used: "in_use pool_new = {}"

text \<open>
  A pool that keeps the indices in use as a list and hands out the least one that is free: the
  instance the examples run on.
\<close>

fun least_free :: "nat list \<Rightarrow> nat \<Rightarrow> nat \<Rightarrow> nat" where
  "least_free used i 0 = i"
| "least_free used i (Suc n) = (if i \<in> set used then least_free used (Suc i) n else i)"

definition list_pool_new_id :: "nat list \<Rightarrow> nat \<times> nat list" where
  "list_pool_new_id used = (let i = least_free used 0 (length used) in (i, i # used))"

definition list_pool_request_id :: "nat \<Rightarrow> nat list \<Rightarrow> nat list" where
  "list_pool_request_id i used = (if i \<in> set used then used else i # used)"

lemma least_free_below: "j \<in> {i..<least_free used i n} \<Longrightarrow> j \<in> set used"
proof (induction used i n rule: least_free.induct)
  case (2 used i n)
  show ?case
  proof (cases "j = i")
    case True
    with 2 show ?thesis by (auto split: if_splits)
  next
    case False
    with 2 show ?thesis by (auto split: if_splits)
  qed
qed simp

lemma least_free_end: "least_free used i n \<in> set used \<Longrightarrow> least_free used i n = i + n"
  by (induction used i n rule: least_free.induct) (auto split: if_splits)

lemma least_free_fresh: "least_free used 0 (length used) \<notin> set used"
proof
  let ?k = "least_free used 0 (length used)"
  assume used: "?k \<in> set used"
  then have "?k = length used" using least_free_end by fastforce
  moreover have "{0..<?k} \<subseteq> set used" using least_free_below by blast
  ultimately have "insert (length used) {0..<length used} \<subseteq> set used" using used by auto
  then have "card (insert (length used) {0..<length used}) \<le> card (set used)"
    by (rule card_mono [rotated]) simp
  also have "\<dots> \<le> length used" by (rule card_length)
  finally show False by simp
qed

interpretation list_pool: index_pool_spec list_pool_new_id list_pool_request_id set "[]"
  by unfold_locales
    (auto simp: list_pool_new_id_def list_pool_request_id_def Let_def least_free_fresh)

section \<open>The contract of the session store\<close>

text \<open>What the data plane does for a TEID and for a UE address.\<close>

definition ul_active :: "'p packet_processor \<Rightarrow> arr4 \<Rightarrow> bool" where
  "ul_active pp teid \<longleftrightarrow>
     rs_get (uplink_forwarding_table pp) (unat (arr4_3 teid)) = Some (Some \<lparr>local_teid = teid\<rparr>)"

definition dl_route :: "'p packet_processor \<Rightarrow> arr4 \<Rightarrow> gtp_tunnel option" where
  "dl_route pp ip =
     (case rs_get (downlink_forwarding_table pp) (unat (arr4_3 ip)) of
        Some (Some rule) \<Rightarrow> if rule_ue_ip rule = V4 ip then Some (remote_tunnel_info rule) else None
      | _ \<Rightarrow> None)"

abbreviation session_teid :: "userplane_session \<Rightarrow> arr4" where
  "session_teid u \<equiv> teid_bytes (uplink_gtp_teid u)"

fun session_ip :: "userplane_session \<Rightarrow> arr4" where
  "session_ip u = (case ue_ip_addr u of V4 ip \<Rightarrow> ip | V6 _ \<Rightarrow> Arr4 0 0 0 0)"

text \<open>
  The contract a UE procedure relies on, over any store of sessions: a reserved session has a fresh
  TEID and a fresh address, committing routes exactly its address, deleting silences exactly this
  session.  \<open>valid\<close> is the store's own invariant, \<open>owns\<close> says that a session was handed out
  by the store and not deleted since.
\<close>

locale userplane_sessions =
  fixes valid :: "'s \<Rightarrow> bool"
    and owns :: "'s \<Rightarrow> userplane_session \<Rightarrow> bool"
    and active :: "'s \<Rightarrow> arr4 \<Rightarrow> bool"
    and route :: "'s \<Rightarrow> arr4 \<Rightarrow> gtp_tunnel option"
    and reserve :: "u8 \<times> u8 \<times> u8 \<Rightarrow> 's \<Rightarrow> ((up_error + userplane_session) \<times> 's) option"
    and commit :: "userplane_session \<Rightarrow> gtp_tunnel \<Rightarrow> 's \<Rightarrow> ((up_error + unit) \<times> 's) option"
    and delete :: "userplane_session \<Rightarrow> 's \<Rightarrow> 's option"
  assumes reserve_total: "valid s \<Longrightarrow> \<exists>r s'. reserve rnd s = Some (r, s') \<and> valid s'"
    and reserve_ok: "valid s \<Longrightarrow> reserve rnd s = Some (Inr u, s') \<Longrightarrow>
      owns s' u \<and> \<not> active s (session_teid u) \<and> route s (session_ip u) = None
      \<and> active s' = (active s)(session_teid u := True) \<and> route s' = route s
      \<and> (\<forall>v. owns s v \<longrightarrow> owns s' v \<and> session_teid v \<noteq> session_teid u \<and> session_ip v \<noteq> session_ip u)"
    and reserve_err: "valid s \<Longrightarrow> reserve rnd s = Some (Inl e, s') \<Longrightarrow>
      e = NoMoreSlots \<and> active s' = active s \<and> route s' = route s \<and> owns s' = owns s"
    and commit_ok: "valid s \<Longrightarrow> owns s u \<Longrightarrow> \<exists>s'. commit u tun s = Some (Inr (), s') \<and> valid s'
      \<and> active s' = active s \<and> route s' = (route s)(session_ip u \<mapsto> tun) \<and> owns s' = owns s"
    and delete_ok: "valid s \<Longrightarrow> owns s u \<Longrightarrow> \<exists>s'. delete u s = Some s' \<and> valid s'
      \<and> active s' = (active s)(session_teid u := False) \<and> route s' = (route s)(session_ip u := None)
      \<and> (\<forall>v. owns s' v \<longrightarrow> owns s v) \<and> (\<forall>v. owns s v \<longrightarrow> session_teid v \<noteq> session_teid u \<longrightarrow> owns s' v)"
    and owns_active: "valid s \<Longrightarrow> owns s u \<Longrightarrow> active s (session_teid u)"
begin

text \<open>A session that is reserved, committed and deleted again leaves no trace in the data plane.\<close>

lemma session_life_cycle:
  assumes "valid s" and "reserve rnd s = Some (Inr u, s1)"
  shows "\<exists>s2 s3. commit u tun s1 = Some (Inr (), s2) \<and> active s2 (session_teid u)
    \<and> route s2 (session_ip u) = Some tun \<and> delete u s2 = Some s3 \<and> valid s3
    \<and> active s3 = active s \<and> route s3 = route s"
proof -
  from reserve_total [OF assms(1), of rnd] assms(2) have v1: "valid s1" by auto
  from reserve_ok [OF assms] have r: "owns s1 u" "\<not> active s (session_teid u)"
    "route s (session_ip u) = None" "active s1 = (active s)(session_teid u := True)" "route s1 = route s"
    by auto
  from commit_ok [OF v1 r(1), of tun] obtain s2 where c: "commit u tun s1 = Some (Inr (), s2)" "valid s2"
    "active s2 = active s1" "route s2 = (route s1)(session_ip u \<mapsto> tun)" "owns s2 = owns s1" by blast
  with r(1) have "owns s2 u" by simp
  from delete_ok [OF c(2) this] obtain s3 where d: "delete u s2 = Some s3" "valid s3"
    "active s3 = (active s2)(session_teid u := False)" "route s3 = (route s2)(session_ip u := None)"
    by blast
  with c r show ?thesis
    by (intro exI [of _ s2] exI [of _ s3]) (auto simp: fun_eq_iff)
qed

end

section \<open>The packet processor keeps the contract\<close>

text \<open>
  The invariant: both tables keep their size, and a rule stands only in the slot its own TEID or
  address selects, a slot whose index the pool has handed out.
\<close>

definition subnet_ip :: "arr4 \<Rightarrow> nat \<Rightarrow> arr4" where
  "subnet_ip net i = Arr4 (arr4_0 net) (arr4_1 net) (arr4_2 net) (word_of_nat i)"

definition ul_table_ok :: "nat set \<Rightarrow> uplink_table \<Rightarrow> bool" where
  "ul_table_ok used t \<longleftrightarrow> length t = MAX_UES \<and>
     (\<forall>i < MAX_UES. \<forall>r. t ! i = Some r \<longrightarrow> unat (arr4_3 (local_teid r)) = i \<and> i \<in> used)"

definition dl_table_ok :: "nat set \<Rightarrow> arr4 \<Rightarrow> downlink_table \<Rightarrow> bool" where
  "dl_table_ok used net t \<longleftrightarrow> length t = MAX_UES \<and>
     (\<forall>i < MAX_UES. \<forall>r. t ! i = Some r \<longrightarrow> rule_ue_ip r = V4 (subnet_ip net i) \<and> i \<in> used)"

definition pp_inv :: "('p \<Rightarrow> nat set) \<Rightarrow> 'p packet_processor \<Rightarrow> bool" where
  "pp_inv in_use pp \<longleftrightarrow>
     0 \<in> in_use (index_pool pp)
     \<and> ul_table_ok (in_use (index_pool pp)) (uplink_forwarding_table pp)
     \<and> dl_table_ok (in_use (index_pool pp)) (ue_subnet pp) (downlink_forwarding_table pp)"

definition owns_session :: "'p packet_processor \<Rightarrow> userplane_session \<Rightarrow> bool" where
  "owns_session pp u \<longleftrightarrow> ul_active pp (session_teid u) \<and>
     ue_ip_addr u = V4 (subnet_ip (ue_subnet pp) (unat (arr4_3 (session_teid u))))"

lemma unat_slot: "i < MAX_UES \<Longrightarrow> unat (word_of_nat i :: u8) = i"
  by (simp add: userplane_consts unat_of_nat)

lemma subnet_ip_3 [simp]: "arr4_3 (subnet_ip net i) = word_of_nat i"
  by (simp add: subnet_ip_def)

lemma subnet_ip_inj: "subnet_ip net (unat (a :: u8)) = subnet_ip net (unat b) \<longleftrightarrow> a = b"
  by (simp add: subnet_ip_def)

lemma ul_table_ok_new: "ul_table_ok used uplink_table_new"
  by (simp add: ul_table_ok_def uplink_table_new_def)

lemma dl_table_ok_new: "dl_table_ok used net downlink_table_new"
  by (simp add: dl_table_ok_def downlink_table_new_def)

lemma ul_table_ok_mono: "ul_table_ok used t \<Longrightarrow> used \<subseteq> used' \<Longrightarrow> ul_table_ok used' t"
  by (auto simp: ul_table_ok_def)

lemma dl_table_ok_mono: "dl_table_ok used net t \<Longrightarrow> used \<subseteq> used' \<Longrightarrow> dl_table_ok used' net t"
  by (auto simp: dl_table_ok_def)

lemma ul_table_ok_free: "ul_table_ok used t \<Longrightarrow> i \<notin> used \<Longrightarrow> i < MAX_UES \<Longrightarrow> t ! i = None"
  unfolding ul_table_ok_def by (metis not_None_eq)

lemma dl_table_ok_free: "dl_table_ok used net t \<Longrightarrow> i \<notin> used \<Longrightarrow> i < MAX_UES \<Longrightarrow> t ! i = None"
  unfolding dl_table_ok_def by (metis not_None_eq)

lemma ul_table_ok_set:
  "ul_table_ok used t \<Longrightarrow> (\<And>r. x = Some r \<Longrightarrow> unat (arr4_3 (local_teid r)) = i \<and> i \<in> used)
   \<Longrightarrow> ul_table_ok used (t[i := x])"
  by (cases "i < length t") (auto simp: ul_table_ok_def nth_list_update split: if_splits)

lemma dl_table_ok_set:
  "dl_table_ok used net t \<Longrightarrow> (\<And>r. x = Some r \<Longrightarrow> rule_ue_ip r = V4 (subnet_ip net i) \<and> i \<in> used)
   \<Longrightarrow> dl_table_ok used net (t[i := x])"
  by (cases "i < length t") (auto simp: dl_table_ok_def nth_list_update split: if_splits)

lemma ul_active_slot:
  "ul_active pp teid \<longleftrightarrow> unat (arr4_3 teid) < length (uplink_forwarding_table pp)
     \<and> uplink_forwarding_table pp ! unat (arr4_3 teid) = Some \<lparr>local_teid = teid\<rparr>"
  by (auto simp: ul_active_def rs_simps)

text \<open>What an update of one slot does to the two views.\<close>

lemma ul_active_update:
  assumes "length (uplink_forwarding_table pp) = MAX_UES" and "unat (arr4_3 teid) < MAX_UES"
    and "uplink_forwarding_table pp ! unat (arr4_3 teid) \<in> {None, Some \<lparr>local_teid = teid\<rparr>}"
    and "x = None \<or> x = Some \<lparr>local_teid = teid\<rparr>"
  shows "ul_active (pp\<lparr>uplink_forwarding_table := (uplink_forwarding_table pp)[unat (arr4_3 teid) := x]\<rparr>)
    = (ul_active pp)(teid := (x \<noteq> None))"
proof
  fix t
  show "ul_active (pp\<lparr>uplink_forwarding_table := (uplink_forwarding_table pp)[unat (arr4_3 teid) := x]\<rparr>) t
    = ((ul_active pp)(teid := (x \<noteq> None))) t"
    using assms by (cases "arr4_3 t = arr4_3 teid") (auto simp: ul_active_slot nth_list_update)
qed

lemma dl_route_update:
  assumes "dl_table_ok used (ue_subnet pp) (downlink_forwarding_table pp)" and "i < MAX_UES"
    and "x = None \<or> (\<exists>r. x = Some r \<and> rule_ue_ip r = V4 (subnet_ip (ue_subnet pp) i))"
  shows "dl_route (pp\<lparr>downlink_forwarding_table := (downlink_forwarding_table pp)[i := x]\<rparr>)
    = (dl_route pp)(subnet_ip (ue_subnet pp) i := map_option remote_tunnel_info x)"
proof
  fix ip
  have len: "length (downlink_forwarding_table pp) = MAX_UES"
    using assms(1) by (simp add: dl_table_ok_def)
  have slot: "unat (word_of_nat i :: u8) = i" by (rule unat_slot [OF assms(2)])
  show "dl_route (pp\<lparr>downlink_forwarding_table := (downlink_forwarding_table pp)[i := x]\<rparr>) ip
    = ((dl_route pp)(subnet_ip (ue_subnet pp) i := map_option remote_tunnel_info x)) ip"
  proof (cases "unat (arr4_3 ip) = i")
    case False
    then have "ip \<noteq> subnet_ip (ue_subnet pp) i" using slot by auto
    with False show ?thesis by (simp add: dl_route_def rs_get_def len)
  next
    case True
    have "dl_route pp ip = None" if "ip \<noteq> subnet_ip (ue_subnet pp) i"
      using assms(1,2) True that
      by (auto simp: dl_route_def rs_get_def dl_table_ok_def split: option.splits)
    with True assms(2,3) show ?thesis
      by (auto simp: dl_route_def rs_get_def len split: option.splits)
  qed
qed

text \<open>The three operations under the invariant, one equation per branch.\<close>

lemma reserve_eq:
  assumes "pp_inv in_use pp" and "new_id (index_pool pp) = (i, pool')"
  shows "reserve_userplane_session new_id (r0, r1, r2) pp =
    (if i < MAX_UES
     then Some (Inr \<lparr>qfi = 0, uplink_gtp_teid = GtpTeid (Arr4 r0 r1 r2 (word_of_nat i)),
                   ue_ip_addr = V4 (subnet_ip (ue_subnet pp) i)\<rparr>,
            pp\<lparr>index_pool := pool', uplink_forwarding_table :=
               (uplink_forwarding_table pp)[i := Some \<lparr>local_teid = Arr4 r0 r1 r2 (word_of_nat i)\<rparr>]\<rparr>)
     else Some (Inl NoMoreSlots, pp\<lparr>index_pool := pool'\<rparr>))"
  using assms unat_slot [of i]
  by (auto simp: reserve_userplane_session_def uplink_add_rule_eq subnet_ip_def pp_inv_def ul_table_ok_def Let_def)

lemma owns_slot:
  assumes "pp_inv in_use pp" and "owns_session pp u"
  obtains i where "i < MAX_UES" "i \<in> in_use (index_pool pp)" "unat (arr4_3 (session_teid u)) = i"
    "ue_ip_addr u = V4 (subnet_ip (ue_subnet pp) i)" "session_ip u = subnet_ip (ue_subnet pp) i"
    "uplink_forwarding_table pp ! i = Some \<lparr>local_teid = session_teid u\<rparr>"
    "length (uplink_forwarding_table pp) = MAX_UES" "length (downlink_forwarding_table pp) = MAX_UES"
proof -
  from assms(1) have ok: "ul_table_ok (in_use (index_pool pp)) (uplink_forwarding_table pp)"
    and dl: "length (downlink_forwarding_table pp) = MAX_UES"
    by (simp_all add: pp_inv_def dl_table_ok_def)
  from assms(2) have act: "ul_active pp (session_teid u)"
    and ip: "ue_ip_addr u = V4 (subnet_ip (ue_subnet pp) (unat (arr4_3 (session_teid u))))"
    by (simp_all add: owns_session_def)
  from act ok dl ip show ?thesis
    by (intro that [of "unat (arr4_3 (session_teid u))"]) (auto simp: ul_active_slot ul_table_ok_def)
qed

lemma commit_eq:
  assumes "pp_inv in_use pp" and "owns_session pp u"
  shows "commit_userplane_session u tun pp =
    Some (Inr (), pp\<lparr>downlink_forwarding_table := (downlink_forwarding_table pp)
      [unat (arr4_3 (session_teid u)) := Some \<lparr>remote_tunnel_info = tun, rule_ue_ip = ue_ip_addr u,
         pdcp_seq_num = 0, nr_seq_num = 0\<rparr>]\<rparr>)"
proof -
  from assms obtain i where i: "i < MAX_UES" "unat (arr4_3 (session_teid u)) = i"
    "ue_ip_addr u = V4 (subnet_ip (ue_subnet pp) i)" "length (downlink_forwarding_table pp) = MAX_UES"
    by (rule owns_slot)
  then show ?thesis
    using unat_slot [OF i(1)]
    by (simp add: commit_userplane_session_def downlink_add_rule_def downlink_table_index_from_ip_def)
qed

lemma delete_eq:
  assumes "pp_inv in_use pp" and "owns_session pp u"
  shows "delete_userplane_session u pp =
    Some (pp\<lparr>downlink_forwarding_table := (downlink_forwarding_table pp)[unat (arr4_3 (session_teid u)) := None],
             uplink_forwarding_table := (uplink_forwarding_table pp)[unat (arr4_3 (session_teid u)) := None]\<rparr>)"
proof -
  from assms obtain i where i: "i < MAX_UES" "unat (arr4_3 (session_teid u)) = i"
    "ue_ip_addr u = V4 (subnet_ip (ue_subnet pp) i)" "length (downlink_forwarding_table pp) = MAX_UES"
    "length (uplink_forwarding_table pp) = MAX_UES"
    by (rule owns_slot)
  then show ?thesis
    using unat_slot [OF i(1)]
    by (simp add: delete_userplane_session_def downlink_remove_rule_def uplink_remove_rule_eq
        downlink_table_index_from_ip_def)
qed

lemma ul_active_cong: "uplink_forwarding_table p = uplink_forwarding_table q \<Longrightarrow> ul_active p = ul_active q"
  by (simp add: ul_active_def fun_eq_iff)

lemma dl_route_cong: "downlink_forwarding_table p = downlink_forwarding_table q \<Longrightarrow> dl_route p = dl_route q"
  by (simp add: dl_route_def fun_eq_iff)

lemma commit_contract:
  assumes "pp_inv in_use pp" and "owns_session pp u"
  shows "\<exists>pp'. commit_userplane_session u tun pp = Some (Inr (), pp') \<and> pp_inv in_use pp'
    \<and> ul_active pp' = ul_active pp \<and> dl_route pp' = (dl_route pp)(session_ip u \<mapsto> tun)
    \<and> owns_session pp' = owns_session pp \<and> index_pool pp' = index_pool pp"
proof -
  from assms obtain i where i: "i < MAX_UES" "i \<in> in_use (index_pool pp)" "unat (arr4_3 (session_teid u)) = i"
    "ue_ip_addr u = V4 (subnet_ip (ue_subnet pp) i)" "session_ip u = subnet_ip (ue_subnet pp) i"
    by (rule owns_slot)
  let ?x = "Some \<lparr>remote_tunnel_info = tun, rule_ue_ip = ue_ip_addr u, pdcp_seq_num = 0, nr_seq_num = 0\<rparr>"
  let ?pp = "pp\<lparr>downlink_forwarding_table := (downlink_forwarding_table pp)[i := ?x]\<rparr>"
  from assms(1) have dl: "dl_table_ok (in_use (index_pool pp)) (ue_subnet pp) (downlink_forwarding_table pp)"
    by (simp add: pp_inv_def)
  have "dl_table_ok (in_use (index_pool pp)) (ue_subnet pp) ((downlink_forwarding_table pp)[i := ?x])"
    using i by (intro dl_table_ok_set [OF dl]) auto
  then have "pp_inv in_use ?pp" using assms(1) by (simp add: pp_inv_def)
  moreover have "dl_route ?pp = (dl_route pp)(session_ip u \<mapsto> tun)"
    using dl_route_update [OF dl i(1), of ?x] i by simp
  moreover have "ul_active ?pp = ul_active pp" by (rule ul_active_cong) simp
  moreover from this have "owns_session ?pp = owns_session pp"
    by (simp add: owns_session_def fun_eq_iff)
  ultimately show ?thesis using commit_eq [OF assms, of tun] i(3) by simp
qed

lemma delete_contract:
  assumes "pp_inv in_use pp" and "owns_session pp u"
  shows "\<exists>pp'. delete_userplane_session u pp = Some pp' \<and> pp_inv in_use pp'
    \<and> ul_active pp' = (ul_active pp)(session_teid u := False)
    \<and> dl_route pp' = (dl_route pp)(session_ip u := None)
    \<and> (\<forall>v. owns_session pp' v \<longleftrightarrow> owns_session pp v \<and> session_teid v \<noteq> session_teid u)
    \<and> index_pool pp' = index_pool pp"
proof -
  from assms obtain i where i: "i < MAX_UES" "i \<in> in_use (index_pool pp)" "unat (arr4_3 (session_teid u)) = i"
    "ue_ip_addr u = V4 (subnet_ip (ue_subnet pp) i)" "session_ip u = subnet_ip (ue_subnet pp) i"
    "uplink_forwarding_table pp ! i = Some \<lparr>local_teid = session_teid u\<rparr>"
    "length (uplink_forwarding_table pp) = MAX_UES"
    by (rule owns_slot)
  let ?p1 = "pp\<lparr>downlink_forwarding_table := (downlink_forwarding_table pp)[i := None]\<rparr>"
  let ?pp = "?p1\<lparr>uplink_forwarding_table := (uplink_forwarding_table ?p1)[i := None]\<rparr>"
  from assms(1) have dl: "dl_table_ok (in_use (index_pool pp)) (ue_subnet pp) (downlink_forwarding_table pp)"
    and ul: "ul_table_ok (in_use (index_pool pp)) (uplink_forwarding_table pp)"
    by (simp_all add: pp_inv_def)
  have inv: "pp_inv in_use ?pp"
    using assms(1) dl_table_ok_set [OF dl, of None i] ul_table_ok_set [OF ul, of None i]
    by (simp add: pp_inv_def)
  have "dl_route ?pp = dl_route ?p1" by (rule dl_route_cong) simp
  also have "\<dots> = (dl_route pp)(session_ip u := None)"
    using dl_route_update [OF dl i(1), of None] i by simp
  finally have route: "dl_route ?pp = (dl_route pp)(session_ip u := None)" .
  have "ul_active ?pp = (ul_active ?p1)(session_teid u := False)"
    using ul_active_update [of ?p1 "session_teid u" None] i by simp
  moreover have "ul_active ?p1 = ul_active pp" by (rule ul_active_cong) simp
  ultimately have act: "ul_active ?pp = (ul_active pp)(session_teid u := False)" by simp
  then have "owns_session ?pp v \<longleftrightarrow> owns_session pp v \<and> session_teid v \<noteq> session_teid u" for v
    by (auto simp: owns_session_def)
  with inv route act show ?thesis using delete_eq [OF assms] i(3) by (intro exI [of _ ?pp]) simp
qed

context index_pool_spec
begin

lemma pp_inv_new: "pp_inv in_use (packet_processor_new request_id pool_new net)"
  by (simp add: pp_inv_def packet_processor_new_def request_id_used ul_table_ok_new dl_table_ok_new)

lemma pp_inv_pool:
  assumes "pp_inv in_use pp" and "in_use (index_pool pp) \<subseteq> in_use pool'"
  shows "pp_inv in_use (pp\<lparr>index_pool := pool'\<rparr>)"
  using assms ul_table_ok_mono dl_table_ok_mono by (fastforce simp: pp_inv_def)

lemma reserve_no_slot:
  assumes "pp_inv in_use pp" and "reserve_userplane_session new_id rnd pp = Some (Inl e, pp')"
  shows "e = NoMoreSlots \<and> pp_inv in_use pp' \<and> ul_active pp' = ul_active pp \<and> dl_route pp' = dl_route pp
    \<and> owns_session pp' = owns_session pp \<and> in_use (index_pool pp) \<subseteq> in_use (index_pool pp')
    \<and> MAX_UES \<le> fst (new_id (index_pool pp))"
proof -
  obtain i pool' where n: "new_id (index_pool pp) = (i, pool')" by fastforce
  obtain r0 r1 r2 where r: "rnd = (r0, r1, r2)" by (cases rnd)
  from assms(2) reserve_eq [OF assms(1), where new_id = new_id, OF n] have "e = NoMoreSlots" "\<not> i < MAX_UES"
    "pp' = pp\<lparr>index_pool := pool'\<rparr>"
    by (auto simp: r split: if_splits)
  moreover have "in_use (index_pool pp) \<subseteq> in_use pool'" using new_id_used [of "index_pool pp"] n by auto
  ultimately show ?thesis using assms(1) n
    by (auto simp: fun_eq_iff ul_active_def dl_route_def owns_session_def intro: pp_inv_pool)
qed

lemma reserve_slot:
  assumes "pp_inv in_use pp" and "reserve_userplane_session new_id rnd pp = Some (Inr u, pp')"
  obtains i where "i < MAX_UES" "i \<notin> in_use (index_pool pp)"
    "in_use (index_pool pp') = insert i (in_use (index_pool pp))"
    "session_teid u = (case rnd of (r0, r1, r2) \<Rightarrow> Arr4 r0 r1 r2 (word_of_nat i))"
    "ue_ip_addr u = V4 (subnet_ip (ue_subnet pp) i)" "qfi u = 0" "ue_subnet pp' = ue_subnet pp"
    "downlink_forwarding_table pp' = downlink_forwarding_table pp"
    "uplink_forwarding_table pp' = (uplink_forwarding_table pp)[i := Some \<lparr>local_teid = session_teid u\<rparr>]"
proof -
  obtain i pool' where n: "new_id (index_pool pp) = (i, pool')" by fastforce
  obtain r0 r1 r2 where r: "rnd = (r0, r1, r2)" by (cases rnd)
  have "i \<notin> in_use (index_pool pp)" "in_use pool' = insert i (in_use (index_pool pp))"
    using new_id_fresh [of "index_pool pp"] new_id_used [of "index_pool pp"] n by auto
  with assms(2) reserve_eq [OF assms(1), where new_id = new_id, OF n] show ?thesis
    by (intro that [of i]) (auto simp: r split: if_splits)
qed

lemma reserve_contract:
  assumes "pp_inv in_use pp" and "reserve_userplane_session new_id rnd pp = Some (Inr u, pp')"
  shows "pp_inv in_use pp' \<and> owns_session pp' u
    \<and> \<not> ul_active pp (session_teid u) \<and> dl_route pp (session_ip u) = None
    \<and> ul_active pp' = (ul_active pp)(session_teid u := True) \<and> dl_route pp' = dl_route pp
    \<and> (\<forall>v. owns_session pp v \<longrightarrow> owns_session pp' v \<and> session_teid v \<noteq> session_teid u
          \<and> session_ip v \<noteq> session_ip u)"
proof -
  from assms obtain i where i: "i < MAX_UES" "i \<notin> in_use (index_pool pp)"
    "in_use (index_pool pp') = insert i (in_use (index_pool pp))"
    "session_teid u = (case rnd of (r0, r1, r2) \<Rightarrow> Arr4 r0 r1 r2 (word_of_nat i))"
    "ue_ip_addr u = V4 (subnet_ip (ue_subnet pp) i)" "ue_subnet pp' = ue_subnet pp"
    "downlink_forwarding_table pp' = downlink_forwarding_table pp"
    "uplink_forwarding_table pp' = (uplink_forwarding_table pp)[i := Some \<lparr>local_teid = session_teid u\<rparr>]"
    by (rule reserve_slot)
  from assms(1) have ul: "ul_table_ok (in_use (index_pool pp)) (uplink_forwarding_table pp)"
    and dl: "dl_table_ok (in_use (index_pool pp)) (ue_subnet pp) (downlink_forwarding_table pp)"
    and zero: "0 \<in> in_use (index_pool pp)"
    by (simp_all add: pp_inv_def)
  have idx: "unat (arr4_3 (session_teid u)) = i" "unat (word_of_nat i :: u8) = i"
    using i(1) by (auto simp: i(4) unat_slot split: prod.split)
  have empty: "uplink_forwarding_table pp ! i = None" "downlink_forwarding_table pp ! i = None"
    using ul_table_ok_free [OF ul i(2,1)] dl_table_ok_free [OF dl i(2,1)] by auto
  have lens: "length (uplink_forwarding_table pp) = MAX_UES" "length (downlink_forwarding_table pp) = MAX_UES"
    using ul dl by (auto simp: ul_table_ok_def dl_table_ok_def)
  have "ul_table_ok (insert i (in_use (index_pool pp))) (uplink_forwarding_table pp')"
    unfolding i(8) by (rule ul_table_ok_set) (use idx ul_table_ok_mono [OF ul] in auto)
  moreover have "dl_table_ok (insert i (in_use (index_pool pp))) (ue_subnet pp) (downlink_forwarding_table pp')"
    unfolding i(7) by (rule dl_table_ok_mono [OF dl]) blast
  ultimately have inv: "pp_inv in_use pp'" using zero by (simp add: pp_inv_def i)
  have "ul_active pp' = ul_active
      (pp\<lparr>uplink_forwarding_table := (uplink_forwarding_table pp)[unat (arr4_3 (session_teid u)) := Some \<lparr>local_teid = session_teid u\<rparr>]\<rparr>)"
    by (rule ul_active_cong) (simp add: i(8) idx)
  also have "\<dots> = (ul_active pp)(session_teid u := True)"
    by (subst ul_active_update) (use lens idx i(1) empty in auto)
  finally have act: "ul_active pp' = (ul_active pp)(session_teid u := True)" .
  have inactive: "\<not> ul_active pp (session_teid u)" using empty idx by (simp add: ul_active_slot)
  have "dl_route pp' = dl_route pp" by (rule dl_route_cong) (rule i(7))
  moreover have "dl_route pp (session_ip u) = None"
    using i(1,5) idx(2) lens empty by (simp add: dl_route_def rs_get_def)
  moreover have "session_teid v \<noteq> session_teid u \<and> session_ip v \<noteq> session_ip u" if "owns_session pp v" for v
  proof -
    from assms(1) that obtain j where "j < MAX_UES" "j \<in> in_use (index_pool pp)"
      "unat (arr4_3 (session_teid v)) = j" "session_ip v = subnet_ip (ue_subnet pp) j"
      by (rule owns_slot)
    then show ?thesis using i(2,5) idx unat_slot [of j] by (auto simp: subnet_ip_def)
  qed
  ultimately show ?thesis using inv act inactive i(5,6) idx by (auto simp: owns_session_def)
qed

end

sublocale index_pool_spec \<subseteq> pp: userplane_sessions "pp_inv in_use" owns_session ul_active dl_route
  "reserve_userplane_session new_id" commit_userplane_session delete_userplane_session
proof
  fix pp and rnd :: "u8 \<times> u8 \<times> u8"
  assume inv: "pp_inv in_use pp"
  obtain i pool' where n: "new_id (index_pool pp) = (i, pool')" by fastforce
  obtain r0 r1 r2 where r: "rnd = (r0, r1, r2)" by (cases rnd)
  have "reserve_userplane_session new_id rnd pp \<noteq> None"
    using reserve_eq [OF inv, where new_id = new_id, OF n] by (simp add: r)
  then obtain x s' where x: "reserve_userplane_session new_id rnd pp = Some (x, s')" by fastforce
  moreover have "pp_inv in_use s'"
    using x reserve_no_slot [OF inv] reserve_contract [OF inv] by (cases x) auto
  ultimately show "\<exists>r s'. reserve_userplane_session new_id rnd pp = Some (r, s') \<and> pp_inv in_use s'" by blast
next
  fix pp :: "'p packet_processor" and u tun
  assume "pp_inv in_use pp" "owns_session pp u"
  from commit_contract [OF this] show "\<exists>s'. commit_userplane_session u tun pp = Some (Inr (), s') \<and> pp_inv in_use s'
      \<and> ul_active s' = ul_active pp \<and> dl_route s' = (dl_route pp)(session_ip u \<mapsto> tun)
      \<and> owns_session s' = owns_session pp"
    by blast
next
  fix pp :: "'p packet_processor" and u
  assume "pp_inv in_use pp" "owns_session pp u"
  from delete_contract [OF this] show "\<exists>s'. delete_userplane_session u pp = Some s' \<and> pp_inv in_use s'
      \<and> ul_active s' = (ul_active pp)(session_teid u := False)
      \<and> dl_route s' = (dl_route pp)(session_ip u := None)
      \<and> (\<forall>v. owns_session s' v \<longrightarrow> owns_session pp v)
      \<and> (\<forall>v. owns_session pp v \<longrightarrow> session_teid v \<noteq> session_teid u \<longrightarrow> owns_session s' v)"
    by blast
next
  fix pp and rnd :: "u8 \<times> u8 \<times> u8" and u s'
  assume "pp_inv in_use pp" "reserve_userplane_session new_id rnd pp = Some (Inr u, s')"
  from reserve_contract [OF this] show "owns_session s' u \<and> \<not> ul_active pp (session_teid u)
      \<and> dl_route pp (session_ip u) = None
      \<and> ul_active s' = (ul_active pp)(session_teid u := True) \<and> dl_route s' = dl_route pp
      \<and> (\<forall>v. owns_session pp v \<longrightarrow> owns_session s' v \<and> session_teid v \<noteq> session_teid u
           \<and> session_ip v \<noteq> session_ip u)"
    by blast
next
  fix pp and rnd :: "u8 \<times> u8 \<times> u8" and e s'
  assume "pp_inv in_use pp" "reserve_userplane_session new_id rnd pp = Some (Inl e, s')"
  from reserve_no_slot [OF this] show "e = NoMoreSlots \<and> ul_active s' = ul_active pp
      \<and> dl_route s' = dl_route pp \<and> owns_session s' = owns_session pp"
    by blast
next
  fix pp :: "'p packet_processor" and u
  assume "owns_session pp u"
  then show "ul_active pp (session_teid u)" by (simp add: owns_session_def)
qed

section \<open>Every interleaving of control plane and data plane\<close>

text \<open>
  The states of the shared user plane under any interleaving of the tasks that use it: UE
  procedures reserve sessions and commit or delete sessions that were handed out to them (even
  twice, even after a delete), and the downlink task handles packets.  The list records the
  sessions handed out so far.
\<close>

inductive userplane_reach ::
    "('p \<Rightarrow> nat \<times> 'p) \<Rightarrow> (nat \<Rightarrow> 'p \<Rightarrow> 'p) \<Rightarrow> 'p \<Rightarrow> arr4 \<Rightarrow> 'p packet_processor \<Rightarrow> userplane_session list \<Rightarrow> bool"
  for new_id request_id pool_new net where
  up_init: "userplane_reach new_id request_id pool_new net (packet_processor_new request_id pool_new net) []"
| up_reserve: "userplane_reach new_id request_id pool_new net pp h \<Longrightarrow>
    reserve_userplane_session new_id rnd pp = Some (Inr u, pp') \<Longrightarrow>
    userplane_reach new_id request_id pool_new net pp' (u # h)"
| up_full: "userplane_reach new_id request_id pool_new net pp h \<Longrightarrow>
    reserve_userplane_session new_id rnd pp = Some (Inl e, pp') \<Longrightarrow>
    userplane_reach new_id request_id pool_new net pp' h"
| up_commit: "userplane_reach new_id request_id pool_new net pp h \<Longrightarrow> u \<in> set h \<Longrightarrow>
    commit_userplane_session u tun pp = Some (r, pp') \<Longrightarrow>
    userplane_reach new_id request_id pool_new net pp' h"
| up_delete: "userplane_reach new_id request_id pool_new net pp h \<Longrightarrow> u \<in> set h \<Longrightarrow>
    delete_userplane_session u pp = Some pp' \<Longrightarrow>
    userplane_reach new_id request_id pool_new net pp' h"
| up_downlink: "userplane_reach new_id request_id pool_new net pp h \<Longrightarrow>
    handle_next_downlink_packet oc rx f1u_send (downlink_forwarding_table pp) p = (r, table', p', out) \<Longrightarrow>
    userplane_reach new_id request_id pool_new net (pp\<lparr>downlink_forwarding_table := table'\<rparr>) h"

text \<open>A session that was handed out: its slot is in use, and was never slot 0.\<close>

definition session_slot :: "userplane_session \<Rightarrow> nat" where
  "session_slot u = unat (arr4_3 (session_teid u))"

definition handed_out :: "nat set \<Rightarrow> arr4 \<Rightarrow> userplane_session \<Rightarrow> bool" where
  "handed_out used net u \<longleftrightarrow> session_slot u \<in> used - {0} \<and> session_slot u < MAX_UES
     \<and> ue_ip_addr u = V4 (subnet_ip net (session_slot u))"

lemma handed_out_commit:
  assumes "pp_inv in_use pp" and "handed_out (in_use (index_pool pp)) (ue_subnet pp) u"
  obtains t where "commit_userplane_session u tun pp = Some (Inr (), pp\<lparr>downlink_forwarding_table := t\<rparr>)"
    "pp_inv in_use (pp\<lparr>downlink_forwarding_table := t\<rparr>)"
proof -
  let ?t = "(downlink_forwarding_table pp)[session_slot u := Some \<lparr>remote_tunnel_info = tun,
    rule_ue_ip = ue_ip_addr u, pdcp_seq_num = 0, nr_seq_num = 0\<rparr>]"
  from assms have dl: "dl_table_ok (in_use (index_pool pp)) (ue_subnet pp) (downlink_forwarding_table pp)"
    by (simp add: pp_inv_def)
  have "dl_table_ok (in_use (index_pool pp)) (ue_subnet pp) ?t"
    using assms(2) by (intro dl_table_ok_set [OF dl]) (auto simp: handed_out_def)
  moreover have "commit_userplane_session u tun pp = Some (Inr (), pp\<lparr>downlink_forwarding_table := ?t\<rparr>)"
    using assms(2) dl unat_slot [of "session_slot u"]
    by (simp add: commit_userplane_session_def handed_out_def downlink_add_rule_def
        downlink_table_index_from_ip_def dl_table_ok_def)
  ultimately show ?thesis using assms(1) by (intro that [of ?t]) (auto simp: pp_inv_def)
qed

lemma handed_out_delete:
  assumes "pp_inv in_use pp" and "handed_out (in_use (index_pool pp)) (ue_subnet pp) u"
  obtains pp' where "delete_userplane_session u pp = Some pp'" "pp_inv in_use pp'"
    "index_pool pp' = index_pool pp" "ue_subnet pp' = ue_subnet pp"
proof -
  let ?i = "session_slot u"
  let ?pp = "pp\<lparr>downlink_forwarding_table := (downlink_forwarding_table pp)[?i := None],
                uplink_forwarding_table := (uplink_forwarding_table pp)[?i := None]\<rparr>"
  from assms have dl: "dl_table_ok (in_use (index_pool pp)) (ue_subnet pp) (downlink_forwarding_table pp)"
    and ul: "ul_table_ok (in_use (index_pool pp)) (uplink_forwarding_table pp)"
    by (simp_all add: pp_inv_def)
  have "pp_inv in_use ?pp"
    using assms(1) dl_table_ok_set [OF dl, of None ?i] ul_table_ok_set [OF ul, of None ?i]
    by (simp add: pp_inv_def)
  moreover have "delete_userplane_session u pp = Some ?pp"
    using assms(2) dl ul unat_slot [of ?i]
    by (simp add: delete_userplane_session_def handed_out_def downlink_remove_rule_def session_slot_def
        downlink_table_index_from_ip_def dl_table_ok_def ul_table_ok_def uplink_remove_rule_eq)
  ultimately show ?thesis by (intro that [of ?pp]) auto
qed

text \<open>The downlink task changes only sequence numbers.\<close>

text \<open>A downlink packet moves the sequence numbers of one rule at most.\<close>

definition same_rule :: "downlink_forwarding_rule \<Rightarrow> downlink_forwarding_rule \<Rightarrow> bool" where
  "same_rule entry entry' \<longleftrightarrow> rule_ue_ip entry' = rule_ue_ip entry \<and> remote_tunnel_info entry' = remote_tunnel_info entry"

lemma downlink_forward_table:
  assumes "downlink_forward oc snd_res table idx entry n p = (r, table', p', out)"
  shows "table' = table \<or> (\<exists>entry'. same_rule entry entry' \<and> table' = table[idx := Some entry'])"
proof -
  have same: "same_rule entry (entry\<lparr>pdcp_seq_num := x\<rparr>)" "same_rule entry (entry\<lparr>pdcp_seq_num := x, nr_seq_num := y\<rparr>)" for x y
    by (simp_all add: same_rule_def)
  have "table' \<in> {table} \<union> {table[idx := Some (entry\<lparr>pdcp_seq_num := x\<rparr>)] | x. True}
      \<union> {table[idx := Some (entry\<lparr>pdcp_seq_num := x, nr_seq_num := y\<rparr>)] | x y. True}"
    using assms by (auto simp: downlink_forward_def Let_def split: option.splits sum.splits)
  then show ?thesis using same by blast
qed

lemma downlink_step_table:
  assumes "handle_next_downlink_packet oc rx snd_res table p = (r, table', p', out)"
  shows "table' = table \<or> (\<exists>i entry entry'. i < length table \<and> table ! i = Some entry \<and> same_rule entry entry'
    \<and> table' = table[i := Some entry'])"
proof (cases rx)
  case (Inr pkt)
  obtain buf n where "read_at (dl_buf p) DOWNLINK_INNER_PACKET_OFFSET pkt = (buf, n)" by fastforce
  with assms Inr show ?thesis
    by (auto simp: handle_next_downlink_packet_def Let_def rs_get_def dest!: downlink_forward_table split: if_splits option.splits)
qed (use assms in \<open>simp add: handle_next_downlink_packet_def\<close>)

lemma downlink_step_table_ok:
  assumes "handle_next_downlink_packet oc rx snd_res table p = (r, table', p', out)"
    and "dl_table_ok used net table"
  shows "dl_table_ok used net table'"
proof -
  have "dl_table_ok used net (table[i := Some entry'])" if "table ! i = Some entry" "same_rule entry entry'" "i < length table" for i entry entry'
    by (rule dl_table_ok_set [OF assms(2)]) (use assms(2) that in \<open>auto simp: dl_table_ok_def same_rule_def\<close>)
  then show ?thesis using downlink_step_table [OF assms(1)] assms(2) by blast
qed

context index_pool_spec
begin

lemma reserve_handed_out:
  assumes "pp_inv in_use pp" and "reserve_userplane_session new_id rnd pp = Some (Inr u, pp')"
  shows "handed_out (in_use (index_pool pp')) (ue_subnet pp') u \<and> session_slot u \<notin> in_use (index_pool pp)
    \<and> in_use (index_pool pp') = insert (session_slot u) (in_use (index_pool pp)) \<and> ue_subnet pp' = ue_subnet pp"
proof -
  from assms obtain i where i: "i < MAX_UES" "i \<notin> in_use (index_pool pp)"
    "in_use (index_pool pp') = insert i (in_use (index_pool pp))"
    "session_teid u = (case rnd of (r0, r1, r2) \<Rightarrow> Arr4 r0 r1 r2 (word_of_nat i))"
    "ue_ip_addr u = V4 (subnet_ip (ue_subnet pp) i)" "ue_subnet pp' = ue_subnet pp"
    by (rule reserve_slot)
  moreover from i(1,4) have "session_slot u = i"
    by (auto simp: session_slot_def unat_slot split: prod.splits)
  moreover have "i \<noteq> 0" using assms(1) i(2) by (metis pp_inv_def)
  ultimately show ?thesis by (auto simp: handed_out_def)
qed

lemma reserve_never_panics: "pp_inv in_use pp \<Longrightarrow> reserve_userplane_session new_id rnd pp \<noteq> None"
  using pp.reserve_total by (metis option.simps(3))

lemma processor_life_cycle:
  assumes "pp_inv in_use s" and "reserve_userplane_session new_id rnd s = Some (Inr u, s1)"
  shows "\<exists>s2 s3. commit_userplane_session u tun s1 = Some (Inr (), s2) \<and> ul_active s2 (session_teid u)
    \<and> dl_route s2 (session_ip u) = Some tun \<and> delete_userplane_session u s2 = Some s3 \<and> pp_inv in_use s3
    \<and> ul_active s3 = ul_active s \<and> dl_route s3 = dl_route s"
  using assms by (rule pp.session_life_cycle)

lemma userplane_reach_inv:
  assumes "userplane_reach new_id request_id pool_new net pp h"
  shows "pp_inv in_use pp \<and> ue_subnet pp = net \<and> list_all (handed_out (in_use (index_pool pp)) net) h
    \<and> distinct (map session_slot h)"
  using assms
proof (induction rule: userplane_reach.induct)
  case up_init
  show ?case using pp_inv_new [of net] by (simp add: packet_processor_new_def)
next
  case (up_reserve pp h rnd u pp')
  then have inv: "pp_inv in_use pp" by simp
  from reserve_handed_out [OF inv up_reserve(2)] have u: "handed_out (in_use (index_pool pp')) (ue_subnet pp') u"
    "session_slot u \<notin> in_use (index_pool pp)"
    "in_use (index_pool pp') = insert (session_slot u) (in_use (index_pool pp))" "ue_subnet pp' = ue_subnet pp"
    by auto
  with up_reserve have "list_all (handed_out (in_use (index_pool pp')) net) h" "session_slot u \<notin> session_slot ` set h"
    by (auto simp: list_all_iff handed_out_def)
  then show ?case using up_reserve.IH u reserve_contract [OF inv up_reserve(2)] by auto
next
  case (up_full pp h rnd e pp')
  then have inv: "pp_inv in_use pp" by simp
  obtain i pool' where n: "new_id (index_pool pp) = (i, pool')" by fastforce
  obtain r0 r1 r2 where r: "rnd = (r0, r1, r2)" by (cases rnd)
  from up_full(2) reserve_eq [OF inv, where new_id = new_id, OF n] have "pp' = pp\<lparr>index_pool := pool'\<rparr>"
    by (auto simp: r split: if_splits)
  then show ?case using up_full.IH reserve_no_slot [OF inv up_full(2)]
    by (auto simp: list_all_iff handed_out_def)
next
  case (up_commit pp h u tun r pp')
  then have "pp_inv in_use pp" "handed_out (in_use (index_pool pp)) (ue_subnet pp) u"
    by (auto simp: list_all_iff)
  then obtain t where "commit_userplane_session u tun pp = Some (Inr (), pp\<lparr>downlink_forwarding_table := t\<rparr>)"
    "pp_inv in_use (pp\<lparr>downlink_forwarding_table := t\<rparr>)"
    by (rule handed_out_commit)
  with up_commit show ?case by auto
next
  case (up_delete pp h u pp')
  then have "pp_inv in_use pp" "handed_out (in_use (index_pool pp)) (ue_subnet pp) u"
    by (auto simp: list_all_iff)
  then obtain q where "delete_userplane_session u pp = Some q" "pp_inv in_use q"
    "index_pool q = index_pool pp" "ue_subnet q = ue_subnet pp"
    by (rule handed_out_delete)
  with up_delete show ?case by auto
next
  case (up_downlink pp h oc rx f1u_send p r table' p' out)
  then show ?case using downlink_step_table_ok [OF up_downlink(2)] by (auto simp: pp_inv_def)
qed

end

lemma sessions_exclusive:
  assumes "index_pool_spec new_id request_id in_use pool_new"
    and "userplane_reach new_id request_id pool_new net pp h"
  shows "distinct (map session_teid h) \<and> distinct (map ue_ip_addr h)
    \<and> (\<forall>u \<in> set h. \<exists>host. 0 < host \<and> host < 254 \<and> ue_ip_addr u = V4 (subnet_ip net host))
    \<and> length h \<le> 253
    \<and> reserve_userplane_session new_id rnd pp \<noteq> None
    \<and> (\<forall>u \<in> set h. commit_userplane_session u tun pp \<noteq> None \<and> delete_userplane_session u pp \<noteq> None)"
proof -
  note inv = index_pool_spec.userplane_reach_inv [OF assms]
  have slots: "distinct (map session_slot h)" and handed: "\<And>u. u \<in> set h \<Longrightarrow> handed_out (in_use (index_pool pp)) net u"
    using inv by (auto simp: list_all_iff)
  have slot_ip: "session_slot u = session_slot v" if "ue_ip_addr u = ue_ip_addr v" "u \<in> set h" "v \<in> set h" for u v
    using that(1) handed [OF that(2)] handed [OF that(3)] unat_slot by (metis handed_out_def ip_addr.inject(1) subnet_ip_3)
  have teids: "distinct (map session_teid h)"
    by (rule distinct_map_finer [OF slots]) (simp add: session_slot_def)
  have ips: "distinct (map ue_ip_addr h)"
    by (rule distinct_map_finer [OF slots]) (rule slot_ip)
  have range: "0 < session_slot u \<and> session_slot u < 254" if "u \<in> set h" for u
    using handed [OF that] by (simp add: handed_out_def userplane_consts)
  then have "set (map session_slot h) \<subseteq> {1..<254}" by (auto simp: Suc_le_eq)
  then have "card (set (map session_slot h)) \<le> card {1..<254 :: nat}" by (intro card_mono) auto
  then have count: "length h \<le> 253" using slots distinct_card [of "map session_slot h"] by simp
  have hosts: "\<exists>host. 0 < host \<and> host < 254 \<and> ue_ip_addr u = V4 (subnet_ip net host)" if "u \<in> set h" for u
    using handed [OF that] range [OF that] by (auto simp: handed_out_def)
  have "commit_userplane_session u tun pp \<noteq> None" "delete_userplane_session u pp \<noteq> None" if "u \<in> set h" for u
    using handed_out_commit [of in_use pp u] handed_out_delete [of in_use pp u] handed [OF that] inv by (metis option.simps(3))+
  moreover have "reserve_userplane_session new_id rnd pp \<noteq> None"
    using index_pool_spec.reserve_never_panics [OF assms(1)] inv by blast
  ultimately show ?thesis using teids ips count hosts by blast
qed

text \<open>
  C2. Whatever the tasks of the core do with the user plane, in any order: no operation panics, all
  sessions ever handed out have pairwise different TEIDs and pairwise different UE addresses, all in
  the configured subnet and none with host number 0, and at most 253 sessions are handed out in the
  lifetime of the process, since a delete gives no index back.
\<close>

theorem userplane_sessions_exclusive:
  assumes "index_pool_spec new_id request_id in_use pool_new"
    and "userplane_reach new_id request_id pool_new net pp h"
  shows "distinct (map session_teid h) \<and> distinct (map ue_ip_addr h)
    \<and> (\<forall>u \<in> set h. \<exists>host. 0 < host \<and> host < 254 \<and> ue_ip_addr u = V4 (subnet_ip net host))
    \<and> length h \<le> 253
    \<and> reserve_userplane_session new_id rnd pp \<noteq> None
    \<and> (\<forall>u \<in> set h. commit_userplane_session u tun pp \<noteq> None \<and> delete_userplane_session u pp \<noteq> None)"
  using assms by (rule sessions_exclusive)

definition example_pp :: "nat list packet_processor" where
  "example_pp = packet_processor_new list_pool_request_id [] (Arr4 10 255 0 0)"

definition example_session :: userplane_session where
  "example_session = \<lparr>qfi = 0, uplink_gtp_teid = GtpTeid (Arr4 7 8 9 1), ue_ip_addr = V4 (Arr4 10 255 0 1)\<rparr>"

definition example_pp1 :: "nat list packet_processor" where
  "example_pp1 = example_pp\<lparr>index_pool := [1, 0], uplink_forwarding_table :=
     uplink_table_new[1 := Some \<lparr>local_teid = Arr4 7 8 9 1\<rparr>]\<rparr>"

lemmas example_defs = example_pp_def example_session_def example_pp1_def packet_processor_new_def
  list_pool_request_id_def list_pool_new_id_def

lemma example_reserve:
  "reserve_userplane_session list_pool_new_id (7, 8, 9) example_pp = Some (Inr example_session, example_pp1)"
  by (simp add: reserve_userplane_session_def example_defs Let_def uplink_add_rule_eq userplane_consts
      uplink_table_new_def)

theorem userplane_sessions_exclusive_witness:
  "length [example_session] \<le> 253 \<and>
   reserve_userplane_session list_pool_new_id (1, 2, 3) example_pp1 \<noteq> None"
proof -
  have "userplane_reach list_pool_new_id list_pool_request_id [] (Arr4 10 255 0 0) example_pp1 [example_session]"
    by (rule up_reserve [OF _ example_reserve]) (unfold example_pp_def, rule up_init)
  from userplane_sessions_exclusive [OF list_pool.index_pool_spec_axioms this] show ?thesis by blast
qed

section \<open>End to end\<close>

lemma plain_gpdu_verdict:
  assumes "length table = MAX_UES" and "unat (arr4_3 teid) < MAX_UES"
    and "pdcp1 AND 0x80 \<noteq> 0" and "sdap AND 0x80 \<noteq> 0" and "20 \<le> length ip" and "hd ip AND 0xf0 = 0x40"
    and "dgram = plain_gpdu len1 len2 teid pdcp1 pdcp2 sdap ip"
  shows "uplink_verdict table (dgram @ junk) (length dgram) =
    Some (case table ! unat (arr4_3 teid) of
            None \<Rightarrow> UlDrop UL_DROP_UNKNOWN_TEID_1
          | Some entry \<Rightarrow> if local_teid entry = teid then UlForward ip else UlDrop UL_DROP_UNKNOWN_TEID_2)"
proof -
  obtain a b c d where teid: "teid = Arr4 a b c d" by (cases teid)
  from assms(5) obtain x xs where ip: "ip = x # xs" by (cases ip) auto
  have eq: "arr4_list (local_teid e) = [a, b, c, d] \<longleftrightarrow> local_teid e = Arr4 a b c d" for e
    by (cases "local_teid e") auto
  show ?thesis
    using assms by (auto simp: uplink_verdict_def plain_gpdu_def userplane_consts teid ip uplink_after_gtp_eq
        eq [symmetric] split: option.split)
qed

text \<open>The slot of a UE decides what happens to a downlink packet for its address.\<close>

definition dl_packet_ok :: "downlink_pipeline \<Rightarrow> arr4 \<Rightarrow> bytes \<Rightarrow> bool" where
  "dl_packet_ok p ip pkt \<longleftrightarrow> length (dl_buf p) = 2000 \<and> 20 \<le> length pkt \<and> length pkt \<le> 1978 \<and> ipv4_dst pkt = ip"

lemma dl_view_run: "dl_view x = (r, t, out) \<Longrightarrow> \<exists>p'. x = (r, t, p', out)"
  by (cases x rule: dl_view.cases) auto

lemma dl_slot_empty:
  assumes "dl_packet_ok p ip pkt" and "unat (arr4_3 ip) < length table" and "table ! unat (arr4_3 ip) = None"
  shows "\<exists>p'. handle_next_downlink_packet oc (Inr pkt) snd_res table p = (DlOk, table, p', None)"
proof -
  have q: "pkt = dl_fits p pkt" using assms(1) by (simp add: dl_packet_ok_def dl_fits_def)
  show ?thesis
    using assms dl_step [OF _ q, of oc snd_res table] by (intro dl_view_run) (auto simp: dl_packet_ok_def)
qed

lemma dl_slot_fresh:
  assumes "dl_packet_ok p ip pkt" and "unat (arr4_3 ip) < length table"
    and "table ! unat (arr4_3 ip) = Some \<lparr>remote_tunnel_info = tun, rule_ue_ip = V4 ip, pdcp_seq_num = 0, nr_seq_num = 0\<rparr>"
    and "ip_try_from_tla (transport_layer_address tun) = Inr du_ip"
  shows "\<exists>t p'. handle_next_downlink_packet oc (Inr pkt) (Inr ()) table p = (DlOk, t, p',
    Some (downlink_header (word_of_nat (length pkt + 14)) (teid_bytes (gtp_teid tun)) 0 0 @ pkt, du_ip, GTPU_PORT))"
proof -
  have q: "pkt = dl_fits p pkt" using assms(1) by (simp add: dl_packet_ok_def dl_fits_def)
  have "\<exists>t. dl_view (handle_next_downlink_packet oc (Inr pkt) (Inr ()) table p) = (DlOk, t,
    Some (downlink_header (word_of_nat (length pkt + 14)) (teid_bytes (gtp_teid tun)) 0 0 @ pkt, du_ip, GTPU_PORT))"
    using assms dl_step [OF _ q, of oc "Inr ()" table]
    by (auto simp: dl_packet_ok_def dl_forward_view_def dl_seq_full_def dl_frame_def)
  then show ?thesis using dl_view_run by blast
qed

text \<open>
  C1. The life of a PDU session, through the control plane and both pipelines: from the reservation
  on, G-PDUs with the session's TEID reach N6; downlink packets for the UE's address are dropped until
  the DU's tunnel is committed and from then on leave in a GTP-U frame with the DU's TEID, starting at
  sequence number 0; after the delete both directions are dropped.  No step panics.
\<close>

theorem userplane_end_to_end:
  assumes "index_pool_spec new_id request_id in_use pool_new"
    and "userplane_reach new_id request_id pool_new net pp h"
    and "reserve_userplane_session new_id rnd pp = Some (Inr u, pp1)"
    and "ip_try_from_tla (transport_layer_address tun) = Inr du_ip"
    and "pdcp1 AND 0x80 \<noteq> 0" "sdap AND 0x80 \<noteq> 0" "20 \<le> length ip" "hd ip AND 0xf0 = 0x40"
    and "dgram = plain_gpdu len1 len2 (session_teid u) pdcp1 pdcp2 sdap ip"
    and "dl_packet_ok p (session_ip u) pkt"
  shows "\<exists>pp2 pp3. commit_userplane_session u tun pp1 = Some (Inr (), pp2)
    \<and> delete_userplane_session u pp2 = Some pp3
    \<and> uplink_verdict (uplink_forwarding_table pp1) (dgram @ junk) (length dgram) = Some (UlForward ip)
    \<and> uplink_verdict (uplink_forwarding_table pp2) (dgram @ junk) (length dgram) = Some (UlForward ip)
    \<and> uplink_verdict (uplink_forwarding_table pp3) (dgram @ junk) (length dgram) = Some (UlDrop UL_DROP_UNKNOWN_TEID_1)
    \<and> (\<exists>p'. handle_next_downlink_packet oc (Inr pkt) snd_res (downlink_forwarding_table pp1) p
             = (DlOk, downlink_forwarding_table pp1, p', None))
    \<and> (\<exists>t p'. handle_next_downlink_packet oc (Inr pkt) (Inr ()) (downlink_forwarding_table pp2) p
             = (DlOk, t, p', Some (downlink_header (word_of_nat (length pkt + 14)) (teid_bytes (gtp_teid tun)) 0 0 @ pkt,
                                   du_ip, GTPU_PORT)))
    \<and> (\<exists>p'. handle_next_downlink_packet oc (Inr pkt) snd_res (downlink_forwarding_table pp3) p
             = (DlOk, downlink_forwarding_table pp3, p', None))"
proof -
  have inv: "pp_inv in_use pp" using index_pool_spec.userplane_reach_inv [OF assms(1,2)] by simp
  from index_pool_spec.reserve_contract [OF assms(1) inv assms(3)]
  have inv1: "pp_inv in_use pp1" and own: "owns_session pp1 u" and unrouted: "dl_route pp1 (session_ip u) = None"
    by auto
  from inv1 own obtain i where i: "i < MAX_UES" "unat (arr4_3 (session_teid u)) = i"
    "ue_ip_addr u = V4 (subnet_ip (ue_subnet pp1) i)" "session_ip u = subnet_ip (ue_subnet pp1) i"
    "uplink_forwarding_table pp1 ! i = Some \<lparr>local_teid = session_teid u\<rparr>"
    "length (uplink_forwarding_table pp1) = MAX_UES" "length (downlink_forwarding_table pp1) = MAX_UES"
    by (rule owns_slot)
  have slot: "unat (arr4_3 (session_ip u)) = i" using i by (simp add: unat_slot)
  have none: "downlink_forwarding_table pp1 ! i = None"
  proof (rule ccontr)
    assume "downlink_forwarding_table pp1 ! i \<noteq> None"
    then obtain r where "downlink_forwarding_table pp1 ! i = Some r" by blast
    moreover from this have "rule_ue_ip r = V4 (session_ip u)"
      using inv1 i by (simp add: pp_inv_def dl_table_ok_def)
    ultimately show False using unrouted slot i by (simp add: dl_route_def)
  qed
  from commit_contract [OF inv1 own, of tun] commit_eq [OF inv1 own, of tun]
  obtain pp2 where c: "commit_userplane_session u tun pp1 = Some (Inr (), pp2)" "pp_inv in_use pp2" "owns_session pp2 u"
    "pp2 = pp1\<lparr>downlink_forwarding_table := (downlink_forwarding_table pp1)
      [i := Some \<lparr>remote_tunnel_info = tun, rule_ue_ip = V4 (session_ip u), pdcp_seq_num = 0, nr_seq_num = 0\<rparr>]\<rparr>"
    using own i by auto
  from delete_eq [OF c(2,3)] obtain pp3 where d: "delete_userplane_session u pp2 = Some pp3"
    "pp3 = pp2\<lparr>downlink_forwarding_table := (downlink_forwarding_table pp2)[i := None],
              uplink_forwarding_table := (uplink_forwarding_table pp2)[i := None]\<rparr>"
    using i by simp
  have t2: "uplink_forwarding_table pp2 = uplink_forwarding_table pp1"
    "downlink_forwarding_table pp2 = (downlink_forwarding_table pp1)
      [i := Some \<lparr>remote_tunnel_info = tun, rule_ue_ip = V4 (session_ip u), pdcp_seq_num = 0, nr_seq_num = 0\<rparr>]"
    by (simp_all add: c(4))
  have t3: "uplink_forwarding_table pp3 = (uplink_forwarding_table pp1)[i := None]"
    "downlink_forwarding_table pp3 = (downlink_forwarding_table pp1)[i := None]"
    by (simp_all add: d(2) t2)
  note up = plain_gpdu_verdict [OF _ _ assms(5-9)]
  show ?thesis
    using up [of "uplink_forwarding_table pp1" junk] up [of "uplink_forwarding_table pp2" junk]
      up [of "uplink_forwarding_table pp3" junk] i none slot
      dl_slot_empty [OF assms(10), of "downlink_forwarding_table pp1" oc snd_res]
      dl_slot_empty [OF assms(10), of "downlink_forwarding_table pp3" oc snd_res]
      dl_slot_fresh [OF assms(10) _ _ assms(4), of "downlink_forwarding_table pp2" oc]
    by (intro exI [of _ pp2] exI [of _ pp3]) (simp add: c(1) d(1) t2 t3)
qed

theorem userplane_end_to_end_witness:
  "\<exists>pp2. commit_userplane_session example_session example_tunnel example_pp1 = Some (Inr (), pp2) \<and>
    (\<exists>t p'. handle_next_downlink_packet True (Inr example_packet) (Inr ()) (downlink_forwarding_table pp2) downlink_pipeline_new
      = (DlOk, t, p', Some (downlink_header 34 (Arr4 1 2 3 4) 0 0 @ example_packet, V4 (Arr4 192 168 1 2), 2152)))"
proof -
  have reach: "userplane_reach list_pool_new_id list_pool_request_id [] (Arr4 10 255 0 0) example_pp []"
    unfolding example_pp_def by (rule up_init)
  have addr: "ip_try_from_tla (transport_layer_address example_tunnel) = Inr (V4 (Arr4 192 168 1 2))"
    by (simp add: example_tunnel_def ip_tla_roundtrip ip_wf_def del: tla_from_ip.simps)
  have pkt: "dl_packet_ok downlink_pipeline_new (session_ip example_session) example_packet"
    by (simp add: dl_packet_ok_def downlink_pipeline_new_def example_packet_def ipv4_dst_def nth_append example_session_def)
  have len: "length example_packet = 20" by (simp add: example_packet_def)
  from userplane_end_to_end [OF list_pool.index_pool_spec_axioms reach example_reserve addr _ _ _ _ refl pkt,
      where ?pdcp1.0 = "0x80" and sdap = "0x80" and ip = "0x45 # replicate 19 0" and oc = True and snd_res = "Inr ()"]
  show ?thesis by (fastforce simp: len GTPU_PORT_def example_tunnel_def)
qed

end
