(* ===== verification/Control_Types.thy ===== *)
theory Control_Types
  imports Packet_Processor
begin

text \<open>
  What the control plane shares: the configuration (\<open>qcore/src/data/config.rs\<close>) and the checks that
  \<open>main.rs\<close> makes before it starts the core, the SIM table (\<open>data/sims.rs\<close>), and the errors that the
  procedures return.  An \<open>anyhow\<close> error is a string; the model has one constructor per place that
  raises one.
\<close>

section \<open>Errors\<close>

datatype error =
    NasEncodeError | NasDecodeError
  | MobileIdentityTooShort | OnlySupiSupported
  | Ipv6NotImplementedNas
  | PdcpTooShort | RrcEncodeError | RrcDecodeError
  | ChannelClosed | ExpectedUlRrcMessageTransfer | ExpectedDedicatedNasMessage
  | ExpectedNas
  | MissingDuToCuRrcContainer | RrcNotImplemented | ExpectedRrcSetupComplete
  | MissingUeSecurityCapability | PlmnMismatch | UnknownImsi
  | MissingAuthenticationResponseParameter | WrongChallengeResponse
  | UserplaneError up_error | F1apRequestFailed
  | UeContextSetupResponseIncomplete | ExpectedRrcReconfigurationComplete
  | ExpectedNasInUlInformationTransfer | NormalDeregistration | DuInitiatedRelease
  | ExpectedInitialUlRrcMessageTransfer | UnsupportedUlDcchMessage | UnsupportedF1apPdu
  | UeNotFound
  | BadMccLength | BadMncLength | MccNonDigit | MncNonDigit
  | SubnetLastByteNotZero | UnspecifiedLocalIp
  | KeyWithoutImsiPrefix

section \<open>Configuration\<close>

record config =
  cfg_ip_addr :: ip_addr
  cfg_name :: "string option"
  cfg_plmn :: bytes
  cfg_serving_network_name :: string
  cfg_sst :: u8
  cfg_skip_ue_authentication_check :: bool
  cfg_amf_ids :: bytes
  cfg_n6_tun_name :: string
  cfg_ue_subnet :: arr4

definition string_bytes :: "string \<Rightarrow> bytes" where
  "string_bytes s = map of_char s"

definition check_ue_subnet :: "arr4 \<Rightarrow> error + unit" where
  "check_ue_subnet subnet = (if arr4_3 subnet = 0 then Inr () else Inl SubnetLastByteNotZero)"

fun is_unspecified :: "ip_addr \<Rightarrow> bool" where
  "is_unspecified (V4 a) \<longleftrightarrow> a = Arr4 0 0 0 0"
| "is_unspecified (V6 b) \<longleftrightarrow> b = replicate 16 0"

definition check_local_ip :: "ip_addr \<Rightarrow> error + unit" where
  "check_local_ip ip = (if \<not> is_unspecified ip then Inr () else Inl UnspecifiedLocalIp)"

definition to_digit :: "char \<Rightarrow> nat option" where
  "to_digit c = (let n = of_char c :: nat in if 48 \<le> n \<and> n \<le> 57 then Some (n - 48) else None)"

fun collect_digits :: "string \<Rightarrow> nat list option" where
  "collect_digits [] = Some []"
| "collect_digits (c # cs) =
     (case to_digit c of
        None \<Rightarrow> None
      | Some d \<Rightarrow> map_option ((#) d) (collect_digits cs))"

text \<open>\<open>{:0>3}\<close> in a format string.\<close>

definition pad3 :: "string \<Rightarrow> string" where
  "pad3 s = replicate (3 - length s) CHR ''0'' @ s"

definition serving_network_name :: "string \<Rightarrow> string \<Rightarrow> string" where
  "serving_network_name mcc mnc = ''5G:mnc'' @ pad3 mnc @ ''.mcc'' @ mcc @ ''.3gppnetwork.org''"

definition convert_mcc_mnc :: "string \<Rightarrow> string \<Rightarrow> error + bytes \<times> string" where
  "convert_mcc_mnc mcc mnc =
     (if length mcc \<noteq> 3 then Inl BadMccLength
      else if length mnc \<noteq> 2 \<and> length mnc \<noteq> 3 then Inl BadMncLength
      else case collect_digits mcc of
        None \<Rightarrow> Inl MccNonDigit
      | Some digits \<Rightarrow>
          (let digits = (if length mnc = 2 then digits @ [0x0f] else digits)
           in case collect_digits mnc of
                None \<Rightarrow> Inl MncNonDigit
              | Some mnc_digits \<Rightarrow>
                  (let digits = digits @ mnc_digits;
                       plmn = map (\<lambda>ii. ucast (push_bit 4 (word_of_nat (digits ! (ii * 2 + 1)) :: u32)
                                    OR word_of_nat (digits ! (ii * 2)))) [0, 1, 2]
                   in Inr (plmn, serving_network_name mcc mnc))))"

text \<open>The configuration that \<open>main\<close> starts the core with, from the arguments of the command line.\<close>

definition main_config :: "ip_addr \<Rightarrow> string \<Rightarrow> string \<Rightarrow> string \<Rightarrow> arr4 \<Rightarrow> error + config" where
  "main_config local_ip mcc mnc n6_tun_name subnet =
     result_bind (convert_mcc_mnc mcc mnc) (\<lambda>(plmn, snn).
     result_bind (check_ue_subnet subnet) (\<lambda>_.
     result_bind (check_local_ip local_ip) (\<lambda>_.
     Inr \<lparr>cfg_ip_addr = local_ip, cfg_name = Some ''QCore'', cfg_plmn = plmn,
          cfg_serving_network_name = snn, cfg_sst = 1, cfg_skip_ue_authentication_check = False,
          cfg_amf_ids = [0x01, 0x00, 0x80], cfg_n6_tun_name = n6_tun_name, cfg_ue_subnet = subnet\<rparr>)))"

section \<open>SIMs\<close>

record sim_creds =
  sim_ki :: bytes
  sim_opc :: bytes

type_synonym sim_table = "string \<rightharpoonup> sim_creds"

definition strip_prefix :: "string \<Rightarrow> string \<Rightarrow> string option" where
  "strip_prefix pre s = (if take (length pre) s = pre then Some (drop (length pre) s) else None)"

text \<open>The loop of \<open>load_sims_file\<close> over the entries of the parsed file.\<close>

fun load_sims :: "(string \<times> sim_creds) list \<Rightarrow> sim_table \<Rightarrow> error + sim_table" where
  "load_sims [] t = Inr t"
| "load_sims ((key, creds) # rest) t =
     (case strip_prefix ''imsi-'' key of
        None \<Rightarrow> Inl KeyWithoutImsiPrefix
      | Some imsi \<Rightarrow> load_sims rest (t(imsi \<mapsto> creds)))"

lemma strip_prefix_eq_Some: "strip_prefix pre s = Some r \<longleftrightarrow> s = pre @ r"
  unfolding strip_prefix_def by (metis append_eq_conv_conj option.inject option.simps(3))

text \<open>
  Loading the SIM file: it succeeds exactly when every key has the prefix \<open>imsi-\<close>, and then the
  credentials of an IMSI are those of the entry whose key is the prefix followed by the IMSI.
\<close>

theorem load_sims_lookup:
  assumes "distinct (map fst entries)"
  shows "(case load_sims entries Map.empty of
      Inr t \<Rightarrow> (\<forall>imsi creds. t imsi = Some creds \<longleftrightarrow> (''imsi-'' @ imsi, creds) \<in> set entries)
    | Inl e \<Rightarrow> e = KeyWithoutImsiPrefix \<and> (\<exists>key \<in> fst ` set entries. \<forall>imsi. key \<noteq> ''imsi-'' @ imsi))"
proof -
  have "case load_sims entries t of
      Inr t' \<Rightarrow> (\<forall>imsi. t' imsi = (case map_of entries (''imsi-'' @ imsi) of None \<Rightarrow> t imsi | Some c \<Rightarrow> Some c))
    | Inl e \<Rightarrow> e = KeyWithoutImsiPrefix \<and> (\<exists>key \<in> fst ` set entries. \<forall>imsi. key \<noteq> ''imsi-'' @ imsi)" for t
    using assms
  proof (induction entries arbitrary: t rule: list.induct)
    case (Cons e entries)
    obtain key creds where e: "e = (key, creds)" by (cases e)
    show ?case
    proof (cases "strip_prefix ''imsi-'' key")
      case None
      then have "\<forall>imsi. key \<noteq> ''imsi-'' @ imsi" by (metis option.simps(3) strip_prefix_eq_Some)
      then show ?thesis using None by (auto simp: e)
    next
      case (Some imsi)
      then have key: "key = ''imsi-'' @ imsi" by (simp add: strip_prefix_eq_Some)
      with Cons.prems have none: "map_of entries (''imsi-'' @ imsi) = None"
        by (auto simp: e map_of_eq_None_iff)
      define t1 where "t1 = t(imsi \<mapsto> creds)"
      have t1: "t1 x = (if x = imsi then Some creds else t x)" for x by (simp add: t1_def)
      have run: "load_sims (e # entries) t = load_sims entries t1" by (simp add: e Some t1_def)
      have "distinct (map fst entries)" using Cons.prems by simp
      note IH = Cons.IH [OF this, of t1]
      show ?thesis
      proof (cases "load_sims entries t1")
        case (Inl err)
        with IH show ?thesis unfolding run by auto
      next
        case (Inr t')
        with IH have "t' x = (case map_of entries (''imsi-'' @ x) of None \<Rightarrow> t1 x | Some c \<Rightarrow> Some c)" for x
          by simp
        then have "t' x = (case map_of (e # entries) (''imsi-'' @ x) of None \<Rightarrow> t x | Some c \<Rightarrow> Some c)" for x
          using none t1 [of x] by (auto simp: e key split: option.splits)
        then show ?thesis unfolding run Inr by simp
      qed
    qed
  qed simp
  from this [of Map.empty] show ?thesis
    using assms by (auto split: sum.splits option.splits simp: map_of_eq_Some_iff) (metis option.inject)
qed

theorem load_sims_lookup_witness:
  "\<exists>t. load_sims [(''imsi-001'', \<lparr>sim_ki = [1], sim_opc = [2]\<rparr>)] Map.empty = Inr t
     \<and> t ''001'' = Some \<lparr>sim_ki = [1], sim_opc = [2]\<rparr> \<and> t ''002'' = None"
proof -
  let ?e = "[(''imsi-001'', \<lparr>sim_ki = [1], sim_opc = [2]\<rparr>)]"
  obtain t where t: "load_sims ?e Map.empty = Inr t" by (simp add: strip_prefix_def)
  have "distinct (map fst ?e)" by simp
  from load_sims_lookup [OF this] t
  have "\<forall>imsi creds. t imsi = Some creds \<longleftrightarrow> (''imsi-'' @ imsi, creds) \<in> set ?e" by simp
  then have "t ''001'' = Some \<lparr>sim_ki = [1], sim_opc = [2]\<rparr>" "\<And>c. t ''002'' \<noteq> Some c" by auto
  with t show ?thesis by auto
qed

end
