(* ===== verification/Security.thy ===== *)
theory Security
  imports Qcore_Prelude
begin

text \<open>
  The \<open>security\<close> crate (\<open>5g-libs/security/src/{lib,keygen,nia2}.rs\<close>): the 5G-AKA challenge, the key
  hierarchy and the NIA2 message authentication code.  HMAC-SHA-256, AES-CMAC and the Milenage
  functions are third-party crates: they are the fields of a record \<open>crypto\<close> that every definition
  takes as its argument, and \<open>crypto_lengths\<close> states the sizes that their types fix.  Random bytes are
  arguments.
\<close>

section \<open>Primitives\<close>

record crypto =
  hmac_sha256 :: "bytes \<Rightarrow> bytes \<Rightarrow> bytes"
  aes_cmac :: "bytes \<Rightarrow> bytes \<Rightarrow> bytes"
  milenage_f1 :: "bytes \<Rightarrow> bytes \<Rightarrow> bytes \<Rightarrow> bytes \<Rightarrow> bytes \<Rightarrow> bytes"
  milenage_f2345 :: "bytes \<Rightarrow> bytes \<Rightarrow> bytes \<Rightarrow> bytes \<times> bytes \<times> bytes \<times> bytes"

definition crypto_lengths :: "crypto \<Rightarrow> bool" where
  "crypto_lengths cr \<longleftrightarrow>
     (\<forall>k m. length (hmac_sha256 cr k m) = 32) \<and> (\<forall>k m. length (aes_cmac cr k m) = 16) \<and>
     (\<forall>k opc rand sqn amf. length (milenage_f1 cr k opc rand sqn amf) = 8) \<and>
     (\<forall>k opc rand. case milenage_f2345 cr k opc rand of (xres, ck, ik, ak) \<Rightarrow>
        length xres = 8 \<and> length ck = 16 \<and> length ik = 16 \<and> length ak = 6)"

section \<open>Key generation\<close>

definition NAS_ABBA :: bytes where "NAS_ABBA = [0, 0]"

record challenge =
  ch_rand :: bytes
  autn :: bytes
  xres_star :: bytes
  kseaf :: bytes

definition AMF :: bytes where "AMF = [0x80, 0x00]"

definition u16_len :: "bytes \<Rightarrow> bytes" where
  "u16_len xs = u16_to_be_bytes (word_of_nat (length xs))"

definition generate_challenge :: "crypto \<Rightarrow> bytes \<Rightarrow> bytes \<Rightarrow> bytes \<Rightarrow> bytes \<Rightarrow> bytes \<Rightarrow> challenge" where
  "generate_challenge cr k opc serving_network_name sqn rnd =
     (let snn_len = u16_len serving_network_name;
          mac = milenage_f1 cr k opc rnd sqn AMF;
          (xres, ck, ik, ak) = milenage_f2345 cr k opc rnd;
          autn = [sqn ! 0 XOR ak ! 0, sqn ! 1 XOR ak ! 1, sqn ! 2 XOR ak ! 2,
                  sqn ! 3 XOR ak ! 3, sqn ! 4 XOR ak ! 4, sqn ! 5 XOR ak ! 5] @ AMF @ mac;
          kausf = hmac_sha256 cr (ck @ ik)
                    ([0x6A] @ serving_network_name @ snn_len @ take 6 autn @ [0x00, 0x06]);
          kseaf = hmac_sha256 cr kausf ([0x6C] @ serving_network_name @ snn_len);
          xres_star = hmac_sha256 cr (ck @ ik)
                    ([0x6B] @ serving_network_name @ snn_len @ rnd @ [0x00, 0x10] @ xres @ [0x00, 0x08])
      in \<lparr>ch_rand = rnd, autn = autn, xres_star = drop 16 xres_star, kseaf = kseaf\<rparr>)"

definition derive_kamf :: "crypto \<Rightarrow> bytes \<Rightarrow> bytes \<Rightarrow> bytes" where
  "derive_kamf cr key imsi =
     hmac_sha256 cr key ([0x6D] @ imsi @ u16_len imsi @ NAS_ABBA @ [0x00, 0x02])"

definition derive_kgnb :: "crypto \<Rightarrow> bytes \<Rightarrow> u32 \<Rightarrow> bytes" where
  "derive_kgnb cr kamf uplink_nas_count =
     hmac_sha256 cr kamf
       ([0x6E] @ arr4_list (u32_to_be_bytes uplink_nas_count) @ [0x00, 0x04] @ [0x01] @ [0x00, 0x01])"

definition derive_algorithm_key :: "crypto \<Rightarrow> bytes \<Rightarrow> u8 \<Rightarrow> u8 \<Rightarrow> bytes" where
  "derive_algorithm_key cr input_key algorithm_type_distinguisher algorithm_identity =
     take 16 (drop 16 (hmac_sha256 cr input_key
       ([0x69] @ [algorithm_type_distinguisher] @ [0x00, 0x01] @ [algorithm_identity] @ [0x00, 0x01])))"

definition derive_krrcint :: "crypto \<Rightarrow> bytes \<Rightarrow> bytes" where
  "derive_krrcint cr kgnb = derive_algorithm_key cr kgnb 0x04 0x02"

definition derive_knasint :: "crypto \<Rightarrow> bytes \<Rightarrow> bytes" where
  "derive_knasint cr kamf = derive_algorithm_key cr kamf 0x02 0x02"

section \<open>NIA2\<close>

text \<open>The bytes fed to the CMAC, in the order of the \<open>update\<close> calls.\<close>

definition nia2_input :: "arr4 \<Rightarrow> u8 \<Rightarrow> u8 \<Rightarrow> bytes \<Rightarrow> bytes" where
  "nia2_input count bearer_identity_5bit direction_1bit message =
     arr4_list count @ [push_bit 3 bearer_identity_5bit OR push_bit 2 direction_1bit] @ [0, 0, 0] @ message"

definition calculate_nia2_mac :: "crypto \<Rightarrow> bytes \<Rightarrow> arr4 \<Rightarrow> u8 \<Rightarrow> u8 \<Rightarrow> bytes \<Rightarrow> arr4" where
  "calculate_nia2_mac cr integrity_key count bearer direction message =
     (let output = aes_cmac cr integrity_key (nia2_input count bearer direction message)
      in Arr4 (output ! 0) (output ! 1) (output ! 2) (output ! 3))"

section \<open>The key derivation function of TS 33.220\<close>

text \<open>
  TS 33.220, B.2.0: a derived key is the HMAC of \<open>FC || P0 || L0 || P1 || L1 ...\<close>, each parameter
  followed by its length in two bytes.
\<close>

definition kdf_input :: "u8 \<Rightarrow> bytes list \<Rightarrow> bytes" where
  "kdf_input fc ps = fc # concat (map (\<lambda>p. p @ u16_len p) ps)"

definition kdf :: "crypto \<Rightarrow> bytes \<Rightarrow> u8 \<Rightarrow> bytes list \<Rightarrow> bytes" where
  "kdf cr key fc ps = hmac_sha256 cr key (kdf_input fc ps)"

definition xor_bytes :: "bytes \<Rightarrow> bytes \<Rightarrow> bytes" where
  "xor_bytes xs ys = map2 (XOR) xs ys"

lemma length_u16_len [simp]: "length (u16_len p) = 2"
  by (simp add: u16_len_def)

lemma u16_len_small [byte_simps]:
  "length p = n \<Longrightarrow> n < 256 \<Longrightarrow> u16_len p = [0, word_of_nat n]"
proof -
  assume n: "length p = n" "n < 256"
  then have u: "unat (word_of_nat n :: u16) = n" by (simp add: unat_of_nat)
  have "drop_bit 8 (word_of_nat n :: u16) = 0"
    by (rule iffD2 [OF word_unat_eq_iff]) (simp add: drop_bit_eq_div unat_div u n)
  moreover have "(ucast (word_of_nat n :: u16) :: u8) = word_of_nat n"
    by (rule iffD2 [OF word_unat_eq_iff]) (use n(2) in \<open>simp add: unsigned_ucast_eq unat_of_nat take_bit_eq_mod\<close>)
  ultimately show ?thesis using n(1) by (simp add: u16_len_def u16_to_be_bytes_def)
qed

lemma list6:
  "length (xs :: 'a list) = 6 \<Longrightarrow> [xs ! 0, xs ! 1, xs ! 2, xs ! 3, xs ! 4, xs ! 5] = xs"
  by (rule nth_equalityI) (auto simp: less_Suc_eq numeral_eq_Suc)

lemma xor6:
  assumes "length xs = 6" and "length ys = 6"
  shows "[xs ! 0 XOR ys ! 0, xs ! 1 XOR ys ! 1, xs ! 2 XOR ys ! 2,
          xs ! 3 XOR ys ! 3, xs ! 4 XOR ys ! 4, xs ! 5 XOR ys ! 5] = xor_bytes xs (ys :: bytes)"
  by (subst list6 [symmetric]) (use assms in \<open>simp_all add: xor_bytes_def\<close>)

lemma xor_bytes_cancel: "length xs = length ys \<Longrightarrow> xor_bytes (xor_bytes xs ys) ys = xs"
  by (induction xs ys rule: list_induct2) (auto simp: xor_bytes_def xor.assoc)

text \<open>
  C33. The challenge and the keys are those of TS 33.501: AUTN is \<open>SQN xor AK || AMF || MAC\<close>, KSEAF
  descends from CK and IK through KAUSF (Annexes A.2 and A.6) and XRES* is the second half of the KDF
  of Annex A.4, with every length field that the code writes as a literal equal to the length of the
  parameter before it; and a UE that knows AK recovers SQN from the first six bytes of AUTN.
\<close>

theorem challenge_follows_33501:
  assumes "crypto_lengths cr" and "length sqn = 6" and "length rnd = 16"
    and "milenage_f2345 cr k opc rnd = (xres, ck, ik, ak)"
    and "ch = generate_challenge cr k opc snn sqn rnd"
  shows "ch_rand ch = rnd
    \<and> autn ch = xor_bytes sqn ak @ AMF @ milenage_f1 cr k opc rnd sqn AMF
    \<and> kseaf ch = kdf cr (kdf cr (ck @ ik) 0x6A [snn, xor_bytes sqn ak]) 0x6C [snn]
    \<and> xres_star ch = drop 16 (kdf cr (ck @ ik) 0x6B [snn, rnd, xres])
    \<and> length (autn ch) = 16 \<and> length (xres_star ch) = 16 \<and> length (kseaf ch) = 32
    \<and> xor_bytes (take 6 (autn ch)) ak = sqn"
proof -
  have "case milenage_f2345 cr k opc rnd of (xres, ck, ik, ak) \<Rightarrow>
      length xres = 8 \<and> length ck = 16 \<and> length ik = 16 \<and> length ak = 6"
    using assms(1) by (simp add: crypto_lengths_def)
  with assms(4) have len: "length xres = 8" "length ak = 6" by auto
  have lens: "length (milenage_f1 cr k opc rnd sqn AMF) = 8" "length AMF = 2" "\<And>k m. length (hmac_sha256 cr k m) = 32"
    using assms(1) by (auto simp: crypto_lengths_def AMF_def)
  have x: "length (xor_bytes sqn ak) = 6" using assms(2) len by (simp add: xor_bytes_def)
  have snd6: "u16_len (xor_bytes sqn ak) = [0, 6]" using u16_len_small [OF x] by simp
  have snd16: "u16_len rnd = [0, 0x10]" using u16_len_small [OF assms(3)] by simp
  have snd8: "u16_len xres = [0, 8]" using u16_len_small [OF len(1)] by simp
  have ch: "ch = \<lparr>ch_rand = rnd, autn = xor_bytes sqn ak @ AMF @ milenage_f1 cr k opc rnd sqn AMF,
      xres_star = drop 16 (kdf cr (ck @ ik) 0x6B [snn, rnd, xres]),
      kseaf = kdf cr (kdf cr (ck @ ik) 0x6A [snn, xor_bytes sqn ak]) 0x6C [snn]\<rparr>"
    unfolding assms(5) generate_challenge_def Let_def assms(4) prod.case xor6 [OF assms(2) len(2)]
    by (simp add: kdf_def kdf_input_def x snd6 snd16 snd8)
  show ?thesis
    by (simp add: ch x lens kdf_def xor_bytes_cancel assms(2) len)
qed

definition example_crypto :: crypto where
  "example_crypto =
     \<lparr>hmac_sha256 = (\<lambda>k m. take 32 (k @ m @ replicate 32 0)),
      aes_cmac = (\<lambda>k m. take 16 (m @ k @ replicate 16 0)),
      milenage_f1 = (\<lambda>k opc rnd sqn amf. take 8 (sqn @ rnd @ replicate 8 1)),
      milenage_f2345 = (\<lambda>k opc rnd. (replicate 8 2, replicate 16 3, replicate 16 4, replicate 6 5))\<rparr>"

lemma example_crypto_lengths: "crypto_lengths example_crypto"
  by (auto simp: crypto_lengths_def example_crypto_def min_def)

theorem challenge_follows_33501_witness:
  "xor_bytes (take 6 (autn (generate_challenge example_crypto [1] [2] [3] [0, 0, 0, 0, 0, 9] (replicate 16 7))))
     (replicate 6 5) = [0, 0, 0, 0, 0, 9]"
proof -
  have "milenage_f2345 example_crypto [1] [2] (replicate 16 7) =
      (replicate 8 2, replicate 16 3, replicate 16 4, replicate 6 5)"
    by (simp add: example_crypto_def)
  moreover have "length [0, 0, 0, 0, 0, 9 :: u8] = 6" "length (replicate 16 (7 :: u8)) = 16" by simp_all
  ultimately show ?thesis using challenge_follows_33501 [OF example_crypto_lengths _ _ _ refl] by blast
qed

section \<open>Inputs that cannot be confused\<close>

lemma take_bit_small: "unat (b :: 'w::len word) < 2 ^ n \<Longrightarrow> take_bit n b = b"
  by (simp add: word_unat_eq_iff unsigned_take_bit_eq take_bit_nat_eq_self)

lemma bit_small: "unat (b :: 'w::len word) < 2 ^ n \<Longrightarrow> bit b i \<Longrightarrow> i < n"
  by (metis bit_take_bit_iff take_bit_small)

lemma bearer_direction_inj:
  assumes "push_bit 3 b OR push_bit 2 d = push_bit 3 b' OR push_bit 2 (d' :: u8)"
    and "unat b < 32" "unat b' < 32" "unat d < 2" "unat d' < 2"
  shows "b = b' \<and> d = d'"
proof
  have bits: "bit (push_bit 3 b OR push_bit 2 d) i = bit (push_bit 3 b' OR push_bit 2 d') i" for i
    using assms(1) by simp
  have small: "bit d i \<Longrightarrow> i < 1" "bit d' i \<Longrightarrow> i < 1" "bit b i \<Longrightarrow> i < 5" "bit b' i \<Longrightarrow> i < 5" for i
    using bit_small [of d 1] bit_small [of d' 1] bit_small [of b 5] bit_small [of b' 5] assms(2-5) by auto
  show "b = b'"
  proof (rule bit_word_eqI)
    fix n
    show "bit b n = bit b' n"
      using bits [of "n + 3"] small(1,2) [of "n + 1"] small(3,4) [of n]
      by (cases "n < 5") (auto simp: bit_simps)
  qed
  show "d = d'"
  proof (rule bit_word_eqI)
    fix n
    show "bit d n = bit d' n"
      using bits [of "n + 2"] small(1,2) [of n] by (cases "n = 0") (auto simp: bit_simps)
  qed
qed

text \<open>
  C35. The input of NIA2 (TS 33.401, B.2.3) determines all of its parameters: two protected messages
  that feed the same bytes to the CMAC have the same COUNT, bearer, direction and content, so that a
  MAC computed for one position of one bearer and direction is never one for another, short of a
  collision of the CMAC itself.
\<close>

theorem nia2_input_injective:
  assumes "nia2_input c b d m = nia2_input c' b' d' m'"
    and "unat b < 32" "unat b' < 32" "unat d < 2" "unat d' < 2"
  shows "c = c' \<and> b = b' \<and> d = d' \<and> m = m'"
proof -
  from assms(1) have "c = c'" "push_bit 3 b OR push_bit 2 d = push_bit 3 b' OR push_bit 2 d'" "m = m'"
    by (auto simp: nia2_input_def)
  with bearer_direction_inj [OF _ assms(2-5)] show ?thesis by simp
qed

theorem nia2_input_injective_witness:
  "nia2_input (Arr4 0 0 0 1) 1 1 [7] \<noteq> nia2_input (Arr4 0 0 0 1) 0 1 [7]"
  using nia2_input_injective [of "Arr4 0 0 0 1" 1 1 "[7]" "Arr4 0 0 0 1" 0 1 "[7]"] by auto

text \<open>
  The parameters of a key derivation can be read off its input, so derivations with the same number
  of parameters never share an input by accident.
\<close>

lemma u16_len_inj: "u16_len p = u16_len q \<Longrightarrow> length p < 65536 \<Longrightarrow> length q < 65536 \<Longrightarrow> length p = length q"
  by (simp add: u16_len_def word_unat_eq_iff unat_of_nat)

lemma kdf_params_inj:
  assumes "concat (map (\<lambda>p. p @ u16_len p) ps) = concat (map (\<lambda>p. p @ u16_len p) qs)"
    and "length ps = length qs" "\<forall>p \<in> set ps \<union> set qs. length p < 65536"
  shows "ps = qs"
  using assms
proof (induction ps arbitrary: qs rule: rev_induct)
  case (snoc p ps)
  from snoc.prems(2) obtain q qs' where qs: "qs = qs' @ [q]" by (cases qs rule: rev_cases) auto
  let ?c = "\<lambda>xs. concat (map (\<lambda>p. p @ u16_len p) xs)"
  from snoc.prems(1) have e: "(?c ps @ p) @ u16_len p = (?c qs' @ q) @ u16_len q" by (simp add: qs)
  then have e1: "?c ps @ p = ?c qs' @ q" and e2: "u16_len p = u16_len q"
    by (simp_all only: append_eq_append_conv [of _ _ "u16_len p" "u16_len q"] length_u16_len simp_thms)
  from e2 snoc.prems(3) have "length p = length q" by (intro u16_len_inj) (auto simp: qs)
  with e1 have "?c ps = ?c qs'" "p = q" by simp_all
  with snoc.IH [of qs'] snoc.prems show ?case by (simp add: qs)
qed simp

lemma kdf_input_inj:
  assumes "kdf_input fc ps = kdf_input fc' qs" and "length ps = length qs"
    and "\<forall>p \<in> set ps \<union> set qs. length p < 65536"
  shows "fc = fc' \<and> ps = qs"
  using assms(1) kdf_params_inj [OF _ assms(2,3)] by (simp add: kdf_input_def)

text \<open>
  C34. The keys below KAMF are the derivations of TS 33.501, Annexes A.7 to A.9, of their own parameters:
  KAMF of the IMSI and the ABBA, KgNB of the uplink COUNT, and the two integrity keys of the algorithm
  type and the algorithm identity 2 (NIA2); and no two of these derivations from one key share an input,
  for any IMSI and COUNT.
\<close>

theorem key_hierarchy:
  assumes "length imsi < 65536" "length imsi' < 65536"
  shows "derive_kamf cr k imsi = kdf cr k 0x6D [imsi, NAS_ABBA]
    \<and> derive_kgnb cr k count = kdf cr k 0x6E [arr4_list (u32_to_be_bytes count), [1]]
    \<and> derive_krrcint cr k = take 16 (drop 16 (kdf cr k 0x69 [[4], [2]]))
    \<and> derive_knasint cr k = take 16 (drop 16 (kdf cr k 0x69 [[2], [2]]))
    \<and> (kdf_input 0x6D [imsi, NAS_ABBA] = kdf_input 0x6D [imsi', NAS_ABBA] \<longleftrightarrow> imsi = imsi')
    \<and> (kdf_input 0x6E [arr4_list (u32_to_be_bytes count), [1]] =
         kdf_input 0x6E [arr4_list (u32_to_be_bytes count'), [1]] \<longleftrightarrow> count = count')
    \<and> kdf_input 0x69 [[4], [2]] \<noteq> kdf_input 0x69 [[2], [2]]"
proof -
  have one: "u16_len [a] = [0, 1]" for a using u16_len_small [of "[a]" 1] by simp
  have two: "u16_len NAS_ABBA = [0, 2]" using u16_len_small [of NAS_ABBA 2] by (simp add: NAS_ABBA_def)
  have four: "u16_len (arr4_list c) = [0, 4]" for c using u16_len_small [of "arr4_list c" 4] by simp
  have "kdf_input 0x6D [imsi, NAS_ABBA] = kdf_input 0x6D [imsi', NAS_ABBA] \<longleftrightarrow> imsi = imsi'"
    using kdf_input_inj [of "0x6D" "[imsi, NAS_ABBA]" "0x6D" "[imsi', NAS_ABBA]"] assms
    by (auto simp: NAS_ABBA_def)
  then show ?thesis
    by (auto simp: derive_kamf_def derive_kgnb_def derive_krrcint_def derive_knasint_def derive_algorithm_key_def
        kdf_def kdf_input_def one two four)
qed

theorem key_hierarchy_witness:
  "derive_kamf example_crypto [1] [2, 3] = kdf example_crypto [1] 0x6D [[2, 3], NAS_ABBA]"
  using key_hierarchy [of "[2, 3]" "[]" example_crypto "[1]"] by simp

end
