(* ===== verification/Nas_Messages.thy ===== *)
theory Nas_Messages
  imports Control_Types Security
begin

text \<open>
  The NAS messages that QCore builds and reads (\<open>qcore/src/protocols/nas/{build,parse,mod}.rs\<close>).  The
  message types come from the third-party crate \<open>oxirush_nas\<close>; the model has the constructors and
  fields that QCore writes or matches on, a wrapper such as \<open>NasAbba::new(v)\<close> being its value \<open>v\<close>, and
  one constructor for all messages that QCore does not handle.  The crate's encoder and decoder are
  the fields of \<open>nas_lib\<close>.
\<close>

section \<open>Messages\<close>

record nas_authentication_request =
  ar_ngksi :: u8
  ar_abba :: bytes
  ar_rand :: "bytes option"
  ar_autn :: "bytes option"
  ar_eap_message :: "bytes option"

record nas_security_mode_command =
  smc_selected_nas_security_algorithms :: u8
  smc_ngksi :: u8
  smc_replayed_ue_security_capabilities :: bytes
  smc_imeisv_request :: "bytes option"
  smc_selected_eps_nas_security_algorithms :: "bytes option"
  smc_additional_fg_security_information :: "bytes option"
  smc_eap_message :: "bytes option"
  smc_abba :: "bytes option"
  smc_replayed_s1_ue_security_capabilities :: "bytes option"

record nas_registration_accept =
  ra_fgs_registration_result :: bytes
  ra_fg_guti :: "bytes option"
  ra_allowed_nssai :: "bytes option"

record nas_pdu_session_establishment_accept =
  pa_selected_pdu_session_type :: u8
  pa_authorized_qos_rules :: bytes
  pa_session_ambr :: bytes
  pa_fgsm_cause :: "bytes option"
  pa_pdu_address :: "bytes option"
  pa_rq_timer_value :: "bytes option"
  pa_s_nssai :: "bytes option"
  pa_always_on_pdu_session_indication :: "bytes option"
  pa_mapped_eps_bearer_contexts :: "bytes option"
  pa_eap_message :: "bytes option"
  pa_authorized_qos_flow_descriptions :: "bytes option"
  pa_extended_protocol_configuration_options :: "bytes option"
  pa_dnn :: "bytes option"
  pa_fgsm_network_feature_support :: "bytes option"
  pa_serving_plmn_rate_control :: "bytes option"
  pa_atsss_container :: "bytes option"
  pa_control_plane_only_indication :: "bytes option"
  pa_ip_header_compression_configuration :: "bytes option"
  pa_ethernet_header_compression_configuration :: "bytes option"
  pa_service_level_aa_container :: "bytes option"
  pa_received_mbs_container :: "bytes option"

record nas_dl_nas_transport =
  dt_payload_container_type :: u8
  dt_payload_container :: bytes
  dt_pdu_session_id :: "u8 option"
  dt_additional_information :: "bytes option"
  dt_fgmm_cause :: "bytes option"
  dt_back_off_timer_value :: "bytes option"
  dt_lower_bound_timer_value :: "bytes option"

record nas_registration_request =
  rr_fgs_mobile_identity :: bytes
  rr_ue_security_capability :: "bytes option"

record nas_authentication_response =
  authentication_response_parameter :: "bytes option"

record nas_security_mode_complete =
  nas_message_container :: "bytes option"

record nas_ul_nas_transport =
  ut_payload_container :: bytes
  ut_dnn :: "bytes option"

record nas_5gsm_header =
  pdu_session_identity :: u8
  procedure_transaction_identity :: u8

datatype nas_5gmm_message =
    AuthenticationRequest nas_authentication_request
  | AuthenticationResponse nas_authentication_response
  | SecurityModeCommand nas_security_mode_command
  | SecurityModeComplete nas_security_mode_complete
  | RegistrationRequest nas_registration_request
  | RegistrationAccept nas_registration_accept
  | RegistrationComplete
  | UlNasTransport nas_ul_nas_transport
  | DlNasTransport nas_dl_nas_transport
  | DeregistrationRequestFromUe
  | OtherGmm bytes

datatype nas_5gsm_message =
    PduSessionEstablishmentRequest
  | PduSessionEstablishmentAccept nas_pdu_session_establishment_accept
  | OtherGsm bytes

datatype nas_security_header_type = IntegrityProtectedWithNewContext | IntegrityProtectedAndCiphered | OtherHeaderType u8

record nas_security_header =
  sh_type :: nas_security_header_type
  sh_mac :: u32
  sh_sequence_number :: u8

datatype nas_5gs_message =
    Gmm nas_5gmm_message
  | Gsm nas_5gsm_header nas_5gsm_message
  | SecurityProtected nas_security_header nas_5gs_message

record nas_lib =
  nas_encode_5gs :: "nas_5gs_message \<Rightarrow> bytes option"
  nas_decode_5gs :: "bytes \<Rightarrow> nas_5gs_message option"

definition encode_nas_5gs_message :: "nas_lib \<Rightarrow> nas_5gs_message \<Rightarrow> error + bytes" where
  "encode_nas_5gs_message lib m = (case nas_encode_5gs lib m of None \<Rightarrow> Inl NasEncodeError | Some b \<Rightarrow> Inr b)"

definition decode_nas_5gs_message :: "nas_lib \<Rightarrow> bytes \<Rightarrow> error + nas_5gs_message" where
  "decode_nas_5gs_message lib b = (case nas_decode_5gs lib b of None \<Rightarrow> Inl NasDecodeError | Some m \<Rightarrow> Inr m)"

section \<open>The macro \<open>expect_nas\<close>\<close>

text \<open>One instance per message type it is used with.\<close>

fun expect_registration_request :: "nas_5gs_message \<Rightarrow> error + nas_registration_request" where
  "expect_registration_request (Gmm (RegistrationRequest m)) = Inr m"
| "expect_registration_request _ = Inl ExpectedNas"

fun expect_authentication_response :: "nas_5gs_message \<Rightarrow> error + nas_authentication_response" where
  "expect_authentication_response (Gmm (AuthenticationResponse m)) = Inr m"
| "expect_authentication_response _ = Inl ExpectedNas"

fun expect_security_mode_complete :: "nas_5gs_message \<Rightarrow> error + nas_security_mode_complete" where
  "expect_security_mode_complete (Gmm (SecurityModeComplete m)) = Inr m"
| "expect_security_mode_complete _ = Inl ExpectedNas"

fun expect_registration_complete :: "nas_5gs_message \<Rightarrow> error + unit" where
  "expect_registration_complete (Gmm RegistrationComplete) = Inr ()"
| "expect_registration_complete _ = Inl ExpectedNas"

section \<open>Building\<close>

record pdu_session =
  ps_id :: u8
  ps_snssai :: snssai
  ps_dnn :: bytes
  userplane_info :: userplane_session

definition authentication_request :: "bytes \<Rightarrow> bytes \<Rightarrow> nas_5gs_message" where
  "authentication_request rnd aut =
     Gmm (AuthenticationRequest
       \<lparr>ar_ngksi = 0, ar_abba = NAS_ABBA, ar_rand = Some rnd, ar_autn = Some aut, ar_eap_message = None\<rparr>)"

definition nas_security_mode_command_msg :: "bytes \<Rightarrow> nas_5gs_message" where
  "nas_security_mode_command_msg replayed =
     Gmm (SecurityModeCommand
       \<lparr>smc_selected_nas_security_algorithms = 2, smc_ngksi = 0,
        smc_replayed_ue_security_capabilities = replayed, smc_imeisv_request = None,
        smc_selected_eps_nas_security_algorithms = None,
        smc_additional_fg_security_information = Some [0b00000010],
        smc_eap_message = None, smc_abba = None, smc_replayed_s1_ue_security_capabilities = None\<rparr>)"

definition nas_mobile_identity_guti :: "bytes \<Rightarrow> bytes \<Rightarrow> arr4 \<Rightarrow> bytes" where
  "nas_mobile_identity_guti plmn guami tmsi = [0b11110010] @ plmn @ guami @ arr4_list tmsi"

definition registration_accept :: "u8 \<Rightarrow> bytes \<Rightarrow> bytes \<Rightarrow> arr4 \<Rightarrow> nas_5gs_message" where
  "registration_accept allowed_sst plmn amf_ids tmsi =
     Gmm (RegistrationAccept
       \<lparr>ra_fgs_registration_result = [0b00000001],
        ra_fg_guti = Some (nas_mobile_identity_guti plmn amf_ids tmsi),
        ra_allowed_nssai = Some [0x01, allowed_sst]\<rparr>)"

definition session_ambr :: bytes where
  "session_ambr = [0b00000110, 0x00, 0x01, 0b00000110, 0x00, 0x01]"

definition authorized_qos_rules :: bytes where
  "authorized_qos_rules =
     [0x01, 0x00, 0x06, 0b00110001, 0b00111111, 0x01, 0b00000001, 0xff, 0b00000001]"

definition pdu_session_establishment_accept :: "nas_lib \<Rightarrow> pdu_session \<Rightarrow> u8 \<Rightarrow> error + nas_5gs_message" where
  "pdu_session_establishment_accept lib pdu_session pti =
     (case ue_ip_addr (userplane_info pdu_session) of
        V6 _ \<Rightarrow> Inl Ipv6NotImplementedNas
      | V4 ue_ipv4 \<Rightarrow>
          (let inner_message =
             Gsm \<lparr>pdu_session_identity = ps_id pdu_session, procedure_transaction_identity = pti\<rparr>
               (PduSessionEstablishmentAccept
                 \<lparr>pa_selected_pdu_session_type = 0b001,
                  pa_authorized_qos_rules = authorized_qos_rules,
                  pa_session_ambr = session_ambr,
                  pa_fgsm_cause = None,
                  pa_pdu_address = Some [0b00000001, arr4_0 ue_ipv4, arr4_1 ue_ipv4, arr4_2 ue_ipv4, arr4_3 ue_ipv4],
                  pa_rq_timer_value = None, pa_s_nssai = None, pa_always_on_pdu_session_indication = None,
                  pa_mapped_eps_bearer_contexts = None, pa_eap_message = None,
                  pa_authorized_qos_flow_descriptions = None,
                  pa_extended_protocol_configuration_options = None,
                  pa_dnn = Some (ps_dnn pdu_session),
                  pa_fgsm_network_feature_support = None, pa_serving_plmn_rate_control = None,
                  pa_atsss_container = None, pa_control_plane_only_indication = None,
                  pa_ip_header_compression_configuration = None,
                  pa_ethernet_header_compression_configuration = None,
                  pa_service_level_aa_container = None, pa_received_mbs_container = None\<rparr>)
           in result_bind (encode_nas_5gs_message lib inner_message) (\<lambda>inner.
              Inr (Gmm (DlNasTransport
                \<lparr>dt_payload_container_type = 0b0001, dt_payload_container = inner, dt_pdu_session_id = None,
                 dt_additional_information = None, dt_fgmm_cause = None, dt_back_off_timer_value = None,
                 dt_lower_bound_timer_value = None\<rparr>)))))"

section \<open>Parsing the mobile identity\<close>

text \<open>\<open>write!(s, "{b}")\<close>: a byte in decimal.\<close>

definition digit_char :: "nat \<Rightarrow> char" where
  "digit_char d = char_of (48 + d)"

definition show_byte :: "u8 \<Rightarrow> string" where
  "show_byte b = (let n = unat b in
     if n < 10 then [digit_char n]
     else if n < 100 then [digit_char (n div 10), digit_char (n mod 10)]
     else [digit_char (n div 100), digit_char (n div 10 mod 10), digit_char (n mod 10)])"

definition fgs_mobile_identity :: "bytes \<Rightarrow> error + string \<times> bytes" where
  "fgs_mobile_identity ie =
     (if length ie < 12 then Inl MobileIdentityTooShort
      else if ie ! 0 \<noteq> 0x01 then Inl OnlySupiSupported
      else
        (let plmn = take 3 (drop 1 ie);
             msin = drop 8 ie;
             imsi = [plmn ! 0 AND 0xf, drop_bit 4 (plmn ! 0), plmn ! 1 AND 0xf]
                    @ (if drop_bit 4 (plmn ! 1) \<noteq> 0xf then [drop_bit 4 (plmn ! 1)] else [])
                    @ [plmn ! 2 AND 0xf, drop_bit 4 (plmn ! 2)]
                    @ concat (map (\<lambda>byte. [byte AND 0xf, drop_bit 4 byte]) msin)
         in Inr (concat (map show_byte imsi), plmn)))"

section \<open>The identity that comes out is the identity that went in\<close>

text \<open>
  A decimal digit as a character, and digits in packed BCD as TS 24.501, 9.11.3.4 has them: an odd number of digits
  is filled up with the nibble 1111.
\<close>

definition digits_ok :: "nat list \<Rightarrow> bool" where
  "digits_ok ds \<longleftrightarrow> (\<forall>d \<in> set ds. d < 10)"

definition digits_string :: "nat list \<Rightarrow> string" where
  "digits_string ds = map digit_char ds"

definition bcd_byte :: "nat \<Rightarrow> nat \<Rightarrow> u8" where
  "bcd_byte lo hi = push_bit 4 (word_of_nat hi) OR word_of_nat lo"

fun bcd :: "nat list \<Rightarrow> bytes" where
  "bcd (a # b # ds) = bcd_byte a b # bcd ds"
| "bcd [a] = [bcd_byte a 15]"
| "bcd [] = []"

lemma to_digit_char: "d < 10 \<Longrightarrow> to_digit (digit_char d) = Some d"
  by (simp add: to_digit_def digit_char_def of_char_of Let_def)

lemma collect_digits_string: "digits_ok ds \<Longrightarrow> collect_digits (digits_string ds) = Some ds"
  by (induction ds) (simp_all add: digits_ok_def digits_string_def to_digit_char)

lemma unat_nibble: "n < 16 \<Longrightarrow> unat (word_of_nat n :: u8) = n"
  by (simp add: unat_of_nat)

lemma bcd_byte_unat: "lo < 16 \<Longrightarrow> hi < 16 \<Longrightarrow> unat (bcd_byte lo hi) = hi * 16 + lo"
proof -
  assume a: "lo < 16" "hi < 16"
  have "push_bit 4 (word_of_nat hi) AND word_of_nat lo = (0 :: u8)"
  proof (rule bit_word_eqI)
    fix n
    have "bit (word_of_nat lo :: u8) n \<Longrightarrow> n < 4"
      by (rule bit_small) (simp_all add: unat_nibble a)
    then show "bit (push_bit 4 (word_of_nat hi) AND word_of_nat lo :: u8) n = bit 0 n"
      unfolding bit_and_iff bit_push_bit_iff by auto
  qed
  then have "bcd_byte lo hi = push_bit 4 (word_of_nat hi) + word_of_nat lo"
    unfolding bcd_byte_def by (simp add: disjunctive_add_eq_or)
  also have "\<dots> = word_of_nat (hi * 16 + lo)"
    by (simp add: push_bit_eq_mult)
  finally have "bcd_byte lo hi = word_of_nat (hi * 16 + lo)" .
  moreover have "unat (word_of_nat (hi * 16 + lo) :: u8) = hi * 16 + lo"
    by (simp only: unat_of_nat) (use a in simp)
  ultimately show ?thesis by simp
qed

lemma low_nibble: "x AND 0xf = take_bit 4 (x :: u8)"
  by (simp add: take_bit_eq_mask mask_eq_exp_minus_1)

lemma bcd_byte_low: "lo < 16 \<Longrightarrow> hi < 16 \<Longrightarrow> bcd_byte lo hi AND 0xf = word_of_nat lo"
  by (rule iffD2 [OF word_unat_eq_iff])
    (simp add: low_nibble take_bit_eq_mod unat_mod bcd_byte_unat unat_nibble)

lemma bcd_byte_high: "lo < 16 \<Longrightarrow> hi < 16 \<Longrightarrow> drop_bit 4 (bcd_byte lo hi) = word_of_nat hi"
  by (rule iffD2 [OF word_unat_eq_iff]) (simp add: drop_bit_eq_div unat_div bcd_byte_unat unat_nibble)

lemma bcd_byte_inj:
  assumes "x < 10" "y < 10" "x' < 10" "y' < 10"
  shows "bcd_byte x y = bcd_byte x' y' \<longleftrightarrow> x = x' \<and> y = y'"
proof
  assume eq: "bcd_byte x y = bcd_byte x' y'"
  have "(word_of_nat x :: u8) = word_of_nat x'" using eq bcd_byte_low [of x y] bcd_byte_low [of x' y'] assms by simp
  moreover have "(word_of_nat y :: u8) = word_of_nat y'" using eq bcd_byte_high [of x y] bcd_byte_high [of x' y'] assms by simp
  ultimately have "unat (word_of_nat x :: u8) = unat (word_of_nat x' :: u8)"
    "unat (word_of_nat y :: u8) = unat (word_of_nat y' :: u8)" by simp_all
  moreover have "unat (word_of_nat x :: u8) = x" "unat (word_of_nat x' :: u8) = x'"
    "unat (word_of_nat y :: u8) = y" "unat (word_of_nat y' :: u8) = y'"
    using assms by (auto intro: unat_nibble)
  ultimately show "x = x' \<and> y = y'" by simp
qed simp

lemma show_digit: "d < 10 \<Longrightarrow> show_byte (word_of_nat d) = [digit_char d]"
  by (simp add: show_byte_def unat_nibble Let_def)

lemma plmn_byte:
  "a < 16 \<Longrightarrow> b < 16 \<Longrightarrow>
     ucast (push_bit 4 (word_of_nat b :: u32) OR word_of_nat a) = bcd_byte a b"
  unfolding bcd_byte_def by (rule bit_word_eqI) (auto simp: bit_simps)

lemma plmn_byte_filler: "a < 16 \<Longrightarrow> ucast (240 OR word_of_nat a :: u32) = bcd_byte a 15"
  using plmn_byte [of a 15] by simp

text \<open>The PLMN bytes of TS 24.501, 9.11.3.4 (and TS 24.008, 10.5.1.3): MNC digit 3 shares a byte with MCC digit 3.\<close>

definition plmn_24501 :: "nat list \<Rightarrow> nat list \<Rightarrow> bytes" where
  "plmn_24501 mcc mnc =
     [bcd_byte (mcc ! 0) (mcc ! 1), bcd_byte (mcc ! 2) (if length mnc = 2 then 15 else mnc ! 2),
      bcd_byte (mnc ! 0) (mnc ! 1)]"

text \<open>The PLMN bytes the code computes.\<close>

definition plmn_qcore :: "nat list \<Rightarrow> nat list \<Rightarrow> bytes" where
  "plmn_qcore mcc mnc =
     (if length mnc = 2
      then [bcd_byte (mcc ! 0) (mcc ! 1), bcd_byte (mcc ! 2) 15, bcd_byte (mnc ! 0) (mnc ! 1)]
      else [bcd_byte (mcc ! 0) (mcc ! 1), bcd_byte (mcc ! 2) (mnc ! 0), bcd_byte (mnc ! 1) (mnc ! 2)])"

lemma length_digits_string [simp]: "length (digits_string ds) = length ds"
  by (simp add: digits_string_def)

lemma list_of_3: "length xs = 3 \<Longrightarrow> \<exists>a b c. xs = [a, b, c]"
  by (auto simp: numeral_eq_Suc length_Suc_conv)

lemma list_of_2: "length xs = 2 \<Longrightarrow> \<exists>a b. xs = [a, b]"
  by (auto simp: numeral_eq_Suc length_Suc_conv)

lemma digits_ok_Cons [simp]: "digits_ok (d # ds) \<longleftrightarrow> d < 10 \<and> digits_ok ds"
  by (auto simp: digits_ok_def)

lemma digits_ok_append [simp]: "digits_ok (ds @ es) \<longleftrightarrow> digits_ok ds \<and> digits_ok es"
  by (auto simp: digits_ok_def)

lemma convert_eq:
  assumes "digits_ok mcc" "digits_ok mnc" "length mcc = 3" "length mnc = 2 \<or> length mnc = 3"
  shows "convert_mcc_mnc (digits_string mcc) (digits_string mnc) =
    Inr (plmn_qcore mcc mnc, serving_network_name (digits_string mcc) (digits_string mnc))"
proof -
  obtain a b c where mcc: "mcc = [a, b, c]" using list_of_3 assms(3) by blast
  from assms(4) show ?thesis
  proof
    assume "length mnc = 2"
    then obtain d e where "mnc = [d, e]" using list_of_2 by blast
    then show ?thesis using assms(1,2)
      by (simp add: convert_mcc_mnc_def collect_digits_string mcc plmn_byte plmn_byte_filler plmn_qcore_def Let_def)
  next
    assume "length mnc = 3"
    then obtain d e f where "mnc = [d, e, f]" using list_of_3 by blast
    then show ?thesis using assms(1,2)
      by (simp add: convert_mcc_mnc_def collect_digits_string mcc plmn_byte plmn_byte_filler plmn_qcore_def Let_def)
  qed
qed

lemma show_filler: "show_byte 15 = ''15''"
  by (simp add: show_byte_def digit_char_def Let_def) code_simp

lemma show_bcd:
  assumes "digits_ok ds"
  shows "concat (map show_byte (concat (map (\<lambda>byte. [byte AND 0xf, drop_bit 4 byte]) (bcd ds)))) =
    digits_string ds @ (if even (length ds) then [] else ''15'')"
  using assms
proof (induction ds rule: bcd.induct)
  case (1 a b ds)
  then show ?case by (simp add: bcd_byte_low bcd_byte_high show_digit digits_string_def)
next
  case (2 a)
  then show ?case using bcd_byte_low [of a 15] bcd_byte_high [of a 15] by (simp add: show_digit show_filler digits_string_def)
qed (simp_all add: digits_string_def)

lemma length_bcd: "length (bcd ds) = (length ds + 1) div 2"
  by (induction ds rule: bcd.induct) simp_all

lemma digit_not_filler: "d < 10 \<Longrightarrow> (word_of_nat d :: u8) \<noteq> 15"
proof
  assume "d < 10" "(word_of_nat d :: u8) = 15"
  then have "unat (word_of_nat d :: u8) = 15" by simp
  with unat_nibble [of d] \<open>d < 10\<close> show False by simp
qed

text \<open>The mobile identity of a UE: a SUPI of type IMSI with the PLMN, the routing indicator and key octets, and the MSIN.\<close>

definition supi_24501 :: "nat list \<Rightarrow> nat list \<Rightarrow> bytes \<Rightarrow> nat list \<Rightarrow> bytes" where
  "supi_24501 mcc mnc routing msin = [1] @ plmn_24501 mcc mnc @ routing @ bcd msin"

text \<open>The digits of the MNC in the order in which the code reads them.\<close>

definition mnc_as_read :: "nat list \<Rightarrow> nat list" where
  "mnc_as_read mnc = (if length mnc = 2 then mnc else [mnc ! 2, mnc ! 0, mnc ! 1])"

lemma supi_parse:
  assumes "digits_ok mcc" "digits_ok mnc" "digits_ok msin" "length mcc = 3" "length mnc = 2 \<or> length mnc = 3"
    and "length routing = 4" "7 \<le> length msin"
  shows "fgs_mobile_identity (supi_24501 mcc mnc routing msin) =
    Inr (digits_string (mcc @ mnc_as_read mnc @ msin) @ (if even (length msin) then [] else ''15''), plmn_24501 mcc mnc)"
proof -
  obtain a b c where mcc: "mcc = [a, b, c]" using list_of_3 assms(4) by blast
  have four: "4 \<le> length (bcd msin)" using assms(7) by (simp add: length_bcd)
  note s = supi_24501_def fgs_mobile_identity_def Let_def plmn_24501_def mnc_as_read_def mcc show_bcd [OF assms(3)] digits_string_def
    bcd_byte_low bcd_byte_high show_digit assms(6) digit_not_filler
  from assms(5) show ?thesis
  proof
    assume "length mnc = 2"
    then obtain d e where "mnc = [d, e]" using list_of_2 by blast
    then show ?thesis using assms(1,2) four by (simp add: s)
  next
    assume "length mnc = 3"
    then obtain d e f where "mnc = [d, e, f]" using list_of_3 by blast
    then show ?thesis using assms(1,2) four by (simp add: s)
  qed
qed

lemma digits_string_inj: "digits_ok ds \<Longrightarrow> digits_ok es \<Longrightarrow> digits_string ds = digits_string es \<longleftrightarrow> ds = es"
  by (metis collect_digits_string option.inject)

lemma imsi_read:
  assumes "digits_ok mcc" "digits_ok mnc" "digits_ok msin" "length mcc = 3" "length mnc = 2 \<or> length mnc = 3"
  shows "digits_string (mcc @ mnc_as_read mnc @ msin) @ (if even (length msin) then [] else ''15'') = digits_string (mcc @ mnc @ msin)
    \<longleftrightarrow> even (length msin) \<and> (length mnc = 2 \<or> mnc ! 0 = mnc ! 1 \<and> mnc ! 1 = mnc ! 2)"
proof (cases "even (length msin)")
  case True
  from assms(5) consider "length mnc = 2" | d e f where "mnc = [d, e, f]" using list_of_3 by blast
  then show ?thesis
  proof cases
    case 1
    then show ?thesis using True by (simp add: mnc_as_read_def)
  next
    case (2 d e f)
    then have "digits_ok (mcc @ mnc_as_read mnc @ msin)" "digits_ok (mcc @ mnc @ msin)"
      using assms(1-3) by (simp_all add: mnc_as_read_def)
    from digits_string_inj [OF this] show ?thesis using True 2 by (auto simp: mnc_as_read_def)
  qed
next
  case False
  have "length (mnc_as_read mnc) = length mnc" using assms(5) by (auto simp: mnc_as_read_def)
  then have "length (digits_string (mcc @ mnc_as_read mnc @ msin) @ ''15'') \<noteq> length (digits_string (mcc @ mnc @ msin))" by simp
  then have "digits_string (mcc @ mnc_as_read mnc @ msin) @ ''15'' \<noteq> digits_string (mcc @ mnc @ msin)" by (metis (full_types))
  then show ?thesis using False by simp
qed

text \<open>
  C36. What the core makes of the identity that a UE sends as TS 24.501 prescribes: the PLMN comes back unchanged; the
  IMSI that is looked up among the SIMs is the MCC, the MNC and the MSIN of the UE digit by digit exactly if the
  MSIN has an even number of digits and the MNC has two digits or three equal ones.  In the other cases the core looks
  up another string: a MSIN of odd length is followed by the characters 15, and of three different digits of an MNC
  the last comes first.
\<close>

theorem imsi_roundtrip:
  assumes "digits_ok mcc" "digits_ok mnc" "digits_ok msin" "length mcc = 3" "length mnc = 2 \<or> length mnc = 3"
    and "length routing = 4" "7 \<le> length msin"
  shows "\<exists>imsi. fgs_mobile_identity (supi_24501 mcc mnc routing msin) = Inr (imsi, plmn_24501 mcc mnc)
    \<and> imsi = digits_string (mcc @ mnc_as_read mnc @ msin) @ (if even (length msin) then [] else ''15'')
    \<and> (imsi = digits_string (mcc @ mnc @ msin) \<longleftrightarrow>
         even (length msin) \<and> (length mnc = 2 \<or> mnc ! 0 = mnc ! 1 \<and> mnc ! 1 = mnc ! 2))"
  using supi_parse [OF assms] imsi_read [OF assms(1-5)] by blast

theorem imsi_roundtrip_witness:
  "fgs_mobile_identity (supi_24501 [0, 0, 1] [0, 1] [0, 0, 0, 0] [0, 0, 0, 0, 0, 0, 0, 0, 0, 1]) = Inr (''001010000000001'', [0, 0xf1, 0x10])
    \<and> fgs_mobile_identity (supi_24501 [3, 1, 0] [4, 1, 0] [0, 0, 0, 0] [0, 0, 0, 0, 0, 0, 0, 0, 1])
        \<noteq> Inr (digits_string ([3, 1, 0] @ [4, 1, 0] @ [0, 0, 0, 0, 0, 0, 0, 0, 1]), plmn_24501 [3, 1, 0] [4, 1, 0])"
proof -
  have e: "digits_string ([0, 0, 1] @ [0, 1] @ [0, 0, 0, 0, 0, 0, 0, 0, 0, 1]) = ''001010000000001''"
    by (simp add: digits_string_def digit_char_def char_of_def bit_Suc_0_iff)
  have p: "plmn_24501 [0, 0, 1] [0, 1] = [0, 0xf1, 0x10]" by (simp add: plmn_24501_def bcd_byte_def)
  from imsi_roundtrip [of "[0, 0, 1]" "[0, 1]" "[0, 0, 0, 0, 0, 0, 0, 0, 0, 1]" "[0, 0, 0, 0]"]
  have "fgs_mobile_identity (supi_24501 [0, 0, 1] [0, 1] [0, 0, 0, 0] [0, 0, 0, 0, 0, 0, 0, 0, 0, 1]) = Inr (''001010000000001'', [0, 0xf1, 0x10])"
    unfolding e p by (simp add: digits_ok_def)
  moreover from imsi_roundtrip [of "[3, 1, 0]" "[4, 1, 0]" "[0, 0, 0, 0, 0, 0, 0, 0, 1]" "[0, 0, 0, 0]"]
  have "fgs_mobile_identity (supi_24501 [3, 1, 0] [4, 1, 0] [0, 0, 0, 0] [0, 0, 0, 0, 0, 0, 0, 0, 1])
        \<noteq> Inr (digits_string ([3, 1, 0] @ [4, 1, 0] @ [0, 0, 0, 0, 0, 0, 0, 0, 1]), plmn_24501 [3, 1, 0] [4, 1, 0])"
    by (auto simp: digits_ok_def)
  ultimately show ?thesis ..
qed

text \<open>
  C37. Against TS 24.501: with a two-digit MNC the PLMN bytes are those of the standard; with a
  three-digit MNC they are the standard's only when its three digits are equal, because the code
  puts the first digit of the MNC where the standard puts the third.
\<close>

theorem plmn_against_24501:
  assumes "digits_ok mcc" "digits_ok mnc" "length mcc = 3" "length mnc = 2 \<or> length mnc = 3"
  shows "\<exists>plmn. convert_mcc_mnc (digits_string mcc) (digits_string mnc) =
        Inr (plmn, serving_network_name (digits_string mcc) (digits_string mnc))
      \<and> (plmn = plmn_24501 mcc mnc \<longleftrightarrow> length mnc = 2 \<or> mnc ! 0 = mnc ! 1 \<and> mnc ! 1 = mnc ! 2)"
proof -
  have "plmn_qcore mcc mnc = plmn_24501 mcc mnc \<longleftrightarrow> length mnc = 2 \<or> mnc ! 0 = mnc ! 1 \<and> mnc ! 1 = mnc ! 2"
  proof (cases "length mnc = 2")
    case False
    with assms(4) have "length mnc = 3" by simp
    then obtain d e f where mnc: "mnc = [d, e, f]" using list_of_3 by blast
    obtain a b c where mcc: "mcc = [a, b, c]" using list_of_3 assms(3) by blast
    show ?thesis using assms by (auto simp: plmn_qcore_def plmn_24501_def mcc mnc bcd_byte_inj)
  qed (simp add: plmn_qcore_def plmn_24501_def)
  then show ?thesis using convert_eq [OF assms] by simp
qed

theorem plmn_against_24501_witness:
  "\<exists>plmn snn. convert_mcc_mnc (digits_string [3, 1, 0]) (digits_string [4, 1, 0]) = Inr (plmn, snn)
    \<and> plmn \<noteq> plmn_24501 [3, 1, 0] [4, 1, 0]"
  using plmn_against_24501 [of "[3, 1, 0]" "[4, 1, 0]"] by (auto simp: digits_ok_def)

end
