(* ===== verification/Pdcp.thy ===== *)
theory Pdcp
  imports Security
begin

text \<open>
  The PDCP layer of the signalling bearers (\<open>5g-libs/pdcp/src/lib.rs\<close>): wrapping a downlink RRC
  message with its 12-bit sequence number and its NIA2 MAC, and viewing the RRC message inside an
  uplink PDU.
\<close>

section \<open>Operations\<close>

definition PDCP_SN_DL_MASK :: u16 where "PDCP_SN_DL_MASK = 0x0fff"
definition DIRECTION_DL :: u8 where "DIRECTION_DL = 1"

record pdcp_tx =
  tx_next :: u32
  pdcp_integrity_key :: "bytes option"

definition pdcp_tx_default :: pdcp_tx where
  "pdcp_tx_default = \<lparr>tx_next = 0, pdcp_integrity_key = None\<rparr>"

datatype pdcp_error = TooShortForPdcpPdu

definition pdcp_view_inner :: "bytes \<Rightarrow> pdcp_error + bytes" where
  "pdcp_view_inner pdu =
     (if 6 \<le> length pdu then Inr (take (length pdu - 4 - 2) (drop 2 pdu)) else Inl TooShortForPdcpPdu)"

definition pdcp_enable_security :: "bytes \<Rightarrow> pdcp_tx \<Rightarrow> pdcp_tx" where
  "pdcp_enable_security ik tx = tx\<lparr>pdcp_integrity_key := Some ik\<rparr>"

text \<open>
  \<open>None\<close> is a panic: the assertion that only SRB0 and SRB1 are used, or the increment of \<open>TX_NEXT\<close>
  in a build with overflow checks.
\<close>

definition pdcp_encode :: "bool \<Rightarrow> crypto \<Rightarrow> u8 \<Rightarrow> bytes \<Rightarrow> pdcp_tx \<Rightarrow> (bytes \<times> pdcp_tx) option" where
  "pdcp_encode overflow_checks cr srb_id inner tx =
     (let pdcp_seq_num = (if srb_id = 0 then 0 else ucast (tx_next tx) AND PDCP_SN_DL_MASK);
          pdcp_pdu = u16_to_be_bytes pdcp_seq_num @ inner
      in if 0 < srb_id
         then if srb_id \<noteq> 1 then None
              else (let count = tx_next tx;
                        bearer = srb_id - 1;
                        mac = (case pdcp_integrity_key tx of
                                 None \<Rightarrow> Arr4 0 0 0 0
                               | Some ik \<Rightarrow> calculate_nia2_mac cr ik (u32_to_be_bytes count) bearer DIRECTION_DL pdcp_pdu)
                    in case rs_inc overflow_checks count of
                         None \<Rightarrow> None
                       | Some count' \<Rightarrow> Some (pdcp_pdu @ arr4_list mac, tx\<lparr>tx_next := count'\<rparr>))
         else Some (pdcp_pdu @ arr4_list (Arr4 0 0 0 0), tx))"

section \<open>Round trip\<close>

lemma pdcp_view_inner_frame:
  "length h = 2 \<Longrightarrow> length t = 4 \<Longrightarrow> pdcp_view_inner (h @ inner @ t) = Inr inner"
  by (simp add: pdcp_view_inner_def)

lemma pdcp_encode_frame:
  assumes "pdcp_encode oc cr srb_id inner tx = Some (pdu, tx')"
  shows "\<exists>sn t. length t = 4 \<and> pdu = u16_to_be_bytes sn @ inner @ t"
  using assms by (auto simp: pdcp_encode_def Let_def split: if_splits option.splits)

text \<open>
  C32. What PDCP wraps, the other side unwraps: for every inner message, bearer and state, the view of
  an encoded PDU is the inner message, and encoding fails only for a bearer other than SRB0 and SRB1
  or, in a build with overflow checks, when the COUNT is exhausted.
\<close>

theorem pdcp_roundtrip:
  "case pdcp_encode oc cr srb_id inner tx of
     Some (pdu, tx') \<Rightarrow> pdcp_view_inner pdu = Inr inner \<and> length pdu = length inner + 6
   | None \<Rightarrow> srb_id \<notin> {0, 1} \<or> oc \<and> tx_next tx = - 1"
proof (cases "pdcp_encode oc cr srb_id inner tx")
  case None
  then show ?thesis
    by (auto simp: pdcp_encode_def Let_def rs_simps split: if_splits option.splits)
next
  case (Some r)
  then obtain pdu tx' where r: "r = (pdu, tx')" by (cases r)
  with Some pdcp_encode_frame obtain sn t where "length t = 4" "pdu = u16_to_be_bytes sn @ inner @ t" by blast
  then show ?thesis
    by (simp add: Some r pdcp_view_inner_frame)
qed

theorem pdcp_roundtrip_witness:
  "\<exists>pdu tx'. pdcp_encode False example_crypto 1 [5, 6] pdcp_tx_default = Some (pdu, tx')
     \<and> pdcp_view_inner pdu = Inr [5, 6] \<and> length pdu = 8"
  using pdcp_roundtrip [where oc = False and cr = example_crypto and srb_id = 1 and inner = "[5, 6]" and tx = pdcp_tx_default] by (auto split: option.splits)

section \<open>A stream of messages on SRB1\<close>

text \<open>The messages of a UE on SRB1, in the order they are encoded.\<close>

fun pdcp_encode_all :: "bool \<Rightarrow> crypto \<Rightarrow> bytes list \<Rightarrow> pdcp_tx \<Rightarrow> (bytes list \<times> pdcp_tx) option" where
  "pdcp_encode_all oc cr [] tx = Some ([], tx)"
| "pdcp_encode_all oc cr (m # ms) tx =
     (case pdcp_encode oc cr 1 m tx of
        None \<Rightarrow> None
      | Some (pdu, tx') \<Rightarrow>
          (case pdcp_encode_all oc cr ms tx' of
             None \<Rightarrow> None
           | Some (pdus, tx'') \<Rightarrow> Some (pdu # pdus, tx'')))"

text \<open>The PDU that TS 38.323 prescribes for a message with a given COUNT under an integrity key.\<close>

definition pdcp_pdu_of :: "crypto \<Rightarrow> bytes \<Rightarrow> u32 \<Rightarrow> bytes \<Rightarrow> bytes" where
  "pdcp_pdu_of cr ik count m =
     (let body = u16_to_be_bytes (ucast count AND 0xfff) @ m
      in body @ arr4_list (calculate_nia2_mac cr ik (u32_to_be_bytes count) 0 1 body))"

lemma pdcp_encode_protected:
  assumes "pdcp_integrity_key tx = Some ik" and "oc \<longrightarrow> tx_next tx \<noteq> - 1"
  shows "pdcp_encode oc cr 1 m tx = Some (pdcp_pdu_of cr ik (tx_next tx) m, tx\<lparr>tx_next := tx_next tx + 1\<rparr>)"
  using assms by (simp add: pdcp_encode_def pdcp_pdu_of_def Let_def rs_inc_def PDCP_SN_DL_MASK_def DIRECTION_DL_def)

lemma word_succ_nat:
  "unat (n :: 'w::len word) + Suc k < 2 ^ LENGTH('w) \<Longrightarrow> n \<noteq> - 1 \<and> unat (n + 1) = unat n + 1"
proof -
  assume a: "unat n + Suc k < 2 ^ LENGTH('w)"
  then have "unat n + 1 < 2 ^ LENGTH('w)" by simp
  then have u: "unat (n + 1) = unat n + 1" by (metis unat_1 unat_add_lem)
  moreover from this have "n + 1 \<noteq> 0" by (metis add_is_0 one_neq_zero unat_0)
  ultimately show ?thesis by (metis add.left_inverse)
qed

lemma pdcp_encode_all_protected:
  assumes "pdcp_integrity_key tx = Some ik" and "unat (tx_next tx) + length ms < 2 ^ 32"
  shows "pdcp_encode_all oc cr ms tx =
    Some (map (\<lambda>(i, m). pdcp_pdu_of cr ik (tx_next tx + word_of_nat i) m) (enumerate 0 ms),
          tx\<lparr>tx_next := tx_next tx + word_of_nat (length ms)\<rparr>)"
  using assms
proof (induction ms arbitrary: tx)
  case (Cons m ms)
  let ?tx = "tx\<lparr>tx_next := tx_next tx + 1\<rparr>"
  from Cons.prems have next1: "tx_next tx \<noteq> - 1 \<and> unat (tx_next tx + 1) = unat (tx_next tx) + 1"
    by (intro word_succ_nat [of _ "length ms"]) simp
  have "enumerate 0 (m # ms) = (0, m) # map (\<lambda>(i, x). (Suc i, x)) (enumerate 0 ms)"
    by (auto simp: enumerate_Suc_eq)
  moreover have "pdcp_encode_all oc cr ms ?tx =
    Some (map (\<lambda>(i, m). pdcp_pdu_of cr ik (tx_next ?tx + word_of_nat i) m) (enumerate 0 ms),
          ?tx\<lparr>tx_next := tx_next ?tx + word_of_nat (length ms)\<rparr>)"
    using Cons.prems next1 by (intro Cons.IH) auto
  ultimately show ?case
    using pdcp_encode_protected [OF Cons.prems(1), of oc cr m] next1
    by (auto simp: case_prod_beta algebra_simps)
qed simp

text \<open>
  C31. Once security is enabled, the messages of SRB1 are protected in order with consecutive COUNT
  values: message number i carries the low 12 bits of COUNT as its sequence number and the NIA2 MAC,
  under the RRC key, bearer 0 and the downlink direction, over header and message; no two messages of
  a UE share a COUNT, and the next COUNT is the number of messages sent.
\<close>

theorem pdcp_stream_protected:
  assumes "pdcp_integrity_key tx = Some ik" and "unat (tx_next tx) + length ms < 2 ^ 32"
  shows "\<exists>pdus tx'. pdcp_encode_all oc cr ms tx = Some (pdus, tx') \<and> length pdus = length ms
    \<and> unat (tx_next tx') = unat (tx_next tx) + length ms
    \<and> (\<exists>counts. length counts = length ms \<and> distinct counts
        \<and> (\<forall>i < length ms. unat (counts ! i) = unat (tx_next tx) + i
             \<and> pdus ! i = pdcp_pdu_of cr ik (counts ! i) (ms ! i)))"
proof -
  let ?counts = "map (\<lambda>i. tx_next tx + word_of_nat i) [0..<length ms]"
  have u: "unat (tx_next tx + word_of_nat i :: u32) = unat (tx_next tx) + i" if "i \<le> length ms" for i
  proof -
    from assms(2) that have "unat (word_of_nat i :: u32) = i" by (simp add: unat_of_nat)
    moreover from assms(2) that have "unat (tx_next tx) + i < 2 ^ LENGTH(32)" by simp
    ultimately show ?thesis by (metis unat_add_lem)
  qed
  have "distinct ?counts"
    unfolding distinct_map
  proof (intro conjI inj_onI)
    fix i j assume "i \<in> set [0..<length ms]" "j \<in> set [0..<length ms]"
      and eq: "tx_next tx + word_of_nat i = tx_next tx + word_of_nat j"
    then have "i \<le> length ms" "j \<le> length ms" by auto
    from arg_cong [OF eq, of unat, unfolded u [OF this(1)] u [OF this(2)]] show "i = j" by simp
  qed simp
  let ?pdus = "map (\<lambda>(i, m). pdcp_pdu_of cr ik (tx_next tx + word_of_nat i) m) (enumerate 0 ms)"
  let ?tx = "tx\<lparr>tx_next := tx_next tx + word_of_nat (length ms)\<rparr>"
  have "unat (?counts ! i) = unat (tx_next tx) + i \<and> ?pdus ! i = pdcp_pdu_of cr ik (?counts ! i) (ms ! i)"
    if "i < length ms" for i
    using that u [of i] by (simp add: nth_enumerate_eq)
  with \<open>distinct ?counts\<close> have "\<exists>counts. length counts = length ms \<and> distinct counts
      \<and> (\<forall>i < length ms. unat (counts ! i) = unat (tx_next tx) + i \<and> ?pdus ! i = pdcp_pdu_of cr ik (counts ! i) (ms ! i))"
    by (intro exI [of _ ?counts]) simp
  moreover have "length ?pdus = length ms" "unat (tx_next ?tx) = unat (tx_next tx) + length ms"
    using u [of "length ms"] by simp_all
  ultimately show ?thesis using pdcp_encode_all_protected [OF assms, of oc cr] by blast
qed

theorem pdcp_stream_protected_witness:
  "\<exists>pdus tx'. pdcp_encode_all True example_crypto [[1], [2, 3]] \<lparr>tx_next = 7, pdcp_integrity_key = Some [9]\<rparr>
      = Some (pdus, tx') \<and> length pdus = 2"
  using pdcp_stream_protected [of "\<lparr>tx_next = 7, pdcp_integrity_key = Some [9]\<rparr>" "[9]" "[[1], [2, 3]]" True example_crypto]
  by (auto simp del: pdcp_encode_all.simps)

end
