(* ===== verification/Nas_Context.thy ===== *)
theory Nas_Context
  imports Nas_Messages Pdcp
begin

text \<open>
  NAS security (\<open>qcore/src/data/{security_context,nas_context}.rs\<close>): integrity protection of downlink
  messages with the NAS COUNT, and the decoding of uplink messages; and the patch that \<open>uplink_nas.rs\<close>
  applies to a security-protected message before it decodes it.
\<close>

section \<open>Security context\<close>

record security_context =
  sc_ik :: bytes
  dl_count :: u32

definition security_context_new :: "bytes \<Rightarrow> security_context" where
  "security_context_new ik = \<lparr>sc_ik = ik, dl_count = 0\<rparr>"

text \<open>
  \<open>Nas5gsMessage::protect\<close> puts a message under a security header with MAC 0.  The outer \<open>None\<close> is a
  panic: a slice of the encoded message, or the increment in a build with overflow checks.
\<close>

definition encode_with_integrity ::
    "bool \<Rightarrow> crypto \<Rightarrow> nas_lib \<Rightarrow> nas_5gs_message \<Rightarrow> security_context
     \<Rightarrow> ((error + bytes) \<times> security_context) option" where
  "encode_with_integrity overflow_checks cr lib nas sc =
     (let security_header_type = (if dl_count sc = 0 then IntegrityProtectedWithNewContext
                                  else IntegrityProtectedAndCiphered);
          protected = SecurityProtected \<lparr>sh_type = security_header_type, sh_mac = 0,
                        sh_sequence_number = ucast (dl_count sc AND 0xff)\<rparr> nas
      in case encode_nas_5gs_message lib protected of
           Inl e \<Rightarrow> Some (Inl e, sc)
         | Inr nas_bytes \<Rightarrow>
             (case rs_slice nas_bytes 6 (length nas_bytes) of
                None \<Rightarrow> None
              | Some inner \<Rightarrow>
                  (let bearer = 1;
                       direction = 0b1;
                       mac = calculate_nia2_mac cr (sc_ik sc) (u32_to_be_bytes (dl_count sc)) bearer direction inner;
                       nas_bytes = nas_bytes[2 := arr4_0 mac, 3 := arr4_1 mac, 4 := arr4_2 mac, 5 := arr4_3 mac]
                   in case rs_inc overflow_checks (dl_count sc) of
                        None \<Rightarrow> None
                      | Some count \<Rightarrow> Some (Inr nas_bytes, sc\<lparr>dl_count := count AND 0xffffff\<rparr>))))"

section \<open>NAS context\<close>

record nas_context =
  nas_security_context :: "security_context option"

definition nas_context_default :: nas_context where
  "nas_context_default = \<lparr>nas_security_context = None\<rparr>"

definition nas_context_decode :: "nas_lib \<Rightarrow> bytes \<Rightarrow> error + nas_5gs_message" where
  "nas_context_decode lib data =
     result_bind (decode_nas_5gs_message lib data) (\<lambda>nas.
       case nas of
         SecurityProtected _ body \<Rightarrow> Inr body
       | nas \<Rightarrow> Inr nas)"

definition nas_context_enable_security :: "bytes \<Rightarrow> nas_context \<Rightarrow> nas_context" where
  "nas_context_enable_security knasint ctx = ctx\<lparr>nas_security_context := Some (security_context_new knasint)\<rparr>"

definition nas_context_encode ::
    "bool \<Rightarrow> crypto \<Rightarrow> nas_lib \<Rightarrow> nas_5gs_message \<Rightarrow> nas_context \<Rightarrow> ((error + bytes) \<times> nas_context) option" where
  "nas_context_encode overflow_checks cr lib nas ctx =
     (case nas_security_context ctx of
        Some sc \<Rightarrow>
          (case encode_with_integrity overflow_checks cr lib nas sc of
             None \<Rightarrow> None
           | Some (r, sc') \<Rightarrow> Some (r, ctx\<lparr>nas_security_context := Some sc'\<rparr>))
      | None \<Rightarrow> Some (encode_nas_5gs_message lib nas, ctx))"

section \<open>The patch of the uplink\<close>

definition INNER_SECURITY_HEADER_TYPE_OFFSET :: nat where "INNER_SECURITY_HEADER_TYPE_OFFSET = 8"

definition patch_nas_for_oai_deregistration_security_header :: "bytes \<Rightarrow> bytes" where
  "patch_nas_for_oai_deregistration_security_header nas_bytes =
     (if length nas_bytes < INNER_SECURITY_HEADER_TYPE_OFFSET + 1 then nas_bytes
      else if nas_bytes ! 0 = 0x7e \<and> nas_bytes ! 1 = 0x02
              \<and> nas_bytes ! INNER_SECURITY_HEADER_TYPE_OFFSET \<noteq> 0x00
      then nas_bytes[INNER_SECURITY_HEADER_TYPE_OFFSET := 0x00]
      else nas_bytes)"

section \<open>What the NAS library promises\<close>

text \<open>
  TS 24.501, 9.1.1: a security-protected message is the extended protocol discriminator, the security
  header type, the MAC, the sequence number and the plain message.
\<close>

fun security_header_code :: "nas_security_header_type \<Rightarrow> u8" where
  "security_header_code IntegrityProtectedWithNewContext = 3"
| "security_header_code IntegrityProtectedAndCiphered = 2"
| "security_header_code (OtherHeaderType c) = c"

definition nas_layout :: "nas_lib \<Rightarrow> bool" where
  "nas_layout lib \<longleftrightarrow> (\<forall>hdr m. nas_encode_5gs lib (SecurityProtected hdr m) =
     map_option (\<lambda>inner. [0x7e, security_header_code (sh_type hdr)] @ arr4_list (u32_to_be_bytes (sh_mac hdr))
                  @ [sh_sequence_number hdr] @ inner) (nas_encode_5gs lib m))"

text \<open>The protected message that TS 24.501 and TS 33.501 prescribe for a COUNT.\<close>

definition nas_pdu_of :: "crypto \<Rightarrow> bytes \<Rightarrow> u32 \<Rightarrow> bytes \<Rightarrow> bytes" where
  "nas_pdu_of cr ik count inner =
     (let seq = ucast (count AND 0xff) :: u8
      in [0x7e, if count = 0 then 3 else 2]
         @ arr4_list (calculate_nia2_mac cr ik (u32_to_be_bytes count) 1 1 (seq # inner)) @ [seq] @ inner)"

lemma encode_with_integrity_eq:
  assumes "nas_layout lib" and "nas_encode_5gs lib m = Some inner" and "oc \<longrightarrow> dl_count sc \<noteq> - 1"
  shows "encode_with_integrity oc cr lib m sc =
    Some (Inr (nas_pdu_of cr (sc_ik sc) (dl_count sc) inner), sc\<lparr>dl_count := (dl_count sc + 1) AND 0xffffff\<rparr>)"
proof -
  have upd: "(arr4_list z @ xs)[0 := arr4_0 w, Suc 0 := arr4_1 w, 2 := arr4_2 w, 3 := arr4_3 w]
      = arr4_list w @ xs" for z w and xs :: bytes
    by (cases z; cases w) (simp add: eval_nat_numeral)
  have "nas_encode_5gs lib (SecurityProtected hdr m) =
      Some ([0x7e, security_header_code (sh_type hdr)] @ arr4_list (u32_to_be_bytes (sh_mac hdr))
        @ [sh_sequence_number hdr] @ inner)" for hdr
    using assms(1,2) by (simp add: nas_layout_def)
  then show ?thesis
    using assms(3)
    by (simp add: encode_with_integrity_def encode_nas_5gs_message_def Let_def rs_inc_def upd nas_pdu_of_def rs_slice_def)
qed

text \<open>The downlink messages of a UE, in the order they are protected.\<close>

fun encode_all_with_integrity ::
    "bool \<Rightarrow> crypto \<Rightarrow> nas_lib \<Rightarrow> nas_5gs_message list \<Rightarrow> security_context
     \<Rightarrow> ((error + bytes) list \<times> security_context) option" where
  "encode_all_with_integrity oc cr lib [] sc = Some ([], sc)"
| "encode_all_with_integrity oc cr lib (m # ms) sc =
     (case encode_with_integrity oc cr lib m sc of
        None \<Rightarrow> None
      | Some (r, sc') \<Rightarrow>
          (case encode_all_with_integrity oc cr lib ms sc' of
             None \<Rightarrow> None
           | Some (rs, sc'') \<Rightarrow> Some (r # rs, sc'')))"

lemma count_mask: "unat ((c :: u32) AND 0xffffff) = unat c mod 2 ^ 24"
proof -
  have "c AND 0xffffff = take_bit 24 c" by (simp add: take_bit_eq_mask mask_eq_exp_minus_1)
  then show ?thesis by (simp add: take_bit_eq_mod unat_mod)
qed

lemma count_step:
  assumes "unat (c :: u32) < 2 ^ 24"
  shows "c \<noteq> - 1" and "unat ((c + 1) AND 0xffffff) = (unat c + 1) mod 2 ^ 24"
proof -
  have s: "c \<noteq> - 1 \<and> unat (c + 1) = unat c + 1" by (rule word_succ_nat [of _ 0]) (use assms in simp)
  then show "c \<noteq> - 1" by simp
  from s show "unat ((c + 1) AND 0xffffff) = (unat c + 1) mod 2 ^ 24" by (simp add: count_mask)
qed

lemma encode_all_eq:
  assumes "nas_layout lib" and "\<forall>m \<in> set ms. nas_encode_5gs lib m \<noteq> None" and "unat (dl_count sc) < 2 ^ 24"
  shows "\<exists>outs sc'. encode_all_with_integrity oc cr lib ms sc = Some (map Inr outs, sc')
    \<and> length outs = length ms \<and> sc_ik sc' = sc_ik sc
    \<and> unat (dl_count sc') = (unat (dl_count sc) + length ms) mod 2 ^ 24
    \<and> (\<forall>i < length ms. outs ! i = nas_pdu_of cr (sc_ik sc) (word_of_nat ((unat (dl_count sc) + i) mod 2 ^ 24))
          (the (nas_encode_5gs lib (ms ! i))))"
  using assms(2,3)
proof (induction ms arbitrary: sc)
  case Nil
  then show ?case by simp
next
  case (Cons m ms)
  let ?sc = "sc\<lparr>dl_count := (dl_count sc + 1) AND 0xffffff\<rparr>"
  from Cons.prems obtain inner where inner: "nas_encode_5gs lib m = Some inner" by auto
  note step = count_step [OF Cons.prems(2)]
  have lt: "unat (dl_count ?sc) < 2 ^ 24" using step(2) by simp
  from Cons.IH [OF _ lt] Cons.prems(1) obtain outs sc' where IH:
    "encode_all_with_integrity oc cr lib ms ?sc = Some (map Inr outs, sc')"
    "length outs = length ms" "sc_ik sc' = sc_ik sc"
    "unat (dl_count sc') = (unat (dl_count ?sc) + length ms) mod 2 ^ 24"
    "\<forall>i < length ms. outs ! i = nas_pdu_of cr (sc_ik sc) (word_of_nat ((unat (dl_count ?sc) + i) mod 2 ^ 24))
          (the (nas_encode_5gs lib (ms ! i)))"
    by auto
  have run: "encode_with_integrity oc cr lib m sc = Some (Inr (nas_pdu_of cr (sc_ik sc) (dl_count sc) inner), ?sc)"
    using encode_with_integrity_eq [OF assms(1) inner] step(1) by simp
  have shift: "(unat (dl_count ?sc) + i) mod 2 ^ 24 = (unat (dl_count sc) + Suc i) mod 2 ^ 24" for i
    using step(2) by (simp add: mod_add_left_eq)
  have zero: "word_of_nat (unat (dl_count sc) mod 2 ^ 24) = dl_count sc" using Cons.prems(2) by simp
  show ?case
    by (rule exI [of _ "nas_pdu_of cr (sc_ik sc) (dl_count sc) inner # outs"], rule exI [of _ sc'])
      (use IH(1-3) IH(4,5) [unfolded shift] run inner zero in \<open>auto simp: nth_Cons split: nat.split\<close>)
qed

text \<open>
  C30. NAS integrity protection over the life of a security context: starting from a fresh context, message
  number i is sent with COUNT = i modulo 2 to the 24: its sequence number is the low byte of COUNT, its MAC
  is NIA2 under the NAS key, bearer 1 and the downlink direction, over the sequence number and the plain
  message, and it claims a new security context exactly when COUNT is 0.  After n messages the COUNT is n
  modulo 2 to the 24, so message number 2 to the 24 repeats COUNT 0 under the same key.
\<close>

theorem nas_stream_protected:
  assumes "nas_layout lib" and "\<forall>m \<in> set ms. nas_encode_5gs lib m \<noteq> None"
  shows "\<exists>outs sc. encode_all_with_integrity oc cr lib ms (security_context_new ik) = Some (map Inr outs, sc)
    \<and> length outs = length ms \<and> unat (dl_count sc) = length ms mod 2 ^ 24
    \<and> (\<forall>i < length ms. outs ! i = nas_pdu_of cr ik (word_of_nat (i mod 2 ^ 24)) (the (nas_encode_5gs lib (ms ! i))))"
proof -
  let ?sc = "security_context_new ik"
  have sc: "sc_ik ?sc = ik" "unat (dl_count ?sc) = 0" by (simp_all add: security_context_new_def)
  then have "unat (dl_count ?sc) < 2 ^ 24" by simp
  from encode_all_eq [OF assms this, unfolded sc add_0] show ?thesis by blast
qed

text \<open>A library with the layout of the standard and a one-byte plain message.\<close>

fun example_nas_encode :: "nas_5gs_message \<Rightarrow> bytes option" where
  "example_nas_encode (SecurityProtected hdr m) =
     map_option (\<lambda>inner. [0x7e, security_header_code (sh_type hdr)] @ arr4_list (u32_to_be_bytes (sh_mac hdr))
                  @ [sh_sequence_number hdr] @ inner) (example_nas_encode m)"
| "example_nas_encode (Gmm (AuthenticationResponse _)) = Some [0x57]"
| "example_nas_encode (Gmm (SecurityModeComplete _)) = Some [0x5e]"
| "example_nas_encode (Gmm (RegistrationRequest r)) = Some (0x41 # rr_fgs_mobile_identity r)"
| "example_nas_encode (Gmm RegistrationComplete) = Some [0x43]"
| "example_nas_encode (Gmm _) = Some [0x7e]"
| "example_nas_encode (Gsm _ _) = Some [0x2e]"

definition example_nas_lib :: nas_lib where
  "example_nas_lib = \<lparr>nas_encode_5gs = example_nas_encode, nas_decode_5gs = (\<lambda>_. None)\<rparr>"

lemma example_nas_layout: "nas_layout example_nas_lib"
  by (simp add: nas_layout_def example_nas_lib_def)

theorem nas_stream_protected_witness:
  "\<exists>outs sc. encode_all_with_integrity True example_crypto example_nas_lib
      [Gmm RegistrationComplete, Gmm RegistrationComplete] (security_context_new [1]) = Some (map Inr outs, sc)
    \<and> outs ! 1 = nas_pdu_of example_crypto [1] 1 [0x43]"
proof -
  have "\<forall>m \<in> set [Gmm RegistrationComplete, Gmm RegistrationComplete]. nas_encode_5gs example_nas_lib m \<noteq> None"
    by (simp add: example_nas_lib_def)
  from nas_stream_protected [OF example_nas_layout this, of True example_crypto "[1]"]
  obtain outs sc where "encode_all_with_integrity True example_crypto example_nas_lib
      [Gmm RegistrationComplete, Gmm RegistrationComplete] (security_context_new [1]) = Some (map Inr outs, sc)"
    and "\<forall>i < 2. outs ! i = nas_pdu_of example_crypto [1] (word_of_nat (i mod 2 ^ 24))
      (the (nas_encode_5gs example_nas_lib ([Gmm RegistrationComplete, Gmm RegistrationComplete] ! i)))"
    by (auto simp del: encode_all_with_integrity.simps)
  moreover from this(2) have "outs ! 1 = nas_pdu_of example_crypto [1] 1 [0x43]"
    by (auto simp: example_nas_lib_def)
  ultimately show ?thesis by blast
qed

section \<open>Messages that the standard allows\<close>

text \<open>
  TS 24.501, 8.2 and 8.3: the information elements that QCore sets in the messages it builds have a length between the
  bounds of their tables, and the others are left out.
\<close>

definition octets_between :: "nat \<Rightarrow> nat \<Rightarrow> bytes \<Rightarrow> bool" where
  "octets_between lo hi xs \<longleftrightarrow> lo \<le> length xs \<and> length xs \<le> hi"

fun nas_ies_ok :: "nas_5gs_message \<Rightarrow> bool" where
  "nas_ies_ok (Gmm (AuthenticationRequest m)) \<longleftrightarrow> octets_between 2 255 (ar_abba m)
     \<and> pred_option (octets_between 16 16) (ar_rand m) \<and> pred_option (octets_between 16 16) (ar_autn m) \<and> ar_eap_message m = None"
| "nas_ies_ok (Gmm (SecurityModeCommand m)) \<longleftrightarrow> octets_between 2 8 (smc_replayed_ue_security_capabilities m)
     \<and> pred_option (octets_between 1 1) (smc_additional_fg_security_information m) \<and> smc_imeisv_request m = None
     \<and> smc_selected_eps_nas_security_algorithms m = None \<and> smc_eap_message m = None \<and> smc_abba m = None
     \<and> smc_replayed_s1_ue_security_capabilities m = None"
| "nas_ies_ok (Gmm (RegistrationAccept m)) \<longleftrightarrow> octets_between 1 1 (ra_fgs_registration_result m)
     \<and> pred_option (octets_between 11 11) (ra_fg_guti m) \<and> pred_option (octets_between 2 72) (ra_allowed_nssai m)"
| "nas_ies_ok (Gmm (DlNasTransport m)) \<longleftrightarrow> octets_between 1 65535 (dt_payload_container m) \<and> dt_pdu_session_id m = None
     \<and> dt_additional_information m = None \<and> dt_fgmm_cause m = None \<and> dt_back_off_timer_value m = None
     \<and> dt_lower_bound_timer_value m = None"
| "nas_ies_ok (Gsm h (PduSessionEstablishmentAccept m)) \<longleftrightarrow> octets_between 4 65535 (pa_authorized_qos_rules m)
     \<and> octets_between 6 6 (pa_session_ambr m) \<and> pred_option (octets_between 5 29) (pa_pdu_address m)
     \<and> pred_option (octets_between 1 100) (pa_dnn m)
     \<and> (\<forall>y \<in> {pa_fgsm_cause m, pa_rq_timer_value m, pa_s_nssai m, pa_always_on_pdu_session_indication m,
          pa_mapped_eps_bearer_contexts m, pa_eap_message m, pa_authorized_qos_flow_descriptions m,
          pa_extended_protocol_configuration_options m, pa_fgsm_network_feature_support m, pa_serving_plmn_rate_control m,
          pa_atsss_container m, pa_control_plane_only_indication m, pa_ip_header_compression_configuration m,
          pa_ethernet_header_compression_configuration m, pa_service_level_aa_container m, pa_received_mbs_container m}. y = None)"
| "nas_ies_ok _ \<longleftrightarrow> False"

text \<open>The formats of the elements: with a length (LV, LV-E), and with a tag as well (TV, TLV, TLV-E) when present.\<close>

definition nas_lv :: "bytes \<Rightarrow> bytes" where
  "nas_lv v = of_nat (length v) # v"

definition nas_lve :: "bytes \<Rightarrow> bytes" where
  "nas_lve v = of_nat (length v div 256) # of_nat (length v) # v"

definition nas_tagged :: "u8 \<Rightarrow> (bytes \<Rightarrow> bytes) \<Rightarrow> bytes option \<Rightarrow> bytes" where
  "nas_tagged iei f v = (case v of None \<Rightarrow> [] | Some x \<Rightarrow> iei # f x)"

text \<open>The octets of these messages.\<close>

fun nas_octets :: "nas_5gs_message \<Rightarrow> bytes" where
  "nas_octets (Gmm (AuthenticationRequest m)) = [0x7e, 0, 0x56, ar_ngksi m] @ nas_lv (ar_abba m)
     @ nas_tagged 0x21 (\<lambda>v. v) (ar_rand m) @ nas_tagged 0x20 nas_lv (ar_autn m)"
| "nas_octets (Gmm (SecurityModeCommand m)) = [0x7e, 0, 0x5d, smc_selected_nas_security_algorithms m, smc_ngksi m]
     @ nas_lv (smc_replayed_ue_security_capabilities m) @ nas_tagged 0x36 nas_lv (smc_additional_fg_security_information m)"
| "nas_octets (Gmm (RegistrationAccept m)) = [0x7e, 0, 0x42] @ nas_lv (ra_fgs_registration_result m)
     @ nas_tagged 0x77 nas_lve (ra_fg_guti m) @ nas_tagged 0x15 nas_lv (ra_allowed_nssai m)"
| "nas_octets (Gmm (DlNasTransport m)) = [0x7e, 0, 0x68, dt_payload_container_type m] @ nas_lve (dt_payload_container m)"
| "nas_octets (Gsm h (PduSessionEstablishmentAccept m)) =
     [0x2e, pdu_session_identity h, procedure_transaction_identity h, 0xc2, pa_selected_pdu_session_type m]
     @ nas_lve (pa_authorized_qos_rules m) @ nas_lv (pa_session_ambr m) @ nas_tagged 0x29 nas_lv (pa_pdu_address m)
     @ nas_tagged 0x25 nas_lv (pa_dnn m)"
| "nas_octets _ = []"

text \<open>
  A library encodes what the standard allows, in no more octets than the standard gives it; what it does with other
  messages is left open.
\<close>

definition nas_encodes :: "nas_lib \<Rightarrow> bool" where
  "nas_encodes lib \<longleftrightarrow> (\<forall>m. nas_ies_ok m \<longrightarrow> (\<exists>b. nas_encode_5gs lib m = Some b \<and> b \<noteq> [] \<and> length b \<le> length (nas_octets m)))"

text \<open>The protected message has seven octets more than the plain one.\<close>

lemma length_nas_pdu_of: "length (nas_pdu_of cr ik count inner) = length inner + 7"
proof -
  have "length (arr4_list x) = 4" for x by (cases x) simp
  then show ?thesis by (simp add: nas_pdu_of_def Let_def)
qed

text \<open>A reference encoder: the octets of the standard, and a refusal of what it does not allow.\<close>

fun nas_ref_encode :: "nas_5gs_message \<Rightarrow> bytes option" where
  "nas_ref_encode (SecurityProtected hdr m) =
     map_option (\<lambda>inner. [0x7e, security_header_code (sh_type hdr)] @ arr4_list (u32_to_be_bytes (sh_mac hdr))
                  @ [sh_sequence_number hdr] @ inner) (nas_ref_encode m)"
| "nas_ref_encode m = (if nas_ies_ok m then Some (nas_octets m) else None)"

lemma nas_ref_plain: "nas_ies_ok m \<Longrightarrow> nas_ref_encode m = Some (nas_octets m) \<and> nas_octets m \<noteq> []"
  by (induction m rule: nas_ies_ok.induct) auto

lemma nas_ref_lawful:
  assumes "nas_encode_5gs lib = nas_ref_encode"
  shows "nas_layout lib" and "nas_encodes lib"
  using nas_ref_plain by (simp_all add: nas_layout_def nas_encodes_def assms)

end
