(* ===== verification/Aper.thy ===== *)
theory Aper
  imports Qcore_Prelude "HOL-Library.Char_ord"
begin

text \<open>
  The aligned PER codec interface (\<open>5g-libs/asn1-per/src/lib.rs\<close>).  The primitives
  (\<open>asn1_codecs::aper\<close>, a third-party crate) are the fields of the record \<open>per_lib\<close>, an argument of
  every codec; the locale \<open>aper_lib\<close> states what the codecs rely on: in-range values are written as a
  bounded number of bits that the matching decoder reads back, at the same alignment, leaving the bits
  that follow.  A \<open>PerCodecData\<close> that is written is its list of bits; one that is read is its offset
  and the bits behind it.  The trait \<open>PerCodec\<close> is a record of two functions, and its implementation
  for a type is a value of that record.
\<close>

section \<open>Data, errors and panics\<close>

type_synonym bits = "bool list"
type_synonym per_data = "nat \<times> bool list"

text \<open>
  A failure is an error with its message and the contexts pushed onto it, innermost first, or the panic
  of an \<open>unwrap\<close> or an index out of bounds, which no \<open>map_err\<close> sees.
\<close>

datatype per_fail = PerCodecError string "string list" | PerPanic

type_synonym 'a per_result = "per_fail + 'a"
type_synonym 'a decoder = "per_data \<Rightarrow> ('a \<times> per_data) per_result"
type_synonym encoder = "bits \<Rightarrow> bits per_result"

definition per_codec_error_new :: "string \<Rightarrow> per_fail" where
  "per_codec_error_new message = PerCodecError message []"

text \<open>\<open>format!\<close> of an integer.\<close>

fun show_nat :: "nat \<Rightarrow> string" where
  "show_nat n = (if n < 10 then [char_of (48 + n)] else show_nat (n div 10) @ [char_of (48 + n mod 10)])"

declare show_nat.simps [simp del]

definition show_int :: "int \<Rightarrow> string" where
  "show_int i = (if i < 0 then CHR ''-'' # show_nat (nat (- i)) else show_nat (nat i))"

definition unrecognised_ie :: "int \<Rightarrow> per_fail" where
  "unrecognised_ie x = per_codec_error_new (''Unrecognised IE type '' @ show_int x)"

fun push_context :: "string \<Rightarrow> 'a per_result \<Rightarrow> 'a per_result" where
  "push_context c (Inl (PerCodecError m cs)) = Inl (PerCodecError m (cs @ [c]))"
| "push_context c r = r"

definition dec_return :: "'a \<Rightarrow> 'a decoder" where
  "dec_return x = (\<lambda>data. Inr (x, data))"

definition dec_fail :: "per_fail \<Rightarrow> 'a decoder" where
  "dec_fail e = (\<lambda>data. Inl e)"

definition dec_bind :: "'a decoder \<Rightarrow> ('a \<Rightarrow> 'b decoder) \<Rightarrow> 'b decoder" where
  "dec_bind d f = (\<lambda>data. result_bind (d data) (\<lambda>(x, data). f x data))"

definition enc_seq :: "encoder \<Rightarrow> encoder \<Rightarrow> encoder" where
  "enc_seq e1 e2 = (\<lambda>w. result_bind (e1 w) e2)"

definition enc_skip :: encoder where
  "enc_skip = Inr"

text \<open>\<open>optionals[i]\<close> on the bit string of a sequence header.\<close>

definition dec_index :: "bits \<Rightarrow> nat \<Rightarrow> bool decoder" where
  "dec_index optionals i =
     (case rs_get optionals i of None \<Rightarrow> dec_fail PerPanic | Some b \<Rightarrow> dec_return b)"

section \<open>The primitives and the trait\<close>

record per_lib =
  encode_integer :: "int option \<Rightarrow> int option \<Rightarrow> bool \<Rightarrow> int \<Rightarrow> bool \<Rightarrow> encoder"
  decode_integer :: "int option \<Rightarrow> int option \<Rightarrow> bool \<Rightarrow> (int \<times> bool) decoder"
  encode_enumerated :: "int option \<Rightarrow> int option \<Rightarrow> bool \<Rightarrow> int \<Rightarrow> bool \<Rightarrow> encoder"
  decode_enumerated :: "int option \<Rightarrow> int option \<Rightarrow> bool \<Rightarrow> (int \<times> bool) decoder"
  encode_choice_idx :: "int \<Rightarrow> int \<Rightarrow> bool \<Rightarrow> int \<Rightarrow> bool \<Rightarrow> encoder"
  decode_choice_idx :: "int \<Rightarrow> int \<Rightarrow> bool \<Rightarrow> (int \<times> bool) decoder"
  encode_length_determinent :: "nat option \<Rightarrow> nat option \<Rightarrow> bool \<Rightarrow> nat \<Rightarrow> encoder"
  decode_length_determinent :: "nat option \<Rightarrow> nat option \<Rightarrow> bool \<Rightarrow> nat decoder"
  encode_sequence_header :: "bool \<Rightarrow> bits \<Rightarrow> bool \<Rightarrow> encoder"
  decode_sequence_header :: "bool \<Rightarrow> nat \<Rightarrow> (bits \<times> bool) decoder"
  encode_octetstring :: "nat option \<Rightarrow> nat option \<Rightarrow> bool \<Rightarrow> bytes \<Rightarrow> bool \<Rightarrow> encoder"
  decode_octetstring :: "nat option \<Rightarrow> nat option \<Rightarrow> bool \<Rightarrow> bytes decoder"
  encode_bitstring :: "nat option \<Rightarrow> nat option \<Rightarrow> bool \<Rightarrow> bits \<Rightarrow> bool \<Rightarrow> encoder"
  decode_bitstring :: "nat option \<Rightarrow> nat option \<Rightarrow> bool \<Rightarrow> bits decoder"
  encode_bool :: "bool \<Rightarrow> encoder"
  decode_bool :: "bool decoder"
  encode_printable_string :: "nat option \<Rightarrow> nat option \<Rightarrow> bool \<Rightarrow> string \<Rightarrow> bool \<Rightarrow> encoder"
  decode_printable_string :: "nat option \<Rightarrow> nat option \<Rightarrow> bool \<Rightarrow> string decoder"
  encode_visible_string :: "nat option \<Rightarrow> nat option \<Rightarrow> bool \<Rightarrow> string \<Rightarrow> bool \<Rightarrow> encoder"
  decode_visible_string :: "nat option \<Rightarrow> nat option \<Rightarrow> bool \<Rightarrow> string decoder"
  encode_utf8_string :: "nat option \<Rightarrow> nat option \<Rightarrow> bool \<Rightarrow> string \<Rightarrow> bool \<Rightarrow> encoder"
  decode_utf8_string :: "nat option \<Rightarrow> nat option \<Rightarrow> bool \<Rightarrow> string decoder"
  append_aligned :: "bits \<Rightarrow> bits \<Rightarrow> bits"
  length_in_bytes :: "bits \<Rightarrow> nat"
  decode_align :: "unit decoder"
  advance_maybe_err :: "nat \<Rightarrow> bool \<Rightarrow> unit decoder"
  data_into_bytes :: "bits \<Rightarrow> bytes"
  data_from_slice :: "bytes \<Rightarrow> per_data"

record 'a per_codec =
  decode_of :: "'a decoder"
  encode_of :: "'a \<Rightarrow> encoder"

text \<open>
  The generated \<open>impl PerCodec\<close> of a type: its \<open>decode_inner\<close> and \<open>encode_inner\<close> with the name of the
  type pushed onto the context of an error.
\<close>

definition per_codec_impl :: "string \<Rightarrow> 'a decoder \<Rightarrow> ('a \<Rightarrow> encoder) \<Rightarrow> 'a per_codec" where
  "per_codec_impl name decode_inner encode_inner =
     \<lparr>decode_of = (\<lambda>data. push_context name (decode_inner data)),
      encode_of = (\<lambda>x w. push_context name (encode_inner x w))\<rparr>"

text \<open>The blanket implementation of \<open>SerDes\<close>.\<close>

definition serdes_into_bytes :: "per_lib \<Rightarrow> 'a per_codec \<Rightarrow> 'a \<Rightarrow> bytes per_result" where
  "serdes_into_bytes L C x = result_bind (encode_of C x []) (\<lambda>d. Inr (data_into_bytes L d))"

definition serdes_from_bytes :: "per_lib \<Rightarrow> 'a per_codec \<Rightarrow> bytes \<Rightarrow> 'a per_result" where
  "serdes_from_bytes L C bs =
     result_bind (decode_of C (data_from_slice L bs)) (\<lambda>(x, _). Inr x)"

section \<open>Codes\<close>

text \<open>
  \<open>codes n e d x\<close>: the encoder \<open>e\<close> appends at most \<open>n\<close> bits, and the decoder \<open>d\<close>, at an offset of
  the same alignment, reads exactly these bits and returns \<open>x\<close>, whatever follows them.
\<close>

definition codes :: "nat \<Rightarrow> encoder \<Rightarrow> 'a decoder \<Rightarrow> 'a \<Rightarrow> bool" where
  "codes n e d x \<longleftrightarrow>
     (\<forall>w. \<exists>bs. e w = Inr (w @ bs) \<and> length bs \<le> n \<and>
       (\<forall>off rest. off mod 8 = length w mod 8 \<longrightarrow>
          d (off, bs @ rest) = Inr (x, (off + length bs, rest))))"

named_theorems ie_carries \<open>the values that the codec of an information element carries\<close>

lemma dec_bind_return [simp]: "dec_bind (dec_return x) f = f x"
  by (simp add: dec_bind_def dec_return_def)

lemma dec_bind_fail [simp]: "dec_bind (dec_fail e) f = dec_fail e"
  by (simp add: dec_bind_def dec_fail_def)

lemma dec_index_in [simp]: "i < length bs \<Longrightarrow> dec_index bs i = dec_return (bs ! i)"
  by (simp add: dec_index_def)

lemma push_context_Inr [simp]: "push_context c (Inr x) = Inr x"
  by simp

lemma push_context_eq_Inr [simp]: "push_context c r = Inr x \<longleftrightarrow> r = Inr x"
  by (cases "(c, r)" rule: push_context.cases) auto

lemma codesE:
  assumes "codes n e d x"
  obtains bs where "e w = Inr (w @ bs)" "length bs \<le> n"
    "\<And>off rest. off mod 8 = length w mod 8 \<Longrightarrow> d (off, bs @ rest) = Inr (x, (off + length bs, rest))"
  using assms unfolding codes_def by blast

lemma codes_mono: "codes n e d x \<Longrightarrow> n \<le> m \<Longrightarrow> codes m e d x"
  unfolding codes_def by (meson le_trans)

lemma codes_seq:
  assumes 1: "codes n e1 d x" and 2: "codes m e2 (f x) y"
  shows "codes (n + m) (enc_seq e1 e2) (dec_bind d f) y"
  unfolding codes_def
proof (intro allI)
  fix w
  obtain bs where bs: "e1 w = Inr (w @ bs)" "length bs \<le> n"
    "\<And>off rest. off mod 8 = length w mod 8 \<Longrightarrow> d (off, bs @ rest) = Inr (x, (off + length bs, rest))"
    using codesE [OF 1, where w = w] by blast
  obtain cs where cs: "e2 (w @ bs) = Inr ((w @ bs) @ cs)" "length cs \<le> m"
    "\<And>off rest. off mod 8 = length (w @ bs) mod 8
       \<Longrightarrow> f x (off, cs @ rest) = Inr (y, (off + length cs, rest))"
    using codesE [OF 2, where w = "w @ bs"] by blast
  have "dec_bind d f (off, (bs @ cs) @ rest) = Inr (y, (off + length (bs @ cs), rest))"
    if "off mod 8 = length w mod 8" for off rest
  proof -
    have "(off + length bs) mod 8 = length (w @ bs) mod 8"
      using that by (metis length_append mod_add_left_eq)
    then show ?thesis using bs(3) [OF that] cs(3) by (simp add: dec_bind_def)
  qed
  then show "\<exists>zs. enc_seq e1 e2 w = Inr (w @ zs) \<and> length zs \<le> n + m \<and>
      (\<forall>off rest. off mod 8 = length w mod 8
         \<longrightarrow> dec_bind d f (off, zs @ rest) = Inr (y, (off + length zs, rest)))"
    using bs(1,2) cs(1,2) by (intro exI [of _ "bs @ cs"]) (simp add: enc_seq_def)
qed

lemma codes_skip: "codes 0 enc_skip (dec_return x) x"
  by (simp add: codes_def enc_skip_def dec_return_def)

lemma codes_last: "codes n e d x \<Longrightarrow> f x = dec_return y \<Longrightarrow> codes n e (dec_bind d f) y"
  by (fastforce simp: codes_def dec_bind_def dec_return_def)

lemma codes_impl:
  "codes n (encode_inner x) decode_inner x
    \<Longrightarrow> codes n (encode_of (per_codec_impl name decode_inner encode_inner) x)
          (decode_of (per_codec_impl name decode_inner encode_inner)) x"
  by (simp add: codes_def per_codec_impl_def)

text \<open>A codec carries a value when its encoding is bounded and read back.\<close>

definition carries :: "'a per_codec \<Rightarrow> nat \<Rightarrow> 'a \<Rightarrow> bool" where
  "carries C n x \<longleftrightarrow> codes n (encode_of C x) (decode_of C) x"

lemma carries_impl:
  "codes n (enc x) dec x \<Longrightarrow> carries (per_codec_impl name dec enc) n x"
  by (simp add: carries_def codes_impl)

lemma carries_mono: "carries C n x \<Longrightarrow> n \<le> m \<Longrightarrow> carries C m x"
  unfolding carries_def by (rule codes_mono)

text \<open>
  The same without a bound, and the values whose encoding has at most 16383 octets, so that its length is
  written in one piece.
\<close>

definition coded :: "encoder \<Rightarrow> 'a decoder \<Rightarrow> 'a \<Rightarrow> bool" where
  "coded e d x \<longleftrightarrow> (\<exists>n. codes n e d x)"

definition sound :: "'a per_codec \<Rightarrow> 'a \<Rightarrow> bool" where
  "sound C x \<longleftrightarrow> coded (encode_of C x) (decode_of C) x"

definition fits :: "'a per_codec \<Rightarrow> 'a \<Rightarrow> bool" where
  "fits C x \<longleftrightarrow> (case encode_of C x [] of Inl _ \<Rightarrow> False | Inr v \<Rightarrow> length v \<le> 131064)"

definition encodable :: "'a per_codec \<Rightarrow> 'a \<Rightarrow> bool" where
  "encodable C x \<longleftrightarrow> sound C x \<and> fits C x"

lemma codedI: "codes n e d x \<Longrightarrow> coded e d x"
  by (auto simp: coded_def)

lemma sound_carries: "carries C n x \<Longrightarrow> sound C x"
  by (auto simp: sound_def coded_def carries_def)

lemma fits_iff: "fits C x \<longleftrightarrow> (\<exists>v. encode_of C x [] = Inr v \<and> length v \<le> 131064)"
  by (auto simp: fits_def split: sum.splits)

lemma encodable_carries:
  assumes "carries C n x" "n \<le> 131064"
  shows "encodable C x"
proof -
  obtain bs where "encode_of C x [] = Inr ([] @ bs)" "length bs \<le> n"
    using codesE [OF assms(1) [unfolded carries_def], where w = "[]"] by blast
  then show ?thesis using assms by (auto simp: encodable_def fits_iff intro: sound_carries)
qed

lemma coded_seq: "coded e1 d x \<Longrightarrow> coded e2 (f x) y \<Longrightarrow> coded (enc_seq e1 e2) (dec_bind d f) y"
  using codes_seq by (fastforce simp: coded_def)

lemma coded_last: "coded e d x \<Longrightarrow> f x = dec_return y \<Longrightarrow> coded e (dec_bind d f) y"
  using codes_last by (fastforce simp: coded_def)

lemma coded_end: "d = dec_return x \<Longrightarrow> coded enc_skip d x"
  using codes_skip [of x] by (auto intro: codedI)

lemma sound_impl: "coded (enc x) dec x \<Longrightarrow> sound (per_codec_impl name dec enc) x"
  using codes_impl by (fastforce simp: coded_def sound_def)

section \<open>Evaluation of encoders\<close>

text \<open>
  An encoder is evaluated from the data it has been given: no codec is unfolded before it is applied, and
  what follows a step is left alone until the step has a result.
\<close>

lemma encode_by: "C = D \<Longrightarrow> encode_of C x w = encode_of D x w"
  by simp

lemma encode_cong: "x = y \<Longrightarrow> w = v \<Longrightarrow> encode_of C x w = encode_of C y v"
  by simp

lemmas eval_cong = encode_cong result_bind_cong

lemma encode_impl: "encode_of (per_codec_impl name dec enc) x w = push_context name (enc x w)"
  by (simp add: per_codec_impl_def)

lemma enc_steps: "enc_seq e1 e2 w = result_bind (e1 w) e2" "enc_skip w = Inr w"
  by (simp_all add: enc_seq_def enc_skip_def)

lemma length_plus: "length (x # xs) = length xs + 1"
  by simp

section \<open>What the codecs rely on\<close>

locale aper_lib =
  fixes L :: per_lib
  assumes integer_law:
      "lb \<le> v \<Longrightarrow> v \<le> ub \<Longrightarrow> ub - lb < 4294967296 \<Longrightarrow>
         codes 64 (encode_integer L (Some lb) (Some ub) ext v False)
           (decode_integer L (Some lb) (Some ub) ext) (v, False)"
    and enumerated_law:
      "0 \<le> v \<Longrightarrow> v \<le> ub \<Longrightarrow> ub < 256 \<Longrightarrow>
         codes 16 (encode_enumerated L (Some 0) (Some ub) ext v False)
           (decode_enumerated L (Some 0) (Some ub) ext) (v, False)"
    and choice_law:
      "0 \<le> v \<Longrightarrow> v \<le> ub \<Longrightarrow> ub < 256 \<Longrightarrow>
         codes 16 (encode_choice_idx L 0 ub ext v False) (decode_choice_idx L 0 ub ext) (v, False)"
    and length_law:
      "lo \<le> n \<Longrightarrow> n \<le> hi \<Longrightarrow> hi \<le> 65535 \<Longrightarrow>
         codes 24 (encode_length_determinent L (Some lo) (Some hi) False n)
           (decode_length_determinent L (Some lo) (Some hi) False) n"
    and open_length_law:
      "n < 16384 \<Longrightarrow>
         codes 24 (encode_length_determinent L None None False n)
           (decode_length_determinent L None None False) n"
    and ie_count_aligned:
      "encode_length_determinent L (Some 0) (Some 65535) False n w = Inr w' \<Longrightarrow> length w' mod 8 = 0"
    and open_length_aligned:
      "encode_length_determinent L None None False n w = Inr w' \<Longrightarrow> length w' mod 8 = 0"
    and sequence_law:
      "codes (1 + length opts) (encode_sequence_header L ext opts False)
         (decode_sequence_header L ext (length opts)) (opts, False)"
    and octets_law:
      "length xs = n \<Longrightarrow> n < 65536 \<Longrightarrow>
         codes (8 * n + 8) (encode_octetstring L (Some n) (Some n) False xs False)
           (decode_octetstring L (Some n) (Some n) False) xs"
    and open_octets_law:
      "length xs < 16384 \<Longrightarrow>
         codes (8 * length xs + 24) (encode_octetstring L None None False xs False)
           (decode_octetstring L None None False) xs"
    and bitstring_law:
      "length bs = n \<Longrightarrow> n < 65536 \<Longrightarrow>
         codes (n + 8) (encode_bitstring L (Some n) (Some n) False bs False)
           (decode_bitstring L (Some n) (Some n) False) bs"
    and append_law:
      "\<exists>p q. append_aligned L w ie = w @ p @ ie @ q \<and> length p < 8 \<and> length q < 8 \<and>
         length (w @ p) mod 8 = 0 \<and> length (ie @ q) mod 8 = 0"
    and align_law:
      "length p < 8 \<Longrightarrow> (off + length p) mod 8 = 0 \<Longrightarrow>
         decode_align L (off, p @ rest) = Inr ((), (off + length p, rest))"
    and bytes_law: "length_in_bytes L w = (length w + 7) div 8"
    and slice_law: "\<exists>p. data_from_slice L (data_into_bytes L w) = (0, w @ p)"
begin

lemma serdes_roundtrip:
  assumes "carries C n x"
  shows "\<exists>bs. serdes_into_bytes L C x = Inr bs \<and> serdes_from_bytes L C bs = Inr x"
proof -
  obtain w where w: "encode_of C x [] = Inr ([] @ w)" "length w \<le> n"
    "\<And>off rest. off mod 8 = length ([] :: bits) mod 8
       \<Longrightarrow> decode_of C (off, w @ rest) = Inr (x, (off + length w, rest))"
    using codesE [OF assms [unfolded carries_def], where w = "[]"] by blast
  obtain p where "data_from_slice L (data_into_bytes L w) = (0, w @ p)" using slice_law by blast
  then show ?thesis using w(1) w(3) [of 0 p]
    by (simp add: serdes_into_bytes_def serdes_from_bytes_def)
qed

end

text \<open>
  What the codecs of the setup and configuration messages rely on beyond that: numbers of up to 64 bits,
  lists whose bound is past 65535, names of restricted character strings.
\<close>

definition printable_char :: "char \<Rightarrow> bool" where
  "printable_char c \<longleftrightarrow>
     (CHR ''a'' \<le> c \<and> c \<le> CHR ''z'') \<or> (CHR ''A'' \<le> c \<and> c \<le> CHR ''Z'') \<or> (CHR ''0'' \<le> c \<and> c \<le> CHR ''9'') \<or>
     c \<in> set '' ()+,-./:=?'' \<or> c = CHR 0x27"

definition visible_char :: "char \<Rightarrow> bool" where
  "visible_char c \<longleftrightarrow> CHR '' '' \<le> c \<and> c \<le> CHR ''~''"

locale aper_setup = aper_lib +
  assumes wide_integer_law:
      "lb \<le> v \<Longrightarrow> v \<le> ub \<Longrightarrow> ub - lb < 18446744073709551616 \<Longrightarrow>
         codes 128 (encode_integer L (Some lb) (Some ub) ext v False)
           (decode_integer L (Some lb) (Some ub) ext) (v, False)"
    and long_length_law:
      "lo \<le> n \<Longrightarrow> n < 16384 \<Longrightarrow> 65535 < hi \<Longrightarrow>
         codes 24 (encode_length_determinent L (Some lo) (Some hi) False n)
           (decode_length_determinent L (Some lo) (Some hi) False) n"
    and extension_count_aligned:
      "encode_length_determinent L (Some 1) (Some 65535) False n w = Inr w' \<Longrightarrow> length w' mod 8 = 0"
    and bits_law:
      "lo \<le> length bs \<Longrightarrow> length bs \<le> hi \<Longrightarrow> lo < hi \<Longrightarrow> hi < 256 \<Longrightarrow>
         codes (length bs + 24) (encode_bitstring L (Some lo) (Some hi) ext bs False)
           (decode_bitstring L (Some lo) (Some hi) ext) bs"
    and bool_law: "codes 1 (encode_bool L b) (decode_bool L) b"
    and printable_law:
      "lo \<le> length s \<Longrightarrow> length s \<le> hi \<Longrightarrow> hi < 256 \<Longrightarrow> list_all printable_char s \<Longrightarrow>
         codes (8 * length s + 24) (encode_printable_string L (Some lo) (Some hi) ext s False)
           (decode_printable_string L (Some lo) (Some hi) ext) s"
    and visible_law:
      "lo \<le> length s \<Longrightarrow> length s \<le> hi \<Longrightarrow> hi < 256 \<Longrightarrow> list_all visible_char s \<Longrightarrow>
         codes (8 * length s + 24) (encode_visible_string L (Some lo) (Some hi) ext s False)
           (decode_visible_string L (Some lo) (Some hi) ext) s"
    and utf8_law:
      "lo \<le> length s \<Longrightarrow> length s \<le> hi \<Longrightarrow> hi < 256 \<Longrightarrow> list_all visible_char s \<Longrightarrow>
         codes (8 * length s + 24) (encode_utf8_string L (Some lo) (Some hi) ext s False)
           (decode_utf8_string L (Some lo) (Some hi) ext) s"
    and open_visible_law:
      "length s < 16384 \<Longrightarrow> list_all visible_char s \<Longrightarrow>
         codes (8 * length s + 24) (encode_visible_string L None None False s False)
           (decode_visible_string L None None False) s"

text \<open>
  What the transaction layer relies on beyond that, since it looks at octets and not at values: a choice
  among four is two bits, a number below 256 is one octet, aligned.
\<close>

locale aper_wire = aper_setup +
  assumes pdu_octets_law:
    "0 \<le> idx \<Longrightarrow> idx \<le> 3 \<Longrightarrow> 0 \<le> code \<Longrightarrow> code \<le> 255 \<Longrightarrow>
       enc_seq (encode_choice_idx L 0 3 False idx False)
         (encode_integer L (Some 0) (Some 255) False code False) [] = Inr w \<Longrightarrow>
       \<exists>rest. data_into_bytes L (w @ v) = word_of_int (64 * idx) # word_of_int code # rest"

end
