(* ===== verification/F1ap_Ies.thy ===== *)
theory F1ap_Ies
  imports Aper
begin

text \<open>
  The information elements of the messages that carry RRC and release contexts and associations
  (\<open>5g-libs/f1ap/src/{common,ies}.rs\<close>): their types and their aligned PER codecs, with the well-formed
  values that each codec carries.  Fixed-size arrays (\<open>[u8; 3]\<close>, \<open>[u8; 8]\<close>) and \<open>NonEmpty\<close> vectors are
  lists, their sizes part of well-formedness.  The generated code repeats a few shapes; each shape is
  one definition, and the codec of a type is an instance of its shape.
\<close>

section \<open>The shapes of the generated codecs\<close>

text \<open>\<open>pub struct T(pub uN)\<close> with a constrained integer.\<close>

definition integer_impl :: "per_lib \<Rightarrow> string \<Rightarrow> int \<Rightarrow> int \<Rightarrow> bool \<Rightarrow> 'w::len word per_codec" where
  "integer_impl L name lb ub ext =
     per_codec_impl name
       (dec_bind (decode_integer L (Some lb) (Some ub) ext) (\<lambda>(v, _). dec_return (word_of_int v)))
       (\<lambda>x. encode_integer L (Some lb) (Some ub) ext (uint x) False)"

text \<open>
  A field-less enum with \<open>TryFromPrimitive\<close>: the variants in the order of their declaration, \<open>*self as i128\<close>
  is the position, \<open>try_from(idx as u8)\<close> fails past the last one.
\<close>

definition variant_index :: "'a list \<Rightarrow> 'a \<Rightarrow> nat" where
  "variant_index variants x = length (takeWhile (\<lambda>y. y \<noteq> x) variants)"

definition enum_impl :: "per_lib \<Rightarrow> string \<Rightarrow> 'a list \<Rightarrow> int \<Rightarrow> bool \<Rightarrow> 'a per_codec" where
  "enum_impl L name variants ub ext =
     per_codec_impl name
       (dec_bind (decode_enumerated L (Some 0) (Some ub) ext) (\<lambda>(idx, extended).
        if extended then dec_fail (per_codec_error_new ''Extended enum not implemented'')
        else case rs_get variants (nat (idx mod 256)) of
               None \<Rightarrow> dec_fail (per_codec_error_new ''Unknown enum variant'')
             | Some x \<Rightarrow> dec_return x))
       (\<lambda>x. encode_enumerated L (Some 0) (Some ub) ext (int (variant_index variants x)) False)"

text \<open>\<open>pub struct T(pub Vec<u8>)\<close>, \<open>pub struct T(pub [u8; n])\<close> and \<open>pub struct T(pub BitString)\<close>.\<close>

definition octets_impl :: "per_lib \<Rightarrow> string \<Rightarrow> bytes per_codec" where
  "octets_impl L name =
     per_codec_impl name (decode_octetstring L None None False)
       (\<lambda>x. encode_octetstring L None None False x False)"

definition array_impl :: "per_lib \<Rightarrow> string \<Rightarrow> nat \<Rightarrow> bytes per_codec" where
  "array_impl L name n =
     per_codec_impl name
       (dec_bind (decode_octetstring L (Some n) (Some n) False)
          (\<lambda>v. if length v = n then dec_return v else dec_fail PerPanic))
       (\<lambda>x. encode_octetstring L (Some n) (Some n) False x False)"

definition bitstring_impl :: "per_lib \<Rightarrow> string \<Rightarrow> nat \<Rightarrow> bits per_codec" where
  "bitstring_impl L name n =
     per_codec_impl name (decode_bitstring L (Some n) (Some n) False)
       (\<lambda>x. encode_bitstring L (Some n) (Some n) False x False)"

text \<open>\<open>pub struct T(pub NonEmpty<U>)\<close>: the items one after the other behind their number.\<close>

primrec decode_items :: "'a decoder \<Rightarrow> nat \<Rightarrow> 'a list decoder" where
  "decode_items d 0 = dec_return []"
| "decode_items d (Suc n) =
     dec_bind d (\<lambda>x. dec_bind (decode_items d n) (\<lambda>xs. dec_return (x # xs)))"

primrec encode_items :: "('a \<Rightarrow> encoder) \<Rightarrow> 'a list \<Rightarrow> encoder" where
  "encode_items e [] = enc_skip"
| "encode_items e (x # xs) = enc_seq (e x) (encode_items e xs)"

definition non_empty_impl :: "per_lib \<Rightarrow> string \<Rightarrow> nat \<Rightarrow> 'a per_codec \<Rightarrow> 'a list per_codec" where
  "non_empty_impl L name ub item =
     per_codec_impl name
       (dec_bind (decode_length_determinent L (Some 1) (Some ub) False) (\<lambda>n.
        dec_bind (decode_items (decode_of item) n) (\<lambda>items.
        if items = [] then dec_fail PerPanic else dec_return items)))
       (\<lambda>x. enc_seq (encode_length_determinent L (Some 1) (Some ub) False (length x))
              (encode_items (encode_of item) x))"

text \<open>An optional field of a sequence: read when its bit is set, written when it is present.\<close>

definition decode_optional :: "bits \<Rightarrow> nat \<Rightarrow> 'a decoder \<Rightarrow> 'a option decoder" where
  "decode_optional optionals i d =
     dec_bind (dec_index optionals i)
       (\<lambda>b. if b then dec_bind d (\<lambda>x. dec_return (Some x)) else dec_return None)"

definition encode_optional :: "('a \<Rightarrow> encoder) \<Rightarrow> 'a option \<Rightarrow> encoder" where
  "encode_optional e x = (case x of None \<Rightarrow> enc_skip | Some y \<Rightarrow> e y)"

section \<open>Common data types\<close>

datatype criticality = Reject | Ignore | Notify

definition Criticality_codec :: "per_lib \<Rightarrow> criticality per_codec" where
  "Criticality_codec L = enum_impl L ''Criticality'' [Reject, Ignore, Notify] 2 False"

definition ProcedureCode_codec :: "per_lib \<Rightarrow> u8 per_codec" where
  "ProcedureCode_codec L = integer_impl L ''ProcedureCode'' 0 255 False"

definition ProtocolIeId_codec :: "per_lib \<Rightarrow> u16 per_codec" where
  "ProtocolIeId_codec L = integer_impl L ''ProtocolIeId'' 0 65535 False"

datatype triggering_message =
  TriggeringInitiatingMessage | TriggeringSuccessfulOutcome | TriggeringUnsuccessfulOutcome

definition TriggeringMessage_codec :: "per_lib \<Rightarrow> triggering_message per_codec" where
  "TriggeringMessage_codec L =
     enum_impl L ''TriggeringMessage''
       [TriggeringInitiatingMessage, TriggeringSuccessfulOutcome, TriggeringUnsuccessfulOutcome] 2 False"

text \<open>
  The extension container of a sequence whose extensions the release does not know: every element is
  skipped by advancing its length and aligning.
\<close>

primrec skip_extensions :: "per_lib \<Rightarrow> nat \<Rightarrow> unit decoder" where
  "skip_extensions L 0 = dec_return ()"
| "skip_extensions L (Suc n) =
     dec_bind (decode_integer L (Some 0) (Some 65535) False) (\<lambda>_.
     dec_bind (decode_of (Criticality_codec L)) (\<lambda>_.
     dec_bind (decode_length_determinent L None None False) (\<lambda>ie_length.
     dec_bind (advance_maybe_err L ie_length False) (\<lambda>_.
     dec_bind (decode_align L) (\<lambda>_.
     skip_extensions L n)))))"

definition decode_extension_container :: "per_lib \<Rightarrow> bits \<Rightarrow> nat \<Rightarrow> unit decoder" where
  "decode_extension_container L optionals i =
     dec_bind (dec_index optionals i) (\<lambda>b.
     if b then dec_bind (decode_length_determinent L (Some 1) (Some 65535) False) (skip_extensions L)
     else dec_return ())"

text \<open>The extension alternative of a choice: no element is known.\<close>

definition decode_choice_extension :: "per_lib \<Rightarrow> 'a decoder" where
  "decode_choice_extension L =
     dec_bind (decode_integer L (Some 0) (Some 65535) False) (\<lambda>(x, _).
     dec_bind (decode_of (Criticality_codec L)) (\<lambda>_.
     dec_bind (decode_length_determinent L None None False) (\<lambda>_.
     dec_bind (decode_align L) (\<lambda>_.
     dec_fail (unrecognised_ie x)))))"

section \<open>Information elements\<close>

definition AdditionalRrmPriorityIndex_codec :: "per_lib \<Rightarrow> bits per_codec" where
  "AdditionalRrmPriorityIndex_codec L = bitstring_impl L ''AdditionalRrmPriorityIndex'' 32"

datatype cause_misc =
    ControlProcessingOverload | NotEnoughUserPlaneProcessingResources | HardwareFailure
  | OmIntervention | MiscUnspecified

definition CauseMisc_codec :: "per_lib \<Rightarrow> cause_misc per_codec" where
  "CauseMisc_codec L =
     enum_impl L ''CauseMisc''
       [ControlProcessingOverload, NotEnoughUserPlaneProcessingResources, HardwareFailure,
        OmIntervention, MiscUnspecified] 4 True"

datatype cause_protocol =
    TransferSyntaxError | AbstractSyntaxErrorReject | AbstractSyntaxErrorIgnoreAndNotify
  | MessageNotCompatibleWithReceiverState | SemanticError
  | AbstractSyntaxErrorFalselyConstructedMessage | ProtocolUnspecified

definition CauseProtocol_codec :: "per_lib \<Rightarrow> cause_protocol per_codec" where
  "CauseProtocol_codec L =
     enum_impl L ''CauseProtocol''
       [TransferSyntaxError, AbstractSyntaxErrorReject, AbstractSyntaxErrorIgnoreAndNotify,
        MessageNotCompatibleWithReceiverState, SemanticError,
        AbstractSyntaxErrorFalselyConstructedMessage, ProtocolUnspecified] 6 True"

datatype cause_radio_network =
    RadioUnspecified | RlFailureRlc | UnknownOrAlreadyAllocatedGnbCuUeF1apId
  | UnknownOrAlreadyAllocatedGnbDuUeF1apId | UnknownOrInconsistentPairOfUeF1apId
  | InteractionWithOtherProcedure | NotSupportedQciValue | ActionDesirableForRadioReasons
  | NoRadioResourcesAvailable | ProcedureCancelled | NormalRelease

definition CauseRadioNetwork_codec :: "per_lib \<Rightarrow> cause_radio_network per_codec" where
  "CauseRadioNetwork_codec L =
     enum_impl L ''CauseRadioNetwork''
       [RadioUnspecified, RlFailureRlc, UnknownOrAlreadyAllocatedGnbCuUeF1apId,
        UnknownOrAlreadyAllocatedGnbDuUeF1apId, UnknownOrInconsistentPairOfUeF1apId,
        InteractionWithOtherProcedure, NotSupportedQciValue, ActionDesirableForRadioReasons,
        NoRadioResourcesAvailable, ProcedureCancelled, NormalRelease] 10 True"

datatype cause_transport = TransportUnspecified | TransportResourceUnavailable

definition CauseTransport_codec :: "per_lib \<Rightarrow> cause_transport per_codec" where
  "CauseTransport_codec L =
     enum_impl L ''CauseTransport'' [TransportUnspecified, TransportResourceUnavailable] 1 True"

datatype cause =
    CauseRadioNetwork cause_radio_network
  | CauseTransport cause_transport
  | CauseProtocol cause_protocol
  | CauseMisc cause_misc

definition Cause_decode_inner :: "per_lib \<Rightarrow> cause decoder" where
  "Cause_decode_inner L =
     dec_bind (decode_choice_idx L 0 4 False) (\<lambda>(idx, extended).
     if extended then dec_fail (per_codec_error_new ''CHOICE additions not implemented'')
     else if idx = 0 then dec_bind (decode_of (CauseRadioNetwork_codec L)) (\<lambda>x. dec_return (CauseRadioNetwork x))
     else if idx = 1 then dec_bind (decode_of (CauseTransport_codec L)) (\<lambda>x. dec_return (CauseTransport x))
     else if idx = 2 then dec_bind (decode_of (CauseProtocol_codec L)) (\<lambda>x. dec_return (CauseProtocol x))
     else if idx = 3 then dec_bind (decode_of (CauseMisc_codec L)) (\<lambda>x. dec_return (CauseMisc x))
     else if idx = 4 then decode_choice_extension L
     else dec_fail (per_codec_error_new ''Unknown choice idx''))"

definition Cause_encode_inner :: "per_lib \<Rightarrow> cause \<Rightarrow> encoder" where
  "Cause_encode_inner L c =
     (case c of
        CauseRadioNetwork x \<Rightarrow> enc_seq (encode_choice_idx L 0 4 False 0 False) (encode_of (CauseRadioNetwork_codec L) x)
      | CauseTransport x \<Rightarrow> enc_seq (encode_choice_idx L 0 4 False 1 False) (encode_of (CauseTransport_codec L) x)
      | CauseProtocol x \<Rightarrow> enc_seq (encode_choice_idx L 0 4 False 2 False) (encode_of (CauseProtocol_codec L) x)
      | CauseMisc x \<Rightarrow> enc_seq (encode_choice_idx L 0 4 False 3 False) (encode_of (CauseMisc_codec L) x))"

definition Cause_codec :: "per_lib \<Rightarrow> cause per_codec" where
  "Cause_codec L = per_codec_impl ''Cause'' (Cause_decode_inner L) (Cause_encode_inner L)"

datatype type_of_error = NotUnderstood | MissingIe

definition TypeOfError_codec :: "per_lib \<Rightarrow> type_of_error per_codec" where
  "TypeOfError_codec L = enum_impl L ''TypeOfError'' [NotUnderstood, MissingIe] 1 True"

definition TransactionId_codec :: "per_lib \<Rightarrow> u8 per_codec" where
  "TransactionId_codec L = integer_impl L ''TransactionId'' 0 255 True"

record criticality_diagnostics_ie_item =
  ie_criticality :: criticality
  ie_id :: u16
  ie_type_of_error :: type_of_error

definition CriticalityDiagnosticsIeItem_codec :: "per_lib \<Rightarrow> criticality_diagnostics_ie_item per_codec" where
  "CriticalityDiagnosticsIeItem_codec L =
     per_codec_impl ''CriticalityDiagnosticsIeItem''
       (dec_bind (decode_sequence_header L True 1) (\<lambda>(optionals, _).
        dec_bind (decode_of (Criticality_codec L)) (\<lambda>crit.
        dec_bind (decode_of (ProtocolIeId_codec L)) (\<lambda>i.
        dec_bind (decode_of (TypeOfError_codec L)) (\<lambda>err.
        dec_bind (decode_extension_container L optionals 0) (\<lambda>_.
        dec_return \<lparr>ie_criticality = crit, ie_id = i, ie_type_of_error = err\<rparr>))))))
       (\<lambda>x. enc_seq (encode_sequence_header L True [False] False)
             (enc_seq (encode_of (Criticality_codec L) (ie_criticality x))
             (enc_seq (encode_of (ProtocolIeId_codec L) (ie_id x))
             (encode_of (TypeOfError_codec L) (ie_type_of_error x)))))"

definition CriticalityDiagnosticsIeList_codec :: "per_lib \<Rightarrow> criticality_diagnostics_ie_item list per_codec" where
  "CriticalityDiagnosticsIeList_codec L =
     non_empty_impl L ''CriticalityDiagnosticsIeList'' 256 (CriticalityDiagnosticsIeItem_codec L)"

record criticality_diagnostics =
  cd_procedure_code :: "u8 option"
  cd_triggering_message :: "triggering_message option"
  cd_procedure_criticality :: "criticality option"
  cd_transaction_id :: "u8 option"
  cd_ies :: "criticality_diagnostics_ie_item list option"

definition CriticalityDiagnostics_decode_inner :: "per_lib \<Rightarrow> criticality_diagnostics decoder" where
  "CriticalityDiagnostics_decode_inner L =
     dec_bind (decode_sequence_header L True 6) (\<lambda>(optionals, _).
     dec_bind (decode_optional optionals 0 (decode_of (ProcedureCode_codec L))) (\<lambda>pc.
     dec_bind (decode_optional optionals 1 (decode_of (TriggeringMessage_codec L))) (\<lambda>tm.
     dec_bind (decode_optional optionals 2 (decode_of (Criticality_codec L))) (\<lambda>cr.
     dec_bind (decode_optional optionals 3 (decode_of (TransactionId_codec L))) (\<lambda>ti.
     dec_bind (decode_optional optionals 4 (decode_of (CriticalityDiagnosticsIeList_codec L))) (\<lambda>ies.
     dec_bind (decode_extension_container L optionals 5) (\<lambda>_.
     dec_return \<lparr>cd_procedure_code = pc, cd_triggering_message = tm, cd_procedure_criticality = cr,
                 cd_transaction_id = ti, cd_ies = ies\<rparr>)))))))"

definition CriticalityDiagnostics_encode_inner :: "per_lib \<Rightarrow> criticality_diagnostics \<Rightarrow> encoder" where
  "CriticalityDiagnostics_encode_inner L x =
     enc_seq (encode_sequence_header L True
       [cd_procedure_code x \<noteq> None, cd_triggering_message x \<noteq> None, cd_procedure_criticality x \<noteq> None,
        cd_transaction_id x \<noteq> None, cd_ies x \<noteq> None, False] False)
     (enc_seq (encode_optional (encode_of (ProcedureCode_codec L)) (cd_procedure_code x))
     (enc_seq (encode_optional (encode_of (TriggeringMessage_codec L)) (cd_triggering_message x))
     (enc_seq (encode_optional (encode_of (Criticality_codec L)) (cd_procedure_criticality x))
     (enc_seq (encode_optional (encode_of (TransactionId_codec L)) (cd_transaction_id x))
     (encode_optional (encode_of (CriticalityDiagnosticsIeList_codec L)) (cd_ies x))))))"

definition CriticalityDiagnostics_codec :: "per_lib \<Rightarrow> criticality_diagnostics per_codec" where
  "CriticalityDiagnostics_codec L =
     per_codec_impl ''CriticalityDiagnostics''
       (CriticalityDiagnostics_decode_inner L) (CriticalityDiagnostics_encode_inner L)"

definition CRnti_codec :: "per_lib \<Rightarrow> u16 per_codec" where
  "CRnti_codec L = integer_impl L ''CRnti'' 0 65535 True"

definition DuToCuRrcContainer_codec :: "per_lib \<Rightarrow> bytes per_codec" where
  "DuToCuRrcContainer_codec L = octets_impl L ''DuToCuRrcContainer''"

datatype execute_duplication = ExecuteDuplicationTrue

definition ExecuteDuplication_codec :: "per_lib \<Rightarrow> execute_duplication per_codec" where
  "ExecuteDuplication_codec L = enum_impl L ''ExecuteDuplication'' [ExecuteDuplicationTrue] 0 True"

definition GnbCuUeF1apId_codec :: "per_lib \<Rightarrow> u32 per_codec" where
  "GnbCuUeF1apId_codec L = integer_impl L ''GnbCuUeF1apId'' 0 4294967295 False"

definition GnbDuUeF1apId_codec :: "per_lib \<Rightarrow> u32 per_codec" where
  "GnbDuUeF1apId_codec L = integer_impl L ''GnbDuUeF1apId'' 0 4294967295 False"

definition PlmnIdentity_codec :: "per_lib \<Rightarrow> bytes per_codec" where
  "PlmnIdentity_codec L = array_impl L ''PlmnIdentity'' 3"

definition NrCellIdentity_codec :: "per_lib \<Rightarrow> bits per_codec" where
  "NrCellIdentity_codec L = bitstring_impl L ''NrCellIdentity'' 36"

record nr_cgi =
  plmn_identity :: bytes
  nr_cell_identity :: bits

definition NrCgi_codec :: "per_lib \<Rightarrow> nr_cgi per_codec" where
  "NrCgi_codec L =
     per_codec_impl ''NrCgi''
       (dec_bind (decode_sequence_header L True 1) (\<lambda>(optionals, _).
        dec_bind (decode_of (PlmnIdentity_codec L)) (\<lambda>plmn.
        dec_bind (decode_of (NrCellIdentity_codec L)) (\<lambda>cell.
        dec_bind (decode_extension_container L optionals 0) (\<lambda>_.
        dec_return \<lparr>plmn_identity = plmn, nr_cell_identity = cell\<rparr>)))))
       (\<lambda>x. enc_seq (encode_sequence_header L True [False] False)
             (enc_seq (encode_of (PlmnIdentity_codec L) (plmn_identity x))
             (encode_of (NrCellIdentity_codec L) (nr_cell_identity x))))"

definition RanUeId_codec :: "per_lib \<Rightarrow> bytes per_codec" where
  "RanUeId_codec L = array_impl L ''RanUeId'' 8"

definition SubscriberProfileIDforRfp_codec :: "per_lib \<Rightarrow> u16 per_codec" where
  "SubscriberProfileIDforRfp_codec L = integer_impl L ''SubscriberProfileIDforRfp'' 1 256 True"

definition RatFrequencySelectionPriority_codec :: "per_lib \<Rightarrow> u16 per_codec" where
  "RatFrequencySelectionPriority_codec L = integer_impl L ''RatFrequencySelectionPriority'' 1 256 True"

datatype rat_frequency_priority_information = Endc u16 | Ngran u16

definition RatFrequencyPriorityInformation_codec :: "per_lib \<Rightarrow> rat_frequency_priority_information per_codec" where
  "RatFrequencyPriorityInformation_codec L =
     per_codec_impl ''RatFrequencyPriorityInformation''
       (dec_bind (decode_choice_idx L 0 2 False) (\<lambda>(idx, extended).
        if extended then dec_fail (per_codec_error_new ''CHOICE additions not implemented'')
        else if idx = 0 then dec_bind (decode_of (SubscriberProfileIDforRfp_codec L)) (\<lambda>x. dec_return (Endc x))
        else if idx = 1 then dec_bind (decode_of (RatFrequencySelectionPriority_codec L)) (\<lambda>x. dec_return (Ngran x))
        else if idx = 2 then decode_choice_extension L
        else dec_fail (per_codec_error_new ''Unknown choice idx'')))
       (\<lambda>r. case r of
          Endc x \<Rightarrow> enc_seq (encode_choice_idx L 0 2 False 0 False) (encode_of (SubscriberProfileIDforRfp_codec L) x)
        | Ngran x \<Rightarrow> enc_seq (encode_choice_idx L 0 2 False 1 False) (encode_of (RatFrequencySelectionPriority_codec L) x))"

definition RrcContainer_codec :: "per_lib \<Rightarrow> bytes per_codec" where
  "RrcContainer_codec L = octets_impl L ''RrcContainer''"

definition RrcContainerRrcSetupComplete_codec :: "per_lib \<Rightarrow> bytes per_codec" where
  "RrcContainerRrcSetupComplete_codec L = octets_impl L ''RrcContainerRrcSetupComplete''"

datatype rrc_delivery_status_request = RrcDeliveryStatusRequestTrue

definition RrcDeliveryStatusRequest_codec :: "per_lib \<Rightarrow> rrc_delivery_status_request per_codec" where
  "RrcDeliveryStatusRequest_codec L =
     enum_impl L ''RrcDeliveryStatusRequest'' [RrcDeliveryStatusRequestTrue] 0 True"

definition SrbId_codec :: "per_lib \<Rightarrow> u8 per_codec" where
  "SrbId_codec L = integer_impl L ''SrbId'' 0 3 True"

datatype sul_access_indication = SulAccessIndicationTrue

definition SulAccessIndication_codec :: "per_lib \<Rightarrow> sul_access_indication per_codec" where
  "SulAccessIndication_codec L = enum_impl L ''SulAccessIndication'' [SulAccessIndicationTrue] 0 True"

definition TargetCellListItem_codec :: "per_lib \<Rightarrow> nr_cgi per_codec" where
  "TargetCellListItem_codec L =
     per_codec_impl ''TargetCellListItem''
       (dec_bind (decode_sequence_header L False 1) (\<lambda>(optionals, _).
        dec_bind (decode_of (NrCgi_codec L)) (\<lambda>target_cell.
        dec_bind (decode_extension_container L optionals 0) (\<lambda>_.
        dec_return target_cell))))
       (\<lambda>x. enc_seq (encode_sequence_header L False [False] False) (encode_of (NrCgi_codec L) x))"

definition TargetCellList_codec :: "per_lib \<Rightarrow> nr_cgi list per_codec" where
  "TargetCellList_codec L = non_empty_impl L ''TargetCellList'' 8 (TargetCellListItem_codec L)"

datatype ue_context_not_retrievable = UeContextNotRetrievableTrue

datatype time_to_wait = V1s | V2s | V5s | V10s | V20s | V60s

definition TimeToWait_codec :: "per_lib \<Rightarrow> time_to_wait per_codec" where
  "TimeToWait_codec L = enum_impl L ''TimeToWait'' [V1s, V2s, V5s, V10s, V20s, V60s] 5 True"

definition UeContextNotRetrievable_codec :: "per_lib \<Rightarrow> ue_context_not_retrievable per_codec" where
  "UeContextNotRetrievable_codec L =
     enum_impl L ''UeContextNotRetrievable'' [UeContextNotRetrievableTrue] 0 True"

section \<open>What the codecs carry\<close>

definition wf_nr_cgi :: "nr_cgi \<Rightarrow> bool" where
  "wf_nr_cgi c \<longleftrightarrow> length (plmn_identity c) = 3 \<and> length (nr_cell_identity c) = 36"

definition wf_target_cells :: "nr_cgi list \<Rightarrow> bool" where
  "wf_target_cells cs \<longleftrightarrow> 1 \<le> length cs \<and> length cs \<le> 8 \<and> list_all wf_nr_cgi cs"

definition wf_criticality_diagnostics :: "criticality_diagnostics \<Rightarrow> bool" where
  "wf_criticality_diagnostics d \<longleftrightarrow>
     (case cd_ies d of None \<Rightarrow> True | Some xs \<Rightarrow> 1 \<le> length xs \<and> length xs \<le> 256)"

definition wf_rat_frequency_priority :: "rat_frequency_priority_information \<Rightarrow> bool" where
  "wf_rat_frequency_priority r =
     (case r of Endc x \<Rightarrow> 1 \<le> x \<and> x \<le> 256 | Ngran x \<Rightarrow> 1 \<le> x \<and> x \<le> 256)"

text \<open>An octet string that fits, with its own length, into an information element.\<close>

definition wf_container :: "bytes \<Rightarrow> bool" where
  "wf_container xs \<longleftrightarrow> length xs \<le> 16380"

lemma uint_less: "uint (x :: 'w::len word) < 2 ^ LENGTH('w)"
  by (rule unsigned_less)

lemma nr_cgi_eta [simp]:
  "\<lparr>plmn_identity = plmn_identity x, nr_cell_identity = nr_cell_identity x\<rparr> = x"
  by simp

lemma criticality_diagnostics_ie_item_eta [simp]:
  "\<lparr>ie_criticality = ie_criticality x, ie_id = ie_id x, ie_type_of_error = ie_type_of_error x\<rparr> = x"
  by simp

lemma criticality_diagnostics_eta [simp]:
  "\<lparr>cd_procedure_code = cd_procedure_code x, cd_triggering_message = cd_triggering_message x,
    cd_procedure_criticality = cd_procedure_criticality x, cd_transaction_id = cd_transaction_id x,
    cd_ies = cd_ies x\<rparr> = x"
  by simp

lemma variant_index_in:
  assumes "x \<in> set variants"
  shows "variant_index variants x < length variants" "variants ! variant_index variants x = x"
proof -
  have "takeWhile (\<lambda>y. y \<noteq> x) variants \<noteq> variants"
    using assms takeWhile_eq_all_conv [of "\<lambda>y. y \<noteq> x" variants] by blast
  then show less: "variant_index variants x < length variants"
    unfolding variant_index_def
    by (metis le_neq_implies_less length_takeWhile_le takeWhile_eq_take take_all_iff)
  then show "variants ! variant_index variants x = x"
    using nth_length_takeWhile [of "\<lambda>y. y \<noteq> x" variants] by (simp add: variant_index_def)
qed

lemma codes_optional:
  assumes "i < length optionals" "optionals ! i \<longleftrightarrow> x \<noteq> None"
    and "\<And>y. x = Some y \<Longrightarrow> codes n (e y) d y"
  shows "codes n (encode_optional e x) (decode_optional optionals i d) x"
proof (cases x)
  case None
  then show ?thesis using assms(1,2) codes_mono [OF codes_skip, of n]
    by (simp add: encode_optional_def decode_optional_def)
next
  case (Some y)
  then show ?thesis using assms(1,2) codes_last [OF assms(3) [OF Some], of "\<lambda>x. dec_return (Some x)"]
    by (simp add: encode_optional_def decode_optional_def)
qed

lemma codes_items:
  assumes "\<And>x. x \<in> set xs \<Longrightarrow> codes n (e x) d x"
  shows "codes (n * length xs) (encode_items e xs) (decode_items d (length xs)) xs"
  using assms
proof (induction xs)
  case Nil show ?case by (simp add: codes_skip)
next
  case (Cons x xs)
  from codes_seq [OF Cons(2) [of x] codes_last [OF Cons(1)], of "\<lambda>x xs. dec_return (x # xs)" "x # xs"]
    Cons(2)
  show ?case by simp
qed

lemma no_extensions [simp]:
  "i < length optionals \<Longrightarrow> \<not> optionals ! i \<Longrightarrow> decode_extension_container L optionals i = dec_return ()"
  by (simp add: decode_extension_container_def)

context aper_lib
begin

lemma carries_integer:
  assumes "lb \<le> uint x" "uint x \<le> ub" "ub - lb < 4294967296"
  shows "carries (integer_impl L name lb ub ext) 64 x"
  unfolding integer_impl_def
  by (rule carries_impl, rule codes_last [OF integer_law [OF assms]]) simp

lemma carries_enum:
  assumes "x \<in> set variants" "int (length variants) \<le> ub + 1" "ub < 256"
  shows "carries (enum_impl L name variants ub ext) 16 x"
proof -
  note ix = variant_index_in [OF assms(1)]
  have le: "0 \<le> int (variant_index variants x)" "int (variant_index variants x) \<le> ub"
    using ix assms(2) by auto
  then have "nat (int (variant_index variants x) mod 256) = variant_index variants x"
    using assms(3) by simp
  then show ?thesis
    unfolding enum_impl_def using ix
    by (intro carries_impl codes_last [OF enumerated_law [OF le assms(3)]]) simp
qed

lemma carries_octets: "length x < 16384 \<Longrightarrow> carries (octets_impl L name) (8 * length x + 24) x"
  unfolding octets_impl_def by (intro carries_impl open_octets_law)

lemma carries_array: "length x = n \<Longrightarrow> n < 65536 \<Longrightarrow> carries (array_impl L name n) (8 * n + 8) x"
  unfolding array_impl_def by (rule carries_impl, rule codes_last [OF octets_law]) auto

lemma carries_bitstring: "length x = n \<Longrightarrow> n < 65536 \<Longrightarrow> carries (bitstring_impl L name n) (n + 8) x"
  unfolding bitstring_impl_def by (intro carries_impl bitstring_law)

lemma carries_non_empty:
  assumes "1 \<le> length xs" "length xs \<le> ub" "ub \<le> 65535" "\<And>x. x \<in> set xs \<Longrightarrow> carries item n x"
  shows "carries (non_empty_impl L name ub item) (24 + n * length xs) xs"
proof -
  have "codes (n * length xs) (encode_items (encode_of item) xs) (decode_items (decode_of item) (length xs)) xs"
    using assms(4) by (intro codes_items) (simp add: carries_def)
  then have "codes (n * length xs) (encode_items (encode_of item) xs)
      (dec_bind (decode_items (decode_of item) (length xs))
        (\<lambda>items. if items = [] then dec_fail PerPanic else dec_return items)) xs"
    by (rule codes_last) (use assms(1) in auto)
  then show ?thesis unfolding non_empty_impl_def
    by (intro carries_impl codes_seq [OF length_law [OF assms(1-3)]])
qed

lemma carries_GnbCuUeF1apId [ie_carries]: "carries (GnbCuUeF1apId_codec L) 64 x"
  unfolding GnbCuUeF1apId_codec_def by (rule carries_integer) (use uint_less [of x] in simp_all)

lemma carries_GnbDuUeF1apId [ie_carries]: "carries (GnbDuUeF1apId_codec L) 64 x"
  unfolding GnbDuUeF1apId_codec_def by (rule carries_integer) (use uint_less [of x] in simp_all)

lemma carries_ProcedureCode [ie_carries]: "carries (ProcedureCode_codec L) 64 x"
  unfolding ProcedureCode_codec_def by (rule carries_integer) (use uint_less [of x] in simp_all)

lemma carries_ProtocolIeId [ie_carries]: "carries (ProtocolIeId_codec L) 64 x"
  unfolding ProtocolIeId_codec_def by (rule carries_integer) (use uint_less [of x] in simp_all)

lemma carries_TransactionId [ie_carries]: "carries (TransactionId_codec L) 64 x"
  unfolding TransactionId_codec_def by (rule carries_integer) (use uint_less [of x] in simp_all)

lemma carries_CRnti [ie_carries]: "carries (CRnti_codec L) 64 x"
  unfolding CRnti_codec_def by (rule carries_integer) (use uint_less [of x] in simp_all)

lemma carries_SrbId [ie_carries]: "x \<le> 3 \<Longrightarrow> carries (SrbId_codec L) 64 x"
  unfolding SrbId_codec_def by (rule carries_integer) (simp_all add: word_le_def)

lemma carries_SubscriberProfileIDforRfp [ie_carries]: "1 \<le> x \<Longrightarrow> x \<le> 256 \<Longrightarrow> carries (SubscriberProfileIDforRfp_codec L) 64 x"
  unfolding SubscriberProfileIDforRfp_codec_def by (rule carries_integer) (simp_all add: word_le_def)

lemma carries_RatFrequencySelectionPriority [ie_carries]: "1 \<le> x \<Longrightarrow> x \<le> 256 \<Longrightarrow> carries (RatFrequencySelectionPriority_codec L) 64 x"
  unfolding RatFrequencySelectionPriority_codec_def by (rule carries_integer) (simp_all add: word_le_def)

lemma carries_Criticality [ie_carries]: "carries (Criticality_codec L) 16 x"
  unfolding Criticality_codec_def by (rule carries_enum) (cases x, simp_all)

lemma carries_TriggeringMessage [ie_carries]: "carries (TriggeringMessage_codec L) 16 x"
  unfolding TriggeringMessage_codec_def by (rule carries_enum) (cases x, simp_all)

lemma carries_CauseMisc [ie_carries]: "carries (CauseMisc_codec L) 16 x"
  unfolding CauseMisc_codec_def by (rule carries_enum) (cases x, simp_all)

lemma carries_CauseProtocol [ie_carries]: "carries (CauseProtocol_codec L) 16 x"
  unfolding CauseProtocol_codec_def by (rule carries_enum) (cases x, simp_all)

lemma carries_CauseRadioNetwork [ie_carries]: "carries (CauseRadioNetwork_codec L) 16 x"
  unfolding CauseRadioNetwork_codec_def by (rule carries_enum) (cases x, simp_all)

lemma carries_CauseTransport [ie_carries]: "carries (CauseTransport_codec L) 16 x"
  unfolding CauseTransport_codec_def by (rule carries_enum) (cases x, simp_all)

lemma carries_TypeOfError [ie_carries]: "carries (TypeOfError_codec L) 16 x"
  unfolding TypeOfError_codec_def by (rule carries_enum) (cases x, simp_all)

lemma carries_ExecuteDuplication [ie_carries]: "carries (ExecuteDuplication_codec L) 16 x"
  unfolding ExecuteDuplication_codec_def by (rule carries_enum) (cases x, simp_all)

lemma carries_RrcDeliveryStatusRequest [ie_carries]: "carries (RrcDeliveryStatusRequest_codec L) 16 x"
  unfolding RrcDeliveryStatusRequest_codec_def by (rule carries_enum) (cases x, simp_all)

lemma carries_SulAccessIndication [ie_carries]: "carries (SulAccessIndication_codec L) 16 x"
  unfolding SulAccessIndication_codec_def by (rule carries_enum) (cases x, simp_all)

lemma carries_TimeToWait [ie_carries]: "carries (TimeToWait_codec L) 16 x"
  unfolding TimeToWait_codec_def by (rule carries_enum) (cases x, simp_all)

lemma carries_UeContextNotRetrievable [ie_carries]: "carries (UeContextNotRetrievable_codec L) 16 x"
  unfolding UeContextNotRetrievable_codec_def by (rule carries_enum) (cases x, simp_all)

lemma carries_RrcContainer [ie_carries]: "wf_container x \<Longrightarrow> carries (RrcContainer_codec L) 131064 x"
  unfolding RrcContainer_codec_def wf_container_def by (rule carries_mono [OF carries_octets]) simp_all

lemma carries_RrcContainerRrcSetupComplete [ie_carries]: "wf_container x \<Longrightarrow> carries (RrcContainerRrcSetupComplete_codec L) 131064 x"
  unfolding RrcContainerRrcSetupComplete_codec_def wf_container_def by (rule carries_mono [OF carries_octets]) simp_all

lemma carries_DuToCuRrcContainer [ie_carries]: "wf_container x \<Longrightarrow> carries (DuToCuRrcContainer_codec L) 131064 x"
  unfolding DuToCuRrcContainer_codec_def wf_container_def by (rule carries_mono [OF carries_octets]) simp_all

lemma carries_PlmnIdentity [ie_carries]: "length x = 3 \<Longrightarrow> carries (PlmnIdentity_codec L) 32 x"
  unfolding PlmnIdentity_codec_def by (rule carries_mono [OF carries_array]) simp_all

lemma carries_RanUeId [ie_carries]: "length x = 8 \<Longrightarrow> carries (RanUeId_codec L) 72 x"
  unfolding RanUeId_codec_def by (rule carries_mono [OF carries_array]) simp_all

lemma carries_NrCellIdentity [ie_carries]: "length x = 36 \<Longrightarrow> carries (NrCellIdentity_codec L) 44 x"
  unfolding NrCellIdentity_codec_def by (rule carries_mono [OF carries_bitstring]) simp_all

lemma carries_AdditionalRrmPriorityIndex [ie_carries]:
  "length x = 32 \<Longrightarrow> carries (AdditionalRrmPriorityIndex_codec L) 40 x"
  unfolding AdditionalRrmPriorityIndex_codec_def by (rule carries_mono [OF carries_bitstring]) simp_all

text \<open>A sequence: its header and then its fields.\<close>

lemma codes_header:
  assumes "length opts = n" "codes m e (f (opts, False)) x"
  shows "codes (1 + n + m) (enc_seq (encode_sequence_header L ext opts False) e)
           (dec_bind (decode_sequence_header L ext n) f) x"
  using codes_seq [where f = f, OF sequence_law [of opts ext], OF assms(2)] assms(1) by simp

lemma codes_field:
  "carries C n x \<Longrightarrow> codes m e (f x) y \<Longrightarrow> codes (n + m) (enc_seq (encode_of C x) e) (dec_bind (decode_of C) f) y"
  unfolding carries_def by (rule codes_seq)

lemma codes_last_field:
  "carries C n x \<Longrightarrow> f x = dec_return y \<Longrightarrow> codes n (encode_of C x) (dec_bind (decode_of C) f) y"
  unfolding carries_def by (rule codes_last)

lemma codes_choice:
  assumes "0 \<le> v" "v \<le> ub" "ub < 256" "f (v, False) = dec_bind (decode_of C) g" "carries C n x"
    "g x = dec_return y"
  shows "codes (16 + n) (enc_seq (encode_choice_idx L 0 ub ext v False) (encode_of C x))
           (dec_bind (decode_choice_idx L 0 ub ext) f) y"
  using codes_seq [OF choice_law [OF assms(1-3)], of n "encode_of C x" f y]
    codes_last_field [OF assms(5), of g y] assms(4,6) by simp

lemma carries_Cause [ie_carries]: "carries (Cause_codec L) 32 x"
  unfolding Cause_codec_def
proof (rule carries_impl)
  have *: "codes (16 + 16) (Cause_encode_inner L x) (Cause_decode_inner L) x"
    unfolding Cause_encode_inner_def Cause_decode_inner_def
    by (cases x; simp only: cause.case; rule codes_choice; auto intro: ie_carries)
  then show "codes 32 (Cause_encode_inner L x) (Cause_decode_inner L) x" by simp
qed

lemma carries_RatFrequencyPriorityInformation [ie_carries]:
  "wf_rat_frequency_priority x \<Longrightarrow> carries (RatFrequencyPriorityInformation_codec L) (16 + 64) x"
  unfolding RatFrequencyPriorityInformation_codec_def
  by (rule carries_impl; cases x; simp only: rat_frequency_priority_information.case;
      rule codes_choice; auto simp: wf_rat_frequency_priority_def intro: ie_carries)

lemma carries_NrCgi [ie_carries]: "wf_nr_cgi x \<Longrightarrow> carries (NrCgi_codec L) 78 x"
  unfolding NrCgi_codec_def
  by (rule carries_impl, rule codes_mono, rule codes_header, simp, simp only: prod.case,
      rule codes_field, rule ie_carries, simp add: wf_nr_cgi_def, rule codes_last_field, rule ie_carries)
    (simp_all add: wf_nr_cgi_def)

lemma carries_TargetCellListItem [ie_carries]:
  "wf_nr_cgi x \<Longrightarrow> carries (TargetCellListItem_codec L) 80 x"
  unfolding TargetCellListItem_codec_def
  by (rule carries_impl, rule codes_mono, rule codes_header, simp, simp only: prod.case,
      rule codes_last_field, rule ie_carries) simp_all

lemma carries_TargetCellList [ie_carries]:
  assumes "wf_target_cells xs"
  shows "carries (TargetCellList_codec L) 664 xs"
proof -
  have "carries (TargetCellList_codec L) (24 + 80 * length xs) xs"
    unfolding TargetCellList_codec_def
    by (rule carries_non_empty)
      (use assms in \<open>auto simp: wf_target_cells_def list_all_iff intro: carries_TargetCellListItem\<close>)
  then show ?thesis by (rule carries_mono) (use assms in \<open>simp add: wf_target_cells_def\<close>)
qed

lemma carries_CriticalityDiagnosticsIeItem [ie_carries]:
  "carries (CriticalityDiagnosticsIeItem_codec L) 98 x"
  unfolding CriticalityDiagnosticsIeItem_codec_def
  by (rule carries_impl, rule codes_mono, rule codes_header, simp, simp only: prod.case,
      rule codes_field, rule ie_carries, rule codes_field, rule ie_carries,
      rule codes_last_field, rule ie_carries) simp_all

lemma carries_CriticalityDiagnosticsIeList [ie_carries]:
  assumes "1 \<le> length xs" "length xs \<le> 256"
  shows "carries (CriticalityDiagnosticsIeList_codec L) 25112 xs"
proof -
  have "carries (CriticalityDiagnosticsIeList_codec L) (24 + 98 * length xs) xs"
    unfolding CriticalityDiagnosticsIeList_codec_def
    by (rule carries_non_empty) (use assms in \<open>auto intro: carries_CriticalityDiagnosticsIeItem\<close>)
  then show ?thesis by (rule carries_mono) (use assms in simp)
qed

lemma codes_optional_field:
  assumes "i < length optionals" "optionals ! i \<longleftrightarrow> x \<noteq> None" "\<And>y. x = Some y \<Longrightarrow> carries C n y"
    and "codes m e (f x) z"
  shows "codes (n + m) (enc_seq (encode_optional (encode_of C) x) e)
           (dec_bind (decode_optional optionals i (decode_of C)) f) z"
  using assms by (intro codes_seq [OF codes_optional]) (auto simp: carries_def)

lemma carries_CriticalityDiagnostics [ie_carries]:
  assumes "wf_criticality_diagnostics x"
  shows "carries (CriticalityDiagnostics_codec L) 25279 x"
proof -
  have ies: "carries (CriticalityDiagnosticsIeList_codec L) 25112 y" if "cd_ies x = Some y" for y
    using assms that by (auto simp: wf_criticality_diagnostics_def intro!: ie_carries)
  let ?o = "[cd_procedure_code x \<noteq> None, cd_triggering_message x \<noteq> None, cd_procedure_criticality x \<noteq> None,
        cd_transaction_id x \<noteq> None, cd_ies x \<noteq> None, False]"
  have last: "codes 25112 (encode_optional (encode_of (CriticalityDiagnosticsIeList_codec L)) (cd_ies x))
      (dec_bind (decode_optional ?o 4 (decode_of (CriticalityDiagnosticsIeList_codec L))) f) z"
    if "f (cd_ies x) = dec_return z" for f and z :: criticality_diagnostics
    by (rule codes_last [OF codes_optional]) (use ies that in \<open>auto simp: carries_def\<close>)
  have "codes (1 + 6 + (64 + (16 + (16 + (64 + 25112))))) (CriticalityDiagnostics_encode_inner L x)
      (CriticalityDiagnostics_decode_inner L) x"
    unfolding CriticalityDiagnostics_encode_inner_def CriticalityDiagnostics_decode_inner_def
    by (rule codes_header, simp, simp only: prod.case, (rule codes_optional_field, simp, simp, rule ie_carries)+,
        rule last) simp
  then show ?thesis unfolding CriticalityDiagnostics_codec_def by (intro carries_impl) simp
qed

end

end
