(* ===== verification/Aper_Reference.thy ===== *)
theory Aper_Reference
  imports Aper
begin

text \<open>
  An executable aligned PER (X.691) for the constraints that the F1AP codecs use: constrained whole
  numbers, length determinants below 16384, fixed and unconstrained octet strings, fixed bit strings and
  sequence headers, with a value outside its constraint refused.  It shows that the contract
  \<open>aper_lib\<close> can be met, and it is the library on which the concrete messages are evaluated.
\<close>

section \<open>Bits of a natural number\<close>

primrec nat_bits :: "nat \<Rightarrow> nat \<Rightarrow> bits" where
  "nat_bits 0 v = []"
| "nat_bits (Suc k) v = odd (v div 2 ^ k) # nat_bits k v"

primrec bits_nat :: "nat \<Rightarrow> bits \<Rightarrow> nat" where
  "bits_nat a [] = a"
| "bits_nat a (b # bs) = bits_nat (2 * a + of_bool b) bs"

lemma length_nat_bits [simp]: "length (nat_bits k v) = k"
  by (induction k) auto

lemma bits_nat_nat_bits: "bits_nat a (nat_bits k v) = a * 2 ^ k + v mod 2 ^ k"
proof (induction k arbitrary: a)
  case (Suc k)
  have "v mod 2 ^ Suc k = 2 ^ k * (v div 2 ^ k mod 2) + v mod 2 ^ k"
    using mod_mult2_eq [of v "2 ^ k" 2] by (simp add: mult.commute)
  moreover have "of_bool (odd (v div 2 ^ k)) = v div 2 ^ k mod 2" by (simp add: mod_2_eq_odd)
  ultimately show ?case by (simp add: Suc algebra_simps)
qed simp

lemma nat_bits_mod: "m \<le> k \<Longrightarrow> nat_bits m (v mod 2 ^ k) = nat_bits m v"
proof (induction m)
  case (Suc m)
  then have "odd (v mod 2 ^ k div 2 ^ m) = odd (v div 2 ^ m)"
    by (metis bit_iff_odd bit_take_bit_iff Suc_le_eq take_bit_eq_mod)
  then show ?case using Suc by simp
qed simp

lemma bits_nat_bound: "bits_nat a bs < (a + 1) * 2 ^ length bs"
proof (induction bs arbitrary: a)
  case (Cons b bs)
  have "(2 * a + of_bool b + 1) * 2 ^ length bs \<le> (a + 1) * 2 ^ length (b # bs)"
    by (cases b) (simp_all add: algebra_simps)
  then show ?case using Cons [of "2 * a + of_bool b"] by simp
qed simp

lemma bits_nat_acc: "bits_nat a bs = a * 2 ^ length bs + bits_nat 0 bs"
proof (induction bs arbitrary: a)
  case (Cons b bs)
  show ?case using Cons [of "2 * a + of_bool b"] Cons [of "of_bool b"] by (simp add: algebra_simps)
qed simp

lemma nat_bits_bits_nat: "nat_bits (length bs) (bits_nat 0 bs) = bs"
proof (induction bs)
  case (Cons b bs)
  let ?r = "bits_nat 0 bs"
  have r: "?r < 2 ^ length bs" using bits_nat_bound [of 0 bs] by simp
  have v: "bits_nat 0 (b # bs) = of_bool b * 2 ^ length bs + ?r"
    using bits_nat_acc [of "of_bool b" bs] by simp
  have "bits_nat 0 (b # bs) div 2 ^ length bs = of_bool b" unfolding v using r by simp
  moreover have "bits_nat 0 (b # bs) mod 2 ^ length bs = ?r" unfolding v using r by simp
  ultimately show ?case
    using Cons nat_bits_mod [of "length bs" "length bs" "bits_nat 0 (b # bs)"] by simp
qed simp

section \<open>Fields and alignment\<close>

definition short_data :: per_fail where
  "short_data = per_codec_error_new ''data too short''"

definition out_of_range :: per_fail where
  "out_of_range = per_codec_error_new ''value outside its constraint''"

definition write_bits :: "bits \<Rightarrow> encoder" where
  "write_bits bs = (\<lambda>w. Inr (w @ bs))"

definition read_bits :: "nat \<Rightarrow> bits decoder" where
  "read_bits k = (\<lambda>(off, bs). if k \<le> length bs then Inr (take k bs, (off + k, drop k bs))
                              else Inl short_data)"

definition read_nat :: "nat \<Rightarrow> nat decoder" where
  "read_nat k = dec_bind (read_bits k) (\<lambda>bs. dec_return (bits_nat 0 bs))"

definition padding :: "nat \<Rightarrow> nat" where
  "padding n = (8 - n mod 8) mod 8"

definition write_align :: encoder where
  "write_align = (\<lambda>w. Inr (w @ replicate (padding (length w)) False))"

definition read_align :: "unit decoder" where
  "read_align = (\<lambda>(off, bs). if padding off \<le> length bs
                             then Inr ((), (off + padding off, drop (padding off) bs))
                             else Inl short_data)"

lemma padding_less: "padding n < 8"
  by (simp add: padding_def)

lemma padding_unique:
  assumes "k < 8" "(n + k) mod 8 = 0"
  shows "padding n = k"
proof -
  define m where "m = n mod 8"
  have m: "m < 8" by (simp add: m_def)
  have "(m + k) mod 8 = 0" using assms(2) by (simp add: m_def mod_add_left_eq)
  then obtain q where q: "m + k = 8 * q" by (auto simp: mod_eq_0_iff_dvd elim: dvdE)
  then have "8 * q < 8 * 2" using m assms(1) by linarith
  then have "q = 0 \<or> q = 1" by auto
  then have "m = 0 \<and> k = 0 \<or> m = 8 - k \<and> 0 < k" using q m assms(1) by auto
  then show ?thesis using assms(1) by (auto simp: padding_def m_def)
qed

lemma padding_aligns: "(n + padding n) mod 8 = 0"
proof (cases "n mod 8 = 0")
  case True then show ?thesis by (auto simp: padding_def)
next
  case False
  define m q where "m = n mod 8" and "q = n div 8"
  have "n = 8 * q + m" "m < 8" by (simp_all add: m_def q_def)
  then have "n + (8 - m) = 8 * (q + 1)" by simp
  moreover have "padding n = 8 - m" using False by (simp add: padding_def m_def)
  ultimately have "n + padding n = 8 * (q + 1)" by simp
  then show ?thesis by simp
qed

lemma padding_cong: "m mod 8 = n mod 8 \<Longrightarrow> padding m = padding n"
  by (simp add: padding_def)

lemma codes_bits: "codes (length bs) (write_bits bs) (read_bits (length bs)) bs"
  by (simp add: codes_def write_bits_def read_bits_def)

lemma codes_nat: "v < 2 ^ k \<Longrightarrow> codes k (write_bits (nat_bits k v)) (read_nat k) v"
  using codes_last [OF codes_bits [of "nat_bits k v"], of "\<lambda>bs. dec_return (bits_nat 0 bs)" v]
  by (simp add: read_nat_def bits_nat_nat_bits)

lemma codes_align: "codes 7 write_align read_align ()"
proof -
  have "read_align (off, replicate (padding n) False @ rest) = Inr ((), (off + padding n, rest))"
    if "off mod 8 = n mod 8" for off n rest
    using padding_cong [OF that] by (simp add: read_align_def)
  moreover have "padding n \<le> 7" for n using padding_less [of n] by simp
  ultimately show ?thesis
    unfolding codes_def write_align_def by (metis length_replicate)
qed

section \<open>Whole numbers and lengths\<close>

fun bitlen :: "nat \<Rightarrow> nat" where
  "bitlen n = (if n = 0 then 0 else Suc (bitlen (n div 2)))"

declare bitlen.simps [simp del]

lemma less_bitlen: "n < 2 ^ bitlen n"
proof (induction n rule: bitlen.induct)
  case (1 n)
  then show ?case by (subst bitlen.simps) (auto simp: not_less)
qed

lemma bitlen_mono: "m \<le> n \<Longrightarrow> bitlen m \<le> bitlen n"
proof (induction n arbitrary: m rule: bitlen.induct)
  case (1 n)
  show ?case
  proof (cases "m = 0")
    case False
    then show ?thesis
      using 1(1) [of "m div 2"] 1(2) by (subst (1 2) bitlen.simps) (auto simp: div_le_mono)
  qed (simp add: bitlen.simps [of 0])
qed

lemma bitlen_byte: "n < 256 \<Longrightarrow> bitlen n \<le> 8"
proof -
  assume "n < 256"
  then have "bitlen n \<le> bitlen 255" by (intro bitlen_mono) simp
  also have "bitlen 255 = 8" by (simp add: bitlen.simps)
  finally show ?thesis .
qed

definition octet_count :: "nat \<Rightarrow> nat" where
  "octet_count v =
     (if v < 256 then 1 else if v < 65536 then 2 else if v < 16777216 then 3 else if v < 4294967296 then 4
      else if v < 1099511627776 then 5 else if v < 281474976710656 then 6
      else if v < 72057594037927936 then 7 else 8)"

text \<open>The bits of the number of octets, for a range past 65536.\<close>

definition count_bits :: "nat \<Rightarrow> nat" where
  "count_bits rng = (if rng \<le> 4294967296 then 2 else 3)"

definition write_uint :: "nat \<Rightarrow> nat \<Rightarrow> encoder" where
  "write_uint rng v =
     (if rng < 256 then write_bits (nat_bits (bitlen (rng - 1)) v)
      else if rng = 256 then enc_seq write_align (write_bits (nat_bits 8 v))
      else if rng \<le> 65536 then enc_seq write_align (write_bits (nat_bits 16 v))
      else enc_seq (write_bits (nat_bits (count_bits rng) (octet_count v - 1)))
             (enc_seq write_align (write_bits (nat_bits (8 * octet_count v) v))))"

definition read_uint :: "nat \<Rightarrow> nat decoder" where
  "read_uint rng =
     (if rng < 256 then read_nat (bitlen (rng - 1))
      else if rng = 256 then dec_bind read_align (\<lambda>_. read_nat 8)
      else if rng \<le> 65536 then dec_bind read_align (\<lambda>_. read_nat 16)
      else dec_bind (read_nat (count_bits rng))
             (\<lambda>k. dec_bind read_align (\<lambda>_. read_nat (8 * (k + 1)))))"

lemma octet_count_bounds: "0 < octet_count v" "octet_count v \<le> 8"
  by (simp_all add: octet_count_def)

lemma octet_count_fits: "v < 18446744073709551616 \<Longrightarrow> v < 2 ^ (8 * octet_count v)"
  by (simp add: octet_count_def)

lemma codes_uint_large:
  assumes "v < 18446744073709551616" "octet_count v - 1 < 2 ^ k" "k \<le> 3" "octet_count v \<le> m"
  shows "codes (10 + 8 * m) (enc_seq (write_bits (nat_bits k (octet_count v - 1)))
                    (enc_seq write_align (write_bits (nat_bits (8 * octet_count v) v))))
           (dec_bind (read_nat k) (\<lambda>k. dec_bind read_align (\<lambda>_. read_nat (8 * (k + 1))))) v"
proof -
  have 1: "codes k (write_bits (nat_bits k (octet_count v - 1))) (read_nat k) (octet_count v - 1)"
    using assms(2) by (rule codes_nat)
  have "codes (8 * octet_count v) (write_bits (nat_bits (8 * octet_count v) v))
      (read_nat (8 * (octet_count v - 1 + 1))) v"
    using codes_nat [OF octet_count_fits [OF assms(1)]] octet_count_bounds [of v] by simp
  then have "codes (8 * m) (write_bits (nat_bits (8 * octet_count v) v))
      (read_nat (8 * (octet_count v - 1 + 1))) v"
    by (rule codes_mono) (use assms(4) in simp)
  then have "codes (7 + 8 * m) (enc_seq write_align (write_bits (nat_bits (8 * octet_count v) v)))
      (dec_bind read_align (\<lambda>_. read_nat (8 * (octet_count v - 1 + 1)))) v"
    by (rule codes_seq [OF codes_align])
  from codes_mono [OF codes_seq [OF 1, where f = "\<lambda>k. dec_bind read_align (\<lambda>_. read_nat (8 * (k + 1)))", OF this], of "10 + 8 * m"]
  show ?thesis using assms(3) by simp
qed

lemma codes_uint_small:
  assumes "v < rng" "rng < 256"
  shows "codes 8 (write_bits (nat_bits (bitlen (rng - 1)) v)) (read_nat (bitlen (rng - 1))) v"
proof (rule codes_mono [OF codes_nat])
  have "v \<le> rng - 1" using assms(1) by simp
  then show "v < 2 ^ bitlen (rng - 1)" using less_bitlen [of "rng - 1"] by simp
  show "bitlen (rng - 1) \<le> 8" using assms(2) by (intro bitlen_byte) simp
qed

lemma codes_aligned_nat:
  "v < 2 ^ k \<Longrightarrow>
     codes (7 + k) (enc_seq write_align (write_bits (nat_bits k v))) (dec_bind read_align (\<lambda>_. read_nat k)) v"
  by (rule codes_seq [OF codes_align codes_nat])

lemma codes_uint:
  assumes "v < rng" "rng \<le> 18446744073709551616" "octet_count v \<le> m" "2 \<le> m"
  shows "codes (10 + 8 * m) (write_uint rng v) (read_uint rng) v"
proof -
  consider "rng < 256" | "rng = 256" | "256 < rng" "rng \<le> 65536" | "65536 < rng"
    by linarith
  then show ?thesis
  proof cases
    case 1 then show ?thesis
      using codes_mono [OF codes_uint_small [OF assms(1)], of "10 + 8 * m"] by (simp add: write_uint_def read_uint_def)
  next
    case 2 then show ?thesis
      using codes_mono [OF codes_aligned_nat [of v 8], of "10 + 8 * m"] assms
      by (simp add: write_uint_def read_uint_def)
  next
    case 3 then show ?thesis
      using codes_mono [OF codes_aligned_nat [of v 16], of "10 + 8 * m"] assms
      by (simp add: write_uint_def read_uint_def)
  next
    case 4
    have "octet_count v - 1 < 2 ^ count_bits rng"
      using assms(1) octet_count_bounds [of v] by (auto simp: count_bits_def octet_count_def)
    with 4 show ?thesis
      using codes_uint_large [of v "count_bits rng" m] assms
      by (simp add: write_uint_def read_uint_def count_bits_def)
  qed
qed

lemma codes_uint_short:
  assumes "v < rng" "rng \<le> 65536"
  shows "codes 23 (write_uint rng v) (read_uint rng) v"
proof -
  consider "rng < 256" | "rng = 256" | "256 < rng" by linarith
  then show ?thesis
  proof cases
    case 1 then show ?thesis
      using codes_mono [OF codes_uint_small [OF assms(1)], of 23] by (simp add: write_uint_def read_uint_def)
  next
    case 2 then show ?thesis
      using codes_mono [OF codes_aligned_nat [of v 8], of 23] assms
      by (simp add: write_uint_def read_uint_def)
  next
    case 3 then show ?thesis
      using codes_aligned_nat [of v 16] assms by (simp add: write_uint_def read_uint_def)
  qed
qed

lemma codes_uint_byte:
  assumes "v < rng" "rng \<le> 256"
  shows "codes 15 (write_uint rng v) (read_uint rng) v"
proof (cases "rng = 256")
  case True then show ?thesis
    using codes_aligned_nat [of v 8] assms by (simp add: write_uint_def read_uint_def)
next
  case False then show ?thesis
    using codes_mono [OF codes_uint_small [OF assms(1)], of 15] assms
    by (simp add: write_uint_def read_uint_def)
qed

section \<open>The primitives\<close>

definition ref_encode_range :: "int \<Rightarrow> int \<Rightarrow> bool \<Rightarrow> int \<Rightarrow> bool \<Rightarrow> encoder" where
  "ref_encode_range lb ub ext v extended =
     (if lb \<le> v \<and> v \<le> ub \<and> \<not> extended then
        enc_seq (write_bits (if ext then [False] else [])) (write_uint (nat (ub - lb + 1)) (nat (v - lb)))
      else (\<lambda>w. Inl out_of_range))"

definition ref_decode_range :: "int \<Rightarrow> int \<Rightarrow> bool \<Rightarrow> (int \<times> bool) decoder" where
  "ref_decode_range lb ub ext =
     dec_bind (read_bits (if ext then 1 else 0)) (\<lambda>e.
     if e = [True] then dec_fail out_of_range
     else dec_bind (read_uint (nat (ub - lb + 1))) (\<lambda>v. dec_return (lb + int v, False)))"

definition ref_encode_integer :: "int option \<Rightarrow> int option \<Rightarrow> bool \<Rightarrow> int \<Rightarrow> bool \<Rightarrow> encoder" where
  "ref_encode_integer lb ub ext v extended =
     (case (lb, ub) of (Some l, Some u) \<Rightarrow> ref_encode_range l u ext v extended
      | _ \<Rightarrow> (\<lambda>w. Inl out_of_range))"

definition ref_decode_integer :: "int option \<Rightarrow> int option \<Rightarrow> bool \<Rightarrow> (int \<times> bool) decoder" where
  "ref_decode_integer lb ub ext =
     (case (lb, ub) of (Some l, Some u) \<Rightarrow> ref_decode_range l u ext | _ \<Rightarrow> dec_fail out_of_range)"

definition write_open_length :: "nat \<Rightarrow> encoder" where
  "write_open_length n =
     (if n < 128 then enc_seq write_align (write_bits (nat_bits 8 n))
      else if n < 16384 then
        enc_seq write_align (enc_seq (write_bits (nat_bits 8 (128 + n div 256)))
          (write_bits (nat_bits 8 (n mod 256))))
      else (\<lambda>w. Inl out_of_range))"

text \<open>A length whose upper bound is past 65535 is written as an unconstrained one.\<close>

definition ref_encode_length :: "nat option \<Rightarrow> nat option \<Rightarrow> bool \<Rightarrow> nat \<Rightarrow> encoder" where
  "ref_encode_length lb ub normally_small n =
     (case (lb, ub) of
        (Some l, Some u) \<Rightarrow>
          if l \<le> n \<and> n \<le> u then (if u \<le> 65535 then write_uint (u - l + 1) (n - l) else write_open_length n)
          else (\<lambda>w. Inl out_of_range)
      | _ \<Rightarrow> write_open_length n)"

text \<open>What follows the first octet of an unconstrained length.\<close>

definition open_length_tail :: "nat \<Rightarrow> nat decoder" where
  "open_length_tail b =
     (if b < 128 then dec_return b
      else if b < 192 then dec_bind (read_nat 8) (\<lambda>c. dec_return ((b - 128) * 256 + c))
      else dec_fail out_of_range)"

definition read_open_length :: "nat decoder" where
  "read_open_length = dec_bind read_align (\<lambda>_. dec_bind (read_nat 8) open_length_tail)"

definition ref_decode_length :: "nat option \<Rightarrow> nat option \<Rightarrow> bool \<Rightarrow> nat decoder" where
  "ref_decode_length lb ub normally_small =
     (case (lb, ub) of
        (Some l, Some u) \<Rightarrow>
          if u \<le> 65535 then dec_bind (read_uint (u - l + 1)) (\<lambda>n. dec_return (l + n)) else read_open_length
      | _ \<Rightarrow> read_open_length)"

definition ref_encode_header :: "bool \<Rightarrow> bits \<Rightarrow> bool \<Rightarrow> encoder" where
  "ref_encode_header ext optionals extended =
     enc_seq (write_bits (if ext then [extended] else [])) (write_bits optionals)"

definition ref_decode_header :: "bool \<Rightarrow> nat \<Rightarrow> (bits \<times> bool) decoder" where
  "ref_decode_header ext n =
     dec_bind (read_bits (if ext then 1 else 0)) (\<lambda>e.
     dec_bind (read_bits n) (\<lambda>optionals. dec_return (optionals, e = [True])))"

primrec write_octets :: "bytes \<Rightarrow> encoder" where
  "write_octets [] = enc_skip"
| "write_octets (x # xs) = enc_seq (write_bits (nat_bits 8 (unat x))) (write_octets xs)"

primrec read_octets :: "nat \<Rightarrow> bytes decoder" where
  "read_octets 0 = dec_return []"
| "read_octets (Suc n) =
     dec_bind (read_nat 8) (\<lambda>x. dec_bind (read_octets n) (\<lambda>xs. dec_return (of_nat x # xs)))"

text \<open>A fixed size of at most two octets is not aligned.\<close>

definition ref_encode_octets :: "nat option \<Rightarrow> nat option \<Rightarrow> bool \<Rightarrow> bytes \<Rightarrow> bool \<Rightarrow> encoder" where
  "ref_encode_octets lb ub ext xs extended =
     (case (lb, ub) of
        (Some l, Some u) \<Rightarrow>
          if l = u \<and> length xs = l \<and> \<not> ext
          then enc_seq (if l \<le> 2 then enc_skip else write_align) (write_octets xs)
          else (\<lambda>w. Inl out_of_range)
      | _ \<Rightarrow> enc_seq (ref_encode_length None None False (length xs)) (write_octets xs))"

definition ref_decode_octets :: "nat option \<Rightarrow> nat option \<Rightarrow> bool \<Rightarrow> bytes decoder" where
  "ref_decode_octets lb ub ext =
     (case (lb, ub) of
        (Some l, Some u) \<Rightarrow> dec_bind (if l \<le> 2 then dec_return () else read_align) (\<lambda>_. read_octets l)
      | _ \<Rightarrow> dec_bind (ref_decode_length None None False) read_octets)"

definition ref_encode_bits :: "nat option \<Rightarrow> nat option \<Rightarrow> bool \<Rightarrow> bits \<Rightarrow> bool \<Rightarrow> encoder" where
  "ref_encode_bits lb ub ext bs extended =
     (case (lb, ub) of
        (Some l, Some u) \<Rightarrow>
          if extended \<or> length bs < l \<or> u < length bs then (\<lambda>w. Inl out_of_range)
          else enc_seq (write_bits (if ext then [False] else []))
                 (enc_seq (if l = u then enc_skip else ref_encode_length lb ub False (length bs))
                 (enc_seq (if l = u \<and> l \<le> 16 then enc_skip else write_align) (write_bits bs)))
      | _ \<Rightarrow> (\<lambda>w. Inl out_of_range))"

definition ref_decode_bits :: "nat option \<Rightarrow> nat option \<Rightarrow> bool \<Rightarrow> bits decoder" where
  "ref_decode_bits lb ub ext =
     (case (lb, ub) of
        (Some l, Some u) \<Rightarrow>
          dec_bind (read_bits (if ext then 1 else 0)) (\<lambda>_.
          dec_bind (if l = u then dec_return l else ref_decode_length lb ub False) (\<lambda>n.
          dec_bind (if l = u \<and> l \<le> 16 then dec_return () else read_align) (\<lambda>_. read_bits n)))
      | _ \<Rightarrow> dec_fail out_of_range)"

text \<open>Character strings: eight bits for a character, behind the length.\<close>

definition chars_octets :: "string \<Rightarrow> bytes" where
  "chars_octets s = map (\<lambda>c. of_nat (of_char c)) s"

definition octets_chars :: "bytes \<Rightarrow> string" where
  "octets_chars xs = map (\<lambda>x. char_of (unat x)) xs"

definition ref_encode_string :: "nat option \<Rightarrow> nat option \<Rightarrow> bool \<Rightarrow> string \<Rightarrow> bool \<Rightarrow> encoder" where
  "ref_encode_string lb ub ext s extended =
     (case (lb, ub) of
        (Some l, Some u) \<Rightarrow>
          if \<not> extended then
            enc_seq (write_bits (if ext then [False] else [])) (enc_seq (ref_encode_length lb ub False (length s))
              (enc_seq write_align (write_octets (chars_octets s))))
          else (\<lambda>w. Inl out_of_range)
      | _ \<Rightarrow> enc_seq (write_open_length (length s)) (write_octets (chars_octets s)))"

definition ref_decode_string :: "nat option \<Rightarrow> nat option \<Rightarrow> bool \<Rightarrow> string decoder" where
  "ref_decode_string lb ub ext =
     dec_bind
       (case (lb, ub) of
          (Some l, Some u) \<Rightarrow>
            dec_bind (read_bits (if ext then 1 else 0)) (\<lambda>_.
            dec_bind (ref_decode_length lb ub False) (\<lambda>n. dec_bind read_align (\<lambda>_. read_octets n)))
        | _ \<Rightarrow> dec_bind read_open_length read_octets)
       (\<lambda>xs. dec_return (octets_chars xs))"

definition pad_octet :: "bits \<Rightarrow> bits" where
  "pad_octet w = w @ replicate (padding (length w)) False"

fun pack_octets :: "bits \<Rightarrow> bytes" where
  "pack_octets w =
     (if w = [] then [] else of_nat (bits_nat 0 (take 8 (w @ replicate 8 False))) # pack_octets (drop 8 w))"

declare pack_octets.simps [simp del]

definition unpack_octets :: "bytes \<Rightarrow> bits" where
  "unpack_octets xs = concat (map (\<lambda>x. nat_bits 8 (unat x)) xs)"

definition aper_ref :: per_lib where
  "aper_ref =
     \<lparr>encode_integer = ref_encode_integer,
      decode_integer = ref_decode_integer,
      encode_enumerated = ref_encode_integer,
      decode_enumerated = ref_decode_integer,
      encode_choice_idx = ref_encode_range,
      decode_choice_idx = ref_decode_range,
      encode_length_determinent = ref_encode_length,
      decode_length_determinent = ref_decode_length,
      encode_sequence_header = ref_encode_header,
      decode_sequence_header = ref_decode_header,
      encode_octetstring = ref_encode_octets,
      decode_octetstring = ref_decode_octets,
      encode_bitstring = ref_encode_bits,
      decode_bitstring = ref_decode_bits,
      encode_bool = (\<lambda>b. write_bits [b]),
      decode_bool = dec_bind (read_bits 1) (\<lambda>bs. dec_return (bs = [True])),
      encode_printable_string = ref_encode_string,
      decode_printable_string = ref_decode_string,
      encode_visible_string = ref_encode_string,
      decode_visible_string = ref_decode_string,
      encode_utf8_string = ref_encode_string,
      decode_utf8_string = ref_decode_string,
      append_aligned = (\<lambda>w ie. pad_octet w @ pad_octet ie),
      length_in_bytes = (\<lambda>w. (length w + 7) div 8),
      decode_align = read_align,
      advance_maybe_err = (\<lambda>k ignore. dec_bind (read_bits k) (\<lambda>_. dec_return ())),
      data_into_bytes = pack_octets,
      data_from_slice = (\<lambda>xs. (0, unpack_octets xs))\<rparr>"

section \<open>The primitives meet the contract\<close>

lemma codes_range:
  assumes "lb \<le> v" "v \<le> ub" "codes n (write_uint (nat (ub - lb + 1)) (nat (v - lb)))
    (read_uint (nat (ub - lb + 1))) (nat (v - lb))"
  shows "codes (1 + n) (ref_encode_range lb ub ext v False) (ref_decode_range lb ub ext) (v, False)"
proof -
  have 2: "codes n (write_uint (nat (ub - lb + 1)) (nat (v - lb)))
      (dec_bind (read_uint (nat (ub - lb + 1))) (\<lambda>v. dec_return (lb + int v, False))) (v, False)"
    by (rule codes_last [OF assms(3)]) (simp add: assms)
  have 1: "codes 1 (write_bits (if ext then [False] else [])) (read_bits (if ext then 1 else 0))
      (if ext then [False] else [])"
    using codes_bits [of "[False]"] codes_mono [OF codes_bits [of "[]"], of 1] by simp
  show ?thesis
    using codes_seq [OF 1, of n _ "\<lambda>e. if e = [True] then dec_fail out_of_range
        else dec_bind (read_uint (nat (ub - lb + 1))) (\<lambda>v. dec_return (lb + int v, False))"] 2 assms(1,2)
    by (simp add: ref_encode_range_def ref_decode_range_def)
qed

lemma codes_octets: "codes (8 * length xs) (write_octets xs) (read_octets (length xs)) xs"
proof (induction xs)
  case Nil show ?case by (simp add: codes_skip)
next
  case (Cons x xs)
  have "unat x < 2 ^ 8" using unsigned_less [of x] by simp
  then show ?case
    using codes_seq [OF codes_nat [OF \<open>unat x < 2 ^ 8\<close>] codes_last [OF Cons],
        of "\<lambda>y xs. dec_return (of_nat y # xs)" "x # xs"] by simp
qed

lemma codes_open_length:
  assumes "n < 16384"
  shows "codes 24 (write_open_length n) read_open_length n"
proof (cases "n < 128")
  case True
  have "codes 8 (write_bits (nat_bits 8 n)) (dec_bind (read_nat 8) open_length_tail) n"
    by (rule codes_last [OF codes_nat]) (use True in \<open>simp_all add: open_length_tail_def\<close>)
  then have "codes (7 + 8) (enc_seq write_align (write_bits (nat_bits 8 n)))
      (dec_bind read_align (\<lambda>_. dec_bind (read_nat 8) open_length_tail)) n"
    by (rule codes_seq [OF codes_align])
  from codes_mono [OF this, of 24] show ?thesis
    using True by (simp add: write_open_length_def read_open_length_def)
next
  case False
  have d: "n div 256 < 64" using assms by (simp add: less_mult_imp_div_less)
  have 1: "codes 8 (write_bits (nat_bits 8 (128 + n div 256))) (read_nat 8) (128 + n div 256)"
    by (rule codes_nat) (use d in simp)
  have "codes 8 (write_bits (nat_bits 8 (n mod 256))) (read_nat 8) (n mod 256)"
    by (rule codes_nat) simp
  then have "codes 8 (write_bits (nat_bits 8 (n mod 256))) (open_length_tail (128 + n div 256)) n"
    using d by (simp add: open_length_tail_def codes_last)
  then have "codes (8 + 8) (enc_seq (write_bits (nat_bits 8 (128 + n div 256)))
      (write_bits (nat_bits 8 (n mod 256)))) (dec_bind (read_nat 8) open_length_tail) n"
    by (rule codes_seq [OF 1])
  then have "codes (7 + (8 + 8)) (enc_seq write_align (enc_seq (write_bits (nat_bits 8 (128 + n div 256)))
      (write_bits (nat_bits 8 (n mod 256)))))
      (dec_bind read_align (\<lambda>_. dec_bind (read_nat 8) open_length_tail)) n"
    by (rule codes_seq [OF codes_align])
  from codes_mono [OF this, of 24] show ?thesis
    using False assms by (simp add: write_open_length_def read_open_length_def)
qed

lemma pack_unpack: "\<exists>p. unpack_octets (pack_octets w) = w @ p"
proof (induction w rule: pack_octets.induct)
  case (1 w)
  show ?case
  proof (cases "w = []")
    case False
    let ?c = "take 8 (w @ replicate 8 False)"
    have len: "length ?c = 8" by simp
    have "bits_nat 0 ?c < 256" using bits_nat_bound [of 0 ?c] len by simp
    then have "unat (of_nat (bits_nat 0 ?c) :: u8) = bits_nat 0 ?c" by (simp add: unat_of_nat)
    moreover have "nat_bits 8 (bits_nat 0 ?c) = ?c" using nat_bits_bits_nat [of ?c] len by simp
    ultimately have u: "unpack_octets (pack_octets w) = ?c @ unpack_octets (pack_octets (drop 8 w))"
      using False by (subst pack_octets.simps) (simp add: unpack_octets_def)
    obtain p where p: "unpack_octets (pack_octets (drop 8 w)) = drop 8 w @ p" using 1 False by blast
    show ?thesis
    proof (cases "8 \<le> length w")
      case True
      then have "unpack_octets (pack_octets w) = (take 8 w @ drop 8 w) @ p" using u p by simp
      then show ?thesis by (simp only: append_take_drop_id) blast
    next
      case short: False
      then show ?thesis using u by simp
    qed
  qed (simp add: pack_octets.simps unpack_octets_def)
qed

lemma write_align_aligned: "write_align w = Inr w' \<Longrightarrow> length w' mod 8 = 0"
  using padding_aligns by (auto simp: write_align_def)

lemma aligned_octets:
  assumes "enc_seq write_align e w = Inr w'" "\<And>u v. e u = Inr v \<Longrightarrow> \<exists>k. length v = length u + 8 * k"
  shows "length w' mod 8 = 0"
proof -
  obtain u where u: "write_align w = Inr u" "e u = Inr w'"
    using assms(1) by (auto simp: enc_seq_def rs_simps)
  then obtain k where "length w' = length u + 8 * k" using assms(2) by blast
  then show ?thesis using write_align_aligned [OF u(1)] by simp
qed

lemma write_bits_length: "write_bits bs u = Inr v \<Longrightarrow> length v = length u + length bs"
  by (auto simp: write_bits_def)

interpretation aper_ref: aper_lib aper_ref
proof
  fix lb v ub :: int and ext
  assume "lb \<le> v" "v \<le> ub" "ub - lb < 4294967296"
  then have "codes (1 + (10 + 8 * 4)) (ref_encode_range lb ub ext v False) (ref_decode_range lb ub ext) (v, False)"
    by (intro codes_range codes_uint) (auto simp: octet_count_def)
  from codes_mono [OF this] show "codes 64 (encode_integer aper_ref (Some lb) (Some ub) ext v False)
      (decode_integer aper_ref (Some lb) (Some ub) ext) (v, False)"
    by (simp add: aper_ref_def ref_encode_integer_def ref_decode_integer_def)
next
  fix v ub :: int and ext
  assume "0 \<le> v" "v \<le> ub" "ub < 256"
  then have *: "codes (1 + 15) (ref_encode_range 0 ub ext v False) (ref_decode_range 0 ub ext) (v, False)"
    by (intro codes_range codes_uint_byte) auto
  show "codes 16 (encode_enumerated aper_ref (Some 0) (Some ub) ext v False)
      (decode_enumerated aper_ref (Some 0) (Some ub) ext) (v, False)"
    using * by (simp add: aper_ref_def ref_encode_integer_def ref_decode_integer_def)
  show "codes 16 (encode_choice_idx aper_ref 0 ub ext v False) (decode_choice_idx aper_ref 0 ub ext) (v, False)"
    using * by (simp add: aper_ref_def)
next
  fix lo n hi :: nat
  assume *: "lo \<le> n" "n \<le> hi" "hi \<le> 65535"
  then have "codes 23 (write_uint (hi - lo + 1) (n - lo)) (read_uint (hi - lo + 1)) (n - lo)"
    by (intro codes_uint_short) auto
  from codes_mono [OF codes_last [OF this, of "\<lambda>n. dec_return (lo + n)" n], of 24]
  show "codes 24 (encode_length_determinent aper_ref (Some lo) (Some hi) False n)
      (decode_length_determinent aper_ref (Some lo) (Some hi) False) n"
    using * by (simp add: aper_ref_def ref_encode_length_def ref_decode_length_def)
next
  fix n :: nat
  assume "n < 16384"
  then show "codes 24 (encode_length_determinent aper_ref None None False n)
      (decode_length_determinent aper_ref None None False) n"
    by (simp add: aper_ref_def codes_open_length ref_encode_length_def ref_decode_length_def)
next
  fix n w w'
  assume "encode_length_determinent aper_ref (Some 0) (Some 65535) False n w = Inr w'"
  then have "enc_seq write_align (write_bits (nat_bits 16 n)) w = Inr w'"
    by (simp add: aper_ref_def ref_encode_length_def write_uint_def split: if_splits)
  then show "length w' mod 8 = 0"
    by (rule aligned_octets) (auto dest!: write_bits_length intro: exI [of _ 2])
next
  fix n w w'
  assume "encode_length_determinent aper_ref None None False n w = Inr w'"
  then consider "enc_seq write_align (write_bits (nat_bits 8 n)) w = Inr w'"
    | "enc_seq write_align (enc_seq (write_bits (nat_bits 8 (128 + n div 256)))
         (write_bits (nat_bits 8 (n mod 256)))) w = Inr w'"
    by (auto simp: aper_ref_def ref_encode_length_def write_open_length_def split: if_splits)
  then show "length w' mod 8 = 0"
  proof cases
    case 1 then show ?thesis
      by (rule aligned_octets) (auto dest!: write_bits_length intro: exI [of _ 1])
  next
    case 2 then show ?thesis
      by (rule aligned_octets) (auto simp: enc_seq_def rs_simps dest!: write_bits_length intro: exI [of _ 2])
  qed
next
  fix opts ext
  have 1: "codes 1 (write_bits (if ext then [False] else [])) (read_bits (if ext then 1 else 0))
      (if ext then [False] else [])"
    using codes_bits [of "[False]"] codes_mono [OF codes_bits [of "[]"], of 1] by simp
  show "codes (1 + length opts) (encode_sequence_header aper_ref ext opts False)
      (decode_sequence_header aper_ref ext (length opts)) (opts, False)"
    using codes_seq [OF 1 codes_last [OF codes_bits [of opts]],
        of "\<lambda>e optionals. dec_return (optionals, e = [True])" "(opts, False)"]
    by (simp add: aper_ref_def ref_encode_header_def ref_decode_header_def)
next
  fix xs :: bytes and n
  assume "length xs = n" "n < 65536"
  then have o: "codes (8 * n) (write_octets xs) (read_octets n) xs" using codes_octets [of xs] by simp
  have "codes (7 + 8 * n) (enc_seq (if n \<le> 2 then enc_skip else write_align) (write_octets xs))
      (dec_bind (if n \<le> 2 then dec_return () else read_align) (\<lambda>_. read_octets n)) xs"
  proof (rule codes_seq)
    show "codes 7 (if n \<le> 2 then enc_skip else write_align)
        (if n \<le> 2 then dec_return () else read_align) ()"
      using codes_align by (simp add: codes_def enc_skip_def dec_return_def)
  qed (rule o)
  from codes_mono [OF this, of "8 * n + 8"]
  show "codes (8 * n + 8) (encode_octetstring aper_ref (Some n) (Some n) False xs False)
      (decode_octetstring aper_ref (Some n) (Some n) False) xs"
    using \<open>length xs = n\<close> by (simp add: aper_ref_def ref_encode_octets_def ref_decode_octets_def)
next
  fix xs :: bytes
  assume "length xs < 16384"
  from codes_seq [OF codes_open_length [OF this], of "8 * length xs" "write_octets xs" read_octets xs]
    codes_octets [of xs]
  show "codes (8 * length xs + 24) (encode_octetstring aper_ref None None False xs False)
      (decode_octetstring aper_ref None None False) xs"
    by (simp add: aper_ref_def ref_encode_octets_def ref_decode_octets_def ref_encode_length_def
        ref_decode_length_def add.commute)
next
  fix bs :: bits and n
  assume n: "length bs = n" "n < 65536"
  have "codes (7 + n) (enc_seq (if n \<le> 16 then enc_skip else write_align) (write_bits bs))
      (dec_bind (if n \<le> 16 then dec_return () else read_align) (\<lambda>_. read_bits n)) bs"
  proof (rule codes_seq)
    show "codes 7 (if n \<le> 16 then enc_skip else write_align) (if n \<le> 16 then dec_return () else read_align) ()"
      using codes_align by (simp add: codes_def enc_skip_def dec_return_def)
    show "codes n (write_bits bs) (read_bits n) bs" using codes_bits [of bs] n by simp
  qed
  from codes_mono [OF this, of "n + 8"] have "codes (n + 8) (enc_seq (if n \<le> 16 then enc_skip else write_align) (write_bits bs))
      (dec_bind (if n \<le> 16 then dec_return () else read_align) (\<lambda>_. read_bits n)) bs" by simp
  moreover have "ref_encode_bits (Some n) (Some n) False bs False
      = enc_seq (if n \<le> 16 then enc_skip else write_align) (write_bits bs)"
    using n by (simp add: ref_encode_bits_def enc_seq_def enc_skip_def write_bits_def fun_eq_iff)
  moreover have "ref_decode_bits (Some n) (Some n) False
      = dec_bind (if n \<le> 16 then dec_return () else read_align) (\<lambda>_. read_bits n)"
    by (auto simp: ref_decode_bits_def dec_bind_def dec_return_def read_bits_def fun_eq_iff)
  ultimately show "codes (n + 8) (encode_bitstring aper_ref (Some n) (Some n) False bs False)
      (decode_bitstring aper_ref (Some n) (Some n) False) bs"
    by (simp add: aper_ref_def)
next
  fix w ie :: bits
  show "\<exists>p q. append_aligned aper_ref w ie = w @ p @ ie @ q \<and> length p < 8 \<and> length q < 8 \<and>
      length (w @ p) mod 8 = 0 \<and> length (ie @ q) mod 8 = 0"
    by (intro exI [of _ "replicate (padding (length w)) False"] exI [of _ "replicate (padding (length ie)) False"])
      (simp add: aper_ref_def pad_octet_def padding_less padding_aligns)
next
  fix p :: bits and off and rest :: bits
  assume "length p < 8" "(off + length p) mod 8 = 0"
  then show "decode_align aper_ref (off, p @ rest) = Inr ((), (off + length p, rest))"
    using padding_unique [of "length p" off] by (simp add: aper_ref_def read_align_def)
next
  fix w show "length_in_bytes aper_ref w = (length w + 7) div 8" by (simp add: aper_ref_def)
next
  fix w show "\<exists>p. data_from_slice aper_ref (data_into_bytes aper_ref w) = (0, w @ p)"
    using pack_unpack [of w] by (simp add: aper_ref_def)
qed

section \<open>Evaluation\<close>

lemma bits_nat_zero [simp]: "bits_nat 0 (replicate n False) = 0"
  by (induction n) simp_all

lemma nat_bits_numeral:
  "nat_bits (numeral k) v = odd (v div 2 ^ pred_numeral k) # nat_bits (pred_numeral k) v"
  by (simp add: numeral_eq_Suc)

lemma aper_ref_encoders:
  "encode_integer aper_ref = ref_encode_integer" "encode_enumerated aper_ref = ref_encode_integer"
  "encode_choice_idx aper_ref = ref_encode_range" "encode_length_determinent aper_ref = ref_encode_length"
  "encode_sequence_header aper_ref = ref_encode_header" "encode_octetstring aper_ref = ref_encode_octets"
  "encode_bitstring aper_ref = ref_encode_bits" "append_aligned aper_ref w v = pad_octet w @ pad_octet v"
  "length_in_bytes aper_ref w = (length w + 7) div 8" "data_into_bytes aper_ref = pack_octets"
  by (simp_all add: aper_ref_def)

lemma ref_steps:
  "write_bits bs w = Inr (w @ bs)" "write_align w = Inr (w @ replicate (padding (length w)) False)"
  by (simp_all add: write_bits_def write_align_def)

lemmas aper_ref_eval =
  aper_ref_encoders ref_encode_integer_def ref_encode_range_def ref_encode_length_def ref_encode_header_def
  ref_encode_octets_def ref_encode_bits_def ref_steps enc_steps padding_def write_uint_def count_bits_def octet_count_def
  write_open_length_def bitlen.simps nat_bits_numeral pad_octet_def pack_octets.simps length_plus encode_impl

section \<open>Names, wide numbers and long lists\<close>

lemma octets_chars_octets [simp]: "octets_chars (chars_octets s) = s"
proof -
  have "char_of (unat (of_nat (of_char c) :: u8)) = c" for c :: char
  proof -
    have "(of_char c :: nat) < 256" by simp
    then show ?thesis by (simp add: unat_of_nat)
  qed
  then show ?thesis by (simp add: octets_chars_def chars_octets_def o_def)
qed

lemma codes_extension_bit:
  "codes 1 (write_bits (if ext then [False] else [])) (read_bits (if ext then 1 else 0)) (if ext then [False] else [])"
  using codes_bits [of "[False]"] codes_mono [OF codes_bits [of "[]"], of 1] by simp

lemma codes_short_length:
  assumes "lo \<le> n" "n \<le> hi" "hi < 256"
  shows "codes 15 (ref_encode_length (Some lo) (Some hi) False n) (ref_decode_length (Some lo) (Some hi) False) n"
proof -
  have "codes 15 (write_uint (hi - lo + 1) (n - lo)) (read_uint (hi - lo + 1)) (n - lo)"
    by (rule codes_uint_byte) (use assms in auto)
  from codes_last [OF this, of "\<lambda>n. dec_return (lo + n)" n] show ?thesis
    using assms by (simp add: ref_encode_length_def ref_decode_length_def)
qed

lemma codes_bits_range:
  assumes "lo \<le> length bs" "length bs \<le> hi" "lo < hi" "hi < 256"
  shows "codes (length bs + 24) (ref_encode_bits (Some lo) (Some hi) ext bs False)
           (ref_decode_bits (Some lo) (Some hi) ext) bs"
proof -
  have 3: "codes (7 + length bs) (enc_seq write_align (write_bits bs)) (dec_bind read_align (\<lambda>_. read_bits (length bs))) bs"
    using codes_seq [OF codes_align codes_bits [of bs]] by simp
  have "codes (1 + (15 + (7 + length bs)))
      (enc_seq (write_bits (if ext then [False] else [])) (enc_seq (ref_encode_length (Some lo) (Some hi) False (length bs))
        (enc_seq write_align (write_bits bs))))
      (dec_bind (read_bits (if ext then 1 else 0)) (\<lambda>_.
         dec_bind (ref_decode_length (Some lo) (Some hi) False) (\<lambda>n. dec_bind read_align (\<lambda>_. read_bits n)))) bs"
    by (rule codes_seq [OF codes_extension_bit codes_seq [OF codes_short_length [OF assms(1,2,4)],
          where f = "\<lambda>n. dec_bind read_align (\<lambda>_. read_bits n)", OF 3]])
  from codes_mono [OF this, of "length bs + 24"] show ?thesis
    using assms by (simp add: ref_encode_bits_def ref_decode_bits_def not_less)
qed

lemma codes_string:
  assumes "lo \<le> length s" "length s \<le> hi" "hi < 256"
  shows "codes (8 * length s + 24) (ref_encode_string (Some lo) (Some hi) ext s False)
           (ref_decode_string (Some lo) (Some hi) ext) s"
proof -
  let ?o = "chars_octets s"
  have len: "length ?o = length s" by (simp add: chars_octets_def)
  note 1 = codes_extension_bit [of ext]
  note 2 = codes_short_length [OF assms]
  have 3: "codes (7 + 8 * length s) (enc_seq write_align (write_octets ?o))
      (dec_bind read_align (\<lambda>_. read_octets (length s))) ?o"
    using codes_seq [OF codes_align] codes_octets [of ?o] len by simp
  have "codes (1 + (15 + (7 + 8 * length s)))
      (enc_seq (write_bits (if ext then [False] else [])) (enc_seq (ref_encode_length (Some lo) (Some hi) False (length s))
        (enc_seq write_align (write_octets ?o))))
      (dec_bind (read_bits (if ext then 1 else 0)) (\<lambda>_.
         dec_bind (ref_decode_length (Some lo) (Some hi) False) (\<lambda>n. dec_bind read_align (\<lambda>_. read_octets n)))) ?o"
    by (rule codes_seq [OF 1 codes_seq [OF 2, where f = "\<lambda>n. dec_bind read_align (\<lambda>_. read_octets n)", OF 3]])
  from codes_mono [OF codes_last [OF this, of "\<lambda>xs. dec_return (octets_chars xs)" s], of "8 * length s + 24"]
  show ?thesis by (simp add: ref_encode_string_def ref_decode_string_def)
qed

lemma codes_open_string:
  assumes "length s < 16384"
  shows "codes (8 * length s + 24) (ref_encode_string None None False s False) (ref_decode_string None None False) s"
proof -
  let ?o = "chars_octets s"
  have len: "length ?o = length s" by (simp add: chars_octets_def)
  have "codes (24 + 8 * length s) (enc_seq (write_open_length (length s)) (write_octets ?o))
      (dec_bind read_open_length read_octets) ?o"
    using codes_seq [OF codes_open_length [OF assms], of "8 * length s" "write_octets ?o" read_octets ?o] codes_octets [of ?o]
    by (simp add: len)
  from codes_mono [OF codes_last [OF this, of "\<lambda>xs. dec_return (octets_chars xs)" s], of "8 * length s + 24"]
  show ?thesis by (simp add: ref_encode_string_def ref_decode_string_def)
qed

interpretation aper_ref_setup: aper_setup aper_ref
proof
  fix lb v ub :: int and ext
  assume a: "lb \<le> v" "v \<le> ub" "ub - lb < 18446744073709551616"
  have "codes (1 + (10 + 8 * 8)) (ref_encode_range lb ub ext v False) (ref_decode_range lb ub ext) (v, False)"
    by (intro codes_range codes_uint) (use a octet_count_bounds in auto)
  from codes_mono [OF this] show "codes 128 (encode_integer aper_ref (Some lb) (Some ub) ext v False)
      (decode_integer aper_ref (Some lb) (Some ub) ext) (v, False)"
    by (simp add: aper_ref_def ref_encode_integer_def ref_decode_integer_def)
next
  fix lo n hi :: nat
  assume "lo \<le> n" "n < 16384" "65535 < hi"
  then show "codes 24 (encode_length_determinent aper_ref (Some lo) (Some hi) False n)
      (decode_length_determinent aper_ref (Some lo) (Some hi) False) n"
    by (simp add: aper_ref_def ref_encode_length_def ref_decode_length_def codes_open_length)
next
  fix n w w'
  assume "encode_length_determinent aper_ref (Some 1) (Some 65535) False n w = Inr w'"
  then have "enc_seq write_align (write_bits (nat_bits 16 (n - 1))) w = Inr w'"
    by (simp add: aper_ref_def ref_encode_length_def write_uint_def split: if_splits)
  then show "length w' mod 8 = 0"
    by (rule aligned_octets) (auto dest!: write_bits_length intro: exI [of _ 2])
next
  fix b
  show "codes 1 (encode_bool aper_ref b) (decode_bool aper_ref) b"
    using codes_last [OF codes_bits [of "[b]"], of "\<lambda>bs. dec_return (bs = [True])" b] by (simp add: aper_ref_def)
qed (simp_all add: aper_ref_def codes_string codes_bits_range codes_open_string)

section \<open>The first two octets of a PDU\<close>

lemma pack_octet: "length b = 8 \<Longrightarrow> pack_octets (b @ v) = of_nat (bits_nat 0 b) # pack_octets v"
  by (subst pack_octets.simps) auto

lemma bits_nat_append: "bits_nat a (bs @ cs) = bits_nat (bits_nat a bs) cs"
  by (induction bs arbitrary: a) simp_all

interpretation aper_ref_wire: aper_wire aper_ref
proof
  fix idx code :: int and w v :: bits
  assume r: "0 \<le> idx" "idx \<le> 3" "0 \<le> code" "code \<le> 255"
    and enc: "enc_seq (encode_choice_idx aper_ref 0 3 False idx False)
       (encode_integer aper_ref (Some 0) (Some 255) False code False) [] = Inr w"
  have bl: "bitlen 3 = 2" by (simp add: bitlen.simps)
  have n: "nat idx < 4" "nat code < 256" using r by auto
  have "w = (nat_bits 2 (nat idx) @ replicate 6 False) @ nat_bits 8 (nat code)"
    using enc r bl by (simp add: aper_ref_def ref_encode_integer_def ref_encode_range_def enc_seq_def
        write_bits_def write_uint_def write_align_def padding_def)
  then have "data_into_bytes aper_ref (w @ v)
      = of_nat (bits_nat 0 (nat_bits 2 (nat idx) @ replicate 6 False)) #
        of_nat (bits_nat 0 (nat_bits 8 (nat code))) # pack_octets v"
    using pack_octet [of "nat_bits 2 (nat idx) @ replicate 6 False" "nat_bits 8 (nat code) @ v"]
    by (simp add: aper_ref_def pack_octet)
  moreover have "bits_nat 0 (nat_bits 2 (nat idx) @ replicate 6 False) = 64 * nat idx"
    using n(1) bits_nat_acc [of "nat idx" "replicate 6 False"]
    by (simp add: bits_nat_append bits_nat_nat_bits)
  moreover have "bits_nat 0 (nat_bits 8 (nat code)) = nat code"
    using n(2) by (simp add: bits_nat_nat_bits)
  moreover have "of_nat (64 * nat idx) = (word_of_int (64 * idx) :: u8)"
    "of_nat (nat code) = (word_of_int code :: u8)"
    using r by (metis nat_0_le of_int_of_nat_eq of_nat_mult of_nat_numeral, metis nat_0_le of_int_of_nat_eq)
  ultimately show "\<exists>rest. data_into_bytes aper_ref (w @ v) = word_of_int (64 * idx) # word_of_int code # rest"
    by auto
qed

end
