(* ===== verification/Rrc_Codec.thy ===== *)
theory Rrc_Codec
  imports Control_Types F1ap_Ies Aper_Reference
begin

text \<open>
  The downlink RRC messages that QCore sends and their encoders (\<open>5g-libs/rrc/src/rrc.rs\<close>, unaligned PER).  The
  types have the constructors and fields that QCore sets; the critical extension of a message, a choice with one
  alternative, is its alternative, and the record of the reconfiguration has the fields of \<open>RrcReconfigurationIEs\<close> and
  of the \<open>RrcReconfigurationV1530IEs\<close> that QCore always puts into it.  The primitives (\<open>asn1_codecs::uper\<close>, a
  third-party crate) are the record \<open>uper_lib\<close>, with the locale \<open>uper_writes\<close> for what the encoders rely on.  The
  information elements whose types QCore never fills are octets here, written by the argument \<open>ies\<close>, a function of the
  name of the type.
\<close>

section \<open>Downlink messages\<close>

datatype sdap_header = SdapHeaderPresent | SdapHeaderAbsent
datatype pdcp_sn_size = Len12bits | Len18bits
datatype discard_timer =
    Ms10 | Ms20 | Ms30 | Ms40 | Ms50 | Ms60 | Ms75 | Ms100 | Ms150 | Ms200 | Ms250 | Ms300 | Ms500 | Ms750 | Ms1500
  | Infinity
datatype header_compression = NotUsed | Rohc bytes | UplinkOnlyRohc bytes
datatype ciphering_algorithm =
  Nea0 | Nea1 | Nea2 | Nea3 | NeaSpare4 | NeaSpare3 | NeaSpare2 | NeaSpare1
datatype integrity_prot_algorithm =
  Nia0 | Nia1 | Nia2 | Nia3 | NiaSpare4 | NiaSpare3 | NiaSpare2 | NiaSpare1

record sdap_config =
  sdap_pdu_session :: u8
  sdap_header_dl :: sdap_header
  sdap_header_ul :: sdap_header
  default_drb :: bool
  mapped_qos_flows_to_add :: "u8 list option"
  mapped_qos_flows_to_release :: "u8 list option"

record pdcp_drb =
  discard_timer_drb :: "discard_timer option"
  pdcp_sn_size_ul :: "pdcp_sn_size option"
  pdcp_sn_size_dl :: "pdcp_sn_size option"
  drb_header_compression :: header_compression
  drb_integrity_protection :: "bytes option"
  drb_status_report_required :: "bytes option"
  drb_out_of_order_delivery :: "bytes option"

record pdcp_config =
  pc_drb :: "pdcp_drb option"
  pc_more_than_one_rlc :: "bytes option"
  pc_t_reordering :: "bytes option"

record srb_to_add_mod =
  srb_identity :: u8
  srb_reestablish_pdcp :: "bytes option"
  srb_discard_on_pdcp :: "bytes option"
  srb_pdcp_config :: "pdcp_config option"

record drb_to_add_mod =
  cn_association :: "sdap_config option"
  drb_identity :: u8
  drb_reestablish_pdcp :: "bytes option"
  drb_recover_pdcp :: "bytes option"
  drb_pdcp_config :: "pdcp_config option"

record radio_bearer_config =
  srb_to_add_mod_list :: "srb_to_add_mod list option"
  srb_3_to_release :: "bytes option"
  drb_to_add_mod_list :: "drb_to_add_mod list option"
  drb_to_release_list :: "bytes option"
  rb_security_config :: "bytes option"

record rrc_setup_ies =
  rs_transaction_identifier :: u8
  rs_radio_bearer_config :: radio_bearer_config
  rs_master_cell_group :: bytes
  rs_late_non_critical_extension :: "bytes option"

record security_mode_command_ies =
  sm_transaction_identifier :: u8
  ciphering_algorithm_smc :: ciphering_algorithm
  integrity_prot_algorithm_smc :: "integrity_prot_algorithm option"
  sm_late_non_critical_extension :: "bytes option"

record dl_information_transfer_ies =
  di_transaction_identifier :: u8
  di_dedicated_nas_message :: "bytes option"
  di_late_non_critical_extension :: "bytes option"
  di_non_critical_extension :: "bytes option"

record rrc_reconfiguration_ies =
  rc_transaction_identifier :: u8
  rc_radio_bearer_config :: "radio_bearer_config option"
  rc_secondary_cell_group :: "bytes option"
  rc_meas_config :: "bytes option"
  rc_late_non_critical_extension :: "bytes option"
  rc_master_cell_group :: "bytes option"
  rc_full_config :: "bytes option"
  rc_dedicated_nas_message_list :: "bytes list option"
  rc_master_key_update :: "bytes option"
  rc_dedicated_sib_1_delivery :: "bytes option"
  rc_dedicated_system_information_delivery :: "bytes option"
  rc_other_config :: "bytes option"
  rc_non_critical_extension :: "bytes option"

datatype rrc_dl_message =
    RrcSetup rrc_setup_ies
  | RrcSecurityModeCommand security_mode_command_ies
  | DlInformationTransfer dl_information_transfer_ies
  | RrcReconfiguration rrc_reconfiguration_ies


section \<open>The primitives of unaligned PER\<close>

record uper_lib =
  uper_encode_integer :: "int option \<Rightarrow> int option \<Rightarrow> bool \<Rightarrow> int \<Rightarrow> bool \<Rightarrow> encoder"
  uper_encode_enumerated :: "int option \<Rightarrow> int option \<Rightarrow> bool \<Rightarrow> int \<Rightarrow> bool \<Rightarrow> encoder"
  uper_encode_choice_idx :: "int \<Rightarrow> int \<Rightarrow> bool \<Rightarrow> int \<Rightarrow> bool \<Rightarrow> encoder"
  uper_encode_length_determinent :: "nat option \<Rightarrow> nat option \<Rightarrow> bool \<Rightarrow> nat \<Rightarrow> encoder"
  uper_encode_sequence_header :: "bool \<Rightarrow> bits \<Rightarrow> bool \<Rightarrow> encoder"
  uper_encode_octetstring :: "nat option \<Rightarrow> nat option \<Rightarrow> bool \<Rightarrow> bytes \<Rightarrow> bool \<Rightarrow> encoder"
  uper_encode_bool :: "bool \<Rightarrow> encoder"
  uper_into_bytes :: "bits \<Rightarrow> bytes"

type_synonym unset_ies = "string \<Rightarrow> bytes \<Rightarrow> encoder"

text \<open>The statements of an \<open>encode_inner\<close>, one after the other, and the context that \<open>encode\<close> pushes onto an error.\<close>

definition statements :: "encoder list \<Rightarrow> encoder" where
  "statements es = foldr enc_seq es enc_skip"

definition in_context :: "string \<Rightarrow> encoder \<Rightarrow> encoder" where
  "in_context name e = (\<lambda>w. push_context name (e w))"

section \<open>Encoders\<close>

definition RrcTransactionIdentifier_encode :: "uper_lib \<Rightarrow> u8 \<Rightarrow> encoder" where
  "RrcTransactionIdentifier_encode U x = in_context ''RrcTransactionIdentifier''
     (uper_encode_integer U (Some 0) (Some 3) False (uint x) False)"

definition SrbIdentity_encode :: "uper_lib \<Rightarrow> u8 \<Rightarrow> encoder" where
  "SrbIdentity_encode U x = in_context ''SrbIdentity'' (uper_encode_integer U (Some 1) (Some 3) False (uint x) False)"

definition DrbIdentity_encode :: "uper_lib \<Rightarrow> u8 \<Rightarrow> encoder" where
  "DrbIdentity_encode U x = in_context ''DrbIdentity'' (uper_encode_integer U (Some 1) (Some 32) False (uint x) False)"

definition rrc_PduSessionId_encode :: "uper_lib \<Rightarrow> u8 \<Rightarrow> encoder" where
  "rrc_PduSessionId_encode U x = in_context ''PduSessionId'' (uper_encode_integer U (Some 0) (Some 255) False (uint x) False)"

definition Qfi_encode :: "uper_lib \<Rightarrow> u8 \<Rightarrow> encoder" where
  "Qfi_encode U x = in_context ''Qfi'' (uper_encode_integer U (Some 0) (Some 63) False (uint x) False)"

definition DedicatedNasMessage_encode :: "uper_lib \<Rightarrow> bytes \<Rightarrow> encoder" where
  "DedicatedNasMessage_encode U x = in_context ''DedicatedNasMessage'' (uper_encode_octetstring U None None False x False)"

definition SdapHeaderDl_encode :: "uper_lib \<Rightarrow> sdap_header \<Rightarrow> encoder" where
  "SdapHeaderDl_encode U x = in_context ''SdapHeaderDl'' (uper_encode_enumerated U (Some 0) (Some 1) False
     (int (variant_index [SdapHeaderPresent, SdapHeaderAbsent] x)) False)"

definition SdapHeaderUl_encode :: "uper_lib \<Rightarrow> sdap_header \<Rightarrow> encoder" where
  "SdapHeaderUl_encode U x = in_context ''SdapHeaderUl'' (uper_encode_enumerated U (Some 0) (Some 1) False
     (int (variant_index [SdapHeaderPresent, SdapHeaderAbsent] x)) False)"

definition DiscardTimer_encode :: "uper_lib \<Rightarrow> discard_timer \<Rightarrow> encoder" where
  "DiscardTimer_encode U x = in_context ''DiscardTimer'' (uper_encode_enumerated U (Some 0) (Some 15) False
     (int (variant_index [Ms10, Ms20, Ms30, Ms40, Ms50, Ms60, Ms75, Ms100, Ms150, Ms200, Ms250, Ms300, Ms500, Ms750,
        Ms1500, Infinity] x)) False)"

definition PdcpSnSizeUl_encode :: "uper_lib \<Rightarrow> pdcp_sn_size \<Rightarrow> encoder" where
  "PdcpSnSizeUl_encode U x = in_context ''PdcpSnSizeUl'' (uper_encode_enumerated U (Some 0) (Some 1) False
     (int (variant_index [Len12bits, Len18bits] x)) False)"

definition PdcpSnSizeDl_encode :: "uper_lib \<Rightarrow> pdcp_sn_size \<Rightarrow> encoder" where
  "PdcpSnSizeDl_encode U x = in_context ''PdcpSnSizeDl'' (uper_encode_enumerated U (Some 0) (Some 1) False
     (int (variant_index [Len12bits, Len18bits] x)) False)"

definition CipheringAlgorithm_encode :: "uper_lib \<Rightarrow> ciphering_algorithm \<Rightarrow> encoder" where
  "CipheringAlgorithm_encode U x = in_context ''CipheringAlgorithm'' (uper_encode_enumerated U (Some 0) (Some 7) True
     (int (variant_index [Nea0, Nea1, Nea2, Nea3, NeaSpare4, NeaSpare3, NeaSpare2, NeaSpare1] x)) False)"

definition IntegrityProtAlgorithm_encode :: "uper_lib \<Rightarrow> integrity_prot_algorithm \<Rightarrow> encoder" where
  "IntegrityProtAlgorithm_encode U x = in_context ''IntegrityProtAlgorithm'' (uper_encode_enumerated U (Some 0) (Some 7) True
     (int (variant_index [Nia0, Nia1, Nia2, Nia3, NiaSpare4, NiaSpare3, NiaSpare2, NiaSpare1] x)) False)"

fun HeaderCompression_encode_inner :: "uper_lib \<Rightarrow> unset_ies \<Rightarrow> header_compression \<Rightarrow> encoder" where
  "HeaderCompression_encode_inner U ies NotUsed = uper_encode_choice_idx U 0 2 True 0 False"
| "HeaderCompression_encode_inner U ies (Rohc x) =
     statements [uper_encode_choice_idx U 0 2 True 1 False, ies ''Rohc'' x]"
| "HeaderCompression_encode_inner U ies (UplinkOnlyRohc x) =
     statements [uper_encode_choice_idx U 0 2 True 2 False, ies ''UplinkOnlyRohc'' x]"

definition HeaderCompression_encode :: "uper_lib \<Rightarrow> unset_ies \<Rightarrow> header_compression \<Rightarrow> encoder" where
  "HeaderCompression_encode U ies x = in_context ''HeaderCompression'' (HeaderCompression_encode_inner U ies x)"

definition Drb_encode :: "uper_lib \<Rightarrow> unset_ies \<Rightarrow> pdcp_drb \<Rightarrow> encoder" where
  "Drb_encode U ies x = in_context ''Drb'' (statements
     [uper_encode_sequence_header U False
        [discard_timer_drb x \<noteq> None, pdcp_sn_size_ul x \<noteq> None, pdcp_sn_size_dl x \<noteq> None,
         drb_integrity_protection x \<noteq> None, drb_status_report_required x \<noteq> None, drb_out_of_order_delivery x \<noteq> None] False,
      encode_optional (DiscardTimer_encode U) (discard_timer_drb x),
      encode_optional (PdcpSnSizeUl_encode U) (pdcp_sn_size_ul x),
      encode_optional (PdcpSnSizeDl_encode U) (pdcp_sn_size_dl x),
      HeaderCompression_encode U ies (drb_header_compression x),
      encode_optional (ies ''IntegrityProtection'') (drb_integrity_protection x),
      encode_optional (ies ''StatusReportRequired'') (drb_status_report_required x),
      encode_optional (ies ''OutOfOrderDelivery'') (drb_out_of_order_delivery x)])"

definition PdcpConfig_encode :: "uper_lib \<Rightarrow> unset_ies \<Rightarrow> pdcp_config \<Rightarrow> encoder" where
  "PdcpConfig_encode U ies x = in_context ''PdcpConfig'' (statements
     [uper_encode_sequence_header U True
        [pc_drb x \<noteq> None, pc_more_than_one_rlc x \<noteq> None, pc_t_reordering x \<noteq> None] False,
      encode_optional (Drb_encode U ies) (pc_drb x),
      encode_optional (ies ''MoreThanOneRlc'') (pc_more_than_one_rlc x),
      encode_optional (ies ''TReordering'') (pc_t_reordering x)])"

text \<open>A list with its length between the bounds.\<close>

definition uper_items :: "uper_lib \<Rightarrow> nat \<Rightarrow> ('a \<Rightarrow> encoder) \<Rightarrow> 'a list \<Rightarrow> encoder" where
  "uper_items U ub e xs =
     statements [uper_encode_length_determinent U (Some 1) (Some ub) False (length xs), encode_items e xs]"

definition SdapConfig_encode :: "uper_lib \<Rightarrow> sdap_config \<Rightarrow> encoder" where
  "SdapConfig_encode U x = in_context ''SdapConfig'' (statements
     [uper_encode_sequence_header U True
        [mapped_qos_flows_to_add x \<noteq> None, mapped_qos_flows_to_release x \<noteq> None] False,
      rrc_PduSessionId_encode U (sdap_pdu_session x),
      SdapHeaderDl_encode U (sdap_header_dl x),
      SdapHeaderUl_encode U (sdap_header_ul x),
      uper_encode_bool U (default_drb x),
      encode_optional (uper_items U 64 (Qfi_encode U)) (mapped_qos_flows_to_add x),
      encode_optional (uper_items U 64 (Qfi_encode U)) (mapped_qos_flows_to_release x)])"

text \<open>\<open>CnAssociation::SdapConfig\<close>, the only alternative that QCore builds.\<close>

definition CnAssociation_encode :: "uper_lib \<Rightarrow> sdap_config \<Rightarrow> encoder" where
  "CnAssociation_encode U x = in_context ''CnAssociation'' (statements
     [uper_encode_choice_idx U 0 1 False 1 False, SdapConfig_encode U x])"

definition DrbToAddMod_encode :: "uper_lib \<Rightarrow> unset_ies \<Rightarrow> drb_to_add_mod \<Rightarrow> encoder" where
  "DrbToAddMod_encode U ies x = in_context ''DrbToAddMod'' (statements
     [uper_encode_sequence_header U True
        [cn_association x \<noteq> None, drb_reestablish_pdcp x \<noteq> None, drb_recover_pdcp x \<noteq> None, drb_pdcp_config x \<noteq> None] False,
      encode_optional (CnAssociation_encode U) (cn_association x),
      DrbIdentity_encode U (drb_identity x),
      encode_optional (ies ''ReestablishPdcp1'') (drb_reestablish_pdcp x),
      encode_optional (ies ''RecoverPdcp'') (drb_recover_pdcp x),
      encode_optional (PdcpConfig_encode U ies) (drb_pdcp_config x)])"

definition DrbToAddModList_encode :: "uper_lib \<Rightarrow> unset_ies \<Rightarrow> drb_to_add_mod list \<Rightarrow> encoder" where
  "DrbToAddModList_encode U ies xs = in_context ''DrbToAddModList'' (uper_items U 29 (DrbToAddMod_encode U ies) xs)"

definition SrbToAddMod_encode :: "uper_lib \<Rightarrow> unset_ies \<Rightarrow> srb_to_add_mod \<Rightarrow> encoder" where
  "SrbToAddMod_encode U ies x = in_context ''SrbToAddMod'' (statements
     [uper_encode_sequence_header U True
        [srb_reestablish_pdcp x \<noteq> None, srb_discard_on_pdcp x \<noteq> None, srb_pdcp_config x \<noteq> None] False,
      SrbIdentity_encode U (srb_identity x),
      encode_optional (ies ''ReestablishPdcp'') (srb_reestablish_pdcp x),
      encode_optional (ies ''DiscardOnPdcp'') (srb_discard_on_pdcp x),
      encode_optional (PdcpConfig_encode U ies) (srb_pdcp_config x)])"

definition SrbToAddModList_encode :: "uper_lib \<Rightarrow> unset_ies \<Rightarrow> srb_to_add_mod list \<Rightarrow> encoder" where
  "SrbToAddModList_encode U ies xs = in_context ''SrbToAddModList'' (uper_items U 2 (SrbToAddMod_encode U ies) xs)"

definition RadioBearerConfig_encode :: "uper_lib \<Rightarrow> unset_ies \<Rightarrow> radio_bearer_config \<Rightarrow> encoder" where
  "RadioBearerConfig_encode U ies x = in_context ''RadioBearerConfig'' (statements
     [uper_encode_sequence_header U True
        [srb_to_add_mod_list x \<noteq> None, srb_3_to_release x \<noteq> None, drb_to_add_mod_list x \<noteq> None,
         drb_to_release_list x \<noteq> None, rb_security_config x \<noteq> None] False,
      encode_optional (SrbToAddModList_encode U ies) (srb_to_add_mod_list x),
      encode_optional (ies ''Srb3ToRelease'') (srb_3_to_release x),
      encode_optional (DrbToAddModList_encode U ies) (drb_to_add_mod_list x),
      encode_optional (ies ''DrbToReleaseList'') (drb_to_release_list x),
      encode_optional (ies ''SecurityConfig'') (rb_security_config x)])"

text \<open>The field \<open>non_critical_extension\<close> of the first two has no definition: its flag is always clear.\<close>

definition uper_octets :: "uper_lib \<Rightarrow> bytes \<Rightarrow> encoder" where
  "uper_octets U x = uper_encode_octetstring U None None False x False"

definition RrcSetupIEs_encode :: "uper_lib \<Rightarrow> unset_ies \<Rightarrow> rrc_setup_ies \<Rightarrow> encoder" where
  "RrcSetupIEs_encode U ies x = in_context ''RrcSetupIEs'' (statements
     [uper_encode_sequence_header U False [rs_late_non_critical_extension x \<noteq> None, False] False,
      RadioBearerConfig_encode U ies (rs_radio_bearer_config x),
      uper_octets U (rs_master_cell_group x),
      encode_optional (uper_octets U) (rs_late_non_critical_extension x)])"

definition SecurityAlgorithmConfig_encode :: "uper_lib \<Rightarrow> security_mode_command_ies \<Rightarrow> encoder" where
  "SecurityAlgorithmConfig_encode U x = in_context ''SecurityAlgorithmConfig'' (statements
     [uper_encode_sequence_header U True [integrity_prot_algorithm_smc x \<noteq> None] False,
      CipheringAlgorithm_encode U (ciphering_algorithm_smc x),
      encode_optional (IntegrityProtAlgorithm_encode U) (integrity_prot_algorithm_smc x)])"

definition SecurityConfigSmc_encode :: "uper_lib \<Rightarrow> security_mode_command_ies \<Rightarrow> encoder" where
  "SecurityConfigSmc_encode U x = in_context ''SecurityConfigSmc'' (statements
     [uper_encode_sequence_header U True [] False, SecurityAlgorithmConfig_encode U x])"

definition SecurityModeCommandIEs_encode :: "uper_lib \<Rightarrow> security_mode_command_ies \<Rightarrow> encoder" where
  "SecurityModeCommandIEs_encode U x = in_context ''SecurityModeCommandIEs'' (statements
     [uper_encode_sequence_header U False [sm_late_non_critical_extension x \<noteq> None, False] False,
      SecurityConfigSmc_encode U x,
      encode_optional (uper_octets U) (sm_late_non_critical_extension x)])"

definition DlInformationTransferIEs_encode :: "uper_lib \<Rightarrow> unset_ies \<Rightarrow> dl_information_transfer_ies \<Rightarrow> encoder" where
  "DlInformationTransferIEs_encode U ies x = in_context ''DlInformationTransferIEs'' (statements
     [uper_encode_sequence_header U False
        [di_dedicated_nas_message x \<noteq> None, di_late_non_critical_extension x \<noteq> None, di_non_critical_extension x \<noteq> None] False,
      encode_optional (DedicatedNasMessage_encode U) (di_dedicated_nas_message x),
      encode_optional (uper_octets U) (di_late_non_critical_extension x),
      encode_optional (ies ''DlInformationTransferV1610IEs'') (di_non_critical_extension x)])"

definition RrcReconfigurationV1530IEs_encode :: "uper_lib \<Rightarrow> unset_ies \<Rightarrow> rrc_reconfiguration_ies \<Rightarrow> encoder" where
  "RrcReconfigurationV1530IEs_encode U ies x = in_context ''RrcReconfigurationV1530IEs'' (statements
     [uper_encode_sequence_header U False
        [rc_master_cell_group x \<noteq> None, rc_full_config x \<noteq> None, rc_dedicated_nas_message_list x \<noteq> None,
         rc_master_key_update x \<noteq> None, rc_dedicated_sib_1_delivery x \<noteq> None,
         rc_dedicated_system_information_delivery x \<noteq> None, rc_other_config x \<noteq> None, rc_non_critical_extension x \<noteq> None] False,
      encode_optional (uper_octets U) (rc_master_cell_group x),
      encode_optional (ies ''FullConfig'') (rc_full_config x),
      encode_optional (uper_items U 29 (DedicatedNasMessage_encode U)) (rc_dedicated_nas_message_list x),
      encode_optional (ies ''MasterKeyUpdate'') (rc_master_key_update x),
      encode_optional (uper_octets U) (rc_dedicated_sib_1_delivery x),
      encode_optional (uper_octets U) (rc_dedicated_system_information_delivery x),
      encode_optional (ies ''OtherConfig'') (rc_other_config x),
      encode_optional (ies ''RrcReconfigurationV1540IEs'') (rc_non_critical_extension x)])"

definition RrcReconfigurationIEs_encode :: "uper_lib \<Rightarrow> unset_ies \<Rightarrow> rrc_reconfiguration_ies \<Rightarrow> encoder" where
  "RrcReconfigurationIEs_encode U ies x = in_context ''RrcReconfigurationIEs'' (statements
     [uper_encode_sequence_header U False
        [rc_radio_bearer_config x \<noteq> None, rc_secondary_cell_group x \<noteq> None, rc_meas_config x \<noteq> None,
         rc_late_non_critical_extension x \<noteq> None, True] False,
      encode_optional (RadioBearerConfig_encode U ies) (rc_radio_bearer_config x),
      encode_optional (uper_octets U) (rc_secondary_cell_group x),
      encode_optional (ies ''MeasConfig'') (rc_meas_config x),
      encode_optional (uper_octets U) (rc_late_non_critical_extension x),
      RrcReconfigurationV1530IEs_encode U ies x])"

text \<open>
  A message is a sequence of its transaction identifier and its critical extensions, a choice of which the first
  alternative is used.
\<close>

definition rrc_message_encode :: "uper_lib \<Rightarrow> string \<Rightarrow> string \<Rightarrow> u8 \<Rightarrow> encoder \<Rightarrow> encoder" where
  "rrc_message_encode U name extensions tid e = in_context name (statements
     [uper_encode_sequence_header U False [] False,
      RrcTransactionIdentifier_encode U tid,
      in_context extensions (statements [uper_encode_choice_idx U 0 1 False 0 False, e])])"

text \<open>The envelopes of the two downlink channels: a sequence, a choice, and the choice of the message.\<close>

definition DlCcchMessage_encode :: "uper_lib \<Rightarrow> int \<Rightarrow> encoder \<Rightarrow> encoder" where
  "DlCcchMessage_encode U idx e = in_context ''DlCcchMessage'' (statements
     [uper_encode_sequence_header U False [] False,
      in_context ''DlCcchMessageType'' (statements
        [uper_encode_choice_idx U 0 1 False 0 False,
         in_context ''C1_1'' (statements [uper_encode_choice_idx U 0 3 False idx False, e])])])"

definition DlDcchMessage_encode :: "uper_lib \<Rightarrow> int \<Rightarrow> encoder \<Rightarrow> encoder" where
  "DlDcchMessage_encode U idx e = in_context ''DlDcchMessage'' (statements
     [uper_encode_sequence_header U False [] False,
      in_context ''DlDcchMessageType'' (statements
        [uper_encode_choice_idx U 0 1 False 0 False,
         in_context ''C1_2'' (statements [uper_encode_choice_idx U 0 15 False idx False, e])])])"

fun rrc_dl_encode :: "uper_lib \<Rightarrow> unset_ies \<Rightarrow> rrc_dl_message \<Rightarrow> encoder" where
  "rrc_dl_encode U ies (RrcSetup x) = DlCcchMessage_encode U 1
     (rrc_message_encode U ''RrcSetup'' ''CriticalExtensions21'' (rs_transaction_identifier x) (RrcSetupIEs_encode U ies x))"
| "rrc_dl_encode U ies (RrcReconfiguration x) = DlDcchMessage_encode U 0
     (rrc_message_encode U ''RrcReconfiguration'' ''CriticalExtensions15'' (rc_transaction_identifier x)
        (RrcReconfigurationIEs_encode U ies x))"
| "rrc_dl_encode U ies (RrcSecurityModeCommand x) = DlDcchMessage_encode U 4
     (rrc_message_encode U ''SecurityModeCommand'' ''CriticalExtensions26'' (sm_transaction_identifier x)
        (SecurityModeCommandIEs_encode U x))"
| "rrc_dl_encode U ies (DlInformationTransfer x) = DlDcchMessage_encode U 5
     (rrc_message_encode U ''DlInformationTransfer'' ''CriticalExtensions4'' (di_transaction_identifier x)
        (DlInformationTransferIEs_encode U ies x))"

definition rrc_dl_into_bytes :: "uper_lib \<Rightarrow> unset_ies \<Rightarrow> rrc_dl_message \<Rightarrow> bytes per_result" where
  "rrc_dl_into_bytes U ies m = result_bind (rrc_dl_encode U ies m []) (\<lambda>w. Inr (uper_into_bytes U w))"

section \<open>What the encoders rely on\<close>

definition writes :: "encoder \<Rightarrow> bool" where
  "writes e \<longleftrightarrow> (\<forall>w. \<exists>v. e w = Inr v)"

named_theorems written \<open>when an encoder writes its value\<close>

lemma writes_context [written]: "writes e \<Longrightarrow> writes (in_context name e)"
  unfolding writes_def in_context_def by (metis push_context_Inr)

lemma writes_seq: "writes e1 \<Longrightarrow> writes e2 \<Longrightarrow> writes (enc_seq e1 e2)"
  unfolding writes_def enc_seq_def by (metis result_bind_simps(2))

lemma writes_statements [written]: "\<forall>e \<in> set es. writes e \<Longrightarrow> writes (statements es)"
  unfolding statements_def by (induction es) (auto simp: writes_def enc_skip_def intro: writes_seq [unfolded writes_def, rule_format])

lemma writes_optional [written]: "pred_option (\<lambda>y. writes (e y)) x \<Longrightarrow> writes (encode_optional e x)"
  by (cases x) (simp_all add: encode_optional_def writes_def enc_skip_def)

lemma writes_items [written]: "\<forall>x \<in> set xs. writes (e x) \<Longrightarrow> writes (encode_items e xs)"
  by (induction xs) (auto simp: writes_def enc_skip_def intro: writes_seq [unfolded writes_def, rule_format])

text \<open>
  X.691: a value within its bounds is written, at any position; an octet string without bounds is written in one
  piece up to 16383 octets.
\<close>

locale uper_writes =
  fixes U :: uper_lib
  assumes integer_written: "lb \<le> v \<Longrightarrow> v \<le> ub \<Longrightarrow> ub - lb < 256 \<Longrightarrow> writes (uper_encode_integer U (Some lb) (Some ub) False v False)"
    and enumerated_written: "0 \<le> v \<Longrightarrow> v \<le> ub \<Longrightarrow> ub < 256 \<Longrightarrow> writes (uper_encode_enumerated U (Some 0) (Some ub) ext v False)"
    and choice_written: "0 \<le> v \<Longrightarrow> v \<le> ub \<Longrightarrow> ub < 256 \<Longrightarrow> writes (uper_encode_choice_idx U 0 ub ext v False)"
    and length_written: "lo \<le> n \<Longrightarrow> n \<le> hi \<Longrightarrow> hi < 256 \<Longrightarrow> writes (uper_encode_length_determinent U (Some lo) (Some hi) False n)"
    and header_written: "writes (uper_encode_sequence_header U ext opts False)"
    and octets_written: "length xs < 16384 \<Longrightarrow> writes (uper_encode_octetstring U None None False xs False)"
    and bool_written: "writes (uper_encode_bool U b)"

text \<open>
  The values within the bounds of the encoders above, with the elements that QCore never sets left out.
\<close>

definition drb_in_bounds :: "pdcp_drb \<Rightarrow> bool" where
  "drb_in_bounds x \<longleftrightarrow> drb_header_compression x = NotUsed \<and> drb_integrity_protection x = None
     \<and> drb_status_report_required x = None \<and> drb_out_of_order_delivery x = None"

definition pdcp_config_in_bounds :: "pdcp_config \<Rightarrow> bool" where
  "pdcp_config_in_bounds x \<longleftrightarrow> pred_option drb_in_bounds (pc_drb x) \<and> pc_more_than_one_rlc x = None \<and> pc_t_reordering x = None"

definition sdap_in_bounds :: "sdap_config \<Rightarrow> bool" where
  "sdap_in_bounds x \<longleftrightarrow>
     (\<forall>fs \<in> set_option (mapped_qos_flows_to_add x) \<union> set_option (mapped_qos_flows_to_release x).
        1 \<le> length fs \<and> length fs \<le> 64 \<and> (\<forall>f \<in> set fs. f \<le> 63))"

definition drb_to_add_in_bounds :: "drb_to_add_mod \<Rightarrow> bool" where
  "drb_to_add_in_bounds x \<longleftrightarrow> pred_option sdap_in_bounds (cn_association x) \<and> 1 \<le> drb_identity x \<and> drb_identity x \<le> 32
     \<and> drb_reestablish_pdcp x = None \<and> drb_recover_pdcp x = None \<and> pred_option pdcp_config_in_bounds (drb_pdcp_config x)"

definition srb_to_add_in_bounds :: "srb_to_add_mod \<Rightarrow> bool" where
  "srb_to_add_in_bounds x \<longleftrightarrow> 1 \<le> srb_identity x \<and> srb_identity x \<le> 3 \<and> srb_reestablish_pdcp x = None
     \<and> srb_discard_on_pdcp x = None \<and> pred_option pdcp_config_in_bounds (srb_pdcp_config x)"

definition bearers_in_bounds :: "radio_bearer_config \<Rightarrow> bool" where
  "bearers_in_bounds x \<longleftrightarrow>
     pred_option (\<lambda>xs. 1 \<le> length xs \<and> length xs \<le> 2 \<and> list_all srb_to_add_in_bounds xs) (srb_to_add_mod_list x)
     \<and> pred_option (\<lambda>xs. 1 \<le> length xs \<and> length xs \<le> 29 \<and> list_all drb_to_add_in_bounds xs) (drb_to_add_mod_list x)
     \<and> srb_3_to_release x = None \<and> drb_to_release_list x = None \<and> rb_security_config x = None"

definition octets_ok :: "bytes \<Rightarrow> bool" where
  "octets_ok xs \<longleftrightarrow> length xs < 16384"

fun rrc_in_bounds :: "rrc_dl_message \<Rightarrow> bool" where
  "rrc_in_bounds (RrcSetup x) \<longleftrightarrow> rs_transaction_identifier x \<le> 3 \<and> bearers_in_bounds (rs_radio_bearer_config x)
     \<and> octets_ok (rs_master_cell_group x) \<and> pred_option octets_ok (rs_late_non_critical_extension x)"
| "rrc_in_bounds (RrcSecurityModeCommand x) \<longleftrightarrow> sm_transaction_identifier x \<le> 3
     \<and> pred_option octets_ok (sm_late_non_critical_extension x)"
| "rrc_in_bounds (DlInformationTransfer x) \<longleftrightarrow> di_transaction_identifier x \<le> 3
     \<and> pred_option octets_ok (di_dedicated_nas_message x)
     \<and> pred_option octets_ok (di_late_non_critical_extension x) \<and> di_non_critical_extension x = None"
| "rrc_in_bounds (RrcReconfiguration x) \<longleftrightarrow> rc_transaction_identifier x \<le> 3
     \<and> pred_option bearers_in_bounds (rc_radio_bearer_config x)
     \<and> pred_option (\<lambda>xs. 1 \<le> length xs \<and> length xs \<le> 29 \<and> list_all octets_ok xs) (rc_dedicated_nas_message_list x)
     \<and> (\<forall>y \<in> {rc_secondary_cell_group x, rc_late_non_critical_extension x, rc_master_cell_group x,
          rc_dedicated_sib_1_delivery x, rc_dedicated_system_information_delivery x}. pred_option octets_ok y)
     \<and> (\<forall>y \<in> {rc_meas_config x, rc_full_config x, rc_master_key_update x, rc_other_config x, rc_non_critical_extension x}. y = None)"

lemma variant_index_bound: "x \<in> set xs \<Longrightarrow> int (variant_index xs x) \<le> int (length xs) - 1"
  unfolding variant_index_def by (induction xs) auto

lemma u8_upper: "(x :: u8) \<le> y \<longleftrightarrow> uint x \<le> uint y"
  by (rule word_le_def)

context uper_writes
begin

lemma enum_written [written]:
  "x \<in> set xs \<Longrightarrow> ub = int (length xs) - 1 \<Longrightarrow> ub < 256 \<Longrightarrow>
     writes (uper_encode_enumerated U (Some 0) (Some ub) ext (int (variant_index xs x)) False)"
  using variant_index_bound by (intro enumerated_written) auto

lemmas primitives_written = header_written bool_written choice_written

lemma enums_written [written]:
  "writes (SdapHeaderDl_encode U a)" "writes (SdapHeaderUl_encode U a)" "writes (DiscardTimer_encode U b)"
  "writes (PdcpSnSizeUl_encode U c)" "writes (PdcpSnSizeDl_encode U c)"
  "writes (CipheringAlgorithm_encode U d)" "writes (IntegrityProtAlgorithm_encode U i)"
  unfolding SdapHeaderDl_encode_def SdapHeaderUl_encode_def DiscardTimer_encode_def PdcpSnSizeUl_encode_def PdcpSnSizeDl_encode_def
    CipheringAlgorithm_encode_def IntegrityProtAlgorithm_encode_def
  subgoal by (cases a) (auto intro!: written)
  subgoal by (cases a) (auto intro!: written)
  subgoal by (cases b) (auto intro!: written)
  subgoal by (cases c) (auto intro!: written)
  subgoal by (cases c) (auto intro!: written)
  subgoal by (cases d) (auto intro!: written)
  subgoal by (cases i) (auto intro!: written)
  done

lemma identities_written [written]:
  "t \<le> 3 \<Longrightarrow> writes (RrcTransactionIdentifier_encode U t)"
  "1 \<le> s \<Longrightarrow> s \<le> 3 \<Longrightarrow> writes (SrbIdentity_encode U s)"
  "1 \<le> d \<Longrightarrow> d \<le> 32 \<Longrightarrow> writes (DrbIdentity_encode U d)"
  "writes (rrc_PduSessionId_encode U p)"
  "q \<le> 63 \<Longrightarrow> writes (Qfi_encode U q)"
  using uint_bounded [of p]
  by (auto simp: RrcTransactionIdentifier_encode_def SrbIdentity_encode_def DrbIdentity_encode_def rrc_PduSessionId_encode_def
      Qfi_encode_def u8_upper intro!: written integer_written)

lemma strings_written [written]:
  "octets_ok b \<Longrightarrow> writes (uper_octets U b)"
  "octets_ok b \<Longrightarrow> writes (DedicatedNasMessage_encode U b)"
  by (auto simp: octets_ok_def uper_octets_def DedicatedNasMessage_encode_def intro!: written octets_written)

lemma items_written [written]:
  "1 \<le> length xs \<Longrightarrow> length xs \<le> ub \<Longrightarrow> ub < 256 \<Longrightarrow> \<forall>x \<in> set xs. writes (e x) \<Longrightarrow> writes (uper_items U ub e xs)"
  by (auto simp: uper_items_def intro!: written length_written)

lemma sdap_written: "sdap_in_bounds x \<Longrightarrow> writes (CnAssociation_encode U x)"
  by (auto simp: sdap_in_bounds_def CnAssociation_encode_def SdapConfig_encode_def option.pred_set
      intro!: written primitives_written)

lemma pdcp_written: "pdcp_config_in_bounds x \<Longrightarrow> writes (PdcpConfig_encode U ies x)"
  by (auto simp: pdcp_config_in_bounds_def drb_in_bounds_def PdcpConfig_encode_def Drb_encode_def HeaderCompression_encode_def
      option.pred_set intro!: written primitives_written)

lemma drb_written: "drb_to_add_in_bounds x \<Longrightarrow> writes (DrbToAddMod_encode U ies x)"
  by (auto simp: drb_to_add_in_bounds_def DrbToAddMod_encode_def option.pred_set
      intro!: written primitives_written sdap_written pdcp_written)

lemma srb_written: "srb_to_add_in_bounds x \<Longrightarrow> writes (SrbToAddMod_encode U ies x)"
  by (auto simp: srb_to_add_in_bounds_def SrbToAddMod_encode_def option.pred_set
      intro!: written primitives_written pdcp_written)

lemma bearers_written: "bearers_in_bounds x \<Longrightarrow> writes (RadioBearerConfig_encode U ies x)"
  by (auto simp: bearers_in_bounds_def RadioBearerConfig_encode_def SrbToAddModList_encode_def DrbToAddModList_encode_def
      option.pred_set list_all_iff intro!: written primitives_written drb_written srb_written)

lemma envelopes_written:
  "t \<le> 3 \<Longrightarrow> writes e \<Longrightarrow> writes (rrc_message_encode U name extensions t e)"
  "0 \<le> i \<Longrightarrow> i \<le> 3 \<Longrightarrow> writes e \<Longrightarrow> writes (DlCcchMessage_encode U i e)"
  "0 \<le> i \<Longrightarrow> i \<le> 15 \<Longrightarrow> writes e \<Longrightarrow> writes (DlDcchMessage_encode U i e)"
  by (auto simp: rrc_message_encode_def DlCcchMessage_encode_def DlDcchMessage_encode_def
      intro!: written primitives_written)

lemma ies_written:
  "rrc_in_bounds (RrcSetup a) \<Longrightarrow> writes (RrcSetupIEs_encode U ies a)"
  "rrc_in_bounds (RrcSecurityModeCommand b) \<Longrightarrow> writes (SecurityModeCommandIEs_encode U b)"
  "rrc_in_bounds (DlInformationTransfer c) \<Longrightarrow> writes (DlInformationTransferIEs_encode U ies c)"
  "rrc_in_bounds (RrcReconfiguration d) \<Longrightarrow> writes (RrcReconfigurationIEs_encode U ies d)"
  by (auto simp: RrcSetupIEs_encode_def SecurityModeCommandIEs_encode_def SecurityConfigSmc_encode_def
      SecurityAlgorithmConfig_encode_def DlInformationTransferIEs_encode_def RrcReconfigurationIEs_encode_def
      RrcReconfigurationV1530IEs_encode_def option.pred_set list_all_iff
      intro!: written primitives_written bearers_written)

lemma rrc_written: "rrc_in_bounds m \<Longrightarrow> \<exists>b. rrc_dl_into_bytes U ies m = Inr b"
proof -
  assume ok: "rrc_in_bounds m"
  then have "writes (rrc_dl_encode U ies m)"
    by (cases m) (use ies_written in \<open>auto intro!: envelopes_written\<close>)
  then show ?thesis unfolding writes_def rrc_dl_into_bytes_def by (metis result_bind_simps(2))
qed

end

section \<open>A reference instance\<close>

text \<open>
  Unaligned PER for bounds below 256, one-piece octet strings and no extensions; a value outside its bounds is
  refused.
\<close>

definition uref_range :: "int \<Rightarrow> int \<Rightarrow> bool \<Rightarrow> int \<Rightarrow> bool \<Rightarrow> encoder" where
  "uref_range lb ub ext v extended =
     (if lb \<le> v \<and> v \<le> ub \<and> \<not> extended
      then write_bits ((if ext then [False] else []) @ nat_bits (bitlen (nat (ub - lb))) (nat (v - lb)))
      else (\<lambda>w. Inl out_of_range))"

definition uref_integer :: "int option \<Rightarrow> int option \<Rightarrow> bool \<Rightarrow> int \<Rightarrow> bool \<Rightarrow> encoder" where
  "uref_integer lb ub ext v extended =
     (case (lb, ub) of (Some l, Some u) \<Rightarrow> uref_range l u ext v extended | _ \<Rightarrow> (\<lambda>w. Inl out_of_range))"

definition uref_length :: "nat option \<Rightarrow> nat option \<Rightarrow> bool \<Rightarrow> nat \<Rightarrow> encoder" where
  "uref_length lb ub normally_small n =
     (case (lb, ub) of
        (Some l, Some u) \<Rightarrow> uref_range (int l) (int u) False (int n) False
      | _ \<Rightarrow> if n < 128 then write_bits (nat_bits 8 n)
             else if n < 16384 then write_bits (nat_bits 16 (32768 + n))
             else (\<lambda>w. Inl out_of_range))"

definition uref_octets :: "nat option \<Rightarrow> nat option \<Rightarrow> bool \<Rightarrow> bytes \<Rightarrow> bool \<Rightarrow> encoder" where
  "uref_octets lb ub ext xs extended = enc_seq (uref_length lb ub False (length xs)) (write_octets xs)"

definition uper_ref :: uper_lib where
  "uper_ref =
     \<lparr>uper_encode_integer = uref_integer,
      uper_encode_enumerated = uref_integer,
      uper_encode_choice_idx = uref_range,
      uper_encode_length_determinent = uref_length,
      uper_encode_sequence_header = (\<lambda>ext opts extended. write_bits ((if ext then [False] else []) @ opts)),
      uper_encode_octetstring = uref_octets,
      uper_encode_bool = (\<lambda>b. write_bits [b]),
      uper_into_bytes = pack_octets\<rparr>"

lemma writes_bits: "writes (write_bits bs)"
  by (simp add: writes_def write_bits_def)

lemma writes_octets: "writes (write_octets xs)"
  by (induction xs) (simp add: writes_def enc_skip_def, simp add: writes_seq writes_bits)

interpretation uper_ref: uper_writes uper_ref
  by unfold_locales (auto simp: uper_ref_def uref_integer_def uref_range_def uref_length_def uref_octets_def
      intro: writes_bits writes_octets writes_seq)

end
