(* ===== verification/Rrc_Messages.thy ===== *)
theory Rrc_Messages
  imports Rrc_Codec
begin

text \<open>
  The RRC messages that QCore builds (\<open>qcore/src/protocols/rrc/build.rs\<close>) and those it reads.  The record
  \<open>rrc_lib\<close>, an argument of the definitions that use it, has the unaligned PER primitives, with which the encoders
  of \<open>Rrc_Codec\<close> write the downlink messages, and the generated decoders of the uplink messages.
\<close>

section \<open>Uplink messages\<close>

text \<open>
  In \<open>RrcSetupComplete\<close> and \<open>UlInformationTransfer\<close> the outer option is \<open>None\<close> for the critical extension
  that a future release may define; the inner one is the optional NAS message.
\<close>

datatype ul_dcch_message =
    RrcSetupComplete "bytes option"
  | UlInformationTransfer "bytes option option"
  | RrcReconfigurationComplete
  | OtherUlDcch bytes

datatype ul_ccch_message = RrcSetupRequest bytes | OtherUlCcch bytes

record rrc_lib =
  rrc_uper :: uper_lib
  rrc_unset_ies :: unset_ies
  ul_dcch_decode :: "bytes \<Rightarrow> ul_dcch_message option"
  ul_ccch_decode :: "bytes \<Rightarrow> ul_ccch_message option"
  sib2_encode :: "bytes option"

definition rrc_into_bytes :: "rrc_lib \<Rightarrow> rrc_dl_message \<Rightarrow> error + bytes" where
  "rrc_into_bytes lib m =
     (case rrc_dl_into_bytes (rrc_uper lib) (rrc_unset_ies lib) m of Inl _ \<Rightarrow> Inl RrcEncodeError | Inr b \<Rightarrow> Inr b)"

definition ul_dcch_from_bytes :: "rrc_lib \<Rightarrow> bytes \<Rightarrow> error + ul_dcch_message" where
  "ul_dcch_from_bytes lib b = (case ul_dcch_decode lib b of None \<Rightarrow> Inl RrcDecodeError | Some m \<Rightarrow> Inr m)"

definition ul_ccch_from_bytes :: "rrc_lib \<Rightarrow> bytes \<Rightarrow> error + ul_ccch_message" where
  "ul_ccch_from_bytes lib b = (case ul_ccch_decode lib b of None \<Rightarrow> Inl RrcDecodeError | Some m \<Rightarrow> Inr m)"

section \<open>Building\<close>

definition rrc_setup :: "u8 \<Rightarrow> bytes \<Rightarrow> rrc_dl_message" where
  "rrc_setup rrc_transaction_identifier master_cell_group =
     RrcSetup
       \<lparr>rs_transaction_identifier = rrc_transaction_identifier,
        rs_radio_bearer_config =
          \<lparr>srb_to_add_mod_list = Some [\<lparr>srb_identity = 1, srb_reestablish_pdcp = None,
             srb_discard_on_pdcp = None, srb_pdcp_config = None\<rparr>],
           srb_3_to_release = None, drb_to_add_mod_list = None, drb_to_release_list = None,
           rb_security_config = None\<rparr>,
        rs_master_cell_group = master_cell_group,
        rs_late_non_critical_extension = None\<rparr>"

definition rrc_security_mode_command :: "u8 \<Rightarrow> rrc_dl_message" where
  "rrc_security_mode_command rrc_transaction_identifier =
     RrcSecurityModeCommand
       \<lparr>sm_transaction_identifier = rrc_transaction_identifier, ciphering_algorithm_smc = Nea0,
        integrity_prot_algorithm_smc = Some Nia2, sm_late_non_critical_extension = None\<rparr>"

definition dl_information_transfer :: "u8 \<Rightarrow> bytes \<Rightarrow> rrc_dl_message" where
  "dl_information_transfer rrc_transaction_identifier dedicated_nas_message =
     DlInformationTransfer
       \<lparr>di_transaction_identifier = rrc_transaction_identifier,
        di_dedicated_nas_message = Some dedicated_nas_message,
        di_late_non_critical_extension = None, di_non_critical_extension = None\<rparr>"

definition drb_config :: "u8 \<Rightarrow> drb_to_add_mod" where
  "drb_config session_id =
     \<lparr>cn_association = Some
        \<lparr>sdap_pdu_session = session_id, sdap_header_dl = SdapHeaderAbsent,
         sdap_header_ul = SdapHeaderPresent, default_drb = True,
         mapped_qos_flows_to_add = Some [1], mapped_qos_flows_to_release = None\<rparr>,
      drb_identity = 1, drb_reestablish_pdcp = None, drb_recover_pdcp = None,
      drb_pdcp_config = Some
        \<lparr>pc_drb = Some
           \<lparr>discard_timer_drb = Some Ms10, pdcp_sn_size_ul = Some Len12bits,
            pdcp_sn_size_dl = Some Len12bits, drb_header_compression = NotUsed,
            drb_integrity_protection = None, drb_status_report_required = None,
            drb_out_of_order_delivery = None\<rparr>,
         pc_more_than_one_rlc = None, pc_t_reordering = None\<rparr>\<rparr>"

definition rrc_reconfiguration :: "u8 \<Rightarrow> bytes list option \<Rightarrow> bytes \<Rightarrow> u8 \<Rightarrow> rrc_dl_message" where
  "rrc_reconfiguration rrc_transaction_identifier nas_messages cell_group_config session_id =
     RrcReconfiguration
       \<lparr>rc_transaction_identifier = rrc_transaction_identifier,
        rc_radio_bearer_config = Some
          \<lparr>srb_to_add_mod_list = None, srb_3_to_release = None,
           drb_to_add_mod_list = Some [drb_config session_id],
           drb_to_release_list = None, rb_security_config = None\<rparr>,
        rc_secondary_cell_group = None, rc_meas_config = None, rc_late_non_critical_extension = None,
        rc_master_cell_group = Some cell_group_config, rc_full_config = None,
        rc_dedicated_nas_message_list = nas_messages, rc_master_key_update = None,
        rc_dedicated_sib_1_delivery = None, rc_dedicated_system_information_delivery = None,
        rc_other_config = None, rc_non_critical_extension = None\<rparr>"

text \<open>What QCore builds is within the bounds of the encoders, as far as the octet strings it is given are.\<close>

lemma built_in_bounds:
  "t \<le> 3 \<Longrightarrow> octets_ok c \<Longrightarrow> rrc_in_bounds (rrc_setup t c)"
  "t \<le> 3 \<Longrightarrow> rrc_in_bounds (rrc_security_mode_command t)"
  "t \<le> 3 \<Longrightarrow> octets_ok n \<Longrightarrow> rrc_in_bounds (dl_information_transfer t n)"
  "t \<le> 3 \<Longrightarrow> octets_ok n \<Longrightarrow> octets_ok c \<Longrightarrow> rrc_in_bounds (rrc_reconfiguration t (Some [n]) c s)"
  by (simp_all add: rrc_setup_def rrc_security_mode_command_def dl_information_transfer_def rrc_reconfiguration_def
      drb_config_def bearers_in_bounds_def srb_to_add_in_bounds_def drb_to_add_in_bounds_def sdap_in_bounds_def
      pdcp_config_in_bounds_def drb_in_bounds_def word_le_nat_alt)

end
