(* ===== verification/F1ap_Common_Types.thy ===== *)
theory F1ap_Common_Types
  imports F1ap_Ies Addresses
begin

text \<open>
  The types of the information elements common to the setup and the context messages (\<open>5g-libs/f1ap/src/ies.rs\<close>), field by
  field: a struct is a record whose fields carry the name of the type, an enum is a datatype whose
  constructors do, a struct with one anonymous field is a synonym of the type of that field.  \<open>Vec\<close> and
  \<open>NonEmpty\<close> are lists, arrays of octets are lists of octets; what the Rust type says about their sizes is part
  of well-formedness.
\<close>

record f1ap_snssai =
  f1ap_snssai_sst :: bytes
  f1ap_snssai_sd :: "bytes option"

type_synonym nid = bits

type_synonym bap_address = bits

type_synonym bap_path_id = bits

record bap_routing_id =
  bap_routing_id_bap_address :: bap_address
  bap_routing_id_bap_path_id :: bap_path_id

type_synonym bhrlc_channel_id = bits

record egress_bhrlcch_item =
  egress_bhrlcch_item_next_hop_bap_address :: bap_address
  egress_bhrlcch_item_bhrlc_channel_id :: bhrlc_channel_id

type_synonym egress_bhrlcch_list = "egress_bhrlcch_item list"

record bh_info =
  bh_info_ba_prouting_id :: "bap_routing_id option"
  bh_info_egress_bhrlcch_list :: "egress_bhrlcch_list option"

end
