(* ===== verification/F1ap_Setup_Types.thy ===== *)
theory F1ap_Setup_Types
  imports F1ap_Common_Types
begin

text \<open>
  The types of the information elements of the setup and configuration messages (\<open>5g-libs/f1ap/src/ies.rs\<close> and \<open>pdu.rs\<close>), field by
  field: a struct is a record whose fields carry the name of the type, an enum is a datatype whose
  constructors do, a struct with one anonymous field is a synonym of the type of that field.  \<open>Vec\<close> and
  \<open>NonEmpty\<close> are lists, arrays of octets are lists of octets; what the Rust type says about their sizes is part
  of well-formedness.
\<close>

type_synonym gnb_du_id = u64

type_synonym gnb_du_name = string

type_synonym nr_pci = u16

type_synonym five_gs_tac = bytes

type_synonym configured_eps_tac = bytes

record slice_support_item =
  slice_support_item_snssai :: f1ap_snssai

type_synonym slice_support_list = "slice_support_item list"

datatype npn_support_info =
    NpnSupportInfoSnpnInformation nid

type_synonym extended_slice_support_list = "slice_support_item list"

record served_plmns_item =
  served_plmns_item_plmn_identity :: bytes
  served_plmns_item_tai_slice_support_list :: "slice_support_list option"
  served_plmns_item_npn_support_info :: "npn_support_info option"
  served_plmns_item_extended_tai_slice_support_list :: "extended_slice_support_list option"

type_synonym served_plmns_list = "served_plmns_item list"

datatype nr_scs = NrScsScs15 | NrScsScs30 | NrScsScs60 | NrScsScs120

datatype nr_nr_b =
    NrNrBNrb11 | NrNrBNrb18 | NrNrBNrb24 | NrNrBNrb25 | NrNrBNrb31 | NrNrBNrb32 | NrNrBNrb38
    | NrNrBNrb51 | NrNrBNrb52 | NrNrBNrb65 | NrNrBNrb66 | NrNrBNrb78 | NrNrBNrb79 | NrNrBNrb93
    | NrNrBNrb106 | NrNrBNrb107 | NrNrBNrb121 | NrNrBNrb132 | NrNrBNrb133 | NrNrBNrb135
    | NrNrBNrb160 | NrNrBNrb162 | NrNrBNrb189 | NrNrBNrb216 | NrNrBNrb217 | NrNrBNrb245
    | NrNrBNrb264 | NrNrBNrb270 | NrNrBNrb273

record transmission_bandwidth =
  transmission_bandwidth_nr_scs :: nr_scs
  transmission_bandwidth_nr_nr_b :: nr_nr_b

record nr_carrier_item =
  nr_carrier_item_carrier_scs :: nr_scs
  nr_carrier_item_offset_to_carrier :: u16
  nr_carrier_item_carrier_bandwidth :: u16

type_synonym nr_carrier_list = "nr_carrier_item list"

datatype frequency_shift7p5khz = FrequencyShift7p5khzFalse | FrequencyShift7p5khzTrue

record sul_information =
  sul_information_sul_nr_arfcn :: u32
  sul_information_sul_transmission_bandwidth :: transmission_bandwidth
  sul_information_carrier_list :: "nr_carrier_list option"
  sul_information_frequency_shift7p5khz :: "frequency_shift7p5khz option"

record supported_sul_freq_band_item =
  supported_sul_freq_band_item_freq_band_indicator_nr :: u16

record freq_band_nr_item =
  freq_band_nr_item_freq_band_indicator_nr :: u16
  freq_band_nr_item_supported_sul_band_list :: "supported_sul_freq_band_item list"

record nr_freq_info =
  nr_freq_info_nr_arfcn :: u32
  nr_freq_info_sul_information :: "sul_information option"
  nr_freq_info_freq_band_list_nr :: "freq_band_nr_item list"
  nr_freq_info_frequency_shift7p5khz :: "frequency_shift7p5khz option"

record fdd_info =
  fdd_info_ul_nr_freq_info :: nr_freq_info
  fdd_info_dl_nr_freq_info :: nr_freq_info
  fdd_info_ul_transmission_bandwidth :: transmission_bandwidth
  fdd_info_dl_transmission_bandwidth :: transmission_bandwidth
  fdd_info_ul_carrier_list :: "nr_carrier_list option"
  fdd_info_dl_carrier_list :: "nr_carrier_list option"

datatype nr_scs1 = NrScs1Scs15 | NrScs1Scs30 | NrScs1Scs60 | NrScs1Scs120

datatype nr_cp = NrCpNormal | NrCpExtended

datatype nr_dl_ul_tx_periodicity =
    NrDlUlTxPeriodicityMs0p5 | NrDlUlTxPeriodicityMs0p625 | NrDlUlTxPeriodicityMs1
    | NrDlUlTxPeriodicityMs1p25 | NrDlUlTxPeriodicityMs2 | NrDlUlTxPeriodicityMs2p5
    | NrDlUlTxPeriodicityMs3 | NrDlUlTxPeriodicityMs4 | NrDlUlTxPeriodicityMs5
    | NrDlUlTxPeriodicityMs10 | NrDlUlTxPeriodicityMs20 | NrDlUlTxPeriodicityMs40
    | NrDlUlTxPeriodicityMs60 | NrDlUlTxPeriodicityMs80 | NrDlUlTxPeriodicityMs100
    | NrDlUlTxPeriodicityMs120 | NrDlUlTxPeriodicityMs140 | NrDlUlTxPeriodicityMs160

record num_dl_ul_symbols =
  num_dl_ul_symbols_num_dl_symbols :: u8
  num_dl_ul_symbols_num_ul_symbols :: u8

datatype symbol_alloc_in_slot =
    SymbolAllocInSlotAllDl
  | SymbolAllocInSlotAllUl
  | SymbolAllocInSlotBothDlAndUl num_dl_ul_symbols

record slot_configuration_item =
  slot_configuration_item_slot_index :: u16
  slot_configuration_item_symbol_alloc_in_slot :: symbol_alloc_in_slot

type_synonym slot_configuration_list = "slot_configuration_item list"

record intended_tdd_dl_ul_config =
  intended_tdd_dl_ul_config_nr_scs :: nr_scs1
  intended_tdd_dl_ul_config_nr_cp :: nr_cp
  intended_tdd_dl_ul_config_nr_dl_ul_tx_periodicity :: nr_dl_ul_tx_periodicity
  intended_tdd_dl_ul_config_slot_configuration_list :: slot_configuration_list

type_synonym tdd_ul_dl_config_common_nr = bytes

record tdd_info =
  tdd_info_nr_freq_info :: nr_freq_info
  tdd_info_transmission_bandwidth :: transmission_bandwidth
  tdd_info_intended_tdd_dl_ul_config :: "intended_tdd_dl_ul_config option"
  tdd_info_tdd_ul_dl_config_common_nr :: "tdd_ul_dl_config_common_nr option"
  tdd_info_carrier_list :: "nr_carrier_list option"

datatype nr_mode_info =
    NrModeInfoFdd fdd_info
  | NrModeInfoTdd tdd_info

type_synonym ranac = u8

record extended_served_plmns_item =
  extended_served_plmns_item_plmn_identity :: bytes
  extended_served_plmns_item_tai_slice_support_list :: "slice_support_list option"
  extended_served_plmns_item_npn_support_info :: "npn_support_info option"
  extended_served_plmns_item_extended_tai_slice_support_list :: "extended_slice_support_list option"

type_synonym extended_served_plmns_list = "extended_served_plmns_item list"

datatype cell_direction = CellDirectionDlOnly | CellDirectionUlOnly

record available_plmn_list_item =
  available_plmn_list_item_plmn_identity :: bytes

type_synonym available_plmn_list = "available_plmn_list_item list"

record extended_available_plmn_item =
  extended_available_plmn_item_plmn_identity :: bytes

type_synonym extended_available_plmn_list = "extended_available_plmn_item list"

datatype configured_tac_indication = ConfiguredTacIndicationTrue

type_synonym broadcast_nid_list = "nid list"

record broadcast_snpn_id_list_item =
  broadcast_snpn_id_list_item_plmn_identity :: bytes
  broadcast_snpn_id_list_item_broadcast_nid_list :: broadcast_nid_list

type_synonym broadcast_snpn_id_list = "broadcast_snpn_id_list_item list"

record npn_broadcast_information_snpn =
  npn_broadcast_information_snpn_broadcast_snpnid_list :: broadcast_snpn_id_list

type_synonym cagid = bits

type_synonym broadcast_cag_list = "cagid list"

record broadcast_pni_npn_id_list_item =
  broadcast_pni_npn_id_list_item_plmn_identity :: bytes
  broadcast_pni_npn_id_list_item_broadcast_cag_list :: broadcast_cag_list

type_synonym broadcast_pni_npn_id_list = "broadcast_pni_npn_id_list_item list"

record npn_broadcast_information_pni_npn =
  npn_broadcast_information_pni_npn_broadcast_pni_npn_id_information :: broadcast_pni_npn_id_list

datatype npn_broadcast_information =
    NpnBroadcastInformationSnpnBroadcastInformation npn_broadcast_information_snpn
  | NpnBroadcastInformationPniNpnBroadcastInformation npn_broadcast_information_pni_npn

record b_plmn_id_info_item =
  b_plmn_id_info_item_plmn_identity_list :: available_plmn_list
  b_plmn_id_info_item_extended_plmn_identity_list :: "extended_available_plmn_list option"
  b_plmn_id_info_item_five_gs_tac :: "five_gs_tac option"
  b_plmn_id_info_item_nr_cell_id :: bits
  b_plmn_id_info_item_ranac :: "ranac option"
  b_plmn_id_info_item_configured_tac_indication :: "configured_tac_indication option"
  b_plmn_id_info_item_npn_broadcast_information :: "npn_broadcast_information option"

type_synonym b_plmn_id_info_list = "b_plmn_id_info_item list"

datatype cell_size = CellSizeVerysmall | CellSizeSmall | CellSizeMedium | CellSizeLarge

record cell_type =
  cell_type_cell_size :: cell_size

type_synonym gnb_set_id = bits

record aggressor_gnb_set_id =
  aggressor_gnb_set_id_aggressor_gnb_set_id :: gnb_set_id

record victim_gnb_set_id =
  victim_gnb_set_id_victim_gnb_set_id :: gnb_set_id

datatype du_rx_mt_rx = DuRxMtRxSupported | DuRxMtRxNotSupported

datatype du_tx_mt_tx = DuTxMtTxSupported | DuTxMtTxNotSupported

datatype du_rx_mt_tx = DuRxMtTxSupported | DuRxMtTxNotSupported

datatype du_tx_mt_rx = DuTxMtRxSupported | DuTxMtRxNotSupported

record iab_mt_cell_list_item =
  iab_mt_cell_list_item_nr_cell_identity :: bits
  iab_mt_cell_list_item_du_rx_mt_rx :: du_rx_mt_rx
  iab_mt_cell_list_item_du_tx_mt_tx :: du_tx_mt_tx
  iab_mt_cell_list_item_du_rx_mt_tx :: du_rx_mt_tx
  iab_mt_cell_list_item_du_tx_mt_rx :: du_tx_mt_rx

type_synonym iab_mt_cell_list = "iab_mt_cell_list_item list"

record multiplexing_info =
  multiplexing_info_iab_mt_cell_list :: iab_mt_cell_list

type_synonym ssb_freq_info = u32

datatype ssb_subcarrier_spacing =
    SsbSubcarrierSpacingKHz15 | SsbSubcarrierSpacingKHz30 | SsbSubcarrierSpacingKHz120
    | SsbSubcarrierSpacingKHz240 | SsbSubcarrierSpacingSpare3 | SsbSubcarrierSpacingSpare2
    | SsbSubcarrierSpacingSpare1

datatype ssb_transmission_periodicity =
    SsbTransmissionPeriodicitySf10 | SsbTransmissionPeriodicitySf20 | SsbTransmissionPeriodicitySf40
    | SsbTransmissionPeriodicitySf80 | SsbTransmissionPeriodicitySf160
    | SsbTransmissionPeriodicitySf320 | SsbTransmissionPeriodicitySf640

type_synonym ssb_transmission_timing_offset = u8

datatype ssb_transmission_bitmap =
    SsbTransmissionBitmapShortBitmap bits
  | SsbTransmissionBitmapMediumBitmap bits
  | SsbTransmissionBitmapLongBitmap bits

record iab_stc_info_item =
  iab_stc_info_item_ssb_freq_info :: ssb_freq_info
  iab_stc_info_item_ssb_subcarrier_spacing :: ssb_subcarrier_spacing
  iab_stc_info_item_ssb_transmission_periodicity :: ssb_transmission_periodicity
  iab_stc_info_item_ssb_transmission_timing_offset :: ssb_transmission_timing_offset
  iab_stc_info_item_ssb_transmission_bitmap :: ssb_transmission_bitmap

type_synonym iab_stc_info_list = "iab_stc_info_item list"

record iab_stc_info =
  iab_stc_info_iab_stc_info_list :: iab_stc_info_list

record iab_info_iab_du =
  iab_info_iab_du_multiplexing_info :: "multiplexing_info option"
  iab_info_iab_du_iab_stc_info :: "iab_stc_info option"

datatype ssb_positions_in_burst =
    SsbPositionsInBurstShortBitmap bits
  | SsbPositionsInBurstMediumBitmap bits
  | SsbPositionsInBurstLongBitmap bits

datatype msg1fdm = Msg1fdmOne | Msg1fdmTwo | Msg1fdmFour | Msg1fdmEight

datatype ssb_per_rach_occasion =
    SsbPerRachOccasionOneEighth | SsbPerRachOccasionOneFourth | SsbPerRachOccasionOneHalf
    | SsbPerRachOccasionOne | SsbPerRachOccasionTwo | SsbPerRachOccasionFour
    | SsbPerRachOccasionEight | SsbPerRachOccasionSixteen

datatype restricted_set_config =
    RestrictedSetConfigUnrestrictedSet | RestrictedSetConfigRestrictedSetTypeA
    | RestrictedSetConfigRestrictedSetTypeB

record l839_info =
  l839_info_root_sequence_index :: u16
  l839_info_restricted_set_config :: restricted_set_config

datatype msg1scs = Msg1scsScs15 | Msg1scsScs30 | Msg1scsScs60 | Msg1scsScs120

record l139_info =
  l139_info_msg_1scs :: msg1scs
  l139_info_root_sequence_index :: "u8 option"

datatype freq_domain_length =
    FreqDomainLengthL839 l839_info
  | FreqDomainLengthL139 l139_info

record nr_prach_config_item =
  nr_prach_config_item_nr_scs :: nr_scs
  nr_prach_config_item_prach_freq_startfrom_carrier :: u16
  nr_prach_config_item_msg_1fdm :: msg1fdm
  nr_prach_config_item_parch_config_index :: int
  nr_prach_config_item_ssb_per_rach_occasion :: ssb_per_rach_occasion
  nr_prach_config_item_freq_domain_length :: freq_domain_length
  nr_prach_config_item_zero_correl_zone_config :: u8

type_synonym nr_prach_config_list = "nr_prach_config_item list"

record nr_prach_config =
  nr_prach_config_ul_prach_config_list :: "nr_prach_config_list option"
  nr_prach_config_sul_prach_config_list :: "nr_prach_config_list option"

record sfn_offset =
  sfn_offset_sfn_time_offset :: bits

record served_cell_information =
  served_cell_information_nr_cgi :: nr_cgi
  served_cell_information_nr_pci :: nr_pci
  served_cell_information_five_gs_tac :: "five_gs_tac option"
  served_cell_information_configured_eps_tac :: "configured_eps_tac option"
  served_cell_information_served_plmns :: served_plmns_list
  served_cell_information_nr_mode_info :: nr_mode_info
  served_cell_information_measurement_timing_configuration :: bytes
  served_cell_information_ranac :: "ranac option"
  served_cell_information_extended_served_plmns_list :: "extended_served_plmns_list option"
  served_cell_information_cell_direction :: "cell_direction option"
  served_cell_information_b_plmn_id_info_list :: "b_plmn_id_info_list option"
  served_cell_information_cell_type :: "cell_type option"
  served_cell_information_configured_tac_indication :: "configured_tac_indication option"
  served_cell_information_aggressor_gnb_set_id :: "aggressor_gnb_set_id option"
  served_cell_information_victim_gnb_set_id :: "victim_gnb_set_id option"
  served_cell_information_iab_info_iab_du :: "iab_info_iab_du option"
  served_cell_information_ssb_positions_in_burst :: "ssb_positions_in_burst option"
  served_cell_information_nr_prach_config :: "nr_prach_config option"
  served_cell_information_sfn_offset :: "sfn_offset option"

type_synonym mib_message = bytes

type_synonym sib1_message = bytes

type_synonym sib12_message = bytes

type_synonym sib13_message = bytes

type_synonym sib14_message = bytes

type_synonym sib10_message = bytes

record gnb_du_system_information =
  gnb_du_system_information_mib_message :: mib_message
  gnb_du_system_information_sib_1_message :: sib1_message
  gnb_du_system_information_sib_12_message :: "sib12_message option"
  gnb_du_system_information_sib_13_message :: "sib13_message option"
  gnb_du_system_information_sib_14_message :: "sib14_message option"
  gnb_du_system_information_sib_10_message :: "sib10_message option"

record gnb_du_served_cells_item =
  gnb_du_served_cells_item_served_cell_information :: served_cell_information
  gnb_du_served_cells_item_gnb_du_system_information :: "gnb_du_system_information option"

type_synonym gnb_du_served_cells_list = "gnb_du_served_cells_item list"

record rrc_version =
  rrc_version_latest_rrc_version :: bits
  rrc_version_latest_rrc_version_enhanced :: "bytes option"

record gtptla_item =
  gtptla_item_gtp_transport_layer_address :: transport_layer_address

type_synonym gtptl_as = "gtptla_item list"

record transport_up_layer_address_info_to_add_item =
  transport_up_layer_address_info_to_add_item_ip_sec_transport_layer_address :: transport_layer_address
  transport_up_layer_address_info_to_add_item_gtp_transport_layer_address_to_add :: "gtptl_as option"

type_synonym transport_up_layer_address_info_to_add_list = "transport_up_layer_address_info_to_add_item list"

record transport_up_layer_address_info_to_remove_item =
  transport_up_layer_address_info_to_remove_item_ip_sec_transport_layer_address :: transport_layer_address
  transport_up_layer_address_info_to_remove_item_gtp_transport_layer_address_to_remove :: "gtptl_as option"

type_synonym transport_up_layer_address_info_to_remove_list = "transport_up_layer_address_info_to_remove_item list"

record transport_layer_address_info =
  transport_layer_address_info_transport_up_layer_address_info_to_add_list :: "transport_up_layer_address_info_to_add_list option"
  transport_layer_address_info_transport_up_layer_address_info_to_remove_list :: "transport_up_layer_address_info_to_remove_list option"

type_synonym gnb_cu_name_visible_string = string

type_synonym gnb_cu_name_utf8_string = string

record extended_gnb_cu_name =
  extended_gnb_cu_name_gnb_cu_name_visible_string :: "gnb_cu_name_visible_string option"
  extended_gnb_cu_name_gnb_cu_name_utf8_string :: "gnb_cu_name_utf8_string option"

record f1_setup_request =
  fsr_transaction_id :: u8
  fsr_gnb_du_id :: gnb_du_id
  fsr_gnb_du_name :: "gnb_du_name option"
  fsr_gnb_du_served_cells_list :: "gnb_du_served_cells_list option"
  fsr_gnb_du_rrc_version :: rrc_version
  fsr_transport_layer_address_info :: "transport_layer_address_info option"
  fsr_bap_address :: "bap_address option"
  fsr_extended_gnb_cu_name :: "extended_gnb_cu_name option"

type_synonym gnb_cu_name = string

datatype area_scope = AreaScopeTrue

record sib_type_to_be_updated_list_item =
  sib_type_to_be_updated_list_item_sib_type :: u8
  sib_type_to_be_updated_list_item_sib_message :: bytes
  sib_type_to_be_updated_list_item_value_tag :: u8
  sib_type_to_be_updated_list_item_area_scope :: "area_scope option"

type_synonym system_information_area_id = bits

record gnb_cu_system_information =
  gnb_cu_system_information_sib_type_to_be_updated_list :: "sib_type_to_be_updated_list_item list"
  gnb_cu_system_information_system_information_area_id :: "system_information_area_id option"

record iab_info_iab_donor_cu =
  iab_info_iab_donor_cu_iab_stc_info :: "iab_stc_info option"

record available_snpn_id_list_item =
  available_snpn_id_list_item_plmn_identity :: bytes
  available_snpn_id_list_item_available_nid_list :: broadcast_nid_list

type_synonym available_snpn_id_list = "available_snpn_id_list_item list"

record cells_to_be_activated_list_item =
  cells_to_be_activated_list_item_nr_cgi :: nr_cgi
  cells_to_be_activated_list_item_nr_pci :: "nr_pci option"
  cells_to_be_activated_list_item_gnb_cu_system_information :: "gnb_cu_system_information option"
  cells_to_be_activated_list_item_available_plmn_list :: "available_plmn_list option"
  cells_to_be_activated_list_item_extended_available_plmn_list :: "extended_available_plmn_list option"
  cells_to_be_activated_list_item_iab_info_iab_donor_cu :: "iab_info_iab_donor_cu option"
  cells_to_be_activated_list_item_available_snpn_id_list :: "available_snpn_id_list option"

type_synonym cells_to_be_activated_list = "cells_to_be_activated_list_item list"

datatype non_up_traffic_type =
    NonUpTrafficTypeUeAssociated | NonUpTrafficTypeNonUeAssociated | NonUpTrafficTypeNonF1
    | NonUpTrafficTypeBapControlPdu

record ul_bh_non_up_traffic_mapping_item =
  ul_bh_non_up_traffic_mapping_item_non_up_traffic_type :: non_up_traffic_type
  ul_bh_non_up_traffic_mapping_item_bh_info :: bh_info

type_synonym ul_bh_non_up_traffic_mapping_list = "ul_bh_non_up_traffic_mapping_item list"

record ul_bh_non_up_traffic_mapping =
  ul_bh_non_up_traffic_mapping_ul_bh_non_up_traffic_mapping_list :: ul_bh_non_up_traffic_mapping_list

type_synonym gnb_du_name_visible_string = string

type_synonym gnb_du_name_utf8_string = string

record extended_gnb_du_name =
  extended_gnb_du_name_gnb_du_name_visible_string :: "gnb_du_name_visible_string option"
  extended_gnb_du_name_gnb_du_name_utf8_string :: "gnb_du_name_utf8_string option"

record f1_setup_response =
  fsp_transaction_id :: u8
  fsp_gnb_cu_name :: "gnb_cu_name option"
  fsp_cells_to_be_activated_list :: "cells_to_be_activated_list option"
  fsp_gnb_cu_rrc_version :: rrc_version
  fsp_transport_layer_address_info :: "transport_layer_address_info option"
  fsp_ul_bh_non_up_traffic_mapping :: "ul_bh_non_up_traffic_mapping option"
  fsp_bap_address :: "bap_address option"
  fsp_extended_gnb_du_name :: "extended_gnb_du_name option"

record served_cells_to_add_item =
  served_cells_to_add_item_served_cell_information :: served_cell_information
  served_cells_to_add_item_gnb_du_system_information :: "gnb_du_system_information option"

type_synonym served_cells_to_add_list = "served_cells_to_add_item list"

record served_cells_to_modify_item =
  served_cells_to_modify_item_old_nr_cgi :: nr_cgi
  served_cells_to_modify_item_served_cell_information :: served_cell_information
  served_cells_to_modify_item_gnb_du_system_information :: "gnb_du_system_information option"

type_synonym served_cells_to_modify_list = "served_cells_to_modify_item list"

record served_cells_to_delete_item =
  served_cells_to_delete_item_old_nr_cgi :: nr_cgi

type_synonym served_cells_to_delete_list = "served_cells_to_delete_item list"

datatype service_state = ServiceStateInService | ServiceStateOutOfService

datatype switching_off_ongoing = SwitchingOffOngoingTrue

record service_status =
  service_status_service_state :: service_state
  service_status_switching_off_ongoing :: "switching_off_ongoing option"

record cells_status_item =
  cells_status_item_nr_cgi :: nr_cgi
  cells_status_item_service_status :: service_status

type_synonym cells_status_list = "cells_status_item list"

record dedicated_si_delivery_needed_ue_item =
  dedicated_si_delivery_needed_ue_item_gnb_cu_ue_f1ap_id :: u32
  dedicated_si_delivery_needed_ue_item_nr_cgi :: nr_cgi

type_synonym dedicated_si_delivery_needed_ue_list = "dedicated_si_delivery_needed_ue_item list"

type_synonym port_number = bits

record endpoint_ip_address_and_port =
  endpoint_ip_address_and_port_endpoint_ip_address :: transport_layer_address
  endpoint_ip_address_and_port_port_number :: "port_number option"

datatype cp_transport_layer_address =
    CpTransportLayerAddressEndpointIpAddress transport_layer_address
  | CpTransportLayerAddressEndpointIpAddressAndPort endpoint_ip_address_and_port

record gnb_du_tnl_association_to_remove_item =
  gnb_du_tnl_association_to_remove_item_tnl_association_transport_layer_address :: cp_transport_layer_address
  gnb_du_tnl_association_to_remove_item_tnl_association_transport_layer_address_gnb_cu :: "cp_transport_layer_address option"

type_synonym gnb_du_tnl_association_to_remove_list = "gnb_du_tnl_association_to_remove_item list"

record gnb_du_configuration_update =
  gcu_transaction_id :: u8
  gcu_served_cells_to_add_list :: "served_cells_to_add_list option"
  gcu_served_cells_to_modify_list :: "served_cells_to_modify_list option"
  gcu_served_cells_to_delete_list :: "served_cells_to_delete_list option"
  gcu_cells_status_list :: "cells_status_list option"
  gcu_dedicated_si_delivery_needed_ue_list :: "dedicated_si_delivery_needed_ue_list option"
  gcu_gnb_du_id :: "gnb_du_id option"
  gcu_gnb_du_tnl_association_to_remove_list :: "gnb_du_tnl_association_to_remove_list option"
  gcu_transport_layer_address_info :: "transport_layer_address_info option"

record cells_to_be_deactivated_list_item =
  cells_to_be_deactivated_list_item_nr_cgi :: nr_cgi

type_synonym cells_to_be_deactivated_list = "cells_to_be_deactivated_list_item list"

record gnb_du_configuration_update_ack =
  gca_transaction_id :: u8
  gca_cells_to_be_activated_list :: "cells_to_be_activated_list option"
  gca_criticality_diagnostics :: "criticality_diagnostics option"
  gca_cells_to_be_deactivated_list :: "cells_to_be_deactivated_list option"
  gca_transport_layer_address_info :: "transport_layer_address_info option"
  gca_ul_bh_non_up_traffic_mapping :: "ul_bh_non_up_traffic_mapping option"
  gca_bap_address :: "bap_address option"

end
