(* ===== verification/F1ap_Context_Types.thy ===== *)
theory F1ap_Context_Types
  imports F1ap_Common_Types
begin

text \<open>
  The types of the information elements of the context messages (\<open>5g-libs/f1ap/src/ies.rs\<close> and \<open>pdu.rs\<close>), field by
  field: a struct is a record whose fields carry the name of the type, an enum is a datatype whose
  constructors do, a struct with one anonymous field is a synonym of the type of that field.  \<open>Vec\<close> and
  \<open>NonEmpty\<close> are lists, arrays of octets are lists of octets; what the Rust type says about their sizes is part
  of well-formedness.
\<close>

type_synonym serv_cell_index = u8

datatype cell_ul_configured =
    CellUlConfiguredNone | CellUlConfiguredUl | CellUlConfiguredSul | CellUlConfiguredUlAndSul

type_synonym cg_config_info = bytes

type_synonym ue_capability_rat_container_list = bytes

type_synonym meas_config = bytes

type_synonym handover_preparation_information = bytes

type_synonym cell_group_config = bytes

type_synonym measurement_timing_configuration = bytes

type_synonym ue_assistance_information = bytes

type_synonym cg_config = bytes

type_synonym ue_assistance_information_eutra = bytes

record cu_to_du_rrc_information =
  cu_to_du_rrc_information_cg_config_info :: "cg_config_info option"
  cu_to_du_rrc_information_ue_capability_rat_container_list :: "ue_capability_rat_container_list option"
  cu_to_du_rrc_information_meas_config :: "meas_config option"
  cu_to_du_rrc_information_handover_preparation_information :: "handover_preparation_information option"
  cu_to_du_rrc_information_cell_group_config :: "cell_group_config option"
  cu_to_du_rrc_information_measurement_timing_configuration :: "measurement_timing_configuration option"
  cu_to_du_rrc_information_ue_assistance_information :: "ue_assistance_information option"
  cu_to_du_rrc_information_cg_config :: "cg_config option"
  cu_to_du_rrc_information_ue_assistance_information_eutra :: "ue_assistance_information_eutra option"

record candidate_sp_cell_item =
  candidate_sp_cell_item_candidate_sp_cell_id :: nr_cgi

type_synonym candidate_sp_cell_list = "candidate_sp_cell_item list"

datatype long_drx_cycle_length =
    LongDrxCycleLengthMs10 | LongDrxCycleLengthMs20 | LongDrxCycleLengthMs32
    | LongDrxCycleLengthMs40 | LongDrxCycleLengthMs60 | LongDrxCycleLengthMs64
    | LongDrxCycleLengthMs70 | LongDrxCycleLengthMs80 | LongDrxCycleLengthMs128
    | LongDrxCycleLengthMs160 | LongDrxCycleLengthMs256 | LongDrxCycleLengthMs320
    | LongDrxCycleLengthMs512 | LongDrxCycleLengthMs640 | LongDrxCycleLengthMs1024
    | LongDrxCycleLengthMs1280 | LongDrxCycleLengthMs2048 | LongDrxCycleLengthMs2560
    | LongDrxCycleLengthMs5120 | LongDrxCycleLengthMs10240

datatype short_drx_cycle_length =
    ShortDrxCycleLengthMs2 | ShortDrxCycleLengthMs3 | ShortDrxCycleLengthMs4
    | ShortDrxCycleLengthMs5 | ShortDrxCycleLengthMs6 | ShortDrxCycleLengthMs7
    | ShortDrxCycleLengthMs8 | ShortDrxCycleLengthMs10 | ShortDrxCycleLengthMs14
    | ShortDrxCycleLengthMs16 | ShortDrxCycleLengthMs20 | ShortDrxCycleLengthMs30
    | ShortDrxCycleLengthMs32 | ShortDrxCycleLengthMs35 | ShortDrxCycleLengthMs40
    | ShortDrxCycleLengthMs64 | ShortDrxCycleLengthMs80 | ShortDrxCycleLengthMs128
    | ShortDrxCycleLengthMs160 | ShortDrxCycleLengthMs256 | ShortDrxCycleLengthMs320
    | ShortDrxCycleLengthMs512 | ShortDrxCycleLengthMs640

type_synonym short_drx_cycle_timer = u8

record drx_cycle =
  drx_cycle_long_drx_cycle_length :: long_drx_cycle_length
  drx_cycle_short_drx_cycle_length :: "short_drx_cycle_length option"
  drx_cycle_short_drx_cycle_timer :: "short_drx_cycle_timer option"

type_synonym resource_coordination_transfer_container = bytes

type_synonym s_cell_index = u8

type_synonym serving_cell_mo = u8

record s_cell_to_be_setup_item =
  s_cell_to_be_setup_item_s_cell_id :: nr_cgi
  s_cell_to_be_setup_item_s_cell_index :: s_cell_index
  s_cell_to_be_setup_item_s_cell_ul_configured :: "cell_ul_configured option"
  s_cell_to_be_setup_item_serving_cell_mo :: "serving_cell_mo option"

type_synonym s_cell_to_be_setup_list = "s_cell_to_be_setup_item list"

datatype duplication_indication = DuplicationIndicationTrue

datatype additional_duplication_indication =
    AdditionalDuplicationIndicationThree | AdditionalDuplicationIndicationFour

record srbs_to_be_setup_item =
  srbs_to_be_setup_item_srb_id :: u8
  srbs_to_be_setup_item_duplication_indication :: "duplication_indication option"
  srbs_to_be_setup_item_additional_duplication_indication :: "additional_duplication_indication option"

type_synonym srbs_to_be_setup_list = "srbs_to_be_setup_item list"

type_synonym drb_id = u8

type_synonym qci = u8

type_synonym priority_level = u8

datatype pre_emption_capability =
    PreEmptionCapabilityShallNotTriggerPreEmption | PreEmptionCapabilityMayTriggerPreEmption

datatype pre_emption_vulnerability =
    PreEmptionVulnerabilityNotPreEmptable | PreEmptionVulnerabilityPreEmptable

record allocation_and_retention_priority =
  allocation_and_retention_priority_priority_level :: priority_level
  allocation_and_retention_priority_pre_emption_capability :: pre_emption_capability
  allocation_and_retention_priority_pre_emption_vulnerability :: pre_emption_vulnerability

type_synonym bit_rate = u64

record gbr_qos_information =
  gbr_qos_information_e_rab_maximum_bitrate_dl :: bit_rate
  gbr_qos_information_e_rab_maximum_bitrate_ul :: bit_rate
  gbr_qos_information_e_rab_guaranteed_bitrate_dl :: bit_rate
  gbr_qos_information_e_rab_guaranteed_bitrate_ul :: bit_rate

record eutran_qos =
  eutran_qos_qci :: qci
  eutran_qos_allocation_and_retention_priority :: allocation_and_retention_priority
  eutran_qos_gbr_qos_information :: "gbr_qos_information option"

type_synonym averaging_window = u16

type_synonym max_data_burst_volume = int

type_synonym extended_packet_delay_budget = u16

record non_dynamic5qi_descriptor =
  non_dynamic5qi_descriptor_five_qi :: u8
  non_dynamic5qi_descriptor_qos_priority_level :: "u8 option"
  non_dynamic5qi_descriptor_averaging_window :: "averaging_window option"
  non_dynamic5qi_descriptor_max_data_burst_volume :: "max_data_burst_volume option"
  non_dynamic5qi_descriptor_cn_packet_delay_budget_downlink :: "extended_packet_delay_budget option"
  non_dynamic5qi_descriptor_cn_packet_delay_budget_uplink :: "extended_packet_delay_budget option"

type_synonym packet_delay_budget = u16

type_synonym per_scalar = u8

type_synonym per_exponent = u8

record packet_error_rate =
  packet_error_rate_per_scalar :: per_scalar
  packet_error_rate_per_exponent :: per_exponent

datatype delay_critical = DelayCriticalDelayCritical | DelayCriticalNonDelayCritical

record dynamic5qi_descriptor =
  dynamic5qi_descriptor_qos_priority_level :: u8
  dynamic5qi_descriptor_packet_delay_budget :: packet_delay_budget
  dynamic5qi_descriptor_packet_error_rate :: packet_error_rate
  dynamic5qi_descriptor_five_qi :: "u8 option"
  dynamic5qi_descriptor_delay_critical :: "delay_critical option"
  dynamic5qi_descriptor_averaging_window :: "averaging_window option"
  dynamic5qi_descriptor_max_data_burst_volume :: "max_data_burst_volume option"
  dynamic5qi_descriptor_extended_packet_delay_budget :: "extended_packet_delay_budget option"
  dynamic5qi_descriptor_cn_packet_delay_budget_downlink :: "extended_packet_delay_budget option"
  dynamic5qi_descriptor_cn_packet_delay_budget_uplink :: "extended_packet_delay_budget option"

datatype qos_characteristics =
    QosCharacteristicsNonDynamic5qi non_dynamic5qi_descriptor
  | QosCharacteristicsDynamic5qi dynamic5qi_descriptor

record ngran_allocation_and_retention_priority =
  ngran_allocation_and_retention_priority_priority_level :: priority_level
  ngran_allocation_and_retention_priority_pre_emption_capability :: pre_emption_capability
  ngran_allocation_and_retention_priority_pre_emption_vulnerability :: pre_emption_vulnerability

type_synonym max_packet_loss_rate = u16

type_synonym qos_para_set_index = u8

record alternative_qos_para_set_item =
  alternative_qos_para_set_item_alternative_qos_para_set_index :: qos_para_set_index
  alternative_qos_para_set_item_guaranteed_flow_bit_rate_dl :: "bit_rate option"
  alternative_qos_para_set_item_guaranteed_flow_bit_rate_ul :: "bit_rate option"
  alternative_qos_para_set_item_packet_delay_budget :: "packet_delay_budget option"
  alternative_qos_para_set_item_packet_error_rate :: "packet_error_rate option"

type_synonym alternative_qos_para_set_list = "alternative_qos_para_set_item list"

record gbr_qos_flow_information =
  gbr_qos_flow_information_max_flow_bit_rate_downlink :: bit_rate
  gbr_qos_flow_information_max_flow_bit_rate_uplink :: bit_rate
  gbr_qos_flow_information_guaranteed_flow_bit_rate_downlink :: bit_rate
  gbr_qos_flow_information_guaranteed_flow_bit_rate_uplink :: bit_rate
  gbr_qos_flow_information_max_packet_loss_rate_downlink :: "max_packet_loss_rate option"
  gbr_qos_flow_information_max_packet_loss_rate_uplink :: "max_packet_loss_rate option"
  gbr_qos_flow_information_alternative_qos_para_set_list :: "alternative_qos_para_set_list option"

datatype reflective_qos_attribute = ReflectiveQosAttributeSubjectTo

datatype qos_monitoring_request =
    QosMonitoringRequestUl | QosMonitoringRequestDl | QosMonitoringRequestBoth

record qos_flow_level_qos_parameters =
  qos_flow_level_qos_parameters_qos_characteristics :: qos_characteristics
  qos_flow_level_qos_parameters_ngran_allocation_retention_priority :: ngran_allocation_and_retention_priority
  qos_flow_level_qos_parameters_gbr_qos_flow_information :: "gbr_qos_flow_information option"
  qos_flow_level_qos_parameters_reflective_qos_attribute :: "reflective_qos_attribute option"
  qos_flow_level_qos_parameters_pdu_session_id :: "u8 option"
  qos_flow_level_qos_parameters_ulpdu_session_aggregate_maximum_bit_rate :: "bit_rate option"
  qos_flow_level_qos_parameters_qos_monitoring_request :: "qos_monitoring_request option"

datatype notification_control = NotificationControlActive | NotificationControlNotActive

type_synonym qos_flow_identifier = u8

datatype qos_flow_mapping_indication = QosFlowMappingIndicationUl | QosFlowMappingIndicationDl

type_synonym periodicity = u32

type_synonym burst_arrival_time = bytes

record tsc_assistance_information =
  tsc_assistance_information_periodicity :: periodicity
  tsc_assistance_information_burst_arrival_time :: "burst_arrival_time option"

record tsc_traffic_characteristics =
  tsc_traffic_characteristics_tsc_assistance_information_dl :: "tsc_assistance_information option"
  tsc_traffic_characteristics_tsc_assistance_information_ul :: "tsc_assistance_information option"

record flows_mapped_to_drb_item =
  flows_mapped_to_drb_item_qos_flow_identifier :: qos_flow_identifier
  flows_mapped_to_drb_item_qos_flow_level_qos_parameters :: qos_flow_level_qos_parameters
  flows_mapped_to_drb_item_qos_flow_mapping_indication :: "qos_flow_mapping_indication option"
  flows_mapped_to_drb_item_tsc_traffic_characteristics :: "tsc_traffic_characteristics option"

type_synonym flows_mapped_to_drb_list = "flows_mapped_to_drb_item list"

record drb_information =
  drb_information_drb_qos :: qos_flow_level_qos_parameters
  drb_information_snssai :: f1ap_snssai
  drb_information_notification_control :: "notification_control option"
  drb_information_flows_mapped_to_drb_list :: flows_mapped_to_drb_list

datatype qos_information =
    QosInformationEutranQos eutran_qos
  | QosInformationDrbInformation drb_information

datatype up_transport_layer_information =
    UpTransportLayerInformationGtpTunnel gtp_tunnel

record ul_up_tnl_information_to_be_setup_item =
  ul_up_tnl_information_to_be_setup_item_ul_up_tnl_information :: up_transport_layer_information
  ul_up_tnl_information_to_be_setup_item_bh_info :: "bh_info option"

type_synonym ul_up_tnl_information_to_be_setup_list = "ul_up_tnl_information_to_be_setup_item list"

datatype rlc_mode =
    RlcModeRlcAm | RlcModeRlcUmBidirectional | RlcModeRlcUmUnidirectionalUl
    | RlcModeRlcUmUnidirectionalDl

datatype ul_ue_configuration =
    UlUeConfigurationNoData | UlUeConfigurationShared | UlUeConfigurationOnly

record ul_configuration =
  ul_configuration_ul_ue_configuration :: ul_ue_configuration

datatype duplication_activation = DuplicationActivationActive | DuplicationActivationInactive

datatype dc_based_duplication_configured = DcBasedDuplicationConfiguredTrue

datatype pdcpsn_length = PdcpsnLengthTwelveBits | PdcpsnLengthEighteenBits

record additional_pdcp_duplication_tnl_item =
  additional_pdcp_duplication_tnl_item_additional_pdcp_duplication_up_tnl_information :: up_transport_layer_information
  additional_pdcp_duplication_tnl_item_bh_info :: "bh_info option"

type_synonym additional_pdcp_duplication_tnl_list = "additional_pdcp_duplication_tnl_item list"

datatype duplication_state = DuplicationStateActive | DuplicationStateInactive

record rlc_duplication_state_item =
  rlc_duplication_state_item_duplication_state :: duplication_state

type_synonym rlc_duplication_state_list = "rlc_duplication_state_item list"

datatype primary_path_indication = PrimaryPathIndicationTrue | PrimaryPathIndicationFalse

record rlc_duplication_information =
  rlc_duplication_information_rlc_duplication_state_list :: rlc_duplication_state_list
  rlc_duplication_information_primary_path_indication :: "primary_path_indication option"

record drbs_to_be_setup_item =
  drbs_to_be_setup_item_drb_id :: drb_id
  drbs_to_be_setup_item_qos_information :: qos_information
  drbs_to_be_setup_item_ul_up_tnl_information_to_be_setup_list :: ul_up_tnl_information_to_be_setup_list
  drbs_to_be_setup_item_rlc_mode :: rlc_mode
  drbs_to_be_setup_item_ul_configuration :: "ul_configuration option"
  drbs_to_be_setup_item_duplication_activation :: "duplication_activation option"
  drbs_to_be_setup_item_dc_based_duplication_configured :: "dc_based_duplication_configured option"
  drbs_to_be_setup_item_dc_based_duplication_activation :: "duplication_activation option"
  drbs_to_be_setup_item_dlpdcpsn_length :: "pdcpsn_length option"
  drbs_to_be_setup_item_ulpdcpsn_length :: "pdcpsn_length option"
  drbs_to_be_setup_item_additional_pdcp_duplication_tnl_list :: "additional_pdcp_duplication_tnl_list option"
  drbs_to_be_setup_item_rlc_duplication_information :: "rlc_duplication_information option"

type_synonym drbs_to_be_setup_list = "drbs_to_be_setup_item list"

datatype inactivity_monitoring_request = InactivityMonitoringRequestTrue

type_synonym masked_imeisv = bits

type_synonym eutra_cell_id = bits

type_synonym extended_earfcn = u32

datatype eutra_transmission_bandwidth =
    EutraTransmissionBandwidthBw6 | EutraTransmissionBandwidthBw15 | EutraTransmissionBandwidthBw25
    | EutraTransmissionBandwidthBw50 | EutraTransmissionBandwidthBw75
    | EutraTransmissionBandwidthBw100

record eutra_coex_fdd_info =
  eutra_coex_fdd_info_ul_earfcn :: "extended_earfcn option"
  eutra_coex_fdd_info_dl_earfcn :: extended_earfcn
  eutra_coex_fdd_info_ul_transmission_bandwidth :: "eutra_transmission_bandwidth option"
  eutra_coex_fdd_info_dl_transmission_bandwidth :: eutra_transmission_bandwidth

datatype eutra_subframe_assignment =
    EutraSubframeAssignmentSa0 | EutraSubframeAssignmentSa1 | EutraSubframeAssignmentSa2
    | EutraSubframeAssignmentSa3 | EutraSubframeAssignmentSa4 | EutraSubframeAssignmentSa5
    | EutraSubframeAssignmentSa6

datatype eutra_special_subframe_patterns =
    EutraSpecialSubframePatternsSsp0 | EutraSpecialSubframePatternsSsp1
    | EutraSpecialSubframePatternsSsp2 | EutraSpecialSubframePatternsSsp3
    | EutraSpecialSubframePatternsSsp4 | EutraSpecialSubframePatternsSsp5
    | EutraSpecialSubframePatternsSsp6 | EutraSpecialSubframePatternsSsp7
    | EutraSpecialSubframePatternsSsp8 | EutraSpecialSubframePatternsSsp9
    | EutraSpecialSubframePatternsSsp10

datatype eutra_cyclic_prefix_dl = EutraCyclicPrefixDlNormal | EutraCyclicPrefixDlExtended

datatype eutra_cyclic_prefix_ul = EutraCyclicPrefixUlNormal | EutraCyclicPrefixUlExtended

record eutra_special_subframe_info =
  eutra_special_subframe_info_special_subframe_patterns :: eutra_special_subframe_patterns
  eutra_special_subframe_info_cyclic_prefix_dl :: eutra_cyclic_prefix_dl
  eutra_special_subframe_info_cyclic_prefix_ul :: eutra_cyclic_prefix_ul

record eutra_coex_tdd_info =
  eutra_coex_tdd_info_earfcn :: extended_earfcn
  eutra_coex_tdd_info_transmission_bandwidth :: eutra_transmission_bandwidth
  eutra_coex_tdd_info_subframe_assignment :: eutra_subframe_assignment
  eutra_coex_tdd_info_special_subframe_info :: eutra_special_subframe_info

datatype eutra_coex_mode_info =
    EutraCoexModeInfoFdd eutra_coex_fdd_info
  | EutraCoexModeInfoTdd eutra_coex_tdd_info

record eutra_prach_configuration =
  eutra_prach_configuration_root_sequence_index :: u16
  eutra_prach_configuration_zero_correlation_index :: u8
  eutra_prach_configuration_high_speed_flag :: bool
  eutra_prach_configuration_prach_freq_offset :: u8
  eutra_prach_configuration_prach_config_index :: "u8 option"

datatype ignore_prach_configuration = IgnorePrachConfigurationTrue

record resource_coordination_eutra_cell_info =
  resource_coordination_eutra_cell_info_eutra_mode_info :: eutra_coex_mode_info
  resource_coordination_eutra_cell_info_eutra_prach_configuration :: eutra_prach_configuration
  resource_coordination_eutra_cell_info_ignore_prach_configuration :: "ignore_prach_configuration option"

record resource_coordination_transfer_information =
  resource_coordination_transfer_information_m_enb_cell_id :: eutra_cell_id
  resource_coordination_transfer_information_resource_coordination_eutra_cell_info :: "resource_coordination_eutra_cell_info option"

type_synonym trace_id = bytes

type_synonym interfaces_to_trace = bits

datatype trace_depth =
    TraceDepthMinimum | TraceDepthMedium | TraceDepthMaximum
    | TraceDepthMinimumWithoutVendorSpecificExtension
    | TraceDepthMediumWithoutVendorSpecificExtension
    | TraceDepthMaximumWithoutVendorSpecificExtension

datatype mdt_activation = MdtActivationImmediateMdtOnly | MdtActivationImmediateMdtAndTrace

type_synonym measurements_to_activate = bits

datatype m2_configuration = M2ConfigurationTrue

datatype m5period =
    M5periodMs1024 | M5periodMs2048 | M5periodMs5120 | M5periodMs10240 | M5periodMin1

datatype m5_links_to_log =
    M5LinksToLogUplink | M5LinksToLogDownlink | M5LinksToLogBothUplinkAndDownlink

record m5_configuration =
  m5_configuration_m5period :: m5period
  m5_configuration_m5_links_to_log :: m5_links_to_log

datatype m6report_interval =
    M6reportIntervalMs120 | M6reportIntervalMs240 | M6reportIntervalMs640 | M6reportIntervalMs1024
    | M6reportIntervalMs2048 | M6reportIntervalMs5120 | M6reportIntervalMs10240
    | M6reportIntervalMs20480 | M6reportIntervalMs40960 | M6reportIntervalMin1
    | M6reportIntervalMin6 | M6reportIntervalMin12 | M6reportIntervalMin30

datatype m6_links_to_log =
    M6LinksToLogUplink | M6LinksToLogDownlink | M6LinksToLogBothUplinkAndDownlink

record m6_configuration =
  m6_configuration_m6report_interval :: m6report_interval
  m6_configuration_m6_links_to_log :: m6_links_to_log

type_synonym m7period = u8

datatype m7_links_to_log = M7LinksToLogDownlink

record m7_configuration =
  m7_configuration_m7period :: m7period
  m7_configuration_m7_links_to_log :: m7_links_to_log

record mdt_configuration =
  mdt_configuration_mdt_activation :: mdt_activation
  mdt_configuration_measurements_to_activate :: measurements_to_activate
  mdt_configuration_m2_configuration :: "m2_configuration option"
  mdt_configuration_m5_configuration :: "m5_configuration option"
  mdt_configuration_m6_configuration :: "m6_configuration option"
  mdt_configuration_m7_configuration :: "m7_configuration option"

type_synonym uri_address = string

record trace_activation =
  trace_activation_trace_id :: trace_id
  trace_activation_interfaces_to_trace :: interfaces_to_trace
  trace_activation_trace_depth :: trace_depth
  trace_activation_trace_collection_entity_ip_address :: transport_layer_address
  trace_activation_mdt_configuration :: "mdt_configuration option"
  trace_activation_trace_collection_entity_uri :: "uri_address option"

type_synonym cp_traffic_type = u8

datatype bh_qos_information =
    BhQosInformationBhrlcchQos qos_flow_level_qos_parameters
  | BhQosInformationEutranBhrlcchQos eutran_qos
  | BhQosInformationCpTrafficType cp_traffic_type

datatype bap_ctrl_pdu_channel = BapCtrlPduChannelTrue

type_synonym mapping_information_index = bits

datatype iabtnl_address =
    IabtnlAddressIPv4Address bits
  | IabtnlAddressIPv6Address bits
  | IabtnlAddressIPv6Prefix bits

type_synonym dscp = bits

type_synonym ds_information_list = "dscp list"

record ip_header_information =
  ip_header_information_destination_iabtnl_address :: iabtnl_address
  ip_header_information_ds_information_list :: "ds_information_list option"
  ip_header_information_i_pv_6_flow_label :: "bits option"

record i_ptolayer2_traffic_mapping_info_item =
  i_ptolayer2_traffic_mapping_info_item_mapping_information_index :: mapping_information_index
  i_ptolayer2_traffic_mapping_info_item_ip_header_information :: ip_header_information
  i_ptolayer2_traffic_mapping_info_item_bh_info :: bh_info

type_synonym i_ptolayer2_traffic_mapping_info_list = "i_ptolayer2_traffic_mapping_info_item list"

type_synonym mapping_informationto_remove = "mapping_information_index list"

record i_ptolayer2_traffic_mapping_info =
  i_ptolayer2_traffic_mapping_info_i_ptolayer_2_traffic_mapping_info_to_add :: "i_ptolayer2_traffic_mapping_info_list option"
  i_ptolayer2_traffic_mapping_info_i_ptolayer_2_traffic_mapping_info_to_remove :: "mapping_informationto_remove option"

record ba_player_bhrl_cchannel_mapping_info_item =
  ba_player_bhrl_cchannel_mapping_info_item_mapping_information_index :: mapping_information_index
  ba_player_bhrl_cchannel_mapping_info_item_prior_hop_bap_address :: "bap_address option"
  ba_player_bhrl_cchannel_mapping_info_item_ingressb_hrlc_channel_id :: "bhrlc_channel_id option"
  ba_player_bhrl_cchannel_mapping_info_item_next_hop_bap_address :: "bap_address option"
  ba_player_bhrl_cchannel_mapping_info_item_egressb_hrlc_channel_id :: "bhrlc_channel_id option"

type_synonym ba_player_bhrl_cchannel_mapping_info_list = "ba_player_bhrl_cchannel_mapping_info_item list"

record ba_player_bhrl_cchannel_mapping_info =
  ba_player_bhrl_cchannel_mapping_info_ba_player_bhrl_cchannel_mapping_info_to_add :: "ba_player_bhrl_cchannel_mapping_info_list option"
  ba_player_bhrl_cchannel_mapping_info_ba_player_bhrl_cchannel_mapping_info_to_remove :: "mapping_informationto_remove option"

datatype traffic_mapping_info =
    TrafficMappingInfoIPtolayer2TrafficMappingInfo i_ptolayer2_traffic_mapping_info
  | TrafficMappingInfoBaPlayerBhrlCchannelMappingInfo ba_player_bhrl_cchannel_mapping_info

record bh_channels_to_be_setup_item =
  bh_channels_to_be_setup_item_bhrlc_channel_id :: bhrlc_channel_id
  bh_channels_to_be_setup_item_bh_qos_information :: bh_qos_information
  bh_channels_to_be_setup_item_rl_cmode :: rlc_mode
  bh_channels_to_be_setup_item_bap_ctrl_pdu_channel :: "bap_ctrl_pdu_channel option"
  bh_channels_to_be_setup_item_traffic_mapping_info :: "traffic_mapping_info option"

type_synonym bh_channels_to_be_setup_list = "bh_channels_to_be_setup_item list"

datatype vehicle_ue = VehicleUeAuthorized | VehicleUeNotAuthorized

datatype pedestrian_ue = PedestrianUeAuthorized | PedestrianUeNotAuthorized

record nr_v2x_services_authorized =
  nr_v2x_services_authorized_vehicle_ue :: "vehicle_ue option"
  nr_v2x_services_authorized_pedestrian_ue :: "pedestrian_ue option"

record ltev2x_services_authorized =
  ltev2x_services_authorized_vehicle_ue :: "vehicle_ue option"
  ltev2x_services_authorized_pedestrian_ue :: "pedestrian_ue option"

record nr_ue_sidelink_aggregate_maximum_bitrate =
  nr_ue_sidelink_aggregate_maximum_bitrate_ue_nr_sidelink_aggregate_maximum_bitrate :: bit_rate

record lte_ue_sidelink_aggregate_maximum_bitrate =
  lte_ue_sidelink_aggregate_maximum_bitrate_ue_lte_sidelink_aggregate_maximum_bitrate :: bit_rate

type_synonym sl_drb_id = u16

record non_dynamic_pqi_descriptor =
  non_dynamic_pqi_descriptor_five_qi :: u8
  non_dynamic_pqi_descriptor_qos_priority_level :: "u8 option"
  non_dynamic_pqi_descriptor_averaging_window :: "averaging_window option"
  non_dynamic_pqi_descriptor_max_data_burst_volume :: "max_data_burst_volume option"

datatype resource_type1 = ResourceType1Gbr | ResourceType1NonGbr | ResourceType1DelayCriticalGrb

record dynamic_pqi_descriptor =
  dynamic_pqi_descriptor_resource_type :: "resource_type1 option"
  dynamic_pqi_descriptor_qos_priority_level :: u8
  dynamic_pqi_descriptor_packet_delay_budget :: packet_delay_budget
  dynamic_pqi_descriptor_packet_error_rate :: packet_error_rate
  dynamic_pqi_descriptor_averaging_window :: "averaging_window option"
  dynamic_pqi_descriptor_max_data_burst_volume :: "max_data_burst_volume option"

datatype pc5_qos_characteristics =
    Pc5QosCharacteristicsNonDynamicPqi non_dynamic_pqi_descriptor
  | Pc5QosCharacteristicsDynamicPqi dynamic_pqi_descriptor

record pc5_flow_bit_rates =
  pc5_flow_bit_rates_guaranteed_flow_bit_rate :: bit_rate
  pc5_flow_bit_rates_maximum_flow_bit_rate :: bit_rate

record pc5_qos_parameters =
  pc5_qos_parameters_pc5_qos_characteristics :: pc5_qos_characteristics
  pc5_qos_parameters_pc5_qos_flow_bit_rates :: "pc5_flow_bit_rates option"

type_synonym pc5_qos_flow_identifier = u16

record flows_mapped_to_sl_drb_item =
  flows_mapped_to_sl_drb_item_pc_5_qos_flow_identifier :: pc5_qos_flow_identifier

type_synonym flows_mapped_to_sl_drb_list = "flows_mapped_to_sl_drb_item list"

record sl_drb_information =
  sl_drb_information_sl_drb_qos :: pc5_qos_parameters
  sl_drb_information_flows_mapped_to_sl_drb_list :: flows_mapped_to_sl_drb_list

record sl_drbs_to_be_setup_item =
  sl_drbs_to_be_setup_item_sl_drb_id :: sl_drb_id
  sl_drbs_to_be_setup_item_sl_drb_information :: sl_drb_information
  sl_drbs_to_be_setup_item_rlc_mode :: rlc_mode

type_synonym sl_drbs_to_be_setup_list = "sl_drbs_to_be_setup_item list"

datatype ch_otrigger_inter_du = ChOtriggerInterDuChoInitiation | ChOtriggerInterDuChoReplace

type_synonym cho_probability = u8

record conditional_inter_du_mobility_information =
  conditional_inter_du_mobility_information_cho_trigger :: ch_otrigger_inter_du
  conditional_inter_du_mobility_information_target_gnb_du_ue_f1apid :: "u32 option"
  conditional_inter_du_mobility_information_estimated_arrival_probability :: "cho_probability option"

type_synonym mdt_plmn_list = "bytes list"

datatype f1c_path_nsa = F1cPathNsaLte | F1cPathNsaNr | F1cPathNsaBoth

record f1c_transfer_path =
  f1c_transfer_path_f1c_path_nsa :: f1c_path_nsa

record ue_context_setup_request =
  csr_gnb_cu_ue_f1ap_id :: u32
  csr_gnb_du_ue_f1ap_id :: "u32 option"
  csr_sp_cell_id :: nr_cgi
  csr_serv_cell_index :: serv_cell_index
  csr_sp_cell_ul_configured :: "cell_ul_configured option"
  csr_cu_to_du_rrc_information :: cu_to_du_rrc_information
  csr_candidate_sp_cell_list :: "candidate_sp_cell_list option"
  csr_drx_cycle :: "drx_cycle option"
  csr_resource_coordination_transfer_container :: "resource_coordination_transfer_container option"
  csr_s_cell_to_be_setup_list :: "s_cell_to_be_setup_list option"
  csr_srbs_to_be_setup_list :: "srbs_to_be_setup_list option"
  csr_drbs_to_be_setup_list :: "drbs_to_be_setup_list option"
  csr_inactivity_monitoring_request :: "inactivity_monitoring_request option"
  csr_rat_frequency_priority_information :: "rat_frequency_priority_information option"
  csr_rrc_container :: "bytes option"
  csr_masked_imeisv :: "masked_imeisv option"
  csr_serving_plmn :: "bytes option"
  csr_gnb_du_ue_ambr_ul :: "bit_rate option"
  csr_rrc_delivery_status_request :: "rrc_delivery_status_request option"
  csr_resource_coordination_transfer_information :: "resource_coordination_transfer_information option"
  csr_serving_cell_mo :: "serving_cell_mo option"
  csr_new_gnb_cu_ue_f1ap_id :: "u32 option"
  csr_ran_ue_id :: "bytes option"
  csr_trace_activation :: "trace_activation option"
  csr_additional_rrm_priority_index :: "bits option"
  csr_bh_channels_to_be_setup_list :: "bh_channels_to_be_setup_list option"
  csr_configured_bap_address :: "bap_address option"
  csr_nr_v2x_services_authorized :: "nr_v2x_services_authorized option"
  csr_ltev2x_services_authorized :: "ltev2x_services_authorized option"
  csr_nr_ue_sidelink_aggregate_maximum_bitrate :: "nr_ue_sidelink_aggregate_maximum_bitrate option"
  csr_lte_ue_sidelink_aggregate_maximum_bitrate :: "lte_ue_sidelink_aggregate_maximum_bitrate option"
  csr_pc5_link_ambr :: "bit_rate option"
  csr_sl_drbs_to_be_setup_list :: "sl_drbs_to_be_setup_list option"
  csr_conditional_inter_du_mobility_information :: "conditional_inter_du_mobility_information option"
  csr_management_based_mdt_plmn_list :: "mdt_plmn_list option"
  csr_serving_nid :: "nid option"
  csr_f1c_transfer_path :: "f1c_transfer_path option"

type_synonym meas_gap_config = bytes

type_synonym drx_long_cycle_start_offset = u16

type_synonym selected_band_combination_index = bytes

type_synonym selected_feature_set_entry_index = bytes

type_synonym ph_info_scg = bytes

type_synonym requested_band_combination_index = bytes

type_synonym requested_feature_set_entry_index = bytes

type_synonym drx_config = bytes

type_synonym pdcch_blind_detection_scg = bytes

type_synonym requested_pdcch_blind_detection_scg = bytes

type_synonym ph_info_mcg = bytes

type_synonym meas_gap_sharing_config = bytes

type_synonym sl_phy_mac_rlc_config = bytes

type_synonym sl_config_dedicated_eutra_info = bytes

type_synonym requested_p_max_fr2 = bytes

record du_to_cu_rrc_information =
  du_to_cu_rrc_information_cell_group_config :: cell_group_config
  du_to_cu_rrc_information_meas_gap_config :: "meas_gap_config option"
  du_to_cu_rrc_information_requested_p_max_fr1 :: "bytes option"
  du_to_cu_rrc_information_drx_long_cycle_start_offset :: "drx_long_cycle_start_offset option"
  du_to_cu_rrc_information_selected_band_combination_index :: "selected_band_combination_index option"
  du_to_cu_rrc_information_selected_feature_set_entry_index :: "selected_feature_set_entry_index option"
  du_to_cu_rrc_information_ph_info_scg :: "ph_info_scg option"
  du_to_cu_rrc_information_requested_band_combination_index :: "requested_band_combination_index option"
  du_to_cu_rrc_information_requested_feature_set_entry_index :: "requested_feature_set_entry_index option"
  du_to_cu_rrc_information_drx_config :: "drx_config option"
  du_to_cu_rrc_information_pdcch_blind_detection_scg :: "pdcch_blind_detection_scg option"
  du_to_cu_rrc_information_requested_pdcch_blind_detection_scg :: "requested_pdcch_blind_detection_scg option"
  du_to_cu_rrc_information_ph_info_mcg :: "ph_info_mcg option"
  du_to_cu_rrc_information_meas_gap_sharing_config :: "meas_gap_sharing_config option"
  du_to_cu_rrc_information_sl_phy_mac_rlc_config :: "sl_phy_mac_rlc_config option"
  du_to_cu_rrc_information_sl_config_dedicated_eutra_info :: "sl_config_dedicated_eutra_info option"
  du_to_cu_rrc_information_requested_p_max_fr2 :: "requested_p_max_fr2 option"

datatype full_configuration = FullConfigurationFull

type_synonym lcid = u8

record dl_up_tnl_information_to_be_setup_item =
  dl_up_tnl_information_to_be_setup_item_dl_up_tnl_information :: up_transport_layer_information

type_synonym dl_up_tnl_information_to_be_setup_list = "dl_up_tnl_information_to_be_setup_item list"

record drbs_setup_item =
  drbs_setup_item_drb_id :: drb_id
  drbs_setup_item_lcid :: "lcid option"
  drbs_setup_item_dl_up_tnl_information_to_be_setup_list :: dl_up_tnl_information_to_be_setup_list
  drbs_setup_item_additional_pdcp_duplication_tnl_list :: "additional_pdcp_duplication_tnl_list option"
  drbs_setup_item_current_qos_para_set_index :: "qos_para_set_index option"

type_synonym drbs_setup_list = "drbs_setup_item list"

record srbs_failed_to_be_setup_item =
  srbs_failed_to_be_setup_item_srb_id :: u8
  srbs_failed_to_be_setup_item_cause :: "cause option"

type_synonym srbs_failed_to_be_setup_list = "srbs_failed_to_be_setup_item list"

record drbs_failed_to_be_setup_item =
  drbs_failed_to_be_setup_item_drb_id :: drb_id
  drbs_failed_to_be_setup_item_cause :: "cause option"

type_synonym drbs_failed_to_be_setup_list = "drbs_failed_to_be_setup_item list"

record s_cell_failedto_setup_item =
  s_cell_failedto_setup_item_s_cell_id :: nr_cgi
  s_cell_failedto_setup_item_cause :: "cause option"

type_synonym s_cell_failedto_setup_list = "s_cell_failedto_setup_item list"

datatype inactivity_monitoring_response = InactivityMonitoringResponseNotSupported

record srbs_setup_item =
  srbs_setup_item_srb_id :: u8
  srbs_setup_item_lcid :: lcid

type_synonym srbs_setup_list = "srbs_setup_item list"

record bh_channels_setup_item =
  bh_channels_setup_item_bhrlc_channel_id :: bhrlc_channel_id

type_synonym bh_channels_setup_list = "bh_channels_setup_item list"

record bh_channels_failed_to_be_setup_item =
  bh_channels_failed_to_be_setup_item_bhrlc_channel_id :: bhrlc_channel_id
  bh_channels_failed_to_be_setup_item_cause :: "cause option"

type_synonym bh_channels_failed_to_be_setup_list = "bh_channels_failed_to_be_setup_item list"

record sl_drbs_setup_item =
  sl_drbs_setup_item_sl_drb_id :: sl_drb_id

type_synonym sl_drbs_setup_list = "sl_drbs_setup_item list"

record sl_drbs_failed_to_be_setup_item =
  sl_drbs_failed_to_be_setup_item_sl_drb_id :: sl_drb_id
  sl_drbs_failed_to_be_setup_item_cause :: "cause option"

type_synonym sl_drbs_failed_to_be_setup_list = "sl_drbs_failed_to_be_setup_item list"

record ue_context_setup_response =
  csp_gnb_cu_ue_f1ap_id :: u32
  csp_gnb_du_ue_f1ap_id :: u32
  csp_du_to_cu_rrc_information :: du_to_cu_rrc_information
  csp_c_rnti :: "u16 option"
  csp_resource_coordination_transfer_container :: "resource_coordination_transfer_container option"
  csp_full_configuration :: "full_configuration option"
  csp_drbs_setup_list :: "drbs_setup_list option"
  csp_srbs_failed_to_be_setup_list :: "srbs_failed_to_be_setup_list option"
  csp_drbs_failed_to_be_setup_list :: "drbs_failed_to_be_setup_list option"
  csp_s_cell_failedto_setup_list :: "s_cell_failedto_setup_list option"
  csp_inactivity_monitoring_response :: "inactivity_monitoring_response option"
  csp_criticality_diagnostics :: "criticality_diagnostics option"
  csp_srbs_setup_list :: "srbs_setup_list option"
  csp_bh_channels_setup_list :: "bh_channels_setup_list option"
  csp_bh_channels_failed_to_be_setup_list :: "bh_channels_failed_to_be_setup_list option"
  csp_sl_drbs_setup_list :: "sl_drbs_setup_list option"
  csp_sl_drbs_failed_to_be_setup_list :: "sl_drbs_failed_to_be_setup_list option"
  csp_requested_target_cell_global_id :: "nr_cgi option"

end
