(* ===== verification/F1ap_Messages.thy ===== *)
theory F1ap_Messages
  imports Nas_Context Rrc_Messages F1ap_Setup_Types F1ap_Context_Types
begin

text \<open>
  The F1AP messages that QCore sends and receives (\<open>5g-libs/f1ap/src/pdu.rs\<close>), all fields included, the
  context of a UE (\<open>qcore/src/data/ue_context.rs\<close>) and the construction of the messages
  (\<open>qcore/src/protocols/f1ap/build.rs\<close>).  The setup, configuration and context setup messages are in
  \<open>F1ap_Setup_Types\<close> and \<open>F1ap_Context_Types\<close>.
\<close>

section \<open>Messages\<close>

record f1_removal_request =
  frr_transaction_id :: u8

record f1_removal_response =
  frp_transaction_id :: u8
  frp_criticality_diagnostics :: "criticality_diagnostics option"

record initial_ul_rrc_message_transfer =
  iut_gnb_du_ue_f1ap_id :: u32
  iut_nr_cgi :: nr_cgi
  iut_c_rnti :: u16
  iut_rrc_container :: bytes
  iut_du_to_cu_rrc_container :: "bytes option"
  iut_sul_access_indication :: "sul_access_indication option"
  iut_transaction_id :: "u8 option"
  iut_ran_ue_id :: "bytes option"
  iut_rrc_container_rrc_setup_complete :: "bytes option"

record dl_rrc_message_transfer =
  drt_gnb_cu_ue_f1ap_id :: u32
  drt_gnb_du_ue_f1ap_id :: u32
  drt_old_gnb_du_ue_f1ap_id :: "u32 option"
  drt_srb_id :: u8
  drt_execute_duplication :: "execute_duplication option"
  drt_rrc_container :: bytes
  drt_rat_frequency_priority_information :: "rat_frequency_priority_information option"
  drt_rrc_delivery_status_request :: "rrc_delivery_status_request option"
  drt_ue_context_not_retrievable :: "ue_context_not_retrievable option"
  drt_redirected_rrc_message :: "bytes option"
  drt_plmn_assistance_info_for_net_shar :: "bytes option"
  drt_new_gnb_cu_ue_f1ap_id :: "u32 option"
  drt_additional_rrm_priority_index :: "bits option"

record ul_rrc_message_transfer =
  urt_gnb_cu_ue_f1ap_id :: u32
  urt_gnb_du_ue_f1ap_id :: u32
  urt_srb_id :: u8
  urt_rrc_container :: bytes
  urt_selected_plmn_id :: "bytes option"
  urt_new_gnb_du_ue_f1ap_id :: "u32 option"

record ue_context_release_request =
  crr_gnb_cu_ue_f1ap_id :: u32
  crr_gnb_du_ue_f1ap_id :: u32
  crr_cause :: cause
  crr_target_cells_to_cancel :: "nr_cgi list option"

record ue_context_release_command =
  crc_gnb_cu_ue_f1ap_id :: u32
  crc_gnb_du_ue_f1ap_id :: u32
  crc_cause :: cause
  crc_rrc_container :: "bytes option"
  crc_srb_id :: "u8 option"
  crc_old_gnb_du_ue_f1ap_id :: "u32 option"
  crc_execute_duplication :: "execute_duplication option"
  crc_rrc_delivery_status_request :: "rrc_delivery_status_request option"
  crc_target_cells_to_cancel :: "nr_cgi list option"

record ue_context_release_complete =
  crp_gnb_cu_ue_f1ap_id :: u32
  crp_gnb_du_ue_f1ap_id :: u32
  crp_criticality_diagnostics :: "criticality_diagnostics option"

record f1_removal_failure =
  frf_transaction_id :: u8
  frf_cause :: cause
  frf_criticality_diagnostics :: "criticality_diagnostics option"

record f1_setup_failure =
  fsf_transaction_id :: u8
  fsf_cause :: cause
  fsf_time_to_wait :: "time_to_wait option"
  fsf_criticality_diagnostics :: "criticality_diagnostics option"

record ue_context_setup_failure =
  csf_gnb_cu_ue_f1ap_id :: u32
  csf_gnb_du_ue_f1ap_id :: "u32 option"
  csf_cause :: cause
  csf_criticality_diagnostics :: "criticality_diagnostics option"
  csf_potential_sp_cell_list :: "nr_cgi list option"
  csf_requested_target_cell_global_id :: "nr_cgi option"

text \<open>
  The messages that QCore neither sends nor handles, by the names of their variants; their contents are
  bytes of which nothing is assumed.
\<close>

datatype other_initiating =
    Reset | GnbCuConfigurationUpdate | UeContextModificationRequest | UeContextModificationRequired
  | WriteReplaceWarningRequest | PwsCancelRequest | ErrorIndication | UeInactivityNotification
  | GnbDuResourceCoordinationRequest | SystemInformationDeliveryCommand | Paging | NotifyMessage
  | NetworkAccessRateReduction | PwsRestartIndication | PwsFailureIndication | GnbDuStatusIndication
  | RrcDeliveryReport | TraceStart | DeactivateTrace | DuCuRadioInformationTransfer
  | CuDuRadioInformationTransfer | BapMappingConfiguration | GnbDuResourceConfiguration
  | IabtnlAddressRequest | IabupConfigurationUpdateRequest | ResourceStatusRequest
  | ResourceStatusUpdate | AccessAndMobilityIndication | ReferenceTimeInformationReportingControl
  | ReferenceTimeInformationReport | AccessSuccess | CellTrafficTrace
  | PositioningAssistanceInformationControl | PositioningAssistanceInformationFeedback
  | PositioningMeasurementRequest | PositioningMeasurementReport | PositioningMeasurementAbort
  | PositioningMeasurementFailureIndication | PositioningMeasurementUpdate | TrpInformationRequest
  | PositioningInformationRequest | PositioningActivationRequest | PositioningDeactivation
  | ECidMeasurementInitiationRequest | ECidMeasurementFailureIndication | ECidMeasurementReport
  | ECidMeasurementTerminationCommand | PositioningInformationUpdate

datatype other_successful =
    ResetAcknowledge | GnbCuConfigurationUpdateAcknowledge | UeContextModificationResponse
  | UeContextModificationConfirm | WriteReplaceWarningResponse | PwsCancelResponse
  | GnbDuResourceCoordinationResponse | BapMappingConfigurationAcknowledge
  | GnbDuResourceConfigurationAcknowledge | IabtnlAddressResponse | IabupConfigurationUpdateResponse
  | ResourceStatusResponse | PositioningMeasurementResponse | TrpInformationResponse
  | PositioningInformationResponse | PositioningActivationResponse | ECidMeasurementInitiationResponse

datatype other_unsuccessful =
    GnbDuConfigurationUpdateFailure | GnbCuConfigurationUpdateFailure | UeContextModificationFailure
  | UeContextModificationRefuse | BapMappingConfigurationFailure | GnbDuResourceConfigurationFailure
  | IabtnlAddressFailure | IabupConfigurationUpdateFailure | ResourceStatusFailure
  | PositioningMeasurementFailure | TrpInformationFailure | PositioningInformationFailure
  | PositioningActivationFailure | ECidMeasurementInitiationFailure

datatype initiating_message =
    F1SetupRequest f1_setup_request
  | F1RemovalRequest f1_removal_request
  | GnbDuConfigurationUpdate gnb_du_configuration_update
  | InitialUlRrcMessageTransfer initial_ul_rrc_message_transfer
  | UlRrcMessageTransfer ul_rrc_message_transfer
  | UeContextReleaseRequest ue_context_release_request
  | DlRrcMessageTransfer dl_rrc_message_transfer
  | UeContextSetupRequest ue_context_setup_request
  | UeContextReleaseCommand ue_context_release_command
  | OtherInitiating other_initiating bytes

datatype successful_outcome =
    F1SetupResponse f1_setup_response
  | F1RemovalResponse f1_removal_response
  | GnbDuConfigurationUpdateAcknowledge gnb_du_configuration_update_ack
  | UeContextSetupResponse ue_context_setup_response
  | UeContextReleaseComplete ue_context_release_complete
  | OtherSuccessful other_successful bytes

datatype unsuccessful_outcome =
    F1SetupFailure f1_setup_failure
  | F1RemovalFailure f1_removal_failure
  | UeContextSetupFailure ue_context_setup_failure
  | OtherUnsuccessful other_unsuccessful bytes

datatype f1ap_pdu =
    InitiatingMessage initiating_message
  | SuccessfulOutcome successful_outcome
  | UnsuccessfulOutcome unsuccessful_outcome

section \<open>The context of a UE\<close>

record ue_context =
  ue_key :: u32
  ue_gnb_du_ue_f1ap_id :: u32
  ue_tmsi :: arr4
  ue_pdu_sessions :: "pdu_session list"
  ue_pdcp_tx :: pdcp_tx
  ue_nr_cgi :: nr_cgi
  ue_nas :: nas_context

text \<open>The random TMSI is an argument.\<close>

definition ue_context_new :: "u32 \<Rightarrow> u32 \<Rightarrow> nr_cgi \<Rightarrow> arr4 \<Rightarrow> ue_context" where
  "ue_context_new ue_id gnb_du_ue_f1ap_id cgi tmsi =
     \<lparr>ue_key = ue_id, ue_gnb_du_ue_f1ap_id = gnb_du_ue_f1ap_id, ue_tmsi = tmsi, ue_pdu_sessions = [],
      ue_pdcp_tx = pdcp_tx_default, ue_nr_cgi = cgi, ue_nas = nas_context_default\<rparr>"

section \<open>Building\<close>

definition served_cell_to_activated :: "gnb_du_served_cells_item \<Rightarrow> bytes \<Rightarrow> cells_to_be_activated_list_item" where
  "served_cell_to_activated served_cell sib_2 =
     (let served_cell_information = gnb_du_served_cells_item_served_cell_information served_cell in
      \<lparr>cells_to_be_activated_list_item_nr_cgi = served_cell_information_nr_cgi served_cell_information,
       cells_to_be_activated_list_item_nr_pci = Some (served_cell_information_nr_pci served_cell_information),
       cells_to_be_activated_list_item_gnb_cu_system_information = Some
         \<lparr>gnb_cu_system_information_sib_type_to_be_updated_list =
            [\<lparr>sib_type_to_be_updated_list_item_sib_type = 2,
              sib_type_to_be_updated_list_item_sib_message = sib_2,
              sib_type_to_be_updated_list_item_value_tag = 0,
              sib_type_to_be_updated_list_item_area_scope = None\<rparr>],
          gnb_cu_system_information_system_information_area_id = None\<rparr>,
       cells_to_be_activated_list_item_available_plmn_list = None,
       cells_to_be_activated_list_item_extended_available_plmn_list = None,
       cells_to_be_activated_list_item_iab_info_iab_donor_cu = None,
       cells_to_be_activated_list_item_available_snpn_id_list = None\<rparr>)"

text \<open>\<open>build_sib2\<close> is a constant message; \<open>sib2_encode\<close> is its encoding.\<close>

definition f1_setup_response_msg :: "rrc_lib \<Rightarrow> f1_setup_request \<Rightarrow> string option \<Rightarrow> error + f1_setup_response" where
  "f1_setup_response_msg lib r gnb_cu_name =
     (case sib2_encode lib of
        None \<Rightarrow> Inl RrcEncodeError
      | Some sib2 \<Rightarrow> Inr
          \<lparr>fsp_transaction_id = fsr_transaction_id r,
           fsp_gnb_cu_name = gnb_cu_name,
           fsp_cells_to_be_activated_list =
             map_option (map (\<lambda>x. served_cell_to_activated x sib2)) (fsr_gnb_du_served_cells_list r),
           fsp_gnb_cu_rrc_version =
             \<lparr>rrc_version_latest_rrc_version = [False, False, False], rrc_version_latest_rrc_version_enhanced = None\<rparr>,
           fsp_transport_layer_address_info = None,
           fsp_ul_bh_non_up_traffic_mapping = None,
           fsp_bap_address = None,
           fsp_extended_gnb_du_name = None\<rparr>)"

definition gnb_du_configuration_update_acknowledge :: "u8 \<Rightarrow> gnb_du_configuration_update_ack" where
  "gnb_du_configuration_update_acknowledge transaction_id =
     \<lparr>gca_transaction_id = transaction_id, gca_cells_to_be_activated_list = None,
      gca_criticality_diagnostics = None, gca_cells_to_be_deactivated_list = None,
      gca_transport_layer_address_info = None, gca_ul_bh_non_up_traffic_mapping = None,
      gca_bap_address = None\<rparr>"

definition dl_rrc_message_transfer_msg :: "u32 \<Rightarrow> u32 \<Rightarrow> bytes \<Rightarrow> u8 \<Rightarrow> dl_rrc_message_transfer" where
  "dl_rrc_message_transfer_msg ue_id gnb_du_ue_f1ap_id rrc_container srb_id =
     \<lparr>drt_gnb_cu_ue_f1ap_id = ue_id, drt_gnb_du_ue_f1ap_id = gnb_du_ue_f1ap_id,
      drt_old_gnb_du_ue_f1ap_id = None, drt_srb_id = srb_id, drt_execute_duplication = None,
      drt_rrc_container = rrc_container, drt_rat_frequency_priority_information = None,
      drt_rrc_delivery_status_request = None, drt_ue_context_not_retrievable = None,
      drt_redirected_rrc_message = None, drt_plmn_assistance_info_for_net_shar = None,
      drt_new_gnb_cu_ue_f1ap_id = None, drt_additional_rrm_priority_index = None\<rparr>"

text \<open>The conversions between the slice identifier of \<open>xxap\<close> and that of F1AP (\<open>5g-libs/f1ap/src/conversion.rs\<close>).\<close>

definition f1ap_snssai_from :: "snssai \<Rightarrow> f1ap_snssai" where
  "f1ap_snssai_from x =
     (case x of Snssai sst sd \<Rightarrow>
        \<lparr>f1ap_snssai_sst = [sst], f1ap_snssai_sd = map_option (\<lambda>(a, b, c). [a, b, c]) sd\<rparr>)"

text \<open>
  The QoS parameters that the DRB and its one flow have in common: 5QI 82 and the default allocation and
  retention priority.
\<close>

definition default_qos :: "u8 option \<Rightarrow> qos_flow_level_qos_parameters" where
  "default_qos pdu_session_id =
     \<lparr>qos_flow_level_qos_parameters_qos_characteristics = QosCharacteristicsNonDynamic5qi
        \<lparr>non_dynamic5qi_descriptor_five_qi = 82,
         non_dynamic5qi_descriptor_qos_priority_level = None,
         non_dynamic5qi_descriptor_averaging_window = None,
         non_dynamic5qi_descriptor_max_data_burst_volume = None,
         non_dynamic5qi_descriptor_cn_packet_delay_budget_downlink = None,
         non_dynamic5qi_descriptor_cn_packet_delay_budget_uplink = None\<rparr>,
      qos_flow_level_qos_parameters_ngran_allocation_retention_priority =
        \<lparr>ngran_allocation_and_retention_priority_priority_level = 14,
         ngran_allocation_and_retention_priority_pre_emption_capability = PreEmptionCapabilityMayTriggerPreEmption,
         ngran_allocation_and_retention_priority_pre_emption_vulnerability = PreEmptionVulnerabilityNotPreEmptable\<rparr>,
      qos_flow_level_qos_parameters_gbr_qos_flow_information = None,
      qos_flow_level_qos_parameters_reflective_qos_attribute = None,
      qos_flow_level_qos_parameters_pdu_session_id = pdu_session_id,
      qos_flow_level_qos_parameters_ulpdu_session_aggregate_maximum_bit_rate = None,
      qos_flow_level_qos_parameters_qos_monitoring_request = None\<rparr>"

definition drb_to_be_setup_item :: "snssai \<Rightarrow> gtp_tunnel \<Rightarrow> u8 \<Rightarrow> u8 \<Rightarrow> drbs_to_be_setup_item" where
  "drb_to_be_setup_item snssai tunnel pdu_session_id flow =
     \<lparr>drbs_to_be_setup_item_drb_id = 1,
      drbs_to_be_setup_item_qos_information = QosInformationDrbInformation
        \<lparr>drb_information_drb_qos = default_qos (Some pdu_session_id),
         drb_information_snssai = f1ap_snssai_from snssai,
         drb_information_notification_control = None,
         drb_information_flows_mapped_to_drb_list =
           [\<lparr>flows_mapped_to_drb_item_qos_flow_identifier = flow,
             flows_mapped_to_drb_item_qos_flow_level_qos_parameters = default_qos None,
             flows_mapped_to_drb_item_qos_flow_mapping_indication = None,
             flows_mapped_to_drb_item_tsc_traffic_characteristics = None\<rparr>]\<rparr>,
      drbs_to_be_setup_item_ul_up_tnl_information_to_be_setup_list =
        [\<lparr>ul_up_tnl_information_to_be_setup_item_ul_up_tnl_information = UpTransportLayerInformationGtpTunnel tunnel,
          ul_up_tnl_information_to_be_setup_item_bh_info = None\<rparr>],
      drbs_to_be_setup_item_rlc_mode = RlcModeRlcUmBidirectional,
      drbs_to_be_setup_item_ul_configuration = None,
      drbs_to_be_setup_item_duplication_activation = None,
      drbs_to_be_setup_item_dc_based_duplication_configured = None,
      drbs_to_be_setup_item_dc_based_duplication_activation = None,
      drbs_to_be_setup_item_dlpdcpsn_length = Some PdcpsnLengthTwelveBits,
      drbs_to_be_setup_item_ulpdcpsn_length = Some PdcpsnLengthTwelveBits,
      drbs_to_be_setup_item_additional_pdcp_duplication_tnl_list = None,
      drbs_to_be_setup_item_rlc_duplication_information = None\<rparr>"

definition scell_to_be_setup_item_msg :: "nr_cgi \<Rightarrow> s_cell_to_be_setup_item" where
  "scell_to_be_setup_item_msg cgi =
     \<lparr>s_cell_to_be_setup_item_s_cell_id = cgi, s_cell_to_be_setup_item_s_cell_index = 1,
      s_cell_to_be_setup_item_s_cell_ul_configured = None, s_cell_to_be_setup_item_serving_cell_mo = None\<rparr>"

definition ue_context_setup_request_msg ::
    "ue_context \<Rightarrow> transport_layer_address \<Rightarrow> pdu_session \<Rightarrow> ue_context_setup_request" where
  "ue_context_setup_request_msg ue tla session =
     \<lparr>csr_gnb_cu_ue_f1ap_id = ue_key ue,
      csr_gnb_du_ue_f1ap_id = Some (ue_gnb_du_ue_f1ap_id ue),
      csr_sp_cell_id = ue_nr_cgi ue,
      csr_serv_cell_index = 0,
      csr_sp_cell_ul_configured = Some CellUlConfiguredNone,
      csr_cu_to_du_rrc_information =
        \<lparr>cu_to_du_rrc_information_cg_config_info = None,
         cu_to_du_rrc_information_ue_capability_rat_container_list = None,
         cu_to_du_rrc_information_meas_config = None,
         cu_to_du_rrc_information_handover_preparation_information = None,
         cu_to_du_rrc_information_cell_group_config = None,
         cu_to_du_rrc_information_measurement_timing_configuration = None,
         cu_to_du_rrc_information_ue_assistance_information = None,
         cu_to_du_rrc_information_cg_config = None,
         cu_to_du_rrc_information_ue_assistance_information_eutra = None\<rparr>,
      csr_candidate_sp_cell_list = None,
      csr_drx_cycle = None,
      csr_resource_coordination_transfer_container = None,
      csr_s_cell_to_be_setup_list = Some [scell_to_be_setup_item_msg (ue_nr_cgi ue)],
      csr_srbs_to_be_setup_list = Some
        [\<lparr>srbs_to_be_setup_item_srb_id = 2, srbs_to_be_setup_item_duplication_indication = None,
          srbs_to_be_setup_item_additional_duplication_indication = None\<rparr>],
      csr_drbs_to_be_setup_list = Some [drb_to_be_setup_item (ps_snssai session)
        \<lparr>transport_layer_address = tla, gtp_teid = uplink_gtp_teid (userplane_info session)\<rparr>
        (ps_id session) (qfi (userplane_info session))],
      csr_inactivity_monitoring_request = None,
      csr_rat_frequency_priority_information = None,
      csr_rrc_container = None,
      csr_masked_imeisv = None,
      csr_serving_plmn = None,
      csr_gnb_du_ue_ambr_ul = Some 1000000,
      csr_rrc_delivery_status_request = Some RrcDeliveryStatusRequestTrue,
      csr_resource_coordination_transfer_information = None,
      csr_serving_cell_mo = None,
      csr_new_gnb_cu_ue_f1ap_id = None,
      csr_ran_ue_id = None,
      csr_trace_activation = None,
      csr_additional_rrm_priority_index = None,
      csr_bh_channels_to_be_setup_list = None,
      csr_configured_bap_address = None,
      csr_nr_v2x_services_authorized = None,
      csr_ltev2x_services_authorized = None,
      csr_nr_ue_sidelink_aggregate_maximum_bitrate = None,
      csr_lte_ue_sidelink_aggregate_maximum_bitrate = None,
      csr_pc5_link_ambr = None,
      csr_sl_drbs_to_be_setup_list = None,
      csr_conditional_inter_du_mobility_information = None,
      csr_management_based_mdt_plmn_list = None,
      csr_serving_nid = None,
      csr_f1c_transfer_path = None\<rparr>"

definition ue_context_release_command_msg :: "ue_context \<Rightarrow> cause \<Rightarrow> ue_context_release_command" where
  "ue_context_release_command_msg ue c =
     \<lparr>crc_gnb_cu_ue_f1ap_id = ue_key ue, crc_gnb_du_ue_f1ap_id = ue_gnb_du_ue_f1ap_id ue,
      crc_cause = c, crc_rrc_container = None, crc_srb_id = Some 1, crc_old_gnb_du_ue_f1ap_id = None,
      crc_execute_duplication = None, crc_rrc_delivery_status_request = None,
      crc_target_cells_to_cancel = None\<rparr>"

section \<open>F1 setup\<close>

abbreviation served_cell :: "gnb_du_served_cells_item \<Rightarrow> served_cell_information" where
  "served_cell \<equiv> gnb_du_served_cells_item_served_cell_information"

definition served_cell_nr_cgi :: "gnb_du_served_cells_item \<Rightarrow> nr_cgi" where
  "served_cell_nr_cgi c = served_cell_information_nr_cgi (served_cell c)"

definition served_cell_nr_pci :: "gnb_du_served_cells_item \<Rightarrow> u16" where
  "served_cell_nr_pci c = served_cell_information_nr_pci (served_cell c)"

text \<open>The only system information block of a cell to be activated.\<close>

definition activated_sib :: "cells_to_be_activated_list_item \<Rightarrow> sib_type_to_be_updated_list_item option" where
  "activated_sib c =
     (case cells_to_be_activated_list_item_gnb_cu_system_information c of
        None \<Rightarrow> None
      | Some info \<Rightarrow> (case gnb_cu_system_information_sib_type_to_be_updated_list info of
            [s] \<Rightarrow> Some s | _ \<Rightarrow> None))"

text \<open>
  C40. The answer to an F1 setup activates exactly the cells the DU serves: the response carries the
  transaction of the request, and its list of cells is present exactly when the DU's is and names the same
  cells, by global identity and physical identity, in the same order, each with the encoded SIB2; the only
  failure is that of encoding SIB2.
\<close>

theorem f1_setup_activates_served_cells:
  "case f1_setup_response_msg lib r name of
     Inl e \<Rightarrow> e = RrcEncodeError \<and> sib2_encode lib = None
   | Inr rsp \<Rightarrow> fsp_transaction_id rsp = fsr_transaction_id r \<and> fsp_gnb_cu_name rsp = name
       \<and> map_option (map (\<lambda>c. (cells_to_be_activated_list_item_nr_cgi c, cells_to_be_activated_list_item_nr_pci c)))
           (fsp_cells_to_be_activated_list rsp)
         = map_option (map (\<lambda>c. (served_cell_nr_cgi c, Some (served_cell_nr_pci c)))) (fsr_gnb_du_served_cells_list r)
       \<and> (\<forall>cells. fsp_cells_to_be_activated_list rsp = Some cells \<longrightarrow>
            (\<forall>c \<in> set cells. map_option (\<lambda>s. (sib_type_to_be_updated_list_item_sib_type s,
                Some (sib_type_to_be_updated_list_item_sib_message s))) (activated_sib c) = Some (2, sib2_encode lib)))"
  by (auto simp: f1_setup_response_msg_def served_cell_to_activated_def served_cell_nr_cgi_def served_cell_nr_pci_def
      activated_sib_def option.map_comp comp_def Let_def split: option.split sum.split)

definition example_nr_freq_info :: nr_freq_info where
  "example_nr_freq_info =
     \<lparr>nr_freq_info_nr_arfcn = 640000, nr_freq_info_sul_information = None,
      nr_freq_info_freq_band_list_nr =
        [\<lparr>freq_band_nr_item_freq_band_indicator_nr = 78, freq_band_nr_item_supported_sul_band_list = []\<rparr>],
      nr_freq_info_frequency_shift7p5khz = None\<rparr>"

definition example_served_cell :: gnb_du_served_cells_item where
  "example_served_cell =
     \<lparr>gnb_du_served_cells_item_served_cell_information =
        \<lparr>served_cell_information_nr_cgi = \<lparr>plmn_identity = [0, 0xf1, 0x10], nr_cell_identity = replicate 36 False\<rparr>,
         served_cell_information_nr_pci = 51,
         served_cell_information_five_gs_tac = Some [0, 0, 1],
         served_cell_information_configured_eps_tac = None,
         served_cell_information_served_plmns =
           [\<lparr>served_plmns_item_plmn_identity = [0, 0xf1, 0x10], served_plmns_item_tai_slice_support_list = None,
             served_plmns_item_npn_support_info = None, served_plmns_item_extended_tai_slice_support_list = None\<rparr>],
         served_cell_information_nr_mode_info = NrModeInfoTdd
           \<lparr>tdd_info_nr_freq_info = example_nr_freq_info,
            tdd_info_transmission_bandwidth =
              \<lparr>transmission_bandwidth_nr_scs = NrScsScs30, transmission_bandwidth_nr_nr_b = NrNrBNrb106\<rparr>,
            tdd_info_intended_tdd_dl_ul_config = None, tdd_info_tdd_ul_dl_config_common_nr = None,
            tdd_info_carrier_list = None\<rparr>,
         served_cell_information_measurement_timing_configuration = [0],
         served_cell_information_ranac = None,
         served_cell_information_extended_served_plmns_list = None,
         served_cell_information_cell_direction = None,
         served_cell_information_b_plmn_id_info_list = None,
         served_cell_information_cell_type = None,
         served_cell_information_configured_tac_indication = None,
         served_cell_information_aggressor_gnb_set_id = None,
         served_cell_information_victim_gnb_set_id = None,
         served_cell_information_iab_info_iab_du = None,
         served_cell_information_ssb_positions_in_burst = None,
         served_cell_information_nr_prach_config = None, served_cell_information_sfn_offset = None\<rparr>,
      gnb_du_served_cells_item_gnb_du_system_information = None\<rparr>"

definition example_setup_request :: f1_setup_request where
  "example_setup_request =
     \<lparr>fsr_transaction_id = 3, fsr_gnb_du_id = 1, fsr_gnb_du_name = None,
      fsr_gnb_du_served_cells_list = Some [example_served_cell],
      fsr_gnb_du_rrc_version =
        \<lparr>rrc_version_latest_rrc_version = [True, False, False], rrc_version_latest_rrc_version_enhanced = None\<rparr>,
      fsr_transport_layer_address_info = None, fsr_bap_address = None, fsr_extended_gnb_cu_name = None\<rparr>"

definition example_rrc_lib :: rrc_lib where
  "example_rrc_lib = \<lparr>rrc_uper = uper_ref, rrc_unset_ies = (\<lambda>_ _. enc_skip), ul_dcch_decode = (\<lambda>_. None), ul_ccch_decode = (\<lambda>_. None),
     sib2_encode = Some [7]\<rparr>"

theorem f1_setup_activates_served_cells_witness:
  "\<exists>rsp c. f1_setup_response_msg example_rrc_lib example_setup_request None = Inr rsp
     \<and> fsp_cells_to_be_activated_list rsp = Some [c] \<and> cells_to_be_activated_list_item_nr_pci c = Some 51
     \<and> map_option sib_type_to_be_updated_list_item_sib_message (activated_sib c) = Some [7]"
  using f1_setup_activates_served_cells [of example_rrc_lib example_setup_request None]
  by (auto simp: example_setup_request_def example_served_cell_def example_rrc_lib_def served_cell_nr_cgi_def
      served_cell_nr_pci_def split: sum.splits)

section \<open>One session, described three times\<close>

text \<open>
  The DU learns about a session from the F1 request, the UE from the RRC reconfiguration and from the
  NAS accept inside it, and the pipelines have the sizes of its headers built in.
\<close>

fun pdcp_header_len :: "pdcp_sn_size \<Rightarrow> nat" where
  "pdcp_header_len Len12bits = 2" | "pdcp_header_len Len18bits = 3"

fun sdap_header_len :: "sdap_header \<Rightarrow> nat" where
  "sdap_header_len SdapHeaderPresent = 1" | "sdap_header_len SdapHeaderAbsent = 0"

definition pdcp_sizes_agree :: "pdcp_sn_size option \<Rightarrow> pdcpsn_length option \<Rightarrow> bool" where
  "pdcp_sizes_agree rrc f1 \<longleftrightarrow> (rrc, f1) \<in> {(Some Len12bits, Some PdcpsnLengthTwelveBits), (Some Len18bits, Some PdcpsnLengthEighteenBits)}"

definition f1_drb :: "ue_context_setup_request \<Rightarrow> drbs_to_be_setup_item" where
  "f1_drb r = hd (the (csr_drbs_to_be_setup_list r))"

definition f1_drb_information :: "ue_context_setup_request \<Rightarrow> drb_information option" where
  "f1_drb_information r =
     (case drbs_to_be_setup_item_qos_information (f1_drb r) of
        QosInformationDrbInformation i \<Rightarrow> Some i | QosInformationEutranQos _ \<Rightarrow> None)"

definition f1_tunnels :: "ue_context_setup_request \<Rightarrow> up_transport_layer_information list" where
  "f1_tunnels r = map ul_up_tnl_information_to_be_setup_item_ul_up_tnl_information
     (drbs_to_be_setup_item_ul_up_tnl_information_to_be_setup_list (f1_drb r))"

definition f1_flows :: "ue_context_setup_request \<Rightarrow> u8 list option" where
  "f1_flows r = map_option (\<lambda>i. map flows_mapped_to_drb_item_qos_flow_identifier
     (drb_information_flows_mapped_to_drb_list i)) (f1_drb_information r)"

definition rrc_drb :: "rrc_reconfiguration_ies \<Rightarrow> drb_to_add_mod" where
  "rrc_drb r = hd (the (drb_to_add_mod_list (the (rc_radio_bearer_config r))))"

definition rrc_sdap :: "rrc_reconfiguration_ies \<Rightarrow> sdap_config" where
  "rrc_sdap r = the (cn_association (rrc_drb r))"

definition rrc_pdcp :: "rrc_reconfiguration_ies \<Rightarrow> pdcp_drb" where
  "rrc_pdcp r = the (pc_drb (the (drb_pdcp_config (rrc_drb r))))"

text \<open>
  C38. The bearer as the DU, the UE and the data plane are told of it: the F1 request and the RRC reconfiguration of a
  session name the same DRB, the same PDU session and the same PDCP sequence number lengths; the uplink tunnel given
  to the DU is the core's address with the session's TEID; and the lengths imply exactly the header sizes that the
  two pipelines assume, an SDAP header on the uplink and none on the downlink.  The QoS flow is not among the things
  that agree; it is the subject of the next property.
\<close>

theorem bearer_setup_consistent:
  assumes "req = ue_context_setup_request_msg ue tla session"
    and "rrc_reconfiguration tid nas cgc (ps_id session) = RrcReconfiguration rc"
  shows "drbs_to_be_setup_item_drb_id (f1_drb req) = drb_identity (rrc_drb rc)
    \<and> map_option (\<lambda>i. qos_flow_level_qos_parameters_pdu_session_id (drb_information_drb_qos i)) (f1_drb_information req)
        = Some (Some (sdap_pdu_session (rrc_sdap rc)))
    \<and> pdcp_sizes_agree (pdcp_sn_size_ul (rrc_pdcp rc)) (drbs_to_be_setup_item_ulpdcpsn_length (f1_drb req))
    \<and> pdcp_sizes_agree (pdcp_sn_size_dl (rrc_pdcp rc)) (drbs_to_be_setup_item_dlpdcpsn_length (f1_drb req))
    \<and> f1_tunnels req = [UpTransportLayerInformationGtpTunnel
          \<lparr>transport_layer_address = tla, gtp_teid = uplink_gtp_teid (userplane_info session)\<rparr>]
    \<and> PDCP_HEADER_LEN = pdcp_header_len (the (pdcp_sn_size_ul (rrc_pdcp rc)))
    \<and> SDAP_HEADER_LEN = sdap_header_len (sdap_header_ul (rrc_sdap rc))
    \<and> DOWNLINK_INNER_PACKET_OFFSET = GTP_EXTENDED_HEADER_LEN + GTP_EXT_HEADER_LEN_NRUP_DL_USER_DATA
        + pdcp_header_len (the (pdcp_sn_size_dl (rrc_pdcp rc))) + sdap_header_len (sdap_header_dl (rrc_sdap rc))"
  using assms
  by (auto simp: ue_context_setup_request_msg_def rrc_reconfiguration_def drb_to_be_setup_item_def drb_config_def
      f1_drb_def f1_drb_information_def f1_tunnels_def rrc_drb_def rrc_sdap_def rrc_pdcp_def pdcp_sizes_agree_def
      default_qos_def userplane_consts)

definition example_cgi :: nr_cgi where
  "example_cgi = \<lparr>plmn_identity = [0, 0xf1, 0x10], nr_cell_identity = []\<rparr>"

definition example_pdu_session :: pdu_session where
  "example_pdu_session = \<lparr>ps_id = 5, ps_snssai = Snssai 1 None, ps_dnn = [], userplane_info = example_session\<rparr>"

theorem bearer_setup_consistent_witness:
  "\<exists>rc. rrc_reconfiguration 0 None [] 5 = RrcReconfiguration rc \<and>
     drbs_to_be_setup_item_drb_id (f1_drb (ue_context_setup_request_msg (ue_context_new 7 8 example_cgi (Arr4 1 2 3 4))
       (tla_from_ip (V4 (Arr4 127 0 0 1))) example_pdu_session)) = drb_identity (rrc_drb rc)"
proof -
  obtain rc where rc: "rrc_reconfiguration 0 None [] (ps_id example_pdu_session) = RrcReconfiguration rc"
    by (simp add: rrc_reconfiguration_def)
  from bearer_setup_consistent [OF refl rc] rc show ?thesis
    by (auto simp: example_pdu_session_def)
qed

text \<open>
  C39. The QoS flow is not described consistently: for every session that the packet processor reserves, the flow
  that the F1 request maps to the DRB is number 0, while the RRC reconfiguration maps flow 1 and the QoS rule
  of the NAS accept sends the UE's traffic to flow 1.
\<close>

theorem qos_flow_mismatch:
  assumes "reserve_userplane_session new_id rnd pp = Some (Inr u, pp')"
    and "userplane_info session = u"
    and "rrc_reconfiguration tid nas cgc sid = RrcReconfiguration rc"
  shows "f1_flows (ue_context_setup_request_msg ue tla session) = Some [0]
    \<and> mapped_qos_flows_to_add (rrc_sdap rc) = Some [1]
    \<and> last authorized_qos_rules = 1"
proof -
  have "qfi u = 0"
    using assms(1) by (auto simp: reserve_userplane_session_def Let_def split: prod.splits if_splits option.splits)
  with assms(2,3) show ?thesis
    by (auto simp: ue_context_setup_request_msg_def rrc_reconfiguration_def drb_to_be_setup_item_def drb_config_def
        f1_drb_def f1_flows_def f1_drb_information_def rrc_drb_def rrc_sdap_def authorized_qos_rules_def)
qed

theorem qos_flow_mismatch_witness:
  "f1_flows (ue_context_setup_request_msg
     (ue_context_new 7 8 example_cgi (Arr4 1 2 3 4)) (tla_from_ip (V4 (Arr4 127 0 0 1))) example_pdu_session) = Some [0]"
proof -
  obtain rc where rc: "rrc_reconfiguration 0 None [] 5 = RrcReconfiguration rc"
    by (simp add: rrc_reconfiguration_def)
  show ?thesis
    using qos_flow_mismatch [OF example_reserve _ rc, of example_pdu_session] by (simp add: example_pdu_session_def)
qed

text \<open>A DU that accepts a context with one bearer.\<close>

definition example_du_to_cu :: "bytes \<Rightarrow> du_to_cu_rrc_information" where
  "example_du_to_cu cell_group_config =
     \<lparr>du_to_cu_rrc_information_cell_group_config = cell_group_config,
      du_to_cu_rrc_information_meas_gap_config = None,
      du_to_cu_rrc_information_requested_p_max_fr1 = None,
      du_to_cu_rrc_information_drx_long_cycle_start_offset = None,
      du_to_cu_rrc_information_selected_band_combination_index = None,
      du_to_cu_rrc_information_selected_feature_set_entry_index = None,
      du_to_cu_rrc_information_ph_info_scg = None,
      du_to_cu_rrc_information_requested_band_combination_index = None,
      du_to_cu_rrc_information_requested_feature_set_entry_index = None,
      du_to_cu_rrc_information_drx_config = None,
      du_to_cu_rrc_information_pdcch_blind_detection_scg = None,
      du_to_cu_rrc_information_requested_pdcch_blind_detection_scg = None,
      du_to_cu_rrc_information_ph_info_mcg = None,
      du_to_cu_rrc_information_meas_gap_sharing_config = None,
      du_to_cu_rrc_information_sl_phy_mac_rlc_config = None,
      du_to_cu_rrc_information_sl_config_dedicated_eutra_info = None,
      du_to_cu_rrc_information_requested_p_max_fr2 = None\<rparr>"

definition example_drb :: "gtp_tunnel \<Rightarrow> drbs_setup_item" where
  "example_drb tunnel =
     \<lparr>drbs_setup_item_drb_id = 1, drbs_setup_item_lcid = None,
      drbs_setup_item_dl_up_tnl_information_to_be_setup_list = [\<lparr>dl_up_tnl_information_to_be_setup_item_dl_up_tnl_information = UpTransportLayerInformationGtpTunnel tunnel\<rparr>],
      drbs_setup_item_additional_pdcp_duplication_tnl_list = None,
      drbs_setup_item_current_qos_para_set_index = None\<rparr>"

definition example_response :: ue_context_setup_response where
  "example_response =
     \<lparr>csp_gnb_cu_ue_f1ap_id = 7, csp_gnb_du_ue_f1ap_id = 8,
      csp_du_to_cu_rrc_information = example_du_to_cu [3], csp_c_rnti = None,
      csp_resource_coordination_transfer_container = None, csp_full_configuration = None,
      csp_drbs_setup_list = Some [example_drb example_tunnel],
      csp_srbs_failed_to_be_setup_list = None, csp_drbs_failed_to_be_setup_list = None,
      csp_s_cell_failedto_setup_list = None, csp_inactivity_monitoring_response = None,
      csp_criticality_diagnostics = None, csp_srbs_setup_list = None,
      csp_bh_channels_setup_list = None, csp_bh_channels_failed_to_be_setup_list = None,
      csp_sl_drbs_setup_list = None, csp_sl_drbs_failed_to_be_setup_list = None,
      csp_requested_target_cell_global_id = None\<rparr>"

end
