(* ===== verification/Ue_Procedures.thy ===== *)
theory Ue_Procedures
  imports F1ap_Messages
begin

text \<open>
  The procedures that one UE task runs (\<open>qcore/src/procedures/ue_procedures/*.rs\<close>).  A procedure is a tree of
  the effects it asks of its environment, the trait \<open>HandlerApi\<close> (\<open>procedures/handler_api.rs\<close>) and the
  channel of the task: each node is one call with the rest of the procedure as a function of the answer.
  The context of the UE, which the code mutates through a reference, is passed along; an error that \<open>?\<close>
  returns is the left side of a sum, next to the context at that point.
\<close>

section \<open>Effects\<close>

datatype 'r proc =
    Return 'r
  | Panic
  | NoFuel
  | Recv "f1ap_pdu option \<Rightarrow> 'r proc"
  | F1apIndication dl_rrc_message_transfer "'r proc"
  | UeContextSetup ue_context_setup_request "ue_context_setup_response option \<Rightarrow> 'r proc"
  | UeContextRelease ue_context_release_command "ue_context_release_complete option \<Rightarrow> 'r proc"
  | ReserveSession "up_error + userplane_session \<Rightarrow> 'r proc"
  | CommitSession userplane_session gtp_tunnel "up_error + unit \<Rightarrow> 'r proc"
  | DeleteSession userplane_session "'r proc"
  | DeleteUeChannel u32 "'r proc"
  | RandomBytes nat "bytes \<Rightarrow> 'r proc"

primrec proc_bind :: "'a proc \<Rightarrow> ('a \<Rightarrow> 'b proc) \<Rightarrow> 'b proc" where
  "proc_bind (Return x) f = f x"
| "proc_bind Panic f = Panic"
| "proc_bind NoFuel f = NoFuel"
| "proc_bind (Recv k) f = Recv (\<lambda>x. proc_bind (k x) f)"
| "proc_bind (F1apIndication m p) f = F1apIndication m (proc_bind p f)"
| "proc_bind (UeContextSetup m k) f = UeContextSetup m (\<lambda>x. proc_bind (k x) f)"
| "proc_bind (UeContextRelease m k) f = UeContextRelease m (\<lambda>x. proc_bind (k x) f)"
| "proc_bind (ReserveSession k) f = ReserveSession (\<lambda>x. proc_bind (k x) f)"
| "proc_bind (CommitSession u t k) f = CommitSession u t (\<lambda>x. proc_bind (k x) f)"
| "proc_bind (DeleteSession u p) f = DeleteSession u (proc_bind p f)"
| "proc_bind (DeleteUeChannel i p) f = DeleteUeChannel i (proc_bind p f)"
| "proc_bind (RandomBytes n k) f = RandomBytes n (\<lambda>x. proc_bind (k x) f)"

type_synonym 'a ue_action = "ue_context \<Rightarrow> ((error + 'a) \<times> ue_context) proc"

definition ok :: "'a \<Rightarrow> 'a ue_action" where
  "ok x = (\<lambda>ue. Return (Inr x, ue))"

definition bail :: "error \<Rightarrow> 'a ue_action" where
  "bail e = (\<lambda>ue. Return (Inl e, ue))"

definition lift :: "error + 'a \<Rightarrow> 'a ue_action" where
  "lift r = (\<lambda>ue. Return (r, ue))"

text \<open>Sequencing with the question-mark operator.\<close>

definition seq :: "'a ue_action \<Rightarrow> ('a \<Rightarrow> 'b ue_action) \<Rightarrow> 'b ue_action" where
  "seq m f = (\<lambda>ue. proc_bind (m ue) (\<lambda>(r, ue'). case r of Inl e \<Rightarrow> Return (Inl e, ue') | Inr x \<Rightarrow> f x ue'))"

section \<open>The environment that does not change\<close>

record qc_env =
  env_config :: config
  env_sims :: sim_table
  env_crypto :: crypto
  env_nas :: nas_lib
  env_rrc :: rrc_lib
  env_overflow_checks :: bool

section \<open>Requests to the UE (\<open>ue_procedures/mod.rs\<close>)\<close>

definition maybe_pdcp_encapsulate :: "qc_env \<Rightarrow> bytes \<Rightarrow> u8 \<Rightarrow> pdcp_tx \<Rightarrow> (bytes \<times> pdcp_tx) option" where
  "maybe_pdcp_encapsulate env rrc_bytes srb_id pdcp =
     (if srb_id = 0 then Some (rrc_bytes, pdcp)
      else pdcp_encode (env_overflow_checks env) (env_crypto env) srb_id rrc_bytes pdcp)"

definition extract_ul_dcch_message :: "qc_env \<Rightarrow> ul_rrc_message_transfer \<Rightarrow> error + ul_dcch_message" where
  "extract_ul_dcch_message env r =
     (case pdcp_view_inner (urt_rrc_container r) of
        Inl _ \<Rightarrow> Inl PdcpTooShort
      | Inr rrc_message_bytes \<Rightarrow> ul_dcch_from_bytes (env_rrc env) rrc_message_bytes)"

definition rrc_request :: "qc_env \<Rightarrow> u8 \<Rightarrow> rrc_dl_message \<Rightarrow> ul_dcch_message ue_action" where
  "rrc_request env srb_id rrc =
     seq (lift (rrc_into_bytes (env_rrc env) rrc)) (\<lambda>rrc_bytes ue.
       case maybe_pdcp_encapsulate env rrc_bytes srb_id (ue_pdcp_tx ue) of
         None \<Rightarrow> Panic
       | Some (rrc_container, pdcp) \<Rightarrow>
           (let ue' = ue\<lparr>ue_pdcp_tx := pdcp\<rparr>;
                dl_message = dl_rrc_message_transfer_msg (ue_key ue) (ue_gnb_du_ue_f1ap_id ue) rrc_container srb_id
            in F1apIndication dl_message (Recv (\<lambda>pdu.
                 case pdu of
                   None \<Rightarrow> Return (Inl ChannelClosed, ue')
                 | Some (InitiatingMessage (UlRrcMessageTransfer m)) \<Rightarrow> Return (extract_ul_dcch_message env m, ue')
                 | Some _ \<Rightarrow> Return (Inl ExpectedUlRrcMessageTransfer, ue')))))"

definition nas_encode_action :: "qc_env \<Rightarrow> nas_5gs_message \<Rightarrow> bytes ue_action" where
  "nas_encode_action env nas = (\<lambda>ue.
     case nas_context_encode (env_overflow_checks env) (env_crypto env) (env_nas env) nas (ue_nas ue) of
       None \<Rightarrow> Panic
     | Some (r, nas') \<Rightarrow> Return (r, ue\<lparr>ue_nas := nas'\<rparr>))"

definition nas_request :: "qc_env \<Rightarrow> nas_5gs_message \<Rightarrow> nas_5gs_message ue_action" where
  "nas_request env nas =
     seq (nas_encode_action env nas) (\<lambda>nas_bytes.
     seq (rrc_request env 1 (dl_information_transfer 1 nas_bytes)) (\<lambda>x.
       case x of
         UlInformationTransfer (Some (Some response_bytes)) \<Rightarrow>
           lift (nas_context_decode (env_nas env) response_bytes)
       | _ \<Rightarrow> bail ExpectedDedicatedNasMessage))"

section \<open>Initial access (\<open>initial_access.rs\<close>)\<close>

definition check_rrc_setup_request :: "qc_env \<Rightarrow> bytes \<Rightarrow> error + bytes" where
  "check_rrc_setup_request env message =
     result_bind (ul_ccch_from_bytes (env_rrc env) message) (\<lambda>m.
       case m of RrcSetupRequest x \<Rightarrow> Inr x | _ \<Rightarrow> Inl RrcNotImplemented)"

definition check_initial_transfer :: "qc_env \<Rightarrow> initial_ul_rrc_message_transfer \<Rightarrow> error + bytes" where
  "check_initial_transfer env r =
     (case iut_du_to_cu_rrc_container r of
        None \<Rightarrow> Inl MissingDuToCuRrcContainer
      | Some cell_group_config \<Rightarrow>
          result_bind (check_rrc_setup_request env (iut_rrc_container r)) (\<lambda>_. Inr cell_group_config))"

fun check_rrc_setup_complete :: "ul_dcch_message \<Rightarrow> error + bytes" where
  "check_rrc_setup_complete (RrcSetupComplete (Some dedicated_nas_message)) = Inr dedicated_nas_message"
| "check_rrc_setup_complete _ = Inl ExpectedRrcSetupComplete"

definition handle_rrc_setup :: "qc_env \<Rightarrow> initial_ul_rrc_message_transfer \<Rightarrow> nas_registration_request ue_action" where
  "handle_rrc_setup env r =
     seq (lift (check_initial_transfer env r)) (\<lambda>cell_group_config.
     seq (rrc_request env 0 (rrc_setup 0 cell_group_config)) (\<lambda>response.
     seq (lift (check_rrc_setup_complete response)) (\<lambda>nas_bytes.
     seq (lift (nas_context_decode (env_nas env) nas_bytes)) (\<lambda>nas.
     lift (expect_registration_request nas)))))"

definition check_registration_request :: "qc_env \<Rightarrow> nas_registration_request \<Rightarrow> error + string \<times> bytes" where
  "check_registration_request env registration_request =
     (case rr_ue_security_capability registration_request of
        None \<Rightarrow> Inl MissingUeSecurityCapability
      | Some ue_security_capability \<Rightarrow>
          result_bind (fgs_mobile_identity (rr_fgs_mobile_identity registration_request)) (\<lambda>(imsi, plmn).
            if plmn \<noteq> cfg_plmn (env_config env) then Inl PlmnMismatch
            else Inr (imsi, ue_security_capability)))"

definition ue_generate_challenge :: "qc_env \<Rightarrow> sim_creds \<Rightarrow> bytes \<Rightarrow> challenge" where
  "ue_generate_challenge env sim rnd =
     generate_challenge (env_crypto env) (sim_ki sim) (sim_opc sim)
       (string_bytes (cfg_serving_network_name (env_config env))) [0, 0, 0, 0, 0, 0] rnd"

definition check_authentication_response :: "qc_env \<Rightarrow> nas_authentication_response \<Rightarrow> challenge \<Rightarrow> error + unit" where
  "check_authentication_response env response ch =
     (case authentication_response_parameter response of
        None \<Rightarrow> Inl MissingAuthenticationResponseParameter
      | Some value \<Rightarrow>
          if cfg_skip_ue_authentication_check (env_config env) then Inr ()
          else if value \<noteq> xres_star ch then Inl WrongChallengeResponse
          else Inr ())"

definition authenticate_ue :: "qc_env \<Rightarrow> string \<Rightarrow> bytes ue_action" where
  "authenticate_ue env imsi =
     (case env_sims env imsi of
        None \<Rightarrow> bail UnknownImsi
      | Some sim \<Rightarrow> (\<lambda>ue. RandomBytes 16 (\<lambda>rnd.
          (let ch = ue_generate_challenge env sim rnd
           in seq (nas_request env (authentication_request (ch_rand ch) (autn ch))) (\<lambda>nas.
              seq (lift (expect_authentication_response nas)) (\<lambda>response.
              seq (lift (check_authentication_response env response ch)) (\<lambda>_.
              ok (derive_kamf (env_crypto env) (kseaf ch) (string_bytes imsi))))) ue))))"

definition configure_nas_security :: "qc_env \<Rightarrow> bytes \<Rightarrow> unit ue_action" where
  "configure_nas_security env kamf = (\<lambda>ue. Return (Inr (),
     ue\<lparr>ue_nas := nas_context_enable_security (derive_knasint (env_crypto env) kamf) (ue_nas ue)\<rparr>))"

definition check_nas_security_mode_complete :: "qc_env \<Rightarrow> nas_security_mode_complete \<Rightarrow> error + unit" where
  "check_nas_security_mode_complete env m =
     (case nas_message_container m of
        Some container \<Rightarrow>
          result_bind (nas_context_decode (env_nas env) container) (\<lambda>nas.
          result_bind (expect_registration_request nas) (\<lambda>_. Inr ()))
      | None \<Rightarrow> Inr ())"

definition activate_nas_security :: "qc_env \<Rightarrow> bytes \<Rightarrow> bytes \<Rightarrow> unit ue_action" where
  "activate_nas_security env ue_security_capabilities kamf =
     seq (configure_nas_security env kamf) (\<lambda>_.
     seq (nas_request env (nas_security_mode_command_msg ue_security_capabilities)) (\<lambda>nas.
     seq (lift (expect_security_mode_complete nas)) (\<lambda>rsp.
     lift (check_nas_security_mode_complete env rsp))))"

definition configure_rrc_security :: "qc_env \<Rightarrow> bytes \<Rightarrow> unit ue_action" where
  "configure_rrc_security env kamf = (\<lambda>ue.
     let kgnb = derive_kgnb (env_crypto env) kamf 0;
         krrcint = derive_krrcint (env_crypto env) kgnb
     in Return (Inr (), ue\<lparr>ue_pdcp_tx := pdcp_enable_security krrcint (ue_pdcp_tx ue)\<rparr>))"

text \<open>The answer to the RRC security mode command is dropped, an error included.\<close>

definition activate_rrc_security :: "qc_env \<Rightarrow> bytes \<Rightarrow> unit ue_action" where
  "activate_rrc_security env kamf =
     seq (configure_rrc_security env kamf) (\<lambda>_ ue.
       proc_bind (rrc_request env 1 (rrc_security_mode_command 1) ue) (\<lambda>(_, ue'). Return (Inr (), ue')))"

definition complete_nas_registration :: "qc_env \<Rightarrow> unit ue_action" where
  "complete_nas_registration env = (\<lambda>ue.
     seq (nas_request env (registration_accept (cfg_sst (env_config env)) (cfg_plmn (env_config env))
            (cfg_amf_ids (env_config env)) (ue_tmsi ue))) (\<lambda>nas.
     lift (expect_registration_complete nas)) ue)"

definition initial_access :: "qc_env \<Rightarrow> initial_ul_rrc_message_transfer \<Rightarrow> unit ue_action" where
  "initial_access env r =
     seq (handle_rrc_setup env r) (\<lambda>registration_request.
     seq (lift (check_registration_request env registration_request)) (\<lambda>(imsi, ue_security_capability).
     seq (authenticate_ue env imsi) (\<lambda>kamf.
     seq (activate_nas_security env ue_security_capability kamf) (\<lambda>_.
     seq (activate_rrc_security env kamf) (\<lambda>_.
     complete_nas_registration env)))))"

section \<open>Session establishment (\<open>pdu_session_establishment.rs\<close>)\<close>

text \<open>
  \<open>drbs_setup_list.0.head.dl_up_tnl_information_to_be_setup_list.0.head\<close>: both lists are \<open>NonEmpty\<close>, and a GTP
  tunnel is the only kind of transport layer information.
\<close>

definition head_tunnel :: "drbs_setup_item list \<Rightarrow> gtp_tunnel" where
  "head_tunnel drbs =
     (case dl_up_tnl_information_to_be_setup_item_dl_up_tnl_information
             (hd (drbs_setup_item_dl_up_tnl_information_to_be_setup_list (hd drbs))) of
        UpTransportLayerInformationGtpTunnel tunnel \<Rightarrow> tunnel)"

definition check_ue_context_setup_response :: "ue_context_setup_response \<Rightarrow> error + bytes \<times> gtp_tunnel" where
  "check_ue_context_setup_response r =
     (case csp_drbs_setup_list r of
        Some drbs \<Rightarrow>
          Inr (du_to_cu_rrc_information_cell_group_config (csp_du_to_cu_rrc_information r), head_tunnel drbs)
      | None \<Rightarrow> Inl UeContextSetupResponseIncomplete)"

definition perform_f1_ue_context_setup :: "qc_env \<Rightarrow> pdu_session \<Rightarrow> (bytes \<times> gtp_tunnel) ue_action" where
  "perform_f1_ue_context_setup env session = (\<lambda>ue.
     UeContextSetup (ue_context_setup_request_msg ue (tla_from_ip (cfg_ip_addr (env_config env))) session) (\<lambda>rsp.
       case rsp of
         None \<Rightarrow> Return (Inl F1apRequestFailed, ue)
       | Some rsp \<Rightarrow> Return (check_ue_context_setup_response rsp, ue)))"

fun check_rrc_reconfiguration_complete :: "ul_dcch_message \<Rightarrow> error + unit" where
  "check_rrc_reconfiguration_complete RrcReconfigurationComplete = Inr ()"
| "check_rrc_reconfiguration_complete _ = Inl ExpectedRrcReconfigurationComplete"

definition perform_rrc_reconfiguration :: "qc_env \<Rightarrow> bytes \<Rightarrow> bytes \<Rightarrow> u8 \<Rightarrow> unit ue_action" where
  "perform_rrc_reconfiguration env nas cell_group_config pdu_session_id =
     seq (rrc_request env 1 (rrc_reconfiguration 0 (Some [nas]) cell_group_config pdu_session_id)) (\<lambda>response.
     lift (check_rrc_reconfiguration_complete response))"

definition reserve_action :: "userplane_session ue_action" where
  "reserve_action = (\<lambda>ue. ReserveSession (\<lambda>r.
     case r of Inl e \<Rightarrow> Return (Inl (UserplaneError e), ue) | Inr u \<Rightarrow> Return (Inr u, ue)))"

definition commit_action :: "userplane_session \<Rightarrow> gtp_tunnel \<Rightarrow> unit ue_action" where
  "commit_action u tunnel = (\<lambda>ue. CommitSession u tunnel (\<lambda>r.
     case r of Inl e \<Rightarrow> Return (Inl (UserplaneError e), ue) | Inr _ \<Rightarrow> Return (Inr (), ue)))"

definition push_session :: "pdu_session \<Rightarrow> unit ue_action" where
  "push_session session = (\<lambda>ue. Return (Inr (), ue\<lparr>ue_pdu_sessions := ue_pdu_sessions ue @ [session]\<rparr>))"

definition session_establishment :: "qc_env \<Rightarrow> nas_5gsm_header \<Rightarrow> bytes option \<Rightarrow> unit ue_action" where
  "session_establishment env hdr dnn =
     seq reserve_action (\<lambda>userplane.
       let session = \<lparr>ps_id = pdu_session_identity hdr, ps_snssai = Snssai (cfg_sst (env_config env)) None,
                      ps_dnn = (case dnn of None \<Rightarrow> [] | Some d \<Rightarrow> d), userplane_info = userplane\<rparr>
       in seq (perform_f1_ue_context_setup env session) (\<lambda>(cell_group_config, remote_tunnel_info).
          seq (lift (pdu_session_establishment_accept (env_nas env) session (procedure_transaction_identity hdr))) (\<lambda>accept.
          seq (nas_encode_action env accept) (\<lambda>accept_bytes.
          seq (commit_action (userplane_info session) remote_tunnel_info) (\<lambda>_.
          seq (push_session session) (\<lambda>_.
          perform_rrc_reconfiguration env accept_bytes cell_group_config (ps_id session)))))))"

section \<open>Context release and deregistration\<close>

definition perform_f1_ue_context_release :: "cause \<Rightarrow> unit ue_action" where
  "perform_f1_ue_context_release c = (\<lambda>ue.
     UeContextRelease (ue_context_release_command_msg ue c) (\<lambda>rsp.
       case rsp of
         None \<Rightarrow> Return (Inl F1apRequestFailed, ue)
       | Some _ \<Rightarrow> Return (Inr (), ue)))"

definition release_cu_initiated :: "cause \<Rightarrow> unit ue_action" where
  "release_cu_initiated c = perform_f1_ue_context_release c"

definition release_du_initiated :: "ue_context_release_request \<Rightarrow> unit ue_action" where
  "release_du_initiated r = perform_f1_ue_context_release (crr_cause r)"

definition deregistration :: "unit ue_action" where
  "deregistration =
     seq (release_cu_initiated (CauseRadioNetwork NormalRelease)) (\<lambda>_. bail NormalDeregistration)"

section \<open>Uplink NAS and UL information transfer\<close>

definition uplink_nas :: "qc_env \<Rightarrow> bytes \<Rightarrow> unit ue_action" where
  "uplink_nas env nas_bytes =
     seq (lift (nas_context_decode (env_nas env) (patch_nas_for_oai_deregistration_security_header nas_bytes))) (\<lambda>nas.
       case nas of
         Gmm (UlNasTransport t) \<Rightarrow>
           seq (lift (decode_nas_5gs_message (env_nas env) (ut_payload_container t))) (\<lambda>inner.
             case inner of
               Gsm header PduSessionEstablishmentRequest \<Rightarrow> session_establishment env header (ut_dnn t)
             | _ \<Rightarrow> ok ())
       | Gmm DeregistrationRequestFromUe \<Rightarrow> deregistration
       | _ \<Rightarrow> ok ())"

definition ul_information_transfer :: "qc_env \<Rightarrow> bytes option option \<Rightarrow> unit ue_action" where
  "ul_information_transfer env t =
     (case t of
        Some (Some nas_bytes) \<Rightarrow> uplink_nas env nas_bytes
      | _ \<Rightarrow> bail ExpectedNasInUlInformationTransfer)"

section \<open>The message handler of a UE (\<open>ue_message_handler.rs\<close>)\<close>

text \<open>The body of the loop: one message from the channel.\<close>

definition handle_ue_pdu :: "qc_env \<Rightarrow> f1ap_pdu \<Rightarrow> unit ue_action" where
  "handle_ue_pdu env pdu =
     (case pdu of
        InitiatingMessage (UlRrcMessageTransfer r) \<Rightarrow>
          seq (lift (extract_ul_dcch_message env r)) (\<lambda>rrc.
            case rrc of
              UlInformationTransfer t \<Rightarrow> ul_information_transfer env t
            | _ \<Rightarrow> bail UnsupportedUlDcchMessage)
      | InitiatingMessage (UeContextReleaseRequest r) \<Rightarrow>
          seq (release_du_initiated r) (\<lambda>_. bail DuInitiatedRelease)
      | _ \<Rightarrow> bail UnsupportedF1apPdu)"

text \<open>
  \<open>while let Ok(pdu) = self.receiver.recv().await\<close>.  The loop has no bound of its own; the fuel is the number
  of messages it may take from the channel.
\<close>

primrec ue_message_loop :: "qc_env \<Rightarrow> nat \<Rightarrow> unit ue_action" where
  "ue_message_loop env 0 = (\<lambda>ue. NoFuel)"
| "ue_message_loop env (Suc n) = (\<lambda>ue. Recv (\<lambda>pdu.
     case pdu of
       None \<Rightarrow> Return (Inr (), ue)
     | Some pdu \<Rightarrow> seq (handle_ue_pdu env pdu) (\<lambda>_. ue_message_loop env n) ue))"

definition run_inner :: "qc_env \<Rightarrow> nat \<Rightarrow> initial_ul_rrc_message_transfer \<Rightarrow> unit ue_action" where
  "run_inner env fuel r = seq (initial_access env r) (\<lambda>_. ue_message_loop env fuel)"

primrec delete_sessions :: "pdu_session list \<Rightarrow> 'r proc \<Rightarrow> 'r proc" where
  "delete_sessions [] p = p"
| "delete_sessions (s # ss) p = DeleteSession (userplane_info s) (delete_sessions ss p)"

definition destroy :: "ue_context \<Rightarrow> 'r proc \<Rightarrow> 'r proc" where
  "destroy ue p = delete_sessions (ue_pdu_sessions ue) (DeleteUeChannel (ue_key ue) p)"

definition ue_message_handler :: "qc_env \<Rightarrow> nat \<Rightarrow> u32 \<Rightarrow> (error + unit) proc" where
  "ue_message_handler env fuel ue_id =
     Recv (\<lambda>message.
       case message of
         None \<Rightarrow> Return (Inl ChannelClosed)
       | Some (InitiatingMessage (InitialUlRrcMessageTransfer r)) \<Rightarrow>
           RandomBytes 4 (\<lambda>tmsi.
             let ue = ue_context_new ue_id (iut_gnb_du_ue_f1ap_id r) (iut_nr_cgi r)
                        (Arr4 (tmsi ! 0) (tmsi ! 1) (tmsi ! 2) (tmsi ! 3))
             in proc_bind (run_inner env fuel r ue) (\<lambda>(result, ue'). destroy ue' (Return result)))
       | Some _ \<Rightarrow> Return (Inl ExpectedInitialUlRrcMessageTransfer))"

section \<open>Executions\<close>

text \<open>
  What the environment answers, and what it sees.  An execution consumes one answer per effect that has one
  and leaves the list of events; it stops at the end of the procedure, or when no answer of the right kind is
  left.
\<close>

datatype answer =
    AnsRecv "f1ap_pdu option"
  | AnsSetup "ue_context_setup_response option"
  | AnsRelease "ue_context_release_complete option"
  | AnsReserve "up_error + userplane_session"
  | AnsCommit "up_error + unit"
  | AnsRandom bytes

datatype event =
    EvRecv "f1ap_pdu option"
  | EvIndication dl_rrc_message_transfer
  | EvSetup ue_context_setup_request "ue_context_setup_response option"
  | EvRelease ue_context_release_command "ue_context_release_complete option"
  | EvReserve "up_error + userplane_session"
  | EvCommit userplane_session gtp_tunnel "up_error + unit"
  | EvDelete userplane_session
  | EvDeleteChannel u32
  | EvRandom bytes

datatype 'r outcome = Done 'r | Panicked | OutOfFuel | Waiting

definition log :: "event \<Rightarrow> event list \<times> 'r outcome \<times> answer list \<Rightarrow> event list \<times> 'r outcome \<times> answer list" where
  "log e x = (e # fst x, snd x)"

primrec exec :: "'r proc \<Rightarrow> answer list \<Rightarrow> event list \<times> 'r outcome \<times> answer list" where
  "exec (Return x) as = ([], Done x, as)"
| "exec Panic as = ([], Panicked, as)"
| "exec NoFuel as = ([], OutOfFuel, as)"
| "exec (Recv k) as = (case as of AnsRecv x # as' \<Rightarrow> log (EvRecv x) (exec (k x) as') | _ \<Rightarrow> ([], Waiting, as))"
| "exec (F1apIndication m p) as = log (EvIndication m) (exec p as)"
| "exec (UeContextSetup m k) as =
     (case as of AnsSetup x # as' \<Rightarrow> log (EvSetup m x) (exec (k x) as') | _ \<Rightarrow> ([], Waiting, as))"
| "exec (UeContextRelease m k) as =
     (case as of AnsRelease x # as' \<Rightarrow> log (EvRelease m x) (exec (k x) as') | _ \<Rightarrow> ([], Waiting, as))"
| "exec (ReserveSession k) as =
     (case as of AnsReserve x # as' \<Rightarrow> log (EvReserve x) (exec (k x) as') | _ \<Rightarrow> ([], Waiting, as))"
| "exec (CommitSession u t k) as =
     (case as of AnsCommit x # as' \<Rightarrow> log (EvCommit u t x) (exec (k x) as') | _ \<Rightarrow> ([], Waiting, as))"
| "exec (DeleteSession u p) as = log (EvDelete u) (exec p as)"
| "exec (DeleteUeChannel i p) as = log (EvDeleteChannel i) (exec p as)"
| "exec (RandomBytes n k) as =
     (case as of AnsRandom x # as' \<Rightarrow> log (EvRandom x) (exec (k x) as') | _ \<Rightarrow> ([], Waiting, as))"

end
