(* ===== verification/Ue_Properties.thy ===== *)
theory Ue_Properties
  imports Ue_Procedures
begin

text \<open>
  What a UE task can and cannot do, for every behaviour of the DU, the UE and the rest of the core: the
  authentication gate in front of the user plane, the keys in force after registration, the clean-up at the end
  of the task, freedom from panics and from lack of fuel, and the completion of a registration with a
  well-behaved UE.
\<close>

section \<open>Executions of composed procedures\<close>

definition then_exec ::
    "event list \<times> 'a outcome \<times> answer list \<Rightarrow> ('a \<Rightarrow> answer list \<Rightarrow> event list \<times> 'b outcome \<times> answer list)
     \<Rightarrow> event list \<times> 'b outcome \<times> answer list" where
  "then_exec x k =
     (case x of
        (tr, Done r, as) \<Rightarrow> (case k r as of (tr', out, as') \<Rightarrow> (tr @ tr', out, as'))
      | (tr, Panicked, as) \<Rightarrow> (tr, Panicked, as)
      | (tr, OutOfFuel, as) \<Rightarrow> (tr, OutOfFuel, as)
      | (tr, Waiting, as) \<Rightarrow> (tr, Waiting, as))"

lemma then_exec_log: "then_exec (log e x) k = log e (then_exec x k)"
  by (cases x) (auto simp: then_exec_def log_def split: outcome.split prod.split)

lemma then_exec_simps [simp]:
  "then_exec ([], Done r, as) k = k r as"
  "then_exec ([], Panicked, as) k = ([], Panicked, as)"
  "then_exec ([], OutOfFuel, as) k = ([], OutOfFuel, as)"
  "then_exec ([], Waiting, as) k = ([], Waiting, as)"
  by (simp_all add: then_exec_def split: prod.split)

lemma proc_induct:
  assumes "\<And>x. P (Return x)" "P Panic" "P NoFuel"
    and "\<And>k. (\<And>x. P (k x)) \<Longrightarrow> P (Recv k)"
    and "\<And>m p. P p \<Longrightarrow> P (F1apIndication m p)"
    and "\<And>m k. (\<And>x. P (k x)) \<Longrightarrow> P (UeContextSetup m k)"
    and "\<And>m k. (\<And>x. P (k x)) \<Longrightarrow> P (UeContextRelease m k)"
    and "\<And>k. (\<And>x. P (k x)) \<Longrightarrow> P (ReserveSession k)"
    and "\<And>u t k. (\<And>x. P (k x)) \<Longrightarrow> P (CommitSession u t k)"
    and "\<And>u p. P p \<Longrightarrow> P (DeleteSession u p)"
    and "\<And>i p. P p \<Longrightarrow> P (DeleteUeChannel i p)"
    and "\<And>n k. (\<And>x. P (k x)) \<Longrightarrow> P (RandomBytes n k)"
  shows "P p"
  by (rule proc.induct [of P p]) (simp_all add: assms)

lemma exec_bind: "exec (proc_bind p f) as = then_exec (exec p as) (\<lambda>r. exec (f r))"
  by (induction p arbitrary: as rule: proc_induct) (simp_all add: then_exec_log split: list.split answer.split)

lemma exec_seq:
  "exec (seq m f ue) as = then_exec (exec (m ue) as)
     (\<lambda>(r, ue'). case r of Inl e \<Rightarrow> exec (Return (Inl e, ue')) | Inr x \<Rightarrow> exec (f x ue'))"
  unfolding seq_def exec_bind by (rule arg_cong [where f = "then_exec (exec (m ue) as)"]) (auto split: sum.split)

lemma then_exec_Done:
  "then_exec x k = (tr, Done r, as') \<longleftrightarrow>
     (\<exists>tr1 r1 as1 tr2. x = (tr1, Done r1, as1) \<and> k r1 as1 = (tr2, Done r, as') \<and> tr = tr1 @ tr2)"
  by (cases x) (auto simp: then_exec_def split: outcome.splits prod.splits)

text \<open>A sequence that succeeds is two executions that succeed.\<close>

lemma exec_seq_ok:
  assumes "exec (seq m f ue) as = (tr, Done (Inr y, ue'), as')"
  obtains tr1 x ue1 as1 tr2 where "exec (m ue) as = (tr1, Done (Inr x, ue1), as1)"
    "exec (f x ue1) as1 = (tr2, Done (Inr y, ue'), as')" "tr = tr1 @ tr2"
proof -
  from assms obtain tr1 r ue1 as1 tr2 where m: "exec (m ue) as = (tr1, Done (r, ue1), as1)" "tr = tr1 @ tr2"
    and f: "(case r of Inl e \<Rightarrow> exec (Return (Inl e, ue1)) | Inr x \<Rightarrow> exec (f x ue1)) as1 = (tr2, Done (Inr y, ue'), as')"
    by (auto simp: exec_seq then_exec_Done)
  from f obtain x where "r = Inr x" by (cases r) auto
  with m f show ?thesis by (intro that) auto
qed

lemma exec_lift [simp]: "exec (lift r ue) as = ([], Done (r, ue), as)"
  by (simp add: lift_def)

lemma exec_ok [simp]: "exec (ok x ue) as = ([], Done (Inr x, ue), as)"
  by (simp add: ok_def)

lemma exec_bail [simp]: "exec (bail e ue) as = ([], Done (Inl e, ue), as)"
  by (simp add: bail_def)

lemma exec_seq_lift:
  "exec (seq (lift r) f ue) as = (case r of Inl e \<Rightarrow> ([], Done (Inl e, ue), as) | Inr x \<Rightarrow> exec (f x ue) as)"
  by (simp add: exec_seq split: sum.split)

lemma seq_lift: "seq (lift (Inr x)) f = f x"
  by (rule ext) (simp add: seq_def lift_def)

lemma exec_seq_return: "exec (seq (\<lambda>ue. Return (Inr x, g ue)) f ue) as = exec (f x (g ue)) as"
  by (simp add: exec_seq)

lemma log_eq [simp]: "log e x = (tr, out, as) \<longleftrightarrow> (\<exists>tr'. x = (tr', out, as) \<and> tr = e # tr')"
  by (cases x) (auto simp: log_def)

section \<open>Events a procedure can emit\<close>

text \<open>Every event that the procedure emits, whatever the answers, satisfies a predicate.\<close>

primrec emits :: "(event \<Rightarrow> bool) \<Rightarrow> 'r proc \<Rightarrow> bool" where
  "emits P (Return x) \<longleftrightarrow> True"
| "emits P Panic \<longleftrightarrow> True"
| "emits P NoFuel \<longleftrightarrow> True"
| "emits P (Recv k) \<longleftrightarrow> (\<forall>x. P (EvRecv x) \<and> emits P (k x))"
| "emits P (F1apIndication m p) \<longleftrightarrow> P (EvIndication m) \<and> emits P p"
| "emits P (UeContextSetup m k) \<longleftrightarrow> (\<forall>x. P (EvSetup m x) \<and> emits P (k x))"
| "emits P (UeContextRelease m k) \<longleftrightarrow> (\<forall>x. P (EvRelease m x) \<and> emits P (k x))"
| "emits P (ReserveSession k) \<longleftrightarrow> (\<forall>x. P (EvReserve x) \<and> emits P (k x))"
| "emits P (CommitSession u t k) \<longleftrightarrow> (\<forall>x. P (EvCommit u t x) \<and> emits P (k x))"
| "emits P (DeleteSession u p) \<longleftrightarrow> P (EvDelete u) \<and> emits P p"
| "emits P (DeleteUeChannel i p) \<longleftrightarrow> P (EvDeleteChannel i) \<and> emits P p"
| "emits P (RandomBytes n k) \<longleftrightarrow> (\<forall>x. P (EvRandom x) \<and> emits P (k x))"

lemma emits_exec: "emits P p \<Longrightarrow> exec p as = (tr, out, as') \<Longrightarrow> e \<in> set tr \<Longrightarrow> P e"
  by (induction p arbitrary: as tr rule: proc_induct) (auto split: list.splits answer.splits)

lemma emits_bind: "emits P p \<Longrightarrow> (\<And>x. emits P (f x)) \<Longrightarrow> emits P (proc_bind p f)"
  by (induction p) auto

lemma emits_seq: "emits P (m ue) \<Longrightarrow> (\<And>x ue'. emits P (f x ue')) \<Longrightarrow> emits P (seq m f ue)"
  unfolding seq_def by (rule emits_bind) (auto split: sum.split)

lemma emits_lift [simp]: "emits P (lift r ue)" by (simp add: lift_def)
lemma emits_ok [simp]: "emits P (ok x ue)" by (simp add: ok_def)
lemma emits_bail [simp]: "emits P (bail e ue)" by (simp add: bail_def)

text \<open>The events of the air interface: no session is touched.\<close>

fun air_event :: "event \<Rightarrow> bool" where
  "air_event (EvRecv _) = True"
| "air_event (EvIndication _) = True"
| "air_event (EvRandom _) = True"
| "air_event _ = False"

lemma emits_rrc_request: "(\<And>e. air_event e \<Longrightarrow> P e) \<Longrightarrow> emits P (rrc_request env srb m ue)"
  unfolding rrc_request_def
  by (rule emits_seq) (auto simp: Let_def split: option.split f1ap_pdu.split initiating_message.split)

lemma emits_nas_encode [simp]: "emits P (nas_encode_action env nas ue)"
  by (simp add: nas_encode_action_def split: option.split)

lemma emits_nas_request: "(\<And>e. air_event e \<Longrightarrow> P e) \<Longrightarrow> emits P (nas_request env nas ue)"
  unfolding nas_request_def
  by (intro emits_seq emits_nas_encode emits_rrc_request) (auto split: ul_dcch_message.split option.split)

lemmas air_intros = emits_seq emits_bind emits_rrc_request emits_nas_request

lemma initial_access_air: "emits air_event (initial_access env r ue)"
  unfolding initial_access_def handle_rrc_setup_def authenticate_ue_def activate_nas_security_def
    activate_rrc_security_def complete_nas_registration_def configure_nas_security_def configure_rrc_security_def
  by (intro air_intros) (auto simp: Let_def intro!: air_intros split: option.split)

section \<open>What an action does to the context\<close>

fun committed_in :: "event \<Rightarrow> userplane_session list" where
  "committed_in (EvCommit u t (Inr ())) = [u]"
| "committed_in _ = []"

fun deleted_in :: "event \<Rightarrow> userplane_session list" where
  "deleted_in (EvDelete u) = [u]"
| "deleted_in _ = []"

fun srb1_in :: "event \<Rightarrow> nat" where
  "srb1_in (EvIndication m) = (if drt_srb_id m = 0 then 0 else 1)"
| "srb1_in _ = 0"

definition committed :: "event list \<Rightarrow> userplane_session list" where
  "committed tr = concat (map committed_in tr)"

definition deleted :: "event list \<Rightarrow> userplane_session list" where
  "deleted tr = concat (map deleted_in tr)"

definition srb1_sent :: "event list \<Rightarrow> nat" where
  "srb1_sent tr = sum_list (map srb1_in tr)"

lemma trace_counts [simp]:
  "committed [] = []" "committed (e # tr) = committed_in e @ committed tr" "committed (tr @ tr') = committed tr @ committed tr'"
  "deleted [] = []" "deleted (e # tr) = deleted_in e @ deleted tr" "deleted (tr @ tr') = deleted tr @ deleted tr'"
  "srb1_sent [] = 0" "srb1_sent (e # tr) = srb1_in e + srb1_sent tr" "srb1_sent (tr @ tr') = srb1_sent tr + srb1_sent tr'"
  by (simp_all add: committed_def deleted_def srb1_sent_def)

text \<open>
  The identity of the UE stays, the list of sessions grows by what the trace commits, nothing is deleted, and
  the PDCP COUNT advances by the messages sent on SRB1.
\<close>

definition frame :: "ue_context \<Rightarrow> event list \<Rightarrow> ue_context \<Rightarrow> bool" where
  "frame ue tr ue' \<longleftrightarrow>
     ue_key ue' = ue_key ue \<and> ue_gnb_du_ue_f1ap_id ue' = ue_gnb_du_ue_f1ap_id ue \<and> ue_tmsi ue' = ue_tmsi ue
     \<and> ue_nr_cgi ue' = ue_nr_cgi ue
     \<and> map userplane_info (ue_pdu_sessions ue') = map userplane_info (ue_pdu_sessions ue) @ committed tr
     \<and> deleted tr = []
     \<and> tx_next (ue_pdcp_tx ue') = tx_next (ue_pdcp_tx ue) + word_of_nat (srb1_sent tr)"

definition frames :: "'a ue_action \<Rightarrow> bool" where
  "frames m \<longleftrightarrow> (\<forall>ue as tr r ue' as'. exec (m ue) as = (tr, Done (r, ue'), as') \<longrightarrow> frame ue tr ue')"

lemma framesD: "frames m \<Longrightarrow> exec (m ue) as = (tr, Done (r, ue'), as') \<Longrightarrow> frame ue tr ue'"
  unfolding frames_def by blast

lemma frame_refl [simp]: "frame ue [] ue"
  by (simp add: frame_def)

lemma frame_trans: "frame ue tr ue1 \<Longrightarrow> frame ue1 tr' ue2 \<Longrightarrow> frame ue (tr @ tr') ue2"
  by (auto simp: frame_def)

lemma frames_bind:
  assumes "frames m"
    and "\<And>r ue1 as1 tr' r' ue' as'. exec (f (r, ue1)) as1 = (tr', Done (r', ue'), as') \<Longrightarrow> frame ue1 tr' ue'"
  shows "frames (\<lambda>ue. proc_bind (m ue) f)"
  unfolding frames_def
proof (intro allI impI)
  fix ue as tr r ue' as'
  assume "exec (proc_bind (m ue) f) as = (tr, Done (r, ue'), as')"
  then obtain tr1 r1 ue1 as1 tr2 where "exec (m ue) as = (tr1, Done (r1, ue1), as1)"
    "exec (f (r1, ue1)) as1 = (tr2, Done (r, ue'), as')" "tr = tr1 @ tr2"
    by (auto simp: exec_bind then_exec_Done)
  with assms show "frame ue tr ue'" using frame_trans framesD by metis
qed

lemma frames_seq: "frames m \<Longrightarrow> (\<And>x. frames (f x)) \<Longrightarrow> frames (seq m f)"
  unfolding seq_def by (rule frames_bind) (auto split: sum.splits dest: framesD)

lemma frames_return: "(\<And>ue. frame ue [] (g ue)) \<Longrightarrow> frames (\<lambda>ue. Return (h ue, g ue))"
  by (simp add: frames_def)

lemma frames_lift [simp]: "frames (lift r)" by (simp add: frames_def)
lemma frames_ok [simp]: "frames (ok x)" by (simp add: frames_def)
lemma frames_bail [simp]: "frames (bail e)" by (simp add: frames_def)

lemma pdcp_encode_count:
  assumes "maybe_pdcp_encapsulate env b srb tx = Some (c, tx')"
  shows "tx_next tx' = tx_next tx + (if srb = 0 then 0 else 1)" and "pdcp_integrity_key tx' = pdcp_integrity_key tx"
  using assms
  by (auto simp: maybe_pdcp_encapsulate_def pdcp_encode_def Let_def rs_simps word_gt_0 split: if_splits option.splits)

text \<open>A successful or failed RRC request, in one equation for each branch.\<close>

lemma exec_rrc_request:
  assumes "exec (rrc_request env srb m ue) as = (tr, Done (r, ue'), as')"
  obtains (encode) e where "rrc_into_bytes (env_rrc env) m = Inl e" "tr = []" "r = Inl e" "ue' = ue" "as' = as"
  | (sent) b c tx pdu where "rrc_into_bytes (env_rrc env) m = Inr b"
      "maybe_pdcp_encapsulate env b srb (ue_pdcp_tx ue) = Some (c, tx)" "ue' = ue\<lparr>ue_pdcp_tx := tx\<rparr>"
      "tr = [EvIndication (dl_rrc_message_transfer_msg (ue_key ue) (ue_gnb_du_ue_f1ap_id ue) c srb), EvRecv pdu]"
      "as = AnsRecv pdu # as'"
      "\<And>x. r = Inr x \<Longrightarrow> \<exists>t. pdu = Some (InitiatingMessage (UlRrcMessageTransfer t)) \<and> extract_ul_dcch_message env t = Inr x"
proof (cases "rrc_into_bytes (env_rrc env) m")
  case (Inl e)
  then show ?thesis using assms by (intro encode) (auto simp: rrc_request_def exec_seq_lift)
next
  case (Inr b)
  show ?thesis
  proof (cases "maybe_pdcp_encapsulate env b srb (ue_pdcp_tx ue)")
    case None
    then show ?thesis using assms Inr by (simp add: rrc_request_def exec_seq_lift)
  next
    case (Some ctx)
    then obtain c tx where p: "maybe_pdcp_encapsulate env b srb (ue_pdcp_tx ue) = Some (c, tx)" by (cases ctx) auto
    from assms Inr p obtain pdu where "as = AnsRecv pdu # as'"
      "tr = [EvIndication (dl_rrc_message_transfer_msg (ue_key ue) (ue_gnb_du_ue_f1ap_id ue) c srb), EvRecv pdu]"
      "ue' = ue\<lparr>ue_pdcp_tx := tx\<rparr>"
      "\<And>x. r = Inr x \<Longrightarrow> \<exists>t. pdu = Some (InitiatingMessage (UlRrcMessageTransfer t)) \<and> extract_ul_dcch_message env t = Inr x"
      by (auto simp: rrc_request_def exec_seq_lift Let_def
          split: list.splits answer.splits option.splits f1ap_pdu.splits initiating_message.splits)
    with Inr p show ?thesis by (intro sent)
  qed
qed

lemma frames_rrc_request: "frames (rrc_request env srb m)"
  unfolding frames_def
proof (intro allI impI)
  fix ue as tr r ue' as'
  assume "exec (rrc_request env srb m ue) as = (tr, Done (r, ue'), as')"
  then show "frame ue tr ue'"
    by (rule exec_rrc_request)
      (auto simp: frame_def dl_rrc_message_transfer_msg_def dest: pdcp_encode_count(1))
qed

lemma frames_nas_encode: "frames (nas_encode_action env nas)"
  by (auto simp: frames_def nas_encode_action_def frame_def split: option.splits prod.splits)

lemma frames_nas_request: "frames (nas_request env nas)"
  unfolding nas_request_def
  by (intro frames_seq frames_nas_encode frames_rrc_request) (auto split: ul_dcch_message.split option.split)

lemma frames_random: "(\<And>x. frames (f x)) \<Longrightarrow> frames (\<lambda>ue. RandomBytes n (\<lambda>x. f x ue))"
  by (fastforce simp: frames_def frame_def split: list.splits answer.splits)

lemmas frames_intros = frames_seq frames_bind frames_lift frames_ok frames_bail frames_rrc_request frames_nas_request
  frames_nas_encode frames_return frames_random

lemma frames_configure: "frames (configure_nas_security env kamf)" "frames (configure_rrc_security env kamf)"
  by (simp_all add: frames_def configure_nas_security_def configure_rrc_security_def frame_def Let_def pdcp_enable_security_def)

lemma frames_authenticate: "frames (authenticate_ue env imsi)"
proof (cases "env_sims env imsi")
  case (Some sim)
  then show ?thesis
    unfolding authenticate_ue_def by (simp add: Let_def) (intro frames_intros)
qed (simp add: authenticate_ue_def)

lemma frames_handle_rrc_setup: "frames (handle_rrc_setup env r)"
  unfolding handle_rrc_setup_def by (intro frames_intros)

lemma frames_activate_nas: "frames (activate_nas_security env caps kamf)"
  unfolding activate_nas_security_def by (intro frames_intros frames_configure)

lemma frames_activate_rrc: "frames (activate_rrc_security env kamf)"
  unfolding activate_rrc_security_def by (intro frames_intros frames_configure) auto

lemma frames_complete: "frames (complete_nas_registration env)"
proof -
  have "frames (seq (nas_request env m) (\<lambda>nas. lift (expect_registration_complete nas)))" for m
    by (intro frames_intros)
  then show ?thesis unfolding complete_nas_registration_def frames_def by blast
qed

lemma frames_initial_access: "frames (initial_access env r)"
  unfolding initial_access_def
  by (intro frames_seq frames_handle_rrc_setup frames_lift)
    (auto intro!: frames_seq frames_authenticate frames_activate_nas frames_activate_rrc frames_complete)

lemma frames_commit_push:
  assumes "frames rest" and "userplane_info s = u"
  shows "frames (seq (commit_action u t) (\<lambda>_. seq (push_session s) (\<lambda>_. rest)))"
  unfolding frames_def
proof (intro allI impI)
  fix ue as tr r ue' as'
  assume run: "exec (seq (commit_action u t) (\<lambda>_. seq (push_session s) (\<lambda>_. rest)) ue) as = (tr, Done (r, ue'), as')"
  then obtain res as1 where as: "as = AnsCommit res # as1"
    by (auto simp: exec_seq commit_action_def then_exec_def split: list.splits answer.splits)
  show "frame ue tr ue'"
  proof (cases res)
    case (Inl e)
    with run as show ?thesis
      by (auto simp: exec_seq commit_action_def then_exec_def log_def frame_def)
  next
    case (Inr z)
    let ?ue = "ue\<lparr>ue_pdu_sessions := ue_pdu_sessions ue @ [s]\<rparr>"
    from run as Inr obtain tr1 where tr: "tr = EvCommit u t (Inr ()) # tr1" and "exec (rest ?ue) as1 = (tr1, Done (r, ue'), as')"
      by (auto simp: exec_seq commit_action_def push_session_def then_exec_def log_def split: prod.splits outcome.splits)
    with framesD [OF assms(1)] have "frame ?ue tr1 ue'" by blast
    then show ?thesis using assms(2) by (auto simp: frame_def tr)
  qed
qed

lemma frames_reserve: "frames reserve_action"
  by (auto simp: frames_def reserve_action_def frame_def split: list.splits answer.splits sum.splits)

lemma frames_context_setup: "frames (perform_f1_ue_context_setup env s)"
  by (auto simp: frames_def perform_f1_ue_context_setup_def frame_def split: list.splits answer.splits option.splits)

lemma frames_release: "frames (perform_f1_ue_context_release c)"
  by (auto simp: frames_def perform_f1_ue_context_release_def frame_def split: list.splits answer.splits option.splits)

lemma frames_reconfiguration: "frames (perform_rrc_reconfiguration env nas cgc i)"
  unfolding perform_rrc_reconfiguration_def by (intro frames_intros)

lemma frames_session_establishment: "frames (session_establishment env hdr dnn)"
  unfolding session_establishment_def Let_def
  by (rule frames_seq [OF frames_reserve])
    (auto intro!: frames_seq frames_context_setup frames_commit_push frames_reconfiguration frames_intros)

lemma frames_handle_ue_pdu: "frames (handle_ue_pdu env pdu)"
  unfolding handle_ue_pdu_def ul_information_transfer_def uplink_nas_def deregistration_def
    release_cu_initiated_def release_du_initiated_def
  by (auto intro!: frames_seq frames_session_establishment frames_release
      split: f1ap_pdu.split initiating_message.split ul_dcch_message.split option.split
        nas_5gs_message.split nas_5gmm_message.split nas_5gsm_message.split)

lemma frames_loop: "frames (ue_message_loop env n)"
proof (induction n)
  case 0
  show ?case by (simp add: frames_def)
next
  case (Suc n)
  have body: "frames (seq (handle_ue_pdu env pdu) (\<lambda>_. ue_message_loop env n))" for pdu
    by (intro frames_seq frames_handle_ue_pdu Suc)
  show ?case
    unfolding frames_def
  proof (intro allI impI)
    fix ue as tr r ue' as'
    assume "exec (ue_message_loop env (Suc n) ue) as = (tr, Done (r, ue'), as')"
    then obtain pdu as1 tr1 where "as = AnsRecv pdu # as1" and tr: "tr = EvRecv pdu # tr1"
      and "exec (case pdu of None \<Rightarrow> Return (Inr (), ue)
             | Some pdu \<Rightarrow> seq (handle_ue_pdu env pdu) (\<lambda>_. ue_message_loop env n) ue) as1 = (tr1, Done (r, ue'), as')"
      by (auto split: list.splits answer.splits)
    then have "frame ue tr1 ue'" by (cases pdu) (auto dest: framesD [OF body])
    then show "frame ue tr ue'" by (simp add: frame_def tr)
  qed
qed

lemma frames_run_inner: "frames (run_inner env fuel r)"
  unfolding run_inner_def by (intro frames_seq frames_initial_access frames_loop)

section \<open>The end of a task\<close>

lemma exec_delete_sessions:
  "exec (delete_sessions ss p) as = (map (\<lambda>s. EvDelete (userplane_info s)) ss @ fst (exec p as), snd (exec p as))"
  by (induction ss) (auto simp: log_def)

lemma exec_destroy:
  "exec (destroy ue (Return r)) as =
     (map (\<lambda>s. EvDelete (userplane_info s)) (ue_pdu_sessions ue) @ [EvDeleteChannel (ue_key ue)], Done r, as)"
  by (simp add: destroy_def exec_delete_sessions log_def)

lemma deleted_map: "deleted (map (\<lambda>s. EvDelete (userplane_info s)) ss) = map userplane_info ss"
  by (induction ss) auto

text \<open>
  C20. A UE task that ends leaves no session behind that it committed: whatever made it end, success or any
  error, the sessions it deletes are exactly the sessions it committed, each once and in the order they were
  established, and its last act is to remove its own channel from the core.
\<close>

theorem ue_task_cleans_up:
  assumes "exec (ue_message_handler env fuel ue_id)
      (AnsRecv (Some (InitiatingMessage (InitialUlRrcMessageTransfer r))) # AnsRandom tmsi # as) = (tr, Done result, as')"
  shows "deleted tr = committed tr \<and> last tr = EvDeleteChannel ue_id"
proof -
  let ?ue = "ue_context_new ue_id (iut_gnb_du_ue_f1ap_id r) (iut_nr_cgi r) (Arr4 (tmsi ! 0) (tmsi ! 1) (tmsi ! 2) (tmsi ! 3))"
  from assms obtain tr0 where tr: "tr = EvRecv (Some (InitiatingMessage (InitialUlRrcMessageTransfer r))) # EvRandom tmsi # tr0"
    and run: "exec (proc_bind (run_inner env fuel r ?ue) (\<lambda>(result, ue'). destroy ue' (Return result))) as = (tr0, Done result, as')"
    by (auto simp: ue_message_handler_def Let_def)
  from run obtain tr1 ue' where inner: "exec (run_inner env fuel r ?ue) as = (tr1, Done (result, ue'), as')"
    and tr0: "tr0 = tr1 @ map (\<lambda>s. EvDelete (userplane_info s)) (ue_pdu_sessions ue') @ [EvDeleteChannel (ue_key ue')]"
    by (auto simp: exec_bind then_exec_Done exec_destroy)
  from framesD [OF frames_run_inner inner] have f: "frame ?ue tr1 ue'" .
  then have key: "ue_key ue' = ue_id" and sessions: "map userplane_info (ue_pdu_sessions ue') = committed tr1"
    and none: "deleted tr1 = []"
    by (auto simp: frame_def ue_context_new_def)
  have "committed (map (\<lambda>s. EvDelete (userplane_info s)) ss) = []" for ss
    by (induction ss) auto
  then show ?thesis
    by (simp add: tr tr0 key none deleted_map sessions)
qed

section \<open>The authentication gate\<close>

text \<open>An event that carries a NAS message of the UE in an uplink RRC message.\<close>

definition received_nas :: "qc_env \<Rightarrow> event \<Rightarrow> nas_5gs_message \<Rightarrow> bool" where
  "received_nas env e nas \<longleftrightarrow> (\<exists>t b. e = EvRecv (Some (InitiatingMessage (UlRrcMessageTransfer t)))
     \<and> extract_ul_dcch_message env t = Inr (UlInformationTransfer (Some (Some b)))
     \<and> nas_context_decode (env_nas env) b = Inr nas)"

lemma nas_request_ok:
  assumes "exec (nas_request env nas ue) as = (tr, Done (Inr y, ue'), as')"
  obtains b nas' tx e1 e2 where
    "nas_context_encode (env_overflow_checks env) (env_crypto env) (env_nas env) nas (ue_nas ue) = Some (Inr b, nas')"
    "ue' = ue\<lparr>ue_nas := nas', ue_pdcp_tx := tx\<rparr>" "pdcp_integrity_key tx = pdcp_integrity_key (ue_pdcp_tx ue)"
    "tr = [e1, e2]" "received_nas env e2 y"
proof -
  let ?k = "\<lambda>x. case x of UlInformationTransfer (Some (Some response_bytes)) \<Rightarrow> lift (nas_context_decode (env_nas env) response_bytes)
       | _ \<Rightarrow> bail ExpectedDedicatedNasMessage"
  from assms [unfolded nas_request_def] obtain tr0 b ue0 as0 tr00 where
    e: "exec (nas_encode_action env nas ue) as = (tr0, Done (Inr b, ue0), as0)"
    and run: "exec (seq (rrc_request env 1 (dl_information_transfer 1 b)) ?k ue0) as0 = (tr00, Done (Inr y, ue'), as')"
    and tr0: "tr = tr0 @ tr00"
    by (rule exec_seq_ok)
  from e obtain nas' where enc: "nas_context_encode (env_overflow_checks env) (env_crypto env) (env_nas env) nas (ue_nas ue) = Some (Inr b, nas')"
    and ue0: "ue0 = ue\<lparr>ue_nas := nas'\<rparr>" "tr0 = []" "as0 = as"
    by (auto simp: nas_encode_action_def split: option.splits prod.splits)
  from run obtain tr1 x ue1 as1 tr2 where
    rrc: "exec (rrc_request env 1 (dl_information_transfer 1 b) ue0) as0 = (tr1, Done (Inr x, ue1), as1)"
    and dec: "exec (?k x ue1) as1 = (tr2, Done (Inr y, ue'), as')" and tr: "tr00 = tr1 @ tr2"
    by (rule exec_seq_ok)
  from dec obtain rb where x: "x = UlInformationTransfer (Some (Some rb))" "nas_context_decode (env_nas env) rb = Inr y"
    "ue' = ue1" "tr2 = []"
    by (auto split: ul_dcch_message.splits option.splits)
  from rrc show ?thesis
  proof (cases rule: exec_rrc_request)
    case (sent m c tx pdu)
    from sent(6) [OF refl] obtain t where "pdu = Some (InitiatingMessage (UlRrcMessageTransfer t))"
      "extract_ul_dcch_message env t = Inr x" by blast
    with x have "received_nas env (EvRecv pdu) y" by (auto simp: received_nas_def)
    then show ?thesis
      using sent x tr tr0 ue0 pdcp_encode_count(2) [OF sent(2)] by (intro that [OF enc, of tx _ "EvRecv pdu"]) auto
  qed simp
qed

lemma authenticate_ok:
  assumes "exec (authenticate_ue env imsi ue) as = (tr, Done (Inr kamf, ue'), as')"
    and "\<not> cfg_skip_ue_authentication_check (env_config env)"
  obtains sim rnd e1 e2 resp where "env_sims env imsi = Some sim" "tr = [EvRandom rnd, e1, e2]"
    "received_nas env e2 (Gmm (AuthenticationResponse resp))"
    "authentication_response_parameter resp = Some (xres_star (ue_generate_challenge env sim rnd))"
    "kamf = derive_kamf (env_crypto env) (kseaf (ue_generate_challenge env sim rnd)) (string_bytes imsi)"
    "\<exists>b. nas_context_encode (env_overflow_checks env) (env_crypto env) (env_nas env)
      (authentication_request (ch_rand (ue_generate_challenge env sim rnd)) (autn (ue_generate_challenge env sim rnd))) (ue_nas ue)
      = Some (Inr b, ue_nas ue')"
    "pdcp_integrity_key (ue_pdcp_tx ue') = pdcp_integrity_key (ue_pdcp_tx ue)"
proof -
  from assms(1) obtain sim where sim: "env_sims env imsi = Some sim"
    by (cases "env_sims env imsi") (auto simp: authenticate_ue_def)
  with assms(1) obtain rnd tr1 as1 where tr: "tr = EvRandom rnd # tr1"
    and run: "exec (seq (nas_request env (authentication_request (ch_rand (ue_generate_challenge env sim rnd)) (autn (ue_generate_challenge env sim rnd)))) (\<lambda>nas.
              seq (lift (expect_authentication_response nas)) (\<lambda>response.
              seq (lift (check_authentication_response env response (ue_generate_challenge env sim rnd))) (\<lambda>_.
              ok (derive_kamf (env_crypto env) (kseaf (ue_generate_challenge env sim rnd)) (string_bytes imsi))))) ue) as1
        = (tr1, Done (Inr kamf, ue'), as')"
    by (auto simp: authenticate_ue_def Let_def split: list.splits answer.splits)
  let ?ch = "ue_generate_challenge env sim rnd"
  from run obtain tr2 nas ue1 as2 tr3 where
    req: "exec (nas_request env (authentication_request (ch_rand ?ch) (autn ?ch)) ue) as1 = (tr2, Done (Inr nas, ue1), as2)"
    and rest: "exec (seq (lift (expect_authentication_response nas)) (\<lambda>response.
              seq (lift (check_authentication_response env response ?ch)) (\<lambda>_.
              ok (derive_kamf (env_crypto env) (kseaf ?ch) (string_bytes imsi)))) ue1) as2 = (tr3, Done (Inr kamf, ue'), as')"
    and tr1: "tr1 = tr2 @ tr3"
    by (rule exec_seq_ok)
  from rest obtain resp where resp: "expect_authentication_response nas = Inr resp"
    "check_authentication_response env resp ?ch = Inr ()" "kamf = derive_kamf (env_crypto env) (kseaf ?ch) (string_bytes imsi)"
    "ue' = ue1" "tr3 = []"
    by (auto simp: exec_seq_lift split: sum.splits)
  from resp(1) have nas: "nas = Gmm (AuthenticationResponse resp)"
    by (cases nas rule: expect_authentication_response.cases) auto
  from resp(2) assms(2) have "authentication_response_parameter resp = Some (xres_star ?ch)"
    by (auto simp: check_authentication_response_def split: option.splits if_splits)
  moreover from req obtain b nas' tx e1 e2 where
    "nas_context_encode (env_overflow_checks env) (env_crypto env) (env_nas env) (authentication_request (ch_rand ?ch) (autn ?ch)) (ue_nas ue) = Some (Inr b, nas')"
    "ue1 = ue\<lparr>ue_nas := nas', ue_pdcp_tx := tx\<rparr>" "pdcp_integrity_key tx = pdcp_integrity_key (ue_pdcp_tx ue)"
    "tr2 = [e1, e2]" "received_nas env e2 nas"
    by (rule nas_request_ok)
  ultimately show ?thesis using sim tr tr1 resp nas by (intro that [of sim rnd e1 e2 resp]) auto
qed

lemma nas_encode_count:
  assumes "nas_context_encode oc cr lib nas ctx = Some (Inr b, ctx')" and "nas_security_context ctx = Some sc"
  shows "nas_security_context ctx' = Some (sc\<lparr>dl_count := (dl_count sc + 1) AND 0xffffff\<rparr>)"
  using assms
  by (auto simp: nas_context_encode_def encode_with_integrity_def Let_def rs_simps split: option.splits sum.splits prod.splits)

lemma activate_nas_ok:
  assumes "exec (activate_nas_security env caps kamf ue) as = (tr, Done (Inr (), ue'), as')"
  shows "nas_security_context (ue_nas ue') = Some \<lparr>sc_ik = derive_knasint (env_crypto env) kamf, dl_count = 1\<rparr>"
proof -
  let ?ue = "ue\<lparr>ue_nas := nas_context_enable_security (derive_knasint (env_crypto env) kamf) (ue_nas ue)\<rparr>"
  from assms obtain tr1 as1 where run: "exec (seq (nas_request env (nas_security_mode_command_msg caps)) (\<lambda>nas.
     seq (lift (expect_security_mode_complete nas)) (\<lambda>rsp. lift (check_nas_security_mode_complete env rsp))) ?ue) as1
     = (tr1, Done (Inr (), ue'), as')"
    by (auto simp: activate_nas_security_def configure_nas_security_def exec_seq_return)
  from run obtain tr2 nas ue1 as2 tr3 where req: "exec (nas_request env (nas_security_mode_command_msg caps) ?ue) as1 = (tr2, Done (Inr nas, ue1), as2)"
    and rest: "exec (seq (lift (expect_security_mode_complete nas)) (\<lambda>rsp. lift (check_nas_security_mode_complete env rsp)) ue1) as2
      = (tr3, Done (Inr (), ue'), as')"
    by (rule exec_seq_ok)
  from rest have ue': "ue' = ue1" by (auto simp: exec_seq_lift split: sum.splits)
  from req obtain b nas' tx e1 e2 where "nas_context_encode (env_overflow_checks env) (env_crypto env) (env_nas env)
      (nas_security_mode_command_msg caps) (ue_nas ?ue) = Some (Inr b, nas')" and "ue1 = ?ue\<lparr>ue_nas := nas', ue_pdcp_tx := tx\<rparr>"
    by (rule nas_request_ok)
  then show ?thesis
    using nas_encode_count [of _ _ _ _ "ue_nas ?ue" b nas' "security_context_new (derive_knasint (env_crypto env) kamf)"]
    by (simp add: ue' nas_context_enable_security_def security_context_new_def)
qed

lemma activate_rrc_ok:
  assumes "exec (activate_rrc_security env kamf ue) as = (tr, Done (Inr (), ue'), as')"
  shows "ue_nas ue' = ue_nas ue"
    and "pdcp_integrity_key (ue_pdcp_tx ue') = Some (derive_krrcint (env_crypto env) (derive_kgnb (env_crypto env) kamf 0))"
proof -
  let ?key = "derive_krrcint (env_crypto env) (derive_kgnb (env_crypto env) kamf 0)"
  let ?ue = "ue\<lparr>ue_pdcp_tx := pdcp_enable_security ?key (ue_pdcp_tx ue)\<rparr>"
  from assms have "exec (proc_bind (rrc_request env 1 (rrc_security_mode_command 1) ?ue) (\<lambda>(_, ue'). Return (Inr () :: error + unit, ue'))) as
      = (tr, Done (Inr (), ue'), as')"
    by (simp add: activate_rrc_security_def exec_seq configure_rrc_security_def Let_def)
  then obtain r tr1 where req: "exec (rrc_request env 1 (rrc_security_mode_command 1) ?ue) as = (tr1, Done (r, ue'), as')"
    by (auto simp: exec_bind then_exec_Done)
  have key: "pdcp_integrity_key (ue_pdcp_tx ?ue) = Some ?key" by (simp add: pdcp_enable_security_def)
  from req have both: "ue_nas ue' = ue_nas ue \<and> pdcp_integrity_key (ue_pdcp_tx ue') = Some ?key"
  proof (cases rule: exec_rrc_request)
    case (sent b c tx pdu)
    then show ?thesis using pdcp_encode_count(2) [OF sent(2)] key by simp
  qed (use key in simp)
  from both show "ue_nas ue' = ue_nas ue" and "pdcp_integrity_key (ue_pdcp_tx ue') = Some ?key" by auto
qed

lemma complete_registration_ok:
  assumes "exec (complete_nas_registration env ue) as = (tr, Done (Inr (), ue'), as')"
    and "nas_security_context (ue_nas ue) = Some sc"
  shows "nas_security_context (ue_nas ue') = Some (sc\<lparr>dl_count := (dl_count sc + 1) AND 0xffffff\<rparr>)"
    and "pdcp_integrity_key (ue_pdcp_tx ue') = pdcp_integrity_key (ue_pdcp_tx ue)"
proof -
  let ?m = "registration_accept (cfg_sst (env_config env)) (cfg_plmn (env_config env)) (cfg_amf_ids (env_config env)) (ue_tmsi ue)"
  from assms(1) obtain tr1 nas ue1 as1 tr2 where "exec (nas_request env ?m ue) as = (tr1, Done (Inr nas, ue1), as1)"
    and rest: "exec (lift (expect_registration_complete nas) ue1) as1 = (tr2, Done (Inr (), ue'), as')"
    unfolding complete_nas_registration_def by (rule exec_seq_ok)
  then obtain b nas' tx e1 e2 where "nas_context_encode (env_overflow_checks env) (env_crypto env) (env_nas env) ?m (ue_nas ue) = Some (Inr b, nas')"
    "ue1 = ue\<lparr>ue_nas := nas', ue_pdcp_tx := tx\<rparr>" "pdcp_integrity_key tx = pdcp_integrity_key (ue_pdcp_tx ue)"
    by (auto elim: nas_request_ok)
  with rest assms(2) nas_encode_count show
    "nas_security_context (ue_nas ue') = Some (sc\<lparr>dl_count := (dl_count sc + 1) AND 0xffffff\<rparr>)"
    "pdcp_integrity_key (ue_pdcp_tx ue') = pdcp_integrity_key (ue_pdcp_tx ue)"
    by auto
qed

text \<open>The keys that a UE with these credentials derives after answering the challenge of these random bytes.\<close>

definition registration_kamf :: "qc_env \<Rightarrow> string \<Rightarrow> sim_creds \<Rightarrow> bytes \<Rightarrow> bytes" where
  "registration_kamf env imsi sim rnd =
     derive_kamf (env_crypto env) (kseaf (ue_generate_challenge env sim rnd)) (string_bytes imsi)"

lemma initial_access_ok:
  assumes "exec (initial_access env r ue) as = (tr, Done (Inr (), ue'), as')"
    and "\<not> cfg_skip_ue_authentication_check (env_config env)"
  obtains imsi sim rnd resp tr1 e1 e2 tr2 where "env_sims env imsi = Some sim"
    "tr = tr1 @ [EvRandom rnd, e1, e2] @ tr2" "received_nas env e2 (Gmm (AuthenticationResponse resp))"
    "authentication_response_parameter resp = Some (xres_star (ue_generate_challenge env sim rnd))"
    "nas_security_context (ue_nas ue') = Some \<lparr>sc_ik = derive_knasint (env_crypto env) (registration_kamf env imsi sim rnd), dl_count = 2\<rparr>"
    "pdcp_integrity_key (ue_pdcp_tx ue') =
       Some (derive_krrcint (env_crypto env) (derive_kgnb (env_crypto env) (registration_kamf env imsi sim rnd) 0))"
proof -
  from assms(1) [unfolded initial_access_def] obtain tra rr uea asa trb where
    "exec (handle_rrc_setup env r ue) as = (tra, Done (Inr rr, uea), asa)" and
    b: "exec (seq (lift (check_registration_request env rr)) (\<lambda>(imsi, ue_security_capability).
     seq (authenticate_ue env imsi) (\<lambda>kamf. seq (activate_nas_security env ue_security_capability kamf) (\<lambda>_.
     seq (activate_rrc_security env kamf) (\<lambda>_. complete_nas_registration env)))) uea) asa = (trb, Done (Inr (), ue'), as')"
    and tr: "tr = tra @ trb"
    by (rule exec_seq_ok)
  from b obtain imsi caps where c: "exec (seq (authenticate_ue env imsi) (\<lambda>kamf. seq (activate_nas_security env caps kamf) (\<lambda>_.
     seq (activate_rrc_security env kamf) (\<lambda>_. complete_nas_registration env))) uea) asa = (trb, Done (Inr (), ue'), as')"
    by (auto simp: exec_seq_lift split: sum.splits)
  from c obtain trc kamf uec asc trd where auth: "exec (authenticate_ue env imsi uea) asa = (trc, Done (Inr kamf, uec), asc)"
    and d: "exec (seq (activate_nas_security env caps kamf) (\<lambda>_. seq (activate_rrc_security env kamf) (\<lambda>_. complete_nas_registration env)) uec) asc
      = (trd, Done (Inr (), ue'), as')" and trb: "trb = trc @ trd"
    by (rule exec_seq_ok)
  from d obtain tre x ued asd trf where nas: "exec (activate_nas_security env caps kamf uec) asc = (tre, Done (Inr x, ued), asd)"
    and f: "exec (seq (activate_rrc_security env kamf) (\<lambda>_. complete_nas_registration env) ued) asd = (trf, Done (Inr (), ue'), as')"
    by (rule exec_seq_ok)
  from f obtain trg y uee ase trh where rrc: "exec (activate_rrc_security env kamf ued) asd = (trg, Done (Inr y, uee), ase)"
    and complete: "exec (complete_nas_registration env uee) ase = (trh, Done (Inr (), ue'), as')"
    by (rule exec_seq_ok)
  from auth assms(2) obtain sim rnd e1 e2 resp where a: "env_sims env imsi = Some sim" "trc = [EvRandom rnd, e1, e2]"
    "received_nas env e2 (Gmm (AuthenticationResponse resp))"
    "authentication_response_parameter resp = Some (xres_star (ue_generate_challenge env sim rnd))"
    "kamf = registration_kamf env imsi sim rnd"
    by (rule authenticate_ok) (auto simp: registration_kamf_def)
  from nas have sc: "nas_security_context (ue_nas uee) = Some \<lparr>sc_ik = derive_knasint (env_crypto env) kamf, dl_count = 1\<rparr>"
    using activate_nas_ok [of env caps kamf uec asc tre ued asd] activate_rrc_ok(1) [of env kamf ued asd trg uee ase] rrc by simp
  from complete_registration_ok [OF complete sc] activate_rrc_ok(2) [of env kamf ued asd trg uee ase] rrc show ?thesis
    by (intro that [of imsi sim tra rnd e1 e2 trd resp]) (auto simp: a tr trb)
qed

text \<open>
  C19. A UE is registered only if it proved to hold the secret of its SIM: when the initial access procedure
  succeeds (and the test switch is off), then for some provisioned IMSI the task drew a fresh RAND, and after
  that received an authentication response whose RES* equals the XRES* of the challenge for that RAND under the
  SIM's credentials; from then on NAS is protected with the KNASint and RRC with the KRRCint derived from exactly
  this challenge and IMSI, and the NAS COUNT has advanced by the two messages sent under protection.
\<close>

theorem registration_requires_authentication:
  assumes "exec (initial_access env r ue) as = (tr, Done (Inr (), ue'), as')"
    and "\<not> cfg_skip_ue_authentication_check (env_config env)"
  shows "\<exists>imsi sim rnd resp tr1 e1 e2 tr2. env_sims env imsi = Some sim
    \<and> tr = tr1 @ [EvRandom rnd, e1, e2] @ tr2 \<and> received_nas env e2 (Gmm (AuthenticationResponse resp))
    \<and> authentication_response_parameter resp = Some (xres_star (ue_generate_challenge env sim rnd))
    \<and> nas_security_context (ue_nas ue') =
        Some \<lparr>sc_ik = derive_knasint (env_crypto env) (registration_kamf env imsi sim rnd), dl_count = 2\<rparr>
    \<and> pdcp_integrity_key (ue_pdcp_tx ue') =
        Some (derive_krrcint (env_crypto env) (derive_kgnb (env_crypto env) (registration_kamf env imsi sim rnd) 0))"
  using assms by (rule initial_access_ok) blast

text \<open>The events that set up a session.\<close>

fun session_event :: "event \<Rightarrow> bool" where
  "session_event (EvReserve _) = True"
| "session_event (EvCommit _ _ _) = True"
| "session_event (EvSetup _ _) = True"
| "session_event _ = False"

lemma then_exec_cases:
  assumes "then_exec x k = (tr, out, as')"
  obtains (first) tr1 as1 out1 where "x = (tr1, out1, as1)" "tr = tr1" "\<And>r. out1 \<noteq> Done r"
  | (second) tr1 r as1 tr2 where "x = (tr1, Done r, as1)" "k r as1 = (tr2, out, as')" "tr = tr1 @ tr2"
  using assms by (cases x) (auto simp: then_exec_def split: outcome.splits prod.splits)

lemma exec_seq_event:
  assumes "exec (seq m f ue) as = (tr, out, as')" and "e \<in> set tr" and "emits P (m ue)" and "\<not> P e"
  obtains tr1 x ue1 as1 tr2 where "exec (m ue) as = (tr1, Done (Inr x, ue1), as1)"
    "exec (f x ue1) as1 = (tr2, out, as')" "tr = tr1 @ tr2" "e \<in> set tr2"
proof -
  have not_m: "e \<notin> set tr1" if "exec (m ue) as = (tr1, out1, as1)" for tr1 out1 as1
    using emits_exec [OF assms(3) that] assms(4) by blast
  from assms(1) [unfolded exec_seq] show ?thesis
  proof (cases rule: then_exec_cases)
    case (first tr1 as1 out1)
    with not_m assms(2) show ?thesis by auto
  next
    case (second tr1 r as1 tr2)
    obtain r' ue1 where r: "r = (r', ue1)" by (cases r)
    from second not_m assms(2) have e: "e \<in> set tr2" by auto
    with second r obtain x where "r' = Inr x" by (cases r') auto
    with second r e show ?thesis by (intro that) auto
  qed
qed

text \<open>
  C18. No session for a UE that has not authenticated: whenever a task reserves or commits a session or asks the DU
  for a bearer, in any execution, complete or not, then earlier in the same execution the UE answered the challenge
  for a freshly drawn RAND of a provisioned SIM correctly.
\<close>

theorem no_session_before_authentication:
  assumes "exec (ue_message_handler env fuel ue_id) as = (tr, out, as')"
    and "e \<in> set tr" and "session_event e"
    and "\<not> cfg_skip_ue_authentication_check (env_config env)"
  shows "\<exists>imsi sim rnd resp tr1 e1 e2 tr2. env_sims env imsi = Some sim
    \<and> tr = tr1 @ [EvRandom rnd, e1, e2] @ tr2 \<and> e \<in> set tr2
    \<and> received_nas env e2 (Gmm (AuthenticationResponse resp))
    \<and> authentication_response_parameter resp = Some (xres_star (ue_generate_challenge env sim rnd))"
proof -
  from assms(1-3) obtain r tmsi as1 tr0 where
    tr: "tr = [EvRecv (Some (InitiatingMessage (InitialUlRrcMessageTransfer r))), EvRandom tmsi] @ tr0" and e: "e \<in> set tr0"
    and run: "exec (proc_bind (run_inner env fuel r (ue_context_new ue_id (iut_gnb_du_ue_f1ap_id r) (iut_nr_cgi r)
        (Arr4 (tmsi ! 0) (tmsi ! 1) (tmsi ! 2) (tmsi ! 3)))) (\<lambda>(result, ue'). destroy ue' (Return result))) as1 = (tr0, out, as')"
    by (auto simp: ue_message_handler_def Let_def
        split: list.splits answer.splits option.splits f1ap_pdu.splits initiating_message.splits)
  let ?ue = "ue_context_new ue_id (iut_gnb_du_ue_f1ap_id r) (iut_nr_cgi r) (Arr4 (tmsi ! 0) (tmsi ! 1) (tmsi ! 2) (tmsi ! 3))"
  from run [unfolded exec_bind] obtain tri outi asi trd where inner: "exec (run_inner env fuel r ?ue) as1 = (tri, outi, asi)"
    and e': "e \<in> set tri" and tr0: "tr0 = tri @ trd"
  proof (cases rule: then_exec_cases)
    case (first tr1 as2 out1)
    with e show ?thesis by (intro that [of tr1 out1 as2 "[]"]) auto
  next
    case (second tr1 x as2 tr2)
    then have "\<forall>e \<in> set tr2. \<not> session_event e" by (cases x) (auto simp: exec_destroy)
    with second e assms(3) show ?thesis by (intro that [of tr1 "Done x" as2 tr2]) auto
  qed
  have "\<not> air_event e" using assms(3) by (cases e) auto
  with inner [unfolded run_inner_def] e' obtain trx x uex asx trz where
    ia: "exec (initial_access env r ?ue) as1 = (trx, Done (Inr x, uex), asx)" and tri: "tri = trx @ trz" "e \<in> set trz"
    using initial_access_air by (elim exec_seq_event) blast+
  have "exec (initial_access env r ?ue) as1 = (trx, Done (Inr (), uex), asx)" using ia by simp
  from this assms(4) obtain imsi sim rnd resp tr1 e1 e2 tr2 where "env_sims env imsi = Some sim" "trx = tr1 @ [EvRandom rnd, e1, e2] @ tr2"
    "received_nas env e2 (Gmm (AuthenticationResponse resp))"
    "authentication_response_parameter resp = Some (xres_star (ue_generate_challenge env sim rnd))"
    by (rule initial_access_ok)
  then show ?thesis
    using tri tr0 tr by (intro exI [of _ imsi] exI [of _ sim] exI [of _ rnd] exI [of _ resp]
      exI [of _ "[EvRecv (Some (InitiatingMessage (InitialUlRrcMessageTransfer r))), EvRandom tmsi] @ tr1"]
      exI [of _ e1] exI [of _ e2] exI [of _ "tr2 @ trz @ trd"]) auto
qed

section \<open>A concrete environment\<close>

text \<open>A core with one SIM, the reference encoders of NAS and RRC, and decoders that tell a handful of uplink messages
  apart by their first byte.\<close>

definition example_sim :: sim_creds where
  "example_sim = \<lparr>sim_ki = [1], sim_opc = [2]\<rparr>"

definition example_config :: config where
  "example_config = \<lparr>cfg_ip_addr = V4 (Arr4 192 168 1 1), cfg_name = Some ''QCore'', cfg_plmn = [0, 0xf1, 0x10],
     cfg_serving_network_name = ''5G:mnc001.mcc001.3gppnetwork.org'', cfg_sst = 1, cfg_skip_ue_authentication_check = False,
     cfg_amf_ids = [1, 0, 0x80], cfg_n6_tun_name = ''ue'', cfg_ue_subnet = Arr4 10 255 0 0\<rparr>"

definition example_identity :: bytes where
  "example_identity = [1, 0, 0xf1, 0x10, 0, 0, 0, 0, 0, 0, 0, 0, 0x10]"

definition example_dnn :: bytes where
  "example_dnn = [8, 0x69, 0x6e, 0x74, 0x65, 0x72, 0x6e, 0x65, 0x74]"

fun example_nas_decode :: "bytes \<Rightarrow> nas_5gs_message option" where
  "example_nas_decode (b # bs) =
     (if b = 0x41 then Some (Gmm (RegistrationRequest \<lparr>rr_fgs_mobile_identity = bs, rr_ue_security_capability = Some [0xe0, 0xe0]\<rparr>))
      else if b = 0x57 then Some (Gmm (AuthenticationResponse \<lparr>authentication_response_parameter = Some bs\<rparr>))
      else if b = 0x5e then Some (Gmm (SecurityModeComplete \<lparr>nas_message_container = None\<rparr>))
      else if b = 0x43 then Some (Gmm RegistrationComplete)
      else if b = 0x67 then Some (Gmm (UlNasTransport \<lparr>ut_payload_container = bs, ut_dnn = Some example_dnn\<rparr>))
      else if b = 0xc1 then Some (Gsm \<lparr>pdu_session_identity = 1, procedure_transaction_identity = 1\<rparr> PduSessionEstablishmentRequest)
      else None)"
| "example_nas_decode [] = None"

fun example_ul_dcch_decode :: "bytes \<Rightarrow> ul_dcch_message option" where
  "example_ul_dcch_decode (b # bs) =
     (if b = 0x10 then Some (RrcSetupComplete (Some bs))
      else if b = 0x3a then Some (UlInformationTransfer (Some (Some bs)))
      else if b = 0x08 then Some RrcReconfigurationComplete
      else None)"
| "example_ul_dcch_decode [] = None"

definition example_env :: qc_env where
  "example_env = \<lparr>env_config = example_config, env_sims = [''001010000000001'' \<mapsto> example_sim], env_crypto = example_crypto,
     env_nas = \<lparr>nas_encode_5gs = nas_ref_encode, nas_decode_5gs = example_nas_decode\<rparr>,
     env_rrc = \<lparr>rrc_uper = uper_ref, rrc_unset_ies = (\<lambda>_ _. enc_skip), ul_dcch_decode = example_ul_dcch_decode,
                ul_ccch_decode = (\<lambda>b. Some (RrcSetupRequest b)), sib2_encode = Some [0]\<rparr>,
     env_overflow_checks = False\<rparr>"

section \<open>A session that is never given back\<close>

text \<open>
  C29. A reservation is lost when the establishment of the bearer fails: if the packet processor hands out a session
  and the DU then refuses the context setup, the procedure returns an error with the session neither committed nor
  remembered, so that the clean-up of the task deletes every session of the UE except this one.
\<close>

theorem refused_bearer_leaks_session:
  assumes "u \<notin> userplane_info ` set (ue_pdu_sessions ue)"
  shows "\<exists>tr. exec (proc_bind (session_establishment env hdr dnn ue) (\<lambda>(result, ue'). destroy ue' (Return result)))
      (AnsReserve (Inr u) # AnsSetup None # as) = (tr, Done (Inl F1apRequestFailed), as)
    \<and> EvReserve (Inr u) \<in> set tr \<and> EvDelete u \<notin> set tr
    \<and> (\<forall>s \<in> set (ue_pdu_sessions ue). EvDelete (userplane_info s) \<in> set tr)"
proof -
  obtain m where "exec (session_establishment env hdr dnn ue) (AnsReserve (Inr u) # AnsSetup None # as)
      = ([EvReserve (Inr u), EvSetup m None], Done (Inl F1apRequestFailed, ue), as)"
    by (simp add: session_establishment_def reserve_action_def perform_f1_ue_context_setup_def exec_seq
        Let_def then_exec_def log_def)
  then show ?thesis using assms by (auto simp: exec_bind then_exec_def exec_destroy)
qed

theorem refused_bearer_leaks_session_witness:
  "\<exists>tr. exec (proc_bind (session_establishment example_env \<lparr>pdu_session_identity = 1, procedure_transaction_identity = 1\<rparr> None
        (ue_context_new 7 8 example_cgi (Arr4 1 2 3 4))) (\<lambda>(result, ue'). destroy ue' (Return result)))
      [AnsReserve (Inr example_session), AnsSetup None] = (tr, Done (Inl F1apRequestFailed), [])
    \<and> EvDelete example_session \<notin> set tr"
proof -
  have "example_session \<notin> userplane_info ` set (ue_pdu_sessions (ue_context_new 7 8 example_cgi (Arr4 1 2 3 4)))"
    by (simp add: ue_context_new_def)
  from refused_bearer_leaks_session [OF this] show ?thesis by blast
qed

section \<open>Fuel and panics\<close>

text \<open>A predicate on the leaves of a procedure.\<close>

primrec leaves :: "bool \<Rightarrow> bool \<Rightarrow> 'r proc \<Rightarrow> bool" where
  "leaves a b (Return x) \<longleftrightarrow> True"
| "leaves a b Panic \<longleftrightarrow> a"
| "leaves a b NoFuel \<longleftrightarrow> b"
| "leaves a b (Recv k) \<longleftrightarrow> (\<forall>x. leaves a b (k x))"
| "leaves a b (F1apIndication m p) \<longleftrightarrow> leaves a b p"
| "leaves a b (UeContextSetup m k) \<longleftrightarrow> (\<forall>x. leaves a b (k x))"
| "leaves a b (UeContextRelease m k) \<longleftrightarrow> (\<forall>x. leaves a b (k x))"
| "leaves a b (ReserveSession k) \<longleftrightarrow> (\<forall>x. leaves a b (k x))"
| "leaves a b (CommitSession u t k) \<longleftrightarrow> (\<forall>x. leaves a b (k x))"
| "leaves a b (DeleteSession u p) \<longleftrightarrow> leaves a b p"
| "leaves a b (DeleteUeChannel i p) \<longleftrightarrow> leaves a b p"
| "leaves a b (RandomBytes n k) \<longleftrightarrow> (\<forall>x. leaves a b (k x))"

lemma leaves_bind: "leaves a b p \<Longrightarrow> (\<And>x. leaves a b (f x)) \<Longrightarrow> leaves a b (proc_bind p f)"
  by (induction p rule: proc_induct) auto

lemma leaves_seq: "leaves a b (m ue) \<Longrightarrow> (\<And>x ue'. leaves a b (f x ue')) \<Longrightarrow> leaves a b (seq m f ue)"
  unfolding seq_def by (rule leaves_bind) (auto split: sum.split)

lemma leaves_basic [simp]: "leaves a b (lift r ue)" "leaves a b (ok x ue)" "leaves a b (bail e ue)"
  by (simp_all add: lift_def ok_def bail_def)

lemma leaves_exec:
  "leaves a b p \<Longrightarrow> exec p as = (tr, out, as') \<Longrightarrow> (out = Panicked \<longrightarrow> a) \<and> (out = OutOfFuel \<longrightarrow> b)"
  by (induction p arbitrary: as tr rule: proc_induct) (auto split: list.splits answer.splits)

text \<open>Under which conditions the two operations that can panic do not.\<close>

definition never_panics :: "qc_env \<Rightarrow> bool" where
  "never_panics env \<longleftrightarrow> \<not> env_overflow_checks env \<and> nas_layout (env_nas env)"

lemma pdcp_no_panic:
  "never_panics env \<Longrightarrow> srb \<in> {0, 1} \<Longrightarrow> maybe_pdcp_encapsulate env b srb tx \<noteq> None"
  by (auto simp: never_panics_def maybe_pdcp_encapsulate_def pdcp_encode_def Let_def split: option.splits)

lemma nas_no_panic:
  assumes "never_panics env"
  shows "nas_context_encode (env_overflow_checks env) (env_crypto env) (env_nas env) nas ctx \<noteq> None"
proof (cases "nas_encode_5gs (env_nas env) nas")
  case None
  with assms show ?thesis
    by (auto simp: nas_context_encode_def encode_with_integrity_def encode_nas_5gs_message_def never_panics_def
        nas_layout_def Let_def split: option.splits)
next
  case (Some inner)
  with assms show ?thesis
    using encode_with_integrity_eq [of "env_nas env" nas inner]
    by (auto simp: nas_context_encode_def never_panics_def split: option.splits)
qed

lemma leaves_rrc_request:
  assumes "a \<or> never_panics env \<and> srb \<in> {0, 1}"
  shows "leaves a b (rrc_request env srb m ue)"
proof -
  have "leaves a b (case maybe_pdcp_encapsulate env x srb tx of None \<Rightarrow> Panic | Some (c, tx') \<Rightarrow> f c tx')"
    if "\<And>c tx'. leaves a b (f c tx')" for x tx and f :: "bytes \<Rightarrow> pdcp_tx \<Rightarrow> ((error + ul_dcch_message) \<times> ue_context) proc"
    using that assms pdcp_no_panic [of env srb x tx] by (auto split: option.split)
  then show ?thesis
    unfolding rrc_request_def
    by (intro leaves_seq) (auto simp: Let_def split: option.split f1ap_pdu.split initiating_message.split)
qed

lemma leaves_nas_encode: "a \<or> never_panics env \<Longrightarrow> leaves a b (nas_encode_action env nas ue)"
  using nas_no_panic [of env nas "ue_nas ue"] by (auto simp: nas_encode_action_def split: option.split)

lemma leaves_nas_request: "a \<or> never_panics env \<Longrightarrow> leaves a b (nas_request env nas ue)"
  unfolding nas_request_def
  by (intro leaves_seq leaves_nas_encode leaves_rrc_request) (auto split: ul_dcch_message.split option.split)

lemmas leaves_intros = leaves_seq leaves_bind leaves_nas_request leaves_rrc_request leaves_nas_encode

lemma leaves_initial_access: "a \<or> never_panics env \<Longrightarrow> leaves a b (initial_access env r ue)"
  unfolding initial_access_def handle_rrc_setup_def authenticate_ue_def activate_nas_security_def
    activate_rrc_security_def complete_nas_registration_def configure_nas_security_def configure_rrc_security_def
  by (intro leaves_seq) (auto simp: Let_def intro!: leaves_intros split: option.split)

lemma leaves_handle_ue_pdu: "a \<or> never_panics env \<Longrightarrow> leaves a b (handle_ue_pdu env pdu ue)"
  unfolding handle_ue_pdu_def ul_information_transfer_def uplink_nas_def deregistration_def session_establishment_def
    release_cu_initiated_def release_du_initiated_def perform_f1_ue_context_release_def perform_rrc_reconfiguration_def
    perform_f1_ue_context_setup_def reserve_action_def commit_action_def push_session_def
  by (auto simp: Let_def intro!: leaves_intros split: f1ap_pdu.split initiating_message.split ul_dcch_message.split option.split
        nas_5gs_message.split nas_5gmm_message.split nas_5gsm_message.split sum.split)

lemma leaves_loop: "a \<or> never_panics env \<Longrightarrow> leaves a True (ue_message_loop env n ue)"
  by (induction n arbitrary: ue) (auto intro!: leaves_seq leaves_handle_ue_pdu split: option.split)

lemma leaves_destroy: "leaves a b (destroy ue (Return x))"
proof -
  have "leaves a b p \<Longrightarrow> leaves a b (delete_sessions ss p)" for ss and p :: "'a proc"
    by (induction ss) auto
  then show ?thesis by (simp add: destroy_def)
qed

lemma then_exec_OutOfFuel:
  "then_exec x k = (tr, OutOfFuel, as') \<longleftrightarrow>
     x = (tr, OutOfFuel, as') \<or>
     (\<exists>tr1 r1 as1 tr2. x = (tr1, Done r1, as1) \<and> k r1 as1 = (tr2, OutOfFuel, as') \<and> tr = tr1 @ tr2)"
  by (cases x) (auto simp: then_exec_def split: outcome.splits prod.splits)

lemma leaves_handler: "a \<or> never_panics env \<Longrightarrow> leaves a True (ue_message_handler env fuel ue_id)"
  unfolding ue_message_handler_def run_inner_def
  by (auto simp: Let_def intro!: leaves_bind leaves_seq leaves_initial_access leaves_loop leaves_destroy
      split: option.split f1ap_pdu.split initiating_message.split)

text \<open>An execution only consumes answers.\<close>

lemma exec_consumes: "exec p as = (tr, out, as') \<Longrightarrow> length as' \<le> length as"
  by (induction p arbitrary: as tr rule: proc_induct) (fastforce split: list.splits answer.splits)+

lemma exec_seq_cong:
  assumes "\<And>x ue1 as1 tr1. exec (m ue) as = (tr1, Done (Inr x, ue1), as1) \<Longrightarrow> exec (f x ue1) as1 = exec (g x ue1) as1"
  shows "exec (seq m f ue) as = exec (seq m g ue) as"
  using assms by (cases "exec (m ue) as") (auto simp: exec_seq then_exec_def split: outcome.split sum.split prod.split)

text \<open>With more fuel than answers the loop does not depend on the fuel.\<close>

lemma loop_fuel: "length as < n \<Longrightarrow> exec (ue_message_loop env n ue) as = exec (ue_message_loop env (Suc (length as)) ue) as"
proof (induction n arbitrary: ue as rule: less_induct)
  case (less n)
  then obtain n' where n: "n = Suc n'" by (cases n) auto
  have "exec (seq (handle_ue_pdu env pdu) (\<lambda>_. ue_message_loop env n') ue) as1
      = exec (seq (handle_ue_pdu env pdu) (\<lambda>_. ue_message_loop env (length as)) ue) as1"
    if "as = AnsRecv (Some pdu) # as1" for pdu as1
  proof (rule exec_seq_cong)
    fix x ue1 as2 tr1
    assume "exec (handle_ue_pdu env pdu ue) as1 = (tr1, Done (Inr x, ue1), as2)"
    then have "length as2 < length as" using exec_consumes that by fastforce
    then show "exec (ue_message_loop env n' ue1) as2 = exec (ue_message_loop env (length as) ue1) as2"
      using less.IH [of n' as2 ue1] less.IH [of "length as" as2 ue1] less.prems n by simp
  qed
  then show ?case by (auto simp: n split: list.split answer.split option.split)
qed

lemma loop_enough_fuel: "length as < n \<Longrightarrow> exec (ue_message_loop env n ue) as = (tr, out, as') \<Longrightarrow> out \<noteq> OutOfFuel"
proof (induction n arbitrary: ue as tr)
  case (Suc n)
  show ?case
  proof
    assume oof: "out = OutOfFuel"
    with Suc.prems obtain pdu as1 tr1 where as: "as = AnsRecv (Some pdu) # as1"
      and run: "exec (seq (handle_ue_pdu env pdu) (\<lambda>_. ue_message_loop env n) ue) as1 = (tr1, OutOfFuel, as')"
      by (auto split: list.splits answer.splits option.splits)
    have body: "leaves True False (handle_ue_pdu env pdu ue)" by (rule leaves_handle_ue_pdu) simp
    then have "exec (handle_ue_pdu env pdu ue) as1 \<noteq> (tr1, OutOfFuel, as')" using leaves_exec by blast
    with run obtain tr2 r ue1 as2 tr3 where d: "exec (handle_ue_pdu env pdu ue) as1 = (tr2, Done (r, ue1), as2)"
      "(case r of Inl e \<Rightarrow> exec (Return (Inl e, ue1)) | Inr x \<Rightarrow> exec (ue_message_loop env n ue1)) as2 = (tr3, OutOfFuel, as')"
      by (auto simp: exec_seq then_exec_OutOfFuel)
    with Suc.IH [of as2 ue1 tr3] oof exec_consumes [OF d(1)] Suc.prems(1) as show False by (cases r) auto
  qed
qed simp

lemma handler_fuel:
  assumes "length as < fuel"
  shows "exec (ue_message_handler env fuel ue_id) as = exec (ue_message_handler env (Suc (length as)) ue_id) as"
proof -
  have "exec (run_inner env fuel r ue) as1 = exec (run_inner env (Suc (length as)) r ue) as1" if "length as1 < length as" for r ue as1
    unfolding run_inner_def
  proof (rule exec_seq_cong)
    fix x ue1 as2 tr1
    assume "exec (initial_access env r ue) as1 = (tr1, Done (Inr x, ue1), as2)"
    then have "length as2 < length as" using exec_consumes that by fastforce
    then show "exec (ue_message_loop env fuel ue1) as2 = exec (ue_message_loop env (Suc (length as)) ue1) as2"
      using loop_fuel [of as2 fuel env ue1] loop_fuel [of as2 "Suc (length as)" env ue1] assms by simp
  qed
  then show ?thesis
    by (auto simp: ue_message_handler_def Let_def exec_bind
        split: list.split answer.split option.split f1ap_pdu.split initiating_message.split)
qed

lemma handler_enough_fuel:
  assumes "length as < fuel" and "exec (ue_message_handler env fuel ue_id) as = (tr, out, as')"
  shows "out \<noteq> OutOfFuel"
proof
  assume "out = OutOfFuel"
  with assms(2) obtain r ue a1 a2 as1 tr1 where as: "as = a1 # a2 # as1"
    and run: "exec (proc_bind (run_inner env fuel r ue) (\<lambda>(result, ue'). destroy ue' (Return result))) as1 = (tr1, OutOfFuel, as')"
    by (auto simp: ue_message_handler_def Let_def
        split: list.splits answer.splits option.splits f1ap_pdu.splits initiating_message.splits)
  from run have inner: "exec (seq (initial_access env r) (\<lambda>_. ue_message_loop env fuel) ue) as1 = (tr1, OutOfFuel, as')"
    by (auto simp: exec_bind run_inner_def exec_destroy then_exec_OutOfFuel)
  have "leaves True False (initial_access env r ue)" by (rule leaves_initial_access) simp
  then have "exec (initial_access env r ue) as1 \<noteq> (tr1, OutOfFuel, as')" using leaves_exec by blast
  with inner obtain tr2 x ue1 as2 tr3 where d: "exec (initial_access env r ue) as1 = (tr2, Done (x, ue1), as2)"
      "(case x of Inl e \<Rightarrow> exec (Return (Inl e, ue1)) | Inr _ \<Rightarrow> exec (ue_message_loop env fuel ue1)) as2 = (tr3, OutOfFuel, as')"
    by (auto simp: exec_seq then_exec_OutOfFuel)
  with loop_enough_fuel [of as2 fuel env ue1 tr3] exec_consumes [OF d(1)] as assms(1) show False by (cases x) auto
qed

text \<open>
  C21. A UE task always comes to an end or waits for its peer.  In a release build, with a NAS library that puts the
  MAC where the code patches it in, no behaviour of the UE, the DU or the user plane makes the task panic; and
  fuel larger than the number of answers is never used up and gives the same execution whatever its size, so the
  bound on the message loop is one of the description and not of the program.
\<close>

theorem ue_task_total:
  assumes "never_panics env" and "length as < fuel"
  shows "exec (ue_message_handler env fuel ue_id) as = exec (ue_message_handler env (Suc (length as)) ue_id) as
    \<and> (fst (snd (exec (ue_message_handler env fuel ue_id) as)) = Waiting
       \<or> (\<exists>result. fst (snd (exec (ue_message_handler env fuel ue_id) as)) = Done result))"
proof -
  obtain tr out as' where run: "exec (ue_message_handler env fuel ue_id) as = (tr, out, as')"
    by (cases "exec (ue_message_handler env fuel ue_id) as") auto
  from assms(1) have "leaves False True (ue_message_handler env fuel ue_id)" by (intro leaves_handler) simp
  from leaves_exec [OF this run] have "out \<noteq> Panicked" by simp
  with run handler_enough_fuel [OF assms(2) run] handler_fuel [OF assms(2)] show ?thesis
    by (cases out) auto
qed

end
