(* ===== verification/Ue_Scenarios.thy ===== *)
theory Ue_Scenarios
  imports Ue_Properties
begin

text \<open>
  Runs of a UE task with a peer that behaves: registration and session establishment complete, whatever the
  cryptography and the credentials, with the RRC encoders of \<open>rrc.rs\<close> over any PER library that writes values
  within their bounds and any NAS library that encodes what the standard allows; and one concrete run from attach to detach that the theorems about
  all executions are applied to.
\<close>

section \<open>A well-behaved UE\<close>

text \<open>
  What the procedures rely on: a build without overflow checks, libraries that write what PER and NAS allow, the sizes
  of the cryptographic primitives, and the configuration's three octets of PLMN and AMF identifiers (\<open>[u8; 3]\<close>).
\<close>

definition lawful_env :: "qc_env \<Rightarrow> bool" where
  "lawful_env env \<longleftrightarrow> never_panics env \<and> uper_writes (rrc_uper (env_rrc env)) \<and> nas_encodes (env_nas env)
     \<and> crypto_lengths (env_crypto env) \<and> length (cfg_plmn (env_config env)) = 3 \<and> length (cfg_amf_ids (env_config env)) = 3"

lemma rrc_encoded:
  assumes "lawful_env env" "rrc_in_bounds m"
  shows "\<exists>b. rrc_into_bytes (env_rrc env) m = Inr b"
proof -
  from assms have "\<exists>b. rrc_dl_into_bytes (rrc_uper (env_rrc env)) (rrc_unset_ies (env_rrc env)) m = Inr b"
    by (intro uper_writes.rrc_written) (simp_all add: lawful_env_def)
  then show ?thesis by (auto simp: rrc_into_bytes_def)
qed

lemma rrc_request_answered:
  assumes "lawful_env env" "rrc_in_bounds m" "srb \<in> {0, 1}" "extract_ul_dcch_message env t = Inr x"
  shows "\<exists>tr tx. exec (rrc_request env srb m ue) (AnsRecv (Some (InitiatingMessage (UlRrcMessageTransfer t))) # as)
    = (tr, Done (Inr x, ue\<lparr>ue_pdcp_tx := tx\<rparr>), as)"
proof -
  from rrc_encoded [OF assms(1,2)] obtain b where "rrc_into_bytes (env_rrc env) m = Inr b" by blast
  moreover have "never_panics env" using assms(1) by (simp add: lawful_env_def)
  from pdcp_no_panic [OF this assms(3)] obtain c tx where "maybe_pdcp_encapsulate env b srb (ue_pdcp_tx ue) = Some (c, tx)"
    by fastforce
  ultimately show ?thesis using assms(4) by (simp add: rrc_request_def exec_seq_lift Let_def log_def) blast
qed

text \<open>A message that the standard allows, of at most 16000 octets, fits an RRC message under any NAS security.\<close>

definition nas_sendable :: "nas_5gs_message \<Rightarrow> bool" where
  "nas_sendable m \<longleftrightarrow> nas_ies_ok m \<and> length (nas_octets m) \<le> 16000"

lemma nas_encoded:
  assumes "lawful_env env" "nas_sendable m"
  shows "\<exists>nb nc. nas_context_encode (env_overflow_checks env) (env_crypto env) (env_nas env) m ctx = Some (Inr nb, nc) \<and> octets_ok nb"
proof -
  from assms obtain inner where inner: "nas_encode_5gs (env_nas env) m = Some inner" "length inner \<le> 16000"
    unfolding lawful_env_def nas_encodes_def nas_sendable_def by (meson le_trans)
  have "\<not> env_overflow_checks env" "nas_layout (env_nas env)" using assms(1) by (simp_all add: lawful_env_def never_panics_def)
  with inner encode_with_integrity_eq [of "env_nas env" m inner] show ?thesis
    by (auto simp: nas_context_encode_def encode_nas_5gs_message_def octets_ok_def length_nas_pdu_of split: option.splits)
qed

text \<open>The messages of the two procedures are sendable.\<close>

lemma length_tmsi: "length (arr4_list x) = 4"
  by (cases x) simp

lemma challenge_sizes:
  assumes "lawful_env env" "length rnd = 16"
  shows "length (ch_rand (ue_generate_challenge env sim rnd)) = 16" "length (autn (ue_generate_challenge env sim rnd)) = 16"
proof -
  obtain xres ck ik ak where "milenage_f2345 (env_crypto env) (sim_ki sim) (sim_opc sim) rnd = (xres, ck, ik, ak)"
    by (cases "milenage_f2345 (env_crypto env) (sim_ki sim) (sim_opc sim) rnd")
  moreover have "length (milenage_f1 (env_crypto env) k opc r sqn amf) = 8" for k opc r sqn amf
    using assms(1) by (simp add: lawful_env_def crypto_lengths_def)
  ultimately show "length (ch_rand (ue_generate_challenge env sim rnd)) = 16" "length (autn (ue_generate_challenge env sim rnd)) = 16"
    using assms(2) by (simp_all add: ue_generate_challenge_def generate_challenge_def Let_def AMF_def)
qed

lemma sendable:
  "length rnd = 16 \<Longrightarrow> length aut = 16 \<Longrightarrow> nas_sendable (authentication_request rnd aut)"
  "octets_between 2 8 caps \<Longrightarrow> nas_sendable (nas_security_mode_command_msg caps)"
  "length plmn = 3 \<Longrightarrow> length amf = 3 \<Longrightarrow> nas_sendable (registration_accept sst plmn amf tmsi)"
  by (simp_all add: nas_sendable_def authentication_request_def nas_security_mode_command_msg_def registration_accept_def
      nas_mobile_identity_guti_def octets_between_def NAS_ABBA_def nas_lv_def nas_lve_def nas_tagged_def length_tmsi)

lemma nas_request_answered:
  assumes "lawful_env env" "nas_sendable m" "received_nas env (EvRecv pdu) nas"
  shows "\<exists>tr nc tx. exec (nas_request env m ue) (AnsRecv pdu # as) = (tr, Done (Inr nas, ue\<lparr>ue_nas := nc, ue_pdcp_tx := tx\<rparr>), as)"
proof -
  from assms(3) obtain t b where pdu: "pdu = Some (InitiatingMessage (UlRrcMessageTransfer t))"
    and x: "extract_ul_dcch_message env t = Inr (UlInformationTransfer (Some (Some b)))"
    and dec: "nas_context_decode (env_nas env) b = Inr nas"
    by (auto simp: received_nas_def)
  from nas_encoded [OF assms(1,2)] obtain nb nc where
    enc: "nas_context_encode (env_overflow_checks env) (env_crypto env) (env_nas env) m (ue_nas ue) = Some (Inr nb, nc)"
    and nb: "octets_ok nb"
    by blast
  have "rrc_in_bounds (dl_information_transfer 1 nb)" using nb by (intro built_in_bounds) (simp add: word_le_nat_alt)
  from rrc_request_answered [OF assms(1) this _ x, of 1 "ue\<lparr>ue_nas := nc\<rparr>" as] obtain tr tx where
    "exec (rrc_request env 1 (dl_information_transfer 1 nb) (ue\<lparr>ue_nas := nc\<rparr>)) (AnsRecv pdu # as)
      = (tr, Done (Inr (UlInformationTransfer (Some (Some b))), ue\<lparr>ue_nas := nc, ue_pdcp_tx := tx\<rparr>), as)"
    by (auto simp: pdu)
  then show ?thesis by (simp add: nas_request_def nas_encode_action_def enc exec_seq dec then_exec_def) blast
qed

text \<open>
  The answers of a UE that registers: its RRC setup complete with the registration request, whose security
  capabilities have the two to eight octets of TS 24.501, the RAND that the core draws, the authentication response, the NAS security mode complete, an answer to the RRC security mode command
  that nobody looks at, and the registration complete.
\<close>

definition registration_script ::
    "ul_rrc_message_transfer \<Rightarrow> bytes \<Rightarrow> f1ap_pdu option \<Rightarrow> f1ap_pdu option \<Rightarrow> f1ap_pdu option \<Rightarrow> f1ap_pdu option \<Rightarrow> answer list" where
  "registration_script t rnd auth nas_smc rrc_smc complete =
     [AnsRecv (Some (InitiatingMessage (UlRrcMessageTransfer t))), AnsRandom rnd,
      AnsRecv auth, AnsRecv nas_smc, AnsRecv rrc_smc, AnsRecv complete]"

definition good_ue ::
    "qc_env \<Rightarrow> string \<Rightarrow> sim_creds \<Rightarrow> ul_rrc_message_transfer \<Rightarrow> bytes \<Rightarrow> f1ap_pdu option \<Rightarrow> f1ap_pdu option \<Rightarrow> f1ap_pdu option \<Rightarrow> bool" where
  "good_ue env imsi sim t rnd auth nas_smc complete \<longleftrightarrow>
     (\<exists>b rr caps. extract_ul_dcch_message env t = Inr (RrcSetupComplete (Some b))
        \<and> nas_context_decode (env_nas env) b = Inr (Gmm (RegistrationRequest rr))
        \<and> check_registration_request env rr = Inr (imsi, caps) \<and> octets_between 2 8 caps)
     \<and> length rnd = 16
     \<and> received_nas env (EvRecv auth) (Gmm (AuthenticationResponse
          \<lparr>authentication_response_parameter = Some (xres_star (ue_generate_challenge env sim rnd))\<rparr>))
     \<and> received_nas env (EvRecv nas_smc) (Gmm (SecurityModeComplete \<lparr>nas_message_container = None\<rparr>))
     \<and> received_nas env (EvRecv complete) (Gmm RegistrationComplete)"

lemma handle_rrc_setup_answered:
  assumes "lawful_env env" "check_initial_transfer env r = Inr cgc" "octets_ok cgc"
    and "extract_ul_dcch_message env t = Inr (RrcSetupComplete (Some b))"
    and "nas_context_decode (env_nas env) b = Inr (Gmm (RegistrationRequest rr))"
  shows "\<exists>tr tx. exec (handle_rrc_setup env r ue) (AnsRecv (Some (InitiatingMessage (UlRrcMessageTransfer t))) # as)
    = (tr, Done (Inr rr, ue\<lparr>ue_pdcp_tx := tx\<rparr>), as)"
  using rrc_request_answered [OF assms(1) built_in_bounds(1) [OF _ assms(3)] _ assms(4), of 0 0 ue as] assms(2,5)
  by (auto simp: handle_rrc_setup_def exec_seq_lift exec_seq then_exec_def)

lemma authenticate_answered:
  assumes "lawful_env env" "env_sims env imsi = Some sim" "length rnd = 16"
    and "received_nas env (EvRecv auth) (Gmm (AuthenticationResponse
          \<lparr>authentication_response_parameter = Some (xres_star (ue_generate_challenge env sim rnd))\<rparr>))"
  shows "\<exists>tr kamf ue'. exec (authenticate_ue env imsi ue) (AnsRandom rnd # AnsRecv auth # as) = (tr, Done (Inr kamf, ue'), as)"
  using nas_request_answered [OF assms(1) sendable(1) [OF challenge_sizes [OF assms(1,3)]] assms(4), of sim sim ue as] assms(2)
  by (auto simp: authenticate_ue_def Let_def exec_seq log_def check_authentication_response_def then_exec_def)

lemma activate_nas_answered:
  assumes "lawful_env env" "octets_between 2 8 caps"
    and "received_nas env (EvRecv smc) (Gmm (SecurityModeComplete \<lparr>nas_message_container = None\<rparr>))"
  shows "\<exists>tr ue'. exec (activate_nas_security env caps kamf ue) (AnsRecv smc # as) = (tr, Done (Inr (), ue'), as)"
  using nas_request_answered [OF assms(1) sendable(2) [OF assms(2)] assms(3), of
      "ue\<lparr>ue_nas := nas_context_enable_security (derive_knasint (env_crypto env) kamf) (ue_nas ue)\<rparr>" as]
  by (auto simp: activate_nas_security_def configure_nas_security_def exec_seq check_nas_security_mode_complete_def then_exec_def)

lemma activate_rrc_answered:
  assumes "lawful_env env"
  shows "\<exists>tr ue'. exec (activate_rrc_security env kamf ue) (AnsRecv pdu # as) = (tr, Done (Inr (), ue'), as)"
proof -
  let ?ue = "ue\<lparr>ue_pdcp_tx := pdcp_enable_security (derive_krrcint (env_crypto env) (derive_kgnb (env_crypto env) kamf 0)) (ue_pdcp_tx ue)\<rparr>"
  have "rrc_in_bounds (rrc_security_mode_command 1)" by (rule built_in_bounds) (simp add: word_le_nat_alt)
  from rrc_encoded [OF assms this] obtain b where "rrc_into_bytes (env_rrc env) (rrc_security_mode_command 1) = Inr b" by blast
  moreover have "never_panics env" using assms by (simp add: lawful_env_def)
  from pdcp_no_panic [OF this, of 1] obtain c tx where "maybe_pdcp_encapsulate env b 1 (ue_pdcp_tx ?ue) = Some (c, tx)"
    by fastforce
  ultimately have "\<exists>tr x ue'. exec (rrc_request env 1 (rrc_security_mode_command 1) ?ue) (AnsRecv pdu # as) = (tr, Done (x, ue'), as)"
    by (auto simp: rrc_request_def exec_seq_lift Let_def split: option.split f1ap_pdu.split initiating_message.split)
  then show ?thesis
    by (auto simp: activate_rrc_security_def configure_rrc_security_def exec_seq exec_bind Let_def then_exec_def)
qed

lemma complete_registration_answered:
  assumes "lawful_env env" "received_nas env (EvRecv pdu) (Gmm RegistrationComplete)"
  shows "\<exists>tr ue'. exec (complete_nas_registration env ue) (AnsRecv pdu # as) = (tr, Done (Inr (), ue'), as)"
  using nas_request_answered [OF assms(1) sendable(3) assms(2), of "cfg_plmn (env_config env)" "cfg_amf_ids (env_config env)"
      "cfg_sst (env_config env)" "ue_tmsi ue" ue as] assms(1)
  by (auto simp: complete_nas_registration_def exec_seq then_exec_def lawful_env_def)

lemma initial_access_answered:
  assumes "lawful_env env" "check_initial_transfer env r = Inr cgc" "octets_ok cgc" "env_sims env imsi = Some sim"
    and "good_ue env imsi sim t rnd auth nas_smc complete"
  shows "\<exists>tr ue'. exec (initial_access env r ue) (registration_script t rnd auth nas_smc rrc_smc complete @ as) = (tr, Done (Inr (), ue'), as)"
proof -
  from assms(5) obtain b rr caps where g: "extract_ul_dcch_message env t = Inr (RrcSetupComplete (Some b))"
    "nas_context_decode (env_nas env) b = Inr (Gmm (RegistrationRequest rr))" "check_registration_request env rr = Inr (imsi, caps)" "octets_between 2 8 caps"
    and rnd: "length rnd = 16"
    by (auto simp: good_ue_def)
  note env = assms(1)
  from handle_rrc_setup_answered [OF env assms(2,3) g(1,2)] obtain tr1 ue1 where
    1: "exec (handle_rrc_setup env r ue) (registration_script t rnd auth nas_smc rrc_smc complete @ as)
      = (tr1, Done (Inr rr, ue1), AnsRandom rnd # AnsRecv auth # AnsRecv nas_smc # AnsRecv rrc_smc # AnsRecv complete # as)"
    unfolding registration_script_def append.simps by blast
  from authenticate_answered [OF env assms(4) rnd, of auth ue1] assms(5) obtain tr2 kamf ue2 where
    2: "exec (authenticate_ue env imsi ue1) (AnsRandom rnd # AnsRecv auth # AnsRecv nas_smc # AnsRecv rrc_smc # AnsRecv complete # as)
      = (tr2, Done (Inr kamf, ue2), AnsRecv nas_smc # AnsRecv rrc_smc # AnsRecv complete # as)"
    unfolding good_ue_def by blast
  from activate_nas_answered [OF env g(4), of nas_smc kamf ue2] assms(5) obtain tr3 ue3 where
    3: "exec (activate_nas_security env caps kamf ue2) (AnsRecv nas_smc # AnsRecv rrc_smc # AnsRecv complete # as)
      = (tr3, Done (Inr (), ue3), AnsRecv rrc_smc # AnsRecv complete # as)"
    unfolding good_ue_def by blast
  from activate_rrc_answered [OF env, of kamf ue3 rrc_smc] obtain tr4 ue4 where
    4: "exec (activate_rrc_security env kamf ue3) (AnsRecv rrc_smc # AnsRecv complete # as) = (tr4, Done (Inr (), ue4), AnsRecv complete # as)"
    by blast
  from complete_registration_answered [OF env, of complete ue4] assms(5) obtain tr5 ue5 where
    5: "exec (complete_nas_registration env ue4) (AnsRecv complete # as) = (tr5, Done (Inr (), ue5), as)"
    unfolding good_ue_def by blast
  show ?thesis by (simp add: initial_access_def exec_seq then_exec_def g(3) 1 2 3 4 5)
qed


section \<open>Session establishment with a DU that accepts\<close>

definition session_script :: "userplane_session \<Rightarrow> ue_context_setup_response \<Rightarrow> ul_rrc_message_transfer \<Rightarrow> answer list" where
  "session_script u rsp t = [AnsReserve (Inr u), AnsSetup (Some rsp), AnsCommit (Inr ()),
     AnsRecv (Some (InitiatingMessage (UlRrcMessageTransfer t)))]"

lemma accept_sendable:
  assumes "lawful_env env" "ue_ip_addr (userplane_info s) = V4 ip" "octets_between 1 100 (ps_dnn s)"
  shows "\<exists>accept. pdu_session_establishment_accept (env_nas env) s pti = Inr accept \<and> nas_sendable accept"
proof -
  let ?m = "Gsm \<lparr>pdu_session_identity = ps_id s, procedure_transaction_identity = pti\<rparr>
    (PduSessionEstablishmentAccept
      \<lparr>pa_selected_pdu_session_type = 0b001, pa_authorized_qos_rules = authorized_qos_rules, pa_session_ambr = session_ambr,
       pa_fgsm_cause = None, pa_pdu_address = Some [0b00000001, arr4_0 ip, arr4_1 ip, arr4_2 ip, arr4_3 ip],
       pa_rq_timer_value = None, pa_s_nssai = None, pa_always_on_pdu_session_indication = None,
       pa_mapped_eps_bearer_contexts = None, pa_eap_message = None, pa_authorized_qos_flow_descriptions = None,
       pa_extended_protocol_configuration_options = None, pa_dnn = Some (ps_dnn s),
       pa_fgsm_network_feature_support = None, pa_serving_plmn_rate_control = None, pa_atsss_container = None,
       pa_control_plane_only_indication = None, pa_ip_header_compression_configuration = None,
       pa_ethernet_header_compression_configuration = None, pa_service_level_aa_container = None,
       pa_received_mbs_container = None\<rparr>)"
  have "nas_ies_ok ?m" "length (nas_octets ?m) \<le> 200"
    using assms(3) by (simp_all add: octets_between_def authorized_qos_rules_def session_ambr_def nas_lv_def nas_lve_def nas_tagged_def)
  with assms(1) obtain inner where "nas_encode_5gs (env_nas env) ?m = Some inner" "inner \<noteq> []" "length inner \<le> 200"
    unfolding lawful_env_def nas_encodes_def by (meson le_trans)
  then show ?thesis
    by (cases inner) (simp_all add: pdu_session_establishment_accept_def Let_def assms(2) encode_nas_5gs_message_def nas_sendable_def
        octets_between_def nas_lve_def)
qed

lemma session_establishment_answered:
  assumes "lawful_env env" and "csp_drbs_setup_list rsp = Some drbs"
    and "octets_ok (du_to_cu_rrc_information_cell_group_config (csp_du_to_cu_rrc_information rsp))"
    and "ue_ip_addr u = V4 ip" and "octets_between 1 100 dnn"
    and "extract_ul_dcch_message env t = Inr RrcReconfigurationComplete"
  shows "\<exists>tr1 tr2 ue'. exec (session_establishment env hdr (Some dnn) ue) (session_script u rsp t @ as)
      = (tr1 @ EvCommit u (head_tunnel drbs) (Inr ()) # tr2, Done (Inr (), ue'), as)
    \<and> (\<exists>s. ue_pdu_sessions ue' = ue_pdu_sessions ue @ [s] \<and> ps_id s = pdu_session_identity hdr \<and> userplane_info s = u)"
proof -
  let ?s = "\<lparr>ps_id = pdu_session_identity hdr, ps_snssai = Snssai (cfg_sst (env_config env)) None, ps_dnn = dnn, userplane_info = u\<rparr>"
  let ?cgc = "du_to_cu_rrc_information_cell_group_config (csp_du_to_cu_rrc_information rsp)"
  have "ue_ip_addr (userplane_info ?s) = V4 ip" "octets_between 1 100 (ps_dnn ?s)" using assms(4,5) by simp_all
  from accept_sendable [OF assms(1) this] obtain accept where
    accept: "pdu_session_establishment_accept (env_nas env) ?s (procedure_transaction_identity hdr) = Inr accept" "nas_sendable accept"
    by blast
  from nas_encoded [OF assms(1) accept(2)] obtain nb nc where
    enc: "nas_context_encode (env_overflow_checks env) (env_crypto env) (env_nas env) accept (ue_nas ue) = Some (Inr nb, nc)"
    and nb: "octets_ok nb"
    by blast
  let ?ue = "ue\<lparr>ue_nas := nc, ue_pdu_sessions := ue_pdu_sessions ue @ [?s]\<rparr>"
  have "rrc_in_bounds (rrc_reconfiguration 0 (Some [nb]) ?cgc (ps_id ?s))" by (rule built_in_bounds) (simp_all add: nb assms(3))
  from rrc_request_answered [OF assms(1) this _ assms(6), of 1 ?ue as]
  obtain tr tx where rrc: "exec (rrc_request env 1 (rrc_reconfiguration 0 (Some [nb]) ?cgc (ps_id ?s)) ?ue)
      (AnsRecv (Some (InitiatingMessage (UlRrcMessageTransfer t))) # as) = (tr, Done (Inr RrcReconfigurationComplete, ?ue\<lparr>ue_pdcp_tx := tx\<rparr>), as)"
    by auto
  define tr1 where "tr1 = [EvReserve (Inr u), EvSetup (ue_context_setup_request_msg ue (tla_from_ip (cfg_ip_addr (env_config env))) ?s) (Some rsp)]"
  have "exec (session_establishment env hdr (Some dnn) ue) (session_script u rsp t @ as)
      = (tr1 @ EvCommit u (head_tunnel drbs) (Inr ()) # tr, Done (Inr (), ?ue\<lparr>ue_pdcp_tx := tx\<rparr>), as)"
    using rrc by (simp add: session_establishment_def session_script_def reserve_action_def perform_f1_ue_context_setup_def
        check_ue_context_setup_response_def assms(2) accept(1) nas_encode_action_def enc commit_action_def push_session_def
        perform_rrc_reconfiguration_def exec_seq then_exec_def log_def Let_def tr1_def)
  then show ?thesis by fastforce
qed

text \<open>
  C23. A session is established with a DU and a UE that accept it: when the UE names a DNN, the packet processor
  reserves an IPv4 session, the DU answers the context setup with a DRB and a cell group configuration that fits one
  octet string, the commit succeeds and the UE completes the reconfiguration, the procedure succeeds, the session has
  been committed to the tunnel endpoint of the DU's first DRB, and the UE's context has it as its last session under
  the identity that the UE asked for.  Every message on the way is encoded by the RRC encoder of the source, over any
  PER library that writes values within their bounds, and by any NAS library that encodes what TS 24.501 allows.  (For
  a UE that names no DNN the accept carries an empty one, which TS 24.501 does not allow; what the NAS library does
  with it is left open.)
\<close>

theorem session_establishment_completes:
  assumes "lawful_env env" and "csp_drbs_setup_list rsp = Some drbs"
    and "octets_ok (du_to_cu_rrc_information_cell_group_config (csp_du_to_cu_rrc_information rsp))"
    and "ue_ip_addr u = V4 ip" and "octets_between 1 100 dnn"
    and "extract_ul_dcch_message env t = Inr RrcReconfigurationComplete"
  shows "\<exists>tr1 tr2 ue'. exec (session_establishment env hdr (Some dnn) ue) (session_script u rsp t @ as)
      = (tr1 @ EvCommit u (head_tunnel drbs) (Inr ()) # tr2, Done (Inr (), ue'), as)
    \<and> (\<exists>s. ue_pdu_sessions ue' = ue_pdu_sessions ue @ [s] \<and> ps_id s = pdu_session_identity hdr \<and> userplane_info s = u)"
  using assms by (rule session_establishment_answered)

section \<open>One run from attach to detach\<close>

definition ul_rrc :: "bytes \<Rightarrow> ul_rrc_message_transfer" where
  "ul_rrc rrc = \<lparr>urt_gnb_cu_ue_f1ap_id = 7, urt_gnb_du_ue_f1ap_id = 8, urt_srb_id = 1,
     urt_rrc_container = [0, 0] @ rrc @ [0, 0, 0, 0], urt_selected_plmn_id = None,
     urt_new_gnb_du_ue_f1ap_id = None\<rparr>"

definition ul_pdu :: "bytes \<Rightarrow> f1ap_pdu option" where
  "ul_pdu rrc = Some (InitiatingMessage (UlRrcMessageTransfer (ul_rrc rrc)))"

definition example_initial :: initial_ul_rrc_message_transfer where
  "example_initial = \<lparr>iut_gnb_du_ue_f1ap_id = 8, iut_nr_cgi = example_cgi, iut_c_rnti = 1, iut_rrc_container = [1],
     iut_du_to_cu_rrc_container = Some [2], iut_sul_access_indication = None, iut_transaction_id = None,
     iut_ran_ue_id = None, iut_rrc_container_rrc_setup_complete = None\<rparr>"

definition example_rand :: bytes where
  "example_rand = replicate 16 7"

definition example_registration :: "answer list" where
  "example_registration = registration_script (ul_rrc ([0x10, 0x41] @ example_identity)) example_rand
     (ul_pdu ([0x3a, 0x57] @ xres_star (ue_generate_challenge example_env example_sim example_rand)))
     (ul_pdu [0x3a, 0x5e]) (ul_pdu [0x2a]) (ul_pdu [0x3a, 0x43])"

lemma extract_ul_rrc: "extract_ul_dcch_message example_env (ul_rrc rrc) =
    (case example_ul_dcch_decode rrc of None \<Rightarrow> Inl RrcDecodeError | Some m \<Rightarrow> Inr m)"
  by (simp add: extract_ul_dcch_message_def ul_rrc_def pdcp_view_inner_def ul_dcch_from_bytes_def example_env_def)

lemma received_ul: "received_nas example_env (EvRecv (ul_pdu (0x3a # nas))) m \<longleftrightarrow> nas_context_decode (env_nas example_env) nas = Inr m"
  by (auto simp: received_nas_def ul_pdu_def extract_ul_rrc)

lemma example_env_lawful: "lawful_env example_env"
proof -
  have "nas_encode_5gs (env_nas example_env) = nas_ref_encode" by (simp add: example_env_def)
  from nas_ref_lawful [OF this] show ?thesis
    by (simp add: lawful_env_def never_panics_def)
      (simp add: example_env_def example_config_def example_crypto_lengths uper_ref.uper_writes_axioms)
qed

lemma example_env_good: "never_panics example_env"
  using example_env_lawful by (simp add: lawful_env_def)

lemma example_nas_context_decode:
  "nas_context_decode (env_nas example_env) b = (case example_nas_decode b of None \<Rightarrow> Inl NasDecodeError | Some m \<Rightarrow> Inr m)"
proof -
  have "example_nas_decode b \<noteq> Some (SecurityProtected h x)" for h x by (cases b) auto
  then show ?thesis
    by (auto simp: nas_context_decode_def decode_nas_5gs_message_def example_env_def split: option.split nas_5gs_message.split)
qed

lemma example_identity_imsi: "fgs_mobile_identity example_identity = Inr (''001010000000001'', [0, 0xf1, 0x10])"
  by (simp add: fgs_mobile_identity_def example_identity_def show_byte_def digit_char_def Let_def) code_simp

lemma example_good_ue:
  "good_ue example_env ''001010000000001'' example_sim (ul_rrc ([0x10, 0x41] @ example_identity)) example_rand
     (ul_pdu ([0x3a, 0x57] @ xres_star (ue_generate_challenge example_env example_sim example_rand))) (ul_pdu [0x3a, 0x5e]) (ul_pdu [0x3a, 0x43])"
  by (simp add: good_ue_def received_ul extract_ul_rrc example_nas_context_decode check_registration_request_def
      example_identity_imsi octets_between_def example_rand_def) (simp add: example_env_def example_config_def)

lemma example_transfer: "check_initial_transfer example_env example_initial = Inr [2]"
  by (simp add: check_initial_transfer_def example_initial_def check_rrc_setup_request_def ul_ccch_from_bytes_def example_env_def)

lemma example_registered:
  "\<exists>tr ue'. exec (initial_access example_env example_initial ue) (example_registration @ as) = (tr, Done (Inr (), ue'), as)"
  unfolding example_registration_def
  by (rule initial_access_answered [OF example_env_lawful example_transfer _ _ example_good_ue]) (simp_all add: octets_ok_def, simp add: example_env_def)

text \<open>The UE asks for a session, gets it, and the channel of the task is closed.\<close>

definition example_detach :: "answer list" where
  "example_detach = AnsRecv (ul_pdu [0x3a, 0x67, 0xc1]) # session_script example_session example_response (ul_rrc [0x08]) @ [AnsRecv None]"

definition example_task :: "answer list" where
  "example_task = [AnsRecv (Some (InitiatingMessage (InitialUlRrcMessageTransfer example_initial))), AnsRandom [1, 2, 3, 4]]
     @ example_registration @ example_detach"

lemma example_head_tunnel [simp]: "head_tunnel [example_drb example_tunnel] = example_tunnel"
  by (simp add: example_drb_def head_tunnel_def)

lemma example_accepts:
  "csp_drbs_setup_list example_response = Some [example_drb example_tunnel]"
  "octets_ok (du_to_cu_rrc_information_cell_group_config (csp_du_to_cu_rrc_information example_response))"
  "ue_ip_addr example_session = V4 (Arr4 10 255 0 1)"
  "octets_between 1 100 example_dnn"
  "extract_ul_dcch_message example_env (ul_rrc [0x08]) = Inr RrcReconfigurationComplete"
  by (simp_all add: example_response_def example_session_def extract_ul_rrc octets_ok_def octets_between_def example_dnn_def
      example_du_to_cu_def)

lemma example_session_request:
  "\<exists>tr1 tr2 ue'. exec (ue_message_loop example_env 2 ue) example_detach
     = (tr1 @ EvCommit example_session example_tunnel (Inr ()) # tr2, Done (Inr (), ue'), [])"
proof -
  have patch: "patch_nas_for_oai_deregistration_security_header [0x67, 0xc1] = [0x67, 0xc1]"
    by (simp add: patch_nas_for_oai_deregistration_security_header_def)
  have req: "handle_ue_pdu example_env (InitiatingMessage (UlRrcMessageTransfer (ul_rrc [0x3a, 0x67, 0xc1])))
      = session_establishment example_env \<lparr>pdu_session_identity = 1, procedure_transaction_identity = 1\<rparr> (Some example_dnn)"
    by (simp add: handle_ue_pdu_def extract_ul_rrc ul_information_transfer_def uplink_nas_def patch
        example_nas_context_decode decode_nas_5gs_message_def seq_lift)
      (simp add: example_env_def seq_lift)
  have two: "(2 :: nat) = Suc (Suc 0)" by simp
  from session_establishment_answered [OF example_env_lawful example_accepts, of
      "\<lparr>pdu_session_identity = 1, procedure_transaction_identity = 1\<rparr>" ue "[AnsRecv None]"]
  obtain tr1 tr2 ue' where "exec (session_establishment example_env \<lparr>pdu_session_identity = 1, procedure_transaction_identity = 1\<rparr> (Some example_dnn) ue)
      (session_script example_session example_response (ul_rrc [0x08]) @ [AnsRecv None])
      = (tr1 @ EvCommit example_session example_tunnel (Inr ()) # tr2, Done (Inr (), ue'), [AnsRecv None])"
    by auto
  then have "exec (ue_message_loop example_env 2 ue) example_detach = ((EvRecv (ul_pdu [0x3a, 0x67, 0xc1]) # tr1)
      @ EvCommit example_session example_tunnel (Inr ()) # tr2 @ [EvRecv None], Done (Inr (), ue'), [])"
    by (simp add: two example_detach_def ul_pdu_def req exec_seq then_exec_def log_def)
  then show ?thesis by blast
qed

lemma example_task_run:
  "\<exists>tr1 tr2. exec (ue_message_handler example_env 2 7) example_task
     = (tr1 @ EvCommit example_session example_tunnel (Inr ()) # tr2, Done (Inr ()), [])"
proof -
  let ?ue = "ue_context_new 7 8 example_cgi (Arr4 1 2 3 4)"
  obtain tr ue' where reg: "exec (initial_access example_env example_initial ?ue) (example_registration @ example_detach)
      = (tr, Done (Inr (), ue'), example_detach)"
    using example_registered by blast
  obtain tr1 tr2 ue2 where loop: "exec (ue_message_loop example_env 2 ue') example_detach
     = (tr1 @ EvCommit example_session example_tunnel (Inr ()) # tr2, Done (Inr (), ue2), [])"
    using example_session_request by blast
  have "exec (proc_bind (run_inner example_env 2 example_initial ?ue) (\<lambda>(result, ue'). destroy ue' (Return result)))
      (example_registration @ example_detach)
    = ((tr @ tr1) @ EvCommit example_session example_tunnel (Inr ()) # tr2 @
        map (\<lambda>s. EvDelete (userplane_info s)) (ue_pdu_sessions ue2) @ [EvDeleteChannel (ue_key ue2)], Done (Inr ()), [])"
    by (simp add: exec_bind run_inner_def exec_seq reg loop then_exec_def exec_destroy)
  moreover have "iut_gnb_du_ue_f1ap_id example_initial = 8" "iut_nr_cgi example_initial = example_cgi"
    by (simp_all add: example_initial_def)
  ultimately have "exec (ue_message_handler example_env 2 7) example_task
    = ((EvRecv (Some (InitiatingMessage (InitialUlRrcMessageTransfer example_initial))) # EvRandom [1, 2, 3, 4] # tr @ tr1)
        @ EvCommit example_session example_tunnel (Inr ()) # tr2 @
        map (\<lambda>s. EvDelete (userplane_info s)) (ue_pdu_sessions ue2) @ [EvDeleteChannel (ue_key ue2)], Done (Inr ()), [])"
    by (simp add: ue_message_handler_def example_task_def Let_def log_def)
  then show ?thesis by blast
qed

section \<open>The theorems on all executions, at this run\<close>


theorem session_establishment_completes_witness:
  "\<exists>tr1 tr2 ue'. exec (session_establishment example_env \<lparr>pdu_session_identity = 1, procedure_transaction_identity = 1\<rparr> (Some example_dnn)
        (ue_context_new 7 8 example_cgi (Arr4 1 2 3 4))) (session_script example_session example_response (ul_rrc [0x08]) @ [])
      = (tr1 @ EvCommit example_session example_tunnel (Inr ()) # tr2, Done (Inr (), ue'), [])
    \<and> map ps_id (ue_pdu_sessions ue') = [1]"
proof -
  from session_establishment_completes [OF example_env_lawful example_accepts, of
      "\<lparr>pdu_session_identity = 1, procedure_transaction_identity = 1\<rparr>" "ue_context_new 7 8 example_cgi (Arr4 1 2 3 4)" "[]"]
  obtain tr1 tr2 ue' s where "exec (session_establishment example_env \<lparr>pdu_session_identity = 1, procedure_transaction_identity = 1\<rparr> (Some example_dnn)
        (ue_context_new 7 8 example_cgi (Arr4 1 2 3 4))) (session_script example_session example_response (ul_rrc [0x08]) @ [])
      = (tr1 @ EvCommit example_session example_tunnel (Inr ()) # tr2, Done (Inr (), ue'), [])"
    "ue_pdu_sessions ue' = [s]" "ps_id s = 1"
    by (auto simp: ue_context_new_def)
  then show ?thesis by (intro exI [of _ tr1] exI [of _ tr2] exI [of _ ue']) simp
qed

theorem ue_task_cleans_up_witness:
  "\<exists>tr. exec (ue_message_handler example_env 2 7) example_task = (tr, Done (Inr ()), [])
    \<and> EvCommit example_session example_tunnel (Inr ()) \<in> set tr \<and> deleted tr = committed tr \<and> last tr = EvDeleteChannel 7"
proof -
  obtain tr1 tr2 where run: "exec (ue_message_handler example_env 2 7) example_task
     = (tr1 @ EvCommit example_session example_tunnel (Inr ()) # tr2, Done (Inr ()), [])"
    using example_task_run by blast
  then have "exec (ue_message_handler example_env 2 7) (AnsRecv (Some (InitiatingMessage (InitialUlRrcMessageTransfer example_initial)))
      # AnsRandom [1, 2, 3, 4] # example_registration @ example_detach)
     = (tr1 @ EvCommit example_session example_tunnel (Inr ()) # tr2, Done (Inr ()), [])"
    by (simp add: example_task_def)
  from ue_task_cleans_up [OF this] run show ?thesis
    by (intro exI [of _ "tr1 @ EvCommit example_session example_tunnel (Inr ()) # tr2"]) simp
qed

theorem registration_requires_authentication_witness:
  "\<exists>tr ue'. exec (initial_access example_env example_initial (ue_context_new 7 8 example_cgi (Arr4 1 2 3 4))) (example_registration @ [])
     = (tr, Done (Inr (), ue'), []) \<and> (\<exists>imsi sim rnd. env_sims example_env imsi = Some sim \<and> EvRandom rnd \<in> set tr \<and>
       nas_security_context (ue_nas ue') = Some \<lparr>sc_ik = derive_knasint example_crypto (registration_kamf example_env imsi sim rnd), dl_count = 2\<rparr>)"
proof -
  obtain tr ue' where run: "exec (initial_access example_env example_initial (ue_context_new 7 8 example_cgi (Arr4 1 2 3 4))) (example_registration @ [])
     = (tr, Done (Inr (), ue'), [])"
    using example_registered by blast
  have "\<not> cfg_skip_ue_authentication_check (env_config example_env)" and crypto: "env_crypto example_env = example_crypto"
    by (simp_all add: example_env_def example_config_def)
  from registration_requires_authentication [OF run this(1), unfolded crypto]
  obtain imsi sim rnd tr1 e1 e2 tr2 where "env_sims example_env imsi = Some sim" "tr = tr1 @ [EvRandom rnd, e1, e2] @ tr2"
      "nas_security_context (ue_nas ue') = Some \<lparr>sc_ik = derive_knasint example_crypto (registration_kamf example_env imsi sim rnd), dl_count = 2\<rparr>"
    by blast
  moreover from this(2) have "EvRandom rnd \<in> set tr" by simp
  ultimately show ?thesis using run by blast
qed

theorem no_session_before_authentication_witness:
  "\<exists>tr. exec (ue_message_handler example_env 2 7) example_task = (tr, Done (Inr ()), [])
    \<and> (\<exists>tr1 rnd e1 e2 tr2 resp. tr = tr1 @ [EvRandom rnd, e1, e2] @ tr2 \<and> EvCommit example_session example_tunnel (Inr ()) \<in> set tr2
        \<and> received_nas example_env e2 (Gmm (AuthenticationResponse resp)))"
proof -
  obtain tr1 tr2 where run: "exec (ue_message_handler example_env 2 7) example_task
     = (tr1 @ EvCommit example_session example_tunnel (Inr ()) # tr2, Done (Inr ()), [])"
    using example_task_run by blast
  have "\<not> cfg_skip_ue_authentication_check (env_config example_env)"
    by (simp add: example_env_def example_config_def)
  from no_session_before_authentication [OF run _ _ this, of "EvCommit example_session example_tunnel (Inr ())"] run
  show ?thesis by (simp only: set_append list.set Un_iff insert_iff session_event.simps) blast
qed

theorem ue_task_total_witness:
  "fst (snd (exec (ue_message_handler example_env 2 7) [AnsRecv None])) = Waiting
    \<or> (\<exists>result. fst (snd (exec (ue_message_handler example_env 2 7) [AnsRecv None])) = Done result)"
proof -
  have "length [AnsRecv None] < 2" by simp
  from ue_task_total [OF example_env_good this, of 7] show ?thesis by blast
qed

end
