(* ===== verification/F1ap_Container.thy ===== *)
theory F1ap_Container
  imports F1ap_Ies
begin

text \<open>
  The protocol IE container of an F1AP message, as the generated code of \<open>5g-libs/f1ap/src/pdu.rs\<close> writes
  and reads it.  Encoding puts each information element into a buffer of its own and appends it, behind
  its id, its criticality and its length in octets, to the buffer of the elements, which is appended to
  the message behind their number.  Decoding reads as many elements as announced; the id selects the arm
  that decodes the value into a local variable, an unknown id is an error whatever its criticality, the
  announced length is not used, and a later element overwrites an earlier one of the same id.  The same
  text is generated for every message, so it is modelled once.
\<close>

section \<open>Encoding\<close>

type_synonym ie_item = "int \<times> criticality \<times> encoder"

definition ie :: "int \<Rightarrow> criticality \<Rightarrow> 'a per_codec \<Rightarrow> 'a \<Rightarrow> ie_item list" where
  "ie i crit C x = [(i, crit, encode_of C x)]"

definition opt_ie :: "int \<Rightarrow> criticality \<Rightarrow> 'a per_codec \<Rightarrow> 'a option \<Rightarrow> ie_item list" where
  "opt_ie i crit C x = (case x of None \<Rightarrow> [] | Some y \<Rightarrow> ie i crit C y)"

definition encode_ie :: "per_lib \<Rightarrow> ie_item \<Rightarrow> nat \<times> bits \<Rightarrow> (nat \<times> bits) per_result" where
  "encode_ie L = (\<lambda>(i, crit, e) (num_ies, ies).
     result_bind (e []) (\<lambda>ie.
     result_bind (encode_integer L (Some 0) (Some 65535) False i False ies) (\<lambda>ies.
     result_bind (encode_of (Criticality_codec L) crit ies) (\<lambda>ies.
     result_bind (encode_length_determinent L None None False (length_in_bytes L ie) ies) (\<lambda>ies.
     Inr (num_ies + 1, append_aligned L ies ie))))))"

primrec encode_ies :: "per_lib \<Rightarrow> ie_item list \<Rightarrow> nat \<times> bits \<Rightarrow> (nat \<times> bits) per_result" where
  "encode_ies L [] st = Inr st"
| "encode_ies L (x # xs) st = result_bind (encode_ie L x st) (encode_ies L xs)"

definition encode_container :: "per_lib \<Rightarrow> ie_item list \<Rightarrow> encoder" where
  "encode_container L items data =
     result_bind (encode_ies L items (0, [])) (\<lambda>(num_ies, ies).
     result_bind (encode_sequence_header L True [] False data) (\<lambda>data.
     result_bind (encode_length_determinent L (Some 0) (Some 65535) False num_ies data) (\<lambda>data.
     Inr (append_aligned L data ies))))"

lemma encode_ie_eval:
  "encode_ie L (i, crit, e) (num_ies, ies) =
     result_bind (e []) (\<lambda>ie.
     result_bind (encode_integer L (Some 0) (Some 65535) False i False ies) (\<lambda>ies.
     result_bind (encode_of (Criticality_codec L) crit ies) (\<lambda>ies.
     result_bind (encode_length_determinent L None None False (length_in_bytes L ie) ies) (\<lambda>ies.
     Inr (num_ies + 1, append_aligned L ies ie)))))"
  by (simp add: encode_ie_def)

lemmas container_eval =
  encode_container_def encode_ie_eval ie_def opt_ie_def variant_index_def
  Criticality_codec_def [THEN encode_by] integer_impl_def [THEN encode_by] enum_impl_def [THEN encode_by]

section \<open>Decoding\<close>

text \<open>
  An arm \<open>id => x = Some(T::decode(data)?)\<close> decodes a value and returns the assignment to the variable,
  as a function on the local variables.
\<close>

definition arm :: "int \<Rightarrow> 'a decoder \<Rightarrow> (('a option \<Rightarrow> 'a option) \<Rightarrow> 's \<Rightarrow> 's) \<Rightarrow> int \<times> ('s \<Rightarrow> 's) decoder" where
  "arm i d upd = (i, dec_bind d (\<lambda>x. dec_return (upd (\<lambda>_. Some x))))"

definition decode_ie :: "per_lib \<Rightarrow> (int \<times> ('s \<Rightarrow> 's) decoder) list \<Rightarrow> ('s \<Rightarrow> 's) decoder" where
  "decode_ie L arms =
     dec_bind (decode_integer L (Some 0) (Some 65535) False) (\<lambda>(i, _).
     dec_bind (decode_of (Criticality_codec L)) (\<lambda>_.
     dec_bind (decode_length_determinent L None None False) (\<lambda>_.
     dec_bind (case map_of arms i of None \<Rightarrow> dec_fail (unrecognised_ie i) | Some d \<Rightarrow> d) (\<lambda>assign.
     dec_bind (decode_align L) (\<lambda>_.
     dec_return assign)))))"

primrec decode_ies :: "per_lib \<Rightarrow> (int \<times> ('s \<Rightarrow> 's) decoder) list \<Rightarrow> nat \<Rightarrow> 's \<Rightarrow> 's decoder" where
  "decode_ies L arms 0 s = dec_return s"
| "decode_ies L arms (Suc n) s = dec_bind (decode_ie L arms) (\<lambda>assign. decode_ies L arms n (assign s))"

definition decode_container :: "per_lib \<Rightarrow> (int \<times> ('s \<Rightarrow> 's) decoder) list \<Rightarrow> 's \<Rightarrow> 's decoder" where
  "decode_container L arms s =
     dec_bind (decode_sequence_header L True 0) (\<lambda>_.
     dec_bind (decode_length_determinent L (Some 0) (Some 65535) False) (\<lambda>num_ies.
     decode_ies L arms num_ies s))"

definition mandatory :: "string \<Rightarrow> 'a option \<Rightarrow> 'a decoder" where
  "mandatory name x =
     (case x of
        None \<Rightarrow> dec_fail (per_codec_error_new (''Missing mandatory IE '' @ name))
      | Some v \<Rightarrow> dec_return v)"

lemma mandatory_Some [simp]: "mandatory name (Some v) = dec_return v"
  by (simp add: mandatory_def)

section \<open>Lists of elements\<close>

text \<open>
  \<open>pub struct T(pub Vec<U>)\<close> where \<open>U\<close> is a single-element container: every item is an element with its own
  id, criticality and length.  The decoder looks at none of the three.
\<close>

definition encode_ie_item :: "per_lib \<Rightarrow> int \<Rightarrow> criticality \<Rightarrow> encoder \<Rightarrow> encoder" where
  "encode_ie_item L i crit e data =
     result_bind (e []) (\<lambda>ie.
     result_bind (encode_integer L (Some 0) (Some 65535) False i False data) (\<lambda>data.
     result_bind (encode_of (Criticality_codec L) crit data) (\<lambda>data.
     result_bind (encode_length_determinent L None None False (length_in_bytes L ie) data) (\<lambda>data.
     Inr (append_aligned L data ie)))))"

definition decode_ie_item :: "per_lib \<Rightarrow> 'a decoder \<Rightarrow> 'a decoder" where
  "decode_ie_item L d =
     dec_bind (decode_integer L (Some 0) (Some 65535) False) (\<lambda>_.
     dec_bind (decode_of (Criticality_codec L)) (\<lambda>_.
     dec_bind (decode_length_determinent L None None False) (\<lambda>_.
     dec_bind d (\<lambda>x.
     dec_bind (decode_align L) (\<lambda>_.
     dec_return x)))))"

definition ie_list_impl ::
    "per_lib \<Rightarrow> string \<Rightarrow> nat \<Rightarrow> int \<Rightarrow> criticality \<Rightarrow> 'a per_codec \<Rightarrow> 'a list per_codec" where
  "ie_list_impl L name ub i crit item =
     per_codec_impl name
       (dec_bind (decode_length_determinent L (Some 0) (Some ub) False)
         (decode_items (decode_ie_item L (decode_of item))))
       (\<lambda>xs. enc_seq (encode_length_determinent L (Some 0) (Some ub) False (length xs))
          (encode_items (\<lambda>x. encode_ie_item L i crit (encode_of item x)) xs))"

section \<open>A container is read back\<close>

text \<open>The assignments that reading a list of at most \<open>n\<close> elements performs.\<close>

definition carried ::
    "(int \<times> ('s \<Rightarrow> 's) decoder) list \<Rightarrow> nat \<Rightarrow> ie_item list \<Rightarrow> ('s \<Rightarrow> 's) list \<Rightarrow> bool" where
  "carried arms n items us \<longleftrightarrow> length items \<le> n \<and>
     list_all2 (\<lambda>(i, crit, e) assign. 0 \<le> i \<and> i \<le> 65535 \<and>
       (\<exists>d m v. map_of arms i = Some d \<and> codes m e d assign \<and> e [] = Inr v \<and> length v \<le> 131064)) items us"

definition assignment :: "(('a option \<Rightarrow> 'a option) \<Rightarrow> 's \<Rightarrow> 's) \<Rightarrow> 'a \<Rightarrow> ('s \<Rightarrow> 's) list" where
  "assignment upd x = [upd (\<lambda>_. Some x)]"

definition opt_assignment :: "(('a option \<Rightarrow> 'a option) \<Rightarrow> 's \<Rightarrow> 's) \<Rightarrow> 'a option \<Rightarrow> ('s \<Rightarrow> 's) list" where
  "opt_assignment upd x = (case x of None \<Rightarrow> [] | Some y \<Rightarrow> assignment upd y)"

definition run_assignments :: "('s \<Rightarrow> 's) list \<Rightarrow> 's \<Rightarrow> 's" where
  "run_assignments us s = fold (\<lambda>u s. u s) us s"

definition or_else :: "'a option \<Rightarrow> 'a option \<Rightarrow> 'a option" where
  "or_else x old = (case x of None \<Rightarrow> old | Some y \<Rightarrow> Some y)"

lemma or_else_simps: "or_else None = (\<lambda>old. old)" "or_else (Some y) = (\<lambda>_. Some y)"
  by (simp_all add: or_else_def fun_eq_iff)

lemma or_else_None [simp]: "or_else x None = x"
  by (simp add: or_else_def split: option.splits)

lemma run_append [simp]: "run_assignments (us @ vs) s = run_assignments vs (run_assignments us s)"
  by (simp add: run_assignments_def)

lemma run_assignment [simp]: "run_assignments (assignment upd x) s = upd (\<lambda>_. Some x) s"
  by (simp add: run_assignments_def assignment_def)

lemma run_opt_assignment [simp]:
  "(\<And>s. upd (\<lambda>v. v) s = s) \<Longrightarrow> run_assignments (opt_assignment upd x) s = upd (or_else x) s"
  by (cases x) (simp_all add: run_assignments_def opt_assignment_def assignment_def or_else_simps)

lemma carried_append:
  "carried arms m xs us \<Longrightarrow> carried arms n ys vs \<Longrightarrow> carried arms (m + n) (xs @ ys) (us @ vs)"
  by (simp add: carried_def list_all2_appendI)

lemma fst_arm [simp]: "fst (arm i d upd) = i"
  by (simp add: arm_def)

lemma carried_encodable:
  assumes "map_of arms i = Some (snd (arm i (decode_of C) upd))" "encodable C x" "0 \<le> i" "i \<le> 65535"
  shows "carried arms 1 (ie i crit C x) (assignment upd x)"
proof -
  obtain n v where n: "codes n (encode_of C x) (decode_of C) x" "encode_of C x [] = Inr v" "length v \<le> 131064"
    using assms(2) by (auto simp: encodable_def sound_def coded_def fits_iff)
  have "codes n (encode_of C x) (snd (arm i (decode_of C) upd)) (upd (\<lambda>_. Some x))"
    using codes_last [OF n(1), of "\<lambda>x. dec_return (upd (\<lambda>_. Some x))"] by (simp add: arm_def)
  with n(2,3) assms(1,3,4) show ?thesis by (auto simp: carried_def ie_def assignment_def)
qed

lemma carried_opt_encodable:
  assumes "map_of arms i = Some (snd (arm i (decode_of C) upd))" "\<And>y. x = Some y \<Longrightarrow> encodable C y"
    and "0 \<le> i" "i \<le> 65535"
  shows "carried arms 1 (opt_ie i crit C x) (opt_assignment upd x)"
  using assms carried_encodable [OF assms(1) _ assms(3,4)]
  by (cases x) (auto simp: opt_ie_def opt_assignment_def carried_def)

lemma carried_ie:
  assumes "map_of arms i = Some (snd (arm i (decode_of C) upd))" "carries C n x"
    and "0 \<le> i" "i \<le> 65535" "n \<le> 131064"
  shows "carried arms 1 (ie i crit C x) (assignment upd x)"
  using assms by (intro carried_encodable) (auto intro: encodable_carries)

lemma carried_opt_ie:
  assumes "map_of arms i = Some (snd (arm i (decode_of C) upd))" "\<And>y. x = Some y \<Longrightarrow> carries C n y"
    and "0 \<le> i" "i \<le> 65535" "n \<le> 131064"
  shows "carried arms 1 (opt_ie i crit C x) (opt_assignment upd x)"
  using assms by (intro carried_opt_encodable) (auto intro: encodable_carries)

definition open_header_decoder :: "per_lib \<Rightarrow> int \<Rightarrow> int decoder" where
  "open_header_decoder L ub =
     dec_bind (decode_integer L (Some 0) (Some ub) False) (\<lambda>(i, _).
     dec_bind (decode_of (Criticality_codec L)) (\<lambda>_.
     dec_bind (decode_length_determinent L None None False) (\<lambda>_. dec_return i)))"

context aper_lib
begin

lemma append_to_aligned:
  assumes "length w mod 8 = 0"
  obtains q where "append_aligned L w v = w @ v @ q" "length q < 8" "length (v @ q) mod 8 = 0"
proof -
  obtain p q where pq: "append_aligned L w v = w @ p @ v @ q" "length p < 8" "length q < 8"
      "length (w @ p) mod 8 = 0" "length (v @ q) mod 8 = 0"
    using append_law [of w v] by (elim exE conjE)
  have "length p mod 8 = 0" using pq(4) assms by (simp add: mod_eq_0_iff_dvd dvd_add_right_iff)
  then have "p = []" using pq(2) by simp
  with pq show ?thesis by (intro that) simp_all
qed

text \<open>
  An open field: a number that says what follows, a criticality, and a value in a buffer of its own,
  behind its length.  Both the elements of a container and the contents of a PDU are written so.
\<close>

lemma open_header:
  assumes "0 \<le> i" "i \<le> ub" "ub < 65536" "n < 16384"
  shows "codes 104
     (enc_seq (encode_integer L (Some 0) (Some ub) False i False)
       (enc_seq (encode_of (Criticality_codec L) crit) (encode_length_determinent L None None False n)))
     (open_header_decoder L ub) i"
  unfolding open_header_decoder_def
proof -
  have "codes 24 (encode_length_determinent L None None False n)
      (dec_bind (decode_length_determinent L None None False) (\<lambda>_. dec_return i)) i"
    by (rule codes_last [OF open_length_law [OF assms(4)]]) simp
  then have "codes (16 + 24) (enc_seq (encode_of (Criticality_codec L) crit) (encode_length_determinent L None None False n))
      (dec_bind (decode_of (Criticality_codec L)) (\<lambda>_.
       dec_bind (decode_length_determinent L None None False) (\<lambda>_. dec_return i))) i"
    by (rule codes_field [OF carries_Criticality])
  then have "codes (64 + (16 + 24))
     (enc_seq (encode_integer L (Some 0) (Some ub) False i False)
       (enc_seq (encode_of (Criticality_codec L) crit) (encode_length_determinent L None None False n)))
     (dec_bind (decode_integer L (Some 0) (Some ub) False) (\<lambda>(i, _).
      dec_bind (decode_of (Criticality_codec L)) (\<lambda>_.
      dec_bind (decode_length_determinent L None None False) (\<lambda>_. dec_return i)))) i"
    by (intro codes_seq [OF integer_law]) (use assms in simp_all)
  then show "codes 104
     (enc_seq (encode_integer L (Some 0) (Some ub) False i False)
       (enc_seq (encode_of (Criticality_codec L) crit) (encode_length_determinent L None None False n)))
     (dec_bind (decode_integer L (Some 0) (Some ub) False) (\<lambda>(i, _).
      dec_bind (decode_of (Criticality_codec L)) (\<lambda>_.
      dec_bind (decode_length_determinent L None None False) (\<lambda>_. dec_return i)))) i" by simp
qed

lemma open_field:
  assumes i: "0 \<le> i" "i \<le> ub" "ub < 65536"
    and v: "codes m e d x" "e [] = Inr v" "length v \<le> 131064"
  obtains hs q where
    "enc_seq (encode_integer L (Some 0) (Some ub) False i False)
       (enc_seq (encode_of (Criticality_codec L) crit)
         (encode_length_determinent L None None False (length_in_bytes L v))) w = Inr (w @ hs)"
    "append_aligned L (w @ hs) v = w @ hs @ v @ q" "length hs \<le> 104" "length q < 8"
    "length (w @ hs) mod 8 = 0" "length (v @ q) mod 8 = 0"
    "\<And>off rest. off mod 8 = length w mod 8 \<Longrightarrow>
       open_header_decoder L ub (off, hs @ v @ q @ rest) = Inr (i, (off + length hs, v @ q @ rest)) \<and>
       d (off + length hs, v @ q @ rest) = Inr (x, (off + length hs + length v, q @ rest)) \<and>
       decode_align L (off + length hs + length v, q @ rest)
         = Inr ((), (off + length hs + length v + length q, rest))"
proof -
  have "length_in_bytes L v < 16384" using v(3) by (simp add: bytes_law)
  from codesE [OF open_header [OF i this, of crit], where w = w]
  obtain hs where hs:
    "enc_seq (encode_integer L (Some 0) (Some ub) False i False)
       (enc_seq (encode_of (Criticality_codec L) crit)
         (encode_length_determinent L None None False (length_in_bytes L v))) w = Inr (w @ hs)"
    "length hs \<le> 104"
    "\<And>off rest. off mod 8 = length w mod 8 \<Longrightarrow>
      open_header_decoder L ub (off, hs @ rest) = Inr (i, (off + length hs, rest))"
    by blast
  have al: "length (w @ hs) mod 8 = 0"
    using hs(1) unfolding enc_seq_def by (auto simp only: rs_simps dest: open_length_aligned)
  obtain q where q: "append_aligned L (w @ hs) v = (w @ hs) @ v @ q" "length q < 8" "length (v @ q) mod 8 = 0"
    using append_to_aligned [OF al] by blast
  obtain v' where v': "e [] = Inr ([] @ v')"
    "\<And>off rest. off mod 8 = length ([] :: bits) mod 8 \<Longrightarrow> d (off, v' @ rest) = Inr (x, (off + length v', rest))"
    using codesE [OF v(1), where w = "[]"] by blast
  have [simp]: "v' = v" using v'(1) v(2) by simp
  have "open_header_decoder L ub (off, hs @ v @ q @ rest) = Inr (i, (off + length hs, v @ q @ rest)) \<and>
       d (off + length hs, v @ q @ rest) = Inr (x, (off + length hs + length v, q @ rest)) \<and>
       decode_align L (off + length hs + length v, q @ rest)
         = Inr ((), (off + length hs + length v + length q, rest))"
    if off: "off mod 8 = length w mod 8" for off rest
  proof -
    have o8: "(off + length hs) mod 8 = 0" using al off by (metis length_append mod_add_left_eq)
    have "(off + length hs + length v + length q) mod 8 = 0"
      using o8 q(3) by (metis add.assoc dvd_add length_append mod_eq_0_iff_dvd)
    with align_law [OF q(2), of "off + length hs + length v" rest] show ?thesis
      using hs(3) [OF off] v'(2) [of "off + length hs" "q @ rest"] o8 by simp
  qed
  with that [of hs q] hs(1,2) al q show ?thesis by simp
qed

lemma decode_ie_header:
  "decode_ie L arms =
     dec_bind (open_header_decoder L 65535) (\<lambda>i. dec_bind (case map_of arms i of None \<Rightarrow> dec_fail (unrecognised_ie i) | Some d \<Rightarrow> d) (\<lambda>assign.
      dec_bind (decode_align L) (\<lambda>_. dec_return assign)))"
  by (auto simp: decode_ie_def open_header_decoder_def dec_bind_def dec_return_def result_bind_def fun_eq_iff
      split: sum.splits prod.splits)

lemma ie_read_back:
  assumes "0 \<le> i" "i \<le> 65535" "map_of arms i = Some d" "codes m e d assign" and v: "e [] = Inr v" "length v \<le> 131064"
    and "length w mod 8 = 0"
  shows "\<exists>bs. encode_ie L (i, crit, e) (n, w) = Inr (Suc n, w @ bs) \<and> length bs mod 8 = 0 \<and>
           length bs \<le> 131175 \<and>
           (\<forall>off rest. off mod 8 = 0
              \<longrightarrow> decode_ie L arms (off, bs @ rest) = Inr (assign, (off + length bs, rest)))"
proof -
  have ub: "(65535::int) < 65536" by simp
  obtain hs q where f:
    "enc_seq (encode_integer L (Some 0) (Some 65535) False i False)
       (enc_seq (encode_of (Criticality_codec L) crit)
         (encode_length_determinent L None None False (length_in_bytes L v))) w = Inr (w @ hs)"
    "append_aligned L (w @ hs) v = w @ hs @ v @ q" "length hs \<le> 104" "length q < 8"
    "length (w @ hs) mod 8 = 0" "length (v @ q) mod 8 = 0"
    "\<And>off rest. off mod 8 = length w mod 8 \<Longrightarrow>
       open_header_decoder L 65535 (off, hs @ v @ q @ rest) = Inr (i, (off + length hs, v @ q @ rest)) \<and>
       d (off + length hs, v @ q @ rest) = Inr (assign, (off + length hs + length v, q @ rest)) \<and>
       decode_align L (off + length hs + length v, q @ rest)
         = Inr ((), (off + length hs + length v + length q, rest))"
    using open_field [OF assms(1,2) ub assms(4) v, of crit w] by blast
  have "encode_ie L (i, crit, e) (n, w) = Inr (Suc n, w @ (hs @ v @ q))"
    using f(1,2) v(1) by (auto simp: encode_ie_def enc_seq_def rs_simps)
  moreover have "length (hs @ v @ q) mod 8 = 0" using f(5,6) assms(7) by (auto simp: mod_eq_0_iff_dvd dvd_add_right_iff)
  moreover have "decode_ie L arms (off, (hs @ v @ q) @ rest) = Inr (assign, (off + length (hs @ v @ q), rest))"
    if "off mod 8 = 0" for off rest
    unfolding decode_ie_header using f(7) [of off rest] that assms(3,7)
    by (simp add: dec_bind_def [where 'a = int] dec_bind_def dec_return_def add.assoc)
  ultimately show ?thesis using f(3,4) v(2) by (intro exI [of _ "hs @ v @ q"]) simp
qed

lemma decode_ie_item_header:
  "decode_ie_item L d =
     dec_bind (open_header_decoder L 65535) (\<lambda>_. dec_bind d (\<lambda>x. dec_bind (decode_align L) (\<lambda>_. dec_return x)))"
  by (auto simp: decode_ie_item_def open_header_decoder_def dec_bind_def dec_return_def result_bind_def fun_eq_iff
      split: sum.splits prod.splits)

lemma codes_ie_item_fits:
  assumes "codes n e d x" and v: "e [] = Inr v" "length v \<le> 131064" and "0 \<le> i" "i \<le> 65535"
  shows "codes (length v + 111) (encode_ie_item L i crit e) (decode_ie_item L d) x"
  unfolding codes_def
proof
  fix w
  have ub: "(65535::int) < 65536" by simp
  obtain hs q where f:
    "enc_seq (encode_integer L (Some 0) (Some 65535) False i False)
       (enc_seq (encode_of (Criticality_codec L) crit)
         (encode_length_determinent L None None False (length_in_bytes L v))) w = Inr (w @ hs)"
    "append_aligned L (w @ hs) v = w @ hs @ v @ q" "length hs \<le> 104" "length q < 8"
    "length (w @ hs) mod 8 = 0" "length (v @ q) mod 8 = 0"
    "\<And>off rest. off mod 8 = length w mod 8 \<Longrightarrow>
       open_header_decoder L 65535 (off, hs @ v @ q @ rest) = Inr (i, (off + length hs, v @ q @ rest)) \<and>
       d (off + length hs, v @ q @ rest) = Inr (x, (off + length hs + length v, q @ rest)) \<and>
       decode_align L (off + length hs + length v, q @ rest)
         = Inr ((), (off + length hs + length v + length q, rest))"
    using open_field [OF assms(4,5) ub assms(1) v, of crit w] by blast
  have "encode_ie_item L i crit e w = Inr (w @ (hs @ v @ q))"
    using f(1,2) v(1) by (auto simp: encode_ie_item_def enc_seq_def rs_simps)
  moreover have "decode_ie_item L d (off, (hs @ v @ q) @ rest) = Inr (x, (off + length (hs @ v @ q), rest))"
    if "off mod 8 = length w mod 8" for off rest
    unfolding decode_ie_item_header using f(7) [OF that, of rest]
    by (simp add: dec_bind_def [where 'a = int] dec_bind_def dec_return_def add.assoc)
  ultimately show "\<exists>bs. encode_ie_item L i crit e w = Inr (w @ bs) \<and> length bs \<le> length v + 111 \<and>
      (\<forall>off rest. off mod 8 = length w mod 8 \<longrightarrow> decode_ie_item L d (off, bs @ rest) = Inr (x, (off + length bs, rest)))"
    using f(3,4) by (intro exI [of _ "hs @ v @ q"]) simp
qed

lemma codes_ie_item:
  assumes "codes n e d x" "n \<le> 131064" "0 \<le> i" "i \<le> 65535"
  shows "codes (n + 111) (encode_ie_item L i crit e) (decode_ie_item L d) x"
proof -
  obtain v where v: "e [] = Inr v" "length v \<le> n" using codesE [OF assms(1), where w = "[]"] by (metis append_Nil)
  from codes_ie_item_fits [OF assms(1) v(1) _ assms(3,4)] v(2) assms(2)
  have "codes (length v + 111) (encode_ie_item L i crit e) (decode_ie_item L d) x" by simp
  then show ?thesis by (rule codes_mono) (use v(2) in simp)
qed

lemma carries_ie_list:
  assumes "length xs \<le> ub" "ub \<le> 65535" "\<And>x. x \<in> set xs \<Longrightarrow> carries item n x" "n \<le> 131064"
    and "0 \<le> i" "i \<le> 65535"
  shows "carries (ie_list_impl L name ub i crit item) (24 + (n + 111) * length xs) xs"
proof -
  have "codes ((n + 111) * length xs) (encode_items (\<lambda>x. encode_ie_item L i crit (encode_of item x)) xs)
      (decode_items (decode_ie_item L (decode_of item)) (length xs)) xs"
    using assms(3) by (intro codes_items codes_ie_item) (use assms(4-6) in \<open>auto simp: carries_def\<close>)
  then show ?thesis
    unfolding ie_list_impl_def
    by (intro carries_impl codes_seq [OF length_law]) (use assms(1,2) in simp_all)
qed

text \<open>The elements of a container, one after the other.\<close>

lemma ies_read_back:
  assumes "carried arms k items us" "length w mod 8 = 0"
  shows "\<exists>bs. encode_ies L items (n, w) = Inr (n + length items, w @ bs) \<and> length bs mod 8 = 0 \<and>
           length bs \<le> 131175 * length items \<and>
           (\<forall>off rest s. off mod 8 = 0 \<longrightarrow>
              decode_ies L arms (length items) s (off, bs @ rest)
              = Inr (run_assignments us s, (off + length bs, rest)))"
  using assms
proof (induction items arbitrary: us k n w)
  case Nil
  then show ?case
    by (intro exI [of _ "[]"]) (simp add: carried_def dec_return_def run_assignments_def)
next
  case (Cons x items)
  obtain i crit e where x: "x = (i, crit, e)" by (cases x)
  from Cons(2) obtain assign us' where us: "us = assign # us'" and rest: "carried arms (length items) items us'"
    and i: "0 \<le> i" "i \<le> 65535"
    and d: "\<exists>d m v. map_of arms i = Some d \<and> codes m e d assign \<and> e [] = Inr v \<and> length v \<le> 131064"
    by (auto simp: carried_def list_all2_Cons1 x)
  from d obtain d m v where d: "map_of arms i = Some d" "codes m e d assign" "e [] = Inr v" "length v \<le> 131064"
    by (elim exE conjE)
  obtain bs where bs: "encode_ie L x (n, w) = Inr (Suc n, w @ bs)" "length bs mod 8 = 0" "length bs \<le> 131175"
      "\<forall>off rest. off mod 8 = 0 \<longrightarrow> decode_ie L arms (off, bs @ rest) = Inr (assign, (off + length bs, rest))"
    using ie_read_back [OF i d Cons(3), of crit n] unfolding x by (elim exE conjE)
  have "length (w @ bs) mod 8 = 0" using Cons(3) bs(2) by (auto simp: mod_eq_0_iff_dvd)
  from Cons(1) [OF rest this, of "Suc n"]
  obtain cs where cs: "encode_ies L items (Suc n, w @ bs) = Inr (Suc n + length items, (w @ bs) @ cs)"
      "length cs mod 8 = 0" "length cs \<le> 131175 * length items"
      "\<forall>off rest s. off mod 8 = 0 \<longrightarrow> decode_ies L arms (length items) s (off, cs @ rest)
         = Inr (run_assignments us' s, (off + length cs, rest))"
    by (elim exE conjE)
  have "decode_ies L arms (length (x # items)) s (off, (bs @ cs) @ rest)
      = Inr (run_assignments us s, (off + length (bs @ cs), rest))" if "off mod 8 = 0" for off rest s
  proof -
    have "(off + length bs) mod 8 = 0" using that bs(2) by (auto simp: mod_eq_0_iff_dvd)
    then show ?thesis using that bs(4) cs(4) us by (simp add: dec_bind_def run_assignments_def add.assoc)
  qed
  moreover have "length (bs @ cs) mod 8 = 0" using bs(2) cs(2) by (auto simp: mod_eq_0_iff_dvd)
  ultimately show ?case using bs(1,3) cs(1,3) by (intro exI [of _ "bs @ cs"]) simp
qed

lemma container_header:
  assumes "n \<le> 65535"
  shows "codes 25 (enc_seq (encode_sequence_header L True [] False)
      (encode_length_determinent L (Some 0) (Some 65535) False n))
      (dec_bind (decode_sequence_header L True 0)
        (\<lambda>_. decode_length_determinent L (Some 0) (Some 65535) False)) n"
  using codes_header [of "[]" 0 24 _ "\<lambda>_. decode_length_determinent L (Some 0) (Some 65535) False" n True]
    length_law [of 0 n 65535] assms by simp

lemma decode_container_header:
  "decode_container L arms s =
     dec_bind (dec_bind (decode_sequence_header L True 0)
       (\<lambda>_. decode_length_determinent L (Some 0) (Some 65535) False)) (\<lambda>n. decode_ies L arms n s)"
  by (auto simp: decode_container_def dec_bind_def result_bind_def fun_eq_iff split: sum.splits prod.splits)

lemma container_read_back:
  assumes "carried arms k items us" "k \<le> 65535"
  shows "codes (25 + 131175 * k) (encode_container L items) (decode_container L arms s)
           (run_assignments us s)"
  unfolding codes_def
proof
  fix w
  have len: "length items \<le> k" using assms(1) by (simp add: carried_def)
  from ies_read_back [OF assms(1), of "[]" 0]
  obtain v where v: "encode_ies L items (0, []) = Inr (length items, v)" "length v mod 8 = 0"
      "length v \<le> 131175 * length items"
      "\<forall>off rest s. off mod 8 = 0 \<longrightarrow> decode_ies L arms (length items) s (off, v @ rest)
         = Inr (run_assignments us s, (off + length v, rest))"
    by auto
  have "length items \<le> 65535" using len assms(2) by simp
  from codesE [OF container_header [OF this], where w = w] obtain hs where hs:
    "enc_seq (encode_sequence_header L True [] False)
      (encode_length_determinent L (Some 0) (Some 65535) False (length items)) w = Inr (w @ hs)"
    "length hs \<le> 25"
    "\<And>off rest. off mod 8 = length w mod 8 \<Longrightarrow>
      dec_bind (decode_sequence_header L True 0)
        (\<lambda>_. decode_length_determinent L (Some 0) (Some 65535) False) (off, hs @ rest)
      = Inr (length items, (off + length hs, rest))"
    by auto
  have al: "length (w @ hs) mod 8 = 0"
    using hs(1) unfolding enc_seq_def by (auto simp only: rs_simps dest: ie_count_aligned)
  obtain q where q: "append_aligned L (w @ hs) v = (w @ hs) @ v @ q" "length q < 8" "length (v @ q) mod 8 = 0"
    using append_to_aligned [OF al] by blast
  have "length q mod 8 = 0" using q(3) v(2) by (simp add: mod_eq_0_iff_dvd dvd_add_right_iff)
  then have "q = []" using q(2) by simp
  then have enc: "encode_container L items w = Inr (w @ (hs @ v))"
    using hs(1) v(1) q(1) by (auto simp: encode_container_def enc_seq_def rs_simps)
  have "decode_container L arms s (off, (hs @ v) @ rest)
      = Inr (run_assignments us s, (off + length (hs @ v), rest))" if off: "off mod 8 = length w mod 8" for off rest
  proof -
    have "(off + length hs) mod 8 = 0" using al off by (metis length_append mod_add_left_eq)
    then show ?thesis unfolding decode_container_header
      using hs(3) [OF off, of "v @ rest"] v(4) by (simp add: dec_bind_def [where 'a = nat] add.assoc)
  qed
  with enc show "\<exists>bs. encode_container L items w = Inr (w @ bs) \<and> length bs \<le> 25 + 131175 * k \<and>
      (\<forall>off rest. off mod 8 = length w mod 8 \<longrightarrow>
         decode_container L arms s (off, bs @ rest) = Inr (run_assignments us s, (off + length bs, rest)))"
    using hs(2) v(3) len by (intro exI [of _ "hs @ v"]) simp
qed

text \<open>An element that no arm knows ends the decoding, whatever its criticality.\<close>

lemma encode_ies_append:
  "encode_ies L (xs @ ys) st = result_bind (encode_ies L xs st) (encode_ies L ys)"
proof (induction xs arbitrary: st)
  case (Cons x xs)
  then show ?case by (cases "encode_ie L x st") simp_all
qed simp

lemma decode_ies_add:
  "decode_ies L arms (m + n) s = dec_bind (decode_ies L arms m s) (decode_ies L arms n)"
proof (induction m arbitrary: s)
  case (Suc m)
  then show ?case
    by (auto simp: dec_bind_def result_bind_def fun_eq_iff split: sum.splits prod.splits)
qed simp

lemma decode_ie_unknown:
  assumes "decode_ie L [(i, d)] data = Inr x" "map_of arms i = None"
  shows "decode_ie L arms data = Inl (unrecognised_ie i)"
  using assms unfolding decode_ie_header
  by (auto simp: dec_bind_def [where 'a = int] rs_simps dec_bind_def dec_fail_def split: if_splits)

lemma ies_unknown:
  assumes "carried arms k xs us" "carried arms k' ys vs" "0 \<le> i" "i \<le> 65535" "map_of arms i = None"
    and "codes 131064 e d (u :: 's \<Rightarrow> 's)" and aligned: "length w mod 8 = 0"
  shows "\<exists>bs. encode_ies L (xs @ (i, crit, e) # ys) (n, w) = Inr (n + length xs + 1 + length ys, w @ bs) \<and>
           length bs mod 8 = 0 \<and>
           (\<forall>off rest s m. off mod 8 = 0 \<longrightarrow> length xs < m \<longrightarrow>
              decode_ies L arms m s (off, bs @ rest) = Inl (unrecognised_ie i))"
proof -
  note [simp] = mod_eq_0_iff_dvd
  from ies_read_back [OF assms(1) aligned, of n] obtain b1 where
    b1: "encode_ies L xs (n, w) = Inr (n + length xs, w @ b1)" "length b1 mod 8 = 0"
      "\<forall>off rest s. off mod 8 = 0 \<longrightarrow> decode_ies L arms (length xs) s (off, b1 @ rest)
         = Inr (run_assignments us s, (off + length b1, rest))"
    by (elim exE conjE)
  have "length (w @ b1) mod 8 = 0" using aligned b1(2) by simp
  moreover obtain v where "e [] = Inr v" "length v \<le> 131064"
    using codesE [OF assms(6), where w = "[]"] by (metis append_Nil)
  ultimately have "length (w @ b1) mod 8 = 0" "e [] = Inr v" "length v \<le> 131064" by simp_all
  from ie_read_back [OF assms(3,4) _ assms(6) this(2,3,1), of "[(i, d)]" crit "n + length xs"] obtain b2 where
    b2: "encode_ie L (i, crit, e) (n + length xs, w @ b1) = Inr (Suc (n + length xs), (w @ b1) @ b2)"
      "length b2 mod 8 = 0"
      "\<forall>off rest. off mod 8 = 0 \<longrightarrow> decode_ie L [(i, d)] (off, b2 @ rest) = Inr (u, (off + length b2, rest))"
    by auto
  have "length (w @ b1 @ b2) mod 8 = 0" using aligned b1(2) b2(2) by simp
  from ies_read_back [OF assms(2) this, of "Suc (n + length xs)"] obtain b3 where
    b3: "encode_ies L ys (Suc (n + length xs), w @ b1 @ b2) = Inr (Suc (n + length xs) + length ys, (w @ b1 @ b2) @ b3)"
      "length b3 mod 8 = 0"
    by (elim exE conjE)
  have "decode_ies L arms m s (off, (b1 @ b2 @ b3) @ rest) = Inl (unrecognised_ie i)"
    if off: "off mod 8 = 0" and more: "length xs < m" for off rest s m
  proof -
    obtain j where m: "m = length xs + Suc j" using less_imp_Suc_add [OF more] by auto
    have "(off + length b1) mod 8 = 0" using off b1(2) by simp
    then have "decode_ie L arms (off + length b1, b2 @ b3 @ rest) = Inl (unrecognised_ie i)"
      by (intro decode_ie_unknown [OF b2(3) [rule_format] assms(5)])
    then show ?thesis
      using off b1(3) unfolding m decode_ies_add by (simp add: dec_bind_def)
  qed
  then show ?thesis
    using b1(1,2) b2(1,2) b3 by (intro exI [of _ "b1 @ b2 @ b3"]) (simp add: encode_ies_append)
qed

lemma container_unknown:
  assumes "carried arms k xs us" "carried arms k' ys vs" "k + k' < 65535" "0 \<le> i" "i \<le> 65535"
    and "map_of arms i = None" "codes 131064 e d (u :: 's \<Rightarrow> 's)"
  shows "\<exists>bs. encode_container L (xs @ (i, crit, e) # ys) [] = Inr bs \<and>
           (\<forall>rest. decode_container L arms s (0, bs @ rest) = Inl (unrecognised_ie i))"
proof -
  let ?n = "length xs + 1 + length ys"
  have n: "?n \<le> 65535" using assms(1-3) by (simp add: carried_def)
  from ies_unknown [OF assms(1,2,4-7), of "[]" crit 0] obtain v where
    v: "encode_ies L (xs @ (i, crit, e) # ys) (0, []) = Inr (?n, v)"
      "\<forall>off rest s m. off mod 8 = 0 \<longrightarrow> length xs < m \<longrightarrow>
         decode_ies L arms m s (off, v @ rest) = Inl (unrecognised_ie i)"
    by auto
  from codesE [OF container_header [OF n], where w = "[]"] obtain hs where hs0:
    "enc_seq (encode_sequence_header L True [] False)
      (encode_length_determinent L (Some 0) (Some 65535) False ?n) [] = Inr ([] @ hs)"
    "\<And>off rest. off mod 8 = length ([] :: bits) mod 8 \<Longrightarrow> dec_bind (decode_sequence_header L True 0)
        (\<lambda>_. decode_length_determinent L (Some 0) (Some 65535) False) (off, hs @ rest)
      = Inr (?n, (off + length hs, rest))"
    by blast
  note hs = hs0(1) [simplified append_Nil] hs0(2) [of 0]
  have al: "length hs mod 8 = 0"
    using hs(1) unfolding enc_seq_def by (auto simp only: rs_simps dest: ie_count_aligned)
  obtain q where q: "append_aligned L hs v = hs @ v @ q"
    using append_to_aligned [OF al] by blast
  have "encode_container L (xs @ (i, crit, e) # ys) [] = Inr (hs @ v @ q)"
    using hs(1) v(1) q by (auto simp: encode_container_def enc_seq_def rs_simps)
  moreover have "decode_container L arms s (0, (hs @ v @ q) @ rest) = Inl (unrecognised_ie i)" for rest
    unfolding decode_container_header
    using hs(2) [of "v @ q @ rest"] v(2) al
    by (simp add: dec_bind_def [where 'a = nat] del: decode_ies.simps)
  ultimately show ?thesis by blast
qed

text \<open>A message: the container and then the checks of its mandatory elements.\<close>

lemma message_codes:
  assumes "carried arms k items us" "k \<le> 65535" "f (run_assignments us s) = dec_return m"
  shows "codes (25 + 131175 * k) (encode_container L items) (dec_bind (decode_container L arms s) f) m"
  by (rule codes_last [where f = f, OF container_read_back [OF assms(1,2)], OF assms(3)])

end

end
