(* ===== verification/F1ap_Shapes.thy ===== *)
theory F1ap_Shapes
  imports F1ap_Container
begin

text \<open>
  The building blocks of the setup and configuration messages (\<open>5g-libs/f1ap/src/ies.rs\<close>): values that are
  written in place, lists, sequences with an extension container, choices.  A codec is sound for a value
  if the value is read back from its encoding; the rules of this theory decompose the generated text
  field by field, so that soundness of a type follows from soundness of its fields.
\<close>

section \<open>Values without a type of their own\<close>

definition named :: "string \<Rightarrow> 'a per_codec \<Rightarrow> 'a per_codec" where
  "named name C = per_codec_impl name (decode_of C) (encode_of C)"

definition integer_codec :: "per_lib \<Rightarrow> int \<Rightarrow> int \<Rightarrow> bool \<Rightarrow> 'w::len word per_codec" where
  "integer_codec L lb ub ext =
     \<lparr>decode_of = dec_bind (decode_integer L (Some lb) (Some ub) ext) (\<lambda>(v, _). dec_return (word_of_int v)),
      encode_of = (\<lambda>x. encode_integer L (Some lb) (Some ub) ext (uint x) False)\<rparr>"

text \<open>An \<open>i128\<close>, which the decoder hands on without a cast.\<close>

definition i128_codec :: "per_lib \<Rightarrow> int \<Rightarrow> int \<Rightarrow> bool \<Rightarrow> int per_codec" where
  "i128_codec L lb ub ext =
     \<lparr>decode_of = dec_bind (decode_integer L (Some lb) (Some ub) ext) (\<lambda>(v, _). dec_return v),
      encode_of = (\<lambda>x. encode_integer L (Some lb) (Some ub) ext x False)\<rparr>"

definition bool_codec :: "per_lib \<Rightarrow> bool per_codec" where
  "bool_codec L = \<lparr>decode_of = decode_bool L, encode_of = encode_bool L\<rparr>"

definition octetstring_codec :: "per_lib \<Rightarrow> bytes per_codec" where
  "octetstring_codec L =
     \<lparr>decode_of = decode_octetstring L None None False,
      encode_of = (\<lambda>x. encode_octetstring L None None False x False)\<rparr>"

definition array_codec :: "per_lib \<Rightarrow> nat \<Rightarrow> bytes per_codec" where
  "array_codec L n =
     \<lparr>decode_of = dec_bind (decode_octetstring L (Some n) (Some n) False)
        (\<lambda>v. if length v = n then dec_return v else dec_fail PerPanic),
      encode_of = (\<lambda>x. encode_octetstring L (Some n) (Some n) False x False)\<rparr>"

definition bitstring_codec :: "per_lib \<Rightarrow> nat \<Rightarrow> bits per_codec" where
  "bitstring_codec L n =
     \<lparr>decode_of = decode_bitstring L (Some n) (Some n) False,
      encode_of = (\<lambda>x. encode_bitstring L (Some n) (Some n) False x False)\<rparr>"

definition printable_codec :: "per_lib \<Rightarrow> nat \<Rightarrow> nat \<Rightarrow> bool \<Rightarrow> string per_codec" where
  "printable_codec L lb ub ext =
     \<lparr>decode_of = decode_printable_string L (Some lb) (Some ub) ext,
      encode_of = (\<lambda>x. encode_printable_string L (Some lb) (Some ub) ext x False)\<rparr>"

definition visible_codec :: "per_lib \<Rightarrow> nat \<Rightarrow> nat \<Rightarrow> bool \<Rightarrow> string per_codec" where
  "visible_codec L lb ub ext =
     \<lparr>decode_of = decode_visible_string L (Some lb) (Some ub) ext,
      encode_of = (\<lambda>x. encode_visible_string L (Some lb) (Some ub) ext x False)\<rparr>"

definition open_visible_codec :: "per_lib \<Rightarrow> string per_codec" where
  "open_visible_codec L =
     \<lparr>decode_of = decode_visible_string L None None False,
      encode_of = (\<lambda>x. encode_visible_string L None None False x False)\<rparr>"

definition utf8_codec :: "per_lib \<Rightarrow> nat \<Rightarrow> nat \<Rightarrow> bool \<Rightarrow> string per_codec" where
  "utf8_codec L lb ub ext =
     \<lparr>decode_of = decode_utf8_string L (Some lb) (Some ub) ext,
      encode_of = (\<lambda>x. encode_utf8_string L (Some lb) (Some ub) ext x False)\<rparr>"

text \<open>\<open>Vec<T>\<close> and \<open>NonEmpty<T>\<close>, plain and with each item in an element of its own.\<close>

definition vec_codec :: "per_lib \<Rightarrow> nat \<Rightarrow> nat \<Rightarrow> 'a per_codec \<Rightarrow> 'a list per_codec" where
  "vec_codec L lb ub item =
     \<lparr>decode_of = dec_bind (decode_length_determinent L (Some lb) (Some ub) False) (decode_items (decode_of item)),
      encode_of = (\<lambda>xs. enc_seq (encode_length_determinent L (Some lb) (Some ub) False (length xs))
        (encode_items (encode_of item) xs))\<rparr>"

definition ie_vec_codec ::
    "per_lib \<Rightarrow> nat \<Rightarrow> nat \<Rightarrow> int \<Rightarrow> criticality \<Rightarrow> 'a per_codec \<Rightarrow> 'a list per_codec" where
  "ie_vec_codec L lb ub i crit item =
     \<lparr>decode_of = dec_bind (decode_length_determinent L (Some lb) (Some ub) False)
        (decode_items (decode_ie_item L (decode_of item))),
      encode_of = (\<lambda>xs. enc_seq (encode_length_determinent L (Some lb) (Some ub) False (length xs))
        (encode_items (\<lambda>x. encode_ie_item L i crit (encode_of item x)) xs))\<rparr>"

text \<open>\<open>NonEmpty::from_vec(items).unwrap()\<close>.\<close>

definition non_empty :: "'a list per_codec \<Rightarrow> 'a list per_codec" where
  "non_empty C =
     \<lparr>decode_of = dec_bind (decode_of C) (\<lambda>items. if items = [] then dec_fail PerPanic else dec_return items),
      encode_of = encode_of C\<rparr>"

section \<open>Extension containers\<close>

text \<open>
  The elements of an extension container assign to fields of the sequence that is being read, which start
  as \<open>None\<close>; an element that is not known is skipped.
\<close>

definition decode_extension :: "per_lib \<Rightarrow> (int \<times> ('s \<Rightarrow> 's) decoder) list \<Rightarrow> ('s \<Rightarrow> 's) decoder" where
  "decode_extension L arms =
     dec_bind (decode_integer L (Some 0) (Some 65535) False) (\<lambda>(i, _).
     dec_bind (decode_of (Criticality_codec L)) (\<lambda>_.
     dec_bind (decode_length_determinent L None None False) (\<lambda>ie_length.
     dec_bind (case map_of arms i of
                 None \<Rightarrow> dec_bind (advance_maybe_err L ie_length False) (\<lambda>_. dec_return (\<lambda>s. s))
               | Some d \<Rightarrow> d) (\<lambda>assign.
     dec_bind (decode_align L) (\<lambda>_.
     dec_return assign)))))"

primrec decode_extension_ies :: "per_lib \<Rightarrow> (int \<times> ('s \<Rightarrow> 's) decoder) list \<Rightarrow> nat \<Rightarrow> 's \<Rightarrow> 's decoder" where
  "decode_extension_ies L arms 0 s = dec_return s"
| "decode_extension_ies L arms (Suc n) s =
     dec_bind (decode_extension L arms) (\<lambda>assign. decode_extension_ies L arms n (assign s))"

definition decode_extensions :: "per_lib \<Rightarrow> bits \<Rightarrow> nat \<Rightarrow> (int \<times> ('s \<Rightarrow> 's) decoder) list \<Rightarrow> 's \<Rightarrow> 's decoder" where
  "decode_extensions L optionals i arms s =
     dec_bind (dec_index optionals i) (\<lambda>b.
     if b then dec_bind (decode_length_determinent L (Some 1) (Some 65535) False)
            (\<lambda>num_ies. decode_extension_ies L arms num_ies s)
     else dec_return s)"

text \<open>The elements are written first, into a buffer of their own; the body may look at their number.\<close>

definition with_extensions :: "per_lib \<Rightarrow> ie_item list \<Rightarrow> (nat \<Rightarrow> bits \<Rightarrow> encoder) \<Rightarrow> encoder" where
  "with_extensions L items body = (\<lambda>data.
     result_bind (encode_ies L items (0, [])) (\<lambda>(num_ies, ies). body num_ies ies data))"

definition encode_extensions :: "per_lib \<Rightarrow> nat \<Rightarrow> bits \<Rightarrow> encoder" where
  "encode_extensions L num_ies ies = (\<lambda>data.
     if num_ies \<noteq> 0 then
       result_bind (encode_length_determinent L (Some 1) (Some 65535) False num_ies data)
         (\<lambda>data. Inr (append_aligned L data ies))
     else Inr data)"

section \<open>Extension alternatives of a choice\<close>

text \<open>
  The last alternative of a choice holds one element.  The data is aligned before the verdict on an
  element that is not known; the header is written before the element is encoded.
\<close>

definition decode_choice_extensions :: "per_lib \<Rightarrow> (int \<times> 'a decoder) list \<Rightarrow> 'a decoder" where
  "decode_choice_extensions L arms =
     dec_bind (decode_integer L (Some 0) (Some 65535) False) (\<lambda>(x, _).
     dec_bind (decode_of (Criticality_codec L)) (\<lambda>_.
     dec_bind (decode_length_determinent L None None False) (\<lambda>_.
     case map_of arms x of
       None \<Rightarrow> dec_bind (decode_align L) (\<lambda>_. dec_fail (unrecognised_ie x))
     | Some d \<Rightarrow> dec_bind d (\<lambda>result. dec_bind (decode_align L) (\<lambda>_. dec_return result)))))"

definition encode_choice_extension :: "per_lib \<Rightarrow> int \<Rightarrow> criticality \<Rightarrow> encoder \<Rightarrow> encoder" where
  "encode_choice_extension L i crit e data =
     result_bind (encode_integer L (Some 0) (Some 65535) False i False data) (\<lambda>data.
     result_bind (encode_of (Criticality_codec L) crit data) (\<lambda>data.
     result_bind (e []) (\<lambda>ie.
     result_bind (encode_length_determinent L None None False (length_in_bytes L ie) data) (\<lambda>data.
     Inr (append_aligned L data ie)))))"

section \<open>Well-formed values\<close>

definition in_range :: "int \<Rightarrow> int \<Rightarrow> 'w::len word \<Rightarrow> bool" where
  "in_range lb ub x \<longleftrightarrow> lb \<le> uint x \<and> uint x \<le> ub"

definition in_range_i128 :: "int \<Rightarrow> int \<Rightarrow> int \<Rightarrow> bool" where
  "in_range_i128 lb ub x \<longleftrightarrow> lb \<le> x \<and> x \<le> ub"

definition has_length :: "nat \<Rightarrow> 'a list \<Rightarrow> bool" where
  "has_length n xs \<longleftrightarrow> length xs = n"

definition length_between :: "nat \<Rightarrow> nat \<Rightarrow> 'a list \<Rightarrow> bool" where
  "length_between lb ub xs \<longleftrightarrow> lb \<le> length xs \<and> length xs \<le> ub"

definition wf_list :: "nat \<Rightarrow> nat \<Rightarrow> ('a \<Rightarrow> bool) \<Rightarrow> 'a list \<Rightarrow> bool" where
  "wf_list lb ub good xs \<longleftrightarrow> length_between lb ub xs \<and> list_all good xs"

definition wf_uri :: "string \<Rightarrow> bool" where
  "wf_uri s \<longleftrightarrow> length s \<le> 16380 \<and> list_all visible_char s"

definition wf_name :: "(char \<Rightarrow> bool) \<Rightarrow> string \<Rightarrow> bool" where
  "wf_name good s \<longleftrightarrow> 1 \<le> length s \<and> length s \<le> 150 \<and> list_all good s"

text \<open>A value that is written behind its length, as an element.\<close>

definition open_ok :: "('a \<Rightarrow> bool) \<Rightarrow> 'a per_codec \<Rightarrow> 'a \<Rightarrow> bool" where
  "open_ok good C x \<longleftrightarrow> good x \<and> fits C x"

section \<open>Evaluation\<close>

lemma encode_named: "encode_of (named name C) x w = push_context name (encode_of C x w)"
  by (simp add: named_def per_codec_impl_def)

lemma encode_in_place:
  "encode_of (octetstring_codec L) xs w = encode_octetstring L None None False xs False w"
  "encode_of (array_codec L n) xs w = encode_octetstring L (Some n) (Some n) False xs False w"
  "encode_of (bitstring_codec L n) bs w = encode_bitstring L (Some n) (Some n) False bs False w"
  "encode_of (integer_codec L lb ub ext) x w = encode_integer L (Some lb) (Some ub) ext (uint x) False w"
  by (simp_all add: octetstring_codec_def array_codec_def bitstring_codec_def integer_codec_def)

lemma encode_lists:
  "encode_of (non_empty D) xs w = encode_of D xs w"
  "encode_of (vec_codec L lb ub C) xs w =
     result_bind (encode_length_determinent L (Some lb) (Some ub) False (length xs) w) (encode_items (encode_of C) xs)"
  "encode_of (ie_vec_codec L lb ub i crit C) xs w =
     result_bind (encode_length_determinent L (Some lb) (Some ub) False (length xs) w)
       (encode_items (\<lambda>x. encode_ie_item L i crit (encode_of C x)) xs)"
  by (simp_all add: non_empty_def vec_codec_def ie_vec_codec_def enc_seq_def)

lemma extensions_eval:
  "with_extensions L items body w =
     result_bind (encode_ies L items (0, [])) (\<lambda>(num_ies, ies). body num_ies ies w)"
  "encode_extensions L num_ies ies w =
     (if num_ies \<noteq> 0 then
        result_bind (encode_length_determinent L (Some 1) (Some 65535) False num_ies w)
          (\<lambda>data. Inr (append_aligned L data ies))
      else Inr w)"
  by (simp_all add: with_extensions_def encode_extensions_def)

lemmas shapes_eval =
  encode_named encode_in_place encode_lists extensions_eval encode_ie_item_def encode_optional_def container_eval

named_theorems sound_simps \<open>the values for which a codec is sound\<close>

named_theorems encodable_simps \<open>the values that a codec can write as an element\<close>

lemmas wf_simps = wf_list_def length_between_def has_length_def list_all_iff option.pred_set

lemma in_range_word [simp]:
  "in_range 0 255 (x :: u8)" "in_range 0 65535 (y :: u16)" "in_range 0 4294967295 (z :: u32)"
  using uint_less [of x] uint_less [of y] uint_less [of z] by (simp_all add: in_range_def)

lemma encodable_sound: "encodable C x \<Longrightarrow> sound C x"
  by (simp add: encodable_def)

section \<open>Soundness, field by field\<close>

lemma dec_return_eq: "dec_return x = dec_return y \<longleftrightarrow> x = y"
  by (auto simp: dec_return_def fun_eq_iff)

lemma dec_bind_Inr: "d data = Inr (x, data') \<Longrightarrow> dec_bind d f data = f x data'"
  by (simp add: dec_bind_def)

lemma sound_named: "sound C x \<Longrightarrow> sound (named name C) x"
  unfolding named_def by (intro sound_impl) (simp add: sound_def)

lemma encodable_named: "encodable C x \<Longrightarrow> encodable (named name C) x"
  by (auto simp: encodable_def sound_named fits_iff encode_named)

lemma coded_field: "sound C x \<Longrightarrow> coded e (f x) y \<Longrightarrow> coded (enc_seq (encode_of C x) e) (dec_bind (decode_of C) f) y"
  unfolding sound_def by (rule coded_seq)

lemma coded_optional_field:
  assumes "i < length optionals" "optionals ! i \<longleftrightarrow> x \<noteq> None" "\<And>y. x = Some y \<Longrightarrow> sound C y" "coded e (f x) z"
  shows "coded (enc_seq (encode_optional (encode_of C) x) e) (dec_bind (decode_optional optionals i (decode_of C)) f) z"
proof (rule coded_seq [where f = f, OF _ assms(4)])
  show "coded (encode_optional (encode_of C) x) (decode_optional optionals i (decode_of C)) x"
  proof (cases x)
    case None
    then show ?thesis
      using codes_optional [OF assms(1,2), of 0 "encode_of C" "decode_of C"] by (auto intro: codedI)
  next
    case (Some y)
    then obtain n where "codes n (encode_of C y) (decode_of C) y" using assms(3) by (auto simp: sound_def coded_def)
    then show ?thesis
      using codes_optional [OF assms(1,2), of n "encode_of C" "decode_of C"] Some by (auto intro: codedI)
  qed
qed

lemma coded_no_extensions:
  assumes "i < length optionals" "\<not> optionals ! i" "y = x"
  shows "coded enc_skip (dec_bind (decode_extension_container L optionals i) (\<lambda>_. dec_return y)) x"
  using assms by (intro coded_end) simp

lemma coded_fields_end: "y = x \<Longrightarrow> coded enc_skip (dec_return y) x"
  by (simp add: coded_end)

lemma sound_items_bound:
  assumes "\<And>x. x \<in> set xs \<Longrightarrow> sound C x"
  shows "\<exists>n. \<forall>x\<in>set xs. carries C n x"
  using assms
proof (induction xs)
  case (Cons x xs)
  then obtain m where m: "\<forall>x\<in>set xs. carries C m x" by auto
  from Cons(2) [of x] obtain n where n: "carries C n x" by (auto simp: sound_def coded_def carries_def)
  have "\<forall>y\<in>set (x # xs). carries C (max m n) y" using m n by (auto intro: carries_mono)
  then show ?case ..
qed simp

context aper_lib
begin

lemma coded_header:
  assumes "length opts = n" "coded e (f opts) x"
  shows "coded (enc_seq (encode_sequence_header L ext opts False) e)
           (dec_bind (decode_sequence_header L ext n) (\<lambda>(optionals, _). f optionals)) x"
proof -
  obtain m where "codes m e (f opts) x" using assms(2) by (auto simp: coded_def)
  from codes_header [OF assms(1), where f = "\<lambda>(optionals, _). f optionals" and e = e and m = m] this
  show ?thesis by (auto intro: codedI)
qed

lemma encodable_array:
  assumes "length x = n" "n \<le> 100"
  shows "encodable (array_codec L n) x"
proof (rule encodable_carries)
  show "carries (array_codec L n) (8 * n + 8) x"
    unfolding carries_def array_codec_def per_codec.simps
    by (rule codes_last [OF octets_law]) (use assms in auto)
qed (use assms in simp)

lemma encodable_bitstring:
  assumes "length x = n" "n \<le> 1000"
  shows "encodable (bitstring_codec L n) x"
proof (rule encodable_carries)
  show "carries (bitstring_codec L n) (n + 8) x"
    unfolding carries_def bitstring_codec_def per_codec.simps by (rule bitstring_law) (use assms in auto)
qed (use assms in simp)

lemma sound_octetstring: "length x < 16384 \<Longrightarrow> sound (octetstring_codec L) x"
  using open_octets_law [of x] by (auto simp: sound_def octetstring_codec_def intro: codedI)

lemma encodable_enum:
  assumes "x \<in> set variants" "int (length variants) \<le> ub + 1" "ub < 256"
  shows "encodable (enum_impl L name variants ub ext) x"
  by (rule encodable_carries [OF carries_enum]) (use assms in simp_all)

lemma coded_items:
  assumes "\<And>x. x \<in> set xs \<Longrightarrow> coded (e x) d x"
  shows "coded (encode_items e xs) (decode_items d (length xs)) xs"
  using assms
proof (induction xs)
  case (Cons x xs)
  have "coded (e x) d x" using Cons(2) by simp
  moreover have "coded (encode_items e xs) (dec_bind (decode_items d (length xs)) (\<lambda>xs. dec_return (x # xs))) (x # xs)"
    using Cons by (intro coded_last) simp_all
  ultimately show ?case by (simp add: coded_seq)
qed (simp add: coded_end)

lemma sound_vec:
  assumes "lb \<le> length xs" "length xs \<le> ub" "ub \<le> 65535" "\<And>x. x \<in> set xs \<Longrightarrow> sound C x"
  shows "sound (vec_codec L lb ub C) xs"
  unfolding sound_def vec_codec_def per_codec.simps
  by (rule coded_seq [OF codedI [OF length_law [OF assms(1-3)]]], rule coded_items)
    (use assms(4) in \<open>simp add: sound_def\<close>)

lemma coded_ie_item:
  assumes "encodable C x" "0 \<le> i" "i \<le> 65535"
  shows "coded (encode_ie_item L i crit (encode_of C x)) (decode_ie_item L (decode_of C)) x"
proof -
  obtain n v where "codes n (encode_of C x) (decode_of C) x" "encode_of C x [] = Inr v" "length v \<le> 131064"
    using assms(1) by (auto simp: encodable_def sound_def coded_def fits_iff)
  from codes_ie_item_fits [OF this assms(2,3)] show ?thesis by (rule codedI)
qed

lemma sound_ie_vec:
  assumes "lb \<le> length xs" "length xs \<le> ub" "ub \<le> 65535" "\<And>x. x \<in> set xs \<Longrightarrow> encodable C x" "0 \<le> i" "i \<le> 65535"
  shows "sound (ie_vec_codec L lb ub i crit C) xs"
  unfolding sound_def ie_vec_codec_def per_codec.simps
  by (rule coded_seq [OF codedI [OF length_law [OF assms(1-3)]]], rule coded_items, rule coded_ie_item)
    (use assms(4-6) in simp_all)

lemma sound_non_empty:
  assumes "sound C xs" "1 \<le> length xs"
  shows "sound (non_empty C) xs"
  unfolding sound_def non_empty_def per_codec.simps
  by (rule coded_last [OF assms(1) [unfolded sound_def]]) (use assms(2) in auto)

text \<open>An alternative of a choice.\<close>

lemma coded_choice:
  assumes "sound C x" "f (v, False) = dec_bind (decode_of C) g" "g x = dec_return y" "0 \<le> v" "v \<le> ub" "ub < 256"
  shows "coded (enc_seq (encode_choice_idx L 0 ub ext v False) (encode_of C x))
           (dec_bind (decode_choice_idx L 0 ub ext) f) y"
proof -
  obtain n where "carries C n x" using assms(1) by (auto simp: sound_def coded_def carries_def)
  from codes_choice [where f = f and g = g, OF assms(4-6,2) this assms(3)] show ?thesis by (rule codedI)
qed

lemma coded_choice_unit:
  assumes "f (v, False) = dec_return y" "0 \<le> v" "v \<le> ub" "ub < 256"
  shows "coded (encode_choice_idx L 0 ub ext v False) (dec_bind (decode_choice_idx L 0 ub ext) f) y"
  by (rule coded_last [OF codedI [OF choice_law [OF assms(2-4)]]]) (rule assms(1))

lemma choice_extension_writes: "e [] = Inr v \<Longrightarrow> encode_choice_extension L i crit e = encode_ie_item L i crit e"
  by (simp add: encode_choice_extension_def encode_ie_item_def fun_eq_iff)

lemma decode_choice_extensions_header:
  "decode_choice_extensions L arms =
     dec_bind (open_header_decoder L 65535) (\<lambda>x. case map_of arms x of
       None \<Rightarrow> dec_bind (decode_align L) (\<lambda>_. dec_fail (unrecognised_ie x))
     | Some d \<Rightarrow> dec_bind d (\<lambda>result. dec_bind (decode_align L) (\<lambda>_. dec_return result)))"
  by (auto simp: decode_choice_extensions_def open_header_decoder_def dec_bind_def dec_return_def result_bind_def fun_eq_iff
      split: sum.splits prod.splits)

lemma coded_choice_extension:
  assumes "encodable C x" "map_of arms i = Some (dec_bind (decode_of C) g)" "g x = dec_return y" "0 \<le> i" "i \<le> 65535"
  shows "coded (encode_choice_extension L i crit (encode_of C x)) (decode_choice_extensions L arms) y"
proof -
  obtain n v where n: "codes n (encode_of C x) (decode_of C) x" and v: "encode_of C x [] = Inr v" "length v \<le> 131064"
    using assms(1) by (auto simp: encodable_def sound_def coded_def fits_iff)
  have d: "codes n (encode_of C x) (dec_bind (decode_of C) g) y"
    by (rule codes_last [where f = g, OF n assms(3)])
  have ub: "(65535::int) < 65536" by simp
  have "codes (length v + 111) (encode_choice_extension L i crit (encode_of C x)) (decode_choice_extensions L arms) y"
    unfolding codes_def
  proof
    fix w
    obtain hs q where f:
      "enc_seq (encode_integer L (Some 0) (Some 65535) False i False)
         (enc_seq (encode_of (Criticality_codec L) crit)
           (encode_length_determinent L None None False (length_in_bytes L v))) w = Inr (w @ hs)"
      "append_aligned L (w @ hs) v = w @ hs @ v @ q" "length hs \<le> 104" "length q < 8"
      "length (w @ hs) mod 8 = 0" "length (v @ q) mod 8 = 0"
      "\<And>off rest. off mod 8 = length w mod 8 \<Longrightarrow>
         open_header_decoder L 65535 (off, hs @ v @ q @ rest) = Inr (i, (off + length hs, v @ q @ rest)) \<and>
         dec_bind (decode_of C) g (off + length hs, v @ q @ rest)
           = Inr (y, (off + length hs + length v, q @ rest)) \<and>
         decode_align L (off + length hs + length v, q @ rest)
           = Inr ((), (off + length hs + length v + length q, rest))"
      using open_field [OF assms(4,5) ub d v, of crit w] by blast
    have "encode_choice_extension L i crit (encode_of C x) w = Inr (w @ (hs @ v @ q))"
      unfolding choice_extension_writes [where e = "encode_of C x", OF v(1)]
      using f(1,2) v(1) by (auto simp: encode_ie_item_def enc_seq_def rs_simps)
    moreover have "decode_choice_extensions L arms (off, (hs @ v @ q) @ rest) = Inr (y, (off + length (hs @ v @ q), rest))"
      if "off mod 8 = length w mod 8" for off rest
    proof -
      note r = f(7) [OF that, of rest]
      show ?thesis
        unfolding decode_choice_extensions_header append_assoc
          dec_bind_Inr [where d = "open_header_decoder L 65535", OF r [THEN conjunct1]] assms(2) option.case
          dec_bind_Inr [where d = "dec_bind (decode_of C) g", OF r [THEN conjunct2, THEN conjunct1]]
          dec_bind_Inr [where d = "decode_align L", OF r [THEN conjunct2, THEN conjunct2]]
        by (simp add: dec_return_def add.assoc)
    qed
    ultimately show "\<exists>bs. encode_choice_extension L i crit (encode_of C x) w = Inr (w @ bs) \<and> length bs \<le> length v + 111 \<and>
        (\<forall>off rest. off mod 8 = length w mod 8 \<longrightarrow>
           decode_choice_extensions L arms (off, bs @ rest) = Inr (y, (off + length bs, rest)))"
      using f(3,4) by (intro exI [of _ "hs @ v @ q"]) simp
  qed
  then show ?thesis by (rule codedI)
qed

text \<open>The extension alternative behind its index.\<close>

lemma coded_choice_alternative:
  assumes "f (v, False) = d" "coded e d y" "0 \<le> v" "v \<le> ub" "ub < 256"
  shows "coded (enc_seq (encode_choice_idx L 0 ub ext v False) e) (dec_bind (decode_choice_idx L 0 ub ext) f) y"
  by (rule coded_seq [where f = f, OF codedI [OF choice_law [OF assms(3-5)]]]) (use assms(1,2) in simp)

text \<open>A message of which nothing but soundness of its elements is known.\<close>

lemma message_coded:
  assumes "carried arms k items us" "k \<le> 65535" "f (run_assignments us s) = dec_return m"
  shows "coded (encode_container L items) (dec_bind (decode_container L arms s) f) m"
  by (rule codedI [OF message_codes [where f = f, OF assms]])

end

text \<open>On known elements an extension container is read as the container of a message is.\<close>

lemma decode_extension_known: "decode_ie L arms data = Inr r \<Longrightarrow> decode_extension L arms data = Inr r"
  by (auto simp: decode_ie_def decode_extension_def dec_bind_def dec_fail_def rs_simps split: option.splits)

lemma decode_extension_ies_known:
  "decode_ies L arms n s data = Inr r \<Longrightarrow> decode_extension_ies L arms n s data = Inr r"
proof (induction n arbitrary: s data)
  case (Suc n)
  then obtain assign data' where "decode_ie L arms data = Inr (assign, data')" "decode_ies L arms n (assign s) data' = Inr r"
    by (auto simp: dec_bind_def rs_simps)
  then show ?case using Suc(1) decode_extension_known by (fastforce simp: dec_bind_def)
qed simp

context aper_setup
begin

lemma coded_extensions:
  assumes "carried arms k items us" "k \<le> 65535" "encode_ies L items (0, []) = Inr (num, v)"
    and "i < length optionals" "optionals ! i \<longleftrightarrow> num \<noteq> 0" "run_assignments us s = x"
  shows "coded (encode_extensions L num v) (decode_extensions L optionals i arms s) x"
proof (cases "items = []")
  case True
  then have "us = []" "num = 0" using assms(1,3) by (auto simp: carried_def)
  then have "encode_extensions L num v = enc_skip" "decode_extensions L optionals i arms s = dec_return x"
    using assms(4-6) by (auto simp: encode_extensions_def decode_extensions_def enc_skip_def run_assignments_def)
  then show ?thesis by (simp add: coded_end)
next
  case False
  from ies_read_back [OF assms(1), of "[]" 0] obtain v' where v':
    "encode_ies L items (0, []) = Inr (length items, v')" "length v' mod 8 = 0"
    "\<forall>off rest s. off mod 8 = 0 \<longrightarrow> decode_ies L arms (length items) s (off, v' @ rest)
       = Inr (run_assignments us s, (off + length v', rest))"
    by auto
  then have v: "num = length items" "v' = v" using assms(3) by auto
  have n: "1 \<le> num" "num \<le> 65535" using False v(1) assms(1,2) by (auto simp: carried_def Suc_le_eq)
  have "codes (24 + length v) (encode_extensions L num v) (decode_extensions L optionals i arms s) x"
    unfolding codes_def
  proof
    fix w
    obtain hs where hs: "encode_length_determinent L (Some 1) (Some 65535) False num w = Inr (w @ hs)" "length hs \<le> 24"
      "\<And>off rest. off mod 8 = length w mod 8 \<Longrightarrow>
        decode_length_determinent L (Some 1) (Some 65535) False (off, hs @ rest) = Inr (num, (off + length hs, rest))"
      using codesE [OF length_law [OF n order_refl], where w = w] by blast
    have al: "length (w @ hs) mod 8 = 0" using extension_count_aligned [OF hs(1)] .
    obtain q where q: "append_aligned L (w @ hs) v = (w @ hs) @ v @ q" "length q < 8" "length (v @ q) mod 8 = 0"
      using append_to_aligned [OF al] by blast
    have "length q mod 8 = 0" using q(3) v'(2) v(2) by (simp add: mod_eq_0_iff_dvd dvd_add_right_iff)
    then have "q = []" using q(2) by simp
    then have "encode_extensions L num v w = Inr (w @ (hs @ v))"
      using hs(1) q(1) n by (simp add: encode_extensions_def)
    moreover have "decode_extensions L optionals i arms s (off, (hs @ v) @ rest) = Inr (x, (off + length (hs @ v), rest))"
      if off: "off mod 8 = length w mod 8" for off rest
    proof -
      have "(off + length hs) mod 8 = 0" using al off by (metis length_append mod_add_left_eq)
      then have "decode_extension_ies L arms num s (off + length hs, v @ rest) = Inr (x, (off + length hs + length v, rest))"
        using v'(3) v assms(6) by (intro decode_extension_ies_known) simp
      then show ?thesis
        using hs(3) [OF off, of "v @ rest"] assms(4,5) n
        by (simp add: decode_extensions_def dec_bind_def [where 'a = nat] add.assoc)
    qed
    ultimately show "\<exists>bs. encode_extensions L num v w = Inr (w @ bs) \<and> length bs \<le> 24 + length v \<and>
        (\<forall>off rest. off mod 8 = length w mod 8 \<longrightarrow>
           decode_extensions L optionals i arms s (off, bs @ rest) = Inr (x, (off + length bs, rest)))"
      using hs(2) by (intro exI [of _ "hs @ v"]) simp
  qed
  then show ?thesis by (rule codedI)
qed

text \<open>What the body of a sequence may use of its extensions: they take \<open>s\<close> to \<open>y\<close>.\<close>

definition extends :: "(int \<times> ('s \<Rightarrow> 's) decoder) list \<Rightarrow> nat \<Rightarrow> bits \<Rightarrow> 's \<Rightarrow> 's \<Rightarrow> bool" where
  "extends arms num v s y \<longleftrightarrow>
     (\<forall>optionals i. i < length optionals \<longrightarrow> (optionals ! i \<longleftrightarrow> num \<noteq> 0) \<longrightarrow>
        coded (encode_extensions L num v) (decode_extensions L optionals i arms s) y)"

lemma coded_extends:
  "extends arms num v s y \<Longrightarrow> i < length optionals \<Longrightarrow> optionals ! i \<longleftrightarrow> num \<noteq> 0 \<Longrightarrow>
     coded (encode_extensions L num v) (decode_extensions L optionals i arms s) y"
  by (simp add: extends_def)

lemma coded_with_extensions:
  assumes "\<And>num v. extends arms num v s y \<Longrightarrow> coded (body num v) d x"
    and "carried arms k items us" "k \<le> 65535" "run_assignments us s = y"
  shows "coded (with_extensions L items body) d x"
proof -
  obtain num v where nv: "encode_ies L items (0, []) = Inr (num, v)"
    using ies_read_back [OF assms(2), of "[]" 0] by auto
  have "extends arms num v s y"
    unfolding extends_def using coded_extensions [OF assms(2,3) nv _ _ assms(4)] by blast
  from assms(1) [OF this] obtain n where "codes n (body num v) d x" by (auto simp: coded_def)
  with nv show ?thesis by (auto simp: coded_def codes_def with_extensions_def)
qed

lemma sound_vec_long:
  assumes "lb \<le> length xs" "length xs < 16384" "65535 < ub" "\<And>x. x \<in> set xs \<Longrightarrow> sound C x"
  shows "sound (vec_codec L lb ub C) xs"
  unfolding sound_def vec_codec_def per_codec.simps
  by (rule coded_seq [OF codedI [OF long_length_law [OF assms(1-3)]]], rule coded_items)
    (use assms(4) in \<open>simp add: sound_def\<close>)

lemma sound_ie_vec_long:
  assumes "lb \<le> length xs" "length xs < 16384" "65535 < ub" "\<And>x. x \<in> set xs \<Longrightarrow> encodable C x" "0 \<le> i" "i \<le> 65535"
  shows "sound (ie_vec_codec L lb ub i crit C) xs"
  unfolding sound_def ie_vec_codec_def per_codec.simps
  by (rule coded_seq [OF codedI [OF long_length_law [OF assms(1-3)]]], rule coded_items, rule coded_ie_item)
    (use assms(4-6) in simp_all)

lemma encodable_integer:
  assumes "in_range lb ub x" "ub - lb < 18446744073709551616"
  shows "encodable (integer_codec L lb ub ext) x"
proof (rule encodable_carries)
  show "carries (integer_codec L lb ub ext) 128 x"
    unfolding carries_def integer_codec_def per_codec.simps
    by (rule codes_last [OF wide_integer_law]) (use assms in \<open>auto simp: in_range_def\<close>)
qed simp

lemma encodable_i128:
  assumes "in_range_i128 lb ub x" "ub - lb < 18446744073709551616"
  shows "encodable (i128_codec L lb ub ext) x"
proof (rule encodable_carries)
  show "carries (i128_codec L lb ub ext) 128 x"
    unfolding carries_def i128_codec_def per_codec.simps
    by (rule codes_last [OF wide_integer_law]) (use assms in \<open>auto simp: in_range_i128_def\<close>)
qed simp

lemma encodable_bool: "encodable (bool_codec L) b"
  by (rule encodable_carries [of _ 1]) (use bool_law [of b] in \<open>simp_all add: carries_def bool_codec_def\<close>)

lemma encodable_octetstring: "wf_container x \<Longrightarrow> encodable (octetstring_codec L) x"
  by (rule encodable_carries [of _ "8 * length x + 24"])
    (simp_all add: carries_def octetstring_codec_def wf_container_def open_octets_law)

lemma encodable_uri: "wf_uri s \<Longrightarrow> encodable (open_visible_codec L) s"
  by (rule encodable_carries [of _ "8 * length s + 24"])
    (simp_all add: carries_def open_visible_codec_def wf_uri_def open_visible_law)

lemma encodable_name:
  assumes "lb = 1" "ub = 150"
  shows "wf_name printable_char s \<Longrightarrow> encodable (printable_codec L lb ub ext) s"
    and "wf_name visible_char s \<Longrightarrow> encodable (visible_codec L lb ub ext) s"
    and "wf_name visible_char s \<Longrightarrow> encodable (utf8_codec L lb ub ext) s"
  unfolding assms
  by (rule encodable_carries [where n = "8 * length s + 24"];
      simp add: carries_def printable_codec_def visible_codec_def utf8_codec_def wf_name_def
        printable_law visible_law utf8_law)+

text \<open>Values that are written in place, as elements and as fields.\<close>

lemmas encodable_in_place [encodable_simps] =
  encodable_array [folded has_length_def] encodable_bitstring [folded has_length_def] encodable_integer encodable_i128
  encodable_bool encodable_octetstring encodable_uri encodable_name encodable_named

lemmas sound_in_place [sound_simps] =
  encodable_in_place [THEN encodable_sound] sound_vec sound_vec_long sound_ie_vec sound_ie_vec_long sound_non_empty

end

end
