(* ===== verification/F1ap_Codec.thy ===== *)
theory F1ap_Codec
  imports F1ap_Shapes F1ap_Messages Aper_Reference
begin

text \<open>
  The aligned PER codecs of the F1AP messages that carry RRC and release contexts and associations
  (\<open>5g-libs/f1ap/src/pdu.rs\<close>), over the containers of \<open>F1ap_Container\<close>: which information elements, in which
  order, with which id and criticality.  Every well-formed message is read back from its bytes, whatever
  optional elements it has; an element that the release does not know and a missing mandatory element
  are errors.
\<close>

section \<open>The local variables of the decoders\<close>

text \<open>
  Each decoder declares one \<open>Option\<close> variable for each element of its message, \<open>None\<close> at the start; the
  record has the variables of all of them, by their names in the source.
\<close>

record ie_locals =
  lv_gnb_cu_ue_f1ap_id :: "u32 option"
  lv_gnb_du_ue_f1ap_id :: "u32 option"
  lv_cause :: "cause option"
  lv_target_cells_to_cancel :: "nr_cgi list option"
  lv_rrc_container :: "bytes option"
  lv_srb_id :: "u8 option"
  lv_old_gnb_du_ue_f1ap_id :: "u32 option"
  lv_execute_duplication :: "execute_duplication option"
  lv_rrc_delivery_status_request :: "rrc_delivery_status_request option"
  lv_criticality_diagnostics :: "criticality_diagnostics option"
  lv_nr_cgi :: "nr_cgi option"
  lv_c_rnti :: "u16 option"
  lv_du_to_cu_rrc_container :: "bytes option"
  lv_sul_access_indication :: "sul_access_indication option"
  lv_transaction_id :: "u8 option"
  lv_ran_ue_id :: "bytes option"
  lv_rrc_container_rrc_setup_complete :: "bytes option"
  lv_rat_frequency_priority_information :: "rat_frequency_priority_information option"
  lv_ue_context_not_retrievable :: "ue_context_not_retrievable option"
  lv_redirected_rrc_message :: "bytes option"
  lv_plmn_assistance_info_for_net_shar :: "bytes option"
  lv_new_gnb_cu_ue_f1ap_id :: "u32 option"
  lv_additional_rrm_priority_index :: "bits option"
  lv_selected_plmn_id :: "bytes option"
  lv_new_gnb_du_ue_f1ap_id :: "u32 option"
  lv_time_to_wait :: "time_to_wait option"
  lv_potential_sp_cell_list :: "nr_cgi list option"
  lv_requested_target_cell_global_id :: "nr_cgi option"

definition no_ies :: ie_locals where
  "no_ies =
     \<lparr>lv_gnb_cu_ue_f1ap_id = None,
      lv_gnb_du_ue_f1ap_id = None,
      lv_cause = None,
      lv_target_cells_to_cancel = None,
      lv_rrc_container = None,
      lv_srb_id = None,
      lv_old_gnb_du_ue_f1ap_id = None,
      lv_execute_duplication = None,
      lv_rrc_delivery_status_request = None,
      lv_criticality_diagnostics = None,
      lv_nr_cgi = None,
      lv_c_rnti = None,
      lv_du_to_cu_rrc_container = None,
      lv_sul_access_indication = None,
      lv_transaction_id = None,
      lv_ran_ue_id = None,
      lv_rrc_container_rrc_setup_complete = None,
      lv_rat_frequency_priority_information = None,
      lv_ue_context_not_retrievable = None,
      lv_redirected_rrc_message = None,
      lv_plmn_assistance_info_for_net_shar = None,
      lv_new_gnb_cu_ue_f1ap_id = None,
      lv_additional_rrm_priority_index = None,
      lv_selected_plmn_id = None,
      lv_new_gnb_du_ue_f1ap_id = None,
      lv_time_to_wait = None,
      lv_potential_sp_cell_list = None,
      lv_requested_target_cell_global_id = None\<rparr>"

section \<open>Messages\<close>

definition UeContextReleaseRequest_decode_inner :: "per_lib \<Rightarrow> ue_context_release_request decoder" where
  "UeContextReleaseRequest_decode_inner L =
     dec_bind (decode_container L
       [arm 40 (decode_of (GnbCuUeF1apId_codec L)) lv_gnb_cu_ue_f1ap_id_update,
        arm 41 (decode_of (GnbDuUeF1apId_codec L)) lv_gnb_du_ue_f1ap_id_update,
        arm 0 (decode_of (Cause_codec L)) lv_cause_update,
        arm 375 (decode_of (TargetCellList_codec L)) lv_target_cells_to_cancel_update] no_ies) (\<lambda>s.
     dec_bind (mandatory ''gnb_cu_ue_f1ap_id'' (lv_gnb_cu_ue_f1ap_id s)) (\<lambda>gnb_cu_ue_f1ap_id.
     dec_bind (mandatory ''gnb_du_ue_f1ap_id'' (lv_gnb_du_ue_f1ap_id s)) (\<lambda>gnb_du_ue_f1ap_id.
     dec_bind (mandatory ''cause'' (lv_cause s)) (\<lambda>cause.
     dec_return
       \<lparr>crr_gnb_cu_ue_f1ap_id = gnb_cu_ue_f1ap_id,
        crr_gnb_du_ue_f1ap_id = gnb_du_ue_f1ap_id,
        crr_cause = cause,
        crr_target_cells_to_cancel = lv_target_cells_to_cancel s\<rparr>))))"

definition UeContextReleaseRequest_encode_inner :: "per_lib \<Rightarrow> ue_context_release_request \<Rightarrow> encoder" where
  "UeContextReleaseRequest_encode_inner L m =
     encode_container L
       (ie 40 Reject (GnbCuUeF1apId_codec L) (crr_gnb_cu_ue_f1ap_id m) @
        ie 41 Reject (GnbDuUeF1apId_codec L) (crr_gnb_du_ue_f1ap_id m) @
        ie 0 Ignore (Cause_codec L) (crr_cause m) @
        opt_ie 375 Reject (TargetCellList_codec L) (crr_target_cells_to_cancel m))"

definition UeContextReleaseRequest_codec :: "per_lib \<Rightarrow> ue_context_release_request per_codec" where
  "UeContextReleaseRequest_codec L = per_codec_impl ''UeContextReleaseRequest'' (UeContextReleaseRequest_decode_inner L) (UeContextReleaseRequest_encode_inner L)"

definition UeContextReleaseCommand_decode_inner :: "per_lib \<Rightarrow> ue_context_release_command decoder" where
  "UeContextReleaseCommand_decode_inner L =
     dec_bind (decode_container L
       [arm 40 (decode_of (GnbCuUeF1apId_codec L)) lv_gnb_cu_ue_f1ap_id_update,
        arm 41 (decode_of (GnbDuUeF1apId_codec L)) lv_gnb_du_ue_f1ap_id_update,
        arm 0 (decode_of (Cause_codec L)) lv_cause_update,
        arm 50 (decode_of (RrcContainer_codec L)) lv_rrc_container_update,
        arm 64 (decode_of (SrbId_codec L)) lv_srb_id_update,
        arm 47 (decode_of (GnbDuUeF1apId_codec L)) lv_old_gnb_du_ue_f1ap_id_update,
        arm 109 (decode_of (ExecuteDuplication_codec L)) lv_execute_duplication_update,
        arm 184 (decode_of (RrcDeliveryStatusRequest_codec L)) lv_rrc_delivery_status_request_update,
        arm 375 (decode_of (TargetCellList_codec L)) lv_target_cells_to_cancel_update] no_ies) (\<lambda>s.
     dec_bind (mandatory ''gnb_cu_ue_f1ap_id'' (lv_gnb_cu_ue_f1ap_id s)) (\<lambda>gnb_cu_ue_f1ap_id.
     dec_bind (mandatory ''gnb_du_ue_f1ap_id'' (lv_gnb_du_ue_f1ap_id s)) (\<lambda>gnb_du_ue_f1ap_id.
     dec_bind (mandatory ''cause'' (lv_cause s)) (\<lambda>cause.
     dec_return
       \<lparr>crc_gnb_cu_ue_f1ap_id = gnb_cu_ue_f1ap_id,
        crc_gnb_du_ue_f1ap_id = gnb_du_ue_f1ap_id,
        crc_cause = cause,
        crc_rrc_container = lv_rrc_container s,
        crc_srb_id = lv_srb_id s,
        crc_old_gnb_du_ue_f1ap_id = lv_old_gnb_du_ue_f1ap_id s,
        crc_execute_duplication = lv_execute_duplication s,
        crc_rrc_delivery_status_request = lv_rrc_delivery_status_request s,
        crc_target_cells_to_cancel = lv_target_cells_to_cancel s\<rparr>))))"

definition UeContextReleaseCommand_encode_inner :: "per_lib \<Rightarrow> ue_context_release_command \<Rightarrow> encoder" where
  "UeContextReleaseCommand_encode_inner L m =
     encode_container L
       (ie 40 Reject (GnbCuUeF1apId_codec L) (crc_gnb_cu_ue_f1ap_id m) @
        ie 41 Reject (GnbDuUeF1apId_codec L) (crc_gnb_du_ue_f1ap_id m) @
        ie 0 Ignore (Cause_codec L) (crc_cause m) @
        opt_ie 50 Ignore (RrcContainer_codec L) (crc_rrc_container m) @
        opt_ie 64 Ignore (SrbId_codec L) (crc_srb_id m) @
        opt_ie 47 Ignore (GnbDuUeF1apId_codec L) (crc_old_gnb_du_ue_f1ap_id m) @
        opt_ie 109 Ignore (ExecuteDuplication_codec L) (crc_execute_duplication m) @
        opt_ie 184 Ignore (RrcDeliveryStatusRequest_codec L) (crc_rrc_delivery_status_request m) @
        opt_ie 375 Reject (TargetCellList_codec L) (crc_target_cells_to_cancel m))"

definition UeContextReleaseCommand_codec :: "per_lib \<Rightarrow> ue_context_release_command per_codec" where
  "UeContextReleaseCommand_codec L = per_codec_impl ''UeContextReleaseCommand'' (UeContextReleaseCommand_decode_inner L) (UeContextReleaseCommand_encode_inner L)"

definition UeContextReleaseComplete_decode_inner :: "per_lib \<Rightarrow> ue_context_release_complete decoder" where
  "UeContextReleaseComplete_decode_inner L =
     dec_bind (decode_container L
       [arm 40 (decode_of (GnbCuUeF1apId_codec L)) lv_gnb_cu_ue_f1ap_id_update,
        arm 41 (decode_of (GnbDuUeF1apId_codec L)) lv_gnb_du_ue_f1ap_id_update,
        arm 7 (decode_of (CriticalityDiagnostics_codec L)) lv_criticality_diagnostics_update] no_ies) (\<lambda>s.
     dec_bind (mandatory ''gnb_cu_ue_f1ap_id'' (lv_gnb_cu_ue_f1ap_id s)) (\<lambda>gnb_cu_ue_f1ap_id.
     dec_bind (mandatory ''gnb_du_ue_f1ap_id'' (lv_gnb_du_ue_f1ap_id s)) (\<lambda>gnb_du_ue_f1ap_id.
     dec_return
       \<lparr>crp_gnb_cu_ue_f1ap_id = gnb_cu_ue_f1ap_id,
        crp_gnb_du_ue_f1ap_id = gnb_du_ue_f1ap_id,
        crp_criticality_diagnostics = lv_criticality_diagnostics s\<rparr>)))"

definition UeContextReleaseComplete_encode_inner :: "per_lib \<Rightarrow> ue_context_release_complete \<Rightarrow> encoder" where
  "UeContextReleaseComplete_encode_inner L m =
     encode_container L
       (ie 40 Reject (GnbCuUeF1apId_codec L) (crp_gnb_cu_ue_f1ap_id m) @
        ie 41 Reject (GnbDuUeF1apId_codec L) (crp_gnb_du_ue_f1ap_id m) @
        opt_ie 7 Ignore (CriticalityDiagnostics_codec L) (crp_criticality_diagnostics m))"

definition UeContextReleaseComplete_codec :: "per_lib \<Rightarrow> ue_context_release_complete per_codec" where
  "UeContextReleaseComplete_codec L = per_codec_impl ''UeContextReleaseComplete'' (UeContextReleaseComplete_decode_inner L) (UeContextReleaseComplete_encode_inner L)"

definition InitialUlRrcMessageTransfer_decode_inner :: "per_lib \<Rightarrow> initial_ul_rrc_message_transfer decoder" where
  "InitialUlRrcMessageTransfer_decode_inner L =
     dec_bind (decode_container L
       [arm 41 (decode_of (GnbDuUeF1apId_codec L)) lv_gnb_du_ue_f1ap_id_update,
        arm 111 (decode_of (NrCgi_codec L)) lv_nr_cgi_update,
        arm 95 (decode_of (CRnti_codec L)) lv_c_rnti_update,
        arm 50 (decode_of (RrcContainer_codec L)) lv_rrc_container_update,
        arm 128 (decode_of (DuToCuRrcContainer_codec L)) lv_du_to_cu_rrc_container_update,
        arm 178 (decode_of (SulAccessIndication_codec L)) lv_sul_access_indication_update,
        arm 78 (decode_of (TransactionId_codec L)) lv_transaction_id_update,
        arm 226 (decode_of (RanUeId_codec L)) lv_ran_ue_id_update,
        arm 241 (decode_of (RrcContainerRrcSetupComplete_codec L)) lv_rrc_container_rrc_setup_complete_update] no_ies) (\<lambda>s.
     dec_bind (mandatory ''gnb_du_ue_f1ap_id'' (lv_gnb_du_ue_f1ap_id s)) (\<lambda>gnb_du_ue_f1ap_id.
     dec_bind (mandatory ''nr_cgi'' (lv_nr_cgi s)) (\<lambda>nr_cgi.
     dec_bind (mandatory ''c_rnti'' (lv_c_rnti s)) (\<lambda>c_rnti.
     dec_bind (mandatory ''rrc_container'' (lv_rrc_container s)) (\<lambda>rrc_container.
     dec_return
       \<lparr>iut_gnb_du_ue_f1ap_id = gnb_du_ue_f1ap_id,
        iut_nr_cgi = nr_cgi,
        iut_c_rnti = c_rnti,
        iut_rrc_container = rrc_container,
        iut_du_to_cu_rrc_container = lv_du_to_cu_rrc_container s,
        iut_sul_access_indication = lv_sul_access_indication s,
        iut_transaction_id = lv_transaction_id s,
        iut_ran_ue_id = lv_ran_ue_id s,
        iut_rrc_container_rrc_setup_complete = lv_rrc_container_rrc_setup_complete s\<rparr>)))))"

definition InitialUlRrcMessageTransfer_encode_inner :: "per_lib \<Rightarrow> initial_ul_rrc_message_transfer \<Rightarrow> encoder" where
  "InitialUlRrcMessageTransfer_encode_inner L m =
     encode_container L
       (ie 41 Reject (GnbDuUeF1apId_codec L) (iut_gnb_du_ue_f1ap_id m) @
        ie 111 Reject (NrCgi_codec L) (iut_nr_cgi m) @
        ie 95 Reject (CRnti_codec L) (iut_c_rnti m) @
        ie 50 Reject (RrcContainer_codec L) (iut_rrc_container m) @
        opt_ie 128 Reject (DuToCuRrcContainer_codec L) (iut_du_to_cu_rrc_container m) @
        opt_ie 178 Ignore (SulAccessIndication_codec L) (iut_sul_access_indication m) @
        opt_ie 78 Ignore (TransactionId_codec L) (iut_transaction_id m) @
        opt_ie 226 Ignore (RanUeId_codec L) (iut_ran_ue_id m) @
        opt_ie 241 Ignore (RrcContainerRrcSetupComplete_codec L) (iut_rrc_container_rrc_setup_complete m))"

definition InitialUlRrcMessageTransfer_codec :: "per_lib \<Rightarrow> initial_ul_rrc_message_transfer per_codec" where
  "InitialUlRrcMessageTransfer_codec L = per_codec_impl ''InitialUlRrcMessageTransfer'' (InitialUlRrcMessageTransfer_decode_inner L) (InitialUlRrcMessageTransfer_encode_inner L)"

definition DlRrcMessageTransfer_decode_inner :: "per_lib \<Rightarrow> dl_rrc_message_transfer decoder" where
  "DlRrcMessageTransfer_decode_inner L =
     dec_bind (decode_container L
       [arm 40 (decode_of (GnbCuUeF1apId_codec L)) lv_gnb_cu_ue_f1ap_id_update,
        arm 41 (decode_of (GnbDuUeF1apId_codec L)) lv_gnb_du_ue_f1ap_id_update,
        arm 47 (decode_of (GnbDuUeF1apId_codec L)) lv_old_gnb_du_ue_f1ap_id_update,
        arm 64 (decode_of (SrbId_codec L)) lv_srb_id_update,
        arm 109 (decode_of (ExecuteDuplication_codec L)) lv_execute_duplication_update,
        arm 50 (decode_of (RrcContainer_codec L)) lv_rrc_container_update,
        arm 108 (decode_of (RatFrequencyPriorityInformation_codec L)) lv_rat_frequency_priority_information_update,
        arm 184 (decode_of (RrcDeliveryStatusRequest_codec L)) lv_rrc_delivery_status_request_update,
        arm 222 (decode_of (UeContextNotRetrievable_codec L)) lv_ue_context_not_retrievable_update,
        arm 218 (decode_of (octetstring_codec L)) lv_redirected_rrc_message_update,
        arm 221 (decode_of (PlmnIdentity_codec L)) lv_plmn_assistance_info_for_net_shar_update,
        arm 217 (decode_of (GnbCuUeF1apId_codec L)) lv_new_gnb_cu_ue_f1ap_id_update,
        arm 248 (decode_of (AdditionalRrmPriorityIndex_codec L)) lv_additional_rrm_priority_index_update] no_ies) (\<lambda>s.
     dec_bind (mandatory ''gnb_cu_ue_f1ap_id'' (lv_gnb_cu_ue_f1ap_id s)) (\<lambda>gnb_cu_ue_f1ap_id.
     dec_bind (mandatory ''gnb_du_ue_f1ap_id'' (lv_gnb_du_ue_f1ap_id s)) (\<lambda>gnb_du_ue_f1ap_id.
     dec_bind (mandatory ''srb_id'' (lv_srb_id s)) (\<lambda>srb_id.
     dec_bind (mandatory ''rrc_container'' (lv_rrc_container s)) (\<lambda>rrc_container.
     dec_return
       \<lparr>drt_gnb_cu_ue_f1ap_id = gnb_cu_ue_f1ap_id,
        drt_gnb_du_ue_f1ap_id = gnb_du_ue_f1ap_id,
        drt_old_gnb_du_ue_f1ap_id = lv_old_gnb_du_ue_f1ap_id s,
        drt_srb_id = srb_id,
        drt_execute_duplication = lv_execute_duplication s,
        drt_rrc_container = rrc_container,
        drt_rat_frequency_priority_information = lv_rat_frequency_priority_information s,
        drt_rrc_delivery_status_request = lv_rrc_delivery_status_request s,
        drt_ue_context_not_retrievable = lv_ue_context_not_retrievable s,
        drt_redirected_rrc_message = lv_redirected_rrc_message s,
        drt_plmn_assistance_info_for_net_shar = lv_plmn_assistance_info_for_net_shar s,
        drt_new_gnb_cu_ue_f1ap_id = lv_new_gnb_cu_ue_f1ap_id s,
        drt_additional_rrm_priority_index = lv_additional_rrm_priority_index s\<rparr>)))))"

definition DlRrcMessageTransfer_encode_inner :: "per_lib \<Rightarrow> dl_rrc_message_transfer \<Rightarrow> encoder" where
  "DlRrcMessageTransfer_encode_inner L m =
     encode_container L
       (ie 40 Reject (GnbCuUeF1apId_codec L) (drt_gnb_cu_ue_f1ap_id m) @
        ie 41 Reject (GnbDuUeF1apId_codec L) (drt_gnb_du_ue_f1ap_id m) @
        opt_ie 47 Reject (GnbDuUeF1apId_codec L) (drt_old_gnb_du_ue_f1ap_id m) @
        ie 64 Reject (SrbId_codec L) (drt_srb_id m) @
        opt_ie 109 Ignore (ExecuteDuplication_codec L) (drt_execute_duplication m) @
        ie 50 Reject (RrcContainer_codec L) (drt_rrc_container m) @
        opt_ie 108 Reject (RatFrequencyPriorityInformation_codec L) (drt_rat_frequency_priority_information m) @
        opt_ie 184 Ignore (RrcDeliveryStatusRequest_codec L) (drt_rrc_delivery_status_request m) @
        opt_ie 222 Reject (UeContextNotRetrievable_codec L) (drt_ue_context_not_retrievable m) @
        opt_ie 218 Reject (octetstring_codec L) (drt_redirected_rrc_message m) @
        opt_ie 221 Ignore (PlmnIdentity_codec L) (drt_plmn_assistance_info_for_net_shar m) @
        opt_ie 217 Reject (GnbCuUeF1apId_codec L) (drt_new_gnb_cu_ue_f1ap_id m) @
        opt_ie 248 Ignore (AdditionalRrmPriorityIndex_codec L) (drt_additional_rrm_priority_index m))"

definition DlRrcMessageTransfer_codec :: "per_lib \<Rightarrow> dl_rrc_message_transfer per_codec" where
  "DlRrcMessageTransfer_codec L = per_codec_impl ''DlRrcMessageTransfer'' (DlRrcMessageTransfer_decode_inner L) (DlRrcMessageTransfer_encode_inner L)"

definition UlRrcMessageTransfer_decode_inner :: "per_lib \<Rightarrow> ul_rrc_message_transfer decoder" where
  "UlRrcMessageTransfer_decode_inner L =
     dec_bind (decode_container L
       [arm 40 (decode_of (GnbCuUeF1apId_codec L)) lv_gnb_cu_ue_f1ap_id_update,
        arm 41 (decode_of (GnbDuUeF1apId_codec L)) lv_gnb_du_ue_f1ap_id_update,
        arm 64 (decode_of (SrbId_codec L)) lv_srb_id_update,
        arm 50 (decode_of (RrcContainer_codec L)) lv_rrc_container_update,
        arm 224 (decode_of (PlmnIdentity_codec L)) lv_selected_plmn_id_update,
        arm 219 (decode_of (GnbDuUeF1apId_codec L)) lv_new_gnb_du_ue_f1ap_id_update] no_ies) (\<lambda>s.
     dec_bind (mandatory ''gnb_cu_ue_f1ap_id'' (lv_gnb_cu_ue_f1ap_id s)) (\<lambda>gnb_cu_ue_f1ap_id.
     dec_bind (mandatory ''gnb_du_ue_f1ap_id'' (lv_gnb_du_ue_f1ap_id s)) (\<lambda>gnb_du_ue_f1ap_id.
     dec_bind (mandatory ''srb_id'' (lv_srb_id s)) (\<lambda>srb_id.
     dec_bind (mandatory ''rrc_container'' (lv_rrc_container s)) (\<lambda>rrc_container.
     dec_return
       \<lparr>urt_gnb_cu_ue_f1ap_id = gnb_cu_ue_f1ap_id,
        urt_gnb_du_ue_f1ap_id = gnb_du_ue_f1ap_id,
        urt_srb_id = srb_id,
        urt_rrc_container = rrc_container,
        urt_selected_plmn_id = lv_selected_plmn_id s,
        urt_new_gnb_du_ue_f1ap_id = lv_new_gnb_du_ue_f1ap_id s\<rparr>)))))"

definition UlRrcMessageTransfer_encode_inner :: "per_lib \<Rightarrow> ul_rrc_message_transfer \<Rightarrow> encoder" where
  "UlRrcMessageTransfer_encode_inner L m =
     encode_container L
       (ie 40 Reject (GnbCuUeF1apId_codec L) (urt_gnb_cu_ue_f1ap_id m) @
        ie 41 Reject (GnbDuUeF1apId_codec L) (urt_gnb_du_ue_f1ap_id m) @
        ie 64 Reject (SrbId_codec L) (urt_srb_id m) @
        ie 50 Reject (RrcContainer_codec L) (urt_rrc_container m) @
        opt_ie 224 Reject (PlmnIdentity_codec L) (urt_selected_plmn_id m) @
        opt_ie 219 Reject (GnbDuUeF1apId_codec L) (urt_new_gnb_du_ue_f1ap_id m))"

definition UlRrcMessageTransfer_codec :: "per_lib \<Rightarrow> ul_rrc_message_transfer per_codec" where
  "UlRrcMessageTransfer_codec L = per_codec_impl ''UlRrcMessageTransfer'' (UlRrcMessageTransfer_decode_inner L) (UlRrcMessageTransfer_encode_inner L)"

definition F1RemovalRequest_decode_inner :: "per_lib \<Rightarrow> f1_removal_request decoder" where
  "F1RemovalRequest_decode_inner L =
     dec_bind (decode_container L
       [arm 78 (decode_of (TransactionId_codec L)) lv_transaction_id_update] no_ies) (\<lambda>s.
     dec_bind (mandatory ''transaction_id'' (lv_transaction_id s)) (\<lambda>transaction_id.
     dec_return
       \<lparr>frr_transaction_id = transaction_id\<rparr>))"

definition F1RemovalRequest_encode_inner :: "per_lib \<Rightarrow> f1_removal_request \<Rightarrow> encoder" where
  "F1RemovalRequest_encode_inner L m =
     encode_container L
       (ie 78 Reject (TransactionId_codec L) (frr_transaction_id m))"

definition F1RemovalRequest_codec :: "per_lib \<Rightarrow> f1_removal_request per_codec" where
  "F1RemovalRequest_codec L = per_codec_impl ''F1RemovalRequest'' (F1RemovalRequest_decode_inner L) (F1RemovalRequest_encode_inner L)"

definition F1RemovalResponse_decode_inner :: "per_lib \<Rightarrow> f1_removal_response decoder" where
  "F1RemovalResponse_decode_inner L =
     dec_bind (decode_container L
       [arm 78 (decode_of (TransactionId_codec L)) lv_transaction_id_update,
        arm 7 (decode_of (CriticalityDiagnostics_codec L)) lv_criticality_diagnostics_update] no_ies) (\<lambda>s.
     dec_bind (mandatory ''transaction_id'' (lv_transaction_id s)) (\<lambda>transaction_id.
     dec_return
       \<lparr>frp_transaction_id = transaction_id,
        frp_criticality_diagnostics = lv_criticality_diagnostics s\<rparr>))"

definition F1RemovalResponse_encode_inner :: "per_lib \<Rightarrow> f1_removal_response \<Rightarrow> encoder" where
  "F1RemovalResponse_encode_inner L m =
     encode_container L
       (ie 78 Reject (TransactionId_codec L) (frp_transaction_id m) @
        opt_ie 7 Ignore (CriticalityDiagnostics_codec L) (frp_criticality_diagnostics m))"

definition F1RemovalResponse_codec :: "per_lib \<Rightarrow> f1_removal_response per_codec" where
  "F1RemovalResponse_codec L = per_codec_impl ''F1RemovalResponse'' (F1RemovalResponse_decode_inner L) (F1RemovalResponse_encode_inner L)"

definition F1RemovalFailure_decode_inner :: "per_lib \<Rightarrow> f1_removal_failure decoder" where
  "F1RemovalFailure_decode_inner L =
     dec_bind (decode_container L
       [arm 78 (decode_of (TransactionId_codec L)) lv_transaction_id_update,
        arm 0 (decode_of (Cause_codec L)) lv_cause_update,
        arm 7 (decode_of (CriticalityDiagnostics_codec L)) lv_criticality_diagnostics_update] no_ies) (\<lambda>s.
     dec_bind (mandatory ''transaction_id'' (lv_transaction_id s)) (\<lambda>transaction_id.
     dec_bind (mandatory ''cause'' (lv_cause s)) (\<lambda>cause.
     dec_return
       \<lparr>frf_transaction_id = transaction_id,
        frf_cause = cause,
        frf_criticality_diagnostics = lv_criticality_diagnostics s\<rparr>)))"

definition F1RemovalFailure_encode_inner :: "per_lib \<Rightarrow> f1_removal_failure \<Rightarrow> encoder" where
  "F1RemovalFailure_encode_inner L m =
     encode_container L
       (ie 78 Reject (TransactionId_codec L) (frf_transaction_id m) @
        ie 0 Ignore (Cause_codec L) (frf_cause m) @
        opt_ie 7 Ignore (CriticalityDiagnostics_codec L) (frf_criticality_diagnostics m))"

definition F1RemovalFailure_codec :: "per_lib \<Rightarrow> f1_removal_failure per_codec" where
  "F1RemovalFailure_codec L = per_codec_impl ''F1RemovalFailure'' (F1RemovalFailure_decode_inner L) (F1RemovalFailure_encode_inner L)"

definition F1SetupFailure_decode_inner :: "per_lib \<Rightarrow> f1_setup_failure decoder" where
  "F1SetupFailure_decode_inner L =
     dec_bind (decode_container L
       [arm 78 (decode_of (TransactionId_codec L)) lv_transaction_id_update,
        arm 0 (decode_of (Cause_codec L)) lv_cause_update,
        arm 77 (decode_of (TimeToWait_codec L)) lv_time_to_wait_update,
        arm 7 (decode_of (CriticalityDiagnostics_codec L)) lv_criticality_diagnostics_update] no_ies) (\<lambda>s.
     dec_bind (mandatory ''transaction_id'' (lv_transaction_id s)) (\<lambda>transaction_id.
     dec_bind (mandatory ''cause'' (lv_cause s)) (\<lambda>cause.
     dec_return
       \<lparr>fsf_transaction_id = transaction_id,
        fsf_cause = cause,
        fsf_time_to_wait = lv_time_to_wait s,
        fsf_criticality_diagnostics = lv_criticality_diagnostics s\<rparr>)))"

definition F1SetupFailure_encode_inner :: "per_lib \<Rightarrow> f1_setup_failure \<Rightarrow> encoder" where
  "F1SetupFailure_encode_inner L m =
     encode_container L
       (ie 78 Reject (TransactionId_codec L) (fsf_transaction_id m) @
        ie 0 Ignore (Cause_codec L) (fsf_cause m) @
        opt_ie 77 Ignore (TimeToWait_codec L) (fsf_time_to_wait m) @
        opt_ie 7 Ignore (CriticalityDiagnostics_codec L) (fsf_criticality_diagnostics m))"

definition F1SetupFailure_codec :: "per_lib \<Rightarrow> f1_setup_failure per_codec" where
  "F1SetupFailure_codec L = per_codec_impl ''F1SetupFailure'' (F1SetupFailure_decode_inner L) (F1SetupFailure_encode_inner L)"

text \<open>A \<open>PotentialSpCellItem\<close> is its one field.\<close>

definition PotentialSpCellItem_codec :: "per_lib \<Rightarrow> nr_cgi per_codec" where
  "PotentialSpCellItem_codec L =
     per_codec_impl ''PotentialSpCellItem''
       (dec_bind (decode_sequence_header L True 1) (\<lambda>(optionals, _).
        dec_bind (decode_of (NrCgi_codec L)) (\<lambda>cell.
        dec_bind (decode_extension_container L optionals 0) (\<lambda>_.
        dec_return cell))))
       (\<lambda>x. enc_seq (encode_sequence_header L True [False] False) (encode_of (NrCgi_codec L) x))"

definition PotentialSpCellList_codec :: "per_lib \<Rightarrow> nr_cgi list per_codec" where
  "PotentialSpCellList_codec L =
     ie_list_impl L ''PotentialSpCellList'' 64 93 Ignore (PotentialSpCellItem_codec L)"

definition UeContextSetupFailure_decode_inner :: "per_lib \<Rightarrow> ue_context_setup_failure decoder" where
  "UeContextSetupFailure_decode_inner L =
     dec_bind (decode_container L
       [arm 40 (decode_of (GnbCuUeF1apId_codec L)) lv_gnb_cu_ue_f1ap_id_update,
        arm 41 (decode_of (GnbDuUeF1apId_codec L)) lv_gnb_du_ue_f1ap_id_update,
        arm 0 (decode_of (Cause_codec L)) lv_cause_update,
        arm 7 (decode_of (CriticalityDiagnostics_codec L)) lv_criticality_diagnostics_update,
        arm 92 (decode_of (PotentialSpCellList_codec L)) lv_potential_sp_cell_list_update,
        arm 376 (decode_of (NrCgi_codec L)) lv_requested_target_cell_global_id_update] no_ies) (\<lambda>s.
     dec_bind (mandatory ''gnb_cu_ue_f1ap_id'' (lv_gnb_cu_ue_f1ap_id s)) (\<lambda>gnb_cu_ue_f1ap_id.
     dec_bind (mandatory ''cause'' (lv_cause s)) (\<lambda>cause.
     dec_return
       \<lparr>csf_gnb_cu_ue_f1ap_id = gnb_cu_ue_f1ap_id,
        csf_gnb_du_ue_f1ap_id = lv_gnb_du_ue_f1ap_id s,
        csf_cause = cause,
        csf_criticality_diagnostics = lv_criticality_diagnostics s,
        csf_potential_sp_cell_list = lv_potential_sp_cell_list s,
        csf_requested_target_cell_global_id = lv_requested_target_cell_global_id s\<rparr>)))"

definition UeContextSetupFailure_encode_inner :: "per_lib \<Rightarrow> ue_context_setup_failure \<Rightarrow> encoder" where
  "UeContextSetupFailure_encode_inner L m =
     encode_container L
       (ie 40 Reject (GnbCuUeF1apId_codec L) (csf_gnb_cu_ue_f1ap_id m) @
        opt_ie 41 Ignore (GnbDuUeF1apId_codec L) (csf_gnb_du_ue_f1ap_id m) @
        ie 0 Ignore (Cause_codec L) (csf_cause m) @
        opt_ie 7 Ignore (CriticalityDiagnostics_codec L) (csf_criticality_diagnostics m) @
        opt_ie 92 Ignore (PotentialSpCellList_codec L) (csf_potential_sp_cell_list m) @
        opt_ie 376 Reject (NrCgi_codec L) (csf_requested_target_cell_global_id m))"

definition UeContextSetupFailure_codec :: "per_lib \<Rightarrow> ue_context_setup_failure per_codec" where
  "UeContextSetupFailure_codec L = per_codec_impl ''UeContextSetupFailure'' (UeContextSetupFailure_decode_inner L) (UeContextSetupFailure_encode_inner L)"

section \<open>Well-formed messages\<close>

text \<open>
  What the Rust types and the constraints of the elements allow: identities of SRBs up to 3, PLMN
  identities of three octets, cell identities of 36 bits, lists within their bounds, octet strings that
  fit into an element whose length takes at most two octets.
\<close>

definition wf_ue_context_release_request :: "ue_context_release_request \<Rightarrow> bool" where
  "wf_ue_context_release_request m \<longleftrightarrow>
     pred_option wf_target_cells (crr_target_cells_to_cancel m)"

definition wf_ue_context_release_command :: "ue_context_release_command \<Rightarrow> bool" where
  "wf_ue_context_release_command m \<longleftrightarrow>
     pred_option wf_container (crc_rrc_container m) \<and>
     pred_option (\<lambda>x. x \<le> 3) (crc_srb_id m) \<and>
     pred_option wf_target_cells (crc_target_cells_to_cancel m)"

definition wf_ue_context_release_complete :: "ue_context_release_complete \<Rightarrow> bool" where
  "wf_ue_context_release_complete m \<longleftrightarrow>
     pred_option wf_criticality_diagnostics (crp_criticality_diagnostics m)"

definition wf_initial_ul_rrc_message_transfer :: "initial_ul_rrc_message_transfer \<Rightarrow> bool" where
  "wf_initial_ul_rrc_message_transfer m \<longleftrightarrow>
     wf_nr_cgi (iut_nr_cgi m) \<and>
     wf_container (iut_rrc_container m) \<and>
     pred_option wf_container (iut_du_to_cu_rrc_container m) \<and>
     pred_option (\<lambda>x. length x = 8) (iut_ran_ue_id m) \<and>
     pred_option wf_container (iut_rrc_container_rrc_setup_complete m)"

definition wf_dl_rrc_message_transfer :: "dl_rrc_message_transfer \<Rightarrow> bool" where
  "wf_dl_rrc_message_transfer m \<longleftrightarrow>
     drt_srb_id m \<le> 3 \<and>
     wf_container (drt_rrc_container m) \<and>
     pred_option wf_rat_frequency_priority (drt_rat_frequency_priority_information m) \<and>
     pred_option wf_container (drt_redirected_rrc_message m) \<and>
     pred_option (\<lambda>x. length x = 3) (drt_plmn_assistance_info_for_net_shar m) \<and>
     pred_option (\<lambda>x. length x = 32) (drt_additional_rrm_priority_index m)"

definition wf_ul_rrc_message_transfer :: "ul_rrc_message_transfer \<Rightarrow> bool" where
  "wf_ul_rrc_message_transfer m \<longleftrightarrow>
     urt_srb_id m \<le> 3 \<and>
     wf_container (urt_rrc_container m) \<and>
     pred_option (\<lambda>x. length x = 3) (urt_selected_plmn_id m)"

definition wf_f1_removal_response :: "f1_removal_response \<Rightarrow> bool" where
  "wf_f1_removal_response m \<longleftrightarrow>
     pred_option wf_criticality_diagnostics (frp_criticality_diagnostics m)"

definition wf_f1_removal_failure :: "f1_removal_failure \<Rightarrow> bool" where
  "wf_f1_removal_failure m \<longleftrightarrow>
     pred_option wf_criticality_diagnostics (frf_criticality_diagnostics m)"

definition wf_f1_setup_failure :: "f1_setup_failure \<Rightarrow> bool" where
  "wf_f1_setup_failure m \<longleftrightarrow>
     pred_option wf_criticality_diagnostics (fsf_criticality_diagnostics m)"

section \<open>Every well-formed message is read back\<close>

lemma ue_context_release_request_eta [simp]:
  "\<lparr>crr_gnb_cu_ue_f1ap_id = crr_gnb_cu_ue_f1ap_id m, crr_gnb_du_ue_f1ap_id = crr_gnb_du_ue_f1ap_id m, crr_cause = crr_cause m, crr_target_cells_to_cancel = crr_target_cells_to_cancel m\<rparr> = m"
  by simp

lemma ue_context_release_command_eta [simp]:
  "\<lparr>crc_gnb_cu_ue_f1ap_id = crc_gnb_cu_ue_f1ap_id m, crc_gnb_du_ue_f1ap_id = crc_gnb_du_ue_f1ap_id m, crc_cause = crc_cause m, crc_rrc_container = crc_rrc_container m, crc_srb_id = crc_srb_id m, crc_old_gnb_du_ue_f1ap_id = crc_old_gnb_du_ue_f1ap_id m, crc_execute_duplication = crc_execute_duplication m, crc_rrc_delivery_status_request = crc_rrc_delivery_status_request m, crc_target_cells_to_cancel = crc_target_cells_to_cancel m\<rparr> = m"
  by simp

lemma ue_context_release_complete_eta [simp]:
  "\<lparr>crp_gnb_cu_ue_f1ap_id = crp_gnb_cu_ue_f1ap_id m, crp_gnb_du_ue_f1ap_id = crp_gnb_du_ue_f1ap_id m, crp_criticality_diagnostics = crp_criticality_diagnostics m\<rparr> = m"
  by simp

lemma initial_ul_rrc_message_transfer_eta [simp]:
  "\<lparr>iut_gnb_du_ue_f1ap_id = iut_gnb_du_ue_f1ap_id m, iut_nr_cgi = iut_nr_cgi m, iut_c_rnti = iut_c_rnti m, iut_rrc_container = iut_rrc_container m, iut_du_to_cu_rrc_container = iut_du_to_cu_rrc_container m, iut_sul_access_indication = iut_sul_access_indication m, iut_transaction_id = iut_transaction_id m, iut_ran_ue_id = iut_ran_ue_id m, iut_rrc_container_rrc_setup_complete = iut_rrc_container_rrc_setup_complete m\<rparr> = m"
  by simp

lemma dl_rrc_message_transfer_eta [simp]:
  "\<lparr>drt_gnb_cu_ue_f1ap_id = drt_gnb_cu_ue_f1ap_id m, drt_gnb_du_ue_f1ap_id = drt_gnb_du_ue_f1ap_id m, drt_old_gnb_du_ue_f1ap_id = drt_old_gnb_du_ue_f1ap_id m, drt_srb_id = drt_srb_id m, drt_execute_duplication = drt_execute_duplication m, drt_rrc_container = drt_rrc_container m, drt_rat_frequency_priority_information = drt_rat_frequency_priority_information m, drt_rrc_delivery_status_request = drt_rrc_delivery_status_request m, drt_ue_context_not_retrievable = drt_ue_context_not_retrievable m, drt_redirected_rrc_message = drt_redirected_rrc_message m, drt_plmn_assistance_info_for_net_shar = drt_plmn_assistance_info_for_net_shar m, drt_new_gnb_cu_ue_f1ap_id = drt_new_gnb_cu_ue_f1ap_id m, drt_additional_rrm_priority_index = drt_additional_rrm_priority_index m\<rparr> = m"
  by simp

lemma ul_rrc_message_transfer_eta [simp]:
  "\<lparr>urt_gnb_cu_ue_f1ap_id = urt_gnb_cu_ue_f1ap_id m, urt_gnb_du_ue_f1ap_id = urt_gnb_du_ue_f1ap_id m, urt_srb_id = urt_srb_id m, urt_rrc_container = urt_rrc_container m, urt_selected_plmn_id = urt_selected_plmn_id m, urt_new_gnb_du_ue_f1ap_id = urt_new_gnb_du_ue_f1ap_id m\<rparr> = m"
  by simp

lemma f1_removal_request_eta [simp]:
  "\<lparr>frr_transaction_id = frr_transaction_id m\<rparr> = m"
  by simp

lemma f1_removal_response_eta [simp]:
  "\<lparr>frp_transaction_id = frp_transaction_id m, frp_criticality_diagnostics = frp_criticality_diagnostics m\<rparr> = m"
  by simp

lemma f1_removal_failure_eta [simp]:
  "\<lparr>frf_transaction_id = frf_transaction_id m, frf_cause = frf_cause m, frf_criticality_diagnostics = frf_criticality_diagnostics m\<rparr> = m"
  by simp

lemma f1_setup_failure_eta [simp]:
  "\<lparr>fsf_transaction_id = fsf_transaction_id m, fsf_cause = fsf_cause m, fsf_time_to_wait = fsf_time_to_wait m, fsf_criticality_diagnostics = fsf_criticality_diagnostics m\<rparr> = m"
  by simp

definition wf_ue_context_setup_failure :: "ue_context_setup_failure \<Rightarrow> bool" where
  "wf_ue_context_setup_failure m \<longleftrightarrow>
     (\<forall>x. csf_criticality_diagnostics m = Some x \<longrightarrow> wf_criticality_diagnostics x) \<and>
     (\<forall>x. csf_potential_sp_cell_list m = Some x \<longrightarrow> length x \<le> 64 \<and> list_all wf_nr_cgi x) \<and>
     (\<forall>x. csf_requested_target_cell_global_id m = Some x \<longrightarrow> wf_nr_cgi x)"

lemma ue_context_setup_failure_eta [simp]:
  "\<lparr>csf_gnb_cu_ue_f1ap_id = csf_gnb_cu_ue_f1ap_id m, csf_gnb_du_ue_f1ap_id = csf_gnb_du_ue_f1ap_id m,
    csf_cause = csf_cause m, csf_criticality_diagnostics = csf_criticality_diagnostics m,
    csf_potential_sp_cell_list = csf_potential_sp_cell_list m,
    csf_requested_target_cell_global_id = csf_requested_target_cell_global_id m\<rparr> = m"
  by simp

context aper_lib
begin

lemma carries_octetstring [ie_carries]: "wf_container x \<Longrightarrow> carries (octetstring_codec L) 131064 x"
  using codes_mono [OF open_octets_law [of x], of 131064]
  by (simp add: carries_def octetstring_codec_def wf_container_def)

lemma carries_UeContextReleaseRequest:
  assumes "wf_ue_context_release_request m"
  shows "carries (UeContextReleaseRequest_codec L) (25 + 131175 * 4) m"
  unfolding UeContextReleaseRequest_codec_def
  by (rule carries_impl, unfold UeContextReleaseRequest_decode_inner_def UeContextReleaseRequest_encode_inner_def, rule codes_mono, rule message_codes,
      (rule carried_append | (rule carried_ie carried_opt_ie, simp, (rule ie_carries; use assms in \<open>simp add: wf_ue_context_release_request_def\<close>), simp, simp, simp))+)
    (simp_all add: no_ies_def)

lemma carries_UeContextReleaseCommand:
  assumes "wf_ue_context_release_command m"
  shows "carries (UeContextReleaseCommand_codec L) (25 + 131175 * 9) m"
  unfolding UeContextReleaseCommand_codec_def
  by (rule carries_impl, unfold UeContextReleaseCommand_decode_inner_def UeContextReleaseCommand_encode_inner_def, rule codes_mono, rule message_codes,
      (rule carried_append | (rule carried_ie carried_opt_ie, simp, (rule ie_carries; use assms in \<open>simp add: wf_ue_context_release_command_def\<close>), simp, simp, simp))+)
    (simp_all add: no_ies_def)

lemma carries_UeContextReleaseComplete:
  assumes "wf_ue_context_release_complete m"
  shows "carries (UeContextReleaseComplete_codec L) (25 + 131175 * 3) m"
  unfolding UeContextReleaseComplete_codec_def
  by (rule carries_impl, unfold UeContextReleaseComplete_decode_inner_def UeContextReleaseComplete_encode_inner_def, rule codes_mono, rule message_codes,
      (rule carried_append | (rule carried_ie carried_opt_ie, simp, (rule ie_carries; use assms in \<open>simp add: wf_ue_context_release_complete_def\<close>), simp, simp, simp))+)
    (simp_all add: no_ies_def)

lemma carries_InitialUlRrcMessageTransfer:
  assumes "wf_initial_ul_rrc_message_transfer m"
  shows "carries (InitialUlRrcMessageTransfer_codec L) (25 + 131175 * 9) m"
  unfolding InitialUlRrcMessageTransfer_codec_def
  by (rule carries_impl, unfold InitialUlRrcMessageTransfer_decode_inner_def InitialUlRrcMessageTransfer_encode_inner_def, rule codes_mono, rule message_codes,
      (rule carried_append | (rule carried_ie carried_opt_ie, simp, (rule ie_carries; use assms in \<open>simp add: wf_initial_ul_rrc_message_transfer_def\<close>), simp, simp, simp))+)
    (simp_all add: no_ies_def)

lemma carries_DlRrcMessageTransfer:
  assumes "wf_dl_rrc_message_transfer m"
  shows "carries (DlRrcMessageTransfer_codec L) (25 + 131175 * 13) m"
  unfolding DlRrcMessageTransfer_codec_def
  by (rule carries_impl, unfold DlRrcMessageTransfer_decode_inner_def DlRrcMessageTransfer_encode_inner_def, rule codes_mono, rule message_codes,
      (rule carried_append | (rule carried_ie carried_opt_ie, simp, (rule ie_carries; use assms in \<open>simp add: wf_dl_rrc_message_transfer_def\<close>), simp, simp, simp))+)
    (simp_all add: no_ies_def)

lemma carries_UlRrcMessageTransfer:
  assumes "wf_ul_rrc_message_transfer m"
  shows "carries (UlRrcMessageTransfer_codec L) (25 + 131175 * 6) m"
  unfolding UlRrcMessageTransfer_codec_def
  by (rule carries_impl, unfold UlRrcMessageTransfer_decode_inner_def UlRrcMessageTransfer_encode_inner_def, rule codes_mono, rule message_codes,
      (rule carried_append | (rule carried_ie carried_opt_ie, simp, (rule ie_carries; use assms in \<open>simp add: wf_ul_rrc_message_transfer_def\<close>), simp, simp, simp))+)
    (simp_all add: no_ies_def)

lemma carries_F1RemovalRequest:
  shows "carries (F1RemovalRequest_codec L) (25 + 131175 * 1) m"
  unfolding F1RemovalRequest_codec_def
  by (rule carries_impl, unfold F1RemovalRequest_decode_inner_def F1RemovalRequest_encode_inner_def, rule codes_mono, rule message_codes,
      (rule carried_append | (rule carried_ie carried_opt_ie, simp, rule ie_carries, simp, simp, simp))+)
    (simp_all add: no_ies_def)

lemma carries_F1RemovalResponse:
  assumes "wf_f1_removal_response m"
  shows "carries (F1RemovalResponse_codec L) (25 + 131175 * 2) m"
  unfolding F1RemovalResponse_codec_def
  by (rule carries_impl, unfold F1RemovalResponse_decode_inner_def F1RemovalResponse_encode_inner_def, rule codes_mono, rule message_codes,
      (rule carried_append | (rule carried_ie carried_opt_ie, simp, (rule ie_carries; use assms in \<open>simp add: wf_f1_removal_response_def\<close>), simp, simp, simp))+)
    (simp_all add: no_ies_def)

lemma carries_F1RemovalFailure:
  assumes "wf_f1_removal_failure m"
  shows "carries (F1RemovalFailure_codec L) (25 + 131175 * 3) m"
  unfolding F1RemovalFailure_codec_def
  by (rule carries_impl, unfold F1RemovalFailure_decode_inner_def F1RemovalFailure_encode_inner_def, rule codes_mono, rule message_codes,
      (rule carried_append | (rule carried_ie carried_opt_ie, simp, (rule ie_carries; use assms in \<open>simp add: wf_f1_removal_failure_def\<close>), simp, simp, simp))+)
    (simp_all add: no_ies_def)

lemma carries_F1SetupFailure:
  assumes "wf_f1_setup_failure m"
  shows "carries (F1SetupFailure_codec L) (25 + 131175 * 4) m"
  unfolding F1SetupFailure_codec_def
  by (rule carries_impl, unfold F1SetupFailure_decode_inner_def F1SetupFailure_encode_inner_def, rule codes_mono, rule message_codes,
      (rule carried_append | (rule carried_ie carried_opt_ie, simp, (rule ie_carries; use assms in \<open>simp add: wf_f1_setup_failure_def\<close>), simp, simp, simp))+)
    (simp_all add: no_ies_def)

lemma carries_PotentialSpCellItem: "wf_nr_cgi x \<Longrightarrow> carries (PotentialSpCellItem_codec L) 80 x"
  unfolding PotentialSpCellItem_codec_def
  by (rule carries_impl, rule codes_mono, rule codes_header, simp, simp only: prod.case,
      rule codes_last_field, rule ie_carries) simp_all

lemma carries_PotentialSpCellList [ie_carries]:
  assumes "length xs \<le> 64" "list_all wf_nr_cgi xs"
  shows "carries (PotentialSpCellList_codec L) 12248 xs"
proof -
  have "carries (PotentialSpCellList_codec L) (24 + (80 + 111) * length xs) xs"
    unfolding PotentialSpCellList_codec_def
    by (rule carries_ie_list) (use assms in \<open>auto simp: list_all_iff intro: carries_PotentialSpCellItem\<close>)
  then show ?thesis by (rule carries_mono) (use assms in simp)
qed

lemma carries_UeContextSetupFailure:
  assumes "wf_ue_context_setup_failure m"
  shows "carries (UeContextSetupFailure_codec L) (25 + 131175 * 6) m"
  unfolding UeContextSetupFailure_codec_def
  by (rule carries_impl, unfold UeContextSetupFailure_decode_inner_def UeContextSetupFailure_encode_inner_def, rule codes_mono, rule message_codes,
      (rule carried_append | (rule carried_ie carried_opt_ie, simp, (rule ie_carries; use assms in \<open>simp add: wf_ue_context_setup_failure_def\<close>), simp, simp, simp))+)
    (simp_all add: no_ies_def)

lemma ul_unknown_ie:
  assumes "wf_ul_rrc_message_transfer m" "0 \<le> i" "i \<le> 65535" "i \<notin> {40, 41, 64, 50, 224, 219}" "wf_container xs"
  shows "\<exists>bs. encode_container L
       (ie 40 Reject (GnbCuUeF1apId_codec L) (urt_gnb_cu_ue_f1ap_id m) @
        ie 41 Reject (GnbDuUeF1apId_codec L) (urt_gnb_du_ue_f1ap_id m) @
        ie 64 Reject (SrbId_codec L) (urt_srb_id m) @
        ie 50 Reject (RrcContainer_codec L) (urt_rrc_container m) @
        ie i crit (octetstring_codec L) xs) [] = Inr bs \<and>
      (\<forall>rest. decode_of (UlRrcMessageTransfer_codec L) (0, bs @ rest)
        = Inl (PerCodecError (''Unrecognised IE type '' @ show_int i) [''UlRrcMessageTransfer'']))"
proof -
  let ?arms = "[arm 40 (decode_of (GnbCuUeF1apId_codec L)) lv_gnb_cu_ue_f1ap_id_update,
    arm 41 (decode_of (GnbDuUeF1apId_codec L)) lv_gnb_du_ue_f1ap_id_update,
    arm 64 (decode_of (SrbId_codec L)) lv_srb_id_update,
    arm 50 (decode_of (RrcContainer_codec L)) lv_rrc_container_update,
    arm 224 (decode_of (PlmnIdentity_codec L)) lv_selected_plmn_id_update,
    arm 219 (decode_of (GnbDuUeF1apId_codec L)) lv_new_gnb_du_ue_f1ap_id_update]
    :: (int \<times> (ie_locals \<Rightarrow> ie_locals) decoder) list"
  let ?items = "ie 40 Reject (GnbCuUeF1apId_codec L) (urt_gnb_cu_ue_f1ap_id m) @
    ie 41 Reject (GnbDuUeF1apId_codec L) (urt_gnb_du_ue_f1ap_id m) @
    ie 64 Reject (SrbId_codec L) (urt_srb_id m) @ ie 50 Reject (RrcContainer_codec L) (urt_rrc_container m)"
  have c: "\<exists>k us. carried ?arms k ?items us \<and> k \<le> 4"
    by (rule exI, rule exI, rule conjI,
        (rule carried_append | (rule carried_ie, simp, (rule ie_carries;
           use assms(1) in \<open>simp add: wf_ul_rrc_message_transfer_def\<close>), simp, simp, simp))+) simp
  then obtain k us where c: "carried ?arms k ?items us" "k \<le> 4" by blast
  have nil: "carried ?arms 0 [] []" by (simp add: carried_def)
  have e: "codes 131064 (encode_of (octetstring_codec L) xs)
      (dec_bind (decode_of (octetstring_codec L)) (\<lambda>_. dec_return id)) (id :: ie_locals \<Rightarrow> ie_locals)"
    using carries_octetstring [OF assms(5)] by (auto simp: carries_def intro: codes_last)
  have none: "map_of ?arms i = None" using assms(4) by simp
  from container_unknown [OF c(1) nil _ assms(2,3) none e, of crit no_ies] c(2)
  obtain bs where bs: "encode_container L (?items @ ie i crit (octetstring_codec L) xs) [] = Inr bs"
    "\<forall>rest. decode_container L ?arms no_ies (0, bs @ rest) = Inl (unrecognised_ie i)"
    by (auto simp: ie_def)
  have "decode_of (UlRrcMessageTransfer_codec L) (0, bs @ rest)
      = Inl (PerCodecError (''Unrecognised IE type '' @ show_int i) [''UlRrcMessageTransfer''])" for rest
    using bs(2) by (simp add: UlRrcMessageTransfer_codec_def per_codec_impl_def UlRrcMessageTransfer_decode_inner_def
        dec_bind_def [where 'a = ie_locals] unrecognised_ie_def per_codec_error_new_def)
  with bs(1) show ?thesis by auto
qed

end

section \<open>Properties\<close>

definition read_back :: "per_lib \<Rightarrow> 'a per_codec \<Rightarrow> 'a \<Rightarrow> bool" where
  "read_back L C x \<longleftrightarrow>
     (\<exists>bs. serdes_into_bytes L C x = Inr bs \<and> serdes_from_bytes L C bs = Inr x)"

text \<open>
  C6. For every PER library that meets the contract, each well-formed message of the eleven is written to
  bytes, without an error, and read back from them unchanged, whatever optional elements it has.
\<close>

theorem f1ap_codec_roundtrip:
  assumes "aper_lib L"
  shows "(\<forall>m. wf_ue_context_release_request m \<longrightarrow> read_back L (UeContextReleaseRequest_codec L) m) \<and>
    (\<forall>m. wf_ue_context_release_command m \<longrightarrow> read_back L (UeContextReleaseCommand_codec L) m) \<and>
    (\<forall>m. wf_ue_context_release_complete m \<longrightarrow> read_back L (UeContextReleaseComplete_codec L) m) \<and>
    (\<forall>m. wf_initial_ul_rrc_message_transfer m \<longrightarrow> read_back L (InitialUlRrcMessageTransfer_codec L) m) \<and>
    (\<forall>m. wf_dl_rrc_message_transfer m \<longrightarrow> read_back L (DlRrcMessageTransfer_codec L) m) \<and>
    (\<forall>m. wf_ul_rrc_message_transfer m \<longrightarrow> read_back L (UlRrcMessageTransfer_codec L) m) \<and>
    (\<forall>m. read_back L (F1RemovalRequest_codec L) m) \<and>
    (\<forall>m. wf_f1_removal_response m \<longrightarrow> read_back L (F1RemovalResponse_codec L) m) \<and>
    (\<forall>m. wf_f1_removal_failure m \<longrightarrow> read_back L (F1RemovalFailure_codec L) m) \<and>
    (\<forall>m. wf_f1_setup_failure m \<longrightarrow> read_back L (F1SetupFailure_codec L) m) \<and>
    (\<forall>m. wf_ue_context_setup_failure m \<longrightarrow> read_back L (UeContextSetupFailure_codec L) m)"
  unfolding read_back_def
  using aper_lib.serdes_roundtrip [OF assms aper_lib.carries_UeContextReleaseRequest [OF assms]]
    aper_lib.serdes_roundtrip [OF assms aper_lib.carries_UeContextReleaseCommand [OF assms]]
    aper_lib.serdes_roundtrip [OF assms aper_lib.carries_UeContextReleaseComplete [OF assms]]
    aper_lib.serdes_roundtrip [OF assms aper_lib.carries_InitialUlRrcMessageTransfer [OF assms]]
    aper_lib.serdes_roundtrip [OF assms aper_lib.carries_DlRrcMessageTransfer [OF assms]]
    aper_lib.serdes_roundtrip [OF assms aper_lib.carries_UlRrcMessageTransfer [OF assms]]
    aper_lib.serdes_roundtrip [OF assms aper_lib.carries_F1RemovalRequest [OF assms]]
    aper_lib.serdes_roundtrip [OF assms aper_lib.carries_F1RemovalResponse [OF assms]]
    aper_lib.serdes_roundtrip [OF assms aper_lib.carries_F1RemovalFailure [OF assms]]
    aper_lib.serdes_roundtrip [OF assms aper_lib.carries_F1SetupFailure [OF assms]]
    aper_lib.serdes_roundtrip [OF assms aper_lib.carries_UeContextSetupFailure [OF assms]]
  by (intro conjI allI impI) assumption+

text \<open>
  C28. An uplink RRC message that also has an information element of a later release is refused, whatever
  the criticality of that element, \<open>Ignore\<close> included: the error names its id.
\<close>

theorem unknown_ie_rejected:
  assumes "aper_lib L" "wf_ul_rrc_message_transfer m"
    and "0 \<le> i" "i \<le> 65535" "i \<notin> {40, 41, 64, 50, 224, 219}" "wf_container xs"
  shows "\<exists>bs. encode_container L
       (ie 40 Reject (GnbCuUeF1apId_codec L) (urt_gnb_cu_ue_f1ap_id m) @
        ie 41 Reject (GnbDuUeF1apId_codec L) (urt_gnb_du_ue_f1ap_id m) @
        ie 64 Reject (SrbId_codec L) (urt_srb_id m) @
        ie 50 Reject (RrcContainer_codec L) (urt_rrc_container m) @
        ie i crit (octetstring_codec L) xs) [] = Inr bs \<and>
      serdes_from_bytes L (UlRrcMessageTransfer_codec L) (data_into_bytes L bs)
        = Inl (PerCodecError (''Unrecognised IE type '' @ show_int i) [''UlRrcMessageTransfer''])"
proof -
  obtain bs where bs: "encode_container L
       (ie 40 Reject (GnbCuUeF1apId_codec L) (urt_gnb_cu_ue_f1ap_id m) @
        ie 41 Reject (GnbDuUeF1apId_codec L) (urt_gnb_du_ue_f1ap_id m) @
        ie 64 Reject (SrbId_codec L) (urt_srb_id m) @
        ie 50 Reject (RrcContainer_codec L) (urt_rrc_container m) @
        ie i crit (octetstring_codec L) xs) [] = Inr bs"
    "\<forall>rest. decode_of (UlRrcMessageTransfer_codec L) (0, bs @ rest)
        = Inl (PerCodecError (''Unrecognised IE type '' @ show_int i) [''UlRrcMessageTransfer''])"
    using aper_lib.ul_unknown_ie [OF assms, of crit] by blast
  obtain p where "data_from_slice L (data_into_bytes L bs) = (0, bs @ p)"
    using aper_lib.slice_law [OF assms(1)] by blast
  with bs show ?thesis by (simp add: serdes_from_bytes_def)
qed

section \<open>Concrete messages\<close>

text \<open>The octets of an F1 REMOVAL REQUEST as they are on the wire.\<close>

lemma f1_removal_request_octets:
  "serdes_into_bytes aper_ref (F1RemovalRequest_codec aper_ref) \<lparr>frr_transaction_id = 9\<rparr>
     = Inr [0, 0, 1, 0, 78, 0, 2, 0, 9]"
  by (simp add: serdes_into_bytes_def F1RemovalRequest_codec_def [THEN encode_by] F1RemovalRequest_encode_inner_def
      TransactionId_codec_def [THEN encode_by] container_eval aper_ref_eval del: list.size(4) cong: eval_cong)

definition example_target :: nr_cgi where
  "example_target = \<lparr>plmn_identity = [0, 0xf1, 0x10], nr_cell_identity = replicate 36 True\<rparr>"

definition example_diagnostics :: criticality_diagnostics where
  "example_diagnostics =
     \<lparr>cd_procedure_code = Some 6, cd_triggering_message = None, cd_procedure_criticality = Some Notify,
      cd_transaction_id = None,
      cd_ies = Some [\<lparr>ie_criticality = Reject, ie_id = 375, ie_type_of_error = NotUnderstood\<rparr>]\<rparr>"

definition example_dl :: dl_rrc_message_transfer where
  "example_dl =
     \<lparr>drt_gnb_cu_ue_f1ap_id = 7, drt_gnb_du_ue_f1ap_id = 8, drt_old_gnb_du_ue_f1ap_id = Some 9,
      drt_srb_id = 1, drt_execute_duplication = Some ExecuteDuplicationTrue, drt_rrc_container = [1, 2, 3],
      drt_rat_frequency_priority_information = Some (Ngran 256), drt_rrc_delivery_status_request = None,
      drt_ue_context_not_retrievable = Some UeContextNotRetrievableTrue,
      drt_redirected_rrc_message = Some [4], drt_plmn_assistance_info_for_net_shar = Some [0, 0xf1, 0x10],
      drt_new_gnb_cu_ue_f1ap_id = None, drt_additional_rrm_priority_index = Some (replicate 32 False)\<rparr>"

definition example_ul :: ul_rrc_message_transfer where
  "example_ul =
     \<lparr>urt_gnb_cu_ue_f1ap_id = 7, urt_gnb_du_ue_f1ap_id = 8, urt_srb_id = 1, urt_rrc_container = [5, 6],
      urt_selected_plmn_id = Some [0, 0xf1, 0x10], urt_new_gnb_du_ue_f1ap_id = Some 10\<rparr>"

definition example_release :: ue_context_release_command where
  "example_release =
     \<lparr>crc_gnb_cu_ue_f1ap_id = 7, crc_gnb_du_ue_f1ap_id = 8, crc_cause = CauseRadioNetwork NormalRelease,
      crc_rrc_container = Some [], crc_srb_id = Some 1, crc_old_gnb_du_ue_f1ap_id = None,
      crc_execute_duplication = None, crc_rrc_delivery_status_request = Some RrcDeliveryStatusRequestTrue,
      crc_target_cells_to_cancel = Some [example_target, example_target]\<rparr>"

definition example_complete :: ue_context_release_complete where
  "example_complete =
     \<lparr>crp_gnb_cu_ue_f1ap_id = 7, crp_gnb_du_ue_f1ap_id = 8,
      crp_criticality_diagnostics = Some example_diagnostics\<rparr>"

lemmas example_simps =
  example_dl_def example_ul_def example_release_def example_complete_def example_target_def
  example_diagnostics_def wf_container_def wf_nr_cgi_def wf_target_cells_def wf_criticality_diagnostics_def
  wf_rat_frequency_priority_def

theorem f1ap_codec_roundtrip_witness:
  "wf_dl_rrc_message_transfer example_dl \<and> read_back aper_ref (DlRrcMessageTransfer_codec aper_ref) example_dl \<and>
   wf_ul_rrc_message_transfer example_ul \<and> read_back aper_ref (UlRrcMessageTransfer_codec aper_ref) example_ul \<and>
   wf_ue_context_release_command example_release \<and>
   read_back aper_ref (UeContextReleaseCommand_codec aper_ref) example_release \<and>
   wf_ue_context_release_complete example_complete \<and>
   read_back aper_ref (UeContextReleaseComplete_codec aper_ref) example_complete \<and>
   read_back aper_ref (F1RemovalRequest_codec aper_ref) \<lparr>frr_transaction_id = 9\<rparr>"
proof -
  have wf: "wf_dl_rrc_message_transfer example_dl" "wf_ul_rrc_message_transfer example_ul"
    "wf_ue_context_release_command example_release" "wf_ue_context_release_complete example_complete"
    by (simp_all add: example_simps wf_dl_rrc_message_transfer_def wf_ul_rrc_message_transfer_def
        wf_ue_context_release_command_def wf_ue_context_release_complete_def)
  with f1ap_codec_roundtrip [OF aper_ref.aper_lib_axioms] show ?thesis by blast
qed

theorem unknown_ie_rejected_witness:
  "\<exists>bs. encode_container aper_ref
       (ie 40 Reject (GnbCuUeF1apId_codec aper_ref) 7 @ ie 41 Reject (GnbDuUeF1apId_codec aper_ref) 8 @
        ie 64 Reject (SrbId_codec aper_ref) 1 @ ie 50 Reject (RrcContainer_codec aper_ref) [5, 6] @
        ie 500 Ignore (octetstring_codec aper_ref) [1]) [] = Inr bs \<and>
      serdes_from_bytes aper_ref (UlRrcMessageTransfer_codec aper_ref) (data_into_bytes aper_ref bs)
        = Inl (PerCodecError (''Unrecognised IE type 500'') [''UlRrcMessageTransfer''])"
proof -
  have wf: "wf_ul_rrc_message_transfer example_ul" "wf_container [1]"
    by (simp_all add: example_simps wf_ul_rrc_message_transfer_def)
  have "show_int 500 = ''500''" by code_simp
  then show ?thesis
    using unknown_ie_rejected [OF aper_ref.aper_lib_axioms wf(1) _ _ _ wf(2), of 500 Ignore]
    by (simp add: example_ul_def)
qed

end
