(* ===== verification/Xxap_Ies.thy ===== *)
theory Xxap_Ies
  imports F1ap_Shapes Addresses
begin

text \<open>
  The information elements that F1AP shares with the other protocols of the family
  (\<open>5g-libs/xxap/src/ies.rs\<close>), over the types of \<open>Addresses\<close>, and the elements of the RRC transfer messages
  in the form in which the larger messages use them.
\<close>

section \<open>Codecs\<close>

definition TransportLayerAddress_codec :: "per_lib \<Rightarrow> transport_layer_address per_codec" where
  "TransportLayerAddress_codec L =
     per_codec_impl ''TransportLayerAddress''
       (dec_bind (decode_bitstring L (Some 1) (Some 160) True) (\<lambda>v. dec_return (TransportLayerAddress v)))
       (\<lambda>x. encode_bitstring L (Some 1) (Some 160) True (tla_bits x) False)"

text \<open>\<open>try_into().unwrap()\<close> to an array of four octets.\<close>

definition arr4_of_octets :: "bytes \<Rightarrow> arr4 decoder" where
  "arr4_of_octets v = (case v of [b0, b1, b2, b3] \<Rightarrow> dec_return (Arr4 b0 b1 b2 b3) | _ \<Rightarrow> dec_fail PerPanic)"

definition GtpTeid_codec :: "per_lib \<Rightarrow> gtp_teid per_codec" where
  "GtpTeid_codec L =
     per_codec_impl ''GtpTeid''
       (dec_bind (decode_octetstring L (Some 4) (Some 4) False) (\<lambda>v.
        dec_bind (arr4_of_octets v) (\<lambda>a. dec_return (GtpTeid a))))
       (\<lambda>x. encode_octetstring L (Some 4) (Some 4) False (arr4_list (teid_bytes x)) False)"

definition GtpTunnel_codec :: "per_lib \<Rightarrow> gtp_tunnel per_codec" where
  "GtpTunnel_codec L =
     per_codec_impl ''GtpTunnel''
       (dec_bind (decode_sequence_header L True 1) (\<lambda>(optionals, _).
        dec_bind (decode_of (TransportLayerAddress_codec L)) (\<lambda>address.
        dec_bind (decode_of (GtpTeid_codec L)) (\<lambda>teid.
        dec_bind (decode_extension_container L optionals 0) (\<lambda>_.
        dec_return \<lparr>transport_layer_address = address, gtp_teid = teid\<rparr>)))))
       (\<lambda>x. enc_seq (encode_sequence_header L True [False] False)
             (enc_seq (encode_of (TransportLayerAddress_codec L) (transport_layer_address x))
             (enc_seq (encode_of (GtpTeid_codec L) (gtp_teid x))
             enc_skip)))"

definition PduSessionId_codec :: "per_lib \<Rightarrow> u8 per_codec" where
  "PduSessionId_codec L = named ''PduSessionId'' (integer_codec L 0 255 False)"

section \<open>Well-formed values\<close>

definition wf_tla :: "transport_layer_address \<Rightarrow> bool" where
  "wf_tla x \<longleftrightarrow> length_between 1 160 (tla_bits x)"

definition wf_gtp_tunnel :: "gtp_tunnel \<Rightarrow> bool" where
  "wf_gtp_tunnel x \<longleftrightarrow> wf_tla (transport_layer_address x)"

section \<open>Soundness\<close>

lemma encodable_impl:
  assumes "codes n (enc x) dec x" "n \<le> 131064"
  shows "encodable (per_codec_impl name dec enc) x"
  by (rule encodable_carries [OF _ assms(2)], rule carries_impl) (rule assms(1))

context aper_setup
begin

lemma TransportLayerAddress_encodable [encodable_simps]: "wf_tla x \<Longrightarrow> encodable (TransportLayerAddress_codec L) x"
  unfolding TransportLayerAddress_codec_def
  by (rule encodable_impl [where n = "length (tla_bits x) + 24"], rule codes_last, rule bits_law)
    (simp_all add: wf_tla_def length_between_def)

lemma GtpTeid_encodable [encodable_simps]: "encodable (GtpTeid_codec L) x"
proof -
  have "arr4_of_octets (arr4_list a) = dec_return a" for a by (cases a) (simp add: arr4_of_octets_def)
  then show ?thesis
    unfolding GtpTeid_codec_def
    by (intro encodable_impl [where n = "8 * 4 + 8"] codes_last [OF octets_law]) simp_all
qed

lemma GtpTunnel_encodable [encodable_simps]: "wf_gtp_tunnel x \<Longrightarrow> encodable (GtpTunnel_codec L) x"
proof -
  assume "wf_gtp_tunnel x"
  then have "length (tla_bits (transport_layer_address x)) \<le> 160" "1 \<le> length (tla_bits (transport_layer_address x))"
    by (simp_all add: wf_gtp_tunnel_def wf_tla_def length_between_def)
  then have 1: "carries (TransportLayerAddress_codec L) 184 (transport_layer_address x)"
    unfolding TransportLayerAddress_codec_def
    by (intro carries_impl codes_mono [OF codes_last [OF bits_law]]) simp_all
  have "arr4_of_octets (arr4_list a) = dec_return a" for a by (cases a) (simp add: arr4_of_octets_def)
  then have 2: "carries (GtpTeid_codec L) 40 (gtp_teid x)"
    unfolding GtpTeid_codec_def by (intro carries_impl codes_mono [OF codes_last [OF octets_law]]) simp_all
  have 3: "codes 0 enc_skip (dec_bind (decode_extension_container L [False] 0)
      (\<lambda>_. dec_return \<lparr>transport_layer_address = transport_layer_address x, gtp_teid = gtp_teid x\<rparr>)) x"
    by (cases x) (simp add: codes_skip)
  show "encodable (GtpTunnel_codec L) x"
    unfolding GtpTunnel_codec_def
    by (rule encodable_impl, rule codes_header, simp, simp only: prod.case, rule codes_field [OF 1],
        rule codes_field [OF 2], rule 3) simp
qed

lemma PduSessionId_encodable [encodable_simps]: "encodable (PduSessionId_codec L) x"
  by (simp add: PduSessionId_codec_def encodable_simps)

lemmas xxap_sound [sound_simps] =
  TransportLayerAddress_encodable [THEN encodable_sound] GtpTeid_encodable [THEN encodable_sound]
  GtpTunnel_encodable [THEN encodable_sound] PduSessionId_encodable [THEN encodable_sound]

text \<open>The elements of the RRC transfer and release messages.\<close>

lemma transfer_elements_encodable [encodable_simps]:
  "encodable (Criticality_codec L) c"
  "encodable (TransactionId_codec L) i8"
  "encodable (GnbCuUeF1apId_codec L) i32"
  "encodable (GnbDuUeF1apId_codec L) i32"
  "encodable (CRnti_codec L) i16"
  "encodable (Cause_codec L) cause"
  "encodable (ExecuteDuplication_codec L) ed"
  "encodable (RrcDeliveryStatusRequest_codec L) ds"
  "wf_container bs \<Longrightarrow> encodable (RrcContainer_codec L) bs"
  "wf_container bs \<Longrightarrow> encodable (DuToCuRrcContainer_codec L) bs"
  "wf_nr_cgi cgi \<Longrightarrow> encodable (NrCgi_codec L) cgi"
  "wf_criticality_diagnostics cd \<Longrightarrow> encodable (CriticalityDiagnostics_codec L) cd"
  "wf_rat_frequency_priority rf \<Longrightarrow> encodable (RatFrequencyPriorityInformation_codec L) rf"
  "wf_target_cells cells \<Longrightarrow> encodable (TargetCellList_codec L) cells"
  by (rule encodable_carries, rule ie_carries, simp_all)+

lemma sized_elements_encodable [encodable_simps]:
  "has_length 3 plmn \<Longrightarrow> encodable (PlmnIdentity_codec L) plmn"
  "has_length 36 cell \<Longrightarrow> encodable (NrCellIdentity_codec L) cell"
  "has_length 8 ue \<Longrightarrow> encodable (RanUeId_codec L) ue"
  "has_length 32 arp \<Longrightarrow> encodable (AdditionalRrmPriorityIndex_codec L) arp"
  by (rule encodable_carries, rule ie_carries, simp_all add: has_length_def)+

lemma ranged_elements_encodable [encodable_simps]:
  "in_range 0 3 srb \<Longrightarrow> encodable (SrbId_codec L) srb"
  "in_range 1 256 profile \<Longrightarrow> encodable (SubscriberProfileIDforRfp_codec L) profile"
  by (rule encodable_carries, rule ie_carries, simp_all add: in_range_def word_le_def)+

lemmas transfer_elements_sound [sound_simps] =
  transfer_elements_encodable [THEN encodable_sound] sized_elements_encodable [THEN encodable_sound]
  ranged_elements_encodable [THEN encodable_sound]

end

end
