(* ===== verification/F1ap_Common_Ies.thy ===== *)
theory F1ap_Common_Ies
  imports F1ap_Common_Types Xxap_Ies
begin

text \<open>
  The aligned PER codecs of the information elements common to the setup and the context messages
  (\<open>5g-libs/f1ap/src/ies.rs\<close>), their well-formed values, and that every well-formed value is read
  back from its encoding.  Where a value is written behind its length as an element, it has to fit: \<open>open_ok\<close>
  and \<open>fits\<close> bound its encoding by 16383 octets.
\<close>

section \<open>Codecs\<close>

definition Snssai_codec :: "per_lib \<Rightarrow> f1ap_snssai per_codec" where
  "Snssai_codec L =
     per_codec_impl ''Snssai''
       (dec_bind (decode_sequence_header L False 2) (\<lambda>(optionals, _).
        dec_bind (decode_of (array_codec L 1)) (\<lambda>sst.
        dec_bind (decode_optional optionals 0 (decode_of (array_codec L 3))) (\<lambda>sd.
        dec_bind (decode_extension_container L optionals 1) (\<lambda>_.
        dec_return
          \<lparr>f1ap_snssai_sst = sst, f1ap_snssai_sd = sd\<rparr>)))))
       (\<lambda>x. enc_seq (encode_sequence_header L False [f1ap_snssai_sd x \<noteq> None, False] False)
             (enc_seq (encode_of (array_codec L 1) (f1ap_snssai_sst x))
             (enc_seq (encode_optional (encode_of (array_codec L 3)) (f1ap_snssai_sd x))
             enc_skip)))"

definition Nid_codec :: "per_lib \<Rightarrow> nid per_codec" where
  "Nid_codec L = named ''Nid'' (bitstring_codec L 44)"

definition BapAddress_codec :: "per_lib \<Rightarrow> bap_address per_codec" where
  "BapAddress_codec L = named ''BapAddress'' (bitstring_codec L 10)"

definition BapPathId_codec :: "per_lib \<Rightarrow> bap_path_id per_codec" where
  "BapPathId_codec L = named ''BapPathId'' (bitstring_codec L 10)"

definition BapRoutingId_codec :: "per_lib \<Rightarrow> bap_routing_id per_codec" where
  "BapRoutingId_codec L =
     per_codec_impl ''BapRoutingId''
       (dec_bind (decode_sequence_header L False 1) (\<lambda>(optionals, _).
        dec_bind (decode_of (BapAddress_codec L)) (\<lambda>bap_address.
        dec_bind (decode_of (BapPathId_codec L)) (\<lambda>bap_path_id.
        dec_bind (decode_extension_container L optionals 0) (\<lambda>_.
        dec_return
          \<lparr>bap_routing_id_bap_address = bap_address, bap_routing_id_bap_path_id = bap_path_id\<rparr>)))))
       (\<lambda>x. enc_seq (encode_sequence_header L False [False] False)
             (enc_seq (encode_of (BapAddress_codec L) (bap_routing_id_bap_address x))
             (enc_seq (encode_of (BapPathId_codec L) (bap_routing_id_bap_path_id x))
             enc_skip)))"

definition BhrlcChannelId_codec :: "per_lib \<Rightarrow> bhrlc_channel_id per_codec" where
  "BhrlcChannelId_codec L = named ''BhrlcChannelId'' (bitstring_codec L 16)"

definition EgressBhrlcchItem_codec :: "per_lib \<Rightarrow> egress_bhrlcch_item per_codec" where
  "EgressBhrlcchItem_codec L =
     per_codec_impl ''EgressBhrlcchItem''
       (dec_bind (decode_sequence_header L False 1) (\<lambda>(optionals, _).
        dec_bind (decode_of (BapAddress_codec L)) (\<lambda>next_hop_bap_address.
        dec_bind (decode_of (BhrlcChannelId_codec L)) (\<lambda>bhrlc_channel_id.
        dec_bind (decode_extension_container L optionals 0) (\<lambda>_.
        dec_return
          \<lparr>egress_bhrlcch_item_next_hop_bap_address = next_hop_bap_address,
           egress_bhrlcch_item_bhrlc_channel_id = bhrlc_channel_id\<rparr>)))))
       (\<lambda>x. enc_seq (encode_sequence_header L False [False] False)
             (enc_seq (encode_of (BapAddress_codec L) (egress_bhrlcch_item_next_hop_bap_address x))
             (enc_seq (encode_of (BhrlcChannelId_codec L) (egress_bhrlcch_item_bhrlc_channel_id x))
             enc_skip)))"

definition EgressBhrlcchList_codec :: "per_lib \<Rightarrow> egress_bhrlcch_list per_codec" where
  "EgressBhrlcchList_codec L = named ''EgressBhrlcchList'' (non_empty (vec_codec L 1 2 (EgressBhrlcchItem_codec L)))"

definition BhInfo_codec :: "per_lib \<Rightarrow> bh_info per_codec" where
  "BhInfo_codec L =
     per_codec_impl ''BhInfo''
       (dec_bind (decode_sequence_header L False 3) (\<lambda>(optionals, _).
        dec_bind (decode_optional optionals 0 (decode_of (BapRoutingId_codec L))) (\<lambda>ba_prouting_id.
        dec_bind (decode_optional optionals 1 (decode_of (EgressBhrlcchList_codec L))) (\<lambda>egress_bhrlcch_list.
        dec_bind (decode_extension_container L optionals 2) (\<lambda>_.
        dec_return
          \<lparr>bh_info_ba_prouting_id = ba_prouting_id,
           bh_info_egress_bhrlcch_list = egress_bhrlcch_list\<rparr>)))))
       (\<lambda>x. enc_seq (encode_sequence_header L False [bh_info_ba_prouting_id x \<noteq> None, bh_info_egress_bhrlcch_list x \<noteq> None, False] False)
             (enc_seq (encode_optional (encode_of (BapRoutingId_codec L)) (bh_info_ba_prouting_id x))
             (enc_seq (encode_optional (encode_of (EgressBhrlcchList_codec L)) (bh_info_egress_bhrlcch_list x))
             enc_skip)))"

section \<open>Well-formed values\<close>

definition wf_f1ap_snssai :: "f1ap_snssai \<Rightarrow> bool" where
  "wf_f1ap_snssai x \<longleftrightarrow>
     has_length 1 (f1ap_snssai_sst x) \<and>
     pred_option (has_length 3) (f1ap_snssai_sd x)"

definition wf_nid :: "nid \<Rightarrow> bool" where
  "wf_nid x \<longleftrightarrow>
     has_length 44 x"

definition wf_bap_address :: "bap_address \<Rightarrow> bool" where
  "wf_bap_address x \<longleftrightarrow>
     has_length 10 x"

definition wf_bap_path_id :: "bap_path_id \<Rightarrow> bool" where
  "wf_bap_path_id x \<longleftrightarrow>
     has_length 10 x"

definition wf_bap_routing_id :: "bap_routing_id \<Rightarrow> bool" where
  "wf_bap_routing_id x \<longleftrightarrow>
     wf_bap_address (bap_routing_id_bap_address x) \<and>
     wf_bap_path_id (bap_routing_id_bap_path_id x)"

definition wf_bhrlc_channel_id :: "bhrlc_channel_id \<Rightarrow> bool" where
  "wf_bhrlc_channel_id x \<longleftrightarrow>
     has_length 16 x"

definition wf_egress_bhrlcch_item :: "egress_bhrlcch_item \<Rightarrow> bool" where
  "wf_egress_bhrlcch_item x \<longleftrightarrow>
     wf_bap_address (egress_bhrlcch_item_next_hop_bap_address x) \<and>
     wf_bhrlc_channel_id (egress_bhrlcch_item_bhrlc_channel_id x)"

definition wf_egress_bhrlcch_list :: "egress_bhrlcch_list \<Rightarrow> bool" where
  "wf_egress_bhrlcch_list x \<longleftrightarrow>
     wf_list 1 2 wf_egress_bhrlcch_item x"

definition wf_bh_info :: "bh_info \<Rightarrow> bool" where
  "wf_bh_info x \<longleftrightarrow>
     pred_option wf_bap_routing_id (bh_info_ba_prouting_id x) \<and>
     pred_option wf_egress_bhrlcch_list (bh_info_egress_bhrlcch_list x)"

section \<open>Soundness\<close>

context aper_setup
begin

lemma Snssai_sound [sound_simps]: "wf_f1ap_snssai x \<Longrightarrow> sound (Snssai_codec L) x"
  unfolding Snssai_codec_def wf_f1ap_snssai_def
  by (rule sound_impl, intro coded_header coded_field coded_optional_field coded_no_extensions)
    (simp_all add: wf_simps sound_simps encodable_simps)

lemma Nid_encodable [encodable_simps]: "wf_nid x \<Longrightarrow> encodable (Nid_codec L) x"
  by (simp add: Nid_codec_def wf_nid_def encodable_simps)

lemmas Nid_sound [sound_simps] = Nid_encodable [THEN encodable_sound]

lemma BapAddress_encodable [encodable_simps]: "wf_bap_address x \<Longrightarrow> encodable (BapAddress_codec L) x"
  by (simp add: BapAddress_codec_def wf_bap_address_def encodable_simps)

lemmas BapAddress_sound [sound_simps] = BapAddress_encodable [THEN encodable_sound]

lemma BapPathId_encodable [encodable_simps]: "wf_bap_path_id x \<Longrightarrow> encodable (BapPathId_codec L) x"
  by (simp add: BapPathId_codec_def wf_bap_path_id_def encodable_simps)

lemmas BapPathId_sound [sound_simps] = BapPathId_encodable [THEN encodable_sound]

lemma BapRoutingId_sound [sound_simps]: "wf_bap_routing_id x \<Longrightarrow> sound (BapRoutingId_codec L) x"
  unfolding BapRoutingId_codec_def wf_bap_routing_id_def
  by (rule sound_impl, intro coded_header coded_field coded_optional_field coded_no_extensions)
    (simp_all add: wf_simps sound_simps encodable_simps)

lemma BhrlcChannelId_encodable [encodable_simps]: "wf_bhrlc_channel_id x \<Longrightarrow> encodable (BhrlcChannelId_codec L) x"
  by (simp add: BhrlcChannelId_codec_def wf_bhrlc_channel_id_def encodable_simps)

lemmas BhrlcChannelId_sound [sound_simps] = BhrlcChannelId_encodable [THEN encodable_sound]

lemma EgressBhrlcchItem_sound [sound_simps]: "wf_egress_bhrlcch_item x \<Longrightarrow> sound (EgressBhrlcchItem_codec L) x"
  unfolding EgressBhrlcchItem_codec_def wf_egress_bhrlcch_item_def
  by (rule sound_impl, intro coded_header coded_field coded_optional_field coded_no_extensions)
    (simp_all add: wf_simps sound_simps encodable_simps)

lemma EgressBhrlcchList_sound [sound_simps]: "wf_egress_bhrlcch_list x \<Longrightarrow> sound (EgressBhrlcchList_codec L) x"
  unfolding EgressBhrlcchList_codec_def wf_egress_bhrlcch_list_def by (rule sound_named) (simp add: wf_simps sound_simps encodable_simps)

lemma BhInfo_sound [sound_simps]: "wf_bh_info x \<Longrightarrow> sound (BhInfo_codec L) x"
  unfolding BhInfo_codec_def wf_bh_info_def
  by (rule sound_impl, intro coded_header coded_field coded_optional_field coded_no_extensions)
    (simp_all add: wf_simps sound_simps encodable_simps)

lemma BhInfo_encodable [encodable_simps]: "open_ok wf_bh_info (BhInfo_codec L) x \<Longrightarrow> encodable (BhInfo_codec L) x"
  by (simp add: open_ok_def encodable_def BhInfo_sound)

end

end
