(* ===== verification/F1ap_Setup_Ies.thy ===== *)
theory F1ap_Setup_Ies
  imports F1ap_Common_Ies F1ap_Setup_Types
begin

text \<open>
  The aligned PER codecs of the information elements of the setup and configuration messages
  (\<open>5g-libs/f1ap/src/ies.rs\<close>), their well-formed values, and that every well-formed value is read
  back from its encoding.  Where a value is written behind its length as an element, it has to fit: \<open>open_ok\<close>
  and \<open>fits\<close> bound its encoding by 16383 octets.
\<close>

section \<open>Codecs\<close>

definition GnbDuId_codec :: "per_lib \<Rightarrow> gnb_du_id per_codec" where
  "GnbDuId_codec L = named ''GnbDuId'' (integer_codec L 0 68719476735 False)"

definition GnbDuName_codec :: "per_lib \<Rightarrow> gnb_du_name per_codec" where
  "GnbDuName_codec L = named ''GnbDuName'' (printable_codec L 1 150 True)"

definition NrPci_codec :: "per_lib \<Rightarrow> nr_pci per_codec" where
  "NrPci_codec L = named ''NrPci'' (integer_codec L 0 1007 False)"

definition FiveGsTac_codec :: "per_lib \<Rightarrow> five_gs_tac per_codec" where
  "FiveGsTac_codec L = named ''FiveGsTac'' (array_codec L 3)"

definition ConfiguredEpsTac_codec :: "per_lib \<Rightarrow> configured_eps_tac per_codec" where
  "ConfiguredEpsTac_codec L = named ''ConfiguredEpsTac'' (array_codec L 2)"

definition SliceSupportItem_codec :: "per_lib \<Rightarrow> slice_support_item per_codec" where
  "SliceSupportItem_codec L =
     per_codec_impl ''SliceSupportItem''
       (dec_bind (decode_sequence_header L False 1) (\<lambda>(optionals, _).
        dec_bind (decode_of (Snssai_codec L)) (\<lambda>snssai.
        dec_bind (decode_extension_container L optionals 0) (\<lambda>_.
        dec_return
          \<lparr>slice_support_item_snssai = snssai\<rparr>))))
       (\<lambda>x. enc_seq (encode_sequence_header L False [False] False)
             (enc_seq (encode_of (Snssai_codec L) (slice_support_item_snssai x))
             enc_skip))"

definition SliceSupportList_codec :: "per_lib \<Rightarrow> slice_support_list per_codec" where
  "SliceSupportList_codec L = named ''SliceSupportList'' (non_empty (vec_codec L 1 1024 (SliceSupportItem_codec L)))"

definition NpnSupportInfo_codec :: "per_lib \<Rightarrow> npn_support_info per_codec" where
  "NpnSupportInfo_codec L =
     per_codec_impl ''NpnSupportInfo''
       (dec_bind (decode_choice_idx L 0 1 False) (\<lambda>(idx, extended).
        if extended then dec_fail (per_codec_error_new ''CHOICE additions not implemented'')
        else if idx = 0 then dec_bind (decode_of (Nid_codec L)) (\<lambda>x. dec_return (NpnSupportInfoSnpnInformation x))
        else if idx = 1 then decode_choice_extension L
        else dec_fail (per_codec_error_new ''Unknown choice idx'')))
       (\<lambda>x. case x of
          NpnSupportInfoSnpnInformation y \<Rightarrow> enc_seq (encode_choice_idx L 0 1 False 0 False) (encode_of (Nid_codec L) y))"

definition ExtendedSliceSupportList_codec :: "per_lib \<Rightarrow> extended_slice_support_list per_codec" where
  "ExtendedSliceSupportList_codec L = named ''ExtendedSliceSupportList'' (non_empty (vec_codec L 1 65535 (SliceSupportItem_codec L)))"

definition ServedPlmnsItem_codec :: "per_lib \<Rightarrow> served_plmns_item per_codec" where
  "ServedPlmnsItem_codec L =
     per_codec_impl ''ServedPlmnsItem''
       (dec_bind (decode_sequence_header L True 1) (\<lambda>(optionals, _).
        dec_bind (decode_of (PlmnIdentity_codec L)) (\<lambda>plmn_identity.
        decode_extensions L optionals 0
          [arm 131 (decode_of (SliceSupportList_codec L)) served_plmns_item_tai_slice_support_list_update,
           arm 384 (decode_of (NpnSupportInfo_codec L)) served_plmns_item_npn_support_info_update,
           arm 390 (decode_of (ExtendedSliceSupportList_codec L)) served_plmns_item_extended_tai_slice_support_list_update]
          \<lparr>served_plmns_item_plmn_identity = plmn_identity,
           served_plmns_item_tai_slice_support_list = None,
           served_plmns_item_npn_support_info = None,
           served_plmns_item_extended_tai_slice_support_list = None\<rparr>)))
       (\<lambda>x. with_extensions L
               (opt_ie 131 Ignore (SliceSupportList_codec L) (served_plmns_item_tai_slice_support_list x) @
                opt_ie 384 Reject (NpnSupportInfo_codec L) (served_plmns_item_npn_support_info x) @
                opt_ie 390 Reject (ExtendedSliceSupportList_codec L) (served_plmns_item_extended_tai_slice_support_list x)) (\<lambda>num_ies ies.
               enc_seq (encode_sequence_header L True [num_ies \<noteq> 0] False)
               (enc_seq (encode_of (PlmnIdentity_codec L) (served_plmns_item_plmn_identity x))
               (encode_extensions L num_ies ies))))"

definition ServedPlmnsList_codec :: "per_lib \<Rightarrow> served_plmns_list per_codec" where
  "ServedPlmnsList_codec L = named ''ServedPlmnsList'' (non_empty (vec_codec L 1 6 (ServedPlmnsItem_codec L)))"

definition NrScs_codec :: "per_lib \<Rightarrow> nr_scs per_codec" where
  "NrScs_codec L =
     enum_impl L ''NrScs''
       [NrScsScs15, NrScsScs30, NrScsScs60, NrScsScs120] 3 True"

definition NrNrB_codec :: "per_lib \<Rightarrow> nr_nr_b per_codec" where
  "NrNrB_codec L =
     enum_impl L ''NrNrB''
       [NrNrBNrb11, NrNrBNrb18, NrNrBNrb24, NrNrBNrb25, NrNrBNrb31, NrNrBNrb32, NrNrBNrb38,
        NrNrBNrb51, NrNrBNrb52, NrNrBNrb65, NrNrBNrb66, NrNrBNrb78, NrNrBNrb79, NrNrBNrb93,
        NrNrBNrb106, NrNrBNrb107, NrNrBNrb121, NrNrBNrb132, NrNrBNrb133, NrNrBNrb135, NrNrBNrb160,
        NrNrBNrb162, NrNrBNrb189, NrNrBNrb216, NrNrBNrb217, NrNrBNrb245, NrNrBNrb264, NrNrBNrb270,
        NrNrBNrb273] 28 True"

definition TransmissionBandwidth_codec :: "per_lib \<Rightarrow> transmission_bandwidth per_codec" where
  "TransmissionBandwidth_codec L =
     per_codec_impl ''TransmissionBandwidth''
       (dec_bind (decode_sequence_header L True 1) (\<lambda>(optionals, _).
        dec_bind (decode_of (NrScs_codec L)) (\<lambda>nr_scs.
        dec_bind (decode_of (NrNrB_codec L)) (\<lambda>nr_nr_b.
        dec_bind (decode_extension_container L optionals 0) (\<lambda>_.
        dec_return
          \<lparr>transmission_bandwidth_nr_scs = nr_scs, transmission_bandwidth_nr_nr_b = nr_nr_b\<rparr>)))))
       (\<lambda>x. enc_seq (encode_sequence_header L True [False] False)
             (enc_seq (encode_of (NrScs_codec L) (transmission_bandwidth_nr_scs x))
             (enc_seq (encode_of (NrNrB_codec L) (transmission_bandwidth_nr_nr_b x))
             enc_skip)))"

definition NrCarrierItem_codec :: "per_lib \<Rightarrow> nr_carrier_item per_codec" where
  "NrCarrierItem_codec L =
     per_codec_impl ''NrCarrierItem''
       (dec_bind (decode_sequence_header L True 1) (\<lambda>(optionals, _).
        dec_bind (decode_of (NrScs_codec L)) (\<lambda>carrier_scs.
        dec_bind (decode_of (integer_codec L 0 2199 True)) (\<lambda>offset_to_carrier.
        dec_bind (decode_of (integer_codec L 0 275 True)) (\<lambda>carrier_bandwidth.
        dec_bind (decode_extension_container L optionals 0) (\<lambda>_.
        dec_return
          \<lparr>nr_carrier_item_carrier_scs = carrier_scs,
           nr_carrier_item_offset_to_carrier = offset_to_carrier,
           nr_carrier_item_carrier_bandwidth = carrier_bandwidth\<rparr>))))))
       (\<lambda>x. enc_seq (encode_sequence_header L True [False] False)
             (enc_seq (encode_of (NrScs_codec L) (nr_carrier_item_carrier_scs x))
             (enc_seq (encode_of (integer_codec L 0 2199 True) (nr_carrier_item_offset_to_carrier x))
             (enc_seq (encode_of (integer_codec L 0 275 True) (nr_carrier_item_carrier_bandwidth x))
             enc_skip))))"

definition NrCarrierList_codec :: "per_lib \<Rightarrow> nr_carrier_list per_codec" where
  "NrCarrierList_codec L = named ''NrCarrierList'' (non_empty (vec_codec L 1 5 (NrCarrierItem_codec L)))"

definition FrequencyShift7p5khz_codec :: "per_lib \<Rightarrow> frequency_shift7p5khz per_codec" where
  "FrequencyShift7p5khz_codec L =
     enum_impl L ''FrequencyShift7p5khz''
       [FrequencyShift7p5khzFalse, FrequencyShift7p5khzTrue] 1 True"

definition SulInformation_codec :: "per_lib \<Rightarrow> sul_information per_codec" where
  "SulInformation_codec L =
     per_codec_impl ''SulInformation''
       (dec_bind (decode_sequence_header L True 1) (\<lambda>(optionals, _).
        dec_bind (decode_of (integer_codec L 0 3279165 False)) (\<lambda>sul_nr_arfcn.
        dec_bind (decode_of (TransmissionBandwidth_codec L)) (\<lambda>sul_transmission_bandwidth.
        decode_extensions L optionals 0
          [arm 354 (decode_of (NrCarrierList_codec L)) sul_information_carrier_list_update,
           arm 356 (decode_of (FrequencyShift7p5khz_codec L)) sul_information_frequency_shift7p5khz_update]
          \<lparr>sul_information_sul_nr_arfcn = sul_nr_arfcn,
           sul_information_sul_transmission_bandwidth = sul_transmission_bandwidth,
           sul_information_carrier_list = None, sul_information_frequency_shift7p5khz = None\<rparr>))))
       (\<lambda>x. with_extensions L
               (opt_ie 354 Ignore (NrCarrierList_codec L) (sul_information_carrier_list x) @
                opt_ie 356 Ignore (FrequencyShift7p5khz_codec L) (sul_information_frequency_shift7p5khz x)) (\<lambda>num_ies ies.
               enc_seq (encode_sequence_header L True [num_ies \<noteq> 0] False)
               (enc_seq (encode_of (integer_codec L 0 3279165 False) (sul_information_sul_nr_arfcn x))
               (enc_seq (encode_of (TransmissionBandwidth_codec L) (sul_information_sul_transmission_bandwidth x))
               (encode_extensions L num_ies ies)))))"

definition SupportedSulFreqBandItem_codec :: "per_lib \<Rightarrow> supported_sul_freq_band_item per_codec" where
  "SupportedSulFreqBandItem_codec L =
     per_codec_impl ''SupportedSulFreqBandItem''
       (dec_bind (decode_sequence_header L True 1) (\<lambda>(optionals, _).
        dec_bind (decode_of (integer_codec L 1 1024 True)) (\<lambda>freq_band_indicator_nr.
        dec_bind (decode_extension_container L optionals 0) (\<lambda>_.
        dec_return
          \<lparr>supported_sul_freq_band_item_freq_band_indicator_nr = freq_band_indicator_nr\<rparr>))))
       (\<lambda>x. enc_seq (encode_sequence_header L True [False] False)
             (enc_seq (encode_of (integer_codec L 1 1024 True) (supported_sul_freq_band_item_freq_band_indicator_nr x))
             enc_skip))"

definition FreqBandNrItem_codec :: "per_lib \<Rightarrow> freq_band_nr_item per_codec" where
  "FreqBandNrItem_codec L =
     per_codec_impl ''FreqBandNrItem''
       (dec_bind (decode_sequence_header L True 1) (\<lambda>(optionals, _).
        dec_bind (decode_of (integer_codec L 1 1024 True)) (\<lambda>freq_band_indicator_nr.
        dec_bind (decode_of (vec_codec L 0 32 (SupportedSulFreqBandItem_codec L))) (\<lambda>supported_sul_band_list.
        dec_bind (decode_extension_container L optionals 0) (\<lambda>_.
        dec_return
          \<lparr>freq_band_nr_item_freq_band_indicator_nr = freq_band_indicator_nr,
           freq_band_nr_item_supported_sul_band_list = supported_sul_band_list\<rparr>)))))
       (\<lambda>x. enc_seq (encode_sequence_header L True [False] False)
             (enc_seq (encode_of (integer_codec L 1 1024 True) (freq_band_nr_item_freq_band_indicator_nr x))
             (enc_seq (encode_of (vec_codec L 0 32 (SupportedSulFreqBandItem_codec L)) (freq_band_nr_item_supported_sul_band_list x))
             enc_skip)))"

definition NrFreqInfo_codec :: "per_lib \<Rightarrow> nr_freq_info per_codec" where
  "NrFreqInfo_codec L =
     per_codec_impl ''NrFreqInfo''
       (dec_bind (decode_sequence_header L True 2) (\<lambda>(optionals, _).
        dec_bind (decode_of (integer_codec L 0 3279165 False)) (\<lambda>nr_arfcn.
        dec_bind (decode_optional optionals 0 (decode_of (SulInformation_codec L))) (\<lambda>sul_information.
        dec_bind (decode_of (non_empty (vec_codec L 1 32 (FreqBandNrItem_codec L)))) (\<lambda>freq_band_list_nr.
        decode_extensions L optionals 1
          [arm 356 (decode_of (FrequencyShift7p5khz_codec L)) nr_freq_info_frequency_shift7p5khz_update]
          \<lparr>nr_freq_info_nr_arfcn = nr_arfcn, nr_freq_info_sul_information = sul_information,
           nr_freq_info_freq_band_list_nr = freq_band_list_nr,
           nr_freq_info_frequency_shift7p5khz = None\<rparr>)))))
       (\<lambda>x. with_extensions L
               (opt_ie 356 Ignore (FrequencyShift7p5khz_codec L) (nr_freq_info_frequency_shift7p5khz x)) (\<lambda>num_ies ies.
               enc_seq (encode_sequence_header L True [nr_freq_info_sul_information x \<noteq> None, num_ies \<noteq> 0] False)
               (enc_seq (encode_of (integer_codec L 0 3279165 False) (nr_freq_info_nr_arfcn x))
               (enc_seq (encode_optional (encode_of (SulInformation_codec L)) (nr_freq_info_sul_information x))
               (enc_seq (encode_of (non_empty (vec_codec L 1 32 (FreqBandNrItem_codec L))) (nr_freq_info_freq_band_list_nr x))
               (encode_extensions L num_ies ies))))))"

definition FddInfo_codec :: "per_lib \<Rightarrow> fdd_info per_codec" where
  "FddInfo_codec L =
     per_codec_impl ''FddInfo''
       (dec_bind (decode_sequence_header L True 1) (\<lambda>(optionals, _).
        dec_bind (decode_of (NrFreqInfo_codec L)) (\<lambda>ul_nr_freq_info.
        dec_bind (decode_of (NrFreqInfo_codec L)) (\<lambda>dl_nr_freq_info.
        dec_bind (decode_of (TransmissionBandwidth_codec L)) (\<lambda>ul_transmission_bandwidth.
        dec_bind (decode_of (TransmissionBandwidth_codec L)) (\<lambda>dl_transmission_bandwidth.
        decode_extensions L optionals 0
          [arm 355 (decode_of (NrCarrierList_codec L)) fdd_info_ul_carrier_list_update,
           arm 389 (decode_of (NrCarrierList_codec L)) fdd_info_dl_carrier_list_update]
          \<lparr>fdd_info_ul_nr_freq_info = ul_nr_freq_info, fdd_info_dl_nr_freq_info = dl_nr_freq_info,
           fdd_info_ul_transmission_bandwidth = ul_transmission_bandwidth,
           fdd_info_dl_transmission_bandwidth = dl_transmission_bandwidth,
           fdd_info_ul_carrier_list = None, fdd_info_dl_carrier_list = None\<rparr>))))))
       (\<lambda>x. with_extensions L
               (opt_ie 355 Ignore (NrCarrierList_codec L) (fdd_info_ul_carrier_list x) @
                opt_ie 389 Ignore (NrCarrierList_codec L) (fdd_info_dl_carrier_list x)) (\<lambda>num_ies ies.
               enc_seq (encode_sequence_header L True [num_ies \<noteq> 0] False)
               (enc_seq (encode_of (NrFreqInfo_codec L) (fdd_info_ul_nr_freq_info x))
               (enc_seq (encode_of (NrFreqInfo_codec L) (fdd_info_dl_nr_freq_info x))
               (enc_seq (encode_of (TransmissionBandwidth_codec L) (fdd_info_ul_transmission_bandwidth x))
               (enc_seq (encode_of (TransmissionBandwidth_codec L) (fdd_info_dl_transmission_bandwidth x))
               (encode_extensions L num_ies ies)))))))"

definition NrScs1_codec :: "per_lib \<Rightarrow> nr_scs1 per_codec" where
  "NrScs1_codec L =
     enum_impl L ''NrScs1''
       [NrScs1Scs15, NrScs1Scs30, NrScs1Scs60, NrScs1Scs120] 3 True"

definition NrCp_codec :: "per_lib \<Rightarrow> nr_cp per_codec" where
  "NrCp_codec L =
     enum_impl L ''NrCp''
       [NrCpNormal, NrCpExtended] 1 True"

definition NrDlUlTxPeriodicity_codec :: "per_lib \<Rightarrow> nr_dl_ul_tx_periodicity per_codec" where
  "NrDlUlTxPeriodicity_codec L =
     enum_impl L ''NrDlUlTxPeriodicity''
       [NrDlUlTxPeriodicityMs0p5, NrDlUlTxPeriodicityMs0p625, NrDlUlTxPeriodicityMs1,
        NrDlUlTxPeriodicityMs1p25, NrDlUlTxPeriodicityMs2, NrDlUlTxPeriodicityMs2p5,
        NrDlUlTxPeriodicityMs3, NrDlUlTxPeriodicityMs4, NrDlUlTxPeriodicityMs5,
        NrDlUlTxPeriodicityMs10, NrDlUlTxPeriodicityMs20, NrDlUlTxPeriodicityMs40,
        NrDlUlTxPeriodicityMs60, NrDlUlTxPeriodicityMs80, NrDlUlTxPeriodicityMs100,
        NrDlUlTxPeriodicityMs120, NrDlUlTxPeriodicityMs140, NrDlUlTxPeriodicityMs160] 17 True"

definition NumDlUlSymbols_codec :: "per_lib \<Rightarrow> num_dl_ul_symbols per_codec" where
  "NumDlUlSymbols_codec L =
     per_codec_impl ''NumDlUlSymbols''
       (dec_bind (decode_sequence_header L False 1) (\<lambda>(optionals, _).
        dec_bind (decode_of (integer_codec L 0 13 True)) (\<lambda>num_dl_symbols.
        dec_bind (decode_of (integer_codec L 0 13 True)) (\<lambda>num_ul_symbols.
        dec_bind (decode_extension_container L optionals 0) (\<lambda>_.
        dec_return
          \<lparr>num_dl_ul_symbols_num_dl_symbols = num_dl_symbols,
           num_dl_ul_symbols_num_ul_symbols = num_ul_symbols\<rparr>)))))
       (\<lambda>x. enc_seq (encode_sequence_header L False [False] False)
             (enc_seq (encode_of (integer_codec L 0 13 True) (num_dl_ul_symbols_num_dl_symbols x))
             (enc_seq (encode_of (integer_codec L 0 13 True) (num_dl_ul_symbols_num_ul_symbols x))
             enc_skip)))"

definition SymbolAllocInSlot_codec :: "per_lib \<Rightarrow> symbol_alloc_in_slot per_codec" where
  "SymbolAllocInSlot_codec L =
     per_codec_impl ''SymbolAllocInSlot''
       (dec_bind (decode_choice_idx L 0 3 False) (\<lambda>(idx, extended).
        if extended then dec_fail (per_codec_error_new ''CHOICE additions not implemented'')
        else if idx = 0 then dec_return SymbolAllocInSlotAllDl
        else if idx = 1 then dec_return SymbolAllocInSlotAllUl
        else if idx = 2 then dec_bind (decode_of (NumDlUlSymbols_codec L)) (\<lambda>x. dec_return (SymbolAllocInSlotBothDlAndUl x))
        else if idx = 3 then decode_choice_extension L
        else dec_fail (per_codec_error_new ''Unknown choice idx'')))
       (\<lambda>x. case x of
          SymbolAllocInSlotAllDl \<Rightarrow> encode_choice_idx L 0 3 False 0 False
        | SymbolAllocInSlotAllUl \<Rightarrow> encode_choice_idx L 0 3 False 1 False
        | SymbolAllocInSlotBothDlAndUl y \<Rightarrow> enc_seq (encode_choice_idx L 0 3 False 2 False) (encode_of (NumDlUlSymbols_codec L) y))"

definition SlotConfigurationItem_codec :: "per_lib \<Rightarrow> slot_configuration_item per_codec" where
  "SlotConfigurationItem_codec L =
     per_codec_impl ''SlotConfigurationItem''
       (dec_bind (decode_sequence_header L False 1) (\<lambda>(optionals, _).
        dec_bind (decode_of (integer_codec L 0 5119 True)) (\<lambda>slot_index.
        dec_bind (decode_of (SymbolAllocInSlot_codec L)) (\<lambda>symbol_alloc_in_slot.
        dec_bind (decode_extension_container L optionals 0) (\<lambda>_.
        dec_return
          \<lparr>slot_configuration_item_slot_index = slot_index,
           slot_configuration_item_symbol_alloc_in_slot = symbol_alloc_in_slot\<rparr>)))))
       (\<lambda>x. enc_seq (encode_sequence_header L False [False] False)
             (enc_seq (encode_of (integer_codec L 0 5119 True) (slot_configuration_item_slot_index x))
             (enc_seq (encode_of (SymbolAllocInSlot_codec L) (slot_configuration_item_symbol_alloc_in_slot x))
             enc_skip)))"

definition SlotConfigurationList_codec :: "per_lib \<Rightarrow> slot_configuration_list per_codec" where
  "SlotConfigurationList_codec L =
     named ''SlotConfigurationList'' (non_empty (vec_codec L 1 5120 (SlotConfigurationItem_codec L)))"

definition IntendedTddDlUlConfig_codec :: "per_lib \<Rightarrow> intended_tdd_dl_ul_config per_codec" where
  "IntendedTddDlUlConfig_codec L =
     per_codec_impl ''IntendedTddDlUlConfig''
       (dec_bind (decode_sequence_header L False 1) (\<lambda>(optionals, _).
        dec_bind (decode_of (NrScs1_codec L)) (\<lambda>nr_scs.
        dec_bind (decode_of (NrCp_codec L)) (\<lambda>nr_cp.
        dec_bind (decode_of (NrDlUlTxPeriodicity_codec L)) (\<lambda>nr_dl_ul_tx_periodicity.
        dec_bind (decode_of (SlotConfigurationList_codec L)) (\<lambda>slot_configuration_list.
        dec_bind (decode_extension_container L optionals 0) (\<lambda>_.
        dec_return
          \<lparr>intended_tdd_dl_ul_config_nr_scs = nr_scs, intended_tdd_dl_ul_config_nr_cp = nr_cp,
           intended_tdd_dl_ul_config_nr_dl_ul_tx_periodicity = nr_dl_ul_tx_periodicity,
           intended_tdd_dl_ul_config_slot_configuration_list = slot_configuration_list\<rparr>)))))))
       (\<lambda>x. enc_seq (encode_sequence_header L False [False] False)
             (enc_seq (encode_of (NrScs1_codec L) (intended_tdd_dl_ul_config_nr_scs x))
             (enc_seq (encode_of (NrCp_codec L) (intended_tdd_dl_ul_config_nr_cp x))
             (enc_seq (encode_of (NrDlUlTxPeriodicity_codec L) (intended_tdd_dl_ul_config_nr_dl_ul_tx_periodicity x))
             (enc_seq (encode_of (SlotConfigurationList_codec L) (intended_tdd_dl_ul_config_slot_configuration_list x))
             enc_skip)))))"

definition TddUlDlConfigCommonNr_codec :: "per_lib \<Rightarrow> tdd_ul_dl_config_common_nr per_codec" where
  "TddUlDlConfigCommonNr_codec L = named ''TddUlDlConfigCommonNr'' (octetstring_codec L)"

definition TddInfo_codec :: "per_lib \<Rightarrow> tdd_info per_codec" where
  "TddInfo_codec L =
     per_codec_impl ''TddInfo''
       (dec_bind (decode_sequence_header L True 1) (\<lambda>(optionals, _).
        dec_bind (decode_of (NrFreqInfo_codec L)) (\<lambda>nr_freq_info.
        dec_bind (decode_of (TransmissionBandwidth_codec L)) (\<lambda>transmission_bandwidth.
        decode_extensions L optionals 0
          [arm 256 (decode_of (IntendedTddDlUlConfig_codec L)) tdd_info_intended_tdd_dl_ul_config_update,
           arm 361 (decode_of (TddUlDlConfigCommonNr_codec L)) tdd_info_tdd_ul_dl_config_common_nr_update,
           arm 354 (decode_of (NrCarrierList_codec L)) tdd_info_carrier_list_update]
          \<lparr>tdd_info_nr_freq_info = nr_freq_info,
           tdd_info_transmission_bandwidth = transmission_bandwidth,
           tdd_info_intended_tdd_dl_ul_config = None, tdd_info_tdd_ul_dl_config_common_nr = None,
           tdd_info_carrier_list = None\<rparr>))))
       (\<lambda>x. with_extensions L
               (opt_ie 256 Ignore (IntendedTddDlUlConfig_codec L) (tdd_info_intended_tdd_dl_ul_config x) @
                opt_ie 361 Ignore (TddUlDlConfigCommonNr_codec L) (tdd_info_tdd_ul_dl_config_common_nr x) @
                opt_ie 354 Ignore (NrCarrierList_codec L) (tdd_info_carrier_list x)) (\<lambda>num_ies ies.
               enc_seq (encode_sequence_header L True [num_ies \<noteq> 0] False)
               (enc_seq (encode_of (NrFreqInfo_codec L) (tdd_info_nr_freq_info x))
               (enc_seq (encode_of (TransmissionBandwidth_codec L) (tdd_info_transmission_bandwidth x))
               (encode_extensions L num_ies ies)))))"

definition NrModeInfo_codec :: "per_lib \<Rightarrow> nr_mode_info per_codec" where
  "NrModeInfo_codec L =
     per_codec_impl ''NrModeInfo''
       (dec_bind (decode_choice_idx L 0 2 False) (\<lambda>(idx, extended).
        if extended then dec_fail (per_codec_error_new ''CHOICE additions not implemented'')
        else if idx = 0 then dec_bind (decode_of (FddInfo_codec L)) (\<lambda>x. dec_return (NrModeInfoFdd x))
        else if idx = 1 then dec_bind (decode_of (TddInfo_codec L)) (\<lambda>x. dec_return (NrModeInfoTdd x))
        else if idx = 2 then decode_choice_extension L
        else dec_fail (per_codec_error_new ''Unknown choice idx'')))
       (\<lambda>x. case x of
          NrModeInfoFdd y \<Rightarrow> enc_seq (encode_choice_idx L 0 2 False 0 False) (encode_of (FddInfo_codec L) y)
        | NrModeInfoTdd y \<Rightarrow> enc_seq (encode_choice_idx L 0 2 False 1 False) (encode_of (TddInfo_codec L) y))"

definition Ranac_codec :: "per_lib \<Rightarrow> ranac per_codec" where
  "Ranac_codec L = named ''Ranac'' (integer_codec L 0 255 False)"

definition ExtendedServedPlmnsItem_codec :: "per_lib \<Rightarrow> extended_served_plmns_item per_codec" where
  "ExtendedServedPlmnsItem_codec L =
     per_codec_impl ''ExtendedServedPlmnsItem''
       (dec_bind (decode_sequence_header L True 2) (\<lambda>(optionals, _).
        dec_bind (decode_of (PlmnIdentity_codec L)) (\<lambda>plmn_identity.
        dec_bind (decode_optional optionals 0 (decode_of (SliceSupportList_codec L))) (\<lambda>tai_slice_support_list.
        decode_extensions L optionals 1
          [arm 384 (decode_of (NpnSupportInfo_codec L)) extended_served_plmns_item_npn_support_info_update,
           arm 390 (decode_of (ExtendedSliceSupportList_codec L)) extended_served_plmns_item_extended_tai_slice_support_list_update]
          \<lparr>extended_served_plmns_item_plmn_identity = plmn_identity,
           extended_served_plmns_item_tai_slice_support_list = tai_slice_support_list,
           extended_served_plmns_item_npn_support_info = None,
           extended_served_plmns_item_extended_tai_slice_support_list = None\<rparr>))))
       (\<lambda>x. with_extensions L
               (opt_ie 384 Reject (NpnSupportInfo_codec L) (extended_served_plmns_item_npn_support_info x) @
                opt_ie 390 Reject (ExtendedSliceSupportList_codec L) (extended_served_plmns_item_extended_tai_slice_support_list x)) (\<lambda>num_ies ies.
               enc_seq (encode_sequence_header L True [extended_served_plmns_item_tai_slice_support_list x \<noteq> None, num_ies \<noteq> 0] False)
               (enc_seq (encode_of (PlmnIdentity_codec L) (extended_served_plmns_item_plmn_identity x))
               (enc_seq (encode_optional (encode_of (SliceSupportList_codec L)) (extended_served_plmns_item_tai_slice_support_list x))
               (encode_extensions L num_ies ies)))))"

definition ExtendedServedPlmnsList_codec :: "per_lib \<Rightarrow> extended_served_plmns_list per_codec" where
  "ExtendedServedPlmnsList_codec L =
     named ''ExtendedServedPlmnsList'' (non_empty (vec_codec L 1 6 (ExtendedServedPlmnsItem_codec L)))"

definition CellDirection_codec :: "per_lib \<Rightarrow> cell_direction per_codec" where
  "CellDirection_codec L =
     enum_impl L ''CellDirection''
       [CellDirectionDlOnly, CellDirectionUlOnly] 1 False"

definition AvailablePlmnListItem_codec :: "per_lib \<Rightarrow> available_plmn_list_item per_codec" where
  "AvailablePlmnListItem_codec L =
     per_codec_impl ''AvailablePlmnListItem''
       (dec_bind (decode_sequence_header L False 1) (\<lambda>(optionals, _).
        dec_bind (decode_of (PlmnIdentity_codec L)) (\<lambda>plmn_identity.
        dec_bind (decode_extension_container L optionals 0) (\<lambda>_.
        dec_return
          \<lparr>available_plmn_list_item_plmn_identity = plmn_identity\<rparr>))))
       (\<lambda>x. enc_seq (encode_sequence_header L False [False] False)
             (enc_seq (encode_of (PlmnIdentity_codec L) (available_plmn_list_item_plmn_identity x))
             enc_skip))"

definition AvailablePlmnList_codec :: "per_lib \<Rightarrow> available_plmn_list per_codec" where
  "AvailablePlmnList_codec L = named ''AvailablePlmnList'' (non_empty (vec_codec L 1 6 (AvailablePlmnListItem_codec L)))"

definition ExtendedAvailablePlmnItem_codec :: "per_lib \<Rightarrow> extended_available_plmn_item per_codec" where
  "ExtendedAvailablePlmnItem_codec L =
     per_codec_impl ''ExtendedAvailablePlmnItem''
       (dec_bind (decode_sequence_header L False 1) (\<lambda>(optionals, _).
        dec_bind (decode_of (PlmnIdentity_codec L)) (\<lambda>plmn_identity.
        dec_bind (decode_extension_container L optionals 0) (\<lambda>_.
        dec_return
          \<lparr>extended_available_plmn_item_plmn_identity = plmn_identity\<rparr>))))
       (\<lambda>x. enc_seq (encode_sequence_header L False [False] False)
             (enc_seq (encode_of (PlmnIdentity_codec L) (extended_available_plmn_item_plmn_identity x))
             enc_skip))"

definition ExtendedAvailablePlmnList_codec :: "per_lib \<Rightarrow> extended_available_plmn_list per_codec" where
  "ExtendedAvailablePlmnList_codec L =
     named ''ExtendedAvailablePlmnList'' (non_empty (vec_codec L 1 6 (ExtendedAvailablePlmnItem_codec L)))"

definition ConfiguredTacIndication_codec :: "per_lib \<Rightarrow> configured_tac_indication per_codec" where
  "ConfiguredTacIndication_codec L =
     enum_impl L ''ConfiguredTacIndication''
       [ConfiguredTacIndicationTrue] 0 True"

definition BroadcastNidList_codec :: "per_lib \<Rightarrow> broadcast_nid_list per_codec" where
  "BroadcastNidList_codec L = named ''BroadcastNidList'' (non_empty (vec_codec L 1 12 (Nid_codec L)))"

definition BroadcastSnpnIdListItem_codec :: "per_lib \<Rightarrow> broadcast_snpn_id_list_item per_codec" where
  "BroadcastSnpnIdListItem_codec L =
     per_codec_impl ''BroadcastSnpnIdListItem''
       (dec_bind (decode_sequence_header L True 1) (\<lambda>(optionals, _).
        dec_bind (decode_of (PlmnIdentity_codec L)) (\<lambda>plmn_identity.
        dec_bind (decode_of (BroadcastNidList_codec L)) (\<lambda>broadcast_nid_list.
        dec_bind (decode_extension_container L optionals 0) (\<lambda>_.
        dec_return
          \<lparr>broadcast_snpn_id_list_item_plmn_identity = plmn_identity,
           broadcast_snpn_id_list_item_broadcast_nid_list = broadcast_nid_list\<rparr>)))))
       (\<lambda>x. enc_seq (encode_sequence_header L True [False] False)
             (enc_seq (encode_of (PlmnIdentity_codec L) (broadcast_snpn_id_list_item_plmn_identity x))
             (enc_seq (encode_of (BroadcastNidList_codec L) (broadcast_snpn_id_list_item_broadcast_nid_list x))
             enc_skip)))"

definition BroadcastSnpnIdList_codec :: "per_lib \<Rightarrow> broadcast_snpn_id_list per_codec" where
  "BroadcastSnpnIdList_codec L =
     named ''BroadcastSnpnIdList'' (non_empty (vec_codec L 1 12 (BroadcastSnpnIdListItem_codec L)))"

definition NpnBroadcastInformationSnpn_codec :: "per_lib \<Rightarrow> npn_broadcast_information_snpn per_codec" where
  "NpnBroadcastInformationSnpn_codec L =
     per_codec_impl ''NpnBroadcastInformationSnpn''
       (dec_bind (decode_sequence_header L True 1) (\<lambda>(optionals, _).
        dec_bind (decode_of (BroadcastSnpnIdList_codec L)) (\<lambda>broadcast_snpnid_list.
        dec_bind (decode_extension_container L optionals 0) (\<lambda>_.
        dec_return
          \<lparr>npn_broadcast_information_snpn_broadcast_snpnid_list = broadcast_snpnid_list\<rparr>))))
       (\<lambda>x. enc_seq (encode_sequence_header L True [False] False)
             (enc_seq (encode_of (BroadcastSnpnIdList_codec L) (npn_broadcast_information_snpn_broadcast_snpnid_list x))
             enc_skip))"

definition Cagid_codec :: "per_lib \<Rightarrow> cagid per_codec" where
  "Cagid_codec L = named ''Cagid'' (bitstring_codec L 32)"

definition BroadcastCagList_codec :: "per_lib \<Rightarrow> broadcast_cag_list per_codec" where
  "BroadcastCagList_codec L = named ''BroadcastCagList'' (non_empty (vec_codec L 1 12 (Cagid_codec L)))"

definition BroadcastPniNpnIdListItem_codec :: "per_lib \<Rightarrow> broadcast_pni_npn_id_list_item per_codec" where
  "BroadcastPniNpnIdListItem_codec L =
     per_codec_impl ''BroadcastPniNpnIdListItem''
       (dec_bind (decode_sequence_header L True 1) (\<lambda>(optionals, _).
        dec_bind (decode_of (PlmnIdentity_codec L)) (\<lambda>plmn_identity.
        dec_bind (decode_of (BroadcastCagList_codec L)) (\<lambda>broadcast_cag_list.
        dec_bind (decode_extension_container L optionals 0) (\<lambda>_.
        dec_return
          \<lparr>broadcast_pni_npn_id_list_item_plmn_identity = plmn_identity,
           broadcast_pni_npn_id_list_item_broadcast_cag_list = broadcast_cag_list\<rparr>)))))
       (\<lambda>x. enc_seq (encode_sequence_header L True [False] False)
             (enc_seq (encode_of (PlmnIdentity_codec L) (broadcast_pni_npn_id_list_item_plmn_identity x))
             (enc_seq (encode_of (BroadcastCagList_codec L) (broadcast_pni_npn_id_list_item_broadcast_cag_list x))
             enc_skip)))"

definition BroadcastPniNpnIdList_codec :: "per_lib \<Rightarrow> broadcast_pni_npn_id_list per_codec" where
  "BroadcastPniNpnIdList_codec L =
     named ''BroadcastPniNpnIdList'' (non_empty (vec_codec L 1 12 (BroadcastPniNpnIdListItem_codec L)))"

definition NpnBroadcastInformationPniNpn_codec :: "per_lib \<Rightarrow> npn_broadcast_information_pni_npn per_codec" where
  "NpnBroadcastInformationPniNpn_codec L =
     per_codec_impl ''NpnBroadcastInformationPniNpn''
       (dec_bind (decode_sequence_header L True 1) (\<lambda>(optionals, _).
        dec_bind (decode_of (BroadcastPniNpnIdList_codec L)) (\<lambda>broadcast_pni_npn_id_information.
        dec_bind (decode_extension_container L optionals 0) (\<lambda>_.
        dec_return
          \<lparr>npn_broadcast_information_pni_npn_broadcast_pni_npn_id_information = broadcast_pni_npn_id_information\<rparr>))))
       (\<lambda>x. enc_seq (encode_sequence_header L True [False] False)
             (enc_seq (encode_of (BroadcastPniNpnIdList_codec L) (npn_broadcast_information_pni_npn_broadcast_pni_npn_id_information x))
             enc_skip))"

definition NpnBroadcastInformation_codec :: "per_lib \<Rightarrow> npn_broadcast_information per_codec" where
  "NpnBroadcastInformation_codec L =
     per_codec_impl ''NpnBroadcastInformation''
       (dec_bind (decode_choice_idx L 0 2 False) (\<lambda>(idx, extended).
        if extended then dec_fail (per_codec_error_new ''CHOICE additions not implemented'')
        else if idx = 0 then dec_bind (decode_of (NpnBroadcastInformationSnpn_codec L)) (\<lambda>x. dec_return (NpnBroadcastInformationSnpnBroadcastInformation x))
        else if idx = 1 then dec_bind (decode_of (NpnBroadcastInformationPniNpn_codec L)) (\<lambda>x. dec_return (NpnBroadcastInformationPniNpnBroadcastInformation x))
        else if idx = 2 then decode_choice_extension L
        else dec_fail (per_codec_error_new ''Unknown choice idx'')))
       (\<lambda>x. case x of
          NpnBroadcastInformationSnpnBroadcastInformation y \<Rightarrow> enc_seq (encode_choice_idx L 0 2 False 0 False) (encode_of (NpnBroadcastInformationSnpn_codec L) y)
        | NpnBroadcastInformationPniNpnBroadcastInformation y \<Rightarrow> enc_seq (encode_choice_idx L 0 2 False 1 False) (encode_of (NpnBroadcastInformationPniNpn_codec L) y))"

definition BPlmnIdInfoItem_codec :: "per_lib \<Rightarrow> b_plmn_id_info_item per_codec" where
  "BPlmnIdInfoItem_codec L =
     per_codec_impl ''BPlmnIdInfoItem''
       (dec_bind (decode_sequence_header L True 4) (\<lambda>(optionals, _).
        dec_bind (decode_of (AvailablePlmnList_codec L)) (\<lambda>plmn_identity_list.
        dec_bind (decode_optional optionals 0 (decode_of (ExtendedAvailablePlmnList_codec L))) (\<lambda>extended_plmn_identity_list.
        dec_bind (decode_optional optionals 1 (decode_of (FiveGsTac_codec L))) (\<lambda>five_gs_tac.
        dec_bind (decode_of (NrCellIdentity_codec L)) (\<lambda>nr_cell_id.
        dec_bind (decode_optional optionals 2 (decode_of (Ranac_codec L))) (\<lambda>ranac.
        decode_extensions L optionals 3
          [arm 425 (decode_of (ConfiguredTacIndication_codec L)) b_plmn_id_info_item_configured_tac_indication_update,
           arm 383 (decode_of (NpnBroadcastInformation_codec L)) b_plmn_id_info_item_npn_broadcast_information_update]
          \<lparr>b_plmn_id_info_item_plmn_identity_list = plmn_identity_list,
           b_plmn_id_info_item_extended_plmn_identity_list = extended_plmn_identity_list,
           b_plmn_id_info_item_five_gs_tac = five_gs_tac,
           b_plmn_id_info_item_nr_cell_id = nr_cell_id, b_plmn_id_info_item_ranac = ranac,
           b_plmn_id_info_item_configured_tac_indication = None,
           b_plmn_id_info_item_npn_broadcast_information = None\<rparr>)))))))
       (\<lambda>x. with_extensions L
               (opt_ie 425 Ignore (ConfiguredTacIndication_codec L) (b_plmn_id_info_item_configured_tac_indication x) @
                opt_ie 383 Reject (NpnBroadcastInformation_codec L) (b_plmn_id_info_item_npn_broadcast_information x)) (\<lambda>num_ies ies.
               enc_seq (encode_sequence_header L True [b_plmn_id_info_item_extended_plmn_identity_list x \<noteq> None, b_plmn_id_info_item_five_gs_tac x \<noteq> None, b_plmn_id_info_item_ranac x \<noteq> None, num_ies \<noteq> 0] False)
               (enc_seq (encode_of (AvailablePlmnList_codec L) (b_plmn_id_info_item_plmn_identity_list x))
               (enc_seq (encode_optional (encode_of (ExtendedAvailablePlmnList_codec L)) (b_plmn_id_info_item_extended_plmn_identity_list x))
               (enc_seq (encode_optional (encode_of (FiveGsTac_codec L)) (b_plmn_id_info_item_five_gs_tac x))
               (enc_seq (encode_of (NrCellIdentity_codec L) (b_plmn_id_info_item_nr_cell_id x))
               (enc_seq (encode_optional (encode_of (Ranac_codec L)) (b_plmn_id_info_item_ranac x))
               (encode_extensions L num_ies ies))))))))"

definition BPlmnIdInfoList_codec :: "per_lib \<Rightarrow> b_plmn_id_info_list per_codec" where
  "BPlmnIdInfoList_codec L = named ''BPlmnIdInfoList'' (non_empty (vec_codec L 1 12 (BPlmnIdInfoItem_codec L)))"

definition CellSize_codec :: "per_lib \<Rightarrow> cell_size per_codec" where
  "CellSize_codec L =
     enum_impl L ''CellSize''
       [CellSizeVerysmall, CellSizeSmall, CellSizeMedium, CellSizeLarge] 3 True"

definition CellType_codec :: "per_lib \<Rightarrow> cell_type per_codec" where
  "CellType_codec L =
     per_codec_impl ''CellType''
       (dec_bind (decode_sequence_header L True 1) (\<lambda>(optionals, _).
        dec_bind (decode_of (CellSize_codec L)) (\<lambda>cell_size.
        dec_bind (decode_extension_container L optionals 0) (\<lambda>_.
        dec_return
          \<lparr>cell_type_cell_size = cell_size\<rparr>))))
       (\<lambda>x. enc_seq (encode_sequence_header L True [False] False)
             (enc_seq (encode_of (CellSize_codec L) (cell_type_cell_size x))
             enc_skip))"

definition GnbSetId_codec :: "per_lib \<Rightarrow> gnb_set_id per_codec" where
  "GnbSetId_codec L = named ''GnbSetId'' (bitstring_codec L 22)"

definition AggressorGnbSetId_codec :: "per_lib \<Rightarrow> aggressor_gnb_set_id per_codec" where
  "AggressorGnbSetId_codec L =
     per_codec_impl ''AggressorGnbSetId''
       (dec_bind (decode_sequence_header L False 1) (\<lambda>(optionals, _).
        dec_bind (decode_of (GnbSetId_codec L)) (\<lambda>aggressor_gnb_set_id.
        dec_bind (decode_extension_container L optionals 0) (\<lambda>_.
        dec_return
          \<lparr>aggressor_gnb_set_id_aggressor_gnb_set_id = aggressor_gnb_set_id\<rparr>))))
       (\<lambda>x. enc_seq (encode_sequence_header L False [False] False)
             (enc_seq (encode_of (GnbSetId_codec L) (aggressor_gnb_set_id_aggressor_gnb_set_id x))
             enc_skip))"

definition VictimGnbSetId_codec :: "per_lib \<Rightarrow> victim_gnb_set_id per_codec" where
  "VictimGnbSetId_codec L =
     per_codec_impl ''VictimGnbSetId''
       (dec_bind (decode_sequence_header L False 1) (\<lambda>(optionals, _).
        dec_bind (decode_of (GnbSetId_codec L)) (\<lambda>victim_gnb_set_id.
        dec_bind (decode_extension_container L optionals 0) (\<lambda>_.
        dec_return
          \<lparr>victim_gnb_set_id_victim_gnb_set_id = victim_gnb_set_id\<rparr>))))
       (\<lambda>x. enc_seq (encode_sequence_header L False [False] False)
             (enc_seq (encode_of (GnbSetId_codec L) (victim_gnb_set_id_victim_gnb_set_id x))
             enc_skip))"

definition DuRxMtRx_codec :: "per_lib \<Rightarrow> du_rx_mt_rx per_codec" where
  "DuRxMtRx_codec L =
     enum_impl L ''DuRxMtRx''
       [DuRxMtRxSupported, DuRxMtRxNotSupported] 1 False"

definition DuTxMtTx_codec :: "per_lib \<Rightarrow> du_tx_mt_tx per_codec" where
  "DuTxMtTx_codec L =
     enum_impl L ''DuTxMtTx''
       [DuTxMtTxSupported, DuTxMtTxNotSupported] 1 False"

definition DuRxMtTx_codec :: "per_lib \<Rightarrow> du_rx_mt_tx per_codec" where
  "DuRxMtTx_codec L =
     enum_impl L ''DuRxMtTx''
       [DuRxMtTxSupported, DuRxMtTxNotSupported] 1 False"

definition DuTxMtRx_codec :: "per_lib \<Rightarrow> du_tx_mt_rx per_codec" where
  "DuTxMtRx_codec L =
     enum_impl L ''DuTxMtRx''
       [DuTxMtRxSupported, DuTxMtRxNotSupported] 1 False"

definition IabMtCellListItem_codec :: "per_lib \<Rightarrow> iab_mt_cell_list_item per_codec" where
  "IabMtCellListItem_codec L =
     per_codec_impl ''IabMtCellListItem''
       (dec_bind (decode_sequence_header L False 1) (\<lambda>(optionals, _).
        dec_bind (decode_of (NrCellIdentity_codec L)) (\<lambda>nr_cell_identity.
        dec_bind (decode_of (DuRxMtRx_codec L)) (\<lambda>du_rx_mt_rx.
        dec_bind (decode_of (DuTxMtTx_codec L)) (\<lambda>du_tx_mt_tx.
        dec_bind (decode_of (DuRxMtTx_codec L)) (\<lambda>du_rx_mt_tx.
        dec_bind (decode_of (DuTxMtRx_codec L)) (\<lambda>du_tx_mt_rx.
        dec_bind (decode_extension_container L optionals 0) (\<lambda>_.
        dec_return
          \<lparr>iab_mt_cell_list_item_nr_cell_identity = nr_cell_identity,
           iab_mt_cell_list_item_du_rx_mt_rx = du_rx_mt_rx,
           iab_mt_cell_list_item_du_tx_mt_tx = du_tx_mt_tx,
           iab_mt_cell_list_item_du_rx_mt_tx = du_rx_mt_tx,
           iab_mt_cell_list_item_du_tx_mt_rx = du_tx_mt_rx\<rparr>))))))))
       (\<lambda>x. enc_seq (encode_sequence_header L False [False] False)
             (enc_seq (encode_of (NrCellIdentity_codec L) (iab_mt_cell_list_item_nr_cell_identity x))
             (enc_seq (encode_of (DuRxMtRx_codec L) (iab_mt_cell_list_item_du_rx_mt_rx x))
             (enc_seq (encode_of (DuTxMtTx_codec L) (iab_mt_cell_list_item_du_tx_mt_tx x))
             (enc_seq (encode_of (DuRxMtTx_codec L) (iab_mt_cell_list_item_du_rx_mt_tx x))
             (enc_seq (encode_of (DuTxMtRx_codec L) (iab_mt_cell_list_item_du_tx_mt_rx x))
             enc_skip))))))"

definition IabMtCellList_codec :: "per_lib \<Rightarrow> iab_mt_cell_list per_codec" where
  "IabMtCellList_codec L = named ''IabMtCellList'' (non_empty (vec_codec L 1 32 (IabMtCellListItem_codec L)))"

definition MultiplexingInfo_codec :: "per_lib \<Rightarrow> multiplexing_info per_codec" where
  "MultiplexingInfo_codec L =
     per_codec_impl ''MultiplexingInfo''
       (dec_bind (decode_sequence_header L False 1) (\<lambda>(optionals, _).
        dec_bind (decode_of (IabMtCellList_codec L)) (\<lambda>iab_mt_cell_list.
        dec_bind (decode_extension_container L optionals 0) (\<lambda>_.
        dec_return
          \<lparr>multiplexing_info_iab_mt_cell_list = iab_mt_cell_list\<rparr>))))
       (\<lambda>x. enc_seq (encode_sequence_header L False [False] False)
             (enc_seq (encode_of (IabMtCellList_codec L) (multiplexing_info_iab_mt_cell_list x))
             enc_skip))"

definition SsbFreqInfo_codec :: "per_lib \<Rightarrow> ssb_freq_info per_codec" where
  "SsbFreqInfo_codec L = named ''SsbFreqInfo'' (integer_codec L 0 3279165 False)"

definition SsbSubcarrierSpacing_codec :: "per_lib \<Rightarrow> ssb_subcarrier_spacing per_codec" where
  "SsbSubcarrierSpacing_codec L =
     enum_impl L ''SsbSubcarrierSpacing''
       [SsbSubcarrierSpacingKHz15, SsbSubcarrierSpacingKHz30, SsbSubcarrierSpacingKHz120,
        SsbSubcarrierSpacingKHz240, SsbSubcarrierSpacingSpare3, SsbSubcarrierSpacingSpare2,
        SsbSubcarrierSpacingSpare1] 6 True"

definition SsbTransmissionPeriodicity_codec :: "per_lib \<Rightarrow> ssb_transmission_periodicity per_codec" where
  "SsbTransmissionPeriodicity_codec L =
     enum_impl L ''SsbTransmissionPeriodicity''
       [SsbTransmissionPeriodicitySf10, SsbTransmissionPeriodicitySf20,
        SsbTransmissionPeriodicitySf40, SsbTransmissionPeriodicitySf80,
        SsbTransmissionPeriodicitySf160, SsbTransmissionPeriodicitySf320,
        SsbTransmissionPeriodicitySf640] 6 True"

definition SsbTransmissionTimingOffset_codec :: "per_lib \<Rightarrow> ssb_transmission_timing_offset per_codec" where
  "SsbTransmissionTimingOffset_codec L = named ''SsbTransmissionTimingOffset'' (integer_codec L 0 127 True)"

definition SsbTransmissionBitmap_codec :: "per_lib \<Rightarrow> ssb_transmission_bitmap per_codec" where
  "SsbTransmissionBitmap_codec L =
     per_codec_impl ''SsbTransmissionBitmap''
       (dec_bind (decode_choice_idx L 0 3 False) (\<lambda>(idx, extended).
        if extended then dec_fail (per_codec_error_new ''CHOICE additions not implemented'')
        else if idx = 0 then dec_bind (decode_of (bitstring_codec L 4)) (\<lambda>x. dec_return (SsbTransmissionBitmapShortBitmap x))
        else if idx = 1 then dec_bind (decode_of (bitstring_codec L 8)) (\<lambda>x. dec_return (SsbTransmissionBitmapMediumBitmap x))
        else if idx = 2 then dec_bind (decode_of (bitstring_codec L 64)) (\<lambda>x. dec_return (SsbTransmissionBitmapLongBitmap x))
        else if idx = 3 then decode_choice_extension L
        else dec_fail (per_codec_error_new ''Unknown choice idx'')))
       (\<lambda>x. case x of
          SsbTransmissionBitmapShortBitmap y \<Rightarrow> enc_seq (encode_choice_idx L 0 3 False 0 False) (encode_of (bitstring_codec L 4) y)
        | SsbTransmissionBitmapMediumBitmap y \<Rightarrow> enc_seq (encode_choice_idx L 0 3 False 1 False) (encode_of (bitstring_codec L 8) y)
        | SsbTransmissionBitmapLongBitmap y \<Rightarrow> enc_seq (encode_choice_idx L 0 3 False 2 False) (encode_of (bitstring_codec L 64) y))"

definition IabStcInfoItem_codec :: "per_lib \<Rightarrow> iab_stc_info_item per_codec" where
  "IabStcInfoItem_codec L =
     per_codec_impl ''IabStcInfoItem''
       (dec_bind (decode_sequence_header L False 1) (\<lambda>(optionals, _).
        dec_bind (decode_of (SsbFreqInfo_codec L)) (\<lambda>ssb_freq_info.
        dec_bind (decode_of (SsbSubcarrierSpacing_codec L)) (\<lambda>ssb_subcarrier_spacing.
        dec_bind (decode_of (SsbTransmissionPeriodicity_codec L)) (\<lambda>ssb_transmission_periodicity.
        dec_bind (decode_of (SsbTransmissionTimingOffset_codec L)) (\<lambda>ssb_transmission_timing_offset.
        dec_bind (decode_of (SsbTransmissionBitmap_codec L)) (\<lambda>ssb_transmission_bitmap.
        dec_bind (decode_extension_container L optionals 0) (\<lambda>_.
        dec_return
          \<lparr>iab_stc_info_item_ssb_freq_info = ssb_freq_info,
           iab_stc_info_item_ssb_subcarrier_spacing = ssb_subcarrier_spacing,
           iab_stc_info_item_ssb_transmission_periodicity = ssb_transmission_periodicity,
           iab_stc_info_item_ssb_transmission_timing_offset = ssb_transmission_timing_offset,
           iab_stc_info_item_ssb_transmission_bitmap = ssb_transmission_bitmap\<rparr>))))))))
       (\<lambda>x. enc_seq (encode_sequence_header L False [False] False)
             (enc_seq (encode_of (SsbFreqInfo_codec L) (iab_stc_info_item_ssb_freq_info x))
             (enc_seq (encode_of (SsbSubcarrierSpacing_codec L) (iab_stc_info_item_ssb_subcarrier_spacing x))
             (enc_seq (encode_of (SsbTransmissionPeriodicity_codec L) (iab_stc_info_item_ssb_transmission_periodicity x))
             (enc_seq (encode_of (SsbTransmissionTimingOffset_codec L) (iab_stc_info_item_ssb_transmission_timing_offset x))
             (enc_seq (encode_of (SsbTransmissionBitmap_codec L) (iab_stc_info_item_ssb_transmission_bitmap x))
             enc_skip))))))"

definition IabStcInfoList_codec :: "per_lib \<Rightarrow> iab_stc_info_list per_codec" where
  "IabStcInfoList_codec L = named ''IabStcInfoList'' (non_empty (vec_codec L 1 45 (IabStcInfoItem_codec L)))"

definition IabStcInfo_codec :: "per_lib \<Rightarrow> iab_stc_info per_codec" where
  "IabStcInfo_codec L =
     per_codec_impl ''IabStcInfo''
       (dec_bind (decode_sequence_header L False 1) (\<lambda>(optionals, _).
        dec_bind (decode_of (IabStcInfoList_codec L)) (\<lambda>iab_stc_info_list.
        dec_bind (decode_extension_container L optionals 0) (\<lambda>_.
        dec_return
          \<lparr>iab_stc_info_iab_stc_info_list = iab_stc_info_list\<rparr>))))
       (\<lambda>x. enc_seq (encode_sequence_header L False [False] False)
             (enc_seq (encode_of (IabStcInfoList_codec L) (iab_stc_info_iab_stc_info_list x))
             enc_skip))"

definition IabInfoIabDu_codec :: "per_lib \<Rightarrow> iab_info_iab_du per_codec" where
  "IabInfoIabDu_codec L =
     per_codec_impl ''IabInfoIabDu''
       (dec_bind (decode_sequence_header L False 3) (\<lambda>(optionals, _).
        dec_bind (decode_optional optionals 0 (decode_of (MultiplexingInfo_codec L))) (\<lambda>multiplexing_info.
        dec_bind (decode_optional optionals 1 (decode_of (IabStcInfo_codec L))) (\<lambda>iab_stc_info.
        dec_bind (decode_extension_container L optionals 2) (\<lambda>_.
        dec_return
          \<lparr>iab_info_iab_du_multiplexing_info = multiplexing_info,
           iab_info_iab_du_iab_stc_info = iab_stc_info\<rparr>)))))
       (\<lambda>x. enc_seq (encode_sequence_header L False [iab_info_iab_du_multiplexing_info x \<noteq> None, iab_info_iab_du_iab_stc_info x \<noteq> None, False] False)
             (enc_seq (encode_optional (encode_of (MultiplexingInfo_codec L)) (iab_info_iab_du_multiplexing_info x))
             (enc_seq (encode_optional (encode_of (IabStcInfo_codec L)) (iab_info_iab_du_iab_stc_info x))
             enc_skip)))"

definition SsbPositionsInBurst_codec :: "per_lib \<Rightarrow> ssb_positions_in_burst per_codec" where
  "SsbPositionsInBurst_codec L =
     per_codec_impl ''SsbPositionsInBurst''
       (dec_bind (decode_choice_idx L 0 3 False) (\<lambda>(idx, extended).
        if extended then dec_fail (per_codec_error_new ''CHOICE additions not implemented'')
        else if idx = 0 then dec_bind (decode_of (bitstring_codec L 4)) (\<lambda>x. dec_return (SsbPositionsInBurstShortBitmap x))
        else if idx = 1 then dec_bind (decode_of (bitstring_codec L 8)) (\<lambda>x. dec_return (SsbPositionsInBurstMediumBitmap x))
        else if idx = 2 then dec_bind (decode_of (bitstring_codec L 64)) (\<lambda>x. dec_return (SsbPositionsInBurstLongBitmap x))
        else if idx = 3 then decode_choice_extension L
        else dec_fail (per_codec_error_new ''Unknown choice idx'')))
       (\<lambda>x. case x of
          SsbPositionsInBurstShortBitmap y \<Rightarrow> enc_seq (encode_choice_idx L 0 3 False 0 False) (encode_of (bitstring_codec L 4) y)
        | SsbPositionsInBurstMediumBitmap y \<Rightarrow> enc_seq (encode_choice_idx L 0 3 False 1 False) (encode_of (bitstring_codec L 8) y)
        | SsbPositionsInBurstLongBitmap y \<Rightarrow> enc_seq (encode_choice_idx L 0 3 False 2 False) (encode_of (bitstring_codec L 64) y))"

definition Msg1fdm_codec :: "per_lib \<Rightarrow> msg1fdm per_codec" where
  "Msg1fdm_codec L =
     enum_impl L ''Msg1fdm''
       [Msg1fdmOne, Msg1fdmTwo, Msg1fdmFour, Msg1fdmEight] 3 True"

definition SsbPerRachOccasion_codec :: "per_lib \<Rightarrow> ssb_per_rach_occasion per_codec" where
  "SsbPerRachOccasion_codec L =
     enum_impl L ''SsbPerRachOccasion''
       [SsbPerRachOccasionOneEighth, SsbPerRachOccasionOneFourth, SsbPerRachOccasionOneHalf,
        SsbPerRachOccasionOne, SsbPerRachOccasionTwo, SsbPerRachOccasionFour,
        SsbPerRachOccasionEight, SsbPerRachOccasionSixteen] 7 True"

definition RestrictedSetConfig_codec :: "per_lib \<Rightarrow> restricted_set_config per_codec" where
  "RestrictedSetConfig_codec L =
     enum_impl L ''RestrictedSetConfig''
       [RestrictedSetConfigUnrestrictedSet, RestrictedSetConfigRestrictedSetTypeA,
        RestrictedSetConfigRestrictedSetTypeB] 2 True"

definition L839Info_codec :: "per_lib \<Rightarrow> l839_info per_codec" where
  "L839Info_codec L =
     per_codec_impl ''L839Info''
       (dec_bind (decode_sequence_header L True 1) (\<lambda>(optionals, _).
        dec_bind (decode_of (integer_codec L 0 837 False)) (\<lambda>root_sequence_index.
        dec_bind (decode_of (RestrictedSetConfig_codec L)) (\<lambda>restricted_set_config.
        dec_bind (decode_extension_container L optionals 0) (\<lambda>_.
        dec_return
          \<lparr>l839_info_root_sequence_index = root_sequence_index,
           l839_info_restricted_set_config = restricted_set_config\<rparr>)))))
       (\<lambda>x. enc_seq (encode_sequence_header L True [False] False)
             (enc_seq (encode_of (integer_codec L 0 837 False) (l839_info_root_sequence_index x))
             (enc_seq (encode_of (RestrictedSetConfig_codec L) (l839_info_restricted_set_config x))
             enc_skip)))"

definition Msg1scs_codec :: "per_lib \<Rightarrow> msg1scs per_codec" where
  "Msg1scs_codec L =
     enum_impl L ''Msg1scs''
       [Msg1scsScs15, Msg1scsScs30, Msg1scsScs60, Msg1scsScs120] 3 True"

definition L139Info_codec :: "per_lib \<Rightarrow> l139_info per_codec" where
  "L139Info_codec L =
     per_codec_impl ''L139Info''
       (dec_bind (decode_sequence_header L True 2) (\<lambda>(optionals, _).
        dec_bind (decode_of (Msg1scs_codec L)) (\<lambda>msg_1scs.
        dec_bind (decode_optional optionals 0 (decode_of (integer_codec L 0 137 False))) (\<lambda>root_sequence_index.
        dec_bind (decode_extension_container L optionals 1) (\<lambda>_.
        dec_return
          \<lparr>l139_info_msg_1scs = msg_1scs, l139_info_root_sequence_index = root_sequence_index\<rparr>)))))
       (\<lambda>x. enc_seq (encode_sequence_header L True [l139_info_root_sequence_index x \<noteq> None, False] False)
             (enc_seq (encode_of (Msg1scs_codec L) (l139_info_msg_1scs x))
             (enc_seq (encode_optional (encode_of (integer_codec L 0 137 False)) (l139_info_root_sequence_index x))
             enc_skip)))"

definition FreqDomainLength_codec :: "per_lib \<Rightarrow> freq_domain_length per_codec" where
  "FreqDomainLength_codec L =
     per_codec_impl ''FreqDomainLength''
       (dec_bind (decode_choice_idx L 0 2 False) (\<lambda>(idx, extended).
        if extended then dec_fail (per_codec_error_new ''CHOICE additions not implemented'')
        else if idx = 0 then dec_bind (decode_of (L839Info_codec L)) (\<lambda>x. dec_return (FreqDomainLengthL839 x))
        else if idx = 1 then dec_bind (decode_of (L139Info_codec L)) (\<lambda>x. dec_return (FreqDomainLengthL139 x))
        else if idx = 2 then decode_choice_extension L
        else dec_fail (per_codec_error_new ''Unknown choice idx'')))
       (\<lambda>x. case x of
          FreqDomainLengthL839 y \<Rightarrow> enc_seq (encode_choice_idx L 0 2 False 0 False) (encode_of (L839Info_codec L) y)
        | FreqDomainLengthL139 y \<Rightarrow> enc_seq (encode_choice_idx L 0 2 False 1 False) (encode_of (L139Info_codec L) y))"

definition NrPrachConfigItem_codec :: "per_lib \<Rightarrow> nr_prach_config_item per_codec" where
  "NrPrachConfigItem_codec L =
     per_codec_impl ''NrPrachConfigItem''
       (dec_bind (decode_sequence_header L True 1) (\<lambda>(optionals, _).
        dec_bind (decode_of (NrScs_codec L)) (\<lambda>nr_scs.
        dec_bind (decode_of (integer_codec L 0 274 True)) (\<lambda>prach_freq_startfrom_carrier.
        dec_bind (decode_of (Msg1fdm_codec L)) (\<lambda>msg_1fdm.
        dec_bind (decode_of (i128_codec L 0 255 True)) (\<lambda>parch_config_index.
        dec_bind (decode_of (SsbPerRachOccasion_codec L)) (\<lambda>ssb_per_rach_occasion.
        dec_bind (decode_of (FreqDomainLength_codec L)) (\<lambda>freq_domain_length.
        dec_bind (decode_of (integer_codec L 0 15 False)) (\<lambda>zero_correl_zone_config.
        dec_bind (decode_extension_container L optionals 0) (\<lambda>_.
        dec_return
          \<lparr>nr_prach_config_item_nr_scs = nr_scs,
           nr_prach_config_item_prach_freq_startfrom_carrier = prach_freq_startfrom_carrier,
           nr_prach_config_item_msg_1fdm = msg_1fdm,
           nr_prach_config_item_parch_config_index = parch_config_index,
           nr_prach_config_item_ssb_per_rach_occasion = ssb_per_rach_occasion,
           nr_prach_config_item_freq_domain_length = freq_domain_length,
           nr_prach_config_item_zero_correl_zone_config = zero_correl_zone_config\<rparr>))))))))))
       (\<lambda>x. enc_seq (encode_sequence_header L True [False] False)
             (enc_seq (encode_of (NrScs_codec L) (nr_prach_config_item_nr_scs x))
             (enc_seq (encode_of (integer_codec L 0 274 True) (nr_prach_config_item_prach_freq_startfrom_carrier x))
             (enc_seq (encode_of (Msg1fdm_codec L) (nr_prach_config_item_msg_1fdm x))
             (enc_seq (encode_of (i128_codec L 0 255 True) (nr_prach_config_item_parch_config_index x))
             (enc_seq (encode_of (SsbPerRachOccasion_codec L) (nr_prach_config_item_ssb_per_rach_occasion x))
             (enc_seq (encode_of (FreqDomainLength_codec L) (nr_prach_config_item_freq_domain_length x))
             (enc_seq (encode_of (integer_codec L 0 15 False) (nr_prach_config_item_zero_correl_zone_config x))
             enc_skip))))))))"

definition NrPrachConfigList_codec :: "per_lib \<Rightarrow> nr_prach_config_list per_codec" where
  "NrPrachConfigList_codec L = named ''NrPrachConfigList'' (vec_codec L 0 16 (NrPrachConfigItem_codec L))"

definition NrPrachConfig_codec :: "per_lib \<Rightarrow> nr_prach_config per_codec" where
  "NrPrachConfig_codec L =
     per_codec_impl ''NrPrachConfig''
       (dec_bind (decode_sequence_header L True 3) (\<lambda>(optionals, _).
        dec_bind (decode_optional optionals 0 (decode_of (NrPrachConfigList_codec L))) (\<lambda>ul_prach_config_list.
        dec_bind (decode_optional optionals 1 (decode_of (NrPrachConfigList_codec L))) (\<lambda>sul_prach_config_list.
        dec_bind (decode_extension_container L optionals 2) (\<lambda>_.
        dec_return
          \<lparr>nr_prach_config_ul_prach_config_list = ul_prach_config_list,
           nr_prach_config_sul_prach_config_list = sul_prach_config_list\<rparr>)))))
       (\<lambda>x. enc_seq (encode_sequence_header L True [nr_prach_config_ul_prach_config_list x \<noteq> None, nr_prach_config_sul_prach_config_list x \<noteq> None, False] False)
             (enc_seq (encode_optional (encode_of (NrPrachConfigList_codec L)) (nr_prach_config_ul_prach_config_list x))
             (enc_seq (encode_optional (encode_of (NrPrachConfigList_codec L)) (nr_prach_config_sul_prach_config_list x))
             enc_skip)))"

definition SfnOffset_codec :: "per_lib \<Rightarrow> sfn_offset per_codec" where
  "SfnOffset_codec L =
     per_codec_impl ''SfnOffset''
       (dec_bind (decode_sequence_header L True 1) (\<lambda>(optionals, _).
        dec_bind (decode_of (bitstring_codec L 24)) (\<lambda>sfn_time_offset.
        dec_bind (decode_extension_container L optionals 0) (\<lambda>_.
        dec_return
          \<lparr>sfn_offset_sfn_time_offset = sfn_time_offset\<rparr>))))
       (\<lambda>x. enc_seq (encode_sequence_header L True [False] False)
             (enc_seq (encode_of (bitstring_codec L 24) (sfn_offset_sfn_time_offset x))
             enc_skip))"

definition ServedCellInformation_decode_inner :: "per_lib \<Rightarrow> served_cell_information decoder" where
  "ServedCellInformation_decode_inner L =
     dec_bind (decode_sequence_header L True 3) (\<lambda>(optionals, _).
     dec_bind (decode_of (NrCgi_codec L)) (\<lambda>nr_cgi.
     dec_bind (decode_of (NrPci_codec L)) (\<lambda>nr_pci.
     dec_bind (decode_optional optionals 0 (decode_of (FiveGsTac_codec L))) (\<lambda>five_gs_tac.
     dec_bind (decode_optional optionals 1 (decode_of (ConfiguredEpsTac_codec L))) (\<lambda>configured_eps_tac.
     dec_bind (decode_of (ServedPlmnsList_codec L)) (\<lambda>served_plmns.
     dec_bind (decode_of (NrModeInfo_codec L)) (\<lambda>nr_mode_info.
     dec_bind (decode_of (octetstring_codec L)) (\<lambda>measurement_timing_configuration.
     decode_extensions L optionals 2
       [arm 139 (decode_of (Ranac_codec L)) served_cell_information_ranac_update,
        arm 196 (decode_of (ExtendedServedPlmnsList_codec L)) served_cell_information_extended_served_plmns_list_update,
        arm 201 (decode_of (CellDirection_codec L)) served_cell_information_cell_direction_update,
        arm 223 (decode_of (BPlmnIdInfoList_codec L)) served_cell_information_b_plmn_id_info_list_update,
        arm 232 (decode_of (CellType_codec L)) served_cell_information_cell_type_update,
        arm 425 (decode_of (ConfiguredTacIndication_codec L)) served_cell_information_configured_tac_indication_update,
        arm 251 (decode_of (AggressorGnbSetId_codec L)) served_cell_information_aggressor_gnb_set_id_update,
        arm 252 (decode_of (VictimGnbSetId_codec L)) served_cell_information_victim_gnb_set_id_update,
        arm 290 (decode_of (IabInfoIabDu_codec L)) served_cell_information_iab_info_iab_du_update,
        arm 357 (decode_of (SsbPositionsInBurst_codec L)) served_cell_information_ssb_positions_in_burst_update,
        arm 358 (decode_of (NrPrachConfig_codec L)) served_cell_information_nr_prach_config_update,
        arm 429 (decode_of (SfnOffset_codec L)) served_cell_information_sfn_offset_update]
       \<lparr>served_cell_information_nr_cgi = nr_cgi, served_cell_information_nr_pci = nr_pci,
        served_cell_information_five_gs_tac = five_gs_tac,
        served_cell_information_configured_eps_tac = configured_eps_tac,
        served_cell_information_served_plmns = served_plmns,
        served_cell_information_nr_mode_info = nr_mode_info,
        served_cell_information_measurement_timing_configuration = measurement_timing_configuration,
        served_cell_information_ranac = None,
        served_cell_information_extended_served_plmns_list = None,
        served_cell_information_cell_direction = None,
        served_cell_information_b_plmn_id_info_list = None,
        served_cell_information_cell_type = None,
        served_cell_information_configured_tac_indication = None,
        served_cell_information_aggressor_gnb_set_id = None,
        served_cell_information_victim_gnb_set_id = None,
        served_cell_information_iab_info_iab_du = None,
        served_cell_information_ssb_positions_in_burst = None,
        served_cell_information_nr_prach_config = None, served_cell_information_sfn_offset = None\<rparr>))))))))"

definition ServedCellInformation_encode_inner :: "per_lib \<Rightarrow> served_cell_information \<Rightarrow> encoder" where
  "ServedCellInformation_encode_inner L x =
     with_extensions L
       (opt_ie 139 Ignore (Ranac_codec L) (served_cell_information_ranac x) @
        opt_ie 196 Ignore (ExtendedServedPlmnsList_codec L) (served_cell_information_extended_served_plmns_list x) @
        opt_ie 201 Ignore (CellDirection_codec L) (served_cell_information_cell_direction x) @
        opt_ie 223 Ignore (BPlmnIdInfoList_codec L) (served_cell_information_b_plmn_id_info_list x) @
        opt_ie 232 Ignore (CellType_codec L) (served_cell_information_cell_type x) @
        opt_ie 425 Ignore (ConfiguredTacIndication_codec L) (served_cell_information_configured_tac_indication x) @
        opt_ie 251 Ignore (AggressorGnbSetId_codec L) (served_cell_information_aggressor_gnb_set_id x) @
        opt_ie 252 Ignore (VictimGnbSetId_codec L) (served_cell_information_victim_gnb_set_id x) @
        opt_ie 290 Ignore (IabInfoIabDu_codec L) (served_cell_information_iab_info_iab_du x) @
        opt_ie 357 Ignore (SsbPositionsInBurst_codec L) (served_cell_information_ssb_positions_in_burst x) @
        opt_ie 358 Ignore (NrPrachConfig_codec L) (served_cell_information_nr_prach_config x) @
        opt_ie 429 Ignore (SfnOffset_codec L) (served_cell_information_sfn_offset x)) (\<lambda>num_ies ies.
       enc_seq (encode_sequence_header L True [served_cell_information_five_gs_tac x \<noteq> None, served_cell_information_configured_eps_tac x \<noteq> None, num_ies \<noteq> 0] False)
       (enc_seq (encode_of (NrCgi_codec L) (served_cell_information_nr_cgi x))
       (enc_seq (encode_of (NrPci_codec L) (served_cell_information_nr_pci x))
       (enc_seq (encode_optional (encode_of (FiveGsTac_codec L)) (served_cell_information_five_gs_tac x))
       (enc_seq (encode_optional (encode_of (ConfiguredEpsTac_codec L)) (served_cell_information_configured_eps_tac x))
       (enc_seq (encode_of (ServedPlmnsList_codec L) (served_cell_information_served_plmns x))
       (enc_seq (encode_of (NrModeInfo_codec L) (served_cell_information_nr_mode_info x))
       (enc_seq (encode_of (octetstring_codec L) (served_cell_information_measurement_timing_configuration x))
       (encode_extensions L num_ies ies)))))))))"

definition ServedCellInformation_codec :: "per_lib \<Rightarrow> served_cell_information per_codec" where
  "ServedCellInformation_codec L =
     per_codec_impl ''ServedCellInformation'' (ServedCellInformation_decode_inner L) (ServedCellInformation_encode_inner L)"

definition MibMessage_codec :: "per_lib \<Rightarrow> mib_message per_codec" where
  "MibMessage_codec L = named ''MibMessage'' (octetstring_codec L)"

definition Sib1Message_codec :: "per_lib \<Rightarrow> sib1_message per_codec" where
  "Sib1Message_codec L = named ''Sib1Message'' (octetstring_codec L)"

definition Sib12Message_codec :: "per_lib \<Rightarrow> sib12_message per_codec" where
  "Sib12Message_codec L = named ''Sib12Message'' (octetstring_codec L)"

definition Sib13Message_codec :: "per_lib \<Rightarrow> sib13_message per_codec" where
  "Sib13Message_codec L = named ''Sib13Message'' (octetstring_codec L)"

definition Sib14Message_codec :: "per_lib \<Rightarrow> sib14_message per_codec" where
  "Sib14Message_codec L = named ''Sib14Message'' (octetstring_codec L)"

definition Sib10Message_codec :: "per_lib \<Rightarrow> sib10_message per_codec" where
  "Sib10Message_codec L = named ''Sib10Message'' (octetstring_codec L)"

definition GnbDuSystemInformation_codec :: "per_lib \<Rightarrow> gnb_du_system_information per_codec" where
  "GnbDuSystemInformation_codec L =
     per_codec_impl ''GnbDuSystemInformation''
       (dec_bind (decode_sequence_header L True 1) (\<lambda>(optionals, _).
        dec_bind (decode_of (MibMessage_codec L)) (\<lambda>mib_message.
        dec_bind (decode_of (Sib1Message_codec L)) (\<lambda>sib_1_message.
        decode_extensions L optionals 0
          [arm 310 (decode_of (Sib12Message_codec L)) gnb_du_system_information_sib_12_message_update,
           arm 311 (decode_of (Sib13Message_codec L)) gnb_du_system_information_sib_13_message_update,
           arm 312 (decode_of (Sib14Message_codec L)) gnb_du_system_information_sib_14_message_update,
           arm 387 (decode_of (Sib10Message_codec L)) gnb_du_system_information_sib_10_message_update]
          \<lparr>gnb_du_system_information_mib_message = mib_message,
           gnb_du_system_information_sib_1_message = sib_1_message,
           gnb_du_system_information_sib_12_message = None,
           gnb_du_system_information_sib_13_message = None,
           gnb_du_system_information_sib_14_message = None,
           gnb_du_system_information_sib_10_message = None\<rparr>))))
       (\<lambda>x. with_extensions L
               (opt_ie 310 Ignore (Sib12Message_codec L) (gnb_du_system_information_sib_12_message x) @
                opt_ie 311 Ignore (Sib13Message_codec L) (gnb_du_system_information_sib_13_message x) @
                opt_ie 312 Ignore (Sib14Message_codec L) (gnb_du_system_information_sib_14_message x) @
                opt_ie 387 Ignore (Sib10Message_codec L) (gnb_du_system_information_sib_10_message x)) (\<lambda>num_ies ies.
               enc_seq (encode_sequence_header L True [num_ies \<noteq> 0] False)
               (enc_seq (encode_of (MibMessage_codec L) (gnb_du_system_information_mib_message x))
               (enc_seq (encode_of (Sib1Message_codec L) (gnb_du_system_information_sib_1_message x))
               (encode_extensions L num_ies ies)))))"

definition GnbDuServedCellsItem_codec :: "per_lib \<Rightarrow> gnb_du_served_cells_item per_codec" where
  "GnbDuServedCellsItem_codec L =
     per_codec_impl ''GnbDuServedCellsItem''
       (dec_bind (decode_sequence_header L True 2) (\<lambda>(optionals, _).
        dec_bind (decode_of (ServedCellInformation_codec L)) (\<lambda>served_cell_information.
        dec_bind (decode_optional optionals 0 (decode_of (GnbDuSystemInformation_codec L))) (\<lambda>gnb_du_system_information.
        dec_bind (decode_extension_container L optionals 1) (\<lambda>_.
        dec_return
          \<lparr>gnb_du_served_cells_item_served_cell_information = served_cell_information,
           gnb_du_served_cells_item_gnb_du_system_information = gnb_du_system_information\<rparr>)))))
       (\<lambda>x. enc_seq (encode_sequence_header L True [gnb_du_served_cells_item_gnb_du_system_information x \<noteq> None, False] False)
             (enc_seq (encode_of (ServedCellInformation_codec L) (gnb_du_served_cells_item_served_cell_information x))
             (enc_seq (encode_optional (encode_of (GnbDuSystemInformation_codec L)) (gnb_du_served_cells_item_gnb_du_system_information x))
             enc_skip)))"

definition GnbDuServedCellsList_codec :: "per_lib \<Rightarrow> gnb_du_served_cells_list per_codec" where
  "GnbDuServedCellsList_codec L =
     named ''GnbDuServedCellsList'' (non_empty (ie_vec_codec L 1 512 43 Reject (GnbDuServedCellsItem_codec L)))"

definition RrcVersion_codec :: "per_lib \<Rightarrow> rrc_version per_codec" where
  "RrcVersion_codec L =
     per_codec_impl ''RrcVersion''
       (dec_bind (decode_sequence_header L False 1) (\<lambda>(optionals, _).
        dec_bind (decode_of (bitstring_codec L 3)) (\<lambda>latest_rrc_version.
        decode_extensions L optionals 0
          [arm 199 (decode_of (array_codec L 3)) rrc_version_latest_rrc_version_enhanced_update]
          \<lparr>rrc_version_latest_rrc_version = latest_rrc_version,
           rrc_version_latest_rrc_version_enhanced = None\<rparr>)))
       (\<lambda>x. with_extensions L
               (opt_ie 199 Ignore (array_codec L 3) (rrc_version_latest_rrc_version_enhanced x)) (\<lambda>num_ies ies.
               enc_seq (encode_sequence_header L False [num_ies \<noteq> 0] False)
               (enc_seq (encode_of (bitstring_codec L 3) (rrc_version_latest_rrc_version x))
               (encode_extensions L num_ies ies))))"

definition GtptlaItem_codec :: "per_lib \<Rightarrow> gtptla_item per_codec" where
  "GtptlaItem_codec L =
     per_codec_impl ''GtptlaItem''
       (dec_bind (decode_sequence_header L False 1) (\<lambda>(optionals, _).
        dec_bind (decode_of (TransportLayerAddress_codec L)) (\<lambda>gtp_transport_layer_address.
        dec_bind (decode_extension_container L optionals 0) (\<lambda>_.
        dec_return
          \<lparr>gtptla_item_gtp_transport_layer_address = gtp_transport_layer_address\<rparr>))))
       (\<lambda>x. enc_seq (encode_sequence_header L False [False] False)
             (enc_seq (encode_of (TransportLayerAddress_codec L) (gtptla_item_gtp_transport_layer_address x))
             enc_skip))"

definition GtptlAs_codec :: "per_lib \<Rightarrow> gtptl_as per_codec" where
  "GtptlAs_codec L = named ''GtptlAs'' (non_empty (vec_codec L 1 16 (GtptlaItem_codec L)))"

definition TransportUpLayerAddressInfoToAddItem_codec :: "per_lib \<Rightarrow> transport_up_layer_address_info_to_add_item per_codec" where
  "TransportUpLayerAddressInfoToAddItem_codec L =
     per_codec_impl ''TransportUpLayerAddressInfoToAddItem''
       (dec_bind (decode_sequence_header L False 2) (\<lambda>(optionals, _).
        dec_bind (decode_of (TransportLayerAddress_codec L)) (\<lambda>ip_sec_transport_layer_address.
        dec_bind (decode_optional optionals 0 (decode_of (GtptlAs_codec L))) (\<lambda>gtp_transport_layer_address_to_add.
        dec_bind (decode_extension_container L optionals 1) (\<lambda>_.
        dec_return
          \<lparr>transport_up_layer_address_info_to_add_item_ip_sec_transport_layer_address = ip_sec_transport_layer_address,
           transport_up_layer_address_info_to_add_item_gtp_transport_layer_address_to_add = gtp_transport_layer_address_to_add\<rparr>)))))
       (\<lambda>x. enc_seq (encode_sequence_header L False [transport_up_layer_address_info_to_add_item_gtp_transport_layer_address_to_add x \<noteq> None, False] False)
             (enc_seq (encode_of (TransportLayerAddress_codec L) (transport_up_layer_address_info_to_add_item_ip_sec_transport_layer_address x))
             (enc_seq (encode_optional (encode_of (GtptlAs_codec L)) (transport_up_layer_address_info_to_add_item_gtp_transport_layer_address_to_add x))
             enc_skip)))"

definition TransportUpLayerAddressInfoToAddList_codec :: "per_lib \<Rightarrow> transport_up_layer_address_info_to_add_list per_codec" where
  "TransportUpLayerAddressInfoToAddList_codec L =
     named ''TransportUpLayerAddressInfoToAddList'' (non_empty (vec_codec L 1 16 (TransportUpLayerAddressInfoToAddItem_codec L)))"

definition TransportUpLayerAddressInfoToRemoveItem_codec :: "per_lib \<Rightarrow> transport_up_layer_address_info_to_remove_item per_codec" where
  "TransportUpLayerAddressInfoToRemoveItem_codec L =
     per_codec_impl ''TransportUpLayerAddressInfoToRemoveItem''
       (dec_bind (decode_sequence_header L False 2) (\<lambda>(optionals, _).
        dec_bind (decode_of (TransportLayerAddress_codec L)) (\<lambda>ip_sec_transport_layer_address.
        dec_bind (decode_optional optionals 0 (decode_of (GtptlAs_codec L))) (\<lambda>gtp_transport_layer_address_to_remove.
        dec_bind (decode_extension_container L optionals 1) (\<lambda>_.
        dec_return
          \<lparr>transport_up_layer_address_info_to_remove_item_ip_sec_transport_layer_address = ip_sec_transport_layer_address,
           transport_up_layer_address_info_to_remove_item_gtp_transport_layer_address_to_remove = gtp_transport_layer_address_to_remove\<rparr>)))))
       (\<lambda>x. enc_seq (encode_sequence_header L False [transport_up_layer_address_info_to_remove_item_gtp_transport_layer_address_to_remove x \<noteq> None, False] False)
             (enc_seq (encode_of (TransportLayerAddress_codec L) (transport_up_layer_address_info_to_remove_item_ip_sec_transport_layer_address x))
             (enc_seq (encode_optional (encode_of (GtptlAs_codec L)) (transport_up_layer_address_info_to_remove_item_gtp_transport_layer_address_to_remove x))
             enc_skip)))"

definition TransportUpLayerAddressInfoToRemoveList_codec :: "per_lib \<Rightarrow> transport_up_layer_address_info_to_remove_list per_codec" where
  "TransportUpLayerAddressInfoToRemoveList_codec L =
     named ''TransportUpLayerAddressInfoToRemoveList'' (non_empty (vec_codec L 1 16 (TransportUpLayerAddressInfoToRemoveItem_codec L)))"

definition TransportLayerAddressInfo_codec :: "per_lib \<Rightarrow> transport_layer_address_info per_codec" where
  "TransportLayerAddressInfo_codec L =
     per_codec_impl ''TransportLayerAddressInfo''
       (dec_bind (decode_sequence_header L False 3) (\<lambda>(optionals, _).
        dec_bind (decode_optional optionals 0 (decode_of (TransportUpLayerAddressInfoToAddList_codec L))) (\<lambda>transport_up_layer_address_info_to_add_list.
        dec_bind (decode_optional optionals 1 (decode_of (TransportUpLayerAddressInfoToRemoveList_codec L))) (\<lambda>transport_up_layer_address_info_to_remove_list.
        dec_bind (decode_extension_container L optionals 2) (\<lambda>_.
        dec_return
          \<lparr>transport_layer_address_info_transport_up_layer_address_info_to_add_list = transport_up_layer_address_info_to_add_list,
           transport_layer_address_info_transport_up_layer_address_info_to_remove_list = transport_up_layer_address_info_to_remove_list\<rparr>)))))
       (\<lambda>x. enc_seq (encode_sequence_header L False [transport_layer_address_info_transport_up_layer_address_info_to_add_list x \<noteq> None, transport_layer_address_info_transport_up_layer_address_info_to_remove_list x \<noteq> None, False] False)
             (enc_seq (encode_optional (encode_of (TransportUpLayerAddressInfoToAddList_codec L)) (transport_layer_address_info_transport_up_layer_address_info_to_add_list x))
             (enc_seq (encode_optional (encode_of (TransportUpLayerAddressInfoToRemoveList_codec L)) (transport_layer_address_info_transport_up_layer_address_info_to_remove_list x))
             enc_skip)))"

definition GnbCuNameVisibleString_codec :: "per_lib \<Rightarrow> gnb_cu_name_visible_string per_codec" where
  "GnbCuNameVisibleString_codec L = named ''GnbCuNameVisibleString'' (visible_codec L 1 150 True)"

definition GnbCuNameUtf8String_codec :: "per_lib \<Rightarrow> gnb_cu_name_utf8_string per_codec" where
  "GnbCuNameUtf8String_codec L = named ''GnbCuNameUtf8String'' (utf8_codec L 1 150 True)"

definition ExtendedGnbCuName_codec :: "per_lib \<Rightarrow> extended_gnb_cu_name per_codec" where
  "ExtendedGnbCuName_codec L =
     per_codec_impl ''ExtendedGnbCuName''
       (dec_bind (decode_sequence_header L True 3) (\<lambda>(optionals, _).
        dec_bind (decode_optional optionals 0 (decode_of (GnbCuNameVisibleString_codec L))) (\<lambda>gnb_cu_name_visible_string.
        dec_bind (decode_optional optionals 1 (decode_of (GnbCuNameUtf8String_codec L))) (\<lambda>gnb_cu_name_utf8_string.
        dec_bind (decode_extension_container L optionals 2) (\<lambda>_.
        dec_return
          \<lparr>extended_gnb_cu_name_gnb_cu_name_visible_string = gnb_cu_name_visible_string,
           extended_gnb_cu_name_gnb_cu_name_utf8_string = gnb_cu_name_utf8_string\<rparr>)))))
       (\<lambda>x. enc_seq (encode_sequence_header L True [extended_gnb_cu_name_gnb_cu_name_visible_string x \<noteq> None, extended_gnb_cu_name_gnb_cu_name_utf8_string x \<noteq> None, False] False)
             (enc_seq (encode_optional (encode_of (GnbCuNameVisibleString_codec L)) (extended_gnb_cu_name_gnb_cu_name_visible_string x))
             (enc_seq (encode_optional (encode_of (GnbCuNameUtf8String_codec L)) (extended_gnb_cu_name_gnb_cu_name_utf8_string x))
             enc_skip)))"

definition GnbCuName_codec :: "per_lib \<Rightarrow> gnb_cu_name per_codec" where
  "GnbCuName_codec L = named ''GnbCuName'' (printable_codec L 1 150 True)"

definition AreaScope_codec :: "per_lib \<Rightarrow> area_scope per_codec" where
  "AreaScope_codec L =
     enum_impl L ''AreaScope''
       [AreaScopeTrue] 0 True"

definition SibTypeToBeUpdatedListItem_codec :: "per_lib \<Rightarrow> sib_type_to_be_updated_list_item per_codec" where
  "SibTypeToBeUpdatedListItem_codec L =
     per_codec_impl ''SibTypeToBeUpdatedListItem''
       (dec_bind (decode_sequence_header L True 1) (\<lambda>(optionals, _).
        dec_bind (decode_of (integer_codec L 2 32 True)) (\<lambda>sib_type.
        dec_bind (decode_of (octetstring_codec L)) (\<lambda>sib_message.
        dec_bind (decode_of (integer_codec L 0 31 True)) (\<lambda>value_tag.
        decode_extensions L optionals 0
          [arm 240 (decode_of (AreaScope_codec L)) sib_type_to_be_updated_list_item_area_scope_update]
          \<lparr>sib_type_to_be_updated_list_item_sib_type = sib_type,
           sib_type_to_be_updated_list_item_sib_message = sib_message,
           sib_type_to_be_updated_list_item_value_tag = value_tag,
           sib_type_to_be_updated_list_item_area_scope = None\<rparr>)))))
       (\<lambda>x. with_extensions L
               (opt_ie 240 Ignore (AreaScope_codec L) (sib_type_to_be_updated_list_item_area_scope x)) (\<lambda>num_ies ies.
               enc_seq (encode_sequence_header L True [num_ies \<noteq> 0] False)
               (enc_seq (encode_of (integer_codec L 2 32 True) (sib_type_to_be_updated_list_item_sib_type x))
               (enc_seq (encode_of (octetstring_codec L) (sib_type_to_be_updated_list_item_sib_message x))
               (enc_seq (encode_of (integer_codec L 0 31 True) (sib_type_to_be_updated_list_item_value_tag x))
               (encode_extensions L num_ies ies))))))"

definition SystemInformationAreaId_codec :: "per_lib \<Rightarrow> system_information_area_id per_codec" where
  "SystemInformationAreaId_codec L = named ''SystemInformationAreaId'' (bitstring_codec L 24)"

definition GnbCuSystemInformation_codec :: "per_lib \<Rightarrow> gnb_cu_system_information per_codec" where
  "GnbCuSystemInformation_codec L =
     per_codec_impl ''GnbCuSystemInformation''
       (dec_bind (decode_sequence_header L True 1) (\<lambda>(optionals, _).
        dec_bind (decode_of (non_empty (vec_codec L 1 32 (SibTypeToBeUpdatedListItem_codec L)))) (\<lambda>sib_type_to_be_updated_list.
        decode_extensions L optionals 0
          [arm 239 (decode_of (SystemInformationAreaId_codec L)) gnb_cu_system_information_system_information_area_id_update]
          \<lparr>gnb_cu_system_information_sib_type_to_be_updated_list = sib_type_to_be_updated_list,
           gnb_cu_system_information_system_information_area_id = None\<rparr>)))
       (\<lambda>x. with_extensions L
               (opt_ie 239 Ignore (SystemInformationAreaId_codec L) (gnb_cu_system_information_system_information_area_id x)) (\<lambda>num_ies ies.
               enc_seq (encode_sequence_header L True [num_ies \<noteq> 0] False)
               (enc_seq (encode_of (non_empty (vec_codec L 1 32 (SibTypeToBeUpdatedListItem_codec L))) (gnb_cu_system_information_sib_type_to_be_updated_list x))
               (encode_extensions L num_ies ies))))"

definition IabInfoIabDonorCu_codec :: "per_lib \<Rightarrow> iab_info_iab_donor_cu per_codec" where
  "IabInfoIabDonorCu_codec L =
     per_codec_impl ''IabInfoIabDonorCu''
       (dec_bind (decode_sequence_header L False 2) (\<lambda>(optionals, _).
        dec_bind (decode_optional optionals 0 (decode_of (IabStcInfo_codec L))) (\<lambda>iab_stc_info.
        dec_bind (decode_extension_container L optionals 1) (\<lambda>_.
        dec_return
          \<lparr>iab_info_iab_donor_cu_iab_stc_info = iab_stc_info\<rparr>))))
       (\<lambda>x. enc_seq (encode_sequence_header L False [iab_info_iab_donor_cu_iab_stc_info x \<noteq> None, False] False)
             (enc_seq (encode_optional (encode_of (IabStcInfo_codec L)) (iab_info_iab_donor_cu_iab_stc_info x))
             enc_skip))"

definition AvailableSnpnIdListItem_codec :: "per_lib \<Rightarrow> available_snpn_id_list_item per_codec" where
  "AvailableSnpnIdListItem_codec L =
     per_codec_impl ''AvailableSnpnIdListItem''
       (dec_bind (decode_sequence_header L True 1) (\<lambda>(optionals, _).
        dec_bind (decode_of (PlmnIdentity_codec L)) (\<lambda>plmn_identity.
        dec_bind (decode_of (BroadcastNidList_codec L)) (\<lambda>available_nid_list.
        dec_bind (decode_extension_container L optionals 0) (\<lambda>_.
        dec_return
          \<lparr>available_snpn_id_list_item_plmn_identity = plmn_identity,
           available_snpn_id_list_item_available_nid_list = available_nid_list\<rparr>)))))
       (\<lambda>x. enc_seq (encode_sequence_header L True [False] False)
             (enc_seq (encode_of (PlmnIdentity_codec L) (available_snpn_id_list_item_plmn_identity x))
             (enc_seq (encode_of (BroadcastNidList_codec L) (available_snpn_id_list_item_available_nid_list x))
             enc_skip)))"

definition AvailableSnpnIdList_codec :: "per_lib \<Rightarrow> available_snpn_id_list per_codec" where
  "AvailableSnpnIdList_codec L =
     named ''AvailableSnpnIdList'' (non_empty (vec_codec L 1 12 (AvailableSnpnIdListItem_codec L)))"

definition CellsToBeActivatedListItem_codec :: "per_lib \<Rightarrow> cells_to_be_activated_list_item per_codec" where
  "CellsToBeActivatedListItem_codec L =
     per_codec_impl ''CellsToBeActivatedListItem''
       (dec_bind (decode_sequence_header L True 2) (\<lambda>(optionals, _).
        dec_bind (decode_of (NrCgi_codec L)) (\<lambda>nr_cgi.
        dec_bind (decode_optional optionals 0 (decode_of (NrPci_codec L))) (\<lambda>nr_pci.
        decode_extensions L optionals 1
          [arm 118 (decode_of (GnbCuSystemInformation_codec L)) cells_to_be_activated_list_item_gnb_cu_system_information_update,
           arm 179 (decode_of (AvailablePlmnList_codec L)) cells_to_be_activated_list_item_available_plmn_list_update,
           arm 197 (decode_of (ExtendedAvailablePlmnList_codec L)) cells_to_be_activated_list_item_extended_available_plmn_list_update,
           arm 291 (decode_of (IabInfoIabDonorCu_codec L)) cells_to_be_activated_list_item_iab_info_iab_donor_cu_update,
           arm 386 (decode_of (AvailableSnpnIdList_codec L)) cells_to_be_activated_list_item_available_snpn_id_list_update]
          \<lparr>cells_to_be_activated_list_item_nr_cgi = nr_cgi,
           cells_to_be_activated_list_item_nr_pci = nr_pci,
           cells_to_be_activated_list_item_gnb_cu_system_information = None,
           cells_to_be_activated_list_item_available_plmn_list = None,
           cells_to_be_activated_list_item_extended_available_plmn_list = None,
           cells_to_be_activated_list_item_iab_info_iab_donor_cu = None,
           cells_to_be_activated_list_item_available_snpn_id_list = None\<rparr>))))
       (\<lambda>x. with_extensions L
               (opt_ie 118 Reject (GnbCuSystemInformation_codec L) (cells_to_be_activated_list_item_gnb_cu_system_information x) @
                opt_ie 179 Ignore (AvailablePlmnList_codec L) (cells_to_be_activated_list_item_available_plmn_list x) @
                opt_ie 197 Ignore (ExtendedAvailablePlmnList_codec L) (cells_to_be_activated_list_item_extended_available_plmn_list x) @
                opt_ie 291 Ignore (IabInfoIabDonorCu_codec L) (cells_to_be_activated_list_item_iab_info_iab_donor_cu x) @
                opt_ie 386 Ignore (AvailableSnpnIdList_codec L) (cells_to_be_activated_list_item_available_snpn_id_list x)) (\<lambda>num_ies ies.
               enc_seq (encode_sequence_header L True [cells_to_be_activated_list_item_nr_pci x \<noteq> None, num_ies \<noteq> 0] False)
               (enc_seq (encode_of (NrCgi_codec L) (cells_to_be_activated_list_item_nr_cgi x))
               (enc_seq (encode_optional (encode_of (NrPci_codec L)) (cells_to_be_activated_list_item_nr_pci x))
               (encode_extensions L num_ies ies)))))"

definition CellsToBeActivatedList_codec :: "per_lib \<Rightarrow> cells_to_be_activated_list per_codec" where
  "CellsToBeActivatedList_codec L =
     named ''CellsToBeActivatedList'' (non_empty (ie_vec_codec L 1 512 4 Reject (CellsToBeActivatedListItem_codec L)))"

definition NonUpTrafficType_codec :: "per_lib \<Rightarrow> non_up_traffic_type per_codec" where
  "NonUpTrafficType_codec L =
     enum_impl L ''NonUpTrafficType''
       [NonUpTrafficTypeUeAssociated, NonUpTrafficTypeNonUeAssociated, NonUpTrafficTypeNonF1,
        NonUpTrafficTypeBapControlPdu] 3 True"

definition UlBhNonUpTrafficMappingItem_codec :: "per_lib \<Rightarrow> ul_bh_non_up_traffic_mapping_item per_codec" where
  "UlBhNonUpTrafficMappingItem_codec L =
     per_codec_impl ''UlBhNonUpTrafficMappingItem''
       (dec_bind (decode_sequence_header L False 1) (\<lambda>(optionals, _).
        dec_bind (decode_of (NonUpTrafficType_codec L)) (\<lambda>non_up_traffic_type.
        dec_bind (decode_of (BhInfo_codec L)) (\<lambda>bh_info.
        dec_bind (decode_extension_container L optionals 0) (\<lambda>_.
        dec_return
          \<lparr>ul_bh_non_up_traffic_mapping_item_non_up_traffic_type = non_up_traffic_type,
           ul_bh_non_up_traffic_mapping_item_bh_info = bh_info\<rparr>)))))
       (\<lambda>x. enc_seq (encode_sequence_header L False [False] False)
             (enc_seq (encode_of (NonUpTrafficType_codec L) (ul_bh_non_up_traffic_mapping_item_non_up_traffic_type x))
             (enc_seq (encode_of (BhInfo_codec L) (ul_bh_non_up_traffic_mapping_item_bh_info x))
             enc_skip)))"

definition UlBhNonUpTrafficMappingList_codec :: "per_lib \<Rightarrow> ul_bh_non_up_traffic_mapping_list per_codec" where
  "UlBhNonUpTrafficMappingList_codec L =
     named ''UlBhNonUpTrafficMappingList'' (non_empty (vec_codec L 1 32 (UlBhNonUpTrafficMappingItem_codec L)))"

definition UlBhNonUpTrafficMapping_codec :: "per_lib \<Rightarrow> ul_bh_non_up_traffic_mapping per_codec" where
  "UlBhNonUpTrafficMapping_codec L =
     per_codec_impl ''UlBhNonUpTrafficMapping''
       (dec_bind (decode_sequence_header L False 1) (\<lambda>(optionals, _).
        dec_bind (decode_of (UlBhNonUpTrafficMappingList_codec L)) (\<lambda>ul_bh_non_up_traffic_mapping_list.
        dec_bind (decode_extension_container L optionals 0) (\<lambda>_.
        dec_return
          \<lparr>ul_bh_non_up_traffic_mapping_ul_bh_non_up_traffic_mapping_list = ul_bh_non_up_traffic_mapping_list\<rparr>))))
       (\<lambda>x. enc_seq (encode_sequence_header L False [False] False)
             (enc_seq (encode_of (UlBhNonUpTrafficMappingList_codec L) (ul_bh_non_up_traffic_mapping_ul_bh_non_up_traffic_mapping_list x))
             enc_skip))"

definition GnbDuNameVisibleString_codec :: "per_lib \<Rightarrow> gnb_du_name_visible_string per_codec" where
  "GnbDuNameVisibleString_codec L = named ''GnbDuNameVisibleString'' (visible_codec L 1 150 True)"

definition GnbDuNameUtf8String_codec :: "per_lib \<Rightarrow> gnb_du_name_utf8_string per_codec" where
  "GnbDuNameUtf8String_codec L = named ''GnbDuNameUtf8String'' (utf8_codec L 1 150 True)"

definition ExtendedGnbDuName_codec :: "per_lib \<Rightarrow> extended_gnb_du_name per_codec" where
  "ExtendedGnbDuName_codec L =
     per_codec_impl ''ExtendedGnbDuName''
       (dec_bind (decode_sequence_header L True 3) (\<lambda>(optionals, _).
        dec_bind (decode_optional optionals 0 (decode_of (GnbDuNameVisibleString_codec L))) (\<lambda>gnb_du_name_visible_string.
        dec_bind (decode_optional optionals 1 (decode_of (GnbDuNameUtf8String_codec L))) (\<lambda>gnb_du_name_utf8_string.
        dec_bind (decode_extension_container L optionals 2) (\<lambda>_.
        dec_return
          \<lparr>extended_gnb_du_name_gnb_du_name_visible_string = gnb_du_name_visible_string,
           extended_gnb_du_name_gnb_du_name_utf8_string = gnb_du_name_utf8_string\<rparr>)))))
       (\<lambda>x. enc_seq (encode_sequence_header L True [extended_gnb_du_name_gnb_du_name_visible_string x \<noteq> None, extended_gnb_du_name_gnb_du_name_utf8_string x \<noteq> None, False] False)
             (enc_seq (encode_optional (encode_of (GnbDuNameVisibleString_codec L)) (extended_gnb_du_name_gnb_du_name_visible_string x))
             (enc_seq (encode_optional (encode_of (GnbDuNameUtf8String_codec L)) (extended_gnb_du_name_gnb_du_name_utf8_string x))
             enc_skip)))"

definition ServedCellsToAddItem_codec :: "per_lib \<Rightarrow> served_cells_to_add_item per_codec" where
  "ServedCellsToAddItem_codec L =
     per_codec_impl ''ServedCellsToAddItem''
       (dec_bind (decode_sequence_header L True 2) (\<lambda>(optionals, _).
        dec_bind (decode_of (ServedCellInformation_codec L)) (\<lambda>served_cell_information.
        dec_bind (decode_optional optionals 0 (decode_of (GnbDuSystemInformation_codec L))) (\<lambda>gnb_du_system_information.
        dec_bind (decode_extension_container L optionals 1) (\<lambda>_.
        dec_return
          \<lparr>served_cells_to_add_item_served_cell_information = served_cell_information,
           served_cells_to_add_item_gnb_du_system_information = gnb_du_system_information\<rparr>)))))
       (\<lambda>x. enc_seq (encode_sequence_header L True [served_cells_to_add_item_gnb_du_system_information x \<noteq> None, False] False)
             (enc_seq (encode_of (ServedCellInformation_codec L) (served_cells_to_add_item_served_cell_information x))
             (enc_seq (encode_optional (encode_of (GnbDuSystemInformation_codec L)) (served_cells_to_add_item_gnb_du_system_information x))
             enc_skip)))"

definition ServedCellsToAddList_codec :: "per_lib \<Rightarrow> served_cells_to_add_list per_codec" where
  "ServedCellsToAddList_codec L =
     named ''ServedCellsToAddList'' (non_empty (ie_vec_codec L 1 512 57 Reject (ServedCellsToAddItem_codec L)))"

definition ServedCellsToModifyItem_codec :: "per_lib \<Rightarrow> served_cells_to_modify_item per_codec" where
  "ServedCellsToModifyItem_codec L =
     per_codec_impl ''ServedCellsToModifyItem''
       (dec_bind (decode_sequence_header L True 2) (\<lambda>(optionals, _).
        dec_bind (decode_of (NrCgi_codec L)) (\<lambda>old_nr_cgi.
        dec_bind (decode_of (ServedCellInformation_codec L)) (\<lambda>served_cell_information.
        dec_bind (decode_optional optionals 0 (decode_of (GnbDuSystemInformation_codec L))) (\<lambda>gnb_du_system_information.
        dec_bind (decode_extension_container L optionals 1) (\<lambda>_.
        dec_return
          \<lparr>served_cells_to_modify_item_old_nr_cgi = old_nr_cgi,
           served_cells_to_modify_item_served_cell_information = served_cell_information,
           served_cells_to_modify_item_gnb_du_system_information = gnb_du_system_information\<rparr>))))))
       (\<lambda>x. enc_seq (encode_sequence_header L True [served_cells_to_modify_item_gnb_du_system_information x \<noteq> None, False] False)
             (enc_seq (encode_of (NrCgi_codec L) (served_cells_to_modify_item_old_nr_cgi x))
             (enc_seq (encode_of (ServedCellInformation_codec L) (served_cells_to_modify_item_served_cell_information x))
             (enc_seq (encode_optional (encode_of (GnbDuSystemInformation_codec L)) (served_cells_to_modify_item_gnb_du_system_information x))
             enc_skip))))"

definition ServedCellsToModifyList_codec :: "per_lib \<Rightarrow> served_cells_to_modify_list per_codec" where
  "ServedCellsToModifyList_codec L =
     named ''ServedCellsToModifyList'' (non_empty (ie_vec_codec L 1 512 61 Reject (ServedCellsToModifyItem_codec L)))"

definition ServedCellsToDeleteItem_codec :: "per_lib \<Rightarrow> served_cells_to_delete_item per_codec" where
  "ServedCellsToDeleteItem_codec L =
     per_codec_impl ''ServedCellsToDeleteItem''
       (dec_bind (decode_sequence_header L True 1) (\<lambda>(optionals, _).
        dec_bind (decode_of (NrCgi_codec L)) (\<lambda>old_nr_cgi.
        dec_bind (decode_extension_container L optionals 0) (\<lambda>_.
        dec_return
          \<lparr>served_cells_to_delete_item_old_nr_cgi = old_nr_cgi\<rparr>))))
       (\<lambda>x. enc_seq (encode_sequence_header L True [False] False)
             (enc_seq (encode_of (NrCgi_codec L) (served_cells_to_delete_item_old_nr_cgi x))
             enc_skip))"

definition ServedCellsToDeleteList_codec :: "per_lib \<Rightarrow> served_cells_to_delete_list per_codec" where
  "ServedCellsToDeleteList_codec L =
     named ''ServedCellsToDeleteList'' (non_empty (ie_vec_codec L 1 512 59 Reject (ServedCellsToDeleteItem_codec L)))"

definition ServiceState_codec :: "per_lib \<Rightarrow> service_state per_codec" where
  "ServiceState_codec L =
     enum_impl L ''ServiceState''
       [ServiceStateInService, ServiceStateOutOfService] 1 True"

definition SwitchingOffOngoing_codec :: "per_lib \<Rightarrow> switching_off_ongoing per_codec" where
  "SwitchingOffOngoing_codec L =
     enum_impl L ''SwitchingOffOngoing''
       [SwitchingOffOngoingTrue] 0 True"

definition ServiceStatus_codec :: "per_lib \<Rightarrow> service_status per_codec" where
  "ServiceStatus_codec L =
     per_codec_impl ''ServiceStatus''
       (dec_bind (decode_sequence_header L True 2) (\<lambda>(optionals, _).
        dec_bind (decode_of (ServiceState_codec L)) (\<lambda>service_state.
        dec_bind (decode_optional optionals 0 (decode_of (SwitchingOffOngoing_codec L))) (\<lambda>switching_off_ongoing.
        dec_bind (decode_extension_container L optionals 1) (\<lambda>_.
        dec_return
          \<lparr>service_status_service_state = service_state,
           service_status_switching_off_ongoing = switching_off_ongoing\<rparr>)))))
       (\<lambda>x. enc_seq (encode_sequence_header L True [service_status_switching_off_ongoing x \<noteq> None, False] False)
             (enc_seq (encode_of (ServiceState_codec L) (service_status_service_state x))
             (enc_seq (encode_optional (encode_of (SwitchingOffOngoing_codec L)) (service_status_switching_off_ongoing x))
             enc_skip)))"

definition CellsStatusItem_codec :: "per_lib \<Rightarrow> cells_status_item per_codec" where
  "CellsStatusItem_codec L =
     per_codec_impl ''CellsStatusItem''
       (dec_bind (decode_sequence_header L True 1) (\<lambda>(optionals, _).
        dec_bind (decode_of (NrCgi_codec L)) (\<lambda>nr_cgi.
        dec_bind (decode_of (ServiceStatus_codec L)) (\<lambda>service_status.
        dec_bind (decode_extension_container L optionals 0) (\<lambda>_.
        dec_return
          \<lparr>cells_status_item_nr_cgi = nr_cgi, cells_status_item_service_status = service_status\<rparr>)))))
       (\<lambda>x. enc_seq (encode_sequence_header L True [False] False)
             (enc_seq (encode_of (NrCgi_codec L) (cells_status_item_nr_cgi x))
             (enc_seq (encode_of (ServiceStatus_codec L) (cells_status_item_service_status x))
             enc_skip)))"

definition CellsStatusList_codec :: "per_lib \<Rightarrow> cells_status_list per_codec" where
  "CellsStatusList_codec L = named ''CellsStatusList'' (ie_vec_codec L 0 512 88 Reject (CellsStatusItem_codec L))"

definition DedicatedSiDeliveryNeededUeItem_codec :: "per_lib \<Rightarrow> dedicated_si_delivery_needed_ue_item per_codec" where
  "DedicatedSiDeliveryNeededUeItem_codec L =
     per_codec_impl ''DedicatedSiDeliveryNeededUeItem''
       (dec_bind (decode_sequence_header L True 1) (\<lambda>(optionals, _).
        dec_bind (decode_of (GnbCuUeF1apId_codec L)) (\<lambda>gnb_cu_ue_f1ap_id.
        dec_bind (decode_of (NrCgi_codec L)) (\<lambda>nr_cgi.
        dec_bind (decode_extension_container L optionals 0) (\<lambda>_.
        dec_return
          \<lparr>dedicated_si_delivery_needed_ue_item_gnb_cu_ue_f1ap_id = gnb_cu_ue_f1ap_id,
           dedicated_si_delivery_needed_ue_item_nr_cgi = nr_cgi\<rparr>)))))
       (\<lambda>x. enc_seq (encode_sequence_header L True [False] False)
             (enc_seq (encode_of (GnbCuUeF1apId_codec L) (dedicated_si_delivery_needed_ue_item_gnb_cu_ue_f1ap_id x))
             (enc_seq (encode_of (NrCgi_codec L) (dedicated_si_delivery_needed_ue_item_nr_cgi x))
             enc_skip)))"

definition DedicatedSiDeliveryNeededUeList_codec :: "per_lib \<Rightarrow> dedicated_si_delivery_needed_ue_list per_codec" where
  "DedicatedSiDeliveryNeededUeList_codec L =
     named ''DedicatedSiDeliveryNeededUeList'' (non_empty (ie_vec_codec L 1 65536 190 Ignore (DedicatedSiDeliveryNeededUeItem_codec L)))"

definition PortNumber_codec :: "per_lib \<Rightarrow> port_number per_codec" where
  "PortNumber_codec L = named ''PortNumber'' (bitstring_codec L 16)"

definition EndpointIpAddressAndPort_codec :: "per_lib \<Rightarrow> endpoint_ip_address_and_port per_codec" where
  "EndpointIpAddressAndPort_codec L =
     per_codec_impl ''EndpointIpAddressAndPort''
       (dec_bind (decode_sequence_header L False 1) (\<lambda>(optionals, _).
        dec_bind (decode_of (TransportLayerAddress_codec L)) (\<lambda>endpoint_ip_address.
        decode_extensions L optionals 0
          [arm 230 (decode_of (PortNumber_codec L)) endpoint_ip_address_and_port_port_number_update]
          \<lparr>endpoint_ip_address_and_port_endpoint_ip_address = endpoint_ip_address,
           endpoint_ip_address_and_port_port_number = None\<rparr>)))
       (\<lambda>x. with_extensions L
               (opt_ie 230 Reject (PortNumber_codec L) (endpoint_ip_address_and_port_port_number x)) (\<lambda>num_ies ies.
               enc_seq (encode_sequence_header L False [num_ies \<noteq> 0] False)
               (enc_seq (encode_of (TransportLayerAddress_codec L) (endpoint_ip_address_and_port_endpoint_ip_address x))
               (encode_extensions L num_ies ies))))"

definition CpTransportLayerAddress_codec :: "per_lib \<Rightarrow> cp_transport_layer_address per_codec" where
  "CpTransportLayerAddress_codec L =
     per_codec_impl ''CpTransportLayerAddress''
       (dec_bind (decode_choice_idx L 0 2 False) (\<lambda>(idx, extended).
        if extended then dec_fail (per_codec_error_new ''CHOICE additions not implemented'')
        else if idx = 0 then dec_bind (decode_of (TransportLayerAddress_codec L)) (\<lambda>x. dec_return (CpTransportLayerAddressEndpointIpAddress x))
        else if idx = 1 then dec_bind (decode_of (EndpointIpAddressAndPort_codec L)) (\<lambda>x. dec_return (CpTransportLayerAddressEndpointIpAddressAndPort x))
        else if idx = 2 then decode_choice_extension L
        else dec_fail (per_codec_error_new ''Unknown choice idx'')))
       (\<lambda>x. case x of
          CpTransportLayerAddressEndpointIpAddress y \<Rightarrow> enc_seq (encode_choice_idx L 0 2 False 0 False) (encode_of (TransportLayerAddress_codec L) y)
        | CpTransportLayerAddressEndpointIpAddressAndPort y \<Rightarrow> enc_seq (encode_choice_idx L 0 2 False 1 False) (encode_of (EndpointIpAddressAndPort_codec L) y))"

definition GnbDuTnlAssociationToRemoveItem_codec :: "per_lib \<Rightarrow> gnb_du_tnl_association_to_remove_item per_codec" where
  "GnbDuTnlAssociationToRemoveItem_codec L =
     per_codec_impl ''GnbDuTnlAssociationToRemoveItem''
       (dec_bind (decode_sequence_header L False 2) (\<lambda>(optionals, _).
        dec_bind (decode_of (CpTransportLayerAddress_codec L)) (\<lambda>tnl_association_transport_layer_address.
        dec_bind (decode_optional optionals 0 (decode_of (CpTransportLayerAddress_codec L))) (\<lambda>tnl_association_transport_layer_address_gnb_cu.
        dec_bind (decode_extension_container L optionals 1) (\<lambda>_.
        dec_return
          \<lparr>gnb_du_tnl_association_to_remove_item_tnl_association_transport_layer_address = tnl_association_transport_layer_address,
           gnb_du_tnl_association_to_remove_item_tnl_association_transport_layer_address_gnb_cu = tnl_association_transport_layer_address_gnb_cu\<rparr>)))))
       (\<lambda>x. enc_seq (encode_sequence_header L False [gnb_du_tnl_association_to_remove_item_tnl_association_transport_layer_address_gnb_cu x \<noteq> None, False] False)
             (enc_seq (encode_of (CpTransportLayerAddress_codec L) (gnb_du_tnl_association_to_remove_item_tnl_association_transport_layer_address x))
             (enc_seq (encode_optional (encode_of (CpTransportLayerAddress_codec L)) (gnb_du_tnl_association_to_remove_item_tnl_association_transport_layer_address_gnb_cu x))
             enc_skip)))"

definition GnbDuTnlAssociationToRemoveList_codec :: "per_lib \<Rightarrow> gnb_du_tnl_association_to_remove_list per_codec" where
  "GnbDuTnlAssociationToRemoveList_codec L =
     named ''GnbDuTnlAssociationToRemoveList'' (non_empty (ie_vec_codec L 1 32 227 Reject (GnbDuTnlAssociationToRemoveItem_codec L)))"

definition CellsToBeDeactivatedListItem_codec :: "per_lib \<Rightarrow> cells_to_be_deactivated_list_item per_codec" where
  "CellsToBeDeactivatedListItem_codec L =
     per_codec_impl ''CellsToBeDeactivatedListItem''
       (dec_bind (decode_sequence_header L True 1) (\<lambda>(optionals, _).
        dec_bind (decode_of (NrCgi_codec L)) (\<lambda>nr_cgi.
        dec_bind (decode_extension_container L optionals 0) (\<lambda>_.
        dec_return
          \<lparr>cells_to_be_deactivated_list_item_nr_cgi = nr_cgi\<rparr>))))
       (\<lambda>x. enc_seq (encode_sequence_header L True [False] False)
             (enc_seq (encode_of (NrCgi_codec L) (cells_to_be_deactivated_list_item_nr_cgi x))
             enc_skip))"

definition CellsToBeDeactivatedList_codec :: "per_lib \<Rightarrow> cells_to_be_deactivated_list per_codec" where
  "CellsToBeDeactivatedList_codec L =
     named ''CellsToBeDeactivatedList'' (non_empty (ie_vec_codec L 1 512 6 Reject (CellsToBeDeactivatedListItem_codec L)))"

section \<open>Well-formed values\<close>

definition wf_gnb_du_id :: "gnb_du_id \<Rightarrow> bool" where
  "wf_gnb_du_id x \<longleftrightarrow>
     in_range 0 68719476735 x"

definition wf_gnb_du_name :: "gnb_du_name \<Rightarrow> bool" where
  "wf_gnb_du_name x \<longleftrightarrow>
     wf_name printable_char x"

definition wf_nr_pci :: "nr_pci \<Rightarrow> bool" where
  "wf_nr_pci x \<longleftrightarrow>
     in_range 0 1007 x"

definition wf_five_gs_tac :: "five_gs_tac \<Rightarrow> bool" where
  "wf_five_gs_tac x \<longleftrightarrow>
     has_length 3 x"

definition wf_configured_eps_tac :: "configured_eps_tac \<Rightarrow> bool" where
  "wf_configured_eps_tac x \<longleftrightarrow>
     has_length 2 x"

definition wf_slice_support_item :: "slice_support_item \<Rightarrow> bool" where
  "wf_slice_support_item x \<longleftrightarrow>
     wf_f1ap_snssai (slice_support_item_snssai x)"

definition wf_slice_support_list :: "slice_support_list \<Rightarrow> bool" where
  "wf_slice_support_list x \<longleftrightarrow>
     wf_list 1 1024 wf_slice_support_item x"

definition wf_npn_support_info :: "npn_support_info \<Rightarrow> bool" where
  "wf_npn_support_info x \<longleftrightarrow>
     (case x of NpnSupportInfoSnpnInformation y \<Rightarrow> wf_nid y)"

definition wf_extended_slice_support_list :: "extended_slice_support_list \<Rightarrow> bool" where
  "wf_extended_slice_support_list x \<longleftrightarrow>
     wf_list 1 65535 wf_slice_support_item x"

definition wf_served_plmns_item :: "per_lib \<Rightarrow> served_plmns_item \<Rightarrow> bool" where
  "wf_served_plmns_item L x \<longleftrightarrow>
     has_length 3 (served_plmns_item_plmn_identity x) \<and>
     pred_option (open_ok wf_slice_support_list (SliceSupportList_codec L)) (served_plmns_item_tai_slice_support_list x) \<and>
     pred_option (open_ok wf_npn_support_info (NpnSupportInfo_codec L)) (served_plmns_item_npn_support_info x) \<and>
     pred_option (open_ok wf_extended_slice_support_list (ExtendedSliceSupportList_codec L)) (served_plmns_item_extended_tai_slice_support_list x)"

definition wf_served_plmns_list :: "per_lib \<Rightarrow> served_plmns_list \<Rightarrow> bool" where
  "wf_served_plmns_list L x \<longleftrightarrow>
     wf_list 1 6 (wf_served_plmns_item L) x"

definition wf_nr_carrier_item :: "nr_carrier_item \<Rightarrow> bool" where
  "wf_nr_carrier_item x \<longleftrightarrow>
     in_range 0 2199 (nr_carrier_item_offset_to_carrier x) \<and>
     in_range 0 275 (nr_carrier_item_carrier_bandwidth x)"

definition wf_nr_carrier_list :: "nr_carrier_list \<Rightarrow> bool" where
  "wf_nr_carrier_list x \<longleftrightarrow>
     wf_list 1 5 wf_nr_carrier_item x"

definition wf_sul_information :: "per_lib \<Rightarrow> sul_information \<Rightarrow> bool" where
  "wf_sul_information L x \<longleftrightarrow>
     in_range 0 3279165 (sul_information_sul_nr_arfcn x) \<and>
     pred_option (open_ok wf_nr_carrier_list (NrCarrierList_codec L)) (sul_information_carrier_list x)"

definition wf_supported_sul_freq_band_item :: "supported_sul_freq_band_item \<Rightarrow> bool" where
  "wf_supported_sul_freq_band_item x \<longleftrightarrow>
     in_range 1 1024 (supported_sul_freq_band_item_freq_band_indicator_nr x)"

definition wf_freq_band_nr_item :: "freq_band_nr_item \<Rightarrow> bool" where
  "wf_freq_band_nr_item x \<longleftrightarrow>
     in_range 1 1024 (freq_band_nr_item_freq_band_indicator_nr x) \<and>
     wf_list 0 32 wf_supported_sul_freq_band_item (freq_band_nr_item_supported_sul_band_list x)"

definition wf_nr_freq_info :: "per_lib \<Rightarrow> nr_freq_info \<Rightarrow> bool" where
  "wf_nr_freq_info L x \<longleftrightarrow>
     in_range 0 3279165 (nr_freq_info_nr_arfcn x) \<and>
     pred_option (wf_sul_information L) (nr_freq_info_sul_information x) \<and>
     wf_list 1 32 wf_freq_band_nr_item (nr_freq_info_freq_band_list_nr x)"

definition wf_fdd_info :: "per_lib \<Rightarrow> fdd_info \<Rightarrow> bool" where
  "wf_fdd_info L x \<longleftrightarrow>
     wf_nr_freq_info L (fdd_info_ul_nr_freq_info x) \<and>
     wf_nr_freq_info L (fdd_info_dl_nr_freq_info x) \<and>
     pred_option (open_ok wf_nr_carrier_list (NrCarrierList_codec L)) (fdd_info_ul_carrier_list x) \<and>
     pred_option (open_ok wf_nr_carrier_list (NrCarrierList_codec L)) (fdd_info_dl_carrier_list x)"

definition wf_num_dl_ul_symbols :: "num_dl_ul_symbols \<Rightarrow> bool" where
  "wf_num_dl_ul_symbols x \<longleftrightarrow>
     in_range 0 13 (num_dl_ul_symbols_num_dl_symbols x) \<and>
     in_range 0 13 (num_dl_ul_symbols_num_ul_symbols x)"

definition wf_symbol_alloc_in_slot :: "symbol_alloc_in_slot \<Rightarrow> bool" where
  "wf_symbol_alloc_in_slot x \<longleftrightarrow>
     (case x of SymbolAllocInSlotAllDl \<Rightarrow> True | SymbolAllocInSlotAllUl \<Rightarrow> True | SymbolAllocInSlotBothDlAndUl y \<Rightarrow> wf_num_dl_ul_symbols y)"

definition wf_slot_configuration_item :: "slot_configuration_item \<Rightarrow> bool" where
  "wf_slot_configuration_item x \<longleftrightarrow>
     in_range 0 5119 (slot_configuration_item_slot_index x) \<and>
     wf_symbol_alloc_in_slot (slot_configuration_item_symbol_alloc_in_slot x)"

definition wf_slot_configuration_list :: "slot_configuration_list \<Rightarrow> bool" where
  "wf_slot_configuration_list x \<longleftrightarrow>
     wf_list 1 5120 wf_slot_configuration_item x"

definition wf_intended_tdd_dl_ul_config :: "intended_tdd_dl_ul_config \<Rightarrow> bool" where
  "wf_intended_tdd_dl_ul_config x \<longleftrightarrow>
     wf_slot_configuration_list (intended_tdd_dl_ul_config_slot_configuration_list x)"

definition wf_tdd_ul_dl_config_common_nr :: "tdd_ul_dl_config_common_nr \<Rightarrow> bool" where
  "wf_tdd_ul_dl_config_common_nr x \<longleftrightarrow>
     wf_container x"

definition wf_tdd_info :: "per_lib \<Rightarrow> tdd_info \<Rightarrow> bool" where
  "wf_tdd_info L x \<longleftrightarrow>
     wf_nr_freq_info L (tdd_info_nr_freq_info x) \<and>
     pred_option (open_ok wf_intended_tdd_dl_ul_config (IntendedTddDlUlConfig_codec L)) (tdd_info_intended_tdd_dl_ul_config x) \<and>
     pred_option wf_tdd_ul_dl_config_common_nr (tdd_info_tdd_ul_dl_config_common_nr x) \<and>
     pred_option (open_ok wf_nr_carrier_list (NrCarrierList_codec L)) (tdd_info_carrier_list x)"

definition wf_nr_mode_info :: "per_lib \<Rightarrow> nr_mode_info \<Rightarrow> bool" where
  "wf_nr_mode_info L x \<longleftrightarrow>
     (case x of NrModeInfoFdd y \<Rightarrow> wf_fdd_info L y | NrModeInfoTdd y \<Rightarrow> wf_tdd_info L y)"

definition wf_extended_served_plmns_item :: "per_lib \<Rightarrow> extended_served_plmns_item \<Rightarrow> bool" where
  "wf_extended_served_plmns_item L x \<longleftrightarrow>
     has_length 3 (extended_served_plmns_item_plmn_identity x) \<and>
     pred_option wf_slice_support_list (extended_served_plmns_item_tai_slice_support_list x) \<and>
     pred_option (open_ok wf_npn_support_info (NpnSupportInfo_codec L)) (extended_served_plmns_item_npn_support_info x) \<and>
     pred_option (open_ok wf_extended_slice_support_list (ExtendedSliceSupportList_codec L)) (extended_served_plmns_item_extended_tai_slice_support_list x)"

definition wf_extended_served_plmns_list :: "per_lib \<Rightarrow> extended_served_plmns_list \<Rightarrow> bool" where
  "wf_extended_served_plmns_list L x \<longleftrightarrow>
     wf_list 1 6 (wf_extended_served_plmns_item L) x"

definition wf_available_plmn_list_item :: "available_plmn_list_item \<Rightarrow> bool" where
  "wf_available_plmn_list_item x \<longleftrightarrow>
     has_length 3 (available_plmn_list_item_plmn_identity x)"

definition wf_available_plmn_list :: "available_plmn_list \<Rightarrow> bool" where
  "wf_available_plmn_list x \<longleftrightarrow>
     wf_list 1 6 wf_available_plmn_list_item x"

definition wf_extended_available_plmn_item :: "extended_available_plmn_item \<Rightarrow> bool" where
  "wf_extended_available_plmn_item x \<longleftrightarrow>
     has_length 3 (extended_available_plmn_item_plmn_identity x)"

definition wf_extended_available_plmn_list :: "extended_available_plmn_list \<Rightarrow> bool" where
  "wf_extended_available_plmn_list x \<longleftrightarrow>
     wf_list 1 6 wf_extended_available_plmn_item x"

definition wf_broadcast_nid_list :: "broadcast_nid_list \<Rightarrow> bool" where
  "wf_broadcast_nid_list x \<longleftrightarrow>
     wf_list 1 12 wf_nid x"

definition wf_broadcast_snpn_id_list_item :: "broadcast_snpn_id_list_item \<Rightarrow> bool" where
  "wf_broadcast_snpn_id_list_item x \<longleftrightarrow>
     has_length 3 (broadcast_snpn_id_list_item_plmn_identity x) \<and>
     wf_broadcast_nid_list (broadcast_snpn_id_list_item_broadcast_nid_list x)"

definition wf_broadcast_snpn_id_list :: "broadcast_snpn_id_list \<Rightarrow> bool" where
  "wf_broadcast_snpn_id_list x \<longleftrightarrow>
     wf_list 1 12 wf_broadcast_snpn_id_list_item x"

definition wf_npn_broadcast_information_snpn :: "npn_broadcast_information_snpn \<Rightarrow> bool" where
  "wf_npn_broadcast_information_snpn x \<longleftrightarrow>
     wf_broadcast_snpn_id_list (npn_broadcast_information_snpn_broadcast_snpnid_list x)"

definition wf_cagid :: "cagid \<Rightarrow> bool" where
  "wf_cagid x \<longleftrightarrow>
     has_length 32 x"

definition wf_broadcast_cag_list :: "broadcast_cag_list \<Rightarrow> bool" where
  "wf_broadcast_cag_list x \<longleftrightarrow>
     wf_list 1 12 wf_cagid x"

definition wf_broadcast_pni_npn_id_list_item :: "broadcast_pni_npn_id_list_item \<Rightarrow> bool" where
  "wf_broadcast_pni_npn_id_list_item x \<longleftrightarrow>
     has_length 3 (broadcast_pni_npn_id_list_item_plmn_identity x) \<and>
     wf_broadcast_cag_list (broadcast_pni_npn_id_list_item_broadcast_cag_list x)"

definition wf_broadcast_pni_npn_id_list :: "broadcast_pni_npn_id_list \<Rightarrow> bool" where
  "wf_broadcast_pni_npn_id_list x \<longleftrightarrow>
     wf_list 1 12 wf_broadcast_pni_npn_id_list_item x"

definition wf_npn_broadcast_information_pni_npn :: "npn_broadcast_information_pni_npn \<Rightarrow> bool" where
  "wf_npn_broadcast_information_pni_npn x \<longleftrightarrow>
     wf_broadcast_pni_npn_id_list (npn_broadcast_information_pni_npn_broadcast_pni_npn_id_information x)"

definition wf_npn_broadcast_information :: "npn_broadcast_information \<Rightarrow> bool" where
  "wf_npn_broadcast_information x \<longleftrightarrow>
     (case x of NpnBroadcastInformationSnpnBroadcastInformation y \<Rightarrow> wf_npn_broadcast_information_snpn y | NpnBroadcastInformationPniNpnBroadcastInformation y \<Rightarrow> wf_npn_broadcast_information_pni_npn y)"

definition wf_b_plmn_id_info_item :: "per_lib \<Rightarrow> b_plmn_id_info_item \<Rightarrow> bool" where
  "wf_b_plmn_id_info_item L x \<longleftrightarrow>
     wf_available_plmn_list (b_plmn_id_info_item_plmn_identity_list x) \<and>
     pred_option wf_extended_available_plmn_list (b_plmn_id_info_item_extended_plmn_identity_list x) \<and>
     pred_option wf_five_gs_tac (b_plmn_id_info_item_five_gs_tac x) \<and>
     has_length 36 (b_plmn_id_info_item_nr_cell_id x) \<and>
     pred_option (open_ok wf_npn_broadcast_information (NpnBroadcastInformation_codec L)) (b_plmn_id_info_item_npn_broadcast_information x)"

definition wf_b_plmn_id_info_list :: "per_lib \<Rightarrow> b_plmn_id_info_list \<Rightarrow> bool" where
  "wf_b_plmn_id_info_list L x \<longleftrightarrow>
     wf_list 1 12 (wf_b_plmn_id_info_item L) x"

definition wf_gnb_set_id :: "gnb_set_id \<Rightarrow> bool" where
  "wf_gnb_set_id x \<longleftrightarrow>
     has_length 22 x"

definition wf_aggressor_gnb_set_id :: "aggressor_gnb_set_id \<Rightarrow> bool" where
  "wf_aggressor_gnb_set_id x \<longleftrightarrow>
     wf_gnb_set_id (aggressor_gnb_set_id_aggressor_gnb_set_id x)"

definition wf_victim_gnb_set_id :: "victim_gnb_set_id \<Rightarrow> bool" where
  "wf_victim_gnb_set_id x \<longleftrightarrow>
     wf_gnb_set_id (victim_gnb_set_id_victim_gnb_set_id x)"

definition wf_iab_mt_cell_list_item :: "iab_mt_cell_list_item \<Rightarrow> bool" where
  "wf_iab_mt_cell_list_item x \<longleftrightarrow>
     has_length 36 (iab_mt_cell_list_item_nr_cell_identity x)"

definition wf_iab_mt_cell_list :: "iab_mt_cell_list \<Rightarrow> bool" where
  "wf_iab_mt_cell_list x \<longleftrightarrow>
     wf_list 1 32 wf_iab_mt_cell_list_item x"

definition wf_multiplexing_info :: "multiplexing_info \<Rightarrow> bool" where
  "wf_multiplexing_info x \<longleftrightarrow>
     wf_iab_mt_cell_list (multiplexing_info_iab_mt_cell_list x)"

definition wf_ssb_freq_info :: "ssb_freq_info \<Rightarrow> bool" where
  "wf_ssb_freq_info x \<longleftrightarrow>
     in_range 0 3279165 x"

definition wf_ssb_transmission_timing_offset :: "ssb_transmission_timing_offset \<Rightarrow> bool" where
  "wf_ssb_transmission_timing_offset x \<longleftrightarrow>
     in_range 0 127 x"

definition wf_ssb_transmission_bitmap :: "ssb_transmission_bitmap \<Rightarrow> bool" where
  "wf_ssb_transmission_bitmap x \<longleftrightarrow>
     (case x of SsbTransmissionBitmapShortBitmap y \<Rightarrow> has_length 4 y | SsbTransmissionBitmapMediumBitmap y \<Rightarrow> has_length 8 y | SsbTransmissionBitmapLongBitmap y \<Rightarrow> has_length 64 y)"

definition wf_iab_stc_info_item :: "iab_stc_info_item \<Rightarrow> bool" where
  "wf_iab_stc_info_item x \<longleftrightarrow>
     wf_ssb_freq_info (iab_stc_info_item_ssb_freq_info x) \<and>
     wf_ssb_transmission_timing_offset (iab_stc_info_item_ssb_transmission_timing_offset x) \<and>
     wf_ssb_transmission_bitmap (iab_stc_info_item_ssb_transmission_bitmap x)"

definition wf_iab_stc_info_list :: "iab_stc_info_list \<Rightarrow> bool" where
  "wf_iab_stc_info_list x \<longleftrightarrow>
     wf_list 1 45 wf_iab_stc_info_item x"

definition wf_iab_stc_info :: "iab_stc_info \<Rightarrow> bool" where
  "wf_iab_stc_info x \<longleftrightarrow>
     wf_iab_stc_info_list (iab_stc_info_iab_stc_info_list x)"

definition wf_iab_info_iab_du :: "iab_info_iab_du \<Rightarrow> bool" where
  "wf_iab_info_iab_du x \<longleftrightarrow>
     pred_option wf_multiplexing_info (iab_info_iab_du_multiplexing_info x) \<and>
     pred_option wf_iab_stc_info (iab_info_iab_du_iab_stc_info x)"

definition wf_ssb_positions_in_burst :: "ssb_positions_in_burst \<Rightarrow> bool" where
  "wf_ssb_positions_in_burst x \<longleftrightarrow>
     (case x of SsbPositionsInBurstShortBitmap y \<Rightarrow> has_length 4 y | SsbPositionsInBurstMediumBitmap y \<Rightarrow> has_length 8 y | SsbPositionsInBurstLongBitmap y \<Rightarrow> has_length 64 y)"

definition wf_l839_info :: "l839_info \<Rightarrow> bool" where
  "wf_l839_info x \<longleftrightarrow>
     in_range 0 837 (l839_info_root_sequence_index x)"

definition wf_l139_info :: "l139_info \<Rightarrow> bool" where
  "wf_l139_info x \<longleftrightarrow>
     pred_option (in_range 0 137) (l139_info_root_sequence_index x)"

definition wf_freq_domain_length :: "freq_domain_length \<Rightarrow> bool" where
  "wf_freq_domain_length x \<longleftrightarrow>
     (case x of FreqDomainLengthL839 y \<Rightarrow> wf_l839_info y | FreqDomainLengthL139 y \<Rightarrow> wf_l139_info y)"

definition wf_nr_prach_config_item :: "nr_prach_config_item \<Rightarrow> bool" where
  "wf_nr_prach_config_item x \<longleftrightarrow>
     in_range 0 274 (nr_prach_config_item_prach_freq_startfrom_carrier x) \<and>
     in_range_i128 0 255 (nr_prach_config_item_parch_config_index x) \<and>
     wf_freq_domain_length (nr_prach_config_item_freq_domain_length x) \<and>
     in_range 0 15 (nr_prach_config_item_zero_correl_zone_config x)"

definition wf_nr_prach_config_list :: "nr_prach_config_list \<Rightarrow> bool" where
  "wf_nr_prach_config_list x \<longleftrightarrow>
     wf_list 0 16 wf_nr_prach_config_item x"

definition wf_nr_prach_config :: "nr_prach_config \<Rightarrow> bool" where
  "wf_nr_prach_config x \<longleftrightarrow>
     pred_option wf_nr_prach_config_list (nr_prach_config_ul_prach_config_list x) \<and>
     pred_option wf_nr_prach_config_list (nr_prach_config_sul_prach_config_list x)"

definition wf_sfn_offset :: "sfn_offset \<Rightarrow> bool" where
  "wf_sfn_offset x \<longleftrightarrow>
     has_length 24 (sfn_offset_sfn_time_offset x)"

definition wf_served_cell_information :: "per_lib \<Rightarrow> served_cell_information \<Rightarrow> bool" where
  "wf_served_cell_information L x \<longleftrightarrow>
     wf_nr_cgi (served_cell_information_nr_cgi x) \<and>
     wf_nr_pci (served_cell_information_nr_pci x) \<and>
     pred_option wf_five_gs_tac (served_cell_information_five_gs_tac x) \<and>
     pred_option wf_configured_eps_tac (served_cell_information_configured_eps_tac x) \<and>
     wf_served_plmns_list L (served_cell_information_served_plmns x) \<and>
     wf_nr_mode_info L (served_cell_information_nr_mode_info x) \<and>
     wf_container (served_cell_information_measurement_timing_configuration x) \<and>
     pred_option (open_ok (wf_extended_served_plmns_list L) (ExtendedServedPlmnsList_codec L)) (served_cell_information_extended_served_plmns_list x) \<and>
     pred_option (open_ok (wf_b_plmn_id_info_list L) (BPlmnIdInfoList_codec L)) (served_cell_information_b_plmn_id_info_list x) \<and>
     pred_option (fits (CellType_codec L)) (served_cell_information_cell_type x) \<and>
     pred_option (open_ok wf_aggressor_gnb_set_id (AggressorGnbSetId_codec L)) (served_cell_information_aggressor_gnb_set_id x) \<and>
     pred_option (open_ok wf_victim_gnb_set_id (VictimGnbSetId_codec L)) (served_cell_information_victim_gnb_set_id x) \<and>
     pred_option (open_ok wf_iab_info_iab_du (IabInfoIabDu_codec L)) (served_cell_information_iab_info_iab_du x) \<and>
     pred_option (open_ok wf_ssb_positions_in_burst (SsbPositionsInBurst_codec L)) (served_cell_information_ssb_positions_in_burst x) \<and>
     pred_option (open_ok wf_nr_prach_config (NrPrachConfig_codec L)) (served_cell_information_nr_prach_config x) \<and>
     pred_option (open_ok wf_sfn_offset (SfnOffset_codec L)) (served_cell_information_sfn_offset x)"

definition wf_mib_message :: "mib_message \<Rightarrow> bool" where
  "wf_mib_message x \<longleftrightarrow>
     wf_container x"

definition wf_sib1_message :: "sib1_message \<Rightarrow> bool" where
  "wf_sib1_message x \<longleftrightarrow>
     wf_container x"

definition wf_sib12_message :: "sib12_message \<Rightarrow> bool" where
  "wf_sib12_message x \<longleftrightarrow>
     wf_container x"

definition wf_sib13_message :: "sib13_message \<Rightarrow> bool" where
  "wf_sib13_message x \<longleftrightarrow>
     wf_container x"

definition wf_sib14_message :: "sib14_message \<Rightarrow> bool" where
  "wf_sib14_message x \<longleftrightarrow>
     wf_container x"

definition wf_sib10_message :: "sib10_message \<Rightarrow> bool" where
  "wf_sib10_message x \<longleftrightarrow>
     wf_container x"

definition wf_gnb_du_system_information :: "gnb_du_system_information \<Rightarrow> bool" where
  "wf_gnb_du_system_information x \<longleftrightarrow>
     wf_mib_message (gnb_du_system_information_mib_message x) \<and>
     wf_sib1_message (gnb_du_system_information_sib_1_message x) \<and>
     pred_option wf_sib12_message (gnb_du_system_information_sib_12_message x) \<and>
     pred_option wf_sib13_message (gnb_du_system_information_sib_13_message x) \<and>
     pred_option wf_sib14_message (gnb_du_system_information_sib_14_message x) \<and>
     pred_option wf_sib10_message (gnb_du_system_information_sib_10_message x)"

definition wf_gnb_du_served_cells_item :: "per_lib \<Rightarrow> gnb_du_served_cells_item \<Rightarrow> bool" where
  "wf_gnb_du_served_cells_item L x \<longleftrightarrow>
     wf_served_cell_information L (gnb_du_served_cells_item_served_cell_information x) \<and>
     pred_option wf_gnb_du_system_information (gnb_du_served_cells_item_gnb_du_system_information x)"

definition wf_gnb_du_served_cells_list :: "per_lib \<Rightarrow> gnb_du_served_cells_list \<Rightarrow> bool" where
  "wf_gnb_du_served_cells_list L x \<longleftrightarrow>
     wf_list 1 512 (open_ok (wf_gnb_du_served_cells_item L) (GnbDuServedCellsItem_codec L)) x"

definition wf_rrc_version :: "rrc_version \<Rightarrow> bool" where
  "wf_rrc_version x \<longleftrightarrow>
     has_length 3 (rrc_version_latest_rrc_version x) \<and>
     pred_option (has_length 3) (rrc_version_latest_rrc_version_enhanced x)"

definition wf_gtptla_item :: "gtptla_item \<Rightarrow> bool" where
  "wf_gtptla_item x \<longleftrightarrow>
     wf_tla (gtptla_item_gtp_transport_layer_address x)"

definition wf_gtptl_as :: "gtptl_as \<Rightarrow> bool" where
  "wf_gtptl_as x \<longleftrightarrow>
     wf_list 1 16 wf_gtptla_item x"

definition wf_transport_up_layer_address_info_to_add_item :: "transport_up_layer_address_info_to_add_item \<Rightarrow> bool" where
  "wf_transport_up_layer_address_info_to_add_item x \<longleftrightarrow>
     wf_tla (transport_up_layer_address_info_to_add_item_ip_sec_transport_layer_address x) \<and>
     pred_option wf_gtptl_as (transport_up_layer_address_info_to_add_item_gtp_transport_layer_address_to_add x)"

definition wf_transport_up_layer_address_info_to_add_list :: "transport_up_layer_address_info_to_add_list \<Rightarrow> bool" where
  "wf_transport_up_layer_address_info_to_add_list x \<longleftrightarrow>
     wf_list 1 16 wf_transport_up_layer_address_info_to_add_item x"

definition wf_transport_up_layer_address_info_to_remove_item :: "transport_up_layer_address_info_to_remove_item \<Rightarrow> bool" where
  "wf_transport_up_layer_address_info_to_remove_item x \<longleftrightarrow>
     wf_tla (transport_up_layer_address_info_to_remove_item_ip_sec_transport_layer_address x) \<and>
     pred_option wf_gtptl_as (transport_up_layer_address_info_to_remove_item_gtp_transport_layer_address_to_remove x)"

definition wf_transport_up_layer_address_info_to_remove_list :: "transport_up_layer_address_info_to_remove_list \<Rightarrow> bool" where
  "wf_transport_up_layer_address_info_to_remove_list x \<longleftrightarrow>
     wf_list 1 16 wf_transport_up_layer_address_info_to_remove_item x"

definition wf_transport_layer_address_info :: "transport_layer_address_info \<Rightarrow> bool" where
  "wf_transport_layer_address_info x \<longleftrightarrow>
     pred_option wf_transport_up_layer_address_info_to_add_list (transport_layer_address_info_transport_up_layer_address_info_to_add_list x) \<and>
     pred_option wf_transport_up_layer_address_info_to_remove_list (transport_layer_address_info_transport_up_layer_address_info_to_remove_list x)"

definition wf_gnb_cu_name_visible_string :: "gnb_cu_name_visible_string \<Rightarrow> bool" where
  "wf_gnb_cu_name_visible_string x \<longleftrightarrow>
     wf_name visible_char x"

definition wf_gnb_cu_name_utf8_string :: "gnb_cu_name_utf8_string \<Rightarrow> bool" where
  "wf_gnb_cu_name_utf8_string x \<longleftrightarrow>
     wf_name visible_char x"

definition wf_extended_gnb_cu_name :: "extended_gnb_cu_name \<Rightarrow> bool" where
  "wf_extended_gnb_cu_name x \<longleftrightarrow>
     pred_option wf_gnb_cu_name_visible_string (extended_gnb_cu_name_gnb_cu_name_visible_string x) \<and>
     pred_option wf_gnb_cu_name_utf8_string (extended_gnb_cu_name_gnb_cu_name_utf8_string x)"

definition wf_gnb_cu_name :: "gnb_cu_name \<Rightarrow> bool" where
  "wf_gnb_cu_name x \<longleftrightarrow>
     wf_name printable_char x"

definition wf_sib_type_to_be_updated_list_item :: "sib_type_to_be_updated_list_item \<Rightarrow> bool" where
  "wf_sib_type_to_be_updated_list_item x \<longleftrightarrow>
     in_range 2 32 (sib_type_to_be_updated_list_item_sib_type x) \<and>
     wf_container (sib_type_to_be_updated_list_item_sib_message x) \<and>
     in_range 0 31 (sib_type_to_be_updated_list_item_value_tag x)"

definition wf_system_information_area_id :: "system_information_area_id \<Rightarrow> bool" where
  "wf_system_information_area_id x \<longleftrightarrow>
     has_length 24 x"

definition wf_gnb_cu_system_information :: "gnb_cu_system_information \<Rightarrow> bool" where
  "wf_gnb_cu_system_information x \<longleftrightarrow>
     wf_list 1 32 wf_sib_type_to_be_updated_list_item (gnb_cu_system_information_sib_type_to_be_updated_list x) \<and>
     pred_option wf_system_information_area_id (gnb_cu_system_information_system_information_area_id x)"

definition wf_iab_info_iab_donor_cu :: "iab_info_iab_donor_cu \<Rightarrow> bool" where
  "wf_iab_info_iab_donor_cu x \<longleftrightarrow>
     pred_option wf_iab_stc_info (iab_info_iab_donor_cu_iab_stc_info x)"

definition wf_available_snpn_id_list_item :: "available_snpn_id_list_item \<Rightarrow> bool" where
  "wf_available_snpn_id_list_item x \<longleftrightarrow>
     has_length 3 (available_snpn_id_list_item_plmn_identity x) \<and>
     wf_broadcast_nid_list (available_snpn_id_list_item_available_nid_list x)"

definition wf_available_snpn_id_list :: "available_snpn_id_list \<Rightarrow> bool" where
  "wf_available_snpn_id_list x \<longleftrightarrow>
     wf_list 1 12 wf_available_snpn_id_list_item x"

definition wf_cells_to_be_activated_list_item :: "per_lib \<Rightarrow> cells_to_be_activated_list_item \<Rightarrow> bool" where
  "wf_cells_to_be_activated_list_item L x \<longleftrightarrow>
     wf_nr_cgi (cells_to_be_activated_list_item_nr_cgi x) \<and>
     pred_option wf_nr_pci (cells_to_be_activated_list_item_nr_pci x) \<and>
     pred_option (open_ok wf_gnb_cu_system_information (GnbCuSystemInformation_codec L)) (cells_to_be_activated_list_item_gnb_cu_system_information x) \<and>
     pred_option (open_ok wf_available_plmn_list (AvailablePlmnList_codec L)) (cells_to_be_activated_list_item_available_plmn_list x) \<and>
     pred_option (open_ok wf_extended_available_plmn_list (ExtendedAvailablePlmnList_codec L)) (cells_to_be_activated_list_item_extended_available_plmn_list x) \<and>
     pred_option (open_ok wf_iab_info_iab_donor_cu (IabInfoIabDonorCu_codec L)) (cells_to_be_activated_list_item_iab_info_iab_donor_cu x) \<and>
     pred_option (open_ok wf_available_snpn_id_list (AvailableSnpnIdList_codec L)) (cells_to_be_activated_list_item_available_snpn_id_list x)"

definition wf_cells_to_be_activated_list :: "per_lib \<Rightarrow> cells_to_be_activated_list \<Rightarrow> bool" where
  "wf_cells_to_be_activated_list L x \<longleftrightarrow>
     wf_list 1 512 (open_ok (wf_cells_to_be_activated_list_item L) (CellsToBeActivatedListItem_codec L)) x"

definition wf_ul_bh_non_up_traffic_mapping_item :: "ul_bh_non_up_traffic_mapping_item \<Rightarrow> bool" where
  "wf_ul_bh_non_up_traffic_mapping_item x \<longleftrightarrow>
     wf_bh_info (ul_bh_non_up_traffic_mapping_item_bh_info x)"

definition wf_ul_bh_non_up_traffic_mapping_list :: "ul_bh_non_up_traffic_mapping_list \<Rightarrow> bool" where
  "wf_ul_bh_non_up_traffic_mapping_list x \<longleftrightarrow>
     wf_list 1 32 wf_ul_bh_non_up_traffic_mapping_item x"

definition wf_ul_bh_non_up_traffic_mapping :: "ul_bh_non_up_traffic_mapping \<Rightarrow> bool" where
  "wf_ul_bh_non_up_traffic_mapping x \<longleftrightarrow>
     wf_ul_bh_non_up_traffic_mapping_list (ul_bh_non_up_traffic_mapping_ul_bh_non_up_traffic_mapping_list x)"

definition wf_gnb_du_name_visible_string :: "gnb_du_name_visible_string \<Rightarrow> bool" where
  "wf_gnb_du_name_visible_string x \<longleftrightarrow>
     wf_name visible_char x"

definition wf_gnb_du_name_utf8_string :: "gnb_du_name_utf8_string \<Rightarrow> bool" where
  "wf_gnb_du_name_utf8_string x \<longleftrightarrow>
     wf_name visible_char x"

definition wf_extended_gnb_du_name :: "extended_gnb_du_name \<Rightarrow> bool" where
  "wf_extended_gnb_du_name x \<longleftrightarrow>
     pred_option wf_gnb_du_name_visible_string (extended_gnb_du_name_gnb_du_name_visible_string x) \<and>
     pred_option wf_gnb_du_name_utf8_string (extended_gnb_du_name_gnb_du_name_utf8_string x)"

definition wf_served_cells_to_add_item :: "per_lib \<Rightarrow> served_cells_to_add_item \<Rightarrow> bool" where
  "wf_served_cells_to_add_item L x \<longleftrightarrow>
     wf_served_cell_information L (served_cells_to_add_item_served_cell_information x) \<and>
     pred_option wf_gnb_du_system_information (served_cells_to_add_item_gnb_du_system_information x)"

definition wf_served_cells_to_add_list :: "per_lib \<Rightarrow> served_cells_to_add_list \<Rightarrow> bool" where
  "wf_served_cells_to_add_list L x \<longleftrightarrow>
     wf_list 1 512 (open_ok (wf_served_cells_to_add_item L) (ServedCellsToAddItem_codec L)) x"

definition wf_served_cells_to_modify_item :: "per_lib \<Rightarrow> served_cells_to_modify_item \<Rightarrow> bool" where
  "wf_served_cells_to_modify_item L x \<longleftrightarrow>
     wf_nr_cgi (served_cells_to_modify_item_old_nr_cgi x) \<and>
     wf_served_cell_information L (served_cells_to_modify_item_served_cell_information x) \<and>
     pred_option wf_gnb_du_system_information (served_cells_to_modify_item_gnb_du_system_information x)"

definition wf_served_cells_to_modify_list :: "per_lib \<Rightarrow> served_cells_to_modify_list \<Rightarrow> bool" where
  "wf_served_cells_to_modify_list L x \<longleftrightarrow>
     wf_list 1 512 (open_ok (wf_served_cells_to_modify_item L) (ServedCellsToModifyItem_codec L)) x"

definition wf_served_cells_to_delete_item :: "served_cells_to_delete_item \<Rightarrow> bool" where
  "wf_served_cells_to_delete_item x \<longleftrightarrow>
     wf_nr_cgi (served_cells_to_delete_item_old_nr_cgi x)"

definition wf_served_cells_to_delete_list :: "per_lib \<Rightarrow> served_cells_to_delete_list \<Rightarrow> bool" where
  "wf_served_cells_to_delete_list L x \<longleftrightarrow>
     wf_list 1 512 (open_ok wf_served_cells_to_delete_item (ServedCellsToDeleteItem_codec L)) x"

definition wf_cells_status_item :: "cells_status_item \<Rightarrow> bool" where
  "wf_cells_status_item x \<longleftrightarrow>
     wf_nr_cgi (cells_status_item_nr_cgi x)"

definition wf_cells_status_list :: "per_lib \<Rightarrow> cells_status_list \<Rightarrow> bool" where
  "wf_cells_status_list L x \<longleftrightarrow>
     wf_list 0 512 (open_ok wf_cells_status_item (CellsStatusItem_codec L)) x"

definition wf_dedicated_si_delivery_needed_ue_item :: "dedicated_si_delivery_needed_ue_item \<Rightarrow> bool" where
  "wf_dedicated_si_delivery_needed_ue_item x \<longleftrightarrow>
     wf_nr_cgi (dedicated_si_delivery_needed_ue_item_nr_cgi x)"

definition wf_dedicated_si_delivery_needed_ue_list :: "per_lib \<Rightarrow> dedicated_si_delivery_needed_ue_list \<Rightarrow> bool" where
  "wf_dedicated_si_delivery_needed_ue_list L x \<longleftrightarrow>
     wf_list 1 16383 (open_ok wf_dedicated_si_delivery_needed_ue_item (DedicatedSiDeliveryNeededUeItem_codec L)) x"

definition wf_port_number :: "port_number \<Rightarrow> bool" where
  "wf_port_number x \<longleftrightarrow>
     has_length 16 x"

definition wf_endpoint_ip_address_and_port :: "endpoint_ip_address_and_port \<Rightarrow> bool" where
  "wf_endpoint_ip_address_and_port x \<longleftrightarrow>
     wf_tla (endpoint_ip_address_and_port_endpoint_ip_address x) \<and>
     pred_option wf_port_number (endpoint_ip_address_and_port_port_number x)"

definition wf_cp_transport_layer_address :: "cp_transport_layer_address \<Rightarrow> bool" where
  "wf_cp_transport_layer_address x \<longleftrightarrow>
     (case x of CpTransportLayerAddressEndpointIpAddress y \<Rightarrow> wf_tla y | CpTransportLayerAddressEndpointIpAddressAndPort y \<Rightarrow> wf_endpoint_ip_address_and_port y)"

definition wf_gnb_du_tnl_association_to_remove_item :: "gnb_du_tnl_association_to_remove_item \<Rightarrow> bool" where
  "wf_gnb_du_tnl_association_to_remove_item x \<longleftrightarrow>
     wf_cp_transport_layer_address (gnb_du_tnl_association_to_remove_item_tnl_association_transport_layer_address x) \<and>
     pred_option wf_cp_transport_layer_address (gnb_du_tnl_association_to_remove_item_tnl_association_transport_layer_address_gnb_cu x)"

definition wf_gnb_du_tnl_association_to_remove_list :: "per_lib \<Rightarrow> gnb_du_tnl_association_to_remove_list \<Rightarrow> bool" where
  "wf_gnb_du_tnl_association_to_remove_list L x \<longleftrightarrow>
     wf_list 1 32 (open_ok wf_gnb_du_tnl_association_to_remove_item (GnbDuTnlAssociationToRemoveItem_codec L)) x"

definition wf_cells_to_be_deactivated_list_item :: "cells_to_be_deactivated_list_item \<Rightarrow> bool" where
  "wf_cells_to_be_deactivated_list_item x \<longleftrightarrow>
     wf_nr_cgi (cells_to_be_deactivated_list_item_nr_cgi x)"

definition wf_cells_to_be_deactivated_list :: "per_lib \<Rightarrow> cells_to_be_deactivated_list \<Rightarrow> bool" where
  "wf_cells_to_be_deactivated_list L x \<longleftrightarrow>
     wf_list 1 512 (open_ok wf_cells_to_be_deactivated_list_item (CellsToBeDeactivatedListItem_codec L)) x"

section \<open>Soundness\<close>

context aper_setup
begin

lemma GnbDuId_encodable [encodable_simps]: "wf_gnb_du_id x \<Longrightarrow> encodable (GnbDuId_codec L) x"
  by (simp add: GnbDuId_codec_def wf_gnb_du_id_def encodable_simps)

lemmas GnbDuId_sound [sound_simps] = GnbDuId_encodable [THEN encodable_sound]

lemma GnbDuName_encodable [encodable_simps]: "wf_gnb_du_name x \<Longrightarrow> encodable (GnbDuName_codec L) x"
  by (simp add: GnbDuName_codec_def wf_gnb_du_name_def encodable_simps)

lemmas GnbDuName_sound [sound_simps] = GnbDuName_encodable [THEN encodable_sound]

lemma NrPci_encodable [encodable_simps]: "wf_nr_pci x \<Longrightarrow> encodable (NrPci_codec L) x"
  by (simp add: NrPci_codec_def wf_nr_pci_def encodable_simps)

lemmas NrPci_sound [sound_simps] = NrPci_encodable [THEN encodable_sound]

lemma FiveGsTac_encodable [encodable_simps]: "wf_five_gs_tac x \<Longrightarrow> encodable (FiveGsTac_codec L) x"
  by (simp add: FiveGsTac_codec_def wf_five_gs_tac_def encodable_simps)

lemmas FiveGsTac_sound [sound_simps] = FiveGsTac_encodable [THEN encodable_sound]

lemma ConfiguredEpsTac_encodable [encodable_simps]: "wf_configured_eps_tac x \<Longrightarrow> encodable (ConfiguredEpsTac_codec L) x"
  by (simp add: ConfiguredEpsTac_codec_def wf_configured_eps_tac_def encodable_simps)

lemmas ConfiguredEpsTac_sound [sound_simps] = ConfiguredEpsTac_encodable [THEN encodable_sound]

lemma SliceSupportItem_sound [sound_simps]: "wf_slice_support_item x \<Longrightarrow> sound (SliceSupportItem_codec L) x"
  unfolding SliceSupportItem_codec_def wf_slice_support_item_def
  by (rule sound_impl, intro coded_header coded_field coded_optional_field coded_no_extensions)
    (simp_all add: wf_simps sound_simps encodable_simps)

lemma SliceSupportList_sound [sound_simps]: "wf_slice_support_list x \<Longrightarrow> sound (SliceSupportList_codec L) x"
  unfolding SliceSupportList_codec_def wf_slice_support_list_def by (rule sound_named) (simp add: wf_simps sound_simps encodable_simps)

lemma SliceSupportList_encodable [encodable_simps]: "open_ok wf_slice_support_list (SliceSupportList_codec L) x \<Longrightarrow> encodable (SliceSupportList_codec L) x"
  by (simp add: open_ok_def encodable_def SliceSupportList_sound)

lemma NpnSupportInfo_sound [sound_simps]: "wf_npn_support_info x \<Longrightarrow> sound (NpnSupportInfo_codec L) x"
  unfolding NpnSupportInfo_codec_def wf_npn_support_info_def
  by (rule sound_impl; cases x; simp only: npn_support_info.case; rule coded_choice coded_choice_unit; simp add: wf_simps sound_simps encodable_simps)

lemma NpnSupportInfo_encodable [encodable_simps]: "open_ok wf_npn_support_info (NpnSupportInfo_codec L) x \<Longrightarrow> encodable (NpnSupportInfo_codec L) x"
  by (simp add: open_ok_def encodable_def NpnSupportInfo_sound)

lemma ExtendedSliceSupportList_sound [sound_simps]: "wf_extended_slice_support_list x \<Longrightarrow> sound (ExtendedSliceSupportList_codec L) x"
  unfolding ExtendedSliceSupportList_codec_def wf_extended_slice_support_list_def by (rule sound_named) (simp add: wf_simps sound_simps encodable_simps)

lemma ExtendedSliceSupportList_encodable [encodable_simps]: "open_ok wf_extended_slice_support_list (ExtendedSliceSupportList_codec L) x \<Longrightarrow> encodable (ExtendedSliceSupportList_codec L) x"
  by (simp add: open_ok_def encodable_def ExtendedSliceSupportList_sound)

lemma ServedPlmnsItem_sound [sound_simps]: "wf_served_plmns_item L x \<Longrightarrow> sound (ServedPlmnsItem_codec L) x"
  unfolding ServedPlmnsItem_codec_def wf_served_plmns_item_def
  by (rule sound_impl, rule coded_with_extensions,
      (intro coded_header coded_field coded_optional_field; (erule coded_extends; simp | simp add: wf_simps sound_simps encodable_simps)),
      (rule carried_append | (rule carried_opt_encodable, simp, simp add: wf_simps encodable_simps, simp, simp))+)
    simp_all

lemma ServedPlmnsList_sound [sound_simps]: "wf_served_plmns_list L x \<Longrightarrow> sound (ServedPlmnsList_codec L) x"
  unfolding ServedPlmnsList_codec_def wf_served_plmns_list_def by (rule sound_named) (simp add: wf_simps sound_simps encodable_simps)

lemma NrScs_encodable [encodable_simps]: "encodable (NrScs_codec L) x"
  by (cases x) (simp_all add: NrScs_codec_def encodable_enum)

lemmas NrScs_sound [sound_simps] = NrScs_encodable [THEN encodable_sound]

lemma NrNrB_encodable [encodable_simps]: "encodable (NrNrB_codec L) x"
  by (cases x) (simp_all add: NrNrB_codec_def encodable_enum)

lemmas NrNrB_sound [sound_simps] = NrNrB_encodable [THEN encodable_sound]

lemma TransmissionBandwidth_sound [sound_simps]: "sound (TransmissionBandwidth_codec L) x"
  unfolding TransmissionBandwidth_codec_def
  by (rule sound_impl, intro coded_header coded_field coded_optional_field coded_no_extensions)
    (simp_all add: sound_simps encodable_simps)

lemma NrCarrierItem_sound [sound_simps]: "wf_nr_carrier_item x \<Longrightarrow> sound (NrCarrierItem_codec L) x"
  unfolding NrCarrierItem_codec_def wf_nr_carrier_item_def
  by (rule sound_impl, intro coded_header coded_field coded_optional_field coded_no_extensions)
    (simp_all add: wf_simps sound_simps encodable_simps)

lemma NrCarrierList_sound [sound_simps]: "wf_nr_carrier_list x \<Longrightarrow> sound (NrCarrierList_codec L) x"
  unfolding NrCarrierList_codec_def wf_nr_carrier_list_def by (rule sound_named) (simp add: wf_simps sound_simps encodable_simps)

lemma NrCarrierList_encodable [encodable_simps]: "open_ok wf_nr_carrier_list (NrCarrierList_codec L) x \<Longrightarrow> encodable (NrCarrierList_codec L) x"
  by (simp add: open_ok_def encodable_def NrCarrierList_sound)

lemma FrequencyShift7p5khz_encodable [encodable_simps]: "encodable (FrequencyShift7p5khz_codec L) x"
  by (cases x) (simp_all add: FrequencyShift7p5khz_codec_def encodable_enum)

lemmas FrequencyShift7p5khz_sound [sound_simps] = FrequencyShift7p5khz_encodable [THEN encodable_sound]

lemma SulInformation_sound [sound_simps]: "wf_sul_information L x \<Longrightarrow> sound (SulInformation_codec L) x"
  unfolding SulInformation_codec_def wf_sul_information_def
  by (rule sound_impl, rule coded_with_extensions,
      (intro coded_header coded_field coded_optional_field; (erule coded_extends; simp | simp add: wf_simps sound_simps encodable_simps)),
      (rule carried_append | (rule carried_opt_encodable, simp, simp add: wf_simps encodable_simps, simp, simp))+)
    simp_all

lemma SupportedSulFreqBandItem_sound [sound_simps]: "wf_supported_sul_freq_band_item x \<Longrightarrow> sound (SupportedSulFreqBandItem_codec L) x"
  unfolding SupportedSulFreqBandItem_codec_def wf_supported_sul_freq_band_item_def
  by (rule sound_impl, intro coded_header coded_field coded_optional_field coded_no_extensions)
    (simp_all add: wf_simps sound_simps encodable_simps)

lemma FreqBandNrItem_sound [sound_simps]: "wf_freq_band_nr_item x \<Longrightarrow> sound (FreqBandNrItem_codec L) x"
  unfolding FreqBandNrItem_codec_def wf_freq_band_nr_item_def
  by (rule sound_impl, intro coded_header coded_field coded_optional_field coded_no_extensions)
    (simp_all add: wf_simps sound_simps encodable_simps)

lemma NrFreqInfo_sound [sound_simps]: "wf_nr_freq_info L x \<Longrightarrow> sound (NrFreqInfo_codec L) x"
  unfolding NrFreqInfo_codec_def wf_nr_freq_info_def
  by (rule sound_impl, rule coded_with_extensions,
      (intro coded_header coded_field coded_optional_field; (erule coded_extends; simp | simp add: wf_simps sound_simps encodable_simps)),
      (rule carried_append | (rule carried_opt_encodable, simp, simp add: wf_simps encodable_simps, simp, simp))+)
    simp_all

lemma FddInfo_sound [sound_simps]: "wf_fdd_info L x \<Longrightarrow> sound (FddInfo_codec L) x"
  unfolding FddInfo_codec_def wf_fdd_info_def
  by (rule sound_impl, rule coded_with_extensions,
      (intro coded_header coded_field coded_optional_field; (erule coded_extends; simp | simp add: wf_simps sound_simps encodable_simps)),
      (rule carried_append | (rule carried_opt_encodable, simp, simp add: wf_simps encodable_simps, simp, simp))+)
    simp_all

lemma NrScs1_encodable [encodable_simps]: "encodable (NrScs1_codec L) x"
  by (cases x) (simp_all add: NrScs1_codec_def encodable_enum)

lemmas NrScs1_sound [sound_simps] = NrScs1_encodable [THEN encodable_sound]

lemma NrCp_encodable [encodable_simps]: "encodable (NrCp_codec L) x"
  by (cases x) (simp_all add: NrCp_codec_def encodable_enum)

lemmas NrCp_sound [sound_simps] = NrCp_encodable [THEN encodable_sound]

lemma NrDlUlTxPeriodicity_encodable [encodable_simps]: "encodable (NrDlUlTxPeriodicity_codec L) x"
  by (cases x) (simp_all add: NrDlUlTxPeriodicity_codec_def encodable_enum)

lemmas NrDlUlTxPeriodicity_sound [sound_simps] = NrDlUlTxPeriodicity_encodable [THEN encodable_sound]

lemma NumDlUlSymbols_sound [sound_simps]: "wf_num_dl_ul_symbols x \<Longrightarrow> sound (NumDlUlSymbols_codec L) x"
  unfolding NumDlUlSymbols_codec_def wf_num_dl_ul_symbols_def
  by (rule sound_impl, intro coded_header coded_field coded_optional_field coded_no_extensions)
    (simp_all add: wf_simps sound_simps encodable_simps)

lemma SymbolAllocInSlot_sound [sound_simps]: "wf_symbol_alloc_in_slot x \<Longrightarrow> sound (SymbolAllocInSlot_codec L) x"
  unfolding SymbolAllocInSlot_codec_def wf_symbol_alloc_in_slot_def
  by (rule sound_impl; cases x; simp only: symbol_alloc_in_slot.case; rule coded_choice coded_choice_unit; simp add: wf_simps sound_simps encodable_simps)

lemma SlotConfigurationItem_sound [sound_simps]: "wf_slot_configuration_item x \<Longrightarrow> sound (SlotConfigurationItem_codec L) x"
  unfolding SlotConfigurationItem_codec_def wf_slot_configuration_item_def
  by (rule sound_impl, intro coded_header coded_field coded_optional_field coded_no_extensions)
    (simp_all add: wf_simps sound_simps encodable_simps)

lemma SlotConfigurationList_sound [sound_simps]: "wf_slot_configuration_list x \<Longrightarrow> sound (SlotConfigurationList_codec L) x"
  unfolding SlotConfigurationList_codec_def wf_slot_configuration_list_def by (rule sound_named) (simp add: wf_simps sound_simps encodable_simps)

lemma IntendedTddDlUlConfig_sound [sound_simps]: "wf_intended_tdd_dl_ul_config x \<Longrightarrow> sound (IntendedTddDlUlConfig_codec L) x"
  unfolding IntendedTddDlUlConfig_codec_def wf_intended_tdd_dl_ul_config_def
  by (rule sound_impl, intro coded_header coded_field coded_optional_field coded_no_extensions)
    (simp_all add: wf_simps sound_simps encodable_simps)

lemma IntendedTddDlUlConfig_encodable [encodable_simps]: "open_ok wf_intended_tdd_dl_ul_config (IntendedTddDlUlConfig_codec L) x \<Longrightarrow> encodable (IntendedTddDlUlConfig_codec L) x"
  by (simp add: open_ok_def encodable_def IntendedTddDlUlConfig_sound)

lemma TddUlDlConfigCommonNr_encodable [encodable_simps]: "wf_tdd_ul_dl_config_common_nr x \<Longrightarrow> encodable (TddUlDlConfigCommonNr_codec L) x"
  by (simp add: TddUlDlConfigCommonNr_codec_def wf_tdd_ul_dl_config_common_nr_def encodable_simps)

lemmas TddUlDlConfigCommonNr_sound [sound_simps] = TddUlDlConfigCommonNr_encodable [THEN encodable_sound]

lemma TddInfo_sound [sound_simps]: "wf_tdd_info L x \<Longrightarrow> sound (TddInfo_codec L) x"
  unfolding TddInfo_codec_def wf_tdd_info_def
  by (rule sound_impl, rule coded_with_extensions,
      (intro coded_header coded_field coded_optional_field; (erule coded_extends; simp | simp add: wf_simps sound_simps encodable_simps)),
      (rule carried_append | (rule carried_opt_encodable, simp, simp add: wf_simps encodable_simps, simp, simp))+)
    simp_all

lemma NrModeInfo_sound [sound_simps]: "wf_nr_mode_info L x \<Longrightarrow> sound (NrModeInfo_codec L) x"
  unfolding NrModeInfo_codec_def wf_nr_mode_info_def
  by (rule sound_impl; cases x; simp only: nr_mode_info.case; rule coded_choice coded_choice_unit; simp add: wf_simps sound_simps encodable_simps)

lemma Ranac_encodable [encodable_simps]: "encodable (Ranac_codec L) x"
  by (simp add: Ranac_codec_def encodable_simps)

lemmas Ranac_sound [sound_simps] = Ranac_encodable [THEN encodable_sound]

lemma ExtendedServedPlmnsItem_sound [sound_simps]: "wf_extended_served_plmns_item L x \<Longrightarrow> sound (ExtendedServedPlmnsItem_codec L) x"
  unfolding ExtendedServedPlmnsItem_codec_def wf_extended_served_plmns_item_def
  by (rule sound_impl, rule coded_with_extensions,
      (intro coded_header coded_field coded_optional_field; (erule coded_extends; simp | simp add: wf_simps sound_simps encodable_simps)),
      (rule carried_append | (rule carried_opt_encodable, simp, simp add: wf_simps encodable_simps, simp, simp))+)
    simp_all

lemma ExtendedServedPlmnsList_sound [sound_simps]: "wf_extended_served_plmns_list L x \<Longrightarrow> sound (ExtendedServedPlmnsList_codec L) x"
  unfolding ExtendedServedPlmnsList_codec_def wf_extended_served_plmns_list_def by (rule sound_named) (simp add: wf_simps sound_simps encodable_simps)

lemma ExtendedServedPlmnsList_encodable [encodable_simps]: "open_ok (wf_extended_served_plmns_list L) (ExtendedServedPlmnsList_codec L) x \<Longrightarrow> encodable (ExtendedServedPlmnsList_codec L) x"
  by (simp add: open_ok_def encodable_def ExtendedServedPlmnsList_sound)

lemma CellDirection_encodable [encodable_simps]: "encodable (CellDirection_codec L) x"
  by (cases x) (simp_all add: CellDirection_codec_def encodable_enum)

lemmas CellDirection_sound [sound_simps] = CellDirection_encodable [THEN encodable_sound]

lemma AvailablePlmnListItem_sound [sound_simps]: "wf_available_plmn_list_item x \<Longrightarrow> sound (AvailablePlmnListItem_codec L) x"
  unfolding AvailablePlmnListItem_codec_def wf_available_plmn_list_item_def
  by (rule sound_impl, intro coded_header coded_field coded_optional_field coded_no_extensions)
    (simp_all add: wf_simps sound_simps encodable_simps)

lemma AvailablePlmnList_sound [sound_simps]: "wf_available_plmn_list x \<Longrightarrow> sound (AvailablePlmnList_codec L) x"
  unfolding AvailablePlmnList_codec_def wf_available_plmn_list_def by (rule sound_named) (simp add: wf_simps sound_simps encodable_simps)

lemma AvailablePlmnList_encodable [encodable_simps]: "open_ok wf_available_plmn_list (AvailablePlmnList_codec L) x \<Longrightarrow> encodable (AvailablePlmnList_codec L) x"
  by (simp add: open_ok_def encodable_def AvailablePlmnList_sound)

lemma ExtendedAvailablePlmnItem_sound [sound_simps]: "wf_extended_available_plmn_item x \<Longrightarrow> sound (ExtendedAvailablePlmnItem_codec L) x"
  unfolding ExtendedAvailablePlmnItem_codec_def wf_extended_available_plmn_item_def
  by (rule sound_impl, intro coded_header coded_field coded_optional_field coded_no_extensions)
    (simp_all add: wf_simps sound_simps encodable_simps)

lemma ExtendedAvailablePlmnList_sound [sound_simps]: "wf_extended_available_plmn_list x \<Longrightarrow> sound (ExtendedAvailablePlmnList_codec L) x"
  unfolding ExtendedAvailablePlmnList_codec_def wf_extended_available_plmn_list_def by (rule sound_named) (simp add: wf_simps sound_simps encodable_simps)

lemma ExtendedAvailablePlmnList_encodable [encodable_simps]: "open_ok wf_extended_available_plmn_list (ExtendedAvailablePlmnList_codec L) x \<Longrightarrow> encodable (ExtendedAvailablePlmnList_codec L) x"
  by (simp add: open_ok_def encodable_def ExtendedAvailablePlmnList_sound)

lemma ConfiguredTacIndication_encodable [encodable_simps]: "encodable (ConfiguredTacIndication_codec L) x"
  by (cases x) (simp_all add: ConfiguredTacIndication_codec_def encodable_enum)

lemmas ConfiguredTacIndication_sound [sound_simps] = ConfiguredTacIndication_encodable [THEN encodable_sound]

lemma BroadcastNidList_sound [sound_simps]: "wf_broadcast_nid_list x \<Longrightarrow> sound (BroadcastNidList_codec L) x"
  unfolding BroadcastNidList_codec_def wf_broadcast_nid_list_def by (rule sound_named) (simp add: wf_simps sound_simps encodable_simps)

lemma BroadcastSnpnIdListItem_sound [sound_simps]: "wf_broadcast_snpn_id_list_item x \<Longrightarrow> sound (BroadcastSnpnIdListItem_codec L) x"
  unfolding BroadcastSnpnIdListItem_codec_def wf_broadcast_snpn_id_list_item_def
  by (rule sound_impl, intro coded_header coded_field coded_optional_field coded_no_extensions)
    (simp_all add: wf_simps sound_simps encodable_simps)

lemma BroadcastSnpnIdList_sound [sound_simps]: "wf_broadcast_snpn_id_list x \<Longrightarrow> sound (BroadcastSnpnIdList_codec L) x"
  unfolding BroadcastSnpnIdList_codec_def wf_broadcast_snpn_id_list_def by (rule sound_named) (simp add: wf_simps sound_simps encodable_simps)

lemma NpnBroadcastInformationSnpn_sound [sound_simps]: "wf_npn_broadcast_information_snpn x \<Longrightarrow> sound (NpnBroadcastInformationSnpn_codec L) x"
  unfolding NpnBroadcastInformationSnpn_codec_def wf_npn_broadcast_information_snpn_def
  by (rule sound_impl, intro coded_header coded_field coded_optional_field coded_no_extensions)
    (simp_all add: wf_simps sound_simps encodable_simps)

lemma Cagid_encodable [encodable_simps]: "wf_cagid x \<Longrightarrow> encodable (Cagid_codec L) x"
  by (simp add: Cagid_codec_def wf_cagid_def encodable_simps)

lemmas Cagid_sound [sound_simps] = Cagid_encodable [THEN encodable_sound]

lemma BroadcastCagList_sound [sound_simps]: "wf_broadcast_cag_list x \<Longrightarrow> sound (BroadcastCagList_codec L) x"
  unfolding BroadcastCagList_codec_def wf_broadcast_cag_list_def by (rule sound_named) (simp add: wf_simps sound_simps encodable_simps)

lemma BroadcastPniNpnIdListItem_sound [sound_simps]: "wf_broadcast_pni_npn_id_list_item x \<Longrightarrow> sound (BroadcastPniNpnIdListItem_codec L) x"
  unfolding BroadcastPniNpnIdListItem_codec_def wf_broadcast_pni_npn_id_list_item_def
  by (rule sound_impl, intro coded_header coded_field coded_optional_field coded_no_extensions)
    (simp_all add: wf_simps sound_simps encodable_simps)

lemma BroadcastPniNpnIdList_sound [sound_simps]: "wf_broadcast_pni_npn_id_list x \<Longrightarrow> sound (BroadcastPniNpnIdList_codec L) x"
  unfolding BroadcastPniNpnIdList_codec_def wf_broadcast_pni_npn_id_list_def by (rule sound_named) (simp add: wf_simps sound_simps encodable_simps)

lemma NpnBroadcastInformationPniNpn_sound [sound_simps]: "wf_npn_broadcast_information_pni_npn x \<Longrightarrow> sound (NpnBroadcastInformationPniNpn_codec L) x"
  unfolding NpnBroadcastInformationPniNpn_codec_def wf_npn_broadcast_information_pni_npn_def
  by (rule sound_impl, intro coded_header coded_field coded_optional_field coded_no_extensions)
    (simp_all add: wf_simps sound_simps encodable_simps)

lemma NpnBroadcastInformation_sound [sound_simps]: "wf_npn_broadcast_information x \<Longrightarrow> sound (NpnBroadcastInformation_codec L) x"
  unfolding NpnBroadcastInformation_codec_def wf_npn_broadcast_information_def
  by (rule sound_impl; cases x; simp only: npn_broadcast_information.case; rule coded_choice coded_choice_unit; simp add: wf_simps sound_simps encodable_simps)

lemma NpnBroadcastInformation_encodable [encodable_simps]: "open_ok wf_npn_broadcast_information (NpnBroadcastInformation_codec L) x \<Longrightarrow> encodable (NpnBroadcastInformation_codec L) x"
  by (simp add: open_ok_def encodable_def NpnBroadcastInformation_sound)

lemma BPlmnIdInfoItem_sound [sound_simps]: "wf_b_plmn_id_info_item L x \<Longrightarrow> sound (BPlmnIdInfoItem_codec L) x"
  unfolding BPlmnIdInfoItem_codec_def wf_b_plmn_id_info_item_def
  by (rule sound_impl, rule coded_with_extensions,
      (intro coded_header coded_field coded_optional_field; (erule coded_extends; simp | simp add: wf_simps sound_simps encodable_simps)),
      (rule carried_append | (rule carried_opt_encodable, simp, simp add: wf_simps encodable_simps, simp, simp))+)
    simp_all

lemma BPlmnIdInfoList_sound [sound_simps]: "wf_b_plmn_id_info_list L x \<Longrightarrow> sound (BPlmnIdInfoList_codec L) x"
  unfolding BPlmnIdInfoList_codec_def wf_b_plmn_id_info_list_def by (rule sound_named) (simp add: wf_simps sound_simps encodable_simps)

lemma BPlmnIdInfoList_encodable [encodable_simps]: "open_ok (wf_b_plmn_id_info_list L) (BPlmnIdInfoList_codec L) x \<Longrightarrow> encodable (BPlmnIdInfoList_codec L) x"
  by (simp add: open_ok_def encodable_def BPlmnIdInfoList_sound)

lemma CellSize_encodable [encodable_simps]: "encodable (CellSize_codec L) x"
  by (cases x) (simp_all add: CellSize_codec_def encodable_enum)

lemmas CellSize_sound [sound_simps] = CellSize_encodable [THEN encodable_sound]

lemma CellType_sound [sound_simps]: "sound (CellType_codec L) x"
  unfolding CellType_codec_def
  by (rule sound_impl, intro coded_header coded_field coded_optional_field coded_no_extensions)
    (simp_all add: sound_simps encodable_simps)

lemma CellType_encodable [encodable_simps]: "fits (CellType_codec L) x \<Longrightarrow> encodable (CellType_codec L) x"
  by (simp add: encodable_def CellType_sound)

lemma GnbSetId_encodable [encodable_simps]: "wf_gnb_set_id x \<Longrightarrow> encodable (GnbSetId_codec L) x"
  by (simp add: GnbSetId_codec_def wf_gnb_set_id_def encodable_simps)

lemmas GnbSetId_sound [sound_simps] = GnbSetId_encodable [THEN encodable_sound]

lemma AggressorGnbSetId_sound [sound_simps]: "wf_aggressor_gnb_set_id x \<Longrightarrow> sound (AggressorGnbSetId_codec L) x"
  unfolding AggressorGnbSetId_codec_def wf_aggressor_gnb_set_id_def
  by (rule sound_impl, intro coded_header coded_field coded_optional_field coded_no_extensions)
    (simp_all add: wf_simps sound_simps encodable_simps)

lemma AggressorGnbSetId_encodable [encodable_simps]: "open_ok wf_aggressor_gnb_set_id (AggressorGnbSetId_codec L) x \<Longrightarrow> encodable (AggressorGnbSetId_codec L) x"
  by (simp add: open_ok_def encodable_def AggressorGnbSetId_sound)

lemma VictimGnbSetId_sound [sound_simps]: "wf_victim_gnb_set_id x \<Longrightarrow> sound (VictimGnbSetId_codec L) x"
  unfolding VictimGnbSetId_codec_def wf_victim_gnb_set_id_def
  by (rule sound_impl, intro coded_header coded_field coded_optional_field coded_no_extensions)
    (simp_all add: wf_simps sound_simps encodable_simps)

lemma VictimGnbSetId_encodable [encodable_simps]: "open_ok wf_victim_gnb_set_id (VictimGnbSetId_codec L) x \<Longrightarrow> encodable (VictimGnbSetId_codec L) x"
  by (simp add: open_ok_def encodable_def VictimGnbSetId_sound)

lemma DuRxMtRx_encodable [encodable_simps]: "encodable (DuRxMtRx_codec L) x"
  by (cases x) (simp_all add: DuRxMtRx_codec_def encodable_enum)

lemmas DuRxMtRx_sound [sound_simps] = DuRxMtRx_encodable [THEN encodable_sound]

lemma DuTxMtTx_encodable [encodable_simps]: "encodable (DuTxMtTx_codec L) x"
  by (cases x) (simp_all add: DuTxMtTx_codec_def encodable_enum)

lemmas DuTxMtTx_sound [sound_simps] = DuTxMtTx_encodable [THEN encodable_sound]

lemma DuRxMtTx_encodable [encodable_simps]: "encodable (DuRxMtTx_codec L) x"
  by (cases x) (simp_all add: DuRxMtTx_codec_def encodable_enum)

lemmas DuRxMtTx_sound [sound_simps] = DuRxMtTx_encodable [THEN encodable_sound]

lemma DuTxMtRx_encodable [encodable_simps]: "encodable (DuTxMtRx_codec L) x"
  by (cases x) (simp_all add: DuTxMtRx_codec_def encodable_enum)

lemmas DuTxMtRx_sound [sound_simps] = DuTxMtRx_encodable [THEN encodable_sound]

lemma IabMtCellListItem_sound [sound_simps]: "wf_iab_mt_cell_list_item x \<Longrightarrow> sound (IabMtCellListItem_codec L) x"
  unfolding IabMtCellListItem_codec_def wf_iab_mt_cell_list_item_def
  by (rule sound_impl, intro coded_header coded_field coded_optional_field coded_no_extensions)
    (simp_all add: wf_simps sound_simps encodable_simps)

lemma IabMtCellList_sound [sound_simps]: "wf_iab_mt_cell_list x \<Longrightarrow> sound (IabMtCellList_codec L) x"
  unfolding IabMtCellList_codec_def wf_iab_mt_cell_list_def by (rule sound_named) (simp add: wf_simps sound_simps encodable_simps)

lemma MultiplexingInfo_sound [sound_simps]: "wf_multiplexing_info x \<Longrightarrow> sound (MultiplexingInfo_codec L) x"
  unfolding MultiplexingInfo_codec_def wf_multiplexing_info_def
  by (rule sound_impl, intro coded_header coded_field coded_optional_field coded_no_extensions)
    (simp_all add: wf_simps sound_simps encodable_simps)

lemma SsbFreqInfo_encodable [encodable_simps]: "wf_ssb_freq_info x \<Longrightarrow> encodable (SsbFreqInfo_codec L) x"
  by (simp add: SsbFreqInfo_codec_def wf_ssb_freq_info_def encodable_simps)

lemmas SsbFreqInfo_sound [sound_simps] = SsbFreqInfo_encodable [THEN encodable_sound]

lemma SsbSubcarrierSpacing_encodable [encodable_simps]: "encodable (SsbSubcarrierSpacing_codec L) x"
  by (cases x) (simp_all add: SsbSubcarrierSpacing_codec_def encodable_enum)

lemmas SsbSubcarrierSpacing_sound [sound_simps] = SsbSubcarrierSpacing_encodable [THEN encodable_sound]

lemma SsbTransmissionPeriodicity_encodable [encodable_simps]: "encodable (SsbTransmissionPeriodicity_codec L) x"
  by (cases x) (simp_all add: SsbTransmissionPeriodicity_codec_def encodable_enum)

lemmas SsbTransmissionPeriodicity_sound [sound_simps] = SsbTransmissionPeriodicity_encodable [THEN encodable_sound]

lemma SsbTransmissionTimingOffset_encodable [encodable_simps]: "wf_ssb_transmission_timing_offset x \<Longrightarrow> encodable (SsbTransmissionTimingOffset_codec L) x"
  by (simp add: SsbTransmissionTimingOffset_codec_def wf_ssb_transmission_timing_offset_def encodable_simps)

lemmas SsbTransmissionTimingOffset_sound [sound_simps] = SsbTransmissionTimingOffset_encodable [THEN encodable_sound]

lemma SsbTransmissionBitmap_sound [sound_simps]: "wf_ssb_transmission_bitmap x \<Longrightarrow> sound (SsbTransmissionBitmap_codec L) x"
  unfolding SsbTransmissionBitmap_codec_def wf_ssb_transmission_bitmap_def
  by (rule sound_impl; cases x; simp only: ssb_transmission_bitmap.case; rule coded_choice coded_choice_unit; simp add: wf_simps sound_simps encodable_simps)

lemma IabStcInfoItem_sound [sound_simps]: "wf_iab_stc_info_item x \<Longrightarrow> sound (IabStcInfoItem_codec L) x"
  unfolding IabStcInfoItem_codec_def wf_iab_stc_info_item_def
  by (rule sound_impl, intro coded_header coded_field coded_optional_field coded_no_extensions)
    (simp_all add: wf_simps sound_simps encodable_simps)

lemma IabStcInfoList_sound [sound_simps]: "wf_iab_stc_info_list x \<Longrightarrow> sound (IabStcInfoList_codec L) x"
  unfolding IabStcInfoList_codec_def wf_iab_stc_info_list_def by (rule sound_named) (simp add: wf_simps sound_simps encodable_simps)

lemma IabStcInfo_sound [sound_simps]: "wf_iab_stc_info x \<Longrightarrow> sound (IabStcInfo_codec L) x"
  unfolding IabStcInfo_codec_def wf_iab_stc_info_def
  by (rule sound_impl, intro coded_header coded_field coded_optional_field coded_no_extensions)
    (simp_all add: wf_simps sound_simps encodable_simps)

lemma IabInfoIabDu_sound [sound_simps]: "wf_iab_info_iab_du x \<Longrightarrow> sound (IabInfoIabDu_codec L) x"
  unfolding IabInfoIabDu_codec_def wf_iab_info_iab_du_def
  by (rule sound_impl, intro coded_header coded_field coded_optional_field coded_no_extensions)
    (simp_all add: wf_simps sound_simps encodable_simps)

lemma IabInfoIabDu_encodable [encodable_simps]: "open_ok wf_iab_info_iab_du (IabInfoIabDu_codec L) x \<Longrightarrow> encodable (IabInfoIabDu_codec L) x"
  by (simp add: open_ok_def encodable_def IabInfoIabDu_sound)

lemma SsbPositionsInBurst_sound [sound_simps]: "wf_ssb_positions_in_burst x \<Longrightarrow> sound (SsbPositionsInBurst_codec L) x"
  unfolding SsbPositionsInBurst_codec_def wf_ssb_positions_in_burst_def
  by (rule sound_impl; cases x; simp only: ssb_positions_in_burst.case; rule coded_choice coded_choice_unit; simp add: wf_simps sound_simps encodable_simps)

lemma SsbPositionsInBurst_encodable [encodable_simps]: "open_ok wf_ssb_positions_in_burst (SsbPositionsInBurst_codec L) x \<Longrightarrow> encodable (SsbPositionsInBurst_codec L) x"
  by (simp add: open_ok_def encodable_def SsbPositionsInBurst_sound)

lemma Msg1fdm_encodable [encodable_simps]: "encodable (Msg1fdm_codec L) x"
  by (cases x) (simp_all add: Msg1fdm_codec_def encodable_enum)

lemmas Msg1fdm_sound [sound_simps] = Msg1fdm_encodable [THEN encodable_sound]

lemma SsbPerRachOccasion_encodable [encodable_simps]: "encodable (SsbPerRachOccasion_codec L) x"
  by (cases x) (simp_all add: SsbPerRachOccasion_codec_def encodable_enum)

lemmas SsbPerRachOccasion_sound [sound_simps] = SsbPerRachOccasion_encodable [THEN encodable_sound]

lemma RestrictedSetConfig_encodable [encodable_simps]: "encodable (RestrictedSetConfig_codec L) x"
  by (cases x) (simp_all add: RestrictedSetConfig_codec_def encodable_enum)

lemmas RestrictedSetConfig_sound [sound_simps] = RestrictedSetConfig_encodable [THEN encodable_sound]

lemma L839Info_sound [sound_simps]: "wf_l839_info x \<Longrightarrow> sound (L839Info_codec L) x"
  unfolding L839Info_codec_def wf_l839_info_def
  by (rule sound_impl, intro coded_header coded_field coded_optional_field coded_no_extensions)
    (simp_all add: wf_simps sound_simps encodable_simps)

lemma Msg1scs_encodable [encodable_simps]: "encodable (Msg1scs_codec L) x"
  by (cases x) (simp_all add: Msg1scs_codec_def encodable_enum)

lemmas Msg1scs_sound [sound_simps] = Msg1scs_encodable [THEN encodable_sound]

lemma L139Info_sound [sound_simps]: "wf_l139_info x \<Longrightarrow> sound (L139Info_codec L) x"
  unfolding L139Info_codec_def wf_l139_info_def
  by (rule sound_impl, intro coded_header coded_field coded_optional_field coded_no_extensions)
    (simp_all add: wf_simps sound_simps encodable_simps)

lemma FreqDomainLength_sound [sound_simps]: "wf_freq_domain_length x \<Longrightarrow> sound (FreqDomainLength_codec L) x"
  unfolding FreqDomainLength_codec_def wf_freq_domain_length_def
  by (rule sound_impl; cases x; simp only: freq_domain_length.case; rule coded_choice coded_choice_unit; simp add: wf_simps sound_simps encodable_simps)

lemma NrPrachConfigItem_sound [sound_simps]: "wf_nr_prach_config_item x \<Longrightarrow> sound (NrPrachConfigItem_codec L) x"
  unfolding NrPrachConfigItem_codec_def wf_nr_prach_config_item_def
  by (rule sound_impl, intro coded_header coded_field coded_optional_field coded_no_extensions)
    (simp_all add: wf_simps sound_simps encodable_simps)

lemma NrPrachConfigList_sound [sound_simps]: "wf_nr_prach_config_list x \<Longrightarrow> sound (NrPrachConfigList_codec L) x"
  unfolding NrPrachConfigList_codec_def wf_nr_prach_config_list_def by (rule sound_named) (simp add: wf_simps sound_simps encodable_simps)

lemma NrPrachConfig_sound [sound_simps]: "wf_nr_prach_config x \<Longrightarrow> sound (NrPrachConfig_codec L) x"
  unfolding NrPrachConfig_codec_def wf_nr_prach_config_def
  by (rule sound_impl, intro coded_header coded_field coded_optional_field coded_no_extensions)
    (simp_all add: wf_simps sound_simps encodable_simps)

lemma NrPrachConfig_encodable [encodable_simps]: "open_ok wf_nr_prach_config (NrPrachConfig_codec L) x \<Longrightarrow> encodable (NrPrachConfig_codec L) x"
  by (simp add: open_ok_def encodable_def NrPrachConfig_sound)

lemma SfnOffset_sound [sound_simps]: "wf_sfn_offset x \<Longrightarrow> sound (SfnOffset_codec L) x"
  unfolding SfnOffset_codec_def wf_sfn_offset_def
  by (rule sound_impl, intro coded_header coded_field coded_optional_field coded_no_extensions)
    (simp_all add: wf_simps sound_simps encodable_simps)

lemma SfnOffset_encodable [encodable_simps]: "open_ok wf_sfn_offset (SfnOffset_codec L) x \<Longrightarrow> encodable (SfnOffset_codec L) x"
  by (simp add: open_ok_def encodable_def SfnOffset_sound)

lemma ServedCellInformation_sound [sound_simps]: "wf_served_cell_information L x \<Longrightarrow> sound (ServedCellInformation_codec L) x"
  unfolding ServedCellInformation_codec_def wf_served_cell_information_def
  by (rule sound_impl, unfold ServedCellInformation_decode_inner_def ServedCellInformation_encode_inner_def, rule coded_with_extensions,
      (intro coded_header coded_field coded_optional_field; (erule coded_extends; simp | simp add: wf_simps sound_simps encodable_simps)),
      (rule carried_append | (rule carried_opt_encodable, simp, simp add: wf_simps encodable_simps, simp, simp))+)
    simp_all

lemma MibMessage_encodable [encodable_simps]: "wf_mib_message x \<Longrightarrow> encodable (MibMessage_codec L) x"
  by (simp add: MibMessage_codec_def wf_mib_message_def encodable_simps)

lemmas MibMessage_sound [sound_simps] = MibMessage_encodable [THEN encodable_sound]

lemma Sib1Message_encodable [encodable_simps]: "wf_sib1_message x \<Longrightarrow> encodable (Sib1Message_codec L) x"
  by (simp add: Sib1Message_codec_def wf_sib1_message_def encodable_simps)

lemmas Sib1Message_sound [sound_simps] = Sib1Message_encodable [THEN encodable_sound]

lemma Sib12Message_encodable [encodable_simps]: "wf_sib12_message x \<Longrightarrow> encodable (Sib12Message_codec L) x"
  by (simp add: Sib12Message_codec_def wf_sib12_message_def encodable_simps)

lemmas Sib12Message_sound [sound_simps] = Sib12Message_encodable [THEN encodable_sound]

lemma Sib13Message_encodable [encodable_simps]: "wf_sib13_message x \<Longrightarrow> encodable (Sib13Message_codec L) x"
  by (simp add: Sib13Message_codec_def wf_sib13_message_def encodable_simps)

lemmas Sib13Message_sound [sound_simps] = Sib13Message_encodable [THEN encodable_sound]

lemma Sib14Message_encodable [encodable_simps]: "wf_sib14_message x \<Longrightarrow> encodable (Sib14Message_codec L) x"
  by (simp add: Sib14Message_codec_def wf_sib14_message_def encodable_simps)

lemmas Sib14Message_sound [sound_simps] = Sib14Message_encodable [THEN encodable_sound]

lemma Sib10Message_encodable [encodable_simps]: "wf_sib10_message x \<Longrightarrow> encodable (Sib10Message_codec L) x"
  by (simp add: Sib10Message_codec_def wf_sib10_message_def encodable_simps)

lemmas Sib10Message_sound [sound_simps] = Sib10Message_encodable [THEN encodable_sound]

lemma GnbDuSystemInformation_sound [sound_simps]: "wf_gnb_du_system_information x \<Longrightarrow> sound (GnbDuSystemInformation_codec L) x"
  unfolding GnbDuSystemInformation_codec_def wf_gnb_du_system_information_def
  by (rule sound_impl, rule coded_with_extensions,
      (intro coded_header coded_field coded_optional_field; (erule coded_extends; simp | simp add: wf_simps sound_simps encodable_simps)),
      (rule carried_append | (rule carried_opt_encodable, simp, simp add: wf_simps encodable_simps, simp, simp))+)
    simp_all

lemma GnbDuServedCellsItem_sound [sound_simps]: "wf_gnb_du_served_cells_item L x \<Longrightarrow> sound (GnbDuServedCellsItem_codec L) x"
  unfolding GnbDuServedCellsItem_codec_def wf_gnb_du_served_cells_item_def
  by (rule sound_impl, intro coded_header coded_field coded_optional_field coded_no_extensions)
    (simp_all add: wf_simps sound_simps encodable_simps)

lemma GnbDuServedCellsItem_encodable [encodable_simps]: "open_ok (wf_gnb_du_served_cells_item L) (GnbDuServedCellsItem_codec L) x \<Longrightarrow> encodable (GnbDuServedCellsItem_codec L) x"
  by (simp add: open_ok_def encodable_def GnbDuServedCellsItem_sound)

lemma GnbDuServedCellsList_sound [sound_simps]: "wf_gnb_du_served_cells_list L x \<Longrightarrow> sound (GnbDuServedCellsList_codec L) x"
  unfolding GnbDuServedCellsList_codec_def wf_gnb_du_served_cells_list_def by (rule sound_named) (simp add: wf_simps sound_simps encodable_simps)

lemma GnbDuServedCellsList_encodable [encodable_simps]: "open_ok (wf_gnb_du_served_cells_list L) (GnbDuServedCellsList_codec L) x \<Longrightarrow> encodable (GnbDuServedCellsList_codec L) x"
  by (simp add: open_ok_def encodable_def GnbDuServedCellsList_sound)

lemma RrcVersion_sound [sound_simps]: "wf_rrc_version x \<Longrightarrow> sound (RrcVersion_codec L) x"
  unfolding RrcVersion_codec_def wf_rrc_version_def
  by (rule sound_impl, rule coded_with_extensions,
      (intro coded_header coded_field coded_optional_field; (erule coded_extends; simp | simp add: wf_simps sound_simps encodable_simps)),
      (rule carried_append | (rule carried_opt_encodable, simp, simp add: wf_simps encodable_simps, simp, simp))+)
    simp_all

lemma RrcVersion_encodable [encodable_simps]: "open_ok wf_rrc_version (RrcVersion_codec L) x \<Longrightarrow> encodable (RrcVersion_codec L) x"
  by (simp add: open_ok_def encodable_def RrcVersion_sound)

lemma GtptlaItem_sound [sound_simps]: "wf_gtptla_item x \<Longrightarrow> sound (GtptlaItem_codec L) x"
  unfolding GtptlaItem_codec_def wf_gtptla_item_def
  by (rule sound_impl, intro coded_header coded_field coded_optional_field coded_no_extensions)
    (simp_all add: wf_simps sound_simps encodable_simps)

lemma GtptlAs_sound [sound_simps]: "wf_gtptl_as x \<Longrightarrow> sound (GtptlAs_codec L) x"
  unfolding GtptlAs_codec_def wf_gtptl_as_def by (rule sound_named) (simp add: wf_simps sound_simps encodable_simps)

lemma TransportUpLayerAddressInfoToAddItem_sound [sound_simps]: "wf_transport_up_layer_address_info_to_add_item x \<Longrightarrow> sound (TransportUpLayerAddressInfoToAddItem_codec L) x"
  unfolding TransportUpLayerAddressInfoToAddItem_codec_def wf_transport_up_layer_address_info_to_add_item_def
  by (rule sound_impl, intro coded_header coded_field coded_optional_field coded_no_extensions)
    (simp_all add: wf_simps sound_simps encodable_simps)

lemma TransportUpLayerAddressInfoToAddList_sound [sound_simps]: "wf_transport_up_layer_address_info_to_add_list x \<Longrightarrow> sound (TransportUpLayerAddressInfoToAddList_codec L) x"
  unfolding TransportUpLayerAddressInfoToAddList_codec_def wf_transport_up_layer_address_info_to_add_list_def by (rule sound_named) (simp add: wf_simps sound_simps encodable_simps)

lemma TransportUpLayerAddressInfoToRemoveItem_sound [sound_simps]: "wf_transport_up_layer_address_info_to_remove_item x \<Longrightarrow> sound (TransportUpLayerAddressInfoToRemoveItem_codec L) x"
  unfolding TransportUpLayerAddressInfoToRemoveItem_codec_def wf_transport_up_layer_address_info_to_remove_item_def
  by (rule sound_impl, intro coded_header coded_field coded_optional_field coded_no_extensions)
    (simp_all add: wf_simps sound_simps encodable_simps)

lemma TransportUpLayerAddressInfoToRemoveList_sound [sound_simps]: "wf_transport_up_layer_address_info_to_remove_list x \<Longrightarrow> sound (TransportUpLayerAddressInfoToRemoveList_codec L) x"
  unfolding TransportUpLayerAddressInfoToRemoveList_codec_def wf_transport_up_layer_address_info_to_remove_list_def by (rule sound_named) (simp add: wf_simps sound_simps encodable_simps)

lemma TransportLayerAddressInfo_sound [sound_simps]: "wf_transport_layer_address_info x \<Longrightarrow> sound (TransportLayerAddressInfo_codec L) x"
  unfolding TransportLayerAddressInfo_codec_def wf_transport_layer_address_info_def
  by (rule sound_impl, intro coded_header coded_field coded_optional_field coded_no_extensions)
    (simp_all add: wf_simps sound_simps encodable_simps)

lemma TransportLayerAddressInfo_encodable [encodable_simps]: "open_ok wf_transport_layer_address_info (TransportLayerAddressInfo_codec L) x \<Longrightarrow> encodable (TransportLayerAddressInfo_codec L) x"
  by (simp add: open_ok_def encodable_def TransportLayerAddressInfo_sound)

lemma GnbCuNameVisibleString_encodable [encodable_simps]: "wf_gnb_cu_name_visible_string x \<Longrightarrow> encodable (GnbCuNameVisibleString_codec L) x"
  by (simp add: GnbCuNameVisibleString_codec_def wf_gnb_cu_name_visible_string_def encodable_simps)

lemmas GnbCuNameVisibleString_sound [sound_simps] = GnbCuNameVisibleString_encodable [THEN encodable_sound]

lemma GnbCuNameUtf8String_encodable [encodable_simps]: "wf_gnb_cu_name_utf8_string x \<Longrightarrow> encodable (GnbCuNameUtf8String_codec L) x"
  by (simp add: GnbCuNameUtf8String_codec_def wf_gnb_cu_name_utf8_string_def encodable_simps)

lemmas GnbCuNameUtf8String_sound [sound_simps] = GnbCuNameUtf8String_encodable [THEN encodable_sound]

lemma ExtendedGnbCuName_sound [sound_simps]: "wf_extended_gnb_cu_name x \<Longrightarrow> sound (ExtendedGnbCuName_codec L) x"
  unfolding ExtendedGnbCuName_codec_def wf_extended_gnb_cu_name_def
  by (rule sound_impl, intro coded_header coded_field coded_optional_field coded_no_extensions)
    (simp_all add: wf_simps sound_simps encodable_simps)

lemma ExtendedGnbCuName_encodable [encodable_simps]: "open_ok wf_extended_gnb_cu_name (ExtendedGnbCuName_codec L) x \<Longrightarrow> encodable (ExtendedGnbCuName_codec L) x"
  by (simp add: open_ok_def encodable_def ExtendedGnbCuName_sound)

lemma GnbCuName_encodable [encodable_simps]: "wf_gnb_cu_name x \<Longrightarrow> encodable (GnbCuName_codec L) x"
  by (simp add: GnbCuName_codec_def wf_gnb_cu_name_def encodable_simps)

lemmas GnbCuName_sound [sound_simps] = GnbCuName_encodable [THEN encodable_sound]

lemma AreaScope_encodable [encodable_simps]: "encodable (AreaScope_codec L) x"
  by (cases x) (simp_all add: AreaScope_codec_def encodable_enum)

lemmas AreaScope_sound [sound_simps] = AreaScope_encodable [THEN encodable_sound]

lemma SibTypeToBeUpdatedListItem_sound [sound_simps]: "wf_sib_type_to_be_updated_list_item x \<Longrightarrow> sound (SibTypeToBeUpdatedListItem_codec L) x"
  unfolding SibTypeToBeUpdatedListItem_codec_def wf_sib_type_to_be_updated_list_item_def
  by (rule sound_impl, rule coded_with_extensions,
      (intro coded_header coded_field coded_optional_field; (erule coded_extends; simp | simp add: wf_simps sound_simps encodable_simps)),
      (rule carried_append | (rule carried_opt_encodable, simp, simp add: wf_simps encodable_simps, simp, simp))+)
    simp_all

lemma SystemInformationAreaId_encodable [encodable_simps]: "wf_system_information_area_id x \<Longrightarrow> encodable (SystemInformationAreaId_codec L) x"
  by (simp add: SystemInformationAreaId_codec_def wf_system_information_area_id_def encodable_simps)

lemmas SystemInformationAreaId_sound [sound_simps] = SystemInformationAreaId_encodable [THEN encodable_sound]

lemma GnbCuSystemInformation_sound [sound_simps]: "wf_gnb_cu_system_information x \<Longrightarrow> sound (GnbCuSystemInformation_codec L) x"
  unfolding GnbCuSystemInformation_codec_def wf_gnb_cu_system_information_def
  by (rule sound_impl, rule coded_with_extensions,
      (intro coded_header coded_field coded_optional_field; (erule coded_extends; simp | simp add: wf_simps sound_simps encodable_simps)),
      (rule carried_append | (rule carried_opt_encodable, simp, simp add: wf_simps encodable_simps, simp, simp))+)
    simp_all

lemma GnbCuSystemInformation_encodable [encodable_simps]: "open_ok wf_gnb_cu_system_information (GnbCuSystemInformation_codec L) x \<Longrightarrow> encodable (GnbCuSystemInformation_codec L) x"
  by (simp add: open_ok_def encodable_def GnbCuSystemInformation_sound)

lemma IabInfoIabDonorCu_sound [sound_simps]: "wf_iab_info_iab_donor_cu x \<Longrightarrow> sound (IabInfoIabDonorCu_codec L) x"
  unfolding IabInfoIabDonorCu_codec_def wf_iab_info_iab_donor_cu_def
  by (rule sound_impl, intro coded_header coded_field coded_optional_field coded_no_extensions)
    (simp_all add: wf_simps sound_simps encodable_simps)

lemma IabInfoIabDonorCu_encodable [encodable_simps]: "open_ok wf_iab_info_iab_donor_cu (IabInfoIabDonorCu_codec L) x \<Longrightarrow> encodable (IabInfoIabDonorCu_codec L) x"
  by (simp add: open_ok_def encodable_def IabInfoIabDonorCu_sound)

lemma AvailableSnpnIdListItem_sound [sound_simps]: "wf_available_snpn_id_list_item x \<Longrightarrow> sound (AvailableSnpnIdListItem_codec L) x"
  unfolding AvailableSnpnIdListItem_codec_def wf_available_snpn_id_list_item_def
  by (rule sound_impl, intro coded_header coded_field coded_optional_field coded_no_extensions)
    (simp_all add: wf_simps sound_simps encodable_simps)

lemma AvailableSnpnIdList_sound [sound_simps]: "wf_available_snpn_id_list x \<Longrightarrow> sound (AvailableSnpnIdList_codec L) x"
  unfolding AvailableSnpnIdList_codec_def wf_available_snpn_id_list_def by (rule sound_named) (simp add: wf_simps sound_simps encodable_simps)

lemma AvailableSnpnIdList_encodable [encodable_simps]: "open_ok wf_available_snpn_id_list (AvailableSnpnIdList_codec L) x \<Longrightarrow> encodable (AvailableSnpnIdList_codec L) x"
  by (simp add: open_ok_def encodable_def AvailableSnpnIdList_sound)

lemma CellsToBeActivatedListItem_sound [sound_simps]: "wf_cells_to_be_activated_list_item L x \<Longrightarrow> sound (CellsToBeActivatedListItem_codec L) x"
  unfolding CellsToBeActivatedListItem_codec_def wf_cells_to_be_activated_list_item_def
  by (rule sound_impl, rule coded_with_extensions,
      (intro coded_header coded_field coded_optional_field; (erule coded_extends; simp | simp add: wf_simps sound_simps encodable_simps)),
      (rule carried_append | (rule carried_opt_encodable, simp, simp add: wf_simps encodable_simps, simp, simp))+)
    simp_all

lemma CellsToBeActivatedListItem_encodable [encodable_simps]: "open_ok (wf_cells_to_be_activated_list_item L) (CellsToBeActivatedListItem_codec L) x \<Longrightarrow> encodable (CellsToBeActivatedListItem_codec L) x"
  by (simp add: open_ok_def encodable_def CellsToBeActivatedListItem_sound)

lemma CellsToBeActivatedList_sound [sound_simps]: "wf_cells_to_be_activated_list L x \<Longrightarrow> sound (CellsToBeActivatedList_codec L) x"
  unfolding CellsToBeActivatedList_codec_def wf_cells_to_be_activated_list_def by (rule sound_named) (simp add: wf_simps sound_simps encodable_simps)

lemma CellsToBeActivatedList_encodable [encodable_simps]: "open_ok (wf_cells_to_be_activated_list L) (CellsToBeActivatedList_codec L) x \<Longrightarrow> encodable (CellsToBeActivatedList_codec L) x"
  by (simp add: open_ok_def encodable_def CellsToBeActivatedList_sound)

lemma NonUpTrafficType_encodable [encodable_simps]: "encodable (NonUpTrafficType_codec L) x"
  by (cases x) (simp_all add: NonUpTrafficType_codec_def encodable_enum)

lemmas NonUpTrafficType_sound [sound_simps] = NonUpTrafficType_encodable [THEN encodable_sound]

lemma UlBhNonUpTrafficMappingItem_sound [sound_simps]: "wf_ul_bh_non_up_traffic_mapping_item x \<Longrightarrow> sound (UlBhNonUpTrafficMappingItem_codec L) x"
  unfolding UlBhNonUpTrafficMappingItem_codec_def wf_ul_bh_non_up_traffic_mapping_item_def
  by (rule sound_impl, intro coded_header coded_field coded_optional_field coded_no_extensions)
    (simp_all add: wf_simps sound_simps encodable_simps)

lemma UlBhNonUpTrafficMappingList_sound [sound_simps]: "wf_ul_bh_non_up_traffic_mapping_list x \<Longrightarrow> sound (UlBhNonUpTrafficMappingList_codec L) x"
  unfolding UlBhNonUpTrafficMappingList_codec_def wf_ul_bh_non_up_traffic_mapping_list_def by (rule sound_named) (simp add: wf_simps sound_simps encodable_simps)

lemma UlBhNonUpTrafficMapping_sound [sound_simps]: "wf_ul_bh_non_up_traffic_mapping x \<Longrightarrow> sound (UlBhNonUpTrafficMapping_codec L) x"
  unfolding UlBhNonUpTrafficMapping_codec_def wf_ul_bh_non_up_traffic_mapping_def
  by (rule sound_impl, intro coded_header coded_field coded_optional_field coded_no_extensions)
    (simp_all add: wf_simps sound_simps encodable_simps)

lemma UlBhNonUpTrafficMapping_encodable [encodable_simps]: "open_ok wf_ul_bh_non_up_traffic_mapping (UlBhNonUpTrafficMapping_codec L) x \<Longrightarrow> encodable (UlBhNonUpTrafficMapping_codec L) x"
  by (simp add: open_ok_def encodable_def UlBhNonUpTrafficMapping_sound)

lemma GnbDuNameVisibleString_encodable [encodable_simps]: "wf_gnb_du_name_visible_string x \<Longrightarrow> encodable (GnbDuNameVisibleString_codec L) x"
  by (simp add: GnbDuNameVisibleString_codec_def wf_gnb_du_name_visible_string_def encodable_simps)

lemmas GnbDuNameVisibleString_sound [sound_simps] = GnbDuNameVisibleString_encodable [THEN encodable_sound]

lemma GnbDuNameUtf8String_encodable [encodable_simps]: "wf_gnb_du_name_utf8_string x \<Longrightarrow> encodable (GnbDuNameUtf8String_codec L) x"
  by (simp add: GnbDuNameUtf8String_codec_def wf_gnb_du_name_utf8_string_def encodable_simps)

lemmas GnbDuNameUtf8String_sound [sound_simps] = GnbDuNameUtf8String_encodable [THEN encodable_sound]

lemma ExtendedGnbDuName_sound [sound_simps]: "wf_extended_gnb_du_name x \<Longrightarrow> sound (ExtendedGnbDuName_codec L) x"
  unfolding ExtendedGnbDuName_codec_def wf_extended_gnb_du_name_def
  by (rule sound_impl, intro coded_header coded_field coded_optional_field coded_no_extensions)
    (simp_all add: wf_simps sound_simps encodable_simps)

lemma ExtendedGnbDuName_encodable [encodable_simps]: "open_ok wf_extended_gnb_du_name (ExtendedGnbDuName_codec L) x \<Longrightarrow> encodable (ExtendedGnbDuName_codec L) x"
  by (simp add: open_ok_def encodable_def ExtendedGnbDuName_sound)

lemma ServedCellsToAddItem_sound [sound_simps]: "wf_served_cells_to_add_item L x \<Longrightarrow> sound (ServedCellsToAddItem_codec L) x"
  unfolding ServedCellsToAddItem_codec_def wf_served_cells_to_add_item_def
  by (rule sound_impl, intro coded_header coded_field coded_optional_field coded_no_extensions)
    (simp_all add: wf_simps sound_simps encodable_simps)

lemma ServedCellsToAddItem_encodable [encodable_simps]: "open_ok (wf_served_cells_to_add_item L) (ServedCellsToAddItem_codec L) x \<Longrightarrow> encodable (ServedCellsToAddItem_codec L) x"
  by (simp add: open_ok_def encodable_def ServedCellsToAddItem_sound)

lemma ServedCellsToAddList_sound [sound_simps]: "wf_served_cells_to_add_list L x \<Longrightarrow> sound (ServedCellsToAddList_codec L) x"
  unfolding ServedCellsToAddList_codec_def wf_served_cells_to_add_list_def by (rule sound_named) (simp add: wf_simps sound_simps encodable_simps)

lemma ServedCellsToAddList_encodable [encodable_simps]: "open_ok (wf_served_cells_to_add_list L) (ServedCellsToAddList_codec L) x \<Longrightarrow> encodable (ServedCellsToAddList_codec L) x"
  by (simp add: open_ok_def encodable_def ServedCellsToAddList_sound)

lemma ServedCellsToModifyItem_sound [sound_simps]: "wf_served_cells_to_modify_item L x \<Longrightarrow> sound (ServedCellsToModifyItem_codec L) x"
  unfolding ServedCellsToModifyItem_codec_def wf_served_cells_to_modify_item_def
  by (rule sound_impl, intro coded_header coded_field coded_optional_field coded_no_extensions)
    (simp_all add: wf_simps sound_simps encodable_simps)

lemma ServedCellsToModifyItem_encodable [encodable_simps]: "open_ok (wf_served_cells_to_modify_item L) (ServedCellsToModifyItem_codec L) x \<Longrightarrow> encodable (ServedCellsToModifyItem_codec L) x"
  by (simp add: open_ok_def encodable_def ServedCellsToModifyItem_sound)

lemma ServedCellsToModifyList_sound [sound_simps]: "wf_served_cells_to_modify_list L x \<Longrightarrow> sound (ServedCellsToModifyList_codec L) x"
  unfolding ServedCellsToModifyList_codec_def wf_served_cells_to_modify_list_def by (rule sound_named) (simp add: wf_simps sound_simps encodable_simps)

lemma ServedCellsToModifyList_encodable [encodable_simps]: "open_ok (wf_served_cells_to_modify_list L) (ServedCellsToModifyList_codec L) x \<Longrightarrow> encodable (ServedCellsToModifyList_codec L) x"
  by (simp add: open_ok_def encodable_def ServedCellsToModifyList_sound)

lemma ServedCellsToDeleteItem_sound [sound_simps]: "wf_served_cells_to_delete_item x \<Longrightarrow> sound (ServedCellsToDeleteItem_codec L) x"
  unfolding ServedCellsToDeleteItem_codec_def wf_served_cells_to_delete_item_def
  by (rule sound_impl, intro coded_header coded_field coded_optional_field coded_no_extensions)
    (simp_all add: wf_simps sound_simps encodable_simps)

lemma ServedCellsToDeleteItem_encodable [encodable_simps]: "open_ok wf_served_cells_to_delete_item (ServedCellsToDeleteItem_codec L) x \<Longrightarrow> encodable (ServedCellsToDeleteItem_codec L) x"
  by (simp add: open_ok_def encodable_def ServedCellsToDeleteItem_sound)

lemma ServedCellsToDeleteList_sound [sound_simps]: "wf_served_cells_to_delete_list L x \<Longrightarrow> sound (ServedCellsToDeleteList_codec L) x"
  unfolding ServedCellsToDeleteList_codec_def wf_served_cells_to_delete_list_def by (rule sound_named) (simp add: wf_simps sound_simps encodable_simps)

lemma ServedCellsToDeleteList_encodable [encodable_simps]: "open_ok (wf_served_cells_to_delete_list L) (ServedCellsToDeleteList_codec L) x \<Longrightarrow> encodable (ServedCellsToDeleteList_codec L) x"
  by (simp add: open_ok_def encodable_def ServedCellsToDeleteList_sound)

lemma ServiceState_encodable [encodable_simps]: "encodable (ServiceState_codec L) x"
  by (cases x) (simp_all add: ServiceState_codec_def encodable_enum)

lemmas ServiceState_sound [sound_simps] = ServiceState_encodable [THEN encodable_sound]

lemma SwitchingOffOngoing_encodable [encodable_simps]: "encodable (SwitchingOffOngoing_codec L) x"
  by (cases x) (simp_all add: SwitchingOffOngoing_codec_def encodable_enum)

lemmas SwitchingOffOngoing_sound [sound_simps] = SwitchingOffOngoing_encodable [THEN encodable_sound]

lemma ServiceStatus_sound [sound_simps]: "sound (ServiceStatus_codec L) x"
  unfolding ServiceStatus_codec_def
  by (rule sound_impl, intro coded_header coded_field coded_optional_field coded_no_extensions)
    (simp_all add: sound_simps encodable_simps)

lemma CellsStatusItem_sound [sound_simps]: "wf_cells_status_item x \<Longrightarrow> sound (CellsStatusItem_codec L) x"
  unfolding CellsStatusItem_codec_def wf_cells_status_item_def
  by (rule sound_impl, intro coded_header coded_field coded_optional_field coded_no_extensions)
    (simp_all add: wf_simps sound_simps encodable_simps)

lemma CellsStatusItem_encodable [encodable_simps]: "open_ok wf_cells_status_item (CellsStatusItem_codec L) x \<Longrightarrow> encodable (CellsStatusItem_codec L) x"
  by (simp add: open_ok_def encodable_def CellsStatusItem_sound)

lemma CellsStatusList_sound [sound_simps]: "wf_cells_status_list L x \<Longrightarrow> sound (CellsStatusList_codec L) x"
  unfolding CellsStatusList_codec_def wf_cells_status_list_def by (rule sound_named) (simp add: wf_simps sound_simps encodable_simps)

lemma CellsStatusList_encodable [encodable_simps]: "open_ok (wf_cells_status_list L) (CellsStatusList_codec L) x \<Longrightarrow> encodable (CellsStatusList_codec L) x"
  by (simp add: open_ok_def encodable_def CellsStatusList_sound)

lemma DedicatedSiDeliveryNeededUeItem_sound [sound_simps]: "wf_dedicated_si_delivery_needed_ue_item x \<Longrightarrow> sound (DedicatedSiDeliveryNeededUeItem_codec L) x"
  unfolding DedicatedSiDeliveryNeededUeItem_codec_def wf_dedicated_si_delivery_needed_ue_item_def
  by (rule sound_impl, intro coded_header coded_field coded_optional_field coded_no_extensions)
    (simp_all add: wf_simps sound_simps encodable_simps)

lemma DedicatedSiDeliveryNeededUeItem_encodable [encodable_simps]: "open_ok wf_dedicated_si_delivery_needed_ue_item (DedicatedSiDeliveryNeededUeItem_codec L) x \<Longrightarrow> encodable (DedicatedSiDeliveryNeededUeItem_codec L) x"
  by (simp add: open_ok_def encodable_def DedicatedSiDeliveryNeededUeItem_sound)

lemma DedicatedSiDeliveryNeededUeList_sound [sound_simps]: "wf_dedicated_si_delivery_needed_ue_list L x \<Longrightarrow> sound (DedicatedSiDeliveryNeededUeList_codec L) x"
  unfolding DedicatedSiDeliveryNeededUeList_codec_def wf_dedicated_si_delivery_needed_ue_list_def by (rule sound_named) (simp add: wf_simps sound_simps encodable_simps)

lemma DedicatedSiDeliveryNeededUeList_encodable [encodable_simps]: "open_ok (wf_dedicated_si_delivery_needed_ue_list L) (DedicatedSiDeliveryNeededUeList_codec L) x \<Longrightarrow> encodable (DedicatedSiDeliveryNeededUeList_codec L) x"
  by (simp add: open_ok_def encodable_def DedicatedSiDeliveryNeededUeList_sound)

lemma PortNumber_encodable [encodable_simps]: "wf_port_number x \<Longrightarrow> encodable (PortNumber_codec L) x"
  by (simp add: PortNumber_codec_def wf_port_number_def encodable_simps)

lemmas PortNumber_sound [sound_simps] = PortNumber_encodable [THEN encodable_sound]

lemma EndpointIpAddressAndPort_sound [sound_simps]: "wf_endpoint_ip_address_and_port x \<Longrightarrow> sound (EndpointIpAddressAndPort_codec L) x"
  unfolding EndpointIpAddressAndPort_codec_def wf_endpoint_ip_address_and_port_def
  by (rule sound_impl, rule coded_with_extensions,
      (intro coded_header coded_field coded_optional_field; (erule coded_extends; simp | simp add: wf_simps sound_simps encodable_simps)),
      (rule carried_append | (rule carried_opt_encodable, simp, simp add: wf_simps encodable_simps, simp, simp))+)
    simp_all

lemma CpTransportLayerAddress_sound [sound_simps]: "wf_cp_transport_layer_address x \<Longrightarrow> sound (CpTransportLayerAddress_codec L) x"
  unfolding CpTransportLayerAddress_codec_def wf_cp_transport_layer_address_def
  by (rule sound_impl; cases x; simp only: cp_transport_layer_address.case; rule coded_choice coded_choice_unit; simp add: wf_simps sound_simps encodable_simps)

lemma GnbDuTnlAssociationToRemoveItem_sound [sound_simps]: "wf_gnb_du_tnl_association_to_remove_item x \<Longrightarrow> sound (GnbDuTnlAssociationToRemoveItem_codec L) x"
  unfolding GnbDuTnlAssociationToRemoveItem_codec_def wf_gnb_du_tnl_association_to_remove_item_def
  by (rule sound_impl, intro coded_header coded_field coded_optional_field coded_no_extensions)
    (simp_all add: wf_simps sound_simps encodable_simps)

lemma GnbDuTnlAssociationToRemoveItem_encodable [encodable_simps]: "open_ok wf_gnb_du_tnl_association_to_remove_item (GnbDuTnlAssociationToRemoveItem_codec L) x \<Longrightarrow> encodable (GnbDuTnlAssociationToRemoveItem_codec L) x"
  by (simp add: open_ok_def encodable_def GnbDuTnlAssociationToRemoveItem_sound)

lemma GnbDuTnlAssociationToRemoveList_sound [sound_simps]: "wf_gnb_du_tnl_association_to_remove_list L x \<Longrightarrow> sound (GnbDuTnlAssociationToRemoveList_codec L) x"
  unfolding GnbDuTnlAssociationToRemoveList_codec_def wf_gnb_du_tnl_association_to_remove_list_def by (rule sound_named) (simp add: wf_simps sound_simps encodable_simps)

lemma GnbDuTnlAssociationToRemoveList_encodable [encodable_simps]: "open_ok (wf_gnb_du_tnl_association_to_remove_list L) (GnbDuTnlAssociationToRemoveList_codec L) x \<Longrightarrow> encodable (GnbDuTnlAssociationToRemoveList_codec L) x"
  by (simp add: open_ok_def encodable_def GnbDuTnlAssociationToRemoveList_sound)

lemma CellsToBeDeactivatedListItem_sound [sound_simps]: "wf_cells_to_be_deactivated_list_item x \<Longrightarrow> sound (CellsToBeDeactivatedListItem_codec L) x"
  unfolding CellsToBeDeactivatedListItem_codec_def wf_cells_to_be_deactivated_list_item_def
  by (rule sound_impl, intro coded_header coded_field coded_optional_field coded_no_extensions)
    (simp_all add: wf_simps sound_simps encodable_simps)

lemma CellsToBeDeactivatedListItem_encodable [encodable_simps]: "open_ok wf_cells_to_be_deactivated_list_item (CellsToBeDeactivatedListItem_codec L) x \<Longrightarrow> encodable (CellsToBeDeactivatedListItem_codec L) x"
  by (simp add: open_ok_def encodable_def CellsToBeDeactivatedListItem_sound)

lemma CellsToBeDeactivatedList_sound [sound_simps]: "wf_cells_to_be_deactivated_list L x \<Longrightarrow> sound (CellsToBeDeactivatedList_codec L) x"
  unfolding CellsToBeDeactivatedList_codec_def wf_cells_to_be_deactivated_list_def by (rule sound_named) (simp add: wf_simps sound_simps encodable_simps)

lemma CellsToBeDeactivatedList_encodable [encodable_simps]: "open_ok (wf_cells_to_be_deactivated_list L) (CellsToBeDeactivatedList_codec L) x \<Longrightarrow> encodable (CellsToBeDeactivatedList_codec L) x"
  by (simp add: open_ok_def encodable_def CellsToBeDeactivatedList_sound)

end

end
