(* ===== verification/F1ap_Setup_Codec.thy ===== *)
theory F1ap_Setup_Codec
  imports F1ap_Setup_Ies
begin

text \<open>
  The aligned PER codecs of the messages of F1 setup and gNB-DU configuration update (\<open>5g-libs/f1ap/src/pdu.rs\<close>):
  which information elements, in which order, with which id and criticality, and that every well-formed
  message is read back.
\<close>

section \<open>Codecs\<close>

text \<open>The local variables of \<open>F1SetupRequest::decode_inner\<close>.\<close>

record fsr_locals =
  lfsr_transaction_id :: "u8 option"
  lfsr_gnb_du_id :: "gnb_du_id option"
  lfsr_gnb_du_name :: "gnb_du_name option"
  lfsr_gnb_du_served_cells_list :: "gnb_du_served_cells_list option"
  lfsr_gnb_du_rrc_version :: "rrc_version option"
  lfsr_transport_layer_address_info :: "transport_layer_address_info option"
  lfsr_bap_address :: "bap_address option"
  lfsr_extended_gnb_cu_name :: "extended_gnb_cu_name option"

definition no_fsr :: fsr_locals where
  "no_fsr =
     \<lparr>lfsr_transaction_id = None, lfsr_gnb_du_id = None, lfsr_gnb_du_name = None,
      lfsr_gnb_du_served_cells_list = None, lfsr_gnb_du_rrc_version = None,
      lfsr_transport_layer_address_info = None, lfsr_bap_address = None,
      lfsr_extended_gnb_cu_name = None\<rparr>"

definition F1SetupRequest_decode_inner :: "per_lib \<Rightarrow> f1_setup_request decoder" where
  "F1SetupRequest_decode_inner L =
     dec_bind (decode_container L
       [arm 78 (decode_of (TransactionId_codec L)) lfsr_transaction_id_update,
        arm 42 (decode_of (GnbDuId_codec L)) lfsr_gnb_du_id_update,
        arm 45 (decode_of (GnbDuName_codec L)) lfsr_gnb_du_name_update,
        arm 44 (decode_of (GnbDuServedCellsList_codec L)) lfsr_gnb_du_served_cells_list_update,
        arm 171 (decode_of (RrcVersion_codec L)) lfsr_gnb_du_rrc_version_update,
        arm 254 (decode_of (TransportLayerAddressInfo_codec L)) lfsr_transport_layer_address_info_update,
        arm 281 (decode_of (BapAddress_codec L)) lfsr_bap_address_update,
        arm 427 (decode_of (ExtendedGnbCuName_codec L)) lfsr_extended_gnb_cu_name_update] no_fsr) (\<lambda>s.
     dec_bind (mandatory ''transaction_id'' (lfsr_transaction_id s)) (\<lambda>transaction_id.
     dec_bind (mandatory ''gnb_du_id'' (lfsr_gnb_du_id s)) (\<lambda>gnb_du_id.
     dec_bind (mandatory ''gnb_du_rrc_version'' (lfsr_gnb_du_rrc_version s)) (\<lambda>gnb_du_rrc_version.
     dec_return
       \<lparr>fsr_transaction_id = transaction_id, fsr_gnb_du_id = gnb_du_id,
        fsr_gnb_du_name = lfsr_gnb_du_name s,
        fsr_gnb_du_served_cells_list = lfsr_gnb_du_served_cells_list s,
        fsr_gnb_du_rrc_version = gnb_du_rrc_version,
        fsr_transport_layer_address_info = lfsr_transport_layer_address_info s,
        fsr_bap_address = lfsr_bap_address s, fsr_extended_gnb_cu_name = lfsr_extended_gnb_cu_name s\<rparr>))))"

definition F1SetupRequest_encode_inner :: "per_lib \<Rightarrow> f1_setup_request \<Rightarrow> encoder" where
  "F1SetupRequest_encode_inner L x =
     encode_container L
       (ie 78 Reject (TransactionId_codec L) (fsr_transaction_id x) @
        ie 42 Reject (GnbDuId_codec L) (fsr_gnb_du_id x) @
        opt_ie 45 Ignore (GnbDuName_codec L) (fsr_gnb_du_name x) @
        opt_ie 44 Reject (GnbDuServedCellsList_codec L) (fsr_gnb_du_served_cells_list x) @
        ie 171 Reject (RrcVersion_codec L) (fsr_gnb_du_rrc_version x) @
        opt_ie 254 Ignore (TransportLayerAddressInfo_codec L) (fsr_transport_layer_address_info x) @
        opt_ie 281 Ignore (BapAddress_codec L) (fsr_bap_address x) @
        opt_ie 427 Ignore (ExtendedGnbCuName_codec L) (fsr_extended_gnb_cu_name x))"

definition F1SetupRequest_codec :: "per_lib \<Rightarrow> f1_setup_request per_codec" where
  "F1SetupRequest_codec L =
     per_codec_impl ''F1SetupRequest'' (F1SetupRequest_decode_inner L) (F1SetupRequest_encode_inner L)"

text \<open>The local variables of \<open>F1SetupResponse::decode_inner\<close>.\<close>

record fsp_locals =
  lfsp_transaction_id :: "u8 option"
  lfsp_gnb_cu_name :: "gnb_cu_name option"
  lfsp_cells_to_be_activated_list :: "cells_to_be_activated_list option"
  lfsp_gnb_cu_rrc_version :: "rrc_version option"
  lfsp_transport_layer_address_info :: "transport_layer_address_info option"
  lfsp_ul_bh_non_up_traffic_mapping :: "ul_bh_non_up_traffic_mapping option"
  lfsp_bap_address :: "bap_address option"
  lfsp_extended_gnb_du_name :: "extended_gnb_du_name option"

definition no_fsp :: fsp_locals where
  "no_fsp =
     \<lparr>lfsp_transaction_id = None, lfsp_gnb_cu_name = None, lfsp_cells_to_be_activated_list = None,
      lfsp_gnb_cu_rrc_version = None, lfsp_transport_layer_address_info = None,
      lfsp_ul_bh_non_up_traffic_mapping = None, lfsp_bap_address = None,
      lfsp_extended_gnb_du_name = None\<rparr>"

definition F1SetupResponse_decode_inner :: "per_lib \<Rightarrow> f1_setup_response decoder" where
  "F1SetupResponse_decode_inner L =
     dec_bind (decode_container L
       [arm 78 (decode_of (TransactionId_codec L)) lfsp_transaction_id_update,
        arm 82 (decode_of (GnbCuName_codec L)) lfsp_gnb_cu_name_update,
        arm 3 (decode_of (CellsToBeActivatedList_codec L)) lfsp_cells_to_be_activated_list_update,
        arm 170 (decode_of (RrcVersion_codec L)) lfsp_gnb_cu_rrc_version_update,
        arm 254 (decode_of (TransportLayerAddressInfo_codec L)) lfsp_transport_layer_address_info_update,
        arm 287 (decode_of (UlBhNonUpTrafficMapping_codec L)) lfsp_ul_bh_non_up_traffic_mapping_update,
        arm 281 (decode_of (BapAddress_codec L)) lfsp_bap_address_update,
        arm 426 (decode_of (ExtendedGnbDuName_codec L)) lfsp_extended_gnb_du_name_update] no_fsp) (\<lambda>s.
     dec_bind (mandatory ''transaction_id'' (lfsp_transaction_id s)) (\<lambda>transaction_id.
     dec_bind (mandatory ''gnb_cu_rrc_version'' (lfsp_gnb_cu_rrc_version s)) (\<lambda>gnb_cu_rrc_version.
     dec_return
       \<lparr>fsp_transaction_id = transaction_id, fsp_gnb_cu_name = lfsp_gnb_cu_name s,
        fsp_cells_to_be_activated_list = lfsp_cells_to_be_activated_list s,
        fsp_gnb_cu_rrc_version = gnb_cu_rrc_version,
        fsp_transport_layer_address_info = lfsp_transport_layer_address_info s,
        fsp_ul_bh_non_up_traffic_mapping = lfsp_ul_bh_non_up_traffic_mapping s,
        fsp_bap_address = lfsp_bap_address s, fsp_extended_gnb_du_name = lfsp_extended_gnb_du_name s\<rparr>)))"

definition F1SetupResponse_encode_inner :: "per_lib \<Rightarrow> f1_setup_response \<Rightarrow> encoder" where
  "F1SetupResponse_encode_inner L x =
     encode_container L
       (ie 78 Reject (TransactionId_codec L) (fsp_transaction_id x) @
        opt_ie 82 Ignore (GnbCuName_codec L) (fsp_gnb_cu_name x) @
        opt_ie 3 Reject (CellsToBeActivatedList_codec L) (fsp_cells_to_be_activated_list x) @
        ie 170 Reject (RrcVersion_codec L) (fsp_gnb_cu_rrc_version x) @
        opt_ie 254 Ignore (TransportLayerAddressInfo_codec L) (fsp_transport_layer_address_info x) @
        opt_ie 287 Reject (UlBhNonUpTrafficMapping_codec L) (fsp_ul_bh_non_up_traffic_mapping x) @
        opt_ie 281 Ignore (BapAddress_codec L) (fsp_bap_address x) @
        opt_ie 426 Ignore (ExtendedGnbDuName_codec L) (fsp_extended_gnb_du_name x))"

definition F1SetupResponse_codec :: "per_lib \<Rightarrow> f1_setup_response per_codec" where
  "F1SetupResponse_codec L =
     per_codec_impl ''F1SetupResponse'' (F1SetupResponse_decode_inner L) (F1SetupResponse_encode_inner L)"

text \<open>The local variables of \<open>GnbDuConfigurationUpdate::decode_inner\<close>.\<close>

record gcu_locals =
  lgcu_transaction_id :: "u8 option"
  lgcu_served_cells_to_add_list :: "served_cells_to_add_list option"
  lgcu_served_cells_to_modify_list :: "served_cells_to_modify_list option"
  lgcu_served_cells_to_delete_list :: "served_cells_to_delete_list option"
  lgcu_cells_status_list :: "cells_status_list option"
  lgcu_dedicated_si_delivery_needed_ue_list :: "dedicated_si_delivery_needed_ue_list option"
  lgcu_gnb_du_id :: "gnb_du_id option"
  lgcu_gnb_du_tnl_association_to_remove_list :: "gnb_du_tnl_association_to_remove_list option"
  lgcu_transport_layer_address_info :: "transport_layer_address_info option"

definition no_gcu :: gcu_locals where
  "no_gcu =
     \<lparr>lgcu_transaction_id = None, lgcu_served_cells_to_add_list = None,
      lgcu_served_cells_to_modify_list = None, lgcu_served_cells_to_delete_list = None,
      lgcu_cells_status_list = None, lgcu_dedicated_si_delivery_needed_ue_list = None,
      lgcu_gnb_du_id = None, lgcu_gnb_du_tnl_association_to_remove_list = None,
      lgcu_transport_layer_address_info = None\<rparr>"

definition GnbDuConfigurationUpdate_decode_inner :: "per_lib \<Rightarrow> gnb_du_configuration_update decoder" where
  "GnbDuConfigurationUpdate_decode_inner L =
     dec_bind (decode_container L
       [arm 78 (decode_of (TransactionId_codec L)) lgcu_transaction_id_update,
        arm 58 (decode_of (ServedCellsToAddList_codec L)) lgcu_served_cells_to_add_list_update,
        arm 62 (decode_of (ServedCellsToModifyList_codec L)) lgcu_served_cells_to_modify_list_update,
        arm 60 (decode_of (ServedCellsToDeleteList_codec L)) lgcu_served_cells_to_delete_list_update,
        arm 89 (decode_of (CellsStatusList_codec L)) lgcu_cells_status_list_update,
        arm 189 (decode_of (DedicatedSiDeliveryNeededUeList_codec L)) lgcu_dedicated_si_delivery_needed_ue_list_update,
        arm 42 (decode_of (GnbDuId_codec L)) lgcu_gnb_du_id_update,
        arm 228 (decode_of (GnbDuTnlAssociationToRemoveList_codec L)) lgcu_gnb_du_tnl_association_to_remove_list_update,
        arm 254 (decode_of (TransportLayerAddressInfo_codec L)) lgcu_transport_layer_address_info_update] no_gcu) (\<lambda>s.
     dec_bind (mandatory ''transaction_id'' (lgcu_transaction_id s)) (\<lambda>transaction_id.
     dec_return
       \<lparr>gcu_transaction_id = transaction_id,
        gcu_served_cells_to_add_list = lgcu_served_cells_to_add_list s,
        gcu_served_cells_to_modify_list = lgcu_served_cells_to_modify_list s,
        gcu_served_cells_to_delete_list = lgcu_served_cells_to_delete_list s,
        gcu_cells_status_list = lgcu_cells_status_list s,
        gcu_dedicated_si_delivery_needed_ue_list = lgcu_dedicated_si_delivery_needed_ue_list s,
        gcu_gnb_du_id = lgcu_gnb_du_id s,
        gcu_gnb_du_tnl_association_to_remove_list = lgcu_gnb_du_tnl_association_to_remove_list s,
        gcu_transport_layer_address_info = lgcu_transport_layer_address_info s\<rparr>))"

definition GnbDuConfigurationUpdate_encode_inner :: "per_lib \<Rightarrow> gnb_du_configuration_update \<Rightarrow> encoder" where
  "GnbDuConfigurationUpdate_encode_inner L x =
     encode_container L
       (ie 78 Reject (TransactionId_codec L) (gcu_transaction_id x) @
        opt_ie 58 Reject (ServedCellsToAddList_codec L) (gcu_served_cells_to_add_list x) @
        opt_ie 62 Reject (ServedCellsToModifyList_codec L) (gcu_served_cells_to_modify_list x) @
        opt_ie 60 Reject (ServedCellsToDeleteList_codec L) (gcu_served_cells_to_delete_list x) @
        opt_ie 89 Reject (CellsStatusList_codec L) (gcu_cells_status_list x) @
        opt_ie 189 Ignore (DedicatedSiDeliveryNeededUeList_codec L) (gcu_dedicated_si_delivery_needed_ue_list x) @
        opt_ie 42 Reject (GnbDuId_codec L) (gcu_gnb_du_id x) @
        opt_ie 228 Reject (GnbDuTnlAssociationToRemoveList_codec L) (gcu_gnb_du_tnl_association_to_remove_list x) @
        opt_ie 254 Ignore (TransportLayerAddressInfo_codec L) (gcu_transport_layer_address_info x))"

definition GnbDuConfigurationUpdate_codec :: "per_lib \<Rightarrow> gnb_du_configuration_update per_codec" where
  "GnbDuConfigurationUpdate_codec L =
     per_codec_impl ''GnbDuConfigurationUpdate'' (GnbDuConfigurationUpdate_decode_inner L) (GnbDuConfigurationUpdate_encode_inner L)"

text \<open>The local variables of \<open>GnbDuConfigurationUpdateAcknowledge::decode_inner\<close>.\<close>

record gca_locals =
  lgca_transaction_id :: "u8 option"
  lgca_cells_to_be_activated_list :: "cells_to_be_activated_list option"
  lgca_criticality_diagnostics :: "criticality_diagnostics option"
  lgca_cells_to_be_deactivated_list :: "cells_to_be_deactivated_list option"
  lgca_transport_layer_address_info :: "transport_layer_address_info option"
  lgca_ul_bh_non_up_traffic_mapping :: "ul_bh_non_up_traffic_mapping option"
  lgca_bap_address :: "bap_address option"

definition no_gca :: gca_locals where
  "no_gca =
     \<lparr>lgca_transaction_id = None, lgca_cells_to_be_activated_list = None,
      lgca_criticality_diagnostics = None, lgca_cells_to_be_deactivated_list = None,
      lgca_transport_layer_address_info = None, lgca_ul_bh_non_up_traffic_mapping = None,
      lgca_bap_address = None\<rparr>"

definition GnbDuConfigurationUpdateAcknowledge_decode_inner :: "per_lib \<Rightarrow> gnb_du_configuration_update_ack decoder" where
  "GnbDuConfigurationUpdateAcknowledge_decode_inner L =
     dec_bind (decode_container L
       [arm 78 (decode_of (TransactionId_codec L)) lgca_transaction_id_update,
        arm 3 (decode_of (CellsToBeActivatedList_codec L)) lgca_cells_to_be_activated_list_update,
        arm 7 (decode_of (CriticalityDiagnostics_codec L)) lgca_criticality_diagnostics_update,
        arm 5 (decode_of (CellsToBeDeactivatedList_codec L)) lgca_cells_to_be_deactivated_list_update,
        arm 254 (decode_of (TransportLayerAddressInfo_codec L)) lgca_transport_layer_address_info_update,
        arm 287 (decode_of (UlBhNonUpTrafficMapping_codec L)) lgca_ul_bh_non_up_traffic_mapping_update,
        arm 281 (decode_of (BapAddress_codec L)) lgca_bap_address_update] no_gca) (\<lambda>s.
     dec_bind (mandatory ''transaction_id'' (lgca_transaction_id s)) (\<lambda>transaction_id.
     dec_return
       \<lparr>gca_transaction_id = transaction_id,
        gca_cells_to_be_activated_list = lgca_cells_to_be_activated_list s,
        gca_criticality_diagnostics = lgca_criticality_diagnostics s,
        gca_cells_to_be_deactivated_list = lgca_cells_to_be_deactivated_list s,
        gca_transport_layer_address_info = lgca_transport_layer_address_info s,
        gca_ul_bh_non_up_traffic_mapping = lgca_ul_bh_non_up_traffic_mapping s,
        gca_bap_address = lgca_bap_address s\<rparr>))"

definition GnbDuConfigurationUpdateAcknowledge_encode_inner :: "per_lib \<Rightarrow> gnb_du_configuration_update_ack \<Rightarrow> encoder" where
  "GnbDuConfigurationUpdateAcknowledge_encode_inner L x =
     encode_container L
       (ie 78 Reject (TransactionId_codec L) (gca_transaction_id x) @
        opt_ie 3 Reject (CellsToBeActivatedList_codec L) (gca_cells_to_be_activated_list x) @
        opt_ie 7 Ignore (CriticalityDiagnostics_codec L) (gca_criticality_diagnostics x) @
        opt_ie 5 Reject (CellsToBeDeactivatedList_codec L) (gca_cells_to_be_deactivated_list x) @
        opt_ie 254 Ignore (TransportLayerAddressInfo_codec L) (gca_transport_layer_address_info x) @
        opt_ie 287 Reject (UlBhNonUpTrafficMapping_codec L) (gca_ul_bh_non_up_traffic_mapping x) @
        opt_ie 281 Ignore (BapAddress_codec L) (gca_bap_address x))"

definition GnbDuConfigurationUpdateAcknowledge_codec :: "per_lib \<Rightarrow> gnb_du_configuration_update_ack per_codec" where
  "GnbDuConfigurationUpdateAcknowledge_codec L =
     per_codec_impl ''GnbDuConfigurationUpdateAcknowledge'' (GnbDuConfigurationUpdateAcknowledge_decode_inner L) (GnbDuConfigurationUpdateAcknowledge_encode_inner L)"

section \<open>Well-formed values\<close>

definition wf_f1_setup_request :: "per_lib \<Rightarrow> f1_setup_request \<Rightarrow> bool" where
  "wf_f1_setup_request L x \<longleftrightarrow>
     wf_gnb_du_id (fsr_gnb_du_id x) \<and>
     pred_option wf_gnb_du_name (fsr_gnb_du_name x) \<and>
     pred_option (open_ok (wf_gnb_du_served_cells_list L) (GnbDuServedCellsList_codec L)) (fsr_gnb_du_served_cells_list x) \<and>
     open_ok wf_rrc_version (RrcVersion_codec L) (fsr_gnb_du_rrc_version x) \<and>
     pred_option (open_ok wf_transport_layer_address_info (TransportLayerAddressInfo_codec L)) (fsr_transport_layer_address_info x) \<and>
     pred_option wf_bap_address (fsr_bap_address x) \<and>
     pred_option (open_ok wf_extended_gnb_cu_name (ExtendedGnbCuName_codec L)) (fsr_extended_gnb_cu_name x)"

definition wf_f1_setup_response :: "per_lib \<Rightarrow> f1_setup_response \<Rightarrow> bool" where
  "wf_f1_setup_response L x \<longleftrightarrow>
     pred_option wf_gnb_cu_name (fsp_gnb_cu_name x) \<and>
     pred_option (open_ok (wf_cells_to_be_activated_list L) (CellsToBeActivatedList_codec L)) (fsp_cells_to_be_activated_list x) \<and>
     open_ok wf_rrc_version (RrcVersion_codec L) (fsp_gnb_cu_rrc_version x) \<and>
     pred_option (open_ok wf_transport_layer_address_info (TransportLayerAddressInfo_codec L)) (fsp_transport_layer_address_info x) \<and>
     pred_option (open_ok wf_ul_bh_non_up_traffic_mapping (UlBhNonUpTrafficMapping_codec L)) (fsp_ul_bh_non_up_traffic_mapping x) \<and>
     pred_option wf_bap_address (fsp_bap_address x) \<and>
     pred_option (open_ok wf_extended_gnb_du_name (ExtendedGnbDuName_codec L)) (fsp_extended_gnb_du_name x)"

definition wf_gnb_du_configuration_update :: "per_lib \<Rightarrow> gnb_du_configuration_update \<Rightarrow> bool" where
  "wf_gnb_du_configuration_update L x \<longleftrightarrow>
     pred_option (open_ok (wf_served_cells_to_add_list L) (ServedCellsToAddList_codec L)) (gcu_served_cells_to_add_list x) \<and>
     pred_option (open_ok (wf_served_cells_to_modify_list L) (ServedCellsToModifyList_codec L)) (gcu_served_cells_to_modify_list x) \<and>
     pred_option (open_ok (wf_served_cells_to_delete_list L) (ServedCellsToDeleteList_codec L)) (gcu_served_cells_to_delete_list x) \<and>
     pred_option (open_ok (wf_cells_status_list L) (CellsStatusList_codec L)) (gcu_cells_status_list x) \<and>
     pred_option (open_ok (wf_dedicated_si_delivery_needed_ue_list L) (DedicatedSiDeliveryNeededUeList_codec L)) (gcu_dedicated_si_delivery_needed_ue_list x) \<and>
     pred_option wf_gnb_du_id (gcu_gnb_du_id x) \<and>
     pred_option (open_ok (wf_gnb_du_tnl_association_to_remove_list L) (GnbDuTnlAssociationToRemoveList_codec L)) (gcu_gnb_du_tnl_association_to_remove_list x) \<and>
     pred_option (open_ok wf_transport_layer_address_info (TransportLayerAddressInfo_codec L)) (gcu_transport_layer_address_info x)"

definition wf_gnb_du_configuration_update_ack :: "per_lib \<Rightarrow> gnb_du_configuration_update_ack \<Rightarrow> bool" where
  "wf_gnb_du_configuration_update_ack L x \<longleftrightarrow>
     pred_option (open_ok (wf_cells_to_be_activated_list L) (CellsToBeActivatedList_codec L)) (gca_cells_to_be_activated_list x) \<and>
     pred_option wf_criticality_diagnostics (gca_criticality_diagnostics x) \<and>
     pred_option (open_ok (wf_cells_to_be_deactivated_list L) (CellsToBeDeactivatedList_codec L)) (gca_cells_to_be_deactivated_list x) \<and>
     pred_option (open_ok wf_transport_layer_address_info (TransportLayerAddressInfo_codec L)) (gca_transport_layer_address_info x) \<and>
     pred_option (open_ok wf_ul_bh_non_up_traffic_mapping (UlBhNonUpTrafficMapping_codec L)) (gca_ul_bh_non_up_traffic_mapping x) \<and>
     pred_option wf_bap_address (gca_bap_address x)"

section \<open>Soundness\<close>

context aper_setup
begin

lemma F1SetupRequest_sound [sound_simps]: "wf_f1_setup_request L x \<Longrightarrow> sound (F1SetupRequest_codec L) x"
  unfolding F1SetupRequest_codec_def wf_f1_setup_request_def
  by (rule sound_impl, unfold F1SetupRequest_decode_inner_def F1SetupRequest_encode_inner_def, rule message_coded,
      (rule carried_append | (rule carried_encodable carried_opt_encodable, simp, simp add: wf_simps encodable_simps, simp, simp))+)
    (simp_all add: no_fsr_def dec_return_eq)

lemma F1SetupResponse_sound [sound_simps]: "wf_f1_setup_response L x \<Longrightarrow> sound (F1SetupResponse_codec L) x"
  unfolding F1SetupResponse_codec_def wf_f1_setup_response_def
  by (rule sound_impl, unfold F1SetupResponse_decode_inner_def F1SetupResponse_encode_inner_def, rule message_coded,
      (rule carried_append | (rule carried_encodable carried_opt_encodable, simp, simp add: wf_simps encodable_simps, simp, simp))+)
    (simp_all add: no_fsp_def dec_return_eq)

lemma GnbDuConfigurationUpdate_sound [sound_simps]: "wf_gnb_du_configuration_update L x \<Longrightarrow> sound (GnbDuConfigurationUpdate_codec L) x"
  unfolding GnbDuConfigurationUpdate_codec_def wf_gnb_du_configuration_update_def
  by (rule sound_impl, unfold GnbDuConfigurationUpdate_decode_inner_def GnbDuConfigurationUpdate_encode_inner_def, rule message_coded,
      (rule carried_append | (rule carried_encodable carried_opt_encodable, simp, simp add: wf_simps encodable_simps, simp, simp))+)
    (simp_all add: no_gcu_def dec_return_eq)

lemma GnbDuConfigurationUpdateAcknowledge_sound [sound_simps]: "wf_gnb_du_configuration_update_ack L x \<Longrightarrow> sound (GnbDuConfigurationUpdateAcknowledge_codec L) x"
  unfolding GnbDuConfigurationUpdateAcknowledge_codec_def wf_gnb_du_configuration_update_ack_def
  by (rule sound_impl, unfold GnbDuConfigurationUpdateAcknowledge_decode_inner_def GnbDuConfigurationUpdateAcknowledge_encode_inner_def, rule message_coded,
      (rule carried_append | (rule carried_encodable carried_opt_encodable, simp, simp add: wf_simps encodable_simps, simp, simp))+)
    (simp_all add: no_gca_def dec_return_eq)

end

end
