(* ===== verification/F1ap_Context_Ies.thy ===== *)
theory F1ap_Context_Ies
  imports F1ap_Common_Ies F1ap_Context_Types
begin

text \<open>
  The aligned PER codecs of the information elements of the context messages
  (\<open>5g-libs/f1ap/src/ies.rs\<close>), their well-formed values, and that every well-formed value is read
  back from its encoding.  Where a value is written behind its length as an element, it has to fit: \<open>open_ok\<close>
  and \<open>fits\<close> bound its encoding by 16383 octets.
\<close>

section \<open>Codecs\<close>

definition ServCellIndex_codec :: "per_lib \<Rightarrow> serv_cell_index per_codec" where
  "ServCellIndex_codec L = named ''ServCellIndex'' (integer_codec L 0 31 True)"

definition CellUlConfigured_codec :: "per_lib \<Rightarrow> cell_ul_configured per_codec" where
  "CellUlConfigured_codec L =
     enum_impl L ''CellUlConfigured''
       [CellUlConfiguredNone, CellUlConfiguredUl, CellUlConfiguredSul, CellUlConfiguredUlAndSul] 3 True"

definition CgConfigInfo_codec :: "per_lib \<Rightarrow> cg_config_info per_codec" where
  "CgConfigInfo_codec L = named ''CgConfigInfo'' (octetstring_codec L)"

definition UeCapabilityRatContainerList_codec :: "per_lib \<Rightarrow> ue_capability_rat_container_list per_codec" where
  "UeCapabilityRatContainerList_codec L = named ''UeCapabilityRatContainerList'' (octetstring_codec L)"

definition MeasConfig_codec :: "per_lib \<Rightarrow> meas_config per_codec" where
  "MeasConfig_codec L = named ''MeasConfig'' (octetstring_codec L)"

definition HandoverPreparationInformation_codec :: "per_lib \<Rightarrow> handover_preparation_information per_codec" where
  "HandoverPreparationInformation_codec L = named ''HandoverPreparationInformation'' (octetstring_codec L)"

definition CellGroupConfig_codec :: "per_lib \<Rightarrow> cell_group_config per_codec" where
  "CellGroupConfig_codec L = named ''CellGroupConfig'' (octetstring_codec L)"

definition MeasurementTimingConfiguration_codec :: "per_lib \<Rightarrow> measurement_timing_configuration per_codec" where
  "MeasurementTimingConfiguration_codec L = named ''MeasurementTimingConfiguration'' (octetstring_codec L)"

definition UeAssistanceInformation_codec :: "per_lib \<Rightarrow> ue_assistance_information per_codec" where
  "UeAssistanceInformation_codec L = named ''UeAssistanceInformation'' (octetstring_codec L)"

definition CgConfig_codec :: "per_lib \<Rightarrow> cg_config per_codec" where
  "CgConfig_codec L = named ''CgConfig'' (octetstring_codec L)"

definition UeAssistanceInformationEutra_codec :: "per_lib \<Rightarrow> ue_assistance_information_eutra per_codec" where
  "UeAssistanceInformationEutra_codec L = named ''UeAssistanceInformationEutra'' (octetstring_codec L)"

definition CuToDuRrcInformation_decode_inner :: "per_lib \<Rightarrow> cu_to_du_rrc_information decoder" where
  "CuToDuRrcInformation_decode_inner L =
     dec_bind (decode_sequence_header L True 4) (\<lambda>(optionals, _).
     dec_bind (decode_optional optionals 0 (decode_of (CgConfigInfo_codec L))) (\<lambda>cg_config_info.
     dec_bind (decode_optional optionals 1 (decode_of (UeCapabilityRatContainerList_codec L))) (\<lambda>ue_capability_rat_container_list.
     dec_bind (decode_optional optionals 2 (decode_of (MeasConfig_codec L))) (\<lambda>meas_config.
     decode_extensions L optionals 3
       [arm 119 (decode_of (HandoverPreparationInformation_codec L)) cu_to_du_rrc_information_handover_preparation_information_update,
        arm 173 (decode_of (CellGroupConfig_codec L)) cu_to_du_rrc_information_cell_group_config_update,
        arm 163 (decode_of (MeasurementTimingConfiguration_codec L)) cu_to_du_rrc_information_measurement_timing_configuration_update,
        arm 214 (decode_of (UeAssistanceInformation_codec L)) cu_to_du_rrc_information_ue_assistance_information_update,
        arm 234 (decode_of (CgConfig_codec L)) cu_to_du_rrc_information_cg_config_update,
        arm 339 (decode_of (UeAssistanceInformationEutra_codec L)) cu_to_du_rrc_information_ue_assistance_information_eutra_update]
       \<lparr>cu_to_du_rrc_information_cg_config_info = cg_config_info,
        cu_to_du_rrc_information_ue_capability_rat_container_list = ue_capability_rat_container_list,
        cu_to_du_rrc_information_meas_config = meas_config,
        cu_to_du_rrc_information_handover_preparation_information = None,
        cu_to_du_rrc_information_cell_group_config = None,
        cu_to_du_rrc_information_measurement_timing_configuration = None,
        cu_to_du_rrc_information_ue_assistance_information = None,
        cu_to_du_rrc_information_cg_config = None,
        cu_to_du_rrc_information_ue_assistance_information_eutra = None\<rparr>))))"

definition CuToDuRrcInformation_encode_inner :: "per_lib \<Rightarrow> cu_to_du_rrc_information \<Rightarrow> encoder" where
  "CuToDuRrcInformation_encode_inner L x =
     with_extensions L
       (opt_ie 119 Ignore (HandoverPreparationInformation_codec L) (cu_to_du_rrc_information_handover_preparation_information x) @
        opt_ie 173 Ignore (CellGroupConfig_codec L) (cu_to_du_rrc_information_cell_group_config x) @
        opt_ie 163 Ignore (MeasurementTimingConfiguration_codec L) (cu_to_du_rrc_information_measurement_timing_configuration x) @
        opt_ie 214 Ignore (UeAssistanceInformation_codec L) (cu_to_du_rrc_information_ue_assistance_information x) @
        opt_ie 234 Ignore (CgConfig_codec L) (cu_to_du_rrc_information_cg_config x) @
        opt_ie 339 Ignore (UeAssistanceInformationEutra_codec L) (cu_to_du_rrc_information_ue_assistance_information_eutra x)) (\<lambda>num_ies ies.
       enc_seq (encode_sequence_header L True [cu_to_du_rrc_information_cg_config_info x \<noteq> None, cu_to_du_rrc_information_ue_capability_rat_container_list x \<noteq> None, cu_to_du_rrc_information_meas_config x \<noteq> None, num_ies \<noteq> 0] False)
       (enc_seq (encode_optional (encode_of (CgConfigInfo_codec L)) (cu_to_du_rrc_information_cg_config_info x))
       (enc_seq (encode_optional (encode_of (UeCapabilityRatContainerList_codec L)) (cu_to_du_rrc_information_ue_capability_rat_container_list x))
       (enc_seq (encode_optional (encode_of (MeasConfig_codec L)) (cu_to_du_rrc_information_meas_config x))
       (encode_extensions L num_ies ies)))))"

definition CuToDuRrcInformation_codec :: "per_lib \<Rightarrow> cu_to_du_rrc_information per_codec" where
  "CuToDuRrcInformation_codec L =
     per_codec_impl ''CuToDuRrcInformation'' (CuToDuRrcInformation_decode_inner L) (CuToDuRrcInformation_encode_inner L)"

definition CandidateSpCellItem_codec :: "per_lib \<Rightarrow> candidate_sp_cell_item per_codec" where
  "CandidateSpCellItem_codec L =
     per_codec_impl ''CandidateSpCellItem''
       (dec_bind (decode_sequence_header L True 1) (\<lambda>(optionals, _).
        dec_bind (decode_of (NrCgi_codec L)) (\<lambda>candidate_sp_cell_id.
        dec_bind (decode_extension_container L optionals 0) (\<lambda>_.
        dec_return
          \<lparr>candidate_sp_cell_item_candidate_sp_cell_id = candidate_sp_cell_id\<rparr>))))
       (\<lambda>x. enc_seq (encode_sequence_header L True [False] False)
             (enc_seq (encode_of (NrCgi_codec L) (candidate_sp_cell_item_candidate_sp_cell_id x))
             enc_skip))"

definition CandidateSpCellList_codec :: "per_lib \<Rightarrow> candidate_sp_cell_list per_codec" where
  "CandidateSpCellList_codec L =
     named ''CandidateSpCellList'' (non_empty (ie_vec_codec L 1 64 91 Ignore (CandidateSpCellItem_codec L)))"

definition LongDrxCycleLength_codec :: "per_lib \<Rightarrow> long_drx_cycle_length per_codec" where
  "LongDrxCycleLength_codec L =
     enum_impl L ''LongDrxCycleLength''
       [LongDrxCycleLengthMs10, LongDrxCycleLengthMs20, LongDrxCycleLengthMs32,
        LongDrxCycleLengthMs40, LongDrxCycleLengthMs60, LongDrxCycleLengthMs64,
        LongDrxCycleLengthMs70, LongDrxCycleLengthMs80, LongDrxCycleLengthMs128,
        LongDrxCycleLengthMs160, LongDrxCycleLengthMs256, LongDrxCycleLengthMs320,
        LongDrxCycleLengthMs512, LongDrxCycleLengthMs640, LongDrxCycleLengthMs1024,
        LongDrxCycleLengthMs1280, LongDrxCycleLengthMs2048, LongDrxCycleLengthMs2560,
        LongDrxCycleLengthMs5120, LongDrxCycleLengthMs10240] 19 True"

definition ShortDrxCycleLength_codec :: "per_lib \<Rightarrow> short_drx_cycle_length per_codec" where
  "ShortDrxCycleLength_codec L =
     enum_impl L ''ShortDrxCycleLength''
       [ShortDrxCycleLengthMs2, ShortDrxCycleLengthMs3, ShortDrxCycleLengthMs4,
        ShortDrxCycleLengthMs5, ShortDrxCycleLengthMs6, ShortDrxCycleLengthMs7,
        ShortDrxCycleLengthMs8, ShortDrxCycleLengthMs10, ShortDrxCycleLengthMs14,
        ShortDrxCycleLengthMs16, ShortDrxCycleLengthMs20, ShortDrxCycleLengthMs30,
        ShortDrxCycleLengthMs32, ShortDrxCycleLengthMs35, ShortDrxCycleLengthMs40,
        ShortDrxCycleLengthMs64, ShortDrxCycleLengthMs80, ShortDrxCycleLengthMs128,
        ShortDrxCycleLengthMs160, ShortDrxCycleLengthMs256, ShortDrxCycleLengthMs320,
        ShortDrxCycleLengthMs512, ShortDrxCycleLengthMs640] 22 True"

definition ShortDrxCycleTimer_codec :: "per_lib \<Rightarrow> short_drx_cycle_timer per_codec" where
  "ShortDrxCycleTimer_codec L = named ''ShortDrxCycleTimer'' (integer_codec L 1 16 False)"

definition DrxCycle_codec :: "per_lib \<Rightarrow> drx_cycle per_codec" where
  "DrxCycle_codec L =
     per_codec_impl ''DrxCycle''
       (dec_bind (decode_sequence_header L True 3) (\<lambda>(optionals, _).
        dec_bind (decode_of (LongDrxCycleLength_codec L)) (\<lambda>long_drx_cycle_length.
        dec_bind (decode_optional optionals 0 (decode_of (ShortDrxCycleLength_codec L))) (\<lambda>short_drx_cycle_length.
        dec_bind (decode_optional optionals 1 (decode_of (ShortDrxCycleTimer_codec L))) (\<lambda>short_drx_cycle_timer.
        dec_bind (decode_extension_container L optionals 2) (\<lambda>_.
        dec_return
          \<lparr>drx_cycle_long_drx_cycle_length = long_drx_cycle_length,
           drx_cycle_short_drx_cycle_length = short_drx_cycle_length,
           drx_cycle_short_drx_cycle_timer = short_drx_cycle_timer\<rparr>))))))
       (\<lambda>x. enc_seq (encode_sequence_header L True [drx_cycle_short_drx_cycle_length x \<noteq> None, drx_cycle_short_drx_cycle_timer x \<noteq> None, False] False)
             (enc_seq (encode_of (LongDrxCycleLength_codec L) (drx_cycle_long_drx_cycle_length x))
             (enc_seq (encode_optional (encode_of (ShortDrxCycleLength_codec L)) (drx_cycle_short_drx_cycle_length x))
             (enc_seq (encode_optional (encode_of (ShortDrxCycleTimer_codec L)) (drx_cycle_short_drx_cycle_timer x))
             enc_skip))))"

definition ResourceCoordinationTransferContainer_codec :: "per_lib \<Rightarrow> resource_coordination_transfer_container per_codec" where
  "ResourceCoordinationTransferContainer_codec L = named ''ResourceCoordinationTransferContainer'' (octetstring_codec L)"

definition SCellIndex_codec :: "per_lib \<Rightarrow> s_cell_index per_codec" where
  "SCellIndex_codec L = named ''SCellIndex'' (integer_codec L 1 31 True)"

definition ServingCellMo_codec :: "per_lib \<Rightarrow> serving_cell_mo per_codec" where
  "ServingCellMo_codec L = named ''ServingCellMo'' (integer_codec L 1 64 True)"

definition SCellToBeSetupItem_codec :: "per_lib \<Rightarrow> s_cell_to_be_setup_item per_codec" where
  "SCellToBeSetupItem_codec L =
     per_codec_impl ''SCellToBeSetupItem''
       (dec_bind (decode_sequence_header L True 2) (\<lambda>(optionals, _).
        dec_bind (decode_of (NrCgi_codec L)) (\<lambda>s_cell_id.
        dec_bind (decode_of (SCellIndex_codec L)) (\<lambda>s_cell_index.
        dec_bind (decode_optional optionals 0 (decode_of (CellUlConfigured_codec L))) (\<lambda>s_cell_ul_configured.
        decode_extensions L optionals 1
          [arm 182 (decode_of (ServingCellMo_codec L)) s_cell_to_be_setup_item_serving_cell_mo_update]
          \<lparr>s_cell_to_be_setup_item_s_cell_id = s_cell_id,
           s_cell_to_be_setup_item_s_cell_index = s_cell_index,
           s_cell_to_be_setup_item_s_cell_ul_configured = s_cell_ul_configured,
           s_cell_to_be_setup_item_serving_cell_mo = None\<rparr>)))))
       (\<lambda>x. with_extensions L
               (opt_ie 182 Ignore (ServingCellMo_codec L) (s_cell_to_be_setup_item_serving_cell_mo x)) (\<lambda>num_ies ies.
               enc_seq (encode_sequence_header L True [s_cell_to_be_setup_item_s_cell_ul_configured x \<noteq> None, num_ies \<noteq> 0] False)
               (enc_seq (encode_of (NrCgi_codec L) (s_cell_to_be_setup_item_s_cell_id x))
               (enc_seq (encode_of (SCellIndex_codec L) (s_cell_to_be_setup_item_s_cell_index x))
               (enc_seq (encode_optional (encode_of (CellUlConfigured_codec L)) (s_cell_to_be_setup_item_s_cell_ul_configured x))
               (encode_extensions L num_ies ies))))))"

definition SCellToBeSetupList_codec :: "per_lib \<Rightarrow> s_cell_to_be_setup_list per_codec" where
  "SCellToBeSetupList_codec L =
     named ''SCellToBeSetupList'' (non_empty (ie_vec_codec L 1 32 53 Ignore (SCellToBeSetupItem_codec L)))"

definition DuplicationIndication_codec :: "per_lib \<Rightarrow> duplication_indication per_codec" where
  "DuplicationIndication_codec L =
     enum_impl L ''DuplicationIndication''
       [DuplicationIndicationTrue] 0 True"

definition AdditionalDuplicationIndication_codec :: "per_lib \<Rightarrow> additional_duplication_indication per_codec" where
  "AdditionalDuplicationIndication_codec L =
     enum_impl L ''AdditionalDuplicationIndication''
       [AdditionalDuplicationIndicationThree, AdditionalDuplicationIndicationFour] 1 True"

definition SrbsToBeSetupItem_codec :: "per_lib \<Rightarrow> srbs_to_be_setup_item per_codec" where
  "SrbsToBeSetupItem_codec L =
     per_codec_impl ''SrbsToBeSetupItem''
       (dec_bind (decode_sequence_header L True 2) (\<lambda>(optionals, _).
        dec_bind (decode_of (SrbId_codec L)) (\<lambda>srb_id.
        dec_bind (decode_optional optionals 0 (decode_of (DuplicationIndication_codec L))) (\<lambda>duplication_indication.
        decode_extensions L optionals 1
          [arm 372 (decode_of (AdditionalDuplicationIndication_codec L)) srbs_to_be_setup_item_additional_duplication_indication_update]
          \<lparr>srbs_to_be_setup_item_srb_id = srb_id,
           srbs_to_be_setup_item_duplication_indication = duplication_indication,
           srbs_to_be_setup_item_additional_duplication_indication = None\<rparr>))))
       (\<lambda>x. with_extensions L
               (opt_ie 372 Ignore (AdditionalDuplicationIndication_codec L) (srbs_to_be_setup_item_additional_duplication_indication x)) (\<lambda>num_ies ies.
               enc_seq (encode_sequence_header L True [srbs_to_be_setup_item_duplication_indication x \<noteq> None, num_ies \<noteq> 0] False)
               (enc_seq (encode_of (SrbId_codec L) (srbs_to_be_setup_item_srb_id x))
               (enc_seq (encode_optional (encode_of (DuplicationIndication_codec L)) (srbs_to_be_setup_item_duplication_indication x))
               (encode_extensions L num_ies ies)))))"

definition SrbsToBeSetupList_codec :: "per_lib \<Rightarrow> srbs_to_be_setup_list per_codec" where
  "SrbsToBeSetupList_codec L =
     named ''SrbsToBeSetupList'' (non_empty (ie_vec_codec L 1 8 73 Reject (SrbsToBeSetupItem_codec L)))"

definition DrbId_codec :: "per_lib \<Rightarrow> drb_id per_codec" where
  "DrbId_codec L = named ''DrbId'' (integer_codec L 1 32 True)"

definition Qci_codec :: "per_lib \<Rightarrow> qci per_codec" where
  "Qci_codec L = named ''Qci'' (integer_codec L 0 255 False)"

definition PriorityLevel_codec :: "per_lib \<Rightarrow> priority_level per_codec" where
  "PriorityLevel_codec L = named ''PriorityLevel'' (integer_codec L 0 15 False)"

definition PreEmptionCapability_codec :: "per_lib \<Rightarrow> pre_emption_capability per_codec" where
  "PreEmptionCapability_codec L =
     enum_impl L ''PreEmptionCapability''
       [PreEmptionCapabilityShallNotTriggerPreEmption, PreEmptionCapabilityMayTriggerPreEmption] 1 False"

definition PreEmptionVulnerability_codec :: "per_lib \<Rightarrow> pre_emption_vulnerability per_codec" where
  "PreEmptionVulnerability_codec L =
     enum_impl L ''PreEmptionVulnerability''
       [PreEmptionVulnerabilityNotPreEmptable, PreEmptionVulnerabilityPreEmptable] 1 False"

definition AllocationAndRetentionPriority_codec :: "per_lib \<Rightarrow> allocation_and_retention_priority per_codec" where
  "AllocationAndRetentionPriority_codec L =
     per_codec_impl ''AllocationAndRetentionPriority''
       (dec_bind (decode_sequence_header L True 1) (\<lambda>(optionals, _).
        dec_bind (decode_of (PriorityLevel_codec L)) (\<lambda>priority_level.
        dec_bind (decode_of (PreEmptionCapability_codec L)) (\<lambda>pre_emption_capability.
        dec_bind (decode_of (PreEmptionVulnerability_codec L)) (\<lambda>pre_emption_vulnerability.
        dec_bind (decode_extension_container L optionals 0) (\<lambda>_.
        dec_return
          \<lparr>allocation_and_retention_priority_priority_level = priority_level,
           allocation_and_retention_priority_pre_emption_capability = pre_emption_capability,
           allocation_and_retention_priority_pre_emption_vulnerability = pre_emption_vulnerability\<rparr>))))))
       (\<lambda>x. enc_seq (encode_sequence_header L True [False] False)
             (enc_seq (encode_of (PriorityLevel_codec L) (allocation_and_retention_priority_priority_level x))
             (enc_seq (encode_of (PreEmptionCapability_codec L) (allocation_and_retention_priority_pre_emption_capability x))
             (enc_seq (encode_of (PreEmptionVulnerability_codec L) (allocation_and_retention_priority_pre_emption_vulnerability x))
             enc_skip))))"

definition BitRate_codec :: "per_lib \<Rightarrow> bit_rate per_codec" where
  "BitRate_codec L = named ''BitRate'' (integer_codec L 0 4000000000000 True)"

definition GbrQosInformation_codec :: "per_lib \<Rightarrow> gbr_qos_information per_codec" where
  "GbrQosInformation_codec L =
     per_codec_impl ''GbrQosInformation''
       (dec_bind (decode_sequence_header L True 1) (\<lambda>(optionals, _).
        dec_bind (decode_of (BitRate_codec L)) (\<lambda>e_rab_maximum_bitrate_dl.
        dec_bind (decode_of (BitRate_codec L)) (\<lambda>e_rab_maximum_bitrate_ul.
        dec_bind (decode_of (BitRate_codec L)) (\<lambda>e_rab_guaranteed_bitrate_dl.
        dec_bind (decode_of (BitRate_codec L)) (\<lambda>e_rab_guaranteed_bitrate_ul.
        dec_bind (decode_extension_container L optionals 0) (\<lambda>_.
        dec_return
          \<lparr>gbr_qos_information_e_rab_maximum_bitrate_dl = e_rab_maximum_bitrate_dl,
           gbr_qos_information_e_rab_maximum_bitrate_ul = e_rab_maximum_bitrate_ul,
           gbr_qos_information_e_rab_guaranteed_bitrate_dl = e_rab_guaranteed_bitrate_dl,
           gbr_qos_information_e_rab_guaranteed_bitrate_ul = e_rab_guaranteed_bitrate_ul\<rparr>)))))))
       (\<lambda>x. enc_seq (encode_sequence_header L True [False] False)
             (enc_seq (encode_of (BitRate_codec L) (gbr_qos_information_e_rab_maximum_bitrate_dl x))
             (enc_seq (encode_of (BitRate_codec L) (gbr_qos_information_e_rab_maximum_bitrate_ul x))
             (enc_seq (encode_of (BitRate_codec L) (gbr_qos_information_e_rab_guaranteed_bitrate_dl x))
             (enc_seq (encode_of (BitRate_codec L) (gbr_qos_information_e_rab_guaranteed_bitrate_ul x))
             enc_skip)))))"

definition EutranQos_codec :: "per_lib \<Rightarrow> eutran_qos per_codec" where
  "EutranQos_codec L =
     per_codec_impl ''EutranQos''
       (dec_bind (decode_sequence_header L True 2) (\<lambda>(optionals, _).
        dec_bind (decode_of (Qci_codec L)) (\<lambda>qci.
        dec_bind (decode_of (AllocationAndRetentionPriority_codec L)) (\<lambda>allocation_and_retention_priority.
        dec_bind (decode_optional optionals 0 (decode_of (GbrQosInformation_codec L))) (\<lambda>gbr_qos_information.
        dec_bind (decode_extension_container L optionals 1) (\<lambda>_.
        dec_return
          \<lparr>eutran_qos_qci = qci,
           eutran_qos_allocation_and_retention_priority = allocation_and_retention_priority,
           eutran_qos_gbr_qos_information = gbr_qos_information\<rparr>))))))
       (\<lambda>x. enc_seq (encode_sequence_header L True [eutran_qos_gbr_qos_information x \<noteq> None, False] False)
             (enc_seq (encode_of (Qci_codec L) (eutran_qos_qci x))
             (enc_seq (encode_of (AllocationAndRetentionPriority_codec L) (eutran_qos_allocation_and_retention_priority x))
             (enc_seq (encode_optional (encode_of (GbrQosInformation_codec L)) (eutran_qos_gbr_qos_information x))
             enc_skip))))"

definition AveragingWindow_codec :: "per_lib \<Rightarrow> averaging_window per_codec" where
  "AveragingWindow_codec L = named ''AveragingWindow'' (integer_codec L 0 4095 True)"

definition MaxDataBurstVolume_codec :: "per_lib \<Rightarrow> max_data_burst_volume per_codec" where
  "MaxDataBurstVolume_codec L = named ''MaxDataBurstVolume'' (i128_codec L 0 4095 True)"

definition ExtendedPacketDelayBudget_codec :: "per_lib \<Rightarrow> extended_packet_delay_budget per_codec" where
  "ExtendedPacketDelayBudget_codec L = named ''ExtendedPacketDelayBudget'' (integer_codec L 1 65535 True)"

definition NonDynamic5qiDescriptor_codec :: "per_lib \<Rightarrow> non_dynamic5qi_descriptor per_codec" where
  "NonDynamic5qiDescriptor_codec L =
     per_codec_impl ''NonDynamic5qiDescriptor''
       (dec_bind (decode_sequence_header L False 4) (\<lambda>(optionals, _).
        dec_bind (decode_of (integer_codec L 0 255 True)) (\<lambda>five_qi.
        dec_bind (decode_optional optionals 0 (decode_of (integer_codec L 1 127 False))) (\<lambda>qos_priority_level.
        dec_bind (decode_optional optionals 1 (decode_of (AveragingWindow_codec L))) (\<lambda>averaging_window.
        dec_bind (decode_optional optionals 2 (decode_of (MaxDataBurstVolume_codec L))) (\<lambda>max_data_burst_volume.
        decode_extensions L optionals 3
          [arm 362 (decode_of (ExtendedPacketDelayBudget_codec L)) non_dynamic5qi_descriptor_cn_packet_delay_budget_downlink_update,
           arm 369 (decode_of (ExtendedPacketDelayBudget_codec L)) non_dynamic5qi_descriptor_cn_packet_delay_budget_uplink_update]
          \<lparr>non_dynamic5qi_descriptor_five_qi = five_qi,
           non_dynamic5qi_descriptor_qos_priority_level = qos_priority_level,
           non_dynamic5qi_descriptor_averaging_window = averaging_window,
           non_dynamic5qi_descriptor_max_data_burst_volume = max_data_burst_volume,
           non_dynamic5qi_descriptor_cn_packet_delay_budget_downlink = None,
           non_dynamic5qi_descriptor_cn_packet_delay_budget_uplink = None\<rparr>))))))
       (\<lambda>x. with_extensions L
               (opt_ie 362 Ignore (ExtendedPacketDelayBudget_codec L) (non_dynamic5qi_descriptor_cn_packet_delay_budget_downlink x) @
                opt_ie 369 Ignore (ExtendedPacketDelayBudget_codec L) (non_dynamic5qi_descriptor_cn_packet_delay_budget_uplink x)) (\<lambda>num_ies ies.
               enc_seq (encode_sequence_header L False [non_dynamic5qi_descriptor_qos_priority_level x \<noteq> None, non_dynamic5qi_descriptor_averaging_window x \<noteq> None, non_dynamic5qi_descriptor_max_data_burst_volume x \<noteq> None, num_ies \<noteq> 0] False)
               (enc_seq (encode_of (integer_codec L 0 255 True) (non_dynamic5qi_descriptor_five_qi x))
               (enc_seq (encode_optional (encode_of (integer_codec L 1 127 False)) (non_dynamic5qi_descriptor_qos_priority_level x))
               (enc_seq (encode_optional (encode_of (AveragingWindow_codec L)) (non_dynamic5qi_descriptor_averaging_window x))
               (enc_seq (encode_optional (encode_of (MaxDataBurstVolume_codec L)) (non_dynamic5qi_descriptor_max_data_burst_volume x))
               (encode_extensions L num_ies ies)))))))"

definition PacketDelayBudget_codec :: "per_lib \<Rightarrow> packet_delay_budget per_codec" where
  "PacketDelayBudget_codec L = named ''PacketDelayBudget'' (integer_codec L 0 1023 True)"

definition PerScalar_codec :: "per_lib \<Rightarrow> per_scalar per_codec" where
  "PerScalar_codec L = named ''PerScalar'' (integer_codec L 0 9 True)"

definition PerExponent_codec :: "per_lib \<Rightarrow> per_exponent per_codec" where
  "PerExponent_codec L = named ''PerExponent'' (integer_codec L 0 9 True)"

definition PacketErrorRate_codec :: "per_lib \<Rightarrow> packet_error_rate per_codec" where
  "PacketErrorRate_codec L =
     per_codec_impl ''PacketErrorRate''
       (dec_bind (decode_sequence_header L True 1) (\<lambda>(optionals, _).
        dec_bind (decode_of (PerScalar_codec L)) (\<lambda>per_scalar.
        dec_bind (decode_of (PerExponent_codec L)) (\<lambda>per_exponent.
        dec_bind (decode_extension_container L optionals 0) (\<lambda>_.
        dec_return
          \<lparr>packet_error_rate_per_scalar = per_scalar, packet_error_rate_per_exponent = per_exponent\<rparr>)))))
       (\<lambda>x. enc_seq (encode_sequence_header L True [False] False)
             (enc_seq (encode_of (PerScalar_codec L) (packet_error_rate_per_scalar x))
             (enc_seq (encode_of (PerExponent_codec L) (packet_error_rate_per_exponent x))
             enc_skip)))"

definition DelayCritical_codec :: "per_lib \<Rightarrow> delay_critical per_codec" where
  "DelayCritical_codec L =
     enum_impl L ''DelayCritical''
       [DelayCriticalDelayCritical, DelayCriticalNonDelayCritical] 1 False"

definition Dynamic5qiDescriptor_decode_inner :: "per_lib \<Rightarrow> dynamic5qi_descriptor decoder" where
  "Dynamic5qiDescriptor_decode_inner L =
     dec_bind (decode_sequence_header L False 5) (\<lambda>(optionals, _).
     dec_bind (decode_of (integer_codec L 1 127 False)) (\<lambda>qos_priority_level.
     dec_bind (decode_of (PacketDelayBudget_codec L)) (\<lambda>packet_delay_budget.
     dec_bind (decode_of (PacketErrorRate_codec L)) (\<lambda>packet_error_rate.
     dec_bind (decode_optional optionals 0 (decode_of (integer_codec L 0 255 True))) (\<lambda>five_qi.
     dec_bind (decode_optional optionals 1 (decode_of (DelayCritical_codec L))) (\<lambda>delay_critical.
     dec_bind (decode_optional optionals 2 (decode_of (AveragingWindow_codec L))) (\<lambda>averaging_window.
     dec_bind (decode_optional optionals 3 (decode_of (MaxDataBurstVolume_codec L))) (\<lambda>max_data_burst_volume.
     decode_extensions L optionals 4
       [arm 363 (decode_of (ExtendedPacketDelayBudget_codec L)) dynamic5qi_descriptor_extended_packet_delay_budget_update,
        arm 362 (decode_of (ExtendedPacketDelayBudget_codec L)) dynamic5qi_descriptor_cn_packet_delay_budget_downlink_update,
        arm 369 (decode_of (ExtendedPacketDelayBudget_codec L)) dynamic5qi_descriptor_cn_packet_delay_budget_uplink_update]
       \<lparr>dynamic5qi_descriptor_qos_priority_level = qos_priority_level,
        dynamic5qi_descriptor_packet_delay_budget = packet_delay_budget,
        dynamic5qi_descriptor_packet_error_rate = packet_error_rate,
        dynamic5qi_descriptor_five_qi = five_qi,
        dynamic5qi_descriptor_delay_critical = delay_critical,
        dynamic5qi_descriptor_averaging_window = averaging_window,
        dynamic5qi_descriptor_max_data_burst_volume = max_data_burst_volume,
        dynamic5qi_descriptor_extended_packet_delay_budget = None,
        dynamic5qi_descriptor_cn_packet_delay_budget_downlink = None,
        dynamic5qi_descriptor_cn_packet_delay_budget_uplink = None\<rparr>))))))))"

definition Dynamic5qiDescriptor_encode_inner :: "per_lib \<Rightarrow> dynamic5qi_descriptor \<Rightarrow> encoder" where
  "Dynamic5qiDescriptor_encode_inner L x =
     with_extensions L
       (opt_ie 363 Ignore (ExtendedPacketDelayBudget_codec L) (dynamic5qi_descriptor_extended_packet_delay_budget x) @
        opt_ie 362 Ignore (ExtendedPacketDelayBudget_codec L) (dynamic5qi_descriptor_cn_packet_delay_budget_downlink x) @
        opt_ie 369 Ignore (ExtendedPacketDelayBudget_codec L) (dynamic5qi_descriptor_cn_packet_delay_budget_uplink x)) (\<lambda>num_ies ies.
       enc_seq (encode_sequence_header L False [dynamic5qi_descriptor_five_qi x \<noteq> None, dynamic5qi_descriptor_delay_critical x \<noteq> None, dynamic5qi_descriptor_averaging_window x \<noteq> None, dynamic5qi_descriptor_max_data_burst_volume x \<noteq> None, num_ies \<noteq> 0] False)
       (enc_seq (encode_of (integer_codec L 1 127 False) (dynamic5qi_descriptor_qos_priority_level x))
       (enc_seq (encode_of (PacketDelayBudget_codec L) (dynamic5qi_descriptor_packet_delay_budget x))
       (enc_seq (encode_of (PacketErrorRate_codec L) (dynamic5qi_descriptor_packet_error_rate x))
       (enc_seq (encode_optional (encode_of (integer_codec L 0 255 True)) (dynamic5qi_descriptor_five_qi x))
       (enc_seq (encode_optional (encode_of (DelayCritical_codec L)) (dynamic5qi_descriptor_delay_critical x))
       (enc_seq (encode_optional (encode_of (AveragingWindow_codec L)) (dynamic5qi_descriptor_averaging_window x))
       (enc_seq (encode_optional (encode_of (MaxDataBurstVolume_codec L)) (dynamic5qi_descriptor_max_data_burst_volume x))
       (encode_extensions L num_ies ies)))))))))"

definition Dynamic5qiDescriptor_codec :: "per_lib \<Rightarrow> dynamic5qi_descriptor per_codec" where
  "Dynamic5qiDescriptor_codec L =
     per_codec_impl ''Dynamic5qiDescriptor'' (Dynamic5qiDescriptor_decode_inner L) (Dynamic5qiDescriptor_encode_inner L)"

definition QosCharacteristics_codec :: "per_lib \<Rightarrow> qos_characteristics per_codec" where
  "QosCharacteristics_codec L =
     per_codec_impl ''QosCharacteristics''
       (dec_bind (decode_choice_idx L 0 2 False) (\<lambda>(idx, extended).
        if extended then dec_fail (per_codec_error_new ''CHOICE additions not implemented'')
        else if idx = 0 then dec_bind (decode_of (NonDynamic5qiDescriptor_codec L)) (\<lambda>x. dec_return (QosCharacteristicsNonDynamic5qi x))
        else if idx = 1 then dec_bind (decode_of (Dynamic5qiDescriptor_codec L)) (\<lambda>x. dec_return (QosCharacteristicsDynamic5qi x))
        else if idx = 2 then decode_choice_extension L
        else dec_fail (per_codec_error_new ''Unknown choice idx'')))
       (\<lambda>x. case x of
          QosCharacteristicsNonDynamic5qi y \<Rightarrow> enc_seq (encode_choice_idx L 0 2 False 0 False) (encode_of (NonDynamic5qiDescriptor_codec L) y)
        | QosCharacteristicsDynamic5qi y \<Rightarrow> enc_seq (encode_choice_idx L 0 2 False 1 False) (encode_of (Dynamic5qiDescriptor_codec L) y))"

definition NgranAllocationAndRetentionPriority_codec :: "per_lib \<Rightarrow> ngran_allocation_and_retention_priority per_codec" where
  "NgranAllocationAndRetentionPriority_codec L =
     per_codec_impl ''NgranAllocationAndRetentionPriority''
       (dec_bind (decode_sequence_header L False 1) (\<lambda>(optionals, _).
        dec_bind (decode_of (PriorityLevel_codec L)) (\<lambda>priority_level.
        dec_bind (decode_of (PreEmptionCapability_codec L)) (\<lambda>pre_emption_capability.
        dec_bind (decode_of (PreEmptionVulnerability_codec L)) (\<lambda>pre_emption_vulnerability.
        dec_bind (decode_extension_container L optionals 0) (\<lambda>_.
        dec_return
          \<lparr>ngran_allocation_and_retention_priority_priority_level = priority_level,
           ngran_allocation_and_retention_priority_pre_emption_capability = pre_emption_capability,
           ngran_allocation_and_retention_priority_pre_emption_vulnerability = pre_emption_vulnerability\<rparr>))))))
       (\<lambda>x. enc_seq (encode_sequence_header L False [False] False)
             (enc_seq (encode_of (PriorityLevel_codec L) (ngran_allocation_and_retention_priority_priority_level x))
             (enc_seq (encode_of (PreEmptionCapability_codec L) (ngran_allocation_and_retention_priority_pre_emption_capability x))
             (enc_seq (encode_of (PreEmptionVulnerability_codec L) (ngran_allocation_and_retention_priority_pre_emption_vulnerability x))
             enc_skip))))"

definition MaxPacketLossRate_codec :: "per_lib \<Rightarrow> max_packet_loss_rate per_codec" where
  "MaxPacketLossRate_codec L = named ''MaxPacketLossRate'' (integer_codec L 0 1000 False)"

definition QosParaSetIndex_codec :: "per_lib \<Rightarrow> qos_para_set_index per_codec" where
  "QosParaSetIndex_codec L = named ''QosParaSetIndex'' (integer_codec L 1 8 True)"

definition AlternativeQosParaSetItem_codec :: "per_lib \<Rightarrow> alternative_qos_para_set_item per_codec" where
  "AlternativeQosParaSetItem_codec L =
     per_codec_impl ''AlternativeQosParaSetItem''
       (dec_bind (decode_sequence_header L True 5) (\<lambda>(optionals, _).
        dec_bind (decode_of (QosParaSetIndex_codec L)) (\<lambda>alternative_qos_para_set_index.
        dec_bind (decode_optional optionals 0 (decode_of (BitRate_codec L))) (\<lambda>guaranteed_flow_bit_rate_dl.
        dec_bind (decode_optional optionals 1 (decode_of (BitRate_codec L))) (\<lambda>guaranteed_flow_bit_rate_ul.
        dec_bind (decode_optional optionals 2 (decode_of (PacketDelayBudget_codec L))) (\<lambda>packet_delay_budget.
        dec_bind (decode_optional optionals 3 (decode_of (PacketErrorRate_codec L))) (\<lambda>packet_error_rate.
        dec_bind (decode_extension_container L optionals 4) (\<lambda>_.
        dec_return
          \<lparr>alternative_qos_para_set_item_alternative_qos_para_set_index = alternative_qos_para_set_index,
           alternative_qos_para_set_item_guaranteed_flow_bit_rate_dl = guaranteed_flow_bit_rate_dl,
           alternative_qos_para_set_item_guaranteed_flow_bit_rate_ul = guaranteed_flow_bit_rate_ul,
           alternative_qos_para_set_item_packet_delay_budget = packet_delay_budget,
           alternative_qos_para_set_item_packet_error_rate = packet_error_rate\<rparr>))))))))
       (\<lambda>x. enc_seq (encode_sequence_header L True [alternative_qos_para_set_item_guaranteed_flow_bit_rate_dl x \<noteq> None, alternative_qos_para_set_item_guaranteed_flow_bit_rate_ul x \<noteq> None, alternative_qos_para_set_item_packet_delay_budget x \<noteq> None, alternative_qos_para_set_item_packet_error_rate x \<noteq> None, False] False)
             (enc_seq (encode_of (QosParaSetIndex_codec L) (alternative_qos_para_set_item_alternative_qos_para_set_index x))
             (enc_seq (encode_optional (encode_of (BitRate_codec L)) (alternative_qos_para_set_item_guaranteed_flow_bit_rate_dl x))
             (enc_seq (encode_optional (encode_of (BitRate_codec L)) (alternative_qos_para_set_item_guaranteed_flow_bit_rate_ul x))
             (enc_seq (encode_optional (encode_of (PacketDelayBudget_codec L)) (alternative_qos_para_set_item_packet_delay_budget x))
             (enc_seq (encode_optional (encode_of (PacketErrorRate_codec L)) (alternative_qos_para_set_item_packet_error_rate x))
             enc_skip))))))"

definition AlternativeQosParaSetList_codec :: "per_lib \<Rightarrow> alternative_qos_para_set_list per_codec" where
  "AlternativeQosParaSetList_codec L =
     named ''AlternativeQosParaSetList'' (non_empty (vec_codec L 1 8 (AlternativeQosParaSetItem_codec L)))"

definition GbrQosFlowInformation_codec :: "per_lib \<Rightarrow> gbr_qos_flow_information per_codec" where
  "GbrQosFlowInformation_codec L =
     per_codec_impl ''GbrQosFlowInformation''
       (dec_bind (decode_sequence_header L True 3) (\<lambda>(optionals, _).
        dec_bind (decode_of (BitRate_codec L)) (\<lambda>max_flow_bit_rate_downlink.
        dec_bind (decode_of (BitRate_codec L)) (\<lambda>max_flow_bit_rate_uplink.
        dec_bind (decode_of (BitRate_codec L)) (\<lambda>guaranteed_flow_bit_rate_downlink.
        dec_bind (decode_of (BitRate_codec L)) (\<lambda>guaranteed_flow_bit_rate_uplink.
        dec_bind (decode_optional optionals 0 (decode_of (MaxPacketLossRate_codec L))) (\<lambda>max_packet_loss_rate_downlink.
        dec_bind (decode_optional optionals 1 (decode_of (MaxPacketLossRate_codec L))) (\<lambda>max_packet_loss_rate_uplink.
        decode_extensions L optionals 2
          [arm 343 (decode_of (AlternativeQosParaSetList_codec L)) gbr_qos_flow_information_alternative_qos_para_set_list_update]
          \<lparr>gbr_qos_flow_information_max_flow_bit_rate_downlink = max_flow_bit_rate_downlink,
           gbr_qos_flow_information_max_flow_bit_rate_uplink = max_flow_bit_rate_uplink,
           gbr_qos_flow_information_guaranteed_flow_bit_rate_downlink = guaranteed_flow_bit_rate_downlink,
           gbr_qos_flow_information_guaranteed_flow_bit_rate_uplink = guaranteed_flow_bit_rate_uplink,
           gbr_qos_flow_information_max_packet_loss_rate_downlink = max_packet_loss_rate_downlink,
           gbr_qos_flow_information_max_packet_loss_rate_uplink = max_packet_loss_rate_uplink,
           gbr_qos_flow_information_alternative_qos_para_set_list = None\<rparr>))))))))
       (\<lambda>x. with_extensions L
               (opt_ie 343 Ignore (AlternativeQosParaSetList_codec L) (gbr_qos_flow_information_alternative_qos_para_set_list x)) (\<lambda>num_ies ies.
               enc_seq (encode_sequence_header L True [gbr_qos_flow_information_max_packet_loss_rate_downlink x \<noteq> None, gbr_qos_flow_information_max_packet_loss_rate_uplink x \<noteq> None, num_ies \<noteq> 0] False)
               (enc_seq (encode_of (BitRate_codec L) (gbr_qos_flow_information_max_flow_bit_rate_downlink x))
               (enc_seq (encode_of (BitRate_codec L) (gbr_qos_flow_information_max_flow_bit_rate_uplink x))
               (enc_seq (encode_of (BitRate_codec L) (gbr_qos_flow_information_guaranteed_flow_bit_rate_downlink x))
               (enc_seq (encode_of (BitRate_codec L) (gbr_qos_flow_information_guaranteed_flow_bit_rate_uplink x))
               (enc_seq (encode_optional (encode_of (MaxPacketLossRate_codec L)) (gbr_qos_flow_information_max_packet_loss_rate_downlink x))
               (enc_seq (encode_optional (encode_of (MaxPacketLossRate_codec L)) (gbr_qos_flow_information_max_packet_loss_rate_uplink x))
               (encode_extensions L num_ies ies)))))))))"

definition ReflectiveQosAttribute_codec :: "per_lib \<Rightarrow> reflective_qos_attribute per_codec" where
  "ReflectiveQosAttribute_codec L =
     enum_impl L ''ReflectiveQosAttribute''
       [ReflectiveQosAttributeSubjectTo] 0 True"

definition QosMonitoringRequest_codec :: "per_lib \<Rightarrow> qos_monitoring_request per_codec" where
  "QosMonitoringRequest_codec L =
     enum_impl L ''QosMonitoringRequest''
       [QosMonitoringRequestUl, QosMonitoringRequestDl, QosMonitoringRequestBoth] 2 True"

definition QosFlowLevelQosParameters_codec :: "per_lib \<Rightarrow> qos_flow_level_qos_parameters per_codec" where
  "QosFlowLevelQosParameters_codec L =
     per_codec_impl ''QosFlowLevelQosParameters''
       (dec_bind (decode_sequence_header L False 3) (\<lambda>(optionals, _).
        dec_bind (decode_of (QosCharacteristics_codec L)) (\<lambda>qos_characteristics.
        dec_bind (decode_of (NgranAllocationAndRetentionPriority_codec L)) (\<lambda>ngran_allocation_retention_priority.
        dec_bind (decode_optional optionals 0 (decode_of (GbrQosFlowInformation_codec L))) (\<lambda>gbr_qos_flow_information.
        dec_bind (decode_optional optionals 1 (decode_of (ReflectiveQosAttribute_codec L))) (\<lambda>reflective_qos_attribute.
        decode_extensions L optionals 2
          [arm 180 (decode_of (PduSessionId_codec L)) qos_flow_level_qos_parameters_pdu_session_id_update,
           arm 181 (decode_of (BitRate_codec L)) qos_flow_level_qos_parameters_ulpdu_session_aggregate_maximum_bit_rate_update,
           arm 257 (decode_of (QosMonitoringRequest_codec L)) qos_flow_level_qos_parameters_qos_monitoring_request_update]
          \<lparr>qos_flow_level_qos_parameters_qos_characteristics = qos_characteristics,
           qos_flow_level_qos_parameters_ngran_allocation_retention_priority = ngran_allocation_retention_priority,
           qos_flow_level_qos_parameters_gbr_qos_flow_information = gbr_qos_flow_information,
           qos_flow_level_qos_parameters_reflective_qos_attribute = reflective_qos_attribute,
           qos_flow_level_qos_parameters_pdu_session_id = None,
           qos_flow_level_qos_parameters_ulpdu_session_aggregate_maximum_bit_rate = None,
           qos_flow_level_qos_parameters_qos_monitoring_request = None\<rparr>))))))
       (\<lambda>x. with_extensions L
               (opt_ie 180 Ignore (PduSessionId_codec L) (qos_flow_level_qos_parameters_pdu_session_id x) @
                opt_ie 181 Ignore (BitRate_codec L) (qos_flow_level_qos_parameters_ulpdu_session_aggregate_maximum_bit_rate x) @
                opt_ie 257 Ignore (QosMonitoringRequest_codec L) (qos_flow_level_qos_parameters_qos_monitoring_request x)) (\<lambda>num_ies ies.
               enc_seq (encode_sequence_header L False [qos_flow_level_qos_parameters_gbr_qos_flow_information x \<noteq> None, qos_flow_level_qos_parameters_reflective_qos_attribute x \<noteq> None, num_ies \<noteq> 0] False)
               (enc_seq (encode_of (QosCharacteristics_codec L) (qos_flow_level_qos_parameters_qos_characteristics x))
               (enc_seq (encode_of (NgranAllocationAndRetentionPriority_codec L) (qos_flow_level_qos_parameters_ngran_allocation_retention_priority x))
               (enc_seq (encode_optional (encode_of (GbrQosFlowInformation_codec L)) (qos_flow_level_qos_parameters_gbr_qos_flow_information x))
               (enc_seq (encode_optional (encode_of (ReflectiveQosAttribute_codec L)) (qos_flow_level_qos_parameters_reflective_qos_attribute x))
               (encode_extensions L num_ies ies)))))))"

definition NotificationControl_codec :: "per_lib \<Rightarrow> notification_control per_codec" where
  "NotificationControl_codec L =
     enum_impl L ''NotificationControl''
       [NotificationControlActive, NotificationControlNotActive] 1 True"

definition QosFlowIdentifier_codec :: "per_lib \<Rightarrow> qos_flow_identifier per_codec" where
  "QosFlowIdentifier_codec L = named ''QosFlowIdentifier'' (integer_codec L 0 63 False)"

definition QosFlowMappingIndication_codec :: "per_lib \<Rightarrow> qos_flow_mapping_indication per_codec" where
  "QosFlowMappingIndication_codec L =
     enum_impl L ''QosFlowMappingIndication''
       [QosFlowMappingIndicationUl, QosFlowMappingIndicationDl] 1 True"

definition Periodicity_codec :: "per_lib \<Rightarrow> periodicity per_codec" where
  "Periodicity_codec L = named ''Periodicity'' (integer_codec L 0 640000 True)"

definition BurstArrivalTime_codec :: "per_lib \<Rightarrow> burst_arrival_time per_codec" where
  "BurstArrivalTime_codec L = named ''BurstArrivalTime'' (octetstring_codec L)"

definition TscAssistanceInformation_codec :: "per_lib \<Rightarrow> tsc_assistance_information per_codec" where
  "TscAssistanceInformation_codec L =
     per_codec_impl ''TscAssistanceInformation''
       (dec_bind (decode_sequence_header L True 2) (\<lambda>(optionals, _).
        dec_bind (decode_of (Periodicity_codec L)) (\<lambda>periodicity.
        dec_bind (decode_optional optionals 0 (decode_of (BurstArrivalTime_codec L))) (\<lambda>burst_arrival_time.
        dec_bind (decode_extension_container L optionals 1) (\<lambda>_.
        dec_return
          \<lparr>tsc_assistance_information_periodicity = periodicity,
           tsc_assistance_information_burst_arrival_time = burst_arrival_time\<rparr>)))))
       (\<lambda>x. enc_seq (encode_sequence_header L True [tsc_assistance_information_burst_arrival_time x \<noteq> None, False] False)
             (enc_seq (encode_of (Periodicity_codec L) (tsc_assistance_information_periodicity x))
             (enc_seq (encode_optional (encode_of (BurstArrivalTime_codec L)) (tsc_assistance_information_burst_arrival_time x))
             enc_skip)))"

definition TscTrafficCharacteristics_codec :: "per_lib \<Rightarrow> tsc_traffic_characteristics per_codec" where
  "TscTrafficCharacteristics_codec L =
     per_codec_impl ''TscTrafficCharacteristics''
       (dec_bind (decode_sequence_header L True 3) (\<lambda>(optionals, _).
        dec_bind (decode_optional optionals 0 (decode_of (TscAssistanceInformation_codec L))) (\<lambda>tsc_assistance_information_dl.
        dec_bind (decode_optional optionals 1 (decode_of (TscAssistanceInformation_codec L))) (\<lambda>tsc_assistance_information_ul.
        dec_bind (decode_extension_container L optionals 2) (\<lambda>_.
        dec_return
          \<lparr>tsc_traffic_characteristics_tsc_assistance_information_dl = tsc_assistance_information_dl,
           tsc_traffic_characteristics_tsc_assistance_information_ul = tsc_assistance_information_ul\<rparr>)))))
       (\<lambda>x. enc_seq (encode_sequence_header L True [tsc_traffic_characteristics_tsc_assistance_information_dl x \<noteq> None, tsc_traffic_characteristics_tsc_assistance_information_ul x \<noteq> None, False] False)
             (enc_seq (encode_optional (encode_of (TscAssistanceInformation_codec L)) (tsc_traffic_characteristics_tsc_assistance_information_dl x))
             (enc_seq (encode_optional (encode_of (TscAssistanceInformation_codec L)) (tsc_traffic_characteristics_tsc_assistance_information_ul x))
             enc_skip)))"

definition FlowsMappedToDrbItem_codec :: "per_lib \<Rightarrow> flows_mapped_to_drb_item per_codec" where
  "FlowsMappedToDrbItem_codec L =
     per_codec_impl ''FlowsMappedToDrbItem''
       (dec_bind (decode_sequence_header L False 1) (\<lambda>(optionals, _).
        dec_bind (decode_of (QosFlowIdentifier_codec L)) (\<lambda>qos_flow_identifier.
        dec_bind (decode_of (QosFlowLevelQosParameters_codec L)) (\<lambda>qos_flow_level_qos_parameters.
        decode_extensions L optionals 0
          [arm 183 (decode_of (QosFlowMappingIndication_codec L)) flows_mapped_to_drb_item_qos_flow_mapping_indication_update,
           arm 364 (decode_of (TscTrafficCharacteristics_codec L)) flows_mapped_to_drb_item_tsc_traffic_characteristics_update]
          \<lparr>flows_mapped_to_drb_item_qos_flow_identifier = qos_flow_identifier,
           flows_mapped_to_drb_item_qos_flow_level_qos_parameters = qos_flow_level_qos_parameters,
           flows_mapped_to_drb_item_qos_flow_mapping_indication = None,
           flows_mapped_to_drb_item_tsc_traffic_characteristics = None\<rparr>))))
       (\<lambda>x. with_extensions L
               (opt_ie 183 Ignore (QosFlowMappingIndication_codec L) (flows_mapped_to_drb_item_qos_flow_mapping_indication x) @
                opt_ie 364 Ignore (TscTrafficCharacteristics_codec L) (flows_mapped_to_drb_item_tsc_traffic_characteristics x)) (\<lambda>num_ies ies.
               enc_seq (encode_sequence_header L False [num_ies \<noteq> 0] False)
               (enc_seq (encode_of (QosFlowIdentifier_codec L) (flows_mapped_to_drb_item_qos_flow_identifier x))
               (enc_seq (encode_of (QosFlowLevelQosParameters_codec L) (flows_mapped_to_drb_item_qos_flow_level_qos_parameters x))
               (encode_extensions L num_ies ies)))))"

definition FlowsMappedToDrbList_codec :: "per_lib \<Rightarrow> flows_mapped_to_drb_list per_codec" where
  "FlowsMappedToDrbList_codec L = named ''FlowsMappedToDrbList'' (non_empty (vec_codec L 1 64 (FlowsMappedToDrbItem_codec L)))"

definition DrbInformation_codec :: "per_lib \<Rightarrow> drb_information per_codec" where
  "DrbInformation_codec L =
     per_codec_impl ''DrbInformation''
       (dec_bind (decode_sequence_header L False 2) (\<lambda>(optionals, _).
        dec_bind (decode_of (QosFlowLevelQosParameters_codec L)) (\<lambda>drb_qos.
        dec_bind (decode_of (Snssai_codec L)) (\<lambda>snssai.
        dec_bind (decode_optional optionals 0 (decode_of (NotificationControl_codec L))) (\<lambda>notification_control.
        dec_bind (decode_of (FlowsMappedToDrbList_codec L)) (\<lambda>flows_mapped_to_drb_list.
        dec_bind (decode_extension_container L optionals 1) (\<lambda>_.
        dec_return
          \<lparr>drb_information_drb_qos = drb_qos, drb_information_snssai = snssai,
           drb_information_notification_control = notification_control,
           drb_information_flows_mapped_to_drb_list = flows_mapped_to_drb_list\<rparr>)))))))
       (\<lambda>x. enc_seq (encode_sequence_header L False [drb_information_notification_control x \<noteq> None, False] False)
             (enc_seq (encode_of (QosFlowLevelQosParameters_codec L) (drb_information_drb_qos x))
             (enc_seq (encode_of (Snssai_codec L) (drb_information_snssai x))
             (enc_seq (encode_optional (encode_of (NotificationControl_codec L)) (drb_information_notification_control x))
             (enc_seq (encode_of (FlowsMappedToDrbList_codec L) (drb_information_flows_mapped_to_drb_list x))
             enc_skip)))))"

definition QosInformation_codec :: "per_lib \<Rightarrow> qos_information per_codec" where
  "QosInformation_codec L =
     per_codec_impl ''QosInformation''
       (dec_bind (decode_choice_idx L 0 1 False) (\<lambda>(idx, extended).
        if extended then dec_fail (per_codec_error_new ''CHOICE additions not implemented'')
        else if idx = 0 then dec_bind (decode_of (EutranQos_codec L)) (\<lambda>x. dec_return (QosInformationEutranQos x))
        else if idx = 1 then decode_choice_extensions L
          [(164, dec_bind (decode_of (DrbInformation_codec L)) (\<lambda>x. dec_return (QosInformationDrbInformation x)))]
        else dec_fail (per_codec_error_new ''Unknown choice idx'')))
       (\<lambda>x. case x of
          QosInformationEutranQos y \<Rightarrow> enc_seq (encode_choice_idx L 0 1 False 0 False) (encode_of (EutranQos_codec L) y)
        | QosInformationDrbInformation y \<Rightarrow> enc_seq (encode_choice_idx L 0 1 False 1 False)
             (encode_choice_extension L 164 Ignore (encode_of (DrbInformation_codec L) y)))"

definition UpTransportLayerInformation_codec :: "per_lib \<Rightarrow> up_transport_layer_information per_codec" where
  "UpTransportLayerInformation_codec L =
     per_codec_impl ''UpTransportLayerInformation''
       (dec_bind (decode_choice_idx L 0 1 False) (\<lambda>(idx, extended).
        if extended then dec_fail (per_codec_error_new ''CHOICE additions not implemented'')
        else if idx = 0 then dec_bind (decode_of (GtpTunnel_codec L)) (\<lambda>x. dec_return (UpTransportLayerInformationGtpTunnel x))
        else if idx = 1 then decode_choice_extension L
        else dec_fail (per_codec_error_new ''Unknown choice idx'')))
       (\<lambda>x. case x of
          UpTransportLayerInformationGtpTunnel y \<Rightarrow> enc_seq (encode_choice_idx L 0 1 False 0 False) (encode_of (GtpTunnel_codec L) y))"

definition UlUpTnlInformationToBeSetupItem_codec :: "per_lib \<Rightarrow> ul_up_tnl_information_to_be_setup_item per_codec" where
  "UlUpTnlInformationToBeSetupItem_codec L =
     per_codec_impl ''UlUpTnlInformationToBeSetupItem''
       (dec_bind (decode_sequence_header L True 1) (\<lambda>(optionals, _).
        dec_bind (decode_of (UpTransportLayerInformation_codec L)) (\<lambda>ul_up_tnl_information.
        decode_extensions L optionals 0
          [arm 280 (decode_of (BhInfo_codec L)) ul_up_tnl_information_to_be_setup_item_bh_info_update]
          \<lparr>ul_up_tnl_information_to_be_setup_item_ul_up_tnl_information = ul_up_tnl_information,
           ul_up_tnl_information_to_be_setup_item_bh_info = None\<rparr>)))
       (\<lambda>x. with_extensions L
               (opt_ie 280 Ignore (BhInfo_codec L) (ul_up_tnl_information_to_be_setup_item_bh_info x)) (\<lambda>num_ies ies.
               enc_seq (encode_sequence_header L True [num_ies \<noteq> 0] False)
               (enc_seq (encode_of (UpTransportLayerInformation_codec L) (ul_up_tnl_information_to_be_setup_item_ul_up_tnl_information x))
               (encode_extensions L num_ies ies))))"

definition UlUpTnlInformationToBeSetupList_codec :: "per_lib \<Rightarrow> ul_up_tnl_information_to_be_setup_list per_codec" where
  "UlUpTnlInformationToBeSetupList_codec L =
     named ''UlUpTnlInformationToBeSetupList'' (non_empty (vec_codec L 1 2 (UlUpTnlInformationToBeSetupItem_codec L)))"

definition RlcMode_codec :: "per_lib \<Rightarrow> rlc_mode per_codec" where
  "RlcMode_codec L =
     enum_impl L ''RlcMode''
       [RlcModeRlcAm, RlcModeRlcUmBidirectional, RlcModeRlcUmUnidirectionalUl,
        RlcModeRlcUmUnidirectionalDl] 3 True"

definition UlUeConfiguration_codec :: "per_lib \<Rightarrow> ul_ue_configuration per_codec" where
  "UlUeConfiguration_codec L =
     enum_impl L ''UlUeConfiguration''
       [UlUeConfigurationNoData, UlUeConfigurationShared, UlUeConfigurationOnly] 2 True"

definition UlConfiguration_codec :: "per_lib \<Rightarrow> ul_configuration per_codec" where
  "UlConfiguration_codec L =
     per_codec_impl ''UlConfiguration''
       (dec_bind (decode_sequence_header L True 1) (\<lambda>(optionals, _).
        dec_bind (decode_of (UlUeConfiguration_codec L)) (\<lambda>ul_ue_configuration.
        dec_bind (decode_extension_container L optionals 0) (\<lambda>_.
        dec_return
          \<lparr>ul_configuration_ul_ue_configuration = ul_ue_configuration\<rparr>))))
       (\<lambda>x. enc_seq (encode_sequence_header L True [False] False)
             (enc_seq (encode_of (UlUeConfiguration_codec L) (ul_configuration_ul_ue_configuration x))
             enc_skip))"

definition DuplicationActivation_codec :: "per_lib \<Rightarrow> duplication_activation per_codec" where
  "DuplicationActivation_codec L =
     enum_impl L ''DuplicationActivation''
       [DuplicationActivationActive, DuplicationActivationInactive] 1 True"

definition DcBasedDuplicationConfigured_codec :: "per_lib \<Rightarrow> dc_based_duplication_configured per_codec" where
  "DcBasedDuplicationConfigured_codec L =
     enum_impl L ''DcBasedDuplicationConfigured''
       [DcBasedDuplicationConfiguredTrue] 0 True"

definition PdcpsnLength_codec :: "per_lib \<Rightarrow> pdcpsn_length per_codec" where
  "PdcpsnLength_codec L =
     enum_impl L ''PdcpsnLength''
       [PdcpsnLengthTwelveBits, PdcpsnLengthEighteenBits] 1 True"

definition AdditionalPdcpDuplicationTnlItem_codec :: "per_lib \<Rightarrow> additional_pdcp_duplication_tnl_item per_codec" where
  "AdditionalPdcpDuplicationTnlItem_codec L =
     per_codec_impl ''AdditionalPdcpDuplicationTnlItem''
       (dec_bind (decode_sequence_header L True 1) (\<lambda>(optionals, _).
        dec_bind (decode_of (UpTransportLayerInformation_codec L)) (\<lambda>additional_pdcp_duplication_up_tnl_information.
        decode_extensions L optionals 0
          [arm 280 (decode_of (BhInfo_codec L)) additional_pdcp_duplication_tnl_item_bh_info_update]
          \<lparr>additional_pdcp_duplication_tnl_item_additional_pdcp_duplication_up_tnl_information = additional_pdcp_duplication_up_tnl_information,
           additional_pdcp_duplication_tnl_item_bh_info = None\<rparr>)))
       (\<lambda>x. with_extensions L
               (opt_ie 280 Ignore (BhInfo_codec L) (additional_pdcp_duplication_tnl_item_bh_info x)) (\<lambda>num_ies ies.
               enc_seq (encode_sequence_header L True [num_ies \<noteq> 0] False)
               (enc_seq (encode_of (UpTransportLayerInformation_codec L) (additional_pdcp_duplication_tnl_item_additional_pdcp_duplication_up_tnl_information x))
               (encode_extensions L num_ies ies))))"

definition AdditionalPdcpDuplicationTnlList_codec :: "per_lib \<Rightarrow> additional_pdcp_duplication_tnl_list per_codec" where
  "AdditionalPdcpDuplicationTnlList_codec L =
     named ''AdditionalPdcpDuplicationTnlList'' (non_empty (vec_codec L 1 2 (AdditionalPdcpDuplicationTnlItem_codec L)))"

definition DuplicationState_codec :: "per_lib \<Rightarrow> duplication_state per_codec" where
  "DuplicationState_codec L =
     enum_impl L ''DuplicationState''
       [DuplicationStateActive, DuplicationStateInactive] 1 True"

definition RlcDuplicationStateItem_codec :: "per_lib \<Rightarrow> rlc_duplication_state_item per_codec" where
  "RlcDuplicationStateItem_codec L =
     per_codec_impl ''RlcDuplicationStateItem''
       (dec_bind (decode_sequence_header L True 1) (\<lambda>(optionals, _).
        dec_bind (decode_of (DuplicationState_codec L)) (\<lambda>duplication_state.
        dec_bind (decode_extension_container L optionals 0) (\<lambda>_.
        dec_return
          \<lparr>rlc_duplication_state_item_duplication_state = duplication_state\<rparr>))))
       (\<lambda>x. enc_seq (encode_sequence_header L True [False] False)
             (enc_seq (encode_of (DuplicationState_codec L) (rlc_duplication_state_item_duplication_state x))
             enc_skip))"

definition RlcDuplicationStateList_codec :: "per_lib \<Rightarrow> rlc_duplication_state_list per_codec" where
  "RlcDuplicationStateList_codec L =
     named ''RlcDuplicationStateList'' (non_empty (vec_codec L 1 3 (RlcDuplicationStateItem_codec L)))"

definition PrimaryPathIndication_codec :: "per_lib \<Rightarrow> primary_path_indication per_codec" where
  "PrimaryPathIndication_codec L =
     enum_impl L ''PrimaryPathIndication''
       [PrimaryPathIndicationTrue, PrimaryPathIndicationFalse] 1 True"

definition RlcDuplicationInformation_codec :: "per_lib \<Rightarrow> rlc_duplication_information per_codec" where
  "RlcDuplicationInformation_codec L =
     per_codec_impl ''RlcDuplicationInformation''
       (dec_bind (decode_sequence_header L False 2) (\<lambda>(optionals, _).
        dec_bind (decode_of (RlcDuplicationStateList_codec L)) (\<lambda>rlc_duplication_state_list.
        dec_bind (decode_optional optionals 0 (decode_of (PrimaryPathIndication_codec L))) (\<lambda>primary_path_indication.
        dec_bind (decode_extension_container L optionals 1) (\<lambda>_.
        dec_return
          \<lparr>rlc_duplication_information_rlc_duplication_state_list = rlc_duplication_state_list,
           rlc_duplication_information_primary_path_indication = primary_path_indication\<rparr>)))))
       (\<lambda>x. enc_seq (encode_sequence_header L False [rlc_duplication_information_primary_path_indication x \<noteq> None, False] False)
             (enc_seq (encode_of (RlcDuplicationStateList_codec L) (rlc_duplication_information_rlc_duplication_state_list x))
             (enc_seq (encode_optional (encode_of (PrimaryPathIndication_codec L)) (rlc_duplication_information_primary_path_indication x))
             enc_skip)))"

definition DrbsToBeSetupItem_decode_inner :: "per_lib \<Rightarrow> drbs_to_be_setup_item decoder" where
  "DrbsToBeSetupItem_decode_inner L =
     dec_bind (decode_sequence_header L True 3) (\<lambda>(optionals, _).
     dec_bind (decode_of (DrbId_codec L)) (\<lambda>drb_id.
     dec_bind (decode_of (QosInformation_codec L)) (\<lambda>qos_information.
     dec_bind (decode_of (UlUpTnlInformationToBeSetupList_codec L)) (\<lambda>ul_up_tnl_information_to_be_setup_list.
     dec_bind (decode_of (RlcMode_codec L)) (\<lambda>rlc_mode.
     dec_bind (decode_optional optionals 0 (decode_of (UlConfiguration_codec L))) (\<lambda>ul_configuration.
     dec_bind (decode_optional optionals 1 (decode_of (DuplicationActivation_codec L))) (\<lambda>duplication_activation.
     decode_extensions L optionals 2
       [arm 176 (decode_of (DcBasedDuplicationConfigured_codec L)) drbs_to_be_setup_item_dc_based_duplication_configured_update,
        arm 177 (decode_of (DuplicationActivation_codec L)) drbs_to_be_setup_item_dc_based_duplication_activation_update,
        arm 161 (decode_of (PdcpsnLength_codec L)) drbs_to_be_setup_item_dlpdcpsn_length_update,
        arm 192 (decode_of (PdcpsnLength_codec L)) drbs_to_be_setup_item_ulpdcpsn_length_update,
        arm 370 (decode_of (AdditionalPdcpDuplicationTnlList_codec L)) drbs_to_be_setup_item_additional_pdcp_duplication_tnl_list_update,
        arm 371 (decode_of (RlcDuplicationInformation_codec L)) drbs_to_be_setup_item_rlc_duplication_information_update]
       \<lparr>drbs_to_be_setup_item_drb_id = drb_id,
        drbs_to_be_setup_item_qos_information = qos_information,
        drbs_to_be_setup_item_ul_up_tnl_information_to_be_setup_list = ul_up_tnl_information_to_be_setup_list,
        drbs_to_be_setup_item_rlc_mode = rlc_mode,
        drbs_to_be_setup_item_ul_configuration = ul_configuration,
        drbs_to_be_setup_item_duplication_activation = duplication_activation,
        drbs_to_be_setup_item_dc_based_duplication_configured = None,
        drbs_to_be_setup_item_dc_based_duplication_activation = None,
        drbs_to_be_setup_item_dlpdcpsn_length = None, drbs_to_be_setup_item_ulpdcpsn_length = None,
        drbs_to_be_setup_item_additional_pdcp_duplication_tnl_list = None,
        drbs_to_be_setup_item_rlc_duplication_information = None\<rparr>)))))))"

definition DrbsToBeSetupItem_encode_inner :: "per_lib \<Rightarrow> drbs_to_be_setup_item \<Rightarrow> encoder" where
  "DrbsToBeSetupItem_encode_inner L x =
     with_extensions L
       (opt_ie 176 Reject (DcBasedDuplicationConfigured_codec L) (drbs_to_be_setup_item_dc_based_duplication_configured x) @
        opt_ie 177 Reject (DuplicationActivation_codec L) (drbs_to_be_setup_item_dc_based_duplication_activation x) @
        opt_ie 161 Ignore (PdcpsnLength_codec L) (drbs_to_be_setup_item_dlpdcpsn_length x) @
        opt_ie 192 Ignore (PdcpsnLength_codec L) (drbs_to_be_setup_item_ulpdcpsn_length x) @
        opt_ie 370 Ignore (AdditionalPdcpDuplicationTnlList_codec L) (drbs_to_be_setup_item_additional_pdcp_duplication_tnl_list x) @
        opt_ie 371 Ignore (RlcDuplicationInformation_codec L) (drbs_to_be_setup_item_rlc_duplication_information x)) (\<lambda>num_ies ies.
       enc_seq (encode_sequence_header L True [drbs_to_be_setup_item_ul_configuration x \<noteq> None, drbs_to_be_setup_item_duplication_activation x \<noteq> None, num_ies \<noteq> 0] False)
       (enc_seq (encode_of (DrbId_codec L) (drbs_to_be_setup_item_drb_id x))
       (enc_seq (encode_of (QosInformation_codec L) (drbs_to_be_setup_item_qos_information x))
       (enc_seq (encode_of (UlUpTnlInformationToBeSetupList_codec L) (drbs_to_be_setup_item_ul_up_tnl_information_to_be_setup_list x))
       (enc_seq (encode_of (RlcMode_codec L) (drbs_to_be_setup_item_rlc_mode x))
       (enc_seq (encode_optional (encode_of (UlConfiguration_codec L)) (drbs_to_be_setup_item_ul_configuration x))
       (enc_seq (encode_optional (encode_of (DuplicationActivation_codec L)) (drbs_to_be_setup_item_duplication_activation x))
       (encode_extensions L num_ies ies))))))))"

definition DrbsToBeSetupItem_codec :: "per_lib \<Rightarrow> drbs_to_be_setup_item per_codec" where
  "DrbsToBeSetupItem_codec L =
     per_codec_impl ''DrbsToBeSetupItem'' (DrbsToBeSetupItem_decode_inner L) (DrbsToBeSetupItem_encode_inner L)"

definition DrbsToBeSetupList_codec :: "per_lib \<Rightarrow> drbs_to_be_setup_list per_codec" where
  "DrbsToBeSetupList_codec L =
     named ''DrbsToBeSetupList'' (non_empty (ie_vec_codec L 1 64 34 Reject (DrbsToBeSetupItem_codec L)))"

definition InactivityMonitoringRequest_codec :: "per_lib \<Rightarrow> inactivity_monitoring_request per_codec" where
  "InactivityMonitoringRequest_codec L =
     enum_impl L ''InactivityMonitoringRequest''
       [InactivityMonitoringRequestTrue] 0 True"

definition MaskedImeisv_codec :: "per_lib \<Rightarrow> masked_imeisv per_codec" where
  "MaskedImeisv_codec L = named ''MaskedImeisv'' (bitstring_codec L 64)"

definition EutraCellId_codec :: "per_lib \<Rightarrow> eutra_cell_id per_codec" where
  "EutraCellId_codec L = named ''EutraCellId'' (bitstring_codec L 28)"

definition ExtendedEarfcn_codec :: "per_lib \<Rightarrow> extended_earfcn per_codec" where
  "ExtendedEarfcn_codec L = named ''ExtendedEarfcn'' (integer_codec L 0 262143 False)"

definition EutraTransmissionBandwidth_codec :: "per_lib \<Rightarrow> eutra_transmission_bandwidth per_codec" where
  "EutraTransmissionBandwidth_codec L =
     enum_impl L ''EutraTransmissionBandwidth''
       [EutraTransmissionBandwidthBw6, EutraTransmissionBandwidthBw15,
        EutraTransmissionBandwidthBw25, EutraTransmissionBandwidthBw50,
        EutraTransmissionBandwidthBw75, EutraTransmissionBandwidthBw100] 5 True"

definition EutraCoexFddInfo_codec :: "per_lib \<Rightarrow> eutra_coex_fdd_info per_codec" where
  "EutraCoexFddInfo_codec L =
     per_codec_impl ''EutraCoexFddInfo''
       (dec_bind (decode_sequence_header L True 3) (\<lambda>(optionals, _).
        dec_bind (decode_optional optionals 0 (decode_of (ExtendedEarfcn_codec L))) (\<lambda>ul_earfcn.
        dec_bind (decode_of (ExtendedEarfcn_codec L)) (\<lambda>dl_earfcn.
        dec_bind (decode_optional optionals 1 (decode_of (EutraTransmissionBandwidth_codec L))) (\<lambda>ul_transmission_bandwidth.
        dec_bind (decode_of (EutraTransmissionBandwidth_codec L)) (\<lambda>dl_transmission_bandwidth.
        dec_bind (decode_extension_container L optionals 2) (\<lambda>_.
        dec_return
          \<lparr>eutra_coex_fdd_info_ul_earfcn = ul_earfcn, eutra_coex_fdd_info_dl_earfcn = dl_earfcn,
           eutra_coex_fdd_info_ul_transmission_bandwidth = ul_transmission_bandwidth,
           eutra_coex_fdd_info_dl_transmission_bandwidth = dl_transmission_bandwidth\<rparr>)))))))
       (\<lambda>x. enc_seq (encode_sequence_header L True [eutra_coex_fdd_info_ul_earfcn x \<noteq> None, eutra_coex_fdd_info_ul_transmission_bandwidth x \<noteq> None, False] False)
             (enc_seq (encode_optional (encode_of (ExtendedEarfcn_codec L)) (eutra_coex_fdd_info_ul_earfcn x))
             (enc_seq (encode_of (ExtendedEarfcn_codec L) (eutra_coex_fdd_info_dl_earfcn x))
             (enc_seq (encode_optional (encode_of (EutraTransmissionBandwidth_codec L)) (eutra_coex_fdd_info_ul_transmission_bandwidth x))
             (enc_seq (encode_of (EutraTransmissionBandwidth_codec L) (eutra_coex_fdd_info_dl_transmission_bandwidth x))
             enc_skip)))))"

definition EutraSubframeAssignment_codec :: "per_lib \<Rightarrow> eutra_subframe_assignment per_codec" where
  "EutraSubframeAssignment_codec L =
     enum_impl L ''EutraSubframeAssignment''
       [EutraSubframeAssignmentSa0, EutraSubframeAssignmentSa1, EutraSubframeAssignmentSa2,
        EutraSubframeAssignmentSa3, EutraSubframeAssignmentSa4, EutraSubframeAssignmentSa5,
        EutraSubframeAssignmentSa6] 6 True"

definition EutraSpecialSubframePatterns_codec :: "per_lib \<Rightarrow> eutra_special_subframe_patterns per_codec" where
  "EutraSpecialSubframePatterns_codec L =
     enum_impl L ''EutraSpecialSubframePatterns''
       [EutraSpecialSubframePatternsSsp0, EutraSpecialSubframePatternsSsp1,
        EutraSpecialSubframePatternsSsp2, EutraSpecialSubframePatternsSsp3,
        EutraSpecialSubframePatternsSsp4, EutraSpecialSubframePatternsSsp5,
        EutraSpecialSubframePatternsSsp6, EutraSpecialSubframePatternsSsp7,
        EutraSpecialSubframePatternsSsp8, EutraSpecialSubframePatternsSsp9,
        EutraSpecialSubframePatternsSsp10] 10 True"

definition EutraCyclicPrefixDl_codec :: "per_lib \<Rightarrow> eutra_cyclic_prefix_dl per_codec" where
  "EutraCyclicPrefixDl_codec L =
     enum_impl L ''EutraCyclicPrefixDl''
       [EutraCyclicPrefixDlNormal, EutraCyclicPrefixDlExtended] 1 True"

definition EutraCyclicPrefixUl_codec :: "per_lib \<Rightarrow> eutra_cyclic_prefix_ul per_codec" where
  "EutraCyclicPrefixUl_codec L =
     enum_impl L ''EutraCyclicPrefixUl''
       [EutraCyclicPrefixUlNormal, EutraCyclicPrefixUlExtended] 1 True"

definition EutraSpecialSubframeInfo_codec :: "per_lib \<Rightarrow> eutra_special_subframe_info per_codec" where
  "EutraSpecialSubframeInfo_codec L =
     per_codec_impl ''EutraSpecialSubframeInfo''
       (dec_bind (decode_sequence_header L True 1) (\<lambda>(optionals, _).
        dec_bind (decode_of (EutraSpecialSubframePatterns_codec L)) (\<lambda>special_subframe_patterns.
        dec_bind (decode_of (EutraCyclicPrefixDl_codec L)) (\<lambda>cyclic_prefix_dl.
        dec_bind (decode_of (EutraCyclicPrefixUl_codec L)) (\<lambda>cyclic_prefix_ul.
        dec_bind (decode_extension_container L optionals 0) (\<lambda>_.
        dec_return
          \<lparr>eutra_special_subframe_info_special_subframe_patterns = special_subframe_patterns,
           eutra_special_subframe_info_cyclic_prefix_dl = cyclic_prefix_dl,
           eutra_special_subframe_info_cyclic_prefix_ul = cyclic_prefix_ul\<rparr>))))))
       (\<lambda>x. enc_seq (encode_sequence_header L True [False] False)
             (enc_seq (encode_of (EutraSpecialSubframePatterns_codec L) (eutra_special_subframe_info_special_subframe_patterns x))
             (enc_seq (encode_of (EutraCyclicPrefixDl_codec L) (eutra_special_subframe_info_cyclic_prefix_dl x))
             (enc_seq (encode_of (EutraCyclicPrefixUl_codec L) (eutra_special_subframe_info_cyclic_prefix_ul x))
             enc_skip))))"

definition EutraCoexTddInfo_codec :: "per_lib \<Rightarrow> eutra_coex_tdd_info per_codec" where
  "EutraCoexTddInfo_codec L =
     per_codec_impl ''EutraCoexTddInfo''
       (dec_bind (decode_sequence_header L True 1) (\<lambda>(optionals, _).
        dec_bind (decode_of (ExtendedEarfcn_codec L)) (\<lambda>earfcn.
        dec_bind (decode_of (EutraTransmissionBandwidth_codec L)) (\<lambda>transmission_bandwidth.
        dec_bind (decode_of (EutraSubframeAssignment_codec L)) (\<lambda>subframe_assignment.
        dec_bind (decode_of (EutraSpecialSubframeInfo_codec L)) (\<lambda>special_subframe_info.
        dec_bind (decode_extension_container L optionals 0) (\<lambda>_.
        dec_return
          \<lparr>eutra_coex_tdd_info_earfcn = earfcn,
           eutra_coex_tdd_info_transmission_bandwidth = transmission_bandwidth,
           eutra_coex_tdd_info_subframe_assignment = subframe_assignment,
           eutra_coex_tdd_info_special_subframe_info = special_subframe_info\<rparr>)))))))
       (\<lambda>x. enc_seq (encode_sequence_header L True [False] False)
             (enc_seq (encode_of (ExtendedEarfcn_codec L) (eutra_coex_tdd_info_earfcn x))
             (enc_seq (encode_of (EutraTransmissionBandwidth_codec L) (eutra_coex_tdd_info_transmission_bandwidth x))
             (enc_seq (encode_of (EutraSubframeAssignment_codec L) (eutra_coex_tdd_info_subframe_assignment x))
             (enc_seq (encode_of (EutraSpecialSubframeInfo_codec L) (eutra_coex_tdd_info_special_subframe_info x))
             enc_skip)))))"

definition EutraCoexModeInfo_codec :: "per_lib \<Rightarrow> eutra_coex_mode_info per_codec" where
  "EutraCoexModeInfo_codec L =
     per_codec_impl ''EutraCoexModeInfo''
       (dec_bind (decode_choice_idx L 0 1 True) (\<lambda>(idx, extended).
        if extended then dec_fail (per_codec_error_new ''CHOICE additions not implemented'')
        else if idx = 0 then dec_bind (decode_of (EutraCoexFddInfo_codec L)) (\<lambda>x. dec_return (EutraCoexModeInfoFdd x))
        else if idx = 1 then dec_bind (decode_of (EutraCoexTddInfo_codec L)) (\<lambda>x. dec_return (EutraCoexModeInfoTdd x))
        else dec_fail (per_codec_error_new ''Unknown choice idx'')))
       (\<lambda>x. case x of
          EutraCoexModeInfoFdd y \<Rightarrow> enc_seq (encode_choice_idx L 0 1 True 0 False) (encode_of (EutraCoexFddInfo_codec L) y)
        | EutraCoexModeInfoTdd y \<Rightarrow> enc_seq (encode_choice_idx L 0 1 True 1 False) (encode_of (EutraCoexTddInfo_codec L) y))"

definition EutraPrachConfiguration_codec :: "per_lib \<Rightarrow> eutra_prach_configuration per_codec" where
  "EutraPrachConfiguration_codec L =
     per_codec_impl ''EutraPrachConfiguration''
       (dec_bind (decode_sequence_header L True 2) (\<lambda>(optionals, _).
        dec_bind (decode_of (integer_codec L 0 837 False)) (\<lambda>root_sequence_index.
        dec_bind (decode_of (integer_codec L 0 15 False)) (\<lambda>zero_correlation_index.
        dec_bind (decode_of (bool_codec L)) (\<lambda>high_speed_flag.
        dec_bind (decode_of (integer_codec L 0 94 False)) (\<lambda>prach_freq_offset.
        dec_bind (decode_optional optionals 0 (decode_of (integer_codec L 0 63 False))) (\<lambda>prach_config_index.
        dec_bind (decode_extension_container L optionals 1) (\<lambda>_.
        dec_return
          \<lparr>eutra_prach_configuration_root_sequence_index = root_sequence_index,
           eutra_prach_configuration_zero_correlation_index = zero_correlation_index,
           eutra_prach_configuration_high_speed_flag = high_speed_flag,
           eutra_prach_configuration_prach_freq_offset = prach_freq_offset,
           eutra_prach_configuration_prach_config_index = prach_config_index\<rparr>))))))))
       (\<lambda>x. enc_seq (encode_sequence_header L True [eutra_prach_configuration_prach_config_index x \<noteq> None, False] False)
             (enc_seq (encode_of (integer_codec L 0 837 False) (eutra_prach_configuration_root_sequence_index x))
             (enc_seq (encode_of (integer_codec L 0 15 False) (eutra_prach_configuration_zero_correlation_index x))
             (enc_seq (encode_of (bool_codec L) (eutra_prach_configuration_high_speed_flag x))
             (enc_seq (encode_of (integer_codec L 0 94 False) (eutra_prach_configuration_prach_freq_offset x))
             (enc_seq (encode_optional (encode_of (integer_codec L 0 63 False)) (eutra_prach_configuration_prach_config_index x))
             enc_skip))))))"

definition IgnorePrachConfiguration_codec :: "per_lib \<Rightarrow> ignore_prach_configuration per_codec" where
  "IgnorePrachConfiguration_codec L =
     enum_impl L ''IgnorePrachConfiguration''
       [IgnorePrachConfigurationTrue] 0 True"

definition ResourceCoordinationEutraCellInfo_codec :: "per_lib \<Rightarrow> resource_coordination_eutra_cell_info per_codec" where
  "ResourceCoordinationEutraCellInfo_codec L =
     per_codec_impl ''ResourceCoordinationEutraCellInfo''
       (dec_bind (decode_sequence_header L True 1) (\<lambda>(optionals, _).
        dec_bind (decode_of (EutraCoexModeInfo_codec L)) (\<lambda>eutra_mode_info.
        dec_bind (decode_of (EutraPrachConfiguration_codec L)) (\<lambda>eutra_prach_configuration.
        decode_extensions L optionals 0
          [arm 233 (decode_of (IgnorePrachConfiguration_codec L)) resource_coordination_eutra_cell_info_ignore_prach_configuration_update]
          \<lparr>resource_coordination_eutra_cell_info_eutra_mode_info = eutra_mode_info,
           resource_coordination_eutra_cell_info_eutra_prach_configuration = eutra_prach_configuration,
           resource_coordination_eutra_cell_info_ignore_prach_configuration = None\<rparr>))))
       (\<lambda>x. with_extensions L
               (opt_ie 233 Reject (IgnorePrachConfiguration_codec L) (resource_coordination_eutra_cell_info_ignore_prach_configuration x)) (\<lambda>num_ies ies.
               enc_seq (encode_sequence_header L True [num_ies \<noteq> 0] False)
               (enc_seq (encode_of (EutraCoexModeInfo_codec L) (resource_coordination_eutra_cell_info_eutra_mode_info x))
               (enc_seq (encode_of (EutraPrachConfiguration_codec L) (resource_coordination_eutra_cell_info_eutra_prach_configuration x))
               (encode_extensions L num_ies ies)))))"

definition ResourceCoordinationTransferInformation_codec :: "per_lib \<Rightarrow> resource_coordination_transfer_information per_codec" where
  "ResourceCoordinationTransferInformation_codec L =
     per_codec_impl ''ResourceCoordinationTransferInformation''
       (dec_bind (decode_sequence_header L True 2) (\<lambda>(optionals, _).
        dec_bind (decode_of (EutraCellId_codec L)) (\<lambda>m_enb_cell_id.
        dec_bind (decode_optional optionals 0 (decode_of (ResourceCoordinationEutraCellInfo_codec L))) (\<lambda>resource_coordination_eutra_cell_info.
        dec_bind (decode_extension_container L optionals 1) (\<lambda>_.
        dec_return
          \<lparr>resource_coordination_transfer_information_m_enb_cell_id = m_enb_cell_id,
           resource_coordination_transfer_information_resource_coordination_eutra_cell_info = resource_coordination_eutra_cell_info\<rparr>)))))
       (\<lambda>x. enc_seq (encode_sequence_header L True [resource_coordination_transfer_information_resource_coordination_eutra_cell_info x \<noteq> None, False] False)
             (enc_seq (encode_of (EutraCellId_codec L) (resource_coordination_transfer_information_m_enb_cell_id x))
             (enc_seq (encode_optional (encode_of (ResourceCoordinationEutraCellInfo_codec L)) (resource_coordination_transfer_information_resource_coordination_eutra_cell_info x))
             enc_skip)))"

definition TraceId_codec :: "per_lib \<Rightarrow> trace_id per_codec" where
  "TraceId_codec L = named ''TraceId'' (array_codec L 8)"

definition InterfacesToTrace_codec :: "per_lib \<Rightarrow> interfaces_to_trace per_codec" where
  "InterfacesToTrace_codec L = named ''InterfacesToTrace'' (bitstring_codec L 8)"

definition TraceDepth_codec :: "per_lib \<Rightarrow> trace_depth per_codec" where
  "TraceDepth_codec L =
     enum_impl L ''TraceDepth''
       [TraceDepthMinimum, TraceDepthMedium, TraceDepthMaximum,
        TraceDepthMinimumWithoutVendorSpecificExtension,
        TraceDepthMediumWithoutVendorSpecificExtension,
        TraceDepthMaximumWithoutVendorSpecificExtension] 5 True"

definition MdtActivation_codec :: "per_lib \<Rightarrow> mdt_activation per_codec" where
  "MdtActivation_codec L =
     enum_impl L ''MdtActivation''
       [MdtActivationImmediateMdtOnly, MdtActivationImmediateMdtAndTrace] 1 True"

definition MeasurementsToActivate_codec :: "per_lib \<Rightarrow> measurements_to_activate per_codec" where
  "MeasurementsToActivate_codec L = named ''MeasurementsToActivate'' (bitstring_codec L 8)"

definition M2Configuration_codec :: "per_lib \<Rightarrow> m2_configuration per_codec" where
  "M2Configuration_codec L =
     enum_impl L ''M2Configuration''
       [M2ConfigurationTrue] 0 True"

definition M5period_codec :: "per_lib \<Rightarrow> m5period per_codec" where
  "M5period_codec L =
     enum_impl L ''M5period''
       [M5periodMs1024, M5periodMs2048, M5periodMs5120, M5periodMs10240, M5periodMin1] 4 True"

definition M5LinksToLog_codec :: "per_lib \<Rightarrow> m5_links_to_log per_codec" where
  "M5LinksToLog_codec L =
     enum_impl L ''M5LinksToLog''
       [M5LinksToLogUplink, M5LinksToLogDownlink, M5LinksToLogBothUplinkAndDownlink] 2 True"

definition M5Configuration_codec :: "per_lib \<Rightarrow> m5_configuration per_codec" where
  "M5Configuration_codec L =
     per_codec_impl ''M5Configuration''
       (dec_bind (decode_sequence_header L True 1) (\<lambda>(optionals, _).
        dec_bind (decode_of (M5period_codec L)) (\<lambda>m5period.
        dec_bind (decode_of (M5LinksToLog_codec L)) (\<lambda>m5_links_to_log.
        dec_bind (decode_extension_container L optionals 0) (\<lambda>_.
        dec_return
          \<lparr>m5_configuration_m5period = m5period, m5_configuration_m5_links_to_log = m5_links_to_log\<rparr>)))))
       (\<lambda>x. enc_seq (encode_sequence_header L True [False] False)
             (enc_seq (encode_of (M5period_codec L) (m5_configuration_m5period x))
             (enc_seq (encode_of (M5LinksToLog_codec L) (m5_configuration_m5_links_to_log x))
             enc_skip)))"

definition M6reportInterval_codec :: "per_lib \<Rightarrow> m6report_interval per_codec" where
  "M6reportInterval_codec L =
     enum_impl L ''M6reportInterval''
       [M6reportIntervalMs120, M6reportIntervalMs240, M6reportIntervalMs640, M6reportIntervalMs1024,
        M6reportIntervalMs2048, M6reportIntervalMs5120, M6reportIntervalMs10240,
        M6reportIntervalMs20480, M6reportIntervalMs40960, M6reportIntervalMin1,
        M6reportIntervalMin6, M6reportIntervalMin12, M6reportIntervalMin30] 12 True"

definition M6LinksToLog_codec :: "per_lib \<Rightarrow> m6_links_to_log per_codec" where
  "M6LinksToLog_codec L =
     enum_impl L ''M6LinksToLog''
       [M6LinksToLogUplink, M6LinksToLogDownlink, M6LinksToLogBothUplinkAndDownlink] 2 True"

definition M6Configuration_codec :: "per_lib \<Rightarrow> m6_configuration per_codec" where
  "M6Configuration_codec L =
     per_codec_impl ''M6Configuration''
       (dec_bind (decode_sequence_header L True 1) (\<lambda>(optionals, _).
        dec_bind (decode_of (M6reportInterval_codec L)) (\<lambda>m6report_interval.
        dec_bind (decode_of (M6LinksToLog_codec L)) (\<lambda>m6_links_to_log.
        dec_bind (decode_extension_container L optionals 0) (\<lambda>_.
        dec_return
          \<lparr>m6_configuration_m6report_interval = m6report_interval,
           m6_configuration_m6_links_to_log = m6_links_to_log\<rparr>)))))
       (\<lambda>x. enc_seq (encode_sequence_header L True [False] False)
             (enc_seq (encode_of (M6reportInterval_codec L) (m6_configuration_m6report_interval x))
             (enc_seq (encode_of (M6LinksToLog_codec L) (m6_configuration_m6_links_to_log x))
             enc_skip)))"

definition M7period_codec :: "per_lib \<Rightarrow> m7period per_codec" where
  "M7period_codec L = named ''M7period'' (integer_codec L 1 60 True)"

definition M7LinksToLog_codec :: "per_lib \<Rightarrow> m7_links_to_log per_codec" where
  "M7LinksToLog_codec L =
     enum_impl L ''M7LinksToLog''
       [M7LinksToLogDownlink] 0 True"

definition M7Configuration_codec :: "per_lib \<Rightarrow> m7_configuration per_codec" where
  "M7Configuration_codec L =
     per_codec_impl ''M7Configuration''
       (dec_bind (decode_sequence_header L True 1) (\<lambda>(optionals, _).
        dec_bind (decode_of (M7period_codec L)) (\<lambda>m7period.
        dec_bind (decode_of (M7LinksToLog_codec L)) (\<lambda>m7_links_to_log.
        dec_bind (decode_extension_container L optionals 0) (\<lambda>_.
        dec_return
          \<lparr>m7_configuration_m7period = m7period, m7_configuration_m7_links_to_log = m7_links_to_log\<rparr>)))))
       (\<lambda>x. enc_seq (encode_sequence_header L True [False] False)
             (enc_seq (encode_of (M7period_codec L) (m7_configuration_m7period x))
             (enc_seq (encode_of (M7LinksToLog_codec L) (m7_configuration_m7_links_to_log x))
             enc_skip)))"

definition MdtConfiguration_codec :: "per_lib \<Rightarrow> mdt_configuration per_codec" where
  "MdtConfiguration_codec L =
     per_codec_impl ''MdtConfiguration''
       (dec_bind (decode_sequence_header L True 5) (\<lambda>(optionals, _).
        dec_bind (decode_of (MdtActivation_codec L)) (\<lambda>mdt_activation.
        dec_bind (decode_of (MeasurementsToActivate_codec L)) (\<lambda>measurements_to_activate.
        dec_bind (decode_optional optionals 0 (decode_of (M2Configuration_codec L))) (\<lambda>m2_configuration.
        dec_bind (decode_optional optionals 1 (decode_of (M5Configuration_codec L))) (\<lambda>m5_configuration.
        dec_bind (decode_optional optionals 2 (decode_of (M6Configuration_codec L))) (\<lambda>m6_configuration.
        dec_bind (decode_optional optionals 3 (decode_of (M7Configuration_codec L))) (\<lambda>m7_configuration.
        dec_bind (decode_extension_container L optionals 4) (\<lambda>_.
        dec_return
          \<lparr>mdt_configuration_mdt_activation = mdt_activation,
           mdt_configuration_measurements_to_activate = measurements_to_activate,
           mdt_configuration_m2_configuration = m2_configuration,
           mdt_configuration_m5_configuration = m5_configuration,
           mdt_configuration_m6_configuration = m6_configuration,
           mdt_configuration_m7_configuration = m7_configuration\<rparr>)))))))))
       (\<lambda>x. enc_seq (encode_sequence_header L True [mdt_configuration_m2_configuration x \<noteq> None, mdt_configuration_m5_configuration x \<noteq> None, mdt_configuration_m6_configuration x \<noteq> None, mdt_configuration_m7_configuration x \<noteq> None, False] False)
             (enc_seq (encode_of (MdtActivation_codec L) (mdt_configuration_mdt_activation x))
             (enc_seq (encode_of (MeasurementsToActivate_codec L) (mdt_configuration_measurements_to_activate x))
             (enc_seq (encode_optional (encode_of (M2Configuration_codec L)) (mdt_configuration_m2_configuration x))
             (enc_seq (encode_optional (encode_of (M5Configuration_codec L)) (mdt_configuration_m5_configuration x))
             (enc_seq (encode_optional (encode_of (M6Configuration_codec L)) (mdt_configuration_m6_configuration x))
             (enc_seq (encode_optional (encode_of (M7Configuration_codec L)) (mdt_configuration_m7_configuration x))
             enc_skip)))))))"

definition UriAddress_codec :: "per_lib \<Rightarrow> uri_address per_codec" where
  "UriAddress_codec L = named ''UriAddress'' (open_visible_codec L)"

definition TraceActivation_codec :: "per_lib \<Rightarrow> trace_activation per_codec" where
  "TraceActivation_codec L =
     per_codec_impl ''TraceActivation''
       (dec_bind (decode_sequence_header L False 1) (\<lambda>(optionals, _).
        dec_bind (decode_of (TraceId_codec L)) (\<lambda>trace_id.
        dec_bind (decode_of (InterfacesToTrace_codec L)) (\<lambda>interfaces_to_trace.
        dec_bind (decode_of (TraceDepth_codec L)) (\<lambda>trace_depth.
        dec_bind (decode_of (TransportLayerAddress_codec L)) (\<lambda>trace_collection_entity_ip_address.
        decode_extensions L optionals 0
          [arm 381 (decode_of (MdtConfiguration_codec L)) trace_activation_mdt_configuration_update,
           arm 380 (decode_of (UriAddress_codec L)) trace_activation_trace_collection_entity_uri_update]
          \<lparr>trace_activation_trace_id = trace_id,
           trace_activation_interfaces_to_trace = interfaces_to_trace,
           trace_activation_trace_depth = trace_depth,
           trace_activation_trace_collection_entity_ip_address = trace_collection_entity_ip_address,
           trace_activation_mdt_configuration = None,
           trace_activation_trace_collection_entity_uri = None\<rparr>))))))
       (\<lambda>x. with_extensions L
               (opt_ie 381 Ignore (MdtConfiguration_codec L) (trace_activation_mdt_configuration x) @
                opt_ie 380 Ignore (UriAddress_codec L) (trace_activation_trace_collection_entity_uri x)) (\<lambda>num_ies ies.
               enc_seq (encode_sequence_header L False [num_ies \<noteq> 0] False)
               (enc_seq (encode_of (TraceId_codec L) (trace_activation_trace_id x))
               (enc_seq (encode_of (InterfacesToTrace_codec L) (trace_activation_interfaces_to_trace x))
               (enc_seq (encode_of (TraceDepth_codec L) (trace_activation_trace_depth x))
               (enc_seq (encode_of (TransportLayerAddress_codec L) (trace_activation_trace_collection_entity_ip_address x))
               (encode_extensions L num_ies ies)))))))"

definition CpTrafficType_codec :: "per_lib \<Rightarrow> cp_traffic_type per_codec" where
  "CpTrafficType_codec L = named ''CpTrafficType'' (integer_codec L 1 3 True)"

definition BhQosInformation_codec :: "per_lib \<Rightarrow> bh_qos_information per_codec" where
  "BhQosInformation_codec L =
     per_codec_impl ''BhQosInformation''
       (dec_bind (decode_choice_idx L 0 3 False) (\<lambda>(idx, extended).
        if extended then dec_fail (per_codec_error_new ''CHOICE additions not implemented'')
        else if idx = 0 then dec_bind (decode_of (QosFlowLevelQosParameters_codec L)) (\<lambda>x. dec_return (BhQosInformationBhrlcchQos x))
        else if idx = 1 then dec_bind (decode_of (EutranQos_codec L)) (\<lambda>x. dec_return (BhQosInformationEutranBhrlcchQos x))
        else if idx = 2 then dec_bind (decode_of (CpTrafficType_codec L)) (\<lambda>x. dec_return (BhQosInformationCpTrafficType x))
        else if idx = 3 then decode_choice_extension L
        else dec_fail (per_codec_error_new ''Unknown choice idx'')))
       (\<lambda>x. case x of
          BhQosInformationBhrlcchQos y \<Rightarrow> enc_seq (encode_choice_idx L 0 3 False 0 False) (encode_of (QosFlowLevelQosParameters_codec L) y)
        | BhQosInformationEutranBhrlcchQos y \<Rightarrow> enc_seq (encode_choice_idx L 0 3 False 1 False) (encode_of (EutranQos_codec L) y)
        | BhQosInformationCpTrafficType y \<Rightarrow> enc_seq (encode_choice_idx L 0 3 False 2 False) (encode_of (CpTrafficType_codec L) y))"

definition BapCtrlPduChannel_codec :: "per_lib \<Rightarrow> bap_ctrl_pdu_channel per_codec" where
  "BapCtrlPduChannel_codec L =
     enum_impl L ''BapCtrlPduChannel''
       [BapCtrlPduChannelTrue] 0 True"

definition MappingInformationIndex_codec :: "per_lib \<Rightarrow> mapping_information_index per_codec" where
  "MappingInformationIndex_codec L = named ''MappingInformationIndex'' (bitstring_codec L 26)"

definition IabtnlAddress_codec :: "per_lib \<Rightarrow> iabtnl_address per_codec" where
  "IabtnlAddress_codec L =
     per_codec_impl ''IabtnlAddress''
       (dec_bind (decode_choice_idx L 0 3 False) (\<lambda>(idx, extended).
        if extended then dec_fail (per_codec_error_new ''CHOICE additions not implemented'')
        else if idx = 0 then dec_bind (decode_of (bitstring_codec L 32)) (\<lambda>x. dec_return (IabtnlAddressIPv4Address x))
        else if idx = 1 then dec_bind (decode_of (bitstring_codec L 128)) (\<lambda>x. dec_return (IabtnlAddressIPv6Address x))
        else if idx = 2 then dec_bind (decode_of (bitstring_codec L 64)) (\<lambda>x. dec_return (IabtnlAddressIPv6Prefix x))
        else if idx = 3 then decode_choice_extension L
        else dec_fail (per_codec_error_new ''Unknown choice idx'')))
       (\<lambda>x. case x of
          IabtnlAddressIPv4Address y \<Rightarrow> enc_seq (encode_choice_idx L 0 3 False 0 False) (encode_of (bitstring_codec L 32) y)
        | IabtnlAddressIPv6Address y \<Rightarrow> enc_seq (encode_choice_idx L 0 3 False 1 False) (encode_of (bitstring_codec L 128) y)
        | IabtnlAddressIPv6Prefix y \<Rightarrow> enc_seq (encode_choice_idx L 0 3 False 2 False) (encode_of (bitstring_codec L 64) y))"

definition Dscp_codec :: "per_lib \<Rightarrow> dscp per_codec" where
  "Dscp_codec L = named ''Dscp'' (bitstring_codec L 6)"

definition DsInformationList_codec :: "per_lib \<Rightarrow> ds_information_list per_codec" where
  "DsInformationList_codec L = named ''DsInformationList'' (vec_codec L 0 64 (Dscp_codec L))"

definition IpHeaderInformation_codec :: "per_lib \<Rightarrow> ip_header_information per_codec" where
  "IpHeaderInformation_codec L =
     per_codec_impl ''IpHeaderInformation''
       (dec_bind (decode_sequence_header L True 3) (\<lambda>(optionals, _).
        dec_bind (decode_of (IabtnlAddress_codec L)) (\<lambda>destination_iabtnl_address.
        dec_bind (decode_optional optionals 0 (decode_of (DsInformationList_codec L))) (\<lambda>ds_information_list.
        dec_bind (decode_optional optionals 1 (decode_of (bitstring_codec L 20))) (\<lambda>i_pv_6_flow_label.
        dec_bind (decode_extension_container L optionals 2) (\<lambda>_.
        dec_return
          \<lparr>ip_header_information_destination_iabtnl_address = destination_iabtnl_address,
           ip_header_information_ds_information_list = ds_information_list,
           ip_header_information_i_pv_6_flow_label = i_pv_6_flow_label\<rparr>))))))
       (\<lambda>x. enc_seq (encode_sequence_header L True [ip_header_information_ds_information_list x \<noteq> None, ip_header_information_i_pv_6_flow_label x \<noteq> None, False] False)
             (enc_seq (encode_of (IabtnlAddress_codec L) (ip_header_information_destination_iabtnl_address x))
             (enc_seq (encode_optional (encode_of (DsInformationList_codec L)) (ip_header_information_ds_information_list x))
             (enc_seq (encode_optional (encode_of (bitstring_codec L 20)) (ip_header_information_i_pv_6_flow_label x))
             enc_skip))))"

definition IPtolayer2TrafficMappingInfoItem_codec :: "per_lib \<Rightarrow> i_ptolayer2_traffic_mapping_info_item per_codec" where
  "IPtolayer2TrafficMappingInfoItem_codec L =
     per_codec_impl ''IPtolayer2TrafficMappingInfoItem''
       (dec_bind (decode_sequence_header L True 1) (\<lambda>(optionals, _).
        dec_bind (decode_of (MappingInformationIndex_codec L)) (\<lambda>mapping_information_index.
        dec_bind (decode_of (IpHeaderInformation_codec L)) (\<lambda>ip_header_information.
        dec_bind (decode_of (BhInfo_codec L)) (\<lambda>bh_info.
        dec_bind (decode_extension_container L optionals 0) (\<lambda>_.
        dec_return
          \<lparr>i_ptolayer2_traffic_mapping_info_item_mapping_information_index = mapping_information_index,
           i_ptolayer2_traffic_mapping_info_item_ip_header_information = ip_header_information,
           i_ptolayer2_traffic_mapping_info_item_bh_info = bh_info\<rparr>))))))
       (\<lambda>x. enc_seq (encode_sequence_header L True [False] False)
             (enc_seq (encode_of (MappingInformationIndex_codec L) (i_ptolayer2_traffic_mapping_info_item_mapping_information_index x))
             (enc_seq (encode_of (IpHeaderInformation_codec L) (i_ptolayer2_traffic_mapping_info_item_ip_header_information x))
             (enc_seq (encode_of (BhInfo_codec L) (i_ptolayer2_traffic_mapping_info_item_bh_info x))
             enc_skip))))"

definition IPtolayer2TrafficMappingInfoList_codec :: "per_lib \<Rightarrow> i_ptolayer2_traffic_mapping_info_list per_codec" where
  "IPtolayer2TrafficMappingInfoList_codec L =
     named ''IPtolayer2TrafficMappingInfoList'' (non_empty (vec_codec L 1 67108864 (IPtolayer2TrafficMappingInfoItem_codec L)))"

definition MappingInformationtoRemove_codec :: "per_lib \<Rightarrow> mapping_informationto_remove per_codec" where
  "MappingInformationtoRemove_codec L =
     named ''MappingInformationtoRemove'' (non_empty (vec_codec L 1 67108864 (MappingInformationIndex_codec L)))"

definition IPtolayer2TrafficMappingInfo_codec :: "per_lib \<Rightarrow> i_ptolayer2_traffic_mapping_info per_codec" where
  "IPtolayer2TrafficMappingInfo_codec L =
     per_codec_impl ''IPtolayer2TrafficMappingInfo''
       (dec_bind (decode_sequence_header L True 3) (\<lambda>(optionals, _).
        dec_bind (decode_optional optionals 0 (decode_of (IPtolayer2TrafficMappingInfoList_codec L))) (\<lambda>i_ptolayer_2_traffic_mapping_info_to_add.
        dec_bind (decode_optional optionals 1 (decode_of (MappingInformationtoRemove_codec L))) (\<lambda>i_ptolayer_2_traffic_mapping_info_to_remove.
        dec_bind (decode_extension_container L optionals 2) (\<lambda>_.
        dec_return
          \<lparr>i_ptolayer2_traffic_mapping_info_i_ptolayer_2_traffic_mapping_info_to_add = i_ptolayer_2_traffic_mapping_info_to_add,
           i_ptolayer2_traffic_mapping_info_i_ptolayer_2_traffic_mapping_info_to_remove = i_ptolayer_2_traffic_mapping_info_to_remove\<rparr>)))))
       (\<lambda>x. enc_seq (encode_sequence_header L True [i_ptolayer2_traffic_mapping_info_i_ptolayer_2_traffic_mapping_info_to_add x \<noteq> None, i_ptolayer2_traffic_mapping_info_i_ptolayer_2_traffic_mapping_info_to_remove x \<noteq> None, False] False)
             (enc_seq (encode_optional (encode_of (IPtolayer2TrafficMappingInfoList_codec L)) (i_ptolayer2_traffic_mapping_info_i_ptolayer_2_traffic_mapping_info_to_add x))
             (enc_seq (encode_optional (encode_of (MappingInformationtoRemove_codec L)) (i_ptolayer2_traffic_mapping_info_i_ptolayer_2_traffic_mapping_info_to_remove x))
             enc_skip)))"

definition BaPlayerBhrlCchannelMappingInfoItem_codec :: "per_lib \<Rightarrow> ba_player_bhrl_cchannel_mapping_info_item per_codec" where
  "BaPlayerBhrlCchannelMappingInfoItem_codec L =
     per_codec_impl ''BaPlayerBhrlCchannelMappingInfoItem''
       (dec_bind (decode_sequence_header L True 5) (\<lambda>(optionals, _).
        dec_bind (decode_of (MappingInformationIndex_codec L)) (\<lambda>mapping_information_index.
        dec_bind (decode_optional optionals 0 (decode_of (BapAddress_codec L))) (\<lambda>prior_hop_bap_address.
        dec_bind (decode_optional optionals 1 (decode_of (BhrlcChannelId_codec L))) (\<lambda>ingressb_hrlc_channel_id.
        dec_bind (decode_optional optionals 2 (decode_of (BapAddress_codec L))) (\<lambda>next_hop_bap_address.
        dec_bind (decode_optional optionals 3 (decode_of (BhrlcChannelId_codec L))) (\<lambda>egressb_hrlc_channel_id.
        dec_bind (decode_extension_container L optionals 4) (\<lambda>_.
        dec_return
          \<lparr>ba_player_bhrl_cchannel_mapping_info_item_mapping_information_index = mapping_information_index,
           ba_player_bhrl_cchannel_mapping_info_item_prior_hop_bap_address = prior_hop_bap_address,
           ba_player_bhrl_cchannel_mapping_info_item_ingressb_hrlc_channel_id = ingressb_hrlc_channel_id,
           ba_player_bhrl_cchannel_mapping_info_item_next_hop_bap_address = next_hop_bap_address,
           ba_player_bhrl_cchannel_mapping_info_item_egressb_hrlc_channel_id = egressb_hrlc_channel_id\<rparr>))))))))
       (\<lambda>x. enc_seq (encode_sequence_header L True [ba_player_bhrl_cchannel_mapping_info_item_prior_hop_bap_address x \<noteq> None, ba_player_bhrl_cchannel_mapping_info_item_ingressb_hrlc_channel_id x \<noteq> None, ba_player_bhrl_cchannel_mapping_info_item_next_hop_bap_address x \<noteq> None, ba_player_bhrl_cchannel_mapping_info_item_egressb_hrlc_channel_id x \<noteq> None, False] False)
             (enc_seq (encode_of (MappingInformationIndex_codec L) (ba_player_bhrl_cchannel_mapping_info_item_mapping_information_index x))
             (enc_seq (encode_optional (encode_of (BapAddress_codec L)) (ba_player_bhrl_cchannel_mapping_info_item_prior_hop_bap_address x))
             (enc_seq (encode_optional (encode_of (BhrlcChannelId_codec L)) (ba_player_bhrl_cchannel_mapping_info_item_ingressb_hrlc_channel_id x))
             (enc_seq (encode_optional (encode_of (BapAddress_codec L)) (ba_player_bhrl_cchannel_mapping_info_item_next_hop_bap_address x))
             (enc_seq (encode_optional (encode_of (BhrlcChannelId_codec L)) (ba_player_bhrl_cchannel_mapping_info_item_egressb_hrlc_channel_id x))
             enc_skip))))))"

definition BaPlayerBhrlCchannelMappingInfoList_codec :: "per_lib \<Rightarrow> ba_player_bhrl_cchannel_mapping_info_list per_codec" where
  "BaPlayerBhrlCchannelMappingInfoList_codec L =
     named ''BaPlayerBhrlCchannelMappingInfoList'' (non_empty (vec_codec L 1 67108864 (BaPlayerBhrlCchannelMappingInfoItem_codec L)))"

definition BaPlayerBhrlCchannelMappingInfo_codec :: "per_lib \<Rightarrow> ba_player_bhrl_cchannel_mapping_info per_codec" where
  "BaPlayerBhrlCchannelMappingInfo_codec L =
     per_codec_impl ''BaPlayerBhrlCchannelMappingInfo''
       (dec_bind (decode_sequence_header L True 3) (\<lambda>(optionals, _).
        dec_bind (decode_optional optionals 0 (decode_of (BaPlayerBhrlCchannelMappingInfoList_codec L))) (\<lambda>ba_player_bhrl_cchannel_mapping_info_to_add.
        dec_bind (decode_optional optionals 1 (decode_of (MappingInformationtoRemove_codec L))) (\<lambda>ba_player_bhrl_cchannel_mapping_info_to_remove.
        dec_bind (decode_extension_container L optionals 2) (\<lambda>_.
        dec_return
          \<lparr>ba_player_bhrl_cchannel_mapping_info_ba_player_bhrl_cchannel_mapping_info_to_add = ba_player_bhrl_cchannel_mapping_info_to_add,
           ba_player_bhrl_cchannel_mapping_info_ba_player_bhrl_cchannel_mapping_info_to_remove = ba_player_bhrl_cchannel_mapping_info_to_remove\<rparr>)))))
       (\<lambda>x. enc_seq (encode_sequence_header L True [ba_player_bhrl_cchannel_mapping_info_ba_player_bhrl_cchannel_mapping_info_to_add x \<noteq> None, ba_player_bhrl_cchannel_mapping_info_ba_player_bhrl_cchannel_mapping_info_to_remove x \<noteq> None, False] False)
             (enc_seq (encode_optional (encode_of (BaPlayerBhrlCchannelMappingInfoList_codec L)) (ba_player_bhrl_cchannel_mapping_info_ba_player_bhrl_cchannel_mapping_info_to_add x))
             (enc_seq (encode_optional (encode_of (MappingInformationtoRemove_codec L)) (ba_player_bhrl_cchannel_mapping_info_ba_player_bhrl_cchannel_mapping_info_to_remove x))
             enc_skip)))"

definition TrafficMappingInfo_codec :: "per_lib \<Rightarrow> traffic_mapping_info per_codec" where
  "TrafficMappingInfo_codec L =
     per_codec_impl ''TrafficMappingInfo''
       (dec_bind (decode_choice_idx L 0 2 False) (\<lambda>(idx, extended).
        if extended then dec_fail (per_codec_error_new ''CHOICE additions not implemented'')
        else if idx = 0 then dec_bind (decode_of (IPtolayer2TrafficMappingInfo_codec L)) (\<lambda>x. dec_return (TrafficMappingInfoIPtolayer2TrafficMappingInfo x))
        else if idx = 1 then dec_bind (decode_of (BaPlayerBhrlCchannelMappingInfo_codec L)) (\<lambda>x. dec_return (TrafficMappingInfoBaPlayerBhrlCchannelMappingInfo x))
        else if idx = 2 then decode_choice_extension L
        else dec_fail (per_codec_error_new ''Unknown choice idx'')))
       (\<lambda>x. case x of
          TrafficMappingInfoIPtolayer2TrafficMappingInfo y \<Rightarrow> enc_seq (encode_choice_idx L 0 2 False 0 False) (encode_of (IPtolayer2TrafficMappingInfo_codec L) y)
        | TrafficMappingInfoBaPlayerBhrlCchannelMappingInfo y \<Rightarrow> enc_seq (encode_choice_idx L 0 2 False 1 False) (encode_of (BaPlayerBhrlCchannelMappingInfo_codec L) y))"

definition BhChannelsToBeSetupItem_codec :: "per_lib \<Rightarrow> bh_channels_to_be_setup_item per_codec" where
  "BhChannelsToBeSetupItem_codec L =
     per_codec_impl ''BhChannelsToBeSetupItem''
       (dec_bind (decode_sequence_header L False 3) (\<lambda>(optionals, _).
        dec_bind (decode_of (BhrlcChannelId_codec L)) (\<lambda>bhrlc_channel_id.
        dec_bind (decode_of (BhQosInformation_codec L)) (\<lambda>bh_qos_information.
        dec_bind (decode_of (RlcMode_codec L)) (\<lambda>rl_cmode.
        dec_bind (decode_optional optionals 0 (decode_of (BapCtrlPduChannel_codec L))) (\<lambda>bap_ctrl_pdu_channel.
        dec_bind (decode_optional optionals 1 (decode_of (TrafficMappingInfo_codec L))) (\<lambda>traffic_mapping_info.
        dec_bind (decode_extension_container L optionals 2) (\<lambda>_.
        dec_return
          \<lparr>bh_channels_to_be_setup_item_bhrlc_channel_id = bhrlc_channel_id,
           bh_channels_to_be_setup_item_bh_qos_information = bh_qos_information,
           bh_channels_to_be_setup_item_rl_cmode = rl_cmode,
           bh_channels_to_be_setup_item_bap_ctrl_pdu_channel = bap_ctrl_pdu_channel,
           bh_channels_to_be_setup_item_traffic_mapping_info = traffic_mapping_info\<rparr>))))))))
       (\<lambda>x. enc_seq (encode_sequence_header L False [bh_channels_to_be_setup_item_bap_ctrl_pdu_channel x \<noteq> None, bh_channels_to_be_setup_item_traffic_mapping_info x \<noteq> None, False] False)
             (enc_seq (encode_of (BhrlcChannelId_codec L) (bh_channels_to_be_setup_item_bhrlc_channel_id x))
             (enc_seq (encode_of (BhQosInformation_codec L) (bh_channels_to_be_setup_item_bh_qos_information x))
             (enc_seq (encode_of (RlcMode_codec L) (bh_channels_to_be_setup_item_rl_cmode x))
             (enc_seq (encode_optional (encode_of (BapCtrlPduChannel_codec L)) (bh_channels_to_be_setup_item_bap_ctrl_pdu_channel x))
             (enc_seq (encode_optional (encode_of (TrafficMappingInfo_codec L)) (bh_channels_to_be_setup_item_traffic_mapping_info x))
             enc_skip))))))"

definition BhChannelsToBeSetupList_codec :: "per_lib \<Rightarrow> bh_channels_to_be_setup_list per_codec" where
  "BhChannelsToBeSetupList_codec L =
     named ''BhChannelsToBeSetupList'' (non_empty (ie_vec_codec L 1 65536 259 Reject (BhChannelsToBeSetupItem_codec L)))"

definition VehicleUe_codec :: "per_lib \<Rightarrow> vehicle_ue per_codec" where
  "VehicleUe_codec L =
     enum_impl L ''VehicleUe''
       [VehicleUeAuthorized, VehicleUeNotAuthorized] 1 True"

definition PedestrianUe_codec :: "per_lib \<Rightarrow> pedestrian_ue per_codec" where
  "PedestrianUe_codec L =
     enum_impl L ''PedestrianUe''
       [PedestrianUeAuthorized, PedestrianUeNotAuthorized] 1 True"

definition NrV2xServicesAuthorized_codec :: "per_lib \<Rightarrow> nr_v2x_services_authorized per_codec" where
  "NrV2xServicesAuthorized_codec L =
     per_codec_impl ''NrV2xServicesAuthorized''
       (dec_bind (decode_sequence_header L False 3) (\<lambda>(optionals, _).
        dec_bind (decode_optional optionals 0 (decode_of (VehicleUe_codec L))) (\<lambda>vehicle_ue.
        dec_bind (decode_optional optionals 1 (decode_of (PedestrianUe_codec L))) (\<lambda>pedestrian_ue.
        dec_bind (decode_extension_container L optionals 2) (\<lambda>_.
        dec_return
          \<lparr>nr_v2x_services_authorized_vehicle_ue = vehicle_ue,
           nr_v2x_services_authorized_pedestrian_ue = pedestrian_ue\<rparr>)))))
       (\<lambda>x. enc_seq (encode_sequence_header L False [nr_v2x_services_authorized_vehicle_ue x \<noteq> None, nr_v2x_services_authorized_pedestrian_ue x \<noteq> None, False] False)
             (enc_seq (encode_optional (encode_of (VehicleUe_codec L)) (nr_v2x_services_authorized_vehicle_ue x))
             (enc_seq (encode_optional (encode_of (PedestrianUe_codec L)) (nr_v2x_services_authorized_pedestrian_ue x))
             enc_skip)))"

definition Ltev2xServicesAuthorized_codec :: "per_lib \<Rightarrow> ltev2x_services_authorized per_codec" where
  "Ltev2xServicesAuthorized_codec L =
     per_codec_impl ''Ltev2xServicesAuthorized''
       (dec_bind (decode_sequence_header L False 3) (\<lambda>(optionals, _).
        dec_bind (decode_optional optionals 0 (decode_of (VehicleUe_codec L))) (\<lambda>vehicle_ue.
        dec_bind (decode_optional optionals 1 (decode_of (PedestrianUe_codec L))) (\<lambda>pedestrian_ue.
        dec_bind (decode_extension_container L optionals 2) (\<lambda>_.
        dec_return
          \<lparr>ltev2x_services_authorized_vehicle_ue = vehicle_ue,
           ltev2x_services_authorized_pedestrian_ue = pedestrian_ue\<rparr>)))))
       (\<lambda>x. enc_seq (encode_sequence_header L False [ltev2x_services_authorized_vehicle_ue x \<noteq> None, ltev2x_services_authorized_pedestrian_ue x \<noteq> None, False] False)
             (enc_seq (encode_optional (encode_of (VehicleUe_codec L)) (ltev2x_services_authorized_vehicle_ue x))
             (enc_seq (encode_optional (encode_of (PedestrianUe_codec L)) (ltev2x_services_authorized_pedestrian_ue x))
             enc_skip)))"

definition NrUeSidelinkAggregateMaximumBitrate_codec :: "per_lib \<Rightarrow> nr_ue_sidelink_aggregate_maximum_bitrate per_codec" where
  "NrUeSidelinkAggregateMaximumBitrate_codec L =
     per_codec_impl ''NrUeSidelinkAggregateMaximumBitrate''
       (dec_bind (decode_sequence_header L False 1) (\<lambda>(optionals, _).
        dec_bind (decode_of (BitRate_codec L)) (\<lambda>ue_nr_sidelink_aggregate_maximum_bitrate.
        dec_bind (decode_extension_container L optionals 0) (\<lambda>_.
        dec_return
          \<lparr>nr_ue_sidelink_aggregate_maximum_bitrate_ue_nr_sidelink_aggregate_maximum_bitrate = ue_nr_sidelink_aggregate_maximum_bitrate\<rparr>))))
       (\<lambda>x. enc_seq (encode_sequence_header L False [False] False)
             (enc_seq (encode_of (BitRate_codec L) (nr_ue_sidelink_aggregate_maximum_bitrate_ue_nr_sidelink_aggregate_maximum_bitrate x))
             enc_skip))"

definition LteUeSidelinkAggregateMaximumBitrate_codec :: "per_lib \<Rightarrow> lte_ue_sidelink_aggregate_maximum_bitrate per_codec" where
  "LteUeSidelinkAggregateMaximumBitrate_codec L =
     per_codec_impl ''LteUeSidelinkAggregateMaximumBitrate''
       (dec_bind (decode_sequence_header L False 1) (\<lambda>(optionals, _).
        dec_bind (decode_of (BitRate_codec L)) (\<lambda>ue_lte_sidelink_aggregate_maximum_bitrate.
        dec_bind (decode_extension_container L optionals 0) (\<lambda>_.
        dec_return
          \<lparr>lte_ue_sidelink_aggregate_maximum_bitrate_ue_lte_sidelink_aggregate_maximum_bitrate = ue_lte_sidelink_aggregate_maximum_bitrate\<rparr>))))
       (\<lambda>x. enc_seq (encode_sequence_header L False [False] False)
             (enc_seq (encode_of (BitRate_codec L) (lte_ue_sidelink_aggregate_maximum_bitrate_ue_lte_sidelink_aggregate_maximum_bitrate x))
             enc_skip))"

definition SlDrbId_codec :: "per_lib \<Rightarrow> sl_drb_id per_codec" where
  "SlDrbId_codec L = named ''SlDrbId'' (integer_codec L 1 512 True)"

definition NonDynamicPqiDescriptor_codec :: "per_lib \<Rightarrow> non_dynamic_pqi_descriptor per_codec" where
  "NonDynamicPqiDescriptor_codec L =
     per_codec_impl ''NonDynamicPqiDescriptor''
       (dec_bind (decode_sequence_header L False 4) (\<lambda>(optionals, _).
        dec_bind (decode_of (integer_codec L 0 255 True)) (\<lambda>five_qi.
        dec_bind (decode_optional optionals 0 (decode_of (integer_codec L 1 8 True))) (\<lambda>qos_priority_level.
        dec_bind (decode_optional optionals 1 (decode_of (AveragingWindow_codec L))) (\<lambda>averaging_window.
        dec_bind (decode_optional optionals 2 (decode_of (MaxDataBurstVolume_codec L))) (\<lambda>max_data_burst_volume.
        dec_bind (decode_extension_container L optionals 3) (\<lambda>_.
        dec_return
          \<lparr>non_dynamic_pqi_descriptor_five_qi = five_qi,
           non_dynamic_pqi_descriptor_qos_priority_level = qos_priority_level,
           non_dynamic_pqi_descriptor_averaging_window = averaging_window,
           non_dynamic_pqi_descriptor_max_data_burst_volume = max_data_burst_volume\<rparr>)))))))
       (\<lambda>x. enc_seq (encode_sequence_header L False [non_dynamic_pqi_descriptor_qos_priority_level x \<noteq> None, non_dynamic_pqi_descriptor_averaging_window x \<noteq> None, non_dynamic_pqi_descriptor_max_data_burst_volume x \<noteq> None, False] False)
             (enc_seq (encode_of (integer_codec L 0 255 True) (non_dynamic_pqi_descriptor_five_qi x))
             (enc_seq (encode_optional (encode_of (integer_codec L 1 8 True)) (non_dynamic_pqi_descriptor_qos_priority_level x))
             (enc_seq (encode_optional (encode_of (AveragingWindow_codec L)) (non_dynamic_pqi_descriptor_averaging_window x))
             (enc_seq (encode_optional (encode_of (MaxDataBurstVolume_codec L)) (non_dynamic_pqi_descriptor_max_data_burst_volume x))
             enc_skip)))))"

definition ResourceType1_codec :: "per_lib \<Rightarrow> resource_type1 per_codec" where
  "ResourceType1_codec L =
     enum_impl L ''ResourceType1''
       [ResourceType1Gbr, ResourceType1NonGbr, ResourceType1DelayCriticalGrb] 2 True"

definition DynamicPqiDescriptor_codec :: "per_lib \<Rightarrow> dynamic_pqi_descriptor per_codec" where
  "DynamicPqiDescriptor_codec L =
     per_codec_impl ''DynamicPqiDescriptor''
       (dec_bind (decode_sequence_header L False 4) (\<lambda>(optionals, _).
        dec_bind (decode_optional optionals 0 (decode_of (ResourceType1_codec L))) (\<lambda>resource_type.
        dec_bind (decode_of (integer_codec L 1 8 True)) (\<lambda>qos_priority_level.
        dec_bind (decode_of (PacketDelayBudget_codec L)) (\<lambda>packet_delay_budget.
        dec_bind (decode_of (PacketErrorRate_codec L)) (\<lambda>packet_error_rate.
        dec_bind (decode_optional optionals 1 (decode_of (AveragingWindow_codec L))) (\<lambda>averaging_window.
        dec_bind (decode_optional optionals 2 (decode_of (MaxDataBurstVolume_codec L))) (\<lambda>max_data_burst_volume.
        dec_bind (decode_extension_container L optionals 3) (\<lambda>_.
        dec_return
          \<lparr>dynamic_pqi_descriptor_resource_type = resource_type,
           dynamic_pqi_descriptor_qos_priority_level = qos_priority_level,
           dynamic_pqi_descriptor_packet_delay_budget = packet_delay_budget,
           dynamic_pqi_descriptor_packet_error_rate = packet_error_rate,
           dynamic_pqi_descriptor_averaging_window = averaging_window,
           dynamic_pqi_descriptor_max_data_burst_volume = max_data_burst_volume\<rparr>)))))))))
       (\<lambda>x. enc_seq (encode_sequence_header L False [dynamic_pqi_descriptor_resource_type x \<noteq> None, dynamic_pqi_descriptor_averaging_window x \<noteq> None, dynamic_pqi_descriptor_max_data_burst_volume x \<noteq> None, False] False)
             (enc_seq (encode_optional (encode_of (ResourceType1_codec L)) (dynamic_pqi_descriptor_resource_type x))
             (enc_seq (encode_of (integer_codec L 1 8 True) (dynamic_pqi_descriptor_qos_priority_level x))
             (enc_seq (encode_of (PacketDelayBudget_codec L) (dynamic_pqi_descriptor_packet_delay_budget x))
             (enc_seq (encode_of (PacketErrorRate_codec L) (dynamic_pqi_descriptor_packet_error_rate x))
             (enc_seq (encode_optional (encode_of (AveragingWindow_codec L)) (dynamic_pqi_descriptor_averaging_window x))
             (enc_seq (encode_optional (encode_of (MaxDataBurstVolume_codec L)) (dynamic_pqi_descriptor_max_data_burst_volume x))
             enc_skip)))))))"

definition Pc5QosCharacteristics_codec :: "per_lib \<Rightarrow> pc5_qos_characteristics per_codec" where
  "Pc5QosCharacteristics_codec L =
     per_codec_impl ''Pc5QosCharacteristics''
       (dec_bind (decode_choice_idx L 0 2 False) (\<lambda>(idx, extended).
        if extended then dec_fail (per_codec_error_new ''CHOICE additions not implemented'')
        else if idx = 0 then dec_bind (decode_of (NonDynamicPqiDescriptor_codec L)) (\<lambda>x. dec_return (Pc5QosCharacteristicsNonDynamicPqi x))
        else if idx = 1 then dec_bind (decode_of (DynamicPqiDescriptor_codec L)) (\<lambda>x. dec_return (Pc5QosCharacteristicsDynamicPqi x))
        else if idx = 2 then decode_choice_extension L
        else dec_fail (per_codec_error_new ''Unknown choice idx'')))
       (\<lambda>x. case x of
          Pc5QosCharacteristicsNonDynamicPqi y \<Rightarrow> enc_seq (encode_choice_idx L 0 2 False 0 False) (encode_of (NonDynamicPqiDescriptor_codec L) y)
        | Pc5QosCharacteristicsDynamicPqi y \<Rightarrow> enc_seq (encode_choice_idx L 0 2 False 1 False) (encode_of (DynamicPqiDescriptor_codec L) y))"

definition Pc5FlowBitRates_codec :: "per_lib \<Rightarrow> pc5_flow_bit_rates per_codec" where
  "Pc5FlowBitRates_codec L =
     per_codec_impl ''Pc5FlowBitRates''
       (dec_bind (decode_sequence_header L True 1) (\<lambda>(optionals, _).
        dec_bind (decode_of (BitRate_codec L)) (\<lambda>guaranteed_flow_bit_rate.
        dec_bind (decode_of (BitRate_codec L)) (\<lambda>maximum_flow_bit_rate.
        dec_bind (decode_extension_container L optionals 0) (\<lambda>_.
        dec_return
          \<lparr>pc5_flow_bit_rates_guaranteed_flow_bit_rate = guaranteed_flow_bit_rate,
           pc5_flow_bit_rates_maximum_flow_bit_rate = maximum_flow_bit_rate\<rparr>)))))
       (\<lambda>x. enc_seq (encode_sequence_header L True [False] False)
             (enc_seq (encode_of (BitRate_codec L) (pc5_flow_bit_rates_guaranteed_flow_bit_rate x))
             (enc_seq (encode_of (BitRate_codec L) (pc5_flow_bit_rates_maximum_flow_bit_rate x))
             enc_skip)))"

definition Pc5QosParameters_codec :: "per_lib \<Rightarrow> pc5_qos_parameters per_codec" where
  "Pc5QosParameters_codec L =
     per_codec_impl ''Pc5QosParameters''
       (dec_bind (decode_sequence_header L True 2) (\<lambda>(optionals, _).
        dec_bind (decode_of (Pc5QosCharacteristics_codec L)) (\<lambda>pc5_qos_characteristics.
        dec_bind (decode_optional optionals 0 (decode_of (Pc5FlowBitRates_codec L))) (\<lambda>pc5_qos_flow_bit_rates.
        dec_bind (decode_extension_container L optionals 1) (\<lambda>_.
        dec_return
          \<lparr>pc5_qos_parameters_pc5_qos_characteristics = pc5_qos_characteristics,
           pc5_qos_parameters_pc5_qos_flow_bit_rates = pc5_qos_flow_bit_rates\<rparr>)))))
       (\<lambda>x. enc_seq (encode_sequence_header L True [pc5_qos_parameters_pc5_qos_flow_bit_rates x \<noteq> None, False] False)
             (enc_seq (encode_of (Pc5QosCharacteristics_codec L) (pc5_qos_parameters_pc5_qos_characteristics x))
             (enc_seq (encode_optional (encode_of (Pc5FlowBitRates_codec L)) (pc5_qos_parameters_pc5_qos_flow_bit_rates x))
             enc_skip)))"

definition Pc5QosFlowIdentifier_codec :: "per_lib \<Rightarrow> pc5_qos_flow_identifier per_codec" where
  "Pc5QosFlowIdentifier_codec L = named ''Pc5QosFlowIdentifier'' (integer_codec L 1 2048 False)"

definition FlowsMappedToSlDrbItem_codec :: "per_lib \<Rightarrow> flows_mapped_to_sl_drb_item per_codec" where
  "FlowsMappedToSlDrbItem_codec L =
     per_codec_impl ''FlowsMappedToSlDrbItem''
       (dec_bind (decode_sequence_header L True 1) (\<lambda>(optionals, _).
        dec_bind (decode_of (Pc5QosFlowIdentifier_codec L)) (\<lambda>pc_5_qos_flow_identifier.
        dec_bind (decode_extension_container L optionals 0) (\<lambda>_.
        dec_return
          \<lparr>flows_mapped_to_sl_drb_item_pc_5_qos_flow_identifier = pc_5_qos_flow_identifier\<rparr>))))
       (\<lambda>x. enc_seq (encode_sequence_header L True [False] False)
             (enc_seq (encode_of (Pc5QosFlowIdentifier_codec L) (flows_mapped_to_sl_drb_item_pc_5_qos_flow_identifier x))
             enc_skip))"

definition FlowsMappedToSlDrbList_codec :: "per_lib \<Rightarrow> flows_mapped_to_sl_drb_list per_codec" where
  "FlowsMappedToSlDrbList_codec L =
     named ''FlowsMappedToSlDrbList'' (non_empty (vec_codec L 1 2048 (FlowsMappedToSlDrbItem_codec L)))"

definition SlDrbInformation_codec :: "per_lib \<Rightarrow> sl_drb_information per_codec" where
  "SlDrbInformation_codec L =
     per_codec_impl ''SlDrbInformation''
       (dec_bind (decode_sequence_header L True 0) (\<lambda>(optionals, _).
        dec_bind (decode_of (Pc5QosParameters_codec L)) (\<lambda>sl_drb_qos.
        dec_bind (decode_of (FlowsMappedToSlDrbList_codec L)) (\<lambda>flows_mapped_to_sl_drb_list.
        dec_return
          \<lparr>sl_drb_information_sl_drb_qos = sl_drb_qos,
           sl_drb_information_flows_mapped_to_sl_drb_list = flows_mapped_to_sl_drb_list\<rparr>))))
       (\<lambda>x. enc_seq (encode_sequence_header L True [] False)
             (enc_seq (encode_of (Pc5QosParameters_codec L) (sl_drb_information_sl_drb_qos x))
             (enc_seq (encode_of (FlowsMappedToSlDrbList_codec L) (sl_drb_information_flows_mapped_to_sl_drb_list x))
             enc_skip)))"

definition SlDrbsToBeSetupItem_codec :: "per_lib \<Rightarrow> sl_drbs_to_be_setup_item per_codec" where
  "SlDrbsToBeSetupItem_codec L =
     per_codec_impl ''SlDrbsToBeSetupItem''
       (dec_bind (decode_sequence_header L False 1) (\<lambda>(optionals, _).
        dec_bind (decode_of (SlDrbId_codec L)) (\<lambda>sl_drb_id.
        dec_bind (decode_of (SlDrbInformation_codec L)) (\<lambda>sl_drb_information.
        dec_bind (decode_of (RlcMode_codec L)) (\<lambda>rlc_mode.
        dec_bind (decode_extension_container L optionals 0) (\<lambda>_.
        dec_return
          \<lparr>sl_drbs_to_be_setup_item_sl_drb_id = sl_drb_id,
           sl_drbs_to_be_setup_item_sl_drb_information = sl_drb_information,
           sl_drbs_to_be_setup_item_rlc_mode = rlc_mode\<rparr>))))))
       (\<lambda>x. enc_seq (encode_sequence_header L False [False] False)
             (enc_seq (encode_of (SlDrbId_codec L) (sl_drbs_to_be_setup_item_sl_drb_id x))
             (enc_seq (encode_of (SlDrbInformation_codec L) (sl_drbs_to_be_setup_item_sl_drb_information x))
             (enc_seq (encode_of (RlcMode_codec L) (sl_drbs_to_be_setup_item_rlc_mode x))
             enc_skip))))"

definition SlDrbsToBeSetupList_codec :: "per_lib \<Rightarrow> sl_drbs_to_be_setup_list per_codec" where
  "SlDrbsToBeSetupList_codec L =
     named ''SlDrbsToBeSetupList'' (non_empty (ie_vec_codec L 1 512 329 Reject (SlDrbsToBeSetupItem_codec L)))"

definition ChOtriggerInterDu_codec :: "per_lib \<Rightarrow> ch_otrigger_inter_du per_codec" where
  "ChOtriggerInterDu_codec L =
     enum_impl L ''ChOtriggerInterDu''
       [ChOtriggerInterDuChoInitiation, ChOtriggerInterDuChoReplace] 1 True"

definition ChoProbability_codec :: "per_lib \<Rightarrow> cho_probability per_codec" where
  "ChoProbability_codec L = named ''ChoProbability'' (integer_codec L 1 100 False)"

definition ConditionalInterDuMobilityInformation_codec :: "per_lib \<Rightarrow> conditional_inter_du_mobility_information per_codec" where
  "ConditionalInterDuMobilityInformation_codec L =
     per_codec_impl ''ConditionalInterDuMobilityInformation''
       (dec_bind (decode_sequence_header L True 2) (\<lambda>(optionals, _).
        dec_bind (decode_of (ChOtriggerInterDu_codec L)) (\<lambda>cho_trigger.
        dec_bind (decode_optional optionals 0 (decode_of (GnbDuUeF1apId_codec L))) (\<lambda>target_gnb_du_ue_f1apid.
        decode_extensions L optionals 1
          [arm 433 (decode_of (ChoProbability_codec L)) conditional_inter_du_mobility_information_estimated_arrival_probability_update]
          \<lparr>conditional_inter_du_mobility_information_cho_trigger = cho_trigger,
           conditional_inter_du_mobility_information_target_gnb_du_ue_f1apid = target_gnb_du_ue_f1apid,
           conditional_inter_du_mobility_information_estimated_arrival_probability = None\<rparr>))))
       (\<lambda>x. with_extensions L
               (opt_ie 433 Ignore (ChoProbability_codec L) (conditional_inter_du_mobility_information_estimated_arrival_probability x)) (\<lambda>num_ies ies.
               enc_seq (encode_sequence_header L True [conditional_inter_du_mobility_information_target_gnb_du_ue_f1apid x \<noteq> None, num_ies \<noteq> 0] False)
               (enc_seq (encode_of (ChOtriggerInterDu_codec L) (conditional_inter_du_mobility_information_cho_trigger x))
               (enc_seq (encode_optional (encode_of (GnbDuUeF1apId_codec L)) (conditional_inter_du_mobility_information_target_gnb_du_ue_f1apid x))
               (encode_extensions L num_ies ies)))))"

definition MdtPlmnList_codec :: "per_lib \<Rightarrow> mdt_plmn_list per_codec" where
  "MdtPlmnList_codec L = named ''MdtPlmnList'' (non_empty (vec_codec L 1 16 (PlmnIdentity_codec L)))"

definition F1cPathNsa_codec :: "per_lib \<Rightarrow> f1c_path_nsa per_codec" where
  "F1cPathNsa_codec L =
     enum_impl L ''F1cPathNsa''
       [F1cPathNsaLte, F1cPathNsaNr, F1cPathNsaBoth] 2 False"

definition F1cTransferPath_codec :: "per_lib \<Rightarrow> f1c_transfer_path per_codec" where
  "F1cTransferPath_codec L =
     per_codec_impl ''F1cTransferPath''
       (dec_bind (decode_sequence_header L True 1) (\<lambda>(optionals, _).
        dec_bind (decode_of (F1cPathNsa_codec L)) (\<lambda>f1c_path_nsa.
        dec_bind (decode_extension_container L optionals 0) (\<lambda>_.
        dec_return
          \<lparr>f1c_transfer_path_f1c_path_nsa = f1c_path_nsa\<rparr>))))
       (\<lambda>x. enc_seq (encode_sequence_header L True [False] False)
             (enc_seq (encode_of (F1cPathNsa_codec L) (f1c_transfer_path_f1c_path_nsa x))
             enc_skip))"

definition MeasGapConfig_codec :: "per_lib \<Rightarrow> meas_gap_config per_codec" where
  "MeasGapConfig_codec L = named ''MeasGapConfig'' (octetstring_codec L)"

definition DrxLongCycleStartOffset_codec :: "per_lib \<Rightarrow> drx_long_cycle_start_offset per_codec" where
  "DrxLongCycleStartOffset_codec L = named ''DrxLongCycleStartOffset'' (integer_codec L 0 10239 False)"

definition SelectedBandCombinationIndex_codec :: "per_lib \<Rightarrow> selected_band_combination_index per_codec" where
  "SelectedBandCombinationIndex_codec L = named ''SelectedBandCombinationIndex'' (octetstring_codec L)"

definition SelectedFeatureSetEntryIndex_codec :: "per_lib \<Rightarrow> selected_feature_set_entry_index per_codec" where
  "SelectedFeatureSetEntryIndex_codec L = named ''SelectedFeatureSetEntryIndex'' (octetstring_codec L)"

definition PhInfoScg_codec :: "per_lib \<Rightarrow> ph_info_scg per_codec" where
  "PhInfoScg_codec L = named ''PhInfoScg'' (octetstring_codec L)"

definition RequestedBandCombinationIndex_codec :: "per_lib \<Rightarrow> requested_band_combination_index per_codec" where
  "RequestedBandCombinationIndex_codec L = named ''RequestedBandCombinationIndex'' (octetstring_codec L)"

definition RequestedFeatureSetEntryIndex_codec :: "per_lib \<Rightarrow> requested_feature_set_entry_index per_codec" where
  "RequestedFeatureSetEntryIndex_codec L = named ''RequestedFeatureSetEntryIndex'' (octetstring_codec L)"

definition DrxConfig_codec :: "per_lib \<Rightarrow> drx_config per_codec" where
  "DrxConfig_codec L = named ''DrxConfig'' (octetstring_codec L)"

definition PdcchBlindDetectionScg_codec :: "per_lib \<Rightarrow> pdcch_blind_detection_scg per_codec" where
  "PdcchBlindDetectionScg_codec L = named ''PdcchBlindDetectionScg'' (octetstring_codec L)"

definition RequestedPdcchBlindDetectionScg_codec :: "per_lib \<Rightarrow> requested_pdcch_blind_detection_scg per_codec" where
  "RequestedPdcchBlindDetectionScg_codec L = named ''RequestedPdcchBlindDetectionScg'' (octetstring_codec L)"

definition PhInfoMcg_codec :: "per_lib \<Rightarrow> ph_info_mcg per_codec" where
  "PhInfoMcg_codec L = named ''PhInfoMcg'' (octetstring_codec L)"

definition MeasGapSharingConfig_codec :: "per_lib \<Rightarrow> meas_gap_sharing_config per_codec" where
  "MeasGapSharingConfig_codec L = named ''MeasGapSharingConfig'' (octetstring_codec L)"

definition SlPhyMacRlcConfig_codec :: "per_lib \<Rightarrow> sl_phy_mac_rlc_config per_codec" where
  "SlPhyMacRlcConfig_codec L = named ''SlPhyMacRlcConfig'' (octetstring_codec L)"

definition SlConfigDedicatedEutraInfo_codec :: "per_lib \<Rightarrow> sl_config_dedicated_eutra_info per_codec" where
  "SlConfigDedicatedEutraInfo_codec L = named ''SlConfigDedicatedEutraInfo'' (octetstring_codec L)"

definition RequestedPMaxFr2_codec :: "per_lib \<Rightarrow> requested_p_max_fr2 per_codec" where
  "RequestedPMaxFr2_codec L = named ''RequestedPMaxFr2'' (octetstring_codec L)"

definition DuToCuRrcInformation_decode_inner :: "per_lib \<Rightarrow> du_to_cu_rrc_information decoder" where
  "DuToCuRrcInformation_decode_inner L =
     dec_bind (decode_sequence_header L True 3) (\<lambda>(optionals, _).
     dec_bind (decode_of (CellGroupConfig_codec L)) (\<lambda>cell_group_config.
     dec_bind (decode_optional optionals 0 (decode_of (MeasGapConfig_codec L))) (\<lambda>meas_gap_config.
     dec_bind (decode_optional optionals 1 (decode_of (octetstring_codec L))) (\<lambda>requested_p_max_fr1.
     decode_extensions L optionals 2
       [arm 191 (decode_of (DrxLongCycleStartOffset_codec L)) du_to_cu_rrc_information_drx_long_cycle_start_offset_update,
        arm 193 (decode_of (SelectedBandCombinationIndex_codec L)) du_to_cu_rrc_information_selected_band_combination_index_update,
        arm 194 (decode_of (SelectedFeatureSetEntryIndex_codec L)) du_to_cu_rrc_information_selected_feature_set_entry_index_update,
        arm 208 (decode_of (PhInfoScg_codec L)) du_to_cu_rrc_information_ph_info_scg_update,
        arm 209 (decode_of (RequestedBandCombinationIndex_codec L)) du_to_cu_rrc_information_requested_band_combination_index_update,
        arm 210 (decode_of (RequestedFeatureSetEntryIndex_codec L)) du_to_cu_rrc_information_requested_feature_set_entry_index_update,
        arm 212 (decode_of (DrxConfig_codec L)) du_to_cu_rrc_information_drx_config_update,
        arm 235 (decode_of (PdcchBlindDetectionScg_codec L)) du_to_cu_rrc_information_pdcch_blind_detection_scg_update,
        arm 236 (decode_of (RequestedPdcchBlindDetectionScg_codec L)) du_to_cu_rrc_information_requested_pdcch_blind_detection_scg_update,
        arm 237 (decode_of (PhInfoMcg_codec L)) du_to_cu_rrc_information_ph_info_mcg_update,
        arm 238 (decode_of (MeasGapSharingConfig_codec L)) du_to_cu_rrc_information_meas_gap_sharing_config_update,
        arm 341 (decode_of (SlPhyMacRlcConfig_codec L)) du_to_cu_rrc_information_sl_phy_mac_rlc_config_update,
        arm 342 (decode_of (SlConfigDedicatedEutraInfo_codec L)) du_to_cu_rrc_information_sl_config_dedicated_eutra_info_update,
        arm 211 (decode_of (RequestedPMaxFr2_codec L)) du_to_cu_rrc_information_requested_p_max_fr2_update]
       \<lparr>du_to_cu_rrc_information_cell_group_config = cell_group_config,
        du_to_cu_rrc_information_meas_gap_config = meas_gap_config,
        du_to_cu_rrc_information_requested_p_max_fr1 = requested_p_max_fr1,
        du_to_cu_rrc_information_drx_long_cycle_start_offset = None,
        du_to_cu_rrc_information_selected_band_combination_index = None,
        du_to_cu_rrc_information_selected_feature_set_entry_index = None,
        du_to_cu_rrc_information_ph_info_scg = None,
        du_to_cu_rrc_information_requested_band_combination_index = None,
        du_to_cu_rrc_information_requested_feature_set_entry_index = None,
        du_to_cu_rrc_information_drx_config = None,
        du_to_cu_rrc_information_pdcch_blind_detection_scg = None,
        du_to_cu_rrc_information_requested_pdcch_blind_detection_scg = None,
        du_to_cu_rrc_information_ph_info_mcg = None,
        du_to_cu_rrc_information_meas_gap_sharing_config = None,
        du_to_cu_rrc_information_sl_phy_mac_rlc_config = None,
        du_to_cu_rrc_information_sl_config_dedicated_eutra_info = None,
        du_to_cu_rrc_information_requested_p_max_fr2 = None\<rparr>))))"

definition DuToCuRrcInformation_encode_inner :: "per_lib \<Rightarrow> du_to_cu_rrc_information \<Rightarrow> encoder" where
  "DuToCuRrcInformation_encode_inner L x =
     with_extensions L
       (opt_ie 191 Ignore (DrxLongCycleStartOffset_codec L) (du_to_cu_rrc_information_drx_long_cycle_start_offset x) @
        opt_ie 193 Ignore (SelectedBandCombinationIndex_codec L) (du_to_cu_rrc_information_selected_band_combination_index x) @
        opt_ie 194 Ignore (SelectedFeatureSetEntryIndex_codec L) (du_to_cu_rrc_information_selected_feature_set_entry_index x) @
        opt_ie 208 Ignore (PhInfoScg_codec L) (du_to_cu_rrc_information_ph_info_scg x) @
        opt_ie 209 Ignore (RequestedBandCombinationIndex_codec L) (du_to_cu_rrc_information_requested_band_combination_index x) @
        opt_ie 210 Ignore (RequestedFeatureSetEntryIndex_codec L) (du_to_cu_rrc_information_requested_feature_set_entry_index x) @
        opt_ie 212 Ignore (DrxConfig_codec L) (du_to_cu_rrc_information_drx_config x) @
        opt_ie 235 Ignore (PdcchBlindDetectionScg_codec L) (du_to_cu_rrc_information_pdcch_blind_detection_scg x) @
        opt_ie 236 Ignore (RequestedPdcchBlindDetectionScg_codec L) (du_to_cu_rrc_information_requested_pdcch_blind_detection_scg x) @
        opt_ie 237 Ignore (PhInfoMcg_codec L) (du_to_cu_rrc_information_ph_info_mcg x) @
        opt_ie 238 Ignore (MeasGapSharingConfig_codec L) (du_to_cu_rrc_information_meas_gap_sharing_config x) @
        opt_ie 341 Ignore (SlPhyMacRlcConfig_codec L) (du_to_cu_rrc_information_sl_phy_mac_rlc_config x) @
        opt_ie 342 Ignore (SlConfigDedicatedEutraInfo_codec L) (du_to_cu_rrc_information_sl_config_dedicated_eutra_info x) @
        opt_ie 211 Ignore (RequestedPMaxFr2_codec L) (du_to_cu_rrc_information_requested_p_max_fr2 x)) (\<lambda>num_ies ies.
       enc_seq (encode_sequence_header L True [du_to_cu_rrc_information_meas_gap_config x \<noteq> None, du_to_cu_rrc_information_requested_p_max_fr1 x \<noteq> None, num_ies \<noteq> 0] False)
       (enc_seq (encode_of (CellGroupConfig_codec L) (du_to_cu_rrc_information_cell_group_config x))
       (enc_seq (encode_optional (encode_of (MeasGapConfig_codec L)) (du_to_cu_rrc_information_meas_gap_config x))
       (enc_seq (encode_optional (encode_of (octetstring_codec L)) (du_to_cu_rrc_information_requested_p_max_fr1 x))
       (encode_extensions L num_ies ies)))))"

definition DuToCuRrcInformation_codec :: "per_lib \<Rightarrow> du_to_cu_rrc_information per_codec" where
  "DuToCuRrcInformation_codec L =
     per_codec_impl ''DuToCuRrcInformation'' (DuToCuRrcInformation_decode_inner L) (DuToCuRrcInformation_encode_inner L)"

definition FullConfiguration_codec :: "per_lib \<Rightarrow> full_configuration per_codec" where
  "FullConfiguration_codec L =
     enum_impl L ''FullConfiguration''
       [FullConfigurationFull] 0 True"

definition Lcid_codec :: "per_lib \<Rightarrow> lcid per_codec" where
  "Lcid_codec L = named ''Lcid'' (integer_codec L 1 32 True)"

definition DlUpTnlInformationToBeSetupItem_codec :: "per_lib \<Rightarrow> dl_up_tnl_information_to_be_setup_item per_codec" where
  "DlUpTnlInformationToBeSetupItem_codec L =
     per_codec_impl ''DlUpTnlInformationToBeSetupItem''
       (dec_bind (decode_sequence_header L True 1) (\<lambda>(optionals, _).
        dec_bind (decode_of (UpTransportLayerInformation_codec L)) (\<lambda>dl_up_tnl_information.
        dec_bind (decode_extension_container L optionals 0) (\<lambda>_.
        dec_return
          \<lparr>dl_up_tnl_information_to_be_setup_item_dl_up_tnl_information = dl_up_tnl_information\<rparr>))))
       (\<lambda>x. enc_seq (encode_sequence_header L True [False] False)
             (enc_seq (encode_of (UpTransportLayerInformation_codec L) (dl_up_tnl_information_to_be_setup_item_dl_up_tnl_information x))
             enc_skip))"

definition DlUpTnlInformationToBeSetupList_codec :: "per_lib \<Rightarrow> dl_up_tnl_information_to_be_setup_list per_codec" where
  "DlUpTnlInformationToBeSetupList_codec L =
     named ''DlUpTnlInformationToBeSetupList'' (non_empty (vec_codec L 1 2 (DlUpTnlInformationToBeSetupItem_codec L)))"

definition DrbsSetupItem_codec :: "per_lib \<Rightarrow> drbs_setup_item per_codec" where
  "DrbsSetupItem_codec L =
     per_codec_impl ''DrbsSetupItem''
       (dec_bind (decode_sequence_header L True 2) (\<lambda>(optionals, _).
        dec_bind (decode_of (DrbId_codec L)) (\<lambda>drb_id.
        dec_bind (decode_optional optionals 0 (decode_of (Lcid_codec L))) (\<lambda>lcid.
        dec_bind (decode_of (DlUpTnlInformationToBeSetupList_codec L)) (\<lambda>dl_up_tnl_information_to_be_setup_list.
        decode_extensions L optionals 1
          [arm 370 (decode_of (AdditionalPdcpDuplicationTnlList_codec L)) drbs_setup_item_additional_pdcp_duplication_tnl_list_update,
           arm 344 (decode_of (QosParaSetIndex_codec L)) drbs_setup_item_current_qos_para_set_index_update]
          \<lparr>drbs_setup_item_drb_id = drb_id, drbs_setup_item_lcid = lcid,
           drbs_setup_item_dl_up_tnl_information_to_be_setup_list = dl_up_tnl_information_to_be_setup_list,
           drbs_setup_item_additional_pdcp_duplication_tnl_list = None,
           drbs_setup_item_current_qos_para_set_index = None\<rparr>)))))
       (\<lambda>x. with_extensions L
               (opt_ie 370 Ignore (AdditionalPdcpDuplicationTnlList_codec L) (drbs_setup_item_additional_pdcp_duplication_tnl_list x) @
                opt_ie 344 Ignore (QosParaSetIndex_codec L) (drbs_setup_item_current_qos_para_set_index x)) (\<lambda>num_ies ies.
               enc_seq (encode_sequence_header L True [drbs_setup_item_lcid x \<noteq> None, num_ies \<noteq> 0] False)
               (enc_seq (encode_of (DrbId_codec L) (drbs_setup_item_drb_id x))
               (enc_seq (encode_optional (encode_of (Lcid_codec L)) (drbs_setup_item_lcid x))
               (enc_seq (encode_of (DlUpTnlInformationToBeSetupList_codec L) (drbs_setup_item_dl_up_tnl_information_to_be_setup_list x))
               (encode_extensions L num_ies ies))))))"

definition DrbsSetupList_codec :: "per_lib \<Rightarrow> drbs_setup_list per_codec" where
  "DrbsSetupList_codec L =
     named ''DrbsSetupList'' (non_empty (ie_vec_codec L 1 64 26 Ignore (DrbsSetupItem_codec L)))"

definition SrbsFailedToBeSetupItem_codec :: "per_lib \<Rightarrow> srbs_failed_to_be_setup_item per_codec" where
  "SrbsFailedToBeSetupItem_codec L =
     per_codec_impl ''SrbsFailedToBeSetupItem''
       (dec_bind (decode_sequence_header L True 2) (\<lambda>(optionals, _).
        dec_bind (decode_of (SrbId_codec L)) (\<lambda>srb_id.
        dec_bind (decode_optional optionals 0 (decode_of (Cause_codec L))) (\<lambda>cause.
        dec_bind (decode_extension_container L optionals 1) (\<lambda>_.
        dec_return
          \<lparr>srbs_failed_to_be_setup_item_srb_id = srb_id, srbs_failed_to_be_setup_item_cause = cause\<rparr>)))))
       (\<lambda>x. enc_seq (encode_sequence_header L True [srbs_failed_to_be_setup_item_cause x \<noteq> None, False] False)
             (enc_seq (encode_of (SrbId_codec L) (srbs_failed_to_be_setup_item_srb_id x))
             (enc_seq (encode_optional (encode_of (Cause_codec L)) (srbs_failed_to_be_setup_item_cause x))
             enc_skip)))"

definition SrbsFailedToBeSetupList_codec :: "per_lib \<Rightarrow> srbs_failed_to_be_setup_list per_codec" where
  "SrbsFailedToBeSetupList_codec L =
     named ''SrbsFailedToBeSetupList'' (non_empty (ie_vec_codec L 1 8 65 Ignore (SrbsFailedToBeSetupItem_codec L)))"

definition DrbsFailedToBeSetupItem_codec :: "per_lib \<Rightarrow> drbs_failed_to_be_setup_item per_codec" where
  "DrbsFailedToBeSetupItem_codec L =
     per_codec_impl ''DrbsFailedToBeSetupItem''
       (dec_bind (decode_sequence_header L True 2) (\<lambda>(optionals, _).
        dec_bind (decode_of (DrbId_codec L)) (\<lambda>drb_id.
        dec_bind (decode_optional optionals 0 (decode_of (Cause_codec L))) (\<lambda>cause.
        dec_bind (decode_extension_container L optionals 1) (\<lambda>_.
        dec_return
          \<lparr>drbs_failed_to_be_setup_item_drb_id = drb_id, drbs_failed_to_be_setup_item_cause = cause\<rparr>)))))
       (\<lambda>x. enc_seq (encode_sequence_header L True [drbs_failed_to_be_setup_item_cause x \<noteq> None, False] False)
             (enc_seq (encode_of (DrbId_codec L) (drbs_failed_to_be_setup_item_drb_id x))
             (enc_seq (encode_optional (encode_of (Cause_codec L)) (drbs_failed_to_be_setup_item_cause x))
             enc_skip)))"

definition DrbsFailedToBeSetupList_codec :: "per_lib \<Rightarrow> drbs_failed_to_be_setup_list per_codec" where
  "DrbsFailedToBeSetupList_codec L =
     named ''DrbsFailedToBeSetupList'' (non_empty (ie_vec_codec L 1 64 14 Ignore (DrbsFailedToBeSetupItem_codec L)))"

definition SCellFailedtoSetupItem_codec :: "per_lib \<Rightarrow> s_cell_failedto_setup_item per_codec" where
  "SCellFailedtoSetupItem_codec L =
     per_codec_impl ''SCellFailedtoSetupItem''
       (dec_bind (decode_sequence_header L True 2) (\<lambda>(optionals, _).
        dec_bind (decode_of (NrCgi_codec L)) (\<lambda>s_cell_id.
        dec_bind (decode_optional optionals 0 (decode_of (Cause_codec L))) (\<lambda>cause.
        dec_bind (decode_extension_container L optionals 1) (\<lambda>_.
        dec_return
          \<lparr>s_cell_failedto_setup_item_s_cell_id = s_cell_id,
           s_cell_failedto_setup_item_cause = cause\<rparr>)))))
       (\<lambda>x. enc_seq (encode_sequence_header L True [s_cell_failedto_setup_item_cause x \<noteq> None, False] False)
             (enc_seq (encode_of (NrCgi_codec L) (s_cell_failedto_setup_item_s_cell_id x))
             (enc_seq (encode_optional (encode_of (Cause_codec L)) (s_cell_failedto_setup_item_cause x))
             enc_skip)))"

definition SCellFailedtoSetupList_codec :: "per_lib \<Rightarrow> s_cell_failedto_setup_list per_codec" where
  "SCellFailedtoSetupList_codec L =
     named ''SCellFailedtoSetupList'' (non_empty (ie_vec_codec L 1 32 84 Ignore (SCellFailedtoSetupItem_codec L)))"

definition InactivityMonitoringResponse_codec :: "per_lib \<Rightarrow> inactivity_monitoring_response per_codec" where
  "InactivityMonitoringResponse_codec L =
     enum_impl L ''InactivityMonitoringResponse''
       [InactivityMonitoringResponseNotSupported] 0 True"

definition SrbsSetupItem_codec :: "per_lib \<Rightarrow> srbs_setup_item per_codec" where
  "SrbsSetupItem_codec L =
     per_codec_impl ''SrbsSetupItem''
       (dec_bind (decode_sequence_header L True 1) (\<lambda>(optionals, _).
        dec_bind (decode_of (SrbId_codec L)) (\<lambda>srb_id.
        dec_bind (decode_of (Lcid_codec L)) (\<lambda>lcid.
        dec_bind (decode_extension_container L optionals 0) (\<lambda>_.
        dec_return
          \<lparr>srbs_setup_item_srb_id = srb_id, srbs_setup_item_lcid = lcid\<rparr>)))))
       (\<lambda>x. enc_seq (encode_sequence_header L True [False] False)
             (enc_seq (encode_of (SrbId_codec L) (srbs_setup_item_srb_id x))
             (enc_seq (encode_of (Lcid_codec L) (srbs_setup_item_lcid x))
             enc_skip)))"

definition SrbsSetupList_codec :: "per_lib \<Rightarrow> srbs_setup_list per_codec" where
  "SrbsSetupList_codec L =
     named ''SrbsSetupList'' (non_empty (ie_vec_codec L 1 8 203 Ignore (SrbsSetupItem_codec L)))"

definition BhChannelsSetupItem_codec :: "per_lib \<Rightarrow> bh_channels_setup_item per_codec" where
  "BhChannelsSetupItem_codec L =
     per_codec_impl ''BhChannelsSetupItem''
       (dec_bind (decode_sequence_header L False 1) (\<lambda>(optionals, _).
        dec_bind (decode_of (BhrlcChannelId_codec L)) (\<lambda>bhrlc_channel_id.
        dec_bind (decode_extension_container L optionals 0) (\<lambda>_.
        dec_return
          \<lparr>bh_channels_setup_item_bhrlc_channel_id = bhrlc_channel_id\<rparr>))))
       (\<lambda>x. enc_seq (encode_sequence_header L False [False] False)
             (enc_seq (encode_of (BhrlcChannelId_codec L) (bh_channels_setup_item_bhrlc_channel_id x))
             enc_skip))"

definition BhChannelsSetupList_codec :: "per_lib \<Rightarrow> bh_channels_setup_list per_codec" where
  "BhChannelsSetupList_codec L =
     named ''BhChannelsSetupList'' (non_empty (ie_vec_codec L 1 65536 261 Ignore (BhChannelsSetupItem_codec L)))"

definition BhChannelsFailedToBeSetupItem_codec :: "per_lib \<Rightarrow> bh_channels_failed_to_be_setup_item per_codec" where
  "BhChannelsFailedToBeSetupItem_codec L =
     per_codec_impl ''BhChannelsFailedToBeSetupItem''
       (dec_bind (decode_sequence_header L False 2) (\<lambda>(optionals, _).
        dec_bind (decode_of (BhrlcChannelId_codec L)) (\<lambda>bhrlc_channel_id.
        dec_bind (decode_optional optionals 0 (decode_of (Cause_codec L))) (\<lambda>cause.
        dec_bind (decode_extension_container L optionals 1) (\<lambda>_.
        dec_return
          \<lparr>bh_channels_failed_to_be_setup_item_bhrlc_channel_id = bhrlc_channel_id,
           bh_channels_failed_to_be_setup_item_cause = cause\<rparr>)))))
       (\<lambda>x. enc_seq (encode_sequence_header L False [bh_channels_failed_to_be_setup_item_cause x \<noteq> None, False] False)
             (enc_seq (encode_of (BhrlcChannelId_codec L) (bh_channels_failed_to_be_setup_item_bhrlc_channel_id x))
             (enc_seq (encode_optional (encode_of (Cause_codec L)) (bh_channels_failed_to_be_setup_item_cause x))
             enc_skip)))"

definition BhChannelsFailedToBeSetupList_codec :: "per_lib \<Rightarrow> bh_channels_failed_to_be_setup_list per_codec" where
  "BhChannelsFailedToBeSetupList_codec L =
     named ''BhChannelsFailedToBeSetupList'' (non_empty (ie_vec_codec L 1 65536 278 Ignore (BhChannelsFailedToBeSetupItem_codec L)))"

definition SlDrbsSetupItem_codec :: "per_lib \<Rightarrow> sl_drbs_setup_item per_codec" where
  "SlDrbsSetupItem_codec L =
     per_codec_impl ''SlDrbsSetupItem''
       (dec_bind (decode_sequence_header L False 1) (\<lambda>(optionals, _).
        dec_bind (decode_of (SlDrbId_codec L)) (\<lambda>sl_drb_id.
        dec_bind (decode_extension_container L optionals 0) (\<lambda>_.
        dec_return
          \<lparr>sl_drbs_setup_item_sl_drb_id = sl_drb_id\<rparr>))))
       (\<lambda>x. enc_seq (encode_sequence_header L False [False] False)
             (enc_seq (encode_of (SlDrbId_codec L) (sl_drbs_setup_item_sl_drb_id x))
             enc_skip))"

definition SlDrbsSetupList_codec :: "per_lib \<Rightarrow> sl_drbs_setup_list per_codec" where
  "SlDrbsSetupList_codec L =
     named ''SlDrbsSetupList'' (non_empty (ie_vec_codec L 1 512 323 Ignore (SlDrbsSetupItem_codec L)))"

definition SlDrbsFailedToBeSetupItem_codec :: "per_lib \<Rightarrow> sl_drbs_failed_to_be_setup_item per_codec" where
  "SlDrbsFailedToBeSetupItem_codec L =
     per_codec_impl ''SlDrbsFailedToBeSetupItem''
       (dec_bind (decode_sequence_header L False 2) (\<lambda>(optionals, _).
        dec_bind (decode_of (SlDrbId_codec L)) (\<lambda>sl_drb_id.
        dec_bind (decode_optional optionals 0 (decode_of (Cause_codec L))) (\<lambda>cause.
        dec_bind (decode_extension_container L optionals 1) (\<lambda>_.
        dec_return
          \<lparr>sl_drbs_failed_to_be_setup_item_sl_drb_id = sl_drb_id,
           sl_drbs_failed_to_be_setup_item_cause = cause\<rparr>)))))
       (\<lambda>x. enc_seq (encode_sequence_header L False [sl_drbs_failed_to_be_setup_item_cause x \<noteq> None, False] False)
             (enc_seq (encode_of (SlDrbId_codec L) (sl_drbs_failed_to_be_setup_item_sl_drb_id x))
             (enc_seq (encode_optional (encode_of (Cause_codec L)) (sl_drbs_failed_to_be_setup_item_cause x))
             enc_skip)))"

definition SlDrbsFailedToBeSetupList_codec :: "per_lib \<Rightarrow> sl_drbs_failed_to_be_setup_list per_codec" where
  "SlDrbsFailedToBeSetupList_codec L =
     named ''SlDrbsFailedToBeSetupList'' (non_empty (ie_vec_codec L 1 512 315 Ignore (SlDrbsFailedToBeSetupItem_codec L)))"

section \<open>Well-formed values\<close>

definition wf_serv_cell_index :: "serv_cell_index \<Rightarrow> bool" where
  "wf_serv_cell_index x \<longleftrightarrow>
     in_range 0 31 x"

definition wf_cg_config_info :: "cg_config_info \<Rightarrow> bool" where
  "wf_cg_config_info x \<longleftrightarrow>
     wf_container x"

definition wf_ue_capability_rat_container_list :: "ue_capability_rat_container_list \<Rightarrow> bool" where
  "wf_ue_capability_rat_container_list x \<longleftrightarrow>
     wf_container x"

definition wf_meas_config :: "meas_config \<Rightarrow> bool" where
  "wf_meas_config x \<longleftrightarrow>
     wf_container x"

definition wf_handover_preparation_information :: "handover_preparation_information \<Rightarrow> bool" where
  "wf_handover_preparation_information x \<longleftrightarrow>
     wf_container x"

definition wf_cell_group_config :: "cell_group_config \<Rightarrow> bool" where
  "wf_cell_group_config x \<longleftrightarrow>
     wf_container x"

definition wf_measurement_timing_configuration :: "measurement_timing_configuration \<Rightarrow> bool" where
  "wf_measurement_timing_configuration x \<longleftrightarrow>
     wf_container x"

definition wf_ue_assistance_information :: "ue_assistance_information \<Rightarrow> bool" where
  "wf_ue_assistance_information x \<longleftrightarrow>
     wf_container x"

definition wf_cg_config :: "cg_config \<Rightarrow> bool" where
  "wf_cg_config x \<longleftrightarrow>
     wf_container x"

definition wf_ue_assistance_information_eutra :: "ue_assistance_information_eutra \<Rightarrow> bool" where
  "wf_ue_assistance_information_eutra x \<longleftrightarrow>
     wf_container x"

definition wf_cu_to_du_rrc_information :: "cu_to_du_rrc_information \<Rightarrow> bool" where
  "wf_cu_to_du_rrc_information x \<longleftrightarrow>
     pred_option wf_cg_config_info (cu_to_du_rrc_information_cg_config_info x) \<and>
     pred_option wf_ue_capability_rat_container_list (cu_to_du_rrc_information_ue_capability_rat_container_list x) \<and>
     pred_option wf_meas_config (cu_to_du_rrc_information_meas_config x) \<and>
     pred_option wf_handover_preparation_information (cu_to_du_rrc_information_handover_preparation_information x) \<and>
     pred_option wf_cell_group_config (cu_to_du_rrc_information_cell_group_config x) \<and>
     pred_option wf_measurement_timing_configuration (cu_to_du_rrc_information_measurement_timing_configuration x) \<and>
     pred_option wf_ue_assistance_information (cu_to_du_rrc_information_ue_assistance_information x) \<and>
     pred_option wf_cg_config (cu_to_du_rrc_information_cg_config x) \<and>
     pred_option wf_ue_assistance_information_eutra (cu_to_du_rrc_information_ue_assistance_information_eutra x)"

definition wf_candidate_sp_cell_item :: "candidate_sp_cell_item \<Rightarrow> bool" where
  "wf_candidate_sp_cell_item x \<longleftrightarrow>
     wf_nr_cgi (candidate_sp_cell_item_candidate_sp_cell_id x)"

definition wf_candidate_sp_cell_list :: "per_lib \<Rightarrow> candidate_sp_cell_list \<Rightarrow> bool" where
  "wf_candidate_sp_cell_list L x \<longleftrightarrow>
     wf_list 1 64 (open_ok wf_candidate_sp_cell_item (CandidateSpCellItem_codec L)) x"

definition wf_short_drx_cycle_timer :: "short_drx_cycle_timer \<Rightarrow> bool" where
  "wf_short_drx_cycle_timer x \<longleftrightarrow>
     in_range 1 16 x"

definition wf_drx_cycle :: "drx_cycle \<Rightarrow> bool" where
  "wf_drx_cycle x \<longleftrightarrow>
     pred_option wf_short_drx_cycle_timer (drx_cycle_short_drx_cycle_timer x)"

definition wf_resource_coordination_transfer_container :: "resource_coordination_transfer_container \<Rightarrow> bool" where
  "wf_resource_coordination_transfer_container x \<longleftrightarrow>
     wf_container x"

definition wf_s_cell_index :: "s_cell_index \<Rightarrow> bool" where
  "wf_s_cell_index x \<longleftrightarrow>
     in_range 1 31 x"

definition wf_serving_cell_mo :: "serving_cell_mo \<Rightarrow> bool" where
  "wf_serving_cell_mo x \<longleftrightarrow>
     in_range 1 64 x"

definition wf_s_cell_to_be_setup_item :: "s_cell_to_be_setup_item \<Rightarrow> bool" where
  "wf_s_cell_to_be_setup_item x \<longleftrightarrow>
     wf_nr_cgi (s_cell_to_be_setup_item_s_cell_id x) \<and>
     wf_s_cell_index (s_cell_to_be_setup_item_s_cell_index x) \<and>
     pred_option wf_serving_cell_mo (s_cell_to_be_setup_item_serving_cell_mo x)"

definition wf_s_cell_to_be_setup_list :: "per_lib \<Rightarrow> s_cell_to_be_setup_list \<Rightarrow> bool" where
  "wf_s_cell_to_be_setup_list L x \<longleftrightarrow>
     wf_list 1 32 (open_ok wf_s_cell_to_be_setup_item (SCellToBeSetupItem_codec L)) x"

definition wf_srbs_to_be_setup_item :: "srbs_to_be_setup_item \<Rightarrow> bool" where
  "wf_srbs_to_be_setup_item x \<longleftrightarrow>
     in_range 0 3 (srbs_to_be_setup_item_srb_id x)"

definition wf_srbs_to_be_setup_list :: "per_lib \<Rightarrow> srbs_to_be_setup_list \<Rightarrow> bool" where
  "wf_srbs_to_be_setup_list L x \<longleftrightarrow>
     wf_list 1 8 (open_ok wf_srbs_to_be_setup_item (SrbsToBeSetupItem_codec L)) x"

definition wf_drb_id :: "drb_id \<Rightarrow> bool" where
  "wf_drb_id x \<longleftrightarrow>
     in_range 1 32 x"

definition wf_priority_level :: "priority_level \<Rightarrow> bool" where
  "wf_priority_level x \<longleftrightarrow>
     in_range 0 15 x"

definition wf_allocation_and_retention_priority :: "allocation_and_retention_priority \<Rightarrow> bool" where
  "wf_allocation_and_retention_priority x \<longleftrightarrow>
     wf_priority_level (allocation_and_retention_priority_priority_level x)"

definition wf_bit_rate :: "bit_rate \<Rightarrow> bool" where
  "wf_bit_rate x \<longleftrightarrow>
     in_range 0 4000000000000 x"

definition wf_gbr_qos_information :: "gbr_qos_information \<Rightarrow> bool" where
  "wf_gbr_qos_information x \<longleftrightarrow>
     wf_bit_rate (gbr_qos_information_e_rab_maximum_bitrate_dl x) \<and>
     wf_bit_rate (gbr_qos_information_e_rab_maximum_bitrate_ul x) \<and>
     wf_bit_rate (gbr_qos_information_e_rab_guaranteed_bitrate_dl x) \<and>
     wf_bit_rate (gbr_qos_information_e_rab_guaranteed_bitrate_ul x)"

definition wf_eutran_qos :: "eutran_qos \<Rightarrow> bool" where
  "wf_eutran_qos x \<longleftrightarrow>
     wf_allocation_and_retention_priority (eutran_qos_allocation_and_retention_priority x) \<and>
     pred_option wf_gbr_qos_information (eutran_qos_gbr_qos_information x)"

definition wf_averaging_window :: "averaging_window \<Rightarrow> bool" where
  "wf_averaging_window x \<longleftrightarrow>
     in_range 0 4095 x"

definition wf_max_data_burst_volume :: "max_data_burst_volume \<Rightarrow> bool" where
  "wf_max_data_burst_volume x \<longleftrightarrow>
     in_range_i128 0 4095 x"

definition wf_extended_packet_delay_budget :: "extended_packet_delay_budget \<Rightarrow> bool" where
  "wf_extended_packet_delay_budget x \<longleftrightarrow>
     in_range 1 65535 x"

definition wf_non_dynamic5qi_descriptor :: "non_dynamic5qi_descriptor \<Rightarrow> bool" where
  "wf_non_dynamic5qi_descriptor x \<longleftrightarrow>
     pred_option (in_range 1 127) (non_dynamic5qi_descriptor_qos_priority_level x) \<and>
     pred_option wf_averaging_window (non_dynamic5qi_descriptor_averaging_window x) \<and>
     pred_option wf_max_data_burst_volume (non_dynamic5qi_descriptor_max_data_burst_volume x) \<and>
     pred_option wf_extended_packet_delay_budget (non_dynamic5qi_descriptor_cn_packet_delay_budget_downlink x) \<and>
     pred_option wf_extended_packet_delay_budget (non_dynamic5qi_descriptor_cn_packet_delay_budget_uplink x)"

definition wf_packet_delay_budget :: "packet_delay_budget \<Rightarrow> bool" where
  "wf_packet_delay_budget x \<longleftrightarrow>
     in_range 0 1023 x"

definition wf_per_scalar :: "per_scalar \<Rightarrow> bool" where
  "wf_per_scalar x \<longleftrightarrow>
     in_range 0 9 x"

definition wf_per_exponent :: "per_exponent \<Rightarrow> bool" where
  "wf_per_exponent x \<longleftrightarrow>
     in_range 0 9 x"

definition wf_packet_error_rate :: "packet_error_rate \<Rightarrow> bool" where
  "wf_packet_error_rate x \<longleftrightarrow>
     wf_per_scalar (packet_error_rate_per_scalar x) \<and>
     wf_per_exponent (packet_error_rate_per_exponent x)"

definition wf_dynamic5qi_descriptor :: "dynamic5qi_descriptor \<Rightarrow> bool" where
  "wf_dynamic5qi_descriptor x \<longleftrightarrow>
     in_range 1 127 (dynamic5qi_descriptor_qos_priority_level x) \<and>
     wf_packet_delay_budget (dynamic5qi_descriptor_packet_delay_budget x) \<and>
     wf_packet_error_rate (dynamic5qi_descriptor_packet_error_rate x) \<and>
     pred_option wf_averaging_window (dynamic5qi_descriptor_averaging_window x) \<and>
     pred_option wf_max_data_burst_volume (dynamic5qi_descriptor_max_data_burst_volume x) \<and>
     pred_option wf_extended_packet_delay_budget (dynamic5qi_descriptor_extended_packet_delay_budget x) \<and>
     pred_option wf_extended_packet_delay_budget (dynamic5qi_descriptor_cn_packet_delay_budget_downlink x) \<and>
     pred_option wf_extended_packet_delay_budget (dynamic5qi_descriptor_cn_packet_delay_budget_uplink x)"

definition wf_qos_characteristics :: "qos_characteristics \<Rightarrow> bool" where
  "wf_qos_characteristics x \<longleftrightarrow>
     (case x of QosCharacteristicsNonDynamic5qi y \<Rightarrow> wf_non_dynamic5qi_descriptor y | QosCharacteristicsDynamic5qi y \<Rightarrow> wf_dynamic5qi_descriptor y)"

definition wf_ngran_allocation_and_retention_priority :: "ngran_allocation_and_retention_priority \<Rightarrow> bool" where
  "wf_ngran_allocation_and_retention_priority x \<longleftrightarrow>
     wf_priority_level (ngran_allocation_and_retention_priority_priority_level x)"

definition wf_max_packet_loss_rate :: "max_packet_loss_rate \<Rightarrow> bool" where
  "wf_max_packet_loss_rate x \<longleftrightarrow>
     in_range 0 1000 x"

definition wf_qos_para_set_index :: "qos_para_set_index \<Rightarrow> bool" where
  "wf_qos_para_set_index x \<longleftrightarrow>
     in_range 1 8 x"

definition wf_alternative_qos_para_set_item :: "alternative_qos_para_set_item \<Rightarrow> bool" where
  "wf_alternative_qos_para_set_item x \<longleftrightarrow>
     wf_qos_para_set_index (alternative_qos_para_set_item_alternative_qos_para_set_index x) \<and>
     pred_option wf_bit_rate (alternative_qos_para_set_item_guaranteed_flow_bit_rate_dl x) \<and>
     pred_option wf_bit_rate (alternative_qos_para_set_item_guaranteed_flow_bit_rate_ul x) \<and>
     pred_option wf_packet_delay_budget (alternative_qos_para_set_item_packet_delay_budget x) \<and>
     pred_option wf_packet_error_rate (alternative_qos_para_set_item_packet_error_rate x)"

definition wf_alternative_qos_para_set_list :: "alternative_qos_para_set_list \<Rightarrow> bool" where
  "wf_alternative_qos_para_set_list x \<longleftrightarrow>
     wf_list 1 8 wf_alternative_qos_para_set_item x"

definition wf_gbr_qos_flow_information :: "per_lib \<Rightarrow> gbr_qos_flow_information \<Rightarrow> bool" where
  "wf_gbr_qos_flow_information L x \<longleftrightarrow>
     wf_bit_rate (gbr_qos_flow_information_max_flow_bit_rate_downlink x) \<and>
     wf_bit_rate (gbr_qos_flow_information_max_flow_bit_rate_uplink x) \<and>
     wf_bit_rate (gbr_qos_flow_information_guaranteed_flow_bit_rate_downlink x) \<and>
     wf_bit_rate (gbr_qos_flow_information_guaranteed_flow_bit_rate_uplink x) \<and>
     pred_option wf_max_packet_loss_rate (gbr_qos_flow_information_max_packet_loss_rate_downlink x) \<and>
     pred_option wf_max_packet_loss_rate (gbr_qos_flow_information_max_packet_loss_rate_uplink x) \<and>
     pred_option (open_ok wf_alternative_qos_para_set_list (AlternativeQosParaSetList_codec L)) (gbr_qos_flow_information_alternative_qos_para_set_list x)"

definition wf_qos_flow_level_qos_parameters :: "per_lib \<Rightarrow> qos_flow_level_qos_parameters \<Rightarrow> bool" where
  "wf_qos_flow_level_qos_parameters L x \<longleftrightarrow>
     wf_qos_characteristics (qos_flow_level_qos_parameters_qos_characteristics x) \<and>
     wf_ngran_allocation_and_retention_priority (qos_flow_level_qos_parameters_ngran_allocation_retention_priority x) \<and>
     pred_option (wf_gbr_qos_flow_information L) (qos_flow_level_qos_parameters_gbr_qos_flow_information x) \<and>
     pred_option wf_bit_rate (qos_flow_level_qos_parameters_ulpdu_session_aggregate_maximum_bit_rate x)"

definition wf_qos_flow_identifier :: "qos_flow_identifier \<Rightarrow> bool" where
  "wf_qos_flow_identifier x \<longleftrightarrow>
     in_range 0 63 x"

definition wf_periodicity :: "periodicity \<Rightarrow> bool" where
  "wf_periodicity x \<longleftrightarrow>
     in_range 0 640000 x"

definition wf_burst_arrival_time :: "burst_arrival_time \<Rightarrow> bool" where
  "wf_burst_arrival_time x \<longleftrightarrow>
     wf_container x"

definition wf_tsc_assistance_information :: "tsc_assistance_information \<Rightarrow> bool" where
  "wf_tsc_assistance_information x \<longleftrightarrow>
     wf_periodicity (tsc_assistance_information_periodicity x) \<and>
     pred_option wf_burst_arrival_time (tsc_assistance_information_burst_arrival_time x)"

definition wf_tsc_traffic_characteristics :: "tsc_traffic_characteristics \<Rightarrow> bool" where
  "wf_tsc_traffic_characteristics x \<longleftrightarrow>
     pred_option wf_tsc_assistance_information (tsc_traffic_characteristics_tsc_assistance_information_dl x) \<and>
     pred_option wf_tsc_assistance_information (tsc_traffic_characteristics_tsc_assistance_information_ul x)"

definition wf_flows_mapped_to_drb_item :: "per_lib \<Rightarrow> flows_mapped_to_drb_item \<Rightarrow> bool" where
  "wf_flows_mapped_to_drb_item L x \<longleftrightarrow>
     wf_qos_flow_identifier (flows_mapped_to_drb_item_qos_flow_identifier x) \<and>
     wf_qos_flow_level_qos_parameters L (flows_mapped_to_drb_item_qos_flow_level_qos_parameters x) \<and>
     pred_option (open_ok wf_tsc_traffic_characteristics (TscTrafficCharacteristics_codec L)) (flows_mapped_to_drb_item_tsc_traffic_characteristics x)"

definition wf_flows_mapped_to_drb_list :: "per_lib \<Rightarrow> flows_mapped_to_drb_list \<Rightarrow> bool" where
  "wf_flows_mapped_to_drb_list L x \<longleftrightarrow>
     wf_list 1 64 (wf_flows_mapped_to_drb_item L) x"

definition wf_drb_information :: "per_lib \<Rightarrow> drb_information \<Rightarrow> bool" where
  "wf_drb_information L x \<longleftrightarrow>
     wf_qos_flow_level_qos_parameters L (drb_information_drb_qos x) \<and>
     wf_f1ap_snssai (drb_information_snssai x) \<and>
     wf_flows_mapped_to_drb_list L (drb_information_flows_mapped_to_drb_list x)"

definition wf_qos_information :: "per_lib \<Rightarrow> qos_information \<Rightarrow> bool" where
  "wf_qos_information L x \<longleftrightarrow>
     (case x of QosInformationEutranQos y \<Rightarrow> wf_eutran_qos y | QosInformationDrbInformation y \<Rightarrow> open_ok (wf_drb_information L) (DrbInformation_codec L) y)"

definition wf_up_transport_layer_information :: "up_transport_layer_information \<Rightarrow> bool" where
  "wf_up_transport_layer_information x \<longleftrightarrow>
     (case x of UpTransportLayerInformationGtpTunnel y \<Rightarrow> wf_gtp_tunnel y)"

definition wf_ul_up_tnl_information_to_be_setup_item :: "per_lib \<Rightarrow> ul_up_tnl_information_to_be_setup_item \<Rightarrow> bool" where
  "wf_ul_up_tnl_information_to_be_setup_item L x \<longleftrightarrow>
     wf_up_transport_layer_information (ul_up_tnl_information_to_be_setup_item_ul_up_tnl_information x) \<and>
     pred_option (open_ok wf_bh_info (BhInfo_codec L)) (ul_up_tnl_information_to_be_setup_item_bh_info x)"

definition wf_ul_up_tnl_information_to_be_setup_list :: "per_lib \<Rightarrow> ul_up_tnl_information_to_be_setup_list \<Rightarrow> bool" where
  "wf_ul_up_tnl_information_to_be_setup_list L x \<longleftrightarrow>
     wf_list 1 2 (wf_ul_up_tnl_information_to_be_setup_item L) x"

definition wf_additional_pdcp_duplication_tnl_item :: "per_lib \<Rightarrow> additional_pdcp_duplication_tnl_item \<Rightarrow> bool" where
  "wf_additional_pdcp_duplication_tnl_item L x \<longleftrightarrow>
     wf_up_transport_layer_information (additional_pdcp_duplication_tnl_item_additional_pdcp_duplication_up_tnl_information x) \<and>
     pred_option (open_ok wf_bh_info (BhInfo_codec L)) (additional_pdcp_duplication_tnl_item_bh_info x)"

definition wf_additional_pdcp_duplication_tnl_list :: "per_lib \<Rightarrow> additional_pdcp_duplication_tnl_list \<Rightarrow> bool" where
  "wf_additional_pdcp_duplication_tnl_list L x \<longleftrightarrow>
     wf_list 1 2 (wf_additional_pdcp_duplication_tnl_item L) x"

definition wf_rlc_duplication_state_list :: "rlc_duplication_state_list \<Rightarrow> bool" where
  "wf_rlc_duplication_state_list x \<longleftrightarrow>
     length_between 1 3 x"

definition wf_rlc_duplication_information :: "rlc_duplication_information \<Rightarrow> bool" where
  "wf_rlc_duplication_information x \<longleftrightarrow>
     wf_rlc_duplication_state_list (rlc_duplication_information_rlc_duplication_state_list x)"

definition wf_drbs_to_be_setup_item :: "per_lib \<Rightarrow> drbs_to_be_setup_item \<Rightarrow> bool" where
  "wf_drbs_to_be_setup_item L x \<longleftrightarrow>
     wf_drb_id (drbs_to_be_setup_item_drb_id x) \<and>
     wf_qos_information L (drbs_to_be_setup_item_qos_information x) \<and>
     wf_ul_up_tnl_information_to_be_setup_list L (drbs_to_be_setup_item_ul_up_tnl_information_to_be_setup_list x) \<and>
     pred_option (open_ok (wf_additional_pdcp_duplication_tnl_list L) (AdditionalPdcpDuplicationTnlList_codec L)) (drbs_to_be_setup_item_additional_pdcp_duplication_tnl_list x) \<and>
     pred_option (open_ok wf_rlc_duplication_information (RlcDuplicationInformation_codec L)) (drbs_to_be_setup_item_rlc_duplication_information x)"

definition wf_drbs_to_be_setup_list :: "per_lib \<Rightarrow> drbs_to_be_setup_list \<Rightarrow> bool" where
  "wf_drbs_to_be_setup_list L x \<longleftrightarrow>
     wf_list 1 64 (open_ok (wf_drbs_to_be_setup_item L) (DrbsToBeSetupItem_codec L)) x"

definition wf_masked_imeisv :: "masked_imeisv \<Rightarrow> bool" where
  "wf_masked_imeisv x \<longleftrightarrow>
     has_length 64 x"

definition wf_eutra_cell_id :: "eutra_cell_id \<Rightarrow> bool" where
  "wf_eutra_cell_id x \<longleftrightarrow>
     has_length 28 x"

definition wf_extended_earfcn :: "extended_earfcn \<Rightarrow> bool" where
  "wf_extended_earfcn x \<longleftrightarrow>
     in_range 0 262143 x"

definition wf_eutra_coex_fdd_info :: "eutra_coex_fdd_info \<Rightarrow> bool" where
  "wf_eutra_coex_fdd_info x \<longleftrightarrow>
     pred_option wf_extended_earfcn (eutra_coex_fdd_info_ul_earfcn x) \<and>
     wf_extended_earfcn (eutra_coex_fdd_info_dl_earfcn x)"

definition wf_eutra_coex_tdd_info :: "eutra_coex_tdd_info \<Rightarrow> bool" where
  "wf_eutra_coex_tdd_info x \<longleftrightarrow>
     wf_extended_earfcn (eutra_coex_tdd_info_earfcn x)"

definition wf_eutra_coex_mode_info :: "eutra_coex_mode_info \<Rightarrow> bool" where
  "wf_eutra_coex_mode_info x \<longleftrightarrow>
     (case x of EutraCoexModeInfoFdd y \<Rightarrow> wf_eutra_coex_fdd_info y | EutraCoexModeInfoTdd y \<Rightarrow> wf_eutra_coex_tdd_info y)"

definition wf_eutra_prach_configuration :: "eutra_prach_configuration \<Rightarrow> bool" where
  "wf_eutra_prach_configuration x \<longleftrightarrow>
     in_range 0 837 (eutra_prach_configuration_root_sequence_index x) \<and>
     in_range 0 15 (eutra_prach_configuration_zero_correlation_index x) \<and>
     in_range 0 94 (eutra_prach_configuration_prach_freq_offset x) \<and>
     pred_option (in_range 0 63) (eutra_prach_configuration_prach_config_index x)"

definition wf_resource_coordination_eutra_cell_info :: "resource_coordination_eutra_cell_info \<Rightarrow> bool" where
  "wf_resource_coordination_eutra_cell_info x \<longleftrightarrow>
     wf_eutra_coex_mode_info (resource_coordination_eutra_cell_info_eutra_mode_info x) \<and>
     wf_eutra_prach_configuration (resource_coordination_eutra_cell_info_eutra_prach_configuration x)"

definition wf_resource_coordination_transfer_information :: "resource_coordination_transfer_information \<Rightarrow> bool" where
  "wf_resource_coordination_transfer_information x \<longleftrightarrow>
     wf_eutra_cell_id (resource_coordination_transfer_information_m_enb_cell_id x) \<and>
     pred_option wf_resource_coordination_eutra_cell_info (resource_coordination_transfer_information_resource_coordination_eutra_cell_info x)"

definition wf_trace_id :: "trace_id \<Rightarrow> bool" where
  "wf_trace_id x \<longleftrightarrow>
     has_length 8 x"

definition wf_interfaces_to_trace :: "interfaces_to_trace \<Rightarrow> bool" where
  "wf_interfaces_to_trace x \<longleftrightarrow>
     has_length 8 x"

definition wf_measurements_to_activate :: "measurements_to_activate \<Rightarrow> bool" where
  "wf_measurements_to_activate x \<longleftrightarrow>
     has_length 8 x"

definition wf_m7period :: "m7period \<Rightarrow> bool" where
  "wf_m7period x \<longleftrightarrow>
     in_range 1 60 x"

definition wf_m7_configuration :: "m7_configuration \<Rightarrow> bool" where
  "wf_m7_configuration x \<longleftrightarrow>
     wf_m7period (m7_configuration_m7period x)"

definition wf_mdt_configuration :: "mdt_configuration \<Rightarrow> bool" where
  "wf_mdt_configuration x \<longleftrightarrow>
     wf_measurements_to_activate (mdt_configuration_measurements_to_activate x) \<and>
     pred_option wf_m7_configuration (mdt_configuration_m7_configuration x)"

definition wf_uri_address :: "uri_address \<Rightarrow> bool" where
  "wf_uri_address x \<longleftrightarrow>
     wf_uri x"

definition wf_trace_activation :: "per_lib \<Rightarrow> trace_activation \<Rightarrow> bool" where
  "wf_trace_activation L x \<longleftrightarrow>
     wf_trace_id (trace_activation_trace_id x) \<and>
     wf_interfaces_to_trace (trace_activation_interfaces_to_trace x) \<and>
     wf_tla (trace_activation_trace_collection_entity_ip_address x) \<and>
     pred_option (open_ok wf_mdt_configuration (MdtConfiguration_codec L)) (trace_activation_mdt_configuration x) \<and>
     pred_option wf_uri_address (trace_activation_trace_collection_entity_uri x)"

definition wf_cp_traffic_type :: "cp_traffic_type \<Rightarrow> bool" where
  "wf_cp_traffic_type x \<longleftrightarrow>
     in_range 1 3 x"

definition wf_bh_qos_information :: "per_lib \<Rightarrow> bh_qos_information \<Rightarrow> bool" where
  "wf_bh_qos_information L x \<longleftrightarrow>
     (case x of BhQosInformationBhrlcchQos y \<Rightarrow> wf_qos_flow_level_qos_parameters L y | BhQosInformationEutranBhrlcchQos y \<Rightarrow> wf_eutran_qos y | BhQosInformationCpTrafficType y \<Rightarrow> wf_cp_traffic_type y)"

definition wf_mapping_information_index :: "mapping_information_index \<Rightarrow> bool" where
  "wf_mapping_information_index x \<longleftrightarrow>
     has_length 26 x"

definition wf_iabtnl_address :: "iabtnl_address \<Rightarrow> bool" where
  "wf_iabtnl_address x \<longleftrightarrow>
     (case x of IabtnlAddressIPv4Address y \<Rightarrow> has_length 32 y | IabtnlAddressIPv6Address y \<Rightarrow> has_length 128 y | IabtnlAddressIPv6Prefix y \<Rightarrow> has_length 64 y)"

definition wf_dscp :: "dscp \<Rightarrow> bool" where
  "wf_dscp x \<longleftrightarrow>
     has_length 6 x"

definition wf_ds_information_list :: "ds_information_list \<Rightarrow> bool" where
  "wf_ds_information_list x \<longleftrightarrow>
     wf_list 0 64 wf_dscp x"

definition wf_ip_header_information :: "ip_header_information \<Rightarrow> bool" where
  "wf_ip_header_information x \<longleftrightarrow>
     wf_iabtnl_address (ip_header_information_destination_iabtnl_address x) \<and>
     pred_option wf_ds_information_list (ip_header_information_ds_information_list x) \<and>
     pred_option (has_length 20) (ip_header_information_i_pv_6_flow_label x)"

definition wf_i_ptolayer2_traffic_mapping_info_item :: "i_ptolayer2_traffic_mapping_info_item \<Rightarrow> bool" where
  "wf_i_ptolayer2_traffic_mapping_info_item x \<longleftrightarrow>
     wf_mapping_information_index (i_ptolayer2_traffic_mapping_info_item_mapping_information_index x) \<and>
     wf_ip_header_information (i_ptolayer2_traffic_mapping_info_item_ip_header_information x) \<and>
     wf_bh_info (i_ptolayer2_traffic_mapping_info_item_bh_info x)"

definition wf_i_ptolayer2_traffic_mapping_info_list :: "i_ptolayer2_traffic_mapping_info_list \<Rightarrow> bool" where
  "wf_i_ptolayer2_traffic_mapping_info_list x \<longleftrightarrow>
     wf_list 1 16383 wf_i_ptolayer2_traffic_mapping_info_item x"

definition wf_mapping_informationto_remove :: "mapping_informationto_remove \<Rightarrow> bool" where
  "wf_mapping_informationto_remove x \<longleftrightarrow>
     wf_list 1 16383 wf_mapping_information_index x"

definition wf_i_ptolayer2_traffic_mapping_info :: "i_ptolayer2_traffic_mapping_info \<Rightarrow> bool" where
  "wf_i_ptolayer2_traffic_mapping_info x \<longleftrightarrow>
     pred_option wf_i_ptolayer2_traffic_mapping_info_list (i_ptolayer2_traffic_mapping_info_i_ptolayer_2_traffic_mapping_info_to_add x) \<and>
     pred_option wf_mapping_informationto_remove (i_ptolayer2_traffic_mapping_info_i_ptolayer_2_traffic_mapping_info_to_remove x)"

definition wf_ba_player_bhrl_cchannel_mapping_info_item :: "ba_player_bhrl_cchannel_mapping_info_item \<Rightarrow> bool" where
  "wf_ba_player_bhrl_cchannel_mapping_info_item x \<longleftrightarrow>
     wf_mapping_information_index (ba_player_bhrl_cchannel_mapping_info_item_mapping_information_index x) \<and>
     pred_option wf_bap_address (ba_player_bhrl_cchannel_mapping_info_item_prior_hop_bap_address x) \<and>
     pred_option wf_bhrlc_channel_id (ba_player_bhrl_cchannel_mapping_info_item_ingressb_hrlc_channel_id x) \<and>
     pred_option wf_bap_address (ba_player_bhrl_cchannel_mapping_info_item_next_hop_bap_address x) \<and>
     pred_option wf_bhrlc_channel_id (ba_player_bhrl_cchannel_mapping_info_item_egressb_hrlc_channel_id x)"

definition wf_ba_player_bhrl_cchannel_mapping_info_list :: "ba_player_bhrl_cchannel_mapping_info_list \<Rightarrow> bool" where
  "wf_ba_player_bhrl_cchannel_mapping_info_list x \<longleftrightarrow>
     wf_list 1 16383 wf_ba_player_bhrl_cchannel_mapping_info_item x"

definition wf_ba_player_bhrl_cchannel_mapping_info :: "ba_player_bhrl_cchannel_mapping_info \<Rightarrow> bool" where
  "wf_ba_player_bhrl_cchannel_mapping_info x \<longleftrightarrow>
     pred_option wf_ba_player_bhrl_cchannel_mapping_info_list (ba_player_bhrl_cchannel_mapping_info_ba_player_bhrl_cchannel_mapping_info_to_add x) \<and>
     pred_option wf_mapping_informationto_remove (ba_player_bhrl_cchannel_mapping_info_ba_player_bhrl_cchannel_mapping_info_to_remove x)"

definition wf_traffic_mapping_info :: "traffic_mapping_info \<Rightarrow> bool" where
  "wf_traffic_mapping_info x \<longleftrightarrow>
     (case x of TrafficMappingInfoIPtolayer2TrafficMappingInfo y \<Rightarrow> wf_i_ptolayer2_traffic_mapping_info y | TrafficMappingInfoBaPlayerBhrlCchannelMappingInfo y \<Rightarrow> wf_ba_player_bhrl_cchannel_mapping_info y)"

definition wf_bh_channels_to_be_setup_item :: "per_lib \<Rightarrow> bh_channels_to_be_setup_item \<Rightarrow> bool" where
  "wf_bh_channels_to_be_setup_item L x \<longleftrightarrow>
     wf_bhrlc_channel_id (bh_channels_to_be_setup_item_bhrlc_channel_id x) \<and>
     wf_bh_qos_information L (bh_channels_to_be_setup_item_bh_qos_information x) \<and>
     pred_option wf_traffic_mapping_info (bh_channels_to_be_setup_item_traffic_mapping_info x)"

definition wf_bh_channels_to_be_setup_list :: "per_lib \<Rightarrow> bh_channels_to_be_setup_list \<Rightarrow> bool" where
  "wf_bh_channels_to_be_setup_list L x \<longleftrightarrow>
     wf_list 1 16383 (open_ok (wf_bh_channels_to_be_setup_item L) (BhChannelsToBeSetupItem_codec L)) x"

definition wf_nr_ue_sidelink_aggregate_maximum_bitrate :: "nr_ue_sidelink_aggregate_maximum_bitrate \<Rightarrow> bool" where
  "wf_nr_ue_sidelink_aggregate_maximum_bitrate x \<longleftrightarrow>
     wf_bit_rate (nr_ue_sidelink_aggregate_maximum_bitrate_ue_nr_sidelink_aggregate_maximum_bitrate x)"

definition wf_lte_ue_sidelink_aggregate_maximum_bitrate :: "lte_ue_sidelink_aggregate_maximum_bitrate \<Rightarrow> bool" where
  "wf_lte_ue_sidelink_aggregate_maximum_bitrate x \<longleftrightarrow>
     wf_bit_rate (lte_ue_sidelink_aggregate_maximum_bitrate_ue_lte_sidelink_aggregate_maximum_bitrate x)"

definition wf_sl_drb_id :: "sl_drb_id \<Rightarrow> bool" where
  "wf_sl_drb_id x \<longleftrightarrow>
     in_range 1 512 x"

definition wf_non_dynamic_pqi_descriptor :: "non_dynamic_pqi_descriptor \<Rightarrow> bool" where
  "wf_non_dynamic_pqi_descriptor x \<longleftrightarrow>
     pred_option (in_range 1 8) (non_dynamic_pqi_descriptor_qos_priority_level x) \<and>
     pred_option wf_averaging_window (non_dynamic_pqi_descriptor_averaging_window x) \<and>
     pred_option wf_max_data_burst_volume (non_dynamic_pqi_descriptor_max_data_burst_volume x)"

definition wf_dynamic_pqi_descriptor :: "dynamic_pqi_descriptor \<Rightarrow> bool" where
  "wf_dynamic_pqi_descriptor x \<longleftrightarrow>
     in_range 1 8 (dynamic_pqi_descriptor_qos_priority_level x) \<and>
     wf_packet_delay_budget (dynamic_pqi_descriptor_packet_delay_budget x) \<and>
     wf_packet_error_rate (dynamic_pqi_descriptor_packet_error_rate x) \<and>
     pred_option wf_averaging_window (dynamic_pqi_descriptor_averaging_window x) \<and>
     pred_option wf_max_data_burst_volume (dynamic_pqi_descriptor_max_data_burst_volume x)"

definition wf_pc5_qos_characteristics :: "pc5_qos_characteristics \<Rightarrow> bool" where
  "wf_pc5_qos_characteristics x \<longleftrightarrow>
     (case x of Pc5QosCharacteristicsNonDynamicPqi y \<Rightarrow> wf_non_dynamic_pqi_descriptor y | Pc5QosCharacteristicsDynamicPqi y \<Rightarrow> wf_dynamic_pqi_descriptor y)"

definition wf_pc5_flow_bit_rates :: "pc5_flow_bit_rates \<Rightarrow> bool" where
  "wf_pc5_flow_bit_rates x \<longleftrightarrow>
     wf_bit_rate (pc5_flow_bit_rates_guaranteed_flow_bit_rate x) \<and>
     wf_bit_rate (pc5_flow_bit_rates_maximum_flow_bit_rate x)"

definition wf_pc5_qos_parameters :: "pc5_qos_parameters \<Rightarrow> bool" where
  "wf_pc5_qos_parameters x \<longleftrightarrow>
     wf_pc5_qos_characteristics (pc5_qos_parameters_pc5_qos_characteristics x) \<and>
     pred_option wf_pc5_flow_bit_rates (pc5_qos_parameters_pc5_qos_flow_bit_rates x)"

definition wf_pc5_qos_flow_identifier :: "pc5_qos_flow_identifier \<Rightarrow> bool" where
  "wf_pc5_qos_flow_identifier x \<longleftrightarrow>
     in_range 1 2048 x"

definition wf_flows_mapped_to_sl_drb_item :: "flows_mapped_to_sl_drb_item \<Rightarrow> bool" where
  "wf_flows_mapped_to_sl_drb_item x \<longleftrightarrow>
     wf_pc5_qos_flow_identifier (flows_mapped_to_sl_drb_item_pc_5_qos_flow_identifier x)"

definition wf_flows_mapped_to_sl_drb_list :: "flows_mapped_to_sl_drb_list \<Rightarrow> bool" where
  "wf_flows_mapped_to_sl_drb_list x \<longleftrightarrow>
     wf_list 1 2048 wf_flows_mapped_to_sl_drb_item x"

definition wf_sl_drb_information :: "sl_drb_information \<Rightarrow> bool" where
  "wf_sl_drb_information x \<longleftrightarrow>
     wf_pc5_qos_parameters (sl_drb_information_sl_drb_qos x) \<and>
     wf_flows_mapped_to_sl_drb_list (sl_drb_information_flows_mapped_to_sl_drb_list x)"

definition wf_sl_drbs_to_be_setup_item :: "sl_drbs_to_be_setup_item \<Rightarrow> bool" where
  "wf_sl_drbs_to_be_setup_item x \<longleftrightarrow>
     wf_sl_drb_id (sl_drbs_to_be_setup_item_sl_drb_id x) \<and>
     wf_sl_drb_information (sl_drbs_to_be_setup_item_sl_drb_information x)"

definition wf_sl_drbs_to_be_setup_list :: "per_lib \<Rightarrow> sl_drbs_to_be_setup_list \<Rightarrow> bool" where
  "wf_sl_drbs_to_be_setup_list L x \<longleftrightarrow>
     wf_list 1 512 (open_ok wf_sl_drbs_to_be_setup_item (SlDrbsToBeSetupItem_codec L)) x"

definition wf_cho_probability :: "cho_probability \<Rightarrow> bool" where
  "wf_cho_probability x \<longleftrightarrow>
     in_range 1 100 x"

definition wf_conditional_inter_du_mobility_information :: "conditional_inter_du_mobility_information \<Rightarrow> bool" where
  "wf_conditional_inter_du_mobility_information x \<longleftrightarrow>
     pred_option wf_cho_probability (conditional_inter_du_mobility_information_estimated_arrival_probability x)"

definition wf_mdt_plmn_list :: "mdt_plmn_list \<Rightarrow> bool" where
  "wf_mdt_plmn_list x \<longleftrightarrow>
     wf_list 1 16 (has_length 3) x"

definition wf_meas_gap_config :: "meas_gap_config \<Rightarrow> bool" where
  "wf_meas_gap_config x \<longleftrightarrow>
     wf_container x"

definition wf_drx_long_cycle_start_offset :: "drx_long_cycle_start_offset \<Rightarrow> bool" where
  "wf_drx_long_cycle_start_offset x \<longleftrightarrow>
     in_range 0 10239 x"

definition wf_selected_band_combination_index :: "selected_band_combination_index \<Rightarrow> bool" where
  "wf_selected_band_combination_index x \<longleftrightarrow>
     wf_container x"

definition wf_selected_feature_set_entry_index :: "selected_feature_set_entry_index \<Rightarrow> bool" where
  "wf_selected_feature_set_entry_index x \<longleftrightarrow>
     wf_container x"

definition wf_ph_info_scg :: "ph_info_scg \<Rightarrow> bool" where
  "wf_ph_info_scg x \<longleftrightarrow>
     wf_container x"

definition wf_requested_band_combination_index :: "requested_band_combination_index \<Rightarrow> bool" where
  "wf_requested_band_combination_index x \<longleftrightarrow>
     wf_container x"

definition wf_requested_feature_set_entry_index :: "requested_feature_set_entry_index \<Rightarrow> bool" where
  "wf_requested_feature_set_entry_index x \<longleftrightarrow>
     wf_container x"

definition wf_drx_config :: "drx_config \<Rightarrow> bool" where
  "wf_drx_config x \<longleftrightarrow>
     wf_container x"

definition wf_pdcch_blind_detection_scg :: "pdcch_blind_detection_scg \<Rightarrow> bool" where
  "wf_pdcch_blind_detection_scg x \<longleftrightarrow>
     wf_container x"

definition wf_requested_pdcch_blind_detection_scg :: "requested_pdcch_blind_detection_scg \<Rightarrow> bool" where
  "wf_requested_pdcch_blind_detection_scg x \<longleftrightarrow>
     wf_container x"

definition wf_ph_info_mcg :: "ph_info_mcg \<Rightarrow> bool" where
  "wf_ph_info_mcg x \<longleftrightarrow>
     wf_container x"

definition wf_meas_gap_sharing_config :: "meas_gap_sharing_config \<Rightarrow> bool" where
  "wf_meas_gap_sharing_config x \<longleftrightarrow>
     wf_container x"

definition wf_sl_phy_mac_rlc_config :: "sl_phy_mac_rlc_config \<Rightarrow> bool" where
  "wf_sl_phy_mac_rlc_config x \<longleftrightarrow>
     wf_container x"

definition wf_sl_config_dedicated_eutra_info :: "sl_config_dedicated_eutra_info \<Rightarrow> bool" where
  "wf_sl_config_dedicated_eutra_info x \<longleftrightarrow>
     wf_container x"

definition wf_requested_p_max_fr2 :: "requested_p_max_fr2 \<Rightarrow> bool" where
  "wf_requested_p_max_fr2 x \<longleftrightarrow>
     wf_container x"

definition wf_du_to_cu_rrc_information :: "du_to_cu_rrc_information \<Rightarrow> bool" where
  "wf_du_to_cu_rrc_information x \<longleftrightarrow>
     wf_cell_group_config (du_to_cu_rrc_information_cell_group_config x) \<and>
     pred_option wf_meas_gap_config (du_to_cu_rrc_information_meas_gap_config x) \<and>
     pred_option wf_container (du_to_cu_rrc_information_requested_p_max_fr1 x) \<and>
     pred_option wf_drx_long_cycle_start_offset (du_to_cu_rrc_information_drx_long_cycle_start_offset x) \<and>
     pred_option wf_selected_band_combination_index (du_to_cu_rrc_information_selected_band_combination_index x) \<and>
     pred_option wf_selected_feature_set_entry_index (du_to_cu_rrc_information_selected_feature_set_entry_index x) \<and>
     pred_option wf_ph_info_scg (du_to_cu_rrc_information_ph_info_scg x) \<and>
     pred_option wf_requested_band_combination_index (du_to_cu_rrc_information_requested_band_combination_index x) \<and>
     pred_option wf_requested_feature_set_entry_index (du_to_cu_rrc_information_requested_feature_set_entry_index x) \<and>
     pred_option wf_drx_config (du_to_cu_rrc_information_drx_config x) \<and>
     pred_option wf_pdcch_blind_detection_scg (du_to_cu_rrc_information_pdcch_blind_detection_scg x) \<and>
     pred_option wf_requested_pdcch_blind_detection_scg (du_to_cu_rrc_information_requested_pdcch_blind_detection_scg x) \<and>
     pred_option wf_ph_info_mcg (du_to_cu_rrc_information_ph_info_mcg x) \<and>
     pred_option wf_meas_gap_sharing_config (du_to_cu_rrc_information_meas_gap_sharing_config x) \<and>
     pred_option wf_sl_phy_mac_rlc_config (du_to_cu_rrc_information_sl_phy_mac_rlc_config x) \<and>
     pred_option wf_sl_config_dedicated_eutra_info (du_to_cu_rrc_information_sl_config_dedicated_eutra_info x) \<and>
     pred_option wf_requested_p_max_fr2 (du_to_cu_rrc_information_requested_p_max_fr2 x)"

definition wf_lcid :: "lcid \<Rightarrow> bool" where
  "wf_lcid x \<longleftrightarrow>
     in_range 1 32 x"

definition wf_dl_up_tnl_information_to_be_setup_item :: "dl_up_tnl_information_to_be_setup_item \<Rightarrow> bool" where
  "wf_dl_up_tnl_information_to_be_setup_item x \<longleftrightarrow>
     wf_up_transport_layer_information (dl_up_tnl_information_to_be_setup_item_dl_up_tnl_information x)"

definition wf_dl_up_tnl_information_to_be_setup_list :: "dl_up_tnl_information_to_be_setup_list \<Rightarrow> bool" where
  "wf_dl_up_tnl_information_to_be_setup_list x \<longleftrightarrow>
     wf_list 1 2 wf_dl_up_tnl_information_to_be_setup_item x"

definition wf_drbs_setup_item :: "per_lib \<Rightarrow> drbs_setup_item \<Rightarrow> bool" where
  "wf_drbs_setup_item L x \<longleftrightarrow>
     wf_drb_id (drbs_setup_item_drb_id x) \<and>
     pred_option wf_lcid (drbs_setup_item_lcid x) \<and>
     wf_dl_up_tnl_information_to_be_setup_list (drbs_setup_item_dl_up_tnl_information_to_be_setup_list x) \<and>
     pred_option (open_ok (wf_additional_pdcp_duplication_tnl_list L) (AdditionalPdcpDuplicationTnlList_codec L)) (drbs_setup_item_additional_pdcp_duplication_tnl_list x) \<and>
     pred_option wf_qos_para_set_index (drbs_setup_item_current_qos_para_set_index x)"

definition wf_drbs_setup_list :: "per_lib \<Rightarrow> drbs_setup_list \<Rightarrow> bool" where
  "wf_drbs_setup_list L x \<longleftrightarrow>
     wf_list 1 64 (open_ok (wf_drbs_setup_item L) (DrbsSetupItem_codec L)) x"

definition wf_srbs_failed_to_be_setup_item :: "srbs_failed_to_be_setup_item \<Rightarrow> bool" where
  "wf_srbs_failed_to_be_setup_item x \<longleftrightarrow>
     in_range 0 3 (srbs_failed_to_be_setup_item_srb_id x)"

definition wf_srbs_failed_to_be_setup_list :: "per_lib \<Rightarrow> srbs_failed_to_be_setup_list \<Rightarrow> bool" where
  "wf_srbs_failed_to_be_setup_list L x \<longleftrightarrow>
     wf_list 1 8 (open_ok wf_srbs_failed_to_be_setup_item (SrbsFailedToBeSetupItem_codec L)) x"

definition wf_drbs_failed_to_be_setup_item :: "drbs_failed_to_be_setup_item \<Rightarrow> bool" where
  "wf_drbs_failed_to_be_setup_item x \<longleftrightarrow>
     wf_drb_id (drbs_failed_to_be_setup_item_drb_id x)"

definition wf_drbs_failed_to_be_setup_list :: "per_lib \<Rightarrow> drbs_failed_to_be_setup_list \<Rightarrow> bool" where
  "wf_drbs_failed_to_be_setup_list L x \<longleftrightarrow>
     wf_list 1 64 (open_ok wf_drbs_failed_to_be_setup_item (DrbsFailedToBeSetupItem_codec L)) x"

definition wf_s_cell_failedto_setup_item :: "s_cell_failedto_setup_item \<Rightarrow> bool" where
  "wf_s_cell_failedto_setup_item x \<longleftrightarrow>
     wf_nr_cgi (s_cell_failedto_setup_item_s_cell_id x)"

definition wf_s_cell_failedto_setup_list :: "per_lib \<Rightarrow> s_cell_failedto_setup_list \<Rightarrow> bool" where
  "wf_s_cell_failedto_setup_list L x \<longleftrightarrow>
     wf_list 1 32 (open_ok wf_s_cell_failedto_setup_item (SCellFailedtoSetupItem_codec L)) x"

definition wf_srbs_setup_item :: "srbs_setup_item \<Rightarrow> bool" where
  "wf_srbs_setup_item x \<longleftrightarrow>
     in_range 0 3 (srbs_setup_item_srb_id x) \<and>
     wf_lcid (srbs_setup_item_lcid x)"

definition wf_srbs_setup_list :: "per_lib \<Rightarrow> srbs_setup_list \<Rightarrow> bool" where
  "wf_srbs_setup_list L x \<longleftrightarrow>
     wf_list 1 8 (open_ok wf_srbs_setup_item (SrbsSetupItem_codec L)) x"

definition wf_bh_channels_setup_item :: "bh_channels_setup_item \<Rightarrow> bool" where
  "wf_bh_channels_setup_item x \<longleftrightarrow>
     wf_bhrlc_channel_id (bh_channels_setup_item_bhrlc_channel_id x)"

definition wf_bh_channels_setup_list :: "per_lib \<Rightarrow> bh_channels_setup_list \<Rightarrow> bool" where
  "wf_bh_channels_setup_list L x \<longleftrightarrow>
     wf_list 1 16383 (open_ok wf_bh_channels_setup_item (BhChannelsSetupItem_codec L)) x"

definition wf_bh_channels_failed_to_be_setup_item :: "bh_channels_failed_to_be_setup_item \<Rightarrow> bool" where
  "wf_bh_channels_failed_to_be_setup_item x \<longleftrightarrow>
     wf_bhrlc_channel_id (bh_channels_failed_to_be_setup_item_bhrlc_channel_id x)"

definition wf_bh_channels_failed_to_be_setup_list :: "per_lib \<Rightarrow> bh_channels_failed_to_be_setup_list \<Rightarrow> bool" where
  "wf_bh_channels_failed_to_be_setup_list L x \<longleftrightarrow>
     wf_list 1 16383 (open_ok wf_bh_channels_failed_to_be_setup_item (BhChannelsFailedToBeSetupItem_codec L)) x"

definition wf_sl_drbs_setup_item :: "sl_drbs_setup_item \<Rightarrow> bool" where
  "wf_sl_drbs_setup_item x \<longleftrightarrow>
     wf_sl_drb_id (sl_drbs_setup_item_sl_drb_id x)"

definition wf_sl_drbs_setup_list :: "per_lib \<Rightarrow> sl_drbs_setup_list \<Rightarrow> bool" where
  "wf_sl_drbs_setup_list L x \<longleftrightarrow>
     wf_list 1 512 (open_ok wf_sl_drbs_setup_item (SlDrbsSetupItem_codec L)) x"

definition wf_sl_drbs_failed_to_be_setup_item :: "sl_drbs_failed_to_be_setup_item \<Rightarrow> bool" where
  "wf_sl_drbs_failed_to_be_setup_item x \<longleftrightarrow>
     wf_sl_drb_id (sl_drbs_failed_to_be_setup_item_sl_drb_id x)"

definition wf_sl_drbs_failed_to_be_setup_list :: "per_lib \<Rightarrow> sl_drbs_failed_to_be_setup_list \<Rightarrow> bool" where
  "wf_sl_drbs_failed_to_be_setup_list L x \<longleftrightarrow>
     wf_list 1 512 (open_ok wf_sl_drbs_failed_to_be_setup_item (SlDrbsFailedToBeSetupItem_codec L)) x"

section \<open>Soundness\<close>

context aper_setup
begin

lemma ServCellIndex_encodable [encodable_simps]: "wf_serv_cell_index x \<Longrightarrow> encodable (ServCellIndex_codec L) x"
  by (simp add: ServCellIndex_codec_def wf_serv_cell_index_def encodable_simps)

lemmas ServCellIndex_sound [sound_simps] = ServCellIndex_encodable [THEN encodable_sound]

lemma CellUlConfigured_encodable [encodable_simps]: "encodable (CellUlConfigured_codec L) x"
  by (cases x) (simp_all add: CellUlConfigured_codec_def encodable_enum)

lemmas CellUlConfigured_sound [sound_simps] = CellUlConfigured_encodable [THEN encodable_sound]

lemma CgConfigInfo_encodable [encodable_simps]: "wf_cg_config_info x \<Longrightarrow> encodable (CgConfigInfo_codec L) x"
  by (simp add: CgConfigInfo_codec_def wf_cg_config_info_def encodable_simps)

lemmas CgConfigInfo_sound [sound_simps] = CgConfigInfo_encodable [THEN encodable_sound]

lemma UeCapabilityRatContainerList_encodable [encodable_simps]: "wf_ue_capability_rat_container_list x \<Longrightarrow> encodable (UeCapabilityRatContainerList_codec L) x"
  by (simp add: UeCapabilityRatContainerList_codec_def wf_ue_capability_rat_container_list_def encodable_simps)

lemmas UeCapabilityRatContainerList_sound [sound_simps] = UeCapabilityRatContainerList_encodable [THEN encodable_sound]

lemma MeasConfig_encodable [encodable_simps]: "wf_meas_config x \<Longrightarrow> encodable (MeasConfig_codec L) x"
  by (simp add: MeasConfig_codec_def wf_meas_config_def encodable_simps)

lemmas MeasConfig_sound [sound_simps] = MeasConfig_encodable [THEN encodable_sound]

lemma HandoverPreparationInformation_encodable [encodable_simps]: "wf_handover_preparation_information x \<Longrightarrow> encodable (HandoverPreparationInformation_codec L) x"
  by (simp add: HandoverPreparationInformation_codec_def wf_handover_preparation_information_def encodable_simps)

lemmas HandoverPreparationInformation_sound [sound_simps] = HandoverPreparationInformation_encodable [THEN encodable_sound]

lemma CellGroupConfig_encodable [encodable_simps]: "wf_cell_group_config x \<Longrightarrow> encodable (CellGroupConfig_codec L) x"
  by (simp add: CellGroupConfig_codec_def wf_cell_group_config_def encodable_simps)

lemmas CellGroupConfig_sound [sound_simps] = CellGroupConfig_encodable [THEN encodable_sound]

lemma MeasurementTimingConfiguration_encodable [encodable_simps]: "wf_measurement_timing_configuration x \<Longrightarrow> encodable (MeasurementTimingConfiguration_codec L) x"
  by (simp add: MeasurementTimingConfiguration_codec_def wf_measurement_timing_configuration_def encodable_simps)

lemmas MeasurementTimingConfiguration_sound [sound_simps] = MeasurementTimingConfiguration_encodable [THEN encodable_sound]

lemma UeAssistanceInformation_encodable [encodable_simps]: "wf_ue_assistance_information x \<Longrightarrow> encodable (UeAssistanceInformation_codec L) x"
  by (simp add: UeAssistanceInformation_codec_def wf_ue_assistance_information_def encodable_simps)

lemmas UeAssistanceInformation_sound [sound_simps] = UeAssistanceInformation_encodable [THEN encodable_sound]

lemma CgConfig_encodable [encodable_simps]: "wf_cg_config x \<Longrightarrow> encodable (CgConfig_codec L) x"
  by (simp add: CgConfig_codec_def wf_cg_config_def encodable_simps)

lemmas CgConfig_sound [sound_simps] = CgConfig_encodable [THEN encodable_sound]

lemma UeAssistanceInformationEutra_encodable [encodable_simps]: "wf_ue_assistance_information_eutra x \<Longrightarrow> encodable (UeAssistanceInformationEutra_codec L) x"
  by (simp add: UeAssistanceInformationEutra_codec_def wf_ue_assistance_information_eutra_def encodable_simps)

lemmas UeAssistanceInformationEutra_sound [sound_simps] = UeAssistanceInformationEutra_encodable [THEN encodable_sound]

lemma CuToDuRrcInformation_sound [sound_simps]: "wf_cu_to_du_rrc_information x \<Longrightarrow> sound (CuToDuRrcInformation_codec L) x"
  unfolding CuToDuRrcInformation_codec_def wf_cu_to_du_rrc_information_def
  by (rule sound_impl, unfold CuToDuRrcInformation_decode_inner_def CuToDuRrcInformation_encode_inner_def, rule coded_with_extensions,
      (intro coded_header coded_field coded_optional_field; (erule coded_extends; simp | simp add: wf_simps sound_simps encodable_simps)),
      (rule carried_append | (rule carried_opt_encodable, simp, simp add: wf_simps encodable_simps, simp, simp))+)
    simp_all

lemma CuToDuRrcInformation_encodable [encodable_simps]: "open_ok wf_cu_to_du_rrc_information (CuToDuRrcInformation_codec L) x \<Longrightarrow> encodable (CuToDuRrcInformation_codec L) x"
  by (simp add: open_ok_def encodable_def CuToDuRrcInformation_sound)

lemma CandidateSpCellItem_sound [sound_simps]: "wf_candidate_sp_cell_item x \<Longrightarrow> sound (CandidateSpCellItem_codec L) x"
  unfolding CandidateSpCellItem_codec_def wf_candidate_sp_cell_item_def
  by (rule sound_impl, intro coded_header coded_field coded_optional_field coded_no_extensions)
    (simp_all add: wf_simps sound_simps encodable_simps)

lemma CandidateSpCellItem_encodable [encodable_simps]: "open_ok wf_candidate_sp_cell_item (CandidateSpCellItem_codec L) x \<Longrightarrow> encodable (CandidateSpCellItem_codec L) x"
  by (simp add: open_ok_def encodable_def CandidateSpCellItem_sound)

lemma CandidateSpCellList_sound [sound_simps]: "wf_candidate_sp_cell_list L x \<Longrightarrow> sound (CandidateSpCellList_codec L) x"
  unfolding CandidateSpCellList_codec_def wf_candidate_sp_cell_list_def by (rule sound_named) (simp add: wf_simps sound_simps encodable_simps)

lemma CandidateSpCellList_encodable [encodable_simps]: "open_ok (wf_candidate_sp_cell_list L) (CandidateSpCellList_codec L) x \<Longrightarrow> encodable (CandidateSpCellList_codec L) x"
  by (simp add: open_ok_def encodable_def CandidateSpCellList_sound)

lemma LongDrxCycleLength_encodable [encodable_simps]: "encodable (LongDrxCycleLength_codec L) x"
  by (cases x) (simp_all add: LongDrxCycleLength_codec_def encodable_enum)

lemmas LongDrxCycleLength_sound [sound_simps] = LongDrxCycleLength_encodable [THEN encodable_sound]

lemma ShortDrxCycleLength_encodable [encodable_simps]: "encodable (ShortDrxCycleLength_codec L) x"
  by (cases x) (simp_all add: ShortDrxCycleLength_codec_def encodable_enum)

lemmas ShortDrxCycleLength_sound [sound_simps] = ShortDrxCycleLength_encodable [THEN encodable_sound]

lemma ShortDrxCycleTimer_encodable [encodable_simps]: "wf_short_drx_cycle_timer x \<Longrightarrow> encodable (ShortDrxCycleTimer_codec L) x"
  by (simp add: ShortDrxCycleTimer_codec_def wf_short_drx_cycle_timer_def encodable_simps)

lemmas ShortDrxCycleTimer_sound [sound_simps] = ShortDrxCycleTimer_encodable [THEN encodable_sound]

lemma DrxCycle_sound [sound_simps]: "wf_drx_cycle x \<Longrightarrow> sound (DrxCycle_codec L) x"
  unfolding DrxCycle_codec_def wf_drx_cycle_def
  by (rule sound_impl, intro coded_header coded_field coded_optional_field coded_no_extensions)
    (simp_all add: wf_simps sound_simps encodable_simps)

lemma DrxCycle_encodable [encodable_simps]: "open_ok wf_drx_cycle (DrxCycle_codec L) x \<Longrightarrow> encodable (DrxCycle_codec L) x"
  by (simp add: open_ok_def encodable_def DrxCycle_sound)

lemma ResourceCoordinationTransferContainer_encodable [encodable_simps]: "wf_resource_coordination_transfer_container x \<Longrightarrow> encodable (ResourceCoordinationTransferContainer_codec L) x"
  by (simp add: ResourceCoordinationTransferContainer_codec_def wf_resource_coordination_transfer_container_def encodable_simps)

lemmas ResourceCoordinationTransferContainer_sound [sound_simps] = ResourceCoordinationTransferContainer_encodable [THEN encodable_sound]

lemma SCellIndex_encodable [encodable_simps]: "wf_s_cell_index x \<Longrightarrow> encodable (SCellIndex_codec L) x"
  by (simp add: SCellIndex_codec_def wf_s_cell_index_def encodable_simps)

lemmas SCellIndex_sound [sound_simps] = SCellIndex_encodable [THEN encodable_sound]

lemma ServingCellMo_encodable [encodable_simps]: "wf_serving_cell_mo x \<Longrightarrow> encodable (ServingCellMo_codec L) x"
  by (simp add: ServingCellMo_codec_def wf_serving_cell_mo_def encodable_simps)

lemmas ServingCellMo_sound [sound_simps] = ServingCellMo_encodable [THEN encodable_sound]

lemma SCellToBeSetupItem_sound [sound_simps]: "wf_s_cell_to_be_setup_item x \<Longrightarrow> sound (SCellToBeSetupItem_codec L) x"
  unfolding SCellToBeSetupItem_codec_def wf_s_cell_to_be_setup_item_def
  by (rule sound_impl, rule coded_with_extensions,
      (intro coded_header coded_field coded_optional_field; (erule coded_extends; simp | simp add: wf_simps sound_simps encodable_simps)),
      (rule carried_append | (rule carried_opt_encodable, simp, simp add: wf_simps encodable_simps, simp, simp))+)
    simp_all

lemma SCellToBeSetupItem_encodable [encodable_simps]: "open_ok wf_s_cell_to_be_setup_item (SCellToBeSetupItem_codec L) x \<Longrightarrow> encodable (SCellToBeSetupItem_codec L) x"
  by (simp add: open_ok_def encodable_def SCellToBeSetupItem_sound)

lemma SCellToBeSetupList_sound [sound_simps]: "wf_s_cell_to_be_setup_list L x \<Longrightarrow> sound (SCellToBeSetupList_codec L) x"
  unfolding SCellToBeSetupList_codec_def wf_s_cell_to_be_setup_list_def by (rule sound_named) (simp add: wf_simps sound_simps encodable_simps)

lemma SCellToBeSetupList_encodable [encodable_simps]: "open_ok (wf_s_cell_to_be_setup_list L) (SCellToBeSetupList_codec L) x \<Longrightarrow> encodable (SCellToBeSetupList_codec L) x"
  by (simp add: open_ok_def encodable_def SCellToBeSetupList_sound)

lemma DuplicationIndication_encodable [encodable_simps]: "encodable (DuplicationIndication_codec L) x"
  by (cases x) (simp_all add: DuplicationIndication_codec_def encodable_enum)

lemmas DuplicationIndication_sound [sound_simps] = DuplicationIndication_encodable [THEN encodable_sound]

lemma AdditionalDuplicationIndication_encodable [encodable_simps]: "encodable (AdditionalDuplicationIndication_codec L) x"
  by (cases x) (simp_all add: AdditionalDuplicationIndication_codec_def encodable_enum)

lemmas AdditionalDuplicationIndication_sound [sound_simps] = AdditionalDuplicationIndication_encodable [THEN encodable_sound]

lemma SrbsToBeSetupItem_sound [sound_simps]: "wf_srbs_to_be_setup_item x \<Longrightarrow> sound (SrbsToBeSetupItem_codec L) x"
  unfolding SrbsToBeSetupItem_codec_def wf_srbs_to_be_setup_item_def
  by (rule sound_impl, rule coded_with_extensions,
      (intro coded_header coded_field coded_optional_field; (erule coded_extends; simp | simp add: wf_simps sound_simps encodable_simps)),
      (rule carried_append | (rule carried_opt_encodable, simp, simp add: wf_simps encodable_simps, simp, simp))+)
    simp_all

lemma SrbsToBeSetupItem_encodable [encodable_simps]: "open_ok wf_srbs_to_be_setup_item (SrbsToBeSetupItem_codec L) x \<Longrightarrow> encodable (SrbsToBeSetupItem_codec L) x"
  by (simp add: open_ok_def encodable_def SrbsToBeSetupItem_sound)

lemma SrbsToBeSetupList_sound [sound_simps]: "wf_srbs_to_be_setup_list L x \<Longrightarrow> sound (SrbsToBeSetupList_codec L) x"
  unfolding SrbsToBeSetupList_codec_def wf_srbs_to_be_setup_list_def by (rule sound_named) (simp add: wf_simps sound_simps encodable_simps)

lemma SrbsToBeSetupList_encodable [encodable_simps]: "open_ok (wf_srbs_to_be_setup_list L) (SrbsToBeSetupList_codec L) x \<Longrightarrow> encodable (SrbsToBeSetupList_codec L) x"
  by (simp add: open_ok_def encodable_def SrbsToBeSetupList_sound)

lemma DrbId_encodable [encodable_simps]: "wf_drb_id x \<Longrightarrow> encodable (DrbId_codec L) x"
  by (simp add: DrbId_codec_def wf_drb_id_def encodable_simps)

lemmas DrbId_sound [sound_simps] = DrbId_encodable [THEN encodable_sound]

lemma Qci_encodable [encodable_simps]: "encodable (Qci_codec L) x"
  by (simp add: Qci_codec_def encodable_simps)

lemmas Qci_sound [sound_simps] = Qci_encodable [THEN encodable_sound]

lemma PriorityLevel_encodable [encodable_simps]: "wf_priority_level x \<Longrightarrow> encodable (PriorityLevel_codec L) x"
  by (simp add: PriorityLevel_codec_def wf_priority_level_def encodable_simps)

lemmas PriorityLevel_sound [sound_simps] = PriorityLevel_encodable [THEN encodable_sound]

lemma PreEmptionCapability_encodable [encodable_simps]: "encodable (PreEmptionCapability_codec L) x"
  by (cases x) (simp_all add: PreEmptionCapability_codec_def encodable_enum)

lemmas PreEmptionCapability_sound [sound_simps] = PreEmptionCapability_encodable [THEN encodable_sound]

lemma PreEmptionVulnerability_encodable [encodable_simps]: "encodable (PreEmptionVulnerability_codec L) x"
  by (cases x) (simp_all add: PreEmptionVulnerability_codec_def encodable_enum)

lemmas PreEmptionVulnerability_sound [sound_simps] = PreEmptionVulnerability_encodable [THEN encodable_sound]

lemma AllocationAndRetentionPriority_sound [sound_simps]: "wf_allocation_and_retention_priority x \<Longrightarrow> sound (AllocationAndRetentionPriority_codec L) x"
  unfolding AllocationAndRetentionPriority_codec_def wf_allocation_and_retention_priority_def
  by (rule sound_impl, intro coded_header coded_field coded_optional_field coded_no_extensions)
    (simp_all add: wf_simps sound_simps encodable_simps)

lemma BitRate_encodable [encodable_simps]: "wf_bit_rate x \<Longrightarrow> encodable (BitRate_codec L) x"
  by (simp add: BitRate_codec_def wf_bit_rate_def encodable_simps)

lemmas BitRate_sound [sound_simps] = BitRate_encodable [THEN encodable_sound]

lemma GbrQosInformation_sound [sound_simps]: "wf_gbr_qos_information x \<Longrightarrow> sound (GbrQosInformation_codec L) x"
  unfolding GbrQosInformation_codec_def wf_gbr_qos_information_def
  by (rule sound_impl, intro coded_header coded_field coded_optional_field coded_no_extensions)
    (simp_all add: wf_simps sound_simps encodable_simps)

lemma EutranQos_sound [sound_simps]: "wf_eutran_qos x \<Longrightarrow> sound (EutranQos_codec L) x"
  unfolding EutranQos_codec_def wf_eutran_qos_def
  by (rule sound_impl, intro coded_header coded_field coded_optional_field coded_no_extensions)
    (simp_all add: wf_simps sound_simps encodable_simps)

lemma AveragingWindow_encodable [encodable_simps]: "wf_averaging_window x \<Longrightarrow> encodable (AveragingWindow_codec L) x"
  by (simp add: AveragingWindow_codec_def wf_averaging_window_def encodable_simps)

lemmas AveragingWindow_sound [sound_simps] = AveragingWindow_encodable [THEN encodable_sound]

lemma MaxDataBurstVolume_encodable [encodable_simps]: "wf_max_data_burst_volume x \<Longrightarrow> encodable (MaxDataBurstVolume_codec L) x"
  by (simp add: MaxDataBurstVolume_codec_def wf_max_data_burst_volume_def encodable_simps)

lemmas MaxDataBurstVolume_sound [sound_simps] = MaxDataBurstVolume_encodable [THEN encodable_sound]

lemma ExtendedPacketDelayBudget_encodable [encodable_simps]: "wf_extended_packet_delay_budget x \<Longrightarrow> encodable (ExtendedPacketDelayBudget_codec L) x"
  by (simp add: ExtendedPacketDelayBudget_codec_def wf_extended_packet_delay_budget_def encodable_simps)

lemmas ExtendedPacketDelayBudget_sound [sound_simps] = ExtendedPacketDelayBudget_encodable [THEN encodable_sound]

lemma NonDynamic5qiDescriptor_sound [sound_simps]: "wf_non_dynamic5qi_descriptor x \<Longrightarrow> sound (NonDynamic5qiDescriptor_codec L) x"
  unfolding NonDynamic5qiDescriptor_codec_def wf_non_dynamic5qi_descriptor_def
  by (rule sound_impl, rule coded_with_extensions,
      (intro coded_header coded_field coded_optional_field; (erule coded_extends; simp | simp add: wf_simps sound_simps encodable_simps)),
      (rule carried_append | (rule carried_opt_encodable, simp, simp add: wf_simps encodable_simps, simp, simp))+)
    simp_all

lemma PacketDelayBudget_encodable [encodable_simps]: "wf_packet_delay_budget x \<Longrightarrow> encodable (PacketDelayBudget_codec L) x"
  by (simp add: PacketDelayBudget_codec_def wf_packet_delay_budget_def encodable_simps)

lemmas PacketDelayBudget_sound [sound_simps] = PacketDelayBudget_encodable [THEN encodable_sound]

lemma PerScalar_encodable [encodable_simps]: "wf_per_scalar x \<Longrightarrow> encodable (PerScalar_codec L) x"
  by (simp add: PerScalar_codec_def wf_per_scalar_def encodable_simps)

lemmas PerScalar_sound [sound_simps] = PerScalar_encodable [THEN encodable_sound]

lemma PerExponent_encodable [encodable_simps]: "wf_per_exponent x \<Longrightarrow> encodable (PerExponent_codec L) x"
  by (simp add: PerExponent_codec_def wf_per_exponent_def encodable_simps)

lemmas PerExponent_sound [sound_simps] = PerExponent_encodable [THEN encodable_sound]

lemma PacketErrorRate_sound [sound_simps]: "wf_packet_error_rate x \<Longrightarrow> sound (PacketErrorRate_codec L) x"
  unfolding PacketErrorRate_codec_def wf_packet_error_rate_def
  by (rule sound_impl, intro coded_header coded_field coded_optional_field coded_no_extensions)
    (simp_all add: wf_simps sound_simps encodable_simps)

lemma DelayCritical_encodable [encodable_simps]: "encodable (DelayCritical_codec L) x"
  by (cases x) (simp_all add: DelayCritical_codec_def encodable_enum)

lemmas DelayCritical_sound [sound_simps] = DelayCritical_encodable [THEN encodable_sound]

lemma Dynamic5qiDescriptor_sound [sound_simps]: "wf_dynamic5qi_descriptor x \<Longrightarrow> sound (Dynamic5qiDescriptor_codec L) x"
  unfolding Dynamic5qiDescriptor_codec_def wf_dynamic5qi_descriptor_def
  by (rule sound_impl, unfold Dynamic5qiDescriptor_decode_inner_def Dynamic5qiDescriptor_encode_inner_def, rule coded_with_extensions,
      (intro coded_header coded_field coded_optional_field; (erule coded_extends; simp | simp add: wf_simps sound_simps encodable_simps)),
      (rule carried_append | (rule carried_opt_encodable, simp, simp add: wf_simps encodable_simps, simp, simp))+)
    simp_all

lemma QosCharacteristics_sound [sound_simps]: "wf_qos_characteristics x \<Longrightarrow> sound (QosCharacteristics_codec L) x"
  unfolding QosCharacteristics_codec_def wf_qos_characteristics_def
  by (rule sound_impl; cases x; simp only: qos_characteristics.case; rule coded_choice coded_choice_unit; simp add: wf_simps sound_simps encodable_simps)

lemma NgranAllocationAndRetentionPriority_sound [sound_simps]: "wf_ngran_allocation_and_retention_priority x \<Longrightarrow> sound (NgranAllocationAndRetentionPriority_codec L) x"
  unfolding NgranAllocationAndRetentionPriority_codec_def wf_ngran_allocation_and_retention_priority_def
  by (rule sound_impl, intro coded_header coded_field coded_optional_field coded_no_extensions)
    (simp_all add: wf_simps sound_simps encodable_simps)

lemma MaxPacketLossRate_encodable [encodable_simps]: "wf_max_packet_loss_rate x \<Longrightarrow> encodable (MaxPacketLossRate_codec L) x"
  by (simp add: MaxPacketLossRate_codec_def wf_max_packet_loss_rate_def encodable_simps)

lemmas MaxPacketLossRate_sound [sound_simps] = MaxPacketLossRate_encodable [THEN encodable_sound]

lemma QosParaSetIndex_encodable [encodable_simps]: "wf_qos_para_set_index x \<Longrightarrow> encodable (QosParaSetIndex_codec L) x"
  by (simp add: QosParaSetIndex_codec_def wf_qos_para_set_index_def encodable_simps)

lemmas QosParaSetIndex_sound [sound_simps] = QosParaSetIndex_encodable [THEN encodable_sound]

lemma AlternativeQosParaSetItem_sound [sound_simps]: "wf_alternative_qos_para_set_item x \<Longrightarrow> sound (AlternativeQosParaSetItem_codec L) x"
  unfolding AlternativeQosParaSetItem_codec_def wf_alternative_qos_para_set_item_def
  by (rule sound_impl, intro coded_header coded_field coded_optional_field coded_no_extensions)
    (simp_all add: wf_simps sound_simps encodable_simps)

lemma AlternativeQosParaSetList_sound [sound_simps]: "wf_alternative_qos_para_set_list x \<Longrightarrow> sound (AlternativeQosParaSetList_codec L) x"
  unfolding AlternativeQosParaSetList_codec_def wf_alternative_qos_para_set_list_def by (rule sound_named) (simp add: wf_simps sound_simps encodable_simps)

lemma AlternativeQosParaSetList_encodable [encodable_simps]: "open_ok wf_alternative_qos_para_set_list (AlternativeQosParaSetList_codec L) x \<Longrightarrow> encodable (AlternativeQosParaSetList_codec L) x"
  by (simp add: open_ok_def encodable_def AlternativeQosParaSetList_sound)

lemma GbrQosFlowInformation_sound [sound_simps]: "wf_gbr_qos_flow_information L x \<Longrightarrow> sound (GbrQosFlowInformation_codec L) x"
  unfolding GbrQosFlowInformation_codec_def wf_gbr_qos_flow_information_def
  by (rule sound_impl, rule coded_with_extensions,
      (intro coded_header coded_field coded_optional_field; (erule coded_extends; simp | simp add: wf_simps sound_simps encodable_simps)),
      (rule carried_append | (rule carried_opt_encodable, simp, simp add: wf_simps encodable_simps, simp, simp))+)
    simp_all

lemma ReflectiveQosAttribute_encodable [encodable_simps]: "encodable (ReflectiveQosAttribute_codec L) x"
  by (cases x) (simp_all add: ReflectiveQosAttribute_codec_def encodable_enum)

lemmas ReflectiveQosAttribute_sound [sound_simps] = ReflectiveQosAttribute_encodable [THEN encodable_sound]

lemma QosMonitoringRequest_encodable [encodable_simps]: "encodable (QosMonitoringRequest_codec L) x"
  by (cases x) (simp_all add: QosMonitoringRequest_codec_def encodable_enum)

lemmas QosMonitoringRequest_sound [sound_simps] = QosMonitoringRequest_encodable [THEN encodable_sound]

lemma QosFlowLevelQosParameters_sound [sound_simps]: "wf_qos_flow_level_qos_parameters L x \<Longrightarrow> sound (QosFlowLevelQosParameters_codec L) x"
  unfolding QosFlowLevelQosParameters_codec_def wf_qos_flow_level_qos_parameters_def
  by (rule sound_impl, rule coded_with_extensions,
      (intro coded_header coded_field coded_optional_field; (erule coded_extends; simp | simp add: wf_simps sound_simps encodable_simps)),
      (rule carried_append | (rule carried_opt_encodable, simp, simp add: wf_simps encodable_simps, simp, simp))+)
    simp_all

lemma NotificationControl_encodable [encodable_simps]: "encodable (NotificationControl_codec L) x"
  by (cases x) (simp_all add: NotificationControl_codec_def encodable_enum)

lemmas NotificationControl_sound [sound_simps] = NotificationControl_encodable [THEN encodable_sound]

lemma QosFlowIdentifier_encodable [encodable_simps]: "wf_qos_flow_identifier x \<Longrightarrow> encodable (QosFlowIdentifier_codec L) x"
  by (simp add: QosFlowIdentifier_codec_def wf_qos_flow_identifier_def encodable_simps)

lemmas QosFlowIdentifier_sound [sound_simps] = QosFlowIdentifier_encodable [THEN encodable_sound]

lemma QosFlowMappingIndication_encodable [encodable_simps]: "encodable (QosFlowMappingIndication_codec L) x"
  by (cases x) (simp_all add: QosFlowMappingIndication_codec_def encodable_enum)

lemmas QosFlowMappingIndication_sound [sound_simps] = QosFlowMappingIndication_encodable [THEN encodable_sound]

lemma Periodicity_encodable [encodable_simps]: "wf_periodicity x \<Longrightarrow> encodable (Periodicity_codec L) x"
  by (simp add: Periodicity_codec_def wf_periodicity_def encodable_simps)

lemmas Periodicity_sound [sound_simps] = Periodicity_encodable [THEN encodable_sound]

lemma BurstArrivalTime_encodable [encodable_simps]: "wf_burst_arrival_time x \<Longrightarrow> encodable (BurstArrivalTime_codec L) x"
  by (simp add: BurstArrivalTime_codec_def wf_burst_arrival_time_def encodable_simps)

lemmas BurstArrivalTime_sound [sound_simps] = BurstArrivalTime_encodable [THEN encodable_sound]

lemma TscAssistanceInformation_sound [sound_simps]: "wf_tsc_assistance_information x \<Longrightarrow> sound (TscAssistanceInformation_codec L) x"
  unfolding TscAssistanceInformation_codec_def wf_tsc_assistance_information_def
  by (rule sound_impl, intro coded_header coded_field coded_optional_field coded_no_extensions)
    (simp_all add: wf_simps sound_simps encodable_simps)

lemma TscTrafficCharacteristics_sound [sound_simps]: "wf_tsc_traffic_characteristics x \<Longrightarrow> sound (TscTrafficCharacteristics_codec L) x"
  unfolding TscTrafficCharacteristics_codec_def wf_tsc_traffic_characteristics_def
  by (rule sound_impl, intro coded_header coded_field coded_optional_field coded_no_extensions)
    (simp_all add: wf_simps sound_simps encodable_simps)

lemma TscTrafficCharacteristics_encodable [encodable_simps]: "open_ok wf_tsc_traffic_characteristics (TscTrafficCharacteristics_codec L) x \<Longrightarrow> encodable (TscTrafficCharacteristics_codec L) x"
  by (simp add: open_ok_def encodable_def TscTrafficCharacteristics_sound)

lemma FlowsMappedToDrbItem_sound [sound_simps]: "wf_flows_mapped_to_drb_item L x \<Longrightarrow> sound (FlowsMappedToDrbItem_codec L) x"
  unfolding FlowsMappedToDrbItem_codec_def wf_flows_mapped_to_drb_item_def
  by (rule sound_impl, rule coded_with_extensions,
      (intro coded_header coded_field coded_optional_field; (erule coded_extends; simp | simp add: wf_simps sound_simps encodable_simps)),
      (rule carried_append | (rule carried_opt_encodable, simp, simp add: wf_simps encodable_simps, simp, simp))+)
    simp_all

lemma FlowsMappedToDrbList_sound [sound_simps]: "wf_flows_mapped_to_drb_list L x \<Longrightarrow> sound (FlowsMappedToDrbList_codec L) x"
  unfolding FlowsMappedToDrbList_codec_def wf_flows_mapped_to_drb_list_def by (rule sound_named) (simp add: wf_simps sound_simps encodable_simps)

lemma DrbInformation_sound [sound_simps]: "wf_drb_information L x \<Longrightarrow> sound (DrbInformation_codec L) x"
  unfolding DrbInformation_codec_def wf_drb_information_def
  by (rule sound_impl, intro coded_header coded_field coded_optional_field coded_no_extensions)
    (simp_all add: wf_simps sound_simps encodable_simps)

lemma DrbInformation_encodable [encodable_simps]: "open_ok (wf_drb_information L) (DrbInformation_codec L) x \<Longrightarrow> encodable (DrbInformation_codec L) x"
  by (simp add: open_ok_def encodable_def DrbInformation_sound)

lemma QosInformation_sound [sound_simps]: "wf_qos_information L x \<Longrightarrow> sound (QosInformation_codec L) x"
  unfolding QosInformation_codec_def wf_qos_information_def
  by (rule sound_impl; cases x; simp only: qos_information.case;
      ((rule coded_choice, simp add: sound_simps, simp, simp, simp, simp, simp)
      | (rule coded_choice_alternative, simp, rule coded_choice_extension, simp add: encodable_simps, simp, simp, simp, simp, simp, simp, simp)))

lemma UpTransportLayerInformation_sound [sound_simps]: "wf_up_transport_layer_information x \<Longrightarrow> sound (UpTransportLayerInformation_codec L) x"
  unfolding UpTransportLayerInformation_codec_def wf_up_transport_layer_information_def
  by (rule sound_impl; cases x; simp only: up_transport_layer_information.case; rule coded_choice coded_choice_unit; simp add: wf_simps sound_simps encodable_simps)

lemma UlUpTnlInformationToBeSetupItem_sound [sound_simps]: "wf_ul_up_tnl_information_to_be_setup_item L x \<Longrightarrow> sound (UlUpTnlInformationToBeSetupItem_codec L) x"
  unfolding UlUpTnlInformationToBeSetupItem_codec_def wf_ul_up_tnl_information_to_be_setup_item_def
  by (rule sound_impl, rule coded_with_extensions,
      (intro coded_header coded_field coded_optional_field; (erule coded_extends; simp | simp add: wf_simps sound_simps encodable_simps)),
      (rule carried_append | (rule carried_opt_encodable, simp, simp add: wf_simps encodable_simps, simp, simp))+)
    simp_all

lemma UlUpTnlInformationToBeSetupList_sound [sound_simps]: "wf_ul_up_tnl_information_to_be_setup_list L x \<Longrightarrow> sound (UlUpTnlInformationToBeSetupList_codec L) x"
  unfolding UlUpTnlInformationToBeSetupList_codec_def wf_ul_up_tnl_information_to_be_setup_list_def by (rule sound_named) (simp add: wf_simps sound_simps encodable_simps)

lemma RlcMode_encodable [encodable_simps]: "encodable (RlcMode_codec L) x"
  by (cases x) (simp_all add: RlcMode_codec_def encodable_enum)

lemmas RlcMode_sound [sound_simps] = RlcMode_encodable [THEN encodable_sound]

lemma UlUeConfiguration_encodable [encodable_simps]: "encodable (UlUeConfiguration_codec L) x"
  by (cases x) (simp_all add: UlUeConfiguration_codec_def encodable_enum)

lemmas UlUeConfiguration_sound [sound_simps] = UlUeConfiguration_encodable [THEN encodable_sound]

lemma UlConfiguration_sound [sound_simps]: "sound (UlConfiguration_codec L) x"
  unfolding UlConfiguration_codec_def
  by (rule sound_impl, intro coded_header coded_field coded_optional_field coded_no_extensions)
    (simp_all add: sound_simps encodable_simps)

lemma DuplicationActivation_encodable [encodable_simps]: "encodable (DuplicationActivation_codec L) x"
  by (cases x) (simp_all add: DuplicationActivation_codec_def encodable_enum)

lemmas DuplicationActivation_sound [sound_simps] = DuplicationActivation_encodable [THEN encodable_sound]

lemma DcBasedDuplicationConfigured_encodable [encodable_simps]: "encodable (DcBasedDuplicationConfigured_codec L) x"
  by (cases x) (simp_all add: DcBasedDuplicationConfigured_codec_def encodable_enum)

lemmas DcBasedDuplicationConfigured_sound [sound_simps] = DcBasedDuplicationConfigured_encodable [THEN encodable_sound]

lemma PdcpsnLength_encodable [encodable_simps]: "encodable (PdcpsnLength_codec L) x"
  by (cases x) (simp_all add: PdcpsnLength_codec_def encodable_enum)

lemmas PdcpsnLength_sound [sound_simps] = PdcpsnLength_encodable [THEN encodable_sound]

lemma AdditionalPdcpDuplicationTnlItem_sound [sound_simps]: "wf_additional_pdcp_duplication_tnl_item L x \<Longrightarrow> sound (AdditionalPdcpDuplicationTnlItem_codec L) x"
  unfolding AdditionalPdcpDuplicationTnlItem_codec_def wf_additional_pdcp_duplication_tnl_item_def
  by (rule sound_impl, rule coded_with_extensions,
      (intro coded_header coded_field coded_optional_field; (erule coded_extends; simp | simp add: wf_simps sound_simps encodable_simps)),
      (rule carried_append | (rule carried_opt_encodable, simp, simp add: wf_simps encodable_simps, simp, simp))+)
    simp_all

lemma AdditionalPdcpDuplicationTnlList_sound [sound_simps]: "wf_additional_pdcp_duplication_tnl_list L x \<Longrightarrow> sound (AdditionalPdcpDuplicationTnlList_codec L) x"
  unfolding AdditionalPdcpDuplicationTnlList_codec_def wf_additional_pdcp_duplication_tnl_list_def by (rule sound_named) (simp add: wf_simps sound_simps encodable_simps)

lemma AdditionalPdcpDuplicationTnlList_encodable [encodable_simps]: "open_ok (wf_additional_pdcp_duplication_tnl_list L) (AdditionalPdcpDuplicationTnlList_codec L) x \<Longrightarrow> encodable (AdditionalPdcpDuplicationTnlList_codec L) x"
  by (simp add: open_ok_def encodable_def AdditionalPdcpDuplicationTnlList_sound)

lemma DuplicationState_encodable [encodable_simps]: "encodable (DuplicationState_codec L) x"
  by (cases x) (simp_all add: DuplicationState_codec_def encodable_enum)

lemmas DuplicationState_sound [sound_simps] = DuplicationState_encodable [THEN encodable_sound]

lemma RlcDuplicationStateItem_sound [sound_simps]: "sound (RlcDuplicationStateItem_codec L) x"
  unfolding RlcDuplicationStateItem_codec_def
  by (rule sound_impl, intro coded_header coded_field coded_optional_field coded_no_extensions)
    (simp_all add: sound_simps encodable_simps)

lemma RlcDuplicationStateList_sound [sound_simps]: "wf_rlc_duplication_state_list x \<Longrightarrow> sound (RlcDuplicationStateList_codec L) x"
  unfolding RlcDuplicationStateList_codec_def wf_rlc_duplication_state_list_def by (rule sound_named) (simp add: wf_simps sound_simps encodable_simps)

lemma PrimaryPathIndication_encodable [encodable_simps]: "encodable (PrimaryPathIndication_codec L) x"
  by (cases x) (simp_all add: PrimaryPathIndication_codec_def encodable_enum)

lemmas PrimaryPathIndication_sound [sound_simps] = PrimaryPathIndication_encodable [THEN encodable_sound]

lemma RlcDuplicationInformation_sound [sound_simps]: "wf_rlc_duplication_information x \<Longrightarrow> sound (RlcDuplicationInformation_codec L) x"
  unfolding RlcDuplicationInformation_codec_def wf_rlc_duplication_information_def
  by (rule sound_impl, intro coded_header coded_field coded_optional_field coded_no_extensions)
    (simp_all add: wf_simps sound_simps encodable_simps)

lemma RlcDuplicationInformation_encodable [encodable_simps]: "open_ok wf_rlc_duplication_information (RlcDuplicationInformation_codec L) x \<Longrightarrow> encodable (RlcDuplicationInformation_codec L) x"
  by (simp add: open_ok_def encodable_def RlcDuplicationInformation_sound)

lemma DrbsToBeSetupItem_sound [sound_simps]: "wf_drbs_to_be_setup_item L x \<Longrightarrow> sound (DrbsToBeSetupItem_codec L) x"
  unfolding DrbsToBeSetupItem_codec_def wf_drbs_to_be_setup_item_def
  by (rule sound_impl, unfold DrbsToBeSetupItem_decode_inner_def DrbsToBeSetupItem_encode_inner_def, rule coded_with_extensions,
      (intro coded_header coded_field coded_optional_field; (erule coded_extends; simp | simp add: wf_simps sound_simps encodable_simps)),
      (rule carried_append | (rule carried_opt_encodable, simp, simp add: wf_simps encodable_simps, simp, simp))+)
    simp_all

lemma DrbsToBeSetupItem_encodable [encodable_simps]: "open_ok (wf_drbs_to_be_setup_item L) (DrbsToBeSetupItem_codec L) x \<Longrightarrow> encodable (DrbsToBeSetupItem_codec L) x"
  by (simp add: open_ok_def encodable_def DrbsToBeSetupItem_sound)

lemma DrbsToBeSetupList_sound [sound_simps]: "wf_drbs_to_be_setup_list L x \<Longrightarrow> sound (DrbsToBeSetupList_codec L) x"
  unfolding DrbsToBeSetupList_codec_def wf_drbs_to_be_setup_list_def by (rule sound_named) (simp add: wf_simps sound_simps encodable_simps)

lemma DrbsToBeSetupList_encodable [encodable_simps]: "open_ok (wf_drbs_to_be_setup_list L) (DrbsToBeSetupList_codec L) x \<Longrightarrow> encodable (DrbsToBeSetupList_codec L) x"
  by (simp add: open_ok_def encodable_def DrbsToBeSetupList_sound)

lemma InactivityMonitoringRequest_encodable [encodable_simps]: "encodable (InactivityMonitoringRequest_codec L) x"
  by (cases x) (simp_all add: InactivityMonitoringRequest_codec_def encodable_enum)

lemmas InactivityMonitoringRequest_sound [sound_simps] = InactivityMonitoringRequest_encodable [THEN encodable_sound]

lemma MaskedImeisv_encodable [encodable_simps]: "wf_masked_imeisv x \<Longrightarrow> encodable (MaskedImeisv_codec L) x"
  by (simp add: MaskedImeisv_codec_def wf_masked_imeisv_def encodable_simps)

lemmas MaskedImeisv_sound [sound_simps] = MaskedImeisv_encodable [THEN encodable_sound]

lemma EutraCellId_encodable [encodable_simps]: "wf_eutra_cell_id x \<Longrightarrow> encodable (EutraCellId_codec L) x"
  by (simp add: EutraCellId_codec_def wf_eutra_cell_id_def encodable_simps)

lemmas EutraCellId_sound [sound_simps] = EutraCellId_encodable [THEN encodable_sound]

lemma ExtendedEarfcn_encodable [encodable_simps]: "wf_extended_earfcn x \<Longrightarrow> encodable (ExtendedEarfcn_codec L) x"
  by (simp add: ExtendedEarfcn_codec_def wf_extended_earfcn_def encodable_simps)

lemmas ExtendedEarfcn_sound [sound_simps] = ExtendedEarfcn_encodable [THEN encodable_sound]

lemma EutraTransmissionBandwidth_encodable [encodable_simps]: "encodable (EutraTransmissionBandwidth_codec L) x"
  by (cases x) (simp_all add: EutraTransmissionBandwidth_codec_def encodable_enum)

lemmas EutraTransmissionBandwidth_sound [sound_simps] = EutraTransmissionBandwidth_encodable [THEN encodable_sound]

lemma EutraCoexFddInfo_sound [sound_simps]: "wf_eutra_coex_fdd_info x \<Longrightarrow> sound (EutraCoexFddInfo_codec L) x"
  unfolding EutraCoexFddInfo_codec_def wf_eutra_coex_fdd_info_def
  by (rule sound_impl, intro coded_header coded_field coded_optional_field coded_no_extensions)
    (simp_all add: wf_simps sound_simps encodable_simps)

lemma EutraSubframeAssignment_encodable [encodable_simps]: "encodable (EutraSubframeAssignment_codec L) x"
  by (cases x) (simp_all add: EutraSubframeAssignment_codec_def encodable_enum)

lemmas EutraSubframeAssignment_sound [sound_simps] = EutraSubframeAssignment_encodable [THEN encodable_sound]

lemma EutraSpecialSubframePatterns_encodable [encodable_simps]: "encodable (EutraSpecialSubframePatterns_codec L) x"
  by (cases x) (simp_all add: EutraSpecialSubframePatterns_codec_def encodable_enum)

lemmas EutraSpecialSubframePatterns_sound [sound_simps] = EutraSpecialSubframePatterns_encodable [THEN encodable_sound]

lemma EutraCyclicPrefixDl_encodable [encodable_simps]: "encodable (EutraCyclicPrefixDl_codec L) x"
  by (cases x) (simp_all add: EutraCyclicPrefixDl_codec_def encodable_enum)

lemmas EutraCyclicPrefixDl_sound [sound_simps] = EutraCyclicPrefixDl_encodable [THEN encodable_sound]

lemma EutraCyclicPrefixUl_encodable [encodable_simps]: "encodable (EutraCyclicPrefixUl_codec L) x"
  by (cases x) (simp_all add: EutraCyclicPrefixUl_codec_def encodable_enum)

lemmas EutraCyclicPrefixUl_sound [sound_simps] = EutraCyclicPrefixUl_encodable [THEN encodable_sound]

lemma EutraSpecialSubframeInfo_sound [sound_simps]: "sound (EutraSpecialSubframeInfo_codec L) x"
  unfolding EutraSpecialSubframeInfo_codec_def
  by (rule sound_impl, intro coded_header coded_field coded_optional_field coded_no_extensions)
    (simp_all add: sound_simps encodable_simps)

lemma EutraCoexTddInfo_sound [sound_simps]: "wf_eutra_coex_tdd_info x \<Longrightarrow> sound (EutraCoexTddInfo_codec L) x"
  unfolding EutraCoexTddInfo_codec_def wf_eutra_coex_tdd_info_def
  by (rule sound_impl, intro coded_header coded_field coded_optional_field coded_no_extensions)
    (simp_all add: wf_simps sound_simps encodable_simps)

lemma EutraCoexModeInfo_sound [sound_simps]: "wf_eutra_coex_mode_info x \<Longrightarrow> sound (EutraCoexModeInfo_codec L) x"
  unfolding EutraCoexModeInfo_codec_def wf_eutra_coex_mode_info_def
  by (rule sound_impl; cases x; simp only: eutra_coex_mode_info.case; rule coded_choice coded_choice_unit; simp add: wf_simps sound_simps encodable_simps)

lemma EutraPrachConfiguration_sound [sound_simps]: "wf_eutra_prach_configuration x \<Longrightarrow> sound (EutraPrachConfiguration_codec L) x"
  unfolding EutraPrachConfiguration_codec_def wf_eutra_prach_configuration_def
  by (rule sound_impl, intro coded_header coded_field coded_optional_field coded_no_extensions)
    (simp_all add: wf_simps sound_simps encodable_simps)

lemma IgnorePrachConfiguration_encodable [encodable_simps]: "encodable (IgnorePrachConfiguration_codec L) x"
  by (cases x) (simp_all add: IgnorePrachConfiguration_codec_def encodable_enum)

lemmas IgnorePrachConfiguration_sound [sound_simps] = IgnorePrachConfiguration_encodable [THEN encodable_sound]

lemma ResourceCoordinationEutraCellInfo_sound [sound_simps]: "wf_resource_coordination_eutra_cell_info x \<Longrightarrow> sound (ResourceCoordinationEutraCellInfo_codec L) x"
  unfolding ResourceCoordinationEutraCellInfo_codec_def wf_resource_coordination_eutra_cell_info_def
  by (rule sound_impl, rule coded_with_extensions,
      (intro coded_header coded_field coded_optional_field; (erule coded_extends; simp | simp add: wf_simps sound_simps encodable_simps)),
      (rule carried_append | (rule carried_opt_encodable, simp, simp add: wf_simps encodable_simps, simp, simp))+)
    simp_all

lemma ResourceCoordinationTransferInformation_sound [sound_simps]: "wf_resource_coordination_transfer_information x \<Longrightarrow> sound (ResourceCoordinationTransferInformation_codec L) x"
  unfolding ResourceCoordinationTransferInformation_codec_def wf_resource_coordination_transfer_information_def
  by (rule sound_impl, intro coded_header coded_field coded_optional_field coded_no_extensions)
    (simp_all add: wf_simps sound_simps encodable_simps)

lemma ResourceCoordinationTransferInformation_encodable [encodable_simps]: "open_ok wf_resource_coordination_transfer_information (ResourceCoordinationTransferInformation_codec L) x \<Longrightarrow> encodable (ResourceCoordinationTransferInformation_codec L) x"
  by (simp add: open_ok_def encodable_def ResourceCoordinationTransferInformation_sound)

lemma TraceId_encodable [encodable_simps]: "wf_trace_id x \<Longrightarrow> encodable (TraceId_codec L) x"
  by (simp add: TraceId_codec_def wf_trace_id_def encodable_simps)

lemmas TraceId_sound [sound_simps] = TraceId_encodable [THEN encodable_sound]

lemma InterfacesToTrace_encodable [encodable_simps]: "wf_interfaces_to_trace x \<Longrightarrow> encodable (InterfacesToTrace_codec L) x"
  by (simp add: InterfacesToTrace_codec_def wf_interfaces_to_trace_def encodable_simps)

lemmas InterfacesToTrace_sound [sound_simps] = InterfacesToTrace_encodable [THEN encodable_sound]

lemma TraceDepth_encodable [encodable_simps]: "encodable (TraceDepth_codec L) x"
  by (cases x) (simp_all add: TraceDepth_codec_def encodable_enum)

lemmas TraceDepth_sound [sound_simps] = TraceDepth_encodable [THEN encodable_sound]

lemma MdtActivation_encodable [encodable_simps]: "encodable (MdtActivation_codec L) x"
  by (cases x) (simp_all add: MdtActivation_codec_def encodable_enum)

lemmas MdtActivation_sound [sound_simps] = MdtActivation_encodable [THEN encodable_sound]

lemma MeasurementsToActivate_encodable [encodable_simps]: "wf_measurements_to_activate x \<Longrightarrow> encodable (MeasurementsToActivate_codec L) x"
  by (simp add: MeasurementsToActivate_codec_def wf_measurements_to_activate_def encodable_simps)

lemmas MeasurementsToActivate_sound [sound_simps] = MeasurementsToActivate_encodable [THEN encodable_sound]

lemma M2Configuration_encodable [encodable_simps]: "encodable (M2Configuration_codec L) x"
  by (cases x) (simp_all add: M2Configuration_codec_def encodable_enum)

lemmas M2Configuration_sound [sound_simps] = M2Configuration_encodable [THEN encodable_sound]

lemma M5period_encodable [encodable_simps]: "encodable (M5period_codec L) x"
  by (cases x) (simp_all add: M5period_codec_def encodable_enum)

lemmas M5period_sound [sound_simps] = M5period_encodable [THEN encodable_sound]

lemma M5LinksToLog_encodable [encodable_simps]: "encodable (M5LinksToLog_codec L) x"
  by (cases x) (simp_all add: M5LinksToLog_codec_def encodable_enum)

lemmas M5LinksToLog_sound [sound_simps] = M5LinksToLog_encodable [THEN encodable_sound]

lemma M5Configuration_sound [sound_simps]: "sound (M5Configuration_codec L) x"
  unfolding M5Configuration_codec_def
  by (rule sound_impl, intro coded_header coded_field coded_optional_field coded_no_extensions)
    (simp_all add: sound_simps encodable_simps)

lemma M6reportInterval_encodable [encodable_simps]: "encodable (M6reportInterval_codec L) x"
  by (cases x) (simp_all add: M6reportInterval_codec_def encodable_enum)

lemmas M6reportInterval_sound [sound_simps] = M6reportInterval_encodable [THEN encodable_sound]

lemma M6LinksToLog_encodable [encodable_simps]: "encodable (M6LinksToLog_codec L) x"
  by (cases x) (simp_all add: M6LinksToLog_codec_def encodable_enum)

lemmas M6LinksToLog_sound [sound_simps] = M6LinksToLog_encodable [THEN encodable_sound]

lemma M6Configuration_sound [sound_simps]: "sound (M6Configuration_codec L) x"
  unfolding M6Configuration_codec_def
  by (rule sound_impl, intro coded_header coded_field coded_optional_field coded_no_extensions)
    (simp_all add: sound_simps encodable_simps)

lemma M7period_encodable [encodable_simps]: "wf_m7period x \<Longrightarrow> encodable (M7period_codec L) x"
  by (simp add: M7period_codec_def wf_m7period_def encodable_simps)

lemmas M7period_sound [sound_simps] = M7period_encodable [THEN encodable_sound]

lemma M7LinksToLog_encodable [encodable_simps]: "encodable (M7LinksToLog_codec L) x"
  by (cases x) (simp_all add: M7LinksToLog_codec_def encodable_enum)

lemmas M7LinksToLog_sound [sound_simps] = M7LinksToLog_encodable [THEN encodable_sound]

lemma M7Configuration_sound [sound_simps]: "wf_m7_configuration x \<Longrightarrow> sound (M7Configuration_codec L) x"
  unfolding M7Configuration_codec_def wf_m7_configuration_def
  by (rule sound_impl, intro coded_header coded_field coded_optional_field coded_no_extensions)
    (simp_all add: wf_simps sound_simps encodable_simps)

lemma MdtConfiguration_sound [sound_simps]: "wf_mdt_configuration x \<Longrightarrow> sound (MdtConfiguration_codec L) x"
  unfolding MdtConfiguration_codec_def wf_mdt_configuration_def
  by (rule sound_impl, intro coded_header coded_field coded_optional_field coded_no_extensions)
    (simp_all add: wf_simps sound_simps encodable_simps)

lemma MdtConfiguration_encodable [encodable_simps]: "open_ok wf_mdt_configuration (MdtConfiguration_codec L) x \<Longrightarrow> encodable (MdtConfiguration_codec L) x"
  by (simp add: open_ok_def encodable_def MdtConfiguration_sound)

lemma UriAddress_encodable [encodable_simps]: "wf_uri_address x \<Longrightarrow> encodable (UriAddress_codec L) x"
  by (simp add: UriAddress_codec_def wf_uri_address_def encodable_simps)

lemmas UriAddress_sound [sound_simps] = UriAddress_encodable [THEN encodable_sound]

lemma TraceActivation_sound [sound_simps]: "wf_trace_activation L x \<Longrightarrow> sound (TraceActivation_codec L) x"
  unfolding TraceActivation_codec_def wf_trace_activation_def
  by (rule sound_impl, rule coded_with_extensions,
      (intro coded_header coded_field coded_optional_field; (erule coded_extends; simp | simp add: wf_simps sound_simps encodable_simps)),
      (rule carried_append | (rule carried_opt_encodable, simp, simp add: wf_simps encodable_simps, simp, simp))+)
    simp_all

lemma TraceActivation_encodable [encodable_simps]: "open_ok (wf_trace_activation L) (TraceActivation_codec L) x \<Longrightarrow> encodable (TraceActivation_codec L) x"
  by (simp add: open_ok_def encodable_def TraceActivation_sound)

lemma CpTrafficType_encodable [encodable_simps]: "wf_cp_traffic_type x \<Longrightarrow> encodable (CpTrafficType_codec L) x"
  by (simp add: CpTrafficType_codec_def wf_cp_traffic_type_def encodable_simps)

lemmas CpTrafficType_sound [sound_simps] = CpTrafficType_encodable [THEN encodable_sound]

lemma BhQosInformation_sound [sound_simps]: "wf_bh_qos_information L x \<Longrightarrow> sound (BhQosInformation_codec L) x"
  unfolding BhQosInformation_codec_def wf_bh_qos_information_def
  by (rule sound_impl; cases x; simp only: bh_qos_information.case; rule coded_choice coded_choice_unit; simp add: wf_simps sound_simps encodable_simps)

lemma BapCtrlPduChannel_encodable [encodable_simps]: "encodable (BapCtrlPduChannel_codec L) x"
  by (cases x) (simp_all add: BapCtrlPduChannel_codec_def encodable_enum)

lemmas BapCtrlPduChannel_sound [sound_simps] = BapCtrlPduChannel_encodable [THEN encodable_sound]

lemma MappingInformationIndex_encodable [encodable_simps]: "wf_mapping_information_index x \<Longrightarrow> encodable (MappingInformationIndex_codec L) x"
  by (simp add: MappingInformationIndex_codec_def wf_mapping_information_index_def encodable_simps)

lemmas MappingInformationIndex_sound [sound_simps] = MappingInformationIndex_encodable [THEN encodable_sound]

lemma IabtnlAddress_sound [sound_simps]: "wf_iabtnl_address x \<Longrightarrow> sound (IabtnlAddress_codec L) x"
  unfolding IabtnlAddress_codec_def wf_iabtnl_address_def
  by (rule sound_impl; cases x; simp only: iabtnl_address.case; rule coded_choice coded_choice_unit; simp add: wf_simps sound_simps encodable_simps)

lemma Dscp_encodable [encodable_simps]: "wf_dscp x \<Longrightarrow> encodable (Dscp_codec L) x"
  by (simp add: Dscp_codec_def wf_dscp_def encodable_simps)

lemmas Dscp_sound [sound_simps] = Dscp_encodable [THEN encodable_sound]

lemma DsInformationList_sound [sound_simps]: "wf_ds_information_list x \<Longrightarrow> sound (DsInformationList_codec L) x"
  unfolding DsInformationList_codec_def wf_ds_information_list_def by (rule sound_named) (simp add: wf_simps sound_simps encodable_simps)

lemma IpHeaderInformation_sound [sound_simps]: "wf_ip_header_information x \<Longrightarrow> sound (IpHeaderInformation_codec L) x"
  unfolding IpHeaderInformation_codec_def wf_ip_header_information_def
  by (rule sound_impl, intro coded_header coded_field coded_optional_field coded_no_extensions)
    (simp_all add: wf_simps sound_simps encodable_simps)

lemma IPtolayer2TrafficMappingInfoItem_sound [sound_simps]: "wf_i_ptolayer2_traffic_mapping_info_item x \<Longrightarrow> sound (IPtolayer2TrafficMappingInfoItem_codec L) x"
  unfolding IPtolayer2TrafficMappingInfoItem_codec_def wf_i_ptolayer2_traffic_mapping_info_item_def
  by (rule sound_impl, intro coded_header coded_field coded_optional_field coded_no_extensions)
    (simp_all add: wf_simps sound_simps encodable_simps)

lemma IPtolayer2TrafficMappingInfoList_sound [sound_simps]: "wf_i_ptolayer2_traffic_mapping_info_list x \<Longrightarrow> sound (IPtolayer2TrafficMappingInfoList_codec L) x"
  unfolding IPtolayer2TrafficMappingInfoList_codec_def wf_i_ptolayer2_traffic_mapping_info_list_def by (rule sound_named) (simp add: wf_simps sound_simps encodable_simps)

lemma MappingInformationtoRemove_sound [sound_simps]: "wf_mapping_informationto_remove x \<Longrightarrow> sound (MappingInformationtoRemove_codec L) x"
  unfolding MappingInformationtoRemove_codec_def wf_mapping_informationto_remove_def by (rule sound_named) (simp add: wf_simps sound_simps encodable_simps)

lemma IPtolayer2TrafficMappingInfo_sound [sound_simps]: "wf_i_ptolayer2_traffic_mapping_info x \<Longrightarrow> sound (IPtolayer2TrafficMappingInfo_codec L) x"
  unfolding IPtolayer2TrafficMappingInfo_codec_def wf_i_ptolayer2_traffic_mapping_info_def
  by (rule sound_impl, intro coded_header coded_field coded_optional_field coded_no_extensions)
    (simp_all add: wf_simps sound_simps encodable_simps)

lemma BaPlayerBhrlCchannelMappingInfoItem_sound [sound_simps]: "wf_ba_player_bhrl_cchannel_mapping_info_item x \<Longrightarrow> sound (BaPlayerBhrlCchannelMappingInfoItem_codec L) x"
  unfolding BaPlayerBhrlCchannelMappingInfoItem_codec_def wf_ba_player_bhrl_cchannel_mapping_info_item_def
  by (rule sound_impl, intro coded_header coded_field coded_optional_field coded_no_extensions)
    (simp_all add: wf_simps sound_simps encodable_simps)

lemma BaPlayerBhrlCchannelMappingInfoList_sound [sound_simps]: "wf_ba_player_bhrl_cchannel_mapping_info_list x \<Longrightarrow> sound (BaPlayerBhrlCchannelMappingInfoList_codec L) x"
  unfolding BaPlayerBhrlCchannelMappingInfoList_codec_def wf_ba_player_bhrl_cchannel_mapping_info_list_def by (rule sound_named) (simp add: wf_simps sound_simps encodable_simps)

lemma BaPlayerBhrlCchannelMappingInfo_sound [sound_simps]: "wf_ba_player_bhrl_cchannel_mapping_info x \<Longrightarrow> sound (BaPlayerBhrlCchannelMappingInfo_codec L) x"
  unfolding BaPlayerBhrlCchannelMappingInfo_codec_def wf_ba_player_bhrl_cchannel_mapping_info_def
  by (rule sound_impl, intro coded_header coded_field coded_optional_field coded_no_extensions)
    (simp_all add: wf_simps sound_simps encodable_simps)

lemma TrafficMappingInfo_sound [sound_simps]: "wf_traffic_mapping_info x \<Longrightarrow> sound (TrafficMappingInfo_codec L) x"
  unfolding TrafficMappingInfo_codec_def wf_traffic_mapping_info_def
  by (rule sound_impl; cases x; simp only: traffic_mapping_info.case; rule coded_choice coded_choice_unit; simp add: wf_simps sound_simps encodable_simps)

lemma BhChannelsToBeSetupItem_sound [sound_simps]: "wf_bh_channels_to_be_setup_item L x \<Longrightarrow> sound (BhChannelsToBeSetupItem_codec L) x"
  unfolding BhChannelsToBeSetupItem_codec_def wf_bh_channels_to_be_setup_item_def
  by (rule sound_impl, intro coded_header coded_field coded_optional_field coded_no_extensions)
    (simp_all add: wf_simps sound_simps encodable_simps)

lemma BhChannelsToBeSetupItem_encodable [encodable_simps]: "open_ok (wf_bh_channels_to_be_setup_item L) (BhChannelsToBeSetupItem_codec L) x \<Longrightarrow> encodable (BhChannelsToBeSetupItem_codec L) x"
  by (simp add: open_ok_def encodable_def BhChannelsToBeSetupItem_sound)

lemma BhChannelsToBeSetupList_sound [sound_simps]: "wf_bh_channels_to_be_setup_list L x \<Longrightarrow> sound (BhChannelsToBeSetupList_codec L) x"
  unfolding BhChannelsToBeSetupList_codec_def wf_bh_channels_to_be_setup_list_def by (rule sound_named) (simp add: wf_simps sound_simps encodable_simps)

lemma BhChannelsToBeSetupList_encodable [encodable_simps]: "open_ok (wf_bh_channels_to_be_setup_list L) (BhChannelsToBeSetupList_codec L) x \<Longrightarrow> encodable (BhChannelsToBeSetupList_codec L) x"
  by (simp add: open_ok_def encodable_def BhChannelsToBeSetupList_sound)

lemma VehicleUe_encodable [encodable_simps]: "encodable (VehicleUe_codec L) x"
  by (cases x) (simp_all add: VehicleUe_codec_def encodable_enum)

lemmas VehicleUe_sound [sound_simps] = VehicleUe_encodable [THEN encodable_sound]

lemma PedestrianUe_encodable [encodable_simps]: "encodable (PedestrianUe_codec L) x"
  by (cases x) (simp_all add: PedestrianUe_codec_def encodable_enum)

lemmas PedestrianUe_sound [sound_simps] = PedestrianUe_encodable [THEN encodable_sound]

lemma NrV2xServicesAuthorized_sound [sound_simps]: "sound (NrV2xServicesAuthorized_codec L) x"
  unfolding NrV2xServicesAuthorized_codec_def
  by (rule sound_impl, intro coded_header coded_field coded_optional_field coded_no_extensions)
    (simp_all add: sound_simps encodable_simps)

lemma NrV2xServicesAuthorized_encodable [encodable_simps]: "fits (NrV2xServicesAuthorized_codec L) x \<Longrightarrow> encodable (NrV2xServicesAuthorized_codec L) x"
  by (simp add: encodable_def NrV2xServicesAuthorized_sound)

lemma Ltev2xServicesAuthorized_sound [sound_simps]: "sound (Ltev2xServicesAuthorized_codec L) x"
  unfolding Ltev2xServicesAuthorized_codec_def
  by (rule sound_impl, intro coded_header coded_field coded_optional_field coded_no_extensions)
    (simp_all add: sound_simps encodable_simps)

lemma Ltev2xServicesAuthorized_encodable [encodable_simps]: "fits (Ltev2xServicesAuthorized_codec L) x \<Longrightarrow> encodable (Ltev2xServicesAuthorized_codec L) x"
  by (simp add: encodable_def Ltev2xServicesAuthorized_sound)

lemma NrUeSidelinkAggregateMaximumBitrate_sound [sound_simps]: "wf_nr_ue_sidelink_aggregate_maximum_bitrate x \<Longrightarrow> sound (NrUeSidelinkAggregateMaximumBitrate_codec L) x"
  unfolding NrUeSidelinkAggregateMaximumBitrate_codec_def wf_nr_ue_sidelink_aggregate_maximum_bitrate_def
  by (rule sound_impl, intro coded_header coded_field coded_optional_field coded_no_extensions)
    (simp_all add: wf_simps sound_simps encodable_simps)

lemma NrUeSidelinkAggregateMaximumBitrate_encodable [encodable_simps]: "open_ok wf_nr_ue_sidelink_aggregate_maximum_bitrate (NrUeSidelinkAggregateMaximumBitrate_codec L) x \<Longrightarrow> encodable (NrUeSidelinkAggregateMaximumBitrate_codec L) x"
  by (simp add: open_ok_def encodable_def NrUeSidelinkAggregateMaximumBitrate_sound)

lemma LteUeSidelinkAggregateMaximumBitrate_sound [sound_simps]: "wf_lte_ue_sidelink_aggregate_maximum_bitrate x \<Longrightarrow> sound (LteUeSidelinkAggregateMaximumBitrate_codec L) x"
  unfolding LteUeSidelinkAggregateMaximumBitrate_codec_def wf_lte_ue_sidelink_aggregate_maximum_bitrate_def
  by (rule sound_impl, intro coded_header coded_field coded_optional_field coded_no_extensions)
    (simp_all add: wf_simps sound_simps encodable_simps)

lemma LteUeSidelinkAggregateMaximumBitrate_encodable [encodable_simps]: "open_ok wf_lte_ue_sidelink_aggregate_maximum_bitrate (LteUeSidelinkAggregateMaximumBitrate_codec L) x \<Longrightarrow> encodable (LteUeSidelinkAggregateMaximumBitrate_codec L) x"
  by (simp add: open_ok_def encodable_def LteUeSidelinkAggregateMaximumBitrate_sound)

lemma SlDrbId_encodable [encodable_simps]: "wf_sl_drb_id x \<Longrightarrow> encodable (SlDrbId_codec L) x"
  by (simp add: SlDrbId_codec_def wf_sl_drb_id_def encodable_simps)

lemmas SlDrbId_sound [sound_simps] = SlDrbId_encodable [THEN encodable_sound]

lemma NonDynamicPqiDescriptor_sound [sound_simps]: "wf_non_dynamic_pqi_descriptor x \<Longrightarrow> sound (NonDynamicPqiDescriptor_codec L) x"
  unfolding NonDynamicPqiDescriptor_codec_def wf_non_dynamic_pqi_descriptor_def
  by (rule sound_impl, intro coded_header coded_field coded_optional_field coded_no_extensions)
    (simp_all add: wf_simps sound_simps encodable_simps)

lemma ResourceType1_encodable [encodable_simps]: "encodable (ResourceType1_codec L) x"
  by (cases x) (simp_all add: ResourceType1_codec_def encodable_enum)

lemmas ResourceType1_sound [sound_simps] = ResourceType1_encodable [THEN encodable_sound]

lemma DynamicPqiDescriptor_sound [sound_simps]: "wf_dynamic_pqi_descriptor x \<Longrightarrow> sound (DynamicPqiDescriptor_codec L) x"
  unfolding DynamicPqiDescriptor_codec_def wf_dynamic_pqi_descriptor_def
  by (rule sound_impl, intro coded_header coded_field coded_optional_field coded_no_extensions)
    (simp_all add: wf_simps sound_simps encodable_simps)

lemma Pc5QosCharacteristics_sound [sound_simps]: "wf_pc5_qos_characteristics x \<Longrightarrow> sound (Pc5QosCharacteristics_codec L) x"
  unfolding Pc5QosCharacteristics_codec_def wf_pc5_qos_characteristics_def
  by (rule sound_impl; cases x; simp only: pc5_qos_characteristics.case; rule coded_choice coded_choice_unit; simp add: wf_simps sound_simps encodable_simps)

lemma Pc5FlowBitRates_sound [sound_simps]: "wf_pc5_flow_bit_rates x \<Longrightarrow> sound (Pc5FlowBitRates_codec L) x"
  unfolding Pc5FlowBitRates_codec_def wf_pc5_flow_bit_rates_def
  by (rule sound_impl, intro coded_header coded_field coded_optional_field coded_no_extensions)
    (simp_all add: wf_simps sound_simps encodable_simps)

lemma Pc5QosParameters_sound [sound_simps]: "wf_pc5_qos_parameters x \<Longrightarrow> sound (Pc5QosParameters_codec L) x"
  unfolding Pc5QosParameters_codec_def wf_pc5_qos_parameters_def
  by (rule sound_impl, intro coded_header coded_field coded_optional_field coded_no_extensions)
    (simp_all add: wf_simps sound_simps encodable_simps)

lemma Pc5QosFlowIdentifier_encodable [encodable_simps]: "wf_pc5_qos_flow_identifier x \<Longrightarrow> encodable (Pc5QosFlowIdentifier_codec L) x"
  by (simp add: Pc5QosFlowIdentifier_codec_def wf_pc5_qos_flow_identifier_def encodable_simps)

lemmas Pc5QosFlowIdentifier_sound [sound_simps] = Pc5QosFlowIdentifier_encodable [THEN encodable_sound]

lemma FlowsMappedToSlDrbItem_sound [sound_simps]: "wf_flows_mapped_to_sl_drb_item x \<Longrightarrow> sound (FlowsMappedToSlDrbItem_codec L) x"
  unfolding FlowsMappedToSlDrbItem_codec_def wf_flows_mapped_to_sl_drb_item_def
  by (rule sound_impl, intro coded_header coded_field coded_optional_field coded_no_extensions)
    (simp_all add: wf_simps sound_simps encodable_simps)

lemma FlowsMappedToSlDrbList_sound [sound_simps]: "wf_flows_mapped_to_sl_drb_list x \<Longrightarrow> sound (FlowsMappedToSlDrbList_codec L) x"
  unfolding FlowsMappedToSlDrbList_codec_def wf_flows_mapped_to_sl_drb_list_def by (rule sound_named) (simp add: wf_simps sound_simps encodable_simps)

lemma SlDrbInformation_sound [sound_simps]: "wf_sl_drb_information x \<Longrightarrow> sound (SlDrbInformation_codec L) x"
  unfolding SlDrbInformation_codec_def wf_sl_drb_information_def
  by (rule sound_impl, intro coded_header coded_field coded_optional_field coded_fields_end)
    (simp_all add: wf_simps sound_simps encodable_simps)

lemma SlDrbsToBeSetupItem_sound [sound_simps]: "wf_sl_drbs_to_be_setup_item x \<Longrightarrow> sound (SlDrbsToBeSetupItem_codec L) x"
  unfolding SlDrbsToBeSetupItem_codec_def wf_sl_drbs_to_be_setup_item_def
  by (rule sound_impl, intro coded_header coded_field coded_optional_field coded_no_extensions)
    (simp_all add: wf_simps sound_simps encodable_simps)

lemma SlDrbsToBeSetupItem_encodable [encodable_simps]: "open_ok wf_sl_drbs_to_be_setup_item (SlDrbsToBeSetupItem_codec L) x \<Longrightarrow> encodable (SlDrbsToBeSetupItem_codec L) x"
  by (simp add: open_ok_def encodable_def SlDrbsToBeSetupItem_sound)

lemma SlDrbsToBeSetupList_sound [sound_simps]: "wf_sl_drbs_to_be_setup_list L x \<Longrightarrow> sound (SlDrbsToBeSetupList_codec L) x"
  unfolding SlDrbsToBeSetupList_codec_def wf_sl_drbs_to_be_setup_list_def by (rule sound_named) (simp add: wf_simps sound_simps encodable_simps)

lemma SlDrbsToBeSetupList_encodable [encodable_simps]: "open_ok (wf_sl_drbs_to_be_setup_list L) (SlDrbsToBeSetupList_codec L) x \<Longrightarrow> encodable (SlDrbsToBeSetupList_codec L) x"
  by (simp add: open_ok_def encodable_def SlDrbsToBeSetupList_sound)

lemma ChOtriggerInterDu_encodable [encodable_simps]: "encodable (ChOtriggerInterDu_codec L) x"
  by (cases x) (simp_all add: ChOtriggerInterDu_codec_def encodable_enum)

lemmas ChOtriggerInterDu_sound [sound_simps] = ChOtriggerInterDu_encodable [THEN encodable_sound]

lemma ChoProbability_encodable [encodable_simps]: "wf_cho_probability x \<Longrightarrow> encodable (ChoProbability_codec L) x"
  by (simp add: ChoProbability_codec_def wf_cho_probability_def encodable_simps)

lemmas ChoProbability_sound [sound_simps] = ChoProbability_encodable [THEN encodable_sound]

lemma ConditionalInterDuMobilityInformation_sound [sound_simps]: "wf_conditional_inter_du_mobility_information x \<Longrightarrow> sound (ConditionalInterDuMobilityInformation_codec L) x"
  unfolding ConditionalInterDuMobilityInformation_codec_def wf_conditional_inter_du_mobility_information_def
  by (rule sound_impl, rule coded_with_extensions,
      (intro coded_header coded_field coded_optional_field; (erule coded_extends; simp | simp add: wf_simps sound_simps encodable_simps)),
      (rule carried_append | (rule carried_opt_encodable, simp, simp add: wf_simps encodable_simps, simp, simp))+)
    simp_all

lemma ConditionalInterDuMobilityInformation_encodable [encodable_simps]: "open_ok wf_conditional_inter_du_mobility_information (ConditionalInterDuMobilityInformation_codec L) x \<Longrightarrow> encodable (ConditionalInterDuMobilityInformation_codec L) x"
  by (simp add: open_ok_def encodable_def ConditionalInterDuMobilityInformation_sound)

lemma MdtPlmnList_sound [sound_simps]: "wf_mdt_plmn_list x \<Longrightarrow> sound (MdtPlmnList_codec L) x"
  unfolding MdtPlmnList_codec_def wf_mdt_plmn_list_def by (rule sound_named) (simp add: wf_simps sound_simps encodable_simps)

lemma MdtPlmnList_encodable [encodable_simps]: "open_ok wf_mdt_plmn_list (MdtPlmnList_codec L) x \<Longrightarrow> encodable (MdtPlmnList_codec L) x"
  by (simp add: open_ok_def encodable_def MdtPlmnList_sound)

lemma F1cPathNsa_encodable [encodable_simps]: "encodable (F1cPathNsa_codec L) x"
  by (cases x) (simp_all add: F1cPathNsa_codec_def encodable_enum)

lemmas F1cPathNsa_sound [sound_simps] = F1cPathNsa_encodable [THEN encodable_sound]

lemma F1cTransferPath_sound [sound_simps]: "sound (F1cTransferPath_codec L) x"
  unfolding F1cTransferPath_codec_def
  by (rule sound_impl, intro coded_header coded_field coded_optional_field coded_no_extensions)
    (simp_all add: sound_simps encodable_simps)

lemma F1cTransferPath_encodable [encodable_simps]: "fits (F1cTransferPath_codec L) x \<Longrightarrow> encodable (F1cTransferPath_codec L) x"
  by (simp add: encodable_def F1cTransferPath_sound)

lemma MeasGapConfig_encodable [encodable_simps]: "wf_meas_gap_config x \<Longrightarrow> encodable (MeasGapConfig_codec L) x"
  by (simp add: MeasGapConfig_codec_def wf_meas_gap_config_def encodable_simps)

lemmas MeasGapConfig_sound [sound_simps] = MeasGapConfig_encodable [THEN encodable_sound]

lemma DrxLongCycleStartOffset_encodable [encodable_simps]: "wf_drx_long_cycle_start_offset x \<Longrightarrow> encodable (DrxLongCycleStartOffset_codec L) x"
  by (simp add: DrxLongCycleStartOffset_codec_def wf_drx_long_cycle_start_offset_def encodable_simps)

lemmas DrxLongCycleStartOffset_sound [sound_simps] = DrxLongCycleStartOffset_encodable [THEN encodable_sound]

lemma SelectedBandCombinationIndex_encodable [encodable_simps]: "wf_selected_band_combination_index x \<Longrightarrow> encodable (SelectedBandCombinationIndex_codec L) x"
  by (simp add: SelectedBandCombinationIndex_codec_def wf_selected_band_combination_index_def encodable_simps)

lemmas SelectedBandCombinationIndex_sound [sound_simps] = SelectedBandCombinationIndex_encodable [THEN encodable_sound]

lemma SelectedFeatureSetEntryIndex_encodable [encodable_simps]: "wf_selected_feature_set_entry_index x \<Longrightarrow> encodable (SelectedFeatureSetEntryIndex_codec L) x"
  by (simp add: SelectedFeatureSetEntryIndex_codec_def wf_selected_feature_set_entry_index_def encodable_simps)

lemmas SelectedFeatureSetEntryIndex_sound [sound_simps] = SelectedFeatureSetEntryIndex_encodable [THEN encodable_sound]

lemma PhInfoScg_encodable [encodable_simps]: "wf_ph_info_scg x \<Longrightarrow> encodable (PhInfoScg_codec L) x"
  by (simp add: PhInfoScg_codec_def wf_ph_info_scg_def encodable_simps)

lemmas PhInfoScg_sound [sound_simps] = PhInfoScg_encodable [THEN encodable_sound]

lemma RequestedBandCombinationIndex_encodable [encodable_simps]: "wf_requested_band_combination_index x \<Longrightarrow> encodable (RequestedBandCombinationIndex_codec L) x"
  by (simp add: RequestedBandCombinationIndex_codec_def wf_requested_band_combination_index_def encodable_simps)

lemmas RequestedBandCombinationIndex_sound [sound_simps] = RequestedBandCombinationIndex_encodable [THEN encodable_sound]

lemma RequestedFeatureSetEntryIndex_encodable [encodable_simps]: "wf_requested_feature_set_entry_index x \<Longrightarrow> encodable (RequestedFeatureSetEntryIndex_codec L) x"
  by (simp add: RequestedFeatureSetEntryIndex_codec_def wf_requested_feature_set_entry_index_def encodable_simps)

lemmas RequestedFeatureSetEntryIndex_sound [sound_simps] = RequestedFeatureSetEntryIndex_encodable [THEN encodable_sound]

lemma DrxConfig_encodable [encodable_simps]: "wf_drx_config x \<Longrightarrow> encodable (DrxConfig_codec L) x"
  by (simp add: DrxConfig_codec_def wf_drx_config_def encodable_simps)

lemmas DrxConfig_sound [sound_simps] = DrxConfig_encodable [THEN encodable_sound]

lemma PdcchBlindDetectionScg_encodable [encodable_simps]: "wf_pdcch_blind_detection_scg x \<Longrightarrow> encodable (PdcchBlindDetectionScg_codec L) x"
  by (simp add: PdcchBlindDetectionScg_codec_def wf_pdcch_blind_detection_scg_def encodable_simps)

lemmas PdcchBlindDetectionScg_sound [sound_simps] = PdcchBlindDetectionScg_encodable [THEN encodable_sound]

lemma RequestedPdcchBlindDetectionScg_encodable [encodable_simps]: "wf_requested_pdcch_blind_detection_scg x \<Longrightarrow> encodable (RequestedPdcchBlindDetectionScg_codec L) x"
  by (simp add: RequestedPdcchBlindDetectionScg_codec_def wf_requested_pdcch_blind_detection_scg_def encodable_simps)

lemmas RequestedPdcchBlindDetectionScg_sound [sound_simps] = RequestedPdcchBlindDetectionScg_encodable [THEN encodable_sound]

lemma PhInfoMcg_encodable [encodable_simps]: "wf_ph_info_mcg x \<Longrightarrow> encodable (PhInfoMcg_codec L) x"
  by (simp add: PhInfoMcg_codec_def wf_ph_info_mcg_def encodable_simps)

lemmas PhInfoMcg_sound [sound_simps] = PhInfoMcg_encodable [THEN encodable_sound]

lemma MeasGapSharingConfig_encodable [encodable_simps]: "wf_meas_gap_sharing_config x \<Longrightarrow> encodable (MeasGapSharingConfig_codec L) x"
  by (simp add: MeasGapSharingConfig_codec_def wf_meas_gap_sharing_config_def encodable_simps)

lemmas MeasGapSharingConfig_sound [sound_simps] = MeasGapSharingConfig_encodable [THEN encodable_sound]

lemma SlPhyMacRlcConfig_encodable [encodable_simps]: "wf_sl_phy_mac_rlc_config x \<Longrightarrow> encodable (SlPhyMacRlcConfig_codec L) x"
  by (simp add: SlPhyMacRlcConfig_codec_def wf_sl_phy_mac_rlc_config_def encodable_simps)

lemmas SlPhyMacRlcConfig_sound [sound_simps] = SlPhyMacRlcConfig_encodable [THEN encodable_sound]

lemma SlConfigDedicatedEutraInfo_encodable [encodable_simps]: "wf_sl_config_dedicated_eutra_info x \<Longrightarrow> encodable (SlConfigDedicatedEutraInfo_codec L) x"
  by (simp add: SlConfigDedicatedEutraInfo_codec_def wf_sl_config_dedicated_eutra_info_def encodable_simps)

lemmas SlConfigDedicatedEutraInfo_sound [sound_simps] = SlConfigDedicatedEutraInfo_encodable [THEN encodable_sound]

lemma RequestedPMaxFr2_encodable [encodable_simps]: "wf_requested_p_max_fr2 x \<Longrightarrow> encodable (RequestedPMaxFr2_codec L) x"
  by (simp add: RequestedPMaxFr2_codec_def wf_requested_p_max_fr2_def encodable_simps)

lemmas RequestedPMaxFr2_sound [sound_simps] = RequestedPMaxFr2_encodable [THEN encodable_sound]

lemma DuToCuRrcInformation_sound [sound_simps]: "wf_du_to_cu_rrc_information x \<Longrightarrow> sound (DuToCuRrcInformation_codec L) x"
  unfolding DuToCuRrcInformation_codec_def wf_du_to_cu_rrc_information_def
  by (rule sound_impl, unfold DuToCuRrcInformation_decode_inner_def DuToCuRrcInformation_encode_inner_def, rule coded_with_extensions,
      (intro coded_header coded_field coded_optional_field; (erule coded_extends; simp | simp add: wf_simps sound_simps encodable_simps)),
      (rule carried_append | (rule carried_opt_encodable, simp, simp add: wf_simps encodable_simps, simp, simp))+)
    simp_all

lemma DuToCuRrcInformation_encodable [encodable_simps]: "open_ok wf_du_to_cu_rrc_information (DuToCuRrcInformation_codec L) x \<Longrightarrow> encodable (DuToCuRrcInformation_codec L) x"
  by (simp add: open_ok_def encodable_def DuToCuRrcInformation_sound)

lemma FullConfiguration_encodable [encodable_simps]: "encodable (FullConfiguration_codec L) x"
  by (cases x) (simp_all add: FullConfiguration_codec_def encodable_enum)

lemmas FullConfiguration_sound [sound_simps] = FullConfiguration_encodable [THEN encodable_sound]

lemma Lcid_encodable [encodable_simps]: "wf_lcid x \<Longrightarrow> encodable (Lcid_codec L) x"
  by (simp add: Lcid_codec_def wf_lcid_def encodable_simps)

lemmas Lcid_sound [sound_simps] = Lcid_encodable [THEN encodable_sound]

lemma DlUpTnlInformationToBeSetupItem_sound [sound_simps]: "wf_dl_up_tnl_information_to_be_setup_item x \<Longrightarrow> sound (DlUpTnlInformationToBeSetupItem_codec L) x"
  unfolding DlUpTnlInformationToBeSetupItem_codec_def wf_dl_up_tnl_information_to_be_setup_item_def
  by (rule sound_impl, intro coded_header coded_field coded_optional_field coded_no_extensions)
    (simp_all add: wf_simps sound_simps encodable_simps)

lemma DlUpTnlInformationToBeSetupList_sound [sound_simps]: "wf_dl_up_tnl_information_to_be_setup_list x \<Longrightarrow> sound (DlUpTnlInformationToBeSetupList_codec L) x"
  unfolding DlUpTnlInformationToBeSetupList_codec_def wf_dl_up_tnl_information_to_be_setup_list_def by (rule sound_named) (simp add: wf_simps sound_simps encodable_simps)

lemma DrbsSetupItem_sound [sound_simps]: "wf_drbs_setup_item L x \<Longrightarrow> sound (DrbsSetupItem_codec L) x"
  unfolding DrbsSetupItem_codec_def wf_drbs_setup_item_def
  by (rule sound_impl, rule coded_with_extensions,
      (intro coded_header coded_field coded_optional_field; (erule coded_extends; simp | simp add: wf_simps sound_simps encodable_simps)),
      (rule carried_append | (rule carried_opt_encodable, simp, simp add: wf_simps encodable_simps, simp, simp))+)
    simp_all

lemma DrbsSetupItem_encodable [encodable_simps]: "open_ok (wf_drbs_setup_item L) (DrbsSetupItem_codec L) x \<Longrightarrow> encodable (DrbsSetupItem_codec L) x"
  by (simp add: open_ok_def encodable_def DrbsSetupItem_sound)

lemma DrbsSetupList_sound [sound_simps]: "wf_drbs_setup_list L x \<Longrightarrow> sound (DrbsSetupList_codec L) x"
  unfolding DrbsSetupList_codec_def wf_drbs_setup_list_def by (rule sound_named) (simp add: wf_simps sound_simps encodable_simps)

lemma DrbsSetupList_encodable [encodable_simps]: "open_ok (wf_drbs_setup_list L) (DrbsSetupList_codec L) x \<Longrightarrow> encodable (DrbsSetupList_codec L) x"
  by (simp add: open_ok_def encodable_def DrbsSetupList_sound)

lemma SrbsFailedToBeSetupItem_sound [sound_simps]: "wf_srbs_failed_to_be_setup_item x \<Longrightarrow> sound (SrbsFailedToBeSetupItem_codec L) x"
  unfolding SrbsFailedToBeSetupItem_codec_def wf_srbs_failed_to_be_setup_item_def
  by (rule sound_impl, intro coded_header coded_field coded_optional_field coded_no_extensions)
    (simp_all add: wf_simps sound_simps encodable_simps)

lemma SrbsFailedToBeSetupItem_encodable [encodable_simps]: "open_ok wf_srbs_failed_to_be_setup_item (SrbsFailedToBeSetupItem_codec L) x \<Longrightarrow> encodable (SrbsFailedToBeSetupItem_codec L) x"
  by (simp add: open_ok_def encodable_def SrbsFailedToBeSetupItem_sound)

lemma SrbsFailedToBeSetupList_sound [sound_simps]: "wf_srbs_failed_to_be_setup_list L x \<Longrightarrow> sound (SrbsFailedToBeSetupList_codec L) x"
  unfolding SrbsFailedToBeSetupList_codec_def wf_srbs_failed_to_be_setup_list_def by (rule sound_named) (simp add: wf_simps sound_simps encodable_simps)

lemma SrbsFailedToBeSetupList_encodable [encodable_simps]: "open_ok (wf_srbs_failed_to_be_setup_list L) (SrbsFailedToBeSetupList_codec L) x \<Longrightarrow> encodable (SrbsFailedToBeSetupList_codec L) x"
  by (simp add: open_ok_def encodable_def SrbsFailedToBeSetupList_sound)

lemma DrbsFailedToBeSetupItem_sound [sound_simps]: "wf_drbs_failed_to_be_setup_item x \<Longrightarrow> sound (DrbsFailedToBeSetupItem_codec L) x"
  unfolding DrbsFailedToBeSetupItem_codec_def wf_drbs_failed_to_be_setup_item_def
  by (rule sound_impl, intro coded_header coded_field coded_optional_field coded_no_extensions)
    (simp_all add: wf_simps sound_simps encodable_simps)

lemma DrbsFailedToBeSetupItem_encodable [encodable_simps]: "open_ok wf_drbs_failed_to_be_setup_item (DrbsFailedToBeSetupItem_codec L) x \<Longrightarrow> encodable (DrbsFailedToBeSetupItem_codec L) x"
  by (simp add: open_ok_def encodable_def DrbsFailedToBeSetupItem_sound)

lemma DrbsFailedToBeSetupList_sound [sound_simps]: "wf_drbs_failed_to_be_setup_list L x \<Longrightarrow> sound (DrbsFailedToBeSetupList_codec L) x"
  unfolding DrbsFailedToBeSetupList_codec_def wf_drbs_failed_to_be_setup_list_def by (rule sound_named) (simp add: wf_simps sound_simps encodable_simps)

lemma DrbsFailedToBeSetupList_encodable [encodable_simps]: "open_ok (wf_drbs_failed_to_be_setup_list L) (DrbsFailedToBeSetupList_codec L) x \<Longrightarrow> encodable (DrbsFailedToBeSetupList_codec L) x"
  by (simp add: open_ok_def encodable_def DrbsFailedToBeSetupList_sound)

lemma SCellFailedtoSetupItem_sound [sound_simps]: "wf_s_cell_failedto_setup_item x \<Longrightarrow> sound (SCellFailedtoSetupItem_codec L) x"
  unfolding SCellFailedtoSetupItem_codec_def wf_s_cell_failedto_setup_item_def
  by (rule sound_impl, intro coded_header coded_field coded_optional_field coded_no_extensions)
    (simp_all add: wf_simps sound_simps encodable_simps)

lemma SCellFailedtoSetupItem_encodable [encodable_simps]: "open_ok wf_s_cell_failedto_setup_item (SCellFailedtoSetupItem_codec L) x \<Longrightarrow> encodable (SCellFailedtoSetupItem_codec L) x"
  by (simp add: open_ok_def encodable_def SCellFailedtoSetupItem_sound)

lemma SCellFailedtoSetupList_sound [sound_simps]: "wf_s_cell_failedto_setup_list L x \<Longrightarrow> sound (SCellFailedtoSetupList_codec L) x"
  unfolding SCellFailedtoSetupList_codec_def wf_s_cell_failedto_setup_list_def by (rule sound_named) (simp add: wf_simps sound_simps encodable_simps)

lemma SCellFailedtoSetupList_encodable [encodable_simps]: "open_ok (wf_s_cell_failedto_setup_list L) (SCellFailedtoSetupList_codec L) x \<Longrightarrow> encodable (SCellFailedtoSetupList_codec L) x"
  by (simp add: open_ok_def encodable_def SCellFailedtoSetupList_sound)

lemma InactivityMonitoringResponse_encodable [encodable_simps]: "encodable (InactivityMonitoringResponse_codec L) x"
  by (cases x) (simp_all add: InactivityMonitoringResponse_codec_def encodable_enum)

lemmas InactivityMonitoringResponse_sound [sound_simps] = InactivityMonitoringResponse_encodable [THEN encodable_sound]

lemma SrbsSetupItem_sound [sound_simps]: "wf_srbs_setup_item x \<Longrightarrow> sound (SrbsSetupItem_codec L) x"
  unfolding SrbsSetupItem_codec_def wf_srbs_setup_item_def
  by (rule sound_impl, intro coded_header coded_field coded_optional_field coded_no_extensions)
    (simp_all add: wf_simps sound_simps encodable_simps)

lemma SrbsSetupItem_encodable [encodable_simps]: "open_ok wf_srbs_setup_item (SrbsSetupItem_codec L) x \<Longrightarrow> encodable (SrbsSetupItem_codec L) x"
  by (simp add: open_ok_def encodable_def SrbsSetupItem_sound)

lemma SrbsSetupList_sound [sound_simps]: "wf_srbs_setup_list L x \<Longrightarrow> sound (SrbsSetupList_codec L) x"
  unfolding SrbsSetupList_codec_def wf_srbs_setup_list_def by (rule sound_named) (simp add: wf_simps sound_simps encodable_simps)

lemma SrbsSetupList_encodable [encodable_simps]: "open_ok (wf_srbs_setup_list L) (SrbsSetupList_codec L) x \<Longrightarrow> encodable (SrbsSetupList_codec L) x"
  by (simp add: open_ok_def encodable_def SrbsSetupList_sound)

lemma BhChannelsSetupItem_sound [sound_simps]: "wf_bh_channels_setup_item x \<Longrightarrow> sound (BhChannelsSetupItem_codec L) x"
  unfolding BhChannelsSetupItem_codec_def wf_bh_channels_setup_item_def
  by (rule sound_impl, intro coded_header coded_field coded_optional_field coded_no_extensions)
    (simp_all add: wf_simps sound_simps encodable_simps)

lemma BhChannelsSetupItem_encodable [encodable_simps]: "open_ok wf_bh_channels_setup_item (BhChannelsSetupItem_codec L) x \<Longrightarrow> encodable (BhChannelsSetupItem_codec L) x"
  by (simp add: open_ok_def encodable_def BhChannelsSetupItem_sound)

lemma BhChannelsSetupList_sound [sound_simps]: "wf_bh_channels_setup_list L x \<Longrightarrow> sound (BhChannelsSetupList_codec L) x"
  unfolding BhChannelsSetupList_codec_def wf_bh_channels_setup_list_def by (rule sound_named) (simp add: wf_simps sound_simps encodable_simps)

lemma BhChannelsSetupList_encodable [encodable_simps]: "open_ok (wf_bh_channels_setup_list L) (BhChannelsSetupList_codec L) x \<Longrightarrow> encodable (BhChannelsSetupList_codec L) x"
  by (simp add: open_ok_def encodable_def BhChannelsSetupList_sound)

lemma BhChannelsFailedToBeSetupItem_sound [sound_simps]: "wf_bh_channels_failed_to_be_setup_item x \<Longrightarrow> sound (BhChannelsFailedToBeSetupItem_codec L) x"
  unfolding BhChannelsFailedToBeSetupItem_codec_def wf_bh_channels_failed_to_be_setup_item_def
  by (rule sound_impl, intro coded_header coded_field coded_optional_field coded_no_extensions)
    (simp_all add: wf_simps sound_simps encodable_simps)

lemma BhChannelsFailedToBeSetupItem_encodable [encodable_simps]: "open_ok wf_bh_channels_failed_to_be_setup_item (BhChannelsFailedToBeSetupItem_codec L) x \<Longrightarrow> encodable (BhChannelsFailedToBeSetupItem_codec L) x"
  by (simp add: open_ok_def encodable_def BhChannelsFailedToBeSetupItem_sound)

lemma BhChannelsFailedToBeSetupList_sound [sound_simps]: "wf_bh_channels_failed_to_be_setup_list L x \<Longrightarrow> sound (BhChannelsFailedToBeSetupList_codec L) x"
  unfolding BhChannelsFailedToBeSetupList_codec_def wf_bh_channels_failed_to_be_setup_list_def by (rule sound_named) (simp add: wf_simps sound_simps encodable_simps)

lemma BhChannelsFailedToBeSetupList_encodable [encodable_simps]: "open_ok (wf_bh_channels_failed_to_be_setup_list L) (BhChannelsFailedToBeSetupList_codec L) x \<Longrightarrow> encodable (BhChannelsFailedToBeSetupList_codec L) x"
  by (simp add: open_ok_def encodable_def BhChannelsFailedToBeSetupList_sound)

lemma SlDrbsSetupItem_sound [sound_simps]: "wf_sl_drbs_setup_item x \<Longrightarrow> sound (SlDrbsSetupItem_codec L) x"
  unfolding SlDrbsSetupItem_codec_def wf_sl_drbs_setup_item_def
  by (rule sound_impl, intro coded_header coded_field coded_optional_field coded_no_extensions)
    (simp_all add: wf_simps sound_simps encodable_simps)

lemma SlDrbsSetupItem_encodable [encodable_simps]: "open_ok wf_sl_drbs_setup_item (SlDrbsSetupItem_codec L) x \<Longrightarrow> encodable (SlDrbsSetupItem_codec L) x"
  by (simp add: open_ok_def encodable_def SlDrbsSetupItem_sound)

lemma SlDrbsSetupList_sound [sound_simps]: "wf_sl_drbs_setup_list L x \<Longrightarrow> sound (SlDrbsSetupList_codec L) x"
  unfolding SlDrbsSetupList_codec_def wf_sl_drbs_setup_list_def by (rule sound_named) (simp add: wf_simps sound_simps encodable_simps)

lemma SlDrbsSetupList_encodable [encodable_simps]: "open_ok (wf_sl_drbs_setup_list L) (SlDrbsSetupList_codec L) x \<Longrightarrow> encodable (SlDrbsSetupList_codec L) x"
  by (simp add: open_ok_def encodable_def SlDrbsSetupList_sound)

lemma SlDrbsFailedToBeSetupItem_sound [sound_simps]: "wf_sl_drbs_failed_to_be_setup_item x \<Longrightarrow> sound (SlDrbsFailedToBeSetupItem_codec L) x"
  unfolding SlDrbsFailedToBeSetupItem_codec_def wf_sl_drbs_failed_to_be_setup_item_def
  by (rule sound_impl, intro coded_header coded_field coded_optional_field coded_no_extensions)
    (simp_all add: wf_simps sound_simps encodable_simps)

lemma SlDrbsFailedToBeSetupItem_encodable [encodable_simps]: "open_ok wf_sl_drbs_failed_to_be_setup_item (SlDrbsFailedToBeSetupItem_codec L) x \<Longrightarrow> encodable (SlDrbsFailedToBeSetupItem_codec L) x"
  by (simp add: open_ok_def encodable_def SlDrbsFailedToBeSetupItem_sound)

lemma SlDrbsFailedToBeSetupList_sound [sound_simps]: "wf_sl_drbs_failed_to_be_setup_list L x \<Longrightarrow> sound (SlDrbsFailedToBeSetupList_codec L) x"
  unfolding SlDrbsFailedToBeSetupList_codec_def wf_sl_drbs_failed_to_be_setup_list_def by (rule sound_named) (simp add: wf_simps sound_simps encodable_simps)

lemma SlDrbsFailedToBeSetupList_encodable [encodable_simps]: "open_ok (wf_sl_drbs_failed_to_be_setup_list L) (SlDrbsFailedToBeSetupList_codec L) x \<Longrightarrow> encodable (SlDrbsFailedToBeSetupList_codec L) x"
  by (simp add: open_ok_def encodable_def SlDrbsFailedToBeSetupList_sound)

end

end
