(* ===== verification/F1ap_Context_Codec.thy ===== *)
theory F1ap_Context_Codec
  imports F1ap_Context_Ies
begin

text \<open>
  The aligned PER codecs of the messages of UE context setup (\<open>5g-libs/f1ap/src/pdu.rs\<close>):
  which information elements, in which order, with which id and criticality, and that every well-formed
  message is read back.
\<close>

section \<open>Codecs\<close>

text \<open>The local variables of \<open>UeContextSetupRequest::decode_inner\<close>.\<close>

record csr_locals =
  lcsr_gnb_cu_ue_f1ap_id :: "u32 option"
  lcsr_gnb_du_ue_f1ap_id :: "u32 option"
  lcsr_sp_cell_id :: "nr_cgi option"
  lcsr_serv_cell_index :: "serv_cell_index option"
  lcsr_sp_cell_ul_configured :: "cell_ul_configured option"
  lcsr_cu_to_du_rrc_information :: "cu_to_du_rrc_information option"
  lcsr_candidate_sp_cell_list :: "candidate_sp_cell_list option"
  lcsr_drx_cycle :: "drx_cycle option"
  lcsr_resource_coordination_transfer_container :: "resource_coordination_transfer_container option"
  lcsr_s_cell_to_be_setup_list :: "s_cell_to_be_setup_list option"
  lcsr_srbs_to_be_setup_list :: "srbs_to_be_setup_list option"
  lcsr_drbs_to_be_setup_list :: "drbs_to_be_setup_list option"
  lcsr_inactivity_monitoring_request :: "inactivity_monitoring_request option"
  lcsr_rat_frequency_priority_information :: "rat_frequency_priority_information option"
  lcsr_rrc_container :: "bytes option"
  lcsr_masked_imeisv :: "masked_imeisv option"
  lcsr_serving_plmn :: "bytes option"
  lcsr_gnb_du_ue_ambr_ul :: "bit_rate option"
  lcsr_rrc_delivery_status_request :: "rrc_delivery_status_request option"
  lcsr_resource_coordination_transfer_information :: "resource_coordination_transfer_information option"
  lcsr_serving_cell_mo :: "serving_cell_mo option"
  lcsr_new_gnb_cu_ue_f1ap_id :: "u32 option"
  lcsr_ran_ue_id :: "bytes option"
  lcsr_trace_activation :: "trace_activation option"
  lcsr_additional_rrm_priority_index :: "bits option"
  lcsr_bh_channels_to_be_setup_list :: "bh_channels_to_be_setup_list option"
  lcsr_configured_bap_address :: "bap_address option"
  lcsr_nr_v2x_services_authorized :: "nr_v2x_services_authorized option"
  lcsr_ltev2x_services_authorized :: "ltev2x_services_authorized option"
  lcsr_nr_ue_sidelink_aggregate_maximum_bitrate :: "nr_ue_sidelink_aggregate_maximum_bitrate option"
  lcsr_lte_ue_sidelink_aggregate_maximum_bitrate :: "lte_ue_sidelink_aggregate_maximum_bitrate option"
  lcsr_pc5_link_ambr :: "bit_rate option"
  lcsr_sl_drbs_to_be_setup_list :: "sl_drbs_to_be_setup_list option"
  lcsr_conditional_inter_du_mobility_information :: "conditional_inter_du_mobility_information option"
  lcsr_management_based_mdt_plmn_list :: "mdt_plmn_list option"
  lcsr_serving_nid :: "nid option"
  lcsr_f1c_transfer_path :: "f1c_transfer_path option"

definition no_csr :: csr_locals where
  "no_csr =
     \<lparr>lcsr_gnb_cu_ue_f1ap_id = None, lcsr_gnb_du_ue_f1ap_id = None, lcsr_sp_cell_id = None,
      lcsr_serv_cell_index = None, lcsr_sp_cell_ul_configured = None,
      lcsr_cu_to_du_rrc_information = None, lcsr_candidate_sp_cell_list = None,
      lcsr_drx_cycle = None, lcsr_resource_coordination_transfer_container = None,
      lcsr_s_cell_to_be_setup_list = None, lcsr_srbs_to_be_setup_list = None,
      lcsr_drbs_to_be_setup_list = None, lcsr_inactivity_monitoring_request = None,
      lcsr_rat_frequency_priority_information = None, lcsr_rrc_container = None,
      lcsr_masked_imeisv = None, lcsr_serving_plmn = None, lcsr_gnb_du_ue_ambr_ul = None,
      lcsr_rrc_delivery_status_request = None,
      lcsr_resource_coordination_transfer_information = None, lcsr_serving_cell_mo = None,
      lcsr_new_gnb_cu_ue_f1ap_id = None, lcsr_ran_ue_id = None, lcsr_trace_activation = None,
      lcsr_additional_rrm_priority_index = None, lcsr_bh_channels_to_be_setup_list = None,
      lcsr_configured_bap_address = None, lcsr_nr_v2x_services_authorized = None,
      lcsr_ltev2x_services_authorized = None, lcsr_nr_ue_sidelink_aggregate_maximum_bitrate = None,
      lcsr_lte_ue_sidelink_aggregate_maximum_bitrate = None, lcsr_pc5_link_ambr = None,
      lcsr_sl_drbs_to_be_setup_list = None, lcsr_conditional_inter_du_mobility_information = None,
      lcsr_management_based_mdt_plmn_list = None, lcsr_serving_nid = None,
      lcsr_f1c_transfer_path = None\<rparr>"

definition UeContextSetupRequest_decode_inner :: "per_lib \<Rightarrow> ue_context_setup_request decoder" where
  "UeContextSetupRequest_decode_inner L =
     dec_bind (decode_container L
       [arm 40 (decode_of (GnbCuUeF1apId_codec L)) lcsr_gnb_cu_ue_f1ap_id_update,
        arm 41 (decode_of (GnbDuUeF1apId_codec L)) lcsr_gnb_du_ue_f1ap_id_update,
        arm 63 (decode_of (NrCgi_codec L)) lcsr_sp_cell_id_update,
        arm 107 (decode_of (ServCellIndex_codec L)) lcsr_serv_cell_index_update,
        arm 96 (decode_of (CellUlConfigured_codec L)) lcsr_sp_cell_ul_configured_update,
        arm 9 (decode_of (CuToDuRrcInformation_codec L)) lcsr_cu_to_du_rrc_information_update,
        arm 90 (decode_of (CandidateSpCellList_codec L)) lcsr_candidate_sp_cell_list_update,
        arm 38 (decode_of (DrxCycle_codec L)) lcsr_drx_cycle_update,
        arm 49 (decode_of (ResourceCoordinationTransferContainer_codec L)) lcsr_resource_coordination_transfer_container_update,
        arm 54 (decode_of (SCellToBeSetupList_codec L)) lcsr_s_cell_to_be_setup_list_update,
        arm 74 (decode_of (SrbsToBeSetupList_codec L)) lcsr_srbs_to_be_setup_list_update,
        arm 35 (decode_of (DrbsToBeSetupList_codec L)) lcsr_drbs_to_be_setup_list_update,
        arm 97 (decode_of (InactivityMonitoringRequest_codec L)) lcsr_inactivity_monitoring_request_update,
        arm 108 (decode_of (RatFrequencyPriorityInformation_codec L)) lcsr_rat_frequency_priority_information_update,
        arm 50 (decode_of (RrcContainer_codec L)) lcsr_rrc_container_update,
        arm 126 (decode_of (MaskedImeisv_codec L)) lcsr_masked_imeisv_update,
        arm 165 (decode_of (PlmnIdentity_codec L)) lcsr_serving_plmn_update,
        arm 158 (decode_of (BitRate_codec L)) lcsr_gnb_du_ue_ambr_ul_update,
        arm 184 (decode_of (RrcDeliveryStatusRequest_codec L)) lcsr_rrc_delivery_status_request_update,
        arm 195 (decode_of (ResourceCoordinationTransferInformation_codec L)) lcsr_resource_coordination_transfer_information_update,
        arm 182 (decode_of (ServingCellMo_codec L)) lcsr_serving_cell_mo_update,
        arm 217 (decode_of (GnbDuUeF1apId_codec L)) lcsr_new_gnb_cu_ue_f1ap_id_update,
        arm 226 (decode_of (RanUeId_codec L)) lcsr_ran_ue_id_update,
        arm 242 (decode_of (TraceActivation_codec L)) lcsr_trace_activation_update,
        arm 248 (decode_of (AdditionalRrmPriorityIndex_codec L)) lcsr_additional_rrm_priority_index_update,
        arm 258 (decode_of (BhChannelsToBeSetupList_codec L)) lcsr_bh_channels_to_be_setup_list_update,
        arm 282 (decode_of (BapAddress_codec L)) lcsr_configured_bap_address_update,
        arm 306 (decode_of (NrV2xServicesAuthorized_codec L)) lcsr_nr_v2x_services_authorized_update,
        arm 307 (decode_of (Ltev2xServicesAuthorized_codec L)) lcsr_ltev2x_services_authorized_update,
        arm 308 (decode_of (NrUeSidelinkAggregateMaximumBitrate_codec L)) lcsr_nr_ue_sidelink_aggregate_maximum_bitrate_update,
        arm 309 (decode_of (LteUeSidelinkAggregateMaximumBitrate_codec L)) lcsr_lte_ue_sidelink_aggregate_maximum_bitrate_update,
        arm 340 (decode_of (BitRate_codec L)) lcsr_pc5_link_ambr_update,
        arm 330 (decode_of (SlDrbsToBeSetupList_codec L)) lcsr_sl_drbs_to_be_setup_list_update,
        arm 373 (decode_of (ConditionalInterDuMobilityInformation_codec L)) lcsr_conditional_inter_du_mobility_information_update,
        arm 377 (decode_of (MdtPlmnList_codec L)) lcsr_management_based_mdt_plmn_list_update,
        arm 382 (decode_of (Nid_codec L)) lcsr_serving_nid_update,
        arm 428 (decode_of (F1cTransferPath_codec L)) lcsr_f1c_transfer_path_update] no_csr) (\<lambda>s.
     dec_bind (mandatory ''gnb_cu_ue_f1ap_id'' (lcsr_gnb_cu_ue_f1ap_id s)) (\<lambda>gnb_cu_ue_f1ap_id.
     dec_bind (mandatory ''sp_cell_id'' (lcsr_sp_cell_id s)) (\<lambda>sp_cell_id.
     dec_bind (mandatory ''serv_cell_index'' (lcsr_serv_cell_index s)) (\<lambda>serv_cell_index.
     dec_bind (mandatory ''cu_to_du_rrc_information'' (lcsr_cu_to_du_rrc_information s)) (\<lambda>cu_to_du_rrc_information.
     dec_return
       \<lparr>csr_gnb_cu_ue_f1ap_id = gnb_cu_ue_f1ap_id, csr_gnb_du_ue_f1ap_id = lcsr_gnb_du_ue_f1ap_id s,
        csr_sp_cell_id = sp_cell_id, csr_serv_cell_index = serv_cell_index,
        csr_sp_cell_ul_configured = lcsr_sp_cell_ul_configured s,
        csr_cu_to_du_rrc_information = cu_to_du_rrc_information,
        csr_candidate_sp_cell_list = lcsr_candidate_sp_cell_list s,
        csr_drx_cycle = lcsr_drx_cycle s,
        csr_resource_coordination_transfer_container = lcsr_resource_coordination_transfer_container s,
        csr_s_cell_to_be_setup_list = lcsr_s_cell_to_be_setup_list s,
        csr_srbs_to_be_setup_list = lcsr_srbs_to_be_setup_list s,
        csr_drbs_to_be_setup_list = lcsr_drbs_to_be_setup_list s,
        csr_inactivity_monitoring_request = lcsr_inactivity_monitoring_request s,
        csr_rat_frequency_priority_information = lcsr_rat_frequency_priority_information s,
        csr_rrc_container = lcsr_rrc_container s, csr_masked_imeisv = lcsr_masked_imeisv s,
        csr_serving_plmn = lcsr_serving_plmn s, csr_gnb_du_ue_ambr_ul = lcsr_gnb_du_ue_ambr_ul s,
        csr_rrc_delivery_status_request = lcsr_rrc_delivery_status_request s,
        csr_resource_coordination_transfer_information = lcsr_resource_coordination_transfer_information s,
        csr_serving_cell_mo = lcsr_serving_cell_mo s,
        csr_new_gnb_cu_ue_f1ap_id = lcsr_new_gnb_cu_ue_f1ap_id s, csr_ran_ue_id = lcsr_ran_ue_id s,
        csr_trace_activation = lcsr_trace_activation s,
        csr_additional_rrm_priority_index = lcsr_additional_rrm_priority_index s,
        csr_bh_channels_to_be_setup_list = lcsr_bh_channels_to_be_setup_list s,
        csr_configured_bap_address = lcsr_configured_bap_address s,
        csr_nr_v2x_services_authorized = lcsr_nr_v2x_services_authorized s,
        csr_ltev2x_services_authorized = lcsr_ltev2x_services_authorized s,
        csr_nr_ue_sidelink_aggregate_maximum_bitrate = lcsr_nr_ue_sidelink_aggregate_maximum_bitrate s,
        csr_lte_ue_sidelink_aggregate_maximum_bitrate = lcsr_lte_ue_sidelink_aggregate_maximum_bitrate s,
        csr_pc5_link_ambr = lcsr_pc5_link_ambr s,
        csr_sl_drbs_to_be_setup_list = lcsr_sl_drbs_to_be_setup_list s,
        csr_conditional_inter_du_mobility_information = lcsr_conditional_inter_du_mobility_information s,
        csr_management_based_mdt_plmn_list = lcsr_management_based_mdt_plmn_list s,
        csr_serving_nid = lcsr_serving_nid s, csr_f1c_transfer_path = lcsr_f1c_transfer_path s\<rparr>)))))"

definition UeContextSetupRequest_encode_inner :: "per_lib \<Rightarrow> ue_context_setup_request \<Rightarrow> encoder" where
  "UeContextSetupRequest_encode_inner L x =
     encode_container L
       (ie 40 Reject (GnbCuUeF1apId_codec L) (csr_gnb_cu_ue_f1ap_id x) @
        opt_ie 41 Ignore (GnbDuUeF1apId_codec L) (csr_gnb_du_ue_f1ap_id x) @
        ie 63 Reject (NrCgi_codec L) (csr_sp_cell_id x) @
        ie 107 Reject (ServCellIndex_codec L) (csr_serv_cell_index x) @
        opt_ie 96 Ignore (CellUlConfigured_codec L) (csr_sp_cell_ul_configured x) @
        ie 9 Reject (CuToDuRrcInformation_codec L) (csr_cu_to_du_rrc_information x) @
        opt_ie 90 Ignore (CandidateSpCellList_codec L) (csr_candidate_sp_cell_list x) @
        opt_ie 38 Ignore (DrxCycle_codec L) (csr_drx_cycle x) @
        opt_ie 49 Ignore (ResourceCoordinationTransferContainer_codec L) (csr_resource_coordination_transfer_container x) @
        opt_ie 54 Ignore (SCellToBeSetupList_codec L) (csr_s_cell_to_be_setup_list x) @
        opt_ie 74 Reject (SrbsToBeSetupList_codec L) (csr_srbs_to_be_setup_list x) @
        opt_ie 35 Reject (DrbsToBeSetupList_codec L) (csr_drbs_to_be_setup_list x) @
        opt_ie 97 Reject (InactivityMonitoringRequest_codec L) (csr_inactivity_monitoring_request x) @
        opt_ie 108 Reject (RatFrequencyPriorityInformation_codec L) (csr_rat_frequency_priority_information x) @
        opt_ie 50 Ignore (RrcContainer_codec L) (csr_rrc_container x) @
        opt_ie 126 Ignore (MaskedImeisv_codec L) (csr_masked_imeisv x) @
        opt_ie 165 Ignore (PlmnIdentity_codec L) (csr_serving_plmn x) @
        opt_ie 158 Ignore (BitRate_codec L) (csr_gnb_du_ue_ambr_ul x) @
        opt_ie 184 Ignore (RrcDeliveryStatusRequest_codec L) (csr_rrc_delivery_status_request x) @
        opt_ie 195 Ignore (ResourceCoordinationTransferInformation_codec L) (csr_resource_coordination_transfer_information x) @
        opt_ie 182 Ignore (ServingCellMo_codec L) (csr_serving_cell_mo x) @
        opt_ie 217 Reject (GnbDuUeF1apId_codec L) (csr_new_gnb_cu_ue_f1ap_id x) @
        opt_ie 226 Ignore (RanUeId_codec L) (csr_ran_ue_id x) @
        opt_ie 242 Ignore (TraceActivation_codec L) (csr_trace_activation x) @
        opt_ie 248 Ignore (AdditionalRrmPriorityIndex_codec L) (csr_additional_rrm_priority_index x) @
        opt_ie 258 Reject (BhChannelsToBeSetupList_codec L) (csr_bh_channels_to_be_setup_list x) @
        opt_ie 282 Reject (BapAddress_codec L) (csr_configured_bap_address x) @
        opt_ie 306 Ignore (NrV2xServicesAuthorized_codec L) (csr_nr_v2x_services_authorized x) @
        opt_ie 307 Ignore (Ltev2xServicesAuthorized_codec L) (csr_ltev2x_services_authorized x) @
        opt_ie 308 Ignore (NrUeSidelinkAggregateMaximumBitrate_codec L) (csr_nr_ue_sidelink_aggregate_maximum_bitrate x) @
        opt_ie 309 Ignore (LteUeSidelinkAggregateMaximumBitrate_codec L) (csr_lte_ue_sidelink_aggregate_maximum_bitrate x) @
        opt_ie 340 Ignore (BitRate_codec L) (csr_pc5_link_ambr x) @
        opt_ie 330 Reject (SlDrbsToBeSetupList_codec L) (csr_sl_drbs_to_be_setup_list x) @
        opt_ie 373 Reject (ConditionalInterDuMobilityInformation_codec L) (csr_conditional_inter_du_mobility_information x) @
        opt_ie 377 Ignore (MdtPlmnList_codec L) (csr_management_based_mdt_plmn_list x) @
        opt_ie 382 Reject (Nid_codec L) (csr_serving_nid x) @
        opt_ie 428 Reject (F1cTransferPath_codec L) (csr_f1c_transfer_path x))"

definition UeContextSetupRequest_codec :: "per_lib \<Rightarrow> ue_context_setup_request per_codec" where
  "UeContextSetupRequest_codec L =
     per_codec_impl ''UeContextSetupRequest'' (UeContextSetupRequest_decode_inner L) (UeContextSetupRequest_encode_inner L)"

text \<open>The local variables of \<open>UeContextSetupResponse::decode_inner\<close>.\<close>

record csp_locals =
  lcsp_gnb_cu_ue_f1ap_id :: "u32 option"
  lcsp_gnb_du_ue_f1ap_id :: "u32 option"
  lcsp_du_to_cu_rrc_information :: "du_to_cu_rrc_information option"
  lcsp_c_rnti :: "u16 option"
  lcsp_resource_coordination_transfer_container :: "resource_coordination_transfer_container option"
  lcsp_full_configuration :: "full_configuration option"
  lcsp_drbs_setup_list :: "drbs_setup_list option"
  lcsp_srbs_failed_to_be_setup_list :: "srbs_failed_to_be_setup_list option"
  lcsp_drbs_failed_to_be_setup_list :: "drbs_failed_to_be_setup_list option"
  lcsp_s_cell_failedto_setup_list :: "s_cell_failedto_setup_list option"
  lcsp_inactivity_monitoring_response :: "inactivity_monitoring_response option"
  lcsp_criticality_diagnostics :: "criticality_diagnostics option"
  lcsp_srbs_setup_list :: "srbs_setup_list option"
  lcsp_bh_channels_setup_list :: "bh_channels_setup_list option"
  lcsp_bh_channels_failed_to_be_setup_list :: "bh_channels_failed_to_be_setup_list option"
  lcsp_sl_drbs_setup_list :: "sl_drbs_setup_list option"
  lcsp_sl_drbs_failed_to_be_setup_list :: "sl_drbs_failed_to_be_setup_list option"
  lcsp_requested_target_cell_global_id :: "nr_cgi option"

definition no_csp :: csp_locals where
  "no_csp =
     \<lparr>lcsp_gnb_cu_ue_f1ap_id = None, lcsp_gnb_du_ue_f1ap_id = None,
      lcsp_du_to_cu_rrc_information = None, lcsp_c_rnti = None,
      lcsp_resource_coordination_transfer_container = None, lcsp_full_configuration = None,
      lcsp_drbs_setup_list = None, lcsp_srbs_failed_to_be_setup_list = None,
      lcsp_drbs_failed_to_be_setup_list = None, lcsp_s_cell_failedto_setup_list = None,
      lcsp_inactivity_monitoring_response = None, lcsp_criticality_diagnostics = None,
      lcsp_srbs_setup_list = None, lcsp_bh_channels_setup_list = None,
      lcsp_bh_channels_failed_to_be_setup_list = None, lcsp_sl_drbs_setup_list = None,
      lcsp_sl_drbs_failed_to_be_setup_list = None, lcsp_requested_target_cell_global_id = None\<rparr>"

definition UeContextSetupResponse_decode_inner :: "per_lib \<Rightarrow> ue_context_setup_response decoder" where
  "UeContextSetupResponse_decode_inner L =
     dec_bind (decode_container L
       [arm 40 (decode_of (GnbCuUeF1apId_codec L)) lcsp_gnb_cu_ue_f1ap_id_update,
        arm 41 (decode_of (GnbDuUeF1apId_codec L)) lcsp_gnb_du_ue_f1ap_id_update,
        arm 39 (decode_of (DuToCuRrcInformation_codec L)) lcsp_du_to_cu_rrc_information_update,
        arm 95 (decode_of (CRnti_codec L)) lcsp_c_rnti_update,
        arm 49 (decode_of (ResourceCoordinationTransferContainer_codec L)) lcsp_resource_coordination_transfer_container_update,
        arm 94 (decode_of (FullConfiguration_codec L)) lcsp_full_configuration_update,
        arm 27 (decode_of (DrbsSetupList_codec L)) lcsp_drbs_setup_list_update,
        arm 66 (decode_of (SrbsFailedToBeSetupList_codec L)) lcsp_srbs_failed_to_be_setup_list_update,
        arm 15 (decode_of (DrbsFailedToBeSetupList_codec L)) lcsp_drbs_failed_to_be_setup_list_update,
        arm 83 (decode_of (SCellFailedtoSetupList_codec L)) lcsp_s_cell_failedto_setup_list_update,
        arm 98 (decode_of (InactivityMonitoringResponse_codec L)) lcsp_inactivity_monitoring_response_update,
        arm 7 (decode_of (CriticalityDiagnostics_codec L)) lcsp_criticality_diagnostics_update,
        arm 202 (decode_of (SrbsSetupList_codec L)) lcsp_srbs_setup_list_update,
        arm 260 (decode_of (BhChannelsSetupList_codec L)) lcsp_bh_channels_setup_list_update,
        arm 279 (decode_of (BhChannelsFailedToBeSetupList_codec L)) lcsp_bh_channels_failed_to_be_setup_list_update,
        arm 324 (decode_of (SlDrbsSetupList_codec L)) lcsp_sl_drbs_setup_list_update,
        arm 316 (decode_of (SlDrbsFailedToBeSetupList_codec L)) lcsp_sl_drbs_failed_to_be_setup_list_update,
        arm 376 (decode_of (NrCgi_codec L)) lcsp_requested_target_cell_global_id_update] no_csp) (\<lambda>s.
     dec_bind (mandatory ''gnb_cu_ue_f1ap_id'' (lcsp_gnb_cu_ue_f1ap_id s)) (\<lambda>gnb_cu_ue_f1ap_id.
     dec_bind (mandatory ''gnb_du_ue_f1ap_id'' (lcsp_gnb_du_ue_f1ap_id s)) (\<lambda>gnb_du_ue_f1ap_id.
     dec_bind (mandatory ''du_to_cu_rrc_information'' (lcsp_du_to_cu_rrc_information s)) (\<lambda>du_to_cu_rrc_information.
     dec_return
       \<lparr>csp_gnb_cu_ue_f1ap_id = gnb_cu_ue_f1ap_id, csp_gnb_du_ue_f1ap_id = gnb_du_ue_f1ap_id,
        csp_du_to_cu_rrc_information = du_to_cu_rrc_information, csp_c_rnti = lcsp_c_rnti s,
        csp_resource_coordination_transfer_container = lcsp_resource_coordination_transfer_container s,
        csp_full_configuration = lcsp_full_configuration s,
        csp_drbs_setup_list = lcsp_drbs_setup_list s,
        csp_srbs_failed_to_be_setup_list = lcsp_srbs_failed_to_be_setup_list s,
        csp_drbs_failed_to_be_setup_list = lcsp_drbs_failed_to_be_setup_list s,
        csp_s_cell_failedto_setup_list = lcsp_s_cell_failedto_setup_list s,
        csp_inactivity_monitoring_response = lcsp_inactivity_monitoring_response s,
        csp_criticality_diagnostics = lcsp_criticality_diagnostics s,
        csp_srbs_setup_list = lcsp_srbs_setup_list s,
        csp_bh_channels_setup_list = lcsp_bh_channels_setup_list s,
        csp_bh_channels_failed_to_be_setup_list = lcsp_bh_channels_failed_to_be_setup_list s,
        csp_sl_drbs_setup_list = lcsp_sl_drbs_setup_list s,
        csp_sl_drbs_failed_to_be_setup_list = lcsp_sl_drbs_failed_to_be_setup_list s,
        csp_requested_target_cell_global_id = lcsp_requested_target_cell_global_id s\<rparr>))))"

definition UeContextSetupResponse_encode_inner :: "per_lib \<Rightarrow> ue_context_setup_response \<Rightarrow> encoder" where
  "UeContextSetupResponse_encode_inner L x =
     encode_container L
       (ie 40 Reject (GnbCuUeF1apId_codec L) (csp_gnb_cu_ue_f1ap_id x) @
        ie 41 Reject (GnbDuUeF1apId_codec L) (csp_gnb_du_ue_f1ap_id x) @
        ie 39 Reject (DuToCuRrcInformation_codec L) (csp_du_to_cu_rrc_information x) @
        opt_ie 95 Ignore (CRnti_codec L) (csp_c_rnti x) @
        opt_ie 49 Ignore (ResourceCoordinationTransferContainer_codec L) (csp_resource_coordination_transfer_container x) @
        opt_ie 94 Reject (FullConfiguration_codec L) (csp_full_configuration x) @
        opt_ie 27 Ignore (DrbsSetupList_codec L) (csp_drbs_setup_list x) @
        opt_ie 66 Ignore (SrbsFailedToBeSetupList_codec L) (csp_srbs_failed_to_be_setup_list x) @
        opt_ie 15 Ignore (DrbsFailedToBeSetupList_codec L) (csp_drbs_failed_to_be_setup_list x) @
        opt_ie 83 Ignore (SCellFailedtoSetupList_codec L) (csp_s_cell_failedto_setup_list x) @
        opt_ie 98 Reject (InactivityMonitoringResponse_codec L) (csp_inactivity_monitoring_response x) @
        opt_ie 7 Ignore (CriticalityDiagnostics_codec L) (csp_criticality_diagnostics x) @
        opt_ie 202 Ignore (SrbsSetupList_codec L) (csp_srbs_setup_list x) @
        opt_ie 260 Ignore (BhChannelsSetupList_codec L) (csp_bh_channels_setup_list x) @
        opt_ie 279 Ignore (BhChannelsFailedToBeSetupList_codec L) (csp_bh_channels_failed_to_be_setup_list x) @
        opt_ie 324 Ignore (SlDrbsSetupList_codec L) (csp_sl_drbs_setup_list x) @
        opt_ie 316 Ignore (SlDrbsFailedToBeSetupList_codec L) (csp_sl_drbs_failed_to_be_setup_list x) @
        opt_ie 376 Reject (NrCgi_codec L) (csp_requested_target_cell_global_id x))"

definition UeContextSetupResponse_codec :: "per_lib \<Rightarrow> ue_context_setup_response per_codec" where
  "UeContextSetupResponse_codec L =
     per_codec_impl ''UeContextSetupResponse'' (UeContextSetupResponse_decode_inner L) (UeContextSetupResponse_encode_inner L)"

section \<open>Well-formed values\<close>

definition wf_ue_context_setup_request :: "per_lib \<Rightarrow> ue_context_setup_request \<Rightarrow> bool" where
  "wf_ue_context_setup_request L x \<longleftrightarrow>
     wf_nr_cgi (csr_sp_cell_id x) \<and>
     wf_serv_cell_index (csr_serv_cell_index x) \<and>
     open_ok wf_cu_to_du_rrc_information (CuToDuRrcInformation_codec L) (csr_cu_to_du_rrc_information x) \<and>
     pred_option (open_ok (wf_candidate_sp_cell_list L) (CandidateSpCellList_codec L)) (csr_candidate_sp_cell_list x) \<and>
     pred_option (open_ok wf_drx_cycle (DrxCycle_codec L)) (csr_drx_cycle x) \<and>
     pred_option wf_resource_coordination_transfer_container (csr_resource_coordination_transfer_container x) \<and>
     pred_option (open_ok (wf_s_cell_to_be_setup_list L) (SCellToBeSetupList_codec L)) (csr_s_cell_to_be_setup_list x) \<and>
     pred_option (open_ok (wf_srbs_to_be_setup_list L) (SrbsToBeSetupList_codec L)) (csr_srbs_to_be_setup_list x) \<and>
     pred_option (open_ok (wf_drbs_to_be_setup_list L) (DrbsToBeSetupList_codec L)) (csr_drbs_to_be_setup_list x) \<and>
     pred_option wf_rat_frequency_priority (csr_rat_frequency_priority_information x) \<and>
     pred_option wf_container (csr_rrc_container x) \<and>
     pred_option wf_masked_imeisv (csr_masked_imeisv x) \<and>
     pred_option (has_length 3) (csr_serving_plmn x) \<and>
     pred_option wf_bit_rate (csr_gnb_du_ue_ambr_ul x) \<and>
     pred_option (open_ok wf_resource_coordination_transfer_information (ResourceCoordinationTransferInformation_codec L)) (csr_resource_coordination_transfer_information x) \<and>
     pred_option wf_serving_cell_mo (csr_serving_cell_mo x) \<and>
     pred_option (has_length 8) (csr_ran_ue_id x) \<and>
     pred_option (open_ok (wf_trace_activation L) (TraceActivation_codec L)) (csr_trace_activation x) \<and>
     pred_option (has_length 32) (csr_additional_rrm_priority_index x) \<and>
     pred_option (open_ok (wf_bh_channels_to_be_setup_list L) (BhChannelsToBeSetupList_codec L)) (csr_bh_channels_to_be_setup_list x) \<and>
     pred_option wf_bap_address (csr_configured_bap_address x) \<and>
     pred_option (fits (NrV2xServicesAuthorized_codec L)) (csr_nr_v2x_services_authorized x) \<and>
     pred_option (fits (Ltev2xServicesAuthorized_codec L)) (csr_ltev2x_services_authorized x) \<and>
     pred_option (open_ok wf_nr_ue_sidelink_aggregate_maximum_bitrate (NrUeSidelinkAggregateMaximumBitrate_codec L)) (csr_nr_ue_sidelink_aggregate_maximum_bitrate x) \<and>
     pred_option (open_ok wf_lte_ue_sidelink_aggregate_maximum_bitrate (LteUeSidelinkAggregateMaximumBitrate_codec L)) (csr_lte_ue_sidelink_aggregate_maximum_bitrate x) \<and>
     pred_option wf_bit_rate (csr_pc5_link_ambr x) \<and>
     pred_option (open_ok (wf_sl_drbs_to_be_setup_list L) (SlDrbsToBeSetupList_codec L)) (csr_sl_drbs_to_be_setup_list x) \<and>
     pred_option (open_ok wf_conditional_inter_du_mobility_information (ConditionalInterDuMobilityInformation_codec L)) (csr_conditional_inter_du_mobility_information x) \<and>
     pred_option (open_ok wf_mdt_plmn_list (MdtPlmnList_codec L)) (csr_management_based_mdt_plmn_list x) \<and>
     pred_option wf_nid (csr_serving_nid x) \<and>
     pred_option (fits (F1cTransferPath_codec L)) (csr_f1c_transfer_path x)"

definition wf_ue_context_setup_response :: "per_lib \<Rightarrow> ue_context_setup_response \<Rightarrow> bool" where
  "wf_ue_context_setup_response L x \<longleftrightarrow>
     open_ok wf_du_to_cu_rrc_information (DuToCuRrcInformation_codec L) (csp_du_to_cu_rrc_information x) \<and>
     pred_option wf_resource_coordination_transfer_container (csp_resource_coordination_transfer_container x) \<and>
     pred_option (open_ok (wf_drbs_setup_list L) (DrbsSetupList_codec L)) (csp_drbs_setup_list x) \<and>
     pred_option (open_ok (wf_srbs_failed_to_be_setup_list L) (SrbsFailedToBeSetupList_codec L)) (csp_srbs_failed_to_be_setup_list x) \<and>
     pred_option (open_ok (wf_drbs_failed_to_be_setup_list L) (DrbsFailedToBeSetupList_codec L)) (csp_drbs_failed_to_be_setup_list x) \<and>
     pred_option (open_ok (wf_s_cell_failedto_setup_list L) (SCellFailedtoSetupList_codec L)) (csp_s_cell_failedto_setup_list x) \<and>
     pred_option wf_criticality_diagnostics (csp_criticality_diagnostics x) \<and>
     pred_option (open_ok (wf_srbs_setup_list L) (SrbsSetupList_codec L)) (csp_srbs_setup_list x) \<and>
     pred_option (open_ok (wf_bh_channels_setup_list L) (BhChannelsSetupList_codec L)) (csp_bh_channels_setup_list x) \<and>
     pred_option (open_ok (wf_bh_channels_failed_to_be_setup_list L) (BhChannelsFailedToBeSetupList_codec L)) (csp_bh_channels_failed_to_be_setup_list x) \<and>
     pred_option (open_ok (wf_sl_drbs_setup_list L) (SlDrbsSetupList_codec L)) (csp_sl_drbs_setup_list x) \<and>
     pred_option (open_ok (wf_sl_drbs_failed_to_be_setup_list L) (SlDrbsFailedToBeSetupList_codec L)) (csp_sl_drbs_failed_to_be_setup_list x) \<and>
     pred_option wf_nr_cgi (csp_requested_target_cell_global_id x)"

section \<open>Soundness\<close>

context aper_setup
begin

lemma UeContextSetupRequest_sound [sound_simps]: "wf_ue_context_setup_request L x \<Longrightarrow> sound (UeContextSetupRequest_codec L) x"
  unfolding UeContextSetupRequest_codec_def wf_ue_context_setup_request_def
  by (rule sound_impl, unfold UeContextSetupRequest_decode_inner_def UeContextSetupRequest_encode_inner_def, rule message_coded,
      (rule carried_append | (rule carried_encodable carried_opt_encodable, simp, simp add: wf_simps encodable_simps, simp, simp))+)
    (simp_all add: no_csr_def dec_return_eq)

lemma UeContextSetupResponse_sound [sound_simps]: "wf_ue_context_setup_response L x \<Longrightarrow> sound (UeContextSetupResponse_codec L) x"
  unfolding UeContextSetupResponse_codec_def wf_ue_context_setup_response_def
  by (rule sound_impl, unfold UeContextSetupResponse_decode_inner_def UeContextSetupResponse_encode_inner_def, rule message_coded,
      (rule carried_append | (rule carried_encodable carried_opt_encodable, simp, simp add: wf_simps encodable_simps, simp, simp))+)
    (simp_all add: no_csp_def dec_return_eq)

end

end
