(* ===== verification/F1ap_Stack.thy ===== *)
theory F1ap_Stack
  imports F1ap_Messages "HOL-Library.AList" "HOL-Library.Multiset"
begin

text \<open>
  The transaction layer under the F1AP procedures (\<open>5g-libs/xxap/src/net/{sctp_tnla_pool,
  sctp_transport_provider, stack}.rs\<close>): the pool of SCTP associations, the task that serves one association,
  and the table of pending requests in which a response finds the task that waits for it.  Sockets, DNS and the
  spawning of tasks are I/O; a message is the bytes of one SCTP user message.
\<close>

section \<open>The pool of associations (\<open>sctp_tnla_pool.rs\<close>)\<close>

datatype transport_error = NoAssociationsUp | NoSuchAssociation | NoAssociationFound | NoSuchRemoteIp | SendFailed

record binding =
  bind_assoc_id :: u32
  bind_remote_ip :: string

text \<open>
  The concurrent hash map from association to remote address, as the list of its entries in the order that an
  iteration visits them.
\<close>

type_synonym tnla_pool = "(u32 \<times> string) list"

definition tnla_pool_new :: tnla_pool where
  "tnla_pool_new = []"

definition pool_insert :: "u32 \<Rightarrow> string \<Rightarrow> tnla_pool \<Rightarrow> tnla_pool" where
  "pool_insert assoc_id remote pool = AList.update assoc_id remote pool"

definition pool_remove :: "u32 \<Rightarrow> tnla_pool \<Rightarrow> tnla_pool" where
  "pool_remove assoc_id pool = AList.delete assoc_id pool"

definition remote_addresses :: "tnla_pool \<Rightarrow> (u32 \<times> string) list" where
  "remote_addresses pool = pool"

definition new_ue_binding :: "u32 \<Rightarrow> tnla_pool \<Rightarrow> transport_error + binding" where
  "new_ue_binding seed pool =
     (if length pool = 0 then Inl NoAssociationsUp
      else let item = pool ! (unat seed mod length pool)
           in Inr \<lparr>bind_assoc_id = fst item, bind_remote_ip = snd item\<rparr>)"

definition new_ue_binding_from_assoc :: "u32 \<Rightarrow> tnla_pool \<Rightarrow> transport_error + binding" where
  "new_ue_binding_from_assoc assoc_id pool =
     (case map_of pool assoc_id of
        Some remote \<Rightarrow> Inr \<lparr>bind_assoc_id = assoc_id, bind_remote_ip = remote\<rparr>
      | None \<Rightarrow> Inl NoSuchAssociation)"

definition new_ue_binding_from_ip :: "string \<Rightarrow> tnla_pool \<Rightarrow> transport_error + binding" where
  "new_ue_binding_from_ip ip_addr pool =
     (case find (\<lambda>(_, x). x = ip_addr) (remote_addresses pool) of
        Some (assoc_id, _) \<Rightarrow> new_ue_binding_from_assoc assoc_id pool
      | None \<Rightarrow> Inl NoSuchRemoteIp)"

text \<open>The association that a message goes out on: the one asked for if it is up, otherwise the first.\<close>

definition pool_choose :: "u32 option \<Rightarrow> tnla_pool \<Rightarrow> u32 option" where
  "pool_choose assoc_id pool =
     (case Option.bind assoc_id (\<lambda>x. map_option (\<lambda>_. x) (map_of pool x)) of
        Some x \<Rightarrow> Some x
      | None \<Rightarrow> (case pool of (x, _) # _ \<Rightarrow> Some x | [] \<Rightarrow> None))"

text \<open>The first argument is whether the socket takes the message.\<close>

definition pool_send_message :: "bool \<Rightarrow> u32 option \<Rightarrow> tnla_pool \<Rightarrow> transport_error + u32" where
  "pool_send_message io_ok assoc_id pool =
     (case pool_choose assoc_id pool of
        None \<Rightarrow> Inl NoAssociationFound
      | Some x \<Rightarrow> if io_ok then Inr x else Inl SendFailed)"

section \<open>The task of one association\<close>

datatype tnla_event = Established string | Terminated

datatype stream_item = StreamStopped | StreamError | StreamMessage bytes

datatype handler_call = HandleEvent tnla_event u32 | HandleMessage bytes u32

text \<open>
  \<open>handle_assoc\<close>: the calls that the task makes for a prefix of the items of its stream, and whether it has
  ended (and then removed its association from the pool).
\<close>

fun assoc_loop :: "u32 \<Rightarrow> stream_item list \<Rightarrow> handler_call list \<times> bool" where
  "assoc_loop assoc_id [] = ([], False)"
| "assoc_loop assoc_id (StreamStopped # _) = ([HandleEvent Terminated assoc_id], True)"
| "assoc_loop assoc_id (StreamError # _) = ([HandleEvent Terminated assoc_id], True)"
| "assoc_loop assoc_id (StreamMessage m # items) =
     (case assoc_loop assoc_id items of (calls, ended) \<Rightarrow> (HandleMessage m assoc_id # calls, ended))"

definition handle_assoc :: "u32 \<Rightarrow> string \<Rightarrow> stream_item list \<Rightarrow> tnla_pool \<Rightarrow> handler_call list \<times> tnla_pool" where
  "handle_assoc assoc_id remote items pool =
     (case assoc_loop assoc_id items of
        (calls, ended) \<Rightarrow>
          (HandleEvent (Established remote) assoc_id # calls, if ended then pool_remove assoc_id pool else pool))"

definition add_and_handle :: "u32 \<Rightarrow> string \<Rightarrow> stream_item list \<Rightarrow> tnla_pool \<Rightarrow> handler_call list \<times> tnla_pool" where
  "add_and_handle assoc_id remote items pool = handle_assoc assoc_id remote items (pool_insert assoc_id remote pool)"

section \<open>Pending requests (\<open>stack.rs\<close>)\<close>

text \<open>
  An entry is the procedure code that its match function compares with and the task that waits on the other end
  of its channel.  \<open>waiting\<close> are the tasks that do wait: the receiver of a task that gave up is gone while its
  entry may still be in the table.
\<close>

record 'c f1ap_stack =
  pending_requests :: "(u8 \<times> 'c) list"
  waiting :: "'c set"
  stack_pool :: tnla_pool

definition stack_new :: "'c f1ap_stack" where
  "stack_new = \<lparr>pending_requests = [], waiting = {}, stack_pool = tnla_pool_new\<rparr>"

text \<open>\<open>|m| (m[0] != 0) && (m[1] == P::CODE)\<close>; \<open>None\<close> is a panic of the indexing.\<close>

definition match_fn :: "u8 \<Rightarrow> bytes \<Rightarrow> bool option" where
  "match_fn code m =
     (case rs_get m 0 of
        None \<Rightarrow> None
      | Some b \<Rightarrow> if b = 0 then Some False
                 else (case rs_get m 1 of None \<Rightarrow> None | Some c \<Rightarrow> Some (c = code)))"

fun pending_position :: "bytes \<Rightarrow> (u8 \<times> 'c) list \<Rightarrow> nat option option" where
  "pending_position m [] = Some None"
| "pending_position m ((code, _) # rs) =
     (case match_fn code m of
        None \<Rightarrow> None
      | Some True \<Rightarrow> Some (Some 0)
      | Some False \<Rightarrow> map_option (map_option Suc) (pending_position m rs))"

text \<open>\<open>Vec::swap_remove\<close>: the last element takes the place of the removed one; panics past the end.\<close>

definition swap_remove :: "nat \<Rightarrow> 'a list \<Rightarrow> ('a \<times> 'a list) option" where
  "swap_remove i xs = (if i < length xs then Some (xs ! i, butlast (xs[i := last xs])) else None)"

text \<open>
  \<open>Stack::request\<close> up to the point where it waits.  There is an \<open>await\<close> between the two halves: the entry and its
  channel are there before the message is sent, and when sending fails the receiver is dropped.
\<close>

definition stack_push :: "u8 \<Rightarrow> 'c \<Rightarrow> 'c f1ap_stack \<Rightarrow> 'c f1ap_stack" where
  "stack_push code c s = s\<lparr>pending_requests := pending_requests s @ [(code, c)], waiting := insert c (waiting s)\<rparr>"

definition stack_send :: "bool \<Rightarrow> bytes \<Rightarrow> 'c \<Rightarrow> 'c f1ap_stack \<Rightarrow> (transport_error + u32 \<times> bytes) \<times> 'c f1ap_stack" where
  "stack_send io_ok b c s =
     (case pool_send_message io_ok None (stack_pool s) of
        Inl e \<Rightarrow> (Inl e, s\<lparr>waiting := waiting s - {c}\<rparr>)
      | Inr a \<Rightarrow> (Inr (a, b), s))"

text \<open>The request with nothing in between; the result is the message that goes out with its association.\<close>

definition stack_request ::
    "bool \<Rightarrow> u8 \<Rightarrow> bytes option \<Rightarrow> 'c \<Rightarrow> 'c f1ap_stack \<Rightarrow> (transport_error option + u32 \<times> bytes) \<times> 'c f1ap_stack" where
  "stack_request io_ok code encoded c s =
     (case encoded of
        None \<Rightarrow> (Inl None, s)
      | Some b \<Rightarrow>
          (case stack_send io_ok b c (stack_push code c s) of
             (Inl e, s') \<Rightarrow> (Inl (Some e), s')
           | (Inr out, s') \<Rightarrow> (Inr out, s')))"

text \<open>\<open>Stack::handle\<close> for indications: the message that goes out, if any; an error is only logged.\<close>

definition stack_indication :: "bool \<Rightarrow> bytes option \<Rightarrow> 'c f1ap_stack \<Rightarrow> (u32 \<times> bytes) option" where
  "stack_indication io_ok encoded s =
     (case encoded of
        None \<Rightarrow> None
      | Some b \<Rightarrow> (case pool_send_message io_ok None (stack_pool s) of Inl _ \<Rightarrow> None | Inr a \<Rightarrow> Some (a, b)))"

datatype 'c delivery = Delivered 'c | ChannelDown 'c | SpawnProcedure

text \<open>
  \<open>StackReceiver::handle_message\<close> finds the position under one lock, removes the entry under another and then
  sends to the channel.  These are the last two steps; the first is \<open>pending_position\<close>.
\<close>

definition stack_take :: "nat \<Rightarrow> 'c f1ap_stack \<Rightarrow> ((u8 \<times> 'c) \<times> 'c f1ap_stack) option" where
  "stack_take index s =
     (case swap_remove index (pending_requests s) of
        None \<Rightarrow> None
      | Some (entry, rest) \<Rightarrow> Some (entry, s\<lparr>pending_requests := rest\<rparr>))"

definition stack_answer :: "'c \<Rightarrow> 'c f1ap_stack \<Rightarrow> 'c delivery \<times> 'c f1ap_stack" where
  "stack_answer c s = (if c \<in> waiting s then (Delivered c, s\<lparr>waiting := waiting s - {c}\<rparr>) else (ChannelDown c, s))"

text \<open>The handler with nothing in between.\<close>

definition stack_handle_message :: "bytes \<Rightarrow> 'c f1ap_stack \<Rightarrow> ('c delivery \<times> 'c f1ap_stack) option" where
  "stack_handle_message m s =
     (case pending_position m (pending_requests s) of
        None \<Rightarrow> None
      | Some None \<Rightarrow> Some (SpawnProcedure, s)
      | Some (Some index) \<Rightarrow>
          (case stack_take index s of
             None \<Rightarrow> None
           | Some ((_, c), s') \<Rightarrow> Some (stack_answer c s')))"

text \<open>\<open>StackReceiver::handle_event\<close>: the tasks whose request fails.\<close>

definition stack_handle_event :: "tnla_event \<Rightarrow> 'c f1ap_stack \<Rightarrow> 'c set \<times> 'c f1ap_stack" where
  "stack_handle_event event s =
     (case event of
        Terminated \<Rightarrow>
          (waiting s \<inter> snd ` set (pending_requests s),
           s\<lparr>pending_requests := [], waiting := waiting s - snd ` set (pending_requests s)\<rparr>)
      | Established _ \<Rightarrow> ({}, s))"

section \<open>Which task gets a response\<close>

text \<open>
  The layer as it runs: any number of tasks make requests, and the task of each association handles its messages
  and events one after the other.  All of them are interleaved at every \<open>await\<close>; in between, the task of an
  association has found a position, or holds the channel that it took out of the table.
\<close>

datatype 'c receiver = Idle | Matched bytes nat | Removed bytes u8 'c

record 'c stack_system =
  system_stack :: "'c f1ap_stack"
  receivers :: "u32 \<Rightarrow> 'c receiver"

datatype 'c stack_event =
    DoPush u8 'c
  | DoSend bool bytes 'c
  | DoFind u32 bytes
  | DoTake u32
  | DoAnswer u32
  | DoEvent u32 tnla_event
  | DoPool tnla_pool

definition system_new :: "'c stack_system" where
  "system_new = \<lparr>system_stack = stack_new, receivers = (\<lambda>_. Idle)\<rparr>"

text \<open>\<open>None\<close> is a panic; a step of an association's task that is not its next one changes nothing.\<close>

fun system_step :: "'c stack_event \<Rightarrow> 'c stack_system \<Rightarrow> ('c delivery option \<times> 'c stack_system) option" where
  "system_step (DoPush code c) y = Some (None, y\<lparr>system_stack := stack_push code c (system_stack y)\<rparr>)"
| "system_step (DoSend io_ok b c) y = Some (None, y\<lparr>system_stack := snd (stack_send io_ok b c (system_stack y))\<rparr>)"
| "system_step (DoFind a m) y =
     (case receivers y a of
        Idle \<Rightarrow>
          (case pending_position m (pending_requests (system_stack y)) of
             None \<Rightarrow> None
           | Some None \<Rightarrow> Some (Some SpawnProcedure, y)
           | Some (Some index) \<Rightarrow> Some (None, y\<lparr>receivers := (receivers y)(a := Matched m index)\<rparr>))
      | _ \<Rightarrow> Some (None, y))"
| "system_step (DoTake a) y =
     (case receivers y a of
        Matched m index \<Rightarrow>
          (case stack_take index (system_stack y) of
             None \<Rightarrow> None
           | Some ((code, c), s) \<Rightarrow> Some (None, y\<lparr>system_stack := s, receivers := (receivers y)(a := Removed m code c)\<rparr>))
      | _ \<Rightarrow> Some (None, y))"
| "system_step (DoAnswer a) y =
     (case receivers y a of
        Removed m code c \<Rightarrow>
          (case stack_answer c (system_stack y) of
             (d, s) \<Rightarrow> Some (Some d, y\<lparr>system_stack := s, receivers := (receivers y)(a := Idle)\<rparr>))
      | _ \<Rightarrow> Some (None, y))"
| "system_step (DoEvent a e) y =
     (case receivers y a of
        Idle \<Rightarrow> Some (None, y\<lparr>system_stack := snd (stack_handle_event e (system_stack y))\<rparr>)
      | _ \<Rightarrow> Some (None, y))"
| "system_step (DoPool pool) y = Some (None, y\<lparr>system_stack := (system_stack y)\<lparr>stack_pool := pool\<rparr>\<rparr>)"

text \<open>A request makes a new channel, and the messages and events are those of the given associations.\<close>

fun event_of :: "u32 set \<Rightarrow> 'c set \<Rightarrow> 'c stack_event \<Rightarrow> bool" where
  "event_of assocs used (DoPush code c) \<longleftrightarrow> c \<notin> used"
| "event_of assocs used (DoSend io_ok b c) \<longleftrightarrow> c \<in> used"
| "event_of assocs used (DoFind a m) \<longleftrightarrow> a \<in> assocs"
| "event_of assocs used (DoTake a) \<longleftrightarrow> a \<in> assocs"
| "event_of assocs used (DoAnswer a) \<longleftrightarrow> a \<in> assocs"
| "event_of assocs used (DoEvent a e) \<longleftrightarrow> a \<in> assocs"
| "event_of assocs used (DoPool pool) \<longleftrightarrow> True"

definition pushed :: "'c stack_event list \<Rightarrow> (u8 \<times> 'c) set" where
  "pushed es = {(code, c). DoPush code c \<in> set es}"

inductive system_run :: "u32 set \<Rightarrow> 'c stack_event list \<Rightarrow> 'c stack_system \<Rightarrow> bool" for assocs where
  run_new: "system_run assocs [] system_new"
| run_step: "system_run assocs es y \<Longrightarrow> event_of assocs (snd ` pushed es) e \<Longrightarrow> system_step e y = Some (d, y') \<Longrightarrow>
    system_run assocs (es @ [e]) y'"

lemma match_fn_eq: "match_fn code m = Some True \<longleftrightarrow> (\<exists>b c rest. m = b # c # rest \<and> b \<noteq> 0 \<and> c = code)"
  by (cases m rule: list.exhaust [case_names Nil Cons]; cases "tl m") (auto simp: match_fn_def rs_get_def)

lemma pending_position_Some:
  "pending_position m rs = Some (Some i) \<longleftrightarrow>
     i < length rs \<and> match_fn (fst (rs ! i)) m = Some True \<and> (\<forall>j < i. match_fn (fst (rs ! j)) m = Some False)"
proof (induction rs arbitrary: i)
  case (Cons r rs)
  obtain code c where r: "r = (code, c)" by (cases r)
  show ?case
  proof (cases "match_fn code m")
    case (Some b)
    then show ?thesis
      using Cons.IH by (cases b; cases i) (auto simp: r less_Suc_eq_0_disj split: option.splits)
  qed (auto simp: r less_Suc_eq_0_disj)
qed simp

lemma swap_remove_split:
  "swap_remove (length us) (us @ x # vs) = Some (x, if vs = [] then us else us @ last vs # butlast vs)"
  by (cases vs rule: rev_exhaust) (auto simp: swap_remove_def butlast_append list_update_append)

lemma mset_swap_remove:
  assumes "swap_remove i xs = Some (x, ys)"
  shows "mset xs = add_mset x (mset ys) \<and> x = xs ! i \<and> i < length xs"
proof -
  from assms have i: "i < length xs" by (auto simp: swap_remove_def split: if_splits)
  then obtain us vs where xs: "xs = us @ xs ! i # vs" and l: "length us = i"
    using id_take_nth_drop [OF i] by (metis length_take min.absorb4)
  from swap_remove_split [of us "xs ! i" vs] have s: "swap_remove i xs = Some (xs ! i, if vs = [] then us else us @ last vs # butlast vs)"
    using xs l by simp
  have "mset vs = add_mset (last vs) (mset (butlast vs))" if "vs \<noteq> []"
    using that by (cases vs rule: rev_exhaust) auto
  then have "mset (us @ xs ! i # vs) = add_mset (xs ! i) (mset (if vs = [] then us else us @ last vs # butlast vs))"
    by auto
  moreover have "mset xs = mset (us @ xs ! i # vs)" using xs by (rule arg_cong)
  ultimately show ?thesis using assms s i by simp
qed

lemma match_fn_short: "match_fn code m = None \<Longrightarrow> length m < 2"
  by (cases m rule: list.exhaust [case_names Nil Cons]; cases "tl m") (auto simp: match_fn_def rs_get_def split: if_splits)

lemma pending_position_None: "pending_position m rs = None \<Longrightarrow> length m < 2"
  by (induction rs) (auto simp: match_fn_short split: option.splits if_splits bool.splits)

lemma pending_position_append:
  "pending_position m rs = Some (Some i) \<Longrightarrow> pending_position m (rs @ qs) = Some (Some i)"
  by (auto simp: pending_position_Some nth_append)

lemma pushed_simps [simp]:
  "pushed [] = {}" "pushed (es @ [DoPush code c]) = insert (code, c) (pushed es)"
  "(\<And>code c. e \<noteq> DoPush code c) \<Longrightarrow> pushed (es @ [e]) = pushed es"
  by (auto simp: pushed_def)

text \<open>
  With one association: every entry was pushed, a task waits only if its channel is in the table or in the hands of
  the association's task, what that task has found is still the first entry that matches, and the channel that it
  holds was registered under the procedure code of its message.
\<close>

definition held :: "'c receiver \<Rightarrow> 'c set" where
  "held r = (case r of Removed m code c \<Rightarrow> {c} | _ \<Rightarrow> {})"

definition receiver_ok :: "(u8 \<times> 'c) set \<Rightarrow> (u8 \<times> 'c) list \<Rightarrow> 'c receiver \<Rightarrow> bool" where
  "receiver_ok reqs entries r =
     (case r of
        Idle \<Rightarrow> True
      | Matched m i \<Rightarrow> pending_position m entries = Some (Some i)
      | Removed m code c \<Rightarrow> match_fn code m = Some True \<and> (code, c) \<in> reqs)"

definition system_inv :: "u32 \<Rightarrow> 'c stack_event list \<Rightarrow> 'c stack_system \<Rightarrow> bool" where
  "system_inv a es y \<longleftrightarrow>
     set (pending_requests (system_stack y)) \<subseteq> pushed es \<and>
     waiting (system_stack y) \<subseteq> snd ` set (pending_requests (system_stack y)) \<union> held (receivers y a) \<and>
     receiver_ok (pushed es) (pending_requests (system_stack y)) (receivers y a)"

lemma swap_remove_first:
  assumes "pending_position m rs = Some (Some i)"
  obtains code c rest where "swap_remove i rs = Some ((code, c), rest)" "match_fn code m = Some True"
    "set rs = insert (code, c) (set rest)"
proof -
  from assms have i: "i < length rs" "match_fn (fst (rs ! i)) m = Some True" by (auto simp: pending_position_Some)
  then obtain rest where r: "swap_remove i rs = Some (rs ! i, rest)" by (simp add: swap_remove_def)
  from mset_swap_remove [OF r] have "set rs = insert (rs ! i) (set rest)" by (metis set_mset_add_mset_insert set_mset_mset)
  then show ?thesis using that [of "fst (rs ! i)" "snd (rs ! i)" rest] r i by simp
qed

lemma system_inv_step:
  assumes inv: "system_inv a es y" and e: "event_of {a} (snd ` pushed es) e" and step: "system_step e y = Some (d, y')"
  shows "system_inv a (es @ [e]) y'"
proof (cases e)
  case (DoPush code c)
  then show ?thesis
    using inv step
    by (auto simp: system_inv_def stack_push_def receiver_ok_def pending_position_append split: receiver.splits)
next
  case (DoSend io_ok b c)
  then show ?thesis using inv step by (auto simp: system_inv_def stack_send_def split: sum.splits)
next
  case (DoFind a' m)
  then have "a' = a" using e by simp
  then show ?thesis
    using inv step DoFind by (auto simp: system_inv_def receiver_ok_def held_def split: receiver.splits option.splits)
next
  case (DoTake a')
  then have a: "a' = a" using e by simp
  show ?thesis
  proof (cases "receivers y a")
    case (Matched m i)
    then have "pending_position m (pending_requests (system_stack y)) = Some (Some i)"
      using inv by (simp add: system_inv_def receiver_ok_def)
    then obtain code c rest where "swap_remove i (pending_requests (system_stack y)) = Some ((code, c), rest)"
        "match_fn code m = Some True" "set (pending_requests (system_stack y)) = insert (code, c) (set rest)"
      by (rule swap_remove_first)
    then show ?thesis
      using inv step DoTake a Matched by (auto simp: system_inv_def stack_take_def receiver_ok_def held_def)
  qed (use inv step DoTake a in \<open>auto simp: system_inv_def\<close>)
next
  case (DoAnswer a')
  then have "a' = a" using e by simp
  then show ?thesis
    using inv step DoAnswer
    by (auto simp: system_inv_def stack_answer_def receiver_ok_def held_def split: receiver.splits if_splits)
next
  case (DoEvent a' ev)
  then have "a' = a" using e by simp
  then show ?thesis
    using inv step DoEvent
    by (auto simp: system_inv_def stack_handle_event_def receiver_ok_def held_def split: receiver.splits tnla_event.splits)
next
  case (DoPool pool)
  then show ?thesis using inv step by (auto simp: system_inv_def)
qed

lemma system_run_inv: "system_run {a} es y \<Longrightarrow> system_inv a es y"
proof (induction rule: system_run.induct)
  case run_new
  show ?case by (simp add: system_inv_def system_new_def stack_new_def receiver_ok_def)
next
  case (run_step es y e d y')
  then show ?case by (intro system_inv_step) auto
qed

lemma system_step_panics:
  assumes "system_inv a es y" "event_of {a} used e" "system_step e y = None"
  shows "\<exists>m. e = DoFind a m \<and> length m < 2"
proof (cases e)
  case (DoFind a' m)
  then show ?thesis
    using assms by (auto dest: pending_position_None split: receiver.splits option.splits)
next
  case (DoTake a')
  then obtain m i where r: "receivers y a = Matched m i" "stack_take i (system_stack y) = None"
    using assms(2,3) by (auto split: receiver.splits option.splits)
  then have "pending_position m (pending_requests (system_stack y)) = Some (Some i)"
    using assms(1) by (simp add: system_inv_def receiver_ok_def)
  then show ?thesis using r(2) by (auto simp: stack_take_def elim: swap_remove_first)
qed (use assms(3) in \<open>auto split: receiver.splits prod.splits\<close>)

text \<open>
  C25. Over one association a response goes to a task that asked for this procedure, and nobody waits on a dead
  association, however requests of any number of tasks interleave with the steps of the association's task.  Nothing
  panics but the match function on a message of less than two octets.  What the receiver has found under its first
  lock is still the first entry that matches when it takes the second.  A message that is delivered as a
  response is not an initiating message and goes to one waiting task, whose request had the procedure code
  of the message; all other waiting tasks go on waiting.  When the association terminates, exactly the waiting tasks
  get an error and none is left waiting.
\<close>

theorem stack_routes_responses:
  assumes "system_run {a} es y"
  shows "(\<forall>e. event_of {a} (snd ` pushed es) e \<and> system_step e y = None \<longrightarrow> (\<exists>m. e = DoFind a m \<and> length m < 2))
    \<and> (\<forall>m i. receivers y a = Matched m i \<longrightarrow> pending_position m (pending_requests (system_stack y)) = Some (Some i))
    \<and> (\<forall>c y'. system_step (DoAnswer a) y = Some (Some (Delivered c), y') \<longrightarrow>
         (\<exists>b code rest. receivers y a = Removed (b # code # rest) code c \<and> b \<noteq> 0 \<and> DoPush code c \<in> set es)
         \<and> c \<in> waiting (system_stack y) \<and> waiting (system_stack y') = waiting (system_stack y) - {c})
    \<and> (receivers y a = Idle \<longrightarrow> fst (stack_handle_event Terminated (system_stack y)) = waiting (system_stack y)
         \<and> waiting (snd (stack_handle_event Terminated (system_stack y))) = {})"
proof -
  from system_run_inv [OF assms] have inv: "system_inv a es y" .
  have "(\<exists>b code rest. receivers y a = Removed (b # code # rest) code c \<and> b \<noteq> 0 \<and> DoPush code c \<in> set es)
      \<and> c \<in> waiting (system_stack y) \<and> waiting (system_stack y') = waiting (system_stack y) - {c}"
    if "system_step (DoAnswer a) y = Some (Some (Delivered c), y')" for c y'
    using that inv
    by (auto simp: system_inv_def receiver_ok_def stack_answer_def match_fn_eq pushed_def split: receiver.splits if_splits)
  moreover have "pending_position m (pending_requests (system_stack y)) = Some (Some i)" if "receivers y a = Matched m i" for m i
    using that inv by (simp add: system_inv_def receiver_ok_def)
  moreover have "fst (stack_handle_event Terminated (system_stack y)) = waiting (system_stack y)
      \<and> waiting (snd (stack_handle_event Terminated (system_stack y))) = {}" if "receivers y a = Idle"
    using that inv by (auto simp: stack_handle_event_def system_inv_def held_def)
  ultimately show ?thesis using system_step_panics [OF inv] by blast
qed

definition example_stack :: "nat f1ap_stack" where
  "example_stack = \<lparr>pending_requests = [(5, 1)], waiting = {1}, stack_pool = [(3, ''192.168.1.2'')]\<rparr>"

lemma run_push: "system_run assocs es y \<Longrightarrow> c \<notin> snd ` pushed es \<Longrightarrow>
    system_run assocs (es @ [DoPush code c]) (y\<lparr>system_stack := stack_push code c (system_stack y)\<rparr>)"
  by (rule run_step) simp_all

lemma run_find: "system_run assocs es y \<Longrightarrow> a \<in> assocs \<Longrightarrow> receivers y a = Idle \<Longrightarrow>
    pending_position m (pending_requests (system_stack y)) = Some (Some i) \<Longrightarrow>
    system_run assocs (es @ [DoFind a m]) (y\<lparr>receivers := (receivers y)(a := Matched m i)\<rparr>)"
  by (rule run_step [where d = None and y = y]) simp_all

lemma run_take: "system_run assocs es y \<Longrightarrow> a \<in> assocs \<Longrightarrow> receivers y a = Matched m i \<Longrightarrow>
    stack_take i (system_stack y) = Some ((code, c), s) \<Longrightarrow>
    system_run assocs (es @ [DoTake a]) (y\<lparr>system_stack := s, receivers := (receivers y)(a := Removed m code c)\<rparr>)"
  by (rule run_step [where d = None and y = y]) simp_all

theorem stack_routes_responses_witness:
  "\<exists>y. system_run {3} [DoPush 5 (1 :: nat), DoFind 3 [0x20, 5, 9], DoPush 6 2, DoTake 3] y
    \<and> (\<exists>y'. system_step (DoAnswer 3) y = Some (Some (Delivered 1), y')
         \<and> waiting (system_stack y') = waiting (system_stack y) - {1})"
proof -
  let ?s = "\<lparr>pending_requests = [(5, 1)], waiting = {1 :: nat}, stack_pool = []\<rparr>"
  have 1: "system_run {3} [DoPush 5 (1 :: nat)] \<lparr>system_stack = ?s, receivers = (\<lambda>_. Idle)\<rparr>"
    using run_push [OF run_new, of "1 :: nat" "{3}" 5] by (simp add: system_new_def stack_new_def stack_push_def tnla_pool_new_def)
  have "pending_position [0x20, 5, 9] [(5, 1 :: nat)] = Some (Some 0)" by (simp add: match_fn_def rs_get_def)
  with run_find [OF 1, of 3 "[0x20, 5, 9]" 0] have 2: "system_run {3} [DoPush 5 (1 :: nat), DoFind 3 [0x20, 5, 9]]
      \<lparr>system_stack = ?s, receivers = (\<lambda>_. Idle)(3 := Matched [0x20, 5, 9] 0)\<rparr>" by simp
  have "(2 :: nat) \<notin> snd ` pushed [DoPush 5 (1 :: nat), DoFind 3 [0x20, 5, 9]]" by (auto simp: pushed_def)
  from run_push [OF 2 this, of 6] have 3: "system_run {3} [DoPush 5 (1 :: nat), DoFind 3 [0x20, 5, 9], DoPush 6 2]
      \<lparr>system_stack = \<lparr>pending_requests = [(5, 1), (6, 2)], waiting = {2, 1}, stack_pool = []\<rparr>,
       receivers = (\<lambda>_. Idle)(3 := Matched [0x20, 5, 9] 0)\<rparr>" by (simp add: stack_push_def)
  let ?y = "\<lparr>system_stack = \<lparr>pending_requests = [(6, 2)], waiting = {2, 1 :: nat}, stack_pool = []\<rparr>,
       receivers = (\<lambda>_. Idle)(3 := Removed [0x20, 5, 9] 5 1)\<rparr>"
  from run_take [OF 3, of 3 "[0x20, 5, 9]" 0 5 1] have 4:
    "system_run {3} [DoPush 5 (1 :: nat), DoFind 3 [0x20, 5, 9], DoPush 6 2, DoTake 3] ?y"
    by (simp add: stack_take_def swap_remove_def)
  have "\<exists>y'. system_step (DoAnswer 3) ?y = Some (Some (Delivered 1), y')" by (simp add: stack_answer_def)
  then show ?thesis using stack_routes_responses [OF 4] 4 by (auto simp del: system_step.simps)
qed

section \<open>Two associations\<close>

text \<open>
  With two associations the position that one receiver has found is no longer valid when the other has removed an
  entry.  Two responses of one procedure arrive at the same time while a task of another procedure waits: the entry
  of that task is moved to the position that both have found, and the second response is handed to it.
\<close>

lemma racing_run:
  assumes "a \<noteq> b" "distinct [c1, c2, c3]" "x1 \<noteq> 0" "x2 \<noteq> 0"
  shows "system_run {a, b} [DoPush k c1, DoPush k c2, DoPush k' c3, DoFind a (x1 # k # m1), DoFind b (x2 # k # m2)]
    \<lparr>system_stack = \<lparr>pending_requests = [(k, c1), (k, c2), (k', c3)], waiting = {c3, c2, c1}, stack_pool = []\<rparr>,
     receivers = (\<lambda>_. Idle)(a := Matched (x1 # k # m1) 0, b := Matched (x2 # k # m2) 0)\<rparr>"
proof -
  have m: "match_fn k (x # k # m) = Some True" if "x \<noteq> 0" for x m using that by (simp add: match_fn_eq)
  from run_push [OF run_new, of c1 "{a, b}" k] have 1: "system_run {a, b} [DoPush k c1]
      \<lparr>system_stack = \<lparr>pending_requests = [(k, c1)], waiting = {c1}, stack_pool = []\<rparr>, receivers = (\<lambda>_. Idle)\<rparr>"
    by (simp add: system_new_def stack_new_def stack_push_def tnla_pool_new_def)
  have "c2 \<notin> snd ` pushed [DoPush k c1]" using assms(2) by (auto simp: pushed_def)
  from run_push [OF 1 this, of k] have 2: "system_run {a, b} [DoPush k c1, DoPush k c2]
      \<lparr>system_stack = \<lparr>pending_requests = [(k, c1), (k, c2)], waiting = {c2, c1}, stack_pool = []\<rparr>, receivers = (\<lambda>_. Idle)\<rparr>"
    by (simp add: stack_push_def)
  have "c3 \<notin> snd ` pushed [DoPush k c1, DoPush k c2]" using assms(2) by (auto simp: pushed_def)
  from run_push [OF 2 this, of k'] have 3: "system_run {a, b} [DoPush k c1, DoPush k c2, DoPush k' c3]
      \<lparr>system_stack = \<lparr>pending_requests = [(k, c1), (k, c2), (k', c3)], waiting = {c3, c2, c1}, stack_pool = []\<rparr>,
       receivers = (\<lambda>_. Idle)\<rparr>"
    by (simp add: stack_push_def)
  from run_find [OF 3, of a "x1 # k # m1" 0] m assms(3)
  have 4: "system_run {a, b} [DoPush k c1, DoPush k c2, DoPush k' c3, DoFind a (x1 # k # m1)]
      \<lparr>system_stack = \<lparr>pending_requests = [(k, c1), (k, c2), (k', c3)], waiting = {c3, c2, c1}, stack_pool = []\<rparr>,
       receivers = (\<lambda>_. Idle)(a := Matched (x1 # k # m1) 0)\<rparr>"
    by simp
  from run_find [OF 4, of b "x2 # k # m2" 0] m assms(1,4) show ?thesis by simp
qed

theorem racing_receivers_misdeliver:
  assumes "a \<noteq> b" "distinct [c1, c2, c3]" "x1 \<noteq> 0" "x2 \<noteq> 0"
  shows "\<exists>y1 y2 y3 y4. system_run {a, b} [DoPush k c1, DoPush k c2, DoPush k' c3, DoFind a (x1 # k # m1), DoFind b (x2 # k # m2),
        DoTake a, DoTake b] y1
    \<and> receivers y1 b = Removed (x2 # k # m2) k' c3
    \<and> system_step (DoAnswer a) y1 = Some (Some (Delivered c1), y2) \<and> system_step (DoAnswer b) y2 = Some (Some (Delivered c3), y3)
    \<and> waiting (system_stack y3) = {c2}
    \<and> system_run {a, b} [DoPush k c1, DoPush k c2, DoPush k' c3, DoFind a (x1 # k # m1), DoFind b (x2 # k # m2), DoTake b] y4
    \<and> system_step (DoTake a) (y4\<lparr>system_stack := snd (stack_handle_event Terminated (system_stack y4))\<rparr>) = None"
proof -
  note run = racing_run [OF assms, of k k' m1 m2]
  let ?s = "\<lambda>rs. \<lparr>pending_requests = rs, waiting = {c3, c2, c1}, stack_pool = []\<rparr>"
  let ?y1 = "\<lparr>system_stack = ?s [(k, c2)], receivers = (\<lambda>_. Idle)(a := Removed (x1 # k # m1) k c1, b := Removed (x2 # k # m2) k' c3)\<rparr>"
  let ?y4 = "\<lparr>system_stack = ?s [(k', c3), (k, c2)], receivers = (\<lambda>_. Idle)(a := Matched (x1 # k # m1) 0, b := Removed (x2 # k # m2) k c1)\<rparr>"
  from run_take [OF run, of a "x1 # k # m1" 0 k c1 "?s [(k', c3), (k, c2)]"] assms(1)
  have 1: "system_run {a, b} [DoPush k c1, DoPush k c2, DoPush k' c3, DoFind a (x1 # k # m1), DoFind b (x2 # k # m2), DoTake a]
      \<lparr>system_stack = ?s [(k', c3), (k, c2)], receivers = (\<lambda>_. Idle)(a := Removed (x1 # k # m1) k c1, b := Matched (x2 # k # m2) 0)\<rparr>"
    by (simp add: stack_take_def swap_remove_def fun_upd_twist)
  from run_take [OF 1, of b "x2 # k # m2" 0 k' c3 "?s [(k, c2)]"]
  have 2: "system_run {a, b} [DoPush k c1, DoPush k c2, DoPush k' c3, DoFind a (x1 # k # m1), DoFind b (x2 # k # m2), DoTake a, DoTake b] ?y1"
    by (simp add: stack_take_def swap_remove_def)
  from run_take [OF run, of b "x2 # k # m2" 0 k c1 "?s [(k', c3), (k, c2)]"]
  have 3: "system_run {a, b} [DoPush k c1, DoPush k c2, DoPush k' c3, DoFind a (x1 # k # m1), DoFind b (x2 # k # m2), DoTake b] ?y4"
    by (simp add: stack_take_def swap_remove_def)
  have 4: "system_step (DoTake a) (?y4\<lparr>system_stack := snd (stack_handle_event Terminated (system_stack ?y4))\<rparr>) = None"
    using assms(1) by (simp add: stack_handle_event_def stack_take_def swap_remove_def)
  have 5: "\<exists>y2 y3. system_step (DoAnswer a) ?y1 = Some (Some (Delivered c1), y2) \<and> system_step (DoAnswer b) y2 = Some (Some (Delivered c3), y3)
      \<and> waiting (system_stack y3) = {c2}"
    using assms(1,2) by (auto simp: stack_answer_def)
  have "receivers ?y1 b = Removed (x2 # k # m2) k' c3" by simp
  with 2 3 4 5 show ?thesis by blast
qed

theorem racing_receivers_misdeliver_witness:
  "\<exists>y. system_run {1, 2} [DoPush 5 (1 :: nat), DoPush 5 2, DoPush 6 3, DoFind 1 [0x20, 5], DoFind 2 [0x20, 5], DoTake 1, DoTake 2] y
    \<and> receivers y 2 = Removed [0x20, 5] 6 3"
  using racing_receivers_misdeliver [of 1 2 "1 :: nat" 2 3 "0x20" "0x20" 5 6 "[]" "[]"] by auto

section \<open>Responses that go astray\<close>

text \<open>
  C26. Responses of the same procedure are crossed even when they come in order: with three requests of one procedure
  outstanding, the response to the first is delivered to the first task, but it moves the entry of the third in
  front of the second, so that the response to the second request is delivered to the third task.
\<close>

theorem crossed_responses:
  assumes "pending_requests s = [(code, c1), (code, c2), (code, c3)]" and "waiting s = {c1, c2, c3}"
    and "distinct [c1, c2, c3]" and "b \<noteq> 0" and "b' \<noteq> 0"
  shows "\<exists>s1 s2. stack_handle_message (b # code # m1) s = Some (Delivered c1, s1)
    \<and> stack_handle_message (b' # code # m2) s1 = Some (Delivered c3, s2) \<and> waiting s2 = {c2}"
proof -
  have m: "match_fn code (b # code # m) = Some True" if "b \<noteq> 0" for b m
    using that by (simp add: match_fn_eq)
  have sets: "{c1, c2, c3} - {c1} = {c2, c3}" "{c2, c3} - {c3} = {c2}" using assms(3) by auto
  have "stack_handle_message (b # code # m1) s = Some (Delivered c1,
      s\<lparr>pending_requests := [(code, c3), (code, c2)], waiting := {c2, c3}\<rparr>)"
    using assms by (simp add: stack_handle_message_def stack_take_def stack_answer_def m swap_remove_def sets)
  moreover have "stack_handle_message (b' # code # m2) (s\<lparr>pending_requests := [(code, c3), (code, c2)], waiting := {c2, c3}\<rparr>)
      = Some (Delivered c3, s\<lparr>pending_requests := [(code, c2)], waiting := {c2}\<rparr>)"
    using assms by (simp add: stack_handle_message_def stack_take_def stack_answer_def m swap_remove_def sets)
  ultimately show ?thesis by simp
qed

theorem crossed_responses_witness:
  "\<exists>s1 s2. stack_handle_message [0x20, 5] \<lparr>pending_requests = [(5, 1 :: nat), (5, 2), (5, 3)], waiting = {1, 2, 3}, stack_pool = []\<rparr>
      = Some (Delivered 1, s1)
    \<and> stack_handle_message [0x20, 5] s1 = Some (Delivered 3, s2) \<and> waiting s2 = {2}"
  by (rule crossed_responses) simp_all

text \<open>
  C27. A request that could not be sent swallows a later response: with no association up the request fails, but its
  entry stays in the table; once an association is up again, the response to the next request of that procedure
  finds the stale entry, is thrown away, and the task that sent the request still waits.
\<close>

theorem stale_request_swallows_response:
  assumes "pending_requests s = []" and "waiting s = {}" and "stack_pool s = []" and "c1 \<noteq> c2" and "b \<noteq> 0"
  shows "\<exists>s1 s2 s3. stack_request io_ok code (Some r1) c1 s = (Inl (Some NoAssociationFound), s1)
    \<and> stack_request True code (Some r2) c2 (s1\<lparr>stack_pool := pool_insert assoc remote (stack_pool s1)\<rparr>) = (Inr (assoc, r2), s2)
    \<and> stack_handle_message (b # code # m) s2 = Some (ChannelDown c1, s3) \<and> waiting s3 = {c2}"
proof -
  have m: "match_fn code (b # code # m) = Some True" using assms(5) by (simp add: match_fn_eq)
  have 1: "stack_request io_ok code (Some r1) c1 s = (Inl (Some NoAssociationFound), s\<lparr>pending_requests := [(code, c1)]\<rparr>)"
    using assms by (simp add: stack_request_def stack_send_def stack_push_def pool_send_message_def pool_choose_def)
  have 2: "stack_request True code (Some r2) c2 (s\<lparr>pending_requests := [(code, c1)], stack_pool := [(assoc, remote)]\<rparr>)
      = (Inr (assoc, r2), s\<lparr>pending_requests := [(code, c1), (code, c2)], stack_pool := [(assoc, remote)], waiting := {c2}\<rparr>)"
    using assms by (simp add: stack_request_def stack_send_def stack_push_def pool_send_message_def pool_choose_def)
  have 3: "stack_handle_message (b # code # m) (s\<lparr>pending_requests := [(code, c1), (code, c2)], stack_pool := [(assoc, remote)], waiting := {c2}\<rparr>)
      = Some (ChannelDown c1, s\<lparr>pending_requests := [(code, c2)], stack_pool := [(assoc, remote)], waiting := {c2}\<rparr>)"
    using assms by (simp add: stack_handle_message_def stack_take_def stack_answer_def m swap_remove_def)
  have w: "waiting (s\<lparr>pending_requests := [(code, c2)], stack_pool := [(assoc, remote)], waiting := {c2}\<rparr>) = {c2}" by simp
  have p: "(s\<lparr>pending_requests := [(code, c1)]\<rparr>)\<lparr>stack_pool := pool_insert assoc remote (stack_pool (s\<lparr>pending_requests := [(code, c1)]\<rparr>))\<rparr>
      = s\<lparr>pending_requests := [(code, c1)], stack_pool := [(assoc, remote)]\<rparr>"
    using assms(3) by (simp add: pool_insert_def)
  show ?thesis using 1 2 [folded p] 3 w by blast
qed

theorem stale_request_swallows_response_witness:
  "\<exists>s1 s2 s3. stack_request True 5 (Some [0]) (1 :: nat) stack_new = (Inl (Some NoAssociationFound), s1)
    \<and> stack_request True 5 (Some [0]) 2 (s1\<lparr>stack_pool := pool_insert 3 ''192.168.1.2'' (stack_pool s1)\<rparr>) = (Inr (3, [0]), s2)
    \<and> stack_handle_message [0x20, 5] s2 = Some (ChannelDown 1, s3) \<and> waiting s3 = {2}"
  by (rule stale_request_swallows_response) (simp_all add: stack_new_def tnla_pool_new_def)

end
