(* ===== verification/Ue_Discipline.thy ===== *)
theory Ue_Discipline
  imports Ue_Properties
begin

text \<open>
  A small program logic for UE procedures.  It follows the set of user plane sessions that a task holds: a session
  enters the set when the packet processor hands it out, may only be committed and deleted while it is in the set,
  and leaves it when it is deleted.  At the same time every message that the task sends obeys a predicate.  The
  handler of a UE keeps this discipline and speaks only for its own UE.
\<close>

section \<open>The logic\<close>

primrec obeys ::
    "(event \<Rightarrow> bool) \<Rightarrow> ('r \<Rightarrow> userplane_session set \<Rightarrow> bool) \<Rightarrow> userplane_session set \<Rightarrow> 'r proc \<Rightarrow> bool" where
  "obeys P Q held (Return x) \<longleftrightarrow> Q x held"
| "obeys P Q held Panic \<longleftrightarrow> True"
| "obeys P Q held NoFuel \<longleftrightarrow> True"
| "obeys P Q held (Recv k) \<longleftrightarrow> (\<forall>x. obeys P Q held (k x))"
| "obeys P Q held (F1apIndication m p) \<longleftrightarrow> P (EvIndication m) \<and> obeys P Q held p"
| "obeys P Q held (UeContextSetup m k) \<longleftrightarrow> (\<forall>x. P (EvSetup m x) \<and> obeys P Q held (k x))"
| "obeys P Q held (UeContextRelease m k) \<longleftrightarrow> (\<forall>x. P (EvRelease m x) \<and> obeys P Q held (k x))"
| "obeys P Q held (ReserveSession k) \<longleftrightarrow>
     (\<forall>e. obeys P Q held (k (Inl e))) \<and> (\<forall>u. u \<notin> held \<longrightarrow> obeys P Q (insert u held) (k (Inr u)))"
| "obeys P Q held (CommitSession u t k) \<longleftrightarrow> u \<in> held \<and> (\<forall>x. obeys P Q held (k x))"
| "obeys P Q held (DeleteSession u p) \<longleftrightarrow> u \<in> held \<and> obeys P Q (held - {u}) p"
| "obeys P Q held (DeleteUeChannel i p) \<longleftrightarrow> P (EvDeleteChannel i) \<and> obeys P Q held p"
| "obeys P Q held (RandomBytes n k) \<longleftrightarrow> (\<forall>x. obeys P Q held (k x))"

lemma obeys_bind: "obeys P (\<lambda>x h. obeys P Q h (f x)) held p \<Longrightarrow> obeys P Q held (proc_bind p f)"
  by (induction p arbitrary: held rule: proc_induct) auto

lemma obeys_mono: "obeys P Q held p \<Longrightarrow> (\<And>x h. Q x h \<Longrightarrow> Q' x h) \<Longrightarrow> obeys P Q' held p"
  by (induction p arbitrary: held rule: proc_induct) auto

section \<open>What holds between the steps of a UE task\<close>

text \<open>The context belongs to this UE and lists distinct sessions, all of them held.\<close>

definition ue_ok :: "u32 \<Rightarrow> ue_context \<Rightarrow> userplane_session set \<Rightarrow> bool" where
  "ue_ok key ue held \<longleftrightarrow> ue_key ue = key \<and> distinct (map userplane_info (ue_pdu_sessions ue))
     \<and> userplane_info ` set (ue_pdu_sessions ue) \<subseteq> held"

text \<open>Every F1AP message of the task carries the UE's identity, and it removes no channel but its own.\<close>

fun own_identity :: "u32 \<Rightarrow> event \<Rightarrow> bool" where
  "own_identity key (EvIndication m) \<longleftrightarrow> drt_gnb_cu_ue_f1ap_id m = key"
| "own_identity key (EvSetup m _) \<longleftrightarrow> csr_gnb_cu_ue_f1ap_id m = key"
| "own_identity key (EvRelease m _) \<longleftrightarrow> crc_gnb_cu_ue_f1ap_id m = key"
| "own_identity key (EvDeleteChannel i) \<longleftrightarrow> i = key"
| "own_identity key _ \<longleftrightarrow> True"

definition disciplined :: "u32 \<Rightarrow> 'a ue_action \<Rightarrow> bool" where
  "disciplined key m \<longleftrightarrow>
     (\<forall>ue held. ue_ok key ue held \<longrightarrow> obeys (own_identity key) (\<lambda>(r, ue'). ue_ok key ue') held (m ue))"

lemma disciplinedD:
  "disciplined key m \<Longrightarrow> ue_ok key ue held \<Longrightarrow> obeys (own_identity key) (\<lambda>(r, ue'). ue_ok key ue') held (m ue)"
  by (simp add: disciplined_def)

lemma disciplined_bind:
  assumes "disciplined key m" and "\<And>r. disciplined key (f r)"
  shows "disciplined key (\<lambda>ue. proc_bind (m ue) (\<lambda>(r, ue'). f r ue'))"
  unfolding disciplined_def
proof (intro allI impI)
  fix ue held
  assume "ue_ok key ue held"
  with assms(1) have "obeys (own_identity key) (\<lambda>(r, ue'). ue_ok key ue') held (m ue)" by (rule disciplinedD)
  then show "obeys (own_identity key) (\<lambda>(r, ue'). ue_ok key ue') held (proc_bind (m ue) (\<lambda>(r, ue'). f r ue'))"
    by (intro obeys_bind) (auto elim!: obeys_mono dest: disciplinedD [OF assms(2)])
qed

lemma disciplined_return: "(\<And>ue held. ue_ok key ue held \<Longrightarrow> ue_ok key (g ue) held) \<Longrightarrow> disciplined key (\<lambda>ue. Return (h ue, g ue))"
  by (simp add: disciplined_def)

lemma disciplined_basic [simp]: "disciplined key (lift r)" "disciplined key (ok x)" "disciplined key (bail e)"
  by (simp_all add: disciplined_def lift_def ok_def bail_def)

lemma disciplined_seq: "disciplined key m \<Longrightarrow> (\<And>x. disciplined key (f x)) \<Longrightarrow> disciplined key (seq m f)"
  unfolding seq_def
  by (rule disciplined_bind [where f = "\<lambda>r ue'. case r of Inl e \<Rightarrow> Return (Inl e, ue') | Inr x \<Rightarrow> f x ue'"])
    (auto simp: disciplined_def split: sum.split)

lemma disciplined_random: "(\<And>x. disciplined key (f x)) \<Longrightarrow> disciplined key (\<lambda>ue. RandomBytes n (\<lambda>x. f x ue))"
  by (simp add: disciplined_def)

lemma ue_ok_updates [simp]:
  "ue_ok key (ue\<lparr>ue_nas := x\<rparr>) held = ue_ok key ue held"
  "ue_ok key (ue\<lparr>ue_pdcp_tx := y\<rparr>) held = ue_ok key ue held"
  by (simp_all add: ue_ok_def)

section \<open>The procedures\<close>

lemma disciplined_rrc_request: "disciplined key (rrc_request env srb m)"
proof -
  have send: "disciplined key (\<lambda>ue. case maybe_pdcp_encapsulate env b srb (ue_pdcp_tx ue) of
      None \<Rightarrow> Panic
    | Some (c, pdcp) \<Rightarrow> (let ue' = ue\<lparr>ue_pdcp_tx := pdcp\<rparr>;
          dl_message = dl_rrc_message_transfer_msg (ue_key ue) (ue_gnb_du_ue_f1ap_id ue) c srb
        in F1apIndication dl_message (Recv (\<lambda>pdu.
             case pdu of None \<Rightarrow> Return (Inl ChannelClosed, ue')
             | Some (InitiatingMessage (UlRrcMessageTransfer m)) \<Rightarrow> Return (extract_ul_dcch_message env m, ue')
             | Some _ \<Rightarrow> Return (Inl ExpectedUlRrcMessageTransfer, ue')))))" for b
    unfolding disciplined_def
    by (auto simp: Let_def dl_rrc_message_transfer_msg_def ue_ok_def
        split: option.split f1ap_pdu.split initiating_message.split)
  show ?thesis unfolding rrc_request_def by (rule disciplined_seq) (simp_all add: send)
qed

lemma disciplined_nas_encode: "disciplined key (nas_encode_action env nas)"
  by (auto simp: disciplined_def nas_encode_action_def split: option.split prod.split)

lemma disciplined_nas_request: "disciplined key (nas_request env nas)"
  unfolding nas_request_def
  by (intro disciplined_seq disciplined_nas_encode disciplined_rrc_request) (auto split: ul_dcch_message.split option.split)

lemmas disciplined_intros = disciplined_seq disciplined_random disciplined_rrc_request disciplined_nas_encode
  disciplined_nas_request disciplined_basic

lemma disciplined_authenticate: "disciplined key (authenticate_ue env imsi)"
proof (cases "env_sims env imsi")
  case (Some sim)
  then show ?thesis unfolding authenticate_ue_def by (simp add: Let_def) (intro disciplined_intros)
qed (simp add: authenticate_ue_def)

lemma disciplined_configure:
  "disciplined key (configure_nas_security env kamf)" "disciplined key (configure_rrc_security env kamf)"
  by (simp_all add: disciplined_def configure_nas_security_def configure_rrc_security_def Let_def)

lemma disciplined_activate_rrc: "disciplined key (activate_rrc_security env kamf)"
proof -
  have "disciplined key (\<lambda>ue. proc_bind (rrc_request env 1 m ue) (\<lambda>(_, ue'). Return (Inr (), ue')))" for m
    by (rule disciplined_bind [OF disciplined_rrc_request, where f = "\<lambda>_ ue'. Return (Inr (), ue')"]) (simp add: disciplined_def)
  then show ?thesis unfolding activate_rrc_security_def by (intro disciplined_seq disciplined_configure)
qed

lemma disciplined_complete: "disciplined key (complete_nas_registration env)"
proof -
  have "disciplined key (seq (nas_request env m) (\<lambda>nas. lift (expect_registration_complete nas)))" for m
    by (intro disciplined_intros)
  then show ?thesis unfolding complete_nas_registration_def disciplined_def by blast
qed

lemma disciplined_initial_access: "disciplined key (initial_access env r)"
  unfolding initial_access_def handle_rrc_setup_def activate_nas_security_def
  by (intro disciplined_intros)
    (auto intro!: disciplined_intros disciplined_authenticate disciplined_configure disciplined_activate_rrc disciplined_complete)

text \<open>
  Session establishment: the session is held from the reservation on; between the commit and the push the context
  does not have it yet, so that the push keeps the list distinct.
\<close>

lemma disciplined_context_setup: "disciplined key (perform_f1_ue_context_setup env s)"
  by (auto simp: disciplined_def perform_f1_ue_context_setup_def ue_context_setup_request_msg_def ue_ok_def split: option.split)

lemma disciplined_release: "disciplined key (perform_f1_ue_context_release c)"
  by (auto simp: disciplined_def perform_f1_ue_context_release_def ue_context_release_command_msg_def ue_ok_def split: option.split)

text \<open>Triples, for the steps in between; an error must leave a good context.\<close>

definition triple ::
    "u32 \<Rightarrow> (ue_context \<Rightarrow> userplane_session set \<Rightarrow> bool) \<Rightarrow> 'a ue_action
     \<Rightarrow> ('a \<Rightarrow> ue_context \<Rightarrow> userplane_session set \<Rightarrow> bool) \<Rightarrow> bool" where
  "triple key I m J \<longleftrightarrow> (\<forall>ue held. I ue held \<longrightarrow>
     obeys (own_identity key) (\<lambda>(r, ue') h. case r of Inl _ \<Rightarrow> ue_ok key ue' h | Inr x \<Rightarrow> J x ue' h) held (m ue))"

lemma triple_seq: "triple key I m J \<Longrightarrow> (\<And>x. triple key (J x) (f x) K) \<Longrightarrow> triple key I (seq m f) K"
  unfolding triple_def seq_def by (fastforce intro!: obeys_bind elim!: obeys_mono split: sum.splits)

lemma triple_disciplined: "disciplined key m \<Longrightarrow> triple key (ue_ok key) m (\<lambda>_. ue_ok key)"
  unfolding triple_def disciplined_def by (fastforce elim!: obeys_mono split: sum.splits)

lemma disciplined_triple: "triple key (ue_ok key) m (\<lambda>_. ue_ok key) \<Longrightarrow> disciplined key m"
  unfolding triple_def disciplined_def by (fastforce elim!: obeys_mono split: sum.splits)

text \<open>A session that the task holds and that its context does not list.\<close>

definition fresh :: "u32 \<Rightarrow> userplane_session \<Rightarrow> ue_context \<Rightarrow> userplane_session set \<Rightarrow> bool" where
  "fresh key u ue held \<longleftrightarrow> ue_ok key ue held \<and> u \<in> held \<and> u \<notin> userplane_info ` set (ue_pdu_sessions ue)"

lemma triple_reserve: "triple key (ue_ok key) reserve_action (fresh key)"
  by (auto simp: triple_def reserve_action_def fresh_def ue_ok_def split: sum.split)

lemma triple_context_setup: "triple key (fresh key u) (perform_f1_ue_context_setup env s) (\<lambda>_. fresh key u)"
  by (auto simp: triple_def perform_f1_ue_context_setup_def ue_context_setup_request_msg_def fresh_def ue_ok_def
      split: option.split sum.split)

lemma triple_lift: "triple key (fresh key u) (lift r) (\<lambda>_. fresh key u)"
  by (auto simp: triple_def lift_def fresh_def split: sum.split)

lemma triple_nas_encode: "triple key (fresh key u) (nas_encode_action env nas) (\<lambda>_. fresh key u)"
  by (auto simp: triple_def nas_encode_action_def fresh_def split: option.split prod.split sum.split)

lemma triple_commit: "triple key (fresh key u) (commit_action u t) (\<lambda>_. fresh key u)"
  by (auto simp: triple_def commit_action_def fresh_def split: sum.split)

lemma triple_push: "userplane_info s = u \<Longrightarrow> triple key (fresh key u) (push_session s) (\<lambda>_. ue_ok key)"
  by (auto simp: triple_def push_session_def fresh_def ue_ok_def)

lemma disciplined_reconfiguration: "disciplined key (perform_rrc_reconfiguration env nas cgc i)"
  unfolding perform_rrc_reconfiguration_def by (intro disciplined_intros)

lemmas triple_intros = triple_seq triple_reserve triple_context_setup triple_lift triple_nas_encode triple_commit
  triple_push triple_disciplined disciplined_reconfiguration

lemma disciplined_session_establishment: "disciplined key (session_establishment env hdr dnn)"
proof (rule disciplined_triple, unfold session_establishment_def, rule triple_seq [OF triple_reserve], unfold Let_def)
  fix u
  let ?s = "\<lparr>ps_id = pdu_session_identity hdr, ps_snssai = Snssai (cfg_sst (env_config env)) None,
                ps_dnn = (case dnn of None \<Rightarrow> [] | Some d \<Rightarrow> d), userplane_info = u\<rparr>"
  show "triple key (fresh key u)
      (seq (perform_f1_ue_context_setup env ?s) (\<lambda>(cell_group_config, remote_tunnel_info).
          seq (lift (pdu_session_establishment_accept (env_nas env) ?s (procedure_transaction_identity hdr))) (\<lambda>accept.
          seq (nas_encode_action env accept) (\<lambda>accept_bytes.
          seq (commit_action (userplane_info ?s) remote_tunnel_info) (\<lambda>_.
          seq (push_session ?s) (\<lambda>_. perform_rrc_reconfiguration env accept_bytes cell_group_config (ps_id ?s))))))) (\<lambda>_. ue_ok key)"
    by (rule triple_seq [OF triple_context_setup]) (auto intro!: triple_intros)
qed

lemma disciplined_handle_ue_pdu: "disciplined key (handle_ue_pdu env pdu)"
  unfolding handle_ue_pdu_def ul_information_transfer_def uplink_nas_def deregistration_def
    release_cu_initiated_def release_du_initiated_def
  by (auto intro!: disciplined_seq disciplined_session_establishment disciplined_release
      split: f1ap_pdu.split initiating_message.split ul_dcch_message.split option.split
        nas_5gs_message.split nas_5gmm_message.split nas_5gsm_message.split)

lemma disciplined_loop: "disciplined key (ue_message_loop env n)"
proof (induction n)
  case (Suc n)
  have "disciplined key (seq (handle_ue_pdu env pdu) (\<lambda>_. ue_message_loop env n))" for pdu
    by (intro disciplined_seq disciplined_handle_ue_pdu Suc)
  then show ?case by (auto simp: disciplined_def split: option.split)
qed (simp add: disciplined_def)

lemma disciplined_run_inner: "disciplined key (run_inner env fuel r)"
  unfolding run_inner_def by (intro disciplined_seq disciplined_initial_access disciplined_loop)

lemma obeys_delete_sessions:
  "distinct (map userplane_info ss) \<Longrightarrow> userplane_info ` set ss \<subseteq> held \<Longrightarrow> (\<And>h. obeys P (\<lambda>_ _. True) h p)
   \<Longrightarrow> obeys P (\<lambda>_ _. True) held (delete_sessions ss p)"
proof (induction ss arbitrary: held)
  case (Cons s ss)
  then have "userplane_info s \<notin> userplane_info ` set ss" by simp
  with Cons.prems(2) have "userplane_info ` set ss \<subseteq> held - {userplane_info s}"
    unfolding list.set image_insert by blast
  with Cons.IH [OF _ this] Cons.prems show ?case by simp
qed auto

text \<open>The whole task, from no session to whatever its last step leaves.\<close>

lemma handler_obeys: "obeys (own_identity ue_id) (\<lambda>_ _. True) {} (ue_message_handler env fuel ue_id)"
proof -
  have "obeys (own_identity ue_id) (\<lambda>_ _. True) {} (proc_bind (run_inner env fuel r (ue_context_new ue_id a b c))
      (\<lambda>(result, ue'). destroy ue' (Return result)))" for r a b c
  proof (rule obeys_bind, rule obeys_mono)
    show "obeys (own_identity ue_id) (\<lambda>(r, ue'). ue_ok ue_id ue') {} (run_inner env fuel r (ue_context_new ue_id a b c))"
      by (rule disciplinedD [OF disciplined_run_inner]) (simp add: ue_ok_def ue_context_new_def)
    fix x h
    assume "(\<lambda>(r, ue'). ue_ok ue_id ue') x h"
    then show "obeys (own_identity ue_id) (\<lambda>_ _. True) h (case x of (result, ue') \<Rightarrow> destroy ue' (Return result))"
      by (cases x) (auto simp: ue_ok_def destroy_def intro!: obeys_delete_sessions)
  qed
  then show ?thesis
    by (auto simp: ue_message_handler_def Let_def split: option.split f1ap_pdu.split initiating_message.split)
qed

end
