(* ===== verification/Qcore_System.thy ===== *)
theory Qcore_System
  imports Ue_Discipline
begin

text \<open>
  The core as a whole (\<open>qcore/src/qcore.rs\<close>): one task per UE with its channel, the table from UE identities to
  channels, the shared packet processor, and the F1AP application that turns messages of the DU into responses and
  into messages for the tasks (\<open>xxap/src/transaction.rs\<close>, \<open>f1ap/src/f1ap_cu.rs\<close>, \<open>procedures/f1ap_handler.rs\<close>,
  \<open>procedures/{f1_setup, f1_removal, gnb_du_configuration_update}.rs\<close>).  All tasks run interleaved, one effect
  at a time, with a peer that may do anything.
\<close>

section \<open>State\<close>

text \<open>
  The sender of a task's channel lives in the table only; the channel is closed when it is removed there.  What was
  queued before can still be received.
\<close>

record ue_task =
  task_ue_id :: u32
  task_proc :: "(error + unit) proc"
  task_queue :: "f1ap_pdu list"
  task_sender_dropped :: bool

record 'p qcore =
  core_packet_processor :: "'p packet_processor"
  core_tasks :: "ue_task list"
  ue_tasks :: "u32 \<rightharpoonup> nat"

definition qcore_new :: "'p packet_processor \<Rightarrow> 'p qcore" where
  "qcore_new pp = \<lparr>core_packet_processor = pp, core_tasks = [], ue_tasks = Map.empty\<rparr>"

section \<open>The table of UE channels (\<open>qcore.rs\<close>)\<close>

text \<open>Draws until an identity is not in use; \<open>None\<close> when all draws given so far are in use.\<close>

fun pick_ue_id :: "u32 list \<Rightarrow> (u32 \<rightharpoonup> nat) \<Rightarrow> u32 option" where
  "pick_ue_id [] table = None"
| "pick_ue_id (ue_id # draws) table = (if table ue_id \<noteq> None then pick_ue_id draws table else Some ue_id)"

definition spawn_ue_message_handler :: "qc_env \<Rightarrow> nat \<Rightarrow> u32 list \<Rightarrow> 'p qcore \<Rightarrow> (u32 \<times> 'p qcore) option" where
  "spawn_ue_message_handler env fuel draws core =
     (case pick_ue_id draws (ue_tasks core) of
        None \<Rightarrow> None
      | Some ue_id \<Rightarrow> Some (ue_id,
          core\<lparr>core_tasks := core_tasks core @ [\<lparr>task_ue_id = ue_id, task_proc = ue_message_handler env fuel ue_id,
                 task_queue = [], task_sender_dropped = False\<rparr>],
               ue_tasks := (ue_tasks core)(ue_id \<mapsto> length (core_tasks core))\<rparr>))"

text \<open>The receiver of a task is gone when the task has ended.\<close>

definition task_ended :: "ue_task \<Rightarrow> bool" where
  "task_ended t = (case task_proc t of Return _ \<Rightarrow> True | Panic \<Rightarrow> True | _ \<Rightarrow> False)"

definition dispatch_ue_message :: "u32 \<Rightarrow> f1ap_pdu \<Rightarrow> 'p qcore \<Rightarrow> (error + unit) \<times> 'p qcore" where
  "dispatch_ue_message ue_id message core =
     (case ue_tasks core ue_id of
        None \<Rightarrow> (Inl UeNotFound, core)
      | Some i \<Rightarrow>
          (let t = core_tasks core ! i
           in if task_ended t then (Inl ChannelClosed, core)
              else (Inr (), core\<lparr>core_tasks := (core_tasks core)[i := t\<lparr>task_queue := task_queue t @ [message]\<rparr>]\<rparr>)))"

definition drop_sender :: "ue_task \<Rightarrow> ue_task" where
  "drop_sender t = t\<lparr>task_sender_dropped := True\<rparr>"

definition delete_ue_channel :: "u32 \<Rightarrow> 'p qcore \<Rightarrow> 'p qcore" where
  "delete_ue_channel ue_id core =
     (case ue_tasks core ue_id of
        None \<Rightarrow> core
      | Some i \<Rightarrow> core\<lparr>core_tasks := (core_tasks core)[i := drop_sender (core_tasks core ! i)],
                       ue_tasks := (ue_tasks core)(ue_id := None)\<rparr>)"

definition delete_ue_channels :: "'p qcore \<Rightarrow> 'p qcore" where
  "delete_ue_channels core =
     core\<lparr>core_tasks := map (\<lambda>(i, t). if i \<in> ran (ue_tasks core) then drop_sender t else t) (enumerate 0 (core_tasks core)),
          ue_tasks := Map.empty\<rparr>"

section \<open>The F1AP application\<close>

definition f1_setup_run :: "qc_env \<Rightarrow> f1_setup_request \<Rightarrow> error + f1_setup_response" where
  "f1_setup_run env r = f1_setup_response_msg (env_rrc env) r (cfg_name (env_config env))"

definition f1_removal_run :: "f1_removal_request \<Rightarrow> 'p qcore \<Rightarrow> f1_removal_response \<times> 'p qcore" where
  "f1_removal_run r core =
     (\<lparr>frp_transaction_id = frr_transaction_id r, frp_criticality_diagnostics = None\<rparr>, delete_ue_channels core)"

definition gnb_du_configuration_update_run :: "gnb_du_configuration_update \<Rightarrow> gnb_du_configuration_update_ack" where
  "gnb_du_configuration_update_run r = gnb_du_configuration_update_acknowledge (gcu_transaction_id r)"

text \<open>The three indications; a failed dispatch is only logged.\<close>

definition handle_initial_ul_rrc_message_transfer ::
    "qc_env \<Rightarrow> nat \<Rightarrow> u32 list \<Rightarrow> initial_ul_rrc_message_transfer \<Rightarrow> 'p qcore \<Rightarrow> 'p qcore option" where
  "handle_initial_ul_rrc_message_transfer env fuel draws r core =
     (case spawn_ue_message_handler env fuel draws core of
        None \<Rightarrow> None
      | Some (ue_id, core') \<Rightarrow> Some (snd (dispatch_ue_message ue_id (InitiatingMessage (InitialUlRrcMessageTransfer r)) core')))"

definition handle_ul_rrc_message_transfer :: "ul_rrc_message_transfer \<Rightarrow> 'p qcore \<Rightarrow> 'p qcore" where
  "handle_ul_rrc_message_transfer r core =
     snd (dispatch_ue_message (urt_gnb_cu_ue_f1ap_id r) (InitiatingMessage (UlRrcMessageTransfer r)) core)"

definition handle_ue_context_release_request :: "ue_context_release_request \<Rightarrow> 'p qcore \<Rightarrow> 'p qcore" where
  "handle_ue_context_release_request r core =
     snd (dispatch_ue_message (crr_gnb_cu_ue_f1ap_id r) (InitiatingMessage (UeContextReleaseRequest r)) core)"

text \<open>
  \<open>F1apCu::route_request\<close> with \<open>call_provider\<close> of each procedure: \<open>None\<close> is the \<open>todo!()\<close> of a procedure that
  fails, or draws that are not enough for a new identity; the result is the response, if there is one.
\<close>

definition route_request :: "qc_env \<Rightarrow> nat \<Rightarrow> u32 list \<Rightarrow> f1ap_pdu \<Rightarrow> 'p qcore \<Rightarrow> (f1ap_pdu option \<times> 'p qcore) option" where
  "route_request env fuel draws p core =
     (case p of
        InitiatingMessage m \<Rightarrow>
          (case m of
             F1SetupRequest req \<Rightarrow>
               (case f1_setup_run env req of
                  Inr r \<Rightarrow> Some (Some (SuccessfulOutcome (F1SetupResponse r)), core)
                | Inl _ \<Rightarrow> None)
           | F1RemovalRequest req \<Rightarrow>
               (case f1_removal_run req core of
                  (r, core') \<Rightarrow> Some (Some (SuccessfulOutcome (F1RemovalResponse r)), core'))
           | InitialUlRrcMessageTransfer req \<Rightarrow>
               map_option (Pair None) (handle_initial_ul_rrc_message_transfer env fuel draws req core)
           | UlRrcMessageTransfer req \<Rightarrow> Some (None, handle_ul_rrc_message_transfer req core)
           | GnbDuConfigurationUpdate req \<Rightarrow>
               Some (Some (SuccessfulOutcome (GnbDuConfigurationUpdateAcknowledge (gnb_du_configuration_update_run req))), core)
           | UeContextReleaseRequest req \<Rightarrow> Some (None, handle_ue_context_release_request req core)
           | _ \<Rightarrow> Some (None, core))
      | _ \<Rightarrow> Some (None, core))"

text \<open>The codec of the top-level PDU, and \<open>RequestMessageHandler::handle_request\<close>.\<close>

record f1ap_lib =
  f1ap_into_bytes :: "f1ap_pdu \<Rightarrow> bytes option"
  f1ap_from_bytes :: "bytes \<Rightarrow> f1ap_pdu option"

definition handle_request ::
    "f1ap_lib \<Rightarrow> qc_env \<Rightarrow> nat \<Rightarrow> u32 list \<Rightarrow> bytes \<Rightarrow> 'p qcore \<Rightarrow> (bytes option \<times> 'p qcore) option" where
  "handle_request lib env fuel draws message core =
     (case f1ap_from_bytes lib message of
        None \<Rightarrow> Some (None, core)
      | Some pdu \<Rightarrow>
          (case route_request env fuel draws pdu core of
             None \<Rightarrow> None
           | Some (None, core') \<Rightarrow> Some (None, core')
           | Some (Some m, core') \<Rightarrow> Some (f1ap_into_bytes lib m, core')))"

section \<open>One step of a task\<close>

text \<open>What the environment contributes to a step: random bytes or the answer to a request.\<close>

datatype task_input =
    NoInput
  | RandomInput bytes
  | TeidInput "u8 \<times> u8 \<times> u8"
  | SetupInput "ue_context_setup_response option"
  | ReleaseInput "ue_context_release_complete option"

definition put_proc :: "nat \<Rightarrow> (error + unit) proc \<Rightarrow> 'p qcore \<Rightarrow> 'p qcore" where
  "put_proc i p core = core\<lparr>core_tasks := (core_tasks core)[i := (core_tasks core ! i)\<lparr>task_proc := p\<rparr>]\<rparr>"

text \<open>
  The next effect of a task on the core, with the event that can be seen; \<open>None\<close> when the task has ended, is
  blocked or gets an input that does not fit.  A panic in the packet processor is a panic of the task.
\<close>

definition task_step :: "('p \<Rightarrow> nat \<times> 'p) \<Rightarrow> task_input \<Rightarrow> nat \<Rightarrow> 'p qcore \<Rightarrow> (event option \<times> 'p qcore) option" where
  "task_step new_id inp i core =
     (let t = core_tasks core ! i in
      case task_proc t of
        Return _ \<Rightarrow> None
      | Panic \<Rightarrow> None
      | NoFuel \<Rightarrow> None
      | Recv k \<Rightarrow>
          (case task_queue t of
             m # q \<Rightarrow> Some (Some (EvRecv (Some m)),
               core\<lparr>core_tasks := (core_tasks core)[i := t\<lparr>task_proc := k (Some m), task_queue := q\<rparr>]\<rparr>)
           | [] \<Rightarrow> if task_sender_dropped t then Some (Some (EvRecv None), put_proc i (k None) core) else None)
      | F1apIndication m p \<Rightarrow> Some (Some (EvIndication m), put_proc i p core)
      | UeContextSetup m k \<Rightarrow>
          (case inp of SetupInput x \<Rightarrow> Some (Some (EvSetup m x), put_proc i (k x) core) | _ \<Rightarrow> None)
      | UeContextRelease m k \<Rightarrow>
          (case inp of ReleaseInput x \<Rightarrow> Some (Some (EvRelease m x), put_proc i (k x) core) | _ \<Rightarrow> None)
      | ReserveSession k \<Rightarrow>
          (case inp of
             TeidInput rnd \<Rightarrow>
               (case reserve_userplane_session new_id rnd (core_packet_processor core) of
                  None \<Rightarrow> Some (None, put_proc i Panic core)
                | Some (r, pp) \<Rightarrow> Some (Some (EvReserve r), put_proc i (k r) (core\<lparr>core_packet_processor := pp\<rparr>)))
           | _ \<Rightarrow> None)
      | CommitSession u tun k \<Rightarrow>
          (case commit_userplane_session u tun (core_packet_processor core) of
             None \<Rightarrow> Some (None, put_proc i Panic core)
           | Some (r, pp) \<Rightarrow> Some (Some (EvCommit u tun r), put_proc i (k r) (core\<lparr>core_packet_processor := pp\<rparr>)))
      | DeleteSession u p \<Rightarrow>
          (case delete_userplane_session u (core_packet_processor core) of
             None \<Rightarrow> Some (None, put_proc i Panic core)
           | Some pp \<Rightarrow> Some (Some (EvDelete u), put_proc i p (core\<lparr>core_packet_processor := pp\<rparr>)))
      | DeleteUeChannel ue_id p \<Rightarrow> Some (Some (EvDeleteChannel ue_id), put_proc i p (delete_ue_channel ue_id core))
      | RandomBytes n k \<Rightarrow>
          (case inp of RandomInput x \<Rightarrow> Some (Some (EvRandom x), put_proc i (k x) core) | _ \<Rightarrow> None))"

section \<open>The running core\<close>

text \<open>
  All interleavings of messages from the DU, steps of the tasks and downlink packets.  Beside the state, the relation
  records for each task the sessions that it holds, and the sessions that were handed out at all.
\<close>

fun held_after :: "event option \<Rightarrow> userplane_session set \<Rightarrow> userplane_session set" where
  "held_after (Some (EvReserve (Inr u))) h = insert u h"
| "held_after (Some (EvDelete u)) h = h - {u}"
| "held_after _ h = h"

fun handed_after :: "event option \<Rightarrow> userplane_session list \<Rightarrow> userplane_session list" where
  "handed_after (Some (EvReserve (Inr u))) h = u # h"
| "handed_after _ h = h"

inductive core_reach ::
    "('p \<Rightarrow> nat \<times> 'p) \<Rightarrow> (nat \<Rightarrow> 'p \<Rightarrow> 'p) \<Rightarrow> 'p \<Rightarrow> arr4 \<Rightarrow> qc_env \<Rightarrow> nat
     \<Rightarrow> 'p qcore \<Rightarrow> userplane_session set list \<Rightarrow> userplane_session list \<Rightarrow> bool"
  for new_id request_id pool_new net env fuel where
  core_start: "core_reach new_id request_id pool_new net env fuel
    (qcore_new (packet_processor_new request_id pool_new net)) [] []"
| core_message: "core_reach new_id request_id pool_new net env fuel core held handed \<Longrightarrow>
    route_request env fuel draws pdu core = Some (rsp, core') \<Longrightarrow>
    held' = held @ replicate (length (core_tasks core') - length (core_tasks core)) {} \<Longrightarrow>
    core_reach new_id request_id pool_new net env fuel core' held' handed"
| core_task: "core_reach new_id request_id pool_new net env fuel core held handed \<Longrightarrow>
    i < length (core_tasks core) \<Longrightarrow> task_step new_id inp i core = Some (ev, core') \<Longrightarrow>
    core_reach new_id request_id pool_new net env fuel core' (held[i := held_after ev (held ! i)]) (handed_after ev handed)"
| core_downlink: "core_reach new_id request_id pool_new net env fuel core held handed \<Longrightarrow>
    handle_next_downlink_packet oc rx f1u_send (downlink_forwarding_table (core_packet_processor core)) p = (r, table', p', out) \<Longrightarrow>
    core_reach new_id request_id pool_new net env fuel
      (core\<lparr>core_packet_processor := (core_packet_processor core)\<lparr>downlink_forwarding_table := table'\<rparr>\<rparr>) held handed"

text \<open>What a task needs to have for the rest of its life.\<close>

definition task_ok :: "ue_task \<Rightarrow> userplane_session set \<Rightarrow> bool" where
  "task_ok t held \<longleftrightarrow> obeys (own_identity (task_ue_id t)) (\<lambda>_ _. True) held (task_proc t)"

text \<open>
  A message that a task may find in its queue.  For an initial message, which carries no UE identity, \<open>queue_ok\<close> below
  says more: only the task that it has started has it, in front of all others.
\<close>

fun pdu_for :: "u32 \<Rightarrow> f1ap_pdu \<Rightarrow> bool" where
  "pdu_for ue_id (InitiatingMessage (InitialUlRrcMessageTransfer r)) \<longleftrightarrow> True"
| "pdu_for ue_id (InitiatingMessage (UlRrcMessageTransfer r)) \<longleftrightarrow> urt_gnb_cu_ue_f1ap_id r = ue_id"
| "pdu_for ue_id (InitiatingMessage (UeContextReleaseRequest r)) \<longleftrightarrow> crr_gnb_cu_ue_f1ap_id r = ue_id"
| "pdu_for ue_id _ \<longleftrightarrow> False"

text \<open>
  The table names tasks by their identity, every task that has not ended is in the table or has lost its sender,
  and the queues hold only messages for their UE.
\<close>

definition table_inv :: "'p qcore \<Rightarrow> bool" where
  "table_inv core \<longleftrightarrow>
     (\<forall>ue_id i. ue_tasks core ue_id = Some i \<longrightarrow> i < length (core_tasks core) \<and> task_ue_id (core_tasks core ! i) = ue_id)
     \<and> (\<forall>i < length (core_tasks core). task_sender_dropped (core_tasks core ! i)
          \<or> ue_tasks core (task_ue_id (core_tasks core ! i)) = Some i)
     \<and> (\<forall>i < length (core_tasks core). list_all (pdu_for (task_ue_id (core_tasks core ! i))) (task_queue (core_tasks core ! i)))"

section \<open>What the operations keep\<close>

abbreviation task_view :: "ue_task \<Rightarrow> u32 \<times> (error + unit) proc" where
  "task_view t \<equiv> (task_ue_id t, task_proc t)"

text \<open>Operations that leave the programs of the tasks and the packet processor alone.\<close>

definition same_tasks :: "'p qcore \<Rightarrow> 'p qcore \<Rightarrow> bool" where
  "same_tasks core core' \<longleftrightarrow> map task_view (core_tasks core') = map task_view (core_tasks core)
     \<and> core_packet_processor core' = core_packet_processor core"

lemma same_tasks_length: "same_tasks core core' \<Longrightarrow> length (core_tasks core') = length (core_tasks core)"
  by (auto simp: same_tasks_def dest: arg_cong [where f = length])

lemma table_invD:
  assumes "table_inv core"
  shows "ue_tasks core ue_id = Some i \<Longrightarrow> i < length (core_tasks core)"
    and "ue_tasks core ue_id = Some i \<Longrightarrow> task_ue_id (core_tasks core ! i) = ue_id"
    and "i < length (core_tasks core) \<Longrightarrow> \<not> task_sender_dropped (core_tasks core ! i) \<Longrightarrow>
      ue_tasks core (task_ue_id (core_tasks core ! i)) = Some i"
    and "i < length (core_tasks core) \<Longrightarrow> list_all (pdu_for (task_ue_id (core_tasks core ! i))) (task_queue (core_tasks core ! i))"
  using assms by (auto simp: table_inv_def)

lemma map_view_update: "i < length ts \<Longrightarrow> task_view t = task_view (ts ! i) \<Longrightarrow> map task_view (ts[i := t]) = map task_view ts"
  by (simp add: map_update list_update_same_conv)

text \<open>One task is updated: its identity stays, and it leaves the table only if its sender is gone.\<close>

lemma table_inv_update:
  assumes inv: "table_inv core" and i: "i < length (core_tasks core)"
    and t': "task_ue_id t' = task_ue_id (core_tasks core ! i)" "task_sender_dropped (core_tasks core ! i) \<Longrightarrow> task_sender_dropped t'"
      "list_all (pdu_for (task_ue_id t')) (task_queue t')"
    and table: "table' = ue_tasks core \<or> task_sender_dropped t' \<and> ue_tasks core ue_id = Some i \<and> table' = (ue_tasks core)(ue_id := None)"
    and core': "core_tasks core' = (core_tasks core)[i := t']" "ue_tasks core' = table'"
  shows "table_inv core'"
  unfolding table_inv_def core'
proof (intro conjI allI impI)
  fix k j
  assume "table' k = Some j"
  with table have k: "ue_tasks core k = Some j" by (auto split: if_splits)
  from table_invD(1,2) [OF inv k] i show "j < length ((core_tasks core)[i := t'])"
    and "task_ue_id ((core_tasks core)[i := t'] ! j) = k"
    by (auto simp: nth_list_update t'(1))
next
  fix j
  assume "j < length ((core_tasks core)[i := t'])"
  then have j: "j < length (core_tasks core)" by simp
  from table_invD(4) [OF inv j] t' show "list_all (pdu_for (task_ue_id ((core_tasks core)[i := t'] ! j))) (task_queue ((core_tasks core)[i := t'] ! j))"
    by (cases "j = i") (auto simp: nth_list_update i)
  show "task_sender_dropped ((core_tasks core)[i := t'] ! j) \<or> table' (task_ue_id ((core_tasks core)[i := t'] ! j)) = Some j"
  proof (cases "j = i")
    case True
    then show ?thesis using table_invD(3) [OF inv i] t' table i by auto
  next
    case False
    have "table' (task_ue_id (core_tasks core ! j)) = Some j" if "ue_tasks core (task_ue_id (core_tasks core ! j)) = Some j"
      using table that False by auto
    then show ?thesis using table_invD(3) [OF inv j] False by auto
  qed
qed

lemma dispatch_keeps:
  assumes "table_inv core" and "pdu_for ue_id m"
  shows "table_inv (snd (dispatch_ue_message ue_id m core)) \<and> same_tasks core (snd (dispatch_ue_message ue_id m core))"
proof (cases "\<exists>i. ue_tasks core ue_id = Some i \<and> \<not> task_ended (core_tasks core ! i)")
  case False
  then have "snd (dispatch_ue_message ue_id m core) = core"
    by (auto simp: dispatch_ue_message_def Let_def split: option.split)
  then show ?thesis using assms by (simp add: same_tasks_def)
next
  case True
  then obtain i where Some: "ue_tasks core ue_id = Some i" and live: "\<not> task_ended (core_tasks core ! i)" by blast
  note i = table_invD(1,2) [OF assms(1) Some]
  let ?t = "core_tasks core ! i"
  let ?t' = "?t\<lparr>task_queue := task_queue ?t @ [m]\<rparr>"
  have eq: "snd (dispatch_ue_message ue_id m core) = core\<lparr>core_tasks := (core_tasks core)[i := ?t']\<rparr>"
    using Some live by (simp add: dispatch_ue_message_def Let_def)
  have "table_inv (core\<lparr>core_tasks := (core_tasks core)[i := ?t']\<rparr>)"
    by (rule table_inv_update [OF assms(1) i(1), where t' = ?t' and table' = "ue_tasks core" and ue_id = ue_id])
      (use assms i table_invD(4) [OF assms(1) i(1)] in simp_all)
  moreover have "map task_view ((core_tasks core)[i := ?t']) = map task_view (core_tasks core)"
    by (rule map_view_update [OF i(1)]) simp
  ultimately show ?thesis unfolding eq same_tasks_def by simp
qed

lemma delete_channel_keeps:
  assumes "table_inv core"
  shows "table_inv (delete_ue_channel ue_id core) \<and> same_tasks core (delete_ue_channel ue_id core)"
proof (cases "ue_tasks core ue_id")
  case None
  then show ?thesis using assms by (simp add: delete_ue_channel_def same_tasks_def)
next
  case (Some i)
  note i = table_invD(1,2) [OF assms Some]
  let ?t' = "drop_sender (core_tasks core ! i)"
  have eq: "delete_ue_channel ue_id core = core\<lparr>core_tasks := (core_tasks core)[i := ?t'], ue_tasks := (ue_tasks core)(ue_id := None)\<rparr>"
    using Some by (simp add: delete_ue_channel_def)
  have "table_inv (core\<lparr>core_tasks := (core_tasks core)[i := ?t'], ue_tasks := (ue_tasks core)(ue_id := None)\<rparr>)"
    by (rule table_inv_update [OF assms i(1), where t' = ?t' and table' = "(ue_tasks core)(ue_id := None)" and ue_id = ue_id])
      (use Some table_invD(4) [OF assms i(1)] in \<open>simp_all add: drop_sender_def\<close>)
  moreover have "map task_view ((core_tasks core)[i := ?t']) = map task_view (core_tasks core)"
    by (rule map_view_update [OF i(1)]) (simp add: drop_sender_def)
  ultimately show ?thesis unfolding eq same_tasks_def by simp
qed

lemma delete_ue_channels_nth:
  "i < length (core_tasks core) \<Longrightarrow> core_tasks (delete_ue_channels core) ! i =
     (if i \<in> ran (ue_tasks core) then drop_sender (core_tasks core ! i) else core_tasks core ! i)"
  by (simp add: delete_ue_channels_def nth_enumerate_eq)

lemma delete_ue_channels_simps [simp]:
  "length (core_tasks (delete_ue_channels core)) = length (core_tasks core)" "ue_tasks (delete_ue_channels core) = Map.empty"
  "core_packet_processor (delete_ue_channels core) = core_packet_processor core"
  by (simp_all add: delete_ue_channels_def)

lemma delete_channels_keeps:
  assumes "table_inv core"
  shows "table_inv (delete_ue_channels core) \<and> same_tasks core (delete_ue_channels core)
    \<and> (\<forall>t \<in> set (core_tasks (delete_ue_channels core)). task_sender_dropped t)"
proof -
  have dropped: "task_sender_dropped (core_tasks (delete_ue_channels core) ! i)" if "i < length (core_tasks core)" for i
  proof (cases "task_sender_dropped (core_tasks core ! i)")
    case False
    from table_invD(3) [OF assms that this] have "i \<in> ran (ue_tasks core)" by (rule ranI)
    then show ?thesis using that by (simp add: delete_ue_channels_nth drop_sender_def)
  qed (use that in \<open>simp add: delete_ue_channels_nth drop_sender_def\<close>)
  have view: "task_view (core_tasks (delete_ue_channels core) ! i) = task_view (core_tasks core ! i)"
    "task_queue (core_tasks (delete_ue_channels core) ! i) = task_queue (core_tasks core ! i)" if "i < length (core_tasks core)" for i
    using that by (auto simp: delete_ue_channels_nth drop_sender_def)
  have "table_inv (delete_ue_channels core)"
    using dropped view table_invD(4) [OF assms] by (simp add: table_inv_def)
  moreover have "same_tasks core (delete_ue_channels core)"
    using view by (auto simp: same_tasks_def intro!: nth_equalityI)
  ultimately show ?thesis using dropped by (auto simp: in_set_conv_nth)
qed

lemma pick_ue_id_new: "pick_ue_id draws table = Some ue_id \<Longrightarrow> table ue_id = None"
  by (induction draws) (auto split: if_splits)

lemma spawn_keeps:
  assumes "table_inv core" and "spawn_ue_message_handler env fuel draws core = Some (ue_id, core')"
  shows "table_inv core'" and "ue_tasks core' ue_id = Some (length (core_tasks core))"
    and "map task_view (core_tasks core') = map task_view (core_tasks core) @ [(ue_id, ue_message_handler env fuel ue_id)]"
    and "core_packet_processor core' = core_packet_processor core"
proof -
  let ?t = "\<lparr>task_ue_id = ue_id, task_proc = ue_message_handler env fuel ue_id, task_queue = [], task_sender_dropped = False\<rparr>"
  from assms(2) have new: "ue_tasks core ue_id = None" and core': "core_tasks core' = core_tasks core @ [?t]"
    "ue_tasks core' = (ue_tasks core)(ue_id \<mapsto> length (core_tasks core))" "core_packet_processor core' = core_packet_processor core"
    by (auto simp: spawn_ue_message_handler_def dest: pick_ue_id_new split: option.splits)
  show "table_inv core'"
    unfolding table_inv_def core'
  proof (intro conjI allI impI)
    fix k j
    assume "((ue_tasks core)(ue_id \<mapsto> length (core_tasks core))) k = Some j"
    then show "j < length (core_tasks core @ [?t])" "task_ue_id ((core_tasks core @ [?t]) ! j) = k"
      using table_invD(1,2) [OF assms(1), of k j] by (auto simp: nth_append less_Suc_eq split: if_splits)
  next
    fix j
    assume "j < length (core_tasks core @ [?t])"
    then consider "j < length (core_tasks core)" | "j = length (core_tasks core)" by fastforce
    then show "list_all (pdu_for (task_ue_id ((core_tasks core @ [?t]) ! j))) (task_queue ((core_tasks core @ [?t]) ! j))"
      by cases (simp_all add: nth_append table_invD(4) [OF assms(1)])
    from \<open>j < length (core_tasks core @ [?t])\<close> consider "j < length (core_tasks core)" | "j = length (core_tasks core)" by fastforce
    then show "task_sender_dropped ((core_tasks core @ [?t]) ! j)
        \<or> ((ue_tasks core)(ue_id \<mapsto> length (core_tasks core))) (task_ue_id ((core_tasks core @ [?t]) ! j)) = Some j"
    proof cases
      case 1
      then show ?thesis using table_invD(3) [OF assms(1) 1] new
        by (cases "task_sender_dropped (core_tasks core ! j)") (auto simp: nth_append)
    qed simp
  qed
qed (use assms(2) in \<open>auto simp: spawn_ue_message_handler_def split: option.splits\<close>)

text \<open>A message of the DU starts at most one task, with the handler program of its identity.\<close>

lemma route_request_keeps:
  assumes "table_inv core" and "route_request env fuel draws pdu core = Some (rsp, core')"
  shows "table_inv core' \<and> core_packet_processor core' = core_packet_processor core
    \<and> (\<exists>new. map task_view (core_tasks core') = map task_view (core_tasks core) @ new
         \<and> (\<forall>(ue_id, p) \<in> set new. p = ue_message_handler env fuel ue_id))"
proof -
  have same: "?thesis" if "table_inv core' \<and> same_tasks core core'"
    using that by (auto simp: same_tasks_def intro: exI [of _ "[]"])
  show ?thesis
  proof (cases pdu)
    case (InitiatingMessage m)
    show ?thesis
    proof (cases m)
      case (InitialUlRrcMessageTransfer r)
      from assms(2) InitiatingMessage InitialUlRrcMessageTransfer obtain ue_id core1 where
        s: "spawn_ue_message_handler env fuel draws core = Some (ue_id, core1)"
        and core': "core' = snd (dispatch_ue_message ue_id (InitiatingMessage (InitialUlRrcMessageTransfer r)) core1)"
        by (auto simp: route_request_def handle_initial_ul_rrc_message_transfer_def split: option.splits)
      note k = spawn_keeps [OF assms(1) s]
      from dispatch_keeps [OF k(1), of ue_id "InitiatingMessage (InitialUlRrcMessageTransfer r)"] core' k show ?thesis
        by (auto simp: same_tasks_def intro!: exI [of _ "[(ue_id, ue_message_handler env fuel ue_id)]"])
    next
      case (UlRrcMessageTransfer r)
      with InitiatingMessage assms dispatch_keeps [OF assms(1), of "urt_gnb_cu_ue_f1ap_id r" pdu] show ?thesis
        by (intro same) (simp add: route_request_def handle_ul_rrc_message_transfer_def)
    next
      case (UeContextReleaseRequest r)
      with InitiatingMessage assms dispatch_keeps [OF assms(1), of "crr_gnb_cu_ue_f1ap_id r" pdu] show ?thesis
        by (intro same) (simp add: route_request_def handle_ue_context_release_request_def)
    next
      case (F1RemovalRequest r)
      with InitiatingMessage assms delete_channels_keeps [OF assms(1)] show ?thesis
        by (intro same) (simp add: route_request_def f1_removal_run_def)
    qed (use InitiatingMessage assms in \<open>intro same; auto simp: route_request_def same_tasks_def split: sum.splits\<close>)+
  qed (use assms in \<open>intro same; auto simp: route_request_def same_tasks_def\<close>)+
qed

section \<open>The invariant of the running core\<close>

definition tasks_inv :: "'p qcore \<Rightarrow> userplane_session set list \<Rightarrow> userplane_session list \<Rightarrow> bool" where
  "tasks_inv core held handed \<longleftrightarrow>
     length held = length (core_tasks core)
     \<and> (\<forall>i < length held. task_ok (core_tasks core ! i) (held ! i) \<and> held ! i \<subseteq> set handed)
     \<and> (\<forall>i < length held. \<forall>j < length held. i \<noteq> j \<longrightarrow> held ! i \<inter> held ! j = {})"

definition unpanicked :: "'p qcore \<Rightarrow> bool" where
  "unpanicked core \<longleftrightarrow> (\<forall>t \<in> set (core_tasks core). leaves False True (task_proc t))"

text \<open>
  A step of task \<open>i\<close>: its program advances by one event, with the packet processor operation that the event names,
  and everything else about the tasks is as an operation on the table leaves it.
\<close>

inductive advances :: "('p \<Rightarrow> nat \<times> 'p) \<Rightarrow> (error + unit) proc \<Rightarrow> 'p packet_processor \<Rightarrow> event option
    \<Rightarrow> (error + unit) proc \<Rightarrow> 'p packet_processor \<Rightarrow> bool" for new_id where
  adv_recv: "advances new_id (Recv k) pp (Some (EvRecv x)) (k x) pp"
| adv_indication: "advances new_id (F1apIndication m p) pp (Some (EvIndication m)) p pp"
| adv_setup: "advances new_id (UeContextSetup m k) pp (Some (EvSetup m x)) (k x) pp"
| adv_release: "advances new_id (UeContextRelease m k) pp (Some (EvRelease m x)) (k x) pp"
| adv_reserve: "reserve_userplane_session new_id rnd pp = Some (r, pp') \<Longrightarrow>
    advances new_id (ReserveSession k) pp (Some (EvReserve r)) (k r) pp'"
| adv_reserve_panic: "reserve_userplane_session new_id rnd pp = None \<Longrightarrow> advances new_id (ReserveSession k) pp None Panic pp"
| adv_commit: "commit_userplane_session u tun pp = Some (r, pp') \<Longrightarrow>
    advances new_id (CommitSession u tun k) pp (Some (EvCommit u tun r)) (k r) pp'"
| adv_commit_panic: "commit_userplane_session u tun pp = None \<Longrightarrow> advances new_id (CommitSession u tun k) pp None Panic pp"
| adv_delete: "delete_userplane_session u pp = Some pp' \<Longrightarrow> advances new_id (DeleteSession u p) pp (Some (EvDelete u)) p pp'"
| adv_delete_panic: "delete_userplane_session u pp = None \<Longrightarrow> advances new_id (DeleteSession u p) pp None Panic pp"
| adv_channel: "advances new_id (DeleteUeChannel ue_id p) pp (Some (EvDeleteChannel ue_id)) p pp"
| adv_random: "advances new_id (RandomBytes n k) pp (Some (EvRandom x)) (k x) pp"

lemma put_proc_keeps:
  assumes "table_inv core" and "i < length (core_tasks core)"
  shows "table_inv (put_proc i p core)"
  by (rule table_inv_update [OF assms, where t' = "(core_tasks core ! i)\<lparr>task_proc := p\<rparr>" and table' = "ue_tasks core" and ue_id = 0])
    (use table_invD(4) [OF assms] in \<open>simp_all add: put_proc_def\<close>)

lemma put_proc_simps [simp]:
  "core_packet_processor (put_proc i p core) = core_packet_processor core"
  "length (core_tasks (put_proc i p core)) = length (core_tasks core)"
  "i < length (core_tasks core) \<Longrightarrow> map task_view (core_tasks (put_proc i p core)) = (map task_view (core_tasks core))[i := (task_ue_id (core_tasks core ! i), p)]"
  by (simp_all add: put_proc_def map_update)

lemma put_proc_step:
  assumes "table_inv core" and "i < length (core_tasks core)" and "table_inv core1" and "same_tasks (core\<lparr>core_packet_processor := pp\<rparr>) core1"
  shows "table_inv (put_proc i p core1)" and "core_packet_processor (put_proc i p core1) = pp"
    and "map task_view (core_tasks (put_proc i p core1)) = (map task_view (core_tasks core))[i := (task_ue_id (core_tasks core ! i), p)]"
proof -
  have len: "length (core_tasks core1) = length (core_tasks core)" using same_tasks_length [OF assms(4)] by simp
  then have i1: "i < length (core_tasks core1)" using assms(2) by simp
  from assms(3) i1 show "table_inv (put_proc i p core1)" by (rule put_proc_keeps)
  show "core_packet_processor (put_proc i p core1) = pp" using assms(4) by (simp add: same_tasks_def)
  have v: "map task_view (core_tasks core1) = map task_view (core_tasks core)" using assms(4) by (simp add: same_tasks_def)
  from arg_cong [OF v, where f = "\<lambda>xs. xs ! i"] have "task_ue_id (core_tasks core1 ! i) = task_ue_id (core_tasks core ! i)"
    using assms(2) i1 by simp
  then show "map task_view (core_tasks (put_proc i p core1)) = (map task_view (core_tasks core))[i := (task_ue_id (core_tasks core ! i), p)]"
    unfolding put_proc_simps(3) [OF i1] v by simp
qed

lemma table_inv_pp [simp]: "table_inv (core\<lparr>core_packet_processor := pp\<rparr>) = table_inv core"
  by (simp add: table_inv_def)

lemma same_tasks_refl [simp]: "same_tasks core core"
  by (simp add: same_tasks_def)

lemma put_proc_plain:
  assumes "table_inv core" and "i < length (core_tasks core)"
  shows "table_inv (put_proc i p (core\<lparr>core_packet_processor := pp\<rparr>))"
    and "map task_view (core_tasks (put_proc i p (core\<lparr>core_packet_processor := pp\<rparr>))) =
        (map task_view (core_tasks core))[i := (task_ue_id (core_tasks core ! i), p)]"
proof -
  have 1: "table_inv (core\<lparr>core_packet_processor := pp\<rparr>)" using assms(1) by simp
  show "table_inv (put_proc i p (core\<lparr>core_packet_processor := pp\<rparr>))"
    by (rule put_proc_step(1) [OF assms 1 same_tasks_refl])
  show "map task_view (core_tasks (put_proc i p (core\<lparr>core_packet_processor := pp\<rparr>))) =
        (map task_view (core_tasks core))[i := (task_ue_id (core_tasks core ! i), p)]"
    by (rule put_proc_step(3) [OF assms 1 same_tasks_refl])
qed

definition stepped :: "('p \<Rightarrow> nat \<times> 'p) \<Rightarrow> nat \<Rightarrow> 'p qcore \<Rightarrow> event option \<Rightarrow> 'p qcore \<Rightarrow> bool" where
  "stepped new_id i core ev core' \<longleftrightarrow> table_inv core'
     \<and> (\<exists>p'. advances new_id (task_proc (core_tasks core ! i)) (core_packet_processor core) ev p' (core_packet_processor core')
         \<and> map task_view (core_tasks core') = (map task_view (core_tasks core))[i := (task_ue_id (core_tasks core ! i), p')])
     \<and> (\<forall>m. ev = Some (EvRecv (Some m)) \<longrightarrow> pdu_for (task_ue_id (core_tasks core ! i)) m)"

lemma steppedI:
  assumes "table_inv core" and "i < length (core_tasks core)"
    and "advances new_id (task_proc (core_tasks core ! i)) (core_packet_processor core) ev p' pp"
    and "\<And>m. ev = Some (EvRecv (Some m)) \<Longrightarrow> pdu_for (task_ue_id (core_tasks core ! i)) m"
  shows "stepped new_id i core ev (put_proc i p' (core\<lparr>core_packet_processor := pp\<rparr>))"
  unfolding stepped_def
proof (intro conjI exI allI impI)
  show "table_inv (put_proc i p' (core\<lparr>core_packet_processor := pp\<rparr>))" by (rule put_proc_plain [OF assms(1,2)])
  show "advances new_id (task_proc (core_tasks core ! i)) (core_packet_processor core) ev p'
      (core_packet_processor (put_proc i p' (core\<lparr>core_packet_processor := pp\<rparr>)))"
    using assms(3) by simp
  show "map task_view (core_tasks (put_proc i p' (core\<lparr>core_packet_processor := pp\<rparr>))) =
        (map task_view (core_tasks core))[i := (task_ue_id (core_tasks core ! i), p')]"
    by (rule put_proc_plain [OF assms(1,2)])
qed (rule assms(4))

lemma core_same_pp: "core\<lparr>core_packet_processor := core_packet_processor core\<rparr> = core"
  by simp

lemma steppedI_same:
  assumes "table_inv core" and "i < length (core_tasks core)"
    and "advances new_id (task_proc (core_tasks core ! i)) (core_packet_processor core) ev p' (core_packet_processor core)"
    and "\<And>m. ev = Some (EvRecv (Some m)) \<Longrightarrow> pdu_for (task_ue_id (core_tasks core ! i)) m"
  shows "stepped new_id i core ev (put_proc i p' core)"
  using steppedI [OF assms] unfolding core_same_pp .

lemma stepped_recv:
  assumes "table_inv core" and "i < length (core_tasks core)" and "task_proc (core_tasks core ! i) = Recv k"
    and "task_queue (core_tasks core ! i) = m # q"
  shows "stepped new_id i core (Some (EvRecv (Some m)))
    (core\<lparr>core_tasks := (core_tasks core)[i := (core_tasks core ! i)\<lparr>task_proc := k (Some m), task_queue := q\<rparr>]\<rparr>)"
proof -
  note q = table_invD(4) [OF assms(1,2), unfolded assms(4)]
  have "table_inv (core\<lparr>core_tasks := (core_tasks core)[i := (core_tasks core ! i)\<lparr>task_proc := k (Some m), task_queue := q\<rparr>]\<rparr>)"
    by (rule table_inv_update [OF assms(1,2), where t' = "(core_tasks core ! i)\<lparr>task_proc := k (Some m), task_queue := q\<rparr>"
          and table' = "ue_tasks core" and ue_id = 0]) (use q in simp_all)
  then show ?thesis
    unfolding stepped_def assms(3) using q adv_recv [of new_id k "core_packet_processor core" "Some m"] by (auto simp: map_update)
qed

lemma task_step_stepped:
  assumes inv: "table_inv core" and i: "i < length (core_tasks core)" and step: "task_step new_id inp i core = Some (ev, core')"
  shows "stepped new_id i core ev core'"
proof (cases "task_proc (core_tasks core ! i)")
  case (Recv k)
  show ?thesis
  proof (cases "task_queue (core_tasks core ! i)")
    case Nil
    with step Recv show ?thesis
      by (auto simp: task_step_def Let_def split: if_splits intro!: steppedI_same [OF inv i] adv_recv)
  next
    case (Cons m q)
    with step Recv stepped_recv [OF inv i Recv Cons] show ?thesis by (simp add: task_step_def Let_def)
  qed
next
  case (DeleteUeChannel ue_id p)
  have "core' = put_proc i p (delete_ue_channel ue_id core)" "ev = Some (EvDeleteChannel ue_id)"
    using step DeleteUeChannel by (auto simp: task_step_def)
  moreover from delete_channel_keeps [OF inv, of ue_id] have "table_inv (delete_ue_channel ue_id core)"
    and same: "same_tasks (core\<lparr>core_packet_processor := core_packet_processor core\<rparr>) (delete_ue_channel ue_id core)"
    unfolding core_same_pp by auto
  note k = put_proc_step [OF inv i this, of p]
  moreover have "advances new_id (DeleteUeChannel ue_id p) (core_packet_processor core) (Some (EvDeleteChannel ue_id)) p
      (core_packet_processor (put_proc i p (delete_ue_channel ue_id core)))"
    unfolding k(2) by (rule adv_channel)
  ultimately show ?thesis
    unfolding stepped_def DeleteUeChannel by blast
next
  case (ReserveSession k)
  with step show ?thesis
    by (auto simp: task_step_def Let_def intro!: steppedI [OF inv i] steppedI_same [OF inv i] intro: advances.intros
        split: task_input.splits option.splits prod.splits)
next
  case (CommitSession u tun k)
  with step show ?thesis
    by (auto simp: task_step_def Let_def intro!: steppedI [OF inv i] steppedI_same [OF inv i] intro: advances.intros
        split: option.splits prod.splits)
next
  case (DeleteSession u p)
  with step show ?thesis
    by (auto simp: task_step_def Let_def intro!: steppedI [OF inv i] steppedI_same [OF inv i] intro: advances.intros
        split: option.splits)
qed (use step in \<open>auto simp: task_step_def Let_def intro!: steppedI_same [OF inv i] intro: advances.intros split: task_input.splits\<close>)

section \<open>Steps keep the discipline\<close>

inductive_cases advances_cases: "advances new_id p pp ev p' pp'"

lemma advances_obeys:
  assumes "advances new_id p pp ev p' pp'" and "obeys P Q held p" and "\<And>u. ev = Some (EvReserve (Inr u)) \<Longrightarrow> u \<notin> held"
  shows "obeys P Q (held_after ev held) p'"
  using assms(1)
proof (cases rule: advances.cases)
  case (adv_reserve rnd r k)
  then show ?thesis using assms(2,3) by (cases r) auto
qed (use assms(2) in auto)

lemma advances_event:
  assumes "advances new_id p pp ev p' pp'" and "obeys (own_identity key) Q held p"
  shows "\<And>u tun r. ev = Some (EvCommit u tun r) \<Longrightarrow> u \<in> held" and "\<And>u. ev = Some (EvDelete u) \<Longrightarrow> u \<in> held"
    and "\<And>e. ev = Some e \<Longrightarrow> own_identity key e"
  using assms by (auto elim!: advances_cases)

lemma advances_leaves: "advances new_id p pp ev p' pp' \<Longrightarrow> leaves False b p \<Longrightarrow> ev \<noteq> None \<Longrightarrow> leaves False b p'"
  by (auto elim!: advances_cases)

lemma advances_userplane:
  assumes spec: "index_pool_spec new_id request_id in_use pool_new"
    and reach: "userplane_reach new_id request_id pool_new net pp handed"
    and adv: "advances new_id p pp ev p' pp'" and "obeys P Q held p" and "held \<subseteq> set handed"
  shows "ev \<noteq> None" and "userplane_reach new_id request_id pool_new net pp' (handed_after ev handed)"
    and "\<And>u. ev = Some (EvReserve (Inr u)) \<Longrightarrow> u \<notin> set handed"
proof -
  note facts = sessions_exclusive [OF spec reach]
  have commit: "commit_userplane_session u tun pp \<noteq> None" and delete: "delete_userplane_session u pp \<noteq> None" if "u \<in> held" for u tun
    using facts that assms(5) by blast+
  have reserve: "reserve_userplane_session new_id rnd pp \<noteq> None" for rnd using facts by blast
  show "ev \<noteq> None"
    using adv assms(4) by (cases rule: advances.cases) (auto simp: commit delete reserve)
  show "userplane_reach new_id request_id pool_new net pp' (handed_after ev handed)"
    using adv
  proof (cases rule: advances.cases)
    case (adv_reserve rnd r k)
    then show ?thesis using reach by (cases r) (auto intro: up_reserve up_full)
  next
    case (adv_commit u tun r k)
    then have "u \<in> set handed" using assms(4,5) by auto
    then show ?thesis using adv_commit up_commit [OF reach] by (cases r) auto
  next
    case (adv_delete u)
    then have "u \<in> set handed" using assms(4,5) by auto
    then show ?thesis using adv_delete up_delete [OF reach] by auto
  qed (use reach in auto)
  show "u \<notin> set handed" if "ev = Some (EvReserve (Inr u))" for u
  proof -
    from adv that obtain rnd where "reserve_userplane_session new_id rnd pp = Some (Inr u, pp')"
      by (auto elim!: advances_cases)
    from sessions_exclusive [OF spec up_reserve [OF reach this]] show ?thesis by auto
  qed
qed

text \<open>The views determine what the invariant says about the tasks.\<close>

definition views_inv ::
    "(u32 \<times> (error + unit) proc) list \<Rightarrow> userplane_session set list \<Rightarrow> userplane_session list \<Rightarrow> bool" where
  "views_inv views held handed \<longleftrightarrow> length held = length views
     \<and> (\<forall>i < length views. obeys (own_identity (fst (views ! i))) (\<lambda>_ _. True) (held ! i) (snd (views ! i)) \<and> held ! i \<subseteq> set handed)
     \<and> (\<forall>i < length views. \<forall>j < length views. i \<noteq> j \<longrightarrow> held ! i \<inter> held ! j = {})"

lemma tasks_inv_views: "tasks_inv core held handed \<longleftrightarrow> views_inv (map task_view (core_tasks core)) held handed"
  unfolding tasks_inv_def views_inv_def task_ok_def by (simp cong: conj_cong)

lemma unpanicked_views: "unpanicked core \<longleftrightarrow> (\<forall>v \<in> set (map task_view (core_tasks core)). leaves False True (snd v))"
  by (auto simp: unpanicked_def)

lemma views_inv_append:
  assumes "views_inv views held handed" and "\<forall>(ue_id, p) \<in> set new. p = ue_message_handler env fuel ue_id"
  shows "views_inv (views @ new) (held @ replicate (length new) {}) handed"
proof -
  have "obeys (own_identity (fst (new ! i))) (\<lambda>_ _. True) {} (snd (new ! i))" if "i < length new" for i
    using assms(2) nth_mem [OF that] handler_obeys by (cases "new ! i") fastforce
  then show ?thesis using assms(1) unfolding views_inv_def by (auto simp: nth_append)
qed

lemma views_inv_update:
  assumes inv: "views_inv views held handed" and i: "i < length views"
    and p: "obeys (own_identity (fst (views ! i))) (\<lambda>_ _. True) h p" and h: "h \<subseteq> set handed'" "set handed \<subseteq> set handed'"
    and fresh: "h - held ! i \<subseteq> - set handed"
  shows "views_inv (views[i := (fst (views ! i), p)]) (held[i := h]) handed'"
  unfolding views_inv_def
proof (intro conjI allI impI)
  from inv have len: "length held = length views" by (simp add: views_inv_def)
  then show "length (held[i := h]) = length (views[i := (fst (views ! i), p)])" by simp
  fix k
  assume "k < length (views[i := (fst (views ! i), p)])"
  then have k: "k < length views" by simp
  with inv i len p show "obeys (own_identity (fst (views[i := (fst (views ! i), p)] ! k))) (\<lambda>_ _. True) (held[i := h] ! k)
      (snd (views[i := (fst (views ! i), p)] ! k))"
    by (cases "k = i") (auto simp: views_inv_def)
  from inv i len h k show "held[i := h] ! k \<subseteq> set handed'"
    by (cases "k = i") (auto simp: views_inv_def)
  fix j
  assume "j < length (views[i := (fst (views ! i), p)])" "k \<noteq> j"
  then have j: "j < length views" by simp
  have disjoint: "h \<inter> held ! l = {}" if "l < length views" "l \<noteq> i" for l
  proof -
    from inv that i have "held ! l \<subseteq> set handed" "held ! i \<inter> held ! l = {}" by (auto simp: views_inv_def)
    then show ?thesis using fresh by blast
  qed
  have "held ! k \<inter> held ! j = {}" using inv k j \<open>k \<noteq> j\<close> by (simp add: views_inv_def)
  then show "held[i := h] ! k \<inter> held[i := h] ! j = {}"
    using disjoint [OF k] disjoint [OF j] k j i len \<open>k \<noteq> j\<close> by (auto simp: nth_list_update Int_commute)
qed

lemma held_after_sets:
  assumes "h \<subseteq> set handed" and "\<And>u. ev = Some (EvReserve (Inr u)) \<Longrightarrow> u \<notin> set handed"
  shows "held_after ev h \<subseteq> set (handed_after ev handed)" and "set handed \<subseteq> set (handed_after ev handed)"
    and "held_after ev h - h \<subseteq> - set handed"
  using assms by (cases "(ev, h)" rule: held_after.cases; auto)+

lemma views_length: "map task_view ts' = map task_view ts @ new \<Longrightarrow> length ts' - length ts = length new"
  by (drule arg_cong [where f = length]) simp

lemma core_reach_inv:
  assumes spec: "index_pool_spec new_id request_id in_use pool_new"
    and "core_reach new_id request_id pool_new net env fuel core held handed"
  shows "table_inv core \<and> tasks_inv core held handed
    \<and> userplane_reach new_id request_id pool_new net (core_packet_processor core) handed
    \<and> (never_panics env \<longrightarrow> unpanicked core)"
  using assms(2)
proof (induction rule: core_reach.induct)
  case core_start
  show ?case by (simp add: qcore_new_def table_inv_def tasks_inv_def unpanicked_def up_init)
next
  case (core_message core held handed draws pdu rsp core' held')
  from route_request_keeps [of core, OF _ core_message(2)] core_message.IH obtain new where
    k: "table_inv core'" "core_packet_processor core' = core_packet_processor core"
      "map task_view (core_tasks core') = map task_view (core_tasks core) @ new" "\<forall>(ue_id, p) \<in> set new. p = ue_message_handler env fuel ue_id"
    by blast
  have "views_inv (map task_view (core_tasks core) @ new) (held @ replicate (length new) {}) handed"
    using core_message.IH k(4) by (intro views_inv_append) (auto simp: tasks_inv_views)
  then have "tasks_inv core' held' handed"
    unfolding tasks_inv_views k(3) core_message(3) views_length [OF k(3)] .
  moreover have "leaves False True (snd v)" if "never_panics env" "v \<in> set new" for v
    using that k(4) leaves_handler [of False env fuel "fst v"] by (cases v) auto
  then have "never_panics env \<longrightarrow> unpanicked core'"
    using core_message.IH unfolding unpanicked_views k(3) by auto
  ultimately show ?case using core_message.IH k by simp
next
  case (core_task core held handed i inp ev core')
  then have inv: "table_inv core" "tasks_inv core held handed"
    and reach: "userplane_reach new_id request_id pool_new net (core_packet_processor core) handed" by auto
  let ?t = "core_tasks core ! i"
  from task_step_stepped [OF inv(1) core_task(2,3)] obtain p' where tab: "table_inv core'"
    and adv: "advances new_id (task_proc ?t) (core_packet_processor core) ev p' (core_packet_processor core')"
    and view: "map task_view (core_tasks core') = (map task_view (core_tasks core))[i := (task_ue_id ?t, p')]"
    by (auto simp: stepped_def)
  from inv(2) core_task(2) have ok: "obeys (own_identity (task_ue_id ?t)) (\<lambda>_ _. True) (held ! i) (task_proc ?t)"
    and sub: "held ! i \<subseteq> set handed"
    by (auto simp: tasks_inv_def task_ok_def)
  note up = advances_userplane [OF spec reach adv ok sub]
  have new: "u \<notin> held ! i" if "ev = Some (EvReserve (Inr u))" for u using up(3) [OF that] sub by blast
  have step: "obeys (own_identity (task_ue_id ?t)) (\<lambda>_ _. True) (held_after ev (held ! i)) p'"
    by (rule advances_obeys [OF adv ok new])
  note sets = held_after_sets [OF sub up(3)]
  have fst_i: "fst (map task_view (core_tasks core) ! i) = task_ue_id ?t" using core_task(2) by simp
  have "views_inv ((map task_view (core_tasks core))[i := (task_ue_id ?t, p')]) (held[i := held_after ev (held ! i)]) (handed_after ev handed)"
    using views_inv_update [OF inv(2) [unfolded tasks_inv_views], of i "held_after ev (held ! i)" p' "handed_after ev handed"]
      core_task(2) step sets unfolding fst_i by simp
  then have "tasks_inv core' (held[i := held_after ev (held ! i)]) (handed_after ev handed)"
    unfolding tasks_inv_views view .
  moreover have "unpanicked core'" if "never_panics env"
  proof -
    from that core_task.IH have "unpanicked core" by blast
    then have all: "\<forall>v \<in> set (map task_view (core_tasks core)). leaves False True (snd v)"
      unfolding unpanicked_views .
    have "leaves False True (task_proc ?t)" using all nth_mem [OF core_task(2)] by auto
    then have "leaves False True p'" by (rule advances_leaves [OF adv _ up(1)])
    then show ?thesis using all set_update_subset_insert [of "map task_view (core_tasks core)" i]
      unfolding unpanicked_views view by fastforce
  qed
  ultimately show ?case using tab up(2) by simp
next
  case (core_downlink core held handed oc rx f1u_send p r table' p' out)
  then have "userplane_reach new_id request_id pool_new net ((core_packet_processor core)\<lparr>downlink_forwarding_table := table'\<rparr>) handed"
    by (intro up_downlink) auto
  with core_downlink.IH show ?case by (simp add: tasks_inv_def unpanicked_def)
qed

section \<open>What the core guarantees\<close>

definition allowed_event :: "u32 \<Rightarrow> userplane_session set \<Rightarrow> event option \<Rightarrow> bool" where
  "allowed_event key held ev =
     (case ev of
        None \<Rightarrow> False
      | Some (EvCommit u tun r) \<Rightarrow> u \<in> held
      | Some (EvDelete u) \<Rightarrow> u \<in> held
      | Some e \<Rightarrow> own_identity key e)"

text \<open>
  C3. The core keeps its users apart.  However messages of the DU, tasks and downlink packets interleave: the sessions
  ever handed out have different TEIDs and different addresses and are at most 253; no two tasks hold the same session;
  a task commits and deletes only sessions that it holds itself, sends F1AP messages only under its own UE identity,
  removes only its own channel and is never stopped by a panic of the packet processor; and in a release build with
  a NAS library of the standard's layout no task has panicked.
\<close>

theorem core_isolates_users:
  assumes "index_pool_spec new_id request_id in_use pool_new"
    and "core_reach new_id request_id pool_new net env fuel core held handed"
  shows "distinct (map session_teid handed) \<and> distinct (map ue_ip_addr handed) \<and> length handed \<le> 253
    \<and> length held = length (core_tasks core)
    \<and> (\<forall>i < length held. \<forall>j < length held. i \<noteq> j \<longrightarrow> held ! i \<inter> held ! j = {})
    \<and> (\<forall>i < length held. \<forall>inp ev core'. task_step new_id inp i core = Some (ev, core') \<longrightarrow>
         allowed_event (task_ue_id (core_tasks core ! i)) (held ! i) ev)
    \<and> (never_panics env \<longrightarrow> (\<forall>t \<in> set (core_tasks core). task_proc t \<noteq> Panic))"
proof -
  from core_reach_inv [OF assms] have inv: "table_inv core" "tasks_inv core held handed"
    and reach: "userplane_reach new_id request_id pool_new net (core_packet_processor core) handed"
    and panic: "never_panics env \<longrightarrow> unpanicked core" by auto
  have "allowed_event (task_ue_id (core_tasks core ! i)) (held ! i) ev"
    if i: "i < length held" and step: "task_step new_id inp i core = Some (ev, core')" for i inp ev core'
  proof -
    from i inv(2) have i': "i < length (core_tasks core)" by (simp add: tasks_inv_def)
    from task_step_stepped [OF inv(1) i' step] obtain p' where
      adv: "advances new_id (task_proc (core_tasks core ! i)) (core_packet_processor core) ev p' (core_packet_processor core')"
      by (auto simp: stepped_def)
    from inv(2) i have ok: "obeys (own_identity (task_ue_id (core_tasks core ! i))) (\<lambda>_ _. True) (held ! i) (task_proc (core_tasks core ! i))"
      and sub: "held ! i \<subseteq> set handed"
      by (auto simp: tasks_inv_def task_ok_def)
    from advances_userplane(1) [OF assms(1) reach adv ok sub] obtain e where "ev = Some e" by blast
    with advances_event [OF adv ok] show ?thesis by (auto simp: allowed_event_def split: event.split)
  qed
  moreover from panic have "never_panics env \<longrightarrow> (\<forall>t \<in> set (core_tasks core). task_proc t \<noteq> Panic)"
    by (auto simp: unpanicked_def)
  moreover note sessions_exclusive [OF assms(1) reach]
  ultimately show ?thesis using inv(2) unfolding tasks_inv_def by blast
qed

text \<open>The identity that a message of the DU carries, and the messages that start a task.\<close>

fun pdu_ue_id :: "f1ap_pdu \<Rightarrow> u32 option" where
  "pdu_ue_id (InitiatingMessage (UlRrcMessageTransfer r)) = Some (urt_gnb_cu_ue_f1ap_id r)"
| "pdu_ue_id (InitiatingMessage (UeContextReleaseRequest r)) = Some (crr_gnb_cu_ue_f1ap_id r)"
| "pdu_ue_id _ = None"

fun starts_task :: "f1ap_pdu \<Rightarrow> bool" where
  "starts_task (InitiatingMessage (InitialUlRrcMessageTransfer r)) \<longleftrightarrow> True"
| "starts_task _ \<longleftrightarrow> False"

lemma pdu_for_cases: "pdu_for ue_id m \<Longrightarrow> starts_task m \<or> pdu_ue_id m = Some ue_id"
  by (cases "(ue_id, m)" rule: pdu_for.cases) auto

lemma pdu_ue_id_starts: "pdu_ue_id m = Some ue_id \<Longrightarrow> \<not> starts_task m"
  by (cases m rule: starts_task.cases) auto

text \<open>An initial message is in the queue of a task only as long as the task has not started, and in front.\<close>

definition unstarted :: "qc_env \<Rightarrow> nat \<Rightarrow> ue_task \<Rightarrow> bool" where
  "unstarted env fuel t \<longleftrightarrow> task_proc t = ue_message_handler env fuel (task_ue_id t)"

definition queue_ok :: "qc_env \<Rightarrow> nat \<Rightarrow> ue_task \<Rightarrow> bool" where
  "queue_ok env fuel t \<longleftrightarrow> list_all (\<lambda>m. \<not> starts_task m) (tl (task_queue t))
     \<and> (task_queue t \<noteq> [] \<longrightarrow> starts_task (hd (task_queue t)) \<longrightarrow> unstarted env fuel t)"

lemma queue_ok_append: "queue_ok env fuel t \<Longrightarrow> \<not> starts_task m \<Longrightarrow> queue_ok env fuel (t\<lparr>task_queue := task_queue t @ [m]\<rparr>)"
  by (cases "task_queue t") (auto simp: queue_ok_def unstarted_def)

lemma queue_ok_drop: "queue_ok env fuel t \<Longrightarrow> queue_ok env fuel (drop_sender t)"
  by (simp add: queue_ok_def unstarted_def drop_sender_def)

lemma queue_ok_recv: "queue_ok env fuel t \<Longrightarrow> task_queue t = m # q \<Longrightarrow> queue_ok env fuel (t\<lparr>task_proc := p, task_queue := q\<rparr>)"
  by (cases q) (auto simp: queue_ok_def)

lemma queue_ok_proc:
  assumes "queue_ok env fuel t" and "(\<forall>k. task_proc t \<noteq> Recv k) \<or> task_queue t = []"
  shows "queue_ok env fuel (t\<lparr>task_proc := p\<rparr>)"
proof (cases "task_queue t")
  case (Cons m q)
  with assms have "\<not> unstarted env fuel t" by (auto simp: unstarted_def ue_message_handler_def)
  then show ?thesis using assms(1) Cons by (simp add: queue_ok_def)
qed (simp add: queue_ok_def)

definition queues_ok :: "qc_env \<Rightarrow> nat \<Rightarrow> 'p qcore \<Rightarrow> bool" where
  "queues_ok env fuel core \<longleftrightarrow> (\<forall>t \<in> set (core_tasks core). queue_ok env fuel t)"

lemma queues_ok_nth: "queues_ok env fuel core \<Longrightarrow> i < length (core_tasks core) \<Longrightarrow> queue_ok env fuel (core_tasks core ! i)"
  by (simp add: queues_ok_def)

lemma queues_ok_update:
  assumes "queues_ok env fuel core" and "i < length (core_tasks core) \<Longrightarrow> queue_ok env fuel t"
    and "core_tasks core' = (core_tasks core)[i := t]"
  shows "queues_ok env fuel core'"
proof (cases "i < length (core_tasks core)")
  case True
  then show ?thesis
    using assms set_update_subset_insert [of "core_tasks core" i t] unfolding queues_ok_def by auto
next
  case False
  then show ?thesis using assms(1,3) by (simp add: queues_ok_def list_update_beyond)
qed

lemma queues_ok_dispatch:
  assumes "queues_ok env fuel core" and "\<not> starts_task m"
  shows "queues_ok env fuel (snd (dispatch_ue_message ue_id m core))"
proof (cases "\<exists>i. ue_tasks core ue_id = Some i \<and> \<not> task_ended (core_tasks core ! i)")
  case True
  then obtain i where i: "ue_tasks core ue_id = Some i" "\<not> task_ended (core_tasks core ! i)" by blast
  show ?thesis
    by (rule queues_ok_update [OF assms(1), of i "(core_tasks core ! i)\<lparr>task_queue := task_queue (core_tasks core ! i) @ [m]\<rparr>"])
      (use assms i in \<open>auto simp: dispatch_ue_message_def Let_def intro: queue_ok_append queues_ok_nth\<close>)
next
  case False
  then have "snd (dispatch_ue_message ue_id m core) = core"
    by (auto simp: dispatch_ue_message_def Let_def split: option.split)
  then show ?thesis using assms(1) by simp
qed

text \<open>The whole effect of an initial message: one new task, with this message in its queue.\<close>

lemma initial_message_effect:
  assumes "route_request env fuel draws (InitiatingMessage (InitialUlRrcMessageTransfer r)) core = Some (rsp, core')"
  shows "rsp = None \<and> (\<exists>ue_id. ue_tasks core ue_id = None \<and>
    core' = core\<lparr>core_tasks := core_tasks core @ [\<lparr>task_ue_id = ue_id, task_proc = ue_message_handler env fuel ue_id,
                    task_queue = [InitiatingMessage (InitialUlRrcMessageTransfer r)], task_sender_dropped = False\<rparr>],
                 ue_tasks := (ue_tasks core)(ue_id \<mapsto> length (core_tasks core))\<rparr>)"
proof -
  have live: "\<not> task_ended \<lparr>task_ue_id = ue_id, task_proc = ue_message_handler env fuel ue_id, task_queue = q, task_sender_dropped = b\<rparr>"
    for ue_id q b by (simp add: task_ended_def ue_message_handler_def)
  from assms obtain ue_id where "pick_ue_id draws (ue_tasks core) = Some ue_id"
    by (auto simp: route_request_def handle_initial_ul_rrc_message_transfer_def spawn_ue_message_handler_def split: option.splits)
  moreover from pick_ue_id_new [OF this] have "ue_tasks core ue_id = None" .
  ultimately show ?thesis
    using assms live
    by (auto simp: route_request_def handle_initial_ul_rrc_message_transfer_def spawn_ue_message_handler_def
        dispatch_ue_message_def Let_def)
qed

lemma queues_ok_message:
  assumes ok: "queues_ok env fuel core" and step: "route_request env fuel draws pdu core = Some (rsp, core')"
  shows "queues_ok env fuel core'"
proof (cases "starts_task pdu")
  case True
  then obtain r where pdu: "pdu = InitiatingMessage (InitialUlRrcMessageTransfer r)" by (cases pdu rule: starts_task.cases) auto
  from initial_message_effect [OF step [unfolded pdu]] ok show ?thesis
    by (auto simp: queues_ok_def queue_ok_def unstarted_def)
next
  case False
  show ?thesis
  proof (cases "\<exists>ue_id. core' = snd (dispatch_ue_message ue_id pdu core)")
    case True
    then show ?thesis using queues_ok_dispatch [OF ok False] by auto
  next
    case other: False
    have "core' = core \<or> core' = delete_ue_channels core"
      using step False other
      by (auto simp: route_request_def f1_removal_run_def handle_ul_rrc_message_transfer_def handle_ue_context_release_request_def
          split: f1ap_pdu.splits initiating_message.splits sum.splits)
    moreover have "queues_ok env fuel (delete_ue_channels core)"
      using queues_ok_nth [OF ok] queue_ok_drop by (auto simp: queues_ok_def in_set_conv_nth delete_ue_channels_nth)
    ultimately show ?thesis using ok by blast
  qed
qed

lemma queues_ok_delete_channel: "queues_ok env fuel core \<Longrightarrow> queues_ok env fuel (delete_ue_channel ue_id core)"
proof (cases "ue_tasks core ue_id")
  case (Some j)
  assume ok: "queues_ok env fuel core"
  show ?thesis
    by (rule queues_ok_update [OF ok, of j "drop_sender (core_tasks core ! j)"])
      (use queues_ok_nth [OF ok] queue_ok_drop Some in \<open>auto simp: delete_ue_channel_def\<close>)
qed (simp add: delete_ue_channel_def)

lemma delete_channel_same_program:
  "task_proc (core_tasks (delete_ue_channel ue_id core) ! i) = task_proc (core_tasks core ! i)"
proof (cases "ue_tasks core ue_id")
  case (Some j)
  then show ?thesis
    by (cases "j < length (core_tasks core)"; cases "i = j")
      (simp_all add: delete_ue_channel_def drop_sender_def list_update_beyond)
qed (simp add: delete_ue_channel_def)

lemma queues_ok_put:
  assumes "queues_ok env fuel core" and "(\<forall>k. task_proc (core_tasks core ! i) \<noteq> Recv k) \<or> task_queue (core_tasks core ! i) = []"
  shows "queues_ok env fuel (put_proc i p core)"
  by (rule queues_ok_update [OF assms(1), of i "(core_tasks core ! i)\<lparr>task_proc := p\<rparr>"])
    (use assms in \<open>auto simp: put_proc_def intro!: queue_ok_proc queues_ok_nth\<close>)

lemma queues_ok_userplane: "queues_ok env fuel core \<Longrightarrow> queues_ok env fuel (core\<lparr>core_packet_processor := pp\<rparr>)"
  by (simp add: queues_ok_def)

lemma queues_ok_task:
  assumes ok: "queues_ok env fuel core" and step: "task_step new_id inp i core = Some (ev, core')"
  shows "queues_ok env fuel core'"
proof (cases "task_proc (core_tasks core ! i)")
  case (Recv k)
  show ?thesis
  proof (cases "task_queue (core_tasks core ! i)")
    case Nil
    then show ?thesis
      using step Recv queues_ok_put [OF ok, of i] by (auto simp: task_step_def Let_def split: if_splits)
  next
    case (Cons m q)
    show ?thesis
      by (rule queues_ok_update [OF ok, of i "(core_tasks core ! i)\<lparr>task_proc := k (Some m), task_queue := q\<rparr>"])
        (use step Recv Cons queues_ok_nth [OF ok] in \<open>auto simp: task_step_def Let_def intro: queue_ok_recv\<close>)
  qed
next
  case (DeleteUeChannel ue_id p)
  then have "core' = put_proc i p (delete_ue_channel ue_id core)" using step by (auto simp: task_step_def)
  then show ?thesis
    using queues_ok_put [OF queues_ok_delete_channel [OF ok], where i = i] DeleteUeChannel
    by (simp add: delete_channel_same_program)
qed (use step queues_ok_put [OF queues_ok_userplane [OF ok], where i = i] queues_ok_put [OF ok, where i = i]
    in \<open>auto simp: task_step_def Let_def split: task_input.splits option.splits prod.splits\<close>)

lemma core_reach_queues:
  "core_reach new_id request_id pool_new net env fuel core held handed \<Longrightarrow> queues_ok env fuel core"
proof (induction rule: core_reach.induct)
  case core_start
  show ?case by (simp add: queues_ok_def qcore_new_def)
next
  case (core_message core held handed draws pdu rsp core' held')
  then show ?case by (blast intro: queues_ok_message)
next
  case (core_task core held handed i inp ev core')
  then show ?case by (blast intro: queues_ok_task)
next
  case (core_downlink core held handed oc rx f1u_send p r table' p' out)
  then show ?case by (simp add: queues_ok_def)
qed

lemma route_request_carried:
  "pdu_ue_id m = Some ue_id \<Longrightarrow> route_request env fuel draws m core = Some (None, snd (dispatch_ue_message ue_id m core))"
  by (cases m rule: pdu_ue_id.cases)
    (simp_all add: route_request_def handle_ul_rrc_message_transfer_def handle_ue_context_release_request_def)

text \<open>
  C4. Messages reach the task of their UE and no other.  Whatever a task receives either carries the UE identity
  that the task was started with, or is an initial message, and then the first thing that the task receives at all.
  An initial message starts one task under an identity that is not in use and is put in the queue of this
  task; an uplink message or a release request is appended to the queue of the task that is in the table
  under its identity, if there is one that has not ended, and is dropped otherwise; in all cases nothing else changes.
\<close>

theorem messages_reach_their_task:
  assumes "index_pool_spec new_id request_id in_use pool_new"
    and "core_reach new_id request_id pool_new net env fuel core held handed"
  shows "(\<forall>i < length (core_tasks core). \<forall>inp m core'. task_step new_id inp i core = Some (Some (EvRecv (Some m)), core') \<longrightarrow>
        pdu_ue_id m = Some (task_ue_id (core_tasks core ! i)) \<or> starts_task m \<and> unstarted env fuel (core_tasks core ! i))
    \<and> (\<forall>draws r rsp core'. route_request env fuel draws (InitiatingMessage (InitialUlRrcMessageTransfer r)) core = Some (rsp, core') \<longrightarrow>
        rsp = None \<and> (\<exists>ue_id. ue_tasks core ue_id = None \<and>
          core' = core\<lparr>core_tasks := core_tasks core @ [\<lparr>task_ue_id = ue_id, task_proc = ue_message_handler env fuel ue_id,
                          task_queue = [InitiatingMessage (InitialUlRrcMessageTransfer r)], task_sender_dropped = False\<rparr>],
                       ue_tasks := (ue_tasks core)(ue_id \<mapsto> length (core_tasks core))\<rparr>))
    \<and> (\<forall>draws m ue_id i. pdu_ue_id m = Some ue_id \<longrightarrow> ue_tasks core ue_id = Some i \<longrightarrow> \<not> task_ended (core_tasks core ! i) \<longrightarrow>
        task_ue_id (core_tasks core ! i) = ue_id
        \<and> route_request env fuel draws m core = Some (None, core\<lparr>core_tasks := (core_tasks core)
            [i := (core_tasks core ! i)\<lparr>task_queue := task_queue (core_tasks core ! i) @ [m]\<rparr>]\<rparr>))
    \<and> (\<forall>draws m ue_id. pdu_ue_id m = Some ue_id \<longrightarrow> (\<forall>i. ue_tasks core ue_id = Some i \<longrightarrow> task_ended (core_tasks core ! i)) \<longrightarrow>
        route_request env fuel draws m core = Some (None, core))"
proof (intro conjI)
  from core_reach_inv [OF assms] have inv: "table_inv core" by auto
  show "\<forall>i < length (core_tasks core). \<forall>inp m core'. task_step new_id inp i core = Some (Some (EvRecv (Some m)), core') \<longrightarrow>
        pdu_ue_id m = Some (task_ue_id (core_tasks core ! i)) \<or> starts_task m \<and> unstarted env fuel (core_tasks core ! i)"
  proof (intro allI impI)
    fix i inp m core'
    assume i: "i < length (core_tasks core)" and step: "task_step new_id inp i core = Some (Some (EvRecv (Some m)), core')"
    then obtain q where q: "task_queue (core_tasks core ! i) = m # q"
      by (auto simp: task_step_def Let_def split: proc.splits list.splits if_splits task_input.splits option.splits prod.splits)
    have "pdu_for (task_ue_id (core_tasks core ! i)) m" using table_invD(4) [OF inv i] q by simp
    moreover have "starts_task m \<Longrightarrow> unstarted env fuel (core_tasks core ! i)"
      using queues_ok_nth [OF core_reach_queues [OF assms(2)] i] q by (auto simp: queue_ok_def)
    ultimately show "pdu_ue_id m = Some (task_ue_id (core_tasks core ! i)) \<or> starts_task m \<and> unstarted env fuel (core_tasks core ! i)"
      using pdu_for_cases by blast
  qed
  show "\<forall>draws m ue_id i. pdu_ue_id m = Some ue_id \<longrightarrow> ue_tasks core ue_id = Some i \<longrightarrow> \<not> task_ended (core_tasks core ! i) \<longrightarrow>
        task_ue_id (core_tasks core ! i) = ue_id
        \<and> route_request env fuel draws m core = Some (None, core\<lparr>core_tasks := (core_tasks core)
            [i := (core_tasks core ! i)\<lparr>task_queue := task_queue (core_tasks core ! i) @ [m]\<rparr>]\<rparr>)"
  proof (intro allI impI)
    fix draws m ue_id i
    assume "pdu_ue_id m = Some ue_id" "ue_tasks core ue_id = Some i" "\<not> task_ended (core_tasks core ! i)"
    then show "task_ue_id (core_tasks core ! i) = ue_id \<and> route_request env fuel draws m core = Some (None, core\<lparr>core_tasks :=
        (core_tasks core)[i := (core_tasks core ! i)\<lparr>task_queue := task_queue (core_tasks core ! i) @ [m]\<rparr>]\<rparr>)"
      using table_invD(2) [OF inv] by (simp add: route_request_carried dispatch_ue_message_def Let_def)
  qed
  show "\<forall>draws m ue_id. pdu_ue_id m = Some ue_id \<longrightarrow> (\<forall>i. ue_tasks core ue_id = Some i \<longrightarrow> task_ended (core_tasks core ! i)) \<longrightarrow>
        route_request env fuel draws m core = Some (None, core)"
    by (auto simp: route_request_carried dispatch_ue_message_def Let_def split: option.split)
qed (use initial_message_effect in blast)

text \<open>
  C24. F1 removal lets every UE task end: the response carries the transaction of the request, the table is empty, and
  afterwards no task is blocked on its channel: each task that receives gets what is left in its queue and then the
  end of the channel.
\<close>

theorem f1_removal_unblocks_tasks:
  assumes "index_pool_spec new_id request_id in_use pool_new"
    and "core_reach new_id request_id pool_new net env fuel core held handed"
  shows "\<exists>core'. route_request env fuel draws (InitiatingMessage (F1RemovalRequest r)) core =
        Some (Some (SuccessfulOutcome (F1RemovalResponse \<lparr>frp_transaction_id = frr_transaction_id r, frp_criticality_diagnostics = None\<rparr>)), core')
    \<and> ue_tasks core' = Map.empty \<and> length (core_tasks core') = length (core_tasks core)
    \<and> (\<forall>i < length (core_tasks core'). \<forall>k. task_proc (core_tasks core' ! i) = Recv k \<longrightarrow>
        (\<exists>x core''. task_step new_id NoInput i core' = Some (Some (EvRecv x), core'')
           \<and> (x = None \<longleftrightarrow> task_queue (core_tasks core' ! i) = [])))"
proof -
  from core_reach_inv [OF assms] have inv: "table_inv core" by auto
  from delete_channels_keeps [OF inv] have "task_sender_dropped (core_tasks (delete_ue_channels core) ! i)" if "i < length (core_tasks core)" for i
    using that by simp
  then show ?thesis
    by (auto simp: route_request_def f1_removal_run_def task_step_def Let_def split: list.split)
qed

section \<open>A core with one UE\<close>

definition example_attach :: initial_ul_rrc_message_transfer where
  "example_attach = \<lparr>iut_gnb_du_ue_f1ap_id = 8, iut_nr_cgi = example_cgi, iut_c_rnti = 1, iut_rrc_container = [1],
     iut_du_to_cu_rrc_container = Some [2], iut_sul_access_indication = None, iut_transaction_id = None,
     iut_ran_ue_id = None, iut_rrc_container_rrc_setup_complete = None\<rparr>"

definition example_core :: "nat list qcore" where
  "example_core = \<lparr>core_packet_processor = example_pp,
     core_tasks = [\<lparr>task_ue_id = 7, task_proc = ue_message_handler example_env 3 7,
       task_queue = [InitiatingMessage (InitialUlRrcMessageTransfer example_attach)], task_sender_dropped = False\<rparr>],
     ue_tasks = [7 \<mapsto> 0]\<rparr>"

lemma example_core_reach:
  "core_reach list_pool_new_id list_pool_request_id [] (Arr4 10 255 0 0) example_env 3 example_core [{}] []"
proof -
  have live: "\<not> task_ended \<lparr>task_ue_id = 7, task_proc = ue_message_handler example_env 3 7, task_queue = [], task_sender_dropped = False\<rparr>"
    by (simp add: task_ended_def ue_message_handler_def)
  have "route_request example_env 3 [7] (InitiatingMessage (InitialUlRrcMessageTransfer example_attach)) (qcore_new example_pp)
      = Some (None, example_core)"
    using live by (simp add: route_request_def handle_initial_ul_rrc_message_transfer_def spawn_ue_message_handler_def qcore_new_def
        dispatch_ue_message_def Let_def example_core_def)
  from core_message [OF core_start this [unfolded example_pp_def] refl] show ?thesis
    by (simp add: qcore_new_def example_core_def)
qed

theorem core_isolates_users_witness:
  "allowed_event 7 {} (Some (EvRecv (Some (InitiatingMessage (InitialUlRrcMessageTransfer example_attach)))))
    \<and> length (core_tasks example_core) = 1"
proof -
  have "\<exists>core'. task_step list_pool_new_id NoInput 0 example_core
      = Some (Some (EvRecv (Some (InitiatingMessage (InitialUlRrcMessageTransfer example_attach)))), core')"
    by (simp add: task_step_def example_core_def ue_message_handler_def Let_def)
  moreover have "task_ue_id (core_tasks example_core ! 0) = 7" by (simp add: example_core_def)
  moreover note core_isolates_users [OF list_pool.index_pool_spec_axioms example_core_reach]
  ultimately show ?thesis by (metis One_nat_def length_Cons list.size(3) nth_Cons_0 zero_less_one)
qed

definition example_release :: ue_context_release_request where
  "example_release = \<lparr>crr_gnb_cu_ue_f1ap_id = 7, crr_gnb_du_ue_f1ap_id = 8, crr_cause = CauseRadioNetwork NormalRelease,
     crr_target_cells_to_cancel = None\<rparr>"

theorem messages_reach_their_task_witness:
  "unstarted example_env 3 (core_tasks example_core ! 0)
    \<and> (\<exists>core'. route_request example_env 3 [] (InitiatingMessage (UeContextReleaseRequest example_release)) example_core = Some (None, core')
        \<and> task_queue (core_tasks core' ! 0) = [InitiatingMessage (InitialUlRrcMessageTransfer example_attach),
             InitiatingMessage (UeContextReleaseRequest example_release)])"
proof -
  obtain core' where step: "task_step list_pool_new_id NoInput 0 example_core
      = Some (Some (EvRecv (Some (InitiatingMessage (InitialUlRrcMessageTransfer example_attach)))), core')"
    by (simp add: task_step_def example_core_def ue_message_handler_def Let_def)
  have core: "0 < length (core_tasks example_core)" "ue_tasks example_core 7 = Some 0" "\<not> task_ended (core_tasks example_core ! 0)"
    "task_queue (core_tasks example_core ! 0) = [InitiatingMessage (InitialUlRrcMessageTransfer example_attach)]"
    by (simp_all add: example_core_def task_ended_def ue_message_handler_def)
  have id: "pdu_ue_id (InitiatingMessage (UeContextReleaseRequest example_release)) = Some 7" by (simp add: example_release_def)
  note reach = messages_reach_their_task [OF list_pool.index_pool_spec_axioms example_core_reach]
  from reach [THEN conjunct1, rule_format, OF core(1) step] have "unstarted example_env 3 (core_tasks example_core ! 0)"
    by (simp only: pdu_ue_id.simps option.simps simp_thms)
  moreover from reach [THEN conjunct2, THEN conjunct2, THEN conjunct1, rule_format, OF id core(2,3)] core(1,4)
  have "\<exists>core'. route_request example_env 3 [] (InitiatingMessage (UeContextReleaseRequest example_release)) example_core = Some (None, core')
        \<and> task_queue (core_tasks core' ! 0) = [InitiatingMessage (InitialUlRrcMessageTransfer example_attach),
             InitiatingMessage (UeContextReleaseRequest example_release)]"
    by simp
  ultimately show ?thesis by blast
qed

theorem f1_removal_unblocks_tasks_witness:
  "\<exists>core'. route_request example_env 3 [] (InitiatingMessage (F1RemovalRequest \<lparr>frr_transaction_id = 9\<rparr>)) example_core =
        Some (Some (SuccessfulOutcome (F1RemovalResponse \<lparr>frp_transaction_id = 9, frp_criticality_diagnostics = None\<rparr>)), core')
    \<and> ue_tasks core' = Map.empty"
  using f1_removal_unblocks_tasks [OF list_pool.index_pool_spec_axioms example_core_reach, of "[]" "\<lparr>frr_transaction_id = 9\<rparr>"]
  by auto

end
