(* ===== verification/F1ap_Pdu.thy ===== *)
theory F1ap_Pdu
  imports F1ap_Codec F1ap_Setup_Codec F1ap_Context_Codec F1ap_Stack Qcore_System
begin

text \<open>
  The top-level PDU of F1AP (\<open>5g-libs/f1ap/src/top_pdu.rs\<close>): a choice among initiating message, successful
  and unsuccessful outcome, each an envelope of procedure code, criticality and length around one
  message.  The transaction layer looks at the first two octets of a received message only; here they are
  shown to be the kind of PDU and the procedure code, so that what the stack decides and what the decoder
  returns agree.  The codecs of the messages that QCore neither sends nor handles are fields of the record
  \<open>f1ap_message_codecs\<close>.
\<close>

section \<open>Envelopes\<close>

definition unrecognised_procedure :: "int \<Rightarrow> per_fail" where
  "unrecognised_procedure x = per_codec_error_new (''Unrecognised procedure code '' @ show_int x)"

definition encode_envelope :: "per_lib \<Rightarrow> int \<Rightarrow> criticality \<Rightarrow> encoder \<Rightarrow> encoder" where
  "encode_envelope L code crit x data =
     result_bind (encode_integer L (Some 0) (Some 255) False code False data) (\<lambda>data.
     result_bind (encode_of (Criticality_codec L) crit data) (\<lambda>data.
     result_bind (x []) (\<lambda>container.
     result_bind (encode_length_determinent L None None False (length_in_bytes L container) data) (\<lambda>data.
     Inr (append_aligned L data container)))))"

text \<open>The decoder uses neither the criticality nor the length, and does not align behind the message.\<close>

definition decode_envelope :: "per_lib \<Rightarrow> (int \<times> 'a decoder) list \<Rightarrow> 'a decoder" where
  "decode_envelope L arms =
     dec_bind (decode_integer L (Some 0) (Some 255) False) (\<lambda>(code, _).
     dec_bind (decode_of (Criticality_codec L)) (\<lambda>_.
     dec_bind (decode_length_determinent L None None False) (\<lambda>_.
     case map_of arms code of None \<Rightarrow> dec_fail (unrecognised_procedure code) | Some d \<Rightarrow> d)))"

definition message_arm :: "int \<Rightarrow> 'a per_codec \<Rightarrow> ('a \<Rightarrow> 'b) \<Rightarrow> int \<times> 'b decoder" where
  "message_arm code C f = (code, dec_bind (decode_of C) (\<lambda>x. dec_return (f x)))"

section \<open>Messages that QCore does not use\<close>

primrec other_initiating_info :: "other_initiating \<Rightarrow> int \<times> criticality" where
  "other_initiating_info Reset = (0, Reject)"
| "other_initiating_info GnbCuConfigurationUpdate = (4, Reject)"
| "other_initiating_info UeContextModificationRequest = (7, Reject)"
| "other_initiating_info UeContextModificationRequired = (8, Reject)"
| "other_initiating_info WriteReplaceWarningRequest = (20, Reject)"
| "other_initiating_info PwsCancelRequest = (21, Reject)"
| "other_initiating_info ErrorIndication = (2, Ignore)"
| "other_initiating_info UeInactivityNotification = (15, Ignore)"
| "other_initiating_info GnbDuResourceCoordinationRequest = (16, Reject)"
| "other_initiating_info SystemInformationDeliveryCommand = (17, Ignore)"
| "other_initiating_info Paging = (18, Ignore)"
| "other_initiating_info NotifyMessage = (19, Ignore)"
| "other_initiating_info NetworkAccessRateReduction = (27, Ignore)"
| "other_initiating_info PwsRestartIndication = (22, Ignore)"
| "other_initiating_info PwsFailureIndication = (23, Ignore)"
| "other_initiating_info GnbDuStatusIndication = (24, Ignore)"
| "other_initiating_info RrcDeliveryReport = (25, Ignore)"
| "other_initiating_info TraceStart = (28, Ignore)"
| "other_initiating_info DeactivateTrace = (29, Ignore)"
| "other_initiating_info DuCuRadioInformationTransfer = (30, Ignore)"
| "other_initiating_info CuDuRadioInformationTransfer = (31, Ignore)"
| "other_initiating_info BapMappingConfiguration = (32, Reject)"
| "other_initiating_info GnbDuResourceConfiguration = (33, Reject)"
| "other_initiating_info IabtnlAddressRequest = (34, Reject)"
| "other_initiating_info IabupConfigurationUpdateRequest = (35, Reject)"
| "other_initiating_info ResourceStatusRequest = (36, Reject)"
| "other_initiating_info ResourceStatusUpdate = (37, Ignore)"
| "other_initiating_info AccessAndMobilityIndication = (38, Ignore)"
| "other_initiating_info ReferenceTimeInformationReportingControl = (58, Ignore)"
| "other_initiating_info ReferenceTimeInformationReport = (57, Ignore)"
| "other_initiating_info AccessSuccess = (39, Ignore)"
| "other_initiating_info CellTrafficTrace = (40, Ignore)"
| "other_initiating_info PositioningAssistanceInformationControl = (42, Ignore)"
| "other_initiating_info PositioningAssistanceInformationFeedback = (43, Ignore)"
| "other_initiating_info PositioningMeasurementRequest = (41, Reject)"
| "other_initiating_info PositioningMeasurementReport = (44, Ignore)"
| "other_initiating_info PositioningMeasurementAbort = (45, Ignore)"
| "other_initiating_info PositioningMeasurementFailureIndication = (46, Ignore)"
| "other_initiating_info PositioningMeasurementUpdate = (47, Ignore)"
| "other_initiating_info TrpInformationRequest = (48, Reject)"
| "other_initiating_info PositioningInformationRequest = (49, Reject)"
| "other_initiating_info PositioningActivationRequest = (50, Reject)"
| "other_initiating_info PositioningDeactivation = (51, Ignore)"
| "other_initiating_info ECidMeasurementInitiationRequest = (52, Reject)"
| "other_initiating_info ECidMeasurementFailureIndication = (53, Ignore)"
| "other_initiating_info ECidMeasurementReport = (54, Ignore)"
| "other_initiating_info ECidMeasurementTerminationCommand = (55, Ignore)"
| "other_initiating_info PositioningInformationUpdate = (56, Ignore)"

definition other_initiating_all :: "other_initiating list" where
  "other_initiating_all =
     [Reset, GnbCuConfigurationUpdate, UeContextModificationRequest, UeContextModificationRequired,
      WriteReplaceWarningRequest, PwsCancelRequest, ErrorIndication, UeInactivityNotification,
      GnbDuResourceCoordinationRequest, SystemInformationDeliveryCommand, Paging, NotifyMessage,
      NetworkAccessRateReduction, PwsRestartIndication, PwsFailureIndication, GnbDuStatusIndication,
      RrcDeliveryReport, TraceStart, DeactivateTrace, DuCuRadioInformationTransfer,
      CuDuRadioInformationTransfer, BapMappingConfiguration, GnbDuResourceConfiguration,
      IabtnlAddressRequest, IabupConfigurationUpdateRequest, ResourceStatusRequest,
      ResourceStatusUpdate, AccessAndMobilityIndication, ReferenceTimeInformationReportingControl,
      ReferenceTimeInformationReport, AccessSuccess, CellTrafficTrace,
      PositioningAssistanceInformationControl, PositioningAssistanceInformationFeedback,
      PositioningMeasurementRequest, PositioningMeasurementReport, PositioningMeasurementAbort,
      PositioningMeasurementFailureIndication, PositioningMeasurementUpdate, TrpInformationRequest,
      PositioningInformationRequest, PositioningActivationRequest, PositioningDeactivation,
      ECidMeasurementInitiationRequest, ECidMeasurementFailureIndication, ECidMeasurementReport,
      ECidMeasurementTerminationCommand, PositioningInformationUpdate]"

text \<open>The outcomes are all written with criticality \<open>Reject\<close>.\<close>

primrec other_successful_code :: "other_successful \<Rightarrow> int" where
  "other_successful_code ResetAcknowledge = 0"
| "other_successful_code GnbCuConfigurationUpdateAcknowledge = 4"
| "other_successful_code UeContextModificationResponse = 7"
| "other_successful_code UeContextModificationConfirm = 8"
| "other_successful_code WriteReplaceWarningResponse = 20"
| "other_successful_code PwsCancelResponse = 21"
| "other_successful_code GnbDuResourceCoordinationResponse = 16"
| "other_successful_code BapMappingConfigurationAcknowledge = 32"
| "other_successful_code GnbDuResourceConfigurationAcknowledge = 33"
| "other_successful_code IabtnlAddressResponse = 34"
| "other_successful_code IabupConfigurationUpdateResponse = 35"
| "other_successful_code ResourceStatusResponse = 36"
| "other_successful_code PositioningMeasurementResponse = 41"
| "other_successful_code TrpInformationResponse = 48"
| "other_successful_code PositioningInformationResponse = 49"
| "other_successful_code PositioningActivationResponse = 50"
| "other_successful_code ECidMeasurementInitiationResponse = 52"

definition other_successful_all :: "other_successful list" where
  "other_successful_all =
     [ResetAcknowledge, GnbCuConfigurationUpdateAcknowledge, UeContextModificationResponse,
      UeContextModificationConfirm, WriteReplaceWarningResponse, PwsCancelResponse,
      GnbDuResourceCoordinationResponse, BapMappingConfigurationAcknowledge,
      GnbDuResourceConfigurationAcknowledge, IabtnlAddressResponse, IabupConfigurationUpdateResponse,
      ResourceStatusResponse, PositioningMeasurementResponse, TrpInformationResponse,
      PositioningInformationResponse, PositioningActivationResponse, ECidMeasurementInitiationResponse]"

primrec other_unsuccessful_code :: "other_unsuccessful \<Rightarrow> int" where
  "other_unsuccessful_code GnbDuConfigurationUpdateFailure = 3"
| "other_unsuccessful_code GnbCuConfigurationUpdateFailure = 4"
| "other_unsuccessful_code UeContextModificationFailure = 7"
| "other_unsuccessful_code UeContextModificationRefuse = 8"
| "other_unsuccessful_code BapMappingConfigurationFailure = 32"
| "other_unsuccessful_code GnbDuResourceConfigurationFailure = 33"
| "other_unsuccessful_code IabtnlAddressFailure = 34"
| "other_unsuccessful_code IabupConfigurationUpdateFailure = 35"
| "other_unsuccessful_code ResourceStatusFailure = 36"
| "other_unsuccessful_code PositioningMeasurementFailure = 41"
| "other_unsuccessful_code TrpInformationFailure = 48"
| "other_unsuccessful_code PositioningInformationFailure = 49"
| "other_unsuccessful_code PositioningActivationFailure = 50"
| "other_unsuccessful_code ECidMeasurementInitiationFailure = 52"

definition other_unsuccessful_all :: "other_unsuccessful list" where
  "other_unsuccessful_all =
     [GnbDuConfigurationUpdateFailure, GnbCuConfigurationUpdateFailure, UeContextModificationFailure,
      UeContextModificationRefuse, BapMappingConfigurationFailure, GnbDuResourceConfigurationFailure,
      IabtnlAddressFailure, IabupConfigurationUpdateFailure, ResourceStatusFailure,
      PositioningMeasurementFailure, TrpInformationFailure, PositioningInformationFailure,
      PositioningActivationFailure, ECidMeasurementInitiationFailure]"

record f1ap_message_codecs =
  other_initiating_codec :: "other_initiating \<Rightarrow> bytes per_codec"
  other_successful_codec :: "other_successful \<Rightarrow> bytes per_codec"
  other_unsuccessful_codec :: "other_unsuccessful \<Rightarrow> bytes per_codec"

section \<open>The three kinds of PDU\<close>

definition InitiatingMessage_arms :: "per_lib \<Rightarrow> f1ap_message_codecs \<Rightarrow> (int \<times> initiating_message decoder) list" where
  "InitiatingMessage_arms L P =
     [message_arm 1 (F1SetupRequest_codec L) F1SetupRequest,
      message_arm 3 (GnbDuConfigurationUpdate_codec L) GnbDuConfigurationUpdate,
      message_arm 5 (UeContextSetupRequest_codec L) UeContextSetupRequest,
      message_arm 6 (UeContextReleaseCommand_codec L) UeContextReleaseCommand,
      message_arm 10 (UeContextReleaseRequest_codec L) UeContextReleaseRequest,
      message_arm 11 (InitialUlRrcMessageTransfer_codec L) InitialUlRrcMessageTransfer,
      message_arm 12 (DlRrcMessageTransfer_codec L) DlRrcMessageTransfer,
      message_arm 13 (UlRrcMessageTransfer_codec L) UlRrcMessageTransfer,
      message_arm 26 (F1RemovalRequest_codec L) F1RemovalRequest] @
     map (\<lambda>k. message_arm (fst (other_initiating_info k)) (other_initiating_codec P k) (OtherInitiating k)) other_initiating_all"

definition InitiatingMessage_decode_inner :: "per_lib \<Rightarrow> f1ap_message_codecs \<Rightarrow> initiating_message decoder" where
  "InitiatingMessage_decode_inner L P = decode_envelope L (InitiatingMessage_arms L P)"

definition InitiatingMessage_encode_inner :: "per_lib \<Rightarrow> f1ap_message_codecs \<Rightarrow> initiating_message \<Rightarrow> encoder" where
  "InitiatingMessage_encode_inner L P m =
     (case m of
        F1SetupRequest x \<Rightarrow> encode_envelope L 1 Reject (encode_of (F1SetupRequest_codec L) x)
      | GnbDuConfigurationUpdate x \<Rightarrow> encode_envelope L 3 Reject (encode_of (GnbDuConfigurationUpdate_codec L) x)
      | UeContextSetupRequest x \<Rightarrow> encode_envelope L 5 Reject (encode_of (UeContextSetupRequest_codec L) x)
      | UeContextReleaseCommand x \<Rightarrow> encode_envelope L 6 Reject (encode_of (UeContextReleaseCommand_codec L) x)
      | UeContextReleaseRequest x \<Rightarrow> encode_envelope L 10 Ignore (encode_of (UeContextReleaseRequest_codec L) x)
      | InitialUlRrcMessageTransfer x \<Rightarrow> encode_envelope L 11 Ignore (encode_of (InitialUlRrcMessageTransfer_codec L) x)
      | DlRrcMessageTransfer x \<Rightarrow> encode_envelope L 12 Ignore (encode_of (DlRrcMessageTransfer_codec L) x)
      | UlRrcMessageTransfer x \<Rightarrow> encode_envelope L 13 Ignore (encode_of (UlRrcMessageTransfer_codec L) x)
      | F1RemovalRequest x \<Rightarrow> encode_envelope L 26 Reject (encode_of (F1RemovalRequest_codec L) x)
      | OtherInitiating k x \<Rightarrow> encode_envelope L (fst (other_initiating_info k)) (snd (other_initiating_info k)) (encode_of (other_initiating_codec P k) x))"

definition InitiatingMessage_codec :: "per_lib \<Rightarrow> f1ap_message_codecs \<Rightarrow> initiating_message per_codec" where
  "InitiatingMessage_codec L P = per_codec_impl ''InitiatingMessage'' (InitiatingMessage_decode_inner L P) (InitiatingMessage_encode_inner L P)"

definition SuccessfulOutcome_arms :: "per_lib \<Rightarrow> f1ap_message_codecs \<Rightarrow> (int \<times> successful_outcome decoder) list" where
  "SuccessfulOutcome_arms L P =
     [message_arm 1 (F1SetupResponse_codec L) F1SetupResponse,
      message_arm 3 (GnbDuConfigurationUpdateAcknowledge_codec L) GnbDuConfigurationUpdateAcknowledge,
      message_arm 5 (UeContextSetupResponse_codec L) UeContextSetupResponse,
      message_arm 6 (UeContextReleaseComplete_codec L) UeContextReleaseComplete,
      message_arm 26 (F1RemovalResponse_codec L) F1RemovalResponse] @
     map (\<lambda>k. message_arm (other_successful_code k) (other_successful_codec P k) (OtherSuccessful k)) other_successful_all"

definition SuccessfulOutcome_decode_inner :: "per_lib \<Rightarrow> f1ap_message_codecs \<Rightarrow> successful_outcome decoder" where
  "SuccessfulOutcome_decode_inner L P = decode_envelope L (SuccessfulOutcome_arms L P)"

definition SuccessfulOutcome_encode_inner :: "per_lib \<Rightarrow> f1ap_message_codecs \<Rightarrow> successful_outcome \<Rightarrow> encoder" where
  "SuccessfulOutcome_encode_inner L P m =
     (case m of
        F1SetupResponse x \<Rightarrow> encode_envelope L 1 Reject (encode_of (F1SetupResponse_codec L) x)
      | GnbDuConfigurationUpdateAcknowledge x \<Rightarrow> encode_envelope L 3 Reject (encode_of (GnbDuConfigurationUpdateAcknowledge_codec L) x)
      | UeContextSetupResponse x \<Rightarrow> encode_envelope L 5 Reject (encode_of (UeContextSetupResponse_codec L) x)
      | UeContextReleaseComplete x \<Rightarrow> encode_envelope L 6 Reject (encode_of (UeContextReleaseComplete_codec L) x)
      | F1RemovalResponse x \<Rightarrow> encode_envelope L 26 Reject (encode_of (F1RemovalResponse_codec L) x)
      | OtherSuccessful k x \<Rightarrow> encode_envelope L (other_successful_code k) Reject (encode_of (other_successful_codec P k) x))"

definition SuccessfulOutcome_codec :: "per_lib \<Rightarrow> f1ap_message_codecs \<Rightarrow> successful_outcome per_codec" where
  "SuccessfulOutcome_codec L P = per_codec_impl ''SuccessfulOutcome'' (SuccessfulOutcome_decode_inner L P) (SuccessfulOutcome_encode_inner L P)"

definition UnsuccessfulOutcome_arms :: "per_lib \<Rightarrow> f1ap_message_codecs \<Rightarrow> (int \<times> unsuccessful_outcome decoder) list" where
  "UnsuccessfulOutcome_arms L P =
     [message_arm 1 (F1SetupFailure_codec L) F1SetupFailure,
      message_arm 5 (UeContextSetupFailure_codec L) UeContextSetupFailure,
      message_arm 26 (F1RemovalFailure_codec L) F1RemovalFailure] @
     map (\<lambda>k. message_arm (other_unsuccessful_code k) (other_unsuccessful_codec P k) (OtherUnsuccessful k)) other_unsuccessful_all"

definition UnsuccessfulOutcome_decode_inner :: "per_lib \<Rightarrow> f1ap_message_codecs \<Rightarrow> unsuccessful_outcome decoder" where
  "UnsuccessfulOutcome_decode_inner L P = decode_envelope L (UnsuccessfulOutcome_arms L P)"

definition UnsuccessfulOutcome_encode_inner :: "per_lib \<Rightarrow> f1ap_message_codecs \<Rightarrow> unsuccessful_outcome \<Rightarrow> encoder" where
  "UnsuccessfulOutcome_encode_inner L P m =
     (case m of
        F1SetupFailure x \<Rightarrow> encode_envelope L 1 Reject (encode_of (F1SetupFailure_codec L) x)
      | UeContextSetupFailure x \<Rightarrow> encode_envelope L 5 Reject (encode_of (UeContextSetupFailure_codec L) x)
      | F1RemovalFailure x \<Rightarrow> encode_envelope L 26 Reject (encode_of (F1RemovalFailure_codec L) x)
      | OtherUnsuccessful k x \<Rightarrow> encode_envelope L (other_unsuccessful_code k) Reject (encode_of (other_unsuccessful_codec P k) x))"

definition UnsuccessfulOutcome_codec :: "per_lib \<Rightarrow> f1ap_message_codecs \<Rightarrow> unsuccessful_outcome per_codec" where
  "UnsuccessfulOutcome_codec L P = per_codec_impl ''UnsuccessfulOutcome'' (UnsuccessfulOutcome_decode_inner L P) (UnsuccessfulOutcome_encode_inner L P)"

definition F1apPdu_decode_inner :: "per_lib \<Rightarrow> f1ap_message_codecs \<Rightarrow> f1ap_pdu decoder" where
  "F1apPdu_decode_inner L P =
     dec_bind (decode_choice_idx L 0 3 False) (\<lambda>(idx, extended).
     if extended then dec_fail (per_codec_error_new ''CHOICE additions not implemented'')
     else if idx = 0 then dec_bind (decode_of (InitiatingMessage_codec L P)) (\<lambda>x. dec_return (InitiatingMessage x))
     else if idx = 1 then dec_bind (decode_of (SuccessfulOutcome_codec L P)) (\<lambda>x. dec_return (SuccessfulOutcome x))
     else if idx = 2 then dec_bind (decode_of (UnsuccessfulOutcome_codec L P)) (\<lambda>x. dec_return (UnsuccessfulOutcome x))
     else if idx = 3 then decode_choice_extension L
     else dec_fail (per_codec_error_new ''Unknown choice idx''))"

definition F1apPdu_encode_inner :: "per_lib \<Rightarrow> f1ap_message_codecs \<Rightarrow> f1ap_pdu \<Rightarrow> encoder" where
  "F1apPdu_encode_inner L P pdu =
     (case pdu of
        InitiatingMessage x \<Rightarrow>
          enc_seq (encode_choice_idx L 0 3 False 0 False) (encode_of (InitiatingMessage_codec L P) x)
      | SuccessfulOutcome x \<Rightarrow>
          enc_seq (encode_choice_idx L 0 3 False 1 False) (encode_of (SuccessfulOutcome_codec L P) x)
      | UnsuccessfulOutcome x \<Rightarrow>
          enc_seq (encode_choice_idx L 0 3 False 2 False) (encode_of (UnsuccessfulOutcome_codec L P) x))"

definition F1apPdu_codec :: "per_lib \<Rightarrow> f1ap_message_codecs \<Rightarrow> f1ap_pdu per_codec" where
  "F1apPdu_codec L P = per_codec_impl ''F1apPdu'' (F1apPdu_decode_inner L P) (F1apPdu_encode_inner L P)"

section \<open>What a well-formed PDU looks like\<close>

text \<open>
  The length of a message is written in at most two octets: its encoding has at most 16383 octets.  Of a
  message whose codec is a parameter nothing else is asked than that its codec carries it.
\<close>

definition wf_initiating :: "per_lib \<Rightarrow> f1ap_message_codecs \<Rightarrow> initiating_message \<Rightarrow> bool" where
  "wf_initiating L P m \<longleftrightarrow>
     (case m of
        F1SetupRequest x \<Rightarrow>
          wf_f1_setup_request L x \<and> fits (F1SetupRequest_codec L) x
      | GnbDuConfigurationUpdate x \<Rightarrow>
          wf_gnb_du_configuration_update L x \<and> fits (GnbDuConfigurationUpdate_codec L) x
      | UeContextSetupRequest x \<Rightarrow>
          wf_ue_context_setup_request L x \<and> fits (UeContextSetupRequest_codec L) x
      | UeContextReleaseCommand x \<Rightarrow> wf_ue_context_release_command x \<and> fits (UeContextReleaseCommand_codec L) x
      | UeContextReleaseRequest x \<Rightarrow> wf_ue_context_release_request x \<and> fits (UeContextReleaseRequest_codec L) x
      | InitialUlRrcMessageTransfer x \<Rightarrow>
          wf_initial_ul_rrc_message_transfer x \<and> fits (InitialUlRrcMessageTransfer_codec L) x
      | DlRrcMessageTransfer x \<Rightarrow> wf_dl_rrc_message_transfer x \<and> fits (DlRrcMessageTransfer_codec L) x
      | UlRrcMessageTransfer x \<Rightarrow> wf_ul_rrc_message_transfer x \<and> fits (UlRrcMessageTransfer_codec L) x
      | F1RemovalRequest x \<Rightarrow> fits (F1RemovalRequest_codec L) x
      | OtherInitiating k x \<Rightarrow> encodable (other_initiating_codec P k) x)"

definition wf_successful :: "per_lib \<Rightarrow> f1ap_message_codecs \<Rightarrow> successful_outcome \<Rightarrow> bool" where
  "wf_successful L P m \<longleftrightarrow>
     (case m of
        F1SetupResponse x \<Rightarrow>
          wf_f1_setup_response L x \<and> fits (F1SetupResponse_codec L) x
      | GnbDuConfigurationUpdateAcknowledge x \<Rightarrow>
          wf_gnb_du_configuration_update_ack L x \<and> fits (GnbDuConfigurationUpdateAcknowledge_codec L) x
      | UeContextSetupResponse x \<Rightarrow>
          wf_ue_context_setup_response L x \<and> fits (UeContextSetupResponse_codec L) x
      | UeContextReleaseComplete x \<Rightarrow>
          wf_ue_context_release_complete x \<and> fits (UeContextReleaseComplete_codec L) x
      | F1RemovalResponse x \<Rightarrow> wf_f1_removal_response x \<and> fits (F1RemovalResponse_codec L) x
      | OtherSuccessful k x \<Rightarrow> encodable (other_successful_codec P k) x)"

definition wf_unsuccessful :: "per_lib \<Rightarrow> f1ap_message_codecs \<Rightarrow> unsuccessful_outcome \<Rightarrow> bool" where
  "wf_unsuccessful L P m \<longleftrightarrow>
     (case m of
        F1SetupFailure x \<Rightarrow> wf_f1_setup_failure x \<and> fits (F1SetupFailure_codec L) x
      | UeContextSetupFailure x \<Rightarrow> wf_ue_context_setup_failure x \<and> fits (UeContextSetupFailure_codec L) x
      | F1RemovalFailure x \<Rightarrow> wf_f1_removal_failure x \<and> fits (F1RemovalFailure_codec L) x
      | OtherUnsuccessful k x \<Rightarrow> encodable (other_unsuccessful_codec P k) x)"

definition wf_pdu :: "per_lib \<Rightarrow> f1ap_message_codecs \<Rightarrow> f1ap_pdu \<Rightarrow> bool" where
  "wf_pdu L P pdu \<longleftrightarrow>
     (case pdu of
        InitiatingMessage m \<Rightarrow> wf_initiating L P m
      | SuccessfulOutcome m \<Rightarrow> wf_successful L P m
      | UnsuccessfulOutcome m \<Rightarrow> wf_unsuccessful L P m)"

text \<open>The procedure code of a PDU, and whether it answers a request.\<close>

definition initiating_code :: "initiating_message \<Rightarrow> int" where
  "initiating_code m =
     (case m of
        F1SetupRequest _ \<Rightarrow> 1 | GnbDuConfigurationUpdate _ \<Rightarrow> 3 | UeContextSetupRequest _ \<Rightarrow> 5
      | UeContextReleaseCommand _ \<Rightarrow> 6 | UeContextReleaseRequest _ \<Rightarrow> 10 | InitialUlRrcMessageTransfer _ \<Rightarrow> 11
      | DlRrcMessageTransfer _ \<Rightarrow> 12 | UlRrcMessageTransfer _ \<Rightarrow> 13 | F1RemovalRequest _ \<Rightarrow> 26
      | OtherInitiating k _ \<Rightarrow> fst (other_initiating_info k))"

definition successful_code :: "successful_outcome \<Rightarrow> int" where
  "successful_code m =
     (case m of
        F1SetupResponse _ \<Rightarrow> 1 | GnbDuConfigurationUpdateAcknowledge _ \<Rightarrow> 3 | UeContextSetupResponse _ \<Rightarrow> 5
      | UeContextReleaseComplete _ \<Rightarrow> 6 | F1RemovalResponse _ \<Rightarrow> 26
      | OtherSuccessful k _ \<Rightarrow> other_successful_code k)"

definition unsuccessful_code :: "unsuccessful_outcome \<Rightarrow> int" where
  "unsuccessful_code m =
     (case m of
        F1SetupFailure _ \<Rightarrow> 1 | UeContextSetupFailure _ \<Rightarrow> 5 | F1RemovalFailure _ \<Rightarrow> 26
      | OtherUnsuccessful k _ \<Rightarrow> other_unsuccessful_code k)"

definition procedure_code :: "f1ap_pdu \<Rightarrow> u8" where
  "procedure_code pdu = word_of_int
     (case pdu of
        InitiatingMessage m \<Rightarrow> initiating_code m
      | SuccessfulOutcome m \<Rightarrow> successful_code m
      | UnsuccessfulOutcome m \<Rightarrow> unsuccessful_code m)"

definition is_outcome :: "f1ap_pdu \<Rightarrow> bool" where
  "is_outcome pdu \<longleftrightarrow> (case pdu of InitiatingMessage _ \<Rightarrow> False | _ \<Rightarrow> True)"

section \<open>A PDU is read back\<close>

lemma message_arm_simp [simp]:
  "fst (message_arm c C f) = c" "snd (message_arm c C f) = dec_bind (decode_of C) (\<lambda>x. dec_return (f x))"
  by (simp_all add: message_arm_def)

lemma map_of_message_arm [simp]:
  "map_of (message_arm c C f # arms) i
     = (if i = c then Some (dec_bind (decode_of C) (\<lambda>x. dec_return (f x))) else map_of arms i)"
  by (simp add: message_arm_def)

lemma other_arms:
  "distinct (map code ks) \<Longrightarrow> k \<in> set ks \<Longrightarrow>
     map_of (map (\<lambda>k. message_arm (code k) (C k) (f k)) ks) (code k)
       = Some (dec_bind (decode_of (C k)) (\<lambda>x. dec_return (f k x)))"
  by (induction ks) (auto simp: message_arm_def image_iff)

lemma other_initiating_arm:
  "map_of (InitiatingMessage_arms L P) (fst (other_initiating_info k))
     = Some (dec_bind (decode_of (other_initiating_codec P k)) (\<lambda>x. dec_return (OtherInitiating k x)))"
proof -
  have "distinct (map (\<lambda>k. fst (other_initiating_info k)) other_initiating_all)"
    by (simp add: other_initiating_all_def)
  moreover have "k \<in> set other_initiating_all" by (cases k) (simp_all add: other_initiating_all_def)
  moreover have "fst (other_initiating_info k) \<notin> {1, 3, 5, 6, 10, 11, 12, 13, 26}" by (cases k) simp_all
  ultimately show ?thesis
    using other_arms [of "\<lambda>k. fst (other_initiating_info k)" other_initiating_all k
        "\<lambda>k. other_initiating_codec P k" OtherInitiating]
    by (simp add: InitiatingMessage_arms_def)
qed

lemma other_successful_arm:
  "map_of (SuccessfulOutcome_arms L P) (other_successful_code k)
     = Some (dec_bind (decode_of (other_successful_codec P k)) (\<lambda>x. dec_return (OtherSuccessful k x)))"
proof -
  have "distinct (map other_successful_code other_successful_all)" by (simp add: other_successful_all_def)
  moreover have "k \<in> set other_successful_all" by (cases k) (simp_all add: other_successful_all_def)
  moreover have "other_successful_code k \<notin> {1, 3, 5, 6, 26}" by (cases k) simp_all
  ultimately show ?thesis
    using other_arms [of other_successful_code other_successful_all k "\<lambda>k. other_successful_codec P k" OtherSuccessful]
    by (simp add: SuccessfulOutcome_arms_def)
qed

lemma other_unsuccessful_arm:
  "map_of (UnsuccessfulOutcome_arms L P) (other_unsuccessful_code k)
     = Some (dec_bind (decode_of (other_unsuccessful_codec P k)) (\<lambda>x. dec_return (OtherUnsuccessful k x)))"
proof -
  have "distinct (map other_unsuccessful_code other_unsuccessful_all)" by (simp add: other_unsuccessful_all_def)
  moreover have "k \<in> set other_unsuccessful_all" by (cases k) (simp_all add: other_unsuccessful_all_def)
  moreover have "other_unsuccessful_code k \<notin> {1, 5, 26}" by (cases k) simp_all
  ultimately show ?thesis
    using other_arms [of other_unsuccessful_code other_unsuccessful_all k "\<lambda>k. other_unsuccessful_codec P k" OtherUnsuccessful]
    by (simp add: UnsuccessfulOutcome_arms_def)
qed

lemma other_code_bounds:
  "0 \<le> fst (other_initiating_info k) \<and> fst (other_initiating_info k) \<le> 255"
  "0 \<le> other_successful_code k' \<and> other_successful_code k' \<le> 255"
  "0 \<le> other_unsuccessful_code k'' \<and> other_unsuccessful_code k'' \<le> 255"
  subgoal by (cases k) simp_all
  subgoal by (cases k') simp_all
  subgoal by (cases k'') simp_all
  done

lemma code_bounds:
  "0 \<le> initiating_code m \<and> initiating_code m \<le> 255"
  "0 \<le> successful_code m' \<and> successful_code m' \<le> 255"
  "0 \<le> unsuccessful_code m'' \<and> unsuccessful_code m'' \<le> 255"
  using other_code_bounds
  by (auto simp: initiating_code_def successful_code_def unsuccessful_code_def
      split: initiating_message.splits successful_outcome.splits unsuccessful_outcome.splits)

text \<open>
  A message in its envelope: written under its procedure code, with an encoding that the arm of that
  code reads back.
\<close>

definition enveloped :: "per_lib \<Rightarrow> (int \<times> 'a decoder) list \<Rightarrow> int \<Rightarrow> encoder \<Rightarrow> 'a \<Rightarrow> bool" where
  "enveloped L arms code enc m \<longleftrightarrow>
     (\<exists>crit e d n v. enc = encode_envelope L code crit e \<and> map_of arms code = Some d \<and> codes n e d m \<and>
        e [] = Inr v \<and> length v \<le> 131064)"

lemma envelopedI:
  assumes "encodable C x" "map_of arms code = Some (dec_bind (decode_of C) (\<lambda>x. dec_return (f x)))"
  shows "enveloped L arms code (encode_envelope L code crit (encode_of C x)) (f x)"
proof -
  obtain n where "codes n (encode_of C x) (decode_of C) x"
    using assms(1) by (auto simp: encodable_def sound_def coded_def)
  then have "codes n (encode_of C x) (dec_bind (decode_of C) (\<lambda>x. dec_return (f x))) (f x)"
    by (rule codes_last) simp
  then show ?thesis using assms unfolding enveloped_def encodable_def fits_iff by metis
qed

context aper_setup
begin

lemma encodableI: "carries C n x \<Longrightarrow> fits C x \<Longrightarrow> encodable C x"
  by (auto simp: encodable_def intro: sound_carries)

lemma sound_encodable: "sound C x \<Longrightarrow> fits C x \<Longrightarrow> encodable C x"
  by (simp add: encodable_def)

lemma initiating_enveloped:
  assumes "wf_initiating L P m"
  shows "enveloped L (InitiatingMessage_arms L P) (initiating_code m) (InitiatingMessage_encode_inner L P m) m"
proof (cases m)
  case (OtherInitiating k x)
  then show ?thesis
    using assms envelopedI [OF _ other_initiating_arm, where crit = "snd (other_initiating_info k)"]
    by (simp add: InitiatingMessage_encode_inner_def initiating_code_def wf_initiating_def)
qed (use assms in \<open>auto simp: InitiatingMessage_encode_inner_def initiating_code_def wf_initiating_def
    InitiatingMessage_arms_def intro!: envelopedI intro: encodableI carries_UeContextReleaseCommand
    carries_UeContextReleaseRequest carries_InitialUlRrcMessageTransfer carries_DlRrcMessageTransfer
    carries_UlRrcMessageTransfer carries_F1RemovalRequest sound_encodable F1SetupRequest_sound
    GnbDuConfigurationUpdate_sound UeContextSetupRequest_sound\<close>)

lemma successful_enveloped:
  assumes "wf_successful L P m"
  shows "enveloped L (SuccessfulOutcome_arms L P) (successful_code m) (SuccessfulOutcome_encode_inner L P m) m"
proof (cases m)
  case (OtherSuccessful k x)
  then show ?thesis
    using assms envelopedI [OF _ other_successful_arm, where crit = Reject]
    by (simp add: SuccessfulOutcome_encode_inner_def successful_code_def wf_successful_def)
qed (use assms in \<open>auto simp: SuccessfulOutcome_encode_inner_def successful_code_def wf_successful_def
    SuccessfulOutcome_arms_def intro!: envelopedI
    intro: encodableI carries_UeContextReleaseComplete carries_F1RemovalResponse sound_encodable
    F1SetupResponse_sound GnbDuConfigurationUpdateAcknowledge_sound UeContextSetupResponse_sound\<close>)

lemma unsuccessful_enveloped:
  assumes "wf_unsuccessful L P m"
  shows "enveloped L (UnsuccessfulOutcome_arms L P) (unsuccessful_code m) (UnsuccessfulOutcome_encode_inner L P m) m"
proof (cases m)
  case (OtherUnsuccessful k x)
  then show ?thesis
    using assms envelopedI [OF _ other_unsuccessful_arm, where crit = Reject]
    by (simp add: UnsuccessfulOutcome_encode_inner_def unsuccessful_code_def wf_unsuccessful_def)
qed (use assms in \<open>auto simp: UnsuccessfulOutcome_encode_inner_def unsuccessful_code_def wf_unsuccessful_def
    UnsuccessfulOutcome_arms_def intro!: envelopedI
    intro: encodableI carries_F1SetupFailure carries_UeContextSetupFailure carries_F1RemovalFailure\<close>)

lemma decode_envelope_header:
  "decode_envelope L arms = dec_bind (open_header_decoder L 255)
     (\<lambda>code. case map_of arms code of None \<Rightarrow> dec_fail (unrecognised_procedure code) | Some d \<Rightarrow> d)"
  by (auto simp: decode_envelope_def open_header_decoder_def dec_bind_def dec_return_def result_bind_def fun_eq_iff
      split: sum.splits prod.splits)

lemma envelope_read_back:
  assumes "enveloped L arms code enc m" "0 \<le> code" "code \<le> 255"
  shows "\<exists>w1 bs. encode_integer L (Some 0) (Some 255) False code False w = Inr w1 \<and> enc w = Inr (w1 @ bs) \<and>
           (\<exists>cs. w1 @ bs = w @ cs \<and> (\<forall>off rest. off mod 8 = length w mod 8 \<longrightarrow>
              (\<exists>data. decode_envelope L arms (off, cs @ rest) = Inr (m, data))))"
proof -
  obtain crit e d n v where a: "enc = encode_envelope L code crit e" "map_of arms code = Some d"
      "codes n e d m" "e [] = Inr v" "length v \<le> 131064"
    using assms(1) unfolding enveloped_def by (elim exE conjE)
  have ub: "(255::int) < 65536" by simp
  obtain hs q where f:
    "enc_seq (encode_integer L (Some 0) (Some 255) False code False)
       (enc_seq (encode_of (Criticality_codec L) crit)
         (encode_length_determinent L None None False (length_in_bytes L v))) w = Inr (w @ hs)"
    "append_aligned L (w @ hs) v = w @ hs @ v @ q" "length hs \<le> 104" "length q < 8"
    "length (w @ hs) mod 8 = 0" "length (v @ q) mod 8 = 0"
    "\<And>off rest. off mod 8 = length w mod 8 \<Longrightarrow>
       open_header_decoder L 255 (off, hs @ v @ q @ rest) = Inr (code, (off + length hs, v @ q @ rest)) \<and>
       d (off + length hs, v @ q @ rest) = Inr (m, (off + length hs + length v, q @ rest)) \<and>
       decode_align L (off + length hs + length v, q @ rest)
         = Inr ((), (off + length hs + length v + length q, rest))"
    using open_field [OF assms(2,3) ub a(3-5), of crit w] by blast
  obtain w1 w2 where w: "encode_integer L (Some 0) (Some 255) False code False w = Inr w1"
      "encode_of (Criticality_codec L) crit w1 = Inr w2"
      "encode_length_determinent L None None False (length_in_bytes L v) w2 = Inr (w @ hs)"
    using f(1) by (auto simp: enc_seq_def rs_simps)
  obtain b where b: "w2 = w1 @ b"
    using codesE [OF carries_Criticality [unfolded carries_def, of crit], where w = w1] w(2) by auto
  have "length_in_bytes L v < 16384" using a(5) by (simp add: bytes_law)
  then obtain c where c: "w @ hs = w2 @ c"
    using codesE [OF open_length_law [of "length_in_bytes L v"], where w = w2] w(3)
    by (metis sum.inject(2))
  have "enc w = Inr (w1 @ (b @ c @ v @ q))"
    using w a(1,4) f(2) c b by (simp add: encode_envelope_def)
  moreover have "w1 @ (b @ c @ v @ q) = w @ (hs @ v @ q)" using b c by (metis append.assoc)
  moreover have "\<exists>data. decode_envelope L arms (off, (hs @ v @ q) @ rest) = Inr (m, data)"
    if "off mod 8 = length w mod 8" for off rest
    unfolding decode_envelope_header using f(7) [OF that, of rest] a(2) by (simp add: dec_bind_def)
  ultimately show ?thesis using w(1) by blast
qed

end

text \<open>
  What the transaction layer and the decoder make of the octets of a PDU: the octets start with the kind
  of PDU in the two highest bits and the procedure code, and the decoder returns the PDU.
\<close>

definition on_the_wire :: "per_lib \<Rightarrow> f1ap_message_codecs \<Rightarrow> f1ap_pdu \<Rightarrow> u8 \<Rightarrow> bytes \<Rightarrow> bool" where
  "on_the_wire L P pdu kind bs \<longleftrightarrow>
     serdes_into_bytes L (F1apPdu_codec L P) pdu = Inr bs \<and> serdes_from_bytes L (F1apPdu_codec L P) bs = Inr pdu \<and>
     (\<exists>rest. bs = kind # procedure_code pdu # rest)"

context aper_wire
begin

lemma kind_read_back:
  assumes m: "enveloped L arms code enc m" "0 \<le> code" "code \<le> 255" and idx: "0 \<le> idx" "idx \<le> 3"
    and d: "decode_of C = (\<lambda>data. push_context name (decode_envelope L arms data))"
    and e: "encode_of C m = (\<lambda>w. push_context name (enc w))"
    and f: "f (idx, False) = dec_bind (decode_of C) (\<lambda>x. dec_return (K x))" and out: "out \<longleftrightarrow> idx \<noteq> 0"
  shows "\<exists>w kind. enc_seq (encode_choice_idx L 0 3 False idx False) (encode_of C m) [] = Inr w \<and>
           (\<forall>rest. \<exists>data. dec_bind (decode_choice_idx L 0 3 False) f (0, w @ rest) = Inr (K m, data)) \<and>
           (\<exists>rest. data_into_bytes L w = kind # word_of_int code # rest) \<and> (kind \<noteq> (0 :: u8) \<longleftrightarrow> out)"
proof -
  have "(3::int) < 256" by simp
  from codesE [OF choice_law [OF idx this, of False], where w = "[]"] obtain cs0 where cs0:
    "encode_choice_idx L 0 3 False idx False [] = Inr ([] @ cs0)" "length cs0 \<le> 16"
    "\<And>off rest. off mod 8 = length ([] :: bits) mod 8 \<Longrightarrow>
       decode_choice_idx L 0 3 False (off, cs0 @ rest) = Inr ((idx, False), (off + length cs0, rest))"
    by blast
  have cs: "encode_choice_idx L 0 3 False idx False [] = Inr cs0"
    "\<And>rest. decode_choice_idx L 0 3 False (0, cs0 @ rest) = Inr ((idx, False), (length cs0, rest))"
    using cs0(1) cs0(3) [of 0] by simp_all
  from envelope_read_back [OF m, of cs0] obtain w1 bs ds where
    w: "encode_integer L (Some 0) (Some 255) False code False cs0 = Inr w1" "enc cs0 = Inr (w1 @ bs)"
      "w1 @ bs = cs0 @ ds"
      "\<forall>off rest. off mod 8 = length cs0 mod 8 \<longrightarrow> (\<exists>data. decode_envelope L arms (off, ds @ rest) = Inr (m, data))"
    by (elim exE conjE)
  have "enc_seq (encode_choice_idx L 0 3 False idx False) (encode_of C m) [] = Inr (w1 @ bs)"
    using cs(1) w(2) by (simp add: enc_seq_def e)
  moreover have "\<exists>data. dec_bind (decode_choice_idx L 0 3 False) f (0, (w1 @ bs) @ rest) = Inr (K m, data)" for rest
  proof -
    from w(4) [rule_format, of "length cs0" rest] obtain data
      where "decode_envelope L arms (length cs0, ds @ rest) = Inr (m, data)" by blast
    then have "f (idx, False) (length cs0, ds @ rest) = Inr (K m, data)"
      unfolding f by (simp add: dec_bind_def d dec_return_def)
    then show ?thesis using cs(2) [of "ds @ rest"] by (simp add: dec_bind_def w(3))
  qed
  moreover have "enc_seq (encode_choice_idx L 0 3 False idx False)
      (encode_integer L (Some 0) (Some 255) False code False) [] = Inr w1"
    using cs(1) w(1) by (simp add: enc_seq_def)
  from pdu_octets_law [OF idx m(2,3) this, of bs]
  have "\<exists>rest. data_into_bytes L (w1 @ bs) = word_of_int (64 * idx) # word_of_int code # rest" .
  moreover have "idx \<in> {0, 1, 2, 3}" using idx by auto
  then have "word_of_int (64 * idx) \<noteq> (0 :: u8) \<longleftrightarrow> out" using out by auto
  ultimately show ?thesis by blast
qed

lemma pdu_on_the_wire:
  assumes "wf_pdu L P pdu"
  shows "\<exists>kind bs. on_the_wire L P pdu kind bs \<and> (kind \<noteq> 0 \<longleftrightarrow> is_outcome pdu)"
proof -
  note codec = InitiatingMessage_codec_def SuccessfulOutcome_codec_def UnsuccessfulOutcome_codec_def
    InitiatingMessage_decode_inner_def SuccessfulOutcome_decode_inner_def UnsuccessfulOutcome_decode_inner_def
    per_codec_impl_def
  have "\<exists>w kind. F1apPdu_encode_inner L P pdu [] = Inr w \<and>
      (\<forall>rest. \<exists>data. F1apPdu_decode_inner L P (0, w @ rest) = Inr (pdu, data)) \<and>
      (\<exists>rest. data_into_bytes L w = kind # procedure_code pdu # rest) \<and> (kind \<noteq> 0 \<longleftrightarrow> is_outcome pdu)"
  proof (cases pdu)
    case (InitiatingMessage m)
    with assms have "wf_initiating L P m" by (simp add: wf_pdu_def)
    from initiating_enveloped [OF this] show ?thesis
      unfolding F1apPdu_encode_inner_def F1apPdu_decode_inner_def InitiatingMessage procedure_code_def is_outcome_def f1ap_pdu.case
      by (rule kind_read_back) (use code_bounds(1) [of m] in \<open>simp_all add: codec\<close>)
  next
    case (SuccessfulOutcome m)
    with assms have "wf_successful L P m" by (simp add: wf_pdu_def)
    from successful_enveloped [OF this] show ?thesis
      unfolding F1apPdu_encode_inner_def F1apPdu_decode_inner_def SuccessfulOutcome procedure_code_def is_outcome_def f1ap_pdu.case
      by (rule kind_read_back) (use code_bounds(2) [of m] in \<open>simp_all add: codec\<close>)
  next
    case (UnsuccessfulOutcome m)
    with assms have "wf_unsuccessful L P m" by (simp add: wf_pdu_def)
    from unsuccessful_enveloped [OF this] show ?thesis
      unfolding F1apPdu_encode_inner_def F1apPdu_decode_inner_def UnsuccessfulOutcome procedure_code_def is_outcome_def f1ap_pdu.case
      by (rule kind_read_back) (use code_bounds(3) [of m] in \<open>simp_all add: codec\<close>)
  qed
  then obtain w kind where w: "F1apPdu_encode_inner L P pdu [] = Inr w"
      "\<forall>rest. \<exists>data. F1apPdu_decode_inner L P (0, w @ rest) = Inr (pdu, data)"
      "\<exists>rest. data_into_bytes L w = kind # procedure_code pdu # rest" "kind \<noteq> 0 \<longleftrightarrow> is_outcome pdu"
    by (elim exE conjE) blast
  obtain p where p: "data_from_slice L (data_into_bytes L w) = (0, w @ p)" using slice_law by blast
  have "serdes_into_bytes L (F1apPdu_codec L P) pdu = Inr (data_into_bytes L w)"
    using w(1) by (simp add: serdes_into_bytes_def F1apPdu_codec_def per_codec_impl_def)
  moreover have "serdes_from_bytes L (F1apPdu_codec L P) (data_into_bytes L w) = Inr pdu"
    using w(2) [rule_format, of p] p by (auto simp: serdes_from_bytes_def F1apPdu_codec_def per_codec_impl_def)
  ultimately show ?thesis using w(3,4) unfolding on_the_wire_def by blast
qed

lemma pdu_classified:
  assumes "wf_pdu L P pdu"
  shows "\<exists>bs. serdes_into_bytes L (F1apPdu_codec L P) pdu = Inr bs \<and>
           serdes_from_bytes L (F1apPdu_codec L P) bs = Inr pdu \<and>
           (\<forall>code. match_fn code bs = Some (is_outcome pdu \<and> procedure_code pdu = code))"
proof -
  obtain kind bs where "on_the_wire L P pdu kind bs" "kind \<noteq> 0 \<longleftrightarrow> is_outcome pdu"
    using pdu_on_the_wire [OF assms] by blast
  then show ?thesis by (auto simp: on_the_wire_def match_fn_def rs_get_def)
qed

end

section \<open>Procedures over the wire\<close>

text \<open>
  \<open>RequestError\<close>; a codec error is the error itself instead of the text that \<open>format!\<close> makes of it, and a
  panic of the decoder is kept as such.
\<close>

datatype 'f request_error = RequestUnsuccessful 'f | RequestCodecError per_fail | RequestOther string

definition UeContextSetup_encode_request :: "per_lib \<Rightarrow> f1ap_message_codecs \<Rightarrow> ue_context_setup_request \<Rightarrow> bytes per_result" where
  "UeContextSetup_encode_request L P r =
     serdes_into_bytes L (F1apPdu_codec L P) (InitiatingMessage (UeContextSetupRequest r))"

definition UeContextSetup_decode_response ::
    "per_lib \<Rightarrow> f1ap_message_codecs \<Rightarrow> bytes \<Rightarrow> ue_context_setup_failure request_error + ue_context_setup_response" where
  "UeContextSetup_decode_response L P bs =
     (case serdes_from_bytes L (F1apPdu_codec L P) bs of
        Inl e \<Rightarrow> Inl (RequestCodecError e)
      | Inr (SuccessfulOutcome (UeContextSetupResponse x)) \<Rightarrow> Inr x
      | Inr (UnsuccessfulOutcome (UeContextSetupFailure x)) \<Rightarrow> Inl (RequestUnsuccessful x)
      | Inr _ \<Rightarrow> Inl (RequestOther ''Unexpected pdu contents''))"

definition UeContextRelease_encode_request :: "per_lib \<Rightarrow> f1ap_message_codecs \<Rightarrow> ue_context_release_command \<Rightarrow> bytes per_result" where
  "UeContextRelease_encode_request L P r =
     serdes_into_bytes L (F1apPdu_codec L P) (InitiatingMessage (UeContextReleaseCommand r))"

definition UeContextRelease_decode_response ::
    "per_lib \<Rightarrow> f1ap_message_codecs \<Rightarrow> bytes \<Rightarrow> unit request_error + ue_context_release_complete" where
  "UeContextRelease_decode_response L P bs =
     (case serdes_from_bytes L (F1apPdu_codec L P) bs of
        Inl e \<Rightarrow> Inl (RequestCodecError e)
      | Inr (SuccessfulOutcome (UeContextReleaseComplete x)) \<Rightarrow> Inr x
      | Inr _ \<Rightarrow> Inl (RequestOther ''Unexpected pdu contents''))"

definition DlRrcMessageTransfer_encode_request :: "per_lib \<Rightarrow> f1ap_message_codecs \<Rightarrow> dl_rrc_message_transfer \<Rightarrow> bytes per_result" where
  "DlRrcMessageTransfer_encode_request L P r =
     serdes_into_bytes L (F1apPdu_codec L P) (InitiatingMessage (DlRrcMessageTransfer r))"

text \<open>The codec that \<open>handle_request\<close> is called with.\<close>

definition f1ap_wire :: "per_lib \<Rightarrow> f1ap_message_codecs \<Rightarrow> f1ap_lib" where
  "f1ap_wire L P =
     \<lparr>f1ap_into_bytes = (\<lambda>pdu. case serdes_into_bytes L (F1apPdu_codec L P) pdu of Inl _ \<Rightarrow> None | Inr bs \<Rightarrow> Some bs),
      f1ap_from_bytes = (\<lambda>bs. case serdes_from_bytes L (F1apPdu_codec L P) bs of Inl _ \<Rightarrow> None | Inr pdu \<Rightarrow> Some pdu)\<rparr>"

lemma pending_first:
  assumes "\<And>code. match_fn code m = Some (out \<and> c = code)" "out" "c \<notin> fst ` set us"
  shows "pending_position m (us @ (c, t) # vs) = Some (Some (length us))"
  using assms(3)
proof (induction us)
  case (Cons u us)
  then show ?case using assms(1,2) by (cases u) auto
qed (use assms(1,2) in simp)

lemma pending_none:
  assumes "\<And>code. match_fn code m = Some (out \<and> c = code)" "\<not> out"
  shows "pending_position m rs = Some None"
  using assms by (induction rs) auto

lemma outcome_delivered:
  assumes "\<And>code. match_fn code m = Some (out \<and> c = code)" "out"
    and "pending_requests s = us @ (c, t) # vs" "c \<notin> fst ` set us" "t \<in> waiting s"
  shows "\<exists>s'. stack_handle_message m s = Some (Delivered t, s')"
  using pending_first [OF assms(1,2,4), of t vs] assms(3,5)
  by (simp add: stack_handle_message_def stack_take_def stack_answer_def swap_remove_split)

lemma initiating_spawned:
  assumes "\<And>code. match_fn code m = Some (out \<and> c = code)" "\<not> out"
  shows "stack_handle_message m s = Some (SpawnProcedure, s)"
  using pending_none [OF assms, of "pending_requests s"] by (simp add: stack_handle_message_def)

lemma outcome_over_the_wire:
  assumes "aper_wire L" "wf_pdu L P pdu" "is_outcome pdu"
    and "pending_requests s = us @ (procedure_code pdu, t) # vs" "procedure_code pdu \<notin> fst ` set us" "t \<in> waiting s"
  shows "\<exists>bs. serdes_into_bytes L (F1apPdu_codec L P) pdu = Inr bs \<and>
           serdes_from_bytes L (F1apPdu_codec L P) bs = Inr pdu \<and>
           (\<exists>s'. stack_handle_message bs s = Some (Delivered t, s'))"
proof -
  obtain bs where bs: "serdes_into_bytes L (F1apPdu_codec L P) pdu = Inr bs"
    "serdes_from_bytes L (F1apPdu_codec L P) bs = Inr pdu"
    "\<And>code. match_fn code bs = Some (is_outcome pdu \<and> procedure_code pdu = code)"
    using aper_wire.pdu_classified [OF assms(1,2)] by blast
  from outcome_delivered [OF bs(3) assms(3-6)] bs(1,2) show ?thesis by blast
qed

lemma initiating_over_the_wire:
  assumes "aper_wire L" "wf_initiating L P m"
  shows "\<exists>bs. serdes_into_bytes L (F1apPdu_codec L P) (InitiatingMessage m) = Inr bs \<and>
          (\<forall>s :: 'c f1ap_stack. stack_handle_message bs s = Some (SpawnProcedure, s)) \<and>
          (\<forall>env fuel draws (core :: 'p qcore) reply core'.
             route_request env fuel draws (InitiatingMessage m) core = Some (reply, core') \<longrightarrow>
             handle_request (f1ap_wire L P) env fuel draws bs core
               = Some (Option.bind reply (f1ap_into_bytes (f1ap_wire L P)), core'))"
proof -
  have "wf_pdu L P (InitiatingMessage m)" using assms(2) by (simp add: wf_pdu_def)
  from aper_wire.pdu_classified [OF assms(1) this] obtain bs where bs:
    "serdes_into_bytes L (F1apPdu_codec L P) (InitiatingMessage m) = Inr bs"
    "serdes_from_bytes L (F1apPdu_codec L P) bs = Inr (InitiatingMessage m)"
    "\<And>code. match_fn code bs = Some (is_outcome (InitiatingMessage m) \<and> procedure_code (InitiatingMessage m) = code)"
    by blast
  have "stack_handle_message bs s = Some (SpawnProcedure, s)" for s :: "'c f1ap_stack"
    by (rule initiating_spawned [OF bs(3)]) (simp add: is_outcome_def)
  moreover have "handle_request (f1ap_wire L P) env fuel draws bs core
      = Some (Option.bind reply (f1ap_into_bytes (f1ap_wire L P)), core')"
    if "route_request env fuel draws (InitiatingMessage m) core = Some (reply, core')"
    for env fuel draws and core :: "'p qcore" and reply core'
    using that bs(2) by (cases reply) (simp_all add: handle_request_def f1ap_wire_def)
  ultimately show ?thesis using bs(1) by blast
qed

section \<open>Properties\<close>

text \<open>
  C7. For every PER library that meets the contract, a well-formed PDU of any kind is written to octets
  that are read back as the same PDU, and on these octets the match function of a pending request of any
  procedure neither panics nor errs: it holds exactly if the PDU is an outcome of that procedure.
\<close>

theorem f1ap_pdu_roundtrip:
  assumes "aper_wire L" "wf_pdu L P pdu"
  shows "\<exists>bs. serdes_into_bytes L (F1apPdu_codec L P) pdu = Inr bs \<and>
           serdes_from_bytes L (F1apPdu_codec L P) bs = Inr pdu \<and>
           (\<forall>code. match_fn code bs = Some (is_outcome pdu \<and> procedure_code pdu = code))"
  by (rule aper_wire.pdu_classified [OF assms])

text \<open>
  C8. An exchange with the DU, from octets to octets.  The octets of any well-formed initiating message
  start a procedure, leave the pending requests alone, and take the effect that the core gives the
  message.  The octets of the answer to a context release or setup go to the first task that waits for
  that procedure, which gets the very message that the DU sent; if the DU refuses the setup the task gets
  its failure.
\<close>

theorem exchange_over_the_wire:
  assumes L: "aper_wire L"
  shows "(\<forall>m. wf_initiating L P m \<longrightarrow>
       (\<exists>bs. serdes_into_bytes L (F1apPdu_codec L P) (InitiatingMessage m) = Inr bs \<and>
          (\<forall>s :: 'c f1ap_stack. stack_handle_message bs s = Some (SpawnProcedure, s)) \<and>
          (\<forall>env fuel draws (core :: 'p qcore) reply core'.
             route_request env fuel draws (InitiatingMessage m) core = Some (reply, core') \<longrightarrow>
             handle_request (f1ap_wire L P) env fuel draws bs core
               = Some (Option.bind reply (f1ap_into_bytes (f1ap_wire L P)), core')))) \<and>
    (\<forall>m (s :: 'c f1ap_stack) us c vs.
       wf_ue_context_release_complete m \<and> fits (UeContextReleaseComplete_codec L) m \<and>
       pending_requests s = us @ (6, c) # vs \<and> 6 \<notin> fst ` set us \<and> c \<in> waiting s \<longrightarrow>
       (\<exists>bs. serdes_into_bytes L (F1apPdu_codec L P) (SuccessfulOutcome (UeContextReleaseComplete m)) = Inr bs \<and>
          (\<exists>s'. stack_handle_message bs s = Some (Delivered c, s')) \<and>
          UeContextRelease_decode_response L P bs = Inr m)) \<and>
    (\<forall>m (s :: 'c f1ap_stack) us c vs.
       wf_ue_context_setup_response L m \<and> fits (UeContextSetupResponse_codec L) m \<and>
       pending_requests s = us @ (5, c) # vs \<and> 5 \<notin> fst ` set us \<and> c \<in> waiting s \<longrightarrow>
       (\<exists>bs. serdes_into_bytes L (F1apPdu_codec L P) (SuccessfulOutcome (UeContextSetupResponse m)) = Inr bs \<and>
          (\<exists>s'. stack_handle_message bs s = Some (Delivered c, s')) \<and>
          UeContextSetup_decode_response L P bs = Inr m)) \<and>
    (\<forall>m (s :: 'c f1ap_stack) us c vs.
       wf_ue_context_setup_failure m \<and> fits (UeContextSetupFailure_codec L) m \<and>
       pending_requests s = us @ (5, c) # vs \<and> 5 \<notin> fst ` set us \<and> c \<in> waiting s \<longrightarrow>
       (\<exists>bs. serdes_into_bytes L (F1apPdu_codec L P) (UnsuccessfulOutcome (UeContextSetupFailure m)) = Inr bs \<and>
          (\<exists>s'. stack_handle_message bs s = Some (Delivered c, s')) \<and>
          UeContextSetup_decode_response L P bs = Inl (RequestUnsuccessful m)))"
proof (intro conjI allI impI)
  fix m assume "wf_initiating L P m"
  then show "\<exists>bs. serdes_into_bytes L (F1apPdu_codec L P) (InitiatingMessage m) = Inr bs \<and>
          (\<forall>s :: 'c f1ap_stack. stack_handle_message bs s = Some (SpawnProcedure, s)) \<and>
          (\<forall>env fuel draws (core :: 'p qcore) reply core'.
             route_request env fuel draws (InitiatingMessage m) core = Some (reply, core') \<longrightarrow>
             handle_request (f1ap_wire L P) env fuel draws bs core
               = Some (Option.bind reply (f1ap_into_bytes (f1ap_wire L P)), core'))"
    by (rule initiating_over_the_wire [OF L])
next
  fix m and s :: "'c f1ap_stack" and us c vs
  assume a: "wf_ue_context_release_complete m \<and> fits (UeContextReleaseComplete_codec L) m \<and>
       pending_requests s = us @ (6, c) # vs \<and> 6 \<notin> fst ` set us \<and> c \<in> waiting s"
  from outcome_over_the_wire [OF L, of P "SuccessfulOutcome (UeContextReleaseComplete m)" s us c vs] a
  show "\<exists>bs. serdes_into_bytes L (F1apPdu_codec L P) (SuccessfulOutcome (UeContextReleaseComplete m)) = Inr bs \<and>
          (\<exists>s'. stack_handle_message bs s = Some (Delivered c, s')) \<and>
          UeContextRelease_decode_response L P bs = Inr m"
    by (auto simp: wf_pdu_def wf_successful_def is_outcome_def procedure_code_def successful_code_def
        UeContextRelease_decode_response_def)
next
  fix m and s :: "'c f1ap_stack" and us c vs
  assume a: "wf_ue_context_setup_response L m \<and> fits (UeContextSetupResponse_codec L) m \<and>
       pending_requests s = us @ (5, c) # vs \<and> 5 \<notin> fst ` set us \<and> c \<in> waiting s"
  from outcome_over_the_wire [OF L, of P "SuccessfulOutcome (UeContextSetupResponse m)" s us c vs] a
  show "\<exists>bs. serdes_into_bytes L (F1apPdu_codec L P) (SuccessfulOutcome (UeContextSetupResponse m)) = Inr bs \<and>
          (\<exists>s'. stack_handle_message bs s = Some (Delivered c, s')) \<and>
          UeContextSetup_decode_response L P bs = Inr m"
    by (auto simp: wf_pdu_def wf_successful_def is_outcome_def procedure_code_def successful_code_def
        UeContextSetup_decode_response_def)
next
  fix m and s :: "'c f1ap_stack" and us c vs
  assume a: "wf_ue_context_setup_failure m \<and> fits (UeContextSetupFailure_codec L) m \<and>
       pending_requests s = us @ (5, c) # vs \<and> 5 \<notin> fst ` set us \<and> c \<in> waiting s"
  from outcome_over_the_wire [OF L, of P "UnsuccessfulOutcome (UeContextSetupFailure m)" s us c vs] a
  show "\<exists>bs. serdes_into_bytes L (F1apPdu_codec L P) (UnsuccessfulOutcome (UeContextSetupFailure m)) = Inr bs \<and>
          (\<exists>s'. stack_handle_message bs s = Some (Delivered c, s')) \<and>
          UeContextSetup_decode_response L P bs = Inl (RequestUnsuccessful m)"
    by (auto simp: wf_pdu_def wf_unsuccessful_def is_outcome_def procedure_code_def unsuccessful_code_def
        UeContextSetup_decode_response_def)
qed

section \<open>Concrete PDUs\<close>

definition example_codecs :: f1ap_message_codecs where
  "example_codecs =
     \<lparr>other_initiating_codec = (\<lambda>_. octets_impl aper_ref ''other''),
      other_successful_codec = (\<lambda>_. octets_impl aper_ref ''other''),
      other_unsuccessful_codec = (\<lambda>_. octets_impl aper_ref ''other'')\<rparr>"

definition example_release_complete :: ue_context_release_complete where
  "example_release_complete =
     \<lparr>crp_gnb_cu_ue_f1ap_id = 7, crp_gnb_du_ue_f1ap_id = 8, crp_criticality_diagnostics = None\<rparr>"

lemmas message_codecs =
  F1RemovalRequest_codec_def UeContextReleaseComplete_codec_def UeContextSetupResponse_codec_def TransactionId_codec_def
  GnbCuUeF1apId_codec_def GnbDuUeF1apId_codec_def DuToCuRrcInformation_codec_def CellGroupConfig_codec_def
  DrbsSetupList_codec_def DrbsSetupItem_codec_def DrbId_codec_def DlUpTnlInformationToBeSetupList_codec_def
  DlUpTnlInformationToBeSetupItem_codec_def UpTransportLayerInformation_codec_def GtpTunnel_codec_def
  TransportLayerAddress_codec_def GtpTeid_codec_def F1apPdu_codec_def InitiatingMessage_codec_def

lemmas message_eval =
  message_codecs [THEN encode_by] F1RemovalRequest_encode_inner_def UeContextReleaseComplete_encode_inner_def
  UeContextSetupResponse_encode_inner_def DuToCuRrcInformation_encode_inner_def shapes_eval aper_ref_eval

lemmas example_response_eval =
  example_response_def example_du_to_cu_def example_drb_def example_tunnel_def bytes_to_bits_def bits_of_byte_def

lemma removal_fits: "fits (F1RemovalRequest_codec aper_ref) \<lparr>frr_transaction_id = 9\<rparr>"
  by (simp add: fits_def message_eval del: list.size(4) cong: eval_cong)

lemma release_complete_fits: "fits (UeContextReleaseComplete_codec aper_ref) example_release_complete"
  by (simp add: fits_def example_release_complete_def message_eval del: list.size(4) cong: eval_cong)

lemma setup_response_fits: "fits (UeContextSetupResponse_codec aper_ref) example_response"
  by (simp add: fits_def example_response_eval message_eval del: list.size(4) cong: eval_cong)

lemma drb_list_fits:
  "fits (DrbsSetupItem_codec aper_ref) (example_drb example_tunnel)"
  "fits (DrbsSetupList_codec aper_ref) [example_drb example_tunnel]"
  "fits (DuToCuRrcInformation_codec aper_ref) (example_du_to_cu [3])"
  by (simp_all add: fits_def example_response_eval message_eval del: list.size(4) cong: eval_cong)

lemma setup_response_wf: "wf_ue_context_setup_response aper_ref example_response"
proof -
  have "wf_drbs_setup_item aper_ref (example_drb example_tunnel)"
    by (simp add: wf_drbs_setup_item_def wf_drb_id_def in_range_def wf_dl_up_tnl_information_to_be_setup_list_def
        wf_list_def length_between_def wf_dl_up_tnl_information_to_be_setup_item_def
        wf_up_transport_layer_information_def wf_gtp_tunnel_def wf_tla_def example_response_eval)
  moreover have "wf_du_to_cu_rrc_information (example_du_to_cu [3])"
    by (simp add: wf_du_to_cu_rrc_information_def example_du_to_cu_def wf_cell_group_config_def wf_container_def)
  ultimately show ?thesis
    using drb_list_fits
    by (simp add: wf_ue_context_setup_response_def example_response_def open_ok_def wf_drbs_setup_list_def wf_list_def
        length_between_def)
qed

text \<open>The octets of an F1 REMOVAL REQUEST, from the kind of PDU to the transaction.\<close>

lemma f1_removal_pdu_octets:
  "serdes_into_bytes aper_ref (F1apPdu_codec aper_ref P) (InitiatingMessage (F1RemovalRequest \<lparr>frr_transaction_id = 9\<rparr>))
     = Inr [0, 26, 0, 9, 0, 0, 1, 0, 78, 0, 2, 0, 9]"
  by (simp add: serdes_into_bytes_def F1apPdu_encode_inner_def InitiatingMessage_encode_inner_def encode_envelope_def
      message_eval del: list.size(4) cong: eval_cong)

theorem f1ap_pdu_roundtrip_witness:
  "\<exists>bs. serdes_into_bytes aper_ref (F1apPdu_codec aper_ref example_codecs)
           (SuccessfulOutcome (UeContextReleaseComplete example_release_complete)) = Inr bs \<and>
        serdes_from_bytes aper_ref (F1apPdu_codec aper_ref example_codecs) bs
           = Inr (SuccessfulOutcome (UeContextReleaseComplete example_release_complete)) \<and>
        match_fn 6 bs = Some True \<and> match_fn 5 bs = Some False"
proof -
  have wf: "wf_pdu aper_ref example_codecs (SuccessfulOutcome (UeContextReleaseComplete example_release_complete))"
    using release_complete_fits
    by (simp add: wf_pdu_def wf_successful_def wf_ue_context_release_complete_def example_release_complete_def)
  show ?thesis
    using f1ap_pdu_roundtrip [OF aper_ref_wire.aper_wire_axioms wf]
    by (auto simp: is_outcome_def procedure_code_def successful_code_def)
qed

theorem exchange_over_the_wire_witness:
  "(\<exists>bs. serdes_into_bytes aper_ref (F1apPdu_codec aper_ref example_codecs)
            (InitiatingMessage (F1RemovalRequest \<lparr>frr_transaction_id = 9\<rparr>)) = Inr bs \<and>
          stack_handle_message bs example_stack = Some (SpawnProcedure, example_stack)) \<and>
   (\<exists>bs. serdes_into_bytes aper_ref (F1apPdu_codec aper_ref example_codecs)
            (SuccessfulOutcome (UeContextSetupResponse example_response)) = Inr bs \<and>
          (\<exists>s'. stack_handle_message bs example_stack = Some (Delivered 1, s')) \<and>
          UeContextSetup_decode_response aper_ref example_codecs bs = Inr example_response)"
proof -
  have 1: "wf_initiating aper_ref example_codecs (F1RemovalRequest \<lparr>frr_transaction_id = 9\<rparr>)"
    using removal_fits by (simp add: wf_initiating_def)
  have 2: "wf_ue_context_setup_response aper_ref example_response" "fits (UeContextSetupResponse_codec aper_ref) example_response"
    by (rule setup_response_wf, rule setup_response_fits)
  have 3: "pending_requests example_stack = [] @ (5, 1) # []" "1 \<in> waiting example_stack"
    by (simp_all add: example_stack_def)
  show ?thesis
    using exchange_over_the_wire [OF aper_ref_wire.aper_wire_axioms, of example_codecs] 1 2 3
    by (metis empty_iff image_empty list.set(1))
qed

end
