(* ===== verification/Userplane_Spec.thy ===== *)
theory Userplane_Spec
  imports Packet_Processor
begin

text \<open>
  What the user plane promises, with no tables in it: a set of TEIDs on which uplink packets are
  accepted and a map from UE addresses to the tunnels of the DU.  The two arrays of 254 slots, indexed
  by the last octet of a TEID and of an address, refine it event by event, under any interleaving of session
  operations and packets (\<open>qcore/src/userplane/{packet_processor,uplink_pipeline,downlink_pipeline}.rs\<close>).
\<close>

section \<open>The specification\<close>

text \<open>
  What can be seen of the user plane: the results of the session operations, and for each packet whether it was
  forwarded, and a downlink packet into which tunnel: the TEID in the frame and the address it is sent to.
\<close>

datatype userplane_event =
    Reserved userplane_session
  | Refused
  | Committed userplane_session gtp_tunnel
  | Deleted userplane_session
  | UplinkForwarded arr4
  | UplinkDropped arr4
  | DownlinkSent arr4 arr4 ip_addr
  | DownlinkDropped arr4
  | DownlinkFailed arr4

record forwarding_spec =
  fs_sessions :: "userplane_session list"
  fs_teids :: "arr4 set"
  fs_routes :: "arr4 \<rightharpoonup> gtp_tunnel"

definition spec_init :: forwarding_spec where
  "spec_init = \<lparr>fs_sessions = [], fs_teids = {}, fs_routes = Map.empty\<rparr>"

definition spec_reserve :: "userplane_session \<Rightarrow> forwarding_spec \<Rightarrow> forwarding_spec" where
  "spec_reserve u s = s\<lparr>fs_sessions := u # fs_sessions s, fs_teids := insert (session_teid u) (fs_teids s)\<rparr>"

definition spec_commit :: "userplane_session \<Rightarrow> gtp_tunnel \<Rightarrow> forwarding_spec \<Rightarrow> forwarding_spec" where
  "spec_commit u tun s = s\<lparr>fs_routes := (fs_routes s)(session_ip u \<mapsto> tun)\<rparr>"

definition spec_delete :: "userplane_session \<Rightarrow> forwarding_spec \<Rightarrow> forwarding_spec" where
  "spec_delete u s = s\<lparr>fs_teids := fs_teids s - {session_teid u}, fs_routes := (fs_routes s)(session_ip u := None)\<rparr>"

definition guard :: "bool \<Rightarrow> 'a \<Rightarrow> 'a option" where
  "guard b x = (if b then Some x else None)"

text \<open>
  The specification allows an event in a state or not, and determines the next state: a session is handed out with a
  TEID and an address that no earlier session has had; an uplink packet is forwarded exactly if its TEID is in the
  set; a downlink packet is sent only into the tunnel that its destination is mapped to, dropped only if there is
  none, and fails only if there is one.
\<close>

fun spec_step :: "userplane_event \<Rightarrow> forwarding_spec \<Rightarrow> forwarding_spec option" where
  "spec_step (Reserved u) s =
     guard (session_teid u \<notin> session_teid ` set (fs_sessions s) \<and> session_ip u \<notin> session_ip ` set (fs_sessions s)) (spec_reserve u s)"
| "spec_step Refused s = Some s"
| "spec_step (Committed u tun) s = guard (u \<in> set (fs_sessions s)) (spec_commit u tun s)"
| "spec_step (Deleted u) s = guard (u \<in> set (fs_sessions s)) (spec_delete u s)"
| "spec_step (UplinkForwarded teid) s = guard (teid \<in> fs_teids s) s"
| "spec_step (UplinkDropped teid) s = guard (teid \<notin> fs_teids s) s"
| "spec_step (DownlinkSent dst teid du_ip) s =
     (case fs_routes s dst of
        None \<Rightarrow> None
      | Some tun \<Rightarrow> guard (teid_bytes (gtp_teid tun) = teid \<and> ip_try_from_tla (transport_layer_address tun) = Inr du_ip) s)"
| "spec_step (DownlinkDropped dst) s = guard (fs_routes s dst = None) s"
| "spec_step (DownlinkFailed dst) s = guard (fs_routes s dst \<noteq> None) s"

definition spec_run :: "userplane_event list \<Rightarrow> forwarding_spec option" where
  "spec_run es = foldl (\<lambda>s e. Option.bind s (spec_step e)) (Some spec_init) es"

lemma spec_run_simps: "spec_run [] = Some spec_init" "spec_run (es @ [e]) = Option.bind (spec_run es) (spec_step e)"
  by (simp_all add: spec_run_def)

section \<open>The runs of the packet processor\<close>

text \<open>A well-formed G-PDU of the DU with a given TEID, with or without extension headers.\<close>

definition session_gpdu :: "arr4 \<Rightarrow> bytes \<Rightarrow> bytes \<Rightarrow> bool" where
  "session_gpdu teid ip dgram \<longleftrightarrow> 20 \<le> length ip \<and> hd ip AND 0xf0 = 0x40 \<and>
     (\<exists>flags len1 len2 seq exts pdcp1 pdcp2 sdap. pdcp1 AND 0x80 \<noteq> 0 \<and> sdap AND 0x80 \<noteq> 0 \<and>
        (dgram = plain_gpdu len1 len2 teid pdcp1 pdcp2 sdap ip \<or>
         flags \<noteq> 0x30 \<and> list_all ext_wf exts \<and> dgram = ext_gpdu flags len1 len2 teid seq exts pdcp1 pdcp2 sdap ip))"

text \<open>A packet that is long enough to have a destination, read into the pipeline's buffer.\<close>

definition dl_addressed :: "downlink_pipeline \<Rightarrow> bytes \<Rightarrow> bool" where
  "dl_addressed p pkt \<longleftrightarrow> length (dl_buf p) = 2000 \<and> 20 \<le> length pkt"

definition frame_teid :: "bytes \<Rightarrow> arr4" where
  "frame_teid f = Arr4 (f ! 4) (f ! 5) (f ! 6) (f ! 7)"

inductive userplane_trace ::
    "('p \<Rightarrow> nat \<times> 'p) \<Rightarrow> (nat \<Rightarrow> 'p \<Rightarrow> 'p) \<Rightarrow> 'p \<Rightarrow> arr4 \<Rightarrow> userplane_event list \<Rightarrow> 'p packet_processor \<Rightarrow> userplane_session list \<Rightarrow> bool"
  for new_id request_id pool_new net where
  ut_init: "userplane_trace new_id request_id pool_new net [] (packet_processor_new request_id pool_new net) []"
| ut_reserve: "userplane_trace new_id request_id pool_new net es pp h \<Longrightarrow>
    reserve_userplane_session new_id rnd pp = Some (Inr u, pp') \<Longrightarrow>
    userplane_trace new_id request_id pool_new net (es @ [Reserved u]) pp' (u # h)"
| ut_full: "userplane_trace new_id request_id pool_new net es pp h \<Longrightarrow>
    reserve_userplane_session new_id rnd pp = Some (Inl e, pp') \<Longrightarrow>
    userplane_trace new_id request_id pool_new net (es @ [Refused]) pp' h"
| ut_commit: "userplane_trace new_id request_id pool_new net es pp h \<Longrightarrow> u \<in> set h \<Longrightarrow>
    commit_userplane_session u tun pp = Some (Inr (), pp') \<Longrightarrow>
    userplane_trace new_id request_id pool_new net (es @ [Committed u tun]) pp' h"
| ut_delete: "userplane_trace new_id request_id pool_new net es pp h \<Longrightarrow> u \<in> set h \<Longrightarrow>
    delete_userplane_session u pp = Some pp' \<Longrightarrow>
    userplane_trace new_id request_id pool_new net (es @ [Deleted u]) pp' h"
| ut_forwarded: "userplane_trace new_id request_id pool_new net es pp h \<Longrightarrow> n \<le> length buf \<Longrightarrow>
    uplink_verdict (uplink_forwarding_table pp) buf n = Some (UlForward inner) \<Longrightarrow>
    userplane_trace new_id request_id pool_new net (es @ [UplinkForwarded (frame_teid buf)]) pp h"
| ut_dropped: "userplane_trace new_id request_id pool_new net es pp h \<Longrightarrow> session_gpdu teid ip dgram \<Longrightarrow>
    uplink_verdict (uplink_forwarding_table pp) (dgram @ junk) (length dgram) = Some (UlDrop counter) \<Longrightarrow>
    userplane_trace new_id request_id pool_new net (es @ [UplinkDropped teid]) pp h"
| ut_sent: "userplane_trace new_id request_id pool_new net es pp h \<Longrightarrow> dl_addressed p pkt \<Longrightarrow>
    handle_next_downlink_packet oc (Inr pkt) f1u_send (downlink_forwarding_table pp) p = (r, table', p', Some (frame, du_ip, port)) \<Longrightarrow>
    userplane_trace new_id request_id pool_new net (es @ [DownlinkSent (ipv4_dst pkt) (frame_teid frame) du_ip])
      (pp\<lparr>downlink_forwarding_table := table'\<rparr>) h"
| ut_dl_dropped: "userplane_trace new_id request_id pool_new net es pp h \<Longrightarrow> dl_addressed p pkt \<Longrightarrow>
    handle_next_downlink_packet oc (Inr pkt) f1u_send (downlink_forwarding_table pp) p = (DlOk, table', p', None) \<Longrightarrow>
    userplane_trace new_id request_id pool_new net (es @ [DownlinkDropped (ipv4_dst pkt)]) (pp\<lparr>downlink_forwarding_table := table'\<rparr>) h"
| ut_dl_failed: "userplane_trace new_id request_id pool_new net es pp h \<Longrightarrow> dl_addressed p pkt \<Longrightarrow>
    handle_next_downlink_packet oc (Inr pkt) f1u_send (downlink_forwarding_table pp) p = (DlErr err, table', p', None) \<Longrightarrow>
    userplane_trace new_id request_id pool_new net (es @ [DownlinkFailed (ipv4_dst pkt)]) (pp\<lparr>downlink_forwarding_table := table'\<rparr>) h"

lemma trace_reach:
  "userplane_trace new_id request_id pool_new net es pp h \<Longrightarrow> userplane_reach new_id request_id pool_new net pp h"
  by (induction rule: userplane_trace.induct) (blast intro: userplane_reach.intros)+

text \<open>The state of the specification that the tables stand for.\<close>

definition forwarding_abs :: "userplane_session list \<Rightarrow> 'p packet_processor \<Rightarrow> forwarding_spec" where
  "forwarding_abs h pp = \<lparr>fs_sessions = h, fs_teids = {teid. ul_active pp teid}, fs_routes = dl_route pp\<rparr>"

lemma forwarding_abs_cong:
  "ul_active pp' = ul_active pp \<Longrightarrow> dl_route pp' = dl_route pp \<Longrightarrow> forwarding_abs h pp' = forwarding_abs h pp"
  by (simp add: forwarding_abs_def)

section \<open>The rules of the uplink table belong to sessions that were handed out\<close>

definition own_rules :: "uplink_table \<Rightarrow> userplane_session list \<Rightarrow> bool" where
  "own_rules t h \<longleftrightarrow> (\<forall>x \<in> set t. \<forall>r. x = Some r \<longrightarrow> local_teid r \<in> session_teid ` set h)"

lemma own_rules_update: "own_rules t h \<Longrightarrow> own_rules (t[i := None]) h"
  unfolding own_rules_def using set_update_subset_insert [of t i None] by blast

lemma own_rules_add:
  assumes "own_rules t h"
  shows "own_rules (t[i := Some \<lparr>local_teid = session_teid u\<rparr>]) (u # h)"
  unfolding own_rules_def
proof (intro ballI allI impI)
  fix x r assume "x \<in> set (t[i := Some \<lparr>local_teid = session_teid u\<rparr>])" and x: "x = Some r"
  then consider "r = \<lparr>local_teid = session_teid u\<rparr>" | "x \<in> set t"
    using set_update_subset_insert [of t i] by blast
  then show "local_teid r \<in> session_teid ` set (u # h)"
    using assms x by cases (auto simp: own_rules_def)
qed

lemma delete_ul_table:
  assumes "pp_inv in_use pp" "handed_out (in_use (index_pool pp)) (ue_subnet pp) u"
  shows "delete_userplane_session u pp =
    Some (pp\<lparr>downlink_forwarding_table := (downlink_forwarding_table pp)[session_slot u := None],
             uplink_forwarding_table := (uplink_forwarding_table pp)[session_slot u := None]\<rparr>)"
  using assms unat_slot [of "session_slot u"]
  by (simp add: delete_userplane_session_def handed_out_def downlink_remove_rule_def session_slot_def
      downlink_table_index_from_ip_def dl_table_ok_def ul_table_ok_def uplink_remove_rule_eq pp_inv_def)

lemma commit_dl_table:
  assumes "pp_inv in_use pp" "handed_out (in_use (index_pool pp)) (ue_subnet pp) u"
  shows "commit_userplane_session u tun pp =
    Some (Inr (), pp\<lparr>downlink_forwarding_table := (downlink_forwarding_table pp)
      [session_slot u := Some \<lparr>remote_tunnel_info = tun, rule_ue_ip = ue_ip_addr u,
         pdcp_seq_num = 0, nr_seq_num = 0\<rparr>]\<rparr>)"
  using assms unat_slot [of "session_slot u"]
  by (simp add: commit_userplane_session_def handed_out_def downlink_add_rule_def
      downlink_table_index_from_ip_def dl_table_ok_def pp_inv_def)

context index_pool_spec
begin

lemma reach_own_rules:
  assumes "userplane_reach new_id request_id pool_new net pp h"
  shows "own_rules (uplink_forwarding_table pp) h"
  using assms
proof (induction rule: userplane_reach.induct)
  case up_init
  show ?case by (simp add: packet_processor_new_def uplink_table_new_def own_rules_def)
next
  case (up_reserve pp h rnd u pp')
  then have "pp_inv in_use pp" using userplane_reach_inv by blast
  then obtain i where "uplink_forwarding_table pp' = (uplink_forwarding_table pp)[i := Some \<lparr>local_teid = session_teid u\<rparr>]"
    using up_reserve(2) by (rule reserve_slot)
  then show ?case using own_rules_add [OF up_reserve.IH] by simp
next
  case (up_full pp h rnd e pp')
  then have "uplink_forwarding_table pp' = uplink_forwarding_table pp"
    by (auto simp: reserve_userplane_session_def Let_def split: prod.splits if_splits option.splits)
  then show ?case using up_full.IH by simp
next
  case (up_commit pp h u tun r pp')
  then have "uplink_forwarding_table pp' = uplink_forwarding_table pp"
    by (auto simp: commit_userplane_session_def split: ip_addr.splits option.splits)
  then show ?case using up_commit.IH by simp
next
  case (up_delete pp h u pp')
  note inv = userplane_reach_inv [OF up_delete(1)]
  then have "handed_out (in_use (index_pool pp)) (ue_subnet pp) u" using up_delete(2) by (simp add: list_all_iff)
  from delete_ul_table [where in_use = in_use, OF _ this] inv up_delete(3)
  have "uplink_forwarding_table pp' = (uplink_forwarding_table pp)[session_slot u := None]" by auto
  then show ?case using own_rules_update [OF up_delete.IH] by simp
qed simp

text \<open>So the slot of a session holds its own rule or none.\<close>

lemma slot_rule:
  assumes "userplane_reach new_id request_id pool_new net pp h" "u \<in> set h"
  shows "uplink_forwarding_table pp ! session_slot u \<in> {None, Some \<lparr>local_teid = session_teid u\<rparr>}"
proof (cases "uplink_forwarding_table pp ! session_slot u")
  case (Some r)
  note inv = userplane_reach_inv [OF assms(1)]
  have len: "session_slot u < MAX_UES" "length (uplink_forwarding_table pp) = MAX_UES"
    using inv assms(2) by (auto simp: list_all_iff handed_out_def pp_inv_def ul_table_ok_def)
  then have "Some r \<in> set (uplink_forwarding_table pp)" using Some by (metis nth_mem)
  then obtain v where v: "v \<in> set h" "local_teid r = session_teid v"
    using reach_own_rules [OF assms(1)] by (auto simp: own_rules_def)
  have "unat (arr4_3 (local_teid r)) = session_slot u"
    using inv len Some by (auto simp: pp_inv_def ul_table_ok_def)
  then have "session_slot v = session_slot u" using v(2) by (simp add: session_slot_def)
  then have "v = u" using inv v(1) assms(2) by (metis distinct_map inj_onD)
  then show ?thesis using Some v(2) by (cases r) simp
qed simp

lemma delete_refines:
  assumes "userplane_reach new_id request_id pool_new net pp h" "u \<in> set h"
    and "delete_userplane_session u pp = Some pp'"
  shows "forwarding_abs h pp' = spec_delete u (forwarding_abs h pp)"
proof -
  note inv = userplane_reach_inv [OF assms(1)]
  have h: "handed_out (in_use (index_pool pp)) (ue_subnet pp) u" using inv assms(2) by (simp add: list_all_iff)
  let ?i = "session_slot u"
  let ?p1 = "pp\<lparr>downlink_forwarding_table := (downlink_forwarding_table pp)[?i := None]\<rparr>"
  let ?pp = "?p1\<lparr>uplink_forwarding_table := (uplink_forwarding_table ?p1)[?i := None]\<rparr>"
  have i: "?i < MAX_UES" "unat (arr4_3 (session_teid u)) = ?i" "session_ip u = subnet_ip (ue_subnet pp) ?i"
    using h by (auto simp: handed_out_def session_slot_def)
  from inv have dl: "dl_table_ok (in_use (index_pool pp)) (ue_subnet pp) (downlink_forwarding_table pp)"
    and len: "length (uplink_forwarding_table pp) = MAX_UES"
    by (auto simp: pp_inv_def ul_table_ok_def)
  have "dl_route ?pp = dl_route ?p1" by (rule dl_route_cong) simp
  also have "\<dots> = (dl_route pp)(session_ip u := None)"
    using dl_route_update [OF dl i(1), of None] i(3) by simp
  finally have route: "dl_route ?pp = (dl_route pp)(session_ip u := None)" .
  have "ul_active ?pp = (ul_active ?p1)(session_teid u := False)"
    using ul_active_update [of ?p1 "session_teid u" None] i len slot_rule [OF assms(1,2)] by simp
  moreover have "ul_active ?p1 = ul_active pp" by (rule ul_active_cong) simp
  ultimately have "ul_active ?pp = (ul_active pp)(session_teid u := False)" by simp
  moreover have "pp' = ?pp" using delete_ul_table [where in_use = in_use, OF _ h] inv assms(3) by simp
  ultimately show ?thesis using route by (auto simp: forwarding_abs_def spec_delete_def)
qed

lemma commit_refines:
  assumes "userplane_reach new_id request_id pool_new net pp h" "u \<in> set h"
    and "commit_userplane_session u tun pp = Some (r, pp')"
  shows "forwarding_abs h pp' = spec_commit u tun (forwarding_abs h pp)"
proof -
  note inv = userplane_reach_inv [OF assms(1)]
  have h: "handed_out (in_use (index_pool pp)) (ue_subnet pp) u" using inv assms(2) by (simp add: list_all_iff)
  let ?i = "session_slot u"
  let ?x = "Some \<lparr>remote_tunnel_info = tun, rule_ue_ip = ue_ip_addr u, pdcp_seq_num = 0, nr_seq_num = 0\<rparr>"
  have i: "?i < MAX_UES" "ue_ip_addr u = V4 (subnet_ip (ue_subnet pp) ?i)" "session_ip u = subnet_ip (ue_subnet pp) ?i"
    using h by (auto simp: handed_out_def)
  from inv have dl: "dl_table_ok (in_use (index_pool pp)) (ue_subnet pp) (downlink_forwarding_table pp)"
    by (auto simp: pp_inv_def)
  have pp': "pp' = pp\<lparr>downlink_forwarding_table := (downlink_forwarding_table pp)[?i := ?x]\<rparr>"
    using commit_dl_table [where in_use = in_use, OF _ h] inv assms(3) by simp
  have "dl_route pp' = (dl_route pp)(session_ip u \<mapsto> tun)"
    unfolding pp' using dl_route_update [OF dl i(1), of ?x] i by simp
  moreover have "ul_active pp' = ul_active pp" unfolding pp' by (rule ul_active_cong) simp
  ultimately show ?thesis by (simp add: forwarding_abs_def spec_commit_def)
qed

text \<open>A downlink packet moves sequence numbers, which the specification does not see.\<close>

lemma downlink_refines:
  assumes "handle_next_downlink_packet oc rx f1u_send (downlink_forwarding_table pp) p = (r, table', p', out)"
  shows "forwarding_abs h (pp\<lparr>downlink_forwarding_table := table'\<rparr>) = forwarding_abs h pp"
proof (rule forwarding_abs_cong)
  show "ul_active (pp\<lparr>downlink_forwarding_table := table'\<rparr>) = ul_active pp" by (rule ul_active_cong) simp
  show "dl_route (pp\<lparr>downlink_forwarding_table := table'\<rparr>) = dl_route pp"
    using downlink_step_table [OF assms]
    by (auto simp: dl_route_def same_rule_def fun_eq_iff rs_get_def nth_list_update split: option.splits if_splits)
qed

end

text \<open>What a packet shows of the tables.\<close>

lemma forwarded_active:
  assumes "uplink_verdict (uplink_forwarding_table pp) buf n = Some (UlForward inner)" "n \<le> length buf"
  shows "ul_active pp (frame_teid buf)"
proof -
  from forwarded_datagram [OF assms] obtain entry where e: "rs_get (uplink_forwarding_table pp) (unat (buf ! 7)) = Some (Some entry)"
    "take 4 (drop 4 buf) = arr4_list (local_teid entry)" by blast
  have eq: "take 4 (drop 4 buf) ! i = arr4_list (local_teid entry) ! i" for i using e(2) by simp
  have len: "length (take 4 (drop 4 buf)) = 4" unfolding e(2) by simp
  have "buf ! 4 = arr4_0 (local_teid entry)" "buf ! 5 = arr4_1 (local_teid entry)" "buf ! 6 = arr4_2 (local_teid entry)"
    "buf ! 7 = arr4_3 (local_teid entry)"
    using eq [of 0] eq [of 1] eq [of 2] eq [of 3] len by (simp_all add: arr4_list_nth)
  then have "frame_teid buf = local_teid entry" "unat (arr4_3 (frame_teid buf)) = unat (buf ! 7)"
    by (simp_all add: frame_teid_def)
  moreover have "entry = \<lparr>local_teid = local_teid entry\<rparr>" by simp
  ultimately show ?thesis using e(1) by (simp add: ul_active_def)
qed

lemma dropped_inactive:
  assumes "session_gpdu teid ip dgram"
    and "uplink_verdict (uplink_forwarding_table pp) (dgram @ junk) (length dgram) = Some (UlDrop counter)"
  shows "\<not> ul_active pp teid"
proof
  assume "ul_active pp teid"
  then have "rs_get (uplink_forwarding_table pp) (unat (arr4_3 teid)) = Some (Some \<lparr>local_teid = teid\<rparr>)" by (simp add: ul_active_def)
  with assms(1) have "uplink_verdict (uplink_forwarding_table pp) (dgram @ junk) (length dgram) = Some (UlForward ip)"
    unfolding session_gpdu_def by (metis gpdu_delivered)
  then show False using assms(2) by simp
qed

lemma dl_view_of:
  assumes "dl_addressed p pkt"
  shows "\<exists>q. ipv4_dst q = ipv4_dst pkt \<and> dl_view (handle_next_downlink_packet oc (Inr pkt) f1u_send table p) =
      (case rs_get table (unat (arr4_3 (ipv4_dst pkt))) of
         None \<Rightarrow> (DlPanic, table, None)
       | Some None \<Rightarrow> (DlOk, table, None)
       | Some (Some entry) \<Rightarrow>
           if V4 (ipv4_dst pkt) \<noteq> rule_ue_ip entry then (DlOk, table, None)
           else dl_forward_view oc f1u_send table (unat (arr4_3 (ipv4_dst pkt))) entry q)"
proof -
  have "ipv4_dst (dl_fits p pkt) = ipv4_dst pkt" "20 \<le> length (dl_fits p pkt)"
    using assms by (auto simp: dl_addressed_def dl_fits_def ipv4_dst_def)
  moreover have "22 \<le> length (dl_buf p)" using assms by (simp add: dl_addressed_def)
  ultimately show ?thesis
    by (intro exI [of _ "dl_fits p pkt"]) (simp add: dl_step cong: option.case_cong if_cong)
qed

lemma frame_teid_dl_frame: "frame_teid (dl_frame entry q) = teid_bytes (gtp_teid (remote_tunnel_info entry))"
  by (cases "teid_bytes (gtp_teid (remote_tunnel_info entry))")
    (simp add: frame_teid_def dl_frame_def downlink_header_def Let_def)

text \<open>The result of the handler for an addressed packet, by the route of its destination.\<close>

lemma dl_result_route:
  assumes "dl_addressed p pkt"
    and "handle_next_downlink_packet oc (Inr pkt) f1u_send (downlink_forwarding_table pp) p = (r, table', p', out)"
  shows "out = Some (frame, du_ip, port) \<Longrightarrow> \<exists>tun. dl_route pp (ipv4_dst pkt) = Some tun
      \<and> teid_bytes (gtp_teid tun) = frame_teid frame \<and> ip_try_from_tla (transport_layer_address tun) = Inr du_ip"
    and "r = DlOk \<Longrightarrow> out = None \<Longrightarrow> dl_route pp (ipv4_dst pkt) = None"
    and "r = DlErr err \<Longrightarrow> dl_route pp (ipv4_dst pkt) \<noteq> None"
proof -
  from dl_view_of [OF assms(1), of oc f1u_send "downlink_forwarding_table pp"] assms(2) obtain q where
    v: "(r, table', out) =
      (case rs_get (downlink_forwarding_table pp) (unat (arr4_3 (ipv4_dst pkt))) of
         None \<Rightarrow> (DlPanic, downlink_forwarding_table pp, None)
       | Some None \<Rightarrow> (DlOk, downlink_forwarding_table pp, None)
       | Some (Some entry) \<Rightarrow>
           if V4 (ipv4_dst pkt) \<noteq> rule_ue_ip entry then (DlOk, downlink_forwarding_table pp, None)
           else dl_forward_view oc f1u_send (downlink_forwarding_table pp) (unat (arr4_3 (ipv4_dst pkt))) entry q)"
    by auto
  show "\<exists>tun. dl_route pp (ipv4_dst pkt) = Some tun
      \<and> teid_bytes (gtp_teid tun) = frame_teid frame \<and> ip_try_from_tla (transport_layer_address tun) = Inr du_ip"
    if "out = Some (frame, du_ip, port)"
    using v that by (auto simp: dl_route_def dl_forward_view_def frame_teid_dl_frame split: option.splits if_splits sum.splits)
  show "dl_route pp (ipv4_dst pkt) = None" if "r = DlOk" "out = None"
    using v that by (auto simp: dl_route_def dl_forward_view_def split: option.splits if_splits sum.splits)
  show "dl_route pp (ipv4_dst pkt) \<noteq> None" if "r = DlErr err"
    using v that by (auto simp: dl_route_def dl_forward_view_def split: option.splits if_splits sum.splits)
qed

context index_pool_spec
begin

lemma trace_refines:
  assumes "userplane_trace new_id request_id pool_new net es pp h"
  shows "spec_run es = Some (forwarding_abs h pp)"
  using assms
proof (induction rule: userplane_trace.induct)
  case ut_init
  show ?case
    by (auto simp: spec_run_simps spec_init_def forwarding_abs_def packet_processor_new_def ul_active_def dl_route_def rs_get_def
        uplink_table_new_def downlink_table_new_def fun_eq_iff split: option.splits)
next
  case (ut_reserve es pp h rnd u pp')
  note reach = trace_reach [OF ut_reserve(1)]
  then have inv: "pp_inv in_use pp" using userplane_reach_inv by blast
  note c = reserve_contract [OF inv ut_reserve(2)]
  have "forwarding_abs (u # h) pp' = spec_reserve u (forwarding_abs h pp)"
    using c by (auto simp: forwarding_abs_def spec_reserve_def)
  moreover have d: "distinct (map session_teid (u # h)) \<and> distinct (map ue_ip_addr (u # h)) \<and>
      (\<forall>v \<in> set (u # h). \<exists>host. ue_ip_addr v = V4 (subnet_ip net host))"
    using sessions_exclusive [OF index_pool_spec_axioms up_reserve [OF reach ut_reserve(2)]] by blast
  moreover from d have "session_ip u \<notin> session_ip ` set h" by force
  ultimately show ?case using ut_reserve.IH by (simp add: spec_run_simps guard_def) (simp add: forwarding_abs_def)
next
  case (ut_full es pp h rnd e pp')
  from trace_reach [OF ut_full(1)] have "pp_inv in_use pp" using userplane_reach_inv by blast
  from reserve_no_slot [OF this ut_full(2)] have "forwarding_abs h pp' = forwarding_abs h pp"
    by (intro forwarding_abs_cong) auto
  then show ?case using ut_full.IH by (simp add: spec_run_simps)
next
  case (ut_commit es pp h u tun pp')
  then show ?case
    using commit_refines [OF trace_reach [OF ut_commit(1)] ut_commit(2,3)]
    by (simp add: spec_run_simps guard_def) (simp add: forwarding_abs_def)
next
  case (ut_delete es pp h u pp')
  then show ?case
    using delete_refines [OF trace_reach [OF ut_delete(1)] ut_delete(2,3)]
    by (simp add: spec_run_simps guard_def) (simp add: forwarding_abs_def)
next
  case (ut_forwarded es pp h n buf inner)
  then show ?case using forwarded_active by (simp add: spec_run_simps guard_def forwarding_abs_def)
next
  case (ut_dropped es pp h teid ip dgram junk counter)
  then show ?case using dropped_inactive by (simp add: spec_run_simps guard_def forwarding_abs_def)
next
  case (ut_sent es pp h p pkt oc f1u_send r table' p' frame du_ip port)
  from dl_result_route(1) [OF ut_sent(2,3) refl] obtain tun where "dl_route pp (ipv4_dst pkt) = Some tun"
    "teid_bytes (gtp_teid tun) = frame_teid frame" "ip_try_from_tla (transport_layer_address tun) = Inr du_ip" by blast
  then show ?case
    using ut_sent.IH downlink_refines [OF ut_sent(3), of h] by (simp add: spec_run_simps) (simp add: forwarding_abs_def guard_def)
next
  case (ut_dl_dropped es pp h p pkt oc f1u_send table' p')
  then show ?case
    using dl_result_route(2) [OF ut_dl_dropped(2,3) refl refl] downlink_refines [OF ut_dl_dropped(3), of h]
    by (simp add: spec_run_simps guard_def) (simp add: forwarding_abs_def)
next
  case (ut_dl_failed es pp h p pkt oc f1u_send err table' p')
  then show ?case
    using dl_result_route(3) [OF ut_dl_failed(2,3) refl] downlink_refines [OF ut_dl_failed(3), of h]
    by (simp add: spec_run_simps guard_def) (simp add: forwarding_abs_def)
qed

end

section \<open>Refinement\<close>

text \<open>
  C5. The packet processor refines the specification.  Whatever sequence of session operations and packets a core goes
  through, with its arrays, its index pool and its sequence numbers, the events that can be seen are allowed one by one
  by the specification, which keeps a set of TEIDs and a map of routes and knows nothing but these events; and the
  tables stand for the state that the specification has then reached.  So after a delete no packet of the session is
  forwarded in either direction, and a downlink packet leaves only in the tunnel of the last commit for its
  destination.
\<close>

theorem userplane_refines_spec:
  assumes "index_pool_spec new_id request_id in_use pool_new"
    and "userplane_trace new_id request_id pool_new net es pp h"
  shows "spec_run es = Some (forwarding_abs h pp)"
  using index_pool_spec.trace_refines [OF assms] .

theorem userplane_refines_spec_witness:
  "\<exists>pp. userplane_trace list_pool_new_id list_pool_request_id [] (Arr4 10 255 0 0)
      [Reserved example_session, UplinkForwarded (Arr4 7 8 9 1), Deleted example_session] pp [example_session]
    \<and> spec_run [Reserved example_session, UplinkForwarded (Arr4 7 8 9 1), Deleted example_session] = Some (forwarding_abs [example_session] pp)"
proof -
  let ?d = "plain_gpdu 0 23 (Arr4 7 8 9 1) 0x80 0 0x80 (0x45 # replicate 19 0)"
  have 1: "userplane_trace list_pool_new_id list_pool_request_id [] (Arr4 10 255 0 0) [Reserved example_session] example_pp1 [example_session]"
    using ut_reserve [OF ut_init example_reserve [unfolded example_pp_def]] by simp
  have "uplink_verdict (uplink_forwarding_table example_pp1) (?d @ []) (length ?d) = Some (UlForward (0x45 # replicate 19 0))"
    by (subst plain_gpdu_verdict [where ip = "0x45 # replicate 19 0" and teid = "Arr4 7 8 9 1" and ?pdcp1.0 = "0x80" and sdap = "0x80"])
      (simp_all add: example_defs userplane_consts uplink_table_new_def)
  from ut_forwarded [OF 1 _ this] have 2: "userplane_trace list_pool_new_id list_pool_request_id [] (Arr4 10 255 0 0)
      [Reserved example_session, UplinkForwarded (Arr4 7 8 9 1)] example_pp1 [example_session]"
    by (simp add: frame_teid_def plain_gpdu_def)
  obtain pp where "delete_userplane_session example_session example_pp1 = Some pp"
    using sessions_exclusive [OF list_pool.index_pool_spec_axioms trace_reach [OF 1]]
    by (metis list.set_intros(1) option.exhaust)
  from ut_delete [OF 2 _ this] have 3: "userplane_trace list_pool_new_id list_pool_request_id [] (Arr4 10 255 0 0)
      [Reserved example_session, UplinkForwarded (Arr4 7 8 9 1), Deleted example_session] pp [example_session]"
    by simp
  with userplane_refines_spec [OF list_pool.index_pool_spec_axioms 3] show ?thesis by blast
qed

end
