(* ===== verification/Spec2Isabelle.thy ===== *)
theory Spec2Isabelle
  imports Ue_Scenarios F1ap_Pdu Userplane_Spec
begin

text \<open>
  A verification library for QCore, a small 5G core in Rust.  A distributed unit (DU) of the radio network connects to
  it with F1: signalling is F1AP over SCTP, user traffic GTP-U over UDP.  QCore authenticates and registers the UEs
  behind the DU, gives them sessions, and forwards their IP packets to a TUN device and back.

  \<^bold>\<open>The program.\<close>  The transaction layer (\<open>5g-libs/xxap\<close>) keeps the SCTP associations and the requests that wait for a
  response; other messages go through the F1AP application (\<open>5g-libs/f1ap/src/f1ap_cu.rs\<close>,
  \<open>qcore/src/procedures\<close>) to the core (\<open>qcore/src/qcore.rs\<close>), which answers the interface procedures and has one task
  per UE, with a channel for the messages of this UE.  A task runs the UE procedures, which exchange RRC and NAS
  messages with the UE inside F1AP messages, and asks the packet processor (\<open>qcore/src/userplane\<close>) for sessions.
  The packet processor owns two tables of 254 slots that the uplink and the downlink pipeline read for each packet.

  \<^bold>\<open>Theories, in the order in which they build on each other.\<close>

  \<^item> \<open>Qcore_Prelude\<close>: integers, byte vectors, indexing, slicing, \<open>Result\<close> and big-endian conversions of Rust.
  \<^item> \<open>Addresses\<close>: addresses and tunnel endpoints (\<open>xxap/src/{ies,conversion}.rs\<close>), the constants of the user plane.
  \<^item> \<open>Uplink_Pipeline\<close>, \<open>Downlink_Pipeline\<close>, \<open>Packet_Processor\<close> (\<open>qcore/src/userplane/*.rs\<close>): tables, the two packet
    handlers with every drop, error and panic, and the three session operations.  Shown: what is forwarded is sound
    and complete, the frames are well formed and in sequence, a datagram's fate does not depend on stale bytes; exactly
    which datagrams panic a pipeline or keep it in a loop; sessions never share a TEID or an address, under any
    interleaving; and the life of a session from end to end.
  \<^item> \<open>Userplane_Spec\<close>: a specification with a set of TEIDs and a map of routes only, whose steps are labelled with the
    operations and the fate of packets; every trace of the tables is one of the specification.
  \<^item> \<open>Security\<close> (\<open>5g-libs/security\<close>), \<open>Pdcp\<close> (\<open>5g-libs/pdcp\<close>), \<open>Control_Types\<close> (\<open>main.rs\<close>, \<open>data/{config,sims}.rs\<close>),
    \<open>Nas_Messages\<close>, \<open>Nas_Context\<close> (\<open>protocols/nas\<close>, \<open>data/{nas_context,security_context}.rs\<close>): derivations
    against TS 33.501, integrity protection of streams of messages, identities against TS 24.501, and what a NAS
    library promises.
  \<^item> \<open>Rrc_Codec\<close>, \<open>Rrc_Messages\<close> (\<open>5g-libs/rrc/src/rrc.rs\<close>, \<open>protocols/rrc\<close>): the downlink messages with their
    unaligned PER encoders, and that every message QCore builds is within the bounds of its encoder.
  \<^item> \<open>Aper\<close>, \<open>Aper_Reference\<close>, \<open>F1ap_Ies\<close>, \<open>F1ap_Container\<close>, \<open>F1ap_Shapes\<close>, \<open>Xxap_Ies\<close>, \<open>F1ap_Common_Types\<close>,
    \<open>F1ap_Common_Ies\<close>, \<open>F1ap_Setup_Types\<close>, \<open>F1ap_Setup_Ies\<close>, \<open>F1ap_Setup_Codec\<close>, \<open>F1ap_Context_Types\<close>,
    \<open>F1ap_Context_Ies\<close>, \<open>F1ap_Context_Codec\<close>, \<open>F1ap_Codec\<close> (\<open>5g-libs/asn1-per\<close>,
    \<open>5g-libs/f1ap/src/{common,ies,pdu}.rs\<close>): the aligned PER codecs of the seventeen messages of the procedures that
    QCore takes part in, with all their information elements; the generic text of the generator is a combinator, a
    type is one definition.  Shown: well-formed messages are encoded and read back, unknown elements are refused.
  \<^item> \<open>F1ap_Messages\<close> (\<open>protocols/f1ap\<close>): the messages that QCore builds, over the same records that the codecs write;
    what DU and UE are told of a bearer, where it agrees and where it does not.
  \<^item> \<open>F1ap_Stack\<close> (\<open>xxap/src/net/*.rs\<close>): the pool of associations and the pending requests.  A request is two steps and
    the handling of a message three, as the code has an \<open>await\<close> between them; with one association responses are
    routed by procedure under any interleaving, with two they are not.
  \<^item> \<open>Ue_Procedures\<close> (\<open>procedures/ue_procedures/*.rs\<close>), \<open>Ue_Properties\<close>, \<open>Ue_Discipline\<close>, \<open>Ue_Scenarios\<close>: a procedure is
    a tree of the calls it makes, executed against any list of answers.  Shown for all executions: authentication
    before anything else, clean-up at the end, totality; and for peers that behave: registration and session
    establishment succeed.  \<open>Ue_Discipline\<close> is a program logic for the sessions that a task holds.
  \<^item> \<open>Qcore_System\<close> (\<open>qcore.rs\<close>, \<open>f1ap_cu.rs\<close>, \<open>procedures/*.rs\<close>): all tasks interleaved over the shared packet
    processor, with messages and packets from outside that may be anything.  Shown: users are isolated, messages reach
    their task, and F1 removal leaves no task blocked.
  \<^item> \<open>F1ap_Pdu\<close> (\<open>f1ap/src/top_pdu.rs\<close>): the PDU around the messages, and exchanges from octets to octets through
    codec, stack and core.

  \<^bold>\<open>Errors, panics and loops.\<close>  An \<open>Err\<close> is the left side of a sum.  A panic is \<open>None\<close> or a constructor of its own
  (\<open>UlPanic\<close>, \<open>DlPanic\<close>, \<open>Panic\<close>, \<open>PerPanic\<close>).  The loop over extension headers is a \<open>partial_function\<close>, \<open>None\<close> when it never
  returns.  The message loop of a UE has fuel, one unit per message; more fuel than there are answers is enough and
  makes no difference.  The retry for a fresh UE identity consumes a list of draws.  Builds with and without overflow
  checks are told apart by a flag.

  \<^bold>\<open>Parameters and what is assumed of them.\<close>  Third-party code is an argument.  The index pool: locale
  \<open>index_pool_spec\<close>, met by a list.  HMAC, CMAC and Milenage: the sizes of their results, \<open>crypto_lengths\<close>.  The aligned PER
  primitives: locales \<open>aper_lib\<close>, \<open>aper_setup\<close>, \<open>aper_wire\<close>, each extending the one before, met by the executable
  \<open>aper_ref\<close>.  The unaligned ones: locale \<open>uper_writes\<close>, met by \<open>uper_ref\<close>.  The NAS library: \<open>nas_layout\<close> and
  \<open>nas_encodes\<close>, met by \<open>nas_ref_encode\<close>.  The codecs of F1AP messages that QCore neither sends nor handles are fields of
  \<open>f1ap_message_codecs\<close>, and the RRC decoders of the uplink fields of \<open>rrc_lib\<close>: nothing is claimed of their contents.

  \<^bold>\<open>Bounds.\<close>  PER splits octet strings and open types from 16384 octets on; the round trips are for what is written in one
  piece (\<open>fits\<close>: 131064 bits), and lists whose bound is past 65535 have at most 16383 elements.  The pool hands out
  at most 253 sessions.  COUNT and sequence numbers have the widths of their fields, with the wrap-around shown.

  \<^bold>\<open>Granularity.\<close>  A UE task yields at each call of its environment, the transaction layer at each \<open>await\<close>; the
  routing of one request of the DU and the start of a task are one step each.

  \<^bold>\<open>Not modelled.\<close>  Codecs of F1AP and RRC messages that QCore does not use and the decoding of uplink RRC; the SCTP
  bindings, sockets, the TUN device and the start of tasks; logging and the parsing of arguments; the generator of the
  codecs; the integration tests.
\<close>

end
